(* ===== verification/Prelude.thy ===== *)
theory Prelude
  imports Complex_Main "HOL-Library.Sublist"
begin

text \<open>
  What every component of the development shares: the errors a request handler can raise, the
  session-passing handlers themselves, the meaning of the SQLAlchemy queries the source writes
  (filter, update, delete, \<open>scalar_one_or_none\<close>), JSON values, and the string functions of Python's
  standard library that the source uses on ASCII text.

  Conventions: a point in time is an \<open>int\<close> number of microseconds since the epoch (all the
  source's datetimes are timezone-aware UTC); a UUID is a \<open>nat\<close>; a string is a list of
  ASCII characters; a float that is only added, multiplied or compared is a \<open>rat\<close>.
\<close>

type_synonym uuid = nat
type_synonym time = int

abbreviation seconds :: "int \<Rightarrow> time" where
  "seconds n \<equiv> n * 1000000"

abbreviation minutes :: "int \<Rightarrow> time" where
  "minutes n \<equiv> seconds (60 * n)"

abbreviation hours :: "int \<Rightarrow> time" where
  "hours n \<equiv> minutes (60 * n)"

abbreviation days :: "int \<Rightarrow> time" where
  "days n \<equiv> hours (24 * n)"

section \<open>Errors and handlers\<close>

datatype py_error =
    HTTPException nat string
  | ValueError string
  | TypeError
  | KeyError string
  | AttributeError
  | IndexError
  | RecursionError
  | MultipleResultsFound
  | NoResultFound
  | IntegrityError
  | ImportError string
  | OtherError string

text \<open>
  A handler runs against a session: it returns an error or a value, and the session state it
  leaves behind, also when it raises (what \<open>get_db\<close> then does with that state is its own
  definition, in the theory of the database).
\<close>

type_synonym ('s, 'a) handler = "'s \<Rightarrow> (py_error + 'a) \<times> 's"

definition ret :: "'a \<Rightarrow> ('s, 'a) handler" where
  "ret x = (\<lambda>s. (Inr x, s))"

definition raise :: "py_error \<Rightarrow> ('s, 'a) handler" where
  "raise e = (\<lambda>s. (Inl e, s))"

definition bnd :: "('s, 'a) handler \<Rightarrow> ('a \<Rightarrow> ('s, 'b) handler) \<Rightarrow> ('s, 'b) handler" where
  "bnd m f = (\<lambda>s. case m s of (Inl e, s') \<Rightarrow> (Inl e, s') | (Inr x, s') \<Rightarrow> f x s')"

definition thn :: "('s, 'a) handler \<Rightarrow> ('s, 'b) handler \<Rightarrow> ('s, 'b) handler" where
  "thn m k = bnd m (\<lambda>_. k)"

definition gets :: "('s \<Rightarrow> 'a) \<Rightarrow> ('s, 'a) handler" where
  "gets f = (\<lambda>s. (Inr (f s), s))"

definition modify :: "('s \<Rightarrow> 's) \<Rightarrow> ('s, unit) handler" where
  "modify f = (\<lambda>s. (Inr (), f s))"

definition lift_err :: "py_error + 'a \<Rightarrow> ('s, 'a) handler" where
  "lift_err r = (\<lambda>s. (r, s))"

definition guard :: "bool \<Rightarrow> py_error \<Rightarrow> ('s, unit) handler" where
  "guard b e = (if b then ret () else raise e)"

definition py_when :: "bool \<Rightarrow> ('s, unit) handler \<Rightarrow> ('s, unit) handler" where
  "py_when b m = (if b then m else ret ())"

text \<open>\<open>from module import n\<close>, where \<open>names\<close> are the names the module defines.\<close>

definition import_from :: "string list \<Rightarrow> string \<Rightarrow> ('s, unit) handler" where
  "import_from names n = guard (n \<in> set names) (ImportError n)"

text \<open>\<open>for x in xs: body x\<close>, stopping at the first exception.\<close>

fun for_each :: "'x list \<Rightarrow> ('x \<Rightarrow> ('s, unit) handler) \<Rightarrow> ('s, unit) handler" where
  "for_each [] body = ret ()"
| "for_each (x # xs) body = thn (body x) (for_each xs body)"

text \<open>\<open>try: m except Exception: h\<close>, keeping what \<open>m\<close> did to the session.\<close>

definition py_try :: "('s, 'a) handler \<Rightarrow> (py_error \<Rightarrow> ('s, 'a) handler) \<Rightarrow> ('s, 'a) handler" where
  "py_try m h = (\<lambda>s. case m s of (Inl e, s') \<Rightarrow> h e s' | (Inr x, s') \<Rightarrow> (Inr x, s'))"

text \<open>Running a handler, unfolded one combinator at a time.\<close>

lemma run_ret [simp]: "ret x s = (Inr x, s)"
  by (simp add: ret_def)

lemma run_raise [simp]: "raise e s = (Inl e, s)"
  by (simp add: raise_def)

lemma run_bnd [simp]:
  "bnd m f s = (case m s of (Inl e, s') \<Rightarrow> (Inl e, s') | (Inr x, s') \<Rightarrow> f x s')"
  by (simp add: bnd_def)

lemma run_thn [simp]:
  "thn m k s = (case m s of (Inl e, s') \<Rightarrow> (Inl e, s') | (Inr x, s') \<Rightarrow> k s')"
  by (simp add: thn_def)

lemma run_gets [simp]: "gets f s = (Inr (f s), s)"
  by (simp add: gets_def)

lemma run_modify [simp]: "modify f s = (Inr (), f s)"
  by (simp add: modify_def)

lemma run_lift_err [simp]: "lift_err r s = (r, s)"
  by (simp add: lift_err_def)

lemma run_guard [simp]: "guard b e s = (if b then (Inr (), s) else (Inl e, s))"
  by (simp add: guard_def)

lemma run_py_when [simp]: "py_when b m s = (if b then m s else (Inr (), s))"
  by (simp add: py_when_def)

lemma run_py_try [simp]:
  "py_try m h s = (case m s of (Inl e, s') \<Rightarrow> h e s' | (Inr x, s') \<Rightarrow> (Inr x, s'))"
  by (simp add: py_try_def)

text \<open>A run that returned went through each of its steps.\<close>

lemma bnd_InrE:
  assumes "bnd m f s = (Inr x, s')"
  obtains y t where "m s = (Inr y, t)" and "f y t = (Inr x, s')"
  using assms by (auto split: prod.splits sum.splits)

lemma thn_InrE:
  assumes "thn m k s = (Inr x, s')"
  obtains y t where "m s = (Inr y, t)" and "k t = (Inr x, s')"
  using assms by (auto split: prod.splits sum.splits)

lemma guard_InrD: "guard b e s = (Inr x, s') \<Longrightarrow> b \<and> s' = s"
  by (auto split: if_splits)

lemmas handler_elims = bnd_InrE thn_InrE

lemmas handler_splits = prod.splits sum.splits option.splits if_splits

section \<open>Invariants of handlers\<close>

text \<open>
  \<open>preserves I m\<close>: from a session that satisfies \<open>I\<close>, the handler leaves one that does,
  whether it returns or raises.
\<close>

definition preserves :: "('s \<Rightarrow> bool) \<Rightarrow> ('s, 'a) handler \<Rightarrow> bool" where
  "preserves I m \<longleftrightarrow> (\<forall>s. I s \<longrightarrow> I (snd (m s)))"

named_theorems preserves_intros

lemma preservesI: "(\<And>s. I s \<Longrightarrow> I (snd (m s))) \<Longrightarrow> preserves I m"
  by (simp add: preserves_def)

lemma preservesD: "preserves I m \<Longrightarrow> I s \<Longrightarrow> I (snd (m s))"
  by (simp add: preserves_def)

lemma preserves_ret [preserves_intros]: "preserves I (ret x)"
  by (simp add: preserves_def)

lemma preserves_raise [preserves_intros]: "preserves I (raise e)"
  by (simp add: preserves_def)

lemma preserves_gets [preserves_intros]: "preserves I (gets f)"
  by (simp add: preserves_def)

lemma preserves_lift_err [preserves_intros]: "preserves I (lift_err r)"
  by (simp add: preserves_def)

lemma preserves_guard [preserves_intros]: "preserves I (guard b e)"
  by (simp add: preserves_def)

lemma preserves_bnd [preserves_intros]:
  "preserves I m \<Longrightarrow> (\<And>x. preserves I (f x)) \<Longrightarrow> preserves I (bnd m f)"
  by (auto simp: preserves_def split: prod.splits sum.splits)

lemma preserves_thn [preserves_intros]:
  "preserves I m \<Longrightarrow> preserves I k \<Longrightarrow> preserves I (thn m k)"
  by (simp add: thn_def preserves_bnd)

lemma preserves_py_when [preserves_intros]: "preserves I m \<Longrightarrow> preserves I (py_when b m)"
  by (simp add: preserves_def)

lemma preserves_py_try [preserves_intros]:
  "preserves I m \<Longrightarrow> (\<And>e. preserves I (h e)) \<Longrightarrow> preserves I (py_try m h)"
  by (auto simp: preserves_def split: prod.splits sum.splits)

lemma preserves_if [preserves_intros]:
  "(b \<Longrightarrow> preserves I m) \<Longrightarrow> (\<not> b \<Longrightarrow> preserves I k) \<Longrightarrow> preserves I (if b then m else k)"
  by simp

lemma preserves_option [preserves_intros]:
  "preserves I n \<Longrightarrow> (\<And>x. preserves I (f x)) \<Longrightarrow>
   preserves I (case v of None \<Rightarrow> n | Some x \<Rightarrow> f x)"
  by (simp split: option.splits)

lemma preserves_for_each [preserves_intros]:
  "(\<And>x. preserves I (body x)) \<Longrightarrow> preserves I (for_each xs body)"
  by (induction xs) (auto intro!: preserves_intros)

lemma preserves_modify: "(\<And>s. I s \<Longrightarrow> I (f s)) \<Longrightarrow> preserves I (modify f)"
  by (simp add: preserves_def)

lemma preserves_conj:
  "preserves I m \<Longrightarrow> preserves J m \<Longrightarrow> preserves (\<lambda>s. I s \<and> J s) m"
  by (simp add: preserves_def)

section \<open>Transactions\<close>

text \<open>
  A request's session: committed when the handler returns and the state satisfies the constraints
  \<open>ok\<close>, otherwise undone; \<open>undo s s'\<close> is what the world is left in when a session that began in \<open>s\<close>
  and had reached \<open>s'\<close> is rolled back.
\<close>

definition transaction ::
  "('s \<Rightarrow> bool) \<Rightarrow> ('s \<Rightarrow> 's \<Rightarrow> 's) \<Rightarrow> ('s, 'a) handler \<Rightarrow> ('s, 'a) handler" where
  "transaction ok undo h = (\<lambda>s.
     case h s of
       (Inl e, s') \<Rightarrow> (Inl e, undo s s')
     | (Inr x, s') \<Rightarrow> if ok s' then (Inr x, s') else (Inl IntegrityError, undo s s'))"

text \<open>An invariant that a rollback respects: what every request of a session keeps.\<close>

locale session_contract =
  fixes ok :: "'s \<Rightarrow> bool"
    and undo :: "'s \<Rightarrow> 's \<Rightarrow> 's"
    and inv :: "'s \<Rightarrow> bool"
  assumes undone: "inv s \<Longrightarrow> inv (undo s s')"
begin

lemma transaction_keeps:
  assumes "\<And>x s'. h s = (Inr x, s') \<Longrightarrow> ok s' \<Longrightarrow> inv s'" and "inv s"
  shows "inv (snd (transaction ok undo h s))"
  using assms undone by (auto simp: transaction_def split: prod.splits sum.splits)

lemma transactions_keep:
  assumes "\<And>h s x s'. h \<in> set hs \<Longrightarrow> inv s \<Longrightarrow> h s = (Inr x, s') \<Longrightarrow> ok s' \<Longrightarrow> inv s'"
    and "inv s"
  shows "inv (fold (\<lambda>h s. snd (transaction ok undo h s)) hs s)"
  using assms
proof (induction hs arbitrary: s)
  case (Cons h hs)
  have first: "inv (snd (transaction ok undo h s))"
    by (rule transaction_keeps) (use Cons.prems in auto)
  have "inv (fold (\<lambda>h s. snd (transaction ok undo h s)) hs (snd (transaction ok undo h s)))"
  proof (rule Cons.IH [OF _ first])
    fix g t x t' assume "g \<in> set hs" "inv t" "g t = (Inr x, t')" "ok t'"
    then show "inv t'" using Cons.prems(1) [of g t x t'] by simp
  qed
  then show ?case by simp
qed simp

end

section \<open>Queries over a table\<close>

text \<open>
  A table is the list of its rows in insertion order. \<open>select(T).where(p)\<close> is \<open>filter p\<close>;
  \<open>scalar_one_or_none\<close> raises when more than one row matches and \<open>scalar_one\<close> also when none
  does; \<open>update(T).where(p).values(...)\<close> and \<open>delete(T).where(p)\<close> act on every matching row.
\<close>

definition scalar_one_or_none :: "'r list \<Rightarrow> py_error + 'r option" where
  "scalar_one_or_none rows =
     (case rows of [] \<Rightarrow> Inr None | [r] \<Rightarrow> Inr (Some r) | _ \<Rightarrow> Inl MultipleResultsFound)"

definition scalar_one :: "'r list \<Rightarrow> py_error + 'r" where
  "scalar_one rows =
     (case rows of [] \<Rightarrow> Inl NoResultFound | [r] \<Rightarrow> Inr r | _ \<Rightarrow> Inl MultipleResultsFound)"

definition first_row :: "'r list \<Rightarrow> 'r option" where
  "first_row rows = (case rows of [] \<Rightarrow> None | r # _ \<Rightarrow> Some r)"

definition update_where :: "('r \<Rightarrow> bool) \<Rightarrow> ('r \<Rightarrow> 'r) \<Rightarrow> 'r list \<Rightarrow> 'r list" where
  "update_where p f rows = map (\<lambda>r. if p r then f r else r) rows"

definition delete_where :: "('r \<Rightarrow> bool) \<Rightarrow> 'r list \<Rightarrow> 'r list" where
  "delete_where p rows = filter (\<lambda>r. \<not> p r) rows"

lemma scalar_one_or_none_simps [simp]:
  "scalar_one_or_none [] = Inr None"
  "scalar_one_or_none [r] = Inr (Some r)"
  "scalar_one_or_none (r # r' # rs) = Inl MultipleResultsFound"
  by (simp_all add: scalar_one_or_none_def)

lemma scalar_one_simps [simp]:
  "scalar_one [] = Inl NoResultFound"
  "scalar_one [r] = Inr r"
  "scalar_one (r # r' # rs) = Inl MultipleResultsFound"
  by (simp_all add: scalar_one_def)

lemma scalar_one_or_none_SomeD:
  "scalar_one_or_none rows = Inr (Some r) \<Longrightarrow> rows = [r]"
  by (auto simp: scalar_one_or_none_def split: list.splits)

lemma scalar_one_or_none_NoneD:
  "scalar_one_or_none rows = Inr None \<Longrightarrow> rows = []"
  by (auto simp: scalar_one_or_none_def split: list.splits)

lemma scalar_one_or_none_filter_Some:
  assumes "scalar_one_or_none (filter p rows) = Inr (Some r)"
  shows "r \<in> set rows" and "p r"
proof -
  have "r \<in> set (filter p rows)"
    using scalar_one_or_none_SomeD [OF assms] by simp
  then show "r \<in> set rows" and "p r" by auto
qed

lemma scalar_one_or_none_filter_None:
  "scalar_one_or_none (filter p rows) = Inr None \<Longrightarrow> r \<in> set rows \<Longrightarrow> \<not> p r"
  by (auto dest!: scalar_one_or_none_NoneD simp: filter_empty_conv)

lemma filter_eq_singleD:
  assumes "filter p xs = [v]"
  shows "v \<in> set xs" and "p v"
proof -
  have "v \<in> set (filter p xs)" using assms by simp
  then show "v \<in> set xs" and "p v" by auto
qed

lemma first_row_simps [simp]: "first_row [] = None" "first_row (r # rs) = Some r"
  by (simp_all add: first_row_def)

lemma first_row_SomeD: "first_row rows = Some r \<Longrightarrow> r \<in> set rows"
  by (cases rows) auto

lemma first_row_None_iff [simp]: "first_row rows = None \<longleftrightarrow> rows = []"
  by (cases rows) auto

lemma set_update_where:
  "set (update_where p f rows) = (\<lambda>r. if p r then f r else r) ` set rows"
  by (simp add: update_where_def)

lemma length_update_where [simp]: "length (update_where p f rows) = length rows"
  by (simp add: update_where_def)

lemma update_where_Nil [simp]: "update_where p f [] = []"
  by (simp add: update_where_def)

lemma update_where_Cons [simp]:
  "update_where p f (r # rs) = (if p r then f r else r) # update_where p f rs"
  by (simp add: update_where_def)

lemma set_delete_where [simp]: "set (delete_where p rows) = {r \<in> set rows. \<not> p r}"
  by (auto simp: delete_where_def)

lemma map_update_where_same:
  "(\<And>r. k (f r) = k r) \<Longrightarrow> map k (update_where p f rows) = map k rows"
  by (simp add: update_where_def)

lemma map_update_where_key:
  "(\<And>r. p r \<Longrightarrow> k (f r) = k r) \<Longrightarrow> map k (update_where p f rows) = map k rows"
  by (simp add: update_where_def)

lemma ball_update_where:
  "(\<forall>r \<in> set (update_where p f rows). Q r) \<longleftrightarrow>
   (\<forall>r \<in> set rows. if p r then Q (f r) else Q r)"
  by (auto simp: set_update_where)

subsection \<open>Unique keys\<close>

definition unique_by :: "('r \<Rightarrow> 'k) \<Rightarrow> 'r list \<Rightarrow> bool" where
  "unique_by k rows \<longleftrightarrow> distinct (map k rows)"

lemma unique_by_Nil [simp]: "unique_by k []"
  by (simp add: unique_by_def)

lemma unique_by_append_one:
  "unique_by k (rows @ [r]) \<longleftrightarrow> unique_by k rows \<and> k r \<notin> k ` set rows"
  by (auto simp: unique_by_def)

lemma unique_by_update_where:
  "(\<And>r. k (f r) = k r) \<Longrightarrow> unique_by k (update_where p f rows) = unique_by k rows"
  by (simp add: unique_by_def map_update_where_same)

lemma unique_by_delete_where: "unique_by k rows \<Longrightarrow> unique_by k (delete_where p rows)"
  by (auto simp: unique_by_def delete_where_def distinct_map intro: inj_on_subset)

lemma unique_by_same_key:
  "unique_by k rows \<Longrightarrow> r \<in> set rows \<Longrightarrow> r' \<in> set rows \<Longrightarrow> k r = k r' \<Longrightarrow> r = r'"
  by (auto simp: unique_by_def distinct_map dest: inj_onD)

lemma unique_by_distinct: "unique_by k rows \<Longrightarrow> distinct rows"
  by (simp add: unique_by_def distinct_map)

lemma filter_only:
  assumes "distinct xs" and "a \<in> set xs" and "\<And>x. x \<in> set xs \<Longrightarrow> p x = (x = a)"
  shows "filter p xs = [a]"
  using assms
proof (induction xs)
  case (Cons x xs)
  show ?case
  proof (cases "x = a")
    case True
    then have "filter p xs = []" using Cons.prems by (auto simp: filter_empty_conv)
    with True Cons.prems show ?thesis by simp
  next
    case False
    with Cons show ?thesis by simp
  qed
qed simp

lemma unique_by_filter_key:
  "unique_by k rows \<Longrightarrow> r \<in> set rows \<Longrightarrow> filter (\<lambda>x. k x = k r) rows = [r]"
  using unique_by_same_key [of k rows _ r] by (intro filter_only) (auto dest: unique_by_distinct)

lemma unique_by_filter_le1:
  assumes "unique_by k rows" and "\<And>r. p r \<Longrightarrow> k r = v"
  shows "length (filter p rows) \<le> 1"
  using assms(1)
proof (induction rows)
  case (Cons r rows)
  show ?case
  proof (cases "p r")
    case True
    have "filter p rows = []"
      using Cons.prems True assms(2) by (force simp: unique_by_def filter_empty_conv)
    with True show ?thesis by simp
  next
    case False
    with Cons show ?thesis by (simp add: unique_by_def)
  qed
qed simp

lemma unique_by_select:
  assumes "unique_by k rows" and "\<And>r. p r \<Longrightarrow> k r = v"
  shows "scalar_one_or_none (filter p rows) \<noteq> Inl e"
proof -
  have "length (filter p rows) \<le> 1"
    using unique_by_filter_le1 [of k rows p v] assms by blast
  then show ?thesis
    by (auto simp: scalar_one_or_none_def split: list.splits)
qed

lemma unique_by_select_the:
  assumes "unique_by k rows" and "r \<in> set rows" and "p r" and "\<And>r. p r \<Longrightarrow> k r = v"
  shows "scalar_one_or_none (filter p rows) = Inr (Some r)"
proof -
  have "length (filter p rows) \<le> 1"
    using unique_by_filter_le1 [of k rows p v] assms(1,4) by blast
  moreover have "r \<in> set (filter p rows)" using assms(2,3) by simp
  ultimately have "filter p rows = [r]"
    by (cases "filter p rows") auto
  then show ?thesis by simp
qed

subsection \<open>Assigning to the attributes of a loaded row\<close>

text \<open>
  A session keeps a loaded row by its primary key \<open>k\<close>: assigning to the row's attributes replaces
  the row with that key.
\<close>

definition put_row :: "('r \<Rightarrow> 'k) \<Rightarrow> 'r \<Rightarrow> 'r list \<Rightarrow> 'r list" where
  "put_row k r rows = update_where (\<lambda>x. k x = k r) (\<lambda>_. r) rows"

lemma put_row_Nil [simp]: "put_row k r [] = []"
  by (simp add: put_row_def)

lemma put_row_Cons [simp]:
  "put_row k r (x # xs) = (if k x = k r then r else x) # put_row k r xs"
  by (simp add: put_row_def)

lemma length_put_row [simp]: "length (put_row k r rows) = length rows"
  by (simp add: put_row_def)

lemma map_put_row_key: "map k (put_row k r rows) = map k rows"
  by (auto simp: put_row_def intro!: map_update_where_key)

lemma unique_by_put_row_key [simp]: "unique_by k (put_row k r rows) = unique_by k rows"
  by (simp add: unique_by_def map_put_row_key)

lemma put_row_as_map:
  assumes "unique_by k rows" and "v \<in> set rows" and "k v = k r"
  shows "put_row k r rows = map (\<lambda>x. if x = v then r else x) rows"
proof -
  have "k x = k r \<longleftrightarrow> x = v" if "x \<in> set rows" for x
    using unique_by_same_key [OF assms(1) that assms(2)] assms(3) by metis
  then show ?thesis
    unfolding put_row_def update_where_def by (intro map_cong) simp_all
qed

lemma map_put_row_same:
  assumes "unique_by k rows" and "v \<in> set rows" and "k v = k r" and "f v = f r"
  shows "map f (put_row k r rows) = map f rows"
  using assms(4) by (simp add: put_row_as_map [OF assms(1-3)])

lemma unique_by_put_row:
  assumes "unique_by k rows" and "v \<in> set rows" and "k v = k r" and "f v = f r"
  shows "unique_by f (put_row k r rows) = unique_by f rows"
  by (simp add: unique_by_def map_put_row_same [OF assms])

lemma set_put_row:
  assumes "unique_by k rows" and "v \<in> set rows" and "k v = k r"
  shows "set (put_row k r rows) = insert r (set rows - {v})"
  using assms(2) by (auto simp: put_row_as_map [OF assms])

lemma in_put_row_cases: "x \<in> set (put_row k r rows) \<Longrightarrow> x = r \<or> x \<in> set rows \<and> k x \<noteq> k r"
  by (auto simp: put_row_def set_update_where)

lemma filter_put_row:
  assumes "unique_by k rows" and "v \<in> set rows" and "k v = k r" and "p v = p r"
  shows "filter p (put_row k r rows) = put_row k r (filter p rows)"
proof -
  have "filter p (put_row k r rows) = map (\<lambda>x. if x = v then r else x) (filter p rows)"
    unfolding put_row_as_map [OF assms(1-3)] filter_map comp_def
    using assms(4) by (intro arg_cong [where f = "map _"] filter_cong) auto
  also have "\<dots> = put_row k r (filter p rows)"
  proof -
    have "x = v" if "x \<in> set rows" "k x = k r" for x
      using unique_by_same_key [OF assms(1) that(1) assms(2)] that(2) assms(3) by simp
    then have "k x = k r \<longleftrightarrow> x = v" if "x \<in> set (filter p rows)" for x
      using that assms(3) by (metis filter_is_subset subsetD)
    then show ?thesis
      unfolding put_row_def update_where_def by (intro map_cong) simp_all
  qed
  finally show ?thesis .
qed

lemma filter_put_row_one:
  assumes "unique_by k rows" and "filter p rows = [v]" and "k v = k r" and "p r"
  shows "filter p (put_row k r rows) = [r]"
  using filter_put_row [OF assms(1) filter_eq_singleD(1) [OF assms(2)] assms(3), of p]
    filter_eq_singleD(2) [OF assms(2)] assms(2-4) by simp

lemma put_row_same:
  assumes "unique_by k rows" and "r \<in> set rows"
  shows "put_row k r rows = rows"
  unfolding put_row_as_map [OF assms refl] by (rule map_idI) auto

lemma filter_update_where_other:
  "(\<And>r. p r \<Longrightarrow> \<not> q r \<and> \<not> q (f r)) \<Longrightarrow> filter q (update_where p f rows) = filter q rows"
  by (induction rows) auto

lemma in_update_where:
  "x \<in> set (update_where p f rows) \<Longrightarrow> (\<exists>r \<in> set rows. p r \<and> x = f r) \<or> x \<in> set rows \<and> \<not> p x"
  by (auto simp: set_update_where)

lemma filter_put_row_other:
  "(\<And>x. k x = k r \<Longrightarrow> x \<in> set rows \<Longrightarrow> \<not> q x) \<Longrightarrow> \<not> q r \<Longrightarrow> filter q (put_row k r rows) = filter q rows"
  by (induction rows) auto

lemma filter_put_row_gone:
  assumes "filter p rows = [v]" and "k v = k r" and "\<not> p r"
  shows "filter p (put_row k r rows) = []"
proof -
  have "x = v" if "x \<in> set rows" "p x" for x
  proof -
    have "x \<in> set (filter p rows)" using that by simp
    with assms(1) show ?thesis by simp
  qed
  with assms(2,3) show ?thesis
    by (auto simp: filter_empty_conv dest!: in_put_row_cases)
qed

lemma put_row_only:
  assumes "filter p rows = [v]" and "x \<in> set (put_row k r rows)" and "p x" and "k v = k r"
  shows "x = r"
proof (rule ccontr)
  assume "x \<noteq> r"
  with in_put_row_cases [OF assms(2)] have "x \<in> set (filter p rows)" "k x \<noteq> k r"
    using assms(3) by auto
  with assms(1,4) show False by simp
qed

end
