(* ===== verification/PyText.thy ===== *)
theory PyText
  imports Prelude
begin

text \<open>
  Python's string functions on ASCII text and the JSON values that request bodies, JSON columns
  and task payloads carry. \<open>str.lower\<close>, \<open>str.upper\<close>, \<open>str.isupper\<close> and \<open>str.isdigit\<close> are given on
  ASCII characters; \<open>a in b\<close> is \<open>sublist a b\<close> and \<open>s.startswith(p)\<close> is \<open>prefix p s\<close>.
\<close>

section \<open>Characters and strings\<close>

definition char_code :: "char \<Rightarrow> nat" where
  "char_code c = of_char c"

definition is_upper :: "char \<Rightarrow> bool" where
  "is_upper c \<longleftrightarrow> 65 \<le> char_code c \<and> char_code c \<le> 90"

definition is_lower :: "char \<Rightarrow> bool" where
  "is_lower c \<longleftrightarrow> 97 \<le> char_code c \<and> char_code c \<le> 122"

definition is_digit :: "char \<Rightarrow> bool" where
  "is_digit c \<longleftrightarrow> 48 \<le> char_code c \<and> char_code c \<le> 57"

definition lower_char :: "char \<Rightarrow> char" where
  "lower_char c = (if is_upper c then char_of (char_code c + 32) else c)"

definition upper_char :: "char \<Rightarrow> char" where
  "upper_char c = (if is_lower c then char_of (char_code c - 32) else c)"

definition str_lower :: "string \<Rightarrow> string" where
  "str_lower s = map lower_char s"

definition str_upper :: "string \<Rightarrow> string" where
  "str_upper s = map upper_char s"

lemma char_code_lower: "is_upper c \<Longrightarrow> char_code (lower_char c) = char_code c + 32"
  by (simp add: lower_char_def is_upper_def char_code_def)

lemma lower_char_not_upper: "\<not> is_upper (lower_char c)"
proof (cases "is_upper c")
  case True
  from char_code_lower [OF this] show ?thesis
    using True by (simp add: is_upper_def)
qed (simp add: lower_char_def)

lemma lower_char_cases:
  "lower_char c = c \<or> is_lower (lower_char c)"
proof (cases "is_upper c")
  case True
  from char_code_lower [OF this] show ?thesis
    using True by (simp add: is_upper_def is_lower_def)
qed (simp add: lower_char_def)

lemma length_str_lower [simp]: "length (str_lower s) = length s"
  by (simp add: str_lower_def)

lemma str_lower_no_upper: "c \<in> set (str_lower s) \<Longrightarrow> \<not> is_upper c"
  by (auto simp: str_lower_def lower_char_not_upper)

lemma sublist_set: "sublist xs ys \<Longrightarrow> set xs \<subseteq> set ys"
  by (auto simp: sublist_def)

text \<open>A string with an upper-case letter never occurs in a lower-cased one.\<close>

lemma upper_not_sublist_lower:
  "c \<in> set p \<Longrightarrow> is_upper c \<Longrightarrow> \<not> sublist p (str_lower s)"
  using sublist_set str_lower_no_upper by blast

text \<open>\<open>s.strip(c)\<close> for one character.\<close>

definition strip_char :: "char \<Rightarrow> string \<Rightarrow> string" where
  "strip_char c s = rev (dropWhile ((=) c) (rev (dropWhile ((=) c) s)))"

lemma set_dropWhile_subset: "set (dropWhile P xs) \<subseteq> set xs"
  by (auto dest: set_dropWhileD)

lemma set_strip_char: "set (strip_char c s) \<subseteq> set s"
  by (auto simp: strip_char_def dest!: set_dropWhileD)

lemma length_strip_char: "length (strip_char c s) \<le> length s"
proof -
  have "length (dropWhile ((=) c) (rev (dropWhile ((=) c) s))) \<le> length (rev (dropWhile ((=) c) s))"
    by (rule length_dropWhile_le)
  also have "\<dots> \<le> length s" by (simp add: length_dropWhile_le)
  finally show ?thesis by (simp add: strip_char_def)
qed

lemma hd_dropWhile_ne: "dropWhile ((=) c) xs \<noteq> [] \<Longrightarrow> hd (dropWhile ((=) c) xs) \<noteq> c"
  using hd_dropWhile [of "(=) c" xs] by auto

lemma strip_char_last:
  assumes "strip_char c s \<noteq> []"
  shows "last (strip_char c s) \<noteq> c"
  using assms hd_dropWhile_ne [of c "rev (dropWhile ((=) c) s)"]
  by (simp add: strip_char_def last_rev)

lemma hd_rev_dropWhile_rev:
  assumes "rev (dropWhile P (rev xs)) \<noteq> []"
  shows "hd (rev (dropWhile P (rev xs))) = hd xs"
proof -
  obtain zs where zs: "rev xs = zs @ dropWhile P (rev xs)"
    by (metis takeWhile_dropWhile_id)
  then have "xs = rev (dropWhile P (rev xs)) @ rev zs"
    by (metis rev_append rev_rev_ident)
  with assms show ?thesis by (metis hd_append2)
qed

lemma strip_char_hd:
  assumes "strip_char c s \<noteq> []"
  shows "hd (strip_char c s) \<noteq> c"
proof -
  let ?d = "dropWhile ((=) c) s"
  from assms have ne: "rev (dropWhile ((=) c) (rev ?d)) \<noteq> []"
    by (simp add: strip_char_def)
  have "?d \<noteq> []"
  proof
    assume "?d = []"
    with ne show False by simp
  qed
  then have "hd ?d \<noteq> c" by (rule hd_dropWhile_ne)
  with hd_rev_dropWhile_rev [OF ne] show ?thesis by (simp add: strip_char_def)
qed

text \<open>\<open>s.split(c)\<close> for a one-character separator: always at least one piece.\<close>

fun split_char :: "char \<Rightarrow> string \<Rightarrow> string list" where
  "split_char c [] = [[]]"
| "split_char c (x # xs) =
     (if x = c then [] # split_char c xs
      else (case split_char c xs of [] \<Rightarrow> [[x]] | p # ps \<Rightarrow> (x # p) # ps))"

definition str_join :: "string \<Rightarrow> string list \<Rightarrow> string" where
  "str_join sep parts = concat (case parts of [] \<Rightarrow> [] | p # ps \<Rightarrow> p # map (\<lambda>q. sep @ q) ps)"

lemma split_char_ne [simp]: "split_char c s \<noteq> []"
  by (induction s) (auto split: list.splits)

lemma hd_split_char: "hd (split_char c s) = takeWhile ((\<noteq>) c) s"
proof (induction s)
  case (Cons x s)
  then show ?case
    using split_char_ne [of c s] by (cases "split_char c s") auto
qed simp

lemma str_join_split: "str_join [c] (split_char c s) = s"
proof (induction s)
  case (Cons x s)
  obtain p ps where "split_char c s = p # ps"
    using split_char_ne by (cases "split_char c s") auto
  with Cons show ?case by (cases ps) (auto simp: str_join_def)
qed (simp add: str_join_def)

text \<open>\<open>str(n)\<close> for a natural number.\<close>

definition digit_char :: "nat \<Rightarrow> char" where
  "digit_char d = char_of (48 + d)"

fun nat_str :: "nat \<Rightarrow> string" where
  "nat_str n = (if n < 10 then [digit_char n] else nat_str (n div 10) @ [digit_char (n mod 10)])"

declare nat_str.simps [simp del]

definition int_str :: "int \<Rightarrow> string" where
  "int_str i = (if i < 0 then ''-'' @ nat_str (nat (- i)) else nat_str (nat i))"

text \<open>Reading the digits back: \<open>nat_str\<close> is injective.\<close>

definition digits_val :: "string \<Rightarrow> nat" where
  "digits_val s = foldl (\<lambda>a c. 10 * a + (char_code c - 48)) 0 s"

lemma char_code_digit: "d < 10 \<Longrightarrow> char_code (digit_char d) = 48 + d"
  by (simp add: char_code_def digit_char_def)

lemma digits_val_nat_str: "digits_val (nat_str n) = n"
proof (induction n rule: nat_str.induct)
  case (1 n)
  show ?case
  proof (cases "n < 10")
    case True
    then show ?thesis
      by (simp add: nat_str.simps [of n] digits_val_def char_code_digit)
  next
    case False
    then have "nat_str n = nat_str (n div 10) @ [digit_char (n mod 10)]"
      by (simp add: nat_str.simps [of n])
    then have "digits_val (nat_str n) = 10 * digits_val (nat_str (n div 10)) + n mod 10"
      by (simp add: digits_val_def char_code_digit)
    with "1" False show ?thesis by simp
  qed
qed

lemma nat_str_inject [simp]: "nat_str m = nat_str n \<longleftrightarrow> m = n"
  by (metis digits_val_nat_str)

lemma nat_str_digits: "c \<in> set (nat_str n) \<Longrightarrow> is_digit c"
proof (induction n rule: nat_str.induct)
  case (1 n)
  have d: "is_digit (digit_char (k mod 10))" for k
    using char_code_digit [of "k mod 10"] by (simp add: is_digit_def)
  show ?case
  proof (cases "n < 10")
    case True
    with "1.prems" d [of n] show ?thesis by (simp add: nat_str.simps [of n])
  next
    case False
    with "1" d [of n] show ?thesis by (auto simp: nat_str.simps [of n])
  qed
qed

text \<open>\<open>round(x, d)\<close>: to the nearest multiple of a power of ten, a tie to the even one.\<close>

definition round_even :: "rat \<Rightarrow> int" where
  "round_even x =
     (let n = \<lfloor>x\<rfloor>; r = x - of_int n
      in if r < 1 / 2 then n else if r > 1 / 2 then n + 1 else if even n then n else n + 1)"

definition round_to :: "nat \<Rightarrow> rat \<Rightarrow> rat" where
  "round_to d x = of_int (round_even (x * 10 ^ d)) / 10 ^ d"

text \<open>\<open>s.strip()\<close> and \<open>s.split()\<close>: ASCII white space.\<close>

definition is_space :: "char \<Rightarrow> bool" where
  "is_space c \<longleftrightarrow> char_code c = 32 \<or> 9 \<le> char_code c \<and> char_code c \<le> 13 \<or>
     28 \<le> char_code c \<and> char_code c \<le> 31"

definition str_strip :: "string \<Rightarrow> string" where
  "str_strip s = rev (dropWhile is_space (rev (dropWhile is_space s)))"

fun split_words :: "string \<Rightarrow> string list" where
  "split_words [] = []"
| "split_words (c # s) =
     (if is_space c then split_words s
      else (case s of
              [] \<Rightarrow> [[c]]
            | d # t \<Rightarrow> if is_space d then [c] # split_words t
                       else (case split_words s of [] \<Rightarrow> [[c]] | w # ws \<Rightarrow> (c # w) # ws)))"

text \<open>\<open>s.replace(a, b)\<close> for a non-empty \<open>a\<close>.\<close>

fun replace_from :: "nat \<Rightarrow> string \<Rightarrow> string \<Rightarrow> string \<Rightarrow> string" where
  "replace_from n a b [] = []"
| "replace_from 0 a b (c # s) =
     (if prefix a (c # s) then b @ replace_from (length a - 1) a b s
      else c # replace_from 0 a b s)"
| "replace_from (Suc n) a b (c # s) = replace_from n a b s"

definition str_replace :: "string \<Rightarrow> string \<Rightarrow> string \<Rightarrow> string" where
  "str_replace s a b = replace_from 0 a b s"

text \<open>\<open>a or b\<close> on an optional string: the empty string counts as missing.\<close>

definition str_or :: "string option \<Rightarrow> string \<Rightarrow> string" where
  "str_or a b = (case a of None \<Rightarrow> b | Some x \<Rightarrow> if x = [] then b else x)"

definition opt_str_or :: "string option \<Rightarrow> string option \<Rightarrow> string option" where
  "opt_str_or a b = (case a of None \<Rightarrow> b | Some x \<Rightarrow> if x = [] then b else Some x)"

section \<open>JSON values\<close>

datatype json =
    JNull
  | JBool bool
  | JInt int
  | JNum rat
  | JStr string
  | JArr "json list"
  | JObj "(string \<times> json) list"

type_synonym py_dict = "(string \<times> json) list"

text \<open>\<open>d.get(k)\<close>, \<open>d.get(k, default)\<close>, \<open>d[k]\<close>, and \<open>d[k] = v\<close>, which keeps the place of an old key.\<close>

definition dict_get :: "py_dict \<Rightarrow> string \<Rightarrow> json option" where
  "dict_get d k = map_of d k"

definition dict_get_or :: "py_dict \<Rightarrow> string \<Rightarrow> json \<Rightarrow> json" where
  "dict_get_or d k v = (case map_of d k of None \<Rightarrow> v | Some w \<Rightarrow> w)"

definition dict_item :: "py_dict \<Rightarrow> string \<Rightarrow> py_error + json" where
  "dict_item d k = (case dict_get d k of None \<Rightarrow> Inl (KeyError k) | Some v \<Rightarrow> Inr v)"

fun dict_set :: "'k \<Rightarrow> 'v \<Rightarrow> ('k \<times> 'v) list \<Rightarrow> ('k \<times> 'v) list" where
  "dict_set k v [] = [(k, v)]"
| "dict_set k v ((k', v') # d) = (if k = k' then (k, v) # d else (k', v') # dict_set k v d)"

definition dict_update :: "('k \<times> 'v) list \<Rightarrow> ('k \<times> 'v) list \<Rightarrow> ('k \<times> 'v) list" where
  "dict_update d e = foldl (\<lambda>d (k, v). dict_set k v d) d e"

lemma map_of_dict_set: "map_of (dict_set k v d) = (map_of d)(k \<mapsto> v)"
  by (induction k v d rule: dict_set.induct) auto

lemma map_of_dict_update:
  "map_of (dict_update d e) k =
     (case map_of (rev e) k of None \<Rightarrow> map_of d k | Some v \<Rightarrow> Some v)"
  by (induction e arbitrary: d)
    (auto simp: dict_update_def map_of_dict_set map_add_def split: option.splits)

lemma distinct_dict_set:
  "distinct (map fst d) \<Longrightarrow> distinct (map fst (dict_set k v d))"
proof (induction k v d rule: dict_set.induct)
  case (2 k v k' v' d)
  have "fst ` set (dict_set k v d) \<subseteq> insert k (fst ` set d)"
    by (induction k v d rule: dict_set.induct) auto
  with 2 show ?case by auto
qed simp

lemma set_dict_set_subset: "set (dict_set k v d) \<subseteq> insert (k, v) (set d)"
  by (induction k v d rule: dict_set.induct) auto

lemma in_set_dict_set: "(k, v) \<in> set (dict_set k v d)"
  by (induction k v d rule: dict_set.induct) auto

text \<open>\<open>str\<close> of a JSON value; of a float, a list or a dict it is a parameter.\<close>

definition py_str :: "(json \<Rightarrow> string) \<Rightarrow> json \<Rightarrow> string" where
  "py_str repr v =
     (case v of JStr s \<Rightarrow> s | JInt i \<Rightarrow> int_str i | JNull \<Rightarrow> ''None''
      | JBool b \<Rightarrow> if b then ''True'' else ''False'' | _ \<Rightarrow> repr v)"

text \<open>\<open>xs[i:j]\<close>: a negative bound counts from the end.\<close>

definition slice_bound :: "nat \<Rightarrow> int \<Rightarrow> nat" where
  "slice_bound n i = (if i < 0 then nat (max 0 (int n + i)) else nat (min (int n) i))"

definition py_slice :: "'a list \<Rightarrow> int \<Rightarrow> int \<Rightarrow> 'a list" where
  "py_slice xs i j =
     (let a = slice_bound (length xs) i; b = slice_bound (length xs) j in take (b - a) (drop a xs))"

text \<open>\<open>v.get(k, d)\<close> and \<open>v[k]\<close> of any JSON value: only a dict has them, for a text as the key.\<close>

definition json_get :: "json \<Rightarrow> string \<Rightarrow> json \<Rightarrow> py_error + json" where
  "json_get v k w = (case v of JObj d \<Rightarrow> Inr (dict_get_or d k w) | _ \<Rightarrow> Inl AttributeError)"

definition json_item :: "json \<Rightarrow> string \<Rightarrow> py_error + json" where
  "json_item v k = (case v of JObj d \<Rightarrow> dict_item d k | _ \<Rightarrow> Inl TypeError)"

text \<open>\<open>v[0]\<close>.\<close>

definition json_index0 :: "json \<Rightarrow> py_error + json" where
  "json_index0 v =
     (case v of
        JArr (x # xs) \<Rightarrow> Inr x | JArr [] \<Rightarrow> Inl IndexError
      | JStr (c # s) \<Rightarrow> Inr (JStr [c]) | JStr [] \<Rightarrow> Inl IndexError
      | JObj d \<Rightarrow> Inl (KeyError ''0'') | _ \<Rightarrow> Inl TypeError)"

text \<open>An expression whose parts can raise, and a list of them, up to the first error.\<close>

definition try_bind :: "py_error + 'a \<Rightarrow> ('a \<Rightarrow> py_error + 'b) \<Rightarrow> py_error + 'b" where
  "try_bind m f = (case m of Inl e \<Rightarrow> Inl e | Inr x \<Rightarrow> f x)"

fun try_map :: "('a \<Rightarrow> py_error + 'b) \<Rightarrow> 'a list \<Rightarrow> py_error + 'b list" where
  "try_map f [] = Inr []"
| "try_map f (x # xs) =
     (case f x of Inl e \<Rightarrow> Inl e | Inr y \<Rightarrow> map_sum id (\<lambda>ys. y # ys) (try_map f xs))"

text \<open>What a \<open>for\<close> loop over a JSON value visits.\<close>

definition json_iter :: "json \<Rightarrow> py_error + json list" where
  "json_iter v =
     (case v of JArr xs \<Rightarrow> Inr xs | JStr s \<Rightarrow> Inr (map (\<lambda>c. JStr [c]) s)
      | JObj d \<Rightarrow> Inr (map (\<lambda>(k, w). JStr k) d) | _ \<Rightarrow> Inl TypeError)"

text \<open>\<open>bool(v)\<close>.\<close>

fun truthy :: "json \<Rightarrow> bool" where
  "truthy JNull = False"
| "truthy (JBool b) = b"
| "truthy (JInt i) = (i \<noteq> 0)"
| "truthy (JNum q) = (q \<noteq> 0)"
| "truthy (JStr s) = (s \<noteq> [])"
| "truthy (JArr xs) = (xs \<noteq> [])"
| "truthy (JObj d) = (d \<noteq> [])"

text \<open>\<open>json.dumps\<close> with its default arguments; the spelling of a float is a parameter.\<close>

definition lower_hex_digit :: "nat \<Rightarrow> char" where
  "lower_hex_digit d = (if d < 10 then digit_char d else char_of (87 + d))"

definition json_char :: "char \<Rightarrow> string" where
  "json_char c =
     (let n = char_code c
      in if n = 34 \<or> n = 92 then [CHR 0x5C, c]
         else if n = 10 then [CHR 0x5C, CHR ''n'']
         else if n = 13 then [CHR 0x5C, CHR ''r'']
         else if n = 9 then [CHR 0x5C, CHR ''t'']
         else if n = 12 then [CHR 0x5C, CHR ''f'']
         else if n = 8 then [CHR 0x5C, CHR ''b'']
         else if 32 \<le> n \<and> n \<le> 126 then [c]
         else [CHR 0x5C] @ ''u00'' @ [lower_hex_digit (n div 16), lower_hex_digit (n mod 16)])"

definition json_string :: "string \<Rightarrow> string" where
  "json_string s = [CHR 0x22] @ concat (map json_char s) @ [CHR 0x22]"

fun py_dumps :: "(rat \<Rightarrow> string) \<Rightarrow> json \<Rightarrow> string"
  and json_items :: "(rat \<Rightarrow> string) \<Rightarrow> json list \<Rightarrow> string list"
  and json_members :: "(rat \<Rightarrow> string) \<Rightarrow> (string \<times> json) list \<Rightarrow> string list" where
  "py_dumps fr JNull = ''null''"
| "py_dumps fr (JBool b) = (if b then ''true'' else ''false'')"
| "py_dumps fr (JInt i) = int_str i"
| "py_dumps fr (JNum q) = fr q"
| "py_dumps fr (JStr s) = json_string s"
| "py_dumps fr (JArr xs) = ''['' @ str_join '', '' (json_items fr xs) @ '']''"
| "py_dumps fr (JObj d) = ''{'' @ str_join '', '' (json_members fr d) @ ''}''"
| "json_items fr [] = []"
| "json_items fr (x # xs) = py_dumps fr x # json_items fr xs"
| "json_members fr [] = []"
| "json_members fr ((k, v) # d) = (json_string k @ '': '' @ py_dumps fr v) # json_members fr d"

text \<open>A text of several lines, each with its indentation.\<close>

definition em_dash :: string where
  "em_dash = [CHR 0x97]"

definition text_block :: "(nat \<times> string) list \<Rightarrow> string" where
  "text_block ls = str_join [CHR 0x0A] (map (\<lambda>(n, t). replicate n CHR 0x20 @ t) ls)"

definition in_quotes :: "string \<Rightarrow> string" where
  "in_quotes t = [CHR 0x27] @ t @ [CHR 0x27]"

text \<open>The pieces of a text that is put together.\<close>

lemma sublist_app: "sublist t a \<Longrightarrow> sublist t (a @ b)" "sublist t b \<Longrightarrow> sublist t (a @ b)"
  by (auto simp: sublist_append)

lemma sublist_str_join: "x \<in> set xs \<Longrightarrow> sublist x (str_join sep xs)"
proof -
  assume "x \<in> set xs"
  then obtain as bs where xs: "xs = as @ x # bs" by (meson split_list)
  show ?thesis
  proof (cases as)
    case (Cons a list)
    have "str_join sep xs = (a @ concat (map ((@) sep) list) @ sep) @ x @ concat (map ((@) sep) bs)"
      by (simp add: xs Cons str_join_def)
    then show ?thesis by (metis sublist_appendI)
  qed (simp add: xs str_join_def)
qed

lemma sublist_text_block: "(n, l) \<in> set ls \<Longrightarrow> sublist t l \<Longrightarrow> sublist t (text_block ls)"
proof -
  assume "(n, l) \<in> set ls" and t: "sublist t l"
  then have "replicate n CHR 0x20 @ l \<in> set (map (\<lambda>(n, t). replicate n CHR 0x20 @ t) ls)" by force
  from sublist_str_join [OF this] sublist_app(2) [OF t] show ?thesis
    unfolding text_block_def by (rule sublist_order.order.trans [rotated])
qed

end
