(* ===== verification/Models.thy ===== *)
theory Models
  imports PyText
begin

text \<open>
  The SQLAlchemy models of \<open>db/models.py\<close>: one record per mapped class, with the class's columns in
  order (the \<open>relationship\<close> attributes and the indices carry no state of their own), and a
  \<open>new_\<close> function per class that an operation of this development creates, which fills the
  columns the constructor call does not name with the column's declared default. Nullable columns
  are options; Boolean columns with a default are \<open>bool\<close>.
\<close>

section \<open>Tenants and identity providers\<close>

record tenant =
  tn_id :: uuid
  tn_slug :: string
  tn_name :: string
  tn_plan :: "string option"
  tn_is_active :: bool
  tn_created_at :: time
  tn_updated_at :: time
  tn_graph_backend :: "string option"
  tn_graph_config :: py_dict
  tn_max_users :: string
  tn_max_connectors :: string
  tn_max_nodes :: string
  tn_stripe_customer_id :: "string option"
  tn_subscription_status :: "string option"
  tn_current_period_end :: "int option"
  tn_cancel_at_period_end :: "bool option"
  tn_timezone :: string
  tn_logo_url :: "string option"
  tn_notification_config :: py_dict

definition new_tenant :: "uuid \<Rightarrow> time \<Rightarrow> string \<Rightarrow> string \<Rightarrow> string option \<Rightarrow> tenant" where
  "new_tenant i now slug name plan =
     \<lparr> tn_id = i, tn_slug = slug, tn_name = name, tn_plan = plan, tn_is_active = True,
       tn_created_at = now, tn_updated_at = now,
       tn_graph_backend = Some ''neo4j'', tn_graph_config = [],
       tn_max_users = ''10'', tn_max_connectors = ''5'', tn_max_nodes = ''1000000'',
       tn_stripe_customer_id = None, tn_subscription_status = Some ''none'',
       tn_current_period_end = None, tn_cancel_at_period_end = Some False,
       tn_timezone = ''UTC'', tn_logo_url = None, tn_notification_config = [] \<rparr>"

record oidc_config =
  oc_id :: uuid
  oc_tenant_id :: uuid
  oc_provider_name :: string
  oc_issuer_url :: string
  oc_client_id :: string
  oc_client_secret :: string
  oc_scopes :: "string list"
  oc_claim_mapping :: "(string \<times> string) list"
  oc_is_default :: bool
  oc_is_active :: bool
  oc_created_at :: time

section \<open>Users and roles\<close>

record user =
  us_id :: uuid
  us_tenant_id :: uuid
  us_email :: string
  us_display_name :: "string option"
  us_external_id :: "string option"
  us_idp_provider :: "string option"
  us_is_active :: bool
  us_last_login :: "time option"
  us_email_verified :: bool
  us_role :: string
  us_name :: "string option"
  us_created_at :: time

definition new_user :: "uuid \<Rightarrow> time \<Rightarrow> uuid \<Rightarrow> string \<Rightarrow> user" where
  "new_user i now tid email =
     \<lparr> us_id = i, us_tenant_id = tid, us_email = email, us_display_name = None,
       us_external_id = None, us_idp_provider = None, us_is_active = True, us_last_login = None,
       us_email_verified = False, us_role = ''member'', us_name = None, us_created_at = now \<rparr>"

definition display :: "user \<Rightarrow> string" where
  "display u = str_or (us_display_name u) (str_or (us_name u) (us_email u))"

definition ROLE_TYPES :: "string list" where
  "ROLE_TYPES = [''admin'', ''analyst'', ''viewer'', ''agent'', ''custom'']"

record role =
  ro_id :: uuid
  ro_tenant_id :: uuid
  ro_name :: string
  ro_role_type :: string
  ro_description :: "string option"
  ro_permissions :: "string list option"
  ro_is_system :: bool
  ro_created_at :: time

datatype scope_type = SConnector | STag | SAttribute | SOther string

text \<open>The shapes of \<open>scope_value\<close> that the class documents; a key that is absent is \<open>None\<close>.\<close>

record scope_value =
  sv_connector_ids :: "string list option"
  sv_tags :: "string list option"
  sv_filters :: "(string \<times> string) list option"

record role_assignment =
  ra_id :: uuid
  ra_tenant_id :: uuid
  ra_user_id :: uuid
  ra_role_id :: uuid
  ra_scope_type :: "scope_type option"
  ra_scope_value :: "scope_value option"
  ra_granted_by :: "uuid option"
  ra_created_at :: time
  ra_expires_at :: "time option"

definition new_role_assignment :: "uuid \<Rightarrow> time \<Rightarrow> uuid \<Rightarrow> uuid \<Rightarrow> uuid \<Rightarrow> role_assignment" where
  "new_role_assignment i now tid uid rid =
     \<lparr> ra_id = i, ra_tenant_id = tid, ra_user_id = uid, ra_role_id = rid, ra_scope_type = None,
       ra_scope_value = None, ra_granted_by = None, ra_created_at = now, ra_expires_at = None \<rparr>"

section \<open>Scanner agents\<close>

record scanner_agent =
  sa_id :: uuid
  sa_tenant_id :: uuid
  sa_name :: string
  sa_description :: "string option"
  sa_api_key_hash :: string
  sa_version :: "string option"
  sa_platform :: "string option"
  sa_os :: "string option"
  sa_hostname :: "string option"
  sa_is_active :: bool
  sa_last_seen :: "time option"
  sa_last_seen_at :: "time option"
  sa_last_health :: py_dict
  sa_files_indexed :: "int option"
  sa_files_pending :: "int option"
  sa_last_error :: "string option"
  sa_connector_statuses :: "(string \<times> string) list"
  sa_created_at :: time
  sa_created_by :: "uuid option"
  sa_registered_at :: time
  sa_registered_by :: "uuid option"

definition new_scanner_agent :: "uuid \<Rightarrow> time \<Rightarrow> uuid \<Rightarrow> string \<Rightarrow> string \<Rightarrow> scanner_agent" where
  "new_scanner_agent i now tid name key_hash =
     \<lparr> sa_id = i, sa_tenant_id = tid, sa_name = name, sa_description = None,
       sa_api_key_hash = key_hash, sa_version = None, sa_platform = None, sa_os = None,
       sa_hostname = None, sa_is_active = True, sa_last_seen = None, sa_last_seen_at = None,
       sa_last_health = [], sa_files_indexed = Some 0, sa_files_pending = Some 0,
       sa_last_error = None, sa_connector_statuses = [], sa_created_at = now,
       sa_created_by = None, sa_registered_at = now, sa_registered_by = None \<rparr>"

section \<open>Local authentication\<close>

record local_credential =
  lc_id :: uuid
  lc_user_id :: uuid
  lc_password_hash :: string
  lc_failed_attempts :: "int option"
  lc_locked_until :: "time option"
  lc_last_failed_at :: "time option"
  lc_last_login_at :: "time option"
  lc_updated_at :: time

definition new_local_credential :: "uuid \<Rightarrow> time \<Rightarrow> uuid \<Rightarrow> string \<Rightarrow> local_credential" where
  "new_local_credential i now uid pw =
     \<lparr> lc_id = i, lc_user_id = uid, lc_password_hash = pw, lc_failed_attempts = Some 0,
       lc_locked_until = None, lc_last_failed_at = None, lc_last_login_at = None,
       lc_updated_at = now \<rparr>"

text \<open>\<open>EmailVerificationToken\<close> and \<open>PasswordResetToken\<close> have the same columns.\<close>

record auth_token =
  at_id :: uuid
  at_user_id :: uuid
  at_token_hash :: string
  at_expires_at :: time
  at_used_at :: "time option"
  at_created_at :: time

definition new_auth_token :: "uuid \<Rightarrow> time \<Rightarrow> uuid \<Rightarrow> string \<Rightarrow> time \<Rightarrow> auth_token" where
  "new_auth_token i now uid h expiry =
     \<lparr> at_id = i, at_user_id = uid, at_token_hash = h, at_expires_at = expiry, at_used_at = None,
       at_created_at = now \<rparr>"

record mfa_config =
  mf_id :: uuid
  mf_user_id :: uuid
  mf_secret :: string
  mf_backup_codes :: "string list option"
  mf_is_active :: bool
  mf_enrolled_at :: "time option"
  mf_disabled_at :: "time option"
  mf_created_at :: time

definition new_mfa_config :: "uuid \<Rightarrow> time \<Rightarrow> uuid \<Rightarrow> string \<Rightarrow> string list \<Rightarrow> mfa_config" where
  "new_mfa_config i now uid secret codes =
     \<lparr> mf_id = i, mf_user_id = uid, mf_secret = secret, mf_backup_codes = Some codes,
       mf_is_active = False, mf_enrolled_at = None, mf_disabled_at = None, mf_created_at = now \<rparr>"

record user_session =
  se_id :: uuid
  se_user_id :: uuid
  se_tenant_id :: uuid
  se_ip_address :: "string option"
  se_user_agent :: "string option"
  se_expires_at :: time
  se_revoked_at :: "time option"
  se_created_at :: time

definition new_user_session ::
  "uuid \<Rightarrow> time \<Rightarrow> uuid \<Rightarrow> uuid \<Rightarrow> string option \<Rightarrow> string option \<Rightarrow> time \<Rightarrow> user_session" where
  "new_user_session i now uid tid ip ua expiry =
     \<lparr> se_id = i, se_user_id = uid, se_tenant_id = tid, se_ip_address = ip, se_user_agent = ua,
       se_expires_at = expiry, se_revoked_at = None, se_created_at = now \<rparr>"

record api_key =
  ak_id :: uuid
  ak_user_id :: uuid
  ak_tenant_id :: uuid
  ak_name :: string
  ak_key_hash :: string
  ak_key_prefix :: string
  ak_expires_at :: "time option"
  ak_revoked_at :: "time option"
  ak_last_used_at :: "time option"
  ak_created_at :: time

section \<open>Audit log, invitations, provisioning, webhooks, erasure jobs\<close>

record audit_log_row =
  al_id :: uuid
  al_tenant_id :: uuid
  al_user_id :: "uuid option"
  al_action :: string
  al_resource :: "string option"
  al_details :: py_dict
  al_ip_address :: "string option"
  al_user_agent :: "string option"
  al_status :: string
  al_created_at :: time

record user_invite =
  iv_id :: uuid
  iv_tenant_id :: uuid
  iv_invited_by :: "uuid option"
  iv_email :: string
  iv_role :: string
  iv_token_hash :: string
  iv_expires_at :: time
  iv_used_at :: "time option"
  iv_created_at :: time

record scim_config =
  sc_id :: uuid
  sc_tenant_id :: uuid
  sc_token_hash :: string
  sc_is_active :: bool
  sc_last_used_at :: "time option"
  sc_created_by :: "uuid option"
  sc_created_at :: time

record saml_config =
  sm_id :: uuid
  sm_tenant_id :: uuid
  sm_idp_entity_id :: string
  sm_idp_sso_url :: string
  sm_idp_certificate :: string
  sm_email_attribute :: "string option"
  sm_name_attribute :: "string option"
  sm_groups_attribute :: "string option"
  sm_role_mappings :: json
  sm_is_active :: bool
  sm_created_by :: "uuid option"
  sm_created_at :: time

record webhook_endpoint =
  we_id :: uuid
  we_tenant_id :: uuid
  we_url :: string
  we_secret :: "string option"
  we_event_types :: "string list option"
  we_description :: "string option"
  we_is_active :: bool
  we_last_delivery_at :: "time option"
  we_last_delivery_status :: "string option"
  we_failure_count :: "int option"
  we_created_by :: "uuid option"
  we_created_at :: time

record webhook_delivery =
  wd_id :: uuid
  wd_endpoint_id :: uuid
  wd_tenant_id :: uuid
  wd_event_type :: string
  wd_event_id :: string
  wd_attempts :: int
  wd_delivered :: bool
  wd_status :: string
  wd_last_error :: "string option"
  wd_delivered_at :: "time option"
  wd_created_at :: time

record gdpr_erasure_job =
  gj_id :: uuid
  gj_user_id :: string
  gj_tenant_id :: string
  gj_status :: string
  gj_requested_at :: time
  gj_completed_at :: "time option"
  gj_error :: "string option"

section \<open>Connectors\<close>

text \<open>\<open>db/connector_models.py\<close>. Rates and durations are rationals.\<close>

record connector =
  cn_id :: uuid
  cn_tenant_id :: uuid
  cn_name :: string
  cn_description :: "string option"
  cn_connector_type :: string
  cn_is_active :: bool
  cn_config :: py_dict
  cn_tags :: "string list"
  cn_scanner_agent_id :: "uuid option"
  cn_routing_mode :: string
  cn_last_scan_at :: "time option"
  cn_last_scan_status :: "string option"
  cn_last_scan_duration_secs :: "rat option"
  cn_last_scan_files :: int
  cn_last_scan_errors :: int
  cn_last_scan_error_msg :: "string option"
  cn_total_files_indexed :: "int option"
  cn_avg_throughput_fps :: "rat option"
  cn_last_test_at :: "time option"
  cn_last_test_result :: "bool option"
  cn_last_test_msg :: "string option"
  cn_created_at :: time
  cn_updated_at :: time
  cn_created_by :: "uuid option"

definition new_connector :: "uuid \<Rightarrow> time \<Rightarrow> uuid \<Rightarrow> string \<Rightarrow> string \<Rightarrow> connector" where
  "new_connector i now tid name ctype =
     \<lparr> cn_id = i, cn_tenant_id = tid, cn_name = name, cn_description = None,
       cn_connector_type = ctype, cn_is_active = True, cn_config = [], cn_tags = [],
       cn_scanner_agent_id = None, cn_routing_mode = ''direct'', cn_last_scan_at = None,
       cn_last_scan_status = None, cn_last_scan_duration_secs = None, cn_last_scan_files = 0,
       cn_last_scan_errors = 0, cn_last_scan_error_msg = None, cn_total_files_indexed = Some 0,
       cn_avg_throughput_fps = None, cn_last_test_at = None, cn_last_test_result = None,
       cn_last_test_msg = None, cn_created_at = now, cn_updated_at = now, cn_created_by = None \<rparr>"

end
