(* ===== verification/Database.thy ===== *)
theory Database
  imports Models
begin

text \<open>
  The database session: the tables as one record, the constraints that \<open>db/models.py\<close> declares on
  them (primary keys and \<open>unique\<close> columns), \<open>flush\<close>, and \<open>get_db\<close>, the FastAPI dependency of
  \<open>db/session.py\<close> that gives a request its session: it commits when the handler returns and
  rolls back when it raises, and an \<open>HTTPException\<close> is an exception like any other.

  A UUID primary key is drawn from a counter of the session, which stands for the collision-free
  \<open>uuid.uuid4\<close>. Foreign keys and the maximal lengths of string columns are not modelled.
\<close>

record db =
  tenants :: "tenant list"
  oidc_configs :: "oidc_config list"
  users :: "user list"
  roles :: "role list"
  role_assignments :: "role_assignment list"
  scanner_agents :: "scanner_agent list"
  local_credentials :: "local_credential list"
  email_verification_tokens :: "auth_token list"
  password_reset_tokens :: "auth_token list"
  mfa_configs :: "mfa_config list"
  user_sessions :: "user_session list"
  api_keys :: "api_key list"
  audit_logs :: "audit_log_row list"
  user_invites :: "user_invite list"
  scim_configs :: "scim_config list"
  saml_configs :: "saml_config list"
  webhook_endpoints :: "webhook_endpoint list"
  connectors :: "connector list"
  next_uuid :: uuid

definition empty_db :: db where
  "empty_db = \<lparr> tenants = [], oidc_configs = [], users = [], roles = [], role_assignments = [],
     scanner_agents = [], local_credentials = [], email_verification_tokens = [],
     password_reset_tokens = [], mfa_configs = [], user_sessions = [], api_keys = [],
     audit_logs = [], user_invites = [], scim_configs = [], saml_configs = [],
     webhook_endpoints = [], connectors = [], next_uuid = 1 \<rparr>"

type_synonym 'a endpoint = "(db, 'a) handler"

section \<open>Constraints\<close>

definition user_email_key :: "user \<Rightarrow> uuid \<times> string" where
  "user_email_key u = (us_tenant_id u, us_email u)"

definition role_name_key :: "role \<Rightarrow> uuid \<times> string" where
  "role_name_key r = (ro_tenant_id r, ro_name r)"

definition scanner_name_key :: "scanner_agent \<Rightarrow> uuid \<times> string" where
  "scanner_name_key a = (sa_tenant_id a, sa_name a)"

definition constraints :: "db \<Rightarrow> bool" where
  "constraints s \<longleftrightarrow>
     unique_by tn_id (tenants s) \<and> unique_by tn_slug (tenants s) \<and>
     unique_by (\<lambda>c. (oc_tenant_id c, oc_client_id c)) (oidc_configs s) \<and>
     unique_by us_id (users s) \<and> unique_by user_email_key (users s) \<and>
     unique_by ro_id (roles s) \<and> unique_by role_name_key (roles s) \<and>
     unique_by ra_id (role_assignments s) \<and>
     unique_by sa_id (scanner_agents s) \<and> unique_by scanner_name_key (scanner_agents s) \<and>
     unique_by lc_id (local_credentials s) \<and> unique_by lc_user_id (local_credentials s) \<and>
     unique_by at_id (email_verification_tokens s) \<and>
     unique_by at_token_hash (email_verification_tokens s) \<and>
     unique_by at_id (password_reset_tokens s) \<and>
     unique_by at_token_hash (password_reset_tokens s) \<and>
     unique_by mf_id (mfa_configs s) \<and> unique_by mf_user_id (mfa_configs s) \<and>
     unique_by se_id (user_sessions s) \<and>
     unique_by ak_id (api_keys s) \<and> unique_by ak_key_hash (api_keys s) \<and>
     unique_by iv_id (user_invites s) \<and> unique_by iv_token_hash (user_invites s)"

text \<open>\<open>await db.flush()\<close> sends the pending rows, which the database refuses on a violation.\<close>

definition flush :: "unit endpoint" where
  "flush = (\<lambda>s. if constraints s then (Inr (), s) else (Inl IntegrityError, s))"

definition fresh :: "uuid endpoint" where
  "fresh = (\<lambda>s. (Inr (next_uuid s), s\<lparr>next_uuid := Suc (next_uuid s)\<rparr>))"

definition select_one :: "(db \<Rightarrow> 'r list) \<Rightarrow> ('r \<Rightarrow> bool) \<Rightarrow> 'r option endpoint" where
  "select_one table p = (\<lambda>s. (scalar_one_or_none (filter p (table s)), s))"

definition select_all :: "(db \<Rightarrow> 'r list) \<Rightarrow> ('r \<Rightarrow> bool) \<Rightarrow> 'r list endpoint" where
  "select_all table p = gets (\<lambda>s. filter p (table s))"

lemma run_flush [simp]:
  "flush s = (if constraints s then (Inr (), s) else (Inl IntegrityError, s))"
  by (simp add: flush_def)

lemma run_fresh [simp]: "fresh s = (Inr (next_uuid s), s\<lparr>next_uuid := Suc (next_uuid s)\<rparr>)"
  by (simp add: fresh_def)

lemma run_select_one [simp]: "select_one t p s = (scalar_one_or_none (filter p (t s)), s)"
  by (simp add: select_one_def)

lemma run_select_all [simp]: "select_all t p s = (Inr (filter p (t s)), s)"
  by (simp add: select_all_def)

lemma preserves_flush [preserves_intros]: "preserves I flush"
  by (simp add: preserves_def)

lemma preserves_select_one [preserves_intros]: "preserves I (select_one t p)"
  by (simp add: preserves_def)

lemma preserves_select_all [preserves_intros]: "preserves I (select_all t p)"
  by (simp add: preserves_def)

definition revoke_sessions_of :: "uuid \<Rightarrow> time \<Rightarrow> db \<Rightarrow> db" where
  "revoke_sessions_of uid now s =
     s\<lparr>user_sessions := update_where (\<lambda>x. se_user_id x = uid \<and> se_revoked_at x = None)
         (\<lambda>x. x\<lparr>se_revoked_at := Some now\<rparr>) (user_sessions s)\<rparr>"

definition revoke_api_keys_of :: "uuid \<Rightarrow> time \<Rightarrow> db \<Rightarrow> db" where
  "revoke_api_keys_of uid now s =
     s\<lparr>api_keys := update_where (\<lambda>k. ak_user_id k = uid \<and> ak_revoked_at k = None)
         (\<lambda>k. k\<lparr>ak_revoked_at := Some now\<rparr>) (api_keys s)\<rparr>"

section \<open>One request\<close>

text \<open>
  \<open>get_db\<close> around a handler: the outcome the client sees, and the database after it. A handler
  that returns normally is followed by \<open>commit\<close>, which flushes first.
\<close>

definition get_db :: "'a endpoint \<Rightarrow> db \<Rightarrow> (py_error + 'a) \<times> db" where
  "get_db h s =
     (case h s of
        (Inl e, s') \<Rightarrow> (Inl e, s)
      | (Inr x, s') \<Rightarrow> if constraints s' then (Inr x, s') else (Inl IntegrityError, s))"

lemma get_db_transaction: "get_db = transaction constraints (\<lambda>s s'. s)"
  by (simp add: fun_eq_iff get_db_def transaction_def)

interpretation request: session_contract constraints "\<lambda>s s'. s" constraints
  by unfold_locales

lemma get_db_error: "fst (get_db h s) = Inl e \<Longrightarrow> snd (get_db h s) = s"
  by (auto simp: get_db_def split: handler_splits)

lemma get_db_handler_error: "h s = (Inl e, s') \<Longrightarrow> get_db h s = (Inl e, s)"
  by (simp add: get_db_def)

lemma get_db_ok:
  "h s = (Inr x, s') \<Longrightarrow> constraints s' \<Longrightarrow> get_db h s = (Inr x, s')"
  by (simp add: get_db_def)

lemma get_db_InrD:
  "get_db h s = (Inr x, s') \<Longrightarrow> h s = (Inr x, s') \<and> constraints s'"
  by (auto simp: get_db_def split: handler_splits)

lemma get_db_changed:
  "get_db h s = (r, s') \<Longrightarrow> s' \<noteq> s \<Longrightarrow> \<exists>x. h s = (Inr x, s')"
  by (auto simp: get_db_def split: handler_splits)

lemma get_db_invariant:
  assumes "preserves I h" and "I s"
  shows "I (snd (get_db h s))"
  using preservesD [OF assms] assms(2)
  by (auto simp: get_db_def split: handler_splits)

lemma get_db_constraints: "constraints s \<Longrightarrow> constraints (snd (get_db h s))"
  by (auto simp: get_db_def split: handler_splits)

text \<open>A sequence of requests, each in a session of its own.\<close>

fun serve :: "'a endpoint list \<Rightarrow> db \<Rightarrow> db" where
  "serve [] s = s"
| "serve (h # hs) s = serve hs (snd (get_db h s))"

lemma serve_invariant:
  "(\<And>h. h \<in> set hs \<Longrightarrow> preserves I h) \<Longrightarrow> I s \<Longrightarrow> I (serve hs s)"
  by (induction hs arbitrary: s) (auto intro: get_db_invariant)

lemma serve_unchanged:
  "(\<And>h. h \<in> set hs \<Longrightarrow> \<exists>e. fst (h s) = Inl e) \<Longrightarrow> serve hs s = s"
proof (induction hs)
  case (Cons h hs)
  then obtain e where "fst (h s) = Inl e" by force
  then have "snd (get_db h s) = s"
    by (auto simp: get_db_def split: handler_splits)
  with Cons show ?case by simp
qed simp

text \<open>
  The names \<open>db/session.py\<close> defines or imports; what another module imports from it is one of
  these or an \<open>ImportError\<close>.
\<close>

definition session_module :: "string list" where
  "session_module =
     [''os'', ''AsyncGenerator'', ''AsyncSession'', ''async_sessionmaker'', ''create_async_engine'', ''Base'', ''src'',
      ''DATABASE_URL'', ''engine'', ''AsyncSessionLocal'', ''create_tables'', ''get_db'']"

lemma no_async_session: "''async_session'' \<notin> set session_module"
  by code_simp

section \<open>A contract several endpoints share\<close>

text \<open>
  An endpoint that leaves every table but some untouched keeps each invariant that reads only
  the others. The locale is the interface between a family of endpoints and a property of the
  database they all keep.
\<close>

locale keeps_invariant =
  fixes inv :: "db \<Rightarrow> bool"
    and handlers :: "'a endpoint set"
  assumes kept: "h \<in> handlers \<Longrightarrow> preserves inv h"
begin

lemma request_keeps: "h \<in> handlers \<Longrightarrow> inv s \<Longrightarrow> inv (snd (get_db h s))"
  by (rule get_db_invariant [OF kept])

lemma requests_keep: "set hs \<subseteq> handlers \<Longrightarrow> inv s \<Longrightarrow> inv (serve hs s)"
  by (rule serve_invariant) (auto intro: kept)

end

section \<open>Identifiers are drawn from the counter\<close>

text \<open>
  Every identifier a request can find in the database has been drawn before: it is below the
  counter. \<open>fresh_with xs\<close> also keeps the identifiers \<open>xs\<close> that a handler holds in its variables,
  so that the invariant composes along a handler.
\<close>

definition fresh_ids :: "db \<Rightarrow> bool" where
  "fresh_ids s \<longleftrightarrow>
     (\<forall>t \<in> set (tenants s). tn_id t < next_uuid s) \<and>
     (\<forall>u \<in> set (users s). us_id u < next_uuid s) \<and>
     (\<forall>r \<in> set (roles s). ro_id r < next_uuid s \<and> ro_tenant_id r < next_uuid s) \<and>
     (\<forall>a \<in> set (role_assignments s). ra_id a < next_uuid s \<and> ra_user_id a < next_uuid s) \<and>
     (\<forall>c \<in> set (local_credentials s). lc_id c < next_uuid s \<and> lc_user_id c < next_uuid s) \<and>
     (\<forall>m \<in> set (mfa_configs s). mf_id m < next_uuid s \<and> mf_user_id m < next_uuid s) \<and>
     (\<forall>t \<in> set (email_verification_tokens s). at_id t < next_uuid s) \<and>
     (\<forall>t \<in> set (password_reset_tokens s). at_id t < next_uuid s) \<and>
     (\<forall>x \<in> set (user_sessions s). se_id x < next_uuid s)"

definition fresh_with :: "uuid list \<Rightarrow> db \<Rightarrow> bool" where
  "fresh_with xs s \<longleftrightarrow> fresh_ids s \<and> (\<forall>x \<in> set xs. x < next_uuid s)"

lemma fresh_with_Nil [simp]: "fresh_with [] = fresh_ids"
  by (simp add: fresh_with_def fun_eq_iff)

named_theorems fresh_intros

lemma fresh_bnd_fresh [fresh_intros]:
  assumes "\<And>i. preserves (fresh_with (i # xs)) (f i)"
  shows "preserves (fresh_with xs) (bnd fresh f)"
proof (rule preservesI)
  fix s assume "fresh_with xs s"
  then have "fresh_with (next_uuid s # xs) (s\<lparr>next_uuid := Suc (next_uuid s)\<rparr>)"
    by (auto simp: fresh_with_def fresh_ids_def less_Suc_eq)
  from preservesD [OF assms this]
  show "fresh_with xs (snd (bnd fresh f s))" by (simp add: fresh_with_def)
qed

text \<open>A loaded row brings its identifiers along.\<close>

lemma fresh_bnd_select:
  assumes "\<And>r s. fresh_ids s \<Longrightarrow> r \<in> set (t s) \<Longrightarrow> \<forall>x \<in> set (ids r). x < next_uuid s"
    and "preserves (fresh_with xs) (f None)"
    and "\<And>r. preserves (fresh_with (ids r @ xs)) (f (Some r))"
  shows "preserves (fresh_with xs) (bnd (select_one t p) f)"
proof (rule preservesI)
  fix s assume s: "fresh_with xs s"
  consider e where "scalar_one_or_none (filter p (t s)) = Inl e"
    | "scalar_one_or_none (filter p (t s)) = Inr None"
    | r where "scalar_one_or_none (filter p (t s)) = Inr (Some r)"
    by (metis sumE option.exhaust)
  then show "fresh_with xs (snd (bnd (select_one t p) f s))"
  proof cases
    case 1
    with s show ?thesis by simp
  next
    case 2
    with preservesD [OF assms(2) s] show ?thesis by simp
  next
    case (3 r)
    then have "r \<in> set (t s)" by (rule scalar_one_or_none_filter_Some(1))
    with assms(1) [of s r] s have "fresh_with (ids r @ xs) s"
      by (auto simp: fresh_with_def)
    from preservesD [OF assms(3) this] have "fresh_with (ids r @ xs) (snd (f (Some r) s))" .
    with 3 show ?thesis by (simp add: fresh_with_def)
  qed
qed

lemma fresh_select_user [fresh_intros]:
  "preserves (fresh_with xs) (f None) \<Longrightarrow>
   (\<And>u. preserves (fresh_with ([us_id u] @ xs)) (f (Some u))) \<Longrightarrow>
   preserves (fresh_with xs) (bnd (select_one users p) f)"
  by (rule fresh_bnd_select [where ids = "\<lambda>r. [us_id r]"]) (auto simp: fresh_ids_def)

lemma fresh_select_credential [fresh_intros]:
  "preserves (fresh_with xs) (f None) \<Longrightarrow>
   (\<And>c. preserves (fresh_with ([lc_id c, lc_user_id c] @ xs)) (f (Some c))) \<Longrightarrow>
   preserves (fresh_with xs) (bnd (select_one local_credentials p) f)"
  by (rule fresh_bnd_select [where ids = "\<lambda>r. [lc_id r, lc_user_id r]"]) (auto simp: fresh_ids_def)

lemma fresh_select_mfa [fresh_intros]:
  "preserves (fresh_with xs) (f None) \<Longrightarrow>
   (\<And>m. preserves (fresh_with ([mf_id m, mf_user_id m] @ xs)) (f (Some m))) \<Longrightarrow>
   preserves (fresh_with xs) (bnd (select_one mfa_configs p) f)"
  by (rule fresh_bnd_select [where ids = "\<lambda>r. [mf_id r, mf_user_id r]"]) (auto simp: fresh_ids_def)

lemma fresh_select_verification [fresh_intros]:
  "preserves (fresh_with xs) (f None) \<Longrightarrow>
   (\<And>m. preserves (fresh_with ([at_id m] @ xs)) (f (Some m))) \<Longrightarrow>
   preserves (fresh_with xs) (bnd (select_one email_verification_tokens p) f)"
  by (rule fresh_bnd_select [where ids = "\<lambda>r. [at_id r]"]) (auto simp: fresh_ids_def)

lemma fresh_select_reset [fresh_intros]:
  "preserves (fresh_with xs) (f None) \<Longrightarrow>
   (\<And>m. preserves (fresh_with ([at_id m] @ xs)) (f (Some m))) \<Longrightarrow>
   preserves (fresh_with xs) (bnd (select_one password_reset_tokens p) f)"
  by (rule fresh_bnd_select [where ids = "\<lambda>r. [at_id r]"]) (auto simp: fresh_ids_def)

lemma fresh_select_session [fresh_intros]:
  "preserves (fresh_with xs) (f None) \<Longrightarrow>
   (\<And>m. preserves (fresh_with ([se_id m] @ xs)) (f (Some m))) \<Longrightarrow>
   preserves (fresh_with xs) (bnd (select_one user_sessions p) f)"
  by (rule fresh_bnd_select [where ids = "\<lambda>r. [se_id r]"]) (auto simp: fresh_ids_def)

lemma fresh_select_role [fresh_intros]:
  "preserves (fresh_with xs) (f None) \<Longrightarrow>
   (\<And>m. preserves (fresh_with ([ro_id m] @ xs)) (f (Some m))) \<Longrightarrow>
   preserves (fresh_with xs) (bnd (select_one roles p) f)"
  by (rule fresh_bnd_select [where ids = "\<lambda>r. [ro_id r]"]) (auto simp: fresh_ids_def)

lemma fresh_ids_less:
  "fresh_ids s \<Longrightarrow> u \<in> set (users s) \<Longrightarrow> us_id u < next_uuid s"
  "fresh_ids s \<Longrightarrow> t \<in> set (tenants s) \<Longrightarrow> tn_id t < next_uuid s"
  "fresh_ids s \<Longrightarrow> x \<in> set (user_sessions s) \<Longrightarrow> se_id x < next_uuid s"
  by (simp_all add: fresh_ids_def)

lemmas fresh_defs = fresh_with_def fresh_ids_def ball_Un set_update_where

end
