(* ===== verification/Rbac.thy ===== *)
theory Rbac
  imports Database
begin

text \<open>
  \<open>rbac/engine.py\<close>: the built-in permission sets, loading a user's permissions in a tenant, the
  permission checks of the endpoints, scoped role assignments and their Cypher filter, and the
  assignment of built-in roles. A Python \<open>set\<close> of permissions is a \<open>string set\<close>; the constant
  table lists each set once.
\<close>

section \<open>Permission sets\<close>

definition BUILTIN_PERMISSIONS :: "(string \<times> string list) list" where
  "BUILTIN_PERMISSIONS =
     [(''admin'', [''admin:*'']),
      (''analyst'', [''graph:read'', ''graph:query'', ''mounts:read'', ''mounts:index'',
                     ''actions:propose'', ''scanners:read'', ''users:read'']),
      (''viewer'', [''graph:read'', ''mounts:read'', ''scanners:read'']),
      (''agent'', [''scanners:register'', ''scanners:read'', ''graph:read''])]"

definition builtin_get :: "string \<Rightarrow> string list" where
  "builtin_get k = (case map_of BUILTIN_PERMISSIONS k of None \<Rightarrow> [] | Some ps \<Rightarrow> ps)"

definition all_builtin :: "string set" where
  "all_builtin = \<Union> (set ` set (map snd BUILTIN_PERMISSIONS))"

definition expand_permissions :: "string set \<Rightarrow> string set" where
  "expand_permissions perms =
     (if ''admin:*'' \<in> perms then all_builtin \<union> perms else perms)"

section \<open>Loading a user's permissions\<close>

definition assignment_rows :: "uuid \<Rightarrow> uuid \<Rightarrow> db \<Rightarrow> (role_assignment \<times> role) list" where
  "assignment_rows uid tid s =
     [(a, r). a \<leftarrow> role_assignments s, ra_user_id a = uid, ra_tenant_id a = tid,
              r \<leftarrow> roles s, ra_role_id a = ro_id r]"

definition assignment_expired :: "time \<Rightarrow> role_assignment \<Rightarrow> bool" where
  "assignment_expired now a =
     (case ra_expires_at a of None \<Rightarrow> False | Some t \<Rightarrow> t < now)"

definition role_permissions :: "role \<Rightarrow> string set" where
  "role_permissions r =
     set (builtin_get (ro_role_type r)) \<union>
     (case ro_permissions r of None \<Rightarrow> {} | Some ps \<Rightarrow> set ps)"

fun collect_permissions ::
  "time \<Rightarrow> (role_assignment \<times> role) list \<Rightarrow> string list \<Rightarrow> string set \<Rightarrow>
   string list \<times> string set" where
  "collect_permissions now [] names perms = (names, perms)"
| "collect_permissions now ((a, r) # rows) names perms =
     (if assignment_expired now a then collect_permissions now rows names perms
      else collect_permissions now rows (names @ [ro_name r]) (perms \<union> role_permissions r))"

definition load_user_permissions ::
  "uuid \<Rightarrow> uuid \<Rightarrow> time \<Rightarrow> (string list \<times> string set) endpoint" where
  "load_user_permissions uid tid now =
     gets (\<lambda>s. let (names, perms) = collect_permissions now (assignment_rows uid tid s) [] {}
               in (names, expand_permissions perms))"

section \<open>Permission checks\<close>

definition is_allowed :: "string set \<Rightarrow> string \<Rightarrow> bool" where
  "is_allowed user_perms required =
     (if required \<in> user_perms then True
      else (let pre = hd (split_char (CHR '':'') required)
            in pre @ '':*'' \<in> user_perms \<or> ''admin:*'' \<in> user_perms))"

text \<open>The test most endpoints write inline: the permission itself or \<open>admin:*\<close>.\<close>

definition has_or_admin :: "string set \<Rightarrow> string \<Rightarrow> bool" where
  "has_or_admin perms p \<longleftrightarrow> p \<in> perms \<or> ''admin:*'' \<in> perms"

definition require_permission :: "string set \<Rightarrow> string \<Rightarrow> unit endpoint" where
  "require_permission perms p =
     guard (is_allowed perms p) (HTTPException 403 (''Permission required: '' @ p))"

definition require_permissions :: "string set \<Rightarrow> string list \<Rightarrow> unit endpoint" where
  "require_permissions perms ps =
     (let missing = filter (\<lambda>p. \<not> is_allowed perms p) ps
      in guard (missing = [])
           (HTTPException 403 (''Permissions required: '' @ str_join '', '' missing)))"

subsection \<open>The interface of a permission check\<close>

locale permission_check =
  fixes grants :: "string set \<Rightarrow> string \<Rightarrow> bool"
  assumes granted_member: "p \<in> perms \<Longrightarrow> grants perms p"
    and granted_admin: "''admin:*'' \<in> perms \<Longrightarrow> grants perms p"
    and granted_mono: "perms \<subseteq> perms' \<Longrightarrow> grants perms p \<Longrightarrow> grants perms' p"
begin

lemma expand_grants_more: "grants perms p \<Longrightarrow> grants (expand_permissions perms) p"
  by (rule granted_mono [of perms]) (auto simp: expand_permissions_def)

lemma none_missing_iff: "filter (\<lambda>p. \<not> grants perms p) ps = [] \<longleftrightarrow> (\<forall>p \<in> set ps. grants perms p)"
  by (simp add: filter_empty_conv)

lemma none_missing_mono:
  "perms \<subseteq> perms' \<Longrightarrow> filter (\<lambda>p. \<not> grants perms p) ps = [] \<Longrightarrow>
   filter (\<lambda>p. \<not> grants perms' p) ps = []"
  by (auto simp: none_missing_iff intro: granted_mono)

lemma admin_misses_none: "''admin:*'' \<in> perms \<Longrightarrow> filter (\<lambda>p. \<not> grants perms p) ps = []"
  by (simp add: none_missing_iff granted_admin)

end

interpretation perm: permission_check is_allowed
  by unfold_locales (auto simp: is_allowed_def Let_def split: if_splits)

interpretation inline_perm: permission_check has_or_admin
  by unfold_locales (auto simp: has_or_admin_def)

section \<open>Scoped assignments\<close>

datatype scope_condition =
    CConnector "string list"
  | CTag "string list"
  | CAttribute "(string \<times> string) list"

record scope_filter =
  sf_operator :: string
  sf_conditions :: "scope_condition list"

text \<open>\<open>assignment.scope_value.get(...)\<close> raises when the assignment has no \<open>scope_value\<close>.\<close>

definition scope_condition_of :: "role_assignment \<Rightarrow> py_error + scope_condition list" where
  "scope_condition_of a =
     (case ra_scope_type a of
        Some SConnector \<Rightarrow>
          (case ra_scope_value a of None \<Rightarrow> Inl AttributeError
           | Some v \<Rightarrow> Inr [CConnector (case sv_connector_ids v of None \<Rightarrow> [] | Some l \<Rightarrow> l)])
      | Some STag \<Rightarrow>
          (case ra_scope_value a of None \<Rightarrow> Inl AttributeError
           | Some v \<Rightarrow> Inr [CTag (case sv_tags v of None \<Rightarrow> [] | Some l \<Rightarrow> l)])
      | Some SAttribute \<Rightarrow>
          (case ra_scope_value a of None \<Rightarrow> Inl AttributeError
           | Some v \<Rightarrow> Inr [CAttribute (case sv_filters v of None \<Rightarrow> [] | Some l \<Rightarrow> l)])
      | _ \<Rightarrow> Inr [])"

fun scope_conditions :: "role_assignment list \<Rightarrow> py_error + scope_condition list" where
  "scope_conditions [] = Inr []"
| "scope_conditions (a # as) =
     (case scope_condition_of a of Inl e \<Rightarrow> Inl e
      | Inr cs \<Rightarrow> (case scope_conditions as of Inl e \<Rightarrow> Inl e | Inr ds \<Rightarrow> Inr (cs @ ds)))"

definition build_scope_filter :: "role_assignment list \<Rightarrow> py_error + scope_filter option" where
  "build_scope_filter assignments =
     (let scoped = filter (\<lambda>a. ra_scope_type a \<noteq> None) assignments
      in if scoped = [] then Inr None
         else (case scope_conditions scoped of
                 Inl e \<Rightarrow> Inl e
               | Inr filters \<Rightarrow>
                   Inr (if filters = [] then None
                        else Some \<lparr> sf_operator = ''OR'', sf_conditions = filters \<rparr>)))"

fun condition_clauses :: "scope_condition \<Rightarrow> string list" where
  "condition_clauses (CConnector ids) =
     [''n.connector_id IN ['' @ str_join '', '' (map (\<lambda>i. [CHR 0x22] @ i @ [CHR 0x22]) ids) @ '']'']"
| "condition_clauses (CTag tags) = map (\<lambda>t. [CHR 0x27] @ t @ [CHR 0x27] @ '' IN n.tags'') tags"
| "condition_clauses (CAttribute fs) =
     map (\<lambda>(k, v). ''n.'' @ k @ '' = '' @ [CHR 0x27] @ v @ [CHR 0x27]) fs"

definition scope_filter_to_cypher :: "scope_filter option \<Rightarrow> string" where
  "scope_filter_to_cypher sf =
     (case sf of
        None \<Rightarrow> ''''
      | Some f \<Rightarrow>
          (let clauses = concat (map condition_clauses (sf_conditions f))
           in if clauses = [] then ''''
              else ''('' @ str_join ('' '' @ sf_operator f @ '' '') clauses @ '')''))"

section \<open>Assigning a built-in role\<close>

definition assign_builtin_role :: "uuid \<Rightarrow> uuid \<Rightarrow> string \<Rightarrow> time \<Rightarrow> unit endpoint" where
  "assign_builtin_role uid tid name now =
     bnd (select_one roles (\<lambda>r. ro_tenant_id r = tid \<and> ro_name r = name)) (\<lambda>found.
     bnd (case found of
            Some r \<Rightarrow> ret r
          | None \<Rightarrow>
              bnd fresh (\<lambda>i.
                let r = \<lparr> ro_id = i, ro_tenant_id = tid, ro_name = name,
                          ro_role_type = (if name \<in> {''admin'', ''analyst'', ''viewer'', ''agent''}
                                          then name else ''custom''),
                          ro_description = None, ro_permissions = Some (builtin_get name),
                          ro_is_system = True, ro_created_at = now \<rparr>
                in thn (modify (\<lambda>s. s\<lparr>roles := roles s @ [r]\<rparr>)) (thn flush (ret r))))
         (\<lambda>role.
     bnd (select_one role_assignments (\<lambda>a. ra_user_id a = uid \<and> ra_role_id a = ro_id role))
         (\<lambda>existing.
     if existing = None then
       bnd fresh (\<lambda>i.
         thn (modify (\<lambda>s. s\<lparr>role_assignments := role_assignments s @
                            [new_role_assignment i now tid uid (ro_id role)]\<rparr>))
             flush)
     else ret ())))"


section \<open>Properties of loading and checking\<close>

text \<open>\<open>grants_role now s uid tid p\<close>: a live assignment of the user in the tenant carries \<open>p\<close>.\<close>

definition grants_role :: "time \<Rightarrow> db \<Rightarrow> uuid \<Rightarrow> uuid \<Rightarrow> string \<Rightarrow> bool" where
  "grants_role now s uid tid p \<longleftrightarrow>
     (\<exists>a \<in> set (role_assignments s). \<exists>r \<in> set (roles s).
        ra_user_id a = uid \<and> ra_tenant_id a = tid \<and> ra_role_id a = ro_id r \<and>
        \<not> assignment_expired now a \<and> p \<in> role_permissions r)"

lemma set_assignment_rows:
  "(a, r) \<in> set (assignment_rows uid tid s) \<longleftrightarrow>
     a \<in> set (role_assignments s) \<and> r \<in> set (roles s) \<and>
     ra_user_id a = uid \<and> ra_tenant_id a = tid \<and> ra_role_id a = ro_id r"
  by (auto simp: assignment_rows_def)

lemma assignment_rows_cong:
  "role_assignments s' = role_assignments s \<Longrightarrow> roles s' = roles s \<Longrightarrow>
   assignment_rows uid tid s' = assignment_rows uid tid s"
  by (simp only: assignment_rows_def)

lemma collect_permissions_eq:
  "collect_permissions now rows names perms =
     (names @ map (ro_name \<circ> snd) (filter (\<lambda>(a, r). \<not> assignment_expired now a) rows),
      perms \<union> (\<Union>(a, r) \<in> set rows. if assignment_expired now a then {} else role_permissions r))"
  by (induction now rows names perms rule: collect_permissions.induct) auto

lemma collected_iff_grants:
  "p \<in> snd (collect_permissions now (assignment_rows uid tid s) [] {}) \<longleftrightarrow>
   grants_role now s uid tid p"
  by (fastforce simp: collect_permissions_eq set_assignment_rows grants_role_def split: if_splits)

lemma load_user_permissions_run:
  "load_user_permissions uid tid now s =
     (Inr (fst (collect_permissions now (assignment_rows uid tid s) [] {}),
           expand_permissions (snd (collect_permissions now (assignment_rows uid tid s) [] {}))), s)"
  by (simp add: load_user_permissions_def Let_def split: prod.split)

lemma preserves_load_user_permissions [preserves_intros]:
  "preserves I (load_user_permissions uid tid now)"
  by (simp add: load_user_permissions_def preserves_gets)

lemma expand_member:
  "p \<in> expand_permissions P \<longleftrightarrow> p \<in> P \<or> ''admin:*'' \<in> P \<and> p \<in> all_builtin"
  by (auto simp: expand_permissions_def)

section \<open>Properties of role assignment\<close>

lemma assign_builtin_role_found:
  assumes "filter (\<lambda>r. ro_tenant_id r = tid \<and> ro_name r = name) (roles s) = [r]"
    and "filter (\<lambda>a. ra_user_id a = uid \<and> ra_role_id a = ro_id r) (role_assignments s) = [a]"
  shows "assign_builtin_role uid tid name now s = (Inr (), s)"
  using assms by (simp add: assign_builtin_role_def)

lemma assign_builtin_role_leaves:
  assumes "assign_builtin_role uid tid name now s = (Inr (), s')"
  obtains r a where
    "filter (\<lambda>r. ro_tenant_id r = tid \<and> ro_name r = name) (roles s') = [r]"
    "filter (\<lambda>a. ra_user_id a = uid \<and> ra_role_id a = ro_id r) (role_assignments s') = [a]"
  using assms
  by (auto simp: assign_builtin_role_def new_role_assignment_def Let_def
      dest!: scalar_one_or_none_SomeD scalar_one_or_none_NoneD split: handler_splits)

lemma preserves_assign_builtin_role:
  assumes "\<And>s f. I s \<Longrightarrow> I (s\<lparr>roles := f (roles s)\<rparr>)"
    and "\<And>s f. I s \<Longrightarrow> I (s\<lparr>role_assignments := f (role_assignments s)\<rparr>)"
    and "\<And>s n. I s \<Longrightarrow> I (s\<lparr>next_uuid := n\<rparr>)"
  shows "preserves I (assign_builtin_role uid tid name now)"
proof -
  have fresh: "preserves I fresh"
    by (rule preservesI) (simp add: assms(3))
  have add_role: "preserves I (modify (\<lambda>s. s\<lparr>roles := roles s @ [r]\<rparr>))" for r
    by (rule preserves_modify) (rule assms(1))
  have add_assignment:
    "preserves I (modify (\<lambda>s. s\<lparr>role_assignments := role_assignments s @ [a]\<rparr>))" for a
    by (rule preserves_modify) (rule assms(2))
  show ?thesis
    unfolding assign_builtin_role_def Let_def
    by (intro preserves_intros fresh add_role add_assignment)
qed

section \<open>Scope filters\<close>

text \<open>An assignment that restricts nothing once it is turned into Cypher.\<close>

definition unrestricting :: "role_assignment \<Rightarrow> bool" where
  "unrestricting a \<longleftrightarrow>
     (case scope_condition_of a of Inl e \<Rightarrow> False
      | Inr cs \<Rightarrow> concat (map condition_clauses cs) = [])"

lemma scope_conditions_concat:
  "scope_conditions as = Inr cs \<Longrightarrow>
   concat (map condition_clauses cs) = [] \<longleftrightarrow> (\<forall>a \<in> set as. unrestricting a)"
proof (induction as arbitrary: cs)
  case (Cons a as)
  then show ?case by (auto simp: unrestricting_def split: sum.splits)
qed simp

lemma unscoped_unrestricting: "ra_scope_type a = None \<Longrightarrow> unrestricting a"
  by (simp add: unrestricting_def scope_condition_of_def)

lemma scope_filter_to_cypher_empty:
  "scope_filter_to_cypher (Some f) = '''' \<longleftrightarrow>
   concat (map condition_clauses (sf_conditions f)) = []"
  by (simp add: scope_filter_to_cypher_def Let_def)

section \<open>The component's properties\<close>

text \<open>C9: Loading a user's permissions in a tenant returns exactly the permissions that some
  unexpired role assignment of that user in that tenant carries, through its built-in role type or
  the role's own list, and, for an administrator, every built-in permission besides; no other
  user's, tenant's or expired assignment has any influence, and the database is only read.\<close>

theorem load_user_permissions_exact:
  "\<exists>names perms. load_user_permissions uid tid now s = (Inr (names, perms), s) \<and>
     (\<forall>p. p \<in> perms \<longleftrightarrow>
        grants_role now s uid tid p \<or>
        grants_role now s uid tid ''admin:*'' \<and> p \<in> all_builtin)"
  by (simp add: load_user_permissions_run expand_member collected_iff_grants)

text \<open>A user with a live assignment that carries \<open>admin:*\<close> passes every
  \<open>require_permissions\<close> check of the tenant, whatever permissions the endpoint lists.\<close>

theorem admin_assignment_passes:
  assumes "grants_role now s uid tid ''admin:*''"
  shows "\<exists>names perms. load_user_permissions uid tid now s = (Inr (names, perms), s) \<and>
           require_permissions perms ps s = (Inr (), s)"
  using assms
  by (simp add: load_user_permissions_run require_permissions_def perm.admin_misses_none
      expand_member collected_iff_grants)

text \<open>A tenant (1) whose user 7 is its administrator, for the closed instances.\<close>

definition example_admin_db :: db where
  "example_admin_db = empty_db\<lparr>
     roles := [\<lparr>ro_id = 3, ro_tenant_id = 1, ro_name = ''admin'', ro_role_type = ''admin'',
                ro_description = None, ro_permissions = None, ro_is_system = True,
                ro_created_at = 0\<rparr>],
     role_assignments := [new_role_assignment 4 0 1 7 3]\<rparr>"

lemma example_admin_grants: "grants_role now example_admin_db 7 1 ''admin:*''"
  by (simp add: example_admin_db_def grants_role_def new_role_assignment_def
      assignment_expired_def role_permissions_def builtin_get_def BUILTIN_PERMISSIONS_def)

theorem admin_assignment_passes_witness:
  "\<exists>names perms.
     load_user_permissions 7 1 0 example_admin_db = (Inr (names, perms), example_admin_db) \<and>
     require_permissions perms [''roles:write'', ''mounts:write''] example_admin_db =
       (Inr (), example_admin_db)"
  by (rule admin_assignment_passes [OF example_admin_grants])

text \<open>Assigning a built-in role leaves exactly one role of that name in the tenant and exactly
  one assignment of it to the user, so assigning it again, at any later time, changes nothing.\<close>

theorem assign_builtin_role_idempotent:
  assumes "assign_builtin_role uid tid name now s = (Inr (), s')"
  shows "\<exists>r a. filter (\<lambda>r. ro_tenant_id r = tid \<and> ro_name r = name) (roles s') = [r] \<and>
           filter (\<lambda>a. ra_user_id a = uid \<and> ra_role_id a = ro_id r) (role_assignments s') = [a] \<and>
           assign_builtin_role uid tid name later s' = (Inr (), s')"
proof -
  from assms obtain r a where
    "filter (\<lambda>r. ro_tenant_id r = tid \<and> ro_name r = name) (roles s') = [r]"
    "filter (\<lambda>a. ra_user_id a = uid \<and> ra_role_id a = ro_id r) (role_assignments s') = [a]"
    by (rule assign_builtin_role_leaves)
  then show ?thesis using assign_builtin_role_found by blast
qed

theorem assign_builtin_role_idempotent_witness:
  "\<exists>s'. assign_builtin_role 7 1 ''viewer'' 0 empty_db = (Inr (), s') \<and>
     (\<exists>r a. filter (\<lambda>r. ro_tenant_id r = 1 \<and> ro_name r = ''viewer'') (roles s') = [r] \<and>
        filter (\<lambda>a. ra_user_id a = 7 \<and> ra_role_id a = ro_id r) (role_assignments s') = [a] \<and>
        assign_builtin_role 7 1 ''viewer'' 60 s' = (Inr (), s'))"
proof -
  have "fst (assign_builtin_role 7 1 ''viewer'' 0 empty_db) = Inr ()"
    by code_simp
  then have "assign_builtin_role 7 1 ''viewer'' 0 empty_db =
      (Inr (), snd (assign_builtin_role 7 1 ''viewer'' 0 empty_db))"
    by (metis prod.collapse)
  from assign_builtin_role_idempotent [OF this] this show ?thesis by blast
qed

text \<open>A user whose only assignment of a built-in role has expired does not get the role back by
  being assigned it again: the call succeeds, changes nothing, and the role's permissions stay
  ungranted.\<close>

theorem expired_assignment_not_renewed:
  assumes "filter (\<lambda>r. ro_tenant_id r = tid \<and> ro_name r = name) (roles s) = [r]"
    and "filter (\<lambda>a. ra_user_id a = uid) (role_assignments s) = [a]"
    and "ra_role_id a = ro_id r" and "assignment_expired now a"
  shows "assign_builtin_role uid tid name now s = (Inr (), s) \<and> \<not> grants_role now s uid tid p"
proof
  have "filter (\<lambda>a. ra_user_id a = uid \<and> ra_role_id a = ro_id r) (role_assignments s) =
        filter (\<lambda>a. ra_role_id a = ro_id r) (filter (\<lambda>a. ra_user_id a = uid) (role_assignments s))"
    by (simp add: conj_commute)
  also have "\<dots> = [a]" using assms(2,3) by simp
  finally show "assign_builtin_role uid tid name now s = (Inr (), s)"
    using assms(1) by (rule assign_builtin_role_found [rotated])
  have "b = a" if "b \<in> set (role_assignments s)" "ra_user_id b = uid" for b
  proof -
    have "b \<in> set (filter (\<lambda>a. ra_user_id a = uid) (role_assignments s))" using that by simp
    then show ?thesis using assms(2) by simp
  qed
  then show "\<not> grants_role now s uid tid p"
    using assms(4) by (auto simp: grants_role_def)
qed

theorem expired_assignment_not_renewed_witness:
  "let s = example_admin_db\<lparr>role_assignments :=
             [(new_role_assignment 4 0 1 7 3)\<lparr>ra_expires_at := Some 10\<rparr>]\<rparr>
   in assign_builtin_role 7 1 ''admin'' 20 s = (Inr (), s) \<and> \<not> grants_role 20 s 7 1 ''graph:read''"
  unfolding Let_def
  by (rule expired_assignment_not_renewed)
    (simp add: example_admin_db_def new_role_assignment_def assignment_expired_def)+

text \<open>The Cypher fragment of a user's scoped assignments is empty, that is, it restricts
  nothing, exactly when every assignment is unscoped, of an unknown scope type, or a tag or
  attribute scope without any tag or attribute.\<close>

theorem scope_unrestricted_iff:
  assumes "build_scope_filter assignments = Inr f"
  shows "scope_filter_to_cypher f = '''' \<longleftrightarrow> (\<forall>a \<in> set assignments. unrestricting a)"
proof -
  let ?scoped = "filter (\<lambda>a. ra_scope_type a \<noteq> None) assignments"
  have all: "(\<forall>a \<in> set assignments. unrestricting a) \<longleftrightarrow> (\<forall>a \<in> set ?scoped. unrestricting a)"
    using unscoped_unrestricting by auto
  show ?thesis
  proof (cases "?scoped = []")
    case True
    with assms have "f = None" by (simp add: build_scope_filter_def)
    moreover have "\<forall>a \<in> set ?scoped. unrestricting a" unfolding True by simp
    ultimately show ?thesis using all by (simp add: scope_filter_to_cypher_def)
  next
    case False
    with assms obtain cs where cs: "scope_conditions ?scoped = Inr cs"
      and f: "f = (if cs = [] then None else Some \<lparr> sf_operator = ''OR'', sf_conditions = cs \<rparr>)"
      by (auto simp: build_scope_filter_def Let_def split: sum.splits)
    have "scope_filter_to_cypher f = '''' \<longleftrightarrow> concat (map condition_clauses cs) = []"
      using f by (auto simp: scope_filter_to_cypher_def)
    with scope_conditions_concat [OF cs] all show ?thesis by simp
  qed
qed

theorem scope_unrestricted_iff_witness:
  "let a = (new_role_assignment 4 0 1 7 3)\<lparr>ra_scope_type := Some STag,
             ra_scope_value := Some \<lparr>sv_connector_ids = None, sv_tags = Some [''prod''], sv_filters = None\<rparr>\<rparr>;
       f = Some \<lparr>sf_operator = ''OR'', sf_conditions = [CTag [''prod'']]\<rparr>
   in build_scope_filter [a] = Inr f \<and>
      (scope_filter_to_cypher f = '''' \<longleftrightarrow> (\<forall>a \<in> set [a]. unrestricting a))"
proof -
  define a where "a = (new_role_assignment 4 0 1 7 3)\<lparr>ra_scope_type := Some STag,
      ra_scope_value := Some \<lparr>sv_connector_ids = None, sv_tags = Some [''prod''], sv_filters = None\<rparr>\<rparr>"
  have "build_scope_filter [a] =
      Inr (Some \<lparr>sf_operator = ''OR'', sf_conditions = [CTag [''prod'']]\<rparr>)"
    by (simp add: a_def build_scope_filter_def scope_condition_of_def)
  from this scope_unrestricted_iff [OF this] show ?thesis
    by (simp only: Let_def a_def [symmetric] simp_thms)
qed

end
