(* ===== verification/Oidc.thy ===== *)
theory Oidc
  imports Rbac
begin

text \<open>
  \<open>auth/oidc.py\<close>: the bearer token of a request becomes an \<open>AuthContext\<close>. A token is validated
  either with the local signing secret (tokens of \<open>auth/local.py\<close>) or with the keys of the tenant's
  identity provider, fetched through the JWKS cache of the process; the OIDC path creates the user
  on the first login.

  The token libraries, the password hash, the one-time codes and HTTP are the fields of
  \<open>auth_env\<close>; so are the environment variables. The text of a UUID is its decimal \<open>nat_str\<close>; the
  UUID 0, which no row has, stands for a text that is none (such as the empty string).
\<close>

section \<open>The environment\<close>

datatype key_result = KeyClaims py_dict | KeyJWTError string | KeyOtherError py_error

record auth_env =
  env_JWT_SECRET :: "string option"
  env_random_secret :: string
  env_APP_URL :: "string option"
  JWT_EXPIRY_H :: int
  sha256_hex :: "string \<Rightarrow> string"
  bcrypt_hashpw :: "string \<Rightarrow> string \<Rightarrow> string"
  bcrypt_checkpw :: "string \<Rightarrow> string \<Rightarrow> bool option"
  totp_verify :: "string \<Rightarrow> string \<Rightarrow> time \<Rightarrow> bool"
  jwt_encode :: "py_dict \<Rightarrow> string \<Rightarrow> string"
  jose_unverified :: "string \<Rightarrow> py_dict option"
  jose_decode_hs256 :: "string \<Rightarrow> string \<Rightarrow> time \<Rightarrow> py_dict option"
  jose_decode_key :: "json \<Rightarrow> string \<Rightarrow> string \<Rightarrow> time \<Rightarrow> key_result"
  http_get_json :: "string \<Rightarrow> py_error + py_dict"
  str_of_json :: "json \<Rightarrow> string"

definition APP_URL :: "auth_env \<Rightarrow> string" where
  "APP_URL env = (case env_APP_URL env of None \<Rightarrow> ''https://app.dgraph.ai'' | Some u \<Rightarrow> u)"

record auth_context =
  ac_user_id :: uuid
  ac_tenant_id :: uuid
  ac_email :: json
  ac_roles :: "string list"
  ac_permissions :: "string set"

section \<open>UUID texts and claims\<close>

definition uuid_str :: "uuid \<Rightarrow> string" where
  "uuid_str i = nat_str i"

definition parse_uuid :: "string \<Rightarrow> uuid option" where
  "parse_uuid s = (if s = nat_str (digits_val s) then Some (digits_val s) else None)"

lemma parse_uuid_str [simp]: "parse_uuid (uuid_str i) = Some i"
  by (simp add: parse_uuid_def uuid_str_def digits_val_nat_str)

text \<open>A claim compared with a UUID column: \<open>None\<close> matches no row, a text must be a UUID.\<close>

definition claim_uuid :: "json option \<Rightarrow> py_error + uuid option" where
  "claim_uuid v =
     (case v of
        None \<Rightarrow> Inr None
      | Some JNull \<Rightarrow> Inr None
      | Some (JStr t) \<Rightarrow>
          (case parse_uuid t of None \<Rightarrow> Inl (OtherError ''DBAPIError'') | Some i \<Rightarrow> Inr (Some i))
      | Some _ \<Rightarrow> Inl (OtherError ''DBAPIError''))"

text \<open>\<open>str(v)\<close>; the representation of floats, lists and objects is a parameter.\<close>

definition json_str :: "auth_env \<Rightarrow> json \<Rightarrow> string" where
  "json_str env v =
     (case v of JStr s \<Rightarrow> s | JInt i \<Rightarrow> int_str i | JNull \<Rightarrow> ''None''
      | JBool b \<Rightarrow> if b then ''True'' else ''False'' | _ \<Rightarrow> str_of_json env v)"

definition extract_claim ::
  "auth_env \<Rightarrow> py_dict \<Rightarrow> (string \<times> string) list \<Rightarrow> string \<Rightarrow> string \<Rightarrow> string" where
  "extract_claim env claims mapping fld dflt =
     (let claim_key = (case map_of mapping fld of None \<Rightarrow> fld | Some k \<Rightarrow> k)
      in json_str env (dict_get_or claims claim_key (JStr dflt)))"

section \<open>The JWKS cache\<close>

definition JWKS_TTL :: time where
  "JWKS_TTL = seconds 3600"

record jwks_entry =
  jw_keys :: json
  jw_fetched_at :: time

type_synonym jwks_cache = "(string \<times> jwks_entry) list"

definition rstrip_slash :: "string \<Rightarrow> string" where
  "rstrip_slash s = rev (dropWhile ((=) (CHR ''/'')) (rev s))"

text \<open>The value under \<open>keys\<close> is taken as it is; only the loop over it needs something iterable.\<close>

definition fetch_jwks :: "auth_env \<Rightarrow> string \<Rightarrow> py_error + json" where
  "fetch_jwks env issuer_url =
     (case http_get_json env (rstrip_slash issuer_url @ ''/.well-known/openid-configuration'') of
        Inl e \<Rightarrow> Inl e
      | Inr disc \<Rightarrow>
          (case dict_get disc ''jwks_uri'' of
             Some (JStr uri) \<Rightarrow>
               (case http_get_json env uri of
                  Inl e \<Rightarrow> Inl e
                | Inr resp \<Rightarrow>
                    (case dict_get resp ''keys'' of
                       Some keys \<Rightarrow> Inr keys
                     | None \<Rightarrow> Inl (KeyError ''keys'')))
           | Some _ \<Rightarrow> Inl TypeError
           | None \<Rightarrow> Inl (KeyError ''jwks_uri'')))"

definition get_jwks :: "auth_env \<Rightarrow> time \<Rightarrow> string \<Rightarrow> (jwks_cache, json) handler" where
  "get_jwks env now issuer_url = (\<lambda>cache.
     let fetch = (case fetch_jwks env issuer_url of
                    Inl e \<Rightarrow> (Inl e, cache)
                  | Inr keys \<Rightarrow> (Inr keys,
                      dict_set issuer_url \<lparr>jw_keys = keys, jw_fetched_at = now\<rparr> cache))
     in case map_of cache issuer_url of
          Some c \<Rightarrow> if now - jw_fetched_at c < JWKS_TTL then (Inr (jw_keys c), cache) else fetch
        | None \<Rightarrow> fetch)"

fun try_keys :: "auth_env \<Rightarrow> time \<Rightarrow> string \<Rightarrow> string \<Rightarrow> string \<Rightarrow> json list \<Rightarrow> py_error + py_dict" where
  "try_keys env now token client err [] =
     Inl (HTTPException 401 (''Token validation failed: '' @ err))"
| "try_keys env now token client err (k # ks) =
     (case jose_decode_key env k token client now of
        KeyClaims claims \<Rightarrow> Inr claims
      | KeyJWTError e \<Rightarrow> try_keys env now token client e ks
      | KeyOtherError e \<Rightarrow> Inl e)"

definition validate_token ::
  "auth_env \<Rightarrow> time \<Rightarrow> string \<Rightarrow> oidc_config \<Rightarrow> (jwks_cache, py_dict) handler" where
  "validate_token env now token cfg =
     bnd (get_jwks env now (oc_issuer_url cfg)) (\<lambda>keys.
     bnd (lift_err (json_iter keys)) (\<lambda>ks.
       lift_err (try_keys env now token (oc_client_id cfg) ''None'' ks)))"

section \<open>The request's context\<close>

type_synonym auth_state = "db \<times> jwks_cache"

definition on_db :: "'a endpoint \<Rightarrow> (auth_state, 'a) handler" where
  "on_db m = (\<lambda>(s, c). case m s of (r, s') \<Rightarrow> (r, (s', c)))"

definition on_cache :: "(jwks_cache, 'a) handler \<Rightarrow> (auth_state, 'a) handler" where
  "on_cache m = (\<lambda>(s, c). case m c of (r, c') \<Rightarrow> (r, (s, c')))"

lemma run_on_db [simp]: "on_db m (s, c) = (fst (m s), (snd (m s), c))"
  by (simp add: on_db_def split: prod.split)

lemma run_on_cache [simp]: "on_cache m (s, c) = (fst (m c), (s, snd (m c)))"
  by (simp add: on_cache_def split: prod.split)

definition select_id :: "(db \<Rightarrow> 'r list) \<Rightarrow> ('r \<Rightarrow> uuid) \<Rightarrow> json option \<Rightarrow> 'r option endpoint" where
  "select_id table key v =
     bnd (lift_err (claim_uuid v)) (\<lambda>i.
       gets (\<lambda>s. first_row (filter (\<lambda>r. Some (key r) = i) (table s))))"

definition sub_user_id :: "py_dict \<Rightarrow> uuid" where
  "sub_user_id claims =
     (case dict_get claims ''sub'' of
        Some (JStr t) \<Rightarrow> (case parse_uuid t of None \<Rightarrow> 0 | Some i \<Rightarrow> i)
      | _ \<Rightarrow> 0)"

definition local_context ::
  "auth_env \<Rightarrow> time \<Rightarrow> string \<Rightarrow> auth_context endpoint" where
  "local_context env now token =
     (let jwt_secret = (case env_JWT_SECRET env of None \<Rightarrow> '''' | Some x \<Rightarrow> x) in
      if jwt_secret = '''' then raise (HTTPException 401 ''JWT not configured'')
      else (case jose_decode_hs256 env token jwt_secret now of
        None \<Rightarrow> raise (HTTPException 401 ''Invalid local token'')
      | Some claims \<Rightarrow>
          bnd (select_id tenants tn_id (dict_get claims ''tenant_id'')) (\<lambda>tenant.
          case tenant of
            None \<Rightarrow> raise (HTTPException 401 ''Tenant not found'')
          | Some t \<Rightarrow>
              bnd (select_id users us_id (dict_get claims ''sub'')) (\<lambda>user.
              bnd (py_try (load_user_permissions (sub_user_id claims) (tn_id t) now)
                          (\<lambda>e. ret ([], {}))) (\<lambda>(names, perms).
              ret \<lparr> ac_user_id = sub_user_id claims, ac_tenant_id = tn_id t,
                    ac_email = dict_get_or claims ''email'' (JStr ''''),
                    ac_roles = names, ac_permissions = perms \<rparr>)))))"

definition find_oidc_config :: "string \<Rightarrow> db \<Rightarrow> oidc_config option" where
  "find_oidc_config issuer s =
     first_row (filter (\<lambda>c. oc_issuer_url c = issuer \<and> oc_is_active c \<and>
       (\<exists>t \<in> set (tenants s). tn_id t = oc_tenant_id c \<and> tn_is_active t)) (oidc_configs s))"

text \<open>The user row of a validated identity: created on the first login, refreshed afterwards.\<close>

definition put_user :: "user \<Rightarrow> db \<Rightarrow> db" where
  "put_user u s = s\<lparr>users := put_row us_id u (users s)\<rparr>"

definition upsert_user ::
  "time \<Rightarrow> oidc_config \<Rightarrow> string \<Rightarrow> string \<Rightarrow> string \<Rightarrow> user endpoint" where
  "upsert_user now cfg email name external_id =
     bnd (select_one users (\<lambda>u. us_tenant_id u = oc_tenant_id cfg \<and>
                                us_external_id u = Some external_id)) (\<lambda>found.
     case found of
       None \<Rightarrow>
         bnd fresh (\<lambda>i.
           let u = (new_user i now (oc_tenant_id cfg) email)
                     \<lparr>us_display_name := Some name, us_external_id := Some external_id,
                      us_idp_provider := Some (oc_provider_name cfg)\<rparr>
           in thn (modify (\<lambda>s. s\<lparr>users := users s @ [u]\<rparr>)) (thn flush (ret u)))
     | Some u \<Rightarrow>
         let u' = u\<lparr>us_last_login := Some now,
                    us_display_name := (if name = '''' then us_display_name u else Some name)\<rparr>
         in thn (modify (put_user u')) (ret u'))"

text \<open>
  A claim compared with a text column. (The token library refuses a token whose \<open>sub\<close> is present
  and not a string.)
\<close>

definition claim_text :: "json \<Rightarrow> py_error + string" where
  "claim_text v = (case v of JStr t \<Rightarrow> Inr t | _ \<Rightarrow> Inl (OtherError ''DBAPIError''))"

definition oidc_identity ::
  "auth_env \<Rightarrow> time \<Rightarrow> oidc_config \<Rightarrow> py_dict \<Rightarrow> auth_context endpoint" where
  "oidc_identity env now cfg claims =
     (let mapping = oc_claim_mapping cfg;
          email = extract_claim env claims mapping ''email'' '''';
          name = extract_claim env claims mapping ''name'' email
      in if email = '''' then raise (HTTPException 401 ''Email claim missing'')
         else bnd (lift_err (claim_text (dict_get_or claims ''sub'' (JStr '''')))) (\<lambda>external_id.
              bnd (upsert_user now cfg email name external_id) (\<lambda>u.
              bnd (load_user_permissions (us_id u) (oc_tenant_id cfg) now) (\<lambda>(names, perms).
              ret \<lparr> ac_user_id = us_id u, ac_tenant_id = oc_tenant_id cfg, ac_email = JStr email,
                    ac_roles = names, ac_permissions = perms \<rparr>))))"

definition oidc_context ::
  "auth_env \<Rightarrow> time \<Rightarrow> string \<Rightarrow> json \<Rightarrow> (auth_state, auth_context) handler" where
  "oidc_context env now token issuer =
     bnd (lift_err (claim_text issuer)) (\<lambda>url.
     bnd (on_db (gets (find_oidc_config url))) (\<lambda>cfg.
     case cfg of
       None \<Rightarrow> raise (HTTPException 401 ''No active tenant configured for this identity provider'')
     | Some c \<Rightarrow> bnd (on_cache (validate_token env now token c)) (\<lambda>claims.
                 on_db (oidc_identity env now c claims))))"

definition get_auth_context ::
  "auth_env \<Rightarrow> time \<Rightarrow> string option \<Rightarrow> (auth_state, auth_context) handler" where
  "get_auth_context env now credentials =
     (case credentials of
        None \<Rightarrow> raise (HTTPException 401 ''Authorization header required'')
      | Some token \<Rightarrow>
          (case jose_unverified env token of
             None \<Rightarrow> raise (HTTPException 401 ''Invalid token'')
           | Some unverified \<Rightarrow>
               (let issuer = dict_get_or unverified ''iss'' (JStr '''');
                    auth_type = dict_get_or unverified ''auth_type'' (JStr '''')
                in if auth_type = JStr ''local'' \<or> truthy issuer \<and> issuer = JStr (APP_URL env)
                   then on_db (local_context env now token)
                   else if \<not> truthy issuer then raise (HTTPException 401 ''Missing issuer claim'')
                   else oidc_context env now token issuer)))"

section \<open>Lemmas\<close>

lemma json_str_JStr [simp]: "json_str env (JStr t) = t"
  by (simp add: json_str_def)

lemma get_jwks_cases:
  obtains (hit) e where "map_of c url = Some e" "now - jw_fetched_at e < JWKS_TTL"
      "get_jwks env now url c = (Inr (jw_keys e), c)"
  | (miss) "\<And>e. map_of c url = Some e \<Longrightarrow> \<not> now - jw_fetched_at e < JWKS_TTL"
      "get_jwks env now url c =
         (case fetch_jwks env url of Inl e \<Rightarrow> (Inl e, c)
          | Inr keys \<Rightarrow> (Inr keys, dict_set url \<lparr>jw_keys = keys, jw_fetched_at = now\<rparr> c))"
  by (cases "map_of c url"; fastforce simp: get_jwks_def Let_def)

lemma upsert_user_leaves:
  assumes "upsert_user now cfg email name ext s = (Inr u, s')" and "unique_by us_id (users s)"
  shows "filter (\<lambda>u. us_tenant_id u = oc_tenant_id cfg \<and> us_external_id u = Some ext) (users s') = [u]"
    (is "filter ?p _ = _")
proof -
  consider "filter ?p (users s) = []" | v where "filter ?p (users s) = [v]"
    using assms(1) by (cases "filter ?p (users s)" rule: list.exhaust)
      (auto simp: upsert_user_def scalar_one_or_none_def split: list.splits)
  then show ?thesis
  proof cases
    case 1
    then show ?thesis
      using assms(1) by (auto simp: upsert_user_def Let_def new_user_def split: if_splits)
  next
    case 2
    then have v: "?p v" "v \<in> set (users s)"
      using filter_eq_singleD [OF 2] by auto
    from 2 assms(1) have u: "u = v\<lparr>us_last_login := Some now,
        us_display_name := (if name = '''' then us_display_name v else Some name)\<rparr>"
      and s': "s' = put_user u s"
      by (auto simp: upsert_user_def Let_def)
    have "filter ?p (put_row us_id u (users s)) = [u]"
      using assms(2) 2 v u by (intro filter_put_row_one [of us_id _ _ v]) auto
    then show ?thesis using s' by (simp add: put_user_def)
  qed
qed

lemma select_id_run:
  "select_id table key v s =
     (case claim_uuid v of Inl e \<Rightarrow> (Inl e, s)
      | Inr i \<Rightarrow> (Inr (first_row (filter (\<lambda>r. Some (key r) = i) (table s))), s))"
  by (simp add: select_id_def split: sum.split)

definition deactivate_tenant :: "tenant \<Rightarrow> tenant" where
  "deactivate_tenant t = t\<lparr>tn_is_active := False\<rparr>"

lemma first_row_deactivated:
  "first_row (filter (\<lambda>t. Some (tn_id t) = i) (map deactivate_tenant ts)) =
   map_option deactivate_tenant (first_row (filter (\<lambda>t. Some (tn_id t) = i) ts))"
  by (induction ts) (auto simp: deactivate_tenant_def)

lemma deactivated_id [simp]: "tn_id (deactivate_tenant t) = tn_id t"
  by (simp add: deactivate_tenant_def)

section \<open>Properties\<close>

text \<open>C39: After a successful JWKS lookup the cache has an entry for the issuer with the keys that
  were returned. If there was an entry less than an hour old, it is that one and the cache is as before;
  if not, the provider was asked, the keys are its answer, and the entry bears the time of the lookup.
  Until the entry is an hour old every lookup returns these keys without asking the provider and without
  touching the cache, and from then on the provider is asked again; the entries of the other issuers
  stay as they were.\<close>

theorem jwks_cache_correct:
  assumes "get_jwks env now url c = (Inr keys, c')"
  shows "\<exists>e. map_of c' url = Some e \<and> jw_keys e = keys \<and>
     (if \<exists>e0. map_of c url = Some e0 \<and> now < jw_fetched_at e0 + seconds 3600
      then c' = c
      else fetch_jwks env url = Inr keys \<and> jw_fetched_at e = now) \<and>
     (\<forall>env' later. if later < jw_fetched_at e + seconds 3600
        then get_jwks env' later url c' = (Inr keys, c')
        else fst (get_jwks env' later url c') = fetch_jwks env' url) \<and>
     (\<forall>u. u = url \<or> map_of c' u = map_of c u)"
proof -
  obtain e where e: "map_of c' url = Some e" "jw_keys e = keys"
    and made: "if \<exists>e0. map_of c url = Some e0 \<and> now < jw_fetched_at e0 + seconds 3600
      then c' = c else fetch_jwks env url = Inr keys \<and> jw_fetched_at e = now"
  proof (cases rule: get_jwks_cases [of c url now env])
    case (hit e)
    with assms show ?thesis by (intro that [of e]) (auto simp: JWKS_TTL_def)
  next
    case miss
    with assms have "fetch_jwks env url = Inr keys"
      "c' = dict_set url \<lparr>jw_keys = keys, jw_fetched_at = now\<rparr> c"
      by (auto split: sum.splits)
    with miss(1) show ?thesis
      by (intro that [of "\<lparr>jw_keys = keys, jw_fetched_at = now\<rparr>"]) (auto simp: map_of_dict_set JWKS_TTL_def)
  qed
  have rest: "u = url \<or> map_of c' u = map_of c u" for u
    by (cases rule: get_jwks_cases [of c url now env])
      (use assms in \<open>auto simp: map_of_dict_set split: sum.splits\<close>)
  have "if later < jw_fetched_at e + seconds 3600 then get_jwks env' later url c' = (Inr keys, c')
        else fst (get_jwks env' later url c') = fetch_jwks env' url" for env' later
    using e by (auto simp: get_jwks_def Let_def JWKS_TTL_def split: sum.splits)
  with e made rest show ?thesis by (intro exI [of _ e] conjI allI)
qed

definition example_env :: auth_env where
  "example_env =
     \<lparr> env_JWT_SECRET = Some ''secret'', env_random_secret = ''r'', env_APP_URL = None,
       JWT_EXPIRY_H = 24, sha256_hex = (\<lambda>t. ''h'' @ t), bcrypt_hashpw = (\<lambda>pw salt. pw),
       bcrypt_checkpw = (\<lambda>pw h. Some (h = pw)),
       totp_verify = (\<lambda>secret code now. code = ''123456''),
       jwt_encode = (\<lambda>c k. ''token''), jose_unverified = (\<lambda>t. Some []),
       jose_decode_hs256 = (\<lambda>t k now. Some [(''sub'', JStr ''7''), (''tenant_id'', JStr ''1'')]),
       jose_decode_key = (\<lambda>k t a now. KeyClaims [(''sub'', JStr ''ext-1''), (''email'', JStr ''a@x.io'')]),
       http_get_json = (\<lambda>u. Inr [(''jwks_uri'', JStr ''k''), (''keys'', JArr [JInt 1])]),
       str_of_json = (\<lambda>j. ''?'') \<rparr>"

theorem jwks_cache_correct_witness:
  "\<exists>c'. get_jwks example_env 5 ''iss'' [] = (Inr (JArr [JInt 1]), c') \<and>
     (\<exists>e. map_of c' ''iss'' = Some e \<and> jw_keys e = JArr [JInt 1] \<and> jw_fetched_at e = 5) \<and>
     get_jwks example_env (seconds 60) ''iss'' c' = (Inr (JArr [JInt 1]), c')"
proof -
  have run: "get_jwks example_env 5 ''iss'' [] =
      (Inr (JArr [JInt 1]), [(''iss'', \<lparr>jw_keys = JArr [JInt 1], jw_fetched_at = 5\<rparr>)])"
    by (simp add: get_jwks_def fetch_jwks_def example_env_def dict_get_def)
  from jwks_cache_correct [OF run] run show ?thesis by fastforce
qed

text \<open>A local token's context is the same whatever the user rows, sessions and credentials of
  the database are and also when every tenant has been deactivated: neither revoking the sessions,
  nor deactivating or deleting the user, nor deactivating the tenant takes a token out of use.\<close>

theorem local_token_ignores_revocation:
  "fst (local_context env now token
          (s\<lparr>users := us, user_sessions := ses, local_credentials := creds,
             tenants := map deactivate_tenant (tenants s)\<rparr>)) =
   fst (local_context env now token s)"
proof -
  have rows: "assignment_rows uid tid (s\<lparr>users := us, user_sessions := ses,
      local_credentials := creds, tenants := map deactivate_tenant (tenants s)\<rparr>) =
      assignment_rows uid tid s" for uid tid
    by (rule assignment_rows_cong) simp_all
  show ?thesis
    by (auto simp: local_context_def Let_def select_id_run first_row_deactivated
        load_user_permissions_run rows split: handler_splits)
qed

text \<open>After a login through an identity provider the tenant has exactly one user with the
  identity's external id, and every later login of that identity, under any name and email, finds
  this user again and adds no row.\<close>

theorem oidc_login_stable:
  assumes "upsert_user now cfg email name ext s = (Inr u, s')" and "constraints s"
  shows "filter (\<lambda>u. us_tenant_id u = oc_tenant_id cfg \<and> us_external_id u = Some ext) (users s') = [u]
    \<and> (\<exists>u' s''. upsert_user later cfg email' name' ext s' = (Inr u', s'') \<and> us_id u' = us_id u \<and>
         map us_id (users s'') = map us_id (users s'))"
proof
  from assms(2) have "unique_by us_id (users s)" by (simp add: constraints_def)
  with assms(1) show one:
    "filter (\<lambda>u. us_tenant_id u = oc_tenant_id cfg \<and> us_external_id u = Some ext) (users s') = [u]"
    by (rule upsert_user_leaves)
  show "\<exists>u' s''. upsert_user later cfg email' name' ext s' = (Inr u', s'') \<and> us_id u' = us_id u \<and>
         map us_id (users s'') = map us_id (users s')"
    using one by (auto simp: upsert_user_def Let_def put_user_def put_row_def intro!: map_update_where_key)
qed

definition example_oidc_config :: oidc_config where
  "example_oidc_config =
     \<lparr> oc_id = 2, oc_tenant_id = 1, oc_provider_name = ''okta'', oc_issuer_url = ''iss'',
       oc_client_id = ''cid'', oc_client_secret = ''x'', oc_scopes = [], oc_claim_mapping = [],
       oc_is_default = True, oc_is_active = True, oc_created_at = 0 \<rparr>"

theorem oidc_login_stable_witness:
  "\<exists>u s'. upsert_user 5 example_oidc_config ''a@x.io'' ''Ann'' ''ext-1'' empty_db = (Inr u, s') \<and>
     filter (\<lambda>u. us_tenant_id u = 1 \<and> us_external_id u = Some ''ext-1'') (users s') = [u] \<and>
     (\<exists>u' s''. upsert_user 9 example_oidc_config ''b@x.io'' ''Bob'' ''ext-1'' s' = (Inr u', s'') \<and>
        us_id u' = us_id u \<and> map us_id (users s'') = map us_id (users s'))"
proof -
  have "\<exists>u s'. upsert_user 5 example_oidc_config ''a@x.io'' ''Ann'' ''ext-1'' empty_db = (Inr u, s')"
    by (simp add: upsert_user_def empty_db_def Let_def constraints_def unique_by_def)
  then obtain u s' where
    run: "upsert_user 5 example_oidc_config ''a@x.io'' ''Ann'' ''ext-1'' empty_db = (Inr u, s')"
    by blast
  have "constraints empty_db" by (simp add: constraints_def empty_db_def)
  from oidc_login_stable [OF run this, of 9 "''b@x.io''" "''Bob''"] run show ?thesis
    by (auto simp: example_oidc_config_def)
qed

text \<open>The first login through an identity provider of somebody whose email the tenant already
  has under another identity (signed up locally, invited or provisioned) does not link the two: the
  request fails with an integrity error and the database stays as it was.\<close>

theorem oidc_first_login_existing_email:
  assumes "v \<in> set (users s)" and "us_tenant_id v = oc_tenant_id cfg"
    and "us_email v = extract_claim env claims (oc_claim_mapping cfg) ''email'' ''''"
    and "us_email v \<noteq> ''''"
    and "dict_get_or claims ''sub'' (JStr '''') = JStr ext"
    and "\<forall>u \<in> set (users s). \<not> (us_tenant_id u = oc_tenant_id cfg \<and> us_external_id u = Some ext)"
  shows "get_db (oidc_identity env now cfg claims) s = (Inl IntegrityError, s)"
proof -
  have none: "filter (\<lambda>u. us_tenant_id u = oc_tenant_id cfg \<and> us_external_id u = Some ext) (users s) = []"
    using assms(6) by (auto simp: filter_empty_conv)
  have "\<not> unique_by user_email_key (users s @ [u])"
    if "us_tenant_id u = oc_tenant_id cfg" "us_email u = us_email v" for u
  proof -
    have "user_email_key u \<in> user_email_key ` set (users s)"
      using assms(1,2) that by (auto simp: user_email_key_def intro!: image_eqI [of _ _ v])
    then show ?thesis by (simp add: unique_by_append_one)
  qed
  then have "\<not> constraints (s\<lparr>next_uuid := n, users := users s @ [u]\<rparr>)"
    if "us_tenant_id u = oc_tenant_id cfg" "us_email u = us_email v" for u n
    using that by (simp add: constraints_def)
  then have "\<exists>s'. oidc_identity env now cfg claims s = (Inl IntegrityError, s')"
    using assms(3,4,5) none
    by (simp add: oidc_identity_def claim_text_def upsert_user_def Let_def new_user_def)
  then show ?thesis using get_db_handler_error by blast
qed

theorem oidc_first_login_existing_email_witness:
  "let s = empty_db\<lparr>users := [new_user 7 0 1 ''a@x.io'']\<rparr>
   in get_db (oidc_identity example_env 5 example_oidc_config
                [(''sub'', JStr ''ext-1''), (''email'', JStr ''a@x.io'')]) s = (Inl IntegrityError, s)"
  unfolding Let_def
  by (rule oidc_first_login_existing_email [of "new_user 7 0 1 ''a@x.io''" _ _ _ _ "''ext-1''"])
    (simp add: empty_db_def new_user_def example_oidc_config_def extract_claim_def dict_get_or_def)+

end
