(* ===== verification/Local_Auth.thy ===== *)
theory Local_Auth
  imports Oidc
begin

text \<open>
  \<open>auth/local.py\<close>: signup, login with lockout and MFA, email verification, password reset and change,
  MFA enrolment, sessions, API keys and the erasure request, one handler per endpoint.

  The clock is read once per request. The random values an endpoint draws are its arguments: the
  URL-safe token, the TOTP secret, the backup codes, the salt of the password hash. The outcome of
  sending an email is an argument too. A path parameter that the code parses with \<open>uuid.UUID\<close> is an
  option, \<open>None\<close> for a text that is no UUID.
\<close>

section \<open>Constants and helpers\<close>

definition MAX_FAILED_ATTEMPTS :: int where
  "MAX_FAILED_ATTEMPTS = 5"

definition LOCKOUT_MINUTES :: int where
  "LOCKOUT_MINUTES = 15"

definition JWT_SECRET :: "auth_env \<Rightarrow> string" where
  "JWT_SECRET env = (case env_JWT_SECRET env of None \<Rightarrow> env_random_secret env | Some k \<Rightarrow> k)"

definition pwd_hash :: "auth_env \<Rightarrow> string \<Rightarrow> string \<Rightarrow> string" where
  "pwd_hash env salt password = bcrypt_hashpw env (take 72 password) salt"

definition pwd_verify :: "auth_env \<Rightarrow> string \<Rightarrow> string \<Rightarrow> bool" where
  "pwd_verify env password hashed =
     (case bcrypt_checkpw env (take 72 password) hashed of None \<Rightarrow> False | Some b \<Rightarrow> b)"

definition validate_password :: "string \<Rightarrow> (db, unit) handler" where
  "validate_password password =
     (if length password < 8
      then raise (HTTPException 422 ''Password must be at least 8 characters'')
      else if \<not> (\<exists>c \<in> set password. is_upper c)
      then raise (HTTPException 422 ''Password must contain an uppercase letter'')
      else if \<not> (\<exists>c \<in> set password. is_digit c)
      then raise (HTTPException 422 ''Password must contain a number'')
      else ret ())"

definition hash_token :: "auth_env \<Rightarrow> string \<Rightarrow> string" where
  "hash_token env token = sha256_hex env token"

text \<open>\<open>_use_backup_code\<close> returns whether the code was one of the list, and the row without it.\<close>

definition use_backup_code :: "mfa_config \<Rightarrow> string \<Rightarrow> bool \<times> mfa_config" where
  "use_backup_code mfa code =
     (let code' = filter (\<lambda>c. c \<noteq> CHR '' '') (filter (\<lambda>c. c \<noteq> CHR ''-'') (str_upper code));
          codes = (case mf_backup_codes mfa of None \<Rightarrow> [] | Some l \<Rightarrow> l)
      in if code' \<in> set codes then (True, mfa\<lparr>mf_backup_codes := Some (remove1 code' codes)\<rparr>)
         else (False, mfa))"

definition slug_char :: "char \<Rightarrow> bool" where
  "slug_char c \<longleftrightarrow> is_lower c \<or> is_digit c \<or> c = CHR ''-''"

definition slugify :: "string \<Rightarrow> string" where
  "slugify s =
     strip_char (CHR ''-'')
       (take 32 (map (\<lambda>c. if slug_char c then c else CHR ''-'') (str_lower s)))"

fun try_slugs :: "string \<Rightarrow> string \<Rightarrow> string \<Rightarrow> nat list \<Rightarrow> string endpoint" where
  "try_slugs base rnd slug [] = ret (base @ ''-'' @ rnd)"
| "try_slugs base rnd slug (i # is) =
     bnd (select_one tenants (\<lambda>t. tn_slug t = slug)) (\<lambda>r.
       if r = None then ret slug else try_slugs base rnd (base @ ''-'' @ nat_str i) is)"

definition unique_slug :: "string \<Rightarrow> string \<Rightarrow> string endpoint" where
  "unique_slug rnd slug = try_slugs slug rnd slug [1..<100]"

definition jwt_payload :: "auth_env \<Rightarrow> time \<Rightarrow> user \<Rightarrow> tenant option \<Rightarrow> uuid option \<Rightarrow> py_dict" where
  "jwt_payload env now u t sid =
     [(''iss'', JStr (APP_URL env)),
      (''sub'', JStr (uuid_str (us_id u))),
      (''email'', JStr (us_email u)),
      (''tenant_id'', JStr (uuid_str (us_tenant_id u))),
      (''plan'', (case t of None \<Rightarrow> JStr ''starter''
                  | Some x \<Rightarrow> (case tn_plan x of None \<Rightarrow> JNull | Some p \<Rightarrow> JStr p))),
      (''auth_type'', JStr ''local''),
      (''iat'', JInt (now div seconds 1)),
      (''exp'', JInt ((now + hours (JWT_EXPIRY_H env)) div seconds 1))]
     @ (case sid of None \<Rightarrow> [] | Some i \<Rightarrow> [(''sid'', JStr (uuid_str i))])"

definition issue_jwt :: "auth_env \<Rightarrow> time \<Rightarrow> user \<Rightarrow> tenant option \<Rightarrow> uuid option \<Rightarrow> string" where
  "issue_jwt env now u t sid = jwt_encode env (jwt_payload env now u t sid) (JWT_SECRET env)"

text \<open>Assigning to a loaded row, by its primary key. The column \<open>updated_at\<close> of a credential is set at
  each write (\<open>onupdate\<close>): every change of a credential below sets \<open>lc_updated_at\<close> with it.\<close>

definition put_credential :: "local_credential \<Rightarrow> db \<Rightarrow> db" where
  "put_credential c s = s\<lparr>local_credentials := put_row lc_id c (local_credentials s)\<rparr>"

definition put_mfa :: "mfa_config \<Rightarrow> db \<Rightarrow> db" where
  "put_mfa m s = s\<lparr>mfa_configs := put_row mf_id m (mfa_configs s)\<rparr>"

section \<open>Signup\<close>

record signup_request =
  sr_email :: string
  sr_password :: string
  sr_name :: string
  sr_company :: "string option"
  sr_plan :: string

record signup_response =
  sp_user_id :: uuid
  sp_tenant_id :: uuid
  sp_email :: string
  sp_token :: string

record random_draws =
  rd_token :: string
  rd_salt :: string
  rd_hex :: string

definition signup ::
  "auth_env \<Rightarrow> time \<Rightarrow> random_draws \<Rightarrow> py_error + unit \<Rightarrow> py_error + unit \<Rightarrow> signup_request \<Rightarrow>
   signup_response endpoint" where
  "signup env now rd mail queued req =
     thn (validate_password (sr_password req)) (
     bnd (select_one users (\<lambda>u. us_email u = sr_email req)) (\<lambda>existing.
     thn (guard (existing = None) (HTTPException 409 ''An account with this email already exists'')) (
     bnd (unique_slug (rd_hex rd)
            (slugify (str_or (sr_company req) (hd (split_char (CHR ''@'') (sr_email req))))))
         (\<lambda>slug.
     bnd fresh (\<lambda>tid.
     let tenant = new_tenant tid now slug (str_or (sr_company req) (sr_name req)) (Some (sr_plan req))
     in thn (modify (\<lambda>s. s\<lparr>tenants := tenants s @ [tenant]\<rparr>)) (thn flush (
     bnd fresh (\<lambda>uid.
     let user = (new_user uid now tid (sr_email req))\<lparr>us_display_name := Some (sr_name req)\<rparr>
     in thn (modify (\<lambda>s. s\<lparr>users := users s @ [user]\<rparr>)) (thn flush (
     bnd fresh (\<lambda>cid.
     thn (modify (\<lambda>s. s\<lparr>local_credentials := local_credentials s @
            [new_local_credential cid now uid (pwd_hash env (rd_salt rd) (sr_password req))]\<rparr>)) (
     thn (assign_builtin_role uid tid ''admin'' now) (
     bnd fresh (\<lambda>vid.
     thn (modify (\<lambda>s. s\<lparr>email_verification_tokens := email_verification_tokens s @
            [new_auth_token vid now uid (hash_token env (rd_token rd)) (now + hours 48)]\<rparr>)) (
     thn flush (
     thn (py_try (lift_err mail) (\<lambda>e. ret ())) (
     thn (py_try (lift_err queued) (\<lambda>e. ret ())) (
     ret \<lparr> sp_user_id = uid, sp_tenant_id = tid, sp_email = sr_email req,
           sp_token = issue_jwt env now user (Some tenant) None \<rparr>))))))))))))))))))"

section \<open>Login\<close>

record login_request =
  lq_email :: string
  lq_password :: string
  lq_mfa_code :: "string option"

record client_info =
  ci_host :: "string option"
  ci_user_agent :: "string option"

record login_response =
  lr_token :: string
  lr_expires_in :: int
  lr_user :: user
  lr_plan :: "string option"

definition is_locked :: "time \<Rightarrow> local_credential \<Rightarrow> bool" where
  "is_locked now c = (case lc_locked_until c of None \<Rightarrow> False | Some t \<Rightarrow> t > now)"

definition lock_remaining :: "time \<Rightarrow> local_credential \<Rightarrow> int" where
  "lock_remaining now c =
     (case lc_locked_until c of None \<Rightarrow> 0 | Some t \<Rightarrow> (t - now) div minutes 1)"

definition failed_login :: "time \<Rightarrow> local_credential \<Rightarrow> local_credential" where
  "failed_login now c =
     (let n = (case lc_failed_attempts c of None \<Rightarrow> 0 | Some k \<Rightarrow> k) + 1;
          c' = c\<lparr>lc_failed_attempts := Some n, lc_last_failed_at := Some now, lc_updated_at := now\<rparr>
      in if n \<ge> MAX_FAILED_ATTEMPTS
         then c'\<lparr>lc_locked_until := Some (now + minutes LOCKOUT_MINUTES)\<rparr> else c')"

definition successful_login :: "time \<Rightarrow> local_credential \<Rightarrow> local_credential" where
  "successful_login now c =
     c\<lparr>lc_failed_attempts := Some 0, lc_locked_until := None, lc_last_login_at := Some now,
       lc_updated_at := now\<rparr>"

definition check_mfa :: "auth_env \<Rightarrow> time \<Rightarrow> mfa_config option \<Rightarrow> string option \<Rightarrow> unit endpoint" where
  "check_mfa env now mfa code =
     (case mfa of
        None \<Rightarrow> ret ()
      | Some m \<Rightarrow>
          (case opt_str_or code None of
             None \<Rightarrow> raise (HTTPException 401 ''MFA required'')
           | Some c \<Rightarrow>
               if totp_verify env (mf_secret m) c now then ret ()
               else (let (used, m') = use_backup_code m c
                     in if used then modify (put_mfa m')
                        else raise (HTTPException 401 ''Invalid MFA code''))))"

definition start_session ::
  "auth_env \<Rightarrow> time \<Rightarrow> user \<Rightarrow> client_info \<Rightarrow> uuid endpoint" where
  "start_session env now u client =
     bnd fresh (\<lambda>i.
       thn (modify (\<lambda>s. s\<lparr>user_sessions := user_sessions s @
              [new_user_session i now (us_id u) (us_tenant_id u) (ci_host client)
                 (Some (take 512 (str_or (ci_user_agent client) '''')))
                 (now + hours (JWT_EXPIRY_H env))]\<rparr>))
       (thn flush (ret i)))"

text \<open>What follows the password check: the second factor, the session, the token.\<close>

definition complete_login ::
  "auth_env \<Rightarrow> time \<Rightarrow> client_info \<Rightarrow> string option \<Rightarrow> user \<Rightarrow> login_response endpoint" where
  "complete_login env now client code u =
     bnd (select_one mfa_configs (\<lambda>m. mf_user_id m = us_id u \<and> mf_is_active m)) (\<lambda>mfa.
     thn (check_mfa env now mfa code) (
     bnd (select_one tenants (\<lambda>t. tn_id t = us_tenant_id u)) (\<lambda>tenant.
     bnd (start_session env now u client) (\<lambda>sid.
     ret \<lparr> lr_token = issue_jwt env now u tenant (Some sid),
           lr_expires_in = JWT_EXPIRY_H env * 3600, lr_user = u,
           lr_plan = (case tenant of None \<Rightarrow> Some ''starter'' | Some t \<Rightarrow> tn_plan t) \<rparr>))))"

definition login ::
  "auth_env \<Rightarrow> time \<Rightarrow> client_info \<Rightarrow> login_request \<Rightarrow> login_response endpoint" where
  "login env now client req =
     bnd (select_one users (\<lambda>u. us_email u = lq_email req \<and> us_is_active u)) (\<lambda>user.
     bnd (case user of None \<Rightarrow> ret None
          | Some u \<Rightarrow> select_one local_credentials (\<lambda>c. lc_user_id c = us_id u)) (\<lambda>cred.
     case (user, cred) of
       (Some u, Some c) \<Rightarrow>
         if is_locked now c then
           raise (HTTPException 429 (''Account temporarily locked. Try again in '' @
                    int_str (lock_remaining now c) @ '' minutes.''))
         else if \<not> pwd_verify env (lq_password req) (lc_password_hash c) then
           thn (modify (put_credential (failed_login now c)))
               (raise (HTTPException 401 ''Invalid email or password''))
         else
           thn (modify (put_credential (successful_login now c)))
               (complete_login env now client (lq_mfa_code req) u)
     | _ \<Rightarrow> raise (HTTPException 401 ''Invalid email or password'')))"

section \<open>Email verification and password reset\<close>

definition token_expired :: "time \<Rightarrow> auth_token \<Rightarrow> bool" where
  "token_expired now t \<longleftrightarrow> at_expires_at t < now"

definition verify_email :: "auth_env \<Rightarrow> time \<Rightarrow> string \<Rightarrow> unit endpoint" where
  "verify_email env now token =
     bnd (select_one email_verification_tokens
            (\<lambda>t. at_token_hash t = hash_token env token \<and> at_used_at t = None)) (\<lambda>ev.
     case ev of
       None \<Rightarrow> raise (HTTPException 400 ''Invalid or expired verification token'')
     | Some t \<Rightarrow>
         if token_expired now t
         then raise (HTTPException 400 ''Invalid or expired verification token'')
         else modify (\<lambda>s. s\<lparr>
                email_verification_tokens :=
                  put_row at_id (t\<lparr>at_used_at := Some now\<rparr>) (email_verification_tokens s),
                users := update_where (\<lambda>u. us_id u = at_user_id t)
                           (\<lambda>u. u\<lparr>us_email_verified := True\<rparr>) (users s)\<rparr>))"

definition resend_verification ::
  "auth_env \<Rightarrow> time \<Rightarrow> string \<Rightarrow> py_error + unit \<Rightarrow> auth_context \<Rightarrow> string endpoint" where
  "resend_verification env now token mail auth =
     bnd (select_one users (\<lambda>u. us_id u = ac_user_id auth)) (\<lambda>user.
     case user of
       None \<Rightarrow> ret ''ok''
     | Some u \<Rightarrow>
         if us_email_verified u then ret ''ok''
         else
           bnd fresh (\<lambda>i.
           thn (modify (\<lambda>s. s\<lparr>email_verification_tokens := email_verification_tokens s @
                  [new_auth_token i now (us_id u) (hash_token env token) (now + hours 48)]\<rparr>)) (
           thn flush (thn (lift_err mail) (ret ''sent'')))))"

definition forgot_password ::
  "auth_env \<Rightarrow> time \<Rightarrow> string \<Rightarrow> py_error + unit \<Rightarrow> string \<Rightarrow> unit endpoint" where
  "forgot_password env now token mail email =
     bnd (select_one users (\<lambda>u. us_email u = email)) (\<lambda>user.
     case user of
       None \<Rightarrow> ret ()
     | Some u \<Rightarrow>
         bnd fresh (\<lambda>i.
         thn (modify (\<lambda>s. s\<lparr>password_reset_tokens := password_reset_tokens s @
                [new_auth_token i now (us_id u) (hash_token env token) (now + hours 1)]\<rparr>)) (
         thn flush (py_try (lift_err mail) (\<lambda>e. ret ())))))"

definition reset_password ::
  "auth_env \<Rightarrow> time \<Rightarrow> string \<Rightarrow> string \<Rightarrow> string \<Rightarrow> unit endpoint" where
  "reset_password env now salt token new_password =
     bnd (select_one password_reset_tokens
            (\<lambda>t. at_token_hash t = hash_token env token \<and> at_used_at t = None)) (\<lambda>pr.
     case pr of
       None \<Rightarrow> raise (HTTPException 400 ''Invalid or expired reset token'')
     | Some t \<Rightarrow>
         if token_expired now t then raise (HTTPException 400 ''Invalid or expired reset token'')
         else
           thn (validate_password new_password) (
           thn (modify (\<lambda>s. s\<lparr>password_reset_tokens :=
                  put_row at_id (t\<lparr>at_used_at := Some now\<rparr>) (password_reset_tokens s)\<rparr>)) (
           bnd (select_one local_credentials (\<lambda>c. lc_user_id c = at_user_id t)) (\<lambda>cred.
           thn (case cred of
                  None \<Rightarrow> ret ()
                | Some c \<Rightarrow> modify (put_credential
                    (c\<lparr>lc_password_hash := pwd_hash env salt new_password,
                       lc_failed_attempts := Some 0, lc_locked_until := None,
                       lc_updated_at := now\<rparr>)))
               (modify (revoke_sessions_of (at_user_id t) now))))))"

definition change_password ::
  "auth_env \<Rightarrow> time \<Rightarrow> string \<Rightarrow> auth_context \<Rightarrow> string \<Rightarrow> string \<Rightarrow> unit endpoint" where
  "change_password env now salt auth current_password new_password =
     bnd (select_one local_credentials (\<lambda>c. lc_user_id c = ac_user_id auth)) (\<lambda>cred.
     case cred of
       None \<Rightarrow> raise (HTTPException 401 ''Current password is incorrect'')
     | Some c \<Rightarrow>
         if \<not> pwd_verify env current_password (lc_password_hash c)
         then raise (HTTPException 401 ''Current password is incorrect'')
         else
           thn (validate_password new_password) (
           thn (modify (put_credential
                  (c\<lparr>lc_password_hash := pwd_hash env salt new_password, lc_updated_at := now\<rparr>)))
               (modify (revoke_sessions_of (ac_user_id auth) now))))"

section \<open>MFA\<close>

definition enroll_mfa :: "time \<Rightarrow> string \<Rightarrow> string list \<Rightarrow> auth_context \<Rightarrow> (string \<times> string list) endpoint" where
  "enroll_mfa now secret backup_codes auth =
     bnd (bnd (select_all users (\<lambda>u. us_id u = ac_user_id auth)) (\<lambda>us. lift_err (scalar_one us)))
         (\<lambda>user.
     bnd (select_one mfa_configs (\<lambda>m. mf_user_id m = ac_user_id auth)) (\<lambda>existing.
     thn (case existing of
            Some m \<Rightarrow> modify (put_mfa (m\<lparr>mf_secret := secret, mf_backup_codes := Some backup_codes,
                                         mf_is_active := False\<rparr>))
          | None \<Rightarrow>
              bnd fresh (\<lambda>i. modify (\<lambda>s. s\<lparr>mfa_configs := mfa_configs s @
                [new_mfa_config i now (ac_user_id auth) secret backup_codes]\<rparr>)))
     (thn flush (ret (secret, backup_codes)))))"

definition verify_mfa_enrollment :: "auth_env \<Rightarrow> time \<Rightarrow> auth_context \<Rightarrow> string \<Rightarrow> unit endpoint" where
  "verify_mfa_enrollment env now auth code =
     bnd (select_one mfa_configs (\<lambda>m. mf_user_id m = ac_user_id auth)) (\<lambda>mfa.
     case mfa of
       None \<Rightarrow> raise (HTTPException 404 ''No pending MFA enrollment'')
     | Some m \<Rightarrow>
         if \<not> totp_verify env (mf_secret m) code now
         then raise (HTTPException 400 ''Invalid TOTP code'')
         else modify (put_mfa (m\<lparr>mf_is_active := True, mf_enrolled_at := Some now\<rparr>)))"

definition disable_mfa :: "auth_env \<Rightarrow> time \<Rightarrow> auth_context \<Rightarrow> string \<Rightarrow> unit endpoint" where
  "disable_mfa env now auth code =
     bnd (select_one mfa_configs (\<lambda>m. mf_user_id m = ac_user_id auth \<and> mf_is_active m)) (\<lambda>mfa.
     case mfa of
       None \<Rightarrow> raise (HTTPException 404 ''MFA not enabled'')
     | Some m \<Rightarrow>
         (let (ok, m') = (if totp_verify env (mf_secret m) code now then (True, m)
                          else use_backup_code m code)
          in if \<not> ok then raise (HTTPException 400 ''Invalid TOTP code'')
             else modify (put_mfa (m'\<lparr>mf_is_active := False, mf_disabled_at := Some now\<rparr>))))"

section \<open>Sessions and API keys\<close>

definition list_sessions :: "time \<Rightarrow> auth_context \<Rightarrow> user_session list endpoint" where
  "list_sessions now auth =
     bnd (select_all user_sessions (\<lambda>x. se_user_id x = ac_user_id auth \<and> se_revoked_at x = None \<and>
            se_expires_at x > now))
         (\<lambda>rows. ret (sort_key (\<lambda>x. - se_created_at x) rows))"

definition revoke_session :: "time \<Rightarrow> auth_context \<Rightarrow> uuid option \<Rightarrow> unit endpoint" where
  "revoke_session now auth session_id =
     (case session_id of
        None \<Rightarrow> raise (ValueError ''badly formed hexadecimal UUID string'')
      | Some i \<Rightarrow>
          bnd (select_one user_sessions (\<lambda>x. se_id x = i \<and> se_user_id x = ac_user_id auth)) (\<lambda>r.
          case r of
            None \<Rightarrow> raise (HTTPException 404 ''Session not found'')
          | Some x \<Rightarrow> modify (\<lambda>s. s\<lparr>user_sessions :=
                         put_row se_id (x\<lparr>se_revoked_at := Some now\<rparr>) (user_sessions s)\<rparr>)))"

definition revoke_all_sessions :: "time \<Rightarrow> auth_context \<Rightarrow> unit endpoint" where
  "revoke_all_sessions now auth = modify (revoke_sessions_of (ac_user_id auth) now)"

definition list_api_keys :: "auth_context \<Rightarrow> api_key list endpoint" where
  "list_api_keys auth =
     bnd (select_all api_keys (\<lambda>k. ak_user_id k = ac_user_id auth \<and> ak_revoked_at k = None))
         (\<lambda>rows. ret (sort_key (\<lambda>k. - ak_created_at k) rows))"

record created_key =
  ck_id :: uuid
  ck_key :: string
  ck_prefix :: string
  ck_expires_at :: "time option"

definition create_api_key ::
  "auth_env \<Rightarrow> time \<Rightarrow> string \<Rightarrow> auth_context \<Rightarrow> string \<Rightarrow> int option \<Rightarrow> created_key endpoint" where
  "create_api_key env now token auth name expires_days =
     (let raw_key = ''dg_'' @ token;
          expiry = (case expires_days of None \<Rightarrow> None
                    | Some d \<Rightarrow> if d = 0 then None else Some (now + days d))
      in bnd fresh (\<lambda>i.
         thn (modify (\<lambda>s. s\<lparr>api_keys := api_keys s @
                [\<lparr> ak_id = i, ak_user_id = ac_user_id auth, ak_tenant_id = ac_tenant_id auth,
                   ak_name = name, ak_key_hash = sha256_hex env raw_key,
                   ak_key_prefix = take 12 raw_key, ak_expires_at = expiry, ak_revoked_at = None,
                   ak_last_used_at = None, ak_created_at = now \<rparr>]\<rparr>)) (
         thn flush (
         ret \<lparr> ck_id = i, ck_key = raw_key, ck_prefix = take 12 raw_key, ck_expires_at = expiry \<rparr>))))"

definition revoke_api_key :: "time \<Rightarrow> auth_context \<Rightarrow> uuid option \<Rightarrow> unit endpoint" where
  "revoke_api_key now auth key_id =
     (case key_id of
        None \<Rightarrow> raise (ValueError ''badly formed hexadecimal UUID string'')
      | Some i \<Rightarrow>
          bnd (select_one api_keys (\<lambda>k. ak_id k = i \<and> ak_user_id k = ac_user_id auth)) (\<lambda>r.
          case r of
            None \<Rightarrow> raise (HTTPException 404 ''API key not found'')
          | Some k \<Rightarrow> modify (\<lambda>s. s\<lparr>api_keys :=
                         put_row ak_id (k\<lparr>ak_revoked_at := Some now\<rparr>) (api_keys s)\<rparr>)))"

section \<open>Erasure\<close>

text \<open>\<open>queue_erasure_job\<close> imports \<open>async_session\<close> from \<open>db/session.py\<close>, whose names are
  \<open>session_module\<close>. Its block adds and flushes the job, which gives it an identifier, and does not
  commit, so the row is gone when the session is closed; the task goes to the broker with that
  identifier, and the broker is not part of this state.\<close>

definition queue_erasure_job_from :: "string list \<Rightarrow> uuid \<Rightarrow> uuid \<Rightarrow> string endpoint" where
  "queue_erasure_job_from names user_id tenant_id =
     thn (import_from names ''async_session'') (bnd fresh (\<lambda>job. ret (uuid_str job)))"

definition queue_erasure_job :: "uuid \<Rightarrow> uuid \<Rightarrow> string endpoint" where
  "queue_erasure_job = queue_erasure_job_from session_module"

lemma queue_erasure_job_run [simp]:
  "queue_erasure_job user_id tenant_id s = (Inl (ImportError ''async_session''), s)"
  using no_async_session by (simp add: queue_erasure_job_def queue_erasure_job_from_def import_from_def)

lemma preserves_queue_erasure_job [preserves_intros]: "preserves I (queue_erasure_job user_id tenant_id)"
  by (simp add: preserves_def)

definition erase_my_data :: "auth_env \<Rightarrow> auth_context \<Rightarrow> string \<Rightarrow> string endpoint" where
  "erase_my_data env auth code =
     bnd (select_one users (\<lambda>u. us_id u = ac_user_id auth)) (\<lambda>user.
     thn (guard (user \<noteq> None) (HTTPException 404 ''User not found'')) (
     bnd (select_one local_credentials (\<lambda>c. lc_user_id c = ac_user_id auth)) (\<lambda>cred.
     thn (case cred of
            None \<Rightarrow> ret ()
          | Some c \<Rightarrow> guard (pwd_verify env code (lc_password_hash c))
                            (HTTPException 401 ''Incorrect password''))
         (queue_erasure_job (ac_user_id auth) (ac_tenant_id auth)))))"

section \<open>The endpoints as one family\<close>

datatype auth_request =
    Signup random_draws "py_error + unit" "py_error + unit" signup_request
  | Login client_info login_request
  | VerifyEmail string
  | ResendVerification string "py_error + unit" auth_context
  | ForgotPassword string "py_error + unit" string
  | ResetPassword string string string
  | ChangePassword string auth_context string string
  | EnrollMfa string "string list" auth_context
  | VerifyMfaEnrollment auth_context string
  | DisableMfa auth_context string
  | RevokeSession auth_context "uuid option"
  | RevokeAllSessions auth_context
  | CreateApiKey string auth_context string "int option"
  | RevokeApiKey auth_context "uuid option"
  | EraseMyData auth_context string

definition done_with :: "'a endpoint \<Rightarrow> unit endpoint" where
  "done_with m = thn m (ret ())"

fun handle :: "auth_env \<Rightarrow> time \<Rightarrow> auth_request \<Rightarrow> unit endpoint" where
  "handle env now (Signup rd mail queued req) = done_with (signup env now rd mail queued req)"
| "handle env now (Login client req) = done_with (login env now client req)"
| "handle env now (VerifyEmail token) = verify_email env now token"
| "handle env now (ResendVerification token mail auth) =
     done_with (resend_verification env now token mail auth)"
| "handle env now (ForgotPassword token mail email) = forgot_password env now token mail email"
| "handle env now (ResetPassword salt token pw) = reset_password env now salt token pw"
| "handle env now (ChangePassword salt auth old pw) = change_password env now salt auth old pw"
| "handle env now (EnrollMfa secret codes auth) = done_with (enroll_mfa now secret codes auth)"
| "handle env now (VerifyMfaEnrollment auth code) = verify_mfa_enrollment env now auth code"
| "handle env now (DisableMfa auth code) = disable_mfa env now auth code"
| "handle env now (RevokeSession auth i) = revoke_session now auth i"
| "handle env now (RevokeAllSessions auth) = revoke_all_sessions now auth"
| "handle env now (CreateApiKey token auth name d) =
     done_with (create_api_key env now token auth name d)"
| "handle env now (RevokeApiKey auth i) = revoke_api_key now auth i"
| "handle env now (EraseMyData auth code) = done_with (erase_my_data env auth code)"

section \<open>Lemmas on the helpers\<close>

lemma slug_char_dash [simp]: "slug_char (CHR ''-'')"
  by (simp add: slug_char_def)

lemma slugify_chars: "c \<in> set (slugify s) \<Longrightarrow> slug_char c"
  by (auto simp: slugify_def dest!: subsetD [OF set_strip_char] in_set_takeD)

lemma slugify_length: "length (slugify s) \<le> 32"
  using length_strip_char by (fastforce simp: slugify_def intro: order_trans)

lemma try_slugs_pure: "snd (try_slugs base rnd slug is s) = s"
  by (induction base rnd slug "is" arbitrary: s rule: try_slugs.induct)
    (auto split: handler_splits)

lemma try_slugs_unique:
  assumes "unique_by tn_slug (tenants s)"
  shows "\<exists>r. try_slugs base rnd slug is s = (Inr r, s) \<and>
     (r \<in> tn_slug ` set (tenants s) \<longrightarrow> r = base @ ''-'' @ rnd)"
  using assms
proof (induction base rnd slug "is" rule: try_slugs.induct)
  case (2 base rnd slug i "is")
  let ?rows = "filter (\<lambda>t. tn_slug t = slug) (tenants s)"
  obtain r where r: "scalar_one_or_none ?rows = Inr r"
    using unique_by_select [OF "2.prems"] by (metis (mono_tags, lifting) sumE)
  show ?case
  proof (cases r)
    case None
    with r have "slug \<notin> tn_slug ` set (tenants s)"
      by (auto dest!: scalar_one_or_none_filter_None)
    with r None show ?thesis by simp
  next
    case (Some t)
    with r "2.IH" [of r, OF _ "2.prems"] show ?thesis by simp
  qed
qed simp

lemma put_credential_simps [simp]:
  "local_credentials (put_credential c s) = put_row lc_id c (local_credentials s)"
  "users (put_credential c s) = users s" "tenants (put_credential c s) = tenants s"
  "mfa_configs (put_credential c s) = mfa_configs s"
  "user_sessions (put_credential c s) = user_sessions s"
  "next_uuid (put_credential c s) = next_uuid s"
  by (simp_all add: put_credential_def)

lemma put_mfa_simps [simp]:
  "mfa_configs (put_mfa m s) = put_row mf_id m (mfa_configs s)"
  "users (put_mfa m s) = users s" "tenants (put_mfa m s) = tenants s"
  "local_credentials (put_mfa m s) = local_credentials s"
  "user_sessions (put_mfa m s) = user_sessions s"
  "next_uuid (put_mfa m s) = next_uuid s"
  by (simp_all add: put_mfa_def)

lemma failed_login_hash [simp]: "lc_password_hash (failed_login now c) = lc_password_hash c"
  by (simp add: failed_login_def Let_def)

text \<open>A login with a wrong password: the handler counts it, and raises.\<close>

lemma login_wrong_password:
  assumes "filter (\<lambda>u. us_email u = lq_email req \<and> us_is_active u) (users s) = [u]"
    and "filter (\<lambda>c. lc_user_id c = us_id u) (local_credentials s) = [c]"
    and "\<not> is_locked now c" and "\<not> pwd_verify env (lq_password req) (lc_password_hash c)"
  shows "login env now client req s =
    (Inl (HTTPException 401 ''Invalid email or password''), put_credential (failed_login now c) s)"
  using assms by (simp add: login_def)

text \<open>What the handler would reach if its counting were kept: the fold of failed logins.\<close>

lemma failed_login_count:
  "lc_failed_attempts c = Some k \<Longrightarrow> lc_failed_attempts (failed_login now c) = Some (k + 1)"
  by (simp add: failed_login_def Let_def)

lemma fold_failed_login_count:
  "lc_failed_attempts c = Some k \<Longrightarrow>
   lc_failed_attempts (fold failed_login ts c) = Some (k + int (length ts))"
  by (induction ts arbitrary: c k) (auto simp: failed_login_count)

lemma failed_login_locks:
  "lc_failed_attempts c = Some k \<Longrightarrow> k + 1 \<ge> MAX_FAILED_ATTEMPTS \<Longrightarrow>
   lc_locked_until (failed_login now c) = Some (now + minutes LOCKOUT_MINUTES)"
  by (simp add: failed_login_def Let_def)

lemma failed_login_unlocked:
  "lc_failed_attempts c = Some k \<Longrightarrow> k + 1 < MAX_FAILED_ATTEMPTS \<Longrightarrow>
   lc_locked_until (failed_login now c) = lc_locked_until c"
  by (simp add: failed_login_def Let_def)

lemma failed_login_keys [simp]:
  "lc_id (failed_login now c) = lc_id c" "lc_user_id (failed_login now c) = lc_user_id c"
  by (simp_all add: failed_login_def Let_def)

lemma put_credential_twice:
  "lc_id d = lc_id c \<Longrightarrow> put_credential d (put_credential c s) = put_credential d s"
  by (simp add: put_credential_def put_row_def update_where_def comp_def)

text \<open>One attempt to log in to the account of an email, and what a row of attempts leaves in a
  session that is kept, that is, committed although the handler raised.\<close>

definition attempt ::
  "auth_env \<Rightarrow> string \<Rightarrow> time \<times> client_info \<times> string \<times> string option \<Rightarrow> login_response endpoint" where
  "attempt env email = (\<lambda>(now, client, pw, code).
     login env now client \<lparr>lq_email = email, lq_password = pw, lq_mfa_code = code\<rparr>)"

definition kept_attempts ::
  "auth_env \<Rightarrow> string \<Rightarrow> (time \<times> client_info \<times> string \<times> string option) list \<Rightarrow> db \<Rightarrow> db" where
  "kept_attempts env email tries s = fold (\<lambda>x s. snd (attempt env email x s)) tries s"

lemma attempt_wrong_password:
  assumes "filter (\<lambda>u. us_email u = email \<and> us_is_active u) (users s) = [u]"
    and "filter (\<lambda>c. lc_user_id c = us_id u) (local_credentials s) = [c]"
    and "lc_locked_until c = None" and "\<not> pwd_verify env (fst (snd (snd x))) (lc_password_hash c)"
  shows "attempt env email x s =
    (Inl (HTTPException 401 ''Invalid email or password''), put_credential (failed_login (fst x) c) s)"
  using assms by (cases x) (simp add: attempt_def login_wrong_password is_locked_def)

lemma credential_after_put:
  assumes "unique_by lc_id (local_credentials s)"
    and "filter (\<lambda>c. lc_user_id c = uid) (local_credentials s) = [c]"
    and "lc_id d = lc_id c" and "lc_user_id d = lc_user_id c"
  shows "filter (\<lambda>c. lc_user_id c = uid) (local_credentials (put_credential d s)) = [d]"
  using assms filter_eq_singleD [OF assms(2)] by (simp add: filter_put_row_one)

lemma kept_wrong_attempts:
  assumes "unique_by lc_id (local_credentials s)"
    and "filter (\<lambda>u. us_email u = email \<and> us_is_active u) (users s) = [u]"
    and "filter (\<lambda>c. lc_user_id c = us_id u) (local_credentials s) = [c]"
    and "lc_locked_until c = None" and "lc_failed_attempts c = Some k"
    and "\<forall>x \<in> set tries. \<not> pwd_verify env (fst (snd (snd x))) (lc_password_hash c)"
    and "tries \<noteq> []" and "k + int (length tries) = MAX_FAILED_ATTEMPTS"
  shows "\<exists>d. filter (\<lambda>c. lc_user_id c = us_id u) (local_credentials (kept_attempts env email tries s)) = [d]
    \<and> lc_locked_until d = Some (fst (List.last tries) + minutes LOCKOUT_MINUTES)
    \<and> users (kept_attempts env email tries s) = users s"
  using assms
proof (induction tries arbitrary: s c k)
  case (Cons x tries)
  let ?c = "failed_login (fst x) c" and ?s = "put_credential (failed_login (fst x) c) s"
  have step: "kept_attempts env email (x # tries) s = kept_attempts env email tries ?s"
    using Cons.prems attempt_wrong_password [of email s u c env x] by (simp add: kept_attempts_def)
  have cred: "filter (\<lambda>c. lc_user_id c = us_id u) (local_credentials ?s) = [?c]"
    by (rule credential_after_put [OF Cons.prems(1,3)]) simp_all
  show ?case
  proof (cases tries)
    case Nil
    with Cons.prems cred step show ?thesis
      by (simp add: kept_attempts_def failed_login_locks [of c k])
  next
    case (Cons y ys)
    with Cons.prems(8) have "k + 1 < MAX_FAILED_ATTEMPTS" by simp
    with Cons.prems have "lc_locked_until ?c = None" "lc_failed_attempts ?c = Some (k + 1)"
      by (simp_all add: failed_login_unlocked failed_login_count)
    with Cons.IH [of ?s ?c "k + 1"] Cons.prems cred step Cons show ?thesis by simp
  qed
qed simp

section \<open>Every request keeps the identifiers fresh\<close>

lemma fresh_assign_builtin_role [fresh_intros]:
  assumes "tid \<in> set xs" and "uid \<in> set xs"
  shows "preserves (fresh_with xs) (assign_builtin_role uid tid name now)"
  unfolding assign_builtin_role_def Let_def
  using assms
  by (intro fresh_intros preserves_intros preserves_modify)
    (auto simp: fresh_defs new_role_assignment_def)

lemma preserves_done_with [preserves_intros]: "preserves I m \<Longrightarrow> preserves I (done_with m)"
  by (simp add: done_with_def preserves_thn preserves_ret)

lemma preserves_validate_password [preserves_intros]: "preserves I (validate_password pw)"
  unfolding validate_password_def by (intro preserves_intros)

lemma preserves_unique_slug [preserves_intros]: "preserves I (unique_slug rnd slug)"
proof -
  have "snd (try_slugs base rnd slug is s) = s" for base rnd slug "is" s
    by (induction base rnd slug "is" arbitrary: s rule: try_slugs.induct)
      (auto split: handler_splits)
  then show ?thesis by (simp add: preserves_def unique_slug_def)
qed

lemma fresh_put_credential [fresh_intros]:
  "lc_id c \<in> set xs \<Longrightarrow> lc_user_id c \<in> set xs \<Longrightarrow>
   preserves (fresh_with xs) (modify (put_credential c))"
  by (rule preserves_modify)
    (auto simp: fresh_defs put_credential_def dest!: in_put_row_cases)

lemma fresh_put_mfa [fresh_intros]:
  "mf_id c \<in> set xs \<Longrightarrow> mf_user_id c \<in> set xs \<Longrightarrow>
   preserves (fresh_with xs) (modify (put_mfa c))"
  by (rule preserves_modify)
    (auto simp: fresh_defs put_mfa_def dest!: in_put_row_cases)

lemma fresh_revoke_sessions [fresh_intros]:
  "preserves (fresh_with xs) (modify (revoke_sessions_of uid now))"
  by (rule preserves_modify) (auto simp: fresh_defs revoke_sessions_of_def)

lemma use_backup_code_ids [simp]:
  "mf_id (snd (use_backup_code m c)) = mf_id m" "mf_user_id (snd (use_backup_code m c)) = mf_user_id m"
  by (simp_all add: use_backup_code_def Let_def)


lemma fresh_signup: "preserves (fresh_with xs) (signup env now rd mail queued req)"
  unfolding signup_def Let_def
  by (intro fresh_intros preserves_intros preserves_modify)
   (auto simp: fresh_defs new_user_def new_tenant_def new_local_credential_def new_auth_token_def)

lemma fresh_check_mfa [fresh_intros]:
  "(\<And>m. mfa = Some m \<Longrightarrow> mf_id m \<in> set xs \<and> mf_user_id m \<in> set xs) \<Longrightarrow>
   preserves (fresh_with xs) (check_mfa env now mfa code)"
  unfolding check_mfa_def Let_def split_beta
  by (cases mfa) (auto intro!: fresh_intros preserves_intros)

lemma fresh_start_session [fresh_intros]:
  "preserves (fresh_with xs) (start_session env now u client)"
  unfolding start_session_def Let_def
  by (intro fresh_intros preserves_intros preserves_modify)
    (auto simp: fresh_defs new_user_session_def)

lemma fresh_login: "preserves (fresh_with xs) (login env now client req)"
  unfolding login_def complete_login_def
  by (simp only: option.case prod.case | rule fresh_intros preserves_intros
      | simp add: successful_login_def failed_login_def Let_def)+

lemma fresh_verify_email: "preserves (fresh_with xs) (verify_email env now token)"
  unfolding verify_email_def
  by (simp only: option.case | rule fresh_intros preserves_intros preserves_modify
      | force simp: fresh_defs dest!: in_put_row_cases)+

lemma fresh_resend: "preserves (fresh_with xs) (resend_verification env now token mail auth)"
  unfolding resend_verification_def
  by (simp only: option.case | rule fresh_intros preserves_intros preserves_modify
      | force simp: fresh_defs new_auth_token_def dest!: in_put_row_cases)+

lemma fresh_forgot: "preserves (fresh_with xs) (forgot_password env now token mail email)"
  unfolding forgot_password_def
  by (simp only: option.case | rule fresh_intros preserves_intros preserves_modify
      | force simp: fresh_defs new_auth_token_def dest!: in_put_row_cases)+

lemma fresh_reset: "preserves (fresh_with xs) (reset_password env now salt token pw)"
  unfolding reset_password_def
  by (simp only: option.case | rule fresh_intros preserves_intros preserves_modify
      | force simp: fresh_defs dest!: in_put_row_cases)+

lemma fresh_change: "preserves (fresh_with xs) (change_password env now salt auth old pw)"
  unfolding change_password_def
  by (simp only: option.case | rule fresh_intros preserves_intros
      | simp add: fresh_defs)+

lemma fresh_verify_mfa: "preserves (fresh_with xs) (verify_mfa_enrollment env now auth code)"
  unfolding verify_mfa_enrollment_def
  by (simp only: option.case | rule fresh_intros preserves_intros
      | simp add: fresh_defs)+

lemma fresh_disable: "preserves (fresh_with xs) (disable_mfa env now auth code)"
  unfolding disable_mfa_def Let_def split_beta
  by (simp only: option.case | rule fresh_intros preserves_intros
      | simp add: fresh_defs)+

lemma fresh_revoke_session: "preserves (fresh_with xs) (revoke_session now auth i)"
  unfolding revoke_session_def
  by (simp only: option.case | rule fresh_intros preserves_intros preserves_modify
      | force simp: fresh_defs dest!: in_put_row_cases)+

lemma fresh_create_key: "preserves (fresh_with xs) (create_api_key env now token auth name d)"
  unfolding create_api_key_def Let_def
  by (simp only: option.case | rule fresh_intros preserves_intros preserves_modify
      | force simp: fresh_defs)+

lemma fresh_revoke_key: "preserves (fresh_with xs) (revoke_api_key now auth i)"
  unfolding revoke_api_key_def
  by (simp only: option.case | rule fresh_intros preserves_intros preserves_modify
      | force simp: fresh_defs)+

lemma fresh_erase: "preserves (fresh_with xs) (erase_my_data env auth code)"
  unfolding erase_my_data_def
  by (simp only: option.case | rule fresh_intros preserves_intros
      | simp add: fresh_defs)+

lemma fresh_bnd_the_user:
  assumes "\<And>u. p u \<Longrightarrow> preserves (fresh_with (us_id u # xs)) (f u)"
  shows "preserves (fresh_with xs) (bnd (bnd (select_all users p) (\<lambda>us. lift_err (scalar_one us))) f)"
proof (rule preservesI)
  fix s assume s: "fresh_with xs s"
  show "fresh_with xs (snd (bnd (bnd (select_all users p) (\<lambda>us. lift_err (scalar_one us))) f s))"
  proof (cases "\<exists>u. filter p (users s) = [u]")
    case True
    then obtain u where u: "filter p (users s) = [u]" by blast
    from filter_eq_singleD [OF u] s have "p u" "fresh_with (us_id u # xs) s"
      by (auto simp: fresh_with_def fresh_ids_def)
    from preservesD [OF assms [OF this(1)] this(2)] u show ?thesis
      by (simp add: fresh_with_def)
  next
    case False
    then have "\<exists>e. scalar_one (filter p (users s)) = Inl e"
      by (auto simp: scalar_one_def split: list.splits)
    with s show ?thesis by auto
  qed
qed

lemma fresh_enroll: "preserves (fresh_with xs) (enroll_mfa now secret codes auth)"
  unfolding enroll_mfa_def
  by (simp only: option.case | rule fresh_bnd_the_user fresh_intros preserves_intros preserves_modify
      | force simp: fresh_defs new_mfa_config_def)+

lemmas fresh_endpoints =
  fresh_signup fresh_login fresh_verify_email fresh_resend fresh_forgot fresh_reset fresh_change
  fresh_enroll fresh_verify_mfa fresh_disable fresh_revoke_session fresh_create_key
  fresh_revoke_key fresh_erase

lemma fresh_handle: "preserves fresh_ids (handle env now r)"
  by (cases r; simp only: handle.simps; simp only: fresh_with_Nil [symmetric])
    (auto intro!: fresh_endpoints preserves_done_with fresh_revoke_sessions
      simp only: revoke_all_sessions_def)

interpretation local_auth: keeps_invariant fresh_ids "{handle env now r |env now r. True}"
  by unfold_locales (auto intro: fresh_handle)

inductive auth_step :: "auth_env \<Rightarrow> db \<Rightarrow> db \<Rightarrow> bool" for env where
  request: "auth_step env s (snd (get_db (handle env now r) s))"

inductive_cases auth_stepE: "auth_step env s s'"

inductive auth_reachable :: "auth_env \<Rightarrow> db \<Rightarrow> db \<Rightarrow> bool" for env s where
  start: "auth_reachable env s s"
| step: "auth_reachable env s t \<Longrightarrow> auth_step env t t' \<Longrightarrow> auth_reachable env s t'"

section \<open>What a signup and a login leave behind\<close>

text \<open>\<open>assign_builtin_role\<close> changes the role tables and the counter only.\<close>

lemma assign_builtin_role_frame:
  assumes "assign_builtin_role uid tid name now s = (r, s')"
  shows "users s' = users s \<and> tenants s' = tenants s \<and> local_credentials s' = local_credentials s \<and>
    mfa_configs s' = mfa_configs s \<and> user_sessions s' = user_sessions s \<and>
    next_uuid s \<le> next_uuid s'"
  using assms
  by (auto simp: assign_builtin_role_def Let_def split: handler_splits)

lemma assign_builtin_role_new_tenant:
  assumes "assign_builtin_role uid tid ''admin'' now s = (Inr (), s')"
    and "\<forall>r \<in> set (roles s). ro_tenant_id r \<noteq> tid"
    and "\<forall>a \<in> set (role_assignments s). ra_user_id a \<noteq> uid"
  shows "grants_role later s' uid tid ''admin:*''"
  using assms
  by (auto simp: assign_builtin_role_def Let_def new_role_assignment_def grants_role_def
      filter_empty_conv assignment_expired_def role_permissions_def builtin_get_def
      BUILTIN_PERMISSIONS_def split: handler_splits)

lemma grants_role_cong:
  "role_assignments s' = role_assignments s \<Longrightarrow> roles s' = roles s \<Longrightarrow>
   grants_role now s' uid tid p = grants_role now s uid tid p"
  by (simp add: grants_role_def)

lemma validate_password_run: "validate_password pw s = (r, s') \<Longrightarrow> s' = s"
  by (auto simp: validate_password_def split: if_splits)

lemma unique_slug_run: "unique_slug rnd slug s = (r, s') \<Longrightarrow> s' = s"
  by (metis snd_conv try_slugs_pure unique_slug_def)

lemma signup_result:
  assumes "signup env now rd mail queued req s = (Inr r, s')" and "fresh_ids s"
  shows "\<exists>u c. users s' = users s @ [u] \<and> local_credentials s' = local_credentials s @ [c] \<and>
     us_id u = sp_user_id r \<and> us_tenant_id u = sp_tenant_id r \<and> us_email u = sr_email req \<and>
     us_is_active u \<and> \<not> us_email_verified u \<and>
     lc_user_id c = us_id u \<and> lc_password_hash c = pwd_hash env (rd_salt rd) (sr_password req) \<and>
     lc_locked_until c = None \<and>
     mfa_configs s' = mfa_configs s \<and> next_uuid s \<le> us_id u \<and>
     filter (\<lambda>u. us_email u = sr_email req) (users s) = [] \<and>
     (\<forall>t. grants_role t s' (sp_user_id r) (sp_tenant_id r) ''admin:*'')"
proof -
  let ?n = "next_uuid s"
  let ?u = "(new_user (Suc ?n) now ?n (sr_email req))\<lparr>us_display_name := Some (sr_name req)\<rparr>"
  let ?c = "new_local_credential (Suc (Suc ?n)) now (Suc ?n) (pwd_hash env (rd_salt rd) (sr_password req))"
  from assms(1) obtain s1 s2 where none: "filter (\<lambda>u. us_email u = sr_email req) (users s) = []"
    and run: "assign_builtin_role (Suc ?n) ?n ''admin'' now s1 = (Inr (), s2)"
    and s1: "users s1 = users s @ [?u]" "local_credentials s1 = local_credentials s @ [?c]"
      "mfa_configs s1 = mfa_configs s" "roles s1 = roles s" "role_assignments s1 = role_assignments s"
    and s': "users s' = users s2" "local_credentials s' = local_credentials s2"
      "mfa_configs s' = mfa_configs s2" "roles s' = roles s2"
      "role_assignments s' = role_assignments s2"
    and r: "sp_user_id r = Suc ?n" "sp_tenant_id r = ?n"
    unfolding signup_def Let_def
    by (elim handler_elims)
      (auto dest!: validate_password_run unique_slug_run scalar_one_or_none_NoneD split: if_splits sum.splits)
  have frame: "users s2 = users s1" "local_credentials s2 = local_credentials s1"
      "mfa_configs s2 = mfa_configs s1"
    using assign_builtin_role_frame [OF run] by simp_all
  have "\<forall>r \<in> set (roles s1). ro_tenant_id r \<noteq> ?n"
    and "\<forall>a \<in> set (role_assignments s1). ra_user_id a \<noteq> Suc ?n"
    using assms(2) unfolding s1 by (auto simp: fresh_ids_def)
  from assign_builtin_role_new_tenant [OF run this]
  have "grants_role t s' (Suc ?n) ?n ''admin:*''" for t
    by (simp add: grants_role_cong [OF s'(5,4)])
  then show ?thesis
    using none frame s' r s1
    by (intro exI [of _ ?u] exI [of _ ?c]) (simp add: new_user_def new_local_credential_def)
qed





text \<open>A login without a second factor succeeds when its checks pass.\<close>

lemma constraints_login:
  assumes "constraints s" and "filter (\<lambda>c. lc_user_id c = uid) (local_credentials s) = [c]"
    and "\<forall>x \<in> set (user_sessions s). se_id x \<noteq> se_id y"
  shows "constraints (put_credential (successful_login now c) s\<lparr>next_uuid := n, user_sessions := user_sessions s @ [y]\<rparr>)"
proof -
  have c: "c \<in> set (local_credentials s)" "lc_id c = lc_id (successful_login now c)"
      "lc_user_id c = lc_user_id (successful_login now c)"
    using filter_eq_singleD(1) [OF assms(2)] by (simp_all add: successful_login_def)
  have "unique_by lc_user_id (put_row lc_id (successful_login now c) (local_credentials s))"
    using assms(1) by (simp add: constraints_def unique_by_put_row [OF _ c])
  with assms show ?thesis
    by (auto simp: constraints_def put_credential_def unique_by_append_one)
qed

lemma login_ok:
  assumes "filter (\<lambda>u. us_email u = lq_email req \<and> us_is_active u) (users s) = [u]"
    and "filter (\<lambda>c. lc_user_id c = us_id u) (local_credentials s) = [c]"
    and "\<not> is_locked now c" and "pwd_verify env (lq_password req) (lc_password_hash c)"
    and "\<forall>m \<in> set (mfa_configs s). mf_user_id m \<noteq> us_id u"
    and "constraints s" and "fresh_ids s"
  shows "\<exists>q s'. get_db (login env now client req) s = (Inr q, s') \<and> lr_user q = u \<and>
           roles s' = roles s \<and> role_assignments s' = role_assignments s"
proof -
  let ?s1 = "put_credential (successful_login now c) s"
  have no_mfa: "filter (\<lambda>m. mf_user_id m = us_id u \<and> mf_is_active m) (mfa_configs s) = []"
    using assms(5) by (auto simp: filter_empty_conv)
  have "unique_by tn_id (tenants s)" using assms(6) by (simp add: constraints_def)
  then have "scalar_one_or_none (filter (\<lambda>t. tn_id t = us_tenant_id u) (tenants s)) \<noteq> Inl e" for e
    by (rule unique_by_select [of tn_id _ _ "us_tenant_id u"]) simp
  then obtain tn where tn: "scalar_one_or_none (filter (\<lambda>t. tn_id t = us_tenant_id u) (tenants s)) = Inr tn"
    by (metis sumE)
  let ?y = "new_user_session (next_uuid s) now (us_id u) (us_tenant_id u) (ci_host client)
        (Some (take 512 (str_or (ci_user_agent client) ''''))) (now + hours (JWT_EXPIRY_H env))"
  let ?s2 = "?s1\<lparr>next_uuid := Suc (next_uuid s), user_sessions := user_sessions s @ [?y]\<rparr>"
  have "\<forall>x \<in> set (user_sessions s). se_id x \<noteq> se_id ?y"
    using assms(7) by (auto simp: fresh_ids_def new_user_session_def)
  then have cs: "constraints ?s2" using constraints_login [OF assms(6,2)] by blast
  then have "\<exists>q. login env now client req s = (Inr q, ?s2) \<and> lr_user q = u"
    using assms(1-4) no_mfa tn
    by (simp add: login_def complete_login_def check_mfa_def start_session_def)
  with cs get_db_ok show ?thesis by (fastforce simp: put_credential_def)
qed

lemma reset_password_run:
  assumes "reset_password env now salt token pw s = (Inr (), s')"
  shows "\<exists>t c. filter (\<lambda>t. at_token_hash t = hash_token env token \<and> at_used_at t = None)
            (password_reset_tokens s) = [t] \<and> \<not> token_expired now t \<and>
     scalar_one_or_none (filter (\<lambda>c. lc_user_id c = at_user_id t) (local_credentials s)) = Inr c \<and>
     password_reset_tokens s' = put_row at_id (t\<lparr>at_used_at := Some now\<rparr>) (password_reset_tokens s) \<and>
     local_credentials s' = (case c of None \<Rightarrow> local_credentials s
       | Some c \<Rightarrow> put_row lc_id (c\<lparr>lc_password_hash := pwd_hash env salt pw,
                       lc_failed_attempts := Some 0, lc_locked_until := None,
                       lc_updated_at := now\<rparr>) (local_credentials s)) \<and>
     user_sessions s' = user_sessions (revoke_sessions_of (at_user_id t) now s)"
proof -
  from assms obtain t where t: "filter (\<lambda>t. at_token_hash t = hash_token env token \<and> at_used_at t = None)
      (password_reset_tokens s) = [t]"
    unfolding reset_password_def
    by (elim handler_elims) (auto dest!: scalar_one_or_none_SomeD split: option.splits)
  with assms have "\<not> token_expired now t"
    by (auto simp: reset_password_def split: if_splits)
  moreover obtain c where
    "scalar_one_or_none (filter (\<lambda>c. lc_user_id c = at_user_id t) (local_credentials s)) = Inr c"
    using assms t calculation
    by (auto simp: reset_password_def split: sum.splits prod.splits dest!: validate_password_run)
  ultimately show ?thesis
    using assms t
    by (auto simp: reset_password_def put_credential_def revoke_sessions_of_def
        split: option.splits sum.splits prod.splits dest!: validate_password_run)
qed

lemma reset_credentials:
  assumes "scalar_one_or_none (filter (\<lambda>c. lc_user_id c = uid) cs) = Inr c"
    and "cs' = (case c of None \<Rightarrow> cs | Some c \<Rightarrow> put_row lc_id (c\<lparr>lc_password_hash := h,
      lc_failed_attempts := Some 0, lc_locked_until := None,
                       lc_updated_at := now\<rparr>) cs)"
  shows "\<forall>x \<in> set cs'. lc_user_id x = uid \<longrightarrow> lc_password_hash x = h \<and> lc_locked_until x = None"
proof (intro ballI impI)
  fix x assume x: "x \<in> set cs'" "lc_user_id x = uid"
  show "lc_password_hash x = h \<and> lc_locked_until x = None"
  proof (cases c)
    case None
    with assms x show ?thesis by (auto dest: scalar_one_or_none_filter_None)
  next
    case (Some d)
    with assms(1) have one: "filter (\<lambda>c. lc_user_id c = uid) cs = [d]"
      by (auto dest: scalar_one_or_none_SomeD)
    from Some assms(2) x(1) have "x = d\<lparr>lc_password_hash := h, lc_failed_attempts := Some 0, lc_locked_until := None,
                       lc_updated_at := now\<rparr>"
      by (intro put_row_only [OF one _ x(2), where k = lc_id]) simp_all
    then show ?thesis by simp
  qed
qed

lemma revoked_sessions:
  assumes "x \<in> set (user_sessions (revoke_sessions_of uid now s))" and "se_user_id x = uid"
  shows "se_revoked_at x \<noteq> None"
proof -
  have "x \<in> set (update_where (\<lambda>x. se_user_id x = uid \<and> se_revoked_at x = None)
      (\<lambda>x. x\<lparr>se_revoked_at := Some now\<rparr>) (user_sessions s))"
    using assms(1) by (simp add: revoke_sessions_of_def)
  from in_update_where [OF this] consider r where "x = r\<lparr>se_revoked_at := Some now\<rparr>"
    | "\<not> (se_user_id x = uid \<and> se_revoked_at x = None)" by blast
  then show ?thesis by cases (use assms(2) in simp_all)
qed

lemma revoke_sessions_others:
  assumes "\<And>x. q x \<Longrightarrow> se_user_id x \<noteq> uid"
  shows "filter q (user_sessions (revoke_sessions_of uid now s)) = filter q (user_sessions s)"
proof -
  have "\<not> q x" if "se_user_id x = uid" for x using assms that by blast
  then have "filter q (update_where (\<lambda>x. se_user_id x = uid \<and> se_revoked_at x = None)
      (\<lambda>x. x\<lparr>se_revoked_at := Some now\<rparr>) (user_sessions s)) = filter q (user_sessions s)"
    by (intro filter_update_where_other) simp
  then show ?thesis by (simp add: revoke_sessions_of_def)
qed

lemma list_sessions_run:
  "list_sessions now auth s = (Inr (sort_key (\<lambda>x. - se_created_at x)
     (filter (\<lambda>x. se_user_id x = ac_user_id auth \<and> se_revoked_at x = None \<and> se_expires_at x > now)
       (user_sessions s))), s)"
  by (simp add: list_sessions_def)

section \<open>Properties\<close>

text \<open>C5: Lockout never takes effect. In a database that meets its constraints, take the one active
  user with an email, whose credential counts no failed attempt and is not locked, and any row of
  logins with passwords that are wrong. Each of these logins is refused with a 401 and, in its own
  session, writes the counted attempt to the credential. Were the sessions kept, five such logins
  would lock the account: until fifteen minutes after the fifth every login to it, the right
  password included, is refused with a 429. But the handler raises, \<open>get_db\<close> rolls the session
  back, and after any number of wrong passwords the database is the one before the first.\<close>

theorem lockout_never_engages:
  assumes "constraints s"
    and "filter (\<lambda>u. us_email u = email \<and> us_is_active u) (users s) = [u]"
    and "filter (\<lambda>c. lc_user_id c = us_id u) (local_credentials s) = [c]"
    and "lc_locked_until c = None" and "lc_failed_attempts c = Some 0"
    and "\<forall>(now, client, pw, code) \<in> set tries. \<not> pwd_verify env pw (lc_password_hash c)"
  shows "serve (map (attempt env email) tries) s = s
    \<and> (\<forall>x \<in> set tries. attempt env email x s =
         (Inl (HTTPException 401 ''Invalid email or password''),
          put_credential (failed_login (fst x) c) s))
    \<and> (length tries = 5 \<longrightarrow> (\<forall>later client pw code.
         later < fst (List.last tries) + minutes 15 \<longrightarrow>
         (\<exists>m. fst (attempt env email (later, client, pw, code) (kept_attempts env email tries s)) =
              Inl (HTTPException 429 m))))"
proof (intro conjI impI allI)
  have wrong: "\<forall>x \<in> set tries. \<not> pwd_verify env (fst (snd (snd x))) (lc_password_hash c)"
    using assms(6) by auto
  then show each: "\<forall>x \<in> set tries. attempt env email x s =
      (Inl (HTTPException 401 ''Invalid email or password''),
       put_credential (failed_login (fst x) c) s)"
    using attempt_wrong_password [OF assms(2-4)] by blast
  then show "serve (map (attempt env email) tries) s = s" by (intro serve_unchanged) auto
  fix later client pw code
  assume five: "length tries = 5" and later: "later < fst (List.last tries) + minutes 15"
  let ?s = "kept_attempts env email tries s"
  have "unique_by lc_id (local_credentials s)" using assms(1) by (simp add: constraints_def)
  moreover have "tries \<noteq> []" "0 + int (length tries) = MAX_FAILED_ATTEMPTS"
    using five by (auto simp: MAX_FAILED_ATTEMPTS_def)
  ultimately obtain d where
      "filter (\<lambda>c. lc_user_id c = us_id u) (local_credentials ?s) = [d]" "users ?s = users s"
      "lc_locked_until d = Some (fst (List.last tries) + minutes LOCKOUT_MINUTES)"
    using kept_wrong_attempts [OF _ assms(2-5) wrong] by blast
  with assms(2) later
  show "\<exists>m. fst (attempt env email (later, client, pw, code) ?s) = Inl (HTTPException 429 m)"
    by (simp add: attempt_def login_def is_locked_def LOCKOUT_MINUTES_def)
qed


text \<open>The password with which an account was signed up logs in, at any later time, as the user
  the signup returned, and this user holds every permission in the new tenant.\<close>

theorem signup_then_login:
  assumes "get_db (signup env now rd mail queued req) s = (Inr r, s')" and "fresh_ids s"
    and "\<And>pw salt. bcrypt_checkpw env pw (bcrypt_hashpw env pw salt) = Some True"
  shows "\<exists>q s''. get_db (login env later client \<lparr>lq_email = sr_email req, lq_password = sr_password req,
             lq_mfa_code = code\<rparr>) s' = (Inr q, s'') \<and> us_id (lr_user q) = sp_user_id r \<and>
           grants_role later s'' (sp_user_id r) (sp_tenant_id r) ''admin:*''"
proof -
  from get_db_InrD [OF assms(1)] have run: "signup env now rd mail queued req s = (Inr r, s')"
    and cs: "constraints s'" by auto
  from run have "fresh_ids s'"
    using preservesD [OF fresh_signup [of "[]"], of s env now rd mail queued req] assms(2) by simp
  obtain u c where new: "users s' = users s @ [u]" "local_credentials s' = local_credentials s @ [c]"
      "mfa_configs s' = mfa_configs s" "us_id u = sp_user_id r" "us_email u = sr_email req"
      "us_is_active u" "lc_user_id c = us_id u" "lc_locked_until c = None"
      "lc_password_hash c = pwd_hash env (rd_salt rd) (sr_password req)" "next_uuid s \<le> us_id u"
      "filter (\<lambda>u. us_email u = sr_email req) (users s) = []"
      "grants_role later s' (sp_user_id r) (sp_tenant_id r) ''admin:*''"
    using signup_result [OF run assms(2)] by blast
  let ?req = "\<lparr>lq_email = sr_email req, lq_password = sr_password req, lq_mfa_code = code\<rparr>"
  have "filter (\<lambda>u. us_email u = lq_email ?req \<and> us_is_active u) (users s') = [u]"
    using new(1,5,6,11) by (auto simp: filter_empty_conv)
  moreover have "filter (\<lambda>c. lc_user_id c = us_id u) (local_credentials s') = [c]"
    using new(2,7,10) assms(2) by (auto simp: fresh_ids_def filter_empty_conv)
  moreover have "\<not> is_locked later c" using new(8) by (simp add: is_locked_def)
  moreover have "pwd_verify env (lq_password ?req) (lc_password_hash c)"
    using new(9) assms(3) by (simp add: pwd_verify_def pwd_hash_def)
  moreover have "\<forall>m \<in> set (mfa_configs s'). mf_user_id m \<noteq> us_id u"
    using new(3,10) assms(2) by (auto simp: fresh_ids_def)
  ultimately obtain q s'' where "get_db (login env later client ?req) s' = (Inr q, s'')"
      "lr_user q = u" "roles s'' = roles s'" "role_assignments s'' = role_assignments s'"
    using login_ok [of ?req s' u c later env client] cs \<open>fresh_ids s'\<close> by blast
  with new(4,12) grants_role_cong show ?thesis by metis
qed

text \<open>C11: A password reset that returns used an unexpired token once: the same token never works
  again; every credential of the token's user has the new password and is unlocked, every session
  of this user is revoked, and the sessions of all others are as before.\<close>

theorem reset_password_effect:
  assumes "get_db (reset_password env now salt token pw) s = (Inr (), s')"
  shows "(\<forall>later salt' pw'. fst (get_db (reset_password env later salt' token pw') s') =
             Inl (HTTPException 400 ''Invalid or expired reset token''))
    \<and> (\<exists>t \<in> set (password_reset_tokens s).
             at_token_hash t = hash_token env token \<and> at_used_at t = None \<and> \<not> token_expired now t \<and>
             (\<forall>c \<in> set (local_credentials s'). lc_user_id c = at_user_id t \<longrightarrow>
                 lc_password_hash c = pwd_hash env salt pw \<and> lc_locked_until c = None) \<and>
             (\<forall>x \<in> set (user_sessions s'). se_user_id x = at_user_id t \<longrightarrow> se_revoked_at x \<noteq> None) \<and>
             filter (\<lambda>x. se_user_id x \<noteq> at_user_id t) (user_sessions s') =
               filter (\<lambda>x. se_user_id x \<noteq> at_user_id t) (user_sessions s))"
proof -
  from get_db_InrD [OF assms] have "reset_password env now salt token pw s = (Inr (), s')" by simp
  from reset_password_run [OF this] obtain t c where
    t: "filter (\<lambda>t. at_token_hash t = hash_token env token \<and> at_used_at t = None)
          (password_reset_tokens s) = [t]"
    and unexpired: "\<not> token_expired now t"
    and c: "scalar_one_or_none (filter (\<lambda>c. lc_user_id c = at_user_id t) (local_credentials s)) = Inr c"
    and s': "password_reset_tokens s' =
        put_row at_id (t\<lparr>at_used_at := Some now\<rparr>) (password_reset_tokens s)"
      "local_credentials s' = (case c of None \<Rightarrow> local_credentials s
       | Some c \<Rightarrow> put_row lc_id (c\<lparr>lc_password_hash := pwd_hash env salt pw,
                       lc_failed_attempts := Some 0, lc_locked_until := None,
                       lc_updated_at := now\<rparr>) (local_credentials s))"
      "user_sessions s' = user_sessions (revoke_sessions_of (at_user_id t) now s)"
    by blast
  have "filter (\<lambda>t. at_token_hash t = hash_token env token \<and> at_used_at t = None)
      (password_reset_tokens s') = []"
    unfolding s'(1) using t by (rule filter_put_row_gone) simp_all
  then have used: "fst (get_db (reset_password env later salt' token pw') s') =
      Inl (HTTPException 400 ''Invalid or expired reset token'')" for later salt' pw'
    by (simp add: get_db_def reset_password_def)
  have creds: "\<forall>c \<in> set (local_credentials s'). lc_user_id c = at_user_id t \<longrightarrow>
      lc_password_hash c = pwd_hash env salt pw \<and> lc_locked_until c = None"
    by (rule reset_credentials [OF c s'(2)])
  have revoked: "\<forall>x \<in> set (user_sessions s'). se_user_id x = at_user_id t \<longrightarrow> se_revoked_at x \<noteq> None"
    unfolding s'(3) using revoked_sessions by blast
  have others: "filter (\<lambda>x. se_user_id x \<noteq> at_user_id t) (user_sessions s') =
      filter (\<lambda>x. se_user_id x \<noteq> at_user_id t) (user_sessions s)"
    unfolding s'(3) by (rule revoke_sessions_others)
  show ?thesis
    using filter_eq_singleD [OF t] unexpired
    by (intro conjI allI used bexI [of _ t] creds revoked others) simp_all
qed

text \<open>Signing out of every device empties the user's list of sessions; revoking one session
  removes exactly that one from the list, also when it is asked for again; neither changes what any
  other user lists.\<close>

theorem revocation_isolated:
  assumes "unique_by se_id (user_sessions s)"
  shows "(case revoke_all_sessions now auth s of (r, s') \<Rightarrow>
            fst (list_sessions later auth s') = Inr [] \<and>
            (ac_user_id other \<noteq> ac_user_id auth \<longrightarrow>
               fst (list_sessions later other s') = fst (list_sessions later other s)))
    \<and> (case revoke_session now auth (Some i) s of (r, s') \<Rightarrow>
            (\<forall>xs. fst (list_sessions later auth s) = Inr xs \<longrightarrow>
               fst (list_sessions later auth s') = Inr (filter (\<lambda>x. se_id x \<noteq> i) xs)) \<and>
            (ac_user_id other \<noteq> ac_user_id auth \<longrightarrow>
               fst (list_sessions later other s') = fst (list_sessions later other s)))"
proof
  let ?live = "\<lambda>a x. se_user_id x = ac_user_id a \<and> se_revoked_at x = None \<and> se_expires_at x > later"
  let ?s1 = "revoke_sessions_of (ac_user_id auth) now s"
  have "filter (?live auth) (user_sessions ?s1) = []"
    unfolding filter_empty_conv using revoked_sessions by blast
  moreover have "filter (?live other) (user_sessions ?s1) = filter (?live other) (user_sessions s)"
    if "ac_user_id other \<noteq> ac_user_id auth"
    using that by (intro revoke_sessions_others) simp
  ultimately show "case revoke_all_sessions now auth s of (r, s') \<Rightarrow>
            fst (list_sessions later auth s') = Inr [] \<and>
            (ac_user_id other \<noteq> ac_user_id auth \<longrightarrow>
               fst (list_sessions later other s') = fst (list_sessions later other s))"
    by (simp add: revoke_all_sessions_def list_sessions_run)
  let ?p = "\<lambda>x. se_id x = i \<and> se_user_id x = ac_user_id auth"
  obtain r where r: "scalar_one_or_none (filter ?p (user_sessions s)) = Inr r"
    using unique_by_select [OF assms, of ?p i] by (metis (mono_tags, lifting) sumE)
  show "case revoke_session now auth (Some i) s of (r, s') \<Rightarrow>
            (\<forall>xs. fst (list_sessions later auth s) = Inr xs \<longrightarrow>
               fst (list_sessions later auth s') = Inr (filter (\<lambda>x. se_id x \<noteq> i) xs)) \<and>
            (ac_user_id other \<noteq> ac_user_id auth \<longrightarrow>
               fst (list_sessions later other s') = fst (list_sessions later other s))"
  proof (cases r)
    case None
    with r have none: "\<And>x. x \<in> set (user_sessions s) \<Longrightarrow> ?live auth x \<Longrightarrow> se_id x \<noteq> i"
      by (auto dest: scalar_one_or_none_filter_None)
    have "filter (\<lambda>x. se_id x \<noteq> i) (sort_key (\<lambda>x. - se_created_at x) (filter (?live auth) (user_sessions s)))
      = sort_key (\<lambda>x. - se_created_at x) (filter (?live auth) (user_sessions s))"
      using none by (intro filter_True) auto
    with r None show ?thesis by (simp add: revoke_session_def list_sessions_run)
  next
    case (Some x)
    with r have x: "x \<in> set (user_sessions s)" "?p x"
      by (auto dest: scalar_one_or_none_filter_Some)
    let ?x = "x\<lparr>se_revoked_at := Some now\<rparr>"
    let ?rows = "put_row se_id ?x (user_sessions s)"
    have rows: "?rows = map (\<lambda>y. if y = x then ?x else y) (user_sessions s)"
      using put_row_as_map [OF assms x(1)] by simp
    have same: "y = x" if "y \<in> set (user_sessions s)" "se_id y = i" for y
      using unique_by_same_key [OF assms that(1) x(1)] that(2) x(2) by simp
    have "filter (?live auth) (map (\<lambda>y. if y = x then ?x else y) ys) =
        filter (\<lambda>y. se_id y \<noteq> i) (filter (?live auth) ys)" if "set ys \<subseteq> set (user_sessions s)" for ys
      using that same x(2) by (induction ys) auto
    then have mine: "filter (?live auth) ?rows =
        filter (\<lambda>y. se_id y \<noteq> i) (filter (?live auth) (user_sessions s))"
      unfolding rows by simp
    have "filter (?live other) ?rows = filter (?live other) (user_sessions s)"
      if ne: "ac_user_id other \<noteq> ac_user_id auth"
    proof (rule filter_put_row_other)
      fix y assume y: "se_id y = se_id ?x" "y \<in> set (user_sessions s)"
      with same x(2) have "y = x" by simp
      with x(2) ne show "\<not> ?live other y" by simp
    qed simp
    with mine r Some show ?thesis
      by (simp add: revoke_session_def list_sessions_run filter_sort)
  qed
qed

text \<open>The slug of a new tenant has only lower-case letters, digits and dashes, at most 32
  characters and no dash at either end before its suffix, and it is either the slug of no tenant
  yet or the one with the random suffix, which the code does not check.\<close>

theorem signup_slug:
  assumes "unique_by tn_slug (tenants s)"
  shows "length (slugify name) \<le> 32 \<and> (\<forall>c \<in> set (slugify name). slug_char c) \<and>
     hd (slugify name @ ''a'') \<noteq> CHR ''-'' \<and> last (''a'' @ slugify name) \<noteq> CHR ''-'' \<and>
     (\<exists>r. unique_slug rnd (slugify name) s = (Inr r, s) \<and>
       (r \<notin> tn_slug ` set (tenants s) \<or> r = slugify name @ ''-'' @ rnd))"
proof -
  have "hd (slugify name @ ''a'') \<noteq> CHR ''-''"
    using strip_char_hd [of "CHR ''-''"] by (cases "slugify name = ''''") (auto simp: slugify_def)
  moreover have "last (''a'' @ slugify name) \<noteq> CHR ''-''"
    using strip_char_last [of "CHR ''-''"] by (cases "slugify name = ''''") (auto simp: slugify_def)
  moreover have "\<exists>r. unique_slug rnd (slugify name) s = (Inr r, s) \<and>
       (r \<notin> tn_slug ` set (tenants s) \<or> r = slugify name @ ''-'' @ rnd)"
    using try_slugs_unique [OF assms] unfolding unique_slug_def by blast
  ultimately show ?thesis using slugify_chars slugify_length by blast
qed


text \<open>Whatever requests these endpoints are sent, in any order and with any outcome, the database
  keeps its uniqueness constraints, and no identifier it holds is ever drawn again.\<close>

theorem auth_invariant:
  assumes "auth_reachable env s t" and "constraints s" and "fresh_ids s"
  shows "constraints t \<and> fresh_ids t"
  using assms(1)
proof (induction rule: auth_reachable.induct)
  case start
  show ?case using assms(2,3) by simp
next
  case (step t t')
  from \<open>auth_step env t t'\<close> obtain now r where t': "t' = snd (get_db (handle env now r) t)"
    by (rule auth_stepE)
  from step.IH show ?case
    unfolding t' by (auto intro: get_db_constraints local_auth.request_keeps)
qed

section \<open>Two more observations\<close>

text \<open>Two active users with the same email, in two tenants, cannot log in: the query that finds the
  user is over all tenants and raises.\<close>

lemma login_same_email_twice:
  assumes "filter (\<lambda>u. us_email u = lq_email req \<and> us_is_active u) (users s) = u # v # us"
  shows "get_db (login env now client req) s = (Inl MultipleResultsFound, s)"
  using assms by (simp add: login_def get_db_def)

lemma erase_never_succeeds: "fst (erase_my_data env auth code s) \<noteq> Inr j"
  unfolding erase_my_data_def
  by (auto split: handler_splits)

section \<open>Witnesses\<close>

definition example_account_db :: db where
  "example_account_db = empty_db\<lparr>
     users := [new_user 7 0 1 ''a@x.io''],
     local_credentials := [new_local_credential 8 0 7 ''Passw0rd''],
     password_reset_tokens := [new_auth_token 9 0 7 ''htok'' 100],
     user_sessions := [new_user_session 10 0 7 1 None None 1000,
                       new_user_session 11 0 6 1 None None 1000], next_uuid := 20\<rparr>"

definition example_auth :: auth_context where
  "example_auth = \<lparr> ac_user_id = 7, ac_tenant_id = 1, ac_email = JStr ''a@x.io'', ac_roles = [],
                    ac_permissions = {} \<rparr>"

definition example_signup :: signup_request where
  "example_signup = \<lparr> sr_email = ''b@x.io'', sr_password = ''Passw0rd'', sr_name = ''Bo'',
                      sr_company = Some ''Acme Inc'', sr_plan = ''starter'' \<rparr>"

lemmas example_defs = example_account_db_def example_env_def example_auth_def empty_db_def
  new_user_def new_local_credential_def new_auth_token_def new_user_session_def

lemma example_account_db_ok: "constraints example_account_db \<and> fresh_ids example_account_db"
  by (simp add: example_defs constraints_def unique_by_def fresh_ids_def user_email_key_def)

lemma example_signup_runs:
  "\<exists>r s'. get_db (signup example_env 0 \<lparr>rd_token = ''t'', rd_salt = ''s'', rd_hex = ''abc''\<rparr>
     (Inr ()) (Inr ()) example_signup) example_account_db = (Inr r, s')"
proof -
  let ?m = "get_db (signup example_env 0 \<lparr>rd_token = ''t'', rd_salt = ''s'', rd_hex = ''abc''\<rparr>
     (Inr ()) (Inr ()) example_signup) example_account_db"
  have "case fst ?m of Inl e \<Rightarrow> False | Inr r \<Rightarrow> True" by code_simp
  then show ?thesis by (cases ?m) (auto split: sum.splits)
qed

definition example_tries :: "(time \<times> client_info \<times> string \<times> string option) list" where
  "example_tries = map (\<lambda>t. (t, \<lparr>ci_host = None, ci_user_agent = None\<rparr>, ''wrong'', None)) [1, 2, 3, 4, 5]"

theorem lockout_never_engages_witness:
  "serve (map (attempt example_env ''a@x.io'') example_tries) example_account_db = example_account_db
   \<and> (\<exists>m. fst (attempt example_env ''a@x.io'' (6, \<lparr>ci_host = None, ci_user_agent = None\<rparr>, ''Passw0rd'', None)
        (kept_attempts example_env ''a@x.io'' example_tries example_account_db)) =
        Inl (HTTPException 429 m))"
proof -
  have pre: "constraints example_account_db"
    "filter (\<lambda>u. us_email u = ''a@x.io'' \<and> us_is_active u) (users example_account_db) =
       [new_user 7 0 1 ''a@x.io'']"
    "filter (\<lambda>c. lc_user_id c = us_id (new_user 7 0 1 ''a@x.io'')) (local_credentials example_account_db) =
       [new_local_credential 8 0 7 ''Passw0rd'']"
    "lc_locked_until (new_local_credential 8 0 7 ''Passw0rd'') = None"
    "lc_failed_attempts (new_local_credential 8 0 7 ''Passw0rd'') = Some 0"
    "\<forall>(now, client, pw, code) \<in> set example_tries. \<not> pwd_verify example_env pw
       (lc_password_hash (new_local_credential 8 0 7 ''Passw0rd''))"
    using example_account_db_ok
    by (simp, simp_all add: example_defs pwd_verify_def example_tries_def)
  have "length example_tries = 5" "6 < fst (List.last example_tries) + minutes 15"
    by (simp_all add: example_tries_def)
  with lockout_never_engages [OF pre] show ?thesis by blast
qed


theorem signup_then_login_witness:
  "\<exists>r s'. get_db (signup example_env 0 \<lparr>rd_token = ''t'', rd_salt = ''s'', rd_hex = ''abc''\<rparr>
       (Inr ()) (Inr ()) example_signup) example_account_db = (Inr r, s') \<and>
     (\<exists>q s''. get_db (login example_env 9 \<lparr>ci_host = None, ci_user_agent = None\<rparr>
         \<lparr>lq_email = sr_email example_signup, lq_password = sr_password example_signup,
          lq_mfa_code = None\<rparr>) s' = (Inr q, s'') \<and> us_id (lr_user q) = sp_user_id r \<and>
       grants_role 9 s'' (sp_user_id r) (sp_tenant_id r) ''admin:*'')"
proof -
  obtain r s' where run: "get_db (signup example_env 0 \<lparr>rd_token = ''t'', rd_salt = ''s'', rd_hex = ''abc''\<rparr>
       (Inr ()) (Inr ()) example_signup) example_account_db = (Inr r, s')"
    using example_signup_runs by blast
  have "\<exists>q s''. get_db (login example_env 9 \<lparr>ci_host = None, ci_user_agent = None\<rparr>
         \<lparr>lq_email = sr_email example_signup, lq_password = sr_password example_signup,
          lq_mfa_code = None\<rparr>) s' = (Inr q, s'') \<and> us_id (lr_user q) = sp_user_id r \<and>
       grants_role 9 s'' (sp_user_id r) (sp_tenant_id r) ''admin:*''"
    by (rule signup_then_login [OF run]) (simp_all add: example_account_db_ok, simp_all add: example_env_def)
  with run show ?thesis by blast
qed

theorem reset_password_effect_witness:
  "\<exists>s'. get_db (reset_password example_env 5 ''s'' ''tok'' ''N3wPassword'') example_account_db = (Inr (), s') \<and>
     (\<forall>later salt' pw'. fst (get_db (reset_password example_env later salt' ''tok'' pw') s') =
        Inl (HTTPException 400 ''Invalid or expired reset token''))"
proof -
  have "fst (get_db (reset_password example_env 5 ''s'' ''tok'' ''N3wPassword'') example_account_db) = Inr ()"
    by code_simp
  then have "get_db (reset_password example_env 5 ''s'' ''tok'' ''N3wPassword'') example_account_db =
      (Inr (), snd (get_db (reset_password example_env 5 ''s'' ''tok'' ''N3wPassword'') example_account_db))"
    by (metis prod.collapse)
  from this reset_password_effect [OF this] show ?thesis by blast
qed

theorem revocation_isolated_witness:
  "case revoke_session 5 example_auth (Some 10) example_account_db of (r, s') \<Rightarrow>
     fst (list_sessions 9 (example_auth\<lparr>ac_user_id := 6\<rparr>) s') =
     fst (list_sessions 9 (example_auth\<lparr>ac_user_id := 6\<rparr>) example_account_db)"
proof -
  have "unique_by se_id (user_sessions example_account_db)"
    using example_account_db_ok by (simp add: constraints_def)
  from revocation_isolated [OF this, where auth = example_auth and now = 5 and i = 10 and later = 9
      and other = "example_auth\<lparr>ac_user_id := 6\<rparr>"]
  show ?thesis by (simp add: example_auth_def split_beta)
qed

theorem signup_slug_witness:
  "\<exists>r. unique_slug ''abc'' (slugify ''Acme Inc'') example_account_db = (Inr r, example_account_db) \<and>
     (r \<notin> tn_slug ` set (tenants example_account_db) \<or> r = slugify ''Acme Inc'' @ ''-'' @ ''abc'')"
proof -
  have "unique_by tn_slug (tenants example_account_db)"
    using example_account_db_ok by (simp add: constraints_def)
  from signup_slug [OF this] show ?thesis by blast
qed

theorem auth_invariant_witness:
  "\<exists>t. auth_reachable example_env example_account_db t \<and> t \<noteq> example_account_db \<and>
     constraints t \<and> fresh_ids t"
proof -
  let ?t = "snd (get_db (handle example_env 5 (RevokeAllSessions example_auth)) example_account_db)"
  have reach: "auth_reachable example_env example_account_db ?t"
    by (intro auth_reachable.step [OF auth_reachable.start] auth_step.request)
  have "map se_revoked_at (user_sessions ?t) \<noteq> map se_revoked_at (user_sessions example_account_db)"
    by code_simp
  then have "?t \<noteq> example_account_db" by metis
  with auth_invariant [OF reach] example_account_db_ok reach show ?thesis by blast
qed

end
