(* ===== verification/License.thy ===== *)
theory License
  imports PyText "HOL-Library.Char_ord" "HOL-Library.List_Lexorder" "HOL-Library.Countable"
begin

text \<open>
  \<open>licensing/license.py\<close> and \<open>api/license.py\<close>: license validity with its grace period, the JSON
  payload and its reading back, signing and offline verification, the hardware fingerprint, the
  search for a license file, the process-wide cached license and the feature gates.

  Base64, JSON text, ISO timestamps, Ed25519, the hash functions and the machine are the fds of
  \<open>lic_env\<close>. \<open>LicenseFeatures\<close> and \<open>LicenseLimits\<close> are dataclasses whose attributes are read by name:
  each is the list of its attributes in the order of the class. A payload whose \<open>grace_period_days\<close>
  is no integer is refused when it is read.
\<close>

section \<open>Licenses\<close>

datatype license_type = SAAS | SELF_HOSTED | AIR_GAPPED | TRIAL | DEVELOPER

fun license_type_value :: "license_type \<Rightarrow> string" where
  "license_type_value SAAS = ''saas''"
| "license_type_value SELF_HOSTED = ''self-hosted''"
| "license_type_value AIR_GAPPED = ''air-gapped''"
| "license_type_value TRIAL = ''trial''"
| "license_type_value DEVELOPER = ''developer''"

definition license_types :: "license_type list" where
  "license_types = [SAAS, SELF_HOSTED, AIR_GAPPED, TRIAL, DEVELOPER]"

definition license_type_of :: "json \<Rightarrow> py_error + license_type" where
  "license_type_of v =
     (case filter (\<lambda>t. JStr (license_type_value t) = v) license_types of
        [] \<Rightarrow> Inl (ValueError ''not a valid LicenseType'') | t # _ \<Rightarrow> Inr t)"

definition LicenseFeatures :: py_dict where
  "LicenseFeatures =
     [(''graph_visualization'', JBool True), (''saved_queries'', JBool True),
      (''approval_workflows'', JBool True), (''scanner_agents'', JInt 1),
      (''ai_training_export'', JBool False), (''sso_oidc'', JBool False),
      (''custom_roles'', JBool False), (''audit_log_stream'', JBool False),
      (''api_access'', JBool True), (''compliance_reports'', JBool False)]"

definition LicenseLimits :: py_dict where
  "LicenseLimits =
     [(''max_tenants'', JInt 1), (''max_users'', JInt 10), (''max_connectors'', JInt 3),
      (''max_nodes'', JInt 500000), (''max_exports'', JInt 10)]"

text \<open>A dataclass called with keyword arguments: unknown ones raise, missing ones are defaulted.\<close>

definition dataclass_init :: "py_dict \<Rightarrow> py_dict \<Rightarrow> py_error + py_dict" where
  "dataclass_init fds kwargs =
     (if \<exists>(k, v) \<in> set kwargs. k \<notin> fst ` set fds then Inl TypeError
      else Inr (map (\<lambda>(k, d). (k, dict_get_or kwargs k d)) fds))"

record license =
  li_license_id :: json
  li_issued_to :: json
  li_issued_to_email :: json
  li_license_type :: license_type
  li_issued_at :: time
  li_expires_at :: "time option"
  li_grace_period_days :: int
  li_hardware_fingerprint :: json
  li_features :: py_dict
  li_limits :: py_dict
  li_metadata :: json

definition is_expired :: "time \<Rightarrow> license \<Rightarrow> bool" where
  "is_expired now l = (case li_expires_at l of None \<Rightarrow> False | Some t \<Rightarrow> now > t)"

definition is_in_grace_period :: "time \<Rightarrow> license \<Rightarrow> bool" where
  "is_in_grace_period now l =
     (case li_expires_at l of None \<Rightarrow> False
      | Some t \<Rightarrow> t < now \<and> now \<le> t + days (li_grace_period_days l))"

definition is_valid :: "time \<Rightarrow> license \<Rightarrow> bool" where
  "is_valid now l =
     (if li_expires_at l = None then True
      else if is_in_grace_period now l then True else \<not> is_expired now l)"

definition check_feature :: "license \<Rightarrow> string \<Rightarrow> bool" where
  "check_feature l feature = truthy (dict_get_or (li_features l) feature (JBool False))"

definition days_until_expiry :: "time \<Rightarrow> license \<Rightarrow> int option" where
  "days_until_expiry now l =
     (case li_expires_at l of None \<Rightarrow> None | Some t \<Rightarrow> Some (max 0 ((t - now) div days 1)))"

section \<open>The payload\<close>

record lic_env =
  iso_format :: "time \<Rightarrow> string"
  from_iso :: "string \<Rightarrow> py_error + time"
  iso_date :: "time \<Rightarrow> string"
  b64encode :: "string \<Rightarrow> string"
  b64decode :: "string \<Rightarrow> py_error + string"
  json_dumps :: "json \<Rightarrow> string"
  json_loads :: "string \<Rightarrow> py_error + json"
  ed25519_sign :: "string \<Rightarrow> string \<Rightarrow> string"
  ed25519_verify :: "string \<Rightarrow> string \<Rightarrow> string \<Rightarrow> bool"
  lic_sha256 :: "string \<Rightarrow> string"
  lic_md5 :: "string \<Rightarrow> string"

definition license_to_payload :: "lic_env \<Rightarrow> license \<Rightarrow> py_dict" where
  "license_to_payload env l =
     [(''license_id'', li_license_id l),
      (''issued_to'', li_issued_to l),
      (''issued_to_email'', li_issued_to_email l),
      (''license_type'', JStr (license_type_value (li_license_type l))),
      (''issued_at'', JStr (iso_format env (li_issued_at l))),
      (''expires_at'', (case li_expires_at l of None \<Rightarrow> JNull | Some t \<Rightarrow> JStr (iso_format env t))),
      (''grace_period_days'', JInt (li_grace_period_days l)),
      (''hardware_fingerprint'', li_hardware_fingerprint l),
      (''features'', JObj (map (\<lambda>(k, d). (k, dict_get_or (li_features l) k d)) LicenseFeatures)),
      (''limits'', JObj (map (\<lambda>(k, d). (k, dict_get_or (li_limits l) k d)) LicenseLimits)),
      (''metadata'', li_metadata l)]"

definition key_of :: "py_dict \<Rightarrow> string \<Rightarrow> py_error + json" where
  "key_of d k = (case dict_get d k of None \<Rightarrow> Inl (KeyError k) | Some v \<Rightarrow> Inr v)"

definition iso_of :: "lic_env \<Rightarrow> json \<Rightarrow> py_error + time" where
  "iso_of env v = (case v of JStr s \<Rightarrow> from_iso env s | _ \<Rightarrow> Inl TypeError)"

definition obj_of :: "json \<Rightarrow> py_error + py_dict" where
  "obj_of v = (case v of JObj d \<Rightarrow> Inr d | _ \<Rightarrow> Inl TypeError)"

definition payload_to_license :: "lic_env \<Rightarrow> py_dict \<Rightarrow> (unit, license) handler" where
  "payload_to_license env p =
     bnd (bnd (lift_err (obj_of (dict_get_or p ''features'' (JObj []))))
              (\<lambda>d. lift_err (dataclass_init LicenseFeatures d))) (\<lambda>features.
     bnd (bnd (lift_err (obj_of (dict_get_or p ''limits'' (JObj []))))
              (\<lambda>d. lift_err (dataclass_init LicenseLimits d))) (\<lambda>limits.
     bnd (lift_err (key_of p ''license_id'')) (\<lambda>i.
     bnd (lift_err (key_of p ''issued_to'')) (\<lambda>to.
     bnd (lift_err (key_of p ''issued_to_email'')) (\<lambda>email.
     bnd (bnd (lift_err (key_of p ''license_type'')) (\<lambda>v. lift_err (license_type_of v))) (\<lambda>ty.
     bnd (bnd (lift_err (key_of p ''issued_at'')) (\<lambda>v. lift_err (iso_of env v))) (\<lambda>issued.
     bnd (let v = dict_get_or p ''expires_at'' JNull
          in if truthy v then bnd (lift_err (iso_of env v)) (\<lambda>t. ret (Some t)) else ret None)
         (\<lambda>expires.
     bnd (case dict_get_or p ''grace_period_days'' (JInt 14) of
            JInt g \<Rightarrow> ret g | _ \<Rightarrow> raise TypeError) (\<lambda>grace.
     ret \<lparr> li_license_id = i, li_issued_to = to, li_issued_to_email = email,
           li_license_type = ty, li_issued_at = issued, li_expires_at = expires,
           li_grace_period_days = grace,
           li_hardware_fingerprint = dict_get_or p ''hardware_fingerprint'' JNull,
           li_features = features, li_limits = limits,
           li_metadata = dict_get_or p ''metadata'' (JObj []) \<rparr>)))))))))"

section \<open>Signing and verifying\<close>

text \<open>\<open>sort_keys=True\<close>: every object's keys in order.\<close>

primrec sort_json :: "json \<Rightarrow> json" where
  "sort_json JNull = JNull"
| "sort_json (JBool b) = JBool b"
| "sort_json (JInt i) = JInt i"
| "sort_json (JNum q) = JNum q"
| "sort_json (JStr s) = JStr s"
| "sort_json (JArr xs) = JArr (map sort_json xs)"
| "sort_json (JObj d) = JObj (sort_key fst (map (map_prod id sort_json) d))"

definition sign_license :: "lic_env \<Rightarrow> license \<Rightarrow> string \<Rightarrow> string" where
  "sign_license env l private_key =
     (let payload_bytes = json_dumps env (sort_json (JObj (license_to_payload env l)));
          signature = ed25519_sign env private_key payload_bytes
      in b64encode env (json_dumps env (JObj
           [(''version'', JStr ''1''), (''payload'', JStr (b64encode env payload_bytes)),
            (''signature'', JStr (b64encode env signature))])))"

datatype license_error = LicenseError string | PyError py_error

definition b64_field :: "lic_env \<Rightarrow> json \<Rightarrow> string \<Rightarrow> string option" where
  "b64_field env v k =
     (case v of JObj d \<Rightarrow>
        (case dict_get d k of
           Some (JStr s) \<Rightarrow> (case b64decode env s of Inl e \<Rightarrow> None | Inr x \<Rightarrow> Some x)
         | _ \<Rightarrow> None)
      | _ \<Rightarrow> None)"

definition read_license_file :: "lic_env \<Rightarrow> string \<Rightarrow> (string \<times> string) option" where
  "read_license_file env license_b64 =
     (case b64decode env license_b64 of Inl e \<Rightarrow> None
      | Inr text \<Rightarrow>
          (case json_loads env text of Inl e \<Rightarrow> None
           | Inr v \<Rightarrow>
               (case (b64_field env v ''payload'', b64_field env v ''signature'') of
                  (Some p, Some sig) \<Rightarrow> Some (p, sig)
                | _ \<Rightarrow> None)))"

definition check_license :: "lic_env \<Rightarrow> time \<Rightarrow> string \<Rightarrow> license \<Rightarrow> license_error + license" where
  "check_license env now current_fp l =
     (if truthy (li_hardware_fingerprint l) \<and> JStr current_fp \<noteq> li_hardware_fingerprint l
      then Inl (LicenseError ''License is bound to a different machine. Contact support@dgraph.ai to transfer your license.'')
      else if \<not> is_valid now l \<and> is_expired now l \<and> \<not> is_in_grace_period now l
      then Inl (LicenseError (''License expired on '' @
             (case li_expires_at l of None \<Rightarrow> '''' | Some t \<Rightarrow> iso_date env t) @
             '' (grace period of '' @ int_str (li_grace_period_days l) @
             '' days has passed). Contact support@dgraph.ai to renew.''))
      else Inr l)"

definition verify_license ::
  "lic_env \<Rightarrow> string list \<Rightarrow> time \<Rightarrow> string \<Rightarrow> string \<Rightarrow> license_error + license" where
  "verify_license env trusted now current_fp license_b64 =
     (case read_license_file env license_b64 of
        None \<Rightarrow> Inl (LicenseError ''Invalid license file format'')
      | Some (payload_bytes, signature) \<Rightarrow>
          if \<not> (\<exists>key \<in> set trusted. ed25519_verify env key signature payload_bytes)
          then Inl (LicenseError ''License signature verification failed'')
          else (case json_loads env payload_bytes of
                  Inl e \<Rightarrow> Inl (PyError e)
                | Inr (JObj p) \<Rightarrow>
                    (case fst (payload_to_license env p ()) of
                       Inl e \<Rightarrow> Inl (PyError e)
                     | Inr l \<Rightarrow> check_license env now current_fp l)
                | Inr _ \<Rightarrow> Inl (PyError AttributeError)))"

section \<open>The machine and the license file\<close>

record machine =
  k8s_cluster_uid :: "string option"
  mac_hex :: string
  node_name :: string
  system_name :: string
  cpuinfo :: "string option"
  env_license :: "string option"
  env_license_file :: "string option"
  home_license :: string
  file_text :: "string \<Rightarrow> string option"

definition fingerprint_components :: "lic_env \<Rightarrow> machine \<Rightarrow> string list" where
  "fingerprint_components env m =
     (case opt_str_or (k8s_cluster_uid m) None of
        Some uid \<Rightarrow> [''k8s:'' @ uid]
      | None \<Rightarrow>
          [''mac:'' @ mac_hex m, ''host:'' @ node_name m] @
          (if system_name m = ''Linux''
           then (case cpuinfo m of None \<Rightarrow> []
                 | Some t \<Rightarrow> [''cpu:'' @ take 8 (lic_md5 env (hd (split_char (char_of (10::nat)) t)))])
           else []))"

definition get_hardware_fingerprint :: "lic_env \<Rightarrow> machine \<Rightarrow> string" where
  "get_hardware_fingerprint env m =
     lic_sha256 env (str_join ''|'' (sort (fingerprint_components env m)))"

definition developer_license :: "time \<Rightarrow> license" where
  "developer_license now =
     \<lparr> li_license_id = JStr ''dev-local-00000000-0000-0000-0000-000000000000'',
       li_issued_to = JStr ''Developer (local)'', li_issued_to_email = JStr ''dev@localhost'',
       li_license_type = DEVELOPER, li_issued_at = now, li_expires_at = None,
       li_grace_period_days = 0, li_hardware_fingerprint = JNull,
       li_features =
         [(''graph_visualization'', JBool True), (''saved_queries'', JBool True),
          (''approval_workflows'', JBool True), (''scanner_agents'', JInt 1),
          (''ai_training_export'', JBool True), (''sso_oidc'', JBool False),
          (''custom_roles'', JBool True), (''audit_log_stream'', JBool False),
          (''api_access'', JBool True), (''compliance_reports'', JBool False)],
       li_limits =
         [(''max_tenants'', JInt 1), (''max_users'', JInt 5), (''max_connectors'', JInt 2),
          (''max_nodes'', JInt 100000), (''max_exports'', JInt 10)],
       li_metadata = JObj [(''dev_mode'', JBool True)] \<rparr>"

definition load_license ::
  "lic_env \<Rightarrow> string list \<Rightarrow> machine \<Rightarrow> time \<Rightarrow> license_error + license" where
  "load_license env trusted m now =
     (let verify = verify_license env trusted now (get_hardware_fingerprint env m) in
      case opt_str_or (env_license m) None of
        Some text \<Rightarrow> verify text
      | None \<Rightarrow>
          (case opt_str_or (env_license_file m) None of
             Some path \<Rightarrow>
               (case file_text m path of
                  None \<Rightarrow> Inl (PyError (OtherError ''FileNotFoundError''))
                | Some text \<Rightarrow> verify (str_strip text))
           | None \<Rightarrow>
               (case filter (\<lambda>p. file_text m p \<noteq> None)
                       [''/etc/dgraphai/license.dglicense'', home_license m] of
                  p # _ \<Rightarrow> verify (str_strip (the (file_text m p)))
                | [] \<Rightarrow> Inr (developer_license now))))"

text \<open>The process keeps the license it loaded first.\<close>

definition get_license ::
  "lic_env \<Rightarrow> string list \<Rightarrow> machine \<Rightarrow> time \<Rightarrow> license option \<Rightarrow>
   (license_error + license) \<times> license option" where
  "get_license env trusted m now current =
     (case current of
        Some l \<Rightarrow> (Inr l, current)
      | None \<Rightarrow>
          (case load_license env trusted m now of
             Inl e \<Rightarrow> (Inl e, None) | Inr l \<Rightarrow> (Inr l, Some l)))"

definition require_feature ::
  "lic_env \<Rightarrow> string list \<Rightarrow> machine \<Rightarrow> time \<Rightarrow> string \<Rightarrow> license option \<Rightarrow>
   (license_error + unit) \<times> license option" where
  "require_feature env trusted m now feature current =
     (case get_license env trusted m now current of
        (Inl e, c) \<Rightarrow> (Inl e, c)
      | (Inr l, c) \<Rightarrow>
          if check_feature l feature then (Inr (), c)
          else (Inl (LicenseError (''Feature '' @ feature @ '' is not available in your '' @
                  license_type_value (li_license_type l) @
                  '' license. Contact sales@dgraph.ai to upgrade.'')), c))"

text \<open>\<open>api/license.py\<close>: a \<open>LicenseError\<close> becomes a 402, any other exception is not caught.\<close>

definition gate_feature ::
  "lic_env \<Rightarrow> string list \<Rightarrow> machine \<Rightarrow> time \<Rightarrow> string \<Rightarrow> (license option, unit) handler" where
  "gate_feature env trusted m now feature = (\<lambda>current.
     case require_feature env trusted m now feature current of
       (Inl (LicenseError t), c) \<Rightarrow> (Inl (HTTPException 402 t), c)
     | (Inl (PyError e), c) \<Rightarrow> (Inl e, c)
     | (Inr u, c) \<Rightarrow> (Inr u, c))"

definition dev_mode :: "license \<Rightarrow> json" where
  "dev_mode l = (case li_metadata l of JObj d \<Rightarrow> dict_get_or d ''dev_mode'' (JBool False) | _ \<Rightarrow> JBool False)"

definition build_warnings :: "time \<Rightarrow> license \<Rightarrow> string list" where
  "build_warnings now l =
     (if truthy (dev_mode l) then [''Running with developer license''] else []) @
     (if is_in_grace_period now l
      then [''License expired - in grace period. Renew immediately.'']
      else (case days_until_expiry now l of
              Some d \<Rightarrow> if d \<le> 30 then [''License expires in '' @ int_str d @ '' days. Renew soon.'']
                        else []
            | None \<Rightarrow> [])) @
     (if dict_get_or (li_features l) ''scanner_agents'' JNull \<in> {JInt 1, JBool True}
      then [''Only 1 scanner agent allowed''] else [])"

record license_status =
  ls_license :: license
  ls_is_valid :: bool
  ls_is_expired :: bool
  ls_in_grace_period :: bool
  ls_days_until_expiry :: "int option"
  ls_is_dev_license :: json
  ls_warnings :: "string list"

definition license_status ::
  "lic_env \<Rightarrow> string list \<Rightarrow> machine \<Rightarrow> time \<Rightarrow> (license option, license_status) handler" where
  "license_status env trusted m now = (\<lambda>current.
     case get_license env trusted m now current of
       (Inl (LicenseError t), c) \<Rightarrow> (Inl (HTTPException 402 t), c)
     | (Inl (PyError e), c) \<Rightarrow> (Inl e, c)
     | (Inr l, c) \<Rightarrow>
         (Inr \<lparr> ls_license = l, ls_is_valid = is_valid now l, ls_is_expired = is_expired now l,
                ls_in_grace_period = is_in_grace_period now l,
                ls_days_until_expiry = days_until_expiry now l,
                ls_is_dev_license = dev_mode l, ls_warnings = build_warnings now l \<rparr>, c))"

section \<open>Lemmas\<close>

lemma is_valid_iff:
  "is_valid now l \<longleftrightarrow>
     (case li_expires_at l of None \<Rightarrow> True
      | Some t \<Rightarrow> now \<le> t \<or> now \<le> t + days (li_grace_period_days l))"
  by (auto simp: is_valid_def is_expired_def is_in_grace_period_def split: option.splits)

lemma is_valid_antimono: "is_valid later l \<Longrightarrow> now \<le> later \<Longrightarrow> is_valid now l"
  by (auto simp: is_valid_iff split: option.splits)

lemma check_license_ok_iff:
  "check_license env now fp l = Inr l' \<longleftrightarrow> l' = l \<and> is_valid now l \<and>
     (truthy (li_hardware_fingerprint l) \<longrightarrow> li_hardware_fingerprint l = JStr fp)"
  by (auto simp: check_license_def is_valid_def)

lemma check_license_refuses:
  assumes "\<not> is_valid now l"
  shows "\<exists>msg. check_license env now fp l = Inl (LicenseError msg)"
proof -
  have "is_expired now l" "\<not> is_in_grace_period now l"
    using assms by (auto simp: is_valid_def split: if_splits)
  with assms show ?thesis by (simp add: check_license_def)
qed

text \<open>Sorting the keys of a dict does not change what a lookup finds.\<close>

lemma map_of_filter_key: "map_of d k = map_of (filter (\<lambda>x. fst x = k) d) k"
  by (induction d) auto

lemma map_of_sort_key: "map_of (sort_key fst d) k = map_of (d :: (string \<times> 'v) list) k"
  using map_of_filter_key [of "sort_key fst d" k] map_of_filter_key [of d k]
  by (simp add: sort_key_stable)

lemma dict_get_sorted:
  "dict_get (sort_key fst (map (map_prod id f) d)) k = map_option f (dict_get d k)"
  unfolding dict_get_def map_of_sort_key by (induction d) auto

lemma dict_get_or_dict_get: "dict_get_or d k v = (case dict_get d k of None \<Rightarrow> v | Some w \<Rightarrow> w)"
  by (simp add: dict_get_or_def dict_get_def)

lemma sort_json_scalar:
  "sort_json v = v" if "\<And>xs. v \<noteq> JArr xs" "\<And>d. v \<noteq> JObj d"
  using that by (cases v) auto

lemma license_type_of_value: "license_type_of (JStr (license_type_value t)) = Inr t"
  by (cases t) (simp_all add: license_type_of_def license_types_def)

lemma attributes_self:
  assumes "map fst d = map fst fds" and "distinct (map fst fds)"
  shows "map (\<lambda>(k, e). (k, dict_get_or d k e)) fds = d"
proof (rule nth_equalityI)
  have len: "length d = length fds" using assms(1) by (metis length_map)
  then show "length (map (\<lambda>(k, e). (k, dict_get_or d k e)) fds) = length d" by simp
  fix i assume "i < length (map (\<lambda>(k, e). (k, dict_get_or d k e)) fds)"
  then have i: "i < length fds" "i < length d" using len by simp_all
  have fst_i: "fst (fds ! i) = fst (d ! i)"
    using assms(1) i by (metis nth_map)
  have "distinct (map fst d)" using assms by simp
  moreover have "(fst (d ! i), snd (d ! i)) \<in> set d" using i by simp
  ultimately have "map_of d (fst (d ! i)) = Some (snd (d ! i))"
    by (rule map_of_is_SomeI)
  with i fst_i show "map (\<lambda>(k, e). (k, dict_get_or d k e)) fds ! i = d ! i"
    by (simp add: dict_get_or_def split_beta prod_eq_iff)
qed

lemma sorted_self:
  assumes "\<forall>v \<in> snd ` set d. sort_json v = v"
  shows "map (map_prod id sort_json) d = d"
  using assms by (intro map_idI) auto

lemma dataclass_roundtrip:
  assumes "map fst d = map fst fds" and "distinct (map fst fds)"
    and "\<forall>v \<in> snd ` set d. sort_json v = v"
  shows "dataclass_init fds (sort_key fst (map (map_prod id sort_json) d)) = Inr d"
proof -
  let ?d = "sort_key fst d"
  have sorted: "sort_key fst (map (map_prod id sort_json) d) = ?d"
    using sorted_self [OF assms(3)] by simp
  have "fst ` set d = fst ` set fds" using assms(1) by (metis set_map)
  then have known: "\<not> (\<exists>(k, v) \<in> set ?d. k \<notin> fst ` set fds)" by force
  have "dict_get_or ?d k e = dict_get_or d k e" for k e
    by (simp add: dict_get_or_def map_of_sort_key)
  then have "dataclass_init fds ?d = Inr (map (\<lambda>(k, e). (k, dict_get_or d k e)) fds)"
    unfolding dataclass_init_def using known by simp
  with attributes_self [OF assms(1,2)] sorted show ?thesis by simp
qed

text \<open>The licenses the portal issues: attributes in class order, scalar or sorted values.\<close>

definition well_formed :: "license \<Rightarrow> bool" where
  "well_formed l \<longleftrightarrow>
     map fst (li_features l) = map fst LicenseFeatures \<and> map fst (li_limits l) = map fst LicenseLimits \<and>
     (\<forall>v \<in> snd ` set (li_features l) \<union> snd ` set (li_limits l) \<union>
        {li_license_id l, li_issued_to l, li_issued_to_email l, li_hardware_fingerprint l,
         li_metadata l}. sort_json v = v)"

text \<open>What the model takes from the libraries: the encodings and dates can be read back.\<close>

definition codec_laws :: "lic_env \<Rightarrow> bool" where
  "codec_laws env \<longleftrightarrow>
     (\<forall>x. b64decode env (b64encode env x) = Inr x) \<and>
     (\<forall>v. json_loads env (json_dumps env v) = Inr v) \<and>
     (\<forall>t. from_iso env (iso_format env t) = Inr t) \<and> (\<forall>t. iso_format env t \<noteq> '''')"

lemma field_names_distinct:
  "distinct (map fst LicenseFeatures)" "distinct (map fst LicenseLimits)"
  by (simp_all add: LicenseFeatures_def LicenseLimits_def)

lemma payload_roundtrip:
  assumes "well_formed l" and "codec_laws env"
  shows "fst (payload_to_license env
     (sort_key fst (map (map_prod id sort_json) (license_to_payload env l))) ()) = Inr l"
proof -
  let ?p = "sort_key fst (map (map_prod id sort_json) (license_to_payload env l))"
  from assms(1) have features: "map fst (li_features l) = map fst LicenseFeatures"
      "\<forall>v \<in> snd ` set (li_features l). sort_json v = v"
    and limits: "map fst (li_limits l) = map fst LicenseLimits"
      "\<forall>v \<in> snd ` set (li_limits l). sort_json v = v"
    and plain: "sort_json (li_license_id l) = li_license_id l"
      "sort_json (li_issued_to l) = li_issued_to l"
      "sort_json (li_issued_to_email l) = li_issued_to_email l"
      "sort_json (li_hardware_fingerprint l) = li_hardware_fingerprint l"
      "sort_json (li_metadata l) = li_metadata l"
    unfolding well_formed_def by blast+
  note attrs = attributes_self [OF features(1) field_names_distinct(1)]
    attributes_self [OF limits(1) field_names_distinct(2)]
  have get: "dict_get ?p k = map_option sort_json (dict_get (license_to_payload env l) k)" for k
    by (rule dict_get_sorted)
  have get_or: "dict_get_or ?p k v = (case dict_get ?p k of None \<Rightarrow> v | Some w \<Rightarrow> w)" for k v
    by (rule dict_get_or_dict_get)
  have read: "dict_get (license_to_payload env l) ''features'' = Some (JObj (li_features l))"
    "dict_get (license_to_payload env l) ''limits'' = Some (JObj (li_limits l))"
    "dict_get (license_to_payload env l) ''license_id'' = Some (li_license_id l)"
    "dict_get (license_to_payload env l) ''issued_to'' = Some (li_issued_to l)"
    "dict_get (license_to_payload env l) ''issued_to_email'' = Some (li_issued_to_email l)"
    "dict_get (license_to_payload env l) ''license_type'' =
       Some (JStr (license_type_value (li_license_type l)))"
    "dict_get (license_to_payload env l) ''issued_at'' = Some (JStr (iso_format env (li_issued_at l)))"
    "dict_get (license_to_payload env l) ''expires_at'' =
       Some (case li_expires_at l of None \<Rightarrow> JNull | Some t \<Rightarrow> JStr (iso_format env t))"
    "dict_get (license_to_payload env l) ''grace_period_days'' = Some (JInt (li_grace_period_days l))"
    "dict_get (license_to_payload env l) ''hardware_fingerprint'' = Some (li_hardware_fingerprint l)"
    "dict_get (license_to_payload env l) ''metadata'' = Some (li_metadata l)"
    by (simp_all add: license_to_payload_def dict_get_def attrs)
  show ?thesis
    using assms(2)
    by (cases "li_expires_at l")
      (simp_all add: payload_to_license_def key_of_def get_or get read obj_of_def plain
        dataclass_roundtrip [OF features(1) field_names_distinct(1) features(2)]
        dataclass_roundtrip [OF limits(1) field_names_distinct(2) limits(2)]
        license_type_of_value iso_of_def codec_laws_def)
qed

section \<open>Properties\<close>

text \<open>C6: A license that verification returns was signed, byte for byte, with a key of the trusted
  set, is what its payload says, is not past its grace period, and is bound to no machine or to this
  one.\<close>

theorem verify_license_sound:
  assumes "verify_license env trusted now fp text = Inr l"
  shows "\<exists>payload sig p key. read_license_file env text = Some (payload, sig) \<and>
     key \<in> set trusted \<and> ed25519_verify env key sig payload \<and>
     json_loads env payload = Inr (JObj p) \<and> fst (payload_to_license env p ()) = Inr l \<and>
     is_valid now l \<and> (truthy (li_hardware_fingerprint l) \<longrightarrow> li_hardware_fingerprint l = JStr fp)"
proof -
  from assms obtain payload sig where rd: "read_license_file env text = Some (payload, sig)"
    by (auto simp: verify_license_def split: option.splits)
  with assms obtain key p where key: "key \<in> set trusted" "ed25519_verify env key sig payload"
    and p: "json_loads env payload = Inr (JObj p)"
    by (auto simp: verify_license_def split: if_splits sum.splits json.splits)
  with assms rd obtain l' where "fst (payload_to_license env p ()) = Inr l'"
    and "check_license env now fp l' = Inr l"
    by (auto simp: verify_license_def split: if_splits sum.splits)
  with rd key p show ?thesis by (auto simp: check_license_ok_iff)
qed

text \<open>C40: Signing and verifying are inverse: a well-formed license signed with the private key of a
  trusted key verifies to exactly this license, on the machine it is bound to and until its grace
  period ends.\<close>

theorem sign_verify_roundtrip:
  assumes "well_formed l" and "codec_laws env" and "is_valid now l"
    and "\<And>m. ed25519_verify env pk (ed25519_sign env sk m) m" and "pk \<in> set trusted"
    and "truthy (li_hardware_fingerprint l) \<longrightarrow> li_hardware_fingerprint l = JStr fp"
  shows "verify_license env trusted now fp (sign_license env l sk) = Inr l"
proof -
  let ?bytes = "json_dumps env (sort_json (JObj (license_to_payload env l)))"
  have "read_license_file env (sign_license env l sk) =
      Some (?bytes, ed25519_sign env sk ?bytes)"
    using assms(2)
    by (simp add: read_license_file_def sign_license_def Let_def b64_field_def codec_laws_def
        dict_get_def)
  moreover have "\<exists>key \<in> set trusted. ed25519_verify env key (ed25519_sign env sk ?bytes) ?bytes"
    using assms(4,5) by blast
  moreover have "json_loads env ?bytes =
      Inr (JObj (sort_key fst (map (map_prod id sort_json) (license_to_payload env l))))"
    using assms(2) by (simp add: codec_laws_def)
  moreover have "check_license env now fp l = Inr l"
    using assms(3,6) by (simp add: check_license_ok_iff)
  ultimately show ?thesis
    using payload_roundtrip [OF assms(1,2)] by (simp add: verify_license_def)
qed

text \<open>A license without an expiry is always valid; one with an expiry is valid exactly until the
  later of the expiry and the end of the grace period; at each time it is either unexpired, or in
  its grace period, or refused for good.\<close>

theorem license_validity:
  "(li_expires_at l = None \<longrightarrow> is_valid now l) \<and>
   (\<forall>t. li_expires_at l = Some t \<longrightarrow>
      (is_valid now l \<longleftrightarrow> now \<le> max t (t + days (li_grace_period_days l)))) \<and>
   (is_in_grace_period now l \<longrightarrow> is_expired now l \<and> is_valid now l) \<and>
   (\<not> is_valid now l \<longrightarrow> (\<forall>later \<ge> now. \<not> is_valid later l \<and> is_expired later l \<and>
      days_until_expiry later l = Some 0))"
proof -
  have "is_expired later l" "days_until_expiry later l = Some 0"
    if not_valid: "\<not> is_valid later l" for later
    using not_valid
    by (auto simp: is_valid_iff is_expired_def days_until_expiry_def div_nonpos_pos_le0
        split: option.splits)
  then have "\<not> is_valid now l \<longrightarrow> (\<forall>later \<ge> now. \<not> is_valid later l \<and> is_expired later l \<and>
      days_until_expiry later l = Some 0)"
    using is_valid_antimono by blast
  moreover have "is_in_grace_period now l \<longrightarrow> is_expired now l \<and> is_valid now l"
    by (auto simp: is_in_grace_period_def is_expired_def is_valid_def split: option.splits)
  ultimately show ?thesis by (auto simp: is_valid_iff)
qed

text \<open>A process that loaded its license once keeps granting its features at every later time,
  however long the license has been expired, whereas a process started then refuses the same license
  text and grants none.\<close>

theorem cached_license_outlives_expiry:
  assumes "env_license m = Some content" and "content \<noteq> ''''"
    and "get_license env trusted m now None = (Inr l, c)"
    and "check_feature l feature" and "\<not> is_valid later l"
  shows "require_feature env trusted m later feature c = (Inr (), c)
    \<and> (\<exists>msg. require_feature env trusted m later feature None = (Inl (LicenseError msg), None))"
proof
  from assms(3) have c: "c = Some l" and load: "load_license env trusted m now = Inr l"
    by (auto simp: get_license_def split: sum.splits)
  show "require_feature env trusted m later feature c = (Inr (), c)"
    using assms(4) c by (simp add: require_feature_def get_license_def)
  let ?fp = "get_hardware_fingerprint env m"
  from load assms(1,2) have v: "verify_license env trusted now ?fp content = Inr l"
    by (simp add: load_license_def opt_str_or_def)
  from verify_license_sound [OF v] obtain payload sig p key where
    "read_license_file env content = Some (payload, sig)" "key \<in> set trusted"
    "ed25519_verify env key sig payload" "json_loads env payload = Inr (JObj p)"
    "fst (payload_to_license env p ()) = Inr l" by blast
  moreover have "\<exists>msg. check_license env later ?fp l = Inl (LicenseError msg)"
    by (rule check_license_refuses [OF assms(5)])
  ultimately have "\<exists>msg. verify_license env trusted later ?fp content = Inl (LicenseError msg)"
    by (auto simp: verify_license_def)
  then show "\<exists>msg. require_feature env trusted m later feature None = (Inl (LicenseError msg), None)"
    using assms(1,2)
    by (auto simp: require_feature_def get_license_def load_license_def opt_str_or_def)
qed

section \<open>Witnesses\<close>

definition example_license :: license where
  "example_license = (developer_license 0)\<lparr>li_expires_at := Some 100, li_grace_period_days := 1,
     li_metadata := JNull\<rparr>"

text \<open>An encoding of the two JSON texts a license file has, enough for one license.\<close>

definition example_lic_env :: lic_env where
  "example_lic_env =
     (let payload = sort_json (JObj (license_to_payload
            \<lparr> iso_format = (\<lambda>t. CHR ''T'' # int_str t), from_iso = (\<lambda>s. Inr 0), iso_date = (\<lambda>t. ''''),
              b64encode = id, b64decode = Inr, json_dumps = (\<lambda>v. ''''), json_loads = (\<lambda>s. Inr JNull),
              ed25519_sign = (\<lambda>k m. k @ m), ed25519_verify = (\<lambda>k s m. s = k @ m),
              lic_sha256 = id, lic_md5 = id \<rparr> example_license))
      in \<lparr> iso_format = (\<lambda>t. CHR ''T'' # int_str t),
           from_iso = (\<lambda>s. Inr (if s = ''T100'' then 100 else 0)), iso_date = (\<lambda>t. ''''),
           b64encode = id, b64decode = Inr,
           json_dumps = (\<lambda>v. ''p''),
           json_loads = (\<lambda>s. if s = ''p'' then Inr payload else
              Inr (JObj [(''payload'', JStr ''p''), (''signature'', JStr ''kp'')])),
           ed25519_sign = (\<lambda>k m. k @ m), ed25519_verify = (\<lambda>k s m. s = k @ m),
           lic_sha256 = id, lic_md5 = id \<rparr>)"

definition example_machine :: machine where
  "example_machine = \<lparr> k8s_cluster_uid = Some ''u'', mac_hex = '''', node_name = '''', system_name = '''',
     cpuinfo = None, env_license = Some ''file'', env_license_file = None, home_license = '''',
     file_text = (\<lambda>p. None) \<rparr>"

lemma example_license_verifies:
  "verify_license example_lic_env [''k''] 50 ''k8s:u'' ''file'' = Inr example_license"
  by code_simp

theorem verify_license_sound_witness:
  "verify_license example_lic_env [''k''] 50 ''k8s:u'' ''file'' = Inr example_license \<and>
   (\<exists>payload sig. read_license_file example_lic_env ''file'' = Some (payload, sig) \<and>
      ed25519_verify example_lic_env ''k'' sig payload) \<and> is_valid 50 example_license"
  using verify_license_sound [OF example_license_verifies] example_license_verifies by auto

theorem cached_license_outlives_expiry_witness:
  "require_feature example_lic_env [''k''] example_machine (days 9) ''custom_roles'' (Some example_license)
     = (Inr (), Some example_license) \<and>
   (\<exists>msg. require_feature example_lic_env [''k''] example_machine (days 9) ''custom_roles'' None =
     (Inl (LicenseError msg), None))"
proof (rule cached_license_outlives_expiry [where now = 50 and content = "''file''" and l = example_license])
  have "get_hardware_fingerprint example_lic_env example_machine = ''k8s:u''"
    by code_simp
  then show "get_license example_lic_env [''k''] example_machine 50 None =
      (Inr example_license, Some example_license)"
    using example_license_verifies
    by (simp add: get_license_def load_license_def example_machine_def opt_str_or_def)
  show "check_feature example_license ''custom_roles''" by code_simp
  show "\<not> is_valid (days 9) example_license" by code_simp
qed (simp_all add: example_machine_def)

text \<open>Encodings that satisfy the laws: any injection of the values into decimal numbers.\<close>

instance json :: countable
  by countable_datatype

definition injective_lic_env :: lic_env where
  "injective_lic_env =
     \<lparr> iso_format = (\<lambda>t. nat_str (to_nat t)), from_iso = (\<lambda>s. Inr (from_nat (digits_val s))),
       iso_date = (\<lambda>t. ''''), b64encode = id, b64decode = Inr,
       json_dumps = (\<lambda>v. nat_str (to_nat v)), json_loads = (\<lambda>s. Inr (from_nat (digits_val s))),
       ed25519_sign = (\<lambda>k m. k @ m), ed25519_verify = (\<lambda>k s m. s = k @ m),
       lic_sha256 = id, lic_md5 = id \<rparr>"

lemma nat_str_not_empty: "nat_str n \<noteq> ''''"
  by (subst nat_str.simps) simp

theorem sign_verify_roundtrip_witness:
  "verify_license injective_lic_env [''k''] 50 ''fp'' (sign_license injective_lic_env example_license ''k'') =
   Inr example_license"
proof (rule sign_verify_roundtrip)
  show "well_formed example_license" by code_simp
  show "codec_laws injective_lic_env"
    by (simp add: codec_laws_def injective_lic_env_def digits_val_nat_str nat_str_not_empty)
  show "is_valid 50 example_license" by code_simp
  show "truthy (li_hardware_fingerprint example_license) \<longrightarrow>
      li_hardware_fingerprint example_license = JStr ''fp''" by code_simp
qed (simp_all add: injective_lic_env_def)

theorem license_validity_witness:
  "is_valid 50 example_license \<and>
   \<not> is_valid (days 9) example_license \<and> \<not> is_valid (days 10) example_license \<and>
   is_expired (days 10) example_license \<and> days_until_expiry (days 10) example_license = Some 0"
proof -
  have "\<not> is_valid (days 9) example_license" "is_valid 50 example_license" by code_simp+
  moreover have "days 9 \<le> days 10" by code_simp
  ultimately show ?thesis using license_validity [of example_license "days 9"] by blast
qed

end
