(* ===== verification/Metering.thy ===== *)
theory Metering
  imports Oidc "HOL-Library.Product_Lexorder"
begin

text \<open>
  \<open>licensing/metering.py\<close> and \<open>api/usage.py\<close>: billing tiers, plans, volume discounts, the cost of a
  usage snapshot, and the snapshot and limits endpoints.

  Money and percentages are rationals, rounded to cents where the code rounds. The graph is the
  list of its nodes and edges; each Cypher count of the snapshot is the count it denotes, and a
  query that fails counts 0, as the code catches its exception.
\<close>

section \<open>Tiers and plans\<close>

definition TIER_RATES :: "(string \<times> rat) list" where
  "TIER_RATES =
     [(''standard'', 10 / 100), (''enrichable'', 40 / 100), (''ai_enriched'', 120 / 100),
      (''identity'', 5), (''graph_edges'', 20 / 100)]"

definition tier_rate :: "string \<Rightarrow> rat" where
  "tier_rate t = (case map_of TIER_RATES t of None \<Rightarrow> 0 | Some r \<Rightarrow> r)"

definition NODE_TYPE_TIER :: "(string \<times> string) list" where
  "NODE_TYPE_TIER =
     [(''Directory'', ''standard''), (''Tag'', ''standard''), (''Collection'', ''standard''),
      (''Event'', ''standard''), (''Vendor'', ''standard''), (''License'', ''standard''),
      (''Topic'', ''standard''), (''Organization'', ''standard''),
      (''File'', ''enrichable''), (''Application'', ''enrichable''), (''Dependency'', ''enrichable''),
      (''Certificate'', ''enrichable''), (''FaceCluster'', ''enrichable''), (''Binary'', ''enrichable''),
      (''MediaItem'', ''enrichable''), (''Version'', ''standard''), (''Product'', ''standard''),
      (''Person'', ''identity''), (''Vulnerability'', ''standard''), (''Location'', ''standard'')]"

definition BILLED_RELATIONSHIP_TYPES :: "string list" where
  "BILLED_RELATIONSHIP_TYPES =
     [''SIMILAR_TO'', ''MENTIONS'', ''CONTAINS_FACE'', ''SAME_PERSON_AS'', ''MATCHED_TO'', ''DEPICTS'',
      ''OCCURRED_DURING'']"

record billing_plan =
  bp_id :: string
  bp_name :: string
  base_monthly_fee :: rat
  included_standard_nodes :: int
  included_enrichable_nodes :: int
  included_ai_enriched_nodes :: int
  included_relationships :: int
  volume_discount_tiers :: "(int \<times> rat) list"
  bp_features :: py_dict

text \<open>\<open>sorted(tiers, reverse=True)\<close>, then the first tier whose threshold is reached.\<close>

fun first_tier :: "int \<Rightarrow> (int \<times> rat) list \<Rightarrow> rat" where
  "first_tier n [] = 0"
| "first_tier n ((threshold, discount) # tiers) =
     (if n \<ge> threshold then discount else first_tier n tiers)"

definition volume_discount_pct :: "billing_plan \<Rightarrow> int \<Rightarrow> rat" where
  "volume_discount_pct p total_nodes = first_tier total_nodes (rev (sort (volume_discount_tiers p)))"

definition feature_flags :: "bool list \<Rightarrow> int \<Rightarrow> py_dict" where
  "feature_flags bs agents =
     zip [''graph_visualization'', ''saved_queries'', ''approval_workflows'', ''ai_enrichment'',
          ''face_recognition'', ''sso_oidc'', ''custom_roles'', ''audit_log_stream'', ''api_access'',
          ''compliance_reports'', ''ai_training_export''] (map JBool bs)
     @ [(''scanner_agents'', JInt agents)]"

definition PLANS :: "(string \<times> billing_plan) list" where
  "PLANS =
     [(''starter'',
       \<lparr> bp_id = ''starter'', bp_name = ''Starter'', base_monthly_fee = 0,
         included_standard_nodes = 50000, included_enrichable_nodes = 10000,
         included_ai_enriched_nodes = 0, included_relationships = 100000,
         volume_discount_tiers = [],
         bp_features = feature_flags [True, True, False, False, False, False, False, False, False,
                                      False, False] 1 \<rparr>),
      (''pro'',
       \<lparr> bp_id = ''pro'', bp_name = ''Pro'', base_monthly_fee = 299,
         included_standard_nodes = 500000, included_enrichable_nodes = 200000,
         included_ai_enriched_nodes = 50000, included_relationships = 2000000,
         volume_discount_tiers = [(1000000, 10), (5000000, 15)],
         bp_features = feature_flags [True, True, True, True, False, False, True, False, True,
                                      True, False] 3 \<rparr>),
      (''business'',
       \<lparr> bp_id = ''business'', bp_name = ''Business'', base_monthly_fee = 999,
         included_standard_nodes = 5000000, included_enrichable_nodes = 2000000,
         included_ai_enriched_nodes = 500000, included_relationships = 20000000,
         volume_discount_tiers = [(5000000, 15), (20000000, 20), (50000000, 25)],
         bp_features = feature_flags [True, True, True, True, True, True, True, True, True,
                                      True, False] 10 \<rparr>),
      (''enterprise'',
       \<lparr> bp_id = ''enterprise'', bp_name = ''Enterprise'', base_monthly_fee = 0,
         included_standard_nodes = -1, included_enrichable_nodes = -1,
         included_ai_enriched_nodes = -1, included_relationships = -1,
         volume_discount_tiers = [(10000000, 20), (50000000, 30), (100000000, 40)],
         bp_features = feature_flags [True, True, True, True, True, True, True, True, True,
                                      True, True] (-1) \<rparr>)]"

definition starter_plan :: billing_plan where
  "starter_plan = snd (hd PLANS)"

definition get_plan :: "string \<Rightarrow> billing_plan" where
  "get_plan plan_id = (case map_of PLANS plan_id of None \<Rightarrow> starter_plan | Some p \<Rightarrow> p)"

section \<open>Snapshots and their cost\<close>

record usage_snapshot =
  sn_tenant_id :: uuid
  sn_snapshot_at :: time
  standard_nodes :: int
  enrichable_nodes :: int
  ai_enriched_nodes :: int
  identified_people :: int
  unknown_people :: int
  billed_relationships :: int
  files_raw :: int
  files_enriched :: int
  files_vision :: int
  files_code :: int
  files_binary :: int

definition total_nodes :: "usage_snapshot \<Rightarrow> int" where
  "total_nodes sn = standard_nodes sn + enrichable_nodes sn + ai_enriched_nodes sn +
     identified_people sn + unknown_people sn"

record cost_breakdown =
  standard_cost :: rat
  enrichable_cost :: rat
  ai_enriched_cost :: rat
  identity_cost :: rat
  graph_edge_cost :: rat
  platform_fee :: rat
  discount_pct :: rat
  discount_reason :: string

definition per_k :: "int \<Rightarrow> rat \<Rightarrow> rat" where
  "per_k count rate = (of_int count / 1000) * rate"

definition subtotal :: "cost_breakdown \<Rightarrow> rat" where
  "subtotal c = standard_cost c + enrichable_cost c + ai_enriched_cost c + identity_cost c +
     graph_edge_cost c + platform_fee c"

definition total_cost :: "cost_breakdown \<Rightarrow> rat" where
  "total_cost c = subtotal c * (1 - discount_pct c / 100)"

definition from_snapshot :: "usage_snapshot \<Rightarrow> billing_plan \<Rightarrow> cost_breakdown" where
  "from_snapshot sn plan =
     (let pct = volume_discount_pct plan (total_nodes sn)
      in \<lparr> standard_cost = per_k (standard_nodes sn) (tier_rate ''standard''),
           enrichable_cost = per_k (enrichable_nodes sn) (tier_rate ''enrichable''),
           ai_enriched_cost = per_k (ai_enriched_nodes sn) (tier_rate ''ai_enriched''),
           identity_cost = per_k (identified_people sn) (tier_rate ''identity''),
           graph_edge_cost = per_k (billed_relationships sn) (tier_rate ''graph_edges''),
           platform_fee = base_monthly_fee plan,
           discount_pct = pct,
           discount_reason = (if pct > 0 then ''Volume discount ('' @ int_str (total_nodes sn) @ '' nodes)''
                              else '''') \<rparr>)"

definition cost_line_items :: "cost_breakdown \<Rightarrow> (string \<times> rat \<times> string) list" where
  "cost_line_items c =
     [(''Standard nodes'', round_to 2 (standard_cost c), ''standard''),
      (''Enrichable nodes'', round_to 2 (enrichable_cost c), ''enrichable''),
      (''AI-enriched nodes'', round_to 2 (ai_enriched_cost c), ''ai_enriched''),
      (''Identified people'', round_to 2 (identity_cost c), ''identity''),
      (''Graph relationships'', round_to 2 (graph_edge_cost c), ''graph_edges''),
      (''Platform fee'', round_to 2 (platform_fee c), ''platform'')]"

section \<open>Counting in the graph\<close>

record gnode =
  gn_labels :: "string list"
  gn_tenant :: "uuid option"
  gn_props :: py_dict

record gedge =
  ge_type :: string
  ge_tenant :: "uuid option"

record graph =
  g_nodes :: "gnode list"
  g_edges :: "gedge list"

definition not_null :: "gnode \<Rightarrow> string \<Rightarrow> bool" where
  "not_null n k \<longleftrightarrow> dict_get_or (gn_props n) k JNull \<noteq> JNull"

definition has_label :: "string list \<Rightarrow> gnode \<Rightarrow> bool" where
  "has_label ls n \<longleftrightarrow> (\<exists>l \<in> set ls. l \<in> set (gn_labels n))"

definition count_nodes :: "uuid \<Rightarrow> (gnode \<Rightarrow> bool) \<Rightarrow> graph \<Rightarrow> int" where
  "count_nodes tid p g = int (length (filter (\<lambda>n. gn_tenant n = Some tid \<and> p n) (g_nodes g)))"

definition snapshot_counts :: "uuid \<Rightarrow> graph \<Rightarrow> int list" where
  "snapshot_counts tid g =
     [count_nodes tid (has_label [''Directory'', ''Tag'', ''Collection'', ''Event'', ''Vendor'', ''License'',
        ''Topic'', ''Organization'', ''Location'', ''Version'', ''Product'']) g,
      count_nodes tid (\<lambda>n. has_label [''File''] n \<and> \<not> not_null n ''summary'') g,
      count_nodes tid (\<lambda>n. has_label [''File''] n \<and> not_null n ''summary'') g,
      count_nodes tid (has_label [''Application'', ''Dependency'', ''Certificate'', ''Binary'', ''MediaItem'',
        ''Vulnerability'']) g,
      count_nodes tid (\<lambda>n. has_label [''Person''] n \<and> dict_get (gn_props n) ''known'' = Some (JBool True)) g,
      count_nodes tid (has_label [''FaceCluster'']) g,
      int (length (filter (\<lambda>r. ge_type r \<in> set BILLED_RELATIONSHIP_TYPES \<and> ge_tenant r = None) (g_edges g))),
      count_nodes tid (\<lambda>n. has_label [''File''] n \<and> not_null n ''scene_type'') g,
      count_nodes tid (\<lambda>n. has_label [''File''] n \<and> not_null n ''code_quality'') g,
      count_nodes tid (\<lambda>n. has_label [''File''] n \<and> not_null n ''risk_assessment'') g]"

text \<open>\<open>ok i\<close>: whether the \<open>i\<close>-th query came back.\<close>

definition query_results :: "(nat \<Rightarrow> bool) \<Rightarrow> uuid \<Rightarrow> graph \<Rightarrow> int list" where
  "query_results ok tid g =
     map (\<lambda>(i, c). if ok i then c else 0) (enumerate 0 (snapshot_counts tid g))"

definition build_snapshot :: "(nat \<Rightarrow> bool) \<Rightarrow> graph \<Rightarrow> time \<Rightarrow> uuid \<Rightarrow> usage_snapshot" where
  "build_snapshot ok g now tid =
     (let c = query_results ok tid g
      in \<lparr> sn_tenant_id = tid, sn_snapshot_at = now,
           standard_nodes = c ! 0, enrichable_nodes = c ! 1 + c ! 3, ai_enriched_nodes = c ! 2,
           identified_people = c ! 4, unknown_people = c ! 5, billed_relationships = c ! 6,
           files_raw = c ! 1, files_enriched = c ! 2, files_vision = c ! 7, files_code = c ! 8,
           files_binary = c ! 9 \<rparr>)"

section \<open>The usage endpoints\<close>

definition plan_id_of :: "tenant \<Rightarrow> string" where
  "plan_id_of t = str_or (tn_plan t) ''starter''"

definition included_nodes :: "billing_plan \<Rightarrow> int" where
  "included_nodes p =
     included_standard_nodes p + included_enrichable_nodes p + included_ai_enriched_nodes p"

definition limit_status :: "int \<Rightarrow> int \<Rightarrow> string" where
  "limit_status used limit =
     (if limit \<le> 0 then ''ok''
      else (let pct = (of_int used / of_int limit :: rat)
            in if pct \<ge> 1 then ''exceeded'' else if pct \<ge> 9 / 10 then ''critical''
               else if pct \<ge> 3 / 4 then ''warning'' else ''ok''))"

record node_limits =
  nl_used :: int
  nl_limit :: int
  nl_status :: string

definition limits_dict :: "tenant \<Rightarrow> usage_snapshot \<Rightarrow> node_limits" where
  "limits_dict t sn =
     (let included = included_nodes (get_plan (plan_id_of t))
      in \<lparr> nl_used = total_nodes sn, nl_limit = (if included > 0 then included else -1),
           nl_status = limit_status (total_nodes sn) included \<rparr>)"

definition get_usage_snapshot ::
  "(nat \<Rightarrow> bool) \<Rightarrow> graph \<Rightarrow> time \<Rightarrow> auth_context \<Rightarrow>
   (usage_snapshot \<times> cost_breakdown \<times> billing_plan \<times> node_limits) option endpoint" where
  "get_usage_snapshot ok g now auth =
     bnd (select_one tenants (\<lambda>t. tn_id t = ac_tenant_id auth)) (\<lambda>tenant.
     case tenant of
       None \<Rightarrow> ret None
     | Some t \<Rightarrow>
         (let sn = build_snapshot ok g now (ac_tenant_id auth);
              plan = get_plan (plan_id_of t)
          in ret (Some (sn, from_snapshot sn plan, plan, limits_dict t sn))))"

definition pct :: "int \<Rightarrow> int \<Rightarrow> rat option" where
  "pct used limit =
     (if limit \<le> 0 then None
      else Some (round_to 1 (min 100 (of_int used / of_int limit * 100))))"

record usage_limits =
  ul_nodes_used :: int
  ul_nodes_included :: "int option"
  ul_nodes_pct :: "rat option"
  ul_connectors_used :: int
  ul_connectors_limit :: int
  ul_connectors_pct :: "rat option"
  ul_users_used :: int
  ul_plan :: string

definition scanner_agent_limit :: "billing_plan \<Rightarrow> int" where
  "scanner_agent_limit p =
     (case dict_get (bp_features p) ''scanner_agents'' of Some (JInt n) \<Rightarrow> n | _ \<Rightarrow> 1)"

text \<open>The tenant is read without a check: a missing one raises. A failing graph counts 0 nodes.\<close>

definition get_usage_limits ::
  "graph option \<Rightarrow> auth_context \<Rightarrow> usage_limits endpoint" where
  "get_usage_limits g auth =
     bnd (select_one tenants (\<lambda>t. tn_id t = ac_tenant_id auth)) (\<lambda>tenant.
     case tenant of
       None \<Rightarrow> raise AttributeError
     | Some t \<Rightarrow>
         bnd (select_all connectors (\<lambda>c. cn_tenant_id c = ac_tenant_id auth)) (\<lambda>cs.
         bnd (select_all users (\<lambda>u. us_tenant_id u = ac_tenant_id auth)) (\<lambda>us.
         let plan = get_plan (plan_id_of t);
             used = (case g of None \<Rightarrow> 0 | Some h \<Rightarrow> count_nodes (ac_tenant_id auth) (\<lambda>n. True) h);
             included = included_nodes plan; agents = scanner_agent_limit plan
         in ret \<lparr> ul_nodes_used = used,
                  ul_nodes_included = (if included > 0 then Some included else None),
                  ul_nodes_pct = (if included > 0 then pct used included else None),
                  ul_connectors_used = int (length cs), ul_connectors_limit = agents,
                  ul_connectors_pct = (if agents > 0 then pct (int (length cs)) agents else None),
                  ul_users_used = int (length us), ul_plan = plan_id_of t \<rparr>)))"

definition list_plans :: "billing_plan list" where
  "list_plans = map snd PLANS"

definition get_plan_detail :: "string \<Rightarrow> billing_plan endpoint" where
  "get_plan_detail plan_id =
     (case map_of PLANS plan_id of
        None \<Rightarrow> raise (HTTPException 404 (''Plan '' @ plan_id @ '' not found''))
      | Some p \<Rightarrow> ret p)"

section \<open>Lemmas\<close>

lemma first_tier_desc:
  assumes "sorted (rev ts)"
  shows "first_tier n ts =
    (let R = {t \<in> set ts. fst t \<le> n} in if R = {} then 0 else snd (Max R))"
  using assms
proof (induction ts)
  case (Cons t ts)
  obtain a d where t: "t = (a, d)" by (cases t)
  have le: "\<forall>u \<in> set ts. u \<le> t" and srt: "sorted (rev ts)"
    using Cons.prems by (auto simp: sorted_append)
  define R where "R = {u \<in> set (t # ts). fst u \<le> n}"
  have "first_tier n (t # ts) = (if R = {} then 0 else snd (Max R))"
  proof (cases "a \<le> n")
    case True
    have "Max R = t"
      unfolding R_def using le True t by (intro Max_eqI) auto
    moreover have "R \<noteq> {}" unfolding R_def using True t by auto
    ultimately show ?thesis using True t by simp
  next
    case False
    then have "R = {u \<in> set ts. fst u \<le> n}" unfolding R_def using t by auto
    with Cons.IH [OF srt, unfolded Let_def] have "first_tier n ts = (if R = {} then 0 else snd (Max R))"
      by (simp only:)
    with False t show ?thesis by (simp only: first_tier.simps if_False)
  qed
  then show ?case unfolding R_def Let_def .
qed simp

lemma nonneg_per_k: "0 \<le> count \<Longrightarrow> 0 \<le> rate \<Longrightarrow> 0 \<le> per_k count rate"
  by (simp add: per_k_def)

text \<open>What the plans promise is included makes no difference to the cost.\<close>

lemma allowances_ignored:
  "from_snapshot sn (plan\<lparr>included_standard_nodes := a, included_enrichable_nodes := b,
     included_ai_enriched_nodes := c, included_relationships := d\<rparr>) = from_snapshot sn plan"
  by (simp add: from_snapshot_def volume_discount_pct_def)

lemma vulnerability_billed_as_enrichable:
  "map_of NODE_TYPE_TIER ''Vulnerability'' = Some ''standard'' \<and>
   (let sn = build_snapshot (\<lambda>i. True)
        \<lparr>g_nodes = [\<lparr>gn_labels = [''Vulnerability''], gn_tenant = Some 1, gn_props = []\<rparr>], g_edges = []\<rparr> 0 1
    in standard_nodes sn = 0 \<and> enrichable_nodes sn = 1)"
  by code_simp

section \<open>Properties\<close>

text \<open>The volume discount of a plan is the discount of the highest threshold the node count
  reaches, in whatever order the plan lists its thresholds, and 0 when it reaches none.\<close>

theorem volume_discount_highest:
  "volume_discount_pct p n =
     (let R = {t \<in> set (volume_discount_tiers p). fst t \<le> n}
      in if R = {} then 0 else snd (Max R))"
  using first_tier_desc [of "rev (sort (volume_discount_tiers p))" n]
  by (simp add: volume_discount_pct_def)

lemma plan_discounts:
  "p \<in> snd ` set PLANS \<Longrightarrow>
   volume_discount_pct p n =
     (if bp_id p = ''pro'' then if n \<ge> 5000000 then 15 else if n \<ge> 1000000 then 10 else 0
      else if bp_id p = ''business'' then
        if n \<ge> 50000000 then 25 else if n \<ge> 20000000 then 20 else if n \<ge> 5000000 then 15 else 0
      else if bp_id p = ''enterprise'' then
        if n \<ge> 100000000 then 40 else if n \<ge> 50000000 then 30 else if n \<ge> 10000000 then 20 else 0
      else 0)"
  by (auto simp: PLANS_def volume_discount_pct_def)

text \<open>On every plan that is sold the discount grows with the node count and stays below 100%,
  and the cost of a month is never negative nor above the list price of what was used.\<close>

theorem plan_costs_bounded:
  assumes "p \<in> snd ` set PLANS"
    and "0 \<le> standard_nodes sn" "0 \<le> enrichable_nodes sn" "0 \<le> ai_enriched_nodes sn"
      "0 \<le> identified_people sn" "0 \<le> billed_relationships sn"
  shows "0 \<le> total_cost (from_snapshot sn p) \<and>
     total_cost (from_snapshot sn p) \<le> subtotal (from_snapshot sn p) \<and>
     (\<forall>n m. n \<le> m \<longrightarrow> volume_discount_pct p n \<le> volume_discount_pct p m) \<and>
     (\<forall>n. 0 \<le> volume_discount_pct p n \<and> volume_discount_pct p n < 100)"
proof -
  have bounds: "0 \<le> volume_discount_pct p n \<and> volume_discount_pct p n \<le> 40" for n
    unfolding plan_discounts [OF assms(1)] by simp
  have mono: "volume_discount_pct p n \<le> volume_discount_pct p m" if "n \<le> m" for n m
    unfolding plan_discounts [OF assms(1)] using that by simp
  have "0 \<le> base_monthly_fee p" using assms(1) by (auto simp: PLANS_def)
  then have sub: "0 \<le> subtotal (from_snapshot sn p)"
    using assms(2-) by (simp add: subtotal_def from_snapshot_def Let_def per_k_def tier_rate_def TIER_RATES_def)
  have d: "discount_pct (from_snapshot sn p) = volume_discount_pct p (total_nodes sn)"
    by (simp add: from_snapshot_def Let_def)
  let ?f = "1 - discount_pct (from_snapshot sn p) / 100"
  have f: "0 \<le> ?f" "?f \<le> 1"
    using bounds [of "total_nodes sn"] unfolding d by simp_all
  have "0 \<le> total_cost (from_snapshot sn p)"
    unfolding total_cost_def using sub f(1) by (rule mult_nonneg_nonneg)
  moreover have "total_cost (from_snapshot sn p) \<le> subtotal (from_snapshot sn p)"
    unfolding total_cost_def using mult_left_mono [OF f(2) sub] by simp
  moreover have "\<forall>n. 0 \<le> volume_discount_pct p n \<and> volume_discount_pct p n < 100"
  proof (intro allI conjI)
    fix n
    show "0 \<le> volume_discount_pct p n" using bounds by blast
    have "volume_discount_pct p n \<le> 40" using bounds by blast
    also have "(40 :: rat) < 100" by simp
    finally show "volume_discount_pct p n < 100" .
  qed
  ultimately show ?thesis using mono by blast
qed

text \<open>The node counts of a snapshot depend on the tenant's own nodes only; the number of billed
  relationships does not depend on the tenant at all: on one graph every tenant is billed for the
  same relationships, those of all tenants together.\<close>

theorem usage_isolation:
  "build_snapshot ok (g\<lparr>g_nodes := filter (\<lambda>n. gn_tenant n = Some tid) (g_nodes g)\<rparr>) now tid =
     build_snapshot ok g now tid
   \<and> billed_relationships (build_snapshot ok g now tid) =
     billed_relationships (build_snapshot ok g now other)"
proof
  have own: "count_nodes tid p (g\<lparr>g_nodes := filter (\<lambda>n. gn_tenant n = Some tid) (g_nodes g)\<rparr>) =
      count_nodes tid p g" for p
    by (simp add: count_nodes_def)
  show "build_snapshot ok (g\<lparr>g_nodes := filter (\<lambda>n. gn_tenant n = Some tid) (g_nodes g)\<rparr>) now tid =
      build_snapshot ok g now tid"
    by (simp add: build_snapshot_def query_results_def snapshot_counts_def own)
  have "query_results ok tid g ! 6 = query_results ok other g ! 6"
    by (simp add: query_results_def snapshot_counts_def)
  then show "billed_relationships (build_snapshot ok g now tid) =
      billed_relationships (build_snapshot ok g now other)"
    by (simp add: build_snapshot_def Let_def)
qed

section \<open>Witnesses\<close>

definition example_snapshot :: usage_snapshot where
  "example_snapshot =
     \<lparr> sn_tenant_id = 1, sn_snapshot_at = 0, standard_nodes = 2000000, enrichable_nodes = 500000,
       ai_enriched_nodes = 1000, identified_people = 10, unknown_people = 3,
       billed_relationships = 70000, files_raw = 0, files_enriched = 0, files_vision = 0,
       files_code = 0, files_binary = 0 \<rparr>"

theorem plan_costs_bounded_witness:
  "0 \<le> total_cost (from_snapshot example_snapshot (get_plan ''pro'')) \<and>
   total_cost (from_snapshot example_snapshot (get_plan ''pro'')) \<le>
     subtotal (from_snapshot example_snapshot (get_plan ''pro''))"
proof -
  have "get_plan ''pro'' \<in> snd ` set PLANS"
    by (simp add: get_plan_def PLANS_def)
  from plan_costs_bounded [OF this, of example_snapshot] show ?thesis
    by (simp add: example_snapshot_def)
qed

end
