(* ===== verification/Workflow.thy ===== *)
theory Workflow
  imports Oidc "HOL-Library.Char_ord" "HOL-Library.List_Lexorder"
begin

text \<open>
  \<open>workflows/engine.py\<close> and \<open>api/workflows.py\<close>: templates of steps, runs that advance through them,
  approval requests that hold a run until somebody decides.

  The state has the three tables and the list of effects on the outside world (moved and deleted
  files, webhook posts), which a rollback does not undo. The \<open>context\<close> of a run is a JSON column:
  the engine assigns \<open>action_results\<close> inside the dict it holds, which SQLAlchemy does not notice, so
  the assignment lives in the handler's object only and the row keeps the context it was created
  with. \<open>_advance\<close> calls itself; the Python stack is a number of nested calls after which
  \<open>RecursionError\<close> is raised. The expression evaluator and the file servers are parameters.
\<close>

section \<open>State\<close>

record workflow_template =
  wt_id :: uuid
  wt_tenant_id :: uuid
  wt_created_by :: "uuid option"
  wt_name :: string
  wt_description :: string
  wt_is_active :: bool
  wt_trigger_type :: string
  wt_trigger_config :: py_dict
  wt_steps :: "py_dict list"
  wt_created_at :: time

datatype run_status = Running | Complete | Rejected

record workflow_run =
  wr_id :: uuid
  wr_template_id :: uuid
  wr_tenant_id :: uuid
  wr_triggered_by :: string
  wr_triggered_by_user :: "uuid option"
  wr_status :: run_status
  wr_current_step :: int
  wr_context :: py_dict
  wr_result :: json
  wr_started_at :: time
  wr_completed_at :: "time option"

datatype approval_status = Pending | Approved | RejectedApproval | Expired

record approval_request =
  ap_id :: uuid
  ap_run_id :: uuid
  ap_tenant_id :: uuid
  ap_step_id :: json
  ap_step_name :: json
  ap_description :: json
  ap_context :: py_dict
  ap_status :: approval_status
  ap_approver_id :: "uuid option"
  ap_decision_note :: "string option"
  ap_expires_at :: time
  ap_decided_at :: "time option"
  ap_created_at :: time

datatype effect = Moved string json | Deleted string | Posted json string

record wf_state =
  templates :: "workflow_template list"
  runs :: "workflow_run list"
  approvals :: "approval_request list"
  effects :: "effect list"
  wf_next :: uuid

record wf_env =
  eval_expr :: "string \<Rightarrow> (string \<times> int) list \<Rightarrow> bool option"
  fs_move :: "string \<Rightarrow> json \<Rightarrow> bool"
  fs_delete :: "string \<Rightarrow> bool"

definition wf_ok :: "wf_state \<Rightarrow> bool" where
  "wf_ok s \<longleftrightarrow> unique_by wt_id (templates s) \<and>
     unique_by (\<lambda>t. (wt_tenant_id t, wt_name t)) (templates s) \<and>
     unique_by wr_id (runs s) \<and> unique_by ap_id (approvals s)"

definition wf_undo :: "wf_state \<Rightarrow> wf_state \<Rightarrow> wf_state" where
  "wf_undo s s' = s\<lparr>effects := effects s'\<rparr>"

definition wf_request :: "(wf_state, 'a) handler \<Rightarrow> (wf_state, 'a) handler" where
  "wf_request = transaction wf_ok wf_undo"

definition wf_flush :: "(wf_state, unit) handler" where
  "wf_flush = (\<lambda>s. if wf_ok s then (Inr (), s) else (Inl IntegrityError, s))"

definition wf_fresh :: "(wf_state, uuid) handler" where
  "wf_fresh = (\<lambda>s. (Inr (wf_next s), s\<lparr>wf_next := Suc (wf_next s)\<rparr>))"

definition wf_select :: "(wf_state \<Rightarrow> 'r list) \<Rightarrow> ('r \<Rightarrow> bool) \<Rightarrow> (wf_state, 'r option) handler" where
  "wf_select table p = (\<lambda>s. (scalar_one_or_none (filter p (table s)), s))"

definition wf_the :: "(wf_state \<Rightarrow> 'r list) \<Rightarrow> ('r \<Rightarrow> bool) \<Rightarrow> (wf_state, 'r) handler" where
  "wf_the table p = (\<lambda>s. (scalar_one (filter p (table s)), s))"

text \<open>Writing a run's attributes back, all but the context.\<close>

definition put_run :: "workflow_run \<Rightarrow> wf_state \<Rightarrow> wf_state" where
  "put_run r s = s\<lparr>runs := update_where (\<lambda>x. wr_id x = wr_id r)
                            (\<lambda>x. r\<lparr>wr_context := wr_context x\<rparr>) (runs s)\<rparr>"

definition put_approval :: "approval_request \<Rightarrow> wf_state \<Rightarrow> wf_state" where
  "put_approval a s = s\<lparr>approvals := put_row ap_id a (approvals s)\<rparr>"

definition add_effect :: "effect \<Rightarrow> (wf_state, unit) handler" where
  "add_effect e = modify (\<lambda>s. s\<lparr>effects := effects s @ [e]\<rparr>)"

section \<open>Python on JSON values\<close>

definition json_len :: "json \<Rightarrow> py_error + int" where
  "json_len v =
     (case v of JArr xs \<Rightarrow> Inr (int (length xs)) | JStr s \<Rightarrow> Inr (int (length s))
      | JObj d \<Rightarrow> Inr (int (length d)) | _ \<Rightarrow> Inl TypeError)"

definition json_dict :: "json \<Rightarrow> py_error + py_dict" where
  "json_dict v = (case v of JObj d \<Rightarrow> Inr d | _ \<Rightarrow> Inl AttributeError)"

definition json_take :: "nat \<Rightarrow> json \<Rightarrow> py_error + json" where
  "json_take n v =
     (case v of JArr xs \<Rightarrow> Inr (JArr (take n xs)) | JStr s \<Rightarrow> Inr (JStr (take n s)) | _ \<Rightarrow> Inl TypeError)"

definition timedelta_hours :: "json \<Rightarrow> py_error + time" where
  "timedelta_hours v =
     (case v of JInt i \<Rightarrow> Inr (hours i) | JBool b \<Rightarrow> Inr (if b then hours 1 else 0)
      | JNum q \<Rightarrow> Inr (round (q * of_int (hours 1))) | _ \<Rightarrow> Inl TypeError)"

text \<open>\<open>xs[i]\<close>: negative indices count from the end.\<close>

definition py_index :: "'a list \<Rightarrow> int \<Rightarrow> py_error + 'a" where
  "py_index xs i =
     (let n = int (length xs)
      in if 0 \<le> i \<and> i < n then Inr (xs ! nat i)
         else if - n \<le> i \<and> i < 0 then Inr (xs ! nat (n + i)) else Inl IndexError)"

section \<open>Steps\<close>

definition count_status :: "string \<Rightarrow> json list \<Rightarrow> py_error + int" where
  "count_status st xs =
     (if \<forall>x \<in> set xs. (case x of JObj d \<Rightarrow> True | _ \<Rightarrow> False)
      then Inr (int (length (filter (\<lambda>x. case x of JObj d \<Rightarrow> dict_get d ''status'' = Some (JStr st)
                                          | _ \<Rightarrow> False) xs)))
      else Inl AttributeError)"

definition evaluate_condition :: "wf_env \<Rightarrow> py_dict \<Rightarrow> json \<Rightarrow> (wf_state, bool) handler" where
  "evaluate_condition env ctx expression =
     bnd (lift_err (json_len (dict_get_or ctx ''files'' (JArr [])))) (\<lambda>files.
     bnd (lift_err (json_iter (dict_get_or ctx ''approvals'' (JArr [])))) (\<lambda>as.
     bnd (lift_err (count_status ''approved'' as)) (\<lambda>approved.
     bnd (lift_err (json_iter (dict_get_or ctx ''action_results'' (JArr [])))) (\<lambda>rs.
     bnd (lift_err (count_status ''error'' rs)) (\<lambda>errors.
     ret (case expression of
            JStr e \<Rightarrow>
              (case eval_expr env e [(''file_count'', files), (''approval_count'', approved),
                       (''error_count'', errors), (''true'', 1), (''false'', 0)] of
                 None \<Rightarrow> True | Some b \<Rightarrow> b)
          | _ \<Rightarrow> True))))))"

definition approval_description :: "py_dict \<Rightarrow> json \<Rightarrow> (wf_state, json) handler" where
  "approval_description config files =
     (let d = dict_get_or config ''description'' JNull
      in if truthy d then ret d
         else if truthy files
         then bnd (lift_err (json_len files)) (\<lambda>n.
                ret (JStr (''Approval required for '' @ int_str n @ '' file action(s)'')))
         else ret (JStr ''Approval required to proceed''))"

definition create_approval_request ::
  "time \<Rightarrow> workflow_run \<Rightarrow> json \<Rightarrow> json \<Rightarrow> py_dict \<Rightarrow> (wf_state, unit) handler" where
  "create_approval_request now run step_id step_name config =
     bnd (lift_err (timedelta_hours (dict_get_or config ''timeout_hours'' (JInt 48)))) (\<lambda>timeout.
     let files = dict_get_or (wr_context run) ''files'' (JArr []) in
     bnd (approval_description config files) (\<lambda>description.
     bnd (lift_err (json_take 50 files)) (\<lambda>shown.
     bnd wf_fresh (\<lambda>i.
     modify (\<lambda>s. s\<lparr>approvals := approvals s @
       [\<lparr> ap_id = i, ap_run_id = wr_id run, ap_tenant_id = wr_tenant_id run, ap_step_id = step_id,
          ap_step_name = step_name, ap_description = description,
          ap_context = [(''files'', shown),
            (''actions'', dict_get_or (wr_context run) ''pending_actions'' (JArr []))],
          ap_status = Pending, ap_approver_id = None, ap_decision_note = None,
          ap_expires_at = now + timeout, ap_decided_at = None, ap_created_at = now \<rparr>]\<rparr>)))))"

definition do_move :: "wf_env \<Rightarrow> py_dict \<Rightarrow> py_dict \<Rightarrow> bool \<Rightarrow> (wf_state, json) handler" where
  "do_move env file_entry params dry_run =
     (let source = dict_get_or file_entry ''path'' (JStr '''');
          dest = dict_get_or params ''destination'' (JStr '''')
      in if dry_run
         then ret (JObj [(''status'', JStr ''dry_run''), (''source'', source), (''destination'', dest)])
         else (case source of
                 JStr p \<Rightarrow>
                   if fs_move env p dest
                   then thn (add_effect (Moved p dest))
                            (ret (JObj [(''status'', JStr ''moved''), (''source'', source),
                                        (''destination'', dest)]))
                   else ret (JObj [(''status'', JStr ''error''), (''error'', JStr ''move failed'')])
               | _ \<Rightarrow> ret (JObj [(''status'', JStr ''error''), (''error'', JStr ''move failed'')])))"

definition do_delete :: "wf_env \<Rightarrow> py_dict \<Rightarrow> bool \<Rightarrow> (wf_state, json) handler" where
  "do_delete env file_entry dry_run =
     (let source = dict_get_or file_entry ''path'' (JStr '''')
      in if dry_run then ret (JObj [(''status'', JStr ''dry_run''), (''path'', source)])
         else (case source of
                 JStr p \<Rightarrow>
                   if fs_delete env p
                   then thn (add_effect (Deleted p))
                            (ret (JObj [(''status'', JStr ''deleted''), (''path'', source)]))
                   else ret (JObj [(''status'', JStr ''error''), (''error'', JStr ''delete failed'')])
               | _ \<Rightarrow> ret (JObj [(''status'', JStr ''error''), (''error'', JStr ''delete failed'')])))"

definition do_tag :: "py_dict \<Rightarrow> json \<Rightarrow> json" where
  "do_tag file_entry tags =
     JObj [(''status'', JStr ''tagged''), (''path'', dict_get_or file_entry ''path'' JNull), (''tags'', tags)]"

text \<open>One file of an action: whatever is raised for it becomes an error entry.\<close>

definition action_on ::
  "wf_env \<Rightarrow> json \<Rightarrow> json \<Rightarrow> bool \<Rightarrow> json \<Rightarrow> (wf_state, json) handler" where
  "action_on env action_type params dry_run entry =
     py_try
       (if action_type = JStr ''move'' then
          bnd (lift_err (json_dict entry)) (\<lambda>f.
          bnd (lift_err (json_dict params)) (\<lambda>p. do_move env f p dry_run))
        else if action_type = JStr ''delete'' then
          bnd (lift_err (json_dict entry)) (\<lambda>f. do_delete env f dry_run)
        else if action_type = JStr ''tag'' then
          bnd (lift_err (json_dict params)) (\<lambda>p.
          bnd (lift_err (json_dict entry)) (\<lambda>f. ret (do_tag f (dict_get_or p ''tags'' (JArr [])))))
        else ret (JObj [(''status'', JStr ''unknown_action''), (''action'', action_type)]))
       (\<lambda>e. ret (JObj [(''status'', JStr ''error''), (''error'', JStr ''exception''), (''file'', entry)]))"

fun actions_on ::
  "wf_env \<Rightarrow> json \<Rightarrow> json \<Rightarrow> bool \<Rightarrow> json list \<Rightarrow> (wf_state, json list) handler" where
  "actions_on env action_type params dry_run [] = ret []"
| "actions_on env action_type params dry_run (f # fs) =
     bnd (action_on env action_type params dry_run f) (\<lambda>r.
     bnd (actions_on env action_type params dry_run fs) (\<lambda>rs. ret (r # rs)))"

text \<open>Returns the run with \<open>action_results\<close> set in the context it holds.\<close>

definition execute_action :: "wf_env \<Rightarrow> workflow_run \<Rightarrow> py_dict \<Rightarrow> (wf_state, workflow_run) handler" where
  "execute_action env run config =
     bnd (lift_err (json_iter (dict_get_or (wr_context run) ''files'' (JArr [])))) (\<lambda>files.
     bnd (actions_on env (dict_get_or config ''action_type'' JNull)
            (dict_get_or config ''params'' (JObj []))
            (truthy (dict_get_or config ''dry_run'' (JBool True))) files) (\<lambda>results.
     ret (run\<lparr>wr_context := dict_set ''action_results'' (JArr results) (wr_context run)\<rparr>)))"

definition send_notification :: "workflow_run \<Rightarrow> py_dict \<Rightarrow> (wf_state, unit) handler" where
  "send_notification run config =
     bnd (case dict_get_or config ''message'' (JStr ''Workflow step completed'') of
            JStr m \<Rightarrow> ret m | _ \<Rightarrow> raise AttributeError) (\<lambda>message.
     bnd (lift_err (json_len (dict_get_or (wr_context run) ''files'' (JArr [])))) (\<lambda>n.
     let text = str_replace (str_replace message ''{{run_id}}'' (uuid_str (wr_id run)))
                  ''{{file_count}}'' (int_str n) in
     bnd (lift_err (json_iter (dict_get_or config ''channels'' (JArr [])))) (\<lambda>channels.
     for_each channels (\<lambda>channel.
       let url = dict_get_or config ''webhook_url'' JNull
       in py_when (channel = JStr ''webhook'' \<and> truthy url) (add_effect (Posted url text))))))"

section \<open>The engine\<close>

definition step_type :: "py_dict \<Rightarrow> json" where
  "step_type step = dict_get_or step ''type'' JNull"

definition step_id :: "workflow_run \<Rightarrow> py_dict \<Rightarrow> json" where
  "step_id run step = dict_get_or step ''id'' (JStr (''step_'' @ int_str (wr_current_step run)))"

definition step_name :: "py_dict \<Rightarrow> json" where
  "step_name step = dict_get_or step ''name'' (step_type step)"

definition step_config :: "py_dict \<Rightarrow> py_error + py_dict" where
  "step_config step = json_dict (dict_get_or step ''config'' (JObj []))"

text \<open>
  One step; \<open>continue\<close> is what follows when the step does not hold or end the run: the row is
  updated with the new \<open>current_step\<close> and \<open>_advance\<close> is called again. An \<open>else_step\<close> that is a float
  is an error at once: as an index it is a \<open>TypeError\<close>, and one that is at least the number of steps,
  with which the run is complete, is refused by the integer column when the session is flushed.
\<close>

definition execute_step ::
  "wf_env \<Rightarrow> time \<Rightarrow> (workflow_run \<Rightarrow> (wf_state, workflow_run) handler) \<Rightarrow> workflow_run \<Rightarrow> py_dict \<Rightarrow>
   (wf_state, workflow_run) handler" where
  "execute_step env now continue run step =
     (if step_type step = JStr ''approval'' then
        bnd (lift_err (step_config step)) (\<lambda>config.
        thn (create_approval_request now run (step_id run step) (step_name step) config) (ret run))
      else if step_type step = JStr ''action'' then
        bnd (lift_err (step_config step)) (\<lambda>config.
        bnd (execute_action env run config) (\<lambda>r.
        continue (r\<lparr>wr_current_step := wr_current_step r + 1\<rparr>)))
      else if step_type step = JStr ''notify'' then
        bnd (lift_err (step_config step)) (\<lambda>config.
        thn (send_notification run config)
            (continue (run\<lparr>wr_current_step := wr_current_step run + 1\<rparr>)))
      else if step_type step = JStr ''condition'' then
        bnd (lift_err (step_config step)) (\<lambda>config.
        bnd (evaluate_condition env (wr_context run)
               (dict_get_or config ''expression'' (JStr ''true''))) (\<lambda>result.
        if result then continue (run\<lparr>wr_current_step := wr_current_step run + 1\<rparr>)
        else (case dict_get_or config ''else_step'' JNull of
                JNull \<Rightarrow>
                  (let run' = run\<lparr>wr_status := Complete, wr_completed_at := Some now\<rparr>
                   in thn (modify (put_run run')) (ret run'))
              | JInt i \<Rightarrow> continue (run\<lparr>wr_current_step := i\<rparr>)
              | JBool b \<Rightarrow> continue (run\<lparr>wr_current_step := (if b then 1 else 0)\<rparr>)
              | _ \<Rightarrow> raise TypeError)))
      else ret run)"

fun advance ::
  "wf_env \<Rightarrow> time \<Rightarrow> nat \<Rightarrow> workflow_run \<Rightarrow> py_dict list \<Rightarrow> (wf_state, workflow_run) handler" where
  "advance env now 0 run steps = raise RecursionError"
| "advance env now (Suc depth) run steps =
     (if wr_current_step run \<ge> int (length steps)
      then (let run' = run\<lparr>wr_status := Complete, wr_completed_at := Some now\<rparr>
            in thn (modify (put_run run')) (ret run'))
      else
        bnd (lift_err (py_index steps (wr_current_step run))) (\<lambda>step.
        execute_step env now (\<lambda>r. thn (modify (put_run r)) (advance env now depth r steps)) run step))"

definition start_run ::
  "wf_env \<Rightarrow> time \<Rightarrow> nat \<Rightarrow> uuid option \<Rightarrow> uuid \<Rightarrow> py_dict \<Rightarrow> string \<Rightarrow> uuid option \<Rightarrow>
   (wf_state, workflow_run) handler" where
  "start_run env now depth template_id tenant_id ctx triggered_by triggered_by_user =
     (case template_id of
        None \<Rightarrow> raise (ValueError ''badly formed hexadecimal UUID string'')
      | Some tid \<Rightarrow>
          bnd (wf_select templates (\<lambda>t. wt_id t = tid \<and> wt_tenant_id t = tenant_id \<and> wt_is_active t))
              (\<lambda>template.
          case template of
            None \<Rightarrow> raise (ValueError ''Workflow template not found or inactive'')
          | Some t \<Rightarrow>
              bnd wf_fresh (\<lambda>i.
              let run = \<lparr> wr_id = i, wr_template_id = wt_id t, wr_tenant_id = tenant_id,
                          wr_triggered_by = triggered_by, wr_triggered_by_user = triggered_by_user,
                          wr_status = Running, wr_current_step = 0, wr_context = ctx,
                          wr_result = JNull, wr_started_at = now, wr_completed_at = None \<rparr>
              in thn (modify (\<lambda>s. s\<lparr>runs := runs s @ [run]\<rparr>)) (
                 thn wf_flush (advance env now depth run (wt_steps t))))))"

definition process_approval ::
  "wf_env \<Rightarrow> time \<Rightarrow> nat \<Rightarrow> uuid option \<Rightarrow> uuid \<Rightarrow> bool \<Rightarrow> string \<Rightarrow>
   (wf_state, workflow_run) handler" where
  "process_approval env now depth approval_id approver_id approved note =
     (case approval_id of
        None \<Rightarrow> raise (ValueError ''badly formed hexadecimal UUID string'')
      | Some aid \<Rightarrow>
          bnd (wf_select approvals (\<lambda>a. ap_id a = aid \<and> ap_status a = Pending)) (\<lambda>found.
          case found of
            None \<Rightarrow> raise (ValueError ''Approval not found or already decided'')
          | Some a \<Rightarrow>
              if ap_expires_at a < now then
                thn (modify (put_approval (a\<lparr>ap_status := Expired\<rparr>))) (
                thn wf_flush (raise (ValueError ''Approval request has expired'')))
              else
                thn (modify (put_approval
                       (a\<lparr>ap_status := (if approved then Approved else RejectedApproval),
                          ap_approver_id := Some approver_id, ap_decision_note := Some note,
                          ap_decided_at := Some now\<rparr>))) (
                bnd (wf_the runs (\<lambda>r. wr_id r = ap_run_id a)) (\<lambda>run.
                bnd (if \<not> approved then
                       (let run' = run\<lparr>wr_status := Rejected, wr_completed_at := Some now,
                              wr_result := JObj [(''rejected_at_step'', ap_step_id a), (''note'', JStr note)]\<rparr>
                        in thn (modify (put_run run')) (ret run'))
                     else
                       bnd (wf_the templates (\<lambda>t. wt_id t = wr_template_id run)) (\<lambda>t.
                       let run' = run\<lparr>wr_current_step := wr_current_step run + 1\<rparr>
                       in thn (modify (put_run run')) (advance env now depth run' (wt_steps t))))
                    (\<lambda>run'. thn wf_flush (ret run'))))))"

section \<open>The endpoints\<close>

definition list_templates :: "auth_context \<Rightarrow> (wf_state, workflow_template list) handler" where
  "list_templates auth =
     gets (\<lambda>s. sort_key wt_name (filter (\<lambda>t. wt_tenant_id t = ac_tenant_id auth) (templates s)))"

record create_template_request =
  ct_name :: string
  ct_description :: string
  ct_trigger_type :: string
  ct_trigger_config :: py_dict
  ct_steps :: "py_dict list"

definition create_template ::
  "time \<Rightarrow> auth_context \<Rightarrow> create_template_request \<Rightarrow> (wf_state, workflow_template) handler" where
  "create_template now auth req =
     thn (guard (has_or_admin (ac_permissions auth) ''actions:approve'')
                (HTTPException 403 ''Permission required: actions:approve'')) (
     bnd wf_fresh (\<lambda>i.
     let t = \<lparr> wt_id = i, wt_tenant_id = ac_tenant_id auth, wt_created_by = Some (ac_user_id auth),
               wt_name = ct_name req, wt_description = ct_description req, wt_is_active = True,
               wt_trigger_type = ct_trigger_type req, wt_trigger_config = ct_trigger_config req,
               wt_steps = ct_steps req, wt_created_at = now \<rparr>
     in thn (modify (\<lambda>s. s\<lparr>templates := templates s @ [t]\<rparr>)) (thn wf_flush (ret t))))"

definition get_template :: "auth_context \<Rightarrow> uuid option \<Rightarrow> (wf_state, workflow_template) handler" where
  "get_template auth template_id =
     (case template_id of
        None \<Rightarrow> raise (ValueError ''badly formed hexadecimal UUID string'')
      | Some i \<Rightarrow>
          bnd (wf_select templates (\<lambda>t. wt_id t = i \<and> wt_tenant_id t = ac_tenant_id auth)) (\<lambda>t.
          case t of None \<Rightarrow> raise (HTTPException 404 ''Workflow template not found'') | Some x \<Rightarrow> ret x))"

definition start_run_endpoint ::
  "wf_env \<Rightarrow> time \<Rightarrow> nat \<Rightarrow> auth_context \<Rightarrow> uuid option \<Rightarrow> py_dict \<Rightarrow> (wf_state, workflow_run) handler"
  where
  "start_run_endpoint env now depth auth template_id ctx =
     thn (guard (has_or_admin (ac_permissions auth) ''actions:propose'')
                (HTTPException 403 ''Permission required: actions:propose''))
         (start_run env now depth template_id (ac_tenant_id auth) ctx ''manual'' (Some (ac_user_id auth)))"

fun status_str :: "run_status \<Rightarrow> string" where
  "status_str Running = ''running''"
| "status_str Complete = ''complete''"
| "status_str Rejected = ''rejected''"

definition list_runs :: "auth_context \<Rightarrow> string option \<Rightarrow> (wf_state, workflow_run list) handler" where
  "list_runs auth status =
     gets (\<lambda>s. take 100 (sort_key (\<lambda>r. - wr_started_at r)
       (filter (\<lambda>r. wr_tenant_id r = ac_tenant_id auth \<and>
                    (case opt_str_or status None of None \<Rightarrow> True | Some x \<Rightarrow> status_str (wr_status r) = x))
               (runs s))))"

definition get_run ::
  "auth_context \<Rightarrow> uuid option \<Rightarrow> (wf_state, workflow_run \<times> approval_request list) handler" where
  "get_run auth run_id =
     (case run_id of
        None \<Rightarrow> raise (ValueError ''badly formed hexadecimal UUID string'')
      | Some i \<Rightarrow>
          bnd (wf_select runs (\<lambda>r. wr_id r = i \<and> wr_tenant_id r = ac_tenant_id auth)) (\<lambda>run.
          case run of
            None \<Rightarrow> raise (HTTPException 404 ''Run not found'')
          | Some r \<Rightarrow> gets (\<lambda>s. (r, sort_key ap_created_at
                                  (filter (\<lambda>a. ap_run_id a = wr_id r) (approvals s))))))"

definition list_pending_approvals :: "auth_context \<Rightarrow> (wf_state, approval_request list) handler" where
  "list_pending_approvals auth =
     gets (\<lambda>s. sort_key ap_created_at
       (filter (\<lambda>a. ap_tenant_id a = ac_tenant_id auth \<and> ap_status a = Pending) (approvals s)))"

text \<open>A \<open>ValueError\<close> of the engine becomes a 400; the session it leaves is rolled back either way.\<close>

definition decide_approval ::
  "wf_env \<Rightarrow> time \<Rightarrow> nat \<Rightarrow> auth_context \<Rightarrow> uuid option \<Rightarrow> string \<Rightarrow> string \<Rightarrow>
   (wf_state, workflow_run) handler" where
  "decide_approval env now depth auth approval_id decision note =
     thn (guard (decision \<in> {''approved'', ''rejected''})
                (HTTPException 400 ''decision must be approved or rejected'')) (
     thn (guard (has_or_admin (ac_permissions auth) ''actions:approve'')
                (HTTPException 403 ''Permission required: actions:approve''))
     (py_try (process_approval env now depth approval_id (ac_user_id auth)
                (decision = ''approved'') note)
             (\<lambda>e. case e of ValueError t \<Rightarrow> raise (HTTPException 400 t) | _ \<Rightarrow> raise e)))"

section \<open>Lemmas\<close>

lemma run_wf [simp]:
  "wf_fresh s = (Inr (wf_next s), s\<lparr>wf_next := Suc (wf_next s)\<rparr>)"
  "wf_flush s = (if wf_ok s then (Inr (), s) else (Inl IntegrityError, s))"
  "wf_select t p s = (scalar_one_or_none (filter p (t s)), s)"
  "wf_the u q s = (scalar_one (filter q (u s)), s)"
  by (simp_all add: wf_fresh_def wf_flush_def wf_select_def wf_the_def)

text \<open>What acts on the outside world touches no table, whether it returns or raises.\<close>

definition only_effects :: "wf_state \<Rightarrow> wf_state \<Rightarrow> bool" where
  "only_effects s s' \<longleftrightarrow> (\<exists>es. s' = s\<lparr>effects := es\<rparr>)"

lemma only_effects_refl [simp]: "only_effects s s"
  unfolding only_effects_def by (rule exI [of _ "effects s"]) simp

lemma only_effects_trans: "only_effects s t \<Longrightarrow> only_effects t u \<Longrightarrow> only_effects s u"
  by (auto simp: only_effects_def)

lemma only_effects_frame:
  assumes "only_effects s s'"
  shows "runs s' = runs s" "approvals s' = approvals s" "templates s' = templates s"
    "wf_next s' = wf_next s"
  using assms by (auto simp: only_effects_def)

lemma preserves_only_effects:
  "preserves (only_effects s0) m \<Longrightarrow> only_effects s0 (snd (m s0))"
  by (rule preservesD) simp_all

lemma add_effect_only [preserves_intros]: "preserves (only_effects s0) (add_effect e)"
  unfolding add_effect_def by (rule preserves_modify) (auto simp: only_effects_def)

lemma do_move_only [preserves_intros]: "preserves (only_effects s0) (do_move env f p dry)"
  unfolding do_move_def Let_def
  by (auto intro!: preserves_intros split: json.split)

lemma do_delete_only [preserves_intros]: "preserves (only_effects s0) (do_delete env f dry)"
  unfolding do_delete_def Let_def
  by (auto intro!: preserves_intros split: json.split)

lemma action_on_only [preserves_intros]: "preserves (only_effects s0) (action_on env ty p dry f)"
  unfolding action_on_def by (intro preserves_intros)

lemma actions_on_only [preserves_intros]: "preserves (only_effects s0) (actions_on env ty p dry fs)"
  by (induction fs) (simp_all only: actions_on.simps, (intro preserves_intros | assumption)+)

lemma execute_action_only: "preserves (only_effects s0) (execute_action env run config)"
  unfolding execute_action_def by (intro preserves_intros)

lemma send_notification_only: "preserves (only_effects s0) (send_notification run config)"
  unfolding send_notification_def Let_def
  by (auto intro!: preserves_intros split: json.split)

lemma execute_action_run:
  assumes "execute_action env run config s = (Inr r, s')"
  shows "only_effects s s'" and "\<exists>c. r = run\<lparr>wr_context := c\<rparr>"
proof -
  have "preserves (only_effects s) (execute_action env run config)"
    by (rule execute_action_only)
  from preserves_only_effects [OF this] assms show "only_effects s s'" by simp
  show "\<exists>c. r = run\<lparr>wr_context := c\<rparr>"
    using assms unfolding execute_action_def by (elim handler_elims) auto
qed

lemma send_notification_run:
  assumes "send_notification run config s = (r, s')"
  shows "only_effects s s'"
proof -
  have "preserves (only_effects s) (send_notification run config)"
    by (rule send_notification_only)
  from preserves_only_effects [OF this] assms show ?thesis by simp
qed

lemma evaluate_condition_run: "evaluate_condition env ctx e s = (r, s') \<Longrightarrow> s' = s"
  by (auto simp: evaluate_condition_def split: handler_splits)

lemma approval_description_run: "approval_description config files s = (r, s') \<Longrightarrow> s' = s"
  by (auto simp: approval_description_def Let_def split: if_splits sum.splits)

lemma create_approval_run:
  assumes "create_approval_request now run sid name config s = (Inr (), s')"
  shows "\<exists>a. s' = s\<lparr>wf_next := Suc (wf_next s), approvals := approvals s @ [a]\<rparr> \<and>
    ap_run_id a = wr_id run \<and> ap_status a = Pending \<and> ap_id a = wf_next s"
proof -
  from assms obtain timeout description shown where
    "s' = s\<lparr>wf_next := Suc (wf_next s), approvals := approvals s @
       [\<lparr> ap_id = wf_next s, ap_run_id = wr_id run, ap_tenant_id = wr_tenant_id run, ap_step_id = sid,
          ap_step_name = name, ap_description = description,
          ap_context = [(''files'', shown),
            (''actions'', dict_get_or (wr_context run) ''pending_actions'' (JArr []))],
          ap_status = Pending, ap_approver_id = None, ap_decision_note = None,
          ap_expires_at = now + timeout, ap_decided_at = None, ap_created_at = now \<rparr>]\<rparr>"
    unfolding create_approval_request_def Let_def
    by (elim handler_elims) (auto dest!: approval_description_run)
  then show ?thesis by auto
qed

lemma put_run_simps [simp]:
  "approvals (put_run r s) = approvals s" "templates (put_run r s) = templates s"
  "wf_next (put_run r s) = wf_next s" "effects (put_run r s) = effects s"
  by (simp_all add: put_run_def)

lemma put_run_ids [simp]: "map wr_id (runs (put_run r s)) = map wr_id (runs s)"
  unfolding put_run_def by (auto intro!: map_update_where_key)

lemma in_put_run:
  assumes "x \<in> set (runs (put_run r s))"
  shows "wr_id x \<noteq> wr_id r \<and> x \<in> set (runs s) \<or> wr_id x = wr_id r \<and> wr_status x = wr_status r"
  using in_update_where [of x "\<lambda>x. wr_id x = wr_id r" "\<lambda>x. r\<lparr>wr_context := wr_context x\<rparr>" "runs s"] assms
  by (auto simp: put_run_def)

text \<open>What a call of \<open>_advance\<close> on the run \<open>i\<close> leaves.\<close>

definition advanced :: "uuid \<Rightarrow> wf_state \<Rightarrow> workflow_run \<Rightarrow> wf_state \<Rightarrow> bool" where
  "advanced i s r s' \<longleftrightarrow>
     wr_id r = i \<and> templates s' = templates s \<and> wf_next s \<le> wf_next s' \<and>
     map wr_id (runs s') = map wr_id (runs s) \<and>
     (\<forall>x \<in> set (runs s'). if wr_id x = i then wr_status x = wr_status r else x \<in> set (runs s)) \<and>
     (approvals s' = approvals s \<or>
      (\<exists>a. approvals s' = approvals s @ [a] \<and> ap_run_id a = i \<and> ap_status a = Pending \<and>
           wf_next s \<le> ap_id a \<and> ap_id a < wf_next s' \<and> wr_status r = Running))"

lemma advanced_put:
  assumes "advanced i (put_run q t) r s'" and "only_effects s t" and "wr_id q = i"
  shows "advanced i s r s'"
proof -
  note frame = only_effects_frame [OF assms(2)]
  have "x \<in> set (runs s)" if "x \<in> set (runs (put_run q t))" "wr_id x \<noteq> i" for x
    using in_put_run [OF that(1)] that(2) assms(3) frame(1) by auto
  with assms(1) frame show ?thesis
    by (auto simp: advanced_def)
qed

lemma bnd_lift_InrE:
  assumes "bnd (lift_err x) f s = (Inr r, s')"
  obtains y where "x = Inr y" and "f y s = (Inr r, s')"
  using assms by (auto split: sum.splits)

lemma execute_step_cases:
  assumes "execute_step env now k run step s = (Inr r, s')"
  obtains (continue) q t where "k q t = (Inr r, s')" "only_effects s t" "wr_id q = wr_id run"
      "wr_status q = wr_status run"
  | (approval) sid name config where
      "create_approval_request now run sid name config s = (Inr (), s')" "r = run"
  | (complete) "r = run\<lparr>wr_status := Complete, wr_completed_at := Some now\<rparr>" "s' = put_run r s"
  | (stuck) "r = run" "s' = s"
proof -
  consider (a) "step_type step = JStr ''approval''" | (b) "step_type step = JStr ''action''"
    | (c) "step_type step = JStr ''notify''" | (d) "step_type step = JStr ''condition''"
    | (e) "step_type step \<notin> {JStr ''approval'', JStr ''action'', JStr ''notify'', JStr ''condition''}"
    by blast
  then show thesis
  proof cases
    case a
    have "bnd (lift_err (step_config step)) (\<lambda>config.
        thn (create_approval_request now run (step_id run step) (step_name step) config) (ret run)) s =
        (Inr r, s')"
      using assms unfolding execute_step_def a by simp
    then show thesis
      by (elim bnd_lift_InrE thn_InrE) (rule approval, auto)
  next
    case b
    have "bnd (lift_err (step_config step)) (\<lambda>config.
        bnd (execute_action env run config) (\<lambda>r. k (r\<lparr>wr_current_step := wr_current_step r + 1\<rparr>))) s =
        (Inr r, s')"
      using assms unfolding execute_step_def b by simp
    then obtain config q t where q: "execute_action env run config s = (Inr q, t)"
      and k: "k (q\<lparr>wr_current_step := wr_current_step q + 1\<rparr>) t = (Inr r, s')"
      by (elim bnd_lift_InrE bnd_InrE) blast
    obtain c where "q = run\<lparr>wr_context := c\<rparr>" using execute_action_run(2) [OF q] ..
    with continue [OF k execute_action_run(1) [OF q]] show thesis by simp
  next
    case c
    have "bnd (lift_err (step_config step)) (\<lambda>config.
        thn (send_notification run config)
            (k (run\<lparr>wr_current_step := wr_current_step run + 1\<rparr>))) s = (Inr r, s')"
      using assms unfolding execute_step_def c by simp
    then obtain config u t where n: "send_notification run config s = (Inr u, t)"
      and k: "k (run\<lparr>wr_current_step := wr_current_step run + 1\<rparr>) t = (Inr r, s')"
      by (elim bnd_lift_InrE thn_InrE) blast
    from continue [OF k send_notification_run [OF n]] show thesis by simp
  next
    case d
    have "bnd (lift_err (step_config step)) (\<lambda>config.
        bnd (evaluate_condition env (wr_context run)
               (dict_get_or config ''expression'' (JStr ''true''))) (\<lambda>result.
        if result then k (run\<lparr>wr_current_step := wr_current_step run + 1\<rparr>)
        else (case dict_get_or config ''else_step'' JNull of
                JNull \<Rightarrow>
                  (let run' = run\<lparr>wr_status := Complete, wr_completed_at := Some now\<rparr>
                   in thn (modify (put_run run')) (ret run'))
              | JInt i \<Rightarrow> k (run\<lparr>wr_current_step := i\<rparr>)
              | JBool b \<Rightarrow> k (run\<lparr>wr_current_step := (if b then 1 else 0)\<rparr>)
              | _ \<Rightarrow> raise TypeError))) s = (Inr r, s')"
      using assms unfolding execute_step_def d by simp
    then obtain config result t where
      e: "evaluate_condition env (wr_context run) (dict_get_or config ''expression'' (JStr ''true'')) s =
          (Inr result, t)"
      and rest: "(if result then k (run\<lparr>wr_current_step := wr_current_step run + 1\<rparr>)
        else (case dict_get_or config ''else_step'' JNull of
                JNull \<Rightarrow>
                  (let run' = run\<lparr>wr_status := Complete, wr_completed_at := Some now\<rparr>
                   in thn (modify (put_run run')) (ret run'))
              | JInt i \<Rightarrow> k (run\<lparr>wr_current_step := i\<rparr>)
              | JBool b \<Rightarrow> k (run\<lparr>wr_current_step := (if b then 1 else 0)\<rparr>)
              | _ \<Rightarrow> raise TypeError)) t = (Inr r, s')"
      by (elim bnd_lift_InrE bnd_InrE) blast
    have t: "t = s" using evaluate_condition_run [OF e] .
    have "(\<exists>i. k (run\<lparr>wr_current_step := i\<rparr>) s = (Inr r, s')) \<or>
        r = run\<lparr>wr_status := Complete, wr_completed_at := Some now\<rparr> \<and> s' = put_run r s"
      using rest unfolding t Let_def by (auto split: if_splits json.splits)
    then show thesis using continue complete by fastforce
  next
    case e
    have "execute_step env now k run step = ret run" using e by (simp add: execute_step_def)
    with assms show thesis using stuck by simp
  qed
qed

lemma advance_advanced:
  assumes "advance env now depth run steps s = (Inr r, s')" and "wr_status run = Running"
    and "\<forall>x \<in> set (runs s). wr_id x = wr_id run \<longrightarrow> wr_status x = Running"
  shows "advanced (wr_id run) s r s'"
  using assms
proof (induction depth arbitrary: run s)
  case (Suc depth)
  have finish: "advanced (wr_id run) s r s'"
    if "r = run\<lparr>wr_status := Complete, wr_completed_at := Some now\<rparr>" "s' = put_run r s"
    using that in_put_run [of _ r s] by (auto simp: advanced_def)
  show ?case
  proof (cases "wr_current_step run \<ge> int (length steps)")
    case True
    with Suc.prems(1) have "r = run\<lparr>wr_status := Complete, wr_completed_at := Some now\<rparr>"
      "s' = put_run r s" by (auto simp: Let_def)
    then show ?thesis by (rule finish)
  next
    case False
    with Suc.prems(1) obtain step where
      "execute_step env now (\<lambda>r. thn (modify (put_run r)) (advance env now depth r steps)) run step s =
        (Inr r, s')"
      by (simp del: run_bnd) (elim handler_elims, auto)
    then show ?thesis
    proof (cases rule: execute_step_cases)
      case (continue q t)
      have "\<forall>x \<in> set (runs (put_run q t)). wr_id x = wr_id q \<longrightarrow> wr_status x = Running"
        using in_put_run continue(4) Suc.prems(2) by metis
      with Suc.IH [of q "put_run q t"] continue Suc.prems(2)
      have "advanced (wr_id run) (put_run q t) r s'" by simp
      then show ?thesis using continue(2,3) by (rule advanced_put)
    next
      case (approval step_id step_name config)
      from create_approval_run [OF this(1)] approval(2) Suc.prems(2,3) show ?thesis
        by (auto simp: advanced_def)
    next
      case complete
      then show ?thesis by (rule finish)
    next
      case stuck
      with Suc.prems(2,3) show ?thesis by (auto simp: advanced_def)
    qed
  qed
qed simp

section \<open>The invariant of runs and approvals\<close>

text \<open>
  A pending approval belongs to a run that is running, a run waits for at most one approval, and
  identifiers are below the counter.
\<close>

definition wf_gate :: "wf_state \<Rightarrow> bool" where
  "wf_gate s \<longleftrightarrow>
     (\<forall>r \<in> set (runs s). wr_id r < wf_next s) \<and>
     (\<forall>a \<in> set (approvals s). ap_id a < wf_next s \<and> ap_run_id a < wf_next s) \<and>
     (\<forall>a \<in> set (approvals s). ap_status a = Pending \<longrightarrow>
        (\<exists>r \<in> set (runs s). wr_id r = ap_run_id a \<and> wr_status r = Running)) \<and>
     (\<forall>a \<in> set (approvals s). \<forall>b \<in> set (approvals s).
        ap_status a = Pending \<and> ap_status b = Pending \<and> ap_run_id a = ap_run_id b \<longrightarrow> a = b)"

definition wf_inv :: "wf_state \<Rightarrow> bool" where
  "wf_inv s \<longleftrightarrow> wf_ok s \<and> wf_gate s"

definition not_waiting :: "uuid \<Rightarrow> wf_state \<Rightarrow> bool" where
  "not_waiting i s \<longleftrightarrow> (\<forall>a \<in> set (approvals s). ap_run_id a = i \<longrightarrow> ap_status a \<noteq> Pending)"

lemma ids_image: "map f xs = map f ys \<Longrightarrow> f ` set xs = f ` set ys"
  by (metis set_map)

lemma ids_less:
  assumes "f ` set xs = f ` set ys" and "\<forall>y \<in> set ys. f y < (n :: nat)"
  shows "\<forall>x \<in> set xs. f x < n"
proof
  fix x assume "x \<in> set xs"
  then have "f x \<in> f ` set ys" using assms(1) by blast
  with assms(2) show "f x < n" by auto
qed

lemma advanced_gate:
  assumes "advanced i s r s'" and "wf_gate s" and "unique_by wr_id (runs s)"
    and "not_waiting i s" and "i \<in> wr_id ` set (runs s)" and "i < wf_next s"
  shows "wf_gate s'"
proof -
  have "map wr_id (runs s') = map wr_id (runs s)" and next': "wf_next s \<le> wf_next s'"
    using assms(1) by (simp_all add: advanced_def)
  from ids_image [OF this(1)] have ids: "wr_id ` set (runs s') = wr_id ` set (runs s)" .
  have others: "x \<in> set (runs s)" if "x \<in> set (runs s')" "wr_id x \<noteq> i" for x
    using assms(1) that by (auto simp: advanced_def)
  have mine: "wr_status x = wr_status r" if "x \<in> set (runs s')" "wr_id x = i" for x
    using assms(1) that by (auto simp: advanced_def)
  have "\<forall>x \<in> set (runs s). wr_id x < wf_next s'"
    using next' assms(2) by (auto simp: wf_gate_def dest: less_le_trans)
  then have run_ids: "\<forall>x \<in> set (runs s'). wr_id x < wf_next s'"
    by (rule ids_less [OF ids])
  have kept: "\<exists>x \<in> set (runs s'). wr_id x = ap_run_id a \<and> wr_status x = Running"
    if a: "a \<in> set (approvals s)" "ap_status a = Pending" for a
  proof -
    obtain r0 where r0: "r0 \<in> set (runs s)" "wr_id r0 = ap_run_id a" "wr_status r0 = Running"
      using assms(2) a by (auto simp: wf_gate_def)
    have ne: "ap_run_id a \<noteq> i" using assms(4) a by (auto simp: not_waiting_def)
    obtain x where x: "x \<in> set (runs s')" "wr_id x = ap_run_id a"
      using ids r0(1,2) by (metis imageE image_eqI)
    with others ne have "x \<in> set (runs s)" by simp
    with unique_by_same_key [OF assms(3) this r0(1)] x r0 show ?thesis by auto
  qed
  consider (none) "approvals s' = approvals s"
    | (new) a where "approvals s' = approvals s @ [a]" "ap_run_id a = i" "ap_status a = Pending"
        "wf_next s \<le> ap_id a" "ap_id a < wf_next s'" "wr_status r = Running"
    using assms(1) by (auto simp: advanced_def)
  then show ?thesis
  proof cases
    case none
    with assms(2) run_ids kept next' show ?thesis by (fastforce simp: wf_gate_def)
  next
    case (new a)
    have "\<exists>x \<in> set (runs s'). wr_id x = i \<and> wr_status x = Running"
      using ids assms(5) mine new(6) by (metis imageE)
    moreover have "\<forall>b \<in> set (approvals s). ap_id b < wf_next s' \<and> ap_run_id b < wf_next s'"
      using assms(2) next' by (auto simp: wf_gate_def dest: less_le_trans)
    moreover have "i < wf_next s'" using assms(6) next' by (rule less_le_trans)
    moreover have "\<forall>b \<in> set (approvals s). ap_status b = Pending \<longrightarrow> ap_run_id b \<noteq> i"
      using assms(4) by (auto simp: not_waiting_def)
    moreover have "\<forall>b \<in> set (approvals s). \<forall>c \<in> set (approvals s).
        ap_status b = Pending \<and> ap_status c = Pending \<and> ap_run_id b = ap_run_id c \<longrightarrow> b = c"
      using assms(2) by (simp add: wf_gate_def)
    moreover have "\<forall>b \<in> set (approvals s). ap_status b = Pending \<longrightarrow>
        (\<exists>x \<in> set (runs s'). wr_id x = ap_run_id b \<and> wr_status x = Running)"
      using kept by blast
    ultimately show ?thesis
      using new(1-3,5) run_ids unfolding wf_gate_def new(1) by (auto simp: new(2))
  qed
qed

lemma start_run_gate:
  assumes "start_run env now depth tid ten ctx by user s = (Inr r, s')" and "wf_inv s"
  shows "wf_gate s'"
proof -
  from assms(1) obtain t i where tid: "tid = Some i"
    and sel: "scalar_one_or_none (filter (\<lambda>t. wt_id t = i \<and> wt_tenant_id t = ten \<and> wt_is_active t)
        (templates s)) = Inr (Some t)"
    by (auto simp: start_run_def split: option.splits sum.splits)
  let ?run = "\<lparr> wr_id = wf_next s, wr_template_id = wt_id t, wr_tenant_id = ten,
      wr_triggered_by = by, wr_triggered_by_user = user, wr_status = Running, wr_current_step = 0,
      wr_context = ctx, wr_result = JNull, wr_started_at = now, wr_completed_at = None \<rparr>"
  let ?s1 = "s\<lparr>wf_next := Suc (wf_next s), runs := runs s @ [?run]\<rparr>"
  from assms(1) sel have ok: "wf_ok ?s1"
    and adv: "advance env now depth ?run (wt_steps t) ?s1 = (Inr r, s')"
    by (auto simp: start_run_def tid Let_def split: if_splits)
  have gate: "wf_gate s" using assms(2) by (simp add: wf_inv_def)
  have "\<forall>x \<in> set (runs ?s1). wr_id x = wr_id ?run \<longrightarrow> wr_status x = Running"
    using gate by (auto simp: wf_gate_def)
  from advance_advanced [OF adv _ this] have "advanced (wf_next s) ?s1 r s'" by simp
  then show ?thesis
  proof (rule advanced_gate)
    show "wf_gate ?s1"
      using gate by (auto simp: wf_gate_def less_Suc_eq)
    show "unique_by wr_id (runs ?s1)" using ok by (simp add: wf_ok_def)
    show "not_waiting (wf_next s) ?s1"
      using gate by (auto simp: wf_gate_def not_waiting_def)
  qed simp_all
qed


lemma scalar_one_InrD: "scalar_one rows = Inr r \<Longrightarrow> rows = [r]"
  by (auto simp: scalar_one_def split: list.splits)

lemma decided_gate:
  assumes "wf_gate s" and "unique_by ap_id (approvals s)" and "a \<in> set (approvals s)"
    and "ap_status a = Pending" and "ap_id b = ap_id a" and "ap_run_id b = ap_run_id a"
    and "ap_status b \<noteq> Pending"
  shows "wf_gate (put_approval b s) \<and> not_waiting (ap_run_id a) (put_approval b s)"
proof -
  have set_b: "set (approvals (put_approval b s)) = insert b (set (approvals s) - {a})"
    using set_put_row [OF assms(2,3)] assms(5) by (simp add: put_approval_def)
  have same: "runs (put_approval b s) = runs s" "wf_next (put_approval b s) = wf_next s"
    by (simp_all add: put_approval_def)
  have "wf_gate (put_approval b s)"
    using assms(1,3,5-7) unfolding wf_gate_def set_b same by auto
  moreover have "not_waiting (ap_run_id a) (put_approval b s)"
    using assms(1,3,4,6,7) unfolding wf_gate_def not_waiting_def set_b by auto
  ultimately show ?thesis by simp
qed

lemma put_run_gate:
  assumes "wf_gate s" and "wr_status r = Running \<or> not_waiting (wr_id r) s"
  shows "wf_gate (put_run r s)"
proof -
  have ids: "wr_id ` set (runs (put_run r s)) = wr_id ` set (runs s)"
    by (rule ids_image) simp
  have kept: "x \<in> set (runs (put_run r s))" if "x \<in> set (runs s)" "wr_id x \<noteq> wr_id r" for x
    using that by (auto simp: put_run_def set_update_where)
  have status: "wr_status x = wr_status r" if "x \<in> set (runs (put_run r s))" "wr_id x = wr_id r" for x
    using in_put_run [OF that(1)] that(2) by simp
  have "\<exists>x \<in> set (runs (put_run r s)). wr_id x = ap_run_id a \<and> wr_status x = Running"
    if a: "a \<in> set (approvals s)" "ap_status a = Pending" for a
  proof -
    obtain r0 where r0: "r0 \<in> set (runs s)" "wr_id r0 = ap_run_id a" "wr_status r0 = Running"
      using assms(1) a by (auto simp: wf_gate_def)
    show ?thesis
    proof (cases "ap_run_id a = wr_id r")
      case True
      then have "wr_status r = Running" using assms(2) a by (auto simp: not_waiting_def)
      moreover obtain x where "x \<in> set (runs (put_run r s))" "wr_id x = ap_run_id a"
        using ids r0(1,2) by (metis imageE image_eqI)
      ultimately show ?thesis using status True by auto
    next
      case False
      with kept r0 show ?thesis by auto
    qed
  qed
  moreover have "\<forall>x \<in> set (runs (put_run r s)). wr_id x < wf_next s"
    using assms(1) by (intro ids_less [OF ids]) (simp add: wf_gate_def)
  ultimately show ?thesis using assms(1) by (simp add: wf_gate_def)
qed

text \<open>What a decision that returns went through.\<close>

lemma process_approval_run:
  assumes "process_approval env now depth aid approver approved note s = (Inr r, s')"
  obtains i a run b where "aid = Some i"
    "filter (\<lambda>a. ap_id a = i \<and> ap_status a = Pending) (approvals s) = [a]" "\<not> ap_expires_at a < now"
    "b = a\<lparr>ap_status := (if approved then Approved else RejectedApproval),
           ap_approver_id := Some approver, ap_decision_note := Some note, ap_decided_at := Some now\<rparr>"
    "filter (\<lambda>r. wr_id r = ap_run_id a) (runs s) = [run]"
    "if approved then \<exists>steps. advance env now depth (run\<lparr>wr_current_step := wr_current_step run + 1\<rparr>) steps
          (put_run (run\<lparr>wr_current_step := wr_current_step run + 1\<rparr>) (put_approval b s)) = (Inr r, s')
     else r = run\<lparr>wr_status := Rejected, wr_completed_at := Some now,
            wr_result := JObj [(''rejected_at_step'', ap_step_id a), (''note'', JStr note)]\<rparr> \<and>
          s' = put_run r (put_approval b s)"
proof -
  from assms obtain i where i: "aid = Some i"
    by (auto simp: process_approval_def split: option.splits)
  with assms obtain a where a: "filter (\<lambda>a. ap_id a = i \<and> ap_status a = Pending) (approvals s) = [a]"
    by (auto simp: process_approval_def dest!: scalar_one_or_none_SomeD split: option.splits sum.splits)
  define b where "b = a\<lparr>ap_status := (if approved then Approved else RejectedApproval),
      ap_approver_id := Some approver, ap_decision_note := Some note, ap_decided_at := Some now\<rparr>"
  from assms a have fresh: "\<not> ap_expires_at a < now"
    by (auto simp: process_approval_def i split: if_splits)
  have runs_b: "runs (put_approval b s) = runs s" by (simp add: put_approval_def)
  from assms a fresh have rest: "bnd (wf_the runs (\<lambda>r. wr_id r = ap_run_id a)) (\<lambda>run.
                bnd (if \<not> approved then
                       (let run' = run\<lparr>wr_status := Rejected, wr_completed_at := Some now,
                              wr_result := JObj [(''rejected_at_step'', ap_step_id a), (''note'', JStr note)]\<rparr>
                        in thn (modify (put_run run')) (ret run'))
                     else
                       bnd (wf_the templates (\<lambda>t. wt_id t = wr_template_id run)) (\<lambda>t.
                       let run' = run\<lparr>wr_current_step := wr_current_step run + 1\<rparr>
                       in thn (modify (put_run run')) (advance env now depth run' (wt_steps t))))
                    (\<lambda>run'. thn wf_flush (ret run'))) (put_approval b s) = (Inr r, s')"
    by (simp add: process_approval_def i b_def)
  then obtain run where run: "filter (\<lambda>r. wr_id r = ap_run_id a) (runs s) = [run]"
    by (elim bnd_InrE) (auto dest!: scalar_one_InrD simp: runs_b)
  have last: "if approved then \<exists>steps. advance env now depth (run\<lparr>wr_current_step := wr_current_step run + 1\<rparr>) steps
          (put_run (run\<lparr>wr_current_step := wr_current_step run + 1\<rparr>) (put_approval b s)) = (Inr r, s')
     else r = run\<lparr>wr_status := Rejected, wr_completed_at := Some now,
            wr_result := JObj [(''rejected_at_step'', ap_step_id a), (''note'', JStr note)]\<rparr> \<and>
          s' = put_run r (put_approval b s)"
    using rest run
    by (auto simp: runs_b Let_def split: if_splits sum.splits prod.splits)
  show ?thesis by (rule that [OF i a fresh b_def run last])
qed

lemma process_approval_gate:
  assumes "process_approval env now depth aid approver approved note s = (Inr r, s')" and "wf_inv s"
  shows "wf_gate s'"
  using assms(1)
proof (rule process_approval_run)
  fix i a run b
  assume a: "filter (\<lambda>a. ap_id a = i \<and> ap_status a = Pending) (approvals s) = [a]"
    and b: "b = a\<lparr>ap_status := (if approved then Approved else RejectedApproval),
           ap_approver_id := Some approver, ap_decision_note := Some note, ap_decided_at := Some now\<rparr>"
    and run: "filter (\<lambda>r. wr_id r = ap_run_id a) (runs s) = [run]"
    and last: "if approved then \<exists>steps. advance env now depth (run\<lparr>wr_current_step := wr_current_step run + 1\<rparr>) steps
          (put_run (run\<lparr>wr_current_step := wr_current_step run + 1\<rparr>) (put_approval b s)) = (Inr r, s')
     else r = run\<lparr>wr_status := Rejected, wr_completed_at := Some now,
            wr_result := JObj [(''rejected_at_step'', ap_step_id a), (''note'', JStr note)]\<rparr> \<and>
          s' = put_run r (put_approval b s)"
  from assms(2) have gate: "wf_gate s" and ok: "unique_by ap_id (approvals s)" "unique_by wr_id (runs s)"
    by (simp_all add: wf_inv_def wf_ok_def)
  note a' = filter_eq_singleD [OF a] and run' = filter_eq_singleD [OF run]
  let ?s1 = "put_approval b s"
  have g1: "wf_gate ?s1 \<and> not_waiting (ap_run_id a) ?s1"
    using decided_gate [OF gate ok(1) a'(1)] a'(2) b by simp
  have runs1: "runs ?s1 = runs s" by (simp add: put_approval_def)
  have running: "wr_status run = Running"
  proof -
    obtain r0 where "r0 \<in> set (runs s)" "wr_id r0 = ap_run_id a" "wr_status r0 = Running"
      using gate a' by (auto simp: wf_gate_def)
    then show ?thesis using unique_by_same_key [OF ok(2), of r0 run] run' by simp
  qed
  show "wf_gate s'"
  proof (cases approved)
    case False
    with last g1 run' show ?thesis by (auto intro!: put_run_gate)
  next
    case True
    define q where q: "q = run\<lparr>wr_current_step := wr_current_step run + 1\<rparr>"
    from True last obtain steps where
      adv: "advance env now depth q steps (put_run q ?s1) = (Inr r, s')" unfolding q by auto
    have g2: "wf_gate (put_run q ?s1)"
      using g1 running q by (intro put_run_gate) simp_all
    have "\<forall>x \<in> set (runs (put_run q ?s1)). wr_id x = wr_id q \<longrightarrow> wr_status x = Running"
      using in_put_run running q by fastforce
    from advance_advanced [OF adv _ this] running q
    have "advanced (wr_id run) (put_run q ?s1) r s'" by simp
    then show ?thesis using g2
    proof (rule advanced_gate)
      have "map wr_id (runs (put_run q ?s1)) = map wr_id (runs s)" by (simp add: runs1)
      then show "unique_by wr_id (runs (put_run q ?s1))"
        using ok(2) by (simp add: unique_by_def)
      have "wr_id ` set (runs (put_run q ?s1)) = wr_id ` set (runs s)"
        by (rule ids_image) (simp add: runs1)
      then show "wr_id run \<in> wr_id ` set (runs (put_run q ?s1))"
        using run'(1) by simp
      show "not_waiting (wr_id run) (put_run q ?s1)"
        using g1 run'(2) by (simp add: not_waiting_def)
      show "wr_id run < wf_next (put_run q ?s1)"
        using gate run'(1) by (auto simp: wf_gate_def put_approval_def)
    qed
  qed
qed


section \<open>Templates that only go forward\<close>

definition json_objects :: "json list \<Rightarrow> bool" where
  "json_objects xs \<longleftrightarrow> (\<forall>x \<in> set xs. case x of JObj d \<Rightarrow> True | _ \<Rightarrow> False)"

definition is_list :: "json \<Rightarrow> bool" where
  "is_list v \<longleftrightarrow> (case v of JArr xs \<Rightarrow> True | _ \<Rightarrow> False)"

definition is_object_list :: "json \<Rightarrow> bool" where
  "is_object_list v \<longleftrightarrow> (case v of JArr xs \<Rightarrow> json_objects xs | _ \<Rightarrow> False)"

text \<open>A run's context and a template's steps of the shapes the engine's documentation gives.\<close>

definition typed_context :: "py_dict \<Rightarrow> bool" where
  "typed_context ctx \<longleftrightarrow> is_list (dict_get_or ctx ''files'' (JArr [])) \<and>
     is_object_list (dict_get_or ctx ''approvals'' (JArr [])) \<and>
     is_object_list (dict_get_or ctx ''action_results'' (JArr []))"

definition forward_step :: "nat \<Rightarrow> py_dict \<Rightarrow> bool" where
  "forward_step i step \<longleftrightarrow>
     (case step_config step of Inl e \<Rightarrow> False
      | Inr c \<Rightarrow>
          (case dict_get_or c ''timeout_hours'' (JInt 48) of JInt h \<Rightarrow> True | _ \<Rightarrow> False) \<and>
          (case dict_get_or c ''message'' (JStr ''Workflow step completed'') of JStr m \<Rightarrow> True | _ \<Rightarrow> False) \<and>
          is_list (dict_get_or c ''channels'' (JArr [])) \<and>
          (case dict_get_or c ''else_step'' JNull of JNull \<Rightarrow> True | JInt j \<Rightarrow> int i < j | _ \<Rightarrow> False))"

definition forward_template :: "py_dict list \<Rightarrow> bool" where
  "forward_template steps \<longleftrightarrow> (\<forall>i < length steps. forward_step i (steps ! i))"

lemma is_listE: "is_list v \<Longrightarrow> (\<And>xs. v = JArr xs \<Longrightarrow> P) \<Longrightarrow> P"
  by (cases v) (auto simp: is_list_def)

lemma is_object_listE:
  "is_object_list v \<Longrightarrow> (\<And>xs. v = JArr xs \<Longrightarrow> json_objects xs \<Longrightarrow> P) \<Longrightarrow> P"
  by (cases v) (auto simp: is_object_list_def)

lemma action_on_returns: "\<exists>d t. action_on env ty p dry f s = (Inr (JObj d), t)"
  by (auto simp: action_on_def do_move_def do_delete_def do_tag_def Let_def add_effect_def
      split: handler_splits json.splits)

lemma actions_on_returns:
  "\<exists>rs t. actions_on env ty p dry fs s = (Inr rs, t) \<and> json_objects rs"
proof (induction fs arbitrary: s)
  case (Cons f fs)
  obtain d t where "action_on env ty p dry f s = (Inr (JObj d), t)"
    using action_on_returns by blast
  moreover obtain rs u where "actions_on env ty p dry fs t = (Inr rs, u)" "json_objects rs"
    using Cons by blast
  ultimately show ?case by (simp add: json_objects_def)
qed (simp add: json_objects_def)

lemma execute_action_returns:
  assumes "typed_context (wr_context run)"
  shows "\<exists>c t. execute_action env run config s = (Inr (run\<lparr>wr_context := c\<rparr>), t) \<and> typed_context c"
proof -
  from assms obtain fs where fs: "dict_get_or (wr_context run) ''files'' (JArr []) = JArr fs"
    by (auto simp: typed_context_def elim: is_listE)
  obtain rs t where rs: "actions_on env (dict_get_or config ''action_type'' JNull)
      (dict_get_or config ''params'' (JObj [])) (truthy (dict_get_or config ''dry_run'' (JBool True))) fs s
      = (Inr rs, t)" and "json_objects rs"
    using actions_on_returns by blast
  have "typed_context (dict_set ''action_results'' (JArr rs) (wr_context run))"
    using assms \<open>json_objects rs\<close>
    by (simp add: typed_context_def dict_get_or_def map_of_dict_set is_object_list_def)
  with fs rs show ?thesis
    by (auto simp: execute_action_def json_iter_def)
qed

lemma evaluate_condition_returns:
  assumes "typed_context ctx"
  shows "\<exists>b. evaluate_condition env ctx e s = (Inr b, s)"
proof -
  from assms obtain fs as rs where "dict_get_or ctx ''files'' (JArr []) = JArr fs"
    "dict_get_or ctx ''approvals'' (JArr []) = JArr as" "json_objects as"
    "dict_get_or ctx ''action_results'' (JArr []) = JArr rs" "json_objects rs"
    by (auto simp: typed_context_def elim!: is_listE is_object_listE)
  then show ?thesis
    by (simp add: evaluate_condition_def json_len_def json_iter_def count_status_def json_objects_def)
qed

lemma for_each_effects: "\<exists>t. for_each xs (\<lambda>x. py_when (q x) (add_effect (e x))) s = (Inr (), t)"
  by (induction xs arbitrary: s) (auto simp: add_effect_def)

lemma send_notification_returns:
  assumes "typed_context (wr_context run)" and "step_config step = Inr c" and "forward_step i step"
  shows "\<exists>t. send_notification run c s = (Inr (), t)"
proof -
  from assms(1) obtain fs where "dict_get_or (wr_context run) ''files'' (JArr []) = JArr fs"
    by (auto simp: typed_context_def elim: is_listE)
  moreover from assms(2,3) obtain m cs where
    "dict_get_or c ''message'' (JStr ''Workflow step completed'') = JStr m"
    "dict_get_or c ''channels'' (JArr []) = JArr cs"
    by (auto simp: forward_step_def elim!: is_listE split: json.splits)
  ultimately show ?thesis
    using for_each_effects by (simp add: send_notification_def json_len_def json_iter_def Let_def)
qed

lemma create_approval_returns:
  assumes "typed_context (wr_context run)" and "step_config step = Inr c" and "forward_step i step"
  shows "\<exists>t. create_approval_request now run sid name c s = (Inr (), t)"
proof -
  from assms(1) obtain fs where "dict_get_or (wr_context run) ''files'' (JArr []) = JArr fs"
    by (auto simp: typed_context_def elim: is_listE)
  moreover from assms(2,3) obtain h where "dict_get_or c ''timeout_hours'' (JInt 48) = JInt h"
    by (auto simp: forward_step_def split: json.splits)
  ultimately show ?thesis
    by (simp add: create_approval_request_def timedelta_hours_def json_take_def approval_description_def
        json_len_def Let_def)
qed

text \<open>A step of a forward template returns, or continues with a later step of the same run.\<close>

lemma forward_step_continues:
  assumes "typed_context (wr_context run)" and "forward_step i step" and "wr_current_step run = int i"
    and "\<And>q t. typed_context (wr_context q) \<Longrightarrow> wr_current_step q > int i \<Longrightarrow>
          \<exists>r s'. k q t = (Inr r, s')"
  shows "\<exists>r s'. execute_step env now k run step s = (Inr r, s')"
proof -
  obtain c where c: "step_config step = Inr c"
    using assms(2) by (auto simp: forward_step_def split: sum.splits)
  consider (a) "step_type step = JStr ''approval''" | (b) "step_type step = JStr ''action''"
    | (n) "step_type step = JStr ''notify''" | (d) "step_type step = JStr ''condition''"
    | (e) "step_type step \<notin> {JStr ''approval'', JStr ''action'', JStr ''notify'', JStr ''condition''}"
    by blast
  then show ?thesis
  proof cases
    case a
    obtain t where "create_approval_request now run (step_id run step) (step_name step) c s = (Inr (), t)"
      using create_approval_returns [OF assms(1) c assms(2)] by blast
    with a c show ?thesis by (simp add: execute_step_def)
  next
    case b
    obtain ctx t where "execute_action env run c s = (Inr (run\<lparr>wr_context := ctx\<rparr>), t)" "typed_context ctx"
      using execute_action_returns [OF assms(1)] by blast
    with b c assms(3) show ?thesis
      using assms(4) [of "run\<lparr>wr_context := ctx, wr_current_step := wr_current_step run + 1\<rparr>" t]
      by (simp add: execute_step_def)
  next
    case n
    obtain t where "send_notification run c s = (Inr (), t)"
      using send_notification_returns [OF assms(1) c assms(2)] by blast
    with n c assms(1,3) show ?thesis
      using assms(4) [of "run\<lparr>wr_current_step := wr_current_step run + 1\<rparr>" t]
      by (simp add: execute_step_def)
  next
    case d
    obtain b where b: "evaluate_condition env (wr_context run)
        (dict_get_or c ''expression'' (JStr ''true'')) s = (Inr b, s)"
      using evaluate_condition_returns [OF assms(1)] by blast
    have next_step: "\<exists>r s'. k (run\<lparr>wr_current_step := j\<rparr>) s = (Inr r, s')" if "j > int i" for j
      using assms(1,4) that by simp
    show ?thesis
    proof (cases b)
      case True
      with b c d assms(3) next_step show ?thesis by (simp add: execute_step_def)
    next
      case False
      from c assms(2) consider "dict_get_or c ''else_step'' JNull = JNull"
        | j where "dict_get_or c ''else_step'' JNull = JInt j" "int i < j"
        by (auto simp: forward_step_def split: json.splits)
      then show ?thesis
        using False b c d next_step by cases (simp_all add: execute_step_def Let_def)
    qed
  next
    case e
    then show ?thesis by (simp add: execute_step_def)
  qed
qed

lemma advance_forward:
  assumes "forward_template steps" and "typed_context (wr_context run)" and "0 \<le> wr_current_step run"
    and "0 < depth" and "length steps < nat (wr_current_step run) + depth"
  shows "\<exists>r s'. advance env now depth run steps s = (Inr r, s')"
  using assms
proof (induction depth arbitrary: run s)
  case (Suc depth)
  show ?case
  proof (cases "wr_current_step run \<ge> int (length steps)")
    case True
    then show ?thesis by (simp add: Let_def)
  next
    case False
    obtain i where i: "wr_current_step run = int i" "i < length steps"
      using False Suc.prems(3) by (metis not_le of_nat_less_iff zero_le_imp_eq_int)
    have step: "py_index steps (wr_current_step run) = Inr (steps ! i)"
      using i by (simp add: py_index_def)
    let ?k = "\<lambda>r. thn (modify (put_run r)) (advance env now depth r steps)"
    have cont: "\<exists>r s'. ?k q t = (Inr r, s')"
      if q: "typed_context (wr_context q)" "wr_current_step q > int i" for q t
      using Suc.IH [of q "put_run q t"] Suc.prems(1,5) q i by simp
    have "\<exists>r s'. execute_step env now ?k run (steps ! i) s = (Inr r, s')"
      using Suc.prems(1,2) i cont by (intro forward_step_continues [of run i])
        (simp_all add: forward_template_def)
    with False step show ?thesis by (simp del: run_thn)
  qed
qed simp


section \<open>Requests\<close>

lemma wf_gate_frame [simp]: "wf_gate (s\<lparr>effects := es\<rparr>) = wf_gate s" "wf_ok (s\<lparr>effects := es\<rparr>) = wf_ok s"
  by (simp_all add: wf_gate_def wf_ok_def)

interpretation wf: session_contract wf_ok wf_undo wf_inv
  by unfold_locales (simp add: wf_inv_def wf_undo_def)

inductive wf_step :: "wf_env \<Rightarrow> wf_state \<Rightarrow> wf_state \<Rightarrow> bool" for env where
  template: "wf_step env s (snd (wf_request (create_template now auth req) s))"
| start: "wf_step env s (snd (wf_request (start_run_endpoint env now depth auth tid ctx) s))"
| decide: "wf_step env s (snd (wf_request (decide_approval env now depth auth aid decision note) s))"

inductive wf_reachable :: "wf_env \<Rightarrow> wf_state \<Rightarrow> bool" for env where
  empty: "templates s = [] \<Longrightarrow> runs s = [] \<Longrightarrow> approvals s = [] \<Longrightarrow> wf_reachable env s"
| step: "wf_reachable env s \<Longrightarrow> wf_step env s s' \<Longrightarrow> wf_reachable env s'"

inductive_cases wf_stepE: "wf_step env s s'"

lemma wf_request_result:
  "(\<exists>es. snd (wf_request h s) = s\<lparr>effects := es\<rparr>) \<or>
   (\<exists>x s'. h s = (Inr x, s') \<and> wf_ok s' \<and> snd (wf_request h s) = s')"
  by (auto simp: wf_request_def transaction_def wf_undo_def split: prod.splits sum.splits)

lemma start_run_endpoint_Inr:
  "start_run_endpoint env now depth auth tid ctx s = (Inr r, s') \<Longrightarrow>
   start_run env now depth tid (ac_tenant_id auth) ctx ''manual'' (Some (ac_user_id auth)) s = (Inr r, s')"
  by (auto simp: start_run_endpoint_def split: if_splits)

lemma decide_approval_Inr:
  "decide_approval env now depth auth aid decision note s = (Inr r, s') \<Longrightarrow>
   decision \<in> {''approved'', ''rejected''} \<and> has_or_admin (ac_permissions auth) ''actions:approve'' \<and>
   process_approval env now depth aid (ac_user_id auth) (decision = ''approved'') note s = (Inr r, s')"
  by (auto simp: decide_approval_def split: if_splits prod.splits sum.splits py_error.splits)

lemma create_template_run:
  "create_template now auth req s = (Inr t, s') \<Longrightarrow>
   runs s' = runs s \<and> approvals s' = approvals s \<and> wf_next s' = Suc (wf_next s)"
  by (auto simp: create_template_def Let_def split: if_splits)

lemma wf_step_inv:
  assumes "wf_step env s s'" and "wf_inv s"
  shows "wf_inv s'"
  using assms(1)
proof cases
  case (template now auth req)
  show ?thesis unfolding template wf_request_def
  proof (rule wf.transaction_keeps [OF _ assms(2)])
    fix x t assume "create_template now auth req s = (Inr x, t)" "wf_ok t"
    with assms(2) show "wf_inv t"
      by (auto dest!: create_template_run simp: wf_inv_def wf_gate_def less_Suc_eq)
  qed
next
  case (start now depth auth tid ctx)
  show ?thesis unfolding start wf_request_def
    by (rule wf.transaction_keeps [OF _ assms(2)])
      (auto simp: wf_inv_def dest!: start_run_endpoint_Inr intro: start_run_gate [OF _ assms(2)])
next
  case (decide now depth auth aid decision comment)
  show ?thesis unfolding decide wf_request_def
    by (rule wf.transaction_keeps [OF _ assms(2)])
      (auto simp: wf_inv_def dest!: decide_approval_Inr intro: process_approval_gate [OF _ assms(2)])
qed

lemma wf_reachable_inv: "wf_reachable env s \<Longrightarrow> wf_inv s"
proof (induction rule: wf_reachable.induct)
  case (empty s)
  then show ?case by (simp add: wf_inv_def wf_ok_def wf_gate_def unique_by_def)
next
  case (step s s')
  from wf_step_inv [OF step.hyps(2) step.IH] show ?case .
qed

lemma advanced_keeps_run:
  assumes "advanced i s r s'" and "x \<in> set (runs s)" and "wr_id x \<noteq> i" and "unique_by wr_id (runs s)"
  shows "x \<in> set (runs s')"
proof -
  have "wr_id ` set (runs s') = wr_id ` set (runs s)"
    using assms(1) by (intro ids_image) (simp add: advanced_def)
  then obtain y where y: "y \<in> set (runs s')" "wr_id y = wr_id x"
    using assms(2) by (metis imageE image_eqI)
  then have "y \<in> set (runs s)" using assms(1,3) by (auto simp: advanced_def)
  with unique_by_same_key [OF assms(4) this assms(2)] y show ?thesis by simp
qed

lemma put_run_keeps: "x \<in> set (runs s) \<Longrightarrow> wr_id x \<noteq> wr_id r \<Longrightarrow> x \<in> set (runs (put_run r s))"
  by (auto simp: put_run_def set_update_where)

lemma start_run_keeps:
  assumes "start_run env now depth tid ten ctx by user s = (Inr r, s')" and "wf_inv s" and "x \<in> set (runs s)"
  shows "x \<in> set (runs s')"
proof -
  from assms(1) obtain t i where tid: "tid = Some i"
    and sel: "scalar_one_or_none (filter (\<lambda>t. wt_id t = i \<and> wt_tenant_id t = ten \<and> wt_is_active t)
        (templates s)) = Inr (Some t)"
    by (auto simp: start_run_def split: option.splits sum.splits)
  let ?run = "\<lparr> wr_id = wf_next s, wr_template_id = wt_id t, wr_tenant_id = ten,
      wr_triggered_by = by, wr_triggered_by_user = user, wr_status = Running, wr_current_step = 0,
      wr_context = ctx, wr_result = JNull, wr_started_at = now, wr_completed_at = None \<rparr>"
  let ?s1 = "s\<lparr>wf_next := Suc (wf_next s), runs := runs s @ [?run]\<rparr>"
  from assms(1) sel have ok: "wf_ok ?s1"
    and adv: "advance env now depth ?run (wt_steps t) ?s1 = (Inr r, s')"
    by (auto simp: start_run_def tid Let_def split: if_splits)
  have less: "\<forall>x \<in> set (runs s). wr_id x < wf_next s" using assms(2) by (simp add: wf_inv_def wf_gate_def)
  then have "\<forall>x \<in> set (runs ?s1). wr_id x = wr_id ?run \<longrightarrow> wr_status x = Running" by auto
  from advance_advanced [OF adv _ this] have "advanced (wf_next s) ?s1 r s'" by simp
  then show ?thesis
    by (rule advanced_keeps_run) (use assms(3) less ok in \<open>auto simp: wf_ok_def\<close>)
qed

lemma process_approval_keeps:
  assumes "process_approval env now depth aid approver approved note s = (Inr r, s')" and "wf_inv s"
    and "x \<in> set (runs s)" and "wr_status x \<noteq> Running"
  shows "x \<in> set (runs s')"
  using assms(1)
proof (rule process_approval_run)
  fix i a run b
  assume a: "filter (\<lambda>a. ap_id a = i \<and> ap_status a = Pending) (approvals s) = [a]"
    and run: "filter (\<lambda>r. wr_id r = ap_run_id a) (runs s) = [run]"
    and outcome: "if approved then \<exists>steps. advance env now depth (run\<lparr>wr_current_step := wr_current_step run + 1\<rparr>) steps
          (put_run (run\<lparr>wr_current_step := wr_current_step run + 1\<rparr>) (put_approval b s)) = (Inr r, s')
     else r = run\<lparr>wr_status := Rejected, wr_completed_at := Some now,
            wr_result := JObj [(''rejected_at_step'', ap_step_id a), (''note'', JStr note)]\<rparr> \<and>
          s' = put_run r (put_approval b s)"
  note a' = filter_eq_singleD [OF a] and run' = filter_eq_singleD [OF run]
  have ok: "unique_by wr_id (runs s)" and gate: "wf_gate s" using assms(2) by (simp_all add: wf_inv_def wf_ok_def)
  obtain r0 where "r0 \<in> set (runs s)" "wr_id r0 = ap_run_id a" "wr_status r0 = Running"
    using gate a' by (auto simp: wf_gate_def)
  then have running: "wr_status run = Running" and ne: "wr_id x \<noteq> wr_id run"
    using unique_by_same_key [OF ok, of r0 run] unique_by_same_key [OF ok, of r0 x] run' assms(3,4) by auto
  have x: "x \<in> set (runs (put_run q (put_approval b s)))" if "wr_id q = wr_id run" for q
    using assms(3) ne that by (intro put_run_keeps) (simp_all add: put_approval_def)
  show "x \<in> set (runs s')"
  proof (cases approved)
    case False
    with outcome x show ?thesis by auto
  next
    case True
    define q where q: "q = run\<lparr>wr_current_step := wr_current_step run + 1\<rparr>"
    from True outcome obtain steps where
      adv: "advance env now depth q steps (put_run q (put_approval b s)) = (Inr r, s')" unfolding q by auto
    have "\<forall>x \<in> set (runs (put_run q (put_approval b s))). wr_id x = wr_id q \<longrightarrow> wr_status x = Running"
    proof (intro ballI impI)
      fix z assume "z \<in> set (runs (put_run q (put_approval b s)))" "wr_id z = wr_id q"
      then show "wr_status z = Running" using in_put_run [of z q "put_approval b s"] running q by simp
    qed
    from advance_advanced [OF adv _ this] running q
    have "advanced (wr_id run) (put_run q (put_approval b s)) r s'" by simp
    moreover have "unique_by wr_id (runs (put_run q (put_approval b s)))"
      using ok by (simp add: unique_by_def put_approval_def)
    moreover have "x \<in> set (runs (put_run q (put_approval b s)))" using x [of q] q by simp
    ultimately show ?thesis using advanced_keeps_run ne by blast
  qed
qed

section \<open>Properties\<close>

lemma wf_step_keeps_finished:
  assumes "wf_step env s s'" and "wf_inv s" and "r \<in> set (runs s)" and "wr_status r \<noteq> Running"
  shows "r \<in> set (runs s')"
  using assms(1)
proof cases
  case (template now auth req)
  with wf_request_result [of "create_template now auth req" s] assms(3) show ?thesis
    by (auto dest: create_template_run)
next
  case (start now depth auth tid ctx)
  with wf_request_result [of "start_run_endpoint env now depth auth tid ctx" s] assms(3) show ?thesis
    by (auto dest!: start_run_endpoint_Inr intro: start_run_keeps [OF _ assms(2,3)])
next
  case (decide now depth auth aid decision comment)
  with wf_request_result [of "decide_approval env now depth auth aid decision comment" s] assms(3)
  show ?thesis
    by (auto dest!: decide_approval_Inr intro: process_approval_keeps [OF _ assms(2-4)])
qed

lemma process_approval_refused:
  assumes "aid = None \<or> (\<forall>a \<in> set (approvals s). ap_status a = Pending \<longrightarrow> Some (ap_id a) = aid \<longrightarrow>
             ap_expires_at a < now)"
  shows "effects (snd (process_approval env now depth aid approver approved comment s)) = effects s"
proof (cases aid)
  case (Some i)
  let ?found = "filter (\<lambda>a. ap_id a = i \<and> ap_status a = Pending) (approvals s)"
  consider (e) e where "scalar_one_or_none ?found = Inl e" | (none) "scalar_one_or_none ?found = Inr None"
    | (one) a where "scalar_one_or_none ?found = Inr (Some a)"
    by (metis old.sum.exhaust option.exhaust)
  then show ?thesis
  proof cases
    case (one a)
    then have "?found = [a]" by (rule scalar_one_or_none_SomeD)
    with assms Some have "ap_expires_at a < now" by (auto dest: filter_eq_singleD)
    with one Some show ?thesis by (simp add: process_approval_def put_approval_def)
  qed (use Some in \<open>simp_all add: process_approval_def\<close>)
qed (simp add: process_approval_def)

lemma process_approval_rejects:
  "effects (snd (process_approval env now depth aid approver False comment s)) = effects s"
  by (auto simp: process_approval_def put_approval_def Let_def
      split: option.splits sum.splits)

lemma decide_approval_effects:
  assumes "effects (snd (decide_approval env now depth auth aid decision comment s)) \<noteq> effects s"
  shows "decision = ''approved'' \<and> has_or_admin (ac_permissions auth) ''actions:approve'' \<and>
    effects (snd (process_approval env now depth aid (ac_user_id auth) True comment s)) \<noteq> effects s"
proof (cases "decision \<in> {''approved'', ''rejected''} \<and> has_or_admin (ac_permissions auth) ''actions:approve''")
  case True
  let ?p = "process_approval env now depth aid (ac_user_id auth) (decision = ''approved'') comment s"
  have "effects (snd (decide_approval env now depth auth aid decision comment s)) = effects (snd ?p)"
    using True by (auto simp: decide_approval_def split: prod.splits sum.splits py_error.splits)
  with assms have "effects (snd ?p) \<noteq> effects s" by simp
  with True process_approval_rejects show ?thesis by (cases "decision = ''approved''") auto
qed (use assms in \<open>auto simp: decide_approval_def split: if_splits prod.splits sum.splits\<close>)

lemma wf_request_effects: "effects (snd (wf_request h s)) = effects (snd (h s))"
  by (auto simp: wf_request_def transaction_def wf_undo_def split: prod.splits sum.splits)

text \<open>C7: In every state the workflow requests lead to, a pending approval belongs to a run that
  is running, and a run waits for one approval at most.\<close>

theorem workflow_invariant:
  assumes "wf_reachable env s" and "a \<in> set (approvals s)" and "ap_status a = Pending"
  shows "(\<exists>r \<in> set (runs s). wr_id r = ap_run_id a \<and> wr_status r = Running) \<and>
    filter (\<lambda>b. ap_status b = Pending \<and> ap_run_id b = ap_run_id a) (approvals s) = [a]"
proof -
  have inv: "unique_by ap_id (approvals s)" "wf_gate s"
    using wf_reachable_inv [OF assms(1)] by (simp_all add: wf_inv_def wf_ok_def)
  have "filter (\<lambda>b. ap_status b = Pending \<and> ap_run_id b = ap_run_id a) (approvals s) = [a]"
    using unique_by_distinct [OF inv(1)] assms(2)
    by (rule filter_only) (use inv(2) assms(2,3) in \<open>auto simp: wf_gate_def\<close>)
  with inv(2) assms(2,3) show ?thesis by (simp add: wf_gate_def)
qed

text \<open>A run that is complete or rejected stays in the table as it is, whatever request comes
  next: no approval decided later and no other run restarts or changes it.\<close>

theorem finished_runs_final:
  assumes "wf_reachable env s" and "wf_step env s s'" and "r \<in> set (runs s)" and "wr_status r \<noteq> Running"
  shows "r \<in> set (runs s') \<and> filter (\<lambda>x. wr_id x = wr_id r) (runs s') = [r]"
proof -
  have r: "r \<in> set (runs s')"
    using wf_step_keeps_finished [OF assms(2) wf_reachable_inv [OF assms(1)] assms(3,4)] .
  have "unique_by wr_id (runs s')"
    using wf_reachable_inv [OF wf_reachable.step [OF assms(1,2)]] by (simp add: wf_inv_def wf_ok_def)
  with r show ?thesis by (simp add: unique_by_filter_key)
qed

text \<open>C4: Deciding an approval moves or deletes a file or posts a webhook only if the decision is
  an approval by a user who may approve, and the request decided is pending and has not expired.\<close>

theorem decision_effects_guarded:
  assumes "effects (snd (wf_request (decide_approval env now depth auth aid decision comment) s)) \<noteq> effects s"
  shows "decision = ''approved'' \<and> has_or_admin (ac_permissions auth) ''actions:approve'' \<and>
    (\<exists>a \<in> set (approvals s). aid = Some (ap_id a) \<and> ap_status a = Pending \<and> now \<le> ap_expires_at a)"
proof -
  from assms have "effects (snd (decide_approval env now depth auth aid decision comment s)) \<noteq> effects s"
    by (simp add: wf_request_effects)
  note decided = decide_approval_effects [OF this]
  have "\<not> (aid = None \<or> (\<forall>a \<in> set (approvals s). ap_status a = Pending \<longrightarrow> Some (ap_id a) = aid \<longrightarrow>
             ap_expires_at a < now))"
    using decided process_approval_refused by blast
  then show ?thesis using decided by (auto simp: not_less)
qed

text \<open>A template whose conditions only jump forward, run on a context of the documented shapes,
  is advanced to the end or to its next approval within as many nested calls as it has steps left.\<close>

theorem forward_workflow_returns:
  assumes "forward_template steps" and "typed_context (wr_context run)" and "0 \<le> wr_current_step run"
    and "length steps < nat (wr_current_step run) + depth" and "0 < depth"
  shows "\<exists>r s'. advance env now depth run steps s = (Inr r, s')"
  using advance_forward [OF assms(1-3,5,4)] .

section \<open>Examples and what the engine allows\<close>

definition example_wf_env :: wf_env where
  "example_wf_env = \<lparr> eval_expr = (\<lambda>e vars. Some (e \<noteq> ''false'')), fs_move = (\<lambda>p d. True),
                      fs_delete = (\<lambda>p. True) \<rparr>"

definition example_member :: auth_context where
  "example_member = \<lparr> ac_user_id = 7, ac_tenant_id = 1, ac_email = JStr ''a@x.io'', ac_roles = [],
                      ac_permissions = {''actions:propose'', ''actions:approve''} \<rparr>"

definition delete_config :: py_dict where
  "delete_config = [(''action_type'', JStr ''delete''), (''dry_run'', JBool False)]"

definition example_template :: "py_dict list \<Rightarrow> create_template_request" where
  "example_template steps = \<lparr> ct_name = ''purge'', ct_description = '''', ct_trigger_type = ''manual'',
     ct_trigger_config = [], ct_steps = steps \<rparr>"

definition guarded_steps :: "py_dict list" where
  "guarded_steps = [[(''type'', JStr ''approval'')],
                    [(''type'', JStr ''action''), (''config'', JObj delete_config)]]"

definition example_files :: py_dict where
  "example_files = [(''files'', JArr [JObj [(''path'', JStr ''/a'')]])]"

definition wf_empty :: wf_state where
  "wf_empty = \<lparr> templates = [], runs = [], approvals = [], effects = [], wf_next = 0 \<rparr>"

definition after_create :: "py_dict list \<Rightarrow> wf_state" where
  "after_create steps = snd (wf_request (create_template 0 example_member (example_template steps)) wf_empty)"

definition after_start :: "py_dict list \<Rightarrow> wf_state" where
  "after_start steps =
     snd (wf_request (start_run_endpoint example_wf_env 0 9 example_member (Some 0) example_files)
           (after_create steps))"

definition after_decision :: "string \<Rightarrow> wf_state" where
  "after_decision decision =
     snd (wf_request (decide_approval example_wf_env 5 9 example_member (Some 2) decision '''')
           (after_start guarded_steps))"

lemmas wf_examples = after_create_def after_start_def after_decision_def wf_empty_def

lemma after_start_reachable: "wf_reachable example_wf_env (after_start steps)"
  unfolding after_start_def after_create_def
  by (rule wf_reachable.step [OF wf_reachable.step [OF wf_reachable.empty wf_step.template] wf_step.start])
    (simp_all add: wf_empty_def)

lemma after_decision_reachable: "wf_reachable example_wf_env (after_decision decision)"
  unfolding after_decision_def by (rule wf_reachable.step [OF after_start_reachable wf_step.decide])

lemma after_start_approval: "map ap_id (approvals (after_start guarded_steps)) = [2] \<and>
    map ap_status (approvals (after_start guarded_steps)) = [Pending] \<and>
    map ap_expires_at (approvals (after_start guarded_steps)) = [hours 48]"
  by code_simp

theorem workflow_invariant_witness:
  "\<exists>a. approvals (after_start guarded_steps) = [a] \<and>
     (\<exists>r \<in> set (runs (after_start guarded_steps)). wr_id r = ap_run_id a \<and> wr_status r = Running) \<and>
     filter (\<lambda>b. ap_status b = Pending \<and> ap_run_id b = ap_run_id a) (approvals (after_start guarded_steps)) = [a]"
proof -
  obtain a where a: "approvals (after_start guarded_steps) = [a]" "ap_status a = Pending"
    using after_start_approval by auto
  have "a \<in> set (approvals (after_start guarded_steps))" using a(1) by simp
  from workflow_invariant [OF after_start_reachable this a(2)] a(1) show ?thesis by blast
qed

lemma rejected_run: "map wr_status (runs (after_decision ''rejected'')) = [Rejected]"
  by code_simp

theorem finished_runs_final_witness:
  "\<exists>r. runs (after_decision ''rejected'') = [r] \<and> wr_status r = Rejected \<and>
     r \<in> set (runs (snd (wf_request (decide_approval example_wf_env 6 9 example_member (Some 2) ''approved'' '''')
                      (after_decision ''rejected''))))"
proof -
  obtain r where r: "runs (after_decision ''rejected'') = [r]" "wr_status r = Rejected"
    using rejected_run by auto
  have "r \<in> set (runs (after_decision ''rejected''))" using r(1) by simp
  from finished_runs_final [OF after_decision_reachable wf_step.decide [of _ _ 6 9 example_member "Some 2" "''approved''" "''''"] this]
    r show ?thesis by auto
qed

lemma approved_effects: "effects (after_decision ''approved'') = [Deleted ''/a''] \<and>
    effects (after_start guarded_steps) = []"
  by code_simp

theorem decision_effects_guarded_witness:
  "\<exists>a \<in> set (approvals (after_start guarded_steps)).
     ap_id a = 2 \<and> ap_status a = Pending \<and> 5 \<le> ap_expires_at a"
proof -
  have "effects (snd (wf_request (decide_approval example_wf_env 5 9 example_member (Some 2) ''approved'' '''')
      (after_start guarded_steps))) \<noteq> effects (after_start guarded_steps)"
    using approved_effects unfolding after_decision_def by simp
  from decision_effects_guarded [OF this] show ?thesis by auto
qed

definition example_run :: "py_dict \<Rightarrow> workflow_run" where
  "example_run ctx = \<lparr> wr_id = 0, wr_template_id = 0, wr_tenant_id = 1, wr_triggered_by = ''manual'',
     wr_triggered_by_user = None, wr_status = Running, wr_current_step = 0, wr_context = ctx,
     wr_result = JNull, wr_started_at = 0, wr_completed_at = None \<rparr>"

theorem forward_workflow_returns_witness:
  "\<exists>r s'. advance example_wf_env 0 3 (example_run example_files) guarded_steps wf_empty = (Inr r, s')"
  by (rule forward_workflow_returns) code_simp+

text \<open>A template without an approval step deletes on the word of a user who may only propose.\<close>

definition unguarded_steps :: "py_dict list" where
  "unguarded_steps = [[(''type'', JStr ''action''), (''config'', JObj delete_config)]]"

definition example_proposer :: auth_context where
  "example_proposer = example_member\<lparr>ac_permissions := {''actions:propose''}\<rparr>"

lemma destructive_without_approval:
  "(case wf_request (start_run_endpoint example_wf_env 0 9 example_proposer (Some 0) example_files)
           (after_create unguarded_steps) of
      (r, s) \<Rightarrow> effects s = [Deleted ''/a''] \<and> approvals s = [] \<and> map wr_context (runs s) = [example_files])"
  by code_simp

text \<open>The tenant of the user who decides plays no part.\<close>

lemma decide_ignores_tenant:
  "decide_approval env now depth (auth\<lparr>ac_tenant_id := t\<rparr>) aid decision comment =
   decide_approval env now depth auth aid decision comment"
  by (simp add: decide_approval_def)

text \<open>An expired request is marked and then rolled back: it stays pending.\<close>

lemma expiry_not_stored:
  assumes "filter (\<lambda>a. ap_id a = i \<and> ap_status a = Pending) (approvals s) = [a]" and "ap_expires_at a < now"
    and "unique_by ap_id (approvals s)"
  shows "approvals (snd (wf_request (decide_approval env now depth auth (Some i) decision comment) s)) =
    approvals s"
proof -
  have "\<exists>e s'. process_approval env now depth (Some i) (ac_user_id auth) b comment s = (Inl e, s')" for b
    using assms(1,2) by (auto simp: process_approval_def scalar_one_or_none_def)
  then obtain e s' where
    p: "process_approval env now depth (Some i) (ac_user_id auth) (decision = ''approved'') comment s = (Inl e, s')"
    by blast
  have "\<exists>e' t. decide_approval env now depth auth (Some i) decision comment s = (Inl e', t)"
    using p by (cases e) (auto simp: decide_approval_def)
  then show ?thesis by (auto simp: wf_request_def transaction_def wf_undo_def)
qed

text \<open>A condition that jumps back repeats the steps before it until the interpreter's stack is
  exhausted; whatever they did has happened.\<close>

definition looping_steps :: "py_dict list" where
  "looping_steps =
     [[(''type'', JStr ''notify''), (''config'', JObj [(''channels'', JArr [JStr ''webhook'']),
        (''message'', JStr ''again''), (''webhook_url'', JStr ''u'')])],
      [(''type'', JStr ''condition''), (''config'', JObj [(''expression'', JStr ''false''), (''else_step'', JInt 0)])]]"

lemma looping_steps_loop:
  assumes "wr_context r = []" and "wr_current_step r = 0"
  shows "\<exists>s'. advance example_wf_env now (2 * n) r looping_steps s = (Inl RecursionError, s') \<and>
    effects s' = effects s @ replicate n (Posted (JStr ''u'') ''again'')"
  using assms
proof (induction n arbitrary: r s)
  case (Suc n)
  have unchanged: "str_replace (str_replace ''again'' ''{{run_id}}'' x) ''{{file_count}}'' y = ''again''" for x y
    by (simp add: str_replace_def)
  have posted: "send_notification r [(''channels'', JArr [JStr ''webhook'']), (''message'', JStr ''again''),
      (''webhook_url'', JStr ''u'')] s = (Inr (), s\<lparr>effects := effects s @ [Posted (JStr ''u'') ''again'']\<rparr>)"
    using Suc.prems by (simp add: send_notification_def dict_get_or_def dict_get_def json_len_def json_iter_def
        unchanged add_effect_def Let_def)
  define t where "t = put_run (r\<lparr>wr_current_step := 0\<rparr>) (put_run (r\<lparr>wr_current_step := 1\<rparr>)
      (s\<lparr>effects := effects s @ [Posted (JStr ''u'') ''again'']\<rparr>))"
  have t: "effects t = effects s @ [Posted (JStr ''u'') ''again'']"
    "advance example_wf_env now (2 * Suc n) r looping_steps s =
     advance example_wf_env now (2 * n) (r\<lparr>wr_current_step := 0\<rparr>) looping_steps t"
    using Suc.prems posted
    by (simp_all add: t_def looping_steps_def py_index_def execute_step_def step_type_def step_config_def
        json_dict_def dict_get_or_def dict_get_def evaluate_condition_def json_len_def json_iter_def
        count_status_def example_wf_env_def Let_def)
  from Suc.IH [of "r\<lparr>wr_current_step := 0\<rparr>" t] Suc.prems t show ?case by auto
qed simp

end
