(* ===== verification/Taxonomy.thy ===== *)
theory Taxonomy
  imports PyText
begin

text \<open>
  \<open>inventory/taxonomy.py\<close>: the tree of data categories, each with the columns of its table and the
  Cypher query that finds its nodes, and the flat indices built from the tree when the module loads.

  Every query of the table has one shape, \<open>MATCH pattern WHERE condition RETURN node\<close>, so it is kept
  parsed: the condition is a disjunction of conjunctions, which is how Cypher reads its text (AND
  binds tighter than OR); \<open>cypher_text\<close> gives the text back. What a query returns is given on a graph
  of nodes and relationships with Cypher's reading of a missing property: comparing it is null, and a
  null condition does not select. Icons are left out; the em dash of some descriptions is a character
  outside ASCII.
\<close>

section \<open>Queries\<close>

datatype catom =
    Equals string string
  | OneOf string "string list"
  | IsTrue string
  | InTenant
  | NoRel string string

record cquery =
  cq_alias :: string
  cq_label :: string
  cq_rel :: "(string \<times> string \<times> string) option"
  cq_where :: "catom list list"
  cq_distinct :: bool

definition quoted :: "string \<Rightarrow> string" where
  "quoted s = CHR 0x27 # s @ [CHR 0x27]"

fun atom_text :: "string \<Rightarrow> catom \<Rightarrow> string" where
  "atom_text x (Equals p v) = x @ ''.'' @ p @ '' = '' @ quoted v"
| "atom_text x (OneOf p vs) = x @ ''.'' @ p @ '' IN ['' @ str_join '','' (map quoted vs) @ '']''"
| "atom_text x (IsTrue p) = x @ ''.'' @ p @ '' = true''"
| "atom_text x InTenant = x @ ''.tenant_id = $tid''"
| "atom_text x (NoRel r l) = ''NOT ('' @ x @ '')-[:'' @ r @ '']->(:'' @ l @ '')''"

definition match_text :: "cquery \<Rightarrow> string" where
  "match_text q = ''MATCH ('' @ cq_alias q @ '':'' @ cq_label q @ '')'' @
     (case cq_rel q of None \<Rightarrow> '''' | Some (r, y, l) \<Rightarrow> ''-[:'' @ r @ '']->('' @ y @ '':'' @ l @ '')'')"

definition where_text :: "cquery \<Rightarrow> string" where
  "where_text q = str_join '' OR '' (map (\<lambda>as. str_join '' AND '' (map (atom_text (cq_alias q)) as)) (cq_where q))"

definition return_text :: "cquery \<Rightarrow> string" where
  "return_text q = ''RETURN '' @ (if cq_distinct q then ''DISTINCT '' else '''') @ cq_alias q @
     (if cq_alias q = ''f'' then '''' else '' AS f'')"

definition cypher_text :: "cquery \<Rightarrow> string" where
  "cypher_text q = match_text q @ '' WHERE '' @ where_text q @ '' '' @ return_text q"

section \<open>What a query returns\<close>

record vertex =
  vx_id :: nat
  vx_labels :: "string list"
  vx_props :: py_dict

record relation =
  rl_type :: string
  rl_from :: nat
  rl_to :: nat

record pgraph =
  pg_nodes :: "vertex list"
  pg_rels :: "relation list"

definition related :: "pgraph \<Rightarrow> string \<Rightarrow> string \<Rightarrow> vertex \<Rightarrow> vertex list" where
  "related g r l n =
     concat (map (\<lambda>e. if rl_type e = r \<and> rl_from e = vx_id n
                      then filter (\<lambda>m. vx_id m = rl_to e \<and> l \<in> set (vx_labels m)) (pg_nodes g) else [])
       (pg_rels g))"

fun atom_holds :: "pgraph \<Rightarrow> string \<Rightarrow> vertex \<Rightarrow> catom \<Rightarrow> bool" where
  "atom_holds g tid n (Equals p v) = (dict_get (vx_props n) p = Some (JStr v))"
| "atom_holds g tid n (OneOf p vs) =
     (case dict_get (vx_props n) p of Some (JStr v) \<Rightarrow> v \<in> set vs | _ \<Rightarrow> False)"
| "atom_holds g tid n (IsTrue p) = (dict_get (vx_props n) p = Some (JBool True))"
| "atom_holds g tid n InTenant = (dict_get (vx_props n) ''tenant_id'' = Some (JStr tid))"
| "atom_holds g tid n (NoRel r l) = (related g r l n = [])"

definition where_holds :: "pgraph \<Rightarrow> string \<Rightarrow> vertex \<Rightarrow> catom list list \<Rightarrow> bool" where
  "where_holds g tid n w = list_ex (list_all (atom_holds g tid n)) w"

text \<open>One row per match: a node with several matching relationships is returned as often, unless
  the query says \<open>DISTINCT\<close>.\<close>

definition run_query :: "pgraph \<Rightarrow> string \<Rightarrow> cquery \<Rightarrow> vertex list" where
  "run_query g tid q =
     (let rows = concat (map (\<lambda>n.
            if cq_label q \<in> set (vx_labels n) \<and> where_holds g tid n (cq_where q)
            then (case cq_rel q of None \<Rightarrow> [n] | Some (r, y, l) \<Rightarrow> map (\<lambda>m. n) (related g r l n))
            else []) (pg_nodes g))
      in if cq_distinct q then remdups rows else rows)"

section \<open>Categories\<close>

datatype column = Column (col_key: string) (col_label: string) (col_width: int) (col_kind: string)

datatype category =
  Category (cat_id: string) (cat_name: string) (cat_description: string) (cat_group: string)
    (cat_color: string) (cat_cypher: cquery) (cat_columns: "column list")
    (cat_subcategories: "category list") (cat_tags: "string list") (cat_parent_id: "string option")

definition base :: "column list" where
  "base =
     [Column ''name'' ''Name'' 220 ''text'',
      Column ''path'' ''Path'' 300 ''path'',
      Column ''size'' ''Size'' 80 ''size'',
      Column ''modified_at'' ''Modified'' 130 ''date'',
      Column ''source_connector'' ''Source'' 120 ''badge'']"

section \<open>The table\<close>

definition video_category :: category where
  "video_category =
    Category ''video'' ''Video'' ''All video files across your connected sources'' ''Video'' ''#4f8ef7''
      (\<lparr> cq_alias = ''f'', cq_label = ''File'', cq_rel = None,
       cq_where = [[Equals ''file_category'' ''video'', InTenant]], cq_distinct = False \<rparr>)
      (base @ [Column ''video_codec'' ''Codec'' 80 ''badge'',
       Column ''height'' ''Resolution'' 90 ''num'',
       Column ''hdr_format'' ''HDR'' 80 ''badge'',
       Column ''duration_secs'' ''Duration'' 90 ''num'',
       Column ''audio_codec'' ''Audio'' 80 ''badge'',
       Column ''container_format'' ''Container'' 110 ''badge''])
      [Category ''video-mkv'' ''MKV'' (''Matroska video files (.mkv) '' @ em_dash @
        '' common for high-quality encodes'') ''Video'' ''#4f8ef7''
      (\<lparr> cq_alias = ''f'', cq_label = ''File'', cq_rel = None,
       cq_where = [[Equals ''file_category'' ''video'', Equals ''extension'' ''.mkv'', InTenant]],
        cq_distinct = False \<rparr>)
      (base @ [Column ''video_codec'' ''Codec'' 80 ''badge'',
       Column ''height'' ''Res'' 60 ''num'',
       Column ''hdr_format'' ''HDR'' 80 ''badge'',
       Column ''duration_secs'' ''Duration'' 90 ''num''])
      []
      [''video'', ''mkv''] (Some ''video''),
      Category ''video-mp4'' ''MP4'' ''MPEG-4 video files (.mp4, .m4v)'' ''Video'' ''#60a5fa''
      (\<lparr> cq_alias = ''f'', cq_label = ''File'', cq_rel = None,
       cq_where = [[Equals ''file_category'' ''video'', OneOf ''extension'' [''.mp4'', ''.m4v''],
        InTenant]], cq_distinct = False \<rparr>)
      (base @ [Column ''video_codec'' ''Codec'' 80 ''badge'',
       Column ''height'' ''Res'' 60 ''num'',
       Column ''duration_secs'' ''Duration'' 90 ''num''])
      []
      [''video'', ''mp4''] (Some ''video''),
      Category ''video-ts'' ''Transport Stream'' (''Transport stream files (.ts, .m2ts) '' @ em_dash @
        '' typically broadcast or Blu-ray'') ''Video'' ''#818cf8''
      (\<lparr> cq_alias = ''f'', cq_label = ''File'', cq_rel = None,
       cq_where = [[Equals ''file_category'' ''video'', OneOf ''extension'' [''.ts'', ''.m2ts'',
        ''.mts''], InTenant]], cq_distinct = False \<rparr>)
      (base @ [Column ''video_codec'' ''Codec'' 80 ''badge'',
       Column ''height'' ''Res'' 60 ''num'',
       Column ''duration_secs'' ''Duration'' 90 ''num''])
      []
      [''video'', ''ts'', ''broadcast''] (Some ''video''),
      Category ''video-mov'' ''MOV / QuickTime'' ''Apple QuickTime video files (.mov)'' ''Video''
        ''#a78bfa''
      (\<lparr> cq_alias = ''f'', cq_label = ''File'', cq_rel = None,
       cq_where = [[Equals ''file_category'' ''video'', Equals ''extension'' ''.mov'', InTenant]],
        cq_distinct = False \<rparr>)
      (base @ [Column ''video_codec'' ''Codec'' 80 ''badge'',
       Column ''height'' ''Res'' 60 ''num'',
       Column ''duration_secs'' ''Duration'' 90 ''num''])
      []
      [''video'', ''mov'', ''quicktime''] (Some ''video''),
      Category ''video-avi'' ''AVI'' ''Audio Video Interleave files (.avi)'' ''Video'' ''#6366f1''
      (\<lparr> cq_alias = ''f'', cq_label = ''File'', cq_rel = None,
       cq_where = [[Equals ''file_category'' ''video'', Equals ''extension'' ''.avi'', InTenant]],
        cq_distinct = False \<rparr>)
      (base @ [Column ''video_codec'' ''Codec'' 80 ''badge'',
       Column ''height'' ''Res'' 60 ''num'',
       Column ''duration_secs'' ''Duration'' 90 ''num''])
      []
      [''video'', ''avi''] (Some ''video''),
      Category ''video-wmv'' ''WMV / ASF'' ''Windows Media Video files (.wmv, .asf)'' ''Video''
        ''#7c3aed''
      (\<lparr> cq_alias = ''f'', cq_label = ''File'', cq_rel = None,
       cq_where = [[Equals ''file_category'' ''video'', OneOf ''extension'' [''.wmv'', ''.asf''],
        InTenant]], cq_distinct = False \<rparr>)
      (base @ [Column ''video_codec'' ''Codec'' 80 ''badge'',
       Column ''height'' ''Res'' 60 ''num''])
      []
      [''video'', ''wmv'', ''windows''] (Some ''video''),
      Category ''video-webm'' ''WebM / FLV'' ''Web video formats (.webm, .flv)'' ''Video'' ''#4f46e5''
      (\<lparr> cq_alias = ''f'', cq_label = ''File'', cq_rel = None,
       cq_where = [[Equals ''file_category'' ''video'', OneOf ''extension'' [''.webm'', ''.flv''],
        InTenant]], cq_distinct = False \<rparr>)
      (base @ [Column ''video_codec'' ''Codec'' 80 ''badge'',
       Column ''height'' ''Res'' 60 ''num'',
       Column ''duration_secs'' ''Duration'' 90 ''num''])
      []
      [''video'', ''webm'', ''web''] (Some ''video'')]
      [''media'', ''video''] None"

definition audio_category :: category where
  "audio_category =
    Category ''audio'' ''Audio'' (''All audio files '' @ em_dash @ '' music, podcasts, recordings'')
        ''Audio'' ''#a78bfa''
      (\<lparr> cq_alias = ''f'', cq_label = ''File'', cq_rel = None,
       cq_where = [[Equals ''file_category'' ''audio'', InTenant]], cq_distinct = False \<rparr>)
      (base @ [Column ''audio_codec'' ''Format'' 80 ''badge'',
       Column ''artist'' ''Artist'' 140 ''text'',
       Column ''album'' ''Album'' 140 ''text'',
       Column ''duration_secs'' ''Duration'' 90 ''num'',
       Column ''sample_rate'' ''Sample Rate'' 90 ''num'',
       Column ''bit_depth'' ''Bit Depth'' 80 ''num''])
      [Category ''audio-flac'' ''FLAC'' (''Free Lossless Audio Codec '' @ em_dash @
        '' lossless quality'') ''Audio'' ''#8b5cf6''
      (\<lparr> cq_alias = ''f'', cq_label = ''File'', cq_rel = None,
       cq_where = [[Equals ''file_category'' ''audio'', Equals ''extension'' ''.flac'', InTenant]],
        cq_distinct = False \<rparr>)
      (base @ [Column ''artist'' ''Artist'' 130 ''text'',
       Column ''album'' ''Album'' 130 ''text'',
       Column ''bit_depth'' ''Bit Depth'' 80 ''num'',
       Column ''sample_rate'' ''Sample Rate'' 90 ''num''])
      []
      [''audio'', ''flac'', ''lossless''] (Some ''audio''),
      Category ''audio-mp3'' ''MP3'' ''MPEG Layer III audio files (.mp3)'' ''Audio'' ''#c084fc''
      (\<lparr> cq_alias = ''f'', cq_label = ''File'', cq_rel = None,
       cq_where = [[Equals ''file_category'' ''audio'', Equals ''extension'' ''.mp3'', InTenant]],
        cq_distinct = False \<rparr>)
      (base @ [Column ''artist'' ''Artist'' 130 ''text'',
       Column ''album'' ''Album'' 130 ''text'',
       Column ''overall_bitrate'' ''Bitrate'' 80 ''num'',
       Column ''title'' ''Title'' 160 ''text''])
      []
      [''audio'', ''mp3''] (Some ''audio''),
      Category ''audio-aac'' ''AAC / M4A'' ''Advanced Audio Coding files (.aac, .m4a)'' ''Audio''
        ''#a78bfa''
      (\<lparr> cq_alias = ''f'', cq_label = ''File'', cq_rel = None,
       cq_where = [[Equals ''file_category'' ''audio'', OneOf ''extension'' [''.aac'', ''.m4a''],
        InTenant]], cq_distinct = False \<rparr>)
      (base @ [Column ''artist'' ''Artist'' 130 ''text'',
       Column ''album'' ''Album'' 130 ''text'',
       Column ''overall_bitrate'' ''Bitrate'' 80 ''num''])
      []
      [''audio'', ''aac'', ''m4a''] (Some ''audio''),
      Category ''audio-wav'' ''WAV'' (''Uncompressed PCM audio (.wav) '' @ em_dash @
        '' lossless, large files'') ''Audio'' ''#7c3aed''
      (\<lparr> cq_alias = ''f'', cq_label = ''File'', cq_rel = None,
       cq_where = [[Equals ''file_category'' ''audio'', Equals ''extension'' ''.wav'', InTenant]],
        cq_distinct = False \<rparr>)
      (base @ [Column ''bit_depth'' ''Bit Depth'' 80 ''num'',
       Column ''sample_rate'' ''Sample Rate'' 90 ''num'',
       Column ''duration_secs'' ''Duration'' 90 ''num''])
      []
      [''audio'', ''wav'', ''lossless''] (Some ''audio''),
      Category ''audio-dsd'' ''DSD / SACD''
        ''Direct Stream Digital high-resolution audio (.dsf, .dff)'' ''Audio'' ''#6d28d9''
      (\<lparr> cq_alias = ''f'', cq_label = ''File'', cq_rel = None,
       cq_where = [[Equals ''file_category'' ''audio'', OneOf ''extension'' [''.dsf'', ''.dff''],
        InTenant]], cq_distinct = False \<rparr>)
      (base @ [Column ''sample_rate'' ''Sample Rate'' 90 ''num'',
       Column ''artist'' ''Artist'' 130 ''text'',
       Column ''album'' ''Album'' 130 ''text''])
      []
      [''audio'', ''dsd'', ''lossless'', ''hifi''] (Some ''audio''),
      Category ''audio-opus'' ''Opus / OGG'' ''Open source audio formats (.opus, .ogg, .oga)''
        ''Audio'' ''#9333ea''
      (\<lparr> cq_alias = ''f'', cq_label = ''File'', cq_rel = None,
       cq_where = [[Equals ''file_category'' ''audio'', OneOf ''extension'' [''.opus'', ''.ogg'',
        ''.oga''], InTenant]], cq_distinct = False \<rparr>)
      (base @ [Column ''artist'' ''Artist'' 130 ''text'',
       Column ''album'' ''Album'' 130 ''text'',
       Column ''overall_bitrate'' ''Bitrate'' 80 ''num''])
      []
      [''audio'', ''opus'', ''ogg''] (Some ''audio'')]
      [''media'', ''audio''] None"

definition images_category :: category where
  "images_category =
    Category ''images'' ''Images'' ''All image and photo files'' ''Images'' ''#34d399''
      (\<lparr> cq_alias = ''f'', cq_label = ''File'', cq_rel = None,
       cq_where = [[Equals ''file_category'' ''image'', InTenant]], cq_distinct = False \<rparr>)
      (base @ [Column ''width'' ''W'' 55 ''num'',
       Column ''height'' ''H'' 55 ''num'',
       Column ''camera_model'' ''Camera'' 130 ''text'',
       Column ''datetime_original'' ''Taken'' 130 ''date'',
       Column ''gps_latitude'' ''Lat'' 70 ''num''])
      [Category ''images-jpeg'' ''JPEG'' (''JPEG image files (.jpg, .jpeg) '' @ em_dash @
        '' most common photo format'') ''Images'' ''#10b981''
      (\<lparr> cq_alias = ''f'', cq_label = ''File'', cq_rel = None,
       cq_where = [[Equals ''file_category'' ''image'', OneOf ''extension'' [''.jpg'', ''.jpeg''],
        InTenant]], cq_distinct = False \<rparr>)
      (base @ [Column ''width'' ''W'' 55 ''num'',
       Column ''height'' ''H'' 55 ''num'',
       Column ''camera_model'' ''Camera'' 130 ''text'',
       Column ''datetime_original'' ''Taken'' 130 ''date''])
      []
      [''images'', ''jpeg''] (Some ''images''),
      Category ''images-png'' ''PNG'' (''Portable Network Graphics (.png) '' @ em_dash @
        '' lossless, supports transparency'') ''Images'' ''#34d399''
      (\<lparr> cq_alias = ''f'', cq_label = ''File'', cq_rel = None,
       cq_where = [[Equals ''file_category'' ''image'', Equals ''extension'' ''.png'', InTenant]],
        cq_distinct = False \<rparr>)
      (base @ [Column ''width'' ''W'' 55 ''num'',
       Column ''height'' ''H'' 55 ''num'',
       Column ''bit_depth'' ''Bit Depth'' 80 ''num''])
      []
      [''images'', ''png''] (Some ''images''),
      Category ''images-raw'' ''RAW / HEIF'' (''Camera RAW files and HEIF '' @ em_dash @
        '' maximum quality, unprocessed sensor data'') ''Images'' ''#059669''
      (\<lparr> cq_alias = ''f'', cq_label = ''File'', cq_rel = None,
       cq_where = [[Equals ''file_category'' ''image'', OneOf ''extension'' [''.cr2'', ''.nef'',
        ''.arw'', ''.raf'', ''.dng'', ''.heic'', ''.heif'', ''.rw2''], InTenant]], cq_distinct = False
        \<rparr>)
      (base @ [Column ''camera_make'' ''Make'' 90 ''text'',
       Column ''camera_model'' ''Camera'' 130 ''text'',
       Column ''focal_length'' ''Focal (mm)'' 90 ''num'',
       Column ''iso'' ''ISO'' 60 ''num'',
       Column ''aperture'' ''f/'' 60 ''num''])
      []
      [''images'', ''raw'', ''heic'', ''camera''] (Some ''images''),
      Category ''images-tiff'' ''TIFF / BMP'' (''TIFF and BMP format '' @ em_dash @
        '' lossless, high bit depth'') ''Images'' ''#047857''
      (\<lparr> cq_alias = ''f'', cq_label = ''File'', cq_rel = None,
       cq_where = [[Equals ''file_category'' ''image'', OneOf ''extension'' [''.tiff'', ''.tif'',
        ''.bmp''], InTenant]], cq_distinct = False \<rparr>)
      (base @ [Column ''width'' ''W'' 55 ''num'',
       Column ''height'' ''H'' 55 ''num'',
       Column ''bit_depth'' ''Bit Depth'' 80 ''num'',
       Column ''color_profile'' ''Profile'' 100 ''badge''])
      []
      [''images'', ''tiff'', ''bmp''] (Some ''images''),
      Category ''images-webp'' ''WebP / GIF'' ''Web image formats (.webp, .gif, .avif)'' ''Images''
        ''#6ee7b7''
      (\<lparr> cq_alias = ''f'', cq_label = ''File'', cq_rel = None,
       cq_where = [[Equals ''file_category'' ''image'', OneOf ''extension'' [''.webp'', ''.gif'',
        ''.avif''], InTenant]], cq_distinct = False \<rparr>)
      (base @ [Column ''width'' ''W'' 55 ''num'',
       Column ''height'' ''H'' 55 ''num''])
      []
      [''images'', ''webp'', ''gif'', ''web''] (Some ''images'')]
      [''media'', ''images''] None"

definition documents_category :: category where
  "documents_category =
    Category ''documents'' ''Documents'' ''Office documents, PDFs, text files, and presentations''
        ''Documents'' ''#fbbf24''
      (\<lparr> cq_alias = ''f'', cq_label = ''File'', cq_rel = None,
       cq_where = [[Equals ''file_category'' ''document'', InTenant]], cq_distinct = False \<rparr>)
      (base @ [Column ''mime_type'' ''Format'' 110 ''badge'',
       Column ''author'' ''Author'' 130 ''text'',
       Column ''page_count'' ''Pages'' 65 ''num'',
       Column ''word_count'' ''Words'' 75 ''num'',
       Column ''language'' ''Language'' 80 ''badge''])
      [Category ''docs-pdf'' ''PDF'' ''Portable Document Format files (.pdf)'' ''Documents'' ''#f59e0b''
      (\<lparr> cq_alias = ''f'', cq_label = ''File'', cq_rel = None,
       cq_where = [[Equals ''extension'' ''.pdf'', InTenant]], cq_distinct = False \<rparr>)
      (base @ [Column ''author'' ''Author'' 130 ''text'',
       Column ''page_count'' ''Pages'' 65 ''num'',
       Column ''word_count'' ''Words'' 75 ''num'',
       Column ''is_encrypted'' ''Encrypted'' 80 ''bool'',
       Column ''is_signed'' ''Signed'' 70 ''bool''])
      []
      [''documents'', ''pdf''] (Some ''documents''),
      Category ''docs-word'' ''Word (.docx / .doc)'' ''Microsoft Word documents'' ''Documents''
        ''#2563eb''
      (\<lparr> cq_alias = ''f'', cq_label = ''File'', cq_rel = None,
       cq_where = [[OneOf ''extension'' [''.docx'', ''.doc'', ''.odt'', ''.rtf''], InTenant]],
        cq_distinct = False \<rparr>)
      (base @ [Column ''author'' ''Author'' 130 ''text'',
       Column ''word_count'' ''Words'' 75 ''num'',
       Column ''has_macros'' ''Macros'' 70 ''bool'',
       Column ''language'' ''Language'' 80 ''badge''])
      []
      [''documents'', ''word'', ''docx''] (Some ''documents''),
      Category ''docs-excel'' ''Excel (.xlsx / .csv)'' (''Spreadsheets '' @ em_dash @
        '' Excel, CSV, ODS'') ''Documents'' ''#16a34a''
      (\<lparr> cq_alias = ''f'', cq_label = ''File'', cq_rel = None,
       cq_where = [[OneOf ''extension'' [''.xlsx'', ''.xls'', ''.csv'', ''.ods'', ''.tsv''],
        InTenant]], cq_distinct = False \<rparr>)
      (base @ [Column ''author'' ''Author'' 130 ''text'',
       Column ''has_macros'' ''Macros'' 70 ''bool'',
       Column ''pii_detected'' ''PII'' 60 ''bool''])
      []
      [''documents'', ''excel'', ''spreadsheet'', ''csv''] (Some ''documents''),
      Category ''docs-powerpoint'' ''PowerPoint (.pptx)'' (''Presentations '' @ em_dash @
        '' PowerPoint, Keynote, ODP'') ''Documents'' ''#dc2626''
      (\<lparr> cq_alias = ''f'', cq_label = ''File'', cq_rel = None,
       cq_where = [[OneOf ''extension'' [''.pptx'', ''.ppt'', ''.key'', ''.odp''], InTenant]],
        cq_distinct = False \<rparr>)
      (base @ [Column ''author'' ''Author'' 130 ''text'',
       Column ''page_count'' ''Slides'' 65 ''num''])
      []
      [''documents'', ''powerpoint'', ''presentation''] (Some ''documents''),
      Category ''docs-text'' ''Text / Markdown'' ''Plain text, Markdown, and rich text files''
        ''Documents'' ''#d97706''
      (\<lparr> cq_alias = ''f'', cq_label = ''File'', cq_rel = None,
       cq_where = [[OneOf ''extension'' [''.txt'', ''.md'', ''.rst'', ''.rtf'', ''.log''], InTenant]],
        cq_distinct = False \<rparr>)
      (base @ [Column ''word_count'' ''Words'' 75 ''num'',
       Column ''language'' ''Language'' 80 ''badge''])
      []
      [''documents'', ''text'', ''markdown''] (Some ''documents''),
      Category ''docs-data'' ''Data Files (.json / .xml / .yaml)'' (''Structured data files '' @
        em_dash @ '' JSON, XML, YAML, TOML'') ''Documents'' ''#b45309''
      (\<lparr> cq_alias = ''f'', cq_label = ''File'', cq_rel = None,
       cq_where = [[OneOf ''extension'' [''.json'', ''.xml'', ''.yaml'', ''.yml'', ''.toml'', ''.ini''
        ], InTenant]], cq_distinct = False \<rparr>)
      (base @ [Column ''contains_secrets'' ''Secrets'' 80 ''bool'',
       Column ''pii_detected'' ''PII'' 60 ''bool''])
      []
      [''documents'', ''json'', ''xml'', ''yaml'', ''data''] (Some ''documents'')]
      [''documents''] None"

definition emails_category :: category where
  "emails_category =
    Category ''emails'' ''Email'' ''.eml, .msg, and .mbox email archive files'' ''Email'' ''#38bdf8''
      (\<lparr> cq_alias = ''f'', cq_label = ''File'', cq_rel = None,
       cq_where = [[Equals ''file_category'' ''email'', InTenant]], cq_distinct = False \<rparr>)
      (base @ [Column ''author'' ''From'' 140 ''text'',
       Column ''title'' ''Subject'' 200 ''text'',
       Column ''pii_detected'' ''PII'' 60 ''bool'',
       Column ''language'' ''Language'' 80 ''badge''])
      [Category ''emails-eml'' ''.eml / .mbox'' ''Standard email files (.eml, .mbox, .mbx)'' ''Email''
        ''#0ea5e9''
      (\<lparr> cq_alias = ''f'', cq_label = ''File'', cq_rel = None,
       cq_where = [[OneOf ''extension'' [''.eml'', ''.mbox'', ''.mbx''], InTenant]], cq_distinct =
        False \<rparr>)
      (base @ [Column ''author'' ''From'' 140 ''text'',
       Column ''title'' ''Subject'' 200 ''text'',
       Column ''pii_detected'' ''PII'' 60 ''bool''])
      []
      [''email'', ''eml''] (Some ''emails''),
      Category ''emails-msg'' ''.msg (Outlook)'' ''Microsoft Outlook message files (.msg)'' ''Email''
        ''#0284c7''
      (\<lparr> cq_alias = ''f'', cq_label = ''File'', cq_rel = None,
       cq_where = [[Equals ''extension'' ''.msg'', InTenant]], cq_distinct = False \<rparr>)
      (base @ [Column ''author'' ''From'' 140 ''text'',
       Column ''title'' ''Subject'' 200 ''text'',
       Column ''pii_detected'' ''PII'' 60 ''bool''])
      []
      [''email'', ''msg'', ''outlook''] (Some ''emails'')]
      [''email''] None"

definition code_category :: category where
  "code_category =
    Category ''code'' ''Source Code'' ''Programming files, scripts, and config'' ''Code'' ''#22d3ee''
      (\<lparr> cq_alias = ''f'', cq_label = ''File'', cq_rel = None,
       cq_where = [[Equals ''file_category'' ''code'', InTenant]], cq_distinct = False \<rparr>)
      (base @ [Column ''code_language'' ''Language'' 100 ''badge'',
       Column ''line_count'' ''Lines'' 70 ''num'',
       Column ''contains_secrets'' ''Secrets'' 80 ''bool''])
      [Category ''code-python'' ''Python'' ''Python source files (.py, .pyw, .pyi)'' ''Code'' ''#3b82f6''
      (\<lparr> cq_alias = ''f'', cq_label = ''File'', cq_rel = None,
       cq_where = [[OneOf ''extension'' [''.py'', ''.pyw'', ''.pyi''], InTenant]], cq_distinct = False
        \<rparr>)
      (base @ [Column ''line_count'' ''Lines'' 70 ''num'',
       Column ''function_count'' ''Functions'' 80 ''num'',
       Column ''contains_secrets'' ''Secrets'' 80 ''bool''])
      []
      [''code'', ''python''] (Some ''code''),
      Category ''code-javascript'' ''JavaScript / TypeScript'' ''JS and TS source files'' ''Code''
        ''#eab308''
      (\<lparr> cq_alias = ''f'', cq_label = ''File'', cq_rel = None,
       cq_where = [[OneOf ''extension'' [''.js'', ''.mjs'', ''.cjs'', ''.ts'', ''.tsx'', ''.jsx''],
        InTenant]], cq_distinct = False \<rparr>)
      (base @ [Column ''line_count'' ''Lines'' 70 ''num'',
       Column ''framework'' ''Framework'' 110 ''badge'',
       Column ''contains_secrets'' ''Secrets'' 80 ''bool''])
      []
      [''code'', ''javascript'', ''typescript''] (Some ''code''),
      Category ''code-go'' ''Go'' ''Go source files (.go)'' ''Code'' ''#06b6d4''
      (\<lparr> cq_alias = ''f'', cq_label = ''File'', cq_rel = None,
       cq_where = [[Equals ''extension'' ''.go'', InTenant]], cq_distinct = False \<rparr>)
      (base @ [Column ''line_count'' ''Lines'' 70 ''num'',
       Column ''function_count'' ''Functions'' 80 ''num''])
      []
      [''code'', ''go'', ''golang''] (Some ''code''),
      Category ''code-rust'' ''Rust'' ''Rust source files (.rs)'' ''Code'' ''#f97316''
      (\<lparr> cq_alias = ''f'', cq_label = ''File'', cq_rel = None,
       cq_where = [[Equals ''extension'' ''.rs'', InTenant]], cq_distinct = False \<rparr>)
      (base @ [Column ''line_count'' ''Lines'' 70 ''num'',
       Column ''function_count'' ''Functions'' 80 ''num''])
      []
      [''code'', ''rust''] (Some ''code''),
      Category ''code-java'' ''Java / Kotlin / Scala'' ''JVM language source files'' ''Code'' ''#dc2626''
      (\<lparr> cq_alias = ''f'', cq_label = ''File'', cq_rel = None,
       cq_where = [[OneOf ''extension'' [''.java'', ''.kt'', ''.scala'', ''.groovy''], InTenant]],
        cq_distinct = False \<rparr>)
      (base @ [Column ''line_count'' ''Lines'' 70 ''num'',
       Column ''framework'' ''Framework'' 110 ''badge''])
      []
      [''code'', ''java'', ''kotlin''] (Some ''code''),
      Category ''code-csharp'' ''C# / C / C++'' ''C-family source files'' ''Code'' ''#7c3aed''
      (\<lparr> cq_alias = ''f'', cq_label = ''File'', cq_rel = None,
       cq_where = [[OneOf ''extension'' [''.cs'', ''.c'', ''.cpp'', ''.h'', ''.hpp'', ''.cc''],
        InTenant]], cq_distinct = False \<rparr>)
      (base @ [Column ''line_count'' ''Lines'' 70 ''num'',
       Column ''function_count'' ''Functions'' 80 ''num''])
      []
      [''code'', ''csharp'', ''c'', ''cpp''] (Some ''code''),
      Category ''code-shell'' ''Shell / PowerShell''
        ''Shell scripts (.sh, .bash, .zsh, .ps1, .bat, .cmd)'' ''Code'' ''#059669''
      (\<lparr> cq_alias = ''f'', cq_label = ''File'', cq_rel = None,
       cq_where = [[OneOf ''extension'' [''.sh'', ''.bash'', ''.zsh'', ''.fish'', ''.ps1'', ''.bat'',
        ''.cmd''], InTenant]], cq_distinct = False \<rparr>)
      (base @ [Column ''line_count'' ''Lines'' 70 ''num'',
       Column ''contains_secrets'' ''Secrets'' 80 ''bool''])
      []
      [''code'', ''shell'', ''bash'', ''powershell''] (Some ''code''),
      Category ''code-config'' ''Config Files'' (''Configuration files '' @ em_dash @
        '' .env, YAML, TOML, INI, properties'') ''Code'' ''#0891b2''
      (\<lparr> cq_alias = ''f'', cq_label = ''File'', cq_rel = None,
       cq_where = [[OneOf ''extension'' [''.env'', ''.properties'', ''.conf'', ''.cfg'', ''.ini''],
        InTenant]], cq_distinct = False \<rparr>)
      (base @ [Column ''contains_secrets'' ''Secrets'' 80 ''bool'',
       Column ''line_count'' ''Lines'' 70 ''num''])
      []
      [''code'', ''config'', ''env''] (Some ''code''),
      Category ''code-sql'' ''SQL / GraphQL'' ''Database query files (.sql, .graphql, .gql)'' ''Code''
        ''#0369a1''
      (\<lparr> cq_alias = ''f'', cq_label = ''File'', cq_rel = None,
       cq_where = [[OneOf ''extension'' [''.sql'', ''.graphql'', ''.gql''], InTenant]], cq_distinct =
        False \<rparr>)
      (base @ [Column ''line_count'' ''Lines'' 70 ''num'',
       Column ''contains_secrets'' ''Secrets'' 80 ''bool''])
      []
      [''code'', ''sql'', ''database''] (Some ''code'')]
      [''code''] None"

definition executables_category :: category where
  "executables_category =
    Category ''executables'' ''Executables & Libraries''
        ''Binary executables, libraries, and installers'' ''Software'' ''#8b5cf6''
      (\<lparr> cq_alias = ''f'', cq_label = ''File'', cq_rel = None,
       cq_where = [[Equals ''file_category'' ''executable'', InTenant]], cq_distinct = False \<rparr>)
      (base @ [Column ''binary_format'' ''Format'' 70 ''badge'',
       Column ''company_name'' ''Vendor'' 130 ''text'',
       Column ''file_version'' ''Version'' 90 ''text'',
       Column ''signed'' ''Signed'' 70 ''bool'',
       Column ''eol_status'' ''EOL'' 80 ''badge''])
      [Category ''exe-pe'' ''Windows PE (.exe / .dll)'' (''Windows Portable Executable files '' @
        em_dash @ '' programs and libraries'') ''Software'' ''#0078d4''
      (\<lparr> cq_alias = ''f'', cq_label = ''File'', cq_rel = None,
       cq_where = [[Equals ''file_category'' ''executable'', Equals ''binary_format'' ''PE'',
        InTenant]], cq_distinct = False \<rparr>)
      (base @ [Column ''company_name'' ''Vendor'' 130 ''text'',
       Column ''file_version'' ''Version'' 90 ''text'',
       Column ''signed'' ''Signed'' 70 ''bool'',
       Column ''is_packed'' ''Packed'' 70 ''bool''])
      []
      [''software'', ''exe'', ''windows''] (Some ''executables''),
      Category ''exe-elf'' ''Linux ELF'' ''Linux/Unix ELF binaries and shared objects'' ''Software''
        ''#f97316''
      (\<lparr> cq_alias = ''f'', cq_label = ''File'', cq_rel = None,
       cq_where = [[Equals ''file_category'' ''executable'', Equals ''binary_format'' ''ELF'',
        InTenant]], cq_distinct = False \<rparr>)
      (base @ [Column ''architecture'' ''Arch'' 70 ''badge'',
       Column ''signed'' ''Signed'' 70 ''bool'',
       Column ''is_packed'' ''Packed'' 70 ''bool''])
      []
      [''software'', ''elf'', ''linux''] (Some ''executables''),
      Category ''exe-macho'' ''macOS Mach-O'' ''macOS and iOS Mach-O binaries'' ''Software'' ''#6b7280''
      (\<lparr> cq_alias = ''f'', cq_label = ''File'', cq_rel = None,
       cq_where = [[Equals ''file_category'' ''executable'', Equals ''binary_format'' ''MACHO'',
        InTenant]], cq_distinct = False \<rparr>)
      (base @ [Column ''architectures'' ''Architectures'' 160 ''text'',
       Column ''signed'' ''Signed'' 70 ''bool'',
       Column ''is_universal'' ''Universal'' 90 ''bool''])
      []
      [''software'', ''macho'', ''macos''] (Some ''executables''),
      Category ''exe-msi'' ''Installers (.msi / .pkg / .deb)'' (''Software installers '' @ em_dash @
        '' MSI, PKG, DEB, RPM'') ''Software'' ''#7c3aed''
      (\<lparr> cq_alias = ''f'', cq_label = ''File'', cq_rel = None,
       cq_where = [[OneOf ''extension'' [''.msi'', ''.pkg'', ''.deb'', ''.rpm'', ''.dmg''], InTenant]],
        cq_distinct = False \<rparr>)
      (base @ [Column ''company_name'' ''Vendor'' 130 ''text'',
       Column ''file_version'' ''Version'' 90 ''text'',
       Column ''signed'' ''Signed'' 70 ''bool''])
      []
      [''software'', ''installer'', ''msi''] (Some ''executables'')]
      [''software'', ''executables''] None"

definition archives_category :: category where
  "archives_category =
    Category ''archives'' ''Archives'' ''Compressed and archive files'' ''Archives'' ''#fb923c''
      (\<lparr> cq_alias = ''f'', cq_label = ''File'', cq_rel = None,
       cq_where = [[Equals ''file_category'' ''archive'', InTenant]], cq_distinct = False \<rparr>)
      (base @ [Column ''compression_method'' ''Method'' 100 ''badge'',
       Column ''file_count_in_archive'' ''Files'' 70 ''num'',
       Column ''compression_ratio'' ''Ratio'' 70 ''num'',
       Column ''contains_executables'' ''Has .exe'' 80 ''bool''])
      [Category ''archives-zip'' ''ZIP'' ''ZIP archives (.zip, .jar, .war, .apk)'' ''Archives''
        ''#ea580c''
      (\<lparr> cq_alias = ''f'', cq_label = ''File'', cq_rel = None,
       cq_where = [[OneOf ''extension'' [''.zip'', ''.jar'', ''.war'', ''.ear'', ''.apk'', ''.ipa''],
        InTenant]], cq_distinct = False \<rparr>)
      (base @ [Column ''file_count_in_archive'' ''Files'' 70 ''num'',
       Column ''contains_executables'' ''Has .exe'' 80 ''bool''])
      []
      [''archives'', ''zip''] (Some ''archives''),
      Category ''archives-7z'' ''7-Zip / RAR'' ''High-compression archives (.7z, .rar, .ace)''
        ''Archives'' ''#f97316''
      (\<lparr> cq_alias = ''f'', cq_label = ''File'', cq_rel = None,
       cq_where = [[OneOf ''extension'' [''.7z'', ''.rar'', ''.ace'', ''.arj''], InTenant]],
        cq_distinct = False \<rparr>)
      (base @ [Column ''file_count_in_archive'' ''Files'' 70 ''num'',
       Column ''compression_ratio'' ''Ratio'' 70 ''num''])
      []
      [''archives'', ''7z'', ''rar''] (Some ''archives''),
      Category ''archives-tar'' ''TAR / GZ / BZ2''
        ''Unix archive formats (.tar, .tar.gz, .tgz, .bz2, .xz)'' ''Archives'' ''#fb923c''
      (\<lparr> cq_alias = ''f'', cq_label = ''File'', cq_rel = None,
       cq_where = [[OneOf ''extension'' [''.tar'', ''.gz'', ''.tgz'', ''.bz2'', ''.xz'', ''.zst'',
        ''.lz4''], InTenant]], cq_distinct = False \<rparr>)
      (base @ [Column ''file_count_in_archive'' ''Files'' 70 ''num'',
       Column ''compression_ratio'' ''Ratio'' 70 ''num''])
      []
      [''archives'', ''tar'', ''unix''] (Some ''archives''),
      Category ''archives-iso'' ''Disk Images (.iso / .img)'' ''Disk image files (.iso, .img, .dmg)''
        ''Archives'' ''#fbbf24''
      (\<lparr> cq_alias = ''f'', cq_label = ''File'', cq_rel = None,
       cq_where = [[OneOf ''extension'' [''.iso'', ''.img''], InTenant]], cq_distinct = False \<rparr>)
      (base @ [Column ''file_count_in_archive'' ''Files'' 70 ''num''])
      []
      [''archives'', ''iso'', ''disk''] (Some ''archives'')]
      [''archives''] None"

definition certificates_category :: category where
  "certificates_category =
    Category ''certificates'' ''Certificates & Keys''
        ''TLS certificates, CA certificates, and private keys'' ''Security'' ''#4ade80''
      (\<lparr> cq_alias = ''f'', cq_label = ''File'', cq_rel = None,
       cq_where = [[OneOf ''file_category'' [''certificate'', ''private_key''], InTenant]], cq_distinct
        = False \<rparr>)
      (base @ [Column ''cert_subject'' ''Subject'' 200 ''text'',
       Column ''cert_issuer'' ''Issuer'' 160 ''text'',
       Column ''cert_valid_to'' ''Expires'' 130 ''date'',
       Column ''cert_is_expired'' ''Expired'' 80 ''bool'',
       Column ''days_until_expiry'' ''Days Left'' 80 ''num''])
      [Category ''certs-pem'' ''PEM / CRT'' ''PEM-encoded certificates (.pem, .crt, .cer)''
        ''Security'' ''#22c55e''
      (\<lparr> cq_alias = ''f'', cq_label = ''File'', cq_rel = None,
       cq_where = [[OneOf ''extension'' [''.pem'', ''.crt'', ''.cer''], InTenant]], cq_distinct = False
        \<rparr>)
      (base @ [Column ''cert_subject'' ''Subject'' 200 ''text'',
       Column ''cert_valid_to'' ''Expires'' 130 ''date'',
       Column ''cert_is_expired'' ''Expired'' 80 ''bool'',
       Column ''is_ca'' ''Is CA'' 70 ''bool''])
      []
      [''certificates'', ''pem''] (Some ''certificates''),
      Category ''certs-pkcs12'' ''PKCS#12 / PFX'' (''PKCS#12 bundles '' @ em_dash @
        '' certificate + private key (.p12, .pfx)'') ''Security'' ''#16a34a''
      (\<lparr> cq_alias = ''f'', cq_label = ''File'', cq_rel = None,
       cq_where = [[OneOf ''extension'' [''.p12'', ''.pfx''], InTenant]], cq_distinct = False \<rparr>)
      (base @ [Column ''cert_subject'' ''Subject'' 200 ''text'',
       Column ''cert_valid_to'' ''Expires'' 130 ''date''])
      []
      [''certificates'', ''pkcs12'', ''pfx''] (Some ''certificates''),
      Category ''certs-keys'' ''Private Keys (.key)'' ''Standalone private key files (.key, .der)''
        ''Security'' ''#15803d''
      (\<lparr> cq_alias = ''f'', cq_label = ''File'', cq_rel = None,
       cq_where = [[OneOf ''extension'' [''.key'', ''.der'']],
         [Equals ''file_category'' ''private_key'', InTenant]], cq_distinct = False \<rparr>)
      (base @ [Column ''key_type'' ''Key Type'' 100 ''badge'',
       Column ''key_bits'' ''Key Size'' 80 ''num'',
       Column ''passphrase_protected'' ''Protected'' 90 ''bool''])
      []
      [''certificates'', ''keys'', ''private-key''] (Some ''certificates'')]
      [''certificates'', ''security''] None"

definition models_3d_category :: category where
  "models_3d_category =
    Category ''3d-models'' ''3D Models & CAD'' ''3D models, CAD drawings, and engineering files''
        ''Design & Engineering'' ''#67e8f9''
      (\<lparr> cq_alias = ''f'', cq_label = ''File'', cq_rel = None,
       cq_where = [[Equals ''file_category'' ''3d_model'', InTenant]], cq_distinct = False \<rparr>)
      (base @ [Column ''extension'' ''Format'' 80 ''badge''])
      [Category ''3d-stl'' ''STL / OBJ'' (''3D mesh formats '' @ em_dash @ '' STL and OBJ'')
        ''Design & Engineering'' ''#22d3ee''
      (\<lparr> cq_alias = ''f'', cq_label = ''File'', cq_rel = None,
       cq_where = [[OneOf ''extension'' [''.stl'', ''.obj''], InTenant]], cq_distinct = False \<rparr>)
      (base @ [Column ''extension'' ''Format'' 80 ''badge''])
      []
      [''3d'', ''stl'', ''obj''] (Some ''3d-models''),
      Category ''3d-cad'' ''CAD (.dwg / .dxf / .step)'' (''Engineering CAD formats '' @ em_dash @
        '' DWG, DXF, STEP, IGES'') ''Design & Engineering'' ''#06b6d4''
      (\<lparr> cq_alias = ''f'', cq_label = ''File'', cq_rel = None,
       cq_where = [[OneOf ''extension'' [''.dwg'', ''.dxf'', ''.step'', ''.stp'', ''.iges'', ''.igs''],
        InTenant]], cq_distinct = False \<rparr>)
      (base @ [Column ''extension'' ''Format'' 80 ''badge''])
      []
      [''3d'', ''cad'', ''engineering''] (Some ''3d-models''),
      Category ''3d-blend'' ''Blender / FBX'' (''3D scene formats '' @ em_dash @
        '' Blender, FBX, COLLADA'') ''Design & Engineering'' ''#0e7490''
      (\<lparr> cq_alias = ''f'', cq_label = ''File'', cq_rel = None,
       cq_where = [[OneOf ''extension'' [''.blend'', ''.fbx'', ''.dae'', ''.glb'', ''.gltf''],
        InTenant]], cq_distinct = False \<rparr>)
      (base @ [Column ''extension'' ''Format'' 80 ''badge''])
      []
      [''3d'', ''blender'', ''fbx''] (Some ''3d-models'')]
      [''3d'', ''cad'', ''design''] None"

definition calendar_contacts_category :: category where
  "calendar_contacts_category =
    Category ''calendar-contacts'' ''Calendar & Contacts''
        ''Calendar files (.ics) and contact cards (.vcf)'' ''Productivity'' ''#a3e635''
      (\<lparr> cq_alias = ''f'', cq_label = ''File'', cq_rel = None,
       cq_where = [[OneOf ''file_category'' [''calendar'', ''contact''], InTenant]], cq_distinct =
        False \<rparr>)
      (base @ [Column ''extension'' ''Format'' 80 ''badge''])
      [Category ''calendar-ics'' ''Calendar (.ics)'' ''iCalendar event files'' ''Productivity''
        ''#84cc16''
      (\<lparr> cq_alias = ''f'', cq_label = ''File'', cq_rel = None,
       cq_where = [[Equals ''extension'' ''.ics'', InTenant]], cq_distinct = False \<rparr>)
      (base @ [])
      []
      [''calendar'', ''ics''] (Some ''calendar-contacts''),
      Category ''contacts-vcf'' ''Contacts (.vcf)'' ''vCard contact files'' ''Productivity'' ''#65a30d''
      (\<lparr> cq_alias = ''f'', cq_label = ''File'', cq_rel = None,
       cq_where = [[Equals ''extension'' ''.vcf'', InTenant]], cq_distinct = False \<rparr>)
      (base @ [])
      []
      [''contacts'', ''vcf''] (Some ''calendar-contacts'')]
      [''calendar'', ''contacts''] None"

definition people_category :: category where
  "people_category =
    Category ''people'' ''People'' ''Individuals identified by face recognition or document analysis''
        ''People & Identity'' ''#f472b6''
      (\<lparr> cq_alias = ''p'', cq_label = ''Person'', cq_rel = None,
       cq_where = [[InTenant]], cq_distinct = False \<rparr>)
      ([Column ''name'' ''Name'' 180 ''text'',
       Column ''known'' ''Identified'' 90 ''bool'',
       Column ''face_count'' ''Appearances'' 100 ''num'',
       Column ''first_seen'' ''First Seen'' 130 ''date''])
      [Category ''people-identified'' ''Identified People''
        ''People with a confirmed identity (known=true)'' ''People & Identity'' ''#ec4899''
      (\<lparr> cq_alias = ''p'', cq_label = ''Person'', cq_rel = None,
       cq_where = [[IsTrue ''known'', InTenant]], cq_distinct = False \<rparr>)
      ([Column ''name'' ''Name'' 180 ''text'',
       Column ''face_count'' ''Appearances'' 100 ''num'',
       Column ''first_seen'' ''First Seen'' 130 ''date''])
      []
      [''people'', ''identified''] (Some ''people''),
      Category ''people-unknown'' ''Unidentified Faces''
        ''Face clusters not yet matched to a named person'' ''People & Identity'' ''#f472b6''
      (\<lparr> cq_alias = ''fc'', cq_label = ''FaceCluster'', cq_rel = None,
       cq_where = [[NoRel ''SAME_PERSON_AS'' ''Person'', InTenant]], cq_distinct = False \<rparr>)
      ([Column ''cluster_id'' ''Cluster'' 120 ''mono'',
       Column ''face_count'' ''Appearances'' 100 ''num'',
       Column ''first_seen'' ''First Seen'' 130 ''date''])
      []
      [''people'', ''faces'', ''unidentified''] (Some ''people'')]
      [''people''] None"

definition applications_category :: category where
  "applications_category =
    Category ''applications'' ''Installed Applications'' ''Applications detected on scanned systems''
        ''Software Inventory'' ''#8b5cf6''
      (\<lparr> cq_alias = ''a'', cq_label = ''Application'', cq_rel = None,
       cq_where = [[InTenant]], cq_distinct = False \<rparr>)
      ([Column ''name'' ''Name'' 200 ''text'',
       Column ''version_string'' ''Version'' 90 ''text'',
       Column ''eol_status'' ''EOL'' 80 ''badge'',
       Column ''cve_count'' ''CVEs'' 60 ''num'',
       Column ''update_available'' ''Update'' 80 ''bool''])
      []
      [''software'', ''applications''] None"

definition duplicates_category :: category where
  "duplicates_category =
    Category ''duplicates'' ''Duplicate Files'' ''Files sharing identical content (same SHA-256)''
        ''Storage'' ''#6b7280''
      (\<lparr> cq_alias = ''f'', cq_label = ''File'', cq_rel = (Some (''DUPLICATE_OF'', ''g'',
        ''File'')),
       cq_where = [[InTenant]], cq_distinct = True \<rparr>)
      (base @ [Column ''sha256'' ''Hash'' 160 ''mono'',
       Column ''extension'' ''Format'' 80 ''badge''])
      []
      [''storage'', ''duplicates''] None"

definition directories_category :: category where
  "directories_category =
    Category ''directories'' ''Directories'' ''Folder structure across all connected sources''
        ''Storage'' ''#fbbf24''
      (\<lparr> cq_alias = ''d'', cq_label = ''Directory'', cq_rel = None,
       cq_where = [[InTenant]], cq_distinct = False \<rparr>)
      ([Column ''name'' ''Name'' 200 ''text'',
       Column ''path'' ''Path'' 300 ''path'',
       Column ''file_count'' ''Files'' 70 ''num'',
       Column ''total_bytes'' ''Total Size'' 100 ''size''])
      []
      [''storage'', ''filesystem''] None"

definition INVENTORY :: "category list" where
  "INVENTORY =
    [video_category,
     audio_category,
     images_category,
     documents_category,
     emails_category,
     code_category,
     executables_category,
     archives_category,
     certificates_category,
     models_3d_category,
     calendar_contacts_category,
     people_category,
     applications_category,
     duplicates_category,
     directories_category]"

section \<open>Flat indices\<close>

text \<open>\<open>_flatten\<close> calls itself on the subcategories of each category: a recursion over the tree.\<close>

fun flatten_one :: "category \<Rightarrow> category list" where
  "flatten_one (Category i n d g c q cols subs tags p) =
     Category i n d g c q cols subs tags p # concat (map flatten_one subs)"

definition flatten :: "category list \<Rightarrow> category list" where
  "flatten cats = concat (map flatten_one cats)"

definition ALL_CATEGORIES :: "category list" where
  "ALL_CATEGORIES = flatten INVENTORY"

definition CATEGORY_INDEX :: "(string \<times> category) list" where
  "CATEGORY_INDEX = foldl (\<lambda>d c. dict_set (cat_id c) c d) [] ALL_CATEGORIES"

definition get_category :: "string \<Rightarrow> category option" where
  "get_category cid = map_of CATEGORY_INDEX cid"

text \<open>\<open>out.setdefault(c.group, []).append(c)\<close>.\<close>

fun append_group :: "string \<Rightarrow> 'a \<Rightarrow> (string \<times> 'a list) list \<Rightarrow> (string \<times> 'a list) list" where
  "append_group g x [] = [(g, [x])]"
| "append_group g x ((h, xs) # d) = (if g = h then (h, xs @ [x]) # d else (h, xs) # append_group g x d)"

definition get_by_group :: "(string \<times> category list) list" where
  "get_by_group = foldl (\<lambda>d c. append_group (cat_group c) c d) [] INVENTORY"

section \<open>The indices\<close>

text \<open>An index filled in order keeps the last entry of a key; with distinct keys, the only one.\<close>

lemma map_of_index:
  "map_of (foldl (\<lambda>d c. dict_set (k c) c d) d xs) i =
     (case find (\<lambda>c. k c = i) (rev xs) of None \<Rightarrow> map_of d i | Some c \<Rightarrow> Some c)"
proof (induction xs arbitrary: d)
  case (Cons x xs)
  have "find (\<lambda>c. k c = i) (ys @ [x]) =
      (case find (\<lambda>c. k c = i) ys of None \<Rightarrow> if k x = i then Some x else None | Some c \<Rightarrow> Some c)" for ys
    by (induction ys) auto
  with Cons show ?case by (simp add: map_of_dict_set split: option.splits)
qed simp

lemma find_SomeD: "find p xs = Some x \<Longrightarrow> x \<in> set xs \<and> p x"
  by (induction xs) (auto split: if_splits)

lemma index_lookup:
  assumes "distinct (map k xs)" and "x \<in> set xs"
  shows "map_of (foldl (\<lambda>d c. dict_set (k c) c d) [] xs) (k x) = Some x"
proof -
  obtain y where y: "find (\<lambda>c. k c = k x) (rev xs) = Some y" "y \<in> set xs" "k y = k x"
    using assms(2)
    by (cases "find (\<lambda>c. k c = k x) (rev xs)") (auto simp: find_None_iff dest: find_SomeD)
  moreover have "y = x" using assms y by (auto simp: distinct_map inj_on_def)
  ultimately show ?thesis by (simp add: map_of_index)
qed

lemma index_found:
  assumes "map_of (foldl (\<lambda>d c. dict_set (k c) c d) [] xs) i = Some x"
  shows "x \<in> set xs \<and> k x = i"
proof -
  have "find (\<lambda>c. k c = i) (rev xs) = Some x"
    using assms by (auto simp: map_of_index split: option.splits)
  then obtain j where "j < length xs" "k (rev xs ! j) = i" "x = rev xs ! j"
    by (auto simp: find_Some_iff)
  then show ?thesis by (metis length_rev nth_mem set_rev)
qed

lemma ids_distinct: "distinct (map cat_id ALL_CATEGORIES)"
  by code_simp

lemma get_category_iff: "get_category i = Some c \<longleftrightarrow> c \<in> set ALL_CATEGORIES \<and> cat_id c = i"
proof
  assume "get_category i = Some c"
  then show "c \<in> set ALL_CATEGORIES \<and> cat_id c = i"
    unfolding get_category_def CATEGORY_INDEX_def by (rule index_found)
next
  assume c: "c \<in> set ALL_CATEGORIES \<and> cat_id c = i"
  show "get_category i = Some c"
    using index_lookup [OF ids_distinct conjunct1 [OF c]] c
    unfolding get_category_def CATEGORY_INDEX_def by simp
qed

text \<open>The subcategories of a category name it as their parent, all through the tree.\<close>

fun linked :: "string option \<Rightarrow> category \<Rightarrow> bool" where
  "linked p (Category i n d g c q cols subs tags parent) =
     (parent = p \<and> list_all (linked (Some i)) subs)"

lemma table_linked: "list_all (linked None) INVENTORY"
  by code_simp

lemma linked_flatten:
  "linked p r \<Longrightarrow> c \<in> set (flatten_one r) \<Longrightarrow>
   c = r \<and> cat_parent_id c = p \<or>
   (\<exists>q \<in> set (flatten_one r). c \<in> set (cat_subcategories q) \<and> cat_parent_id c = Some (cat_id q))"
proof (induction p r rule: linked.induct)
  case (1 p i n d g col q cols subs tags parent)
  show ?case
  proof (cases "c = Category i n d g col q cols subs tags parent")
    case True
    with "1.prems"(1) show ?thesis by simp
  next
    case False
    then obtain r where r: "r \<in> set subs" "c \<in> set (flatten_one r)" using "1.prems"(2) by auto
    have "linked (Some i) r" using "1.prems"(1) r(1) by (simp add: list_all_iff)
    from "1.IH" [OF r(1) this r(2)] r(1) show ?thesis by auto
  qed
qed

lemma linked_parent:
  "linked p r \<Longrightarrow> q \<in> set (flatten_one r) \<Longrightarrow> s \<in> set (cat_subcategories q) \<Longrightarrow>
   cat_parent_id s = Some (cat_id q)"
proof (induction p r rule: linked.induct)
  case (1 p i n d g col qq cols subs tags parent)
  show ?case
  proof (cases "q = Category i n d g col qq cols subs tags parent")
    case True
    with "1.prems" have "linked (Some i) s" by (simp add: list_all_iff)
    with True show ?thesis by (cases s) simp
  next
    case False
    then obtain r where r: "r \<in> set subs" "q \<in> set (flatten_one r)" using "1.prems"(2) by auto
    have "linked (Some i) r" using "1.prems"(1) r(1) by (simp add: list_all_iff)
    from "1.IH" [OF r(1) this r(2)] "1.prems"(3) show ?thesis by simp
  qed
qed

lemma root_in_flatten [simp]: "r \<in> set (flatten_one r)"
  by (cases r) simp

lemma subcategory_listed:
  "q \<in> set (flatten_one r) \<Longrightarrow> c \<in> set (cat_subcategories q) \<Longrightarrow> c \<in> set (flatten_one r)"
proof (induction r rule: flatten_one.induct)
  case (1 i n d g col qq cols subs tags p)
  show ?case
  proof (cases "q = Category i n d g col qq cols subs tags p")
    case True
    with "1.prems"(2) have "c \<in> set subs" by simp
    then have "\<exists>x \<in> set subs. c \<in> set (flatten_one x)" using root_in_flatten by blast
    then show ?thesis by simp
  next
    case False
    with "1.prems"(1) obtain r where "r \<in> set subs" "q \<in> set (flatten_one r)" by auto
    with "1.IH" "1.prems"(2) show ?thesis by auto
  qed
qed

lemma parent_lists:
  assumes "c \<in> set ALL_CATEGORIES"
  shows "case cat_parent_id c of
       None \<Rightarrow> c \<in> set INVENTORY
     | Some p \<Rightarrow> \<exists>q. get_category p = Some q \<and> c \<in> set (cat_subcategories q)"
proof -
  obtain r where r: "r \<in> set INVENTORY" "c \<in> set (flatten_one r)"
    using assms by (auto simp: ALL_CATEGORIES_def flatten_def)
  have all: "x \<in> set ALL_CATEGORIES" if "x \<in> set (flatten_one r)" for x
    using that r(1) by (auto simp: ALL_CATEGORIES_def flatten_def)
  have "linked None r" using table_linked r(1) by (simp add: list_all_iff)
  from linked_flatten [OF this r(2)] r(1) show ?thesis
    using all unfolding get_category_iff by (cases "cat_parent_id c") (simp, force)
qed

lemma subcategory_of:
  assumes "c \<in> set ALL_CATEGORIES" and "s \<in> set (cat_subcategories c)"
  shows "get_category (cat_id s) = Some s \<and> cat_parent_id s = Some (cat_id c)"
proof -
  obtain r where r: "r \<in> set INVENTORY" "c \<in> set (flatten_one r)"
    using assms by (auto simp: ALL_CATEGORIES_def flatten_def)
  have "linked None r" using table_linked r(1) by (simp add: list_all_iff)
  from linked_parent [OF this r(2) assms(2)] subcategory_listed [OF r(2) assms(2)] r(1) show ?thesis
    by (auto simp: get_category_iff ALL_CATEGORIES_def flatten_def)
qed

text \<open>The tree and the index agree: every category of the tree is found under its own id, its
  subcategories are found too, a category without a parent is one of the top level, and the parent a
  category names is the category that lists it.\<close>

theorem taxonomy_index:
  assumes "c \<in> set ALL_CATEGORIES"
  shows "get_category (cat_id c) = Some c \<and>
    (\<forall>s \<in> set (cat_subcategories c). get_category (cat_id s) = Some s \<and> cat_parent_id s = Some (cat_id c)) \<and>
    (case cat_parent_id c of
       None \<Rightarrow> c \<in> set INVENTORY
     | Some p \<Rightarrow> \<exists>q. get_category p = Some q \<and> c \<in> set (cat_subcategories q))"
  using assms subcategory_of parent_lists by (auto simp: get_category_iff)

section \<open>Isolation of tenants\<close>

text \<open>A condition is scoped when each of its alternatives compares the tenant.\<close>

definition scoped :: "cquery \<Rightarrow> bool" where
  "scoped q \<longleftrightarrow> list_all (\<lambda>as. InTenant \<in> set as) (cq_where q)"

definition of_tenant :: "string \<Rightarrow> vertex \<Rightarrow> bool" where
  "of_tenant tid n \<longleftrightarrow> dict_get (vx_props n) ''tenant_id'' = Some (JStr tid)"

lemma run_query_row:
  assumes "n \<in> set (run_query g tid q)"
  shows "n \<in> set (pg_nodes g) \<and> cq_label q \<in> set (vx_labels n) \<and> where_holds g tid n (cq_where q)"
proof -
  let ?rows = "concat (map (\<lambda>n.
            if cq_label q \<in> set (vx_labels n) \<and> where_holds g tid n (cq_where q)
            then (case cq_rel q of None \<Rightarrow> [n] | Some (r, y, l) \<Rightarrow> map (\<lambda>m. n) (related g r l n))
            else []) (pg_nodes g))"
  have "set (run_query g tid q) = set ?rows" by (simp add: run_query_def Let_def)
  with assms have "n \<in> set ?rows" by simp
  then show ?thesis by (auto split: if_splits option.splits)
qed

lemma where_scoped: "scoped q \<Longrightarrow> where_holds g tid n (cq_where q) \<Longrightarrow> of_tenant tid n"
  by (fastforce simp: scoped_def where_holds_def list_all_iff list_ex_iff of_tenant_def)

lemma run_query_set:
  "cq_rel q = None \<Longrightarrow> set (run_query g tid q) =
     {n \<in> set (pg_nodes g). cq_label q \<in> set (vx_labels n) \<and> where_holds g tid n (cq_where q)}"
  by (auto simp: run_query_def Let_def split: if_splits)

definition keys_query :: "cquery \<Rightarrow> bool" where
  "keys_query q \<longleftrightarrow> cq_label q = ''File'' \<and> cq_rel q = None \<and>
     cq_where q = [[OneOf ''extension'' [''.key'', ''.der'']], [Equals ''file_category'' ''private_key'', InTenant]]"

lemma table_scoped:
  "list_all (\<lambda>c. if cat_id c = ''certs-keys'' then keys_query (cat_cypher c) else scoped (cat_cypher c))
     ALL_CATEGORIES"
  by code_simp

lemma one_of_holds:
  "atom_holds g tid n (OneOf p vs) \<longleftrightarrow> (\<exists>v \<in> set vs. dict_get (vx_props n) p = Some (JStr v))"
  by (auto split: option.split json.split)

lemma keys_query_set:
  "keys_query q \<Longrightarrow> set (run_query g tid q) = {n \<in> set (pg_nodes g). ''File'' \<in> set (vx_labels n) \<and>
     (dict_get (vx_props n) ''extension'' \<in> {Some (JStr ''.key''), Some (JStr ''.der'')} \<or>
      dict_get (vx_props n) ''file_category'' = Some (JStr ''private_key'') \<and> of_tenant tid n)}"
  by (simp add: keys_query_def run_query_set where_holds_def of_tenant_def one_of_holds
      del: atom_holds.simps(2))

text \<open>C3: The query of every category of the inventory but one returns nodes of the asking tenant only.
  The exception is that of the private keys, \<open>certs-keys\<close>, whose condition reads \<open>A OR B AND tenant\<close>:
  it returns every File node of the graph, of any tenant, whose extension is \<open>.key\<close> or \<open>.der\<close>, and
  besides these the File nodes of the asking tenant whose category is \<open>private_key\<close>.\<close>

theorem inventory_queries_isolated:
  assumes "c \<in> set ALL_CATEGORIES"
  shows "if cat_id c = ''certs-keys''
    then set (run_query g tid (cat_cypher c)) = {n \<in> set (pg_nodes g). ''File'' \<in> set (vx_labels n) \<and>
      (dict_get (vx_props n) ''extension'' \<in> {Some (JStr ''.key''), Some (JStr ''.der'')} \<or>
       dict_get (vx_props n) ''file_category'' = Some (JStr ''private_key'') \<and> of_tenant tid n)}
    else \<forall>n \<in> set (run_query g tid (cat_cypher c)). n \<in> set (pg_nodes g) \<and> of_tenant tid n"
proof (cases "cat_id c = ''certs-keys''")
  case True
  with table_scoped assms have "keys_query (cat_cypher c)" by (simp add: list_all_iff)
  from keys_query_set [OF this] True show ?thesis by simp
next
  case False
  with table_scoped assms have "scoped (cat_cypher c)" by (simp add: list_all_iff)
  from where_scoped [OF this] run_query_row [of _ g tid "cat_cypher c"] False show ?thesis by auto
qed

definition keys_graph :: pgraph where
  "keys_graph = \<lparr> pg_nodes =
     [\<lparr> vx_id = 1, vx_labels = [''File''],
        vx_props = [(''tenant_id'', JStr ''7''), (''extension'', JStr ''.key'')] \<rparr>,
      \<lparr> vx_id = 2, vx_labels = [''File''],
        vx_props = [(''tenant_id'', JStr ''1''), (''extension'', JStr ''.der'')] \<rparr>], pg_rels = [] \<rparr>"

definition keys_category :: category where
  "keys_category = cat_subcategories certificates_category ! 2"

lemma keys_category_listed: "keys_category \<in> set ALL_CATEGORIES"
proof -
  have "certificates_category \<in> set INVENTORY" by (simp add: INVENTORY_def)
  moreover have "keys_category \<in> set (cat_subcategories certificates_category)"
    by (simp add: keys_category_def certificates_category_def)
  ultimately show ?thesis
    using subcategory_listed [OF root_in_flatten] by (auto simp: ALL_CATEGORIES_def flatten_def)
qed

theorem inventory_queries_isolated_witness:
  "set (run_query keys_graph ''1'' (cat_cypher keys_category)) = set (pg_nodes keys_graph) \<and>
   \<not> of_tenant ''1'' (pg_nodes keys_graph ! 0)"
proof -
  have "cat_id keys_category = ''certs-keys''" by code_simp
  with inventory_queries_isolated [OF keys_category_listed, of keys_graph "''1''"]
  have "set (run_query keys_graph ''1'' (cat_cypher keys_category)) = {n \<in> set (pg_nodes keys_graph).
      ''File'' \<in> set (vx_labels n) \<and>
      (dict_get (vx_props n) ''extension'' \<in> {Some (JStr ''.key''), Some (JStr ''.der'')} \<or>
       dict_get (vx_props n) ''file_category'' = Some (JStr ''private_key'') \<and> of_tenant ''1'' n)}"
    by (simp only: if_True simp_thms)
  also have "\<dots> = set (pg_nodes keys_graph)"
    by (auto simp: keys_graph_def dict_get_def)
  finally have "set (run_query keys_graph ''1'' (cat_cypher keys_category)) = set (pg_nodes keys_graph)" .
  moreover have "\<not> of_tenant ''1'' (pg_nodes keys_graph ! 0)" by code_simp
  ultimately show ?thesis by blast
qed

definition first_subcategory :: "category \<Rightarrow> category" where
  "first_subcategory c = hd (cat_subcategories c)"

theorem taxonomy_index_witness:
  "let c = first_subcategory video_category in
   get_category (cat_id c) = Some c \<and> cat_parent_id c = Some ''video'' \<and>
   (\<exists>q. get_category ''video'' = Some q \<and> c \<in> set (cat_subcategories q))"
proof -
  let ?c = "first_subcategory video_category"
  have p: "cat_parent_id ?c = Some ''video''" by code_simp
  have "video_category \<in> set INVENTORY" by (simp add: INVENTORY_def)
  moreover have "?c \<in> set (cat_subcategories video_category)"
    by (simp add: first_subcategory_def video_category_def)
  ultimately have "?c \<in> set ALL_CATEGORIES"
    using subcategory_listed [OF root_in_flatten] by (auto simp: ALL_CATEGORIES_def flatten_def)
  from taxonomy_index [OF this] p show ?thesis by (simp add: Let_def)
qed

section \<open>Groups\<close>

lemma append_group_lookup:
  "map_of (append_group g x d) h =
     (if h = g then Some ((case map_of d g of None \<Rightarrow> [] | Some xs \<Rightarrow> xs) @ [x]) else map_of d h)"
  by (induction g x d rule: append_group.induct) auto

lemma group_lookup:
  "map_of (foldl (\<lambda>d c. append_group (k c) c d) d xs) g =
     (if filter (\<lambda>c. k c = g) xs = [] then map_of d g
      else Some ((case map_of d g of None \<Rightarrow> [] | Some ys \<Rightarrow> ys) @ filter (\<lambda>c. k c = g) xs))"
  by (induction xs arbitrary: d) (auto simp: append_group_lookup)

text \<open>Grouping loses no category and keeps the order of the table within a group.\<close>

lemma get_by_group_lookup:
  "map_of get_by_group g =
     (let cs = filter (\<lambda>c. cat_group c = g) INVENTORY in if cs = [] then None else Some cs)"
  by (simp add: get_by_group_def group_lookup)

end
