(* ===== verification/Inventory.thy ===== *)
theory Inventory
  imports Taxonomy Oidc
begin

text \<open>
  \<open>api/inventory_search.py\<close> and \<open>api/inventory.py\<close>: from a phrase to a category, and from a category
  to its counts, its page of nodes, its attribute filters and its breadcrumb.

  Scores and confidences are rational numbers. The search treats ASCII text. Running a query is
  \<open>run_query\<close> on a graph; the filters work on the query's text, as the code does, with the regular
  expressions written out as functions on strings.
\<close>

section \<open>The keyword map\<close>

definition media_keywords :: "(string list \<times> string) list" where
  "media_keywords =
    [([''mkv files'', ''mkv video'', ''matroska''], ''video-mkv''),
     ([''mp4 files'', ''mp4 video'', ''mpeg-4 video'', ''m4v''], ''video-mp4''),
     ([''transport stream'', ''ts files'', ''m2ts'', ''blu-ray video'', ''broadcast video''],
       ''video-ts''),
     ([''mov files'', ''quicktime'', ''apple video''], ''video-mov''),
     ([''avi files'', ''avi video''], ''video-avi''),
     ([''wmv files'', ''windows media video''], ''video-wmv''),
     ([''webm files'', ''flv files'', ''web video''], ''video-webm''),
     ([''mkv'', ''mp4'', ''avi'', ''mov'', ''ts'', ''wmv'', ''webm'', ''flv'', ''video files'',
       ''video'', ''videos'', ''movies'', ''films'', ''recordings'', ''clips''], ''video''),
     ([''flac files'', ''flac audio'', ''flac music''], ''audio-flac''),
     ([''mp3 files'', ''mp3 music'', ''mp3 audio''], ''audio-mp3''),
     ([''aac files'', ''m4a files'', ''aac audio'', ''apple music files''], ''audio-aac''),
     ([''wav files'', ''wav audio'', ''wave files'', ''pcm audio''], ''audio-wav''),
     ([''dsd files'', ''sacd'', ''dsf files'', ''dff files'', ''hi-res dsd''], ''audio-dsd''),
     ([''ogg files'', ''opus files'', ''vorbis''], ''audio-opus''),
     ([''flac'', ''mp3'', ''aac'', ''m4a'', ''wav'', ''ogg'', ''opus'', ''dsd'', ''audio files'',
       ''audio'', ''music'', ''songs'', ''tracks'', ''recordings''], ''audio''),
     ([''jpeg files'', ''jpg files'', ''jpeg photos'', ''jpg photos''], ''images-jpeg''),
     ([''png files'', ''png images'', ''portable network graphics''], ''images-png''),
     ([''raw photos'', ''raw images'', ''camera raw'', ''cr2 files'', ''nef files'', ''arw files'',
       ''dng files'', ''raf files'', ''heic files'', ''heic images'', ''heif files'', ''cr2'',
       ''nef'', ''arw'', ''dng'', ''heic'', ''heif''], ''images-raw''),
     ([''tiff files'', ''tif files'', ''bmp files'', ''bitmap''], ''images-tiff''),
     ([''webp files'', ''gif files'', ''animated gif'', ''avif''], ''images-webp''),
     ([''jpeg'', ''jpg'', ''png'', ''tiff'', ''gif'', ''webp'', ''photos'', ''pictures'', ''images''
       , ''photos files''], ''images''),
     ([''pdf files'', ''pdf documents'', ''pdfs'', ''.pdf''], ''docs-pdf''),
     ([''word files'', ''word documents'', ''docx files'', ''doc files'', ''odt files'',
       ''rtf files''], ''docs-word''),
     ([''excel files'', ''spreadsheets'', ''xlsx files'', ''xls files'', ''csv files'', ''csv data''
       , ''tsv files'', ''ods files''], ''docs-excel''),
     ([''powerpoint files'', ''presentations'', ''pptx files'', ''ppt files'', ''keynote files'',
       ''slides''], ''docs-powerpoint''),
     ([''text files'', ''txt files'', ''markdown files'', ''readme files'', ''log files'',
       ''plain text''], ''docs-text''),
     ([''json files'', ''xml files'', ''yaml files'', ''toml files'', ''ini files'',
       ''config data files''], ''docs-data''),
     ([''pdf'', ''docx'', ''xlsx'', ''pptx'', ''txt'', ''csv'', ''json'', ''xml'', ''documents'',
       ''docs'', ''office files''], ''documents''),
     ([''eml files'', ''mbox files'', ''email files''], ''emails-eml''),
     ([''msg files'', ''outlook files'', ''outlook emails''], ''emails-msg''),
     ([''eml'', ''msg'', ''mbox'', ''emails'', ''email'', ''messages''], ''emails'')]"

definition other_keywords :: "(string list \<times> string) list" where
  "other_keywords =
    [([''python files'', ''python code'', ''.py files'', ''py files''], ''code-python''),
     ([''javascript files'', ''typescript files'', ''js files'', ''ts files'', ''jsx files'',
       ''tsx files'', ''node files''], ''code-javascript''),
     ([''go files'', ''golang files'', ''.go files''], ''code-go''),
     ([''rust files'', ''rust code'', ''.rs files''], ''code-rust''),
     ([''java files'', ''kotlin files'', ''scala files'', ''.java''], ''code-java''),
     ([''c# files'', ''csharp files'', ''c++ files'', ''cpp files'', ''c files'', ''.cs files'',
       ''.cpp files''], ''code-csharp''),
     ([''shell scripts'', ''bash scripts'', ''powershell scripts'', ''batch files'', ''.sh files'',
       ''.ps1 files'', ''.bat files''], ''code-shell''),
     ([''config files'', ''configuration files'', ''env files'', ''.env files'', ''ini files'',
       ''properties files''], ''code-config''),
     ([''sql files'', ''database scripts'', ''graphql files'', ''.sql files''], ''code-sql''),
     ([''python'', ''javascript'', ''typescript'', ''go'', ''rust'', ''java'', ''kotlin'',
       ''csharp'', ''bash'', ''shell'', ''scripts'', ''source code'', ''code files'', ''code''],
       ''code''),
     ([''exe files'', ''dll files'', ''windows executables'', ''windows binaries'', ''pe files'',
       ''win32''], ''exe-pe''),
     ([''elf files'', ''linux binaries'', ''linux executables'', ''shared objects'', ''.so files''],
       ''exe-elf''),
     ([''macho files'', ''macos binaries'', ''macos executables'', ''dylib files'', ''mach-o''],
       ''exe-macho''),
     ([''msi files'', ''installers'', ''pkg files'', ''deb files'', ''rpm files'', ''dmg files'',
       ''setup files''], ''exe-msi''),
     ([''exe'', ''dll'', ''bin'', ''binary'', ''binaries'', ''executables'', ''applications''],
       ''executables''),
     ([''zip files'', ''jar files'', ''apk files''], ''archives-zip''),
     ([''7z files'', ''7-zip files'', ''rar files''], ''archives-7z''),
     ([''tar files'', ''tar.gz files'', ''tgz files'', ''gzip files'', ''bz2 files'', ''xz files'',
       ''tarball''], ''archives-tar''),
     ([''iso files'', ''disc images'', ''disk images'', ''img files''], ''archives-iso''),
     ([''zip'', ''rar'', ''7z'', ''tar'', ''gz'', ''iso'', ''archives'', ''compressed files''],
       ''archives''),
     ([''pem files'', ''crt files'', ''cer files'', ''ssl certificates'', ''tls certificates'',
       ''x509 certificates''], ''certs-pem''),
     ([''p12 files'', ''pfx files'', ''pkcs12 files'', ''certificate bundles''], ''certs-pkcs12''),
     ([''key files'', ''private key files'', ''der files'', ''private keys''], ''certs-keys''),
     ([''certificates'', ''certs'', ''ssl'', ''tls'', ''x509'', ''pem'', ''key files''],
       ''certificates''),
     ([''stl files'', ''obj files'', ''3d mesh files''], ''3d-stl''),
     ([''dwg files'', ''dxf files'', ''step files'', ''cad files'', ''engineering drawings''],
       ''3d-cad''),
     ([''blend files'', ''blender files'', ''fbx files'', ''gltf files'', ''3d scene files''],
       ''3d-blend''),
     ([''3d models'', ''cad files'', ''3d files''], ''3d-models''),
     ([''ics files'', ''calendar files'', ''icalendar''], ''calendar-ics''),
     ([''vcf files'', ''vcard files'', ''contact files''], ''contacts-vcf''),
     ([''calendar'', ''contacts'', ''address book''], ''calendar-contacts''),
     ([''identified people'', ''known people'', ''named people'', ''recognized faces'',
       ''identified faces''], ''people-identified''),
     ([''unknown faces'', ''unidentified people'', ''unrecognized faces'', ''face clusters''],
       ''people-unknown''),
     ([''people'', ''persons'', ''faces'', ''individuals''], ''people''),
     ([''installed apps'', ''installed software'', ''applications'', ''software inventory''],
       ''applications''),
     ([''duplicate files'', ''duplicates'', ''identical files'', ''same files''], ''duplicates''),
     ([''folders'', ''directories'', ''directory structure'', ''folder structure''], ''directories''
       )]"

definition KEYWORD_MAP :: "(string list \<times> string) list" where
  "KEYWORD_MAP = media_keywords @ other_keywords"

section \<open>From a phrase to a category\<close>

definition keyword_score :: "string \<Rightarrow> int" where
  "keyword_score phrase = int (length phrase) + int (length (split_words phrase)) * 4"

definition try_keyword ::
  "string \<Rightarrow> category \<Rightarrow> (int \<times> category \<times> string) option \<Rightarrow> string \<Rightarrow> (int \<times> category \<times> string) option"
  where
  "try_keyword q c best phrase =
     (if \<not> sublist phrase q then best
      else let score = keyword_score phrase
           in case best of
                None \<Rightarrow> Some (score, c, phrase)
              | Some (b, d, p) \<Rightarrow> if score > b then Some (score, c, phrase) else best)"

definition best_keyword :: "string \<Rightarrow> (int \<times> category \<times> string) option" where
  "best_keyword q =
     foldl (\<lambda>best (phrases, i).
              case get_category i of None \<Rightarrow> best | Some c \<Rightarrow> foldl (try_keyword q c) best phrases)
       None KEYWORD_MAP"

definition category_score :: "string \<Rightarrow> category \<Rightarrow> rat" where
  "category_score q c =
     (let ws = filter (\<lambda>w. length w \<ge> 3) (split_words q);
          nl = str_lower (cat_name c); dl = str_lower (cat_description c)
      in (if sublist q nl then 9 / 10 else if sublist q dl then 1 / 2 else 0) +
         sum_list (map (\<lambda>w. (if sublist w nl then 3 / 10 else 0) + (if sublist w dl then 3 / 20 else 0)) ws) +
         sum_list (map (\<lambda>t. if sublist t q \<or> list_ex (\<lambda>w. sublist w t) ws then 3 / 20 else 0) (cat_tags c)))"

definition score_all :: "string \<Rightarrow> (category \<times> rat) list" where
  "score_all q =
     sort_key (\<lambda>(c, s). - s)
       (map (\<lambda>c. (c, round_to 3 (category_score q c)))
         (filter (\<lambda>c. category_score q c > 0) ALL_CATEGORIES))"

text \<open>\<open>urllib.parse.quote\<close> and \<open>_san\<close>.\<close>

definition hex_digit :: "nat \<Rightarrow> char" where
  "hex_digit d = (if d < 10 then char_of (48 + d) else char_of (55 + d))"

definition url_quote :: "string \<Rightarrow> string" where
  "url_quote s = concat (map (\<lambda>c.
     if is_upper c \<or> is_lower c \<or> is_digit c \<or> c \<in> set ''_.-~/'' then [c]
     else [CHR 0x25, hex_digit (char_code c div 16), hex_digit (char_code c mod 16)]) s)"

definition san :: "string \<Rightarrow> string" where
  "san q = take 100 (filter (\<lambda>c. c \<notin> {CHR 0x27, CHR 0x22, CHR 0x5C, CHR 0x0A, CHR 0x0D, CHR 0x3B}) q)"

definition fallback_cypher :: "string \<Rightarrow> string" where
  "fallback_cypher q =
     ''MATCH (f:File) WHERE toLower(f.name) CONTAINS toLower('' @ quoted (san q) @
     '') AND f.tenant_id = $tid RETURN f LIMIT 50''"

record search_hit =
  sh_category :: category
  sh_confidence :: rat
  sh_keyword :: "string option"
  sh_is_fuzzy :: bool
  sh_suggestions :: "(category \<times> rat) list"

datatype search_result =
    Hit search_hit
  | NoHit "(category \<times> rat) list" string

definition hit :: "category \<Rightarrow> rat \<Rightarrow> string \<Rightarrow> string option \<Rightarrow> bool \<Rightarrow> (category \<times> rat) list \<Rightarrow> search_result"
  where
  "hit c confidence q keyword fuzzy suggestions =
     Hit \<lparr> sh_category = c, sh_confidence = round_to 3 confidence, sh_keyword = keyword,
           sh_is_fuzzy = fuzzy,
           sh_suggestions = (if suggestions = [] then take 6 (score_all q) else suggestions) \<rparr>"

definition resolve_query :: "string \<Rightarrow> search_result" where
  "resolve_query query =
     (let q = str_lower (str_strip query)
      in case find (\<lambda>c. str_lower (cat_name c) = q) ALL_CATEGORIES of
           Some c \<Rightarrow> hit c 1 q None False []
         | None \<Rightarrow>
             (case best_keyword q of
                Some (s, c, phrase) \<Rightarrow>
                  hit c (min (98 / 100) (72 / 100 + of_nat (length phrase) / 60)) q (Some phrase) False []
              | None \<Rightarrow>
                  (case score_all q of
                     (c, s) # rest \<Rightarrow>
                       if s \<ge> 4 / 10 then hit c (s * (75 / 100)) q None True (take 6 ((c, s) # rest))
                       else NoHit (take 6 ((c, s) # rest)) (''/query?q='' @ url_quote (fallback_cypher q))
                   | [] \<Rightarrow> NoHit [] (''/query?q='' @ url_quote (fallback_cypher q)))))"

definition suggest_categories :: "string \<Rightarrow> nat \<Rightarrow> (category \<times> rat) list" where
  "suggest_categories q limit =
     (let ql = str_lower q;
          named = map (\<lambda>c. (c, 1)) (filter (\<lambda>c. prefix ql (str_lower (cat_name c))) ALL_CATEGORIES);
          seen = map (cat_id \<circ> fst) named
      in take limit (named @ filter (\<lambda>(c, s). cat_id c \<notin> set seen) (score_all ql)))"

section \<open>Counts and pages\<close>

text \<open>
  \<open>_count_cypher\<close> rewrites the RETURN clause with three patterns. A node returned under another name
  (\<open>RETURN p AS f\<close>) becomes \<open>RETURN count(f)\<close>, where \<open>f\<close> is not bound: the query fails. \<open>RETURN
  DISTINCT f\<close> fits no pattern and stays, so the first row has no \<open>total\<close>.
\<close>

definition count_return :: "cquery \<Rightarrow> string" where
  "count_return q =
     (if cq_alias q \<noteq> ''f''
      then (if cq_distinct q then ''RETURN count(DISTINCT f) AS total'' else ''RETURN count(f) AS total'')
      else if cq_distinct q then return_text q else ''RETURN count(f) AS total'')"

definition count_cypher :: "cquery \<Rightarrow> string" where
  "count_cypher q = match_text q @ '' WHERE '' @ where_text q @ '' '' @ count_return q"

definition count_total :: "pgraph \<Rightarrow> string \<Rightarrow> cquery \<Rightarrow> int option" where
  "count_total g tid q =
     (if cq_alias q \<noteq> ''f'' then None
      else if cq_distinct q then Some 0
      else Some (int (length (run_query g tid q))))"

definition list_inventory ::
  "pgraph \<Rightarrow> auth_context \<Rightarrow> (string \<times> (category \<times> int) list) list" where
  "list_inventory g auth =
     map (\<lambda>(group, cs). (group, map (\<lambda>c.
            (c, case count_total g (uuid_str (ac_tenant_id auth)) (cat_cypher c) of None \<Rightarrow> 0 | Some n \<Rightarrow> n)) cs))
       get_by_group"

text \<open>\<open>_build_breadcrumb\<close>: the loop ends at a category without a parent.\<close>

partial_function (option) breadcrumb_loop ::
  "category \<Rightarrow> (string option \<times> string) list \<Rightarrow> (string option \<times> string) list option" where
  "breadcrumb_loop current crumb =
     (let crumb' = (Some (cat_id current), cat_name current) # crumb
      in case opt_str_or (cat_parent_id current) None of
           None \<Rightarrow> Some crumb'
         | Some p \<Rightarrow>
             (case get_category p of None \<Rightarrow> Some crumb' | Some q \<Rightarrow> breadcrumb_loop q crumb'))"

definition build_breadcrumb :: "category \<Rightarrow> (string option \<times> string) list option" where
  "build_breadcrumb c =
     (case breadcrumb_loop c [] of
        None \<Rightarrow> None | Some crumb \<Rightarrow> Some ((None, ''Data Inventory'') # crumb))"

record category_detail =
  cd_category :: category
  cd_total :: "int option"
  cd_breadcrumb :: "(string option \<times> string) list option"
  cd_subcategories :: "(category \<times> int option) list"
  cd_nodes :: "vertex list"
  cd_has_more :: bool

definition get_category_detail ::
  "pgraph \<Rightarrow> auth_context \<Rightarrow> string \<Rightarrow> nat \<Rightarrow> nat \<Rightarrow> (db, category_detail) handler" where
  "get_category_detail g auth category_id page page_size =
     (case get_category category_id of
        None \<Rightarrow> raise (HTTPException 404 ''Category not found'')
      | Some c \<Rightarrow>
          bnd (select_one tenants (\<lambda>t. tn_id t = ac_tenant_id auth)) (\<lambda>tenant.
          if tenant = None then raise (HTTPException 404 ''Tenant not found'') else
          let tid = uuid_str (ac_tenant_id auth);
              skip = page * page_size;
              total = count_total g tid (cat_cypher c)
          in ret \<lparr> cd_category = c, cd_total = total, cd_breadcrumb = build_breadcrumb c,
                   cd_subcategories =
                     map (\<lambda>s. (s, count_total g tid (cat_cypher s))) (cat_subcategories c),
                   cd_nodes = take page_size (drop skip (run_query g tid (cat_cypher c))),
                   cd_has_more =
                     (case total of None \<Rightarrow> False | Some n \<Rightarrow> int (skip + page_size) < n) \<rparr>))"

definition ops_for_kind :: "string \<Rightarrow> string list" where
  "ops_for_kind kind =
     (if kind = ''bool'' then [''= true'', ''= false'']
      else if kind = ''num'' then [''='', ''>'', ''>='', ''<'', ''<='', ''IS NOT NULL'', ''IS NULL'']
      else if kind = ''size'' then [''>'', ''>='', ''<'', ''<='']
      else if kind = ''date'' then [''>'', ''>='', ''<'', ''<='', ''IS NOT NULL'', ''IS NULL'']
      else if kind = ''badge'' then [''='', ''<>'', ''IS NOT NULL'', ''IS NULL'', ''CONTAINS'']
      else [''='', ''<>'', ''CONTAINS'', ''STARTS WITH'', ''IS NOT NULL'', ''IS NULL''])"

definition filterable_attributes :: "string \<Rightarrow> py_error + (column \<times> string list) list" where
  "filterable_attributes category_id =
     (case get_category category_id of
        None \<Rightarrow> Inl (HTTPException 404 ''Category not found'')
      | Some c \<Rightarrow>
          Inr (map (\<lambda>k. (k, ops_for_kind (col_kind k)))
            (filter (\<lambda>k. col_key k \<notin> {''name'', ''path'', ''source_connector'', ''modified_at''})
              (cat_columns c))))"

section \<open>Attribute filters\<close>

definition is_word_char :: "char \<Rightarrow> bool" where
  "is_word_char c \<longleftrightarrow> is_upper c \<or> is_lower c \<or> is_digit c \<or> c = CHR 0x5F"

text \<open>
  \<open>float(s)\<close> accepts a string: white space around it, a sign, \<open>inf\<close>, \<open>infinity\<close> or \<open>nan\<close>, or
  digits (with single underscores between them) with a point and an exponent.
\<close>

fun digits_from :: "string \<Rightarrow> string option" where
  "digits_from [] = None"
| "digits_from (c # s) =
     (if \<not> is_digit c then None
      else case s of
             d # e # t \<Rightarrow> if d = CHR 0x5F \<and> is_digit e then digits_from (e # t)
                          else if is_digit d then digits_from s else Some s
           | d # t \<Rightarrow> if is_digit d then digits_from s else Some s
           | [] \<Rightarrow> Some [])"

definition drop_sign :: "string \<Rightarrow> string" where
  "drop_sign s = (case s of c # t \<Rightarrow> if c \<in> {CHR 0x2B, CHR 0x2D} then t else s | [] \<Rightarrow> [])"

definition exponent_ok :: "string \<Rightarrow> bool" where
  "exponent_ok s \<longleftrightarrow>
     (case s of [] \<Rightarrow> True
      | c # t \<Rightarrow> c \<in> {CHR 0x45, CHR 0x65} \<and> digits_from (drop_sign t) = Some [])"

definition float_text :: "string \<Rightarrow> bool" where
  "float_text s \<longleftrightarrow>
     (let t = drop_sign (str_strip s)
      in str_lower t \<in> {''inf'', ''infinity'', ''nan''} \<or>
         (case digits_from t of
            Some (c # u) \<Rightarrow>
              if c = CHR 0x2E
              then exponent_ok (case digits_from u of None \<Rightarrow> u | Some v \<Rightarrow> v)
              else exponent_ok (c # u)
          | Some [] \<Rightarrow> True
          | None \<Rightarrow> (case t of c # u \<Rightarrow> c = CHR 0x2E \<and>
                               (case digits_from u of None \<Rightarrow> False | Some v \<Rightarrow> exponent_ok v)
                     | [] \<Rightarrow> False)))"

definition is_float_value :: "json \<Rightarrow> bool" where
  "is_float_value v = (case v of JStr s \<Rightarrow> float_text s | JInt i \<Rightarrow> True | JNum q \<Rightarrow> True | JBool b \<Rightarrow> True | _ \<Rightarrow> False)"

definition quote_value :: "string \<Rightarrow> string" where
  "quote_value s = CHR 0x27 # str_replace s [CHR 0x27] [CHR 0x5C, CHR 0x27] @ [CHR 0x27]"

text \<open>The clause of one filter, none when nothing is left of the field's name.\<close>

definition filter_clause :: "(json \<Rightarrow> string) \<Rightarrow> py_dict \<Rightarrow> py_error + string list" where
  "filter_clause repr f =
     (case dict_get_or f ''field'' (JStr '''') of
        JStr raw \<Rightarrow>
          let field = filter is_word_char raw;
              op = dict_get_or f ''op'' (JStr ''='');
              val = dict_get_or f ''value'' (JStr '''');
              lhs = ''f.'' @ field @ '' '' @ py_str repr op;
              text = py_str repr val
          in Inr (if field = [] then []
                  else if op \<in> {JStr ''IS NULL'', JStr ''IS NOT NULL''} then [lhs]
                  else if op \<in> {JStr ''CONTAINS'', JStr ''STARTS WITH'', JStr ''ENDS WITH''}
                  then [lhs @ '' '' @ quote_value text]
                  else if str_lower text \<in> {''true'', ''false''} then [lhs @ '' '' @ str_lower text]
                  else if is_float_value val then [lhs @ '' '' @ text]
                  else [lhs @ '' '' @ quote_value text])
      | _ \<Rightarrow> Inl TypeError)"

fun filter_clauses :: "(json \<Rightarrow> string) \<Rightarrow> py_dict list \<Rightarrow> py_error + string list" where
  "filter_clauses repr [] = Inr []"
| "filter_clauses repr (f # fs) =
     (case filter_clause repr f of
        Inl e \<Rightarrow> Inl e
      | Inr cs \<Rightarrow> (case filter_clauses repr fs of Inl e \<Rightarrow> Inl e | Inr ds \<Rightarrow> Inr (cs @ ds)))"

text \<open>
  \<open>re.search\<close> of a whole word, case ignored: what stands before its first occurrence, the
  occurrence, and what stands after it. The character before decides the word boundary.
\<close>

fun find_word :: "char option \<Rightarrow> string \<Rightarrow> string \<Rightarrow> (string \<times> string \<times> string) option" where
  "find_word before w [] = None"
| "find_word before w (c # s) =
     (let m = take (length w) (c # s); rest = drop (length w) (c # s)
      in if str_upper m = w \<and> (case before of None \<Rightarrow> True | Some b \<Rightarrow> \<not> is_word_char b) \<and>
            (case rest of [] \<Rightarrow> True | d # t \<Rightarrow> \<not> is_word_char d)
         then Some ([], m, rest)
         else (case find_word (Some c) w s of
                 None \<Rightarrow> None | Some (p, m, r) \<Rightarrow> Some (c # p, m, r)))"

text \<open>
  How \<open>re.sub\<close> reads its replacement: the clauses are part of it, so their backslashes are escapes.
  \<open>matched\<close> is the text of its one group.
\<close>

definition bad_escape :: py_error where
  "bad_escape = OtherError ''re.error''"

definition is_octal :: "char \<Rightarrow> bool" where
  "is_octal c \<longleftrightarrow> 48 \<le> char_code c \<and> char_code c \<le> 55"

definition cons_char :: "char \<Rightarrow> py_error + string \<Rightarrow> py_error + string" where
  "cons_char c r = (case r of Inl e \<Rightarrow> Inl e | Inr s \<Rightarrow> Inr (c # s))"

definition simple_escape :: "char \<Rightarrow> char option" where
  "simple_escape c =
     map_of (zip ''abfnrtv'' [CHR 0x07, CHR 0x08, CHR 0x0C, CHR 0x0A, CHR 0x0D, CHR 0x09, CHR 0x0B]) c"

definition group_ref :: "string \<Rightarrow> nat \<Rightarrow> py_error + string \<Rightarrow> py_error + string" where
  "group_ref matched n r =
     (if n > 1 then Inl bad_escape else case r of Inl e \<Rightarrow> Inl e | Inr s \<Rightarrow> Inr (matched @ s))"

definition octal_value :: "string \<Rightarrow> nat" where
  "octal_value ds = foldl (\<lambda>a c. 8 * a + (char_code c - 48)) 0 ds"

fun expand_template :: "nat \<Rightarrow> string \<Rightarrow> string \<Rightarrow> py_error + string" where
  "expand_template 0 matched t = Inr []"
| "expand_template (Suc n) matched [] = Inr []"
| "expand_template (Suc n) matched (c # t) =
     (if c \<noteq> CHR 0x5C then cons_char c (expand_template n matched t)
      else case t of
             [] \<Rightarrow> Inl bad_escape
           | d # u \<Rightarrow>
               if d = CHR 0x67 then
                 (if prefix ''<0>'' u \<or> prefix ''<1>'' u
                  then group_ref matched 0 (expand_template n matched (drop 3 u)) else Inl bad_escape)
               else if d = CHR 0x30 then
                 (let ds = takeWhile is_octal (take 2 u)
                  in cons_char (char_of (octal_value ds)) (expand_template n matched (drop (length ds) u)))
               else if is_digit d then
                 (case u of
                    e # f # v \<Rightarrow>
                      if is_octal d \<and> is_octal e \<and> is_octal f
                      then if octal_value [d, e, f] > 255 then Inl bad_escape
                           else cons_char (char_of (octal_value [d, e, f])) (expand_template n matched v)
                      else if is_digit e then Inl bad_escape
                      else group_ref matched (char_code d - 48) (expand_template n matched u)
                  | e # v \<Rightarrow> if is_digit e then Inl bad_escape
                             else group_ref matched (char_code d - 48) (expand_template n matched u)
                  | [] \<Rightarrow> group_ref matched (char_code d - 48) (Inr []))
               else if d = CHR 0x5C then cons_char d (expand_template n matched u)
               else (case simple_escape d of
                       Some e \<Rightarrow> cons_char e (expand_template n matched u)
                     | None \<Rightarrow> if is_upper d \<or> is_lower d then Inl bad_escape
                               else cons_char c (cons_char d (expand_template n matched u))))"

definition sub_word :: "string \<Rightarrow> string \<Rightarrow> string \<Rightarrow> py_error + string" where
  "sub_word w template s =
     (case find_word None w s of
        None \<Rightarrow> Inr s
      | Some (p, m, r) \<Rightarrow>
          (case expand_template (length template) m template of
             Inl e \<Rightarrow> Inl e | Inr t \<Rightarrow> Inr (p @ t @ r)))"

definition apply_attribute_filters ::
  "(json \<Rightarrow> string) \<Rightarrow> string \<Rightarrow> py_dict list \<Rightarrow> py_error + string" where
  "apply_attribute_filters repr cypher filters =
     (case filter_clauses repr filters of
        Inl e \<Rightarrow> Inl e
      | Inr [] \<Rightarrow> Inr cypher
      | Inr (c # cs) \<Rightarrow>
          let extra = str_join '' AND '' (c # cs) in
          if find_word None ''WHERE'' cypher \<noteq> None
          then sub_word ''RETURN'' (''AND '' @ extra @ '' '' @ [CHR 0x5C, CHR 0x31]) cypher
          else sub_word ''RETURN'' (''WHERE '' @ extra @ '' '' @ [CHR 0x5C, CHR 0x31]) cypher)"

section \<open>The longest phrase wins\<close>

lemma keyword_ids_known: "list_all (\<lambda>(ps, i). i \<in> set (map cat_id ALL_CATEGORIES)) KEYWORD_MAP"
  by code_simp

text \<open>What the two loops hold so far: the best of the phrases tried.\<close>

definition best_of :: "string \<Rightarrow> (category \<times> string) list \<Rightarrow> (int \<times> category \<times> string) option \<Rightarrow> bool" where
  "best_of q tried best \<longleftrightarrow>
     (case best of
        None \<Rightarrow> \<forall>(c, p) \<in> set tried. \<not> sublist p q
      | Some (s, c, p) \<Rightarrow>
          (c, p) \<in> set tried \<and> sublist p q \<and> s = keyword_score p \<and>
          (\<forall>(c', p') \<in> set tried. sublist p' q \<longrightarrow> keyword_score p' \<le> s))"

lemma try_keyword_best:
  "best_of q tried best \<Longrightarrow> best_of q (tried @ [(c, p)]) (try_keyword q c best p)"
  by (auto simp: best_of_def try_keyword_def Let_def split: option.splits)

lemma try_keywords_best:
  "best_of q tried best \<Longrightarrow>
   best_of q (tried @ map (Pair c) ps) (foldl (try_keyword q c) best ps)"
proof (induction ps arbitrary: tried best)
  case (Cons p ps)
  from Cons.IH [OF try_keyword_best [OF Cons.prems]] show ?case by simp
qed simp

definition tried_in :: "(string list \<times> string) list \<Rightarrow> (category \<times> string) list" where
  "tried_in kws =
     concat (map (\<lambda>(ps, i). case get_category i of None \<Rightarrow> [] | Some c \<Rightarrow> map (Pair c) ps) kws)"

lemma keyword_loop_best:
  "best_of q tried best \<Longrightarrow>
   best_of q (tried @ tried_in kws)
     (foldl (\<lambda>best (ps, i). case get_category i of None \<Rightarrow> best | Some c \<Rightarrow> foldl (try_keyword q c) best ps)
        best kws)"
proof (induction kws arbitrary: tried best)
  case (Cons kw kws)
  obtain ps i where kw: "kw = (ps, i)" by (cases kw)
  show ?case
  proof (cases "get_category i")
    case None
    with Cons kw show ?thesis by (simp add: tried_in_def)
  next
    case (Some c)
    from Cons.IH [OF try_keywords_best [OF Cons.prems]] Some kw show ?thesis
      by (simp add: tried_in_def)
  qed
qed (simp add: tried_in_def)

lemma best_keyword_best: "best_of q (tried_in KEYWORD_MAP) (best_keyword q)"
  using keyword_loop_best [of q "[]" None KEYWORD_MAP] by (simp add: best_keyword_def best_of_def)

lemma tried_in_iff:
  "(c, p) \<in> set (tried_in kws) \<longleftrightarrow>
   (\<exists>ps i. (ps, i) \<in> set kws \<and> get_category i = Some c \<and> p \<in> set ps)"
proof (induction kws)
  case (Cons kw kws)
  obtain ps i where kw: "kw = (ps, i)" by (cases kw)
  have "tried_in (kw # kws) =
      (case get_category i of None \<Rightarrow> [] | Some c \<Rightarrow> map (Pair c) ps) @ tried_in kws"
    by (simp add: kw tried_in_def)
  with Cons kw show ?case by (cases "get_category i") auto
qed (simp add: tried_in_def)

lemma in_tried:
  assumes "(ps, i) \<in> set KEYWORD_MAP" and "p \<in> set ps"
  shows "\<exists>c. get_category i = Some c \<and> (c, p) \<in> set (tried_in KEYWORD_MAP)"
proof -
  obtain c where "get_category i = Some c"
    using keyword_ids_known assms(1) get_category_iff by (fastforce simp: list_all_iff)
  with assms show ?thesis by (auto simp: tried_in_iff)
qed

lemma tried_listed:
  "(c, p) \<in> set (tried_in KEYWORD_MAP) \<Longrightarrow>
   \<exists>ps. (ps, cat_id c) \<in> set KEYWORD_MAP \<and> p \<in> set ps"
  unfolding tried_in_iff get_category_iff by blast

text \<open>A query that names no category but contains a phrase of the keyword map is resolved to the
  category that lists the best phrase it contains: none of the phrases in the query, of any category,
  scores higher. The answer is never fuzzy and its confidence stays between 0.72 and 0.98.\<close>

theorem search_longest_phrase:
  assumes "find (\<lambda>c. str_lower (cat_name c) = str_lower (str_strip query)) ALL_CATEGORIES = None"
    and "(ps, i) \<in> set KEYWORD_MAP" and "p \<in> set ps" and "sublist p (str_lower (str_strip query))"
  shows "\<exists>h best. resolve_query query = Hit h \<and> sh_keyword h = Some best \<and> \<not> sh_is_fuzzy h \<and>
    sublist best (str_lower (str_strip query)) \<and> keyword_score p \<le> keyword_score best \<and>
    (\<exists>qs. (qs, cat_id (sh_category h)) \<in> set KEYWORD_MAP \<and> best \<in> set qs) \<and>
    sh_confidence h = round_to 3 (min (98 / 100) (72 / 100 + of_nat (length best) / 60))"
proof -
  let ?q = "str_lower (str_strip query)"
  obtain c where c: "(c, p) \<in> set (tried_in KEYWORD_MAP)" using in_tried [OF assms(2,3)] by blast
  obtain s d b where best: "best_keyword ?q = Some (s, d, b)"
    using best_keyword_best [of ?q] c assms(4)
    by (cases "best_keyword ?q") (auto simp: best_of_def)
  then have b: "(d, b) \<in> set (tried_in KEYWORD_MAP)" "sublist b ?q" "s = keyword_score b" "keyword_score p \<le> s"
    using best_keyword_best [of ?q] c assms(4) by (auto simp: best_of_def)
  with tried_listed [OF b(1)] assms(1) best show ?thesis
    by (simp add: resolve_query_def hit_def Let_def)
qed

theorem search_longest_phrase_witness:
  "\<exists>h best. resolve_query '' my PDFs '' = Hit h \<and> sh_keyword h = Some best \<and>
     keyword_score ''pdfs'' \<le> keyword_score best"
proof -
  have q: "str_lower (str_strip '' my PDFs '') = ''my pdfs''" by code_simp
  have "list_all (\<lambda>c. length (cat_name c) \<noteq> 7) ALL_CATEGORIES" by code_simp
  then have "str_lower (cat_name c) \<noteq> ''my pdfs''" if "c \<in> set ALL_CATEGORIES" for c
    using that length_str_lower [of "cat_name c"] by (auto simp: list_all_iff simp del: length_str_lower)
  then have
    "find (\<lambda>c. str_lower (cat_name c) = str_lower (str_strip '' my PDFs '')) ALL_CATEGORIES = None"
    by (simp add: find_None_iff q)
  moreover have "([''pdf files'', ''pdf documents'', ''pdfs'', ''.pdf''], ''docs-pdf'') \<in> set KEYWORD_MAP"
    by (simp add: KEYWORD_MAP_def media_keywords_def)
  moreover have "''pdfs'' \<in> set [''pdf files'', ''pdf documents'', ''pdfs'', ''.pdf'']" by simp
  moreover have "sublist ''pdfs'' (str_lower (str_strip '' my PDFs ''))" unfolding q by code_simp
  ultimately have "\<exists>h best. resolve_query '' my PDFs '' = Hit h \<and> sh_keyword h = Some best \<and> \<not> sh_is_fuzzy h \<and>
    sublist best (str_lower (str_strip '' my PDFs '')) \<and> keyword_score ''pdfs'' \<le> keyword_score best \<and>
    (\<exists>qs. (qs, cat_id (sh_category h)) \<in> set KEYWORD_MAP \<and> best \<in> set qs) \<and>
    sh_confidence h = round_to 3 (min (98 / 100) (72 / 100 + of_nat (length best) / 60))"
    by (rule search_longest_phrase)
  then show ?thesis by blast
qed

section \<open>What filters do to a query\<close>

lemma top_level_listed: "c \<in> set INVENTORY \<Longrightarrow> c \<in> set ALL_CATEGORIES"
  by (auto simp: ALL_CATEGORIES_def flatten_def intro!: bexI [of _ c])

lemma expand_plain:
  "CHR 0x5C \<notin> set t \<Longrightarrow>
   expand_template (length t + k) m (t @ u) =
     (case expand_template k m u of Inl e \<Rightarrow> Inl e | Inr s \<Rightarrow> Inr (t @ s))"
  by (induction t) (auto simp: cons_char_def split: sum.splits)

lemma expand_clause:
  "CHR 0x5C \<notin> set t \<Longrightarrow>
   expand_template (length (t @ [CHR 0x5C, CHR 0x31])) m (t @ [CHR 0x5C, CHR 0x31]) = Inr (t @ m)"
proof -
  assume t: "CHR 0x5C \<notin> set t"
  have "expand_template 2 m [CHR 0x5C, CHR 0x31] = Inr m"
    by (simp add: eval_nat_numeral group_ref_def is_digit_def char_code_def)
  with expand_plain [OF t, of 2 m "[CHR 0x5C, CHR 0x31]"] show ?thesis by simp
qed

text \<open>No query of the table has the word RETURN before its last clause; it is enough that
  nothing there starts like it.\<close>

fun clear_of_ret :: "string \<Rightarrow> bool" where
  "clear_of_ret (a # b # c # s) =
     (\<not> (a \<in> {CHR ''r'', CHR ''R''} \<and> b \<in> {CHR ''e'', CHR ''E''} \<and> c \<in> {CHR ''t'', CHR ''T''}) \<and>
      clear_of_ret (b # c # s))"
| "clear_of_ret s = True"

lemma table_clear:
  "list_all (\<lambda>c. let q = cat_cypher c in
     clear_of_ret (match_text q @ '' WHERE '' @ where_text q @ '' RE'')) ALL_CATEGORIES"
  by code_simp

lemma upper_char_cases:
  assumes "upper_char c = u"
  shows "c = u \<or> c = char_of (char_code u + 32)"
proof (cases "is_lower c")
  case True
  then have "char_code u + 32 = char_code c"
    using assms by (auto simp: upper_char_def is_lower_def char_code_def)
  then have "char_of (char_code u + 32) = c" by (simp add: char_code_def)
  then show ?thesis by simp
next
  case False
  with assms show ?thesis by (simp add: upper_char_def)
qed

lemma starts_return:
  assumes "str_upper (take 6 (a # b # c # s)) = ''RETURN''"
  shows "\<not> clear_of_ret (a # b # c # t)"
proof -
  have "upper_char a = CHR ''R''" "upper_char b = CHR ''E''" "upper_char c = CHR ''T''"
    using assms by (simp_all add: str_upper_def)
  moreover have "char_of (116 :: nat) = CHR ''t''" "char_of (101 :: nat) = CHR ''e''"
    "char_of (114 :: nat) = CHR ''r''" by code_simp+
  ultimately show ?thesis
    using upper_char_cases [of a "CHR ''R''"] upper_char_cases [of b "CHR ''E''"]
      upper_char_cases [of c "CHR ''T''"] by (auto simp: char_code_def)
qed

lemma find_word_skip:
  assumes "str_upper (take (length w) (c # s)) \<noteq> w"
  shows "find_word before w (c # s) =
    (case find_word (Some c) w s of None \<Rightarrow> None | Some (p, m, r) \<Rightarrow> Some (c # p, m, r))"
  using assms by (simp add: Let_def)

lemma find_return:
  assumes "clear_of_ret (p @ ''RE'')"
    and "\<not> is_word_char (last (b # p))" and "r = [] \<or> \<not> is_word_char (hd r)"
  shows "find_word (Some b) ''RETURN'' (p @ ''RETURN'' @ r) = Some (p, ''RETURN'', r)"
  using assms
proof (induction p arbitrary: b)
  case Nil
  have "str_upper ''RETURN'' = ''RETURN''" by code_simp
  with Nil show ?case by (cases r) simp_all
next
  case (Cons c p)
  obtain d e s where s: "p @ ''RE'' = d # e # s"
    by (cases p; cases "tl p") auto
  then have long: "p @ ''RETURN'' @ r = d # e # s @ ''TURN'' @ r"
    by (metis append_Cons append_Nil append_assoc)
  have "str_upper (take 6 (c # d # e # s @ ''TURN'' @ r)) \<noteq> ''RETURN''"
    using starts_return Cons.prems(1) s by (metis append_Cons)
  moreover have len: "length ''RETURN'' = 6" by simp
  ultimately have "str_upper (take (length ''RETURN'') (c # p @ ''RETURN'' @ r)) \<noteq> ''RETURN''"
    unfolding long by (simp only: len not_False_eq_True)
  then have "find_word (Some b) ''RETURN'' (c # p @ ''RETURN'' @ r) =
      (case find_word (Some c) ''RETURN'' (p @ ''RETURN'' @ r) of
         None \<Rightarrow> None | Some (p, m, r) \<Rightarrow> Some (c # p, m, r))"
    by (rule find_word_skip)
  moreover have "find_word (Some c) ''RETURN'' (p @ ''RETURN'' @ r) = Some (p, ''RETURN'', r)"
  proof (rule Cons.IH)
    show "clear_of_ret (p @ ''RE'')" using Cons.prems(1) s by simp
    show "\<not> is_word_char (last (c # p))" using Cons.prems(2) by simp
    show "r = [] \<or> \<not> is_word_char (hd r)" by (rule Cons.prems(3))
  qed
  ultimately show ?case by (simp only: option.case prod.case append_Cons)
qed

lemma find_word_None:
  assumes "str_upper m = w" and "m \<noteq> []" and "r = [] \<or> \<not> is_word_char (hd r)"
    and "p \<noteq> []" and "\<not> is_word_char (last p)"
  shows "find_word before w (p @ m @ r) \<noteq> None"
  using assms(4,5)
proof (induction p arbitrary: before)
  case (Cons c p)
  have len: "length w = length m" using assms(1) by (auto simp: str_upper_def)
  show ?case
  proof (cases "p = []")
    case True
    obtain d t where m: "m = d # t" using assms(2) by (cases m) auto
    have "find_word (Some c) w (m @ r) \<noteq> None"
      using assms(1,3) len Cons.prems True m by (cases r) (auto simp: Let_def)
    then show ?thesis using True by (auto simp: Let_def split: option.splits)
  next
    case False
    with Cons have "find_word (Some c) w (p @ m @ r) \<noteq> None" by simp
    then show ?thesis by (auto simp: Let_def split: option.splits)
  qed
qed simp


lemma query_words:
  assumes "c \<in> set ALL_CATEGORIES" and "q = cat_cypher c"
  shows "find_word None ''WHERE'' (cypher_text q) \<noteq> None"
    and "find_word None ''RETURN'' (cypher_text q) =
       Some (match_text q @ '' WHERE '' @ where_text q @ '' '', ''RETURN'', drop 6 (return_text q))"
proof -
  have w: "str_upper ''WHERE'' = ''WHERE''" by code_simp
  have m: "match_text q = CHR ''M'' # tl (match_text q)" by (simp add: match_text_def)
  have space: "\<not> is_word_char (CHR '' '')" by code_simp
  have "cypher_text q = (match_text q @ '' '') @ ''WHERE'' @ '' '' @ where_text q @ '' '' @ return_text q"
    by (simp add: cypher_text_def)
  then show "find_word None ''WHERE'' (cypher_text q) \<noteq> None"
    using find_word_None [OF w, of "'' '' @ where_text q @ '' '' @ return_text q" "match_text q @ '' ''" None]
      space by simp
  let ?p = "tl (match_text q) @ '' WHERE '' @ where_text q @ '' ''" and ?r = "drop 6 (return_text q)"
  have r: "return_text q = ''RETURN'' @ ?r" "\<not> is_word_char (hd ?r)"
    using space by (simp_all add: return_text_def)
  have typed: "cypher_text q = CHR ''M'' # ?p @ ''RETURN'' @ ?r"
    using m r(1) unfolding cypher_text_def by (metis append_Cons append_assoc)
  have "clear_of_ret (CHR ''M'' # ?p @ ''RE'')"
    using table_clear assms m unfolding list_all_iff Let_def by (metis append_Cons append_assoc append_Nil)
  moreover have "clear_of_ret (x # s) \<Longrightarrow> clear_of_ret s" for x s
    by (cases s rule: clear_of_ret.cases) auto
  ultimately have "clear_of_ret (?p @ ''RE'')" by blast
  moreover have "\<not> is_word_char (last (CHR ''M'' # ?p))" using space by simp
  ultimately have "find_word (Some (CHR ''M'')) ''RETURN'' (?p @ ''RETURN'' @ ?r) = Some (?p, ''RETURN'', ?r)"
    using r(2) by (intro find_return) simp_all
  moreover have "str_upper (take (length ''RETURN'') (CHR ''M'' # ?p @ ''RETURN'' @ ?r)) \<noteq> ''RETURN''"
    by (simp add: str_upper_def upper_char_def is_lower_def char_code_def)
  note find_word_skip [OF this, of None]
  ultimately have "find_word None ''RETURN'' (cypher_text q) = Some (CHR ''M'' # ?p, ''RETURN'', ?r)"
    unfolding typed by (simp only: option.case prod.case)
  then show "find_word None ''RETURN'' (cypher_text q) =
       Some (match_text q @ '' WHERE '' @ where_text q @ '' '', ''RETURN'', drop 6 (return_text q))"
    using m by (metis append_Cons)
qed

text \<open>Attribute filters change a category's query in one place: the clauses, joined by AND, are
  appended to its condition, before RETURN, as long as no clause contains a backslash.\<close>

theorem filters_extend_condition:
  assumes "c \<in> set ALL_CATEGORIES" and "filter_clauses repr fs = Inr (cl # cls)"
    and "CHR 0x5C \<notin> set (str_join '' AND '' (cl # cls))"
  shows "apply_attribute_filters repr (cypher_text (cat_cypher c)) fs =
    Inr (match_text (cat_cypher c) @ '' WHERE '' @ where_text (cat_cypher c) @ '' AND '' @
         str_join '' AND '' (cl # cls) @ '' '' @ return_text (cat_cypher c))"
proof -
  let ?q = "cat_cypher c" and ?t = "''AND '' @ str_join '' AND '' (cl # cls) @ '' ''"
  have "find_word None ''WHERE'' (cypher_text ?q) \<noteq> None"
    and r: "find_word None ''RETURN'' (cypher_text ?q) =
       Some (match_text ?q @ '' WHERE '' @ where_text ?q @ '' '', ''RETURN'', drop 6 (return_text ?q))"
    using query_words [OF assms(1) refl] by blast+
  moreover have "CHR 0x5C \<notin> set ?t" using assms(3) by simp
  note expand_clause [OF this, of "''RETURN''"]
  moreover have "return_text ?q = ''RETURN'' @ drop 6 (return_text ?q)" by (simp add: return_text_def)
  ultimately show ?thesis
    using assms(2) by (simp add: apply_attribute_filters_def sub_word_def Let_def)
qed

definition example_filters :: "py_dict list" where
  "example_filters = [[(''field'', JStr ''height''), (''op'', JStr ''>=''), (''value'', JInt 2160)]]"

theorem filters_extend_condition_witness:
  "apply_attribute_filters (\<lambda>v. '''') (cypher_text (cat_cypher video_category)) example_filters =
   Inr (match_text (cat_cypher video_category) @ '' WHERE '' @ where_text (cat_cypher video_category) @
        '' AND f.height >= 2160 '' @ return_text (cat_cypher video_category))"
proof -
  have "video_category \<in> set INVENTORY" by (simp add: INVENTORY_def)
  then have "video_category \<in> set ALL_CATEGORIES" by (rule top_level_listed)
  moreover have "filter_clauses (\<lambda>v. '''') example_filters = Inr [''f.height >= 2160'']" by code_simp
  ultimately have "apply_attribute_filters (\<lambda>v. '''') (cypher_text (cat_cypher video_category)) example_filters =
    Inr (match_text (cat_cypher video_category) @ '' WHERE '' @ where_text (cat_cypher video_category) @ '' AND '' @
         str_join '' AND '' [''f.height >= 2160''] @ '' '' @ return_text (cat_cypher video_category))"
    by (rule filters_extend_condition) (simp add: str_join_def)
  then show ?thesis by (simp add: str_join_def)
qed

text \<open>The operator of a filter is copied into the query as it is: one that holds an OR makes the
  condition of the tenant one alternative among others.\<close>

lemma operator_injection:
  "apply_attribute_filters (\<lambda>v. '''') (cypher_text (cat_cypher video_category))
     [[(''field'', JStr ''x''), (''op'', JStr ''= 1 OR f.tenant_id <>''), (''value'', JStr '''')]] =
   Inr (match_text (cat_cypher video_category) @ '' WHERE '' @ where_text (cat_cypher video_category) @
        '' AND f.x = 1 OR f.tenant_id <> '' @ quoted '''' @ '' '' @ return_text (cat_cypher video_category))"
  by code_simp

section \<open>Counts and breadcrumbs\<close>

text \<open>The counts of people, faces, applications, directories and duplicates are 0 whatever the graph
  holds.\<close>

lemma counts_lost:
  assumes "cat_id c \<in> {''people'', ''people-identified'', ''people-unknown'', ''applications'',
    ''directories'', ''duplicates''}" and "c \<in> set ALL_CATEGORIES"
  shows "count_total g tid (cat_cypher c) \<in> {None, Some 0}"
proof -
  have "list_all (\<lambda>c. cat_id c \<in> {''people'', ''people-identified'', ''people-unknown'', ''applications'',
    ''directories'', ''duplicates''} \<longrightarrow> cq_alias (cat_cypher c) \<noteq> ''f'' \<or> cq_distinct (cat_cypher c))
      ALL_CATEGORIES"
    by code_simp
  with assms show ?thesis by (auto simp: list_all_iff count_total_def)
qed

text \<open>The tree has two levels, so the loop of the breadcrumb runs at most twice.\<close>

lemma two_levels:
  "list_all (\<lambda>r. list_all (\<lambda>s. cat_subcategories s = []) (cat_subcategories r)) ALL_CATEGORIES"
  by code_simp

lemma ids_not_empty: "list_all (\<lambda>c. cat_id c \<noteq> []) ALL_CATEGORIES"
  by code_simp

lemma breadcrumb_path:
  assumes "c \<in> set ALL_CATEGORIES"
  shows "build_breadcrumb c =
    Some ((None, ''Data Inventory'') #
      (case cat_parent_id c of
         None \<Rightarrow> [(Some (cat_id c), cat_name c)]
       | Some p \<Rightarrow> (case get_category p of None \<Rightarrow> [] | Some q \<Rightarrow> [(Some (cat_id q), cat_name q)]) @
                   [(Some (cat_id c), cat_name c)]))"
proof (cases "cat_parent_id c")
  case None
  then show ?thesis
    by (simp add: build_breadcrumb_def breadcrumb_loop.simps [of c] opt_str_or_def Let_def)
next
  case (Some p)
  then obtain q where q: "get_category p = Some q" "c \<in> set (cat_subcategories q)"
    using parent_lists [OF assms] by auto
  have "cat_parent_id q = None"
  proof (rule ccontr)
    assume "cat_parent_id q \<noteq> None"
    with parent_lists [of q] q(1) obtain r where "r \<in> set ALL_CATEGORIES" "q \<in> set (cat_subcategories r)"
      unfolding get_category_iff by auto
    then show False using two_levels q(2) by (auto simp: list_all_iff)
  qed
  moreover have "p \<noteq> []" using ids_not_empty q(1) by (auto simp: get_category_iff list_all_iff)
  ultimately show ?thesis
    using Some q(1)
    by (simp add: build_breadcrumb_def breadcrumb_loop.simps [of c] breadcrumb_loop.simps [of q]
        opt_str_or_def Let_def)
qed

end
