(* ===== verification/Circuit_Breaker.thy ===== *)
theory Circuit_Breaker
  imports Prelude
begin

text \<open>
  \<open>graph/circuit_breaker.py\<close>: one breaker per tenant around the queries of the graph database.

  A call takes the lock twice, before and after the query, and the query runs between them without
  it, so calls of one tenant interleave: a call is two events, its entry and its outcome. The clock
  is \<open>time.time()\<close>, in microseconds here; the query is a parameter of the run, as its outcome. The
  thresholds come from the environment when the module loads.
\<close>

section \<open>State\<close>

datatype breaker_state = Closed | Open | Half_Open

text \<open>The states are ordered by how much they let through; \<open>state\<close> prints them as the enum does.\<close>

fun severity :: "breaker_state \<Rightarrow> nat" where
  "severity Closed = 0" | "severity Half_Open = 1" | "severity Open = 2"

instantiation breaker_state :: linorder
begin

definition less_eq_breaker_state :: "breaker_state \<Rightarrow> breaker_state \<Rightarrow> bool" where
  "less_eq_breaker_state a b \<longleftrightarrow> severity a \<le> severity b"

definition less_breaker_state :: "breaker_state \<Rightarrow> breaker_state \<Rightarrow> bool" where
  "less_breaker_state a b \<longleftrightarrow> severity a < severity b"

instance
proof
  fix x y z :: breaker_state
  show "(x < y) = (x \<le> y \<and> \<not> y \<le> x)" "x \<le> x" "x \<le> y \<or> y \<le> x"
    by (auto simp: less_eq_breaker_state_def less_breaker_state_def)
  show "x \<le> y \<Longrightarrow> y \<le> z \<Longrightarrow> x \<le> z" by (simp add: less_eq_breaker_state_def)
  show "x \<le> y \<Longrightarrow> y \<le> x \<Longrightarrow> x = y"
    by (cases x; cases y) (simp_all add: less_eq_breaker_state_def)
qed

end

record cb_config =
  FAILURE_THRESHOLD :: int
  WINDOW_SECS :: int
  RESET_TIMEOUT_SECS :: int
  QUERY_TIMEOUT_SECS :: int

definition default_config :: cb_config where
  "default_config = \<lparr> FAILURE_THRESHOLD = 5, WINDOW_SECS = 60, RESET_TIMEOUT_SECS = 30,
     QUERY_TIMEOUT_SECS = 30 \<rparr>"

record breaker =
  cb_state :: breaker_state
  cb_failures :: "time list"
  cb_opened_at :: "time option"

definition new_breaker :: breaker where
  "new_breaker = \<lparr> cb_state = Closed, cb_failures = [], cb_opened_at = None \<rparr>"

section \<open>Operations\<close>

text \<open>\<open>and self._opened_at\<close>: the time 0 counts as none.\<close>

definition maybe_transition :: "cb_config \<Rightarrow> time \<Rightarrow> breaker \<Rightarrow> breaker" where
  "maybe_transition cfg now b =
     (case cb_opened_at b of
        Some t \<Rightarrow>
          if cb_state b = Open \<and> t \<noteq> 0 \<and> now - t \<ge> seconds (RESET_TIMEOUT_SECS cfg)
          then b\<lparr>cb_state := Half_Open\<rparr> else b
      | None \<Rightarrow> b)"

definition on_success :: "breaker \<Rightarrow> breaker" where
  "on_success b = (if cb_state b = Half_Open then b\<lparr>cb_state := Closed, cb_failures := []\<rparr> else b)"

definition on_failure :: "cb_config \<Rightarrow> time \<Rightarrow> breaker \<Rightarrow> breaker" where
  "on_failure cfg now b =
     (let b' = b\<lparr>cb_failures := filter (\<lambda>t. now - t < seconds (WINDOW_SECS cfg)) (cb_failures b) @ [now]\<rparr>
      in if cb_state b' = Half_Open then b'\<lparr>cb_state := Open, cb_opened_at := Some now\<rparr>
         else if int (length (cb_failures b')) \<ge> FAILURE_THRESHOLD cfg
         then b'\<lparr>cb_state := Open, cb_opened_at := Some now\<rparr>
         else b')"

datatype query_outcome = Answered | Timed_Out | Rejected_Inside | Raised

text \<open>The first half of \<open>call\<close>: whether the query may run.\<close>

definition enter :: "cb_config \<Rightarrow> time \<Rightarrow> breaker \<Rightarrow> bool \<times> breaker" where
  "enter cfg now b = (let b' = maybe_transition cfg now b in (cb_state b' \<noteq> Open, b'))"

text \<open>The second half: a breaker that is open inside the query is passed through uncounted.\<close>

definition leave :: "cb_config \<Rightarrow> time \<Rightarrow> query_outcome \<Rightarrow> breaker \<Rightarrow> breaker" where
  "leave cfg now r b =
     (case r of Answered \<Rightarrow> on_success b | Timed_Out \<Rightarrow> on_failure cfg now b
      | Rejected_Inside \<Rightarrow> b | Raised \<Rightarrow> on_failure cfg now b)"

datatype call_result = Refused | Ran query_outcome

text \<open>A call that nothing interleaves with: entered at \<open>now\<close>, its query done at \<open>later\<close>.\<close>

definition call :: "cb_config \<Rightarrow> time \<Rightarrow> time \<Rightarrow> query_outcome \<Rightarrow> breaker \<Rightarrow> call_result \<times> breaker" where
  "call cfg now later r b =
     (let (allowed, b') = enter cfg now b
      in if \<not> allowed then (Refused, b') else (Ran r, leave cfg later r b'))"

record cb_stats =
  st_state :: breaker_state
  st_recent_failures :: int
  st_failure_threshold :: int
  st_opened_at :: "time option"
  st_seconds_until_retry :: "int option"

definition stats :: "cb_config \<Rightarrow> time \<Rightarrow> breaker \<Rightarrow> cb_stats" where
  "stats cfg now b =
     \<lparr> st_state = cb_state b, st_recent_failures = int (length (cb_failures b)),
       st_failure_threshold = FAILURE_THRESHOLD cfg, st_opened_at = cb_opened_at b,
       st_seconds_until_retry =
         (case cb_opened_at b of
            Some t \<Rightarrow> if t \<noteq> 0 \<and> cb_state b = Open
                      then Some (max 0 (seconds (RESET_TIMEOUT_SECS cfg) - (now - t))) else None
          | None \<Rightarrow> None) \<rparr>"

text \<open>The registry, one breaker per tenant.\<close>

type_synonym registry = "(string \<times> breaker) list"

definition get_breaker :: "string \<Rightarrow> registry \<Rightarrow> breaker \<times> registry" where
  "get_breaker tid bs =
     (case map_of bs tid of
        Some b \<Rightarrow> (b, bs) | None \<Rightarrow> (new_breaker, bs @ [(tid, new_breaker)]))"

definition all_breaker_stats :: "cb_config \<Rightarrow> time \<Rightarrow> registry \<Rightarrow> (string \<times> cb_stats) list" where
  "all_breaker_stats cfg now bs = map (\<lambda>(tid, b). (tid, stats cfg now b)) bs"

section \<open>Interleaved calls\<close>

datatype cb_event = Enter time | Leave time query_outcome

fun event_time :: "cb_event \<Rightarrow> time" where
  "event_time (Enter t) = t" | "event_time (Leave t r) = t"

fun cb_apply :: "cb_config \<Rightarrow> breaker \<Rightarrow> cb_event \<Rightarrow> breaker" where
  "cb_apply cfg b (Enter t) = snd (enter cfg t b)"
| "cb_apply cfg b (Leave t r) = leave cfg t r b"

inductive cb_step :: "cb_config \<Rightarrow> breaker \<Rightarrow> cb_event \<Rightarrow> breaker \<Rightarrow> bool" for cfg where
  refuse: "cb_state b = Open \<Longrightarrow> maybe_transition cfg t b = b \<Longrightarrow> cb_step cfg b (Enter t) b"
| probe: "cb_state b = Open \<Longrightarrow> cb_state (maybe_transition cfg t b) = Half_Open \<Longrightarrow>
    cb_step cfg b (Enter t) (b\<lparr>cb_state := Half_Open\<rparr>)"
| admit: "cb_state b \<noteq> Open \<Longrightarrow> cb_step cfg b (Enter t) b"
| inside: "cb_step cfg b (Leave t Rejected_Inside) b"
| recover: "cb_state b = Half_Open \<Longrightarrow>
    cb_step cfg b (Leave t Answered) (b\<lparr>cb_state := Closed, cb_failures := []\<rparr>)"
| answer: "cb_state b \<noteq> Half_Open \<Longrightarrow> cb_step cfg b (Leave t Answered) b"
| fail: "r \<in> {Timed_Out, Raised} \<Longrightarrow> cb_step cfg b (Leave t r) (on_failure cfg t b)"

inductive_simps cb_step_enter: "cb_step cfg b (Enter t) b'"
inductive_simps cb_step_leave: "cb_step cfg b (Leave t r) b'"

fun_cases cb_apply_leaveE: "cb_apply cfg b (Leave t r) = b'"

lemma maybe_transition_cases:
  "maybe_transition cfg t b = b \<or> cb_state b = Open \<and> maybe_transition cfg t b = b\<lparr>cb_state := Half_Open\<rparr>"
  by (auto simp: maybe_transition_def split: option.splits)

text \<open>The relation and the function describe the same steps.\<close>

lemma cb_step_iff: "cb_step cfg b e b' \<longleftrightarrow> b' = cb_apply cfg b e"
proof (cases e)
  case (Enter t)
  show ?thesis
    using maybe_transition_cases [of cfg t b]
    by (auto simp: Enter cb_step_enter enter_def Let_def maybe_transition_def split: option.splits if_splits)
next
  case (Leave t r)
  show ?thesis
    by (cases r) (auto simp: Leave cb_step_leave leave_def on_success_def)
qed

section \<open>Reachable breakers\<close>

text \<open>Any interleaving of entries and outcomes after the epoch, from a new breaker.\<close>

inductive cb_reachable :: "cb_config \<Rightarrow> breaker \<Rightarrow> bool" for cfg where
  fresh: "cb_reachable cfg new_breaker"
| event: "cb_reachable cfg b \<Longrightarrow> 0 < event_time e \<Longrightarrow> cb_step cfg b e b' \<Longrightarrow> cb_reachable cfg b'"

definition cb_inv :: "cb_config \<Rightarrow> breaker \<Rightarrow> bool" where
  "cb_inv cfg b \<longleftrightarrow>
     (cb_state b = Closed \<longrightarrow> int (length (cb_failures b)) < FAILURE_THRESHOLD cfg) \<and>
     (cb_state b \<noteq> Closed \<longrightarrow> (\<exists>t > 0. cb_opened_at b = Some t)) \<and>
     (\<forall>t \<in> set (cb_failures b). 0 < t)"

lemma on_failure_inv:
  "cb_inv cfg b \<Longrightarrow> 0 < t \<Longrightarrow> 0 < FAILURE_THRESHOLD cfg \<Longrightarrow> cb_inv cfg (on_failure cfg t b)"
  by (cases "cb_state b") (auto simp: cb_inv_def on_failure_def Let_def)

lemma cb_step_inv:
  assumes "cb_step cfg b e b'" and "cb_inv cfg b" and "0 < event_time e" and "0 < FAILURE_THRESHOLD cfg"
  shows "cb_inv cfg b'"
  using assms(1)
proof cases
  case (fail r t)
  with on_failure_inv [OF assms(2) _ assms(4)] assms(3) show ?thesis by simp
qed (use assms(2,4) in \<open>auto simp: cb_inv_def\<close>)

lemma cb_reachable_inv:
  assumes "cb_reachable cfg b" and "0 < FAILURE_THRESHOLD cfg"
  shows "cb_inv cfg b"
  using assms(1)
proof (induction rule: cb_reachable.induct)
  case fresh
  show ?case using assms(2) by (simp add: cb_inv_def new_breaker_def)
next
  case (event b e b')
  from cb_step_inv [OF event.hyps(3) event.IH event.hyps(2) assms(2)] show ?case .
qed

text \<open>What a failure does, given as the three cases of the log messages.\<close>

lemma on_failure_opens:
  "cb_state (on_failure cfg t b) = Open \<longleftrightarrow>
     cb_state b \<noteq> Closed \<or>
     int (length (filter (\<lambda>u. t - u < seconds (WINDOW_SECS cfg)) (cb_failures b))) + 1 \<ge> FAILURE_THRESHOLD cfg"
  by (cases "cb_state b") (auto simp: on_failure_def Let_def)

text \<open>C14: Whatever calls interleave, a breaker that is closed holds fewer failures than the threshold,
  and the event that opens it is a failure: a failed probe, or one that makes the threshold within the
  window. No success and no entry opens it, and only an answer to a probe closes it.\<close>

theorem breaker_transitions:
  assumes "cb_reachable cfg b" and "cb_step cfg b e b'" and "0 < event_time e" and "0 < FAILURE_THRESHOLD cfg"
  shows "(cb_state b' = Closed \<longrightarrow> int (length (cb_failures b')) < FAILURE_THRESHOLD cfg) \<and>
    (cb_state b \<noteq> Open \<and> cb_state b' = Open \<longrightarrow>
       (\<exists>t r. e = Leave t r \<and> r \<in> {Timed_Out, Raised} \<and> cb_opened_at b' = Some t \<and>
          (cb_state b = Half_Open \<or>
           int (length (filter (\<lambda>u. t - u < seconds (WINDOW_SECS cfg)) (cb_failures b))) + 1
             \<ge> FAILURE_THRESHOLD cfg))) \<and>
    (cb_state b \<noteq> Closed \<and> cb_state b' = Closed \<longrightarrow>
       (\<exists>t. e = Leave t Answered \<and> cb_state b = Half_Open \<and> cb_failures b' = []))"
proof -
  have "cb_inv cfg b'"
    using cb_step_inv [OF assms(2) cb_reachable_inv [OF assms(1,4)] assms(3,4)] .
  moreover have "(cb_state b \<noteq> Open \<and> cb_state b' = Open \<longrightarrow>
       (\<exists>t r. e = Leave t r \<and> r \<in> {Timed_Out, Raised} \<and> cb_opened_at b' = Some t \<and>
          (cb_state b = Half_Open \<or>
           int (length (filter (\<lambda>u. t - u < seconds (WINDOW_SECS cfg)) (cb_failures b))) + 1
             \<ge> FAILURE_THRESHOLD cfg))) \<and>
    (cb_state b \<noteq> Closed \<and> cb_state b' = Closed \<longrightarrow>
       (\<exists>t. e = Leave t Answered \<and> cb_state b = Half_Open \<and> cb_failures b' = []))"
    using assms(2)
    by cases (auto simp: on_failure_def Let_def split: if_splits)
  ultimately show ?thesis by (simp add: cb_inv_def)
qed

text \<open>An open breaker refuses every call until the reset timeout has passed since it opened, and
  admits the first call after that; if that call is answered the breaker is closed again with no
  failures on record, and if it fails the breaker is open for another timeout.\<close>

theorem open_breaker_recovers:
  assumes "cb_reachable cfg b" and "cb_state b = Open" and "0 < FAILURE_THRESHOLD cfg"
  shows "\<exists>t. cb_opened_at b = Some t \<and>
    (\<forall>now < t + seconds (RESET_TIMEOUT_SECS cfg). \<forall>later r. call cfg now later r b = (Refused, b)) \<and>
    (\<forall>now \<ge> t + seconds (RESET_TIMEOUT_SECS cfg). \<forall>later.
       call cfg now later Answered b = (Ran Answered, b\<lparr>cb_state := Closed, cb_failures := []\<rparr>) \<and>
       (\<forall>r \<in> {Timed_Out, Raised}. \<exists>b'. call cfg now later r b = (Ran r, b') \<and>
          cb_state b' = Open \<and> cb_opened_at b' = Some later))"
proof -
  obtain t where t: "0 < t" "cb_opened_at b = Some t"
    using cb_reachable_inv [OF assms(1,3)] assms(2) by (auto simp: cb_inv_def)
  have refuse: "call cfg now later r b = (Refused, b)"
    if "now < t + seconds (RESET_TIMEOUT_SECS cfg)" for now later r
    using that t assms(2) by (simp add: call_def enter_def maybe_transition_def)
  have "maybe_transition cfg now b = b\<lparr>cb_state := Half_Open\<rparr>"
    if "now \<ge> t + seconds (RESET_TIMEOUT_SECS cfg)" for now
    using that t assms(2) by (simp add: maybe_transition_def)
  then have "call cfg now later Answered b = (Ran Answered, b\<lparr>cb_state := Closed, cb_failures := []\<rparr>) \<and>
       (\<forall>r \<in> {Timed_Out, Raised}. \<exists>b'. call cfg now later r b = (Ran r, b') \<and>
          cb_state b' = Open \<and> cb_opened_at b' = Some later)"
    if "now \<ge> t + seconds (RESET_TIMEOUT_SECS cfg)" for now later
    using that by (simp add: call_def enter_def leave_def on_success_def on_failure_def Let_def)
  with refuse t(2) show ?thesis by blast
qed

text \<open>In the half-open state every call is admitted, not one.\<close>

lemma half_open_admits_all:
  "cb_state b = Half_Open \<Longrightarrow> enter cfg now b = (True, b)"
  by (simp add: enter_def maybe_transition_def split: option.splits)

section \<open>An example\<close>

fun run_events :: "cb_config \<Rightarrow> breaker \<Rightarrow> cb_event list \<Rightarrow> breaker" where
  "run_events cfg b [] = b"
| "run_events cfg b (e # es) = run_events cfg (cb_apply cfg b e) es"

lemma run_events_reachable:
  "cb_reachable cfg b \<Longrightarrow> list_all (\<lambda>e. 0 < event_time e) es \<Longrightarrow> cb_reachable cfg (run_events cfg b es)"
proof (induction es arbitrary: b)
  case (Cons e es)
  have b: "cb_reachable cfg b" and e: "0 < event_time e" using Cons.prems by simp_all
  have "cb_reachable cfg (cb_apply cfg b e)"
    by (rule cb_reachable.event [OF b e]) (simp add: cb_step_iff)
  then show ?case using Cons.IH Cons.prems(2) by simp
qed simp

definition five_failures :: "cb_event list" where
  "five_failures = concat (replicate 5 [Enter (seconds 10), Leave (seconds 11) Raised])"

definition tripped :: breaker where
  "tripped = run_events default_config new_breaker five_failures"

lemma tripped_reachable: "cb_reachable default_config tripped"
  unfolding tripped_def by (rule run_events_reachable [OF cb_reachable.fresh]) code_simp

lemma tripped_open: "cb_state tripped = Open" "cb_opened_at tripped = Some (seconds 11)"
  by code_simp+

theorem open_breaker_recovers_witness:
  "call default_config (seconds 20) (seconds 21) Answered tripped = (Refused, tripped) \<and>
   call default_config (seconds 41) (seconds 42) Answered tripped =
     (Ran Answered, tripped\<lparr>cb_state := Closed, cb_failures := []\<rparr>)"
proof -
  have "0 < FAILURE_THRESHOLD default_config" "RESET_TIMEOUT_SECS default_config = 30"
    by (simp_all add: default_config_def)
  with open_breaker_recovers [OF tripped_reachable tripped_open(1)] tripped_open(2) show ?thesis by auto
qed

theorem breaker_transitions_witness:
  "\<exists>b'. cb_step default_config tripped (Enter (seconds 41)) b' \<and> cb_state b' = Half_Open \<and>
     (\<exists>b''. cb_step default_config b' (Leave (seconds 42) Answered) b'' \<and> cb_state b'' = Closed \<and>
        int (length (cb_failures b'')) < 5)"
proof -
  let ?b = "cb_apply default_config tripped (Enter (seconds 41))"
  let ?c = "cb_apply default_config ?b (Leave (seconds 42) Answered)"
  have r: "cb_reachable default_config ?b"
    by (rule cb_reachable.event [OF tripped_reachable, of "Enter (seconds 41)"]) (simp_all add: cb_step_iff)
  have "cb_step default_config ?b (Leave (seconds 42) Answered) ?c" by (simp add: cb_step_iff)
  from breaker_transitions [OF r this] have
    "cb_state ?c = Closed \<longrightarrow> int (length (cb_failures ?c)) < FAILURE_THRESHOLD default_config"
    by (simp add: default_config_def)
  moreover have "cb_state ?b = Half_Open" "cb_state ?c = Closed" by code_simp+
  ultimately show ?thesis
    by (intro exI [of _ ?b] conjI exI [of _ ?c]) (simp_all add: cb_step_iff default_config_def)
qed

end
