(* ===== verification/Rate_Limit.thy ===== *)
theory Rate_Limit
  imports Prelude
begin

text \<open>
  \<open>middleware/rate_limit.py\<close>: a sliding window of request times per address and path.

  The window is a Redis sorted set. Redis is a service, so its commands are parameters; what the code
  relies on is \<open>redis_laws\<close>, the documented meaning of \<open>ZREMRANGEBYSCORE\<close>, \<open>ZCARD\<close>, \<open>ZADD\<close>,
  \<open>ZRANGE key 0 0\<close> and \<open>EXPIRE\<close> in terms of the scores a key holds. A member is the text of its
  score, so a set of scores says all. Times are in microseconds.
\<close>

section \<open>The limiter\<close>

definition LIMITS :: "(string \<times> int \<times> int) list" where
  "LIMITS =
     [(''/api/auth/login'', 10, 60),
      (''/api/auth/signup'', 5, 60),
      (''/api/auth/forgot-password'', 5, 60),
      (''/api/auth/reset-password'', 5, 60),
      (''/graphql'', 60, 60),
      (''/api/search'', 30, 60),
      (''/api/stream'', 5, 60)]"

definition DEFAULT_LIMIT :: "int \<times> int" where
  "DEFAULT_LIMIT = (300, 60)"

definition get_limit :: "string \<Rightarrow> int \<times> int" where
  "get_limit path =
     (case find (\<lambda>(pattern, l). prefix pattern path) LIMITS of
        Some (pattern, l) \<Rightarrow> l | None \<Rightarrow> DEFAULT_LIMIT)"

record 'r redis =
  zremrangebyscore :: "string \<Rightarrow> time \<Rightarrow> time \<Rightarrow> 'r \<Rightarrow> 'r"
  zcard :: "string \<Rightarrow> 'r \<Rightarrow> nat"
  zadd :: "string \<Rightarrow> time \<Rightarrow> 'r \<Rightarrow> 'r"
  zoldest :: "string \<Rightarrow> 'r \<Rightarrow> time option"
  expire :: "string \<Rightarrow> time \<Rightarrow> 'r \<Rightarrow> 'r"

text \<open>No connection and a failed command both let the request through.\<close>

datatype redis_status = Up | No_Redis | Failing

record verdict =
  allowed :: bool
  remaining :: int
  retry_after :: int

definition rl_key :: "string \<Rightarrow> string \<Rightarrow> string" where
  "rl_key ip path = ''rl:'' @ ip @ '':'' @ path"

definition is_allowed ::
  "'r redis \<Rightarrow> redis_status \<Rightarrow> time \<Rightarrow> string \<Rightarrow> string \<Rightarrow> 'r \<Rightarrow> verdict \<times> 'r" where
  "is_allowed ops status now ip path r =
     (if status \<noteq> Up then (\<lparr> allowed = True, remaining = 999, retry_after = 0 \<rparr>, r)
      else
        let (limit, window) = get_limit path;
            key = rl_key ip path;
            r1 = zremrangebyscore ops key 0 (now - seconds window) r;
            count = int (zcard ops key r1);
            r2 = expire ops key (seconds (window * 2)) (zadd ops key now r1)
        in if count \<ge> limit
           then (\<lparr> allowed = False, remaining = 0,
                   retry_after =
                     (case zoldest ops key r2 of
                        Some t \<Rightarrow> (seconds window - (now - t)) div seconds 1 + 1
                      | None \<Rightarrow> window) \<rparr>, r2)
           else (\<lparr> allowed = True, remaining = max 0 (limit - count - 1), retry_after = 0 \<rparr>, r2))"

record response =
  rs_status :: nat
  rs_retry_after :: "int option"
  rs_remaining :: "int option"
  rs_limit :: "int option"

text \<open>\<open>call_next\<close> answers with a status of its own; its headers are kept and one is added.\<close>

definition rate_limit_middleware ::
  "'r redis \<Rightarrow> redis_status \<Rightarrow> time \<Rightarrow> string option \<Rightarrow> string \<Rightarrow> nat \<Rightarrow> 'r \<Rightarrow> response \<times> 'r" where
  "rate_limit_middleware ops status now host path answer r =
     (let ip = (case host of Some h \<Rightarrow> h | None \<Rightarrow> ''unknown'')
      in if path = ''/api/health'' \<or> path = ''/metrics'' \<or> prefix ''/assets/'' path
         then (\<lparr> rs_status = answer, rs_retry_after = None, rs_remaining = None, rs_limit = None \<rparr>, r)
         else
           let (v, r') = is_allowed ops status now ip path r
           in if \<not> allowed v
              then (\<lparr> rs_status = 429, rs_retry_after = Some (retry_after v), rs_remaining = Some 0,
                      rs_limit = Some (fst (get_limit path)) \<rparr>, r')
              else (\<lparr> rs_status = answer, rs_retry_after = None, rs_remaining = Some (remaining v),
                      rs_limit = None \<rparr>, r'))"

section \<open>What the code relies on\<close>

definition redis_laws :: "'r redis \<Rightarrow> ('r \<Rightarrow> string \<Rightarrow> time set) \<Rightarrow> bool" where
  "redis_laws ops scores \<longleftrightarrow>
     (\<forall>r k. finite (scores r k)) \<and>
     (\<forall>r k lo hi. scores (zremrangebyscore ops k lo hi r) = (scores r)(k := scores r k - {lo..hi})) \<and>
     (\<forall>r k. zcard ops k r = card (scores r k)) \<and>
     (\<forall>r k t. scores (zadd ops k t r) = (scores r)(k := insert t (scores r k))) \<and>
     (\<forall>r k. zoldest ops k r = (if scores r k = {} then None else Some (Min (scores r k)))) \<and>
     (\<forall>r k t. scores (expire ops k t r) = scores r)"

section \<open>The window\<close>

text \<open>The abstract limiter: a request is counted against the requests of the window before it.\<close>

definition recent :: "int \<Rightarrow> time list \<Rightarrow> time \<Rightarrow> time set" where
  "recent window past now = {t \<in> set past. now - seconds window < t}"

fun spec_verdicts :: "int \<Rightarrow> int \<Rightarrow> time list \<Rightarrow> time list \<Rightarrow> bool list" where
  "spec_verdicts limit window past [] = []"
| "spec_verdicts limit window past (t # ts) =
     (int (card (recent window past t)) < limit) # spec_verdicts limit window (past @ [t]) ts"

text \<open>The requests of one address for one path, at the given times.\<close>

fun serve_times ::
  "'r redis \<Rightarrow> string \<Rightarrow> string \<Rightarrow> time list \<Rightarrow> 'r \<Rightarrow> bool list" where
  "serve_times ops ip path [] r = []"
| "serve_times ops ip path (t # ts) r =
     (let (v, r') = is_allowed ops Up t ip path r in allowed v # serve_times ops ip path ts r')"

definition window_inv :: "int \<Rightarrow> time list \<Rightarrow> time set \<Rightarrow> bool" where
  "window_inv window past held \<longleftrightarrow>
     held \<subseteq> set past \<and> (past \<noteq> [] \<longrightarrow> recent window past (last past) \<subseteq> held)"

lemma window_trim:
  assumes "window_inv window past held" and "\<forall>t \<in> set past. 0 < t \<and> t < now"
  shows "held - {0..now - seconds window} = recent window past now"
proof (cases "past = []")
  case True
  with assms(1) show ?thesis by (simp add: window_inv_def recent_def)
next
  case False
  then have "last past < now" using assms(2) by simp
  with assms False show ?thesis
    by (fastforce simp: window_inv_def recent_def)
qed

lemma is_allowed_step:
  assumes laws: "redis_laws ops scores" and inv: "window_inv window past (scores r (rl_key ip path))"
    and times: "\<forall>t \<in> set past. 0 < t \<and> t < now" and limit: "get_limit path = (limit, window)"
    and "0 \<le> window"
  shows "allowed (fst (is_allowed ops Up now ip path r)) \<longleftrightarrow> int (card (recent window past now)) < limit"
    and "window_inv window (past @ [now]) (scores (snd (is_allowed ops Up now ip path r)) (rl_key ip path))"
proof -
  let ?k = "rl_key ip path"
  let ?r1 = "zremrangebyscore ops ?k 0 (now - seconds window) r"
  have r1: "scores ?r1 ?k = recent window past now"
    using laws window_trim [OF inv times] by (simp add: redis_laws_def)
  have count: "zcard ops ?k ?r1 = card (recent window past now)"
    using laws r1 by (simp add: redis_laws_def)
  show "allowed (fst (is_allowed ops Up now ip path r)) \<longleftrightarrow> int (card (recent window past now)) < limit"
    by (simp add: is_allowed_def limit count Let_def)
  have "snd (is_allowed ops Up now ip path r) = expire ops ?k (seconds (window * 2)) (zadd ops ?k now ?r1)"
    by (simp add: is_allowed_def limit Let_def)
  then have "scores (snd (is_allowed ops Up now ip path r)) ?k = insert now (recent window past now)"
    using laws r1 by (simp add: redis_laws_def)
  then show "window_inv window (past @ [now]) (scores (snd (is_allowed ops Up now ip path r)) ?k)"
    using assms(5) by (auto simp: window_inv_def recent_def)
qed

lemma serve_times_spec:
  assumes "redis_laws ops scores" and "get_limit path = (limit, window)" and "0 \<le> window"
  shows "window_inv window past (scores r (rl_key ip path)) \<Longrightarrow>
    sorted_wrt (<) (past @ ts) \<Longrightarrow> \<forall>t \<in> set (past @ ts). 0 < t \<Longrightarrow>
    serve_times ops ip path ts r = spec_verdicts limit window past ts"
proof (induction ts arbitrary: past r)
  case (Cons t ts)
  have times: "\<forall>u \<in> set past. 0 < u \<and> u < t"
    using Cons.prems(2,3) by (auto simp: sorted_wrt_append)
  note step = is_allowed_step [OF assms(1) Cons.prems(1) times assms(2,3)]
  have "serve_times ops ip path ts (snd (is_allowed ops Up t ip path r)) =
      spec_verdicts limit window (past @ [t]) ts"
    by (rule Cons.IH [OF step(2)]) (use Cons.prems(2,3) in auto)
  with step(1) show ?case by (simp add: case_prod_beta Let_def)
qed simp

text \<open>No more than the limit pass in any window.\<close>

definition passed_in :: "int \<Rightarrow> time \<Rightarrow> time list \<Rightarrow> bool list \<Rightarrow> time list" where
  "passed_in window now ts vs =
     map fst (filter (\<lambda>(t, v). v \<and> now - seconds window < t \<and> t \<le> now) (zip ts vs))"

lemma spec_length [simp]: "length (spec_verdicts limit window past ts) = length ts"
  by (induction ts arbitrary: past) auto

lemma spec_append:
  "spec_verdicts limit window past (ts @ [t]) =
     spec_verdicts limit window past ts @ [int (card (recent window (past @ ts) t)) < limit]"
  by (induction ts arbitrary: past) auto

lemma passed_subset: "set (passed_in window now ts vs) \<subseteq> {t \<in> set ts. now - seconds window < t \<and> t \<le> now}"
  by (auto simp: passed_in_def dest: set_zip_leftD)

lemma passed_distinct: "distinct ts \<Longrightarrow> distinct (passed_in window now ts vs)"
proof (induction ts arbitrary: vs)
  case (Cons t ts)
  show ?case
  proof (cases vs)
    case (Cons v vs')
    have "t \<notin> set (passed_in window now ts vs')"
      using passed_subset Cons.prems by fastforce
    with Cons.IH [of vs'] Cons.prems Cons show ?thesis by (simp add: passed_in_def)
  qed (simp add: passed_in_def)
qed (simp add: passed_in_def)

lemma spec_bounded:
  assumes "sorted_wrt (<) ts" and "0 \<le> limit"
  shows "int (length (passed_in window now ts (spec_verdicts limit window [] ts))) \<le> limit"
  using assms(1)
proof (induction ts rule: rev_induct)
  case (snoc t ts)
  let ?vs = "spec_verdicts limit window [] ts" and ?v = "int (card (recent window ts t)) < limit"
  have split: "passed_in window now (ts @ [t]) (spec_verdicts limit window [] (ts @ [t])) =
      passed_in window now ts ?vs @
      (if ?v \<and> now - seconds window < t \<and> t \<le> now then [t] else [])"
    by (simp add: spec_append passed_in_def)
  have sorted: "sorted_wrt (<) ts" using snoc.prems by (simp add: sorted_wrt_append)
  show ?case
  proof (cases "?v \<and> now - seconds window < t \<and> t \<le> now")
    case True
    have "set (passed_in window now ts ?vs) \<subseteq> recent window ts t"
      using passed_subset [of window now ts ?vs] True by (auto simp: recent_def)
    then have "card (set (passed_in window now ts ?vs)) \<le> card (recent window ts t)"
      by (intro card_mono) (simp_all add: recent_def)
    moreover have "distinct ts" using sorted by (simp add: strict_sorted_iff)
    ultimately have "length (passed_in window now ts ?vs) \<le> card (recent window ts t)"
      using passed_distinct by (metis distinct_card)
    then show ?thesis using True split by simp
  next
    case False
    with split snoc.IH [OF sorted] show ?thesis by simp
  qed
qed (use assms(2) in \<open>simp add: passed_in_def\<close>)

lemma get_limit_nonneg: "get_limit path = (limit, window) \<Longrightarrow> 0 \<le> limit \<and> 0 \<le> window"
proof -
  assume l: "get_limit path = (limit, window)"
  have "list_all (\<lambda>(p, l, w). 0 \<le> l \<and> 0 \<le> w) LIMITS" by (simp add: LIMITS_def)
  then show ?thesis
    using l by (auto simp: get_limit_def DEFAULT_LIMIT_def list_all_iff find_Some_iff split: option.splits)
      (metis nth_mem case_prodD)+
qed

text \<open>C13: On a store that behaves like Redis, the requests of an address for a path, at increasing
  times from an empty window, get the verdicts of the abstract limiter: each is counted against the
  requests of the window before it, refused ones included. So at most the limit passes in any window.\<close>

theorem rate_limit_window:
  assumes "redis_laws ops scores" and "get_limit path = (limit, window)"
    and "scores r (rl_key ip path) = {}" and "sorted_wrt (<) ts" and "\<forall>t \<in> set ts. 0 < t"
  shows "serve_times ops ip path ts r = spec_verdicts limit window [] ts \<and>
    (\<forall>now. int (length (passed_in window now ts (serve_times ops ip path ts r))) \<le> limit)"
proof -
  have "serve_times ops ip path ts r = spec_verdicts limit window [] ts"
    using get_limit_nonneg [OF assms(2)] assms(3-5)
    by (intro serve_times_spec [OF assms(1,2)]) (simp_all add: window_inv_def)
  then show ?thesis
    using spec_bounded [OF assms(4)] get_limit_nonneg [OF assms(2)] by simp
qed

text \<open>A store on lists that keeps the laws.\<close>

definition list_redis :: "(string \<Rightarrow> time list) redis" where
  "list_redis = \<lparr>
     zremrangebyscore = (\<lambda>k lo hi r. r(k := filter (\<lambda>t. \<not> (lo \<le> t \<and> t \<le> hi)) (r k))),
     zcard = (\<lambda>k r. length (remdups (r k))),
     zadd = (\<lambda>k t r. r(k := t # r k)),
     zoldest = (\<lambda>k r. case r k of [] \<Rightarrow> None | t # ts \<Rightarrow> Some (foldl min t ts)),
     expire = (\<lambda>k t r. r) \<rparr>"

lemma foldl_min: "foldl min t ts = Min (insert t (set ts))" for t :: time
proof (induction ts arbitrary: t)
  case (Cons u ts)
  then have "foldl min t (u # ts) = Min (insert (min t u) (set ts))" by simp
  also have "\<dots> = Min (insert t (insert u (set ts)))"
    by (cases "ts = []") (simp_all add: min.assoc)
  finally show ?case by simp
qed simp

lemma list_redis_laws: "redis_laws list_redis (\<lambda>r k. set (r k))"
  by (auto simp: redis_laws_def list_redis_def length_remdups_card_conv foldl_min fun_eq_iff
      split: list.splits)

theorem rate_limit_window_witness:
  "serve_times list_redis ''1.2.3.4'' ''/api/auth/signup'' (map seconds [1, 2, 3, 4, 5, 6, 62]) (\<lambda>k. []) =
     [True, True, True, True, True, False, True] \<and>
   length (passed_in 60 (seconds 60) (map seconds [1, 2, 3, 4, 5, 6, 62])
     (serve_times list_redis ''1.2.3.4'' ''/api/auth/signup'' (map seconds [1, 2, 3, 4, 5, 6, 62]) (\<lambda>k. []))) \<le> 5"
proof -
  have l: "get_limit ''/api/auth/signup'' = (5, 60)" by code_simp
  have "serve_times list_redis ''1.2.3.4'' ''/api/auth/signup'' (map seconds [1, 2, 3, 4, 5, 6, 62]) (\<lambda>k. []) =
     [True, True, True, True, True, False, True]"
    by code_simp
  then show ?thesis
    using rate_limit_window [OF list_redis_laws l, of "\<lambda>k. []" "''1.2.3.4''" "map seconds [1, 2, 3, 4, 5, 6, 62]"]
    by simp
qed

text \<open>The window is per full path: two paths under one limited prefix do not share it.\<close>

lemma paths_do_not_share:
  "rl_key ip ''/api/search/a'' \<noteq> rl_key ip ''/api/search/b'' \<and>
   get_limit ''/api/search/a'' = (30, 60) \<and> get_limit ''/api/search/b'' = (30, 60)"
  by (simp add: rl_key_def get_limit_def LIMITS_def)

end
