(* ===== verification/Scim.thy ===== *)
theory Scim
  imports Oidc
begin

text \<open>
  \<open>auth/scim.py\<close>: provisioning by an identity provider, under a bearer token of the tenant.

  A request body is a JSON dict. A value that is no string where a column holds one makes the
  database refuse the statement. SHA-256 and \<open>str\<close> of a float, list or dict come from the environment
  of \<open>Oidc\<close>; a malformed UUID in the path is \<open>None\<close>. Responses are the rows themselves.
\<close>

section \<open>Values of a body\<close>

definition db_text :: "json \<Rightarrow> py_error + string" where
  "db_text v = (case v of JStr s \<Rightarrow> Inr s | _ \<Rightarrow> Inl (OtherError ''DBAPIError''))"

definition db_bool :: "json \<Rightarrow> py_error + bool" where
  "db_bool v =
     (case v of JBool b \<Rightarrow> Inr b | JInt i \<Rightarrow> if i = 0 \<or> i = 1 then Inr (i = 1) else Inl (ValueError ''Boolean'')
      | JNull \<Rightarrow> Inr False | _ \<Rightarrow> Inl TypeError)"

definition db_opt_text :: "json \<Rightarrow> py_error + string option" where
  "db_opt_text v =
     (case v of JNull \<Rightarrow> Inr None | JStr s \<Rightarrow> Inr (Some s) | _ \<Rightarrow> Inl (OtherError ''DBAPIError''))"

definition extract_email :: "py_dict \<Rightarrow> py_error + json" where
  "extract_email body =
     (let un = dict_get_or body ''userName'' (JStr '''')
      in if truthy un then Inr un
         else let emails = dict_get_or body ''emails'' (JArr [])
              in if \<not> truthy emails then Inr (JStr '''')
                 else (case emails of
                         JArr (JObj e # es) \<Rightarrow> Inr (dict_get_or e ''value'' (JStr ''''))
                       | JArr es \<Rightarrow> Inl AttributeError
                       | JStr s \<Rightarrow> Inl AttributeError
                       | JObj d \<Rightarrow> Inl (KeyError ''0'')
                       | _ \<Rightarrow> Inl TypeError))"

definition extract_name :: "auth_env \<Rightarrow> py_dict \<Rightarrow> json" where
  "extract_name env body =
     (case dict_get_or body ''name'' (JObj []) of
        JObj n \<Rightarrow>
          let f = dict_get_or n ''formatted'' JNull
          in if truthy f then f
             else JStr (str_strip (py_str (str_of_json env) (dict_get_or n ''givenName'' (JStr '''')) @ '' '' @
                                   py_str (str_of_json env) (dict_get_or n ''familyName'' (JStr ''''))))
      | v \<Rightarrow> JStr (py_str (str_of_json env) v))"

definition extract_role :: "py_dict \<Rightarrow> py_error + string" where
  "extract_role body =
     (let groups = dict_get_or body ''groups'' (JArr [])
      in if \<not> truthy groups then Inr ''analyst''
         else (case groups of
                 JArr (JObj g # gs) \<Rightarrow>
                   (case dict_get_or g ''display'' (JStr '''') of
                      JStr t \<Rightarrow> if str_lower t \<in> {''admin'', ''analyst'', ''viewer''} then Inr (str_lower t)
                                else Inr ''analyst''
                    | _ \<Rightarrow> Inl AttributeError)
               | JArr gs \<Rightarrow> Inl AttributeError
               | JStr s \<Rightarrow> Inl AttributeError
               | JObj d \<Rightarrow> Inl (KeyError ''0'')
               | _ \<Rightarrow> Inl TypeError))"

section \<open>The tenant of a request\<close>

definition put_scim_config :: "scim_config \<Rightarrow> db \<Rightarrow> db" where
  "put_scim_config c s = s\<lparr>scim_configs := put_row sc_id c (scim_configs s)\<rparr>"

definition malformed_uuid :: py_error where
  "malformed_uuid = ValueError ''badly formed hexadecimal UUID string''"

definition get_scim_tenant ::
  "auth_env \<Rightarrow> time \<Rightarrow> uuid option \<Rightarrow> string \<Rightarrow> tenant endpoint" where
  "get_scim_tenant env now tenant_id auth_header =
     thn (guard (prefix ''Bearer '' auth_header) (HTTPException 401 ''Bearer token required'')) (
     case tenant_id of
       None \<Rightarrow> raise malformed_uuid
     | Some tid \<Rightarrow>
         bnd (select_one scim_configs (\<lambda>c. sc_tenant_id c = tid \<and>
                sc_token_hash c = sha256_hex env (drop 7 auth_header) \<and> sc_is_active c)) (\<lambda>config.
         case config of
           None \<Rightarrow> raise (HTTPException 401 ''Invalid SCIM token'')
         | Some c \<Rightarrow>
             bnd (select_one tenants (\<lambda>t. tn_id t = tid)) (\<lambda>tenant.
             case tenant of
               None \<Rightarrow> raise (HTTPException 404 ''Tenant not found'')
             | Some t \<Rightarrow>
                 if \<not> tn_is_active t then raise (HTTPException 404 ''Tenant not found'')
                 else thn (modify (put_scim_config (c\<lparr>sc_last_used_at := Some now\<rparr>))) (ret t))))"

section \<open>Users\<close>

record scim_users_page =
  sp_total :: int
  sp_start :: int
  sp_users :: "user list"

text \<open>\<open>filter.split('"')[1]\<close>.\<close>

definition filter_email :: "string \<Rightarrow> py_error + string" where
  "filter_email f = (case split_char (CHR 0x22) f of a # b # rest \<Rightarrow> Inr b | _ \<Rightarrow> Inl IndexError)"

definition list_scim_users ::
  "auth_env \<Rightarrow> time \<Rightarrow> uuid option \<Rightarrow> string \<Rightarrow> int \<Rightarrow> int \<Rightarrow> string option \<Rightarrow> scim_users_page endpoint" where
  "list_scim_users env now tenant_id header startIndex count filt =
     bnd (get_scim_tenant env now tenant_id header) (\<lambda>tenant.
     bnd (case opt_str_or filt None of
            Some f \<Rightarrow>
              if sublist ''userName eq'' (str_lower f)
              then bnd (lift_err (filter_email f)) (\<lambda>e. ret (\<lambda>u. us_email u = e))
              else ret (\<lambda>u. True)
          | None \<Rightarrow> ret (\<lambda>u. True)) (\<lambda>p.
     bnd (select_all users (\<lambda>u. us_tenant_id u = tn_id tenant \<and> us_is_active u \<and> p u)) (\<lambda>us.
     ret \<lparr> sp_total = int (length us), sp_start = startIndex,
           sp_users = py_slice us (startIndex - 1) (startIndex - 1 + count) \<rparr>)))"

text \<open>The lookup every endpoint of one user starts with.\<close>

definition scim_user :: "tenant \<Rightarrow> uuid option \<Rightarrow> user endpoint" where
  "scim_user tenant user_id =
     (case user_id of
        None \<Rightarrow> raise malformed_uuid
      | Some uid \<Rightarrow>
          bnd (select_one users (\<lambda>u. us_id u = uid \<and> us_tenant_id u = tn_id tenant)) (\<lambda>user.
          case user of None \<Rightarrow> raise (HTTPException 404 ''User not found'') | Some u \<Rightarrow> ret u))"

definition get_scim_user ::
  "auth_env \<Rightarrow> time \<Rightarrow> uuid option \<Rightarrow> string \<Rightarrow> uuid option \<Rightarrow> user endpoint" where
  "get_scim_user env now tenant_id header user_id =
     bnd (get_scim_tenant env now tenant_id header) (\<lambda>tenant. scim_user tenant user_id)"

definition create_scim_user ::
  "auth_env \<Rightarrow> time \<Rightarrow> uuid option \<Rightarrow> string \<Rightarrow> py_dict \<Rightarrow> user endpoint" where
  "create_scim_user env now tenant_id header body =
     bnd (get_scim_tenant env now tenant_id header) (\<lambda>tenant.
     bnd (lift_err (extract_email body)) (\<lambda>email.
     let name = extract_name env body; ext_id = dict_get_or body ''externalId'' (JStr '''') in
     thn (guard (truthy email) (HTTPException 400 ''userName (email) required'')) (
     bnd (lift_err (db_text email)) (\<lambda>email.
     bnd (select_one users (\<lambda>u. us_email u = email \<and> us_tenant_id u = tn_id tenant)) (\<lambda>existing.
     thn (guard (existing = None) (HTTPException 409 ''User already exists'')) (
     bnd (lift_err (extract_role body)) (\<lambda>role.
     bnd fresh (\<lambda>i.
     bnd (lift_err (db_text name)) (\<lambda>name.
     bnd (lift_err (db_opt_text ext_id)) (\<lambda>ext.
     bnd (lift_err (db_bool (dict_get_or body ''active'' (JBool True)))) (\<lambda>active.
     let user = (new_user i now (tn_id tenant) email)
           \<lparr>us_display_name := Some name, us_name := Some name, us_external_id := ext,
            us_idp_provider := Some ''scim'', us_is_active := active, us_email_verified := True,
            us_role := role\<rparr>
     in thn (modify (\<lambda>s. s\<lparr>users := users s @ [user]\<rparr>)) (
        thn flush (
        thn (assign_builtin_role i (tn_id tenant) role now) (ret user))))))))))))))"

definition replace_scim_user ::
  "auth_env \<Rightarrow> time \<Rightarrow> uuid option \<Rightarrow> string \<Rightarrow> uuid option \<Rightarrow> py_dict \<Rightarrow> user endpoint" where
  "replace_scim_user env now tenant_id header user_id body =
     bnd (get_scim_tenant env now tenant_id header) (\<lambda>tenant.
     bnd (scim_user tenant user_id) (\<lambda>u.
     bnd (lift_err (extract_email body)) (\<lambda>e.
     bnd (if truthy e then lift_err (db_text e) else ret (us_email u)) (\<lambda>email.
     bnd (let n = extract_name env body
          in if truthy n then bnd (lift_err (db_text n)) (\<lambda>t. ret (Some t)) else ret (us_display_name u)) (\<lambda>name.
     bnd (lift_err (db_bool (dict_get_or body ''active'' (JBool True)))) (\<lambda>active.
     bnd (case dict_get body ''externalId'' of
            None \<Rightarrow> ret (us_external_id u)
          | Some v \<Rightarrow> lift_err (db_opt_text v)) (\<lambda>ext.
     let u' = u\<lparr>us_email := email, us_display_name := name, us_name := name, us_is_active := active,
               us_external_id := ext\<rparr>
     in thn (modify (put_user u')) (ret u'))))))))"

text \<open>One operation of a PATCH.\<close>

definition set_active :: "time \<Rightarrow> user \<Rightarrow> json \<Rightarrow> user endpoint" where
  "set_active now u active =
     bnd (lift_err (db_bool active)) (\<lambda>b.
     let u' = u\<lparr>us_is_active := b\<rparr>
     in thn (modify (put_user u')) (
        thn (py_when (\<not> truthy active)
               (modify (\<lambda>s. revoke_api_keys_of (us_id u) now (revoke_sessions_of (us_id u) now s))))
            (ret u')))"

definition patch_op :: "auth_env \<Rightarrow> time \<Rightarrow> user \<Rightarrow> json \<Rightarrow> user endpoint" where
  "patch_op env now u op_json =
     bnd (lift_err (case op_json of JObj d \<Rightarrow> Inr d | _ \<Rightarrow> Inl AttributeError)) (\<lambda>op.
     let path = dict_get_or op ''path'' (JStr ''''); val = dict_get_or op ''value'' JNull;
         in_value = (case val of JObj d \<Rightarrow> dict_get d ''active'' | _ \<Rightarrow> None)
     in if path = JStr ''active'' \<or> \<not> truthy path \<and> in_value \<noteq> None then
          (case val of
             JBool b \<Rightarrow> set_active now u (JBool b)
           | JObj d \<Rightarrow> set_active now u (dict_get_or d ''active'' (JBool True))
           | _ \<Rightarrow> if truthy val then raise AttributeError else set_active now u (JBool True))
        else if path = JStr ''userName'' \<or>
                path = JStr (''emails[type eq '' @ [CHR 0x22] @ ''work'' @ [CHR 0x22] @ ''].value'') then
          (let u' = u\<lparr>us_email := py_str (str_of_json env) val\<rparr>
           in thn (modify (put_user u')) (ret u'))
        else (case path of
                JStr p \<Rightarrow>
                  if prefix ''name'' p
                  then (let t = Some (py_str (str_of_json env) val);
                            u' = u\<lparr>us_display_name := t, us_name := t\<rparr>
                        in thn (modify (put_user u')) (ret u'))
                  else ret u
              | _ \<Rightarrow> raise AttributeError))"

fun patch_ops :: "auth_env \<Rightarrow> time \<Rightarrow> user \<Rightarrow> json list \<Rightarrow> user endpoint" where
  "patch_ops env now u [] = ret u"
| "patch_ops env now u (op # ops) = bnd (patch_op env now u op) (\<lambda>u'. patch_ops env now u' ops)"

definition patch_scim_user ::
  "auth_env \<Rightarrow> time \<Rightarrow> uuid option \<Rightarrow> string \<Rightarrow> uuid option \<Rightarrow> py_dict \<Rightarrow> user endpoint" where
  "patch_scim_user env now tenant_id header user_id body =
     bnd (get_scim_tenant env now tenant_id header) (\<lambda>tenant.
     bnd (scim_user tenant user_id) (\<lambda>u.
     bnd (lift_err (json_iter (dict_get_or body ''Operations'' (JArr [])))) (\<lambda>ops.
     patch_ops env now u ops)))"

definition delete_scim_user ::
  "auth_env \<Rightarrow> time \<Rightarrow> uuid option \<Rightarrow> string \<Rightarrow> uuid option \<Rightarrow> unit endpoint" where
  "delete_scim_user env now tenant_id header user_id =
     bnd (get_scim_tenant env now tenant_id header) (\<lambda>tenant.
     case user_id of
       None \<Rightarrow> raise malformed_uuid
     | Some uid \<Rightarrow>
         modify (\<lambda>s. s\<lparr>users := update_where (\<lambda>u. us_id u = uid \<and> us_tenant_id u = tn_id tenant)
                                (\<lambda>u. u\<lparr>us_is_active := False\<rparr>) (users s)\<rparr>))"

section \<open>Groups\<close>

definition list_scim_groups ::
  "auth_env \<Rightarrow> time \<Rightarrow> uuid option \<Rightarrow> string \<Rightarrow> role list endpoint" where
  "list_scim_groups env now tenant_id header =
     bnd (get_scim_tenant env now tenant_id header) (\<lambda>tenant.
     select_all roles (\<lambda>r. ro_tenant_id r = tn_id tenant))"

definition member_id :: "json \<Rightarrow> py_error + uuid option" where
  "member_id member =
     (case member of
        JObj m \<Rightarrow>
          let v = dict_get_or m ''value'' (JStr '''')
          in if \<not> truthy v then Inr None
             else (case v of
                     JStr t \<Rightarrow> (case parse_uuid t of None \<Rightarrow> Inl malformed_uuid | Some i \<Rightarrow> Inr (Some i))
                   | _ \<Rightarrow> Inl AttributeError)
      | _ \<Rightarrow> Inl AttributeError)"

definition for_members :: "py_dict \<Rightarrow> (uuid \<Rightarrow> unit endpoint) \<Rightarrow> unit endpoint" where
  "for_members op body =
     bnd (lift_err (json_iter (dict_get_or op ''value'' (JArr [])))) (\<lambda>members.
     for_each members (\<lambda>m.
       bnd (lift_err (member_id m)) (\<lambda>i. case i of None \<Rightarrow> ret () | Some uid \<Rightarrow> body uid)))"

definition group_op :: "time \<Rightarrow> tenant \<Rightarrow> role \<Rightarrow> json \<Rightarrow> unit endpoint" where
  "group_op now tenant role op_json =
     bnd (lift_err (case op_json of JObj d \<Rightarrow> Inr d | _ \<Rightarrow> Inl AttributeError)) (\<lambda>op.
     bnd (lift_err (case dict_get_or op ''op'' (JStr '''') of JStr t \<Rightarrow> Inr (str_lower t)
                      | _ \<Rightarrow> Inl AttributeError)) (\<lambda>kind.
     if kind = ''add'' then for_members op (\<lambda>uid. assign_builtin_role uid (tn_id tenant) (ro_name role) now)
     else if kind = ''remove'' then
       for_members op (\<lambda>uid. modify (\<lambda>s. s\<lparr>role_assignments :=
         delete_where (\<lambda>a. ra_user_id a = uid \<and> ra_role_id a = ro_id role) (role_assignments s)\<rparr>))
     else ret ()))"

definition patch_scim_group ::
  "auth_env \<Rightarrow> time \<Rightarrow> uuid option \<Rightarrow> string \<Rightarrow> uuid option \<Rightarrow> py_dict \<Rightarrow> role endpoint" where
  "patch_scim_group env now tenant_id header group_id body =
     bnd (get_scim_tenant env now tenant_id header) (\<lambda>tenant.
     case group_id of
       None \<Rightarrow> raise malformed_uuid
     | Some gid \<Rightarrow>
         bnd (select_one roles (\<lambda>r. ro_id r = gid \<and> ro_tenant_id r = tn_id tenant)) (\<lambda>role.
         case role of
           None \<Rightarrow> raise (HTTPException 404 ''Group/role not found'')
         | Some r \<Rightarrow>
             bnd (lift_err (json_iter (dict_get_or body ''Operations'' (JArr [])))) (\<lambda>ops.
             thn (for_each ops (group_op now tenant r)) (ret r))))"

section \<open>Tokens\<close>

definition create_scim_token :: "auth_env \<Rightarrow> time \<Rightarrow> string \<Rightarrow> auth_context \<Rightarrow> (string \<times> string) endpoint" where
  "create_scim_token env now raw_token auth =
     thn (guard (''admin:*'' \<in> ac_permissions auth) (HTTPException 403 ''Admin required'')) (
     thn (modify (\<lambda>s. s\<lparr>scim_configs := update_where (\<lambda>c. sc_tenant_id c = ac_tenant_id auth)
                           (\<lambda>c. c\<lparr>sc_is_active := False\<rparr>) (scim_configs s)\<rparr>)) (
     bnd fresh (\<lambda>i.
     thn (modify (\<lambda>s. s\<lparr>scim_configs := scim_configs s @
            [\<lparr> sc_id = i, sc_tenant_id = ac_tenant_id auth, sc_token_hash = sha256_hex env raw_token,
               sc_is_active = True, sc_last_used_at = None, sc_created_by = Some (ac_user_id auth),
               sc_created_at = now \<rparr>]\<rparr>)) (
     thn flush (
     ret (raw_token, APP_URL env @ ''/api/scim/v2/'' @ uuid_str (ac_tenant_id auth)))))))"

section \<open>One request\<close>

datatype scim_request =
    ListUsers int int "string option"
  | GetUser "uuid option"
  | CreateUser py_dict
  | ReplaceUser "uuid option" py_dict
  | PatchUser "uuid option" py_dict
  | DeleteUser "uuid option"
  | ListGroups
  | PatchGroup "uuid option" py_dict

definition discard :: "'a endpoint \<Rightarrow> unit endpoint" where
  "discard m = thn m (ret ())"

fun scim_handle ::
  "auth_env \<Rightarrow> time \<Rightarrow> uuid option \<Rightarrow> string \<Rightarrow> scim_request \<Rightarrow> unit endpoint" where
  "scim_handle env now tid header (ListUsers i n f) = discard (list_scim_users env now tid header i n f)"
| "scim_handle env now tid header (GetUser i) = discard (get_scim_user env now tid header i)"
| "scim_handle env now tid header (CreateUser body) = discard (create_scim_user env now tid header body)"
| "scim_handle env now tid header (ReplaceUser i body) = discard (replace_scim_user env now tid header i body)"
| "scim_handle env now tid header (PatchUser i body) = discard (patch_scim_user env now tid header i body)"
| "scim_handle env now tid header (DeleteUser i) = delete_scim_user env now tid header i"
| "scim_handle env now tid header ListGroups = discard (list_scim_groups env now tid header)"
| "scim_handle env now tid header (PatchGroup i body) = discard (patch_scim_group env now tid header i body)"

fun_cases scim_handle_deleteE: "scim_handle env now tid header (DeleteUser i) = h"

section \<open>The tenant's own rows\<close>

text \<open>
  What a session that serves the tenant \<open>tid\<close> leaves of the rows of the others: \<open>own\<close> says of an
  identifier that it is a user's of that tenant, or is not yet drawn, and \<open>ownr\<close> the same of roles.
\<close>

definition tenant_frame :: "uuid \<Rightarrow> (uuid \<Rightarrow> bool) \<Rightarrow> (uuid \<Rightarrow> bool) \<Rightarrow> db \<Rightarrow> db \<Rightarrow> bool" where
  "tenant_frame tid own ownr s0 s \<longleftrightarrow>
     filter (\<lambda>u. us_tenant_id u \<noteq> tid) (users s) = filter (\<lambda>u. us_tenant_id u \<noteq> tid) (users s0) \<and>
     (\<forall>u \<in> set (users s). own (us_id u) \<longleftrightarrow> us_tenant_id u = tid) \<and>
     filter (\<lambda>x. \<not> own (se_user_id x)) (user_sessions s) = filter (\<lambda>x. \<not> own (se_user_id x)) (user_sessions s0) \<and>
     filter (\<lambda>k. \<not> own (ak_user_id k)) (api_keys s) = filter (\<lambda>k. \<not> own (ak_user_id k)) (api_keys s0) \<and>
     filter (\<lambda>r. ro_tenant_id r \<noteq> tid) (roles s) = filter (\<lambda>r. ro_tenant_id r \<noteq> tid) (roles s0) \<and>
     (\<forall>r \<in> set (roles s). ownr (ro_id r) \<longleftrightarrow> ro_tenant_id r = tid) \<and>
     filter (\<lambda>a. \<not> ownr (ra_role_id a)) (role_assignments s) = filter (\<lambda>a. \<not> ownr (ra_role_id a)) (role_assignments s0) \<and>
     tenants s = tenants s0 \<and> local_credentials s = local_credentials s0 \<and>
     (\<forall>i \<ge> next_uuid s. own i \<and> ownr i)"

lemmas frame_defs = tenant_frame_def put_user_def put_scim_config_def revoke_sessions_of_def
  revoke_api_keys_of_def

lemma frame_put_user:
  assumes "own (us_id u)" and "us_tenant_id u = tid"
  shows "preserves (tenant_frame tid own ownr s0) (modify (put_user u))"
proof (rule preserves_modify)
  fix s assume s: "tenant_frame tid own ownr s0 s"
  then have "filter (\<lambda>u. us_tenant_id u \<noteq> tid) (put_row us_id u (users s)) = filter (\<lambda>u. us_tenant_id u \<noteq> tid) (users s)"
    using assms by (intro filter_put_row_other) (auto simp: tenant_frame_def)
  moreover have "\<forall>v \<in> set (put_row us_id u (users s)). own (us_id v) \<longleftrightarrow> us_tenant_id v = tid"
    using s assms by (auto simp: tenant_frame_def dest!: in_put_row_cases)
  ultimately show "tenant_frame tid own ownr s0 (put_user u s)"
    using s by (simp add: tenant_frame_def put_user_def)
qed

lemma frame_revoke:
  "own uid \<Longrightarrow> preserves (tenant_frame tid own ownr s0)
     (modify (\<lambda>s. revoke_api_keys_of uid now (revoke_sessions_of uid now s)))"
  by (rule preserves_modify) (auto simp: frame_defs intro!: trans [OF filter_update_where_other])

lemma frame_bnd_fresh:
  assumes "\<And>i. own i \<Longrightarrow> ownr i \<Longrightarrow> preserves (tenant_frame tid own ownr s0) (f i)"
  shows "preserves (tenant_frame tid own ownr s0) (bnd fresh f)"
proof (rule preservesI)
  fix s assume s: "tenant_frame tid own ownr s0 s"
  then have "own (next_uuid s)" "ownr (next_uuid s)" "tenant_frame tid own ownr s0 (s\<lparr>next_uuid := Suc (next_uuid s)\<rparr>)"
    by (auto simp: tenant_frame_def)
  from preservesD [OF assms [OF this(1,2)] this(3)]
  show "tenant_frame tid own ownr s0 (snd (bnd fresh f s))" by simp
qed

lemma frame_add_role:
  "ro_tenant_id r = tid \<Longrightarrow> ownr (ro_id r) \<Longrightarrow>
   preserves (tenant_frame tid own ownr s0) (modify (\<lambda>s. s\<lparr>roles := roles s @ [r]\<rparr>))"
  by (rule preserves_modify) (simp add: tenant_frame_def)

lemma frame_add_assignment:
  "ownr (ra_role_id a) \<Longrightarrow>
   preserves (tenant_frame tid own ownr s0) (modify (\<lambda>s. s\<lparr>role_assignments := role_assignments s @ [a]\<rparr>))"
  by (rule preserves_modify) (simp add: tenant_frame_def)

lemma preserves_bnd_result:
  assumes "preserves I m" and "\<And>s x s'. I s \<Longrightarrow> m s = (Inr x, s') \<Longrightarrow> preserves I (g x)"
  shows "preserves I (bnd m g)"
proof (rule preservesI)
  fix s assume s: "I s"
  with preservesD [OF assms(1) s] show "I (snd (bnd m g s))"
    using preservesD [OF assms(2) [OF s]] by (cases "m s"; cases "fst (m s)") auto
qed

text \<open>A role that is looked up in the tenant is its own.\<close>

lemma frame_select_role:
  assumes "\<And>r. p r \<Longrightarrow> ro_tenant_id r = tid"
    and "preserves (tenant_frame tid own ownr s0) (f None)"
    and "\<And>r. ownr (ro_id r) \<Longrightarrow> preserves (tenant_frame tid own ownr s0) (f (Some r))"
  shows "preserves (tenant_frame tid own ownr s0) (bnd (select_one roles p) f)"
proof (rule preservesI)
  fix s assume s: "tenant_frame tid own ownr s0 s"
  show "tenant_frame tid own ownr s0 (snd (bnd (select_one roles p) f s))"
  proof (cases "scalar_one_or_none (filter p (roles s))")
    case (Inr found)
    show ?thesis
    proof (cases found)
      case None
      with Inr s preservesD [OF assms(2)] show ?thesis by simp
    next
      case (Some r)
      with Inr have "r \<in> set (roles s)" "p r" by (auto dest: scalar_one_or_none_filter_Some)
      with assms(1) s have "ownr (ro_id r)" by (auto simp: tenant_frame_def)
      from preservesD [OF assms(3) [OF this] s] Inr Some show ?thesis by simp
    qed
  qed (use s in simp)
qed

lemma frame_delete_assignments:
  "ownr rid \<Longrightarrow> preserves (tenant_frame tid own ownr s0) (modify (\<lambda>s. s\<lparr>role_assignments :=
     delete_where (\<lambda>a. ra_user_id a = uid \<and> ra_role_id a = rid) (role_assignments s)\<rparr>))"
proof (rule preserves_modify)
  fix s assume "ownr rid" and s: "tenant_frame tid own ownr s0 s"
  then have "filter (\<lambda>a. \<not> ownr (ra_role_id a)) (delete_where (\<lambda>a. ra_user_id a = uid \<and> ra_role_id a = rid)
      (role_assignments s)) = filter (\<lambda>a. \<not> ownr (ra_role_id a)) (role_assignments s)"
    by (auto simp: delete_where_def intro!: filter_cong)
  with s show "tenant_frame tid own ownr s0 (s\<lparr>role_assignments :=
      delete_where (\<lambda>a. ra_user_id a = uid \<and> ra_role_id a = rid) (role_assignments s)\<rparr>)"
    by (simp add: tenant_frame_def)
qed

lemma bnd_ret: "bnd (ret x) f = f x"
  by (simp add: bnd_def ret_def)

lemma frame_assign: "preserves (tenant_frame tid own ownr s0) (assign_builtin_role uid tid name now)"
proof -
  have assigned: "preserves (tenant_frame tid own ownr s0)
      (bnd (select_one role_assignments (\<lambda>a. ra_user_id a = uid \<and> ra_role_id a = ro_id role)) (\<lambda>existing.
        if existing = None then
          bnd fresh (\<lambda>i.
            thn (modify (\<lambda>s. s\<lparr>role_assignments := role_assignments s @
                               [new_role_assignment i now tid uid (ro_id role)]\<rparr>))
            flush)
        else ret ()))" if "ownr (ro_id role)" for role
    by (intro preserves_intros frame_bnd_fresh frame_add_assignment) (simp add: new_role_assignment_def that)
  let ?new = "bnd fresh (\<lambda>i. thn (modify (\<lambda>s. s\<lparr>roles := roles s @ [\<lparr> ro_id = i, ro_tenant_id = tid, ro_name = name,
      ro_role_type = (if name \<in> {''admin'', ''analyst'', ''viewer'', ''agent''} then name else ''custom''),
      ro_description = None, ro_permissions = Some (builtin_get name), ro_is_system = True, ro_created_at = now \<rparr>]\<rparr>))
    (thn flush (ret \<lparr> ro_id = i, ro_tenant_id = tid, ro_name = name,
      ro_role_type = (if name \<in> {''admin'', ''analyst'', ''viewer'', ''agent''} then name else ''custom''),
      ro_description = None, ro_permissions = Some (builtin_get name), ro_is_system = True, ro_created_at = now \<rparr>)))"
  have "ownr (ro_id r)" if "tenant_frame tid own ownr s0 s" "?new s = (Inr r, s')" for s r s'
    using that by (auto simp: tenant_frame_def split: if_splits)
  moreover have "preserves (tenant_frame tid own ownr s0) ?new"
    by (intro preserves_intros frame_bnd_fresh frame_add_role) simp_all
  ultimately have new: "preserves (tenant_frame tid own ownr s0) (bnd ?new g)"
    if "\<And>r. ownr (ro_id r) \<Longrightarrow> preserves (tenant_frame tid own ownr s0) (g r)" for g :: "role \<Rightarrow> unit endpoint"
    using that by (intro preserves_bnd_result [where m = ?new]) blast+
  show ?thesis
    unfolding assign_builtin_role_def Let_def
    by (rule frame_select_role, simp, simp only: option.case, rule new, erule assigned,
      simp only: option.case bnd_ret, erule assigned)
qed

lemma frame_config: "preserves (tenant_frame tid own ownr s0) (modify (put_scim_config c))"
  by (rule preserves_modify) (simp add: frame_defs)

lemma frame_delete_user:
  "preserves (tenant_frame tid own ownr s0)
     (modify (\<lambda>s. s\<lparr>users := update_where (\<lambda>u. us_id u = uid \<and> us_tenant_id u = tid)
                                (\<lambda>u. u\<lparr>us_is_active := False\<rparr>) (users s)\<rparr>))"
proof (rule preserves_modify)
  fix s assume "tenant_frame tid own ownr s0 s"
  moreover have "filter (\<lambda>u. us_tenant_id u \<noteq> tid) (update_where (\<lambda>u. us_id u = uid \<and> us_tenant_id u = tid)
      (\<lambda>u. u\<lparr>us_is_active := False\<rparr>) (users s)) = filter (\<lambda>u. us_tenant_id u \<noteq> tid) (users s)"
    by (rule filter_update_where_other) simp
  ultimately show "tenant_frame tid own ownr s0 (s\<lparr>users := update_where (\<lambda>u. us_id u = uid \<and> us_tenant_id u = tid)
                                (\<lambda>u. u\<lparr>us_is_active := False\<rparr>) (users s)\<rparr>)"
    by (auto simp: tenant_frame_def set_update_where)
qed

text \<open>The user an endpoint looks up is the tenant's own.\<close>

lemma frame_scim_user:
  assumes "tn_id tenant = tid"
    and "\<And>u. own (us_id u) \<Longrightarrow> us_tenant_id u = tid \<Longrightarrow> preserves (tenant_frame tid own ownr s0) (f u)"
  shows "preserves (tenant_frame tid own ownr s0) (bnd (scim_user tenant uid) f)"
proof (rule preservesI)
  fix s assume s: "tenant_frame tid own ownr s0 s"
  show "tenant_frame tid own ownr s0 (snd (bnd (scim_user tenant uid) f s))"
  proof (cases "scim_user tenant uid s")
    case (Pair r t)
    have t: "t = s" using Pair by (auto simp: scim_user_def split: handler_splits)
    show ?thesis
    proof (cases r)
      case (Inl e)
      with Pair t s show ?thesis by simp
    next
      case (Inr u)
      then have "u \<in> set (users s) \<and> us_tenant_id u = tid"
        using Pair assms(1)
        by (auto simp: scim_user_def dest: scalar_one_or_none_filter_Some(1) scalar_one_or_none_filter_Some(2)
            split: handler_splits)
      with s have "own (us_id u)" "us_tenant_id u = tid" by (auto simp: tenant_frame_def)
      from preservesD [OF assms(2) [OF this] s] show ?thesis using Pair Inr t by simp
    qed
  qed
qed

lemma frame_scim_tenant:
  assumes "\<And>t. tn_id t = tid \<Longrightarrow> preserves (tenant_frame tid own ownr s0) (f t)"
  shows "preserves (tenant_frame tid own ownr s0) (bnd (get_scim_tenant env now (Some tid) header) f)"
proof (rule preservesI)
  fix s assume s: "tenant_frame tid own ownr s0 s"
  have "preserves (tenant_frame tid own ownr s0) (get_scim_tenant env now (Some tid) header)"
    unfolding get_scim_tenant_def by (simp only: option.case, intro preserves_intros frame_config)
  from preservesD [OF this s] show "tenant_frame tid own ownr s0 (snd (bnd (get_scim_tenant env now (Some tid) header) f s))"
  proof (cases "get_scim_tenant env now (Some tid) header s")
    case (Pair r t)
    with \<open>tenant_frame tid own ownr s0 (snd (get_scim_tenant env now (Some tid) header s))\<close>
    have t: "tenant_frame tid own ownr s0 t" by simp
    show ?thesis
    proof (cases r)
      case (Inr x)
      then have "tn_id x = tid"
        using Pair by (auto simp: get_scim_tenant_def dest: scalar_one_or_none_filter_Some(2) split: handler_splits)
      from preservesD [OF assms [OF this] t] show ?thesis using Pair Inr by simp
    qed (use Pair t in simp)
  qed
qed

lemma frame_set_active:
  "own (us_id u) \<Longrightarrow> us_tenant_id u = tid \<Longrightarrow> preserves (tenant_frame tid own ownr s0) (set_active now u v)"
  unfolding set_active_def Let_def
  by (intro preserves_intros frame_put_user frame_revoke) simp_all

lemma frame_patch_op:
  assumes "own (us_id u)" and "us_tenant_id u = tid"
  shows "preserves (tenant_frame tid own ownr s0) (patch_op env now u op)"
  unfolding patch_op_def Let_def
  using assms
  by (intro preserves_intros) (auto intro!: preserves_intros frame_set_active frame_put_user split: json.split)

lemma set_active_user:
  "set_active now u v s = (Inr u', s') \<Longrightarrow> us_id u' = us_id u \<and> us_tenant_id u' = us_tenant_id u"
  by (auto simp: set_active_def Let_def split: handler_splits)

lemma patch_op_user:
  "patch_op env now u op s = (Inr u', s') \<Longrightarrow> us_id u' = us_id u \<and> us_tenant_id u' = us_tenant_id u"
  unfolding patch_op_def Let_def
  by (elim bnd_InrE) (auto dest!: set_active_user split: if_splits json.splits)

lemma frame_patch_ops:
  "own (us_id u) \<Longrightarrow> us_tenant_id u = tid \<Longrightarrow> preserves (tenant_frame tid own ownr s0) (patch_ops env now u ops)"
proof (induction ops arbitrary: u)
  case (Cons op ops)
  show ?case
  proof (rule preservesI)
    fix s assume s: "tenant_frame tid own ownr s0 s"
    have "preserves (tenant_frame tid own ownr s0) (patch_op env now u op)"
      by (rule frame_patch_op) (rule Cons.prems)+
    note p = preservesD [OF this s]
    show "tenant_frame tid own ownr s0 (snd (patch_ops env now u (op # ops) s))"
    proof (cases "patch_op env now u op s")
      case (Pair r t)
      show ?thesis
      proof (cases r)
        case (Inr u')
        with Pair patch_op_user have "us_id u' = us_id u" "us_tenant_id u' = us_tenant_id u" by blast+
        then have "preserves (tenant_frame tid own ownr s0) (patch_ops env now u' ops)"
          using Cons by simp
        from preservesD [OF this] p Pair Inr show ?thesis by simp
      qed (use Pair p in simp)
    qed
  qed
qed (simp add: preserves_intros)

lemma frame_group_op:
  "preserves (tenant_frame tid own ownr s0) (group_op now tenant role op)"
  if "tn_id tenant = tid" "ownr (ro_id role)"
  unfolding group_op_def for_members_def that(1)
  by (intro preserves_intros frame_assign frame_delete_assignments that(2))

lemma frame_patch_group:
  assumes "tn_id tenant = tid"
  shows "preserves (tenant_frame tid own ownr s0) (case group_id of
       None \<Rightarrow> raise malformed_uuid
     | Some gid \<Rightarrow>
         bnd (select_one roles (\<lambda>r. ro_id r = gid \<and> ro_tenant_id r = tn_id tenant)) (\<lambda>role.
         case role of
           None \<Rightarrow> raise (HTTPException 404 ''Group/role not found'')
         | Some r \<Rightarrow>
             bnd (lift_err (json_iter (dict_get_or body ''Operations'' (JArr [])))) (\<lambda>ops.
             thn (for_each ops (group_op now tenant r)) (ret r))))"
proof (cases group_id)
  case None
  then show ?thesis by (simp add: preserves_raise)
next
  case (Some gid)
  show ?thesis
    unfolding Some option.case
  proof (rule frame_select_role)
    fix r :: role assume "ownr (ro_id r)"
    with assms show "preserves (tenant_frame tid own ownr s0) (case Some r of
           None \<Rightarrow> raise (HTTPException 404 ''Group/role not found'')
         | Some r \<Rightarrow>
             bnd (lift_err (json_iter (dict_get_or body ''Operations'' (JArr [])))) (\<lambda>ops.
             thn (for_each ops (group_op now tenant r)) (ret r)))"
      unfolding option.case by (intro preserves_intros frame_group_op)
  qed (use assms in \<open>simp_all add: preserves_raise\<close>)
qed

lemma frame_add_user:
  "us_tenant_id u = tid \<Longrightarrow> own (us_id u) \<Longrightarrow>
   preserves (tenant_frame tid own ownr s0) (modify (\<lambda>s. s\<lparr>users := users s @ [u]\<rparr>))"
  by (rule preserves_modify) (auto simp: tenant_frame_def)

lemmas frame_intros = frame_scim_tenant frame_scim_user frame_patch_ops frame_group_op frame_add_user
  frame_bnd_fresh frame_assign frame_put_user frame_delete_user preserves_for_each

lemma frame_handle:
  "preserves (tenant_frame tid own ownr s0) (scim_handle env now (Some tid) header req)"
proof (cases req)
  case (CreateUser body)
  show ?thesis
    unfolding CreateUser scim_handle.simps discard_def create_scim_user_def Let_def
    by (intro preserves_thn [OF _ preserves_ret] frame_scim_tenant)
      (rule frame_bnd_fresh preserves_intros frame_add_user | simp add: new_user_def frame_assign)+
next
  case (ReplaceUser i body)
  show ?thesis
    unfolding ReplaceUser scim_handle.simps discard_def replace_scim_user_def Let_def
    by (intro preserves_thn [OF _ preserves_ret] frame_scim_tenant frame_scim_user, assumption)
      (intro preserves_intros frame_put_user; simp)
next
  case (PatchUser i body)
  show ?thesis
    unfolding PatchUser scim_handle.simps discard_def patch_scim_user_def
    by (intro preserves_thn [OF _ preserves_ret] frame_scim_tenant frame_scim_user, assumption)
      (intro preserves_bnd [OF preserves_lift_err] frame_patch_ops)
next
  case (PatchGroup i body)
  show ?thesis
    unfolding PatchGroup scim_handle.simps discard_def patch_scim_group_def
    by (intro preserves_thn [OF _ preserves_ret] frame_scim_tenant)
      (rule frame_patch_group)
next
  case (DeleteUser i)
  show ?thesis
    unfolding DeleteUser scim_handle.simps delete_scim_user_def
    by (intro frame_scim_tenant) (auto intro!: preserves_intros frame_delete_user)
next
  case (ListUsers i n f)
  show ?thesis
    unfolding ListUsers scim_handle.simps discard_def list_scim_users_def Let_def
    by (intro preserves_thn [OF _ preserves_ret] frame_scim_tenant preserves_intros)
next
  case (GetUser i)
  show ?thesis
    unfolding GetUser scim_handle.simps discard_def get_scim_user_def scim_user_def Let_def
    by (intro preserves_thn [OF _ preserves_ret] frame_scim_tenant preserves_intros)
next
  case ListGroups
  show ?thesis
    unfolding ListGroups scim_handle.simps discard_def list_scim_groups_def Let_def
    by (intro preserves_thn [OF _ preserves_ret] frame_scim_tenant preserves_intros)
qed

interpretation scim: keeps_invariant "tenant_frame tid own ownr s0"
  "{h. \<exists>env now header req. h = scim_handle env now (Some tid) header req}" for tid own ownr s0
  by unfold_locales (auto intro: frame_handle)

text \<open>Every endpoint starts with the token.\<close>

lemma get_scim_tenant_Inr:
  assumes "get_scim_tenant env now (Some tid) header s = (Inr t, s')"
  shows "prefix ''Bearer '' header \<and> t \<in> set (tenants s) \<and> tn_id t = tid \<and> tn_is_active t \<and>
    (\<exists>c \<in> set (scim_configs s). sc_tenant_id c = tid \<and> sc_is_active c \<and>
       sc_token_hash c = sha256_hex env (drop 7 header) \<and>
       s' = put_scim_config (c\<lparr>sc_last_used_at := Some now\<rparr>) s)"
  using assms
  by (auto simp: get_scim_tenant_def dest: scalar_one_or_none_filter_Some split: handler_splits)

lemma scim_handle_token:
  assumes "scim_handle env now (Some tid) header req s = (Inr x, s')"
  shows "\<exists>t u. get_scim_tenant env now (Some tid) header s = (Inr t, u)"
  using assms
  by (cases req)
    (auto simp: discard_def list_scim_users_def get_scim_user_def create_scim_user_def replace_scim_user_def
      patch_scim_user_def delete_scim_user_def list_scim_groups_def patch_scim_group_def
      simp del: run_bnd run_thn elim!: bnd_InrE thn_InrE)

text \<open>C33: In a database that meets its constraints and whose identifiers are fresh, a SCIM request
  changes anything only with the current token of an active tenant, and whatever it does, the other
  tenants keep their users, their roles and the assignments of their roles, and the sessions and API
  keys of their users; and no credential at all is touched. (A role of its own the tenant may assign
  to any identifier of a user.)\<close>

theorem scim_isolated:
  assumes "constraints s" and "fresh_ids s"
    and "get_db (scim_handle env now (Some tid) header req) s = (r, s')"
  shows "(s' \<noteq> s \<longrightarrow> (\<exists>c \<in> set (scim_configs s). sc_tenant_id c = tid \<and> sc_is_active c \<and>
       sc_token_hash c = sha256_hex env (drop 7 header)) \<and>
       (\<exists>t \<in> set (tenants s). tn_id t = tid \<and> tn_is_active t)) \<and>
    filter (\<lambda>u. us_tenant_id u \<noteq> tid) (users s') = filter (\<lambda>u. us_tenant_id u \<noteq> tid) (users s) \<and>
    filter (\<lambda>r. ro_tenant_id r \<noteq> tid) (roles s') = filter (\<lambda>r. ro_tenant_id r \<noteq> tid) (roles s) \<and>
    local_credentials s' = local_credentials s \<and>
    (let foreign = ro_id ` {r \<in> set (roles s). ro_tenant_id r \<noteq> tid} in
       filter (\<lambda>a. ra_role_id a \<in> foreign) (role_assignments s') =
       filter (\<lambda>a. ra_role_id a \<in> foreign) (role_assignments s)) \<and>
    (let foreign = us_id ` {u \<in> set (users s). us_tenant_id u \<noteq> tid} in
       filter (\<lambda>x. se_user_id x \<in> foreign) (user_sessions s') = filter (\<lambda>x. se_user_id x \<in> foreign) (user_sessions s) \<and>
       filter (\<lambda>k. ak_user_id k \<in> foreign) (api_keys s') = filter (\<lambda>k. ak_user_id k \<in> foreign) (api_keys s))"
proof -
  define own where "own i \<longleftrightarrow> i \<notin> us_id ` {u \<in> set (users s). us_tenant_id u \<noteq> tid}" for i
  define ownr where "ownr i \<longleftrightarrow> i \<notin> ro_id ` {r \<in> set (roles s). ro_tenant_id r \<noteq> tid}" for i
  have keys: "unique_by us_id (users s)" "unique_by ro_id (roles s)" using assms(1) by (simp_all add: constraints_def)
  have "own (us_id u) \<longleftrightarrow> us_tenant_id u = tid" if "u \<in> set (users s)" for u
    using that keys(1) unique_by_same_key [of us_id "users s" u] by (auto simp: own_def)
  moreover have "ownr (ro_id r) \<longleftrightarrow> ro_tenant_id r = tid" if "r \<in> set (roles s)" for r
    using that keys(2) unique_by_same_key [of ro_id "roles s" r] by (auto simp: ownr_def)
  moreover have "own i \<and> ownr i" if "i \<ge> next_uuid s" for i
    using that assms(2) by (auto simp: own_def ownr_def fresh_ids_def)
  ultimately have "tenant_frame tid own ownr s s" by (simp add: tenant_frame_def)
  then have "tenant_frame tid own ownr s (snd (get_db (scim_handle env now (Some tid) header req) s))"
    by (intro scim.request_keeps) blast
  then have "tenant_frame tid own ownr s s'" using assms(3) by simp
  moreover have "(\<exists>c \<in> set (scim_configs s). sc_tenant_id c = tid \<and> sc_is_active c \<and>
       sc_token_hash c = sha256_hex env (drop 7 header)) \<and>
       (\<exists>t \<in> set (tenants s). tn_id t = tid \<and> tn_is_active t)" if changed: "s' \<noteq> s"
  proof -
    obtain x where "scim_handle env now (Some tid) header req s = (Inr x, s')"
      using get_db_changed [OF assms(3) changed] by blast
    from scim_handle_token [OF this]
    obtain t u where "get_scim_tenant env now (Some tid) header s = (Inr t, u)" by blast
    from get_scim_tenant_Inr [OF this] show ?thesis by blast
  qed
  ultimately show ?thesis
    by (simp add: tenant_frame_def own_def ownr_def Let_def)
qed

text \<open>The value to which an operation of a PATCH sets \<open>active\<close>, if it sets it: an operation with the
  path \<open>active\<close>, or one without a path whose value is a dict with that key.\<close>

definition sets_active :: "json \<Rightarrow> json option" where
  "sets_active op_json =
     (case op_json of
        JObj op \<Rightarrow>
          (let path = dict_get_or op ''path'' (JStr ''''); val = dict_get_or op ''value'' JNull;
               from_value = (case val of JObj d \<Rightarrow> dict_get_or d ''active'' (JBool True)
                             | JBool b \<Rightarrow> val | _ \<Rightarrow> JBool True)
           in if path = JStr ''active'' then Some from_value
              else if \<not> truthy path \<and> (case val of JObj d \<Rightarrow> dict_get d ''active'' \<noteq> None | _ \<Rightarrow> False)
              then Some from_value else None)
      | _ \<Rightarrow> None)"

definition all_revoked :: "uuid \<Rightarrow> db \<Rightarrow> bool" where
  "all_revoked uid s \<longleftrightarrow>
     (\<forall>x \<in> set (user_sessions s). se_user_id x = uid \<longrightarrow> se_revoked_at x \<noteq> None) \<and>
     (\<forall>k \<in> set (api_keys s). ak_user_id k = uid \<longrightarrow> ak_revoked_at k \<noteq> None)"

definition only_row :: "user \<Rightarrow> db \<Rightarrow> bool" where
  "only_row u s \<longleftrightarrow> unique_by us_id (users s) \<and> filter (\<lambda>v. us_id v = us_id u) (users s) = [u]"

lemma only_row_put: "only_row u s \<Longrightarrow> us_id u' = us_id u \<Longrightarrow> only_row u' (put_user u' s)"
  unfolding only_row_def put_user_def
  by (elim conjE, frule (1) filter_put_row_one [where r = u']) simp_all

lemma all_revoked_put [simp]: "all_revoked uid (put_user u s) = all_revoked uid s"
  by (simp add: all_revoked_def put_user_def)

lemma db_bool_truthy: "db_bool v = Inr b \<Longrightarrow> b = truthy v"
  by (auto simp: db_bool_def split: json.splits if_splits)

lemma all_revoked_after: "all_revoked i (revoke_api_keys_of i now (revoke_sessions_of i now s))"
  unfolding all_revoked_def
proof (intro conjI ballI impI)
  fix x assume x: "x \<in> set (user_sessions (revoke_api_keys_of i now (revoke_sessions_of i now s)))" "se_user_id x = i"
  then have "x \<in> set (update_where (\<lambda>x. se_user_id x = i \<and> se_revoked_at x = None)
      (\<lambda>x. x\<lparr>se_revoked_at := Some now\<rparr>) (user_sessions s))"
    by (simp add: revoke_api_keys_of_def revoke_sessions_of_def)
  from in_update_where [OF this] consider r where "x = r\<lparr>se_revoked_at := Some now\<rparr>"
    | "\<not> (se_user_id x = i \<and> se_revoked_at x = None)" by blast
  then show "se_revoked_at x \<noteq> None" by cases (use x(2) in simp_all)
next
  fix k assume k: "k \<in> set (api_keys (revoke_api_keys_of i now (revoke_sessions_of i now s)))" "ak_user_id k = i"
  then have "k \<in> set (update_where (\<lambda>k. ak_user_id k = i \<and> ak_revoked_at k = None)
      (\<lambda>k. k\<lparr>ak_revoked_at := Some now\<rparr>) (api_keys s))"
    by (simp add: revoke_api_keys_of_def revoke_sessions_of_def)
  from in_update_where [OF this] consider r where "k = r\<lparr>ak_revoked_at := Some now\<rparr>"
    | "\<not> (ak_user_id k = i \<and> ak_revoked_at k = None)" by blast
  then show "ak_revoked_at k \<noteq> None" by cases (use k(2) in simp_all)
qed

lemma set_active_effect:
  assumes "set_active now u v s = (Inr u', s')" and "only_row u s"
  shows "only_row u' s' \<and> u' = u\<lparr>us_is_active := truthy v\<rparr> \<and>
    (all_revoked (us_id u) s \<or> \<not> truthy v \<longrightarrow> all_revoked (us_id u) s')"
proof -
  let ?u = "u\<lparr>us_is_active := truthy v\<rparr>"
  obtain b where b: "db_bool v = Inr b" using assms(1) by (cases "db_bool v") (simp_all add: set_active_def)
  note bt = db_bool_truthy [OF b]
  have row: "only_row ?u (put_user ?u s)" by (rule only_row_put [OF assms(2)]) simp
  then have "only_row ?u (revoke_api_keys_of i now (revoke_sessions_of i now (put_user ?u s)))" for i
    by (simp add: only_row_def revoke_api_keys_of_def revoke_sessions_of_def)
  then have off: "only_row ?u (revoke_api_keys_of i now (revoke_sessions_of i now (put_user ?u s)))"
    "all_revoked i (revoke_api_keys_of i now (revoke_sessions_of i now s1))" for i s1
    using all_revoked_after by blast+
  have "set_active now u v s = (Inr ?u, if truthy v then put_user ?u s
      else revoke_api_keys_of (us_id u) now (revoke_sessions_of (us_id u) now (put_user ?u s)))"
    by (simp add: set_active_def b bt Let_def py_when_def)
  with assms(1) have "u' = ?u" "s' = (if truthy v then put_user ?u s
      else revoke_api_keys_of (us_id u) now (revoke_sessions_of (us_id u) now (put_user ?u s)))" by simp_all
  then show ?thesis using row off by (cases "truthy v") simp_all
qed

lemma patch_op_effect:
  assumes "patch_op env now u op s = (Inr u', s')" and "only_row u s"
  shows "only_row u' s' \<and> us_id u' = us_id u \<and> us_tenant_id u' = us_tenant_id u \<and>
    us_is_active u' = (case sets_active op of None \<Rightarrow> us_is_active u | Some v \<Rightarrow> truthy v) \<and>
    (all_revoked (us_id u) s \<or> (case sets_active op of None \<Rightarrow> False | Some v \<Rightarrow> \<not> truthy v) \<longrightarrow>
      all_revoked (us_id u) s')"
proof -
  obtain d where d: "op = JObj d" using assms(1) by (cases op) (simp_all add: patch_op_def)
  let ?path = "dict_get_or d ''path'' (JStr '''')" and ?val = "dict_get_or d ''value'' JNull"
  let ?in = "case ?val of JObj e \<Rightarrow> dict_get e ''active'' | _ \<Rightarrow> None"
  show ?thesis
  proof (cases "?path = JStr ''active'' \<or> \<not> truthy ?path \<and> ?in \<noteq> None")
    case True
    define v where "v = (case ?val of JObj e \<Rightarrow> dict_get_or e ''active'' (JBool True) | JBool b \<Rightarrow> ?val | _ \<Rightarrow> JBool True)"
    have "sets_active op = Some v"
      using True by (auto simp: sets_active_def d v_def Let_def split: json.splits)
    moreover have "set_active now u v s = (Inr u', s')"
      using assms(1) True by (auto simp: patch_op_def d v_def Let_def split: json.splits if_splits)
    from set_active_effect [OF this assms(2)] have "only_row u' s' \<and> u' = u\<lparr>us_is_active := truthy v\<rparr> \<and>
      (all_revoked (us_id u) s \<or> \<not> truthy v \<longrightarrow> all_revoked (us_id u) s')" .
    ultimately show ?thesis by auto
  next
    case False
    then have none: "sets_active op = None"
      by (auto simp: sets_active_def d Let_def split: json.splits)
    from assms(1) False have "u' = u \<and> s' = s \<or>
        us_id u' = us_id u \<and> us_tenant_id u' = us_tenant_id u \<and> us_is_active u' = us_is_active u \<and> s' = put_user u' s"
      unfolding patch_op_def d Let_def by (auto split: if_splits json.splits)
    with none assms(2) only_row_put [OF assms(2), of u'] show ?thesis by auto
  qed
qed

lemma patch_ops_effect:
  assumes "patch_ops env now u ops s = (Inr u', s')" and "only_row u s"
  shows "only_row u' s' \<and> us_id u' = us_id u \<and> us_tenant_id u' = us_tenant_id u \<and>
    us_is_active u' = List.last (us_is_active u # map truthy (List.map_filter sets_active ops)) \<and>
    (all_revoked (us_id u) s \<or> False \<in> truthy ` set (List.map_filter sets_active ops) \<longrightarrow>
      all_revoked (us_id u) s')"
  using assms
proof (induction ops arbitrary: u s)
  case Nil
  then show ?case by (simp add: map_filter_def)
next
  case (Cons op ops)
  from Cons.prems(1) obtain u1 s1 where one: "patch_op env now u op s = (Inr u1, s1)"
    and rest: "patch_ops env now u1 ops s1 = (Inr u', s')"
    by (auto split: prod.splits sum.splits)
  note e = patch_op_effect [OF one Cons.prems(2)]
  from e have "only_row u1 s1" by blast
  from Cons.IH [OF rest this] e show ?case
    by (cases "sets_active op") (auto simp: map_filter_simps)
qed

text \<open>C34: Deprovisioning. In a database that meets its constraints, take a PATCH of a user that returns
  and whose operations set \<open>active\<close> at least once, each by the path \<open>active\<close> or, without a path, by a dict
  with that key. Then the user is of the tenant, and is active afterwards exactly if the last of the
  settings is not false. If any of them is false, every session and every API key of the user is revoked.\<close>

theorem scim_deprovision:
  assumes "get_db (patch_scim_user env now (Some tid) header (Some uid) body) s = (Inr u, s')"
    and "constraints s" and "dict_get_or body ''Operations'' (JArr []) = JArr ops"
    and "List.map_filter sets_active ops \<noteq> []"
  shows "filter (\<lambda>v. us_id v = uid) (users s') = [u] \<and> us_tenant_id u = tid \<and>
    us_is_active u = truthy (List.last (List.map_filter sets_active ops)) \<and>
    ((\<exists>v \<in> set (List.map_filter sets_active ops). \<not> truthy v) \<longrightarrow>
      (\<forall>x \<in> set (user_sessions s'). se_user_id x = uid \<longrightarrow> se_revoked_at x \<noteq> None) \<and>
      (\<forall>k \<in> set (api_keys s'). ak_user_id k = uid \<longrightarrow> ak_revoked_at k \<noteq> None))"
proof -
  from assms(1) have run: "patch_scim_user env now (Some tid) header (Some uid) body s = (Inr u, s')"
    by (auto dest: get_db_InrD)
  from run [unfolded patch_scim_user_def]
  obtain t s1 where t: "get_scim_tenant env now (Some tid) header s = (Inr t, s1)"
    and rest: "bnd (scim_user t (Some uid)) (\<lambda>u. bnd (lift_err (json_iter (dict_get_or body ''Operations'' (JArr []))))
        (\<lambda>ops. patch_ops env now u ops)) s1 = (Inr u, s')"
    by (rule bnd_InrE) blast
  from get_scim_tenant_Inr [OF t] have tid: "tn_id t = tid" and users1: "users s1 = users s"
    by (auto simp: put_scim_config_def)
  from rest obtain v where v: "scalar_one_or_none (filter (\<lambda>u. us_id u = uid \<and> us_tenant_id u = tn_id t) (users s1)) = Inr (Some v)"
    and ops: "patch_ops env now v ops s1 = (Inr u, s')"
    by (auto simp: scim_user_def assms(3) json_iter_def split: handler_splits)
  note v' = scalar_one_or_none_filter_Some [OF v]
  have "unique_by us_id (users s1)" using assms(2) by (simp add: constraints_def users1)
  then have "only_row v s1"
    using v' unique_by_filter_key [of us_id "users s1" v] by (simp add: only_row_def)
  from patch_ops_effect [OF ops this] v' tid assms(4) show ?thesis
    by (auto simp: only_row_def all_revoked_def last_map image_iff)
qed

text \<open>DELETE and PUT deactivate the user and leave its sessions and API keys alive.\<close>

lemma delete_leaves_sessions:
  "user_sessions (snd (get_db (delete_scim_user env now tid header uid) s)) = user_sessions s \<and>
   api_keys (snd (get_db (delete_scim_user env now tid header uid) s)) = api_keys s"
  by (auto simp: get_db_def delete_scim_user_def get_scim_tenant_def put_scim_config_def split: handler_splits)

text \<open>The filter the identity provider uses to find a user is never applied.\<close>

lemma filter_never_applied: "\<not> sublist ''userName eq'' (str_lower f)"
proof -
  have "CHR ''N'' \<in> set ''userName eq''" "is_upper (CHR ''N'')" by code_simp+
  then show ?thesis by (rule upper_not_sublist_lower)
qed

text \<open>Creating a token takes an administrator and retires the tenant's earlier tokens: afterwards
  the tenant has exactly one active configuration, that of the new token, and those of the other
  tenants are unchanged.\<close>

theorem scim_token_rotation:
  assumes "get_db (create_scim_token env now raw auth) s = (Inr x, s')"
  shows "''admin:*'' \<in> ac_permissions auth \<and>
    map sc_token_hash (filter (\<lambda>c. sc_tenant_id c = ac_tenant_id auth \<and> sc_is_active c) (scim_configs s')) =
      [sha256_hex env raw] \<and>
    filter (\<lambda>c. sc_tenant_id c \<noteq> ac_tenant_id auth) (scim_configs s') =
      filter (\<lambda>c. sc_tenant_id c \<noteq> ac_tenant_id auth) (scim_configs s)"
proof -
  let ?old = "update_where (\<lambda>c. sc_tenant_id c = ac_tenant_id auth) (\<lambda>c. c\<lparr>sc_is_active := False\<rparr>) (scim_configs s)"
  from assms have admin: "''admin:*'' \<in> ac_permissions auth"
    and s': "scim_configs s' = ?old @ [\<lparr> sc_id = next_uuid s, sc_tenant_id = ac_tenant_id auth,
       sc_token_hash = sha256_hex env raw, sc_is_active = True, sc_last_used_at = None,
       sc_created_by = Some (ac_user_id auth), sc_created_at = now \<rparr>]"
    by (auto simp: create_scim_token_def dest!: get_db_InrD split: if_splits)
  have "filter (\<lambda>c. sc_tenant_id c = ac_tenant_id auth \<and> sc_is_active c) ?old = []"
    by (auto simp: filter_empty_conv set_update_where)
  moreover have "filter (\<lambda>c. sc_tenant_id c \<noteq> ac_tenant_id auth) ?old =
      filter (\<lambda>c. sc_tenant_id c \<noteq> ac_tenant_id auth) (scim_configs s)"
    by (rule filter_update_where_other) simp
  ultimately show ?thesis using admin s' by simp
qed


section \<open>Witnesses\<close>

definition example_scim_db :: db where
  "example_scim_db = empty_db\<lparr>
     tenants := [new_tenant 1 0 ''acme'' ''Acme'' None],
     users := [new_user 7 0 1 ''a@x.io'', new_user 8 0 2 ''b@y.io''],
     user_sessions := [new_user_session 10 0 7 1 None None 1000,
                       new_user_session 11 0 8 2 None None 1000],
     scim_configs := [\<lparr> sc_id = 12, sc_tenant_id = 1, sc_token_hash = ''ht'', sc_is_active = True,
       sc_last_used_at = None, sc_created_by = None, sc_created_at = 0 \<rparr>],
     next_uuid := 20\<rparr>"

definition example_admin :: auth_context where
  "example_admin = \<lparr> ac_user_id = 7, ac_tenant_id = 1, ac_email = JStr ''a@x.io'', ac_roles = [],
                     ac_permissions = {''admin:*''} \<rparr>"

lemmas example_scim_defs = example_scim_db_def example_env_def example_admin_def empty_db_def
  new_user_def new_user_session_def new_tenant_def

lemma example_scim_db_ok: "constraints example_scim_db \<and> fresh_ids example_scim_db"
  by (simp add: example_scim_defs constraints_def unique_by_def fresh_ids_def user_email_key_def)

theorem scim_isolated_witness:
  "\<exists>x s'. get_db (scim_handle example_env 5 (Some 1) ''Bearer t'' (DeleteUser (Some 7))) example_scim_db
       = (Inr x, s') \<and> s' \<noteq> example_scim_db \<and>
     filter (\<lambda>u. us_tenant_id u \<noteq> 1) (users s') = [new_user 8 0 2 ''b@y.io''] \<and>
     local_credentials s' = []"
proof -
  have "case get_db (scim_handle example_env 5 (Some 1) ''Bearer t'' (DeleteUser (Some 7))) example_scim_db
     of (Inl e, s') \<Rightarrow> False | (Inr x, s') \<Rightarrow> map us_is_active (users s') = [False, True]"
    by code_simp
  then obtain x s' where run: "get_db (scim_handle example_env 5 (Some 1) ''Bearer t'' (DeleteUser (Some 7)))
      example_scim_db = (Inr x, s')" and "map us_is_active (users s') = [False, True]"
    by (auto split: prod.splits sum.splits)
  then have "s' \<noteq> example_scim_db" by (auto simp: example_scim_defs)
  with run scim_isolated [OF _ _ run] example_scim_db_ok show ?thesis
    by (simp add: example_scim_defs)
qed

text \<open>A body of two operations, the second one without a path.\<close>

definition deactivate :: py_dict where
  "deactivate = [(''Operations'', JArr
     [JObj [(''op'', JStr ''replace''), (''path'', JStr ''active''), (''value'', JBool True)],
      JObj [(''op'', JStr ''replace''), (''value'', JObj [(''active'', JBool False)])]])]"

theorem scim_deprovision_witness:
  "\<exists>u s'. get_db (patch_scim_user example_env 5 (Some 1) ''Bearer t'' (Some 7) deactivate) example_scim_db
       = (Inr u, s') \<and> us_id u = 7 \<and> \<not> us_is_active u \<and>
     map se_revoked_at (filter (\<lambda>x. se_user_id x = 7) (user_sessions s')) \<noteq> [None]"
proof -
  let ?ops = "[JObj [(''op'', JStr ''replace''), (''path'', JStr ''active''), (''value'', JBool True)],
      JObj [(''op'', JStr ''replace''), (''value'', JObj [(''active'', JBool False)])]]"
  have "case get_db (patch_scim_user example_env 5 (Some 1) ''Bearer t'' (Some 7) deactivate) example_scim_db
     of (Inl e, s') \<Rightarrow> False | (Inr u, s') \<Rightarrow> us_id u = 7"
    by code_simp
  then obtain u s' where run: "get_db (patch_scim_user example_env 5 (Some 1) ''Bearer t'' (Some 7) deactivate)
      example_scim_db = (Inr u, s')" and id: "us_id u = 7"
    by (auto split: prod.splits sum.splits)
  have ops: "dict_get_or deactivate ''Operations'' (JArr []) = JArr ?ops"
    by (simp add: deactivate_def dict_get_or_def)
  have settings: "List.map_filter sets_active ?ops = [JBool True, JBool False]" by code_simp
  have "constraints example_scim_db" using example_scim_db_ok by blast
  from scim_deprovision [OF run this ops, unfolded settings]
  have off: "\<not> us_is_active u" "\<forall>x \<in> set (user_sessions s'). se_user_id x = 7 \<longrightarrow> se_revoked_at x \<noteq> None"
    by simp_all
  from off(2) have "map se_revoked_at (filter (\<lambda>x. se_user_id x = 7) (user_sessions s')) \<noteq> [None]"
    by (auto simp: map_eq_Cons_conv filter_eq_Cons_iff)
  with run id off(1) show ?thesis by blast
qed

theorem scim_token_rotation_witness:
  "\<exists>x s'. get_db (create_scim_token example_env 5 ''n'' example_admin) example_scim_db = (Inr x, s') \<and>
     map sc_token_hash (filter (\<lambda>c. sc_tenant_id c = 1 \<and> sc_is_active c) (scim_configs s')) = [''hn'']"
proof -
  have "case get_db (create_scim_token example_env 5 ''n'' example_admin) example_scim_db
     of (Inl e, s') \<Rightarrow> False | (Inr u, s') \<Rightarrow> True"
    by code_simp
  then obtain x s' where run: "get_db (create_scim_token example_env 5 ''n'' example_admin)
      example_scim_db = (Inr x, s')"
    by (auto split: prod.splits sum.splits)
  with scim_token_rotation [OF run] show ?thesis by (simp add: example_admin_def example_env_def)
qed

end
