(* ===== verification/Graph_Store.thy ===== *)
theory Graph_Store
  imports Taxonomy
begin

text \<open>
  \<open>graph/backends\<close>: the graph database of a tenant and the statements that write it.

  A store is a property graph: vertices as in \<open>Taxonomy\<close> and relationships with properties. The
  statements of the source have three shapes, \<open>MERGE\<close> of a node by its pattern, \<open>MERGE\<close> of a
  relationship between matched nodes, and \<open>MATCH\<close>; they are given Cypher's documented meaning. A
  null value removes a property, a map is no property value, a failing statement changes nothing.
  Labels are interpolated into the text of a statement: with a label that is no identifier the text
  is another statement, whose effect is the parameter \<open>run_other\<close>.

  Not modelled: the drivers' connections beyond whether they can be made, Neptune's signed requests.
\<close>

section \<open>Property maps\<close>

definition scalar_kind :: "json \<Rightarrow> nat option" where
  "scalar_kind v = (case v of JBool b \<Rightarrow> Some 0 | JInt i \<Rightarrow> Some 1 | JNum q \<Rightarrow> Some 1 | JStr s \<Rightarrow> Some 2 | _ \<Rightarrow> None)"

text \<open>What a property can hold: a scalar, or a list of scalars of one kind; null clears it.\<close>

definition storable :: "json \<Rightarrow> bool" where
  "storable v =
     (case v of
        JObj d \<Rightarrow> False
      | JArr [] \<Rightarrow> True
      | JArr (x # xs) \<Rightarrow> scalar_kind x \<noteq> None \<and> list_all (\<lambda>y. scalar_kind y = scalar_kind x) xs
      | _ \<Rightarrow> True)"

definition set_prop :: "string \<Rightarrow> json \<Rightarrow> py_dict \<Rightarrow> py_dict" where
  "set_prop k v ps = (if v = JNull then filter (\<lambda>e. fst e \<noteq> k) ps else dict_set k v ps)"

definition type_error :: py_error where
  "type_error = OtherError ''CypherTypeError''"

text \<open>\<open>SET n += map\<close>, and \<open>SET n = map\<close> as \<open>add_props map []\<close>.\<close>

definition add_props :: "py_dict \<Rightarrow> py_dict \<Rightarrow> py_error + py_dict" where
  "add_props new ps =
     (if list_all (\<lambda>(k, v). storable v) new then Inr (fold (\<lambda>(k, v). set_prop k v) new ps) else Inl type_error)"

lemma map_of_removed: "map_of (filter (\<lambda>e. fst e \<noteq> k) ps) k' = (if k' = k then None else map_of ps k')"
  by (induction ps) auto

lemma dict_get_set_prop [simp]:
  "dict_get (set_prop k v ps) k' = (if k' = k then (if v = JNull then None else Some v) else dict_get ps k')"
  by (auto simp: set_prop_def dict_get_def map_of_dict_set map_of_removed)

text \<open>\<open>{**d, k: v}\<close>; a property map has no order.\<close>

definition dict_with :: "string \<Rightarrow> json \<Rightarrow> py_dict \<Rightarrow> py_dict" where
  "dict_with k v d = filter (\<lambda>e. fst e \<noteq> k) d @ [(k, v)]"

section \<open>Stores and the MERGE statements\<close>

record grel =
  gr_type :: string
  gr_from :: nat
  gr_to :: nat
  gr_props :: py_dict

record gstore =
  gs_nodes :: "vertex list"
  gs_rels :: "grel list"
  gs_next :: nat

definition empty_store :: gstore where
  "empty_store = \<lparr>gs_nodes = [], gs_rels = [], gs_next = 0\<rparr>"

text \<open>A node pattern: a label, when there is one, and the properties it asks for.\<close>

definition matches :: "string option \<Rightarrow> py_dict \<Rightarrow> vertex \<Rightarrow> bool" where
  "matches label pat n \<longleftrightarrow>
     (case label of None \<Rightarrow> True | Some l \<Rightarrow> l \<in> set (vx_labels n)) \<and>
     list_all (\<lambda>(k, v). v \<noteq> JNull \<and> dict_get (vx_props n) k = Some v) pat"

fun update_matching ::
  "(vertex \<Rightarrow> bool) \<Rightarrow> (py_dict \<Rightarrow> py_error + py_dict) \<Rightarrow> vertex list \<Rightarrow> py_error + vertex list" where
  "update_matching p upd [] = Inr []"
| "update_matching p upd (n # ns) =
     (case (if p n then upd (vx_props n) else Inr (vx_props n)) of
        Inl e \<Rightarrow> Inl e
      | Inr ps \<Rightarrow> map_sum id (\<lambda>ns'. n\<lparr>vx_props := ps\<rparr> # ns') (update_matching p upd ns))"

text \<open>
  \<open>MERGE (n:label {pat}) ON CREATE SET create ON MATCH SET upd\<close>, with the number of nodes it
  binds.
\<close>

definition merge_node ::
  "string \<Rightarrow> py_dict \<Rightarrow> (py_dict \<Rightarrow> py_error + py_dict) \<Rightarrow> (py_dict \<Rightarrow> py_error + py_dict) \<Rightarrow>
   gstore \<Rightarrow> py_error + nat \<times> gstore" where
  "merge_node label pat create upd g =
     (if \<not> list_all (\<lambda>(k, v). v \<noteq> JNull \<and> storable v) pat then Inl type_error
      else let hits = filter (matches (Some label) pat) (gs_nodes g)
           in if hits = [] then
                map_sum id (\<lambda>ps. (1, g\<lparr>gs_nodes := gs_nodes g @
                    [\<lparr>vx_id = gs_next g, vx_labels = [label], vx_props = ps\<rparr>], gs_next := Suc (gs_next g)\<rparr>))
                  (create pat)
              else map_sum id (\<lambda>ns. (length hits, g\<lparr>gs_nodes := ns\<rparr>))
                (update_matching (matches (Some label) pat) upd (gs_nodes g)))"

text \<open>\<open>MERGE (a)-[r:type]->(b) SET r += props\<close>, for two bound nodes.\<close>

definition merge_rel :: "string \<Rightarrow> py_dict \<Rightarrow> nat \<times> nat \<Rightarrow> grel list \<Rightarrow> py_error + grel list" where
  "merge_rel type props = (\<lambda>(a, b) rs.
     (if \<not> list_all (\<lambda>(k, v). storable v) props then Inl type_error
      else let is_it = (\<lambda>r. gr_type r = type \<and> gr_from r = a \<and> gr_to r = b);
               put = fold (\<lambda>(k, v). set_prop k v) props
           in if list_ex is_it rs then Inr (update_where is_it (\<lambda>r. r\<lparr>gr_props := put (gr_props r)\<rparr>) rs)
              else Inr (rs @ [\<lparr>gr_type = type, gr_from = a, gr_to = b, gr_props = put []\<rparr>])))"

fun merge_rels :: "string \<Rightarrow> py_dict \<Rightarrow> (nat \<times> nat) list \<Rightarrow> grel list \<Rightarrow> py_error + grel list" where
  "merge_rels type props [] rs = Inr rs"
| "merge_rels type props (p # ps) rs =
     (case merge_rel type props p rs of Inl e \<Rightarrow> Inl e | Inr rs' \<Rightarrow> merge_rels type props ps rs')"

section \<open>Backends\<close>

datatype graph_backend =
    Neo4jBackend (nb_uri: json) (nb_user: json) (nb_password: json)
  | NeptuneBackend (np_endpoint: json) (np_region: json) (np_use_iam: json)

record graph_env =
  ge_NEO4J_URI :: "string option"
  ge_NEO4J_USER :: "string option"
  ge_NEO4J_PASSWORD :: "string option"
  ge_NEPTUNE_ENDPOINT :: "string option"
  ge_AWS_REGION :: "string option"
  client_connected :: bool
  connects :: "graph_backend \<Rightarrow> bool"
  store_of :: "graph_backend \<Rightarrow> nat"
  run_other :: "string \<Rightarrow> py_dict \<Rightarrow> gstore \<Rightarrow> gstore option"

definition getenv :: "string option \<Rightarrow> string \<Rightarrow> json" where
  "getenv v dflt = JStr (case v of None \<Rightarrow> dflt | Some x \<Rightarrow> x)"

definition get_backend_for_tenant :: "graph_env \<Rightarrow> string \<Rightarrow> py_dict \<Rightarrow> py_error + graph_backend" where
  "get_backend_for_tenant genv backend_type config =
     (if backend_type \<in> {''neo4j'', ''auradb''} then
        Inr (Neo4jBackend
          (dict_get_or config ''uri'' (getenv (ge_NEO4J_URI genv) ''bolt://localhost:7687''))
          (dict_get_or config ''user'' (getenv (ge_NEO4J_USER genv) ''neo4j''))
          (dict_get_or config ''password'' (getenv (ge_NEO4J_PASSWORD genv) ''dgraphai-local'')))
      else if backend_type = ''neptune'' then
        (let region = dict_get_or config ''region'' (getenv (ge_AWS_REGION genv) ''us-east-1'')
         in Inr (NeptuneBackend
          (dict_get_or config ''endpoint'' (getenv (ge_NEPTUNE_ENDPOINT genv) ''''))
          (if truthy region then region else getenv (ge_AWS_REGION genv) ''us-east-1'')
          (dict_get_or config ''use_iam'' (JBool True))))
      else Inl (ValueError ''Unknown graph backend''))"

text \<open>The database of the application's own client, \<open>GraphClient\<close>.\<close>

definition client_backend :: "graph_env \<Rightarrow> graph_backend" where
  "client_backend genv =
     Neo4jBackend (getenv (ge_NEO4J_URI genv) ''bolt://localhost:7687'') (getenv (ge_NEO4J_USER genv) ''neo4j'')
       (getenv (ge_NEO4J_PASSWORD genv) ''dgraphai-local'')"

definition is_label_char :: "char \<Rightarrow> bool" where
  "is_label_char c \<longleftrightarrow> is_upper c \<or> is_lower c \<or> is_digit c \<or> c = CHR ''_''"

definition is_label :: "string \<Rightarrow> bool" where
  "is_label t \<longleftrightarrow> t \<noteq> [] \<and> \<not> is_digit (hd t) \<and> list_all is_label_char t"

definition run_text :: "graph_env \<Rightarrow> string \<Rightarrow> py_dict \<Rightarrow> gstore \<Rightarrow> py_error + gstore" where
  "run_text genv text params g =
     (case run_other genv text params g of None \<Rightarrow> Inl (OtherError ''Neo4jError'') | Some g' \<Rightarrow> Inr g')"

definition upsert_node ::
  "graph_env \<Rightarrow> string \<Rightarrow> json \<Rightarrow> json \<Rightarrow> string \<Rightarrow> gstore \<Rightarrow> py_error + gstore" where
  "upsert_node genv node_type node_id props tid g =
     (case props of
        JObj d \<Rightarrow>
          (let all_props = dict_with ''tenant_id'' (JStr tid) d
           in if is_label node_type then
                map_sum id snd (merge_node node_type [(''id'', node_id), (''tenant_id'', JStr tid)]
                  (\<lambda>pat. add_props all_props pat) (add_props all_props) g)
              else run_text genv
                (''MERGE (n:'' @ node_type @ '' {id: $id, tenant_id: $tenant_id}) SET n += $props'')
                [(''id'', node_id), (''tenant_id'', JStr tid), (''props'', JObj all_props)] g)
      | _ \<Rightarrow> Inl TypeError)"

text \<open>
  \<open>upsert_rel\<close>: every pair of nodes the two patterns match. (A parameter \<open>props\<close> that is no map
  reaches the database as it is.)
\<close>

definition upsert_rel ::
  "graph_env \<Rightarrow> string \<Rightarrow> json \<Rightarrow> json \<Rightarrow> json \<Rightarrow> string \<Rightarrow> gstore \<Rightarrow> py_error + gstore" where
  "upsert_rel genv rel_type from_id to_id props tid g =
     (let ends = (\<lambda>i. filter (matches None [(''id'', i), (''tenant_id'', JStr tid)]) (gs_nodes g));
          other = run_text genv
            (''MATCH (a {id: $from_id, tenant_id: $tid}) MATCH (b {id: $to_id, tenant_id: $tid}) MERGE (a)-[r:'' @
             rel_type @ '']->(b) SET r += $props'')
            [(''from_id'', from_id), (''to_id'', to_id), (''tid'', JStr tid), (''props'', props)] g
      in case props of
           JObj d \<Rightarrow>
             if is_label rel_type then
               map_sum id (\<lambda>rs. g\<lparr>gs_rels := rs\<rparr>)
                 (merge_rels rel_type d (List.product (map vx_id (ends from_id)) (map vx_id (ends to_id))) (gs_rels g))
             else other
         | _ \<Rightarrow> other)"

text \<open>\<open>stats\<close>: the counts of a tenant, per label and of the relationships between its nodes.\<close>

definition STATS_LABELS :: "string list" where
  "STATS_LABELS = [''File'', ''Directory'', ''Person'', ''FaceCluster'', ''Location'', ''Organization'',
     ''Topic'', ''Application'', ''Vendor'', ''Vulnerability'', ''Certificate'']"

definition backend_stats :: "string \<Rightarrow> gstore \<Rightarrow> (string \<times> nat) list" where
  "backend_stats tid g =
     (let own = (\<lambda>n. dict_get (vx_props n) ''tenant_id'' = Some (JStr tid));
          owned = map vx_id (filter own (gs_nodes g))
      in map (\<lambda>l. (l, length (filter (matches (Some l) [(''tenant_id'', JStr tid)]) (gs_nodes g)))) STATS_LABELS
         @ [(''relationships'',
             length (filter (\<lambda>r. gr_from r \<in> set owned \<and> gr_to r \<in> set owned) (gs_rels g)))])"


section \<open>What the statements leave alone\<close>

lemma dict_get_other [simp]:
  "k \<notin> fst ` set new \<Longrightarrow> dict_get (fold (\<lambda>(k, v). set_prop k v) new ps) k = dict_get ps k"
  by (induction new arbitrary: ps) auto

lemma add_props_get:
  "add_props new ps = Inr ps' \<Longrightarrow> k \<notin> fst ` set new \<Longrightarrow> dict_get ps' k = dict_get ps k"
  by (auto simp: add_props_def split: if_splits)

lemma add_props_with:
  "add_props (dict_with k v d) ps = Inr ps' \<Longrightarrow> v \<noteq> JNull \<Longrightarrow> dict_get ps' k = Some v"
  by (auto simp: add_props_def dict_with_def split: if_splits)

text \<open>The tenant of a node, and what belongs to a tenant: its nodes and their relationships.\<close>

definition owned :: "string \<Rightarrow> vertex \<Rightarrow> bool" where
  "owned tid n \<longleftrightarrow> dict_get (vx_props n) ''tenant_id'' = Some (JStr tid)"

definition touches :: "vertex list \<Rightarrow> grel \<Rightarrow> bool" where
  "touches ns r \<longleftrightarrow> (\<exists>n \<in> set ns. vx_id n = gr_from r \<or> vx_id n = gr_to r)"

definition part :: "string \<Rightarrow> gstore \<Rightarrow> vertex list \<times> grel list" where
  "part tid g = (let ns = filter (owned tid) (gs_nodes g) in (ns, filter (touches ns) (gs_rels g)))"

text \<open>
  A store the statements lead to: identifiers are unique, a node has one label, and no file has an
  \<open>id\<close> or a relationship.
\<close>

definition graph_ok :: "gstore \<Rightarrow> bool" where
  "graph_ok g \<longleftrightarrow>
     distinct (map vx_id (gs_nodes g)) \<and>
     (\<forall>n \<in> set (gs_nodes g). vx_id n < gs_next g \<and> (\<exists>l. vx_labels n = [l]) \<and>
        (vx_labels n = [''File''] \<longrightarrow> dict_get (vx_props n) ''id'' = None)) \<and>
     (\<forall>r \<in> set (gs_rels g). gr_from r < gs_next g \<and> gr_to r < gs_next g) \<and>
     filter (touches (filter (\<lambda>n. vx_labels n = [''File'']) (gs_nodes g))) (gs_rels g) = []"

text \<open>A statement of a tenant: it keeps the store in order and the other tenants' parts as they are.\<close>

definition tenant_write :: "string \<Rightarrow> (gstore \<Rightarrow> py_error + gstore) \<Rightarrow> bool" where
  "tenant_write tid op \<longleftrightarrow>
     (\<forall>g g'. graph_ok g \<longrightarrow> op g = Inr g' \<longrightarrow>
        graph_ok g' \<and> (\<forall>t. t \<noteq> tid \<longrightarrow> part t g' = part t g))"

lemma graph_ok_empty: "graph_ok empty_store"
  by (simp add: graph_ok_def empty_store_def)

definition row_update :: "(vertex \<Rightarrow> bool) \<Rightarrow> (py_dict \<Rightarrow> py_error + py_dict) \<Rightarrow> vertex \<Rightarrow> vertex \<Rightarrow> bool" where
  "row_update p upd n n' \<longleftrightarrow>
     vx_id n' = vx_id n \<and> vx_labels n' = vx_labels n \<and>
     (if p n then upd (vx_props n) = Inr (vx_props n') else n' = n)"

lemma update_matching_rows:
  "update_matching p upd ns = Inr ns' \<Longrightarrow> list_all2 (row_update p upd) ns ns'"
  by (induction ns arbitrary: ns')
    (auto simp: map_sum_def row_update_def split: sum.splits if_splits)

lemma merge_node_cases:
  assumes "merge_node label pat create upd g = Inr (k, g')"
  obtains (created) ps where "filter (matches (Some label) pat) (gs_nodes g) = []" and "create pat = Inr ps"
      and "k = 1" and "g' = g\<lparr>gs_nodes := gs_nodes g @ [\<lparr>vx_id = gs_next g, vx_labels = [label], vx_props = ps\<rparr>],
        gs_next := Suc (gs_next g)\<rparr>"
  | (matched) ns where "update_matching (matches (Some label) pat) upd (gs_nodes g) = Inr ns"
      and "k = length (filter (matches (Some label) pat) (gs_nodes g))" and "k \<noteq> 0" and "g' = g\<lparr>gs_nodes := ns\<rparr>"
  using assms by (auto simp: merge_node_def Let_def map_sum_def split: if_splits sum.splits)

text \<open>Updating a tenant's nodes without changing their tenant.\<close>

lemma list_all2_filter_same:
  assumes "list_all2 r xs ys" and "\<And>x y. r x y \<Longrightarrow> q x \<or> q y \<Longrightarrow> x = y"
  shows "filter q ys = filter q xs"
  using assms(1)
proof (induction rule: list_all2_induct)
  case (Cons x xs y ys)
  then show ?case using assms(2) [of x y] by (cases "q x"; cases "q y") auto
qed simp

lemma list_all2_map_same:
  "list_all2 r xs ys \<Longrightarrow> (\<And>x y. r x y \<Longrightarrow> f y = f x) \<Longrightarrow> map f ys = map f xs"
  by (induction rule: list_all2_induct) auto


lemma list_all2_ball:
  "list_all2 r xs ys \<Longrightarrow> (\<And>x y. r x y \<Longrightarrow> x \<in> set xs \<Longrightarrow> p x \<Longrightarrow> p y) \<Longrightarrow> \<forall>x \<in> set xs. p x \<Longrightarrow> \<forall>y \<in> set ys. p y"
  by (induction rule: list_all2_induct) auto

lemma touches_ids: "map vx_id ns' = map vx_id ns \<Longrightarrow> touches ns' r = touches ns r"
proof -
  assume "map vx_id ns' = map vx_id ns"
  then have "vx_id ` set ns' = vx_id ` set ns" by (metis set_map)
  moreover have "touches xs r \<longleftrightarrow> gr_from r \<in> vx_id ` set xs \<or> gr_to r \<in> vx_id ` set xs" for xs
    by (auto simp: touches_def image_iff) metis+
  ultimately show ?thesis by simp
qed

lemma update_nodes_ok:
  assumes ok: "graph_ok g" and rows: "list_all2 (row_update p upd) (gs_nodes g) ns"
    and keeps: "\<And>n ps. p n \<Longrightarrow> upd (vx_props n) = Inr ps \<Longrightarrow> vx_labels n = [''File''] \<Longrightarrow>
      dict_get (vx_props n) ''id'' = None \<Longrightarrow> dict_get ps ''id'' = None"
  shows "graph_ok (g\<lparr>gs_nodes := ns\<rparr>)"
proof -
  have ids: "map vx_id ns = map vx_id (gs_nodes g)"
    by (rule list_all2_map_same [OF rows]) (simp add: row_update_def)
  have nodes: "\<forall>n \<in> set ns. vx_id n < gs_next g \<and> (\<exists>l. vx_labels n = [l]) \<and>
      (vx_labels n = [''File''] \<longrightarrow> dict_get (vx_props n) ''id'' = None)"
    by (rule list_all2_ball [OF rows])
      (use ok keeps in \<open>auto simp: graph_ok_def row_update_def split: if_splits\<close>)
  have "map vx_id (filter (\<lambda>n. vx_labels n = [''File'']) ns) =
      map vx_id (filter (\<lambda>n. vx_labels n = [''File'']) (gs_nodes g))"
    using rows by (induction rule: list_all2_induct) (auto simp: row_update_def)
  then have "touches (filter (\<lambda>n. vx_labels n = [''File'']) ns) =
      touches (filter (\<lambda>n. vx_labels n = [''File'']) (gs_nodes g))"
    by (intro ext touches_ids)
  with ids nodes ok show ?thesis
    unfolding graph_ok_def by (simp del: filter_empty_conv)
qed

lemma part_update_nodes:
  assumes rows: "list_all2 (row_update p upd) (gs_nodes g) ns"
    and other: "\<And>n. p n \<Longrightarrow> \<not> owned t n"
    and keeps: "\<And>n ps. p n \<Longrightarrow> upd (vx_props n) = Inr ps \<Longrightarrow> dict_get ps ''tenant_id'' \<noteq> Some (JStr t)"
  shows "part t (g\<lparr>gs_nodes := ns\<rparr>) = part t g"
proof -
  have "filter (owned t) ns = filter (owned t) (gs_nodes g)"
    by (rule list_all2_filter_same [OF rows])
      (use other keeps in \<open>auto simp: row_update_def owned_def split: if_splits\<close>)
  then show ?thesis by (simp add: part_def)
qed

lemma create_node_ok:
  assumes "graph_ok g" and "label = ''File'' \<Longrightarrow> dict_get ps ''id'' = None"
  shows "graph_ok (g\<lparr>gs_nodes := gs_nodes g @ [\<lparr>vx_id = gs_next g, vx_labels = [label], vx_props = ps\<rparr>],
           gs_next := Suc (gs_next g)\<rparr>)"
  using assms
  by (fastforce simp: graph_ok_def touches_def filter_empty_conv)

lemma part_create_node:
  "\<not> owned t n \<Longrightarrow> part t (g\<lparr>gs_nodes := gs_nodes g @ [n], gs_next := i\<rparr>) = part t g"
  by (simp add: part_def)

text \<open>A MERGE whose pattern names the tenant is a statement of the tenant.\<close>

lemma merge_node_tenant_write:
  assumes "(''tenant_id'', JStr tid) \<in> set pat"
    and create: "\<And>ps. create pat = Inr ps \<Longrightarrow>
      dict_get ps ''tenant_id'' = Some (JStr tid) \<and> (label = ''File'' \<longrightarrow> dict_get ps ''id'' = None)"
    and upd: "\<And>ps ps'. upd ps = Inr ps' \<Longrightarrow> dict_get ps ''tenant_id'' = Some (JStr tid) \<Longrightarrow>
      dict_get ps' ''tenant_id'' = Some (JStr tid) \<and>
      (label = ''File'' \<longrightarrow> dict_get ps ''id'' = None \<longrightarrow> dict_get ps' ''id'' = None)"
    and ok: "graph_ok g" and run: "merge_node label pat create upd g = Inr (k, g')"
  shows "graph_ok g' \<and> (\<forall>t. t \<noteq> tid \<longrightarrow> part t g' = part t g)"
proof -
  have own: "owned tid n \<and> label \<in> set (vx_labels n)" if "matches (Some label) pat n" for n
    using that assms(1) by (auto simp: matches_def owned_def list_all_iff)
  show ?thesis
    using run
  proof (cases rule: merge_node_cases)
    case (created ps)
    from create [OF created(2)] create_node_ok [OF ok, of label ps] created(4) show ?thesis
      by (auto simp: owned_def intro!: part_create_node)
  next
    case (matched ns)
    note rows = update_matching_rows [OF matched(1)]
    have "graph_ok (g\<lparr>gs_nodes := ns\<rparr>)"
      by (rule update_nodes_ok [OF ok rows]) (use own upd in \<open>fastforce simp: owned_def\<close>)
    moreover have "part t (g\<lparr>gs_nodes := ns\<rparr>) = part t g" if "t \<noteq> tid" for t
      by (rule part_update_nodes [OF rows]) (use own upd that in \<open>fastforce simp: owned_def\<close>)+
    ultimately show ?thesis using matched(4) by simp
  qed
qed


lemma upsert_node_tenant_write:
  assumes "is_label node_type" and "node_type \<noteq> ''File''"
  shows "tenant_write tid (upsert_node genv node_type node_id props tid)"
  unfolding tenant_write_def
proof (intro allI impI)
  fix g g' assume ok: "graph_ok g" and run: "upsert_node genv node_type node_id props tid g = Inr g'"
  then obtain d k where "merge_node node_type [(''id'', node_id), (''tenant_id'', JStr tid)]
      (add_props (dict_with ''tenant_id'' (JStr tid) d)) (add_props (dict_with ''tenant_id'' (JStr tid) d)) g = Inr (k, g')"
    using assms by (auto simp: upsert_node_def map_sum_def Let_def split: json.splits sum.splits)
  then show "graph_ok g' \<and> (\<forall>t. t \<noteq> tid \<longrightarrow> part t g' = part t g)"
    by (rule merge_node_tenant_write [rotated 4]) (use assms ok add_props_with in auto)
qed

lemma merge_rel_other:
  assumes "merge_rel type props (a, b) rs = Inr rs'"
    and "\<And>r. gr_from r = a \<Longrightarrow> gr_to r = b \<Longrightarrow> \<not> q r" and "\<And>r ps. q (r\<lparr>gr_props := ps\<rparr>) = q r"
  shows "filter q rs' = filter q rs \<and> gr_from ` set rs' \<subseteq> insert a (gr_from ` set rs) \<and>
    gr_to ` set rs' \<subseteq> insert b (gr_to ` set rs)"
  using assms
  by (auto simp: merge_rel_def Let_def set_update_where split: if_splits intro!: filter_update_where_other)

lemma merge_rels_other:
  assumes "merge_rels type props ps rs = Inr rs'"
    and "\<And>r. (gr_from r, gr_to r) \<in> set ps \<Longrightarrow> \<not> q r" and "\<And>r d. q (r\<lparr>gr_props := d\<rparr>) = q r"
  shows "filter q rs' = filter q rs \<and> gr_from ` set rs' \<subseteq> fst ` set ps \<union> gr_from ` set rs \<and>
    gr_to ` set rs' \<subseteq> snd ` set ps \<union> gr_to ` set rs"
  using assms(1,2)
proof (induction ps arbitrary: rs)
  case (Cons p ps)
  obtain a b where p: "p = (a, b)" by force
  from Cons.prems obtain rs1 where one: "merge_rel type props (a, b) rs = Inr rs1"
    and rest: "merge_rels type props ps rs1 = Inr rs'"
    by (auto simp: p split: sum.splits)
  have "\<not> q r" if "gr_from r = a" "gr_to r = b" for r
    using Cons.prems(2) that by (simp add: p)
  note here = merge_rel_other [OF one this assms(3)]
  have "\<not> q r" if "(gr_from r, gr_to r) \<in> set ps" for r
    using Cons.prems(2) that by simp
  note later = Cons.IH [OF rest this]
  have "filter q rs' = filter q rs" using here later by simp
  moreover have "gr_from ` set rs' \<subseteq> fst ` set (p # ps) \<union> gr_from ` set rs"
    "gr_to ` set rs' \<subseteq> snd ` set (p # ps) \<union> gr_to ` set rs"
    using here later unfolding p by (simp_all, blast+)
  ultimately show ?case by blast
qed simp

text \<open>Relationships merged between nodes of the tenant, none of them a file, are a statement of the tenant.\<close>

lemma merge_rels_tenant_write:
  assumes ok: "graph_ok g" and rels: "merge_rels rel_type d pairs (gs_rels g) = Inr rs"
    and pairs: "\<And>a b. (a, b) \<in> set pairs \<Longrightarrow> a \<in> vx_id ` set (filter p (gs_nodes g)) \<and> b \<in> vx_id ` set (filter p (gs_nodes g))"
    and own: "\<And>n. n \<in> set (gs_nodes g) \<Longrightarrow> p n \<Longrightarrow> owned tid n \<and> vx_labels n \<noteq> [''File'']"
  shows "graph_ok (g\<lparr>gs_rels := rs\<rparr>) \<and> (\<forall>t. t \<noteq> tid \<longrightarrow> part t (g\<lparr>gs_rels := rs\<rparr>) = part t g)"
proof -
  have same: "m = n" if "m \<in> set (gs_nodes g)" "n \<in> set (gs_nodes g)" "vx_id m = vx_id n" for m n
    using that ok by (auto simp: graph_ok_def distinct_map dest: inj_onD)
  have away: "filter (touches (filter c (gs_nodes g))) rs = filter (touches (filter c (gs_nodes g))) (gs_rels g) \<and>
      gr_from ` set rs \<subseteq> fst ` set pairs \<union> gr_from ` set (gs_rels g) \<and>
      gr_to ` set rs \<subseteq> snd ` set pairs \<union> gr_to ` set (gs_rels g)"
    if c: "\<And>n. c n \<Longrightarrow> \<not> owned tid n \<or> vx_labels n = [''File'']" for c
  proof (rule merge_rels_other [OF rels])
    fix r :: grel assume "(gr_from r, gr_to r) \<in> set pairs"
    from pairs [OF this] obtain a b where "a \<in> set (filter p (gs_nodes g))" "b \<in> set (filter p (gs_nodes g))"
      and r: "gr_from r = vx_id a" "gr_to r = vx_id b" by auto
    then have a: "a \<in> set (gs_nodes g)" "\<not> c a" and b: "b \<in> set (gs_nodes g)" "\<not> c b" using c own by auto
    show "\<not> touches (filter c (gs_nodes g)) r"
      using a b same [of _ a] same [of _ b] by (auto simp: touches_def r)
  qed (simp add: touches_def)
  have "fst ` set pairs \<union> gr_from ` set (gs_rels g) \<subseteq> {..<gs_next g}"
    "snd ` set pairs \<union> gr_to ` set (gs_rels g) \<subseteq> {..<gs_next g}"
    using pairs ok by (fastforce simp: graph_ok_def)+
  with away [of "\<lambda>n. False"] have "gr_from ` set rs \<subseteq> {..<gs_next g} \<and> gr_to ` set rs \<subseteq> {..<gs_next g}"
    by blast
  then have "\<forall>r \<in> set rs. gr_from r < gs_next g \<and> gr_to r < gs_next g"
    by (simp add: image_subset_iff)
  moreover note away [of "\<lambda>n. vx_labels n = [''File'']"]
  moreover have "part t (g\<lparr>gs_rels := rs\<rparr>) = part t g" if "t \<noteq> tid" for t
    using away [of "owned t"] that by (auto simp: part_def owned_def)
  ultimately show ?thesis
    using ok by (auto simp: graph_ok_def)
qed

lemma upsert_rel_tenant_write:
  assumes "is_label rel_type" and "\<exists>d. props = JObj d"
  shows "tenant_write tid (upsert_rel genv rel_type from_id to_id props tid)"
  unfolding tenant_write_def
proof (intro allI impI)
  fix g g' assume ok: "graph_ok g" and run: "upsert_rel genv rel_type from_id to_id props tid g = Inr g'"
  let ?ends = "\<lambda>i. filter (matches None [(''id'', i), (''tenant_id'', JStr tid)]) (gs_nodes g)"
  let ?pairs = "List.product (map vx_id (?ends from_id)) (map vx_id (?ends to_id))"
  let ?p = "\<lambda>n. matches None [(''id'', from_id), (''tenant_id'', JStr tid)] n \<or>
    matches None [(''id'', to_id), (''tenant_id'', JStr tid)] n"
  from assms run obtain d rs where rels: "merge_rels rel_type d ?pairs (gs_rels g) = Inr rs"
    and g': "g' = g\<lparr>gs_rels := rs\<rparr>"
    by (auto simp: upsert_rel_def Let_def map_sum_def split: sum.splits)
  show "graph_ok g' \<and> (\<forall>t. t \<noteq> tid \<longrightarrow> part t g' = part t g)"
    unfolding g'
    by (rule merge_rels_tenant_write [OF ok rels, of ?p])
      (use ok in \<open>auto simp: matches_def owned_def graph_ok_def\<close>)
qed


text \<open>
  The interface \<open>GraphBackend\<close> of \<open>base.py\<close>, and what it promises of isolation: the two upserts of a
  tenant are statements of that tenant.
\<close>

locale tenant_backend =
  fixes put_node :: "string \<Rightarrow> json \<Rightarrow> json \<Rightarrow> string \<Rightarrow> gstore \<Rightarrow> py_error + gstore"
    and put_rel :: "string \<Rightarrow> json \<Rightarrow> json \<Rightarrow> json \<Rightarrow> string \<Rightarrow> gstore \<Rightarrow> py_error + gstore"
  assumes node_write: "is_label ty \<Longrightarrow> ty \<noteq> ''File'' \<Longrightarrow> tenant_write tid (put_node ty i ps tid)"
    and rel_write: "is_label ty \<Longrightarrow> tenant_write tid (put_rel ty i j (JObj d) tid)"

interpretation backend: tenant_backend "upsert_node genv" "upsert_rel genv" for genv
  by unfold_locales (simp_all add: upsert_node_tenant_write upsert_rel_tenant_write)

section \<open>Repeating a statement\<close>

lemma fold_set_prop_get:
  "distinct (map fst new) \<Longrightarrow> (k, v) \<in> set new \<Longrightarrow>
     dict_get (fold (\<lambda>(k, v). set_prop k v) new ps) k = (if v = JNull then None else Some v)"
proof (induction new arbitrary: ps)
  case (Cons e new)
  then show ?case
    by (cases e) (force intro: dict_get_other [THEN trans])
qed simp

lemma dict_set_same: "map_of d k = Some v \<Longrightarrow> dict_set k v d = d"
  by (induction d) auto

lemma set_prop_same: "dict_get ps k = (if v = JNull then None else Some v) \<Longrightarrow> set_prop k v ps = ps"
  by (force simp: set_prop_def dict_get_def dict_set_same map_of_eq_None_iff filter_id_conv)

lemma fold_set_prop_same:
  "\<forall>(k, v) \<in> set new. dict_get ps k = (if v = JNull then None else Some v) \<Longrightarrow>
     fold (\<lambda>(k, v). set_prop k v) new ps = ps"
  by (induction new) (auto simp: set_prop_same)

lemma add_props_again:
  assumes "add_props new ps = Inr ps'" and "distinct (map fst new)"
  shows "add_props new ps' = Inr ps'"
proof -
  from assms(1) have "list_all (\<lambda>(k, v). storable v) new" "ps' = fold (\<lambda>(k, v). set_prop k v) new ps"
    by (auto simp: add_props_def split: if_splits)
  moreover have "fold (\<lambda>(k, v). set_prop k v) new ps' = ps'"
    by (rule fold_set_prop_same) (auto simp: calculation fold_set_prop_get [OF assms(2)])
  ultimately show ?thesis by (simp add: add_props_def)
qed

lemma update_matching_same:
  "\<forall>n \<in> set ns. p n \<longrightarrow> upd (vx_props n) = Inr (vx_props n) \<Longrightarrow> update_matching p upd ns = Inr ns"
  by (induction ns) (auto simp: map_sum_def)

lemma merge_node_same:
  assumes "list_all (\<lambda>(k, v). v \<noteq> JNull \<and> storable v) pat"
    and "\<exists>n \<in> set (gs_nodes g). matches (Some label) pat n"
    and "\<forall>n \<in> set (gs_nodes g). matches (Some label) pat n \<longrightarrow> upd (vx_props n) = Inr (vx_props n)"
  shows "\<exists>k. merge_node label pat create upd g = Inr (k, g)"
  using assms update_matching_same [OF assms(3)]
  by (auto simp: merge_node_def Let_def filter_empty_conv)

lemma merge_node_again:
  assumes merged: "merge_node label pat create upd g = Inr (k, g')"
    and created: "\<And>ps. create pat = Inr ps \<Longrightarrow>
      matches (Some label) pat \<lparr>vx_id = gs_next g, vx_labels = [label], vx_props = ps\<rparr>"
    and created_again: "\<And>ps. create pat = Inr ps \<Longrightarrow> upd ps = Inr ps"
    and updated: "\<And>n n'. matches (Some label) pat n \<Longrightarrow> row_update (matches (Some label) pat) upd n n' \<Longrightarrow>
      matches (Some label) pat n'"
    and updated_again: "\<And>ps ps'. upd ps = Inr ps' \<Longrightarrow> upd ps' = Inr ps'"
  shows "\<exists>k. merge_node label pat create upd g' = Inr (k, g') \<and> (\<exists>n \<in> set (gs_nodes g'). matches (Some label) pat n)"
proof -
  let ?p = "matches (Some label) pat"
  have pat: "list_all (\<lambda>(k, v). v \<noteq> JNull \<and> storable v) pat"
    using merged by (simp add: merge_node_def split: if_splits)
  have "(\<exists>n \<in> set (gs_nodes g'). ?p n) \<and> (\<forall>n \<in> set (gs_nodes g'). ?p n \<longrightarrow> upd (vx_props n) = Inr (vx_props n))"
    using merged
  proof (cases rule: merge_node_cases)
    case (created ps)
    with assms(2,3) show ?thesis by (auto simp: filter_empty_conv)
  next
    case (matched ns)
    note rows = update_matching_rows [OF matched(1)]
    have "\<forall>n' \<in> set ns. ?p n' \<longrightarrow> upd (vx_props n') = Inr (vx_props n')"
      using rows by (induction rule: list_all2_induct) (auto simp: row_update_def updated_again split: if_splits)
    moreover from matched(2,3) obtain n where "n \<in> set (gs_nodes g)" "?p n"
      by (auto simp: filter_empty_conv)
    then obtain n' where "n' \<in> set ns" "row_update ?p upd n n'"
      using rows by (metis list_all2_conv_all_nth in_set_conv_nth)
    with updated \<open>?p n\<close> have "\<exists>n \<in> set ns. ?p n" by blast
    ultimately show ?thesis using matched(4) by simp
  qed
  with merge_node_same [OF pat] show ?thesis by blast
qed

text \<open>C12: Sending a node again changes nothing: an upsert of a node whose properties do not rename
  it, repeated on the graph it left, succeeds and leaves that graph; and after an upsert the graph
  has a node with the label, the id and the tenant.\<close>

theorem node_upsert_idempotent:
  assumes "is_label ty" and "distinct (map fst d)" and "dict_get d ''id'' \<in> {None, Some i}"
    and run: "upsert_node genv ty i (JObj d) tid g = Inr g'"
  shows "upsert_node genv ty i (JObj d) tid g' = Inr g' \<and>
    (\<exists>n \<in> set (gs_nodes g'). ty \<in> set (vx_labels n) \<and> dict_get (vx_props n) ''id'' = Some i \<and> owned tid n)"
proof -
  let ?new = "dict_with ''tenant_id'' (JStr tid) d"
  let ?pat = "[(''id'', i), (''tenant_id'', JStr tid)]"
  let ?p = "matches (Some ty) ?pat"
  from run \<open>is_label ty\<close> obtain k where merged: "merge_node ty ?pat (add_props ?new) (add_props ?new) g = Inr (k, g')"
    by (auto simp: upsert_node_def map_sum_def Let_def split: sum.splits)
  then have pat: "list_all (\<lambda>(k, v). v \<noteq> JNull \<and> storable v) ?pat"
    by (simp add: merge_node_def split: if_splits)
  have new: "distinct (map fst ?new)" using assms(2) by (auto simp: dict_with_def distinct_map_filter)
  have id: "dict_get ps' ''id'' = Some i" if "add_props ?new ps = Inr ps'" "dict_get ps ''id'' = Some i" for ps ps'
  proof (cases "dict_get d ''id''")
    case None
    then have "''id'' \<notin> fst ` set ?new" by (auto simp: dict_with_def dict_get_def map_of_eq_None_iff)
    with that show ?thesis using add_props_get by metis
  next
    case (Some j)
    then have "(''id'', i) \<in> set ?new" using assms(3) by (auto simp: dict_with_def dict_get_def map_of_SomeD)
    with that pat show ?thesis by (auto simp: add_props_def fold_set_prop_get [OF new] split: if_splits)
  qed
  have found: "?p n'" if "add_props ?new ps = Inr (vx_props n')" "dict_get ps ''id'' = Some i" "ty \<in> set (vx_labels n')" for n' ps
    using that pat id add_props_with by (auto simp: matches_def)
  have "\<exists>k. merge_node ty ?pat (add_props ?new) (add_props ?new) g' = Inr (k, g') \<and> (\<exists>n \<in> set (gs_nodes g'). ?p n)"
  proof (rule merge_node_again [OF merged])
    fix ps assume ps: "add_props ?new ?pat = Inr ps"
    then show "?p \<lparr>vx_id = gs_next g, vx_labels = [ty], vx_props = ps\<rparr>"
      by (intro found [of ?pat]) (simp_all add: dict_get_def)
    from ps show "add_props ?new ps = Inr ps" by (rule add_props_again [OF _ new])
  next
    fix n n' assume "?p n" "row_update ?p (add_props ?new) n n'"
    then show "?p n'"
      by (intro found [of "vx_props n"]) (auto simp: row_update_def matches_def)
  qed (rule add_props_again [OF _ new])
  then show ?thesis
    using assms(1) by (auto simp: upsert_node_def matches_def owned_def)
qed


definition example_genv :: graph_env where
  "example_genv =
     \<lparr> ge_NEO4J_URI = None, ge_NEO4J_USER = None, ge_NEO4J_PASSWORD = None, ge_NEPTUNE_ENDPOINT = None,
       ge_AWS_REGION = None, client_connected = True, connects = (\<lambda>b. True), store_of = (\<lambda>b. 0),
       run_other = (\<lambda>t ps g. None) \<rparr>"

theorem node_upsert_idempotent_witness:
  "\<exists>g. upsert_node example_genv ''Person'' (JInt 3) (JObj [(''name'', JStr ''Ann'')]) ''1'' empty_store = Inr g \<and>
     upsert_node example_genv ''Person'' (JInt 3) (JObj [(''name'', JStr ''Ann'')]) ''1'' g = Inr g \<and>
     length (gs_nodes g) = 1"
proof -
  let ?op = "upsert_node example_genv ''Person'' (JInt 3) (JObj [(''name'', JStr ''Ann'')]) ''1''"
  have "case ?op empty_store of Inl e \<Rightarrow> False | Inr g \<Rightarrow> length (gs_nodes g) = 1" by code_simp
  then obtain g where run: "?op empty_store = Inr g" and one: "length (gs_nodes g) = 1"
    by (auto split: sum.splits)
  have "is_label ''Person''" by code_simp
  from node_upsert_idempotent [OF this _ _ run] run one show ?thesis by (simp add: dict_get_def)
qed

end
