(* ===== verification/Stream_Router.thy ===== *)
theory Stream_Router
  imports PyText
begin

text \<open>
  \<open>streaming/router.py\<close> and the routing of \<open>api/stream.py\<close>: which scanner agent a training job
  streams from.

  The topology map of the process is an association list in the order the agents were first
  registered. Scores are real numbers: the source's floats without rounding, infinities and NaN.
  Not modelled: the streams themselves (the formats of \<open>streaming/formats.py\<close> and the graph queries).
\<close>

section \<open>Agents\<close>

record agent_topology =
  tp_agent_id :: string
  tp_region :: string
  tp_datacenter :: string
  tp_latency_matrix :: "(string \<times> rat) list"
  tp_bandwidth_mbps :: rat
  tp_is_online :: bool
  tp_indexed_connectors :: "string list"

definition latency_to :: "agent_topology \<Rightarrow> string \<Rightarrow> rat" where
  "latency_to t region =
     (if tp_region t = region then 1
      else case map_of (tp_latency_matrix t) region of None \<Rightarrow> 999 | Some l \<Rightarrow> l)"

text \<open>\<open>math.log2\<close> raises on a number that is not positive.\<close>

definition routing_score :: "string \<Rightarrow> agent_topology \<Rightarrow> py_error + real" where
  "routing_score region t =
     (if tp_bandwidth_mbps t + 1 \<le> 0 then Inl (ValueError ''math domain error'')
      else Inr (of_rat (latency_to t region) / max (log 2 (of_rat (tp_bandwidth_mbps t + 1))) 1))"

section \<open>The router\<close>

type_synonym topology_map = "(string \<times> agent_topology) list"

definition register_agent :: "agent_topology \<Rightarrow> topology_map \<Rightarrow> topology_map" where
  "register_agent t m = dict_set (tp_agent_id t) t m"

record health_report =
  hr_bandwidth_mbps :: "rat option"
  hr_latency_matrix :: "(string \<times> rat) list option"

definition update_from_heartbeat :: "string \<Rightarrow> health_report \<Rightarrow> topology_map \<Rightarrow> topology_map" where
  "update_from_heartbeat agent_id health m =
     (case map_of m agent_id of
        None \<Rightarrow> m
      | Some t \<Rightarrow>
          dict_set agent_id
            (t\<lparr>tp_is_online := True,
               tp_bandwidth_mbps := (case hr_bandwidth_mbps health of None \<Rightarrow> tp_bandwidth_mbps t | Some b \<Rightarrow> b),
               tp_latency_matrix := (case hr_latency_matrix health of None \<Rightarrow> tp_latency_matrix t
                                     | Some l \<Rightarrow> dict_update (tp_latency_matrix t) l)\<rparr>) m)"

definition mark_offline :: "string \<Rightarrow> topology_map \<Rightarrow> topology_map" where
  "mark_offline agent_id m =
     (case map_of m agent_id of None \<Rightarrow> m | Some t \<Rightarrow> dict_set agent_id (t\<lparr>tp_is_online := False\<rparr>) m)"

text \<open>The agents a request may stream from, in the order of the map.\<close>

definition serves :: "string list \<Rightarrow> agent_topology \<Rightarrow> bool" where
  "serves connector_ids t \<longleftrightarrow>
     tp_is_online t \<and> (connector_ids = [] \<or> list_ex (\<lambda>c. c \<in> set (tp_indexed_connectors t)) connector_ids)"

definition candidates :: "string list \<Rightarrow> string list \<Rightarrow> topology_map \<Rightarrow> agent_topology list" where
  "candidates connector_ids exclude m =
     filter (\<lambda>t. serves connector_ids t \<and> tp_agent_id t \<notin> set exclude) (map snd m)"

fun with_scores :: "string \<Rightarrow> agent_topology list \<Rightarrow> py_error + (agent_topology \<times> real) list" where
  "with_scores region [] = Inr []"
| "with_scores region (t # ts) =
     (case routing_score region t of
        Inl e \<Rightarrow> Inl e
      | Inr x \<Rightarrow> map_sum id (\<lambda>ps. (t, x) # ps) (with_scores region ts))"

definition select_source ::
  "string list \<Rightarrow> string \<Rightarrow> string list option \<Rightarrow> topology_map \<Rightarrow> py_error + agent_topology option" where
  "select_source connector_ids region exclude_agents m =
     map_sum id (\<lambda>ps. case sort_key snd ps of [] \<Rightarrow> None | p # rest \<Rightarrow> Some (fst p))
       (with_scores region
         (candidates connector_ids (case exclude_agents of None \<Rightarrow> [] | Some xs \<Rightarrow> xs) m))"

definition ranked_sources ::
  "string list \<Rightarrow> string \<Rightarrow> topology_map \<Rightarrow> py_error + (agent_topology \<times> real) list" where
  "ranked_sources connector_ids region m =
     map_sum id (sort_key snd) (with_scores region (candidates connector_ids [] m))"

section \<open>The stream endpoints\<close>

definition FORMATS :: "string list" where
  "FORMATS = [''arrow'', ''parquet'', ''webdataset'', ''jsonl'', ''csv'']"

definition ACCEPT_MAP :: "(string \<times> string) list" where
  "ACCEPT_MAP =
     [(''application/x-arrow-stream'', ''arrow''), (''application/x-parquet'', ''parquet''),
      (''application/x-webdataset'', ''webdataset''), (''application/x-ndjson'', ''jsonl''),
      (''application/jsonl'', ''jsonl''), (''text/csv'', ''csv'')]"

definition resolve_format :: "string option \<Rightarrow> string option \<Rightarrow> string" where
  "resolve_format accept fmt_param =
     (let by_accept = (case opt_str_or accept None of
            None \<Rightarrow> ''jsonl''
          | Some a \<Rightarrow> (case find (\<lambda>(mime, fmt). sublist mime a) ACCEPT_MAP of
                         None \<Rightarrow> ''jsonl'' | Some (mime, fmt) \<Rightarrow> fmt))
      in case opt_str_or fmt_param None of
           None \<Rightarrow> by_accept
         | Some f \<Rightarrow> if f \<in> set FORMATS then f else by_accept)"

definition list_sources :: "topology_map \<Rightarrow> agent_topology list" where
  "list_sources m = filter tp_is_online (map snd m)"

text \<open>The source \<open>stream_query\<close> names in its headers, agent and region.\<close>

definition stream_source :: "string option \<Rightarrow> topology_map \<Rightarrow> py_error + string \<times> string" where
  "stream_source x_requester_region m =
     map_sum id (\<lambda>src. case src of None \<Rightarrow> (''direct'', ''direct'') | Some t \<Rightarrow> (tp_agent_id t, tp_region t))
       (select_source [] (case opt_str_or x_requester_region None of None \<Rightarrow> ''unknown'' | Some r \<Rightarrow> r) None m)"


section \<open>Lemmas\<close>

text \<open>The map is keyed by the agents' own ids, once each.\<close>

definition topology_ok :: "topology_map \<Rightarrow> bool" where
  "topology_ok m \<longleftrightarrow> distinct (map fst m) \<and> (\<forall>(k, t) \<in> set m. tp_agent_id t = k)"

lemma topology_ok_set: "topology_ok m \<Longrightarrow> tp_agent_id t = k \<Longrightarrow> topology_ok (dict_set k t m)"
  using set_dict_set_subset [of k t m] by (auto simp: topology_ok_def distinct_dict_set)

lemma topology_ok_ops [intro]:
  assumes "topology_ok m"
  shows "topology_ok (register_agent t m)" and "topology_ok (update_from_heartbeat i h m)"
    and "topology_ok (mark_offline i m)"
proof -
  have key: "tp_agent_id u = i" if "map_of m i = Some u" for u
    using assms that by (auto simp: topology_ok_def dest: map_of_SomeD)
  show "topology_ok (register_agent t m)" "topology_ok (update_from_heartbeat i h m)"
    "topology_ok (mark_offline i m)"
    using assms key
    by (auto simp: register_agent_def update_from_heartbeat_def mark_offline_def intro: topology_ok_set
      split: option.splits)
qed

lemma topology_ids:
  assumes "topology_ok m"
  shows "map tp_agent_id (map snd m) = map fst m" "distinct (map tp_agent_id (map snd m))"
proof -
  show "map tp_agent_id (map snd m) = map fst m"
    using assms by (auto simp: topology_ok_def)
  then show "distinct (map tp_agent_id (map snd m))"
    using assms by (simp add: topology_ok_def del: map_map)
qed

lemma with_scores_agents:
  "with_scores region ts = Inr ps \<Longrightarrow>
     map fst ps = ts \<and> (\<forall>(t, x) \<in> set ps. routing_score region t = Inr x)"
  by (induction ts arbitrary: ps) (auto split: sum.splits simp: map_sum_def)

lemma with_scores_filter:
  "with_scores region ts = Inr ps \<Longrightarrow>
     with_scores region (filter q ts) = Inr (filter (\<lambda>p. q (fst p)) ps)"
  by (induction ts arbitrary: ps) (auto split: sum.splits simp: map_sum_def)

lemma with_scores_Inl:
  "t \<in> set ts \<Longrightarrow> tp_bandwidth_mbps t \<le> - 1 \<Longrightarrow> with_scores region ts = Inl (ValueError ''math domain error'')"
  by (induction ts) (auto simp: routing_score_def map_sum_def split: sum.splits)

lemma candidates_exclude:
  "candidates conns exclude m = filter (\<lambda>t. tp_agent_id t \<notin> set exclude) (candidates conns [] m)"
  by (simp add: candidates_def conj_commute)

text \<open>Dropping the first \<open>k\<close> elements of a list by their keys leaves the rest.\<close>

lemma filter_drop_keys:
  assumes "distinct (map f xs)"
  shows "filter (\<lambda>x. f x \<notin> set (map f (take k xs))) xs = drop k xs"
proof -
  have "distinct (map f (take k xs @ drop k xs))" using assms by simp
  then have "set (map f (take k xs)) \<inter> set (map f (drop k xs)) = {}"
    by (metis distinct_append map_append)
  then have "filter (\<lambda>x. f x \<notin> set (map f (take k xs))) (take k xs) = []"
    "filter (\<lambda>x. f x \<notin> set (map f (take k xs))) (drop k xs) = drop k xs"
    by (auto simp: filter_empty_conv intro!: filter_True)
  then show ?thesis by (metis append_take_drop_id filter_append self_append_conv2)
qed

text \<open>The ranking holds the agents that are online and index a requested connector, each once and
  with its score, lowest first; excluding the first k of the ranking selects the next one, so that
  select_source returns an agent with the lowest score and walking down the ranking is the chain of
  its fallbacks, which ends in None.\<close>

theorem fallback_chain:
  assumes "topology_ok m" and "ranked_sources conns region m = Inr ranking"
  shows "sorted (map snd ranking) \<and> distinct (map fst ranking) \<and>
    set (map fst ranking) = {t \<in> set (map snd m). serves conns t} \<and>
    (\<forall>(t, x) \<in> set ranking. routing_score region t = Inr x) \<and>
    select_source conns region (Some (map (\<lambda>p. tp_agent_id (fst p)) (take k ranking))) m =
      Inr (if k < length ranking then Some (fst (ranking ! k)) else None)"
proof -
  from assms(2) obtain ps where ps: "with_scores region (candidates conns [] m) = Inr ps"
    and ranking: "ranking = sort_key snd ps"
    by (auto simp: ranked_sources_def map_sum_def split: sum.splits)
  note agents = with_scores_agents [OF ps]
  have ids: "distinct (map tp_agent_id (map fst ps))"
    using topology_ids(2) [OF assms(1)] agents
    by (simp add: candidates_def distinct_map_filter del: map_map)
  then have distinct: "distinct (map (\<lambda>p. tp_agent_id (fst p)) ranking)"
    unfolding ranking by (simp add: distinct_map comp_def inj_on_def)
  let ?ids = "map (\<lambda>p. tp_agent_id (fst p)) (take k ranking)"
  have "sort_key snd (filter (\<lambda>p. tp_agent_id (fst p) \<notin> set ?ids) ps) = drop k ranking"
    using filter_drop_keys [OF distinct, of k] by (simp add: ranking filter_sort)
  then have "select_source conns region (Some ?ids) m =
      Inr (case drop k ranking of [] \<Rightarrow> None | p # rest \<Rightarrow> Some (fst p))"
    using with_scores_filter [OF ps, of "\<lambda>t. tp_agent_id t \<notin> set ?ids"]
    by (simp add: select_source_def candidates_exclude [of conns ?ids])
  moreover have "(case drop k ranking of [] \<Rightarrow> None | p # rest \<Rightarrow> Some (fst p)) =
      (if k < length ranking then Some (fst (ranking ! k)) else None)"
    by (cases "k < length ranking") (simp_all add: Cons_nth_drop_Suc [symmetric])
  moreover have "distinct (map fst ranking)"
    using distinct by (auto simp: distinct_map inj_on_def)
  moreover have "set (map fst ranking) = {t \<in> set (map snd m). serves conns t}"
    using arg_cong [OF conjunct1 [OF agents], of set] by (simp add: ranking candidates_def)
  ultimately show ?thesis using agents by (auto simp: ranking)
qed

text \<open>One agent's heartbeat decides for everybody: with a bandwidth of -1 no stream is routed.\<close>

lemma negative_bandwidth_breaks_routing:
  assumes "t \<in> set (list_sources m)" and "tp_bandwidth_mbps t \<le> - 1"
  shows "stream_source region m = Inl (ValueError ''math domain error'')"
proof -
  have "t \<in> set (candidates [] [] m)"
    using assms by (auto simp: list_sources_def candidates_def serves_def)
  from with_scores_Inl [OF this assms(2)] show ?thesis
    by (simp add: stream_source_def select_source_def)
qed

definition example_agent :: "string \<Rightarrow> rat \<Rightarrow> agent_topology" where
  "example_agent i latency =
     \<lparr> tp_agent_id = i, tp_region = ''on-prem'', tp_datacenter = ''nyc'',
       tp_latency_matrix = [(''us-east-1'', latency)], tp_bandwidth_mbps = 1, tp_is_online = True,
       tp_indexed_connectors = [''c'']\<rparr>"

definition example_topology :: topology_map where
  "example_topology = register_agent (example_agent ''a'' 12) (register_agent (example_agent ''b'' 85) [])"

theorem fallback_chain_witness:
  "select_source [''c''] ''us-east-1'' (Some []) example_topology = Inr (Some (example_agent ''a'' 12)) \<and>
   select_source [''c''] ''us-east-1'' (Some [''a'']) example_topology = Inr (Some (example_agent ''b'' 85))"
proof -
  let ?ranking = "[(example_agent ''a'' 12, 12), (example_agent ''b'' 85, 85 :: real)]"
  have ok: "topology_ok example_topology"
    unfolding example_topology_def by (intro topology_ok_ops) (simp add: topology_ok_def)
  have "ranked_sources [''c''] ''us-east-1'' example_topology = Inr ?ranking"
    by (simp add: ranked_sources_def candidates_def serves_def example_topology_def example_agent_def
      register_agent_def routing_score_def latency_to_def)
  from fallback_chain [OF ok this, of 0] fallback_chain [OF ok this, of 1] show ?thesis
    by (simp add: example_agent_def)
qed

end
