(* ===== verification/Ingest.thy ===== *)
theory Ingest
  imports Oidc Graph_Store Stream_Router
begin

text \<open>
  \<open>graph/dedup.py\<close> and \<open>api/scanner.py\<close>: the scanner agents' endpoints and the merging of their
  deltas into the graphs.

  Files go through the application's own client in one statement per chunk, keyed by their content;
  everything else goes through the tenant's backend, one statement per node and edge. A statement
  that fails changes nothing; the handler counts it and goes on. \<open>datetime()\<close> is the time of the
  request, as a number. Whole numbers are those the driver can send.
\<close>

section \<open>Content identity\<close>

definition text_of :: "auth_env \<Rightarrow> py_dict \<Rightarrow> string \<Rightarrow> json \<Rightarrow> string" where
  "text_of env props key dflt = py_str (str_of_json env) (dict_get_or props key dflt)"

text \<open>\<open>len(v)\<close>.\<close>

definition py_len :: "json \<Rightarrow> py_error + nat" where
  "py_len v = (case v of JStr s \<Rightarrow> Inr (length s) | JArr xs \<Rightarrow> Inr (length xs) | JObj d \<Rightarrow> Inr (length d)
               | _ \<Rightarrow> Inl TypeError)"

definition path_node_id :: "auth_env \<Rightarrow> py_dict \<Rightarrow> string" where
  "path_node_id env props =
     ''path:'' @ sha256_hex env (text_of env props ''connector_id'' (JStr '''') @ '':'' @ text_of env props ''path'' (JStr ''''))"

definition make_node_id :: "auth_env \<Rightarrow> py_dict \<Rightarrow> py_error + string" where
  "make_node_id env props =
     (let sha = dict_get_or props ''sha256'' (JStr '''')
      in if truthy sha then
           map_sum id (\<lambda>n. if n = 64 then ''sha256:'' @ py_str (str_of_json env) sha else path_node_id env props)
             (py_len sha)
         else Inr (path_node_id env props))"

definition make_canonical_path :: "auth_env \<Rightarrow> py_dict \<Rightarrow> string" where
  "make_canonical_path env props =
     (let protocol = dict_get_or props ''protocol'' (JStr ''local'');
          host = dict_get_or props ''host'' (JStr '''');
          str = py_str (str_of_json env);
          share = text_of env props ''share'' (JStr '''');
          path = text_of env props ''path'' (JStr '''')
      in if protocol = JStr ''smb'' \<and> truthy host then ''smb://'' @ str host @ ''/'' @ share @ path
         else if protocol = JStr ''nfs'' \<and> truthy host then ''nfs://'' @ str host @ path
         else if protocol = JStr ''s3'' \<or> protocol = JStr ''aws-s3'' then
           ''s3://'' @ text_of env props ''bucket'' (JStr '''') @ ''/'' @
             text_of env props ''key'' (dict_get_or props ''path'' (JStr ''''))
         else if protocol = JStr ''azure-blob'' \<or> protocol = JStr ''azure'' then
           ''azure://'' @ text_of env props ''account_name'' (JStr '''') @ ''/'' @
             text_of env props ''container'' (JStr '''') @ path
         else ''local://'' @
           text_of env props ''hostname'' (if truthy host then host else JStr ''localhost'') @ path)"

section \<open>The bulk statement\<close>

record file_row =
  fr_node_id :: string
  fr_canon_path :: string
  fr_sha256 :: json
  fr_name :: json
  fr_extension :: json
  fr_file_category :: json
  fr_mime_type :: json
  fr_size :: json
  fr_modified_at :: json
  fr_protocol :: json
  fr_connector_id :: json

definition file_row_of :: "auth_env \<Rightarrow> py_dict \<Rightarrow> py_error + file_row" where
  "file_row_of env props =
     map_sum id (\<lambda>i. \<lparr> fr_node_id = i, fr_canon_path = make_canonical_path env props,
        fr_sha256 = dict_get_or props ''sha256'' (JStr ''''),
        fr_name = dict_get_or props ''name'' (JStr ''''),
        fr_extension = dict_get_or props ''extension'' (JStr ''''),
        fr_file_category = dict_get_or props ''file_category'' (JStr ''unknown''),
        fr_mime_type = dict_get_or props ''mime_type'' (JStr ''''),
        fr_size = dict_get_or props ''size'' (JInt 0),
        fr_modified_at = dict_get_or props ''modified_at'' (JStr ''''),
        fr_protocol = dict_get_or props ''protocol'' (JStr ''local''),
        fr_connector_id = dict_get_or props ''connector_id'' (JStr '''') \<rparr>)
       (make_node_id env props)"

text \<open>\<open>node.get("props", node)\<close>; only a dict has a \<open>get\<close>.\<close>

definition props_of :: "json \<Rightarrow> py_error + json" where
  "props_of node = (case node of JObj d \<Rightarrow> Inr (dict_get_or d ''props'' node) | _ \<Rightarrow> Inl AttributeError)"

definition as_dict :: "json \<Rightarrow> py_error + py_dict" where
  "as_dict v = (case v of JObj d \<Rightarrow> Inr d | _ \<Rightarrow> Inl AttributeError)"

fun bulk_rows :: "auth_env \<Rightarrow> json list \<Rightarrow> py_error + file_row list" where
  "bulk_rows env [] = Inr []"
| "bulk_rows env (node # nodes) =
     (case props_of node of
        Inl e \<Rightarrow> Inl e
      | Inr v \<Rightarrow> (case as_dict v of
          Inl e \<Rightarrow> Inl e
        | Inr props \<Rightarrow> (case file_row_of env props of
            Inl e \<Rightarrow> Inl e
          | Inr r \<Rightarrow> map_sum id (\<lambda>rs. r # rs) (bulk_rows env nodes))))"

definition row_props :: "file_row \<Rightarrow> py_dict" where
  "row_props r =
     [(''node_id'', JStr (fr_node_id r)), (''canon_path'', JStr (fr_canon_path r)), (''sha256'', fr_sha256 r),
      (''name'', fr_name r), (''extension'', fr_extension r), (''file_category'', fr_file_category r),
      (''mime_type'', fr_mime_type r), (''size'', fr_size r), (''modified_at'', fr_modified_at r),
      (''protocol'', fr_protocol r), (''connector_id'', fr_connector_id r)]"

text \<open>\<open>CASE WHEN v IN coalesce(l, []) THEN l ELSE coalesce(l, []) + [v] END\<close>.\<close>

definition include_value :: "string \<Rightarrow> string \<Rightarrow> py_dict \<Rightarrow> py_error + py_dict" where
  "include_value key v ps =
     (case dict_get_or ps key (JArr []) of
        JArr xs \<Rightarrow> if JStr v \<in> set xs then Inr ps else add_props [(key, JArr (xs @ [JStr v]))] ps
      | _ \<Rightarrow> Inl type_error)"

text \<open>\<open>ON CREATE SET f = row, ...\<close>: the assignment of the whole map replaces the merged properties.\<close>

definition on_create :: "string \<Rightarrow> string \<Rightarrow> time \<Rightarrow> file_row \<Rightarrow> py_dict \<Rightarrow> py_error + py_dict" where
  "on_create agent_id tid now row merged =
     (case add_props (row_props row) [] of
        Inl e \<Rightarrow> Inl e
      | Inr ps \<Rightarrow> add_props [(''tenant_id'', JStr tid), (''paths'', JArr [JStr (fr_canon_path row)]),
                            (''agent_ids'', JArr [JStr agent_id]), (''created_at'', JInt now)] ps)"

definition on_match :: "string \<Rightarrow> time \<Rightarrow> file_row \<Rightarrow> py_dict \<Rightarrow> py_error + py_dict" where
  "on_match agent_id now row ps =
     (case add_props [(''size'', fr_size row), (''modified_at'', fr_modified_at row),
                      (''file_category'', fr_file_category row), (''mime_type'', fr_mime_type row),
                      (''last_seen_at'', JInt now)] ps of
        Inl e \<Rightarrow> Inl e
      | Inr ps' \<Rightarrow> (case include_value ''paths'' (fr_canon_path row) ps' of
          Inl e \<Rightarrow> Inl e
        | Inr ps'' \<Rightarrow> include_value ''agent_ids'' agent_id ps''))"

definition merge_file_row ::
  "string \<Rightarrow> string \<Rightarrow> time \<Rightarrow> file_row \<Rightarrow> gstore \<Rightarrow> py_error + nat \<times> gstore" where
  "merge_file_row agent_id tid now row g =
     merge_node ''File'' [(''id'', JStr (fr_node_id row)), (''tenant_id'', JStr tid)]
       (on_create agent_id tid now row) (on_match agent_id now row) g"

text \<open>\<open>UNWIND $rows AS row ... RETURN count(f) AS merged\<close>.\<close>

fun bulk_upsert ::
  "string \<Rightarrow> string \<Rightarrow> time \<Rightarrow> file_row list \<Rightarrow> gstore \<Rightarrow> py_error + nat \<times> gstore" where
  "bulk_upsert agent_id tid now [] g = Inr (0, g)"
| "bulk_upsert agent_id tid now (row # rows) g =
     (case merge_file_row agent_id tid now row g of
        Inl e \<Rightarrow> Inl e
      | Inr (n, g') \<Rightarrow> map_sum id (\<lambda>(k, g''). (n + k, g'')) (bulk_upsert agent_id tid now rows g'))"

section \<open>The state of the service\<close>

record ingest_state =
  is_db :: db
  is_stores :: "nat \<Rightarrow> gstore"
  is_topology :: topology_map

type_synonym 'a ingest = "(ingest_state, 'a) handler"

definition in_db :: "'a endpoint \<Rightarrow> 'a ingest" where
  "in_db m = (\<lambda>s. case m (is_db s) of (r, d) \<Rightarrow> (r, s\<lparr>is_db := d\<rparr>))"

text \<open>A statement sent to a backend: it changes the backend's store unless it fails.\<close>

definition in_store :: "graph_env \<Rightarrow> graph_backend \<Rightarrow> (gstore \<Rightarrow> py_error + 'a \<times> gstore) \<Rightarrow> 'a ingest" where
  "in_store genv b op = (\<lambda>s.
     let i = store_of genv b
     in case op (is_stores s i) of
          Inl e \<Rightarrow> (Inl e, s)
        | Inr (x, g) \<Rightarrow> (Inr x, s\<lparr>is_stores := (is_stores s)(i := g)\<rparr>))"

text \<open>A request: an error rolls the database back, not the graphs and not the topology.\<close>

definition ingest_request :: "'a ingest \<Rightarrow> 'a ingest" where
  "ingest_request = transaction (\<lambda>s. constraints (is_db s)) (\<lambda>s s'. s'\<lparr>is_db := is_db s\<rparr>)"

section \<open>Scanner agents\<close>

definition put_scanner :: "scanner_agent \<Rightarrow> db \<Rightarrow> db" where
  "put_scanner a s = s\<lparr>scanner_agents := put_row sa_id a (scanner_agents s)\<rparr>"

definition get_scanner :: "auth_env \<Rightarrow> time \<Rightarrow> string option \<Rightarrow> scanner_agent endpoint" where
  "get_scanner env now x_scanner_key =
     (case opt_str_or x_scanner_key None of
        None \<Rightarrow> raise (HTTPException 401 ''X-Scanner-Key header required'')
      | Some key \<Rightarrow>
          bnd (select_one scanner_agents (\<lambda>a. sa_api_key_hash a = sha256_hex env key \<and> sa_is_active a)) (\<lambda>found.
          case found of
            None \<Rightarrow> raise (HTTPException 401 ''Invalid or inactive scanner key'')
          | Some a \<Rightarrow> (let a' = a\<lparr>sa_last_seen := Some now\<rparr> in thn (modify (put_scanner a')) (ret a'))))"

record register_request =
  rq_name :: string
  rq_description :: string
  rq_platform :: string
  rq_version :: string

text \<open>\<open>rnd\<close> is \<open>secrets.token_urlsafe(32)\<close>.\<close>

definition register_scanner ::
  "auth_env \<Rightarrow> time \<Rightarrow> string \<Rightarrow> auth_context \<Rightarrow> register_request \<Rightarrow> (uuid \<times> string) endpoint" where
  "register_scanner env now rnd auth req =
     (let raw_key = ''dg_'' @ rnd
      in thn (guard (''scanners:register'' \<in> ac_permissions auth \<or> ''admin:*'' \<in> ac_permissions auth)
                (HTTPException 403 ''Permission required: scanners:register'')) (
         bnd fresh (\<lambda>i.
         let a = (new_scanner_agent i now (ac_tenant_id auth) (rq_name req) (sha256_hex env raw_key))
                   \<lparr>sa_description := Some (rq_description req), sa_platform := Some (rq_platform req),
                    sa_version := Some (rq_version req), sa_registered_by := Some (ac_user_id auth)\<rparr>
         in thn (modify (\<lambda>s. s\<lparr>scanner_agents := scanner_agents s @ [a]\<rparr>))
            (thn flush (ret (i, raw_key))))))"

definition rotate_key :: "auth_env \<Rightarrow> time \<Rightarrow> string \<Rightarrow> string option \<Rightarrow> string endpoint" where
  "rotate_key env now rnd key =
     bnd (get_scanner env now key) (\<lambda>a.
     let raw_key = ''dg_'' @ rnd
     in thn (modify (put_scanner (a\<lparr>sa_api_key_hash := sha256_hex env raw_key\<rparr>))) (ret raw_key))"

definition poll_jobs :: "auth_env \<Rightarrow> time \<Rightarrow> string option \<Rightarrow> unit list endpoint" where
  "poll_jobs env now key = thn (get_scanner env now key) (ret [])"


section \<open>Syncing a delta\<close>

record delta_chunk =
  dc_scanner_id :: string
  dc_tenant_id :: string
  dc_scan_job_id :: string
  dc_chunk_index :: int
  dc_is_final :: bool
  dc_scanned_at :: string
  dc_stats :: "(string \<times> int) list"
  dc_nodes :: "py_dict list"
  dc_edges :: "py_dict list"

record sync_result =
  sy_chunk_index :: int
  sy_nodes_merged :: int
  sy_edges_merged :: int
  sy_errors :: int
  sy_is_final :: bool

text \<open>\<open>n.get("type") == "File" or (n.get("labels") or [None])[0] == "File"\<close>.\<close>

definition is_file_node :: "py_dict \<Rightarrow> py_error + bool" where
  "is_file_node n =
     (if dict_get n ''type'' = Some (JStr ''File'') then Inr True
      else let labels = dict_get_or n ''labels'' JNull
           in if \<not> truthy labels then Inr False
              else (case labels of
                      JArr xs \<Rightarrow> Inr (hd xs = JStr ''File'')
                    | JStr t \<Rightarrow> Inr False
                    | JObj d \<Rightarrow> Inl (KeyError ''0'')
                    | _ \<Rightarrow> Inl TypeError))"

fun split_nodes :: "py_dict list \<Rightarrow> py_error + py_dict list \<times> py_dict list" where
  "split_nodes [] = Inr ([], [])"
| "split_nodes (n # ns) =
     (case is_file_node n of
        Inl e \<Rightarrow> Inl e
      | Inr b \<Rightarrow> map_sum id (\<lambda>(files, others). if b then (n # files, others) else (files, n # others))
                 (split_nodes ns))"

text \<open>\<open>for x in xs: try: if f(x): merged += 1 except Exception: errors += 1\<close>.\<close>

fun try_each :: "('x \<Rightarrow> bool ingest) \<Rightarrow> 'x list \<Rightarrow> (int \<times> int) ingest" where
  "try_each f [] = ret (0, 0)"
| "try_each f (x # xs) =
     bnd (py_try (bnd (f x) (\<lambda>b. ret (if b then 1 else 0, 0))) (\<lambda>e. ret (0, 1))) (\<lambda>(m, e).
     bnd (try_each f xs) (\<lambda>(m', e'). ret (m + m', e + e')))"

definition no_value :: "(gstore \<Rightarrow> py_error + gstore) \<Rightarrow> gstore \<Rightarrow> py_error + unit \<times> gstore" where
  "no_value op g = map_sum id (Pair ()) (op g)"

definition sync_node ::
  "auth_env \<Rightarrow> graph_env \<Rightarrow> graph_backend \<Rightarrow> string \<Rightarrow> py_dict \<Rightarrow> bool ingest" where
  "sync_node env genv b tid node =
     bnd (lift_err (dict_item node ''op'')) (\<lambda>op.
     if op \<noteq> JStr ''upsert'' then ret False
     else bnd (lift_err (dict_item node ''type'')) (\<lambda>ty.
          bnd (lift_err (dict_item node ''id'')) (\<lambda>i.
          thn (in_store genv b (no_value (upsert_node genv (py_str (str_of_json env) ty) i
                (dict_get_or node ''props'' (JObj [])) tid)))
          (ret True))))"

definition sync_edge ::
  "auth_env \<Rightarrow> graph_env \<Rightarrow> graph_backend \<Rightarrow> string \<Rightarrow> py_dict \<Rightarrow> bool ingest" where
  "sync_edge env genv b tid edge =
     bnd (lift_err (dict_item edge ''op'')) (\<lambda>op.
     if op \<noteq> JStr ''upsert'' then ret False
     else bnd (lift_err (dict_item edge ''type'')) (\<lambda>ty.
          bnd (lift_err (dict_item edge ''from'')) (\<lambda>i.
          bnd (lift_err (dict_item edge ''to'')) (\<lambda>j.
          thn (in_store genv b (no_value (upsert_rel genv (py_str (str_of_json env) ty) i j
                (dict_get_or edge ''props'' (JObj [])) tid)))
          (ret True)))))"

text \<open>The files of a chunk, in one statement of the application's own client: merged and errors.\<close>

fun list_props :: "py_dict list \<Rightarrow> json list" where
  "list_props [] = []"
| "list_props (n # ns) = dict_get_or n ''props'' (JObj n) # list_props ns"

definition sync_files ::
  "auth_env \<Rightarrow> graph_env \<Rightarrow> time \<Rightarrow> string \<Rightarrow> string \<Rightarrow> py_dict list \<Rightarrow> (int \<times> int) ingest" where
  "sync_files env genv now agent_id tid files =
     (if files = [] then ret (0, 0)
      else py_try
        (bnd (lift_err (bulk_rows env (list_props files))) (\<lambda>rows.
         thn (guard (client_connected genv) AttributeError)
         (bnd (in_store genv (client_backend genv) (bulk_upsert agent_id tid now rows)) (\<lambda>n. ret (int n, 0)))))
        (\<lambda>e. ret (0, int (length files))))"

definition sync_delta ::
  "auth_env \<Rightarrow> graph_env \<Rightarrow> time \<Rightarrow> string option \<Rightarrow> delta_chunk \<Rightarrow> sync_result ingest" where
  "sync_delta env genv now key chunk =
     bnd (in_db (get_scanner env now key)) (\<lambda>scanner.
     thn (guard (uuid_str (sa_tenant_id scanner) = dc_tenant_id chunk) (HTTPException 403 ''tenant_id mismatch'')) (
     bnd (in_db (select_one tenants (\<lambda>t. tn_id t = sa_tenant_id scanner))) (\<lambda>tenant.
     case tenant of
       None \<Rightarrow> raise (HTTPException 404 ''Tenant not found'')
     | Some t \<Rightarrow>
         bnd (lift_err (get_backend_for_tenant genv (case opt_str_or (tn_graph_backend t) None of
                None \<Rightarrow> ''neo4j'' | Some b \<Rightarrow> b) (tn_graph_config t))) (\<lambda>backend.
         bnd (lift_err (split_nodes (dc_nodes chunk))) (\<lambda>(files, others).
         bnd (sync_files env genv now (uuid_str (sa_id scanner)) (dc_tenant_id chunk) files) (\<lambda>(fm, fe).
         thn (guard (connects genv backend) (OtherError ''ServiceUnavailable'')) (
         bnd (try_each (sync_node env genv backend (dc_tenant_id chunk)) others) (\<lambda>(nm, ne).
         bnd (try_each (sync_edge env genv backend (dc_tenant_id chunk)) (dc_edges chunk)) (\<lambda>(em, ee).
         thn (py_when (dc_is_final chunk) (in_db (modify (put_scanner (scanner\<lparr>sa_last_health :=
               [(''last_sync'', JStr (dc_scanned_at chunk)),
                (''files_indexed'', JInt (case map_of (dc_stats chunk) ''total_files'' of None \<Rightarrow> 0 | Some n \<Rightarrow> n)),
                (''errors'', JInt (fe + ne + ee))]\<rparr>)))))
         (ret \<lparr> sy_chunk_index = dc_chunk_index chunk, sy_nodes_merged = fm + nm, sy_edges_merged = em,
                sy_errors = fe + ne + ee, sy_is_final = dc_is_final chunk \<rparr>))))))))))"

section \<open>Heartbeat\<close>

record heartbeat_payload =
  hb_version :: string
  hb_platform :: string
  hb_uptime_secs :: int
  hb_files_indexed :: int
  hb_errors :: int
  hb_connectors :: int
  hb_scanning :: bool
  hb_region :: string
  hb_datacenter :: string
  hb_latency_matrix :: "(string \<times> rat) list"
  hb_bandwidth_mbps :: rat
  hb_indexed_connectors :: "string list"

definition heartbeat ::
  "auth_env \<Rightarrow> time \<Rightarrow> string option \<Rightarrow> heartbeat_payload \<Rightarrow> unit ingest" where
  "heartbeat env now key p =
     bnd (in_db (get_scanner env now key)) (\<lambda>scanner.
     thn (modify (\<lambda>s. s\<lparr>is_topology := register_agent
           \<lparr> tp_agent_id = uuid_str (sa_id scanner), tp_region = hb_region p, tp_datacenter = hb_datacenter p,
             tp_latency_matrix = hb_latency_matrix p, tp_bandwidth_mbps = hb_bandwidth_mbps p,
             tp_is_online = True, tp_indexed_connectors = hb_indexed_connectors p \<rparr> (is_topology s)\<rparr>))
     (in_db (modify (put_scanner (scanner\<lparr>sa_version := Some (hb_version p), sa_platform := Some (hb_platform p),
        sa_last_health := [(''uptime_secs'', JInt (hb_uptime_secs p)), (''files_indexed'', JInt (hb_files_indexed p)),
          (''errors'', JInt (hb_errors p)), (''connectors'', JInt (hb_connectors p)),
          (''scanning'', JBool (hb_scanning p)), (''reported_at'', JInt now)]\<rparr>)))))"


section \<open>Every file row makes a node\<close>

lemma on_create_props:
  "on_create agent_id tid now row merged = Inr ps \<Longrightarrow>
     dict_get ps ''tenant_id'' = Some (JStr tid) \<and> dict_get ps ''id'' = None \<and>
     dict_get ps ''node_id'' = Some (JStr (fr_node_id row))"
  by (auto simp: on_create_def add_props_def row_props_def dict_get_def [of "[]"] split: if_splits)

lemma include_value_get:
  "include_value key v ps = Inr ps' \<Longrightarrow> k \<noteq> key \<Longrightarrow> dict_get ps' k = dict_get ps k"
  by (auto simp: include_value_def add_props_get split: json.splits if_splits)

lemma on_match_get:
  "on_match agent_id now row ps = Inr ps' \<Longrightarrow> k \<in> {''id'', ''tenant_id''} \<Longrightarrow> dict_get ps' k = dict_get ps k"
  by (auto simp: on_match_def include_value_get add_props_get split: sum.splits)

lemma merge_file_row_write:
  assumes "graph_ok g" and "merge_file_row agent_id tid now row g = Inr (k, g')"
  shows "graph_ok g' \<and> (\<forall>t. t \<noteq> tid \<longrightarrow> part t g' = part t g)"
  by (rule merge_node_tenant_write [OF _ _ _ assms(1) assms(2) [unfolded merge_file_row_def]])
    (auto dest: on_create_props simp: on_match_get)

lemma merge_file_row_creates:
  assumes "graph_ok g" and "merge_file_row agent_id tid now row g = Inr (k, g')"
  shows "k = 1 \<and> (\<exists>n. gs_nodes g' = gs_nodes g @ [n] \<and> vx_labels n = [''File''] \<and>
    dict_get (vx_props n) ''node_id'' = Some (JStr (fr_node_id row)))"
proof -
  have none: "\<not> matches (Some ''File'') [(''id'', JStr (fr_node_id row)), (''tenant_id'', JStr tid)] n"
    if "n \<in> set (gs_nodes g)" for n
    using assms(1) that by (force simp: graph_ok_def matches_def)
  from assms(2) [unfolded merge_file_row_def] show ?thesis
  proof (cases rule: merge_node_cases)
    case (created ps)
    then show ?thesis using on_create_props by fastforce
  next
    case (matched ns)
    then show ?thesis using none by (auto simp: filter_empty_conv)
  qed
qed

lemma bulk_upsert_write:
  "graph_ok g \<Longrightarrow> bulk_upsert agent_id tid now rows g = Inr (n, g') \<Longrightarrow>
     graph_ok g' \<and> (\<forall>t. t \<noteq> tid \<longrightarrow> part t g' = part t g)"
proof (induction rows arbitrary: g n)
  case (Cons row rows)
  then obtain k g1 m where "merge_file_row agent_id tid now row g = Inr (k, g1)"
    and "bulk_upsert agent_id tid now rows g1 = Inr (m, g')"
    by (auto simp: map_sum_def split: sum.splits)
  with merge_file_row_write [OF Cons.prems(1)] Cons.IH show ?case by metis
qed simp

lemma bulk_upsert_creates:
  "graph_ok g \<Longrightarrow> bulk_upsert agent_id tid now rows g = Inr (n, g') \<Longrightarrow>
     n = length rows \<and> (\<exists>ns. gs_nodes g' = gs_nodes g @ ns \<and> (\<forall>f \<in> set ns. vx_labels f = [''File'']) \<and>
       map (\<lambda>f. dict_get (vx_props f) ''node_id'') ns = map (\<lambda>r. Some (JStr (fr_node_id r))) rows)"
proof (induction rows arbitrary: g n)
  case (Cons row rows)
  then obtain k g1 m where one: "merge_file_row agent_id tid now row g = Inr (k, g1)"
    and rest: "bulk_upsert agent_id tid now rows g1 = Inr (m, g')" and n: "n = k + m"
    by (auto simp: map_sum_def split: sum.splits)
  from merge_file_row_write [OF Cons.prems(1) one] have "graph_ok g1" by blast
  from Cons.IH [OF this rest] obtain ns where "m = length rows" "gs_nodes g' = gs_nodes g1 @ ns"
    "\<forall>f \<in> set ns. vx_labels f = [''File'']"
    "map (\<lambda>f. dict_get (vx_props f) ''node_id'') ns = map (\<lambda>r. Some (JStr (fr_node_id r))) rows"
    by blast
  moreover from merge_file_row_creates [OF Cons.prems(1) one] obtain f where "k = 1"
    "gs_nodes g1 = gs_nodes g @ [f]" "vx_labels f = [''File'']"
    "dict_get (vx_props f) ''node_id'' = Some (JStr (fr_node_id row))"
    by blast
  ultimately show ?case using n by (intro conjI exI [of _ "f # ns"]) auto
qed simp

section \<open>What a sync leaves alone\<close>

text \<open>A chunk whose labels are identifiers and whose edges have property maps.\<close>

definition plain_type :: "py_dict \<Rightarrow> bool" where
  "plain_type d = (case dict_get d ''type'' of None \<Rightarrow> True | Some (JStr t) \<Rightarrow> is_label t | _ \<Rightarrow> False)"

definition plain_edge :: "py_dict \<Rightarrow> bool" where
  "plain_edge e \<longleftrightarrow> plain_type e \<and> (case dict_get_or e ''props'' (JObj []) of JObj d \<Rightarrow> True | _ \<Rightarrow> False)"

definition plain_chunk :: "delta_chunk \<Rightarrow> bool" where
  "plain_chunk c \<longleftrightarrow> list_all plain_type (dc_nodes c) \<and> list_all plain_edge (dc_edges c)"

definition stores_frame :: "string \<Rightarrow> ingest_state \<Rightarrow> ingest_state \<Rightarrow> bool" where
  "stores_frame tid s0 s \<longleftrightarrow>
     (\<forall>i. graph_ok (is_stores s i) \<and> (\<forall>t. t \<noteq> tid \<longrightarrow> part t (is_stores s i) = part t (is_stores s0 i)))"

lemma preserves_prod [preserves_intros]:
  "(\<And>a b. p = (a, b) \<Longrightarrow> preserves I (f a b)) \<Longrightarrow> preserves I (case p of (a, b) \<Rightarrow> f a b)"
  by (cases p) simp

lemma preserves_bnd_lift:
  "(\<And>x. r = Inr x \<Longrightarrow> preserves I (f x)) \<Longrightarrow> preserves I (bnd (lift_err r) f)"
  by (cases r) (simp_all add: preserves_def)

lemma frame_in_db [preserves_intros]: "preserves (stores_frame tid s0) (in_db m)"
  by (rule preservesI) (simp add: in_db_def stores_frame_def split: prod.split)

lemma frame_in_store:
  assumes "\<And>g x g'. graph_ok g \<Longrightarrow> op g = Inr (x, g') \<Longrightarrow>
    graph_ok g' \<and> (\<forall>t. t \<noteq> tid \<longrightarrow> part t g' = part t g)"
  shows "preserves (stores_frame tid s0) (in_store genv b op)"
proof (rule preservesI)
  fix s assume frame: "stores_frame tid s0 s"
  let ?g = "is_stores s (store_of genv b)"
  show "stores_frame tid s0 (snd (in_store genv b op s))"
  proof (cases "op ?g")
    case (Inr r)
    then obtain x g' where "op ?g = Inr (x, g')" by (cases r) simp
    moreover from this assms [of ?g x g'] frame
    have "graph_ok g' \<and> (\<forall>t. t \<noteq> tid \<longrightarrow> part t g' = part t ?g)" by (simp add: stores_frame_def)
    ultimately show ?thesis using frame by (simp add: in_store_def stores_frame_def)
  qed (use frame in \<open>simp add: in_store_def\<close>)
qed

lemma frame_tenant_write:
  "tenant_write tid op \<Longrightarrow> preserves (stores_frame tid s0) (in_store genv b (no_value op))"
proof (rule frame_in_store)
  fix g x g' assume "tenant_write tid op" and "graph_ok g" and "no_value op g = Inr (x, g')"
  moreover from this(3) have "op g = Inr g'" by (simp add: no_value_def map_sum_def split: sum.splits)
  ultimately show "graph_ok g' \<and> (\<forall>t. t \<noteq> tid \<longrightarrow> part t g' = part t g)"
    by (simp add: tenant_write_def)
qed

lemma preserves_try_each [preserves_intros]:
  "(\<And>x. x \<in> set xs \<Longrightarrow> preserves I (f x)) \<Longrightarrow> preserves I (try_each f xs)"
  by (induction xs) (auto intro!: preserves_intros)

lemma split_nodes_parts:
  "split_nodes ns = Inr (files, others) \<Longrightarrow>
     set others \<subseteq> {n \<in> set ns. is_file_node n = Inr False} \<and> set files \<subseteq> {n \<in> set ns. is_file_node n = Inr True}"
proof (induction ns arbitrary: files others)
  case (Cons n ns)
  then obtain b fs os where b: "is_file_node n = Inr b" and rest: "split_nodes ns = Inr (fs, os)"
    and "(files, others) = (if b then (n # fs, os) else (fs, n # os))"
    by (auto simp: map_sum_def split: sum.splits)
  with Cons.IH [OF rest] show ?case by (cases b) auto
qed simp


context tenant_backend begin

lemma frame_node:
  "is_label ty \<Longrightarrow> ty \<noteq> ''File'' \<Longrightarrow>
     preserves (stores_frame tid s0) (in_store genv b (no_value (put_node ty i ps tid)))"
  by (rule frame_tenant_write [OF node_write])

lemma frame_rel:
  "is_label ty \<Longrightarrow> preserves (stores_frame tid s0) (in_store genv b (no_value (put_rel ty i j (JObj d) tid)))"
  by (rule frame_tenant_write [OF rel_write])

end

lemma frame_sync_node:
  assumes "plain_type node" and "is_file_node node = Inr False"
  shows "preserves (stores_frame tid s0) (sync_node env genv b tid node)"
proof -
  have "is_label (py_str (str_of_json env) ty) \<and> py_str (str_of_json env) ty \<noteq> ''File''"
    if "dict_item node ''type'' = Inr ty" for ty
    using assms that
    by (auto simp: dict_item_def plain_type_def is_file_node_def py_str_def split: option.splits json.splits if_splits)
  then show ?thesis
    unfolding sync_node_def
    by (intro preserves_intros preserves_bnd_lift) (auto intro!: preserves_intros backend.frame_node)
qed


lemma frame_sync_edge:
  assumes "plain_edge edge"
  shows "preserves (stores_frame tid s0) (sync_edge env genv b tid edge)"
proof -
  have "is_label (py_str (str_of_json env) ty)" if "dict_item edge ''type'' = Inr ty" for ty
    using assms that
    by (auto simp: dict_item_def plain_edge_def plain_type_def py_str_def split: option.splits json.splits)
  moreover obtain d where "dict_get_or edge ''props'' (JObj []) = JObj d"
    using assms by (auto simp: plain_edge_def split: json.splits)
  ultimately show ?thesis
    unfolding sync_edge_def
    by (intro preserves_intros preserves_bnd_lift) (auto intro!: preserves_intros backend.frame_rel)
qed

lemma frame_sync_files:
  "preserves (stores_frame tid s0) (sync_files env genv now agent_id tid files)"
  unfolding sync_files_def by (intro preserves_intros frame_in_store bulk_upsert_write)

lemma frame_sync_delta:
  assumes "plain_chunk chunk"
  shows "preserves (stores_frame (dc_tenant_id chunk) s0) (sync_delta env genv now key chunk)"
proof -
  have others: "plain_type n \<and> is_file_node n = Inr False"
    if "split_nodes (dc_nodes chunk) = Inr (files, others)" "n \<in> set others" for files others n
    using that split_nodes_parts [OF that(1)] assms by (auto simp: plain_chunk_def list_all_iff)
  have edges: "plain_edge e" if "e \<in> set (dc_edges chunk)" for e
    using that assms by (simp add: plain_chunk_def list_all_iff)
  show ?thesis
    unfolding sync_delta_def
    by (intro preserves_intros preserves_bnd_lift frame_sync_files frame_sync_node frame_sync_edge edges)
      (auto dest: others)
qed

text \<open>
  The states that ingestion by plain chunks reaches: the graphs start empty, scanners sync chunks
  whose types are labels and send heartbeats, and the relational database changes in any way. Chunks
  with a type that is no label, and what other parts of the program write to the graphs, are not steps.
\<close>

inductive ingest_reachable :: "auth_env \<Rightarrow> graph_env \<Rightarrow> ingest_state \<Rightarrow> bool" for env genv where
  start: "is_stores s = (\<lambda>i. empty_store) \<Longrightarrow> ingest_reachable env genv s"
| sync: "ingest_reachable env genv s \<Longrightarrow> plain_chunk chunk \<Longrightarrow>
    ingest_reachable env genv (snd (ingest_request (sync_delta env genv now key chunk) s))"
| beat: "ingest_reachable env genv s \<Longrightarrow>
    ingest_reachable env genv (snd (ingest_request (heartbeat env now key p) s))"
| other: "ingest_reachable env genv s \<Longrightarrow> ingest_reachable env genv (s\<lparr>is_db := d\<rparr>)"


lemma request_stores:
  "is_stores (snd (ingest_request m s)) = is_stores (snd (m s))"
  by (auto simp: ingest_request_def transaction_def split: handler_splits)

lemma heartbeat_stores: "is_stores (snd (heartbeat env now key p s)) = is_stores s"
  by (auto simp: heartbeat_def in_db_def split: handler_splits)

lemma frame_request:
  assumes "plain_chunk chunk" and "\<And>i. graph_ok (is_stores s i)"
  shows "stores_frame (dc_tenant_id chunk) s (snd (ingest_request (sync_delta env genv now key chunk) s))"
proof -
  have "stores_frame (dc_tenant_id chunk) s s" using assms(2) by (simp add: stores_frame_def)
  from preservesD [OF frame_sync_delta [OF assms(1)] this] show ?thesis
    by (simp add: stores_frame_def request_stores)
qed

lemma reachable_graph_ok: "ingest_reachable env genv s \<Longrightarrow> graph_ok (is_stores s i)"
proof (induction arbitrary: i rule: ingest_reachable.induct)
  case (sync s chunk now key)
  from frame_request [OF sync.hyps(2) sync.IH] show ?case by (simp add: stores_frame_def)
qed (simp_all add: graph_ok_empty request_stores heartbeat_stores)

text \<open>C1: Deduplication of files never takes place. Take graphs that started empty and that only
  heartbeats and syncs of plain chunks have changed, chunks whose types, if given, are labels (letters,
  digits and underscores, no digit first) and whose edges have a map of properties; the relational
  database is arbitrary. Whenever the bulk statement runs on such a graph without an error, with any
  rows, it adds one new File node for each row, also for content it has merged before, and reports all
  of them as merged; and afterwards no File node has a relationship.\<close>

theorem files_never_merge:
  assumes "ingest_reachable env genv s"
    and "bulk_upsert agent_id tid now rows (is_stores s i) = Inr (n, g')"
  shows "n = length rows \<and>
    (\<exists>ns. gs_nodes g' = gs_nodes (is_stores s i) @ ns \<and> (\<forall>f \<in> set ns. vx_labels f = [''File'']) \<and>
      map (\<lambda>f. dict_get (vx_props f) ''node_id'') ns = map (\<lambda>r. Some (JStr (fr_node_id r))) rows) \<and>
    filter (touches (filter (\<lambda>f. vx_labels f = [''File'']) (gs_nodes g'))) (gs_rels g') = []"
proof -
  have ok: "graph_ok (is_stores s i)" using assms(1) by (rule reachable_graph_ok)
  from bulk_upsert_write [OF ok assms(2)] have "graph_ok g'" by blast
  with bulk_upsert_creates [OF ok assms(2)] show ?thesis by (auto simp: graph_ok_def)
qed

lemma get_scanner_Inr:
  assumes "get_scanner env now (Some key) s = (Inr a, s')"
  shows "\<exists>b \<in> set (scanner_agents s). sa_is_active b \<and> sa_api_key_hash b = sha256_hex env key \<and>
    sa_tenant_id b = sa_tenant_id a \<and> sa_id b = sa_id a"
  using assms
  by (auto simp: get_scanner_def opt_str_or_def Let_def dest: scalar_one_or_none_filter_Some
    split: handler_splits)

text \<open>C2: Under two restrictions, a sync under a key changes a tenant's part of a graph, its nodes and
  the relationships that touch one of them, only if an active scanner of that tenant has the key;
  whichever tenant the chunk names, and also when the request fails half-way. The restrictions: every
  type in the chunk is a label (letters, digits and underscores, no digit first) and the properties of
  its edges are maps; and the graphs started empty and were changed only by syncs of such chunks and by
  heartbeats. A type that is no label becomes part of the text of the query, and such a chunk can reach
  the nodes of another tenant: nothing is claimed of it.\<close>

theorem sync_isolated:
  assumes "ingest_reachable env genv s" and "plain_chunk chunk"
    and "\<forall>a \<in> set (scanner_agents (is_db s)). sa_is_active a \<and> sa_api_key_hash a = sha256_hex env key \<longrightarrow>
      uuid_str (sa_tenant_id a) \<noteq> t"
    and "ingest_request (sync_delta env genv now (Some key) chunk) s = (r, s')"
  shows "part t (is_stores s' i) = part t (is_stores s i)"
proof (cases "dc_tenant_id chunk = t")
  case False
  from frame_request [OF assms(2) reachable_graph_ok [OF assms(1)], of env genv now "Some key"] False
  show ?thesis by (simp add: stores_frame_def assms(4))
next
  case True
  have "is_stores (snd (sync_delta env genv now (Some key) chunk s)) = is_stores s"
  proof (cases "get_scanner env now (Some key) (is_db s)")
    case (Pair q d)
    then show ?thesis
    proof (cases q)
      case (Inr a)
      from get_scanner_Inr [of env now key "is_db s" a d] Pair Inr assms(3)
      have "uuid_str (sa_tenant_id a) \<noteq> dc_tenant_id chunk" using True by auto
      then show ?thesis using Pair Inr by (simp add: sync_delta_def in_db_def)
    qed (simp add: sync_delta_def in_db_def)
  qed
  then show ?thesis using request_stores [of "sync_delta env genv now (Some key) chunk" s]
    by (simp add: assms(4))
qed


section \<open>Findings\<close>

text \<open>An edge between nodes the graph does not have is counted as merged.\<close>

lemma dangling_edge_counted:
  assumes "gs_nodes (is_stores s (store_of genv b)) = []"
  shows "sync_edge env genv b tid [(''op'', JStr ''upsert''), (''type'', JStr ''IN''), (''from'', JStr ''a''), (''to'', JStr ''b'')] s
    = (Inr True, s)"
proof -
  have "is_label ''IN''" by code_simp
  with assms show ?thesis
    by (simp add: sync_edge_def dict_item_def dict_get_def dict_get_or_def in_store_def no_value_def upsert_rel_def
      py_str_def Let_def)
qed

text \<open>Deletions are ignored: a node or an edge to delete is neither removed nor an error.\<close>

lemma deletions_ignored:
  "dict_get node ''op'' = Some (JStr ''delete'') \<Longrightarrow> sync_node env genv b tid node s = (Inr False, s)"
  by (simp add: sync_node_def dict_item_def)

text \<open>The topology knows no tenants: an agent's heartbeat puts it among the sources everybody is shown.\<close>

lemma sources_of_every_tenant:
  assumes "heartbeat env now (Some key) p s = (Inr (), s')"
  shows "\<exists>t \<in> set (list_sources (is_topology s')). tp_region t = hb_region p"
proof -
  from assms(1) obtain a d where a: "get_scanner env now (Some key) (is_db s) = (Inr a, d)"
    by (auto simp: heartbeat_def in_db_def split: handler_splits)
  define t where "t = \<lparr> tp_agent_id = uuid_str (sa_id a), tp_region = hb_region p, tp_datacenter = hb_datacenter p,
    tp_latency_matrix = hb_latency_matrix p, tp_bandwidth_mbps = hb_bandwidth_mbps p,
    tp_is_online = True, tp_indexed_connectors = hb_indexed_connectors p \<rparr>"
  from assms(1) a have "is_topology s' = dict_set (tp_agent_id t) t (is_topology s)"
    by (auto simp: heartbeat_def in_db_def register_agent_def t_def)
  then show ?thesis using in_set_dict_set [of "tp_agent_id t" t "is_topology s"]
    by (force simp: list_sources_def t_def)
qed

section \<open>Witnesses\<close>

definition example_scanner_db :: db where
  "example_scanner_db = empty_db\<lparr>
     tenants := [new_tenant 1 0 ''acme'' ''Acme'' None],
     scanner_agents := [new_scanner_agent 5 0 1 ''nas'' ''hk'', new_scanner_agent 6 0 2 ''nas'' ''hz''],
     next_uuid := 20\<rparr>"

definition example_state :: ingest_state where
  "example_state = \<lparr>is_db = example_scanner_db, is_stores = (\<lambda>i. empty_store), is_topology = []\<rparr>"

definition example_chunk :: delta_chunk where
  "example_chunk =
     \<lparr> dc_scanner_id = ''5'', dc_tenant_id = uuid_str 1, dc_scan_job_id = ''j'', dc_chunk_index = 0,
       dc_is_final = True, dc_scanned_at = ''t'', dc_stats = [],
       dc_nodes = [[(''op'', JStr ''upsert''), (''type'', JStr ''File''), (''props'', JObj [(''path'', JStr ''p'')])],
                   [(''op'', JStr ''upsert''), (''type'', JStr ''Person''), (''id'', JStr ''a'')]],
       dc_edges = [] \<rparr>"

lemma example_chunk_plain: "plain_chunk example_chunk"
  by code_simp

lemma example_state_reachable: "ingest_reachable example_env example_genv example_state"
  by (rule ingest_reachable.start) (simp add: example_state_def)

definition example_synced :: ingest_state where
  "example_synced = snd (ingest_request (sync_delta example_env example_genv 5 (Some ''k'') example_chunk) example_state)"

lemma example_synced_reachable: "ingest_reachable example_env example_genv example_synced"
  unfolding example_synced_def
  by (rule ingest_reachable.sync [OF example_state_reachable example_chunk_plain])

lemma example_synced_nodes:
  "map vx_labels (gs_nodes (is_stores example_synced 0)) = [[''File''], [''Person'']]"
  by code_simp

theorem sync_isolated_witness:
  "part (uuid_str 2) (is_stores example_synced 0) = part (uuid_str 2) (is_stores example_state 0) \<and>
   length (gs_nodes (is_stores example_synced 0)) = 2"
proof -
  let ?run = "ingest_request (sync_delta example_env example_genv 5 (Some ''k'') example_chunk) example_state"
  have other: "\<forall>a \<in> set (scanner_agents (is_db example_state)). sa_is_active a \<and>
      sa_api_key_hash a = sha256_hex example_env ''k'' \<longrightarrow> uuid_str (sa_tenant_id a) \<noteq> uuid_str 2"
  proof -
    have "uuid_str 1 \<noteq> uuid_str 2" by code_simp
    then show ?thesis
      by (simp add: example_state_def example_scanner_db_def new_scanner_agent_def example_env_def del: One_nat_def)
  qed
  obtain r where "?run = (r, example_synced)" by (cases ?run) (simp add: example_synced_def)
  from sync_isolated [OF example_state_reachable example_chunk_plain other this, of 0]
  show ?thesis using arg_cong [OF example_synced_nodes, of length] by simp
qed

definition example_row :: file_row where
  "example_row = (case file_row_of example_env [(''path'', JStr ''p'')] of Inr r \<Rightarrow> r)"

theorem files_never_merge_witness:
  "\<exists>g'. bulk_upsert ''5'' (uuid_str 1) 9 [example_row] (is_stores example_synced 0) = Inr (1, g') \<and>
     length (gs_nodes g') = 3"
proof -
  have "case bulk_upsert ''5'' (uuid_str 1) 9 [example_row] (is_stores example_synced 0) of
      Inl e \<Rightarrow> False | Inr r \<Rightarrow> True"
    by code_simp
  then obtain n g' where run: "bulk_upsert ''5'' (uuid_str 1) 9 [example_row] (is_stores example_synced 0) = Inr (n, g')"
    by (auto split: sum.splits)
  from files_never_merge [OF example_synced_reachable run] run
  show ?thesis using arg_cong [OF example_synced_nodes, of length]
    by (auto dest!: arg_cong [where f = length])
qed

end
