(* ===== verification/Fleet.thy ===== *)
theory Fleet
  imports Oidc
begin

text \<open>
  \<open>api/fleet.py\<close>: fleets of scanner agents, their telemetry, their assignment to connectors.

  Fleets live in two dicts of the process, association lists here, and not in the database. PATCH
  stores whatever JSON the body has, so the patched fields are JSON values. The only ordered thing
  about the pair \<open>sorted([a, b])\<close> is that it does not depend on the order of its elements: an edge
  of the mesh is a pair, seen in either direction.
\<close>

section \<open>State\<close>

record fleet =
  fl_id :: string
  fl_name :: json
  fl_description :: json
  fl_tenant_id :: string
  fl_created_at :: time
  fl_scan_strategy :: json
  fl_agent_ids :: json
  fl_assignments :: "(string \<times> json) list"

record telemetry_entry =
  te_from_agent :: string
  te_submitted_at :: time
  te_probes :: "py_dict list"

record fleet_state =
  fs_fleets :: "(string \<times> fleet) list"
  fs_telemetry :: "(string \<times> telemetry_entry list) list"

type_synonym 'a fleet_op = "(fleet_state, 'a) handler"

definition not_found :: py_error where
  "not_found = HTTPException 404 ''Fleet not found''"

text \<open>The lookup every endpoint of one fleet starts with.\<close>

definition own_fleet :: "auth_context \<Rightarrow> string \<Rightarrow> fleet fleet_op" where
  "own_fleet auth fleet_id =
     bnd (gets (\<lambda>s. map_of (fs_fleets s) fleet_id)) (\<lambda>found.
     case found of
       None \<Rightarrow> raise not_found
     | Some f \<Rightarrow> if fl_tenant_id f = uuid_str (ac_tenant_id auth) then ret f else raise not_found)"

definition put_fleet :: "fleet \<Rightarrow> fleet_state \<Rightarrow> fleet_state" where
  "put_fleet f s = s\<lparr>fs_fleets := dict_set (fl_id f) f (fs_fleets s)\<rparr>"

definition telemetry_of :: "string \<Rightarrow> fleet_state \<Rightarrow> telemetry_entry list" where
  "telemetry_of i s = (case map_of (fs_telemetry s) i of None \<Rightarrow> [] | Some es \<Rightarrow> es)"

section \<open>Fleets\<close>

record create_fleet_request =
  cf_name :: string
  cf_description :: string
  cf_agent_ids :: "string list"
  cf_scan_strategy :: string

text \<open>\<open>new_id\<close> is the \<open>uuid.uuid4()\<close> of the request.\<close>

definition create_fleet :: "time \<Rightarrow> uuid \<Rightarrow> auth_context \<Rightarrow> create_fleet_request \<Rightarrow> fleet fleet_op" where
  "create_fleet now new_id auth req =
     (let i = uuid_str new_id;
          f = \<lparr> fl_id = i, fl_name = JStr (cf_name req), fl_description = JStr (cf_description req),
                fl_tenant_id = uuid_str (ac_tenant_id auth), fl_created_at = now,
                fl_scan_strategy = JStr (cf_scan_strategy req),
                fl_agent_ids = JArr (map JStr (cf_agent_ids req)), fl_assignments = [] \<rparr>
      in thn (modify (put_fleet f))
         (thn (modify (\<lambda>s. s\<lparr>fs_telemetry := dict_set i [] (fs_telemetry s)\<rparr>)) (ret f)))"

definition list_fleets :: "auth_context \<Rightarrow> fleet list fleet_op" where
  "list_fleets auth =
     gets (\<lambda>s. filter (\<lambda>f. fl_tenant_id f = uuid_str (ac_tenant_id auth)) (map snd (fs_fleets s)))"

definition patch_field :: "py_dict \<Rightarrow> string \<Rightarrow> json \<Rightarrow> json" where
  "patch_field body k v = dict_get_or body k v"

definition update_fleet :: "auth_context \<Rightarrow> string \<Rightarrow> py_dict \<Rightarrow> fleet fleet_op" where
  "update_fleet auth fleet_id body =
     bnd (own_fleet auth fleet_id) (\<lambda>f.
     let f' = f\<lparr> fl_name := patch_field body ''name'' (fl_name f),
                 fl_description := patch_field body ''description'' (fl_description f),
                 fl_scan_strategy := patch_field body ''scan_strategy'' (fl_scan_strategy f),
                 fl_agent_ids := patch_field body ''agent_ids'' (fl_agent_ids f) \<rparr>
     in thn (modify (put_fleet f')) (ret f'))"

definition delete_fleet :: "auth_context \<Rightarrow> string \<Rightarrow> unit fleet_op" where
  "delete_fleet auth fleet_id =
     thn (own_fleet auth fleet_id)
       (modify (\<lambda>s. s\<lparr> fs_fleets := filter (\<lambda>e. fst e \<noteq> fleet_id) (fs_fleets s),
                        fs_telemetry := filter (\<lambda>e. fst e \<noteq> fleet_id) (fs_telemetry s) \<rparr>))"

section \<open>Telemetry and the mesh\<close>

text \<open>\<open>_TELEMETRY[id] = (_TELEMETRY[id] + [entry])[-100:]\<close>.\<close>

definition last_100 :: "'a list \<Rightarrow> 'a list" where
  "last_100 xs = drop (length xs - 100) xs"

definition submit_telemetry ::
  "time \<Rightarrow> auth_context \<Rightarrow> string \<Rightarrow> string \<Rightarrow> py_dict list \<Rightarrow> unit fleet_op" where
  "submit_telemetry now auth fleet_id agent_id probes =
     thn (own_fleet auth fleet_id)
       (modify (\<lambda>s. s\<lparr>fs_telemetry := dict_set fleet_id
          (last_100 (telemetry_of fleet_id s @
             [\<lparr> te_from_agent = agent_id, te_submitted_at = now, te_probes = probes \<rparr>])) (fs_telemetry s)\<rparr>))"

record mesh_edge =
  me_from :: string
  me_to :: string
  me_latency_ms :: json
  me_bandwidth_mbps :: json
  me_quality :: string

definition number :: "json \<Rightarrow> py_error + rat" where
  "number v = (case v of JInt i \<Rightarrow> Inr (of_int i) | JNum q \<Rightarrow> Inr q | JBool b \<Rightarrow> Inr (if b then 1 else 0)
               | _ \<Rightarrow> Inl TypeError)"

definition quality :: "json \<Rightarrow> py_error + string" where
  "quality latency_ms =
     map_sum id (\<lambda>q. if q < 5 then ''excellent'' else if q < 20 then ''good'' else if q < 100 then ''fair'' else ''poor'')
       (number latency_ms)"

definition same_pair :: "string \<times> string \<Rightarrow> string \<times> string \<Rightarrow> bool" where
  "same_pair p q \<longleftrightarrow> p = q \<or> p = (snd q, fst q)"

text \<open>One probe of one entry: a peer that is no string cannot be sorted with the agent's id.\<close>

definition probe_edge :: "string \<Rightarrow> py_dict \<Rightarrow> mesh_edge list \<Rightarrow> py_error + mesh_edge list" where
  "probe_edge from_id probe edges =
     (case dict_get_or probe ''peer_agent_id'' (JStr '''') of
        JStr peer \<Rightarrow>
          if \<not> list_ex (\<lambda>e. same_pair (me_from e, me_to e) (from_id, peer)) edges \<and>
             truthy (dict_get_or probe ''reachable'' JNull) then
            map_sum id (\<lambda>q. edges @ [\<lparr> me_from = from_id, me_to = peer,
                me_latency_ms = dict_get_or probe ''latency_ms'' (JInt 0),
                me_bandwidth_mbps = dict_get_or probe ''bandwidth_mbps'' (JInt 0), me_quality = q \<rparr>])
              (quality (dict_get_or probe ''latency_ms'' (JInt 999)))
          else Inr edges
      | _ \<Rightarrow> Inl TypeError)"

fun probe_edges :: "string \<Rightarrow> py_dict list \<Rightarrow> mesh_edge list \<Rightarrow> py_error + mesh_edge list" where
  "probe_edges from_id [] edges = Inr edges"
| "probe_edges from_id (p # ps) edges =
     (case probe_edge from_id p edges of Inl e \<Rightarrow> Inl e | Inr edges' \<Rightarrow> probe_edges from_id ps edges')"

fun mesh_edges :: "telemetry_entry list \<Rightarrow> mesh_edge list \<Rightarrow> py_error + mesh_edge list" where
  "mesh_edges [] edges = Inr edges"
| "mesh_edges (t # ts) edges =
     (case probe_edges (te_from_agent t) (te_probes t) edges of Inl e \<Rightarrow> Inl e | Inr edges' \<Rightarrow> mesh_edges ts edges')"

definition get_mesh :: "auth_context \<Rightarrow> string \<Rightarrow> (json \<times> mesh_edge list) fleet_op" where
  "get_mesh auth fleet_id =
     bnd (own_fleet auth fleet_id) (\<lambda>f.
     bnd (gets (telemetry_of fleet_id)) (\<lambda>ts.
     bnd (lift_err (mesh_edges (rev ts) [])) (\<lambda>edges. ret (fl_agent_ids f, edges))))"

section \<open>Assignment\<close>

text \<open>\<open>agent_ids[i % len(agent_ids)]\<close>, for a value that is truthy.\<close>

definition cyclic_item :: "json \<Rightarrow> nat \<Rightarrow> py_error + json" where
  "cyclic_item agent_ids i =
     (case agent_ids of
        JArr xs \<Rightarrow> Inr (xs ! (i mod length xs))
      | JStr t \<Rightarrow> Inr (JStr [t ! (i mod length t)])
      | JObj d \<Rightarrow> Inl (KeyError (nat_str (i mod length d)))
      | _ \<Rightarrow> Inl TypeError)"

fun assign_from :: "json \<Rightarrow> nat \<Rightarrow> string list \<Rightarrow> (string \<times> json) list \<Rightarrow> py_error + (string \<times> json) list" where
  "assign_from agent_ids i [] out = Inr out"
| "assign_from agent_ids i (c # cs) out =
     (case cyclic_item agent_ids i of
        Inl e \<Rightarrow> Inl e
      | Inr a \<Rightarrow> assign_from agent_ids (Suc i) cs (dict_set c a out))"

definition assign_connectors ::
  "auth_context \<Rightarrow> string \<Rightarrow> string list \<Rightarrow> string \<Rightarrow> ((string \<times> json) list \<times> json) fleet_op" where
  "assign_connectors auth fleet_id connector_ids req_strategy =
     bnd (own_fleet auth fleet_id) (\<lambda>f.
     thn (guard (truthy (fl_agent_ids f)) (HTTPException 400 ''Fleet has no members'')) (
     let strategy = (if req_strategy = '''' then fl_scan_strategy f else JStr req_strategy)
     in bnd (lift_err (if strategy \<in> {JStr ''round_robin'', JStr ''capacity_weighted'', JStr ''latency_aware''}
                       then assign_from (fl_agent_ids f) 0 connector_ids [] else Inr [])) (\<lambda>assignments.
        thn (modify (put_fleet (f\<lparr>fl_assignments := dict_update (fl_assignments f) assignments\<rparr>)))
        (ret (assignments, strategy)))))"

section \<open>Fleet detail\<close>

record fleet_member =
  fm_agent_id :: string
  fm_name :: string
  fm_hostname :: string
  fm_os :: string
  fm_version :: string
  fm_is_online :: bool
  fm_files_indexed :: int
  fm_peer_latency :: "(string \<times> json) list"
  fm_peer_bandwidth :: "(string \<times> json) list"

record fleet_detail =
  fd_fleet :: fleet
  fd_members :: "fleet_member list"
  fd_status :: string

text \<open>The row of an agent id of the fleet; the id is compared with a UUID column.\<close>

definition agent_row :: "uuid \<Rightarrow> json \<Rightarrow> db \<Rightarrow> py_error + scanner_agent option" where
  "agent_row tid agent_id s =
     (case agent_id of
        JStr t \<Rightarrow> (case parse_uuid t of
            None \<Rightarrow> Inl (OtherError ''DBAPIError'')
          | Some i \<Rightarrow> Inr (first_row (filter (\<lambda>a. sa_id a = i \<and> sa_tenant_id a = tid) (scanner_agents s))))
      | _ \<Rightarrow> Inl (OtherError ''DBAPIError''))"

definition is_online :: "time \<Rightarrow> scanner_agent \<Rightarrow> bool" where
  "is_online now a \<longleftrightarrow> (case sa_last_seen_at a of None \<Rightarrow> False | Some t \<Rightarrow> now - t < seconds 90)"

text \<open>
  What the telemetry says of the peers of an agent: latency and bandwidth by peer, the latest last.
  A peer that is neither a string nor hashable raises; the response model refuses other keys.
\<close>

definition peer_measure :: "string \<Rightarrow> py_dict \<Rightarrow> (string \<times> json) list \<Rightarrow> py_error + (string \<times> json) list" where
  "peer_measure key p m =
     (let peer = dict_get_or p ''peer_agent_id'' (JStr '''')
      in if truthy (dict_get_or p ''reachable'' JNull) \<and> truthy peer then
           (case peer of
              JStr t \<Rightarrow> Inr (dict_set t (dict_get_or p key (JInt 0)) m)
            | JArr xs \<Rightarrow> Inl TypeError
            | JObj d \<Rightarrow> Inl TypeError
            | _ \<Rightarrow> Inl (OtherError ''ValidationError''))
         else Inr m)"

fun peer_measures :: "string \<Rightarrow> py_dict list \<Rightarrow> (string \<times> json) list \<Rightarrow> py_error + (string \<times> json) list" where
  "peer_measures key [] m = Inr m"
| "peer_measures key (p # ps) m =
     (case peer_measure key p m of Inl e \<Rightarrow> Inl e | Inr m' \<Rightarrow> peer_measures key ps m')"

definition probes_from :: "string \<Rightarrow> telemetry_entry list \<Rightarrow> py_dict list" where
  "probes_from agent_id ts = concat (map te_probes (filter (\<lambda>t. te_from_agent t = agent_id) ts))"

definition member_detail :: "time \<Rightarrow> telemetry_entry list \<Rightarrow> scanner_agent \<Rightarrow> py_error + fleet_member" where
  "member_detail now ts a =
     (let probes = probes_from (uuid_str (sa_id a)) ts
      in case peer_measures ''latency_ms'' probes [] of
           Inl e \<Rightarrow> Inl e
         | Inr lat \<Rightarrow> map_sum id (\<lambda>bw.
             \<lparr> fm_agent_id = uuid_str (sa_id a), fm_name = sa_name a,
               fm_hostname = str_or (sa_hostname a) '''', fm_os = str_or (sa_os a) ''unknown'',
               fm_version = str_or (sa_version a) ''unknown'', fm_is_online = is_online now a,
               fm_files_indexed = (case sa_files_indexed a of None \<Rightarrow> 0 | Some n \<Rightarrow> n),
               fm_peer_latency = lat, fm_peer_bandwidth = bw \<rparr>) (peer_measures ''bandwidth_mbps'' probes []))"

fun fleet_members ::
  "time \<Rightarrow> uuid \<Rightarrow> telemetry_entry list \<Rightarrow> db \<Rightarrow> json list \<Rightarrow> py_error + fleet_member list" where
  "fleet_members now tid ts s [] = Inr []"
| "fleet_members now tid ts s (i # is) =
     (case agent_row tid i s of
        Inl e \<Rightarrow> Inl e
      | Inr None \<Rightarrow> fleet_members now tid ts s is
      | Inr (Some a) \<Rightarrow> (case member_detail now ts a of
          Inl e \<Rightarrow> Inl e
        | Inr m \<Rightarrow> map_sum id (\<lambda>ms. m # ms) (fleet_members now tid ts s is)))"

definition fleet_status :: "fleet_member list \<Rightarrow> string" where
  "fleet_status ms =
     (let online = length (filter fm_is_online ms)
      in if online = length ms \<and> online > 0 then ''healthy'' else if online > 0 then ''degraded'' else ''offline'')"

text \<open>The response model takes strings only.\<close>

definition is_text :: "json \<Rightarrow> bool" where
  "is_text v = (case v of JStr t \<Rightarrow> True | _ \<Rightarrow> False)"

definition detail_valid :: "fleet \<Rightarrow> bool" where
  "detail_valid f \<longleftrightarrow>
     is_text (fl_name f) \<and> is_text (fl_description f) \<and> is_text (fl_scan_strategy f) \<and>
     list_all (\<lambda>e. is_text (snd e)) (fl_assignments f)"

definition get_fleet :: "time \<Rightarrow> auth_context \<Rightarrow> db \<Rightarrow> string \<Rightarrow> fleet_detail fleet_op" where
  "get_fleet now auth s fleet_id =
     bnd (own_fleet auth fleet_id) (\<lambda>f.
     bnd (lift_err (json_iter (fl_agent_ids f))) (\<lambda>ids.
     bnd (gets (telemetry_of fleet_id)) (\<lambda>ts.
     bnd (lift_err (fleet_members now (ac_tenant_id auth) ts s ids)) (\<lambda>ms.
     thn (guard (detail_valid f) (OtherError ''ValidationError''))
     (ret \<lparr> fd_fleet = f, fd_members = ms, fd_status = fleet_status ms \<rparr>)))))"


section \<open>Requests\<close>

datatype fleet_request =
    CreateFleet time uuid create_fleet_request
  | UpdateFleet string py_dict
  | DeleteFleet string
  | SubmitTelemetry time string string "py_dict list"
  | AssignConnectors string "string list" string
  | ReadFleets

text \<open>Every request; those that only read are one, \<open>ReadFleets\<close>.\<close>

fun fleet_handle :: "auth_context \<Rightarrow> fleet_request \<Rightarrow> unit fleet_op" where
  "fleet_handle auth (CreateFleet now i req) = thn (create_fleet now i auth req) (ret ())"
| "fleet_handle auth (UpdateFleet i body) = thn (update_fleet auth i body) (ret ())"
| "fleet_handle auth (DeleteFleet i) = delete_fleet auth i"
| "fleet_handle auth (SubmitTelemetry now i agent probes) = submit_telemetry now auth i agent probes"
| "fleet_handle auth (AssignConnectors i cs strat) = thn (assign_connectors auth i cs strat) (ret ())"
| "fleet_handle auth ReadFleets = thn (list_fleets auth) (ret ())"

text \<open>A new fleet's id is one that no fleet has.\<close>

fun fresh_request :: "fleet_request \<Rightarrow> fleet_state \<Rightarrow> bool" where
  "fresh_request (CreateFleet now i req) s \<longleftrightarrow> map_of (fs_fleets s) (uuid_str i) = None"
| "fresh_request r s \<longleftrightarrow> True"

inductive fleet_reachable :: "fleet_state \<Rightarrow> bool" where
  start: "fleet_reachable \<lparr>fs_fleets = [], fs_telemetry = []\<rparr>"
| request: "fleet_reachable s \<Longrightarrow> fresh_request req s \<Longrightarrow> fleet_reachable (snd (fleet_handle auth req s))"

definition fleet_inv :: "fleet_state \<Rightarrow> bool" where
  "fleet_inv s \<longleftrightarrow>
     (\<forall>i f. map_of (fs_fleets s) i = Some f \<longrightarrow> fl_id f = i) \<and>
     (\<forall>i es. map_of (fs_telemetry s) i = Some es \<longrightarrow> length es \<le> 100 \<and> map_of (fs_fleets s) i \<noteq> None)"

text \<open>What a tenant has: its fleets, by id, with their telemetry.\<close>

definition fleets_of :: "string \<Rightarrow> fleet_state \<Rightarrow> string \<Rightarrow> (fleet \<times> telemetry_entry list option) option" where
  "fleets_of tid s i =
     (case map_of (fs_fleets s) i of
        None \<Rightarrow> None
      | Some f \<Rightarrow> if fl_tenant_id f = tid then Some (f, map_of (fs_telemetry s) i) else None)"

lemma own_fleet_cases:
  obtains (refused) "own_fleet auth i s = (Inl not_found, s)"
  | (own) f where "own_fleet auth i s = (Inr f, s)" and "map_of (fs_fleets s) i = Some f"
      and "fl_tenant_id f = uuid_str (ac_tenant_id auth)"
proof (cases "map_of (fs_fleets s) i")
  case (Some f)
  with refused own show ?thesis
    by (cases "fl_tenant_id f = uuid_str (ac_tenant_id auth)") (auto simp: own_fleet_def)
qed (use refused in \<open>auto simp: own_fleet_def\<close>)

lemma map_of_removed_key: "map_of (filter (\<lambda>e. fst e \<noteq> k) ps) k' = (if k' = k then None else map_of ps k')"
  by (induction ps) auto

text \<open>The four ways a request changes the state.\<close>

lemma fleet_handle_effect:
  assumes "fleet_inv s" and "fleet_handle auth req s = (r, s')"
  obtains (same) "s' = s"
  | (put) f old where "s' = put_fleet f s" and "map_of (fs_fleets s) (fl_id f) = Some old"
      and "fl_tenant_id old = uuid_str (ac_tenant_id auth)" and "fl_tenant_id f = fl_tenant_id old"
  | (new) f now i q where "req = CreateFleet now i q" and "fl_id f = uuid_str i"
      and "fl_tenant_id f = uuid_str (ac_tenant_id auth)"
      and "s' = (put_fleet f s)\<lparr>fs_telemetry := dict_set (uuid_str i) [] (fs_telemetry s)\<rparr>"
  | (delete) i f where "map_of (fs_fleets s) i = Some f" and "fl_tenant_id f = uuid_str (ac_tenant_id auth)"
      and "s' = s\<lparr> fs_fleets := filter (\<lambda>e. fst e \<noteq> i) (fs_fleets s),
                   fs_telemetry := filter (\<lambda>e. fst e \<noteq> i) (fs_telemetry s) \<rparr>"
  | (measure) i f es where "map_of (fs_fleets s) i = Some f" and "fl_tenant_id f = uuid_str (ac_tenant_id auth)"
      and "s' = s\<lparr>fs_telemetry := dict_set i es (fs_telemetry s)\<rparr>" and "length es \<le> 100"
proof (cases req)
  case (CreateFleet now i q)
  with assms(2) new show ?thesis
    by (simp add: create_fleet_def put_fleet_def Let_def) (metis fleet.select_convs(1,4))
next
  case (UpdateFleet i body)
  show ?thesis
  proof (cases rule: own_fleet_cases [of auth i s])
    case (own f)
    then show ?thesis using assms UpdateFleet put
      by (auto simp: update_fleet_def fleet_inv_def Let_def)
  qed (use assms(2) same in \<open>auto simp: UpdateFleet update_fleet_def\<close>)
next
  case (DeleteFleet i)
  show ?thesis
  proof (cases rule: own_fleet_cases [of auth i s])
    case (own f)
    then show ?thesis using assms(2) DeleteFleet delete by (auto simp: delete_fleet_def)
  qed (use assms(2) same in \<open>auto simp: DeleteFleet delete_fleet_def\<close>)
next
  case (SubmitTelemetry now i agent probes)
  show ?thesis
  proof (cases rule: own_fleet_cases [of auth i s])
    case (own f)
    then show ?thesis using assms(2) SubmitTelemetry measure
      by (auto simp: submit_telemetry_def last_100_def)
  qed (use assms(2) same in \<open>auto simp: SubmitTelemetry submit_telemetry_def\<close>)
next
  case (AssignConnectors i cs strat)
  show ?thesis
  proof (cases rule: own_fleet_cases [of auth i s])
    case (own f)
    then show ?thesis using assms AssignConnectors put same
      by (auto simp: assign_connectors_def fleet_inv_def Let_def split: handler_splits)
  qed (use assms(2) same in \<open>auto simp: AssignConnectors assign_connectors_def\<close>)
next
  case ReadFleets
  with assms(2) same show ?thesis by (simp add: list_fleets_def)
qed


lemma fleet_inv_request:
  assumes "fleet_inv s" and "fresh_request req s"
  shows "fleet_inv (snd (fleet_handle auth req s))"
proof -
  obtain r s' where run: "fleet_handle auth req s = (r, s')" by force
  from assms(1) run show ?thesis
  proof (cases rule: fleet_handle_effect)
    case (new f now i q)
    then show ?thesis using assms run by (auto simp: fleet_inv_def put_fleet_def map_of_dict_set)
  qed (use assms(1) run in \<open>auto simp: fleet_inv_def put_fleet_def map_of_dict_set map_of_removed_key split: if_splits\<close>)
qed

lemma fleet_reachable_inv: "fleet_reachable s \<Longrightarrow> fleet_inv s"
  by (induction rule: fleet_reachable.induct) (simp_all add: fleet_inv_request, simp add: fleet_inv_def)

text \<open>C37: Fleets are isolated and their telemetry is bounded: in every state the requests lead to, a
  request of one tenant leaves the fleets of every other tenant and their telemetry as they are, a
  fleet's log holds at most 100 entries, and no log outlives its fleet.\<close>

theorem fleet_isolated:
  assumes "fleet_reachable s" and "fresh_request req s" and "t \<noteq> uuid_str (ac_tenant_id auth)"
    and "fleet_handle auth req s = (r, s')"
  shows "fleets_of t s' = fleets_of t s \<and>
    (\<forall>i es. map_of (fs_telemetry s') i = Some es \<longrightarrow> length es \<le> 100 \<and> map_of (fs_fleets s') i \<noteq> None)"
proof
  have inv: "fleet_inv s" using assms(1) by (rule fleet_reachable_inv)
  from fleet_inv_request [OF this assms(2), of auth]
  show "\<forall>i es. map_of (fs_telemetry s') i = Some es \<longrightarrow> length es \<le> 100 \<and> map_of (fs_fleets s') i \<noteq> None"
    by (simp add: fleet_inv_def assms(4))
  from inv assms(4) show "fleets_of t s' = fleets_of t s"
  proof (cases rule: fleet_handle_effect)
    case (new f now i q)
    then show ?thesis using assms(2,3)
      by (auto simp: fun_eq_iff fleets_of_def put_fleet_def map_of_dict_set split: option.split)
  qed (use assms(3) in \<open>auto simp: fun_eq_iff fleets_of_def put_fleet_def map_of_dict_set map_of_removed_key
    split: option.splits\<close>)
qed

section \<open>Balance\<close>

lemma assign_from_zip:
  assumes "xs \<noteq> []" and "distinct cs" and "set cs \<inter> fst ` set out = {}"
  shows "assign_from (JArr xs) i cs out =
    Inr (out @ zip cs (map (\<lambda>j. xs ! (j mod length xs)) [i..<i + length cs]))"
  using assms(2,3)
proof (induction cs arbitrary: i out)
  case (Cons c cs)
  have "dict_set c v out = out @ [(c, v)]" for v
    using Cons.prems(2) by (induction out) auto
  then have "assign_from (JArr xs) i (c # cs) out =
      assign_from (JArr xs) (Suc i) cs (out @ [(c, xs ! (i mod length xs))])"
    by (simp add: cyclic_item_def)
  also have "\<dots> = Inr ((out @ [(c, xs ! (i mod length xs))]) @
      zip cs (map (\<lambda>j. xs ! (j mod length xs)) [Suc i..<Suc i + length cs]))"
    by (rule Cons.IH) (use Cons.prems in auto)
  also have "[i..<i + length (c # cs)] = i # [Suc i..<Suc i + length cs]"
    by (simp add: upt_conv_Cons del: upt_Suc)
  then have "Inr ((out @ [(c, xs ! (i mod length xs))]) @
      zip cs (map (\<lambda>j. xs ! (j mod length xs)) [Suc i..<Suc i + length cs])) =
      (Inr (out @ zip (c # cs) (map (\<lambda>j. xs ! (j mod length xs)) [i..<i + length (c # cs)])) :: py_error + _)"
    by (simp only: list.map zip_Cons_Cons append_assoc append_Cons append_Nil)
  finally show ?case .
qed simp

lemma turns_of:
  assumes "k < n"
  shows "length (filter (\<lambda>i. i mod n = k) [0..<m]) = m div n + (if k < m mod n then 1 else 0)"
proof (induction m)
  case (Suc m)
  have "m mod n < n" using assms by simp
  with Suc assms show ?case by (auto simp: mod_Suc div_Suc)
qed simp

lemma filter_zip_snd:
  "length as = length bs \<Longrightarrow> length (filter (\<lambda>e. snd e = y) (zip as bs)) = length (filter (\<lambda>b. b = y) bs)"
  by (induction rule: list_induct2) auto

lemma map_of_rev_distinct: "distinct (map fst as) \<Longrightarrow> map_of (rev as) k = map_of as k"
proof (induction as)
  case (Cons a as)
  then have "map_of (rev as) k = map_of as k" "map_of as (fst a) = None"
    by (auto simp: map_of_eq_None_iff)
  then show ?case by (cases "k = fst a") (auto simp: map_add_def split: option.split)
qed simp

lemma load_of:
  assumes "distinct xs" and "k < length xs" and "length cs = m"
  shows "length (filter (\<lambda>e. snd e = xs ! k) (zip cs (map (\<lambda>j. xs ! (j mod length xs)) [0..<m]))) =
    m div length xs + (if k < m mod length xs then 1 else 0)"
proof -
  have "xs ! (j mod length xs) = xs ! k \<longleftrightarrow> j mod length xs = k" for j
    by (rule nth_eq_iff_index_eq) (use assms in \<open>auto intro: mod_less_divisor\<close>)
  then have "length (filter (\<lambda>e. snd e = xs ! k) (zip cs (map (\<lambda>j. xs ! (j mod length xs)) [0..<m]))) =
      length (filter (\<lambda>j. j mod length xs = k) [0..<m])"
    using assms(3) by (simp add: filter_zip_snd filter_map comp_def)
  then show ?thesis using turns_of [OF assms(2)] by simp
qed

text \<open>Assigning connectors to a fleet of distinct agents gives each connector one agent, in the order
  of the request, and balances the load: the k-th agent gets the quotient of connectors by agents,
  and one more if k is below the remainder; whichever of the three strategies is asked for. Earlier
  assignments of other connectors stay.\<close>

theorem assign_balanced:
  assumes "map_of (fs_fleets s) i = Some f" and "fl_tenant_id f = uuid_str (ac_tenant_id auth)" and "fl_id f = i"
    and "fl_agent_ids f = JArr xs" and "xs \<noteq> []" and "distinct xs" and "distinct cs"
    and "strat \<in> {''round_robin'', ''capacity_weighted'', ''latency_aware''}"
  shows "\<exists>as s' f'. assign_connectors auth i cs strat s = (Inr (as, JStr strat), s') \<and> map fst as = cs \<and>
    (\<forall>k < length xs. length (filter (\<lambda>e. snd e = xs ! k) as) =
       length cs div length xs + (if k < length cs mod length xs then 1 else 0)) \<and>
    map_of (fs_fleets s') i = Some f' \<and>
    (\<forall>c. map_of (fl_assignments f') c = (if c \<in> set cs then map_of as c else map_of (fl_assignments f) c))"
proof -
  let ?as = "zip cs (map (\<lambda>j. xs ! (j mod length xs)) [0..<length cs])"
  let ?f = "f\<lparr>fl_assignments := dict_update (fl_assignments f) ?as\<rparr>"
  have run: "assign_connectors auth i cs strat s = (Inr (?as, JStr strat), put_fleet ?f s)"
    using assms assign_from_zip [OF assms(5,7), of "[]" 0]
    by (auto simp: assign_connectors_def own_fleet_def Let_def)
  have "map fst ?as = cs" by simp
  then have keys: "map_of (rev ?as) c = map_of ?as c" "map_of ?as c = None \<longleftrightarrow> c \<notin> set cs" for c
    using assms(7) by (simp_all only: map_of_rev_distinct map_of_eq_None_iff flip: set_map)
  have rest: "map_of (fl_assignments ?f) c = (if c \<in> set cs then map_of ?as c else map_of (fl_assignments f) c)" for c
    using keys [of c] by (cases "map_of ?as c") (simp_all add: map_of_dict_update)
  have "map_of (fs_fleets (put_fleet ?f s)) i = Some ?f"
    using assms(3) by (simp add: put_fleet_def map_of_dict_set)
  with run \<open>map fst ?as = cs\<close> rest show ?thesis
    by (intro exI [of _ ?as] exI [of _ "put_fleet ?f s"] exI [of _ ?f] conjI allI impI load_of [OF assms(6)]) simp_all
qed

text \<open>The strategy decides nothing.\<close>

lemma strategy_ignored:
  "snd (assign_connectors auth i cs ''latency_aware'' s) = snd (assign_connectors auth i cs ''round_robin'' s)"
  by (simp add: assign_connectors_def Let_def split: handler_splits)


section \<open>Witnesses\<close>

definition tenant_auth :: "uuid \<Rightarrow> auth_context" where
  "tenant_auth t = \<lparr> ac_user_id = 7, ac_tenant_id = t, ac_email = JStr ''a@x.io'', ac_roles = [],
                     ac_permissions = {} \<rparr>"

definition example_request :: fleet_request where
  "example_request = CreateFleet 5 30 \<lparr> cf_name = ''nas'', cf_description = '''', cf_agent_ids = [''a'', ''b''],
     cf_scan_strategy = ''round_robin'' \<rparr>"

definition example_fleets :: fleet_state where
  "example_fleets = snd (fleet_handle (tenant_auth 1) example_request \<lparr>fs_fleets = [], fs_telemetry = []\<rparr>)"

lemma example_fleets_reachable: "fleet_reachable example_fleets"
  unfolding example_fleets_def
  by (rule fleet_reachable.request [OF fleet_reachable.start]) (simp add: example_request_def)

lemma example_fleet:
  "\<exists>f. map_of (fs_fleets example_fleets) (uuid_str 30) = Some f \<and> fl_tenant_id f = uuid_str 1 \<and>
     fl_id f = uuid_str 30 \<and> fl_agent_ids f = JArr [JStr ''a'', JStr ''b'']"
  by (simp add: example_fleets_def example_request_def create_fleet_def put_fleet_def tenant_auth_def Let_def)

theorem fleet_isolated_witness:
  "fleets_of (uuid_str 1) (snd (fleet_handle (tenant_auth 2) (DeleteFleet (uuid_str 30)) example_fleets))
     = fleets_of (uuid_str 1) example_fleets \<and> fleets_of (uuid_str 1) example_fleets (uuid_str 30) \<noteq> None"
proof -
  have "uuid_str 1 \<noteq> uuid_str (ac_tenant_id (tenant_auth 2))" by code_simp
  from fleet_isolated [OF example_fleets_reachable _ this, of "DeleteFleet (uuid_str 30)"] example_fleet
  show ?thesis
    by (cases "fleet_handle (tenant_auth 2) (DeleteFleet (uuid_str 30)) example_fleets")
      (auto simp: fleets_of_def)
qed

theorem assign_balanced_witness:
  "\<exists>as s'. assign_connectors (tenant_auth 1) (uuid_str 30) [''x'', ''y'', ''z''] ''latency_aware'' example_fleets
       = (Inr (as, JStr ''latency_aware''), s') \<and>
     length (filter (\<lambda>e. snd e = JStr ''a'') as) = 2 \<and> length (filter (\<lambda>e. snd e = JStr ''b'') as) = 1"
proof -
  from example_fleet obtain f where f: "map_of (fs_fleets example_fleets) (uuid_str 30) = Some f"
    "fl_tenant_id f = uuid_str (ac_tenant_id (tenant_auth 1))" "fl_id f = uuid_str 30"
    "fl_agent_ids f = JArr [JStr ''a'', JStr ''b'']"
    by (auto simp: tenant_auth_def)
  from assign_balanced [OF f, of "[''x'', ''y'', ''z'']" "''latency_aware''"]
  obtain as s' where "assign_connectors (tenant_auth 1) (uuid_str 30) [''x'', ''y'', ''z''] ''latency_aware'' example_fleets
      = (Inr (as, JStr ''latency_aware''), s')"
    and "\<forall>k < 2. length (filter (\<lambda>e. snd e = [JStr ''a'', JStr ''b''] ! k) as) = 3 div 2 + (if k < 3 mod 2 then 1 else 0)"
    by (auto simp: eval_nat_numeral)
  moreover from this(2) have "length (filter (\<lambda>e. snd e = JStr ''a'') as) = 2"
    "length (filter (\<lambda>e. snd e = JStr ''b'') as) = 1"
    by (force dest: spec [of _ 0] spec [of _ 1])+
  ultimately show ?thesis by blast
qed

end
