(* ===== verification/Users.thy ===== *)
theory Users
  imports Local_Auth
begin

text \<open>
  \<open>api/users.py\<close>: invitations, profiles and the members of a tenant. \<open>email_module\<close> lists the functions of \<open>auth/email.py\<close>.
  \<open>path_uuid\<close> is \<open>uuid.UUID\<close> on the text of a path, which also accepts other spellings of a UUID than
  the one \<open>str\<close> writes.
\<close>

section \<open>Invitations\<close>

definition email_module :: "string list" where
  "email_module =
     [''_provider'', ''send_email'', ''_send_resend'', ''_send_sendgrid'', ''_send_smtp'', ''_base'', ''_btn'',
      ''_h1'', ''_p'', ''_code'', ''send_verification_email'', ''send_password_reset_email'', ''send_invite_email'',
      ''send_agent_connected_email'', ''send_findings_summary_email'', ''send_alert_email'']"

record invite_request =
  ir_email :: string
  ir_role :: string
  ir_name :: "string option"

definition new_user_invite :: "uuid \<Rightarrow> time \<Rightarrow> uuid \<Rightarrow> uuid \<Rightarrow> string \<Rightarrow> string \<Rightarrow> string \<Rightarrow> user_invite" where
  "new_user_invite i now tid by email role token_hash =
     \<lparr> iv_id = i, iv_tenant_id = tid, iv_invited_by = Some by, iv_email = email, iv_role = role,
       iv_token_hash = token_hash, iv_expires_at = now + days 7, iv_used_at = None, iv_created_at = now \<rparr>"

text \<open>
  \<open>token\<close> is \<open>secrets.token_urlsafe(48)\<close>; \<open>mail\<close> is the outcome of sending the message, whose errors are
  swallowed. The result is the expiry.
\<close>

definition invite_user ::
  "auth_env \<Rightarrow> time \<Rightarrow> string \<Rightarrow> py_error + unit \<Rightarrow> auth_context \<Rightarrow> invite_request \<Rightarrow> time endpoint" where
  "invite_user env now token mail auth req =
     thn (guard (''admin:*'' \<in> ac_permissions auth \<or> ''users:write'' \<in> ac_permissions auth)
            (HTTPException 403 ''Admin permission required'')) (
     bnd (select_one users (\<lambda>u. us_email u = ir_email req \<and> us_tenant_id u = ac_tenant_id auth)) (\<lambda>existing.
     thn (guard (existing = None) (HTTPException 409 ''User already a member of this tenant'')) (
     bnd (select_one users (\<lambda>u. us_id u = ac_user_id auth)) (\<lambda>inviter.
     bnd (select_one tenants (\<lambda>t. tn_id t = ac_tenant_id auth)) (\<lambda>tenant.
     bnd fresh (\<lambda>i.
     let iv = new_user_invite i now (ac_tenant_id auth) (ac_user_id auth) (ir_email req) (ir_role req)
                (sha256_hex env token)
     in thn (modify (\<lambda>s. s\<lparr>user_invites := user_invites s @ [iv]\<rparr>)) (
        thn flush (
        thn (import_from email_module ''send_invitation_email'') (
        thn (py_try (lift_err mail) (\<lambda>e. ret ()))
        (ret (iv_expires_at iv)))))))))))"

definition put_invite :: "user_invite \<Rightarrow> db \<Rightarrow> db" where
  "put_invite iv s = s\<lparr>user_invites := put_row iv_id iv (user_invites s)\<rparr>"

record accept_request =
  aq_token :: string
  aq_password :: string
  aq_name :: string

text \<open>The result: the new user and its token.\<close>

definition accept_invite ::
  "auth_env \<Rightarrow> time \<Rightarrow> string \<Rightarrow> accept_request \<Rightarrow> (user \<times> string) endpoint" where
  "accept_invite env now salt req =
     bnd (select_one user_invites (\<lambda>v. iv_token_hash v = sha256_hex env (aq_token req) \<and> iv_used_at v = None))
       (\<lambda>found.
     case found of
       None \<Rightarrow> raise (HTTPException 400 ''Invalid or expired invitation'')
     | Some iv \<Rightarrow>
         thn (guard (\<not> iv_expires_at iv < now) (HTTPException 400 ''Invalid or expired invitation'')) (
         thn (validate_password (aq_password req)) (
         bnd fresh (\<lambda>uid.
         let u = (new_user uid now (iv_tenant_id iv) (iv_email iv))
                   \<lparr>us_display_name := Some (aq_name req), us_name := Some (aq_name req), us_email_verified := True\<rparr>
         in thn (modify (\<lambda>s. s\<lparr>users := users s @ [u]\<rparr>)) (
            thn flush (
            bnd fresh (\<lambda>cid.
            thn (modify (\<lambda>s. s\<lparr>local_credentials := local_credentials s @
                   [new_local_credential cid now uid (pwd_hash env salt (aq_password req))]\<rparr>)) (
            thn (assign_builtin_role uid (iv_tenant_id iv) (iv_role iv) now) (
            thn (modify (put_invite (iv\<lparr>iv_used_at := Some now\<rparr>))) (
            bnd (select_one tenants (\<lambda>t. tn_id t = iv_tenant_id iv)) (\<lambda>tenant.
            ret (u, issue_jwt env now u tenant None))))))))))))"

section \<open>Members and profiles\<close>

definition list_users :: "auth_context \<Rightarrow> user list endpoint" where
  "list_users auth =
     bnd (select_all users (\<lambda>u. us_tenant_id u = ac_tenant_id auth \<and> us_is_active u)) (\<lambda>us.
     ret (sort_key us_created_at us))"

record profile =
  pr_user :: user
  pr_mfa_enabled :: bool
  pr_tenant :: "tenant option"

definition get_profile :: "auth_context \<Rightarrow> profile endpoint" where
  "get_profile auth =
     bnd (select_one users (\<lambda>u. us_id u = ac_user_id auth)) (\<lambda>found.
     case found of
       None \<Rightarrow> raise (HTTPException 404 ''User not found'')
     | Some u \<Rightarrow>
         bnd (select_one mfa_configs (\<lambda>m. mf_user_id m = ac_user_id auth \<and> mf_is_active m)) (\<lambda>mfa.
         bnd (select_one tenants (\<lambda>t. tn_id t = ac_tenant_id auth)) (\<lambda>tenant.
         ret \<lparr> pr_user = u, pr_mfa_enabled = (mfa \<noteq> None), pr_tenant = tenant \<rparr>)))"

definition update_profile :: "auth_context \<Rightarrow> string option \<Rightarrow> string option \<Rightarrow> unit endpoint" where
  "update_profile auth name email =
     bnd (select_one users (\<lambda>u. us_id u = ac_user_id auth)) (\<lambda>found.
     case found of
       None \<Rightarrow> raise (HTTPException 404 ''User not found'')
     | Some u \<Rightarrow>
         let u1 = (case opt_str_or name None of None \<Rightarrow> u
                   | Some n \<Rightarrow> u\<lparr>us_display_name := Some n, us_name := Some n\<rparr>);
             u2 = (case opt_str_or email None of None \<Rightarrow> u1
                   | Some e \<Rightarrow> if e = us_email u1 then u1 else u1\<lparr>us_email := e, us_email_verified := False\<rparr>)
         in modify (put_user u2))"

definition remove_user :: "(string \<Rightarrow> uuid option) \<Rightarrow> auth_context \<Rightarrow> string \<Rightarrow> unit endpoint" where
  "remove_user path_uuid auth user_id =
     thn (guard (''admin:*'' \<in> ac_permissions auth) (HTTPException 403 ''Admin required'')) (
     thn (guard (uuid_str (ac_user_id auth) \<noteq> user_id) (HTTPException 400 ''Cannot remove yourself'')) (
     case path_uuid user_id of
       None \<Rightarrow> raise (ValueError ''badly formed hexadecimal UUID string'')
     | Some i \<Rightarrow> modify (\<lambda>s. s\<lparr>users := update_where (\<lambda>u. us_id u = i \<and> us_tenant_id u = ac_tenant_id auth)
         (\<lambda>u. u\<lparr>us_is_active := False\<rparr>) (users s)\<rparr>)))"

section \<open>Lemmas\<close>

text \<open>A role assigned to a user without assignments grants its permissions from then on.\<close>

lemma assign_builtin_role_grants:
  assumes "assign_builtin_role uid tid name now s = (Inr (), s')"
    and "\<forall>a \<in> set (role_assignments s). ra_user_id a \<noteq> uid"
  shows "\<exists>r \<in> set (roles s'). ro_tenant_id r = tid \<and> ro_name r = name \<and>
    (\<forall>later. \<forall>p \<in> role_permissions r. grants_role later s' uid tid p)"
proof -
  from assms(1) obtain r a where
    "filter (\<lambda>r. ro_tenant_id r = tid \<and> ro_name r = name) (roles s') = [r]"
    "filter (\<lambda>a. ra_user_id a = uid \<and> ra_role_id a = ro_id r) (role_assignments s') = [a]"
    by (rule assign_builtin_role_leaves)
  note r = filter_eq_singleD [OF this(1)] and a = filter_eq_singleD [OF this(2)]
  have "\<forall>x \<in> set (role_assignments s'). x \<in> set (role_assignments s) \<or> ra_tenant_id x = tid \<and> ra_expires_at x = None"
    using assms(1)
    by (auto simp: assign_builtin_role_def new_role_assignment_def Let_def split: handler_splits)
  with a assms(2) have "ra_tenant_id a = tid" "\<not> assignment_expired later a" for later
    by (auto simp: assignment_expired_def)
  with r a show ?thesis unfolding grants_role_def by blast
qed

lemma accept_result:
  assumes "accept_invite env now salt req s = (Inr (u, jwt), s')" and "fresh_ids s"
    and "\<forall>v \<in> set (user_invites s). iv_tenant_id v < next_uuid s"
  shows "\<exists>iv c r. filter (\<lambda>v. iv_token_hash v = sha256_hex env (aq_token req) \<and> iv_used_at v = None)
       (user_invites s) = [iv] \<and> now \<le> iv_expires_at iv \<and> fresh_ids s' \<and>
     user_invites s' = put_row iv_id (iv\<lparr>iv_used_at := Some now\<rparr>) (user_invites s) \<and>
     users s' = users s @ [u] \<and> us_tenant_id u = iv_tenant_id iv \<and> us_email u = iv_email iv \<and> us_is_active u \<and>
     next_uuid s \<le> us_id u \<and>
     local_credentials s' = local_credentials s @ [c] \<and> lc_user_id c = us_id u \<and> lc_locked_until c = None \<and>
     lc_password_hash c = pwd_hash env salt (aq_password req) \<and> mfa_configs s' = mfa_configs s \<and>
     r \<in> set (roles s') \<and> ro_tenant_id r = iv_tenant_id iv \<and> ro_name r = iv_role iv \<and>
     (\<forall>later. \<forall>p \<in> role_permissions r. grants_role later s' (us_id u) (iv_tenant_id iv) p)"
proof -
  let ?n = "next_uuid s"
  let ?c = "new_local_credential (Suc ?n) now ?n (pwd_hash env salt (aq_password req))"
  from assms(1) obtain iv s1 s2 where
    one: "filter (\<lambda>v. iv_token_hash v = sha256_hex env (aq_token req) \<and> iv_used_at v = None) (user_invites s) = [iv]"
    and unexpired: "\<not> iv_expires_at iv < now"
    and run: "assign_builtin_role ?n (iv_tenant_id iv) (iv_role iv) now s1 = (Inr (), s2)"
    and u: "u = (new_user ?n now (iv_tenant_id iv) (iv_email iv))\<lparr>us_display_name := Some (aq_name req),
      us_name := Some (aq_name req), us_email_verified := True\<rparr>"
    and s1: "s1 = s\<lparr>users := users s @ [u], next_uuid := Suc (Suc ?n), local_credentials := local_credentials s @ [?c]\<rparr>"
    and s': "s' = put_invite (iv\<lparr>iv_used_at := Some now\<rparr>) s2"
    unfolding accept_invite_def Let_def
    by (elim handler_elims)
      (auto dest!: validate_password_run scalar_one_or_none_SomeD elim!: handler_elims
        split: option.splits if_splits simp del: run_bnd run_thn)
  have "fresh_with [iv_tenant_id iv, ?n] s1"
    using assms(2,3) filter_eq_singleD(1) [OF one]
    by (auto simp: fresh_defs s1 u new_user_def new_local_credential_def less_Suc_eq)
  then have "fresh_ids s2"
    using preservesD [OF fresh_assign_builtin_role [of "iv_tenant_id iv" "[iv_tenant_id iv, ?n]" ?n "iv_role iv" now], of s1]
      run by (simp add: fresh_with_def)
  then have fresh: "fresh_ids s'" by (simp add: s' put_invite_def fresh_ids_def)
  have frame: "users s2 = users s1" "local_credentials s2 = local_credentials s1" "mfa_configs s2 = mfa_configs s1"
    using assign_builtin_role_frame [OF run] by simp_all
  have invites: "user_invites s2 = user_invites s1"
    using run by (auto simp: assign_builtin_role_def Let_def split: handler_splits)
  have "\<forall>a \<in> set (role_assignments s1). ra_user_id a \<noteq> ?n"
    using assms(2) unfolding s1 by (auto simp: fresh_ids_def)
  from assign_builtin_role_grants [OF run this] obtain r where "r \<in> set (roles s')"
    "ro_tenant_id r = iv_tenant_id iv" "ro_name r = iv_role iv"
    "\<forall>later. \<forall>p \<in> role_permissions r. grants_role later s' ?n (iv_tenant_id iv) p"
    by (auto simp: s' put_invite_def grants_role_def)
  then show ?thesis
    using one unexpired fresh frame invites s1
    by (intro exI [of _ iv] exI [of _ ?c] exI [of _ r])
      (simp add: s' put_invite_def u new_user_def new_local_credential_def)
qed


section \<open>Properties\<close>

text \<open>C10: An accepted invitation makes a member and is spent. Where identifiers are fresh (no row or
  invitation names one that is still to come) and bcrypt accepts the passwords it has hashed, a request
  that accepts an invitation found it unused and unexpired; the new user is in the tenant and has the
  email of the invitation, and holds every permission of the role it named. If no other active user, of
  any tenant, has that email, the user logs in with the chosen password at any later time; if one has,
  every login with the email fails with \<open>MultipleResultsFound\<close>. The same token is refused in every
  state with the invitations the request left.\<close>

theorem accept_then_login:
  assumes "get_db (accept_invite env now salt req) s = (Inr (u, jwt), s')" and "fresh_ids s"
    and "\<forall>v \<in> set (user_invites s). iv_tenant_id v < next_uuid s"
    and "\<And>pw salt. bcrypt_checkpw env pw (bcrypt_hashpw env pw salt) = Some True"
  shows "\<exists>iv \<in> set (user_invites s). iv_token_hash iv = sha256_hex env (aq_token req) \<and> iv_used_at iv = None \<and>
    now \<le> iv_expires_at iv \<and> us_tenant_id u = iv_tenant_id iv \<and> us_email u = iv_email iv \<and>
    (\<exists>r \<in> set (roles s'). ro_tenant_id r = iv_tenant_id iv \<and> ro_name r = iv_role iv \<and>
       (\<forall>t. \<forall>p \<in> role_permissions r. grants_role t s' (us_id u) (iv_tenant_id iv) p)) \<and>
    (if \<exists>v \<in> set (users s). us_email v = iv_email iv \<and> us_is_active v
     then \<forall>later client pw code. get_db (login env later client \<lparr>lq_email = iv_email iv, lq_password = pw,
            lq_mfa_code = code\<rparr>) s' = (Inl MultipleResultsFound, s')
     else \<forall>later client code. \<exists>q s''. get_db (login env later client \<lparr>lq_email = iv_email iv,
            lq_password = aq_password req, lq_mfa_code = code\<rparr>) s' = (Inr q, s'') \<and> lr_user q = u) \<and>
    (\<forall>s2 t salt' pw n. user_invites s2 = user_invites s' \<longrightarrow>
       get_db (accept_invite env t salt' \<lparr>aq_token = aq_token req, aq_password = pw, aq_name = n\<rparr>) s2 =
         (Inl (HTTPException 400 ''Invalid or expired invitation''), s2))"
proof -
  from get_db_InrD [OF assms(1)] have run: "accept_invite env now salt req s = (Inr (u, jwt), s')"
    and cs: "constraints s'" by auto
  from accept_result [OF run assms(2,3)] obtain iv c r where
    iv: "filter (\<lambda>v. iv_token_hash v = sha256_hex env (aq_token req) \<and> iv_used_at v = None) (user_invites s) = [iv]"
      "now \<le> iv_expires_at iv" "user_invites s' = put_row iv_id (iv\<lparr>iv_used_at := Some now\<rparr>) (user_invites s)"
    and fresh: "fresh_ids s'"
    and u: "users s' = users s @ [u]" "us_tenant_id u = iv_tenant_id iv" "us_email u = iv_email iv" "us_is_active u"
      "next_uuid s \<le> us_id u"
    and c: "local_credentials s' = local_credentials s @ [c]" "lc_user_id c = us_id u" "lc_locked_until c = None"
      "lc_password_hash c = pwd_hash env salt (aq_password req)" "mfa_configs s' = mfa_configs s"
    and r: "r \<in> set (roles s')" "ro_tenant_id r = iv_tenant_id iv" "ro_name r = iv_role iv"
      "\<forall>t. \<forall>p \<in> role_permissions r. grants_role t s' (us_id u) (iv_tenant_id iv) p"
    by blast
  let ?others = "filter (\<lambda>v. us_email v = iv_email iv \<and> us_is_active v) (users s)"
  have cred: "filter (\<lambda>c. lc_user_id c = us_id u) (local_credentials s') = [c]"
    using c(1,2) u(5) assms(2) by (auto simp: fresh_ids_def filter_empty_conv)
  have mfa: "\<forall>m \<in> set (mfa_configs s'). mf_user_id m \<noteq> us_id u"
    using c(5) u(5) assms(2) by (auto simp: fresh_ids_def)
  have alone: "\<exists>q s''. get_db (login env later client \<lparr>lq_email = iv_email iv, lq_password = aq_password req,
      lq_mfa_code = code\<rparr>) s' = (Inr q, s'') \<and> lr_user q = u" if "?others = []" for later client code
    using login_ok [of "\<lparr>lq_email = iv_email iv, lq_password = aq_password req, lq_mfa_code = code\<rparr>" s' u c
        later env client] that u(1,3,4) cred mfa c(3,4) cs fresh assms(4)
    by (fastforce simp: is_locked_def pwd_verify_def pwd_hash_def)
  have shared: "get_db (login env later client \<lparr>lq_email = iv_email iv, lq_password = pw, lq_mfa_code = code\<rparr>) s' =
      (Inl MultipleResultsFound, s')" if "?others \<noteq> []" for later client pw code
  proof -
    from that obtain v vs where "?others = v # vs" by (cases ?others) auto
    with u(1,3,4) obtain w ws where
      "filter (\<lambda>v. us_email v = iv_email iv \<and> us_is_active v) (users s') = v # w # ws"
      by (cases vs) auto
    then show ?thesis by (intro login_same_email_twice) simp
  qed
  have others: "(\<exists>v \<in> set (users s). us_email v = iv_email iv \<and> us_is_active v) \<longleftrightarrow> ?others \<noteq> []"
    by (auto simp: filter_empty_conv)
  have "filter (\<lambda>v. iv_token_hash v = sha256_hex env (aq_token req) \<and> iv_used_at v = None) (user_invites s') = []"
    unfolding iv(3) by (rule filter_put_row_gone [OF iv(1)]) simp_all
  then have spent: "get_db (accept_invite env t salt' \<lparr>aq_token = aq_token req, aq_password = pw, aq_name = n\<rparr>) s2 =
      (Inl (HTTPException 400 ''Invalid or expired invitation''), s2)"
    if "user_invites s2 = user_invites s'" for s2 t salt' pw n
    using that by (simp add: accept_invite_def get_db_def)
  have "iv \<in> set (user_invites s)" "iv_token_hash iv = sha256_hex env (aq_token req)" "iv_used_at iv = None"
    using filter_eq_singleD [OF iv(1)] by auto
  moreover have "if \<exists>v \<in> set (users s). us_email v = iv_email iv \<and> us_is_active v
     then \<forall>later client pw code. get_db (login env later client \<lparr>lq_email = iv_email iv, lq_password = pw,
            lq_mfa_code = code\<rparr>) s' = (Inl MultipleResultsFound, s')
     else \<forall>later client code. \<exists>q s''. get_db (login env later client \<lparr>lq_email = iv_email iv,
            lq_password = aq_password req, lq_mfa_code = code\<rparr>) s' = (Inr q, s'') \<and> lr_user q = u"
    unfolding others using alone shared by (cases "?others = []") presburger+
  moreover have "\<exists>r \<in> set (roles s'). ro_tenant_id r = iv_tenant_id iv \<and> ro_name r = iv_role iv \<and>
       (\<forall>t. \<forall>p \<in> role_permissions r. grants_role t s' (us_id u) (iv_tenant_id iv) p)"
    using r by blast
  moreover have "\<forall>s2 t salt' pw n. user_invites s2 = user_invites s' \<longrightarrow>
       get_db (accept_invite env t salt' \<lparr>aq_token = aq_token req, aq_password = pw, aq_name = n\<rparr>) s2 =
         (Inl (HTTPException 400 ''Invalid or expired invitation''), s2)"
    using spent by blast
  ultimately show ?thesis
    using iv(2) u(2,3) by (intro bexI [of _ iv] conjI) assumption+
qed

text \<open>A user who sets their email to that of an active user of another tenant locks both out: the
  change is accepted, and from then on every login with that email fails with an internal error,
  whatever the password.\<close>

theorem email_change_blocks_login:
  assumes "get_db (update_profile auth name (Some (lq_email req))) s = (Inr (), s')" and "lq_email req \<noteq> ''''"
    and "constraints s" and "u \<in> set (users s)" and "us_id u = ac_user_id auth" and "us_is_active u"
    and "v \<in> set (users s)" and "us_id v \<noteq> ac_user_id auth" and "us_is_active v" and "us_email v = lq_email req"
  shows "get_db (login env now client req) s' = (Inl MultipleResultsFound, s')"
proof -
  from assms(1) have run: "update_profile auth name (Some (lq_email req)) s = (Inr (), s')"
    by (auto dest: get_db_InrD)
  have "unique_by us_id (users s)" using assms(3) by (simp add: constraints_def)
  then have "filter (\<lambda>w. us_id w = ac_user_id auth) (users s) = [u]"
    using unique_by_filter_key [of us_id "users s" u] assms(4,5) by simp
  with run obtain u' where s': "users s' = put_row us_id u' (users s)" and u': "us_id u' = us_id u"
    "us_email u' = lq_email req" "us_is_active u'"
    using assms(2,6)
    by (auto simp: update_profile_def put_user_def opt_str_or_def Let_def split: option.splits if_splits)
  have "u' \<in> set (users s')" "v \<in> set (users s')" "u' \<noteq> v"
    using s' u' assms(4,5,7,8) by (auto simp: put_row_def set_update_where image_iff)
  then have "{u', v} \<subseteq> set (filter (\<lambda>w. us_email w = lq_email req \<and> us_is_active w) (users s'))"
    using u' assms(9,10) by auto
  then obtain a b ws where "filter (\<lambda>w. us_email w = lq_email req \<and> us_is_active w) (users s') = a # b # ws"
    using \<open>u' \<noteq> v\<close>
    by (cases "filter (\<lambda>w. us_email w = lq_email req \<and> us_is_active w) (users s')" rule: remdups_adj.cases) auto
  then show ?thesis by (rule login_same_email_twice)
qed

section \<open>Findings\<close>

text \<open>No invitation is ever stored: the mail function that the endpoint imports does not exist.\<close>

lemma invite_never_succeeds: "\<exists>e. get_db (invite_user env now token mail auth req) s = (Inl e, s)"
  by (auto simp: invite_user_def get_db_def import_from_def email_module_def Let_def split: handler_splits)

text \<open>A removed user keeps the sessions and keys it has.\<close>

lemma remove_keeps_sessions:
  "user_sessions (snd (remove_user path_uuid auth i s)) = user_sessions s \<and>
   api_keys (snd (remove_user path_uuid auth i s)) = api_keys s"
  by (auto simp: remove_user_def split: option.split)

text \<open>An administrator who spells their id differently removes themselves.\<close>

lemma remove_yourself:
  assumes "''admin:*'' \<in> ac_permissions auth" and "t \<noteq> uuid_str (ac_user_id auth)"
    and "path_uuid t = Some (ac_user_id auth)" and "u \<in> set (users s)" and "us_id u = ac_user_id auth"
    and "us_tenant_id u = ac_tenant_id auth"
  shows "\<exists>s'. remove_user path_uuid auth t s = (Inr (), s') \<and> u\<lparr>us_is_active := False\<rparr> \<in> set (users s')"
  using assms by (auto simp: remove_user_def set_update_where)


section \<open>Witnesses\<close>

definition example_invited_db :: db where
  "example_invited_db = empty_db\<lparr>
     tenants := [new_tenant 1 0 ''acme'' ''Acme'' None],
     users := [new_user 7 0 1 ''a@x.io'', new_user 8 0 2 ''v@y.io''],
     user_invites := [new_user_invite 9 0 1 7 ''b@x.io'' ''viewer'' ''ht''], next_uuid := 20\<rparr>"

lemmas example_invited_defs = example_invited_db_def empty_db_def new_user_def new_tenant_def new_user_invite_def

lemma example_invited_ok: "constraints example_invited_db \<and> fresh_ids example_invited_db"
  by (simp add: example_invited_defs constraints_def unique_by_def fresh_ids_def user_email_key_def)

theorem accept_then_login_witness:
  "\<exists>u jwt s'. get_db (accept_invite example_env 5 ''s'' \<lparr>aq_token = ''t'', aq_password = ''Passw0rd'', aq_name = ''Bo''\<rparr>)
       example_invited_db = (Inr (u, jwt), s') \<and>
     (\<exists>q s''. get_db (login example_env 9 \<lparr>ci_host = None, ci_user_agent = None\<rparr> \<lparr>lq_email = ''b@x.io'',
        lq_password = ''Passw0rd'', lq_mfa_code = None\<rparr>) s' = (Inr q, s'') \<and> lr_user q = u)"
proof -
  let ?m = "get_db (accept_invite example_env 5 ''s'' \<lparr>aq_token = ''t'', aq_password = ''Passw0rd'', aq_name = ''Bo''\<rparr>)
    example_invited_db"
  have "case ?m of (Inl e, s') \<Rightarrow> False | (Inr (u, jwt), s') \<Rightarrow> us_email u = ''b@x.io''" by code_simp
  then obtain u jwt s' where run: "?m = (Inr (u, jwt), s')" and email: "us_email u = ''b@x.io''"
    by (auto split: prod.splits sum.splits)
  have "\<And>pw salt. bcrypt_checkpw example_env pw (bcrypt_hashpw example_env pw salt) = Some True"
    by (simp add: example_env_def)
  from accept_then_login [OF run _ _ this] obtain iv where
    iv: "iv \<in> set (user_invites example_invited_db)" and login:
    "if \<exists>v \<in> set (users example_invited_db). us_email v = iv_email iv \<and> us_is_active v
     then \<forall>later client pw code. get_db (login example_env later client \<lparr>lq_email = iv_email iv, lq_password = pw,
            lq_mfa_code = code\<rparr>) s' = (Inl MultipleResultsFound, s')
     else \<forall>later client code. \<exists>q s''. get_db (login example_env later client \<lparr>lq_email = iv_email iv,
            lq_password = ''Passw0rd'', lq_mfa_code = code\<rparr>) s' = (Inr q, s'') \<and> lr_user q = u"
    using example_invited_ok by (fastforce simp: example_invited_defs)
  have em: "iv_email iv = ''b@x.io''" using iv by (simp add: example_invited_defs)
  have no: "\<not> (\<exists>v \<in> set (users example_invited_db). us_email v = ''b@x.io'' \<and> us_is_active v)"
    by (simp add: example_invited_defs)
  have "\<exists>q s''. get_db (login example_env 9 \<lparr>ci_host = None, ci_user_agent = None\<rparr> \<lparr>lq_email = ''b@x.io'',
        lq_password = ''Passw0rd'', lq_mfa_code = None\<rparr>) s' = (Inr q, s'') \<and> lr_user q = u"
    using login [unfolded em, unfolded if_not_P [OF no]] by blast
  with run show ?thesis by blast
qed

theorem email_change_blocks_login_witness:
  "\<exists>s'. get_db (update_profile example_auth None (Some ''v@y.io'')) example_invited_db = (Inr (), s') \<and>
     get_db (login example_env 9 \<lparr>ci_host = None, ci_user_agent = None\<rparr> \<lparr>lq_email = ''v@y.io'',
        lq_password = ''Passw0rd'', lq_mfa_code = None\<rparr>) s' = (Inl MultipleResultsFound, s')"
proof -
  let ?m = "get_db (update_profile example_auth None (Some ''v@y.io'')) example_invited_db"
  have "case ?m of (Inl e, s') \<Rightarrow> False | (Inr u, s') \<Rightarrow> True" by code_simp
  then obtain s' where run: "?m = (Inr (), s')" by (auto split: prod.splits sum.splits)
  let ?req = "\<lparr>lq_email = ''v@y.io'', lq_password = ''Passw0rd'', lq_mfa_code = None\<rparr>"
  have "get_db (login example_env 9 \<lparr>ci_host = None, ci_user_agent = None\<rparr> ?req) s' = (Inl MultipleResultsFound, s')"
    by (rule email_change_blocks_login [of example_auth None ?req example_invited_db s' "new_user 7 0 1 ''a@x.io''"
          "new_user 8 0 2 ''v@y.io''"])
      (use run example_invited_ok in \<open>simp_all add: example_invited_defs example_auth_def\<close>)
  with run show ?thesis by blast
qed

end
