(* ===== verification/Webhooks.thy ===== *)
theory Webhooks
  imports Oidc
begin

text \<open>
  \<open>webhooks/outbound.py\<close>: the endpoints a tenant registers, the Celery task that delivers an event to
  those that subscribe to it, the retries and the signature.

  The state has the database, the queue of Celery messages and the wire: the posts that were sent and
  the pauses between them, in order. A rollback undoes neither the queue nor the wire. The receiver's
  answers, HMAC-SHA256 and the spelling of a float are the fields of \<open>wh_env\<close>. The task imports
  \<open>async_session\<close> from \<open>db/session.py\<close>; \<open>names\<close> are the names that module defines, which are
  \<open>session_module\<close>. The block that logs a delivery does not commit, so its row and the statistics of
  the endpoint are the result of \<open>deliver_to_endpoint\<close> and not part of its effect.
\<close>

section \<open>State\<close>

record http_request =
  rq_url :: string
  rq_body :: string
  rq_headers :: "(string \<times> string) list"

datatype wire_event = Pause int | PostSent http_request

record wh_message =
  ms_tenant_id :: string
  ms_event_type :: string
  ms_payload :: py_dict

record wh_state =
  wh_db :: db
  wh_queue :: "wh_message list"
  wh_wire :: "wire_event list"

record wh_env =
  wh_answer :: "http_request \<Rightarrow> nat \<Rightarrow> string + int"
  wh_hmac :: "string \<Rightarrow> string \<Rightarrow> string"
  wh_float :: "rat \<Rightarrow> string"

definition on_wh_db :: "'a endpoint \<Rightarrow> (wh_state, 'a) handler" where
  "on_wh_db h = (\<lambda>s. case h (wh_db s) of (r, d) \<Rightarrow> (r, s\<lparr>wh_db := d\<rparr>))"

lemma run_on_wh_db [simp]: "on_wh_db h s = (case h (wh_db s) of (r, d) \<Rightarrow> (r, s\<lparr>wh_db := d\<rparr>))"
  by (simp add: on_wh_db_def)

definition wh_undo :: "wh_state \<Rightarrow> wh_state \<Rightarrow> wh_state" where
  "wh_undo s s' = s'\<lparr>wh_db := wh_db s\<rparr>"

definition wh_request :: "(wh_state, 'a) handler \<Rightarrow> (wh_state, 'a) handler" where
  "wh_request = transaction (\<lambda>s. constraints (wh_db s)) wh_undo"

section \<open>Dispatch and delivery\<close>

definition RETRY_DELAYS :: "int list" where
  "RETRY_DELAYS = [0, 60, 300]"

definition dispatch_webhook :: "string \<Rightarrow> string \<Rightarrow> py_dict \<Rightarrow> (wh_state, unit) handler" where
  "dispatch_webhook tenant_id event_type payload =
     modify (\<lambda>s. s\<lparr>wh_queue := wh_queue s @
       [\<lparr> ms_tenant_id = tenant_id, ms_event_type = event_type, ms_payload = payload \<rparr>]\<rparr>)"

definition sign_payload :: "wh_env \<Rightarrow> string \<Rightarrow> string \<Rightarrow> string" where
  "sign_payload env body secret = wh_hmac env (if secret \<noteq> [] then secret else ''unsigned'') body"

definition webhook_post ::
  "wh_env \<Rightarrow> time \<Rightarrow> string \<Rightarrow> webhook_endpoint \<Rightarrow> string \<Rightarrow> py_dict \<Rightarrow> string \<Rightarrow> http_request" where
  "webhook_post env now event_id endpoint event_type payload tenant_id =
     (let timestamp = now div seconds 1;
          body = py_dumps (wh_float env) (JObj
            [(''id'', JStr event_id), (''type'', JStr event_type), (''tenant_id'', JStr tenant_id),
             (''timestamp'', JInt timestamp), (''data'', JObj payload)]);
          signature = sign_payload env body (str_or (we_secret endpoint) '''')
      in \<lparr> rq_url = we_url endpoint, rq_body = body,
           rq_headers =
             [(''Content-Type'', ''application/json''), (''X-DGraph-Event'', event_type),
              (''X-DGraph-Event-Id'', event_id), (''X-DGraph-Timestamp'', int_str timestamp),
              (''X-DGraph-Signature'', ''sha256='' @ signature)] \<rparr>)"

definition emit :: "wire_event \<Rightarrow> (wh_state, unit) handler" where
  "emit e = modify (\<lambda>s. s\<lparr>wh_wire := wh_wire s @ [e]\<rparr>)"

text \<open>The loop over the delays; its variables are \<open>attempt\<close>, \<open>last_error\<close> and \<open>delivered\<close>.\<close>

fun attempt_loop ::
  "wh_env \<Rightarrow> http_request \<Rightarrow> int list \<Rightarrow> nat \<Rightarrow> string \<Rightarrow> (wh_state, nat \<times> string \<times> bool) handler" where
  "attempt_loop env rq [] attempt last_error = ret (attempt, last_error, False)"
| "attempt_loop env rq (delay # delays) attempt last_error =
     thn (py_when (delay > 0) (emit (Pause delay))) (
     thn (emit (PostSent rq)) (
     case wh_answer env rq (attempt + 1) of
       Inl e \<Rightarrow> attempt_loop env rq delays (attempt + 1) e
     | Inr status_code \<Rightarrow>
         if 200 \<le> status_code \<and> status_code < 300 then ret (attempt + 1, '''', True)
         else attempt_loop env rq delays (attempt + 1) (''HTTP '' @ int_str status_code)))"

definition deliver_attempts :: "wh_env \<Rightarrow> http_request \<Rightarrow> (wh_state, nat \<times> string \<times> bool) handler" where
  "deliver_attempts env rq = attempt_loop env rq RETRY_DELAYS 0 ''''"

definition delivery_status :: "nat \<Rightarrow> bool \<Rightarrow> string" where
  "delivery_status attempt delivered =
     (if delivered then ''delivered'' else if attempt \<ge> 3 then ''dead_letter'' else ''failed'')"

definition delivery_row ::
  "time \<Rightarrow> webhook_endpoint \<Rightarrow> uuid \<Rightarrow> string \<Rightarrow> string \<Rightarrow> nat \<times> string \<times> bool \<Rightarrow> uuid \<Rightarrow> webhook_delivery" where
  "delivery_row now endpoint tenant_id event_type event_id outcome i =
     (case outcome of (attempt, last_error, delivered) \<Rightarrow>
        \<lparr> wd_id = i, wd_endpoint_id = we_id endpoint, wd_tenant_id = tenant_id,
          wd_event_type = event_type, wd_event_id = event_id, wd_attempts = int attempt,
          wd_delivered = delivered, wd_status = delivery_status attempt delivered,
          wd_last_error = (if delivered then None else Some last_error),
          wd_delivered_at = (if delivered then Some now else None), wd_created_at = now \<rparr>)"

definition endpoint_stats :: "time \<Rightarrow> bool \<Rightarrow> webhook_endpoint \<Rightarrow> webhook_endpoint" where
  "endpoint_stats now delivered endpoint =
     endpoint\<lparr>we_last_delivery_at := Some now,
              we_last_delivery_status := Some (if delivered then ''success'' else ''failed''),
              we_failure_count := Some ((case we_failure_count endpoint of None \<Rightarrow> 0 | Some n \<Rightarrow> n) +
                                        (if delivered then 0 else 1))\<rparr>"

definition deliver_to_endpoint ::
  "wh_env \<Rightarrow> string list \<Rightarrow> time \<Rightarrow> webhook_endpoint \<Rightarrow> string \<Rightarrow> py_dict \<Rightarrow> string \<Rightarrow>
   (wh_state, webhook_delivery \<times> webhook_endpoint) handler" where
  "deliver_to_endpoint env names now endpoint event_type payload tenant_id =
     thn (import_from names ''async_session'') (
     bnd (on_wh_db fresh) (\<lambda>i.
     let event_id = uuid_str i in
     bnd (deliver_attempts env (webhook_post env now event_id endpoint event_type payload tenant_id)) (\<lambda>outcome.
     case parse_uuid tenant_id of
       None \<Rightarrow> raise (ValueError ''badly formed hexadecimal UUID string'')
     | Some tid \<Rightarrow>
         bnd (on_wh_db fresh) (\<lambda>j.
         ret (delivery_row now endpoint tid event_type event_id outcome j,
              endpoint_stats now (snd (snd outcome)) endpoint)))))"

definition subscribed :: "string \<Rightarrow> webhook_endpoint \<Rightarrow> bool" where
  "subscribed event_type endpoint \<longleftrightarrow>
     (let types = (case we_event_types endpoint of None \<Rightarrow> [] | Some ts \<Rightarrow> ts)
      in \<not> (types \<noteq> [] \<and> event_type \<notin> set types \<and> ''*'' \<notin> set types))"

text \<open>The body of the loop over the endpoints, and \<open>_deliver_async\<close>, the body of the task.\<close>

definition deliver_one ::
  "wh_env \<Rightarrow> string list \<Rightarrow> time \<Rightarrow> wh_message \<Rightarrow> webhook_endpoint \<Rightarrow> (wh_state, unit) handler" where
  "deliver_one env names now msg endpoint =
     py_when (subscribed (ms_event_type msg) endpoint)
       (bnd (deliver_to_endpoint env names now endpoint (ms_event_type msg) (ms_payload msg) (ms_tenant_id msg))
          (\<lambda>_. ret ()))"

definition deliver_async ::
  "wh_env \<Rightarrow> string list \<Rightarrow> time \<Rightarrow> wh_message \<Rightarrow> (wh_state, unit) handler" where
  "deliver_async env names now msg =
     thn (import_from names ''async_session'') (
     case parse_uuid (ms_tenant_id msg) of
       None \<Rightarrow> raise (ValueError ''badly formed hexadecimal UUID string'')
     | Some tid \<Rightarrow>
         bnd (on_wh_db (select_all webhook_endpoints (\<lambda>e. we_tenant_id e = tid \<and> we_is_active e))) (\<lambda>endpoints.
         for_each endpoints (deliver_one env names now msg)))"

text \<open>A worker takes the oldest message; a task that raises is not repeated.\<close>

definition worker :: "wh_env \<Rightarrow> time \<Rightarrow> wh_state \<Rightarrow> wh_state" where
  "worker env now s =
     (case wh_queue s of
        [] \<Rightarrow> s
      | msg # rest \<Rightarrow> snd (deliver_async env session_module now msg (s\<lparr>wh_queue := rest\<rparr>)))"

section \<open>The API\<close>

definition VALID_EVENTS :: "string list" where
  "VALID_EVENTS =
     [''connector.scan.complete'', ''connector.scan.failed'', ''finding.created'', ''finding.resolved'',
      ''alert.fired'', ''user.provisioned'', ''user.deprovisioned'', ''gdpr.erasure.complete'',
      ''indexing.started'', ''indexing.complete'', ''indexing.failed'', ''*'']"

record create_webhook_request =
  cw_url :: string
  cw_event_types :: "string list"
  cw_description :: string

definition list_webhooks :: "auth_context \<Rightarrow> (wh_state, webhook_endpoint list) handler" where
  "list_webhooks auth =
     on_wh_db (select_all webhook_endpoints (\<lambda>e. we_tenant_id e = ac_tenant_id auth \<and> we_is_active e))"

definition new_webhook ::
  "uuid \<Rightarrow> time \<Rightarrow> string \<Rightarrow> auth_context \<Rightarrow> create_webhook_request \<Rightarrow> webhook_endpoint" where
  "new_webhook i now secret auth req =
     \<lparr> we_id = i, we_tenant_id = ac_tenant_id auth, we_url = cw_url req, we_secret = Some secret,
       we_event_types = Some (cw_event_types req), we_description = Some (cw_description req),
       we_is_active = True, we_last_delivery_at = None, we_last_delivery_status = None,
       we_failure_count = Some 0, we_created_by = Some (ac_user_id auth), we_created_at = now \<rparr>"

text \<open>\<open>secret\<close> is \<open>secrets.token_hex(32)\<close>; the set in the message of the error is left out.\<close>

definition create_webhook ::
  "time \<Rightarrow> string \<Rightarrow> auth_context \<Rightarrow> create_webhook_request \<Rightarrow> (wh_state, webhook_endpoint) handler" where
  "create_webhook now secret auth req =
     thn (guard (''admin:*'' \<in> ac_permissions auth) (HTTPException 403 ''Admin required'')) (
     thn (guard (set (cw_event_types req) \<subseteq> set VALID_EVENTS) (HTTPException 400 ''Unknown event types'')) (
     on_wh_db (bnd fresh (\<lambda>i.
       let ep = new_webhook i now secret auth req
       in thn (modify (\<lambda>d. d\<lparr>webhook_endpoints := webhook_endpoints d @ [ep]\<rparr>)) (
          thn flush (ret ep))))))"

definition own_webhook :: "auth_context \<Rightarrow> uuid \<Rightarrow> webhook_endpoint \<Rightarrow> bool" where
  "own_webhook auth i e \<longleftrightarrow> we_id e = i \<and> we_tenant_id e = ac_tenant_id auth"

text \<open>The argument of the path is \<open>None\<close> when it is not a UUID.\<close>

definition test_webhook :: "auth_context \<Rightarrow> uuid option \<Rightarrow> (wh_state, unit) handler" where
  "test_webhook auth webhook_id =
     (case webhook_id of
        None \<Rightarrow> raise (ValueError ''badly formed hexadecimal UUID string'')
      | Some i \<Rightarrow>
          bnd (on_wh_db (select_one webhook_endpoints (own_webhook auth i))) (\<lambda>ep.
          if ep = None then raise (HTTPException 404 ''Webhook not found'')
          else dispatch_webhook (uuid_str (ac_tenant_id auth)) ''webhook.test''
                 [(''message'', JStr ''Test ping from dgraph.ai''), (''webhook_id'', JStr (uuid_str i))]))"

definition delete_webhook :: "auth_context \<Rightarrow> uuid option \<Rightarrow> (wh_state, unit) handler" where
  "delete_webhook auth webhook_id =
     (case webhook_id of
        None \<Rightarrow> raise (ValueError ''badly formed hexadecimal UUID string'')
      | Some i \<Rightarrow>
          on_wh_db (modify (\<lambda>d. d\<lparr>webhook_endpoints :=
            update_where (own_webhook auth i) (\<lambda>e. e\<lparr>we_is_active := False\<rparr>) (webhook_endpoints d)\<rparr>)))"

datatype webhook_call =
    ListWebhooks
  | CreateWebhook string create_webhook_request
  | TestWebhook "uuid option"
  | DeleteWebhook "uuid option"

fun webhook_handle :: "time \<Rightarrow> auth_context \<Rightarrow> webhook_call \<Rightarrow> (wh_state, unit) handler" where
  "webhook_handle now auth ListWebhooks = bnd (list_webhooks auth) (\<lambda>_. ret ())"
| "webhook_handle now auth (CreateWebhook secret req) = bnd (create_webhook now secret auth req) (\<lambda>_. ret ())"
| "webhook_handle now auth (TestWebhook i) = test_webhook auth i"
| "webhook_handle now auth (DeleteWebhook i) = delete_webhook auth i"

section \<open>The attempts of one delivery\<close>

definition accepted :: "wh_env \<Rightarrow> http_request \<Rightarrow> nat \<Rightarrow> bool" where
  "accepted env rq k =
     (case wh_answer env rq k of Inl e \<Rightarrow> False | Inr status_code \<Rightarrow> 200 \<le> status_code \<and> status_code < 300)"

definition failure_text :: "wh_env \<Rightarrow> http_request \<Rightarrow> nat \<Rightarrow> string" where
  "failure_text env rq k =
     (case wh_answer env rq k of Inl e \<Rightarrow> e | Inr status_code \<Rightarrow> ''HTTP '' @ int_str status_code)"

definition attempts_made :: "wh_env \<Rightarrow> http_request \<Rightarrow> nat" where
  "attempts_made env rq = (if accepted env rq 1 then 1 else if accepted env rq 2 then 2 else 3)"

definition attempt_trace :: "http_request \<Rightarrow> nat \<Rightarrow> wire_event list" where
  "attempt_trace rq n =
     take (if n = 1 then 1 else if n = 2 then 3 else 5)
       [PostSent rq, Pause 60, PostSent rq, Pause 300, PostSent rq]"

lemma attempt_loop_Cons:
  "attempt_loop env rq (delay # delays) n err s =
     (let s' = s\<lparr>wh_wire := wh_wire s @ (if delay > 0 then [Pause delay] else []) @ [PostSent rq]\<rparr>
      in if accepted env rq (Suc n) then (Inr (Suc n, '''', True), s')
         else attempt_loop env rq delays (Suc n) (failure_text env rq (Suc n)) s')"
  by (simp add: accepted_def failure_text_def emit_def Let_def split: sum.split)

lemma deliver_attempts_run:
  "deliver_attempts env rq s =
     (let n = attempts_made env rq; ok = accepted env rq n
      in (Inr (n, if ok then '''' else failure_text env rq n, ok),
          s\<lparr>wh_wire := wh_wire s @ attempt_trace rq n\<rparr>))"
  by (simp add: deliver_attempts_def RETRY_DELAYS_def attempt_loop_Cons attempts_made_def attempt_trace_def
      Let_def numeral_2_eq_2 numeral_3_eq_3 del: attempt_loop.simps(2))

section \<open>Who gets an event\<close>

definition targets :: "db \<Rightarrow> uuid \<Rightarrow> string \<Rightarrow> webhook_endpoint list" where
  "targets d tid event_type =
     filter (\<lambda>e. we_tenant_id e = tid \<and> we_is_active e \<and>
       (case we_event_types e of None \<Rightarrow> True
        | Some ts \<Rightarrow> ts = [] \<or> event_type \<in> set ts \<or> ''*'' \<in> set ts)) (webhook_endpoints d)"

lemma subscribed_iff:
  "subscribed event_type e \<longleftrightarrow>
     (case we_event_types e of None \<Rightarrow> True
      | Some ts \<Rightarrow> ts = [] \<or> event_type \<in> set ts \<or> ''*'' \<in> set ts)"
  by (auto simp: subscribed_def split: option.split)

definition delivery_trace :: "wh_env \<Rightarrow> time \<Rightarrow> wh_message \<Rightarrow> uuid \<Rightarrow> webhook_endpoint \<Rightarrow> wire_event list" where
  "delivery_trace env now msg i e =
     (let rq = webhook_post env now (uuid_str i) e (ms_event_type msg) (ms_payload msg) (ms_tenant_id msg)
      in attempt_trace rq (attempts_made env rq))"

text \<open>The identifier of each event is fresh; the next one is drawn after that of the log row.\<close>

fun delivery_traces ::
  "wh_env \<Rightarrow> time \<Rightarrow> wh_message \<Rightarrow> uuid \<Rightarrow> webhook_endpoint list \<Rightarrow> wire_event list" where
  "delivery_traces env now msg i [] = []"
| "delivery_traces env now msg i (e # es) =
     delivery_trace env now msg i e @ delivery_traces env now msg (i + 2) es"

lemma deliver_one_run:
  assumes "''async_session'' \<in> set names" and "parse_uuid (ms_tenant_id msg) = Some tid"
  shows "deliver_one env names now msg e s =
     (Inr (), if subscribed (ms_event_type msg) e
              then s\<lparr>wh_wire := wh_wire s @ delivery_trace env now msg (next_uuid (wh_db s)) e,
                     wh_db := (wh_db s)\<lparr>next_uuid := next_uuid (wh_db s) + 2\<rparr>\<rparr>
              else s)"
  using assms
  by (simp add: deliver_one_def deliver_to_endpoint_def import_from_def deliver_attempts_run
      delivery_trace_def Let_def)

lemma deliver_each_run:
  assumes "''async_session'' \<in> set names" and "parse_uuid (ms_tenant_id msg) = Some tid"
  shows "for_each es (deliver_one env names now msg) s =
     (let hit = filter (subscribed (ms_event_type msg)) es; i = next_uuid (wh_db s)
      in (Inr (), s\<lparr>wh_wire := wh_wire s @ delivery_traces env now msg i hit,
                    wh_db := (wh_db s)\<lparr>next_uuid := i + 2 * length hit\<rparr>\<rparr>))"
  by (induction es arbitrary: s) (simp_all add: deliver_one_run [OF assms] Let_def)

lemma worker_delivers_nothing: "wh_wire (worker env now s) = wh_wire s \<and> wh_db (worker env now s) = wh_db s"
  by (simp add: worker_def deliver_async_def import_from_def no_async_session split: list.split)

text \<open>The test event is no valid event type: an endpoint that lists its events never gets the ping.\<close>

lemma test_ping_filtered:
  assumes "we_event_types e = Some ts" and "ts \<noteq> []" and "set ts \<subseteq> set VALID_EVENTS - {''*''}"
  shows "\<not> subscribed ''webhook.test'' e"
proof -
  have "''webhook.test'' \<notin> set VALID_EVENTS" by code_simp
  with assms show ?thesis by (auto simp: subscribed_def)
qed

section \<open>What requests do to the endpoints\<close>

text \<open>Every member of the tenant may delete an endpoint; only an administrator may register one.\<close>

lemma any_member_deletes:
  "wh_request (delete_webhook auth (Some i)) s =
     (if constraints (wh_db s)
      then (Inr (), s\<lparr>wh_db := (wh_db s)\<lparr>webhook_endpoints :=
              update_where (own_webhook auth i) (\<lambda>e. e\<lparr>we_is_active := False\<rparr>)
                (webhook_endpoints (wh_db s))\<rparr>\<rparr>)
      else (Inl IntegrityError, s))"
  by (simp add: wh_request_def transaction_def delete_webhook_def constraints_def wh_undo_def)

fun webhook_run :: "(time \<times> auth_context \<times> webhook_call) list \<Rightarrow> wh_state \<Rightarrow> wh_state" where
  "webhook_run [] s = s"
| "webhook_run ((now, auth, c) # cs) s =
     webhook_run cs (snd (wh_request (webhook_handle now auth c) s))"

definition registered_by :: "auth_context \<Rightarrow> webhook_call \<Rightarrow> webhook_endpoint \<Rightarrow> bool" where
  "registered_by auth c e \<longleftrightarrow>
     (\<exists>secret req. c = CreateWebhook secret req \<and> ''admin:*'' \<in> ac_permissions auth \<and>
        set (cw_event_types req) \<subseteq> set VALID_EVENTS \<and> we_tenant_id e = ac_tenant_id auth \<and>
        we_url e = cw_url req \<and> we_secret e = Some secret \<and> we_event_types e = Some (cw_event_types req))"

text \<open>Two endpoints that differ at most in being active.\<close>

definition same_endpoint :: "webhook_endpoint \<Rightarrow> webhook_endpoint \<Rightarrow> bool" where
  "same_endpoint e e' \<longleftrightarrow> e' = e \<or> e' = e\<lparr>we_is_active := False\<rparr>"

lemma same_endpoint_trans: "same_endpoint e e' \<Longrightarrow> same_endpoint e' e'' \<Longrightarrow> same_endpoint e e''"
  by (auto simp: same_endpoint_def)

definition deactivated_in :: "(time \<times> auth_context \<times> webhook_call) list \<Rightarrow> webhook_endpoint \<Rightarrow> bool" where
  "deactivated_in cs e \<longleftrightarrow>
     (\<exists>now auth. (now, auth, DeleteWebhook (Some (we_id e))) \<in> set cs \<and> ac_tenant_id auth = we_tenant_id e)"

lemma deactivated_in_Cons: "deactivated_in cs e \<Longrightarrow> deactivated_in (c # cs) e"
  by (auto simp: deactivated_in_def)

lemma same_endpoint_ids: "same_endpoint e e' \<Longrightarrow> we_id e' = we_id e \<and> we_tenant_id e' = we_tenant_id e"
  by (auto simp: same_endpoint_def)

lemma wh_request_rows:
  "webhook_endpoints (wh_db (snd (wh_request h s))) = webhook_endpoints (wh_db s) \<or>
   (\<exists>x. h s = (Inr x, snd (wh_request h s)))"
  by (auto simp: wh_request_def transaction_def wh_undo_def split: handler_splits)

lemma other_calls_rows:
  "webhook_endpoints (wh_db (snd (wh_request (webhook_handle now auth ListWebhooks) s))) =
     webhook_endpoints (wh_db s)"
  "webhook_endpoints (wh_db (snd (wh_request (webhook_handle now auth (TestWebhook i)) s))) =
     webhook_endpoints (wh_db s)"
proof -
  have "webhook_endpoints (wh_db s') = webhook_endpoints (wh_db s)"
    if "webhook_handle now auth ListWebhooks s = (Inr x, s')" for x s'
    using that by (auto simp: list_webhooks_def)
  with wh_request_rows [of "webhook_handle now auth ListWebhooks" s]
  show "webhook_endpoints (wh_db (snd (wh_request (webhook_handle now auth ListWebhooks) s))) =
     webhook_endpoints (wh_db s)" by blast
  have "webhook_endpoints (wh_db s') = webhook_endpoints (wh_db s)"
    if "webhook_handle now auth (TestWebhook i) s = (Inr x, s')" for x s'
    using that by (auto simp: test_webhook_def dispatch_webhook_def split: handler_splits)
  with wh_request_rows [of "webhook_handle now auth (TestWebhook i)" s]
  show "webhook_endpoints (wh_db (snd (wh_request (webhook_handle now auth (TestWebhook i)) s))) =
     webhook_endpoints (wh_db s)" by blast
qed

lemma create_rows:
  assumes "webhook_handle now auth (CreateWebhook secret req) s = (Inr x, s')"
  shows "\<exists>e. webhook_endpoints (wh_db s') = webhook_endpoints (wh_db s) @ [e] \<and>
     registered_by auth (CreateWebhook secret req) e"
  using assms
  by (auto simp: create_webhook_def registered_by_def new_webhook_def Let_def split: handler_splits)

text \<open>One request: every endpoint stays, possibly deactivated, and a new one is an administrator's.\<close>

lemma webhook_request_step:
  assumes "s' = snd (wh_request (webhook_handle now auth c) s)"
  shows "(\<forall>e \<in> set (webhook_endpoints (wh_db s)).
            \<exists>e' \<in> set (webhook_endpoints (wh_db s')). same_endpoint e e' \<and>
              (e' = e \<or> deactivated_in [(now, auth, c)] e)) \<and>
         (\<forall>e' \<in> set (webhook_endpoints (wh_db s')).
            (\<exists>e \<in> set (webhook_endpoints (wh_db s)). same_endpoint e e') \<or> registered_by auth c e')"
proof (cases "s' = s \<or> webhook_endpoints (wh_db s') = webhook_endpoints (wh_db s)")
  case True
  then show ?thesis by (auto simp: same_endpoint_def)
next
  case False
  show ?thesis
  proof (cases c)
    case (DeleteWebhook i)
    have "i \<noteq> None"
      using False assms DeleteWebhook
      by (cases i) (auto simp: wh_request_def transaction_def wh_undo_def delete_webhook_def)
    then obtain j where j: "i = Some j" by auto
    have ep: "webhook_endpoints (wh_db s') = update_where (own_webhook auth j)
             (\<lambda>e. e\<lparr>we_is_active := False\<rparr>) (webhook_endpoints (wh_db s))"
      using False assms by (simp add: DeleteWebhook j any_member_deletes split: if_splits)
    let ?f = "\<lambda>e. if own_webhook auth j e then e\<lparr>we_is_active := False\<rparr> else e"
    have "same_endpoint e (?f e) \<and> (?f e = e \<or> deactivated_in [(now, auth, c)] e)" for e
      by (auto simp: same_endpoint_def deactivated_in_def own_webhook_def DeleteWebhook j)
    then show ?thesis
      unfolding ep set_update_where by blast
  next
    case (CreateWebhook secret req)
    obtain x where "webhook_handle now auth (CreateWebhook secret req) s = (Inr x, s')"
      using wh_request_rows [of "webhook_handle now auth c" s] False assms CreateWebhook by auto
    from create_rows [OF this] CreateWebhook show ?thesis
      by (auto simp: same_endpoint_def)
  qed (use False assms other_calls_rows in auto)
qed

lemma webhook_run_endpoints:
  "(\<forall>e \<in> set (webhook_endpoints (wh_db s)).
      \<exists>e' \<in> set (webhook_endpoints (wh_db (webhook_run cs s))). same_endpoint e e' \<and>
        (e' = e \<or> deactivated_in cs e)) \<and>
   (\<forall>e' \<in> set (webhook_endpoints (wh_db (webhook_run cs s))).
      (\<exists>e \<in> set (webhook_endpoints (wh_db s)). same_endpoint e e') \<or>
      (\<exists>(now, auth, c) \<in> set cs. \<exists>e. registered_by auth c e \<and> same_endpoint e e'))"
proof (induction cs arbitrary: s)
  case (Cons x cs)
  obtain now auth c where x: "x = (now, auth, c)" by (cases x)
  let ?m = "snd (wh_request (webhook_handle now auth c) s)"
  have run: "webhook_run (x # cs) s = webhook_run cs ?m" by (simp add: x)
  note one = webhook_request_step [OF refl, where now = now and auth = auth and c = c and s = s]
  note rest = Cons.IH [of ?m]
  show ?case unfolding run
  proof (intro conjI ballI)
    fix e assume "e \<in> set (webhook_endpoints (wh_db s))"
    then obtain e1 where e1: "e1 \<in> set (webhook_endpoints (wh_db ?m))" "same_endpoint e e1"
        "e1 = e \<or> deactivated_in [(now, auth, c)] e"
      using one by blast
    from e1(1) rest obtain e2 where e2: "e2 \<in> set (webhook_endpoints (wh_db (webhook_run cs ?m)))"
        "same_endpoint e1 e2" "e2 = e1 \<or> deactivated_in cs e1"
      by blast
    have "e2 = e \<or> deactivated_in (x # cs) e"
      using e1(3) e2(3) same_endpoint_ids [OF e1(2)] by (auto simp: deactivated_in_def x)
    with e2(1) same_endpoint_trans [OF e1(2) e2(2)]
    show "\<exists>e' \<in> set (webhook_endpoints (wh_db (webhook_run cs ?m))). same_endpoint e e' \<and>
            (e' = e \<or> deactivated_in (x # cs) e)"
      by blast
  next
    fix e' assume "e' \<in> set (webhook_endpoints (wh_db (webhook_run cs ?m)))"
    with rest consider e1 where "e1 \<in> set (webhook_endpoints (wh_db ?m))" "same_endpoint e1 e'"
      | "\<exists>(now, auth, c) \<in> set cs. \<exists>e. registered_by auth c e \<and> same_endpoint e e'"
      by blast
    then show "(\<exists>e \<in> set (webhook_endpoints (wh_db s)). same_endpoint e e') \<or>
      (\<exists>(now, auth, c) \<in> set (x # cs). \<exists>e. registered_by auth c e \<and> same_endpoint e e')"
    proof cases
      case 1
      with one consider e where "e \<in> set (webhook_endpoints (wh_db s))" "same_endpoint e e1"
        | "registered_by auth c e1" by blast
      then show ?thesis
      proof cases
        case (1 e)
        with same_endpoint_trans [OF 1(2) \<open>same_endpoint e1 e'\<close>] show ?thesis by blast
      next
        case 2
        with \<open>same_endpoint e1 e'\<close> have "\<exists>(now, auth, c) \<in> set (x # cs). \<exists>e. registered_by auth c e \<and> same_endpoint e e'"
          by (intro bexI [of _ x]) (auto simp: x)
        then show ?thesis ..
      qed
    qed simp
  qed
qed (auto simp: same_endpoint_def)

section \<open>Properties\<close>

text \<open>A delivery makes one to three attempts: the same post, with the same body and the same
  signature, is sent at once, after a minute and after five more, until an answer between 200 and 299
  comes. It is recorded as delivered exactly when one of the first three answers is such an answer,
  otherwise as a dead letter with the text of the third failure; the status \<open>failed\<close> is never
  recorded.\<close>

theorem webhook_attempts:
  "\<exists>n err. deliver_attempts env rq s =
       (Inr (n, err, accepted env rq 1 \<or> accepted env rq 2 \<or> accepted env rq 3),
        s\<lparr>wh_wire := wh_wire s @ attempt_trace rq n\<rparr>) \<and>
     1 \<le> n \<and> n \<le> 3 \<and> n = attempts_made env rq \<and>
     (let row = delivery_row now e tid event_type event_id
                  (n, err, accepted env rq 1 \<or> accepted env rq 2 \<or> accepted env rq 3) i
      in if accepted env rq n
         then wd_delivered row \<and> wd_status row = ''delivered'' \<and> wd_last_error row = None
         else n = 3 \<and> \<not> wd_delivered row \<and> wd_status row = ''dead_letter'' \<and>
              wd_last_error row = Some (failure_text env rq 3))"
  by (intro exI [of _ "attempts_made env rq"]
        exI [of _ "if accepted env rq (attempts_made env rq) then '''' else failure_text env rq (attempts_made env rq)"])
     (auto simp: deliver_attempts_run attempts_made_def delivery_row_def delivery_status_def Let_def)

text \<open>C36: With a session factory to import, an event is sent to exactly the active endpoints of its
  tenant that subscribe to its type, in the order of the table, each with its attempts in full and
  whatever the others answered, and no table is changed. The delivery task of this program imports a
  factory that \<open>db/session.py\<close> does not define, so a worker takes messages from the queue and
  delivers none.\<close>

theorem webhook_routing:
  assumes "''async_session'' \<in> set names" and "parse_uuid (ms_tenant_id msg) = Some tid"
  shows "deliver_async env names now msg s =
      (let hit = targets (wh_db s) tid (ms_event_type msg); i = next_uuid (wh_db s)
       in (Inr (), s\<lparr>wh_wire := wh_wire s @ delivery_traces env now msg i hit,
                     wh_db := (wh_db s)\<lparr>next_uuid := i + 2 * length hit\<rparr>\<rparr>)) \<and>
    wh_wire (worker env' now' s') = wh_wire s'"
proof -
  have "targets (wh_db s) tid (ms_event_type msg) =
      filter (subscribed (ms_event_type msg))
        (filter (\<lambda>e. we_tenant_id e = tid \<and> we_is_active e) (webhook_endpoints (wh_db s)))"
    by (simp add: targets_def subscribed_iff conj_ac cong: conj_cong)
  then show ?thesis
    using assms(1)
    by (simp add: deliver_async_def import_from_def assms(2) deliver_each_run [OF assms] worker_delivers_nothing
        Let_def)
qed

definition example_endpoint :: webhook_endpoint where
  "example_endpoint =
     \<lparr> we_id = 5, we_tenant_id = 1, we_url = ''https://a.example/hook'', we_secret = Some ''k'',
       we_event_types = Some [''alert.fired''], we_description = None, we_is_active = True,
       we_last_delivery_at = None, we_last_delivery_status = None, we_failure_count = Some 0,
       we_created_by = Some 7, we_created_at = 0 \<rparr>"

definition example_wh_env :: wh_env where
  "example_wh_env =
     \<lparr> wh_answer = (\<lambda>rq k. if k = 2 then Inr 204 else Inr 503), wh_hmac = (\<lambda>k b. ''s''),
       wh_float = (\<lambda>q. '''') \<rparr>"

definition example_message :: wh_message where
  "example_message =
     \<lparr> ms_tenant_id = uuid_str 1, ms_event_type = ''alert.fired'', ms_payload = [] \<rparr>"

definition example_wh_state :: wh_state where
  "example_wh_state =
     \<lparr> wh_db = empty_db\<lparr>webhook_endpoints := [example_endpoint]\<rparr>, wh_queue = [example_message],
       wh_wire = [] \<rparr>"

theorem webhook_routing_witness:
  "length (wh_wire (snd (deliver_async example_wh_env [''async_session''] 0 example_message example_wh_state))) = 3 \<and>
   wh_wire (worker example_wh_env 0 example_wh_state) = []"
proof -
  have "targets (wh_db example_wh_state) 1 (ms_event_type example_message) = [example_endpoint]"
    by code_simp
  moreover have "length (delivery_traces example_wh_env 0 example_message 1 [example_endpoint]) = 3"
    by (simp add: delivery_trace_def attempts_made_def attempt_trace_def accepted_def example_wh_env_def Let_def)
  moreover have "wh_wire example_wh_state = []" "next_uuid (wh_db example_wh_state) = 1"
    by (simp_all add: example_wh_state_def empty_db_def)
  moreover have "parse_uuid (ms_tenant_id example_message) = Some 1"
    by (simp add: example_message_def)
  ultimately show ?thesis
    using webhook_routing [of "[''async_session'']" example_message 1 example_wh_env 0 example_wh_state
        example_wh_env 0 example_wh_state]
    by (simp add: Let_def)
qed

text \<open>Whatever requests come in, and whoever sends them, an endpoint is never removed and its
  address, secret and subscriptions never change; it is deactivated only by a delete request of a
  member of its own tenant and never activated again. Every endpoint that was not there at the start
  was registered by an administrator of its tenant, for valid event types only.\<close>

theorem webhook_endpoints_kept:
  "(\<forall>e \<in> set (webhook_endpoints (wh_db s)).
      \<exists>e' \<in> set (webhook_endpoints (wh_db (webhook_run cs s))). same_endpoint e e' \<and>
        (e' = e \<or> deactivated_in cs e)) \<and>
   (\<forall>e' \<in> set (webhook_endpoints (wh_db (webhook_run cs s))).
      (\<exists>e \<in> set (webhook_endpoints (wh_db s)). same_endpoint e e') \<or>
      (\<exists>(now, auth, c) \<in> set cs. \<exists>e. registered_by auth c e \<and> same_endpoint e e'))"
  by (rule webhook_run_endpoints)

definition example_member :: auth_context where
  "example_member = \<lparr> ac_user_id = 8, ac_tenant_id = 1, ac_email = JStr ''m@a.example'', ac_roles = [],
     ac_permissions = {} \<rparr>"

theorem webhook_endpoints_kept_witness:
  "webhook_endpoints (wh_db (webhook_run [(0, example_member, DeleteWebhook (Some 5))] example_wh_state)) =
     [example_endpoint\<lparr>we_is_active := False\<rparr>] \<and>
   (\<exists>e'. e' \<in> set (webhook_endpoints (wh_db (webhook_run [(0, example_member, DeleteWebhook (Some 5))] example_wh_state))) \<and>
      same_endpoint example_endpoint e')"
proof -
  have "webhook_endpoints (wh_db (webhook_run [(0, example_member, DeleteWebhook (Some 5))] example_wh_state)) =
     [example_endpoint\<lparr>we_is_active := False\<rparr>]"
    by (simp add: any_member_deletes example_wh_state_def empty_db_def constraints_def own_webhook_def
        example_endpoint_def example_member_def)
  moreover have "example_endpoint \<in> set (webhook_endpoints (wh_db example_wh_state))"
    by (simp add: example_wh_state_def)
  then have "\<exists>e'. e' \<in> set (webhook_endpoints (wh_db (webhook_run [(0, example_member, DeleteWebhook (Some 5))] example_wh_state))) \<and>
      same_endpoint example_endpoint e'"
    using webhook_endpoints_kept [of example_wh_state "[(0, example_member, DeleteWebhook (Some 5))]"] by blast
  ultimately show ?thesis by blast
qed

end
