(* ===== verification/Py_Csv.thy ===== *)
theory Py_Csv
  imports PyText
begin

text \<open>
  Python's \<open>csv.DictWriter\<close> with its default dialect: fields are separated by commas and rows end with
  CR LF; a field that contains a comma, a quote or a line break is quoted, and so is the only field of
  a row when it is empty. The texts of floats, lists and dicts are a parameter.
\<close>

definition csv_quoted :: "string \<Rightarrow> string" where
  "csv_quoted t = [CHR 0x22] @ concat (map (\<lambda>c. if c = CHR 0x22 then [c, c] else [c]) t) @ [CHR 0x22]"

definition csv_field :: "string \<Rightarrow> string" where
  "csv_field t =
     (if CHR '','' \<in> set t \<or> CHR 0x22 \<in> set t \<or> CHR 0x0A \<in> set t \<or> CHR 0x0D \<in> set t
      then csv_quoted t else t)"

definition csv_row :: "string list \<Rightarrow> string" where
  "csv_row ts = (if ts = [''''] then csv_quoted '''' else str_join '','' (map csv_field ts)) @ [CHR 0x0D, CHR 0x0A]"

definition csv_value :: "(json \<Rightarrow> string) \<Rightarrow> json \<Rightarrow> string" where
  "csv_value repr v = (case v of JNull \<Rightarrow> '''' | _ \<Rightarrow> py_str repr v)"

text \<open>A row with a key that is no field name raises; the rows before it are written.\<close>

fun write_rows :: "(json \<Rightarrow> string) \<Rightarrow> string list \<Rightarrow> py_dict list \<Rightarrow> string \<Rightarrow> string \<times> bool" where
  "write_rows repr fieldnames [] out = (out, True)"
| "write_rows repr fieldnames (row # rows) out =
     (if set (map fst row) \<subseteq> set fieldnames
      then write_rows repr fieldnames rows
             (out @ csv_row (map (\<lambda>k. csv_value repr (dict_get_or row k (JStr ''''))) fieldnames))
      else (out, False))"

text \<open>\<open>writeheader\<close> and \<open>writerows\<close>; the flag says whether they returned.\<close>

definition csv_text :: "(json \<Rightarrow> string) \<Rightarrow> py_dict list \<Rightarrow> string \<times> bool" where
  "csv_text repr rows = (let names = map fst (hd rows) in write_rows repr names rows (csv_row names))"

text \<open>Every row is written when all rows have the fields of the first or fewer.\<close>

lemma write_rows_ok:
  "snd (write_rows repr names rows out) \<longleftrightarrow> list_all (\<lambda>row. set (map fst row) \<subseteq> set names) rows"
  by (induction rows arbitrary: out) auto

end
