(* ===== verification/Queries.thy ===== *)
theory Queries
  imports Oidc Graph_Store Py_Csv "HOL-Library.Char_ord" "HOL-Library.List_Lexorder" "HOL-Library.Product_Lexorder"
begin

text \<open>
  \<open>api/queries.py\<close> with the tables of \<open>db/query_models.py\<close>: a tenant's library of saved queries, their
  runs and their exports.

  The state has the database of the tenants, the two tables, the tasks FastAPI runs in the background
  after a request that returned, and the files of \<open>/data/exports\<close>. A request that raises schedules
  nothing. The answer of a graph backend to a query, pyarrow and the texts of floats and containers
  are the fields of \<open>query_env\<close>. Rows are sorted by name as Python compares strings.
\<close>

section \<open>State\<close>

record saved_query =
  sq_id :: uuid
  sq_tenant_id :: uuid
  sq_created_by :: "uuid option"
  sq_name :: string
  sq_description :: string
  sq_cypher :: string
  sq_params :: py_dict
  sq_tags :: "string list"
  sq_is_public :: bool
  sq_is_pinned :: bool
  sq_run_count :: int
  sq_last_run_at :: "time option"
  sq_created_at :: time
  sq_updated_at :: time
  sq_export_format :: "string option"
  sq_export_schedule :: "string option"

record query_export =
  qe_id :: uuid
  qe_query_id :: uuid
  qe_tenant_id :: uuid
  qe_triggered_by :: string
  qe_status :: string
  qe_row_count :: "int option"
  qe_file_size_bytes :: "int option"
  qe_output_uri :: "string option"
  qe_error :: "string option"
  qe_started_at :: time
  qe_completed_at :: "time option"

datatype export_task =
    RunExport string "py_dict list" string
  | ExecuteAndExport string string py_dict string string

record query_state =
  qs_db :: db
  saved_queries :: "saved_query list"
  query_exports :: "query_export list"
  qs_background :: "export_task list"
  qs_files :: "(string \<times> string) list"

record query_env =
  qv_genv :: graph_env
  qv_query :: "graph_backend \<Rightarrow> string \<Rightarrow> py_dict \<Rightarrow> uuid \<Rightarrow> py_error + py_dict list"
  qv_float :: "rat \<Rightarrow> string"
  qv_repr :: "json \<Rightarrow> string"
  qv_pyarrow :: "(py_dict list \<Rightarrow> py_error + string) option"

definition queries_ok :: "query_state \<Rightarrow> bool" where
  "queries_ok s \<longleftrightarrow> constraints (qs_db s) \<and> unique_by sq_id (saved_queries s) \<and>
     unique_by (\<lambda>q. (sq_tenant_id q, sq_name q)) (saved_queries s) \<and> unique_by qe_id (query_exports s)"

definition query_request :: "(query_state, 'a) handler \<Rightarrow> (query_state, 'a) handler" where
  "query_request = transaction queries_ok (\<lambda>s s'. s)"

definition qs_fresh :: "(query_state, uuid) handler" where
  "qs_fresh = (\<lambda>s. (Inr (next_uuid (qs_db s)),
     s\<lparr>qs_db := (qs_db s)\<lparr>next_uuid := Suc (next_uuid (qs_db s))\<rparr>\<rparr>))"

definition qs_flush :: "(query_state, unit) handler" where
  "qs_flush = (\<lambda>s. if queries_ok s then (Inr (), s) else (Inl IntegrityError, s))"

definition qs_select :: "(query_state \<Rightarrow> 'r list) \<Rightarrow> ('r \<Rightarrow> bool) \<Rightarrow> (query_state, 'r option) handler" where
  "qs_select table p = (\<lambda>s. (scalar_one_or_none (filter p (table s)), s))"

definition put_query :: "saved_query \<Rightarrow> query_state \<Rightarrow> query_state" where
  "put_query q s = s\<lparr>saved_queries := put_row sq_id q (saved_queries s)\<rparr>"

definition add_background :: "export_task \<Rightarrow> (query_state, unit) handler" where
  "add_background t = modify (\<lambda>s. s\<lparr>qs_background := qs_background s @ [t]\<rparr>)"

section \<open>The library\<close>

record save_query_request =
  sv_name :: string
  sv_description :: string
  sv_cypher :: string
  sv_params :: py_dict
  sv_tags :: "string list"
  sv_is_public :: bool
  sv_is_pinned :: bool
  sv_export_format :: "string option"
  sv_export_schedule :: "string option"

record update_query_request =
  up_name :: "string option"
  up_description :: "string option"
  up_cypher :: "string option"
  up_params :: "py_dict option"
  up_tags :: "string list option"
  up_is_public :: "bool option"
  up_is_pinned :: "bool option"
  up_export_format :: "string option"
  up_export_schedule :: "string option"

record run_query_request =
  rr_params :: py_dict
  rr_limit :: int
  rr_export :: bool

text \<open>The rows the list and the tags endpoint select.\<close>

definition visible :: "auth_context \<Rightarrow> saved_query \<Rightarrow> bool" where
  "visible auth q \<longleftrightarrow> sq_tenant_id q = ac_tenant_id auth \<and>
     (sq_is_public q \<or> sq_created_by q = Some (ac_user_id auth))"

definition list_queries ::
  "auth_context \<Rightarrow> string option \<Rightarrow> bool option \<Rightarrow> (query_state, saved_query list) handler" where
  "list_queries auth tag pinned =
     gets (\<lambda>s.
       let found = filter (\<lambda>q. visible auth q \<and> (case pinned of None \<Rightarrow> True | Some b \<Rightarrow> sq_is_pinned q = b))
                     (saved_queries s);
           sorted = sort_key (\<lambda>q. (\<not> sq_is_pinned q, sq_name q)) found
       in (case tag of None \<Rightarrow> sorted | Some t \<Rightarrow> if t = [] then sorted else filter (\<lambda>q. t \<in> set (sq_tags q)) sorted))"

definition list_tags :: "auth_context \<Rightarrow> (query_state, string list) handler" where
  "list_tags auth =
     gets (\<lambda>s. sort (remdups (concat (map sq_tags (filter (visible auth) (saved_queries s))))))"

definition new_query :: "uuid \<Rightarrow> time \<Rightarrow> auth_context \<Rightarrow> save_query_request \<Rightarrow> saved_query" where
  "new_query i now auth req =
     \<lparr> sq_id = i, sq_tenant_id = ac_tenant_id auth, sq_created_by = Some (ac_user_id auth),
       sq_name = sv_name req, sq_description = sv_description req, sq_cypher = sv_cypher req,
       sq_params = sv_params req, sq_tags = sv_tags req, sq_is_public = sv_is_public req,
       sq_is_pinned = sv_is_pinned req, sq_run_count = 0, sq_last_run_at = None, sq_created_at = now,
       sq_updated_at = now, sq_export_format = sv_export_format req,
       sq_export_schedule = sv_export_schedule req \<rparr>"

definition save_query ::
  "time \<Rightarrow> auth_context \<Rightarrow> save_query_request \<Rightarrow> (query_state, saved_query) handler" where
  "save_query now auth req =
     bnd (qs_select saved_queries (\<lambda>q. sq_tenant_id q = ac_tenant_id auth \<and> sq_name q = sv_name req)) (\<lambda>existing.
     thn (guard (existing = None) (HTTPException 409 ''Query already exists'')) (
     bnd qs_fresh (\<lambda>i.
     let q = new_query i now auth req
     in thn (modify (\<lambda>s. s\<lparr>saved_queries := saved_queries s @ [q]\<rparr>)) (
        thn qs_flush (ret q)))))"

text \<open>
  An owner is compared by identifier. In the code \<open>created_by\<close> is a \<open>UUID\<close>, and under a local token
  \<open>auth.user_id\<close> is a text, which equals none: there even the owner is refused, unless an administrator.
  The model shows what holds under every token, that nobody else is let through.
\<close>

definition get_query_or_404 ::
  "uuid option \<Rightarrow> auth_context \<Rightarrow> bool \<Rightarrow> (query_state, saved_query) handler" where
  "get_query_or_404 query_id auth require_owner =
     (case query_id of
        None \<Rightarrow> raise (ValueError ''badly formed hexadecimal UUID string'')
      | Some i \<Rightarrow>
          bnd (qs_select saved_queries (\<lambda>q. sq_id q = i \<and> sq_tenant_id q = ac_tenant_id auth)) (\<lambda>found.
          case found of
            None \<Rightarrow> raise (HTTPException 404 ''Query not found'')
          | Some q \<Rightarrow>
              thn (guard (\<not> (require_owner \<and> sq_created_by q \<noteq> Some (ac_user_id auth) \<and>
                             ''admin:*'' \<notin> ac_permissions auth))
                     (HTTPException 403 ''You do not own this query'')) (ret q)))"

definition get_query :: "auth_context \<Rightarrow> uuid option \<Rightarrow> (query_state, saved_query) handler" where
  "get_query auth query_id = get_query_or_404 query_id auth False"

definition assign :: "'v option \<Rightarrow> 'v \<Rightarrow> 'v" where
  "assign v old = (case v of None \<Rightarrow> old | Some w \<Rightarrow> w)"

definition assign_opt :: "'v option \<Rightarrow> 'v option \<Rightarrow> 'v option" where
  "assign_opt v old = (case v of None \<Rightarrow> old | Some w \<Rightarrow> Some w)"

text \<open>\<open>setattr\<close> for every field of the request that is not \<open>None\<close>.\<close>

definition apply_update :: "update_query_request \<Rightarrow> saved_query \<Rightarrow> saved_query" where
  "apply_update req q =
     q\<lparr>sq_name := assign (up_name req) (sq_name q),
       sq_description := assign (up_description req) (sq_description q),
       sq_cypher := assign (up_cypher req) (sq_cypher q),
       sq_params := assign (up_params req) (sq_params q),
       sq_tags := assign (up_tags req) (sq_tags q),
       sq_is_public := assign (up_is_public req) (sq_is_public q),
       sq_is_pinned := assign (up_is_pinned req) (sq_is_pinned q),
       sq_export_format := assign_opt (up_export_format req) (sq_export_format q),
       sq_export_schedule := assign_opt (up_export_schedule req) (sq_export_schedule q)\<rparr>"

definition update_query ::
  "time \<Rightarrow> auth_context \<Rightarrow> uuid option \<Rightarrow> update_query_request \<Rightarrow> (query_state, saved_query) handler" where
  "update_query now auth query_id req =
     bnd (get_query_or_404 query_id auth True) (\<lambda>q.
     let q' = (apply_update req q)\<lparr>sq_updated_at := now\<rparr>
     in thn (modify (put_query q')) (
        thn qs_flush (ret q')))"

text \<open>The relationship cascades: the exports of a deleted query go with it.\<close>

definition delete_query :: "auth_context \<Rightarrow> uuid option \<Rightarrow> (query_state, unit) handler" where
  "delete_query auth query_id =
     bnd (get_query_or_404 query_id auth True) (\<lambda>q.
     modify (\<lambda>s. s\<lparr>saved_queries := delete_where (\<lambda>x. sq_id x = sq_id q) (saved_queries s),
                   query_exports := delete_where (\<lambda>e. qe_query_id e = sq_id q) (query_exports s)\<rparr>))"

section \<open>Runs and exports\<close>

definition new_export :: "uuid \<Rightarrow> time \<Rightarrow> auth_context \<Rightarrow> uuid \<Rightarrow> query_export" where
  "new_export i now auth query_id =
     \<lparr> qe_id = i, qe_query_id = query_id, qe_tenant_id = ac_tenant_id auth, qe_triggered_by = ''manual'',
       qe_status = ''pending'', qe_row_count = None, qe_file_size_bytes = None, qe_output_uri = None,
       qe_error = None, qe_started_at = now, qe_completed_at = None \<rparr>"

definition add_export :: "time \<Rightarrow> auth_context \<Rightarrow> uuid \<Rightarrow> (query_state, uuid) handler" where
  "add_export now auth query_id =
     bnd qs_fresh (\<lambda>i.
     thn (modify (\<lambda>s. s\<lparr>query_exports := query_exports s @ [new_export i now auth query_id]\<rparr>)) (
     thn qs_flush (ret i)))"

definition tenant_backend_of :: "query_env \<Rightarrow> auth_context \<Rightarrow> (query_state, graph_backend) handler" where
  "tenant_backend_of env auth =
     bnd (qs_select (tenants \<circ> qs_db) (\<lambda>t. tn_id t = ac_tenant_id auth)) (\<lambda>tenant.
     case tenant of
       None \<Rightarrow> raise AttributeError
     | Some t \<Rightarrow>
         lift_err (get_backend_for_tenant (qv_genv env) (str_or (tn_graph_backend t) ''neo4j'') (tn_graph_config t)))"

record run_result =
  rn_query_name :: string
  rn_rows :: "py_dict list"
  rn_export_id :: "uuid option"

definition run_saved_query ::
  "query_env \<Rightarrow> time \<Rightarrow> auth_context \<Rightarrow> uuid option \<Rightarrow> run_query_request \<Rightarrow> (query_state, run_result) handler" where
  "run_saved_query env now auth query_id req =
     thn (guard (''graph:query'' \<in> ac_permissions auth \<or> ''admin:*'' \<in> ac_permissions auth)
            (HTTPException 403 ''Permission required: graph:query'')) (
     bnd (get_query_or_404 query_id auth False) (\<lambda>q.
     let merged_params = dict_update (sq_params q) (rr_params req) in
     thn (modify (put_query (q\<lparr>sq_run_count := sq_run_count q + 1, sq_last_run_at := Some now,
                               sq_updated_at := now\<rparr>))) (
     thn qs_flush (
     bnd (tenant_backend_of env auth) (\<lambda>backend.
     bnd (case qv_query env backend (sq_cypher q) merged_params (ac_tenant_id auth) of
            Inl e \<Rightarrow> raise (HTTPException 400 ''Query error'')
          | Inr rows \<Rightarrow> ret (py_slice rows 0 (rr_limit req))) (\<lambda>rows.
     case (if rr_export req then sq_export_format q else None) of
       None \<Rightarrow> ret \<lparr> rn_query_name = sq_name q, rn_rows = rows, rn_export_id = None \<rparr>
     | Some fmt \<Rightarrow>
         if fmt = [] then ret \<lparr> rn_query_name = sq_name q, rn_rows = rows, rn_export_id = None \<rparr>
         else bnd (add_export now auth (sq_id q)) (\<lambda>i.
              thn (add_background (RunExport (uuid_str i) rows fmt)) (
              ret \<lparr> rn_query_name = sq_name q, rn_rows = rows, rn_export_id = Some i \<rparr>))))))))"

definition list_exports :: "auth_context \<Rightarrow> uuid option \<Rightarrow> (query_state, query_export list) handler" where
  "list_exports auth query_id =
     bnd (get_query_or_404 query_id auth False) (\<lambda>q.
     gets (\<lambda>s. take 50 (sort_key (\<lambda>e. - qe_started_at e)
                 (filter (\<lambda>e. qe_query_id e = sq_id q) (query_exports s)))))"

definition export_query ::
  "time \<Rightarrow> auth_context \<Rightarrow> uuid option \<Rightarrow> string \<Rightarrow> (query_state, uuid) handler" where
  "export_query now auth query_id fmt =
     thn (guard (fmt \<in> {''jsonl'', ''csv'', ''parquet''}) (HTTPException 400 ''format must be jsonl, csv, or parquet'')) (
     bnd (get_query_or_404 query_id auth False) (\<lambda>q.
     bnd (add_export now auth (sq_id q)) (\<lambda>i.
     thn (add_background (ExecuteAndExport (uuid_str i) (sq_cypher q) (sq_params q)
            (uuid_str (ac_tenant_id auth)) fmt)) (ret i))))"

section \<open>Background tasks\<close>

definition jsonl_text :: "query_env \<Rightarrow> py_dict list \<Rightarrow> string" where
  "jsonl_text env rows = concat (map (\<lambda>row. py_dumps (qv_float env) (JObj row) @ [CHR 0x0A]) rows)"

definition export_path :: "string \<Rightarrow> string \<Rightarrow> string" where
  "export_path export_id ext = ''/data/exports/'' @ export_id @ ''.'' @ ext"

text \<open>
  \<open>_run_export\<close>: an unknown format is a \<open>KeyError\<close> before the block whose errors are swallowed. Without
  pyarrow the lines are written to the file whose name was chosen before.
\<close>

definition run_export ::
  "query_env \<Rightarrow> string \<Rightarrow> py_dict list \<Rightarrow> string \<Rightarrow> (string \<times> string) list \<Rightarrow>
   (py_error + unit) \<times> (string \<times> string) list" where
  "run_export env export_id rows fmt written =
     (if fmt = ''jsonl'' then
        (Inr (), dict_set (export_path export_id ''jsonl'') (jsonl_text env rows) written)
      else if fmt = ''csv'' then
        (if rows = [] then (Inr (), written)
         else (Inr (), dict_set (export_path export_id ''csv'') (fst (csv_text (qv_repr env) rows)) written))
      else if fmt = ''parquet'' then
        (case qv_pyarrow env of
           None \<Rightarrow> (Inr (), dict_set (export_path export_id ''parquet'') (jsonl_text env rows) written)
         | Some encode \<Rightarrow>
             (case encode rows of
                Inl e \<Rightarrow> (Inr (), written)
              | Inr bytes \<Rightarrow> (Inr (), dict_set (export_path export_id ''parquet'') bytes written)))
      else (Inl (KeyError fmt), written))"

definition execute_and_export :: "string \<Rightarrow> string \<Rightarrow> py_dict \<Rightarrow> string \<Rightarrow> string \<Rightarrow> unit" where
  "execute_and_export export_id query_cypher query_params tenant_id fmt = ()"

text \<open>The oldest task runs; an error of it reaches nobody.\<close>

definition background_step :: "query_env \<Rightarrow> query_state \<Rightarrow> query_state" where
  "background_step env s =
     (case qs_background s of
        [] \<Rightarrow> s
      | RunExport export_id rows fmt # rest \<Rightarrow>
          s\<lparr>qs_background := rest, qs_files := snd (run_export env export_id rows fmt (qs_files s))\<rparr>
      | ExecuteAndExport export_id cypher params tid fmt # rest \<Rightarrow>
          (case execute_and_export export_id cypher params tid fmt of () \<Rightarrow> s\<lparr>qs_background := rest\<rparr>))"

datatype query_call =
    ListQueries "string option" "bool option"
  | ListTags
  | SaveQuery save_query_request
  | GetQuery "uuid option"
  | UpdateQuery "uuid option" update_query_request
  | DeleteQuery "uuid option"
  | RunQuery "uuid option" run_query_request
  | ListExports "uuid option"
  | ExportQuery "uuid option" string

fun query_handle :: "query_env \<Rightarrow> time \<Rightarrow> auth_context \<Rightarrow> query_call \<Rightarrow> (query_state, unit) handler" where
  "query_handle env now auth (ListQueries tag pinned) = bnd (list_queries auth tag pinned) (\<lambda>_. ret ())"
| "query_handle env now auth ListTags = bnd (list_tags auth) (\<lambda>_. ret ())"
| "query_handle env now auth (SaveQuery req) = bnd (save_query now auth req) (\<lambda>_. ret ())"
| "query_handle env now auth (GetQuery i) = bnd (get_query auth i) (\<lambda>_. ret ())"
| "query_handle env now auth (UpdateQuery i req) = bnd (update_query now auth i req) (\<lambda>_. ret ())"
| "query_handle env now auth (DeleteQuery i) = delete_query auth i"
| "query_handle env now auth (RunQuery i req) = bnd (run_saved_query env now auth i req) (\<lambda>_. ret ())"
| "query_handle env now auth (ListExports i) = bnd (list_exports auth i) (\<lambda>_. ret ())"
| "query_handle env now auth (ExportQuery i fmt) = bnd (export_query now auth i fmt) (\<lambda>_. ret ())"

text \<open>What happens: a request, or the next background task.\<close>

datatype query_event = Request time auth_context query_call | Background

fun query_event_step :: "query_env \<Rightarrow> query_event \<Rightarrow> query_state \<Rightarrow> query_state" where
  "query_event_step env (Request now auth c) s = snd (query_request (query_handle env now auth c) s)"
| "query_event_step env Background s = background_step env s"

definition query_run :: "query_env \<Rightarrow> query_event list \<Rightarrow> query_state \<Rightarrow> query_state" where
  "query_run env es s = fold (query_event_step env) es s"

section \<open>Who changes a query\<close>

definition may_edit :: "auth_context \<Rightarrow> saved_query \<Rightarrow> bool" where
  "may_edit auth q \<longleftrightarrow> sq_tenant_id q = ac_tenant_id auth \<and>
     (sq_created_by q = Some (ac_user_id auth) \<or> ''admin:*'' \<in> ac_permissions auth)"

text \<open>A query without the statistics of its runs.\<close>

definition content :: "saved_query \<Rightarrow> saved_query" where
  "content q = q\<lparr>sq_run_count := 0, sq_last_run_at := None, sq_updated_at := 0\<rparr>"

lemma content_selects:
  assumes "content q = content q'"
  shows "sq_id q = sq_id q'" "sq_tenant_id q = sq_tenant_id q'" "sq_created_by q = sq_created_by q'"
proof -
  have "sq_id (content q) = sq_id (content q')" "sq_tenant_id (content q) = sq_tenant_id (content q')"
    "sq_created_by (content q) = sq_created_by (content q')" using assms by simp_all
  then show "sq_id q = sq_id q'" "sq_tenant_id q = sq_tenant_id q'" "sq_created_by q = sq_created_by q'"
    by (simp_all add: content_def)
qed

lemma may_edit_content: "content q = content q' \<Longrightarrow> may_edit auth q = may_edit auth q'"
  using content_selects [of q q'] by (simp add: may_edit_def)

definition kept :: "auth_context \<Rightarrow> saved_query list \<Rightarrow> saved_query list \<Rightarrow> bool" where
  "kept auth rows rows' \<longleftrightarrow>
     (\<forall>q \<in> set rows. may_edit auth q \<or> (\<exists>q' \<in> set rows'. content q' = content q))"

lemma kept_same [simp]: "kept auth rows rows"
  by (auto simp: kept_def)

lemma kept_append: "kept auth rows (rows @ added)"
  by (auto simp: kept_def)

lemma kept_put_row:
  assumes "unique_by sq_id rows" and "q \<in> set rows" and "sq_id q' = sq_id q"
    and "content q' = content q \<or> may_edit auth q"
  shows "kept auth rows (put_row sq_id q' rows)"
  unfolding kept_def set_put_row [OF assms(1,2) assms(3) [symmetric]] using assms(4) by auto

lemma kept_delete:
  assumes "unique_by sq_id rows" and "q \<in> set rows" and "may_edit auth q"
  shows "kept auth rows (delete_where (\<lambda>x. sq_id x = sq_id q) rows)"
  using assms unique_by_same_key [of sq_id rows _ q] by (auto simp: kept_def)

lemma get_query_InrD:
  assumes "get_query_or_404 query_id auth own s = (Inr q, s')"
  shows "s' = s \<and> q \<in> set (saved_queries s) \<and> sq_tenant_id q = ac_tenant_id auth \<and>
     query_id = Some (sq_id q) \<and> (own \<longrightarrow> may_edit auth q)"
proof -
  from assms obtain i where i: "query_id = Some i"
    by (cases query_id) (auto simp: get_query_or_404_def)
  from assms have one: "scalar_one_or_none (filter (\<lambda>q. sq_id q = i \<and> sq_tenant_id q = ac_tenant_id auth)
      (saved_queries s)) = Inr (Some q)" and own: "own \<longrightarrow> may_edit auth q \<or> sq_tenant_id q \<noteq> ac_tenant_id auth"
    and "s' = s"
    by (auto simp: get_query_or_404_def i qs_select_def may_edit_def split: handler_splits)
  then show ?thesis using scalar_one_or_none_filter_Some [OF one] i by auto
qed

text \<open>An export nothing has been heard of.\<close>

definition unfinished :: "query_export \<Rightarrow> bool" where
  "unfinished e \<longleftrightarrow> qe_status e = ''pending'' \<and> qe_row_count e = None \<and> qe_file_size_bytes e = None \<and>
     qe_output_uri e = None \<and> qe_error e = None \<and> qe_completed_at e = None"

lemma unfinished_new [simp]: "unfinished (new_export i now auth query_id)"
  by (simp add: unfinished_def new_export_def)

definition more_exports :: "query_export list \<Rightarrow> query_export list \<Rightarrow> bool" where
  "more_exports es es' \<longleftrightarrow> (\<exists>added. es' = es @ added \<and> list_all unfinished added)"

lemma more_exports_same [simp]: "more_exports es es"
  by (simp add: more_exports_def)

lemma more_exports_one [simp]: "more_exports es (es @ [e]) = unfinished e"
  by (auto simp: more_exports_def)

lemma add_export_run:
  "add_export now auth i s = (Inr j, s') \<Longrightarrow> saved_queries s' = saved_queries s \<and>
     more_exports (query_exports s) (query_exports s') \<and> qs_background s' = qs_background s"
  by (auto simp: add_export_def qs_fresh_def qs_flush_def split: if_splits)

lemma tenant_backend_run: "tenant_backend_of env auth s = (Inr b, s') \<Longrightarrow> s' = s"
  by (auto simp: tenant_backend_of_def qs_select_def split: handler_splits)

text \<open>What a run that returned has done to the two tables.\<close>

lemma run_saved_query_rows:
  assumes "run_saved_query env now auth query_id req s = (Inr r, s')"
  shows "\<exists>q \<in> set (saved_queries s). sq_tenant_id q = ac_tenant_id auth \<and>
     (''graph:query'' \<in> ac_permissions auth \<or> ''admin:*'' \<in> ac_permissions auth) \<and>
     saved_queries s' = put_row sq_id (q\<lparr>sq_run_count := sq_run_count q + 1, sq_last_run_at := Some now,
                               sq_updated_at := now\<rparr>) (saved_queries s) \<and>
     more_exports (query_exports s) (query_exports s')"
proof -
  obtain q s1 where q: "get_query_or_404 query_id auth False s = (Inr q, s1)"
    and perm: "''graph:query'' \<in> ac_permissions auth \<or> ''admin:*'' \<in> ac_permissions auth"
    and rest: "saved_queries s' = put_row sq_id (q\<lparr>sq_run_count := sq_run_count q + 1, sq_last_run_at := Some now,
                               sq_updated_at := now\<rparr>) (saved_queries s1) \<and>
     more_exports (query_exports s1) (query_exports s')"
    using assms
    by (auto simp: run_saved_query_def Let_def qs_flush_def put_query_def add_background_def
        dest!: tenant_backend_run add_export_run split: handler_splits)
  from get_query_InrD [OF q] perm rest show ?thesis by auto
qed

text \<open>One request keeps the queries its sender may not edit, and finishes no export.\<close>

definition exports_kept :: "query_export list \<Rightarrow> query_export list \<Rightarrow> bool" where
  "exports_kept es es' \<longleftrightarrow> (\<forall>e \<in> set es'. unfinished e \<or> e \<in> set es)"

lemma exports_kept_simps [simp]:
  "exports_kept es es" "exports_kept es (delete_where p es)"
  by (auto simp: exports_kept_def)

lemma more_exports_kept: "more_exports es es' \<Longrightarrow> exports_kept es es'"
  by (auto simp: more_exports_def exports_kept_def list_all_iff)

lemma update_query_rows:
  assumes "update_query now auth i req s = (Inr r, s')" and "unique_by sq_id (saved_queries s)"
  shows "kept auth (saved_queries s) (saved_queries s') \<and> query_exports s' = query_exports s"
proof -
  from assms(1) obtain q s1 where q: "get_query_or_404 i auth True s = (Inr q, s1)"
    and s': "s' = put_query ((apply_update req q)\<lparr>sq_updated_at := now\<rparr>) s1"
    by (auto simp: update_query_def Let_def qs_flush_def split: handler_splits)
  note q' = get_query_InrD [OF q]
  have "sq_id ((apply_update req q)\<lparr>sq_updated_at := now\<rparr>) = sq_id q" by (simp add: apply_update_def)
  with kept_put_row [OF assms(2), of q] q' show ?thesis by (simp add: s' put_query_def)
qed

lemma delete_query_rows:
  assumes "delete_query auth i s = (Inr r, s')" and "unique_by sq_id (saved_queries s)"
  shows "kept auth (saved_queries s) (saved_queries s') \<and> exports_kept (query_exports s) (query_exports s')"
proof -
  from assms(1) obtain q s1 where q: "get_query_or_404 i auth True s = (Inr q, s1)"
    and s': "saved_queries s' = delete_where (\<lambda>x. sq_id x = sq_id q) (saved_queries s1)"
      "query_exports s' = delete_where (\<lambda>e. qe_query_id e = sq_id q) (query_exports s1)"
    by (auto simp: delete_query_def split: handler_splits)
  from get_query_InrD [OF q] kept_delete [OF assms(2), of q] show ?thesis by (simp add: s')
qed

lemma run_query_kept:
  assumes "run_saved_query env now auth i req s = (Inr r, s')" and "unique_by sq_id (saved_queries s)"
  shows "kept auth (saved_queries s) (saved_queries s') \<and> exports_kept (query_exports s) (query_exports s')"
proof -
  from run_saved_query_rows [OF assms(1)] obtain q where q: "q \<in> set (saved_queries s)"
    and s': "saved_queries s' = put_row sq_id (q\<lparr>sq_run_count := sq_run_count q + 1,
               sq_last_run_at := Some now, sq_updated_at := now\<rparr>) (saved_queries s)"
    and more: "more_exports (query_exports s) (query_exports s')" by auto
  have "kept auth (saved_queries s) (saved_queries s')"
    unfolding s' by (rule kept_put_row [OF assms(2) q]) (simp_all add: content_def)
  with more_exports_kept [OF more] show ?thesis by blast
qed

lemma save_query_kept:
  "save_query now auth req s = (Inr r, s') \<Longrightarrow>
   kept auth (saved_queries s) (saved_queries s') \<and> query_exports s' = query_exports s"
  by (auto simp: save_query_def Let_def qs_fresh_def qs_flush_def qs_select_def kept_append split: handler_splits)

lemma export_query_kept:
  assumes "export_query now auth i fmt s = (Inr r, s')"
  shows "saved_queries s' = saved_queries s \<and> exports_kept (query_exports s) (query_exports s')"
  using assms
  by (auto simp: export_query_def add_background_def dest!: get_query_InrD add_export_run
      intro: more_exports_kept split: handler_splits)

lemma query_handle_kept:
  assumes "query_handle env now auth c s = (Inr r, s')" and "unique_by sq_id (saved_queries s)"
  shows "kept auth (saved_queries s) (saved_queries s') \<and> exports_kept (query_exports s) (query_exports s')"
  using assms
  by (cases c)
    (auto simp: list_queries_def list_tags_def get_query_def list_exports_def
      dest!: save_query_kept export_query_kept get_query_InrD update_query_rows run_query_kept delete_query_rows
      split: handler_splits)

lemma query_event_kept:
  assumes "queries_ok s"
  shows "queries_ok (query_event_step env e s) \<and>
    exports_kept (query_exports s) (query_exports (query_event_step env e s)) \<and>
    (case e of Request now auth c \<Rightarrow>
       kept auth (saved_queries s) (saved_queries (query_event_step env e s))
     | Background \<Rightarrow> saved_queries (query_event_step env e s) = saved_queries s)"
proof (cases e)
  case (Request now auth c)
  have "unique_by sq_id (saved_queries s)" using assms by (simp add: queries_ok_def)
  with assms query_handle_kept [of env now auth c s] show ?thesis
    by (auto simp: Request query_request_def transaction_def split: prod.split sum.split)
next
  case Background
  with assms show ?thesis
    by (auto simp: background_step_def queries_ok_def split: list.split export_task.split unit.split)
qed

text \<open>The users a list of events has requests of.\<close>

fun senders :: "query_event list \<Rightarrow> auth_context list" where
  "senders [] = []"
| "senders (Request now auth c # es) = auth # senders es"
| "senders (Background # es) = senders es"

lemma query_run_kept:
  assumes "queries_ok s" and "list_all (\<lambda>auth. \<not> may_edit auth q) (senders es)"
    and "\<exists>q' \<in> set (saved_queries s). content q' = content q"
  shows "queries_ok (query_run env es s) \<and> (\<exists>q' \<in> set (saved_queries (query_run env es s)). content q' = content q)"
  using assms unfolding query_run_def
proof (induction es arbitrary: s)
  case (Cons e es)
  let ?s = "query_event_step env e s"
  note one = query_event_kept [OF Cons.prems(1), of env e]
  obtain q' where q': "q' \<in> set (saved_queries s)" "content q' = content q" using Cons.prems(3) by blast
  have "\<exists>q' \<in> set (saved_queries ?s). content q' = content q"
  proof (cases e)
    case (Request now auth c)
    with Cons.prems(2) have "\<not> may_edit auth q'" by (simp add: may_edit_content [OF q'(2)])
    moreover have "kept auth (saved_queries s) (saved_queries ?s)" using one Request by simp
    ultimately obtain q'' where "q'' \<in> set (saved_queries ?s)" "content q'' = content q'"
      using q'(1) by (auto simp: kept_def)
    with q'(2) show ?thesis by auto
  next
    case Background
    with q' one show ?thesis by auto
  qed
  moreover have "list_all (\<lambda>auth. \<not> may_edit auth q) (senders es)"
    using Cons.prems(2) by (cases e) auto
  ultimately have "queries_ok (fold (query_event_step env) es ?s) \<and>
      (\<exists>q' \<in> set (saved_queries (fold (query_event_step env) es ?s)). content q' = content q)"
    using one by (intro Cons.IH) auto
  then show ?case by simp
qed simp

lemma query_run_exports:
  assumes "queries_ok s" and "list_all unfinished (query_exports s)"
  shows "list_all unfinished (query_exports (query_run env es s))"
  using assms unfolding query_run_def
proof (induction es arbitrary: s)
  case (Cons e es)
  from query_event_kept [OF Cons.prems(1), of env e] Cons.prems(2)
  have "queries_ok (query_event_step env e s)" "list_all unfinished (query_exports (query_event_step env e s))"
    by (auto simp: exports_kept_def list_all_iff)
  from Cons.IH [OF this] show ?case by simp
qed simp

text \<open>Without pyarrow the export of a Parquet file is a file of JSON lines with the name of a Parquet file.\<close>

lemma parquet_fallback:
  "qv_pyarrow env = None \<Longrightarrow>
   run_export env i rows ''parquet'' written =
     (Inr (), dict_set (export_path i ''parquet'') (jsonl_text env rows) written)"
  by (simp add: run_export_def)

text \<open>A saved export format that is none of the three ends the background task with a \<open>KeyError\<close>.\<close>

lemma unknown_format:
  "fmt \<notin> {''jsonl'', ''csv'', ''parquet''} \<Longrightarrow> run_export env i rows fmt written = (Inl (KeyError fmt), written)"
  by (simp add: run_export_def)

section \<open>Properties\<close>

definition example_query :: saved_query where
  "example_query =
     \<lparr> sq_id = 5, sq_tenant_id = 1, sq_created_by = Some 7, sq_name = ''pii'', sq_description = '''',
       sq_cypher = ''MATCH (f:File) RETURN f'', sq_params = [], sq_tags = [''security''], sq_is_public = False,
       sq_is_pinned = False, sq_run_count = 0, sq_last_run_at = None, sq_created_at = 0, sq_updated_at = 0,
       sq_export_format = Some ''jsonl'', sq_export_schedule = None \<rparr>"

definition example_query_state :: query_state where
  "example_query_state =
     \<lparr> qs_db = empty_db\<lparr>next_uuid := 9\<rparr>, saved_queries = [example_query], query_exports = [],
       qs_background = [], qs_files = [] \<rparr>"

definition example_query_env :: query_env where
  "example_query_env =
     \<lparr> qv_genv = example_genv, qv_query = (\<lambda>b c ps tid. Inr [[(''n'', JInt 1)]]), qv_float = (\<lambda>q. ''''),
       qv_repr = (\<lambda>v. ''''), qv_pyarrow = None \<rparr>"

definition example_colleague :: auth_context where
  "example_colleague = \<lparr> ac_user_id = 8, ac_tenant_id = 1, ac_email = JStr ''b@a.example'', ac_roles = [],
     ac_permissions = {} \<rparr>"

lemma example_query_state_ok: "queries_ok example_query_state"
  by (simp add: queries_ok_def example_query_state_def empty_db_def constraints_def unique_by_def)

text \<open>C15: Only the user who saved a query and the administrators of its tenant change it: whatever
  requests other users send, of this tenant or another, and whatever the background does, the query
  is still there with the same name, text, parameters, tags and settings; only the statistics of its
  runs may differ.\<close>

theorem query_only_owner_edits:
  assumes "queries_ok s" and "q \<in> set (saved_queries s)"
    and "list_all (\<lambda>auth. \<not> may_edit auth q) (senders es)"
  shows "\<exists>q' \<in> set (saved_queries (query_run env es s)). content q' = content q"
  using query_run_kept [OF assms(1,3), of env] assms(2) by blast

theorem query_only_owner_edits_witness:
  "\<exists>q'. q' \<in> set (saved_queries (query_run example_query_env
      [Request 1 example_colleague (DeleteQuery (Some 5)), Background] example_query_state)) \<and>
     content q' = content example_query"
proof -
  have "example_query \<in> set (saved_queries example_query_state)"
    by (simp add: example_query_state_def)
  moreover have "list_all (\<lambda>auth. \<not> may_edit auth example_query)
      (senders [Request 1 example_colleague (DeleteQuery (Some 5)), Background])"
    by (simp add: may_edit_def example_query_def example_colleague_def)
  ultimately show ?thesis
    using query_only_owner_edits [OF example_query_state_ok, of example_query
        "[Request 1 example_colleague (DeleteQuery (Some 5)), Background]" example_query_env]
    by blast
qed

text \<open>An export never finishes: whatever requests come in and however often the background tasks
  run, every export stays \<open>pending\<close>, without a row count, an address, an error or a time of
  completion, also when its file has been written.\<close>

theorem exports_never_finish:
  assumes "queries_ok s" and "list_all unfinished (query_exports s)"
  shows "list_all unfinished (query_exports (query_run env es s))"
  using assms by (rule query_run_exports)

theorem exports_never_finish_witness:
  "list_all unfinished (query_exports (query_run example_query_env
      [Request 1 example_colleague (ExportQuery (Some 5) ''csv''), Background] example_query_state))"
proof -
  have "list_all unfinished (query_exports example_query_state)"
    by (simp add: example_query_state_def)
  then show ?thesis by (rule exports_never_finish [OF example_query_state_ok])
qed

text \<open>A private query is hidden from its colleagues by the list only: no list of a colleague
  contains it, whatever the filters, but with its identifier every member of the tenant reads it, and
  has it executed and exported without holding any permission.\<close>

theorem private_query_open:
  assumes "queries_ok s" and "q \<in> set (saved_queries s)" and "sq_tenant_id q = ac_tenant_id auth"
    and "\<not> sq_is_public q" and "sq_created_by q \<noteq> Some (ac_user_id auth)"
    and "next_uuid (qs_db s) \<notin> qe_id ` set (query_exports s)"
  shows "(\<exists>rows. list_queries auth tag pinned s = (Inr rows, s) \<and> q \<notin> set rows) \<and>
    get_query auth (Some (sq_id q)) s = (Inr q, s) \<and>
    (\<exists>i s'. export_query now auth (Some (sq_id q)) ''jsonl'' s = (Inr i, s') \<and>
       qs_background s' = qs_background s @ [ExecuteAndExport (uuid_str i) (sq_cypher q) (sq_params q)
                                              (uuid_str (ac_tenant_id auth)) ''jsonl''])"
proof (intro conjI)
  show "\<exists>rows. list_queries auth tag pinned s = (Inr rows, s) \<and> q \<notin> set rows"
    using assms(3,4,5) by (auto simp: list_queries_def visible_def Let_def split: option.split)
  have one: "scalar_one_or_none (filter (\<lambda>x. sq_id x = sq_id q \<and> sq_tenant_id x = ac_tenant_id auth)
      (saved_queries s)) = Inr (Some q)"
    using assms(1-3) by (intro unique_by_select_the [of sq_id]) (auto simp: queries_ok_def)
  then show "get_query auth (Some (sq_id q)) s = (Inr q, s)"
    by (simp add: get_query_def get_query_or_404_def qs_select_def)
  let ?i = "next_uuid (qs_db s)"
  have "constraints ((qs_db s)\<lparr>next_uuid := Suc ?i\<rparr>) = constraints (qs_db s)"
    by (simp add: constraints_def)
  with assms(1,6) have "queries_ok (s\<lparr>qs_db := (qs_db s)\<lparr>next_uuid := Suc ?i\<rparr>,
      query_exports := query_exports s @ [new_export ?i now auth (sq_id q)]\<rparr>)"
    by (simp add: queries_ok_def unique_by_append_one new_export_def)
  with one show "\<exists>i s'. export_query now auth (Some (sq_id q)) ''jsonl'' s = (Inr i, s') \<and>
           qs_background s' = qs_background s @ [ExecuteAndExport (uuid_str i) (sq_cypher q) (sq_params q)
                                                  (uuid_str (ac_tenant_id auth)) ''jsonl'']"
    by (simp add: export_query_def get_query_or_404_def qs_select_def add_export_def qs_fresh_def qs_flush_def
        add_background_def)
qed

theorem private_query_open_witness:
  "get_query example_colleague (Some 5) example_query_state = (Inr example_query, example_query_state) \<and>
   (\<exists>rows. list_queries example_colleague None None example_query_state = (Inr rows, example_query_state) \<and>
      example_query \<notin> set rows)"
proof -
  have q: "example_query \<in> set (saved_queries example_query_state)"
    "sq_tenant_id example_query = ac_tenant_id example_colleague" "\<not> sq_is_public example_query"
    "sq_created_by example_query \<noteq> Some (ac_user_id example_colleague)"
    "next_uuid (qs_db example_query_state) \<notin> qe_id ` set (query_exports example_query_state)"
    by (simp_all add: example_query_state_def example_query_def example_colleague_def)
  have "sq_id example_query = 5" by (simp add: example_query_def)
  with private_query_open [OF example_query_state_ok q, of None None]
  show ?thesis by simp
qed

end
