(* ===== verification/Alerts.thy ===== *)
theory Alerts
  imports Oidc
begin

text \<open>
  \<open>alerts/engine.py\<close>, \<open>api/alerts.py\<close>, \<open>tasks/alerts.py\<close> with the tables of \<open>db/alert_models.py\<close>: alert
  rules over the graph, their evaluation, the delivery of a fired alert to channels, and the API.

  The state has the two tables and what was sent: posts and mails. The graph backend, the Jinja
  renderer, \<open>repr\<close>, the mail transport and the answers of the receivers are the fields of \<open>alert_env\<close>.
  Emojis are written as their UTF-8 bytes. An alert that \<open>evaluate_rule\<close> returns has not been stored:
  its identifier, its status and its time are those the database would fill in, \<open>None\<close> so far.
\<close>

section \<open>State\<close>

definition ALERT_SEVERITIES :: "string list" where
  "ALERT_SEVERITIES = [''critical'', ''high'', ''medium'', ''low'', ''info'']"

record alert_rule =
  ar_id :: uuid
  ar_tenant_id :: uuid
  ar_name :: string
  ar_description :: string
  ar_severity :: string
  ar_is_active :: bool
  ar_cypher :: string
  ar_cypher_params :: py_dict
  ar_threshold_count :: int
  ar_eval_schedule :: string
  ar_last_evaluated :: "time option"
  ar_last_fired_at :: "time option"
  ar_channels :: "py_dict list"
  ar_message_template :: string
  ar_suppress_until :: "time option"
  ar_cooldown_minutes :: int
  ar_created_at :: time
  ar_updated_at :: time

record alert =
  fa_id :: "uuid option"
  fa_rule_id :: uuid
  fa_tenant_id :: uuid
  fa_severity :: string
  fa_status :: "string option"
  fa_title :: string
  fa_message :: string
  fa_context :: py_dict
  fa_row_count :: int
  fa_acknowledged_by :: "uuid option"
  fa_acknowledged_at :: "time option"
  fa_resolved_at :: "time option"
  fa_fired_at :: "time option"

datatype notice =
    HttpPost json json json
  | MailSent json string string

record alert_state =
  alert_rules :: "alert_rule list"
  alerts :: "alert list"
  notices :: "notice list"
  as_next :: uuid

record alert_env =
  av_query :: "string \<Rightarrow> py_dict \<Rightarrow> uuid \<Rightarrow> py_error + py_dict list"
  av_render :: "string \<Rightarrow> int \<Rightarrow> string \<Rightarrow> py_dict list \<Rightarrow> string option"
  av_repr :: "json \<Rightarrow> string"
  av_iso :: "time \<Rightarrow> string"
  av_http :: "json \<Rightarrow> json \<Rightarrow> json \<Rightarrow> bool \<times> (py_error + unit)"
  av_smtp :: "(json \<Rightarrow> string \<Rightarrow> string \<Rightarrow> py_error + unit) option"

definition alerts_ok :: "alert_state \<Rightarrow> bool" where
  "alerts_ok s \<longleftrightarrow> unique_by ar_id (alert_rules s) \<and> unique_by fa_id (alerts s) \<and>
     list_all (\<lambda>r. ar_severity r \<in> set ALERT_SEVERITIES) (alert_rules s) \<and>
     list_all (\<lambda>a. fa_severity a \<in> set ALERT_SEVERITIES) (alerts s)"

definition alert_request :: "(alert_state, 'a) handler \<Rightarrow> (alert_state, 'a) handler" where
  "alert_request = transaction alerts_ok (\<lambda>s s'. s\<lparr>notices := notices s'\<rparr>)"

text \<open>A value that is none of an enumeration's makes the statement fail.\<close>

definition as_flush :: "(alert_state, unit) handler" where
  "as_flush = (\<lambda>s. if alerts_ok s then (Inr (), s) else (Inl (OtherError ''StatementError''), s))"

definition as_fresh :: "(alert_state, uuid) handler" where
  "as_fresh = (\<lambda>s. (Inr (as_next s), s\<lparr>as_next := Suc (as_next s)\<rparr>))"

definition as_select :: "(alert_state \<Rightarrow> 'r list) \<Rightarrow> ('r \<Rightarrow> bool) \<Rightarrow> (alert_state, 'r option) handler" where
  "as_select table p = (\<lambda>s. (scalar_one_or_none (filter p (table s)), s))"

section \<open>The built-in rules\<close>

record builtin_rule =
  br_name :: string
  br_description :: string
  br_severity :: string
  br_cypher :: string
  br_message_template :: string
  br_eval_schedule :: string
  br_cooldown_minutes :: int

definition pii_rule :: builtin_rule where
  "pii_rule =
     \<lparr> br_name = ''PII files accessible to all'',
       br_description = ''Files containing PII with no access restrictions'',
       br_severity = ''high'',
       br_cypher = text_block
         [(0, ''''),
          (12, ''MATCH (f:File)''),
          (12, ''WHERE f.pii_detected = true''),
          (14, ''AND f.tenant_id = $__tid''),
          (12, ''RETURN f.path AS path, f.pii_types AS pii_types,''),
          (19, ''f.size_bytes AS size_bytes''),
          (12, ''LIMIT 100''),
          (8, '''')],
       br_message_template = [CHR 0xE2, CHR 0x9A, CHR 0xA0, CHR 0xEF, CHR 0xB8, CHR 0x8F] @ '' {{row_count}} file(s) contain PII: {{summary}}'',
       br_eval_schedule = ''0 9 * * 1'', br_cooldown_minutes = 1440 \<rparr>"

definition secrets_rule :: builtin_rule where
  "secrets_rule =
     \<lparr> br_name = ''Files with exposed secrets'',
       br_description = ''Source code or config files containing credentials'',
       br_severity = ''critical'',
       br_cypher = text_block
         [(0, ''''),
          (12, ''MATCH (f:File)''),
          (12, ''WHERE f.contains_secrets = true''),
          (14, ''AND f.tenant_id = $__tid''),
          (12, ''RETURN f.path AS path, f.secret_types AS secret_types''),
          (12, ''LIMIT 50''),
          (8, '''')],
       br_message_template = [CHR 0xF0, CHR 0x9F, CHR 0x9A, CHR 0xA8] @ '' {{row_count}} file(s) contain exposed secrets: {{summary}}'',
       br_eval_schedule = ''0 */4 * * *'', br_cooldown_minutes = 240 \<rparr>"

definition eol_rule :: builtin_rule where
  "eol_rule =
     \<lparr> br_name = ''EOL software detected'',
       br_description = ''Executables running past end-of-life date'',
       br_severity = ''high'',
       br_cypher = text_block
         [(0, ''''),
          (12, ''MATCH (f:File)''),
          (12, ''WHERE f.eol_status = '' @ in_quotes ''eol''),
          (14, ''AND f.tenant_id = $__tid''),
          (12, ''RETURN f.name AS name, f.file_version AS version,''),
          (19, ''f.company_name AS vendor''),
          (12, ''LIMIT 100''),
          (8, '''')],
       br_message_template = ''{{row_count}} EOL application(s) found: {{summary}}'',
       br_eval_schedule = ''0 8 * * *'', br_cooldown_minutes = 1440 \<rparr>"

definition certificates_rule :: builtin_rule where
  "certificates_rule =
     \<lparr> br_name = ''Certificates expiring within 30 days'',
       br_description = ''TLS/code signing certificates about to expire'',
       br_severity = ''medium'',
       br_cypher = text_block
         [(0, ''''),
          (12, ''MATCH (f:File)''),
          (12, ''WHERE f.file_category = '' @ in_quotes ''certificate''),
          (14, ''AND f.days_until_expiry < 30''),
          (14, ''AND f.days_until_expiry >= 0''),
          (14, ''AND f.tenant_id = $__tid''),
          (12, ''RETURN f.path AS path, f.cert_subject AS subject,''),
          (19, ''f.days_until_expiry AS days_left''),
          (12, ''ORDER BY f.days_until_expiry''),
          (12, ''LIMIT 50''),
          (8, '''')],
       br_message_template = ''{{row_count}} certificate(s) expiring soon: {{summary}}'',
       br_eval_schedule = ''0 8 * * *'', br_cooldown_minutes = 1440 \<rparr>"

definition cve_rule :: builtin_rule where
  "cve_rule =
     \<lparr> br_name = ''Critical CVE vulnerabilities'',
       br_description = ''Applications with actively exploited CVEs'',
       br_severity = ''critical'',
       br_cypher = text_block
         [(0, ''''),
          (12, ''MATCH (f:File)-[:HAS_VULNERABILITY]->(v:Vulnerability)''),
          (12, ''WHERE v.cvss_severity = '' @ in_quotes ''critical''),
          (14, ''AND v.actively_exploited = true''),
          (14, ''AND f.tenant_id = $__tid''),
          (12, ''RETURN f.name AS app, v.cve_id AS cve,''),
          (19, ''v.cvss_score AS score''),
          (12, ''LIMIT 50''),
          (8, '''')],
       br_message_template = [CHR 0xF0, CHR 0x9F, CHR 0x9A, CHR 0xA8] @ '' {{row_count}} critical CVE(s) in actively exploited state: {{summary}}'',
       br_eval_schedule = ''0 */2 * * *'', br_cooldown_minutes = 120 \<rparr>"

definition BUILTIN_RULES :: "builtin_rule list" where
  "BUILTIN_RULES = [pii_rule, secrets_rule, eol_rule, certificates_rule, cve_rule]"

section \<open>Evaluation\<close>

text \<open>\<open>", ".join(f"{k}={v!r}" ...)\<close> over the first three items of the first row.\<close>

definition build_summary :: "alert_env \<Rightarrow> py_dict list \<Rightarrow> string" where
  "build_summary env rows =
     (case rows of
        [] \<Rightarrow> ''no details available''
      | row # _ \<Rightarrow>
          (let parts = map (\<lambda>(k, v). k @ ''='' @ av_repr env v) (filter (\<lambda>(k, v). v \<noteq> JNull) (take 3 row));
               summary = str_join '', '' parts
           in if length rows > 1 then summary @ '' (+'' @ nat_str (length rows - 1) @ '' more)'' else summary))"

definition render_template :: "alert_env \<Rightarrow> string \<Rightarrow> int \<Rightarrow> string \<Rightarrow> py_dict list \<Rightarrow> string" where
  "render_template env template row_count summary rows =
     (case av_render env template row_count summary rows of None \<Rightarrow> template | Some t \<Rightarrow> t)"

definition int_or :: "int \<Rightarrow> int \<Rightarrow> int" where
  "int_or a b = (if a = 0 then b else a)"

definition evaluate_rule :: "alert_env \<Rightarrow> time \<Rightarrow> alert_rule \<Rightarrow> uuid \<Rightarrow> alert option" where
  "evaluate_rule env now rule tenant_id =
     (let cooling = (case ar_last_fired_at rule of None \<Rightarrow> False
                     | Some t \<Rightarrow> now - t < minutes (int_or (ar_cooldown_minutes rule) 60));
          suppressed = (case ar_suppress_until rule of None \<Rightarrow> False | Some t \<Rightarrow> t > now)
      in if cooling then None
         else if suppressed then None
         else (case av_query env (ar_cypher rule) (ar_cypher_params rule) tenant_id of
                 Inl e \<Rightarrow> None
               | Inr rows \<Rightarrow>
                   if int (length rows) < int_or (ar_threshold_count rule) 1 then None
                   else
                     (let summary = build_summary env (take 5 rows);
                          n = int (length rows);
                          message = render_template env
                            (if ar_message_template rule \<noteq> [] then ar_message_template rule
                             else ''{{row_count}} item(s) found'')
                            n summary (take 10 rows)
                      in Some \<lparr> fa_id = None, fa_rule_id = ar_id rule, fa_tenant_id = tenant_id,
                           fa_severity = ar_severity rule, fa_status = None, fa_title = ar_name rule,
                           fa_message = message,
                           fa_context = [(''rows'', JArr (map JObj (take 50 rows))), (''total'', JInt n)],
                           fa_row_count = n, fa_acknowledged_by = None, fa_acknowledged_at = None,
                           fa_resolved_at = None, fa_fired_at = None \<rparr>)))"

section \<open>Delivery\<close>

definition add_notice :: "notice \<Rightarrow> (alert_state, unit) handler" where
  "add_notice n = modify (\<lambda>s. s\<lparr>notices := notices s @ [n]\<rparr>)"

text \<open>
  A post with \<open>httpx\<close>: whether it was sent (an address or headers of the wrong shape are refused
  before) and whether the call returned.
\<close>

definition http_post :: "alert_env \<Rightarrow> json \<Rightarrow> json \<Rightarrow> json \<Rightarrow> (alert_state, unit) handler" where
  "http_post env url payload headers =
     (case av_http env url payload headers of (sent, answer) \<Rightarrow>
        thn (py_when sent (add_notice (HttpPost url payload headers))) (lift_err answer))"

definition iso_json :: "alert_env \<Rightarrow> time option \<Rightarrow> json" where
  "iso_json env t = (case t of None \<Rightarrow> JNull | Some x \<Rightarrow> JStr (av_iso env x))"

definition id_text :: "uuid option \<Rightarrow> string" where
  "id_text i = (case i of None \<Rightarrow> ''None'' | Some x \<Rightarrow> uuid_str x)"

definition deliver_webhook :: "alert_env \<Rightarrow> alert \<Rightarrow> py_dict \<Rightarrow> (alert_state, unit) handler" where
  "deliver_webhook env a config =
     (let payload = JObj [(''alert_id'', JStr (id_text (fa_id a))), (''severity'', JStr (fa_severity a)),
            (''title'', JStr (fa_title a)), (''message'', JStr (fa_message a)),
            (''fired_at'', iso_json env (fa_fired_at a)), (''row_count'', JInt (fa_row_count a)),
            (''context'', JObj (fa_context a))]
      in case dict_get config ''url'' of
           None \<Rightarrow> raise (KeyError ''url'')
         | Some url \<Rightarrow> http_post env url payload (dict_get_or config ''headers'' (JObj [])))"

definition severity_icon :: "string \<Rightarrow> string" where
  "severity_icon s =
     (if s = ''critical'' then [CHR 0xF0, CHR 0x9F, CHR 0x9A, CHR 0xA8]
      else if s = ''high'' then [CHR 0xE2, CHR 0x9A, CHR 0xA0, CHR 0xEF, CHR 0xB8, CHR 0x8F]
      else if s = ''low'' then [CHR 0xE2, CHR 0x84, CHR 0xB9, CHR 0xEF, CHR 0xB8, CHR 0x8F]
      else if s = ''info'' then [CHR 0xF0, CHR 0x9F, CHR 0x92, CHR 0xA1]
      else [CHR 0xE2, CHR 0x9A, CHR 0xA1])"

definition severity_color :: "string \<Rightarrow> string" where
  "severity_color s =
     (if s = ''critical'' then ''#FF0000'' else if s = ''high'' then ''#FF6600''
      else if s = ''medium'' then ''#FFCC00'' else if s = ''low'' then ''#00CC00''
      else if s = ''info'' then ''#0099FF'' else ''#888888'')"

definition deliver_slack :: "alert_env \<Rightarrow> alert \<Rightarrow> py_dict \<Rightarrow> (alert_state, unit) handler" where
  "deliver_slack env a config =
     (let payload = JObj
            [(''channel'', dict_get_or config ''channel'' (JStr ''#alerts'')),
             (''attachments'', JArr [JObj
               [(''color'', JStr (severity_color (fa_severity a))),
                (''title'', JStr (severity_icon (fa_severity a) @ '' '' @ fa_title a)),
                (''text'', JStr (fa_message a)),
                (''fields'', JArr
                  [JObj [(''title'', JStr ''Severity''), (''value'', JStr (str_upper (fa_severity a))), (''short'', JBool True)],
                   JObj [(''title'', JStr ''Findings''), (''value'', JStr (int_str (fa_row_count a))), (''short'', JBool True)]]),
                (''footer'', JStr ''dgraph.ai''),
                (''ts'', case fa_fired_at a of None \<Rightarrow> JNull | Some t \<Rightarrow> JInt (t div seconds 1))]])];
          webhook_url = dict_get_or config ''webhook_url'' (JStr '''')
      in py_when (truthy webhook_url) (http_post env webhook_url payload JNull))"

text \<open>The module that sends may be missing, which is logged only.\<close>

definition deliver_email :: "alert_env \<Rightarrow> alert \<Rightarrow> py_dict \<Rightarrow> (alert_state, unit) handler" where
  "deliver_email env a config =
     (case av_smtp env of
        None \<Rightarrow> ret ()
      | Some send \<Rightarrow>
          (let body = fa_title a @ [CHR 0x0A, CHR 0x0A] @ fa_message a @ [CHR 0x0A, CHR 0x0A] @
                        ''Findings: '' @ int_str (fa_row_count a);
               subject = ''[dgraph.ai] '' @ str_upper (fa_severity a) @ '': '' @ fa_title a;
               recipient = dict_get_or config ''to'' (JStr '''')
           in thn (lift_err (send recipient subject body)) (add_notice (MailSent recipient subject body))))"

definition pagerduty_severity :: "string \<Rightarrow> string" where
  "pagerduty_severity s =
     (if s = ''critical'' then ''critical'' else if s = ''high'' then ''error''
      else if s = ''medium'' then ''warning'' else if s = ''low'' \<or> s = ''info'' then ''info'' else ''warning'')"

definition deliver_pagerduty :: "alert_env \<Rightarrow> alert \<Rightarrow> py_dict \<Rightarrow> (alert_state, unit) handler" where
  "deliver_pagerduty env a config =
     http_post env (JStr ''https://events.pagerduty.com/v2/enqueue'')
       (JObj [(''routing_key'', dict_get_or config ''routing_key'' (JStr '''')),
              (''event_action'', JStr ''trigger''),
              (''payload'', JObj
                [(''summary'', JStr (fa_title a)), (''severity'', JStr (pagerduty_severity (fa_severity a))),
                 (''source'', JStr ''dgraph.ai''),
                 (''custom_details'', JObj [(''message'', JStr (fa_message a)), (''findings'', JInt (fa_row_count a))])])]) JNull"

definition deliver_siem :: "alert_env \<Rightarrow> alert \<Rightarrow> py_dict \<Rightarrow> (alert_state, unit) handler" where
  "deliver_siem env a config =
     (let siem_url = dict_get_or config ''url'' (JStr '''')
      in py_when (truthy siem_url)
           (http_post env siem_url
              (JObj [(''timestamp'', iso_json env (fa_fired_at a)), (''source'', JStr ''dgraph.ai''),
                     (''event_type'', JStr ''SECURITY_ALERT''), (''severity'', JStr (fa_severity a)),
                     (''title'', JStr (fa_title a)), (''message'', JStr (fa_message a)),
                     (''findings'', JInt (fa_row_count a)), (''context'', JObj (fa_context a))])
              (JObj [(''Content-Type'', JStr ''application/json'')])))"

definition deliver_channel :: "alert_env \<Rightarrow> alert \<Rightarrow> py_dict \<Rightarrow> (alert_state, unit) handler" where
  "deliver_channel env a channel =
     (let ch_type = dict_get_or channel ''type'' JNull
      in if ch_type = JStr ''webhook'' then deliver_webhook env a channel
         else if ch_type = JStr ''slack'' then deliver_slack env a channel
         else if ch_type = JStr ''email'' then deliver_email env a channel
         else if ch_type = JStr ''pagerduty'' then deliver_pagerduty env a channel
         else if ch_type = JStr ''siem'' then deliver_siem env a channel
         else ret ())"

definition deliver :: "alert_env \<Rightarrow> alert \<Rightarrow> alert_rule \<Rightarrow> (alert_state, unit) handler" where
  "deliver env a rule =
     for_each (ar_channels rule) (\<lambda>channel. py_try (deliver_channel env a channel) (\<lambda>e. ret ()))"

section \<open>The scheduled task\<close>

text \<open>
  \<open>_evaluate_async\<close>: whatever it raises is logged. The first thing it does after importing the engine
  is to import a session factory that \<open>db/session.py\<close> does not define; after that it would build an
  engine with an argument its class does not take, for each tenant.
\<close>

definition evaluate_tenant :: "(alert_state, unit) handler" where
  "evaluate_tenant = py_try (raise TypeError) (\<lambda>e. ret ())"

definition evaluate_all :: "string list \<Rightarrow> tenant list \<Rightarrow> (alert_state, unit) handler" where
  "evaluate_all names ts =
     py_try (thn (import_from names ''async_session'')
               (for_each (filter tn_is_active ts) (\<lambda>t. evaluate_tenant)))
       (\<lambda>e. ret ())"

section \<open>The API\<close>

record create_rule_request =
  cr_name :: string
  cr_description :: string
  cr_severity :: string
  cr_cypher :: string
  cr_cypher_params :: py_dict
  cr_threshold_count :: int
  cr_eval_schedule :: string
  cr_cooldown_minutes :: int
  cr_channels :: "py_dict list"
  cr_message_template :: string

definition list_rules :: "auth_context \<Rightarrow> (alert_state, alert_rule list) handler" where
  "list_rules auth = gets (\<lambda>s. filter (\<lambda>r. ar_tenant_id r = ac_tenant_id auth) (alert_rules s))"

definition new_rule :: "uuid \<Rightarrow> time \<Rightarrow> auth_context \<Rightarrow> create_rule_request \<Rightarrow> alert_rule" where
  "new_rule i now auth req =
     \<lparr> ar_id = i, ar_tenant_id = ac_tenant_id auth, ar_name = cr_name req,
       ar_description = cr_description req, ar_severity = cr_severity req, ar_is_active = True,
       ar_cypher = cr_cypher req, ar_cypher_params = cr_cypher_params req,
       ar_threshold_count = cr_threshold_count req, ar_eval_schedule = cr_eval_schedule req,
       ar_last_evaluated = None, ar_last_fired_at = None, ar_channels = cr_channels req,
       ar_message_template = cr_message_template req, ar_suppress_until = None,
       ar_cooldown_minutes = cr_cooldown_minutes req, ar_created_at = now, ar_updated_at = now \<rparr>"

definition create_rule :: "time \<Rightarrow> auth_context \<Rightarrow> create_rule_request \<Rightarrow> (alert_state, alert_rule) handler" where
  "create_rule now auth req =
     bnd as_fresh (\<lambda>i.
     let rule = new_rule i now auth req
     in thn (modify (\<lambda>s. s\<lparr>alert_rules := alert_rules s @ [rule]\<rparr>)) (
        thn as_flush (ret rule)))"

definition default_rule :: "uuid \<Rightarrow> time \<Rightarrow> auth_context \<Rightarrow> builtin_rule \<Rightarrow> alert_rule" where
  "default_rule i now auth b =
     new_rule i now auth
       \<lparr> cr_name = br_name b, cr_description = br_description b, cr_severity = br_severity b,
         cr_cypher = br_cypher b, cr_cypher_params = [], cr_threshold_count = 1,
         cr_eval_schedule = br_eval_schedule b, cr_cooldown_minutes = br_cooldown_minutes b,
         cr_channels = [], cr_message_template = br_message_template b \<rparr>"

text \<open>The body of the loop; the query it begins with flushes what is pending.\<close>

fun install_each :: "time \<Rightarrow> auth_context \<Rightarrow> builtin_rule list \<Rightarrow> (alert_state, string list) handler" where
  "install_each now auth [] = ret []"
| "install_each now auth (b # bs) =
     bnd (as_select alert_rules (\<lambda>r. ar_tenant_id r = ac_tenant_id auth \<and> ar_name r = br_name b)) (\<lambda>exists.
     if exists \<noteq> None then install_each now auth bs
     else
       bnd as_fresh (\<lambda>i.
       thn (modify (\<lambda>s. s\<lparr>alert_rules := alert_rules s @ [default_rule i now auth b]\<rparr>)) (
       bnd (install_each now auth bs) (\<lambda>installed.
       ret (br_name b # installed)))))"

definition install_default_rules :: "time \<Rightarrow> auth_context \<Rightarrow> (alert_state, string list) handler" where
  "install_default_rules now auth =
     thn (guard (''admin:*'' \<in> ac_permissions auth) (HTTPException 403 ''Admin required'')) (
     bnd (install_each now auth BUILTIN_RULES) (\<lambda>installed.
     thn as_flush (ret installed)))"

definition list_alerts ::
  "auth_context \<Rightarrow> string option \<Rightarrow> string option \<Rightarrow> (alert_state, alert list) handler" where
  "list_alerts auth status severity =
     gets (\<lambda>s. take 200 (sort_key (\<lambda>a. case fa_fired_at a of None \<Rightarrow> 0 | Some t \<Rightarrow> - t)
       (filter (\<lambda>a. fa_tenant_id a = ac_tenant_id auth \<and>
                    (case status of None \<Rightarrow> True | Some x \<Rightarrow> x = [] \<or> fa_status a = Some x) \<and>
                    (case severity of None \<Rightarrow> True | Some x \<Rightarrow> x = [] \<or> fa_severity a = x)) (alerts s))))"

definition own_alert :: "auth_context \<Rightarrow> uuid \<Rightarrow> alert \<Rightarrow> bool" where
  "own_alert auth i a \<longleftrightarrow> fa_id a = Some i \<and> fa_tenant_id a = ac_tenant_id auth"

definition put_alert :: "alert \<Rightarrow> alert_state \<Rightarrow> alert_state" where
  "put_alert a s = s\<lparr>alerts := put_row fa_id a (alerts s)\<rparr>"

definition find_alert :: "auth_context \<Rightarrow> uuid option \<Rightarrow> (alert_state, alert) handler" where
  "find_alert auth alert_id =
     (case alert_id of
        None \<Rightarrow> raise (ValueError ''badly formed hexadecimal UUID string'')
      | Some i \<Rightarrow>
          bnd (as_select alerts (own_alert auth i)) (\<lambda>found.
          case found of None \<Rightarrow> raise (HTTPException 404 ''Alert not found'') | Some a \<Rightarrow> ret a))"

definition acknowledge_alert ::
  "time \<Rightarrow> auth_context \<Rightarrow> uuid option \<Rightarrow> (alert_state, alert) handler" where
  "acknowledge_alert now auth alert_id =
     bnd (find_alert auth alert_id) (\<lambda>a.
     let a' = a\<lparr>fa_status := Some ''acknowledged'', fa_acknowledged_by := Some (ac_user_id auth),
                fa_acknowledged_at := Some now\<rparr>
     in thn (modify (put_alert a')) (ret a'))"

definition resolve_alert :: "time \<Rightarrow> auth_context \<Rightarrow> uuid option \<Rightarrow> (alert_state, alert) handler" where
  "resolve_alert now auth alert_id =
     bnd (find_alert auth alert_id) (\<lambda>a.
     let a' = a\<lparr>fa_status := Some ''resolved'', fa_resolved_at := Some now\<rparr>
     in thn (modify (put_alert a')) (ret a'))"

datatype alert_call =
    ListRules
  | CreateRule create_rule_request
  | InstallDefaults
  | ListAlerts "string option" "string option"
  | AcknowledgeAlert "uuid option"
  | ResolveAlert "uuid option"

fun alert_handle :: "time \<Rightarrow> auth_context \<Rightarrow> alert_call \<Rightarrow> (alert_state, unit) handler" where
  "alert_handle now auth ListRules = bnd (list_rules auth) (\<lambda>_. ret ())"
| "alert_handle now auth (CreateRule req) = bnd (create_rule now auth req) (\<lambda>_. ret ())"
| "alert_handle now auth InstallDefaults = bnd (install_default_rules now auth) (\<lambda>_. ret ())"
| "alert_handle now auth (ListAlerts status severity) = bnd (list_alerts auth status severity) (\<lambda>_. ret ())"
| "alert_handle now auth (AcknowledgeAlert i) = bnd (acknowledge_alert now auth i) (\<lambda>_. ret ())"
| "alert_handle now auth (ResolveAlert i) = bnd (resolve_alert now auth i) (\<lambda>_. ret ())"

text \<open>What happens to the tables: a request, or a run of the scheduled task.\<close>

datatype alert_event = AlertRequest time auth_context alert_call | Scheduled "tenant list"

fun alert_step :: "alert_event \<Rightarrow> alert_state \<Rightarrow> alert_state" where
  "alert_step (AlertRequest now auth c) s = snd (alert_request (alert_handle now auth c) s)"
| "alert_step (Scheduled ts) s = snd (evaluate_all session_module ts s)"

section \<open>What a rule fires on\<close>

definition cooled_down :: "time \<Rightarrow> alert_rule \<Rightarrow> bool" where
  "cooled_down now rule \<longleftrightarrow>
     (case ar_last_fired_at rule of None \<Rightarrow> True
      | Some t \<Rightarrow> t + minutes (int_or (ar_cooldown_minutes rule) 60) \<le> now)"

definition suppressed_at :: "time \<Rightarrow> alert_rule \<Rightarrow> bool" where
  "suppressed_at now rule \<longleftrightarrow> (case ar_suppress_until rule of None \<Rightarrow> False | Some t \<Rightarrow> now < t)"

definition enough_rows :: "alert_env \<Rightarrow> alert_rule \<Rightarrow> uuid \<Rightarrow> py_dict list option" where
  "enough_rows env rule tid =
     (case av_query env (ar_cypher rule) (ar_cypher_params rule) tid of
        Inl e \<Rightarrow> None
      | Inr rows \<Rightarrow> if int_or (ar_threshold_count rule) 1 \<le> int (length rows) then Some rows else None)"

lemma evaluate_rule_None_iff:
  "evaluate_rule env now rule tid = None \<longleftrightarrow>
     \<not> cooled_down now rule \<or> suppressed_at now rule \<or> enough_rows env rule tid = None"
  by (auto simp: evaluate_rule_def cooled_down_def suppressed_at_def enough_rows_def Let_def
      split: option.splits sum.splits)

lemma evaluate_rule_SomeD:
  assumes "evaluate_rule env now rule tid = Some a"
  shows "\<exists>rows. enough_rows env rule tid = Some rows \<and> fa_row_count a = int (length rows) \<and>
     fa_rule_id a = ar_id rule \<and> fa_tenant_id a = tid \<and> fa_severity a = ar_severity rule \<and>
     fa_title a = ar_name rule \<and>
     fa_context a = [(''rows'', JArr (map JObj (take 50 rows))), (''total'', JInt (int (length rows)))]"
  using assms
  by (auto simp: evaluate_rule_def enough_rows_def Let_def split: option.splits sum.splits if_splits)

text \<open>A zero in the row stands for the default.\<close>

lemma zero_means_default:
  "ar_cooldown_minutes rule = 0 \<Longrightarrow> ar_last_fired_at rule = Some t \<Longrightarrow>
     cooled_down now rule = (t + hours 1 \<le> now)"
  by (simp add: cooled_down_def int_or_def)

section \<open>What a delivery sends\<close>

definition quiet_state :: alert_state where
  "quiet_state = \<lparr> alert_rules = [], alerts = [], notices = [], as_next = 0 \<rparr>"

text \<open>What one channel sends by itself.\<close>

definition channel_notices :: "alert_env \<Rightarrow> alert \<Rightarrow> py_dict \<Rightarrow> notice list" where
  "channel_notices env a channel = notices (snd (deliver_channel env a channel quiet_state))"

named_theorems appends_intros

text \<open>A handler that only appends notices, the same ones whatever the state.\<close>

definition appends :: "(alert_state, unit) handler \<Rightarrow> bool" where
  "appends m \<longleftrightarrow> (\<exists>r ns. \<forall>s. m s = (r, s\<lparr>notices := notices s @ ns\<rparr>))"

lemma appends_ret [appends_intros]: "appends (ret ())"
  unfolding appends_def by (rule exI [of _ "Inr ()"], rule exI [of _ "[]"]) simp

lemma appends_raise [appends_intros]: "appends (raise e)"
  unfolding appends_def by (rule exI [of _ "Inl e"], rule exI [of _ "[]"]) simp

lemma appends_lift_err [appends_intros]: "appends (lift_err r)"
  unfolding appends_def by (rule exI [of _ r], rule exI [of _ "[]"]) simp

lemma appends_notice [appends_intros]: "appends (add_notice n)"
  unfolding appends_def by (rule exI [of _ "Inr ()"], rule exI [of _ "[n]"]) (simp add: add_notice_def)

lemma appends_thn [appends_intros]:
  assumes "appends m" and "appends k"
  shows "appends (thn m k)"
proof -
  obtain r ns where m: "\<And>s. m s = (r, s\<lparr>notices := notices s @ ns\<rparr>)"
    using assms(1) by (auto simp: appends_def)
  obtain r' ns' where k: "\<And>s. k s = (r', s\<lparr>notices := notices s @ ns'\<rparr>)"
    using assms(2) by (auto simp: appends_def)
  show ?thesis
  proof (cases r)
    case (Inl e)
    then show ?thesis unfolding appends_def by (intro exI [of _ "Inl e"] exI [of _ ns]) (simp add: m)
  next
    case (Inr x)
    then show ?thesis unfolding appends_def by (intro exI [of _ r'] exI [of _ "ns @ ns'"]) (simp add: m k)
  qed
qed

lemma appends_py_when [appends_intros]: "appends m \<Longrightarrow> appends (py_when b m)"
  using appends_ret by (cases b) (simp_all add: py_when_def)

lemma appends_http [appends_intros]: "appends (http_post env url payload headers)"
  by (auto simp: http_post_def intro!: appends_intros split: prod.split)

lemma appends_channel: "appends (deliver_channel env a channel)"
  by (auto simp: deliver_channel_def deliver_webhook_def deliver_slack_def deliver_email_def
      deliver_pagerduty_def deliver_siem_def Let_def intro!: appends_intros split: option.split)

lemma deliver_channel_run:
  "\<exists>r. deliver_channel env a channel s = (r, s\<lparr>notices := notices s @ channel_notices env a channel\<rparr>)"
proof -
  obtain r ns where run: "\<And>s. deliver_channel env a channel s = (r, s\<lparr>notices := notices s @ ns\<rparr>)"
    using appends_channel [of env a channel] by (auto simp: appends_def)
  have "channel_notices env a channel = ns"
    by (simp add: channel_notices_def run quiet_state_def)
  with run show ?thesis by simp
qed

lemma try_channel_run:
  "py_try (deliver_channel env a channel) (\<lambda>e. ret ()) s =
     (Inr (), s\<lparr>notices := notices s @ channel_notices env a channel\<rparr>)"
  using deliver_channel_run [of env a channel s] by (auto split: sum.split)

lemma deliver_each_channel:
  "for_each channels (\<lambda>channel. py_try (deliver_channel env a channel) (\<lambda>e. ret ())) s =
     (Inr (), s\<lparr>notices := notices s @ concat (map (channel_notices env a) channels)\<rparr>)"
  by (induction channels arbitrary: s) (simp_all add: try_channel_run del: run_py_try)

section \<open>Installing the built-in rules\<close>

definition named :: "auth_context \<Rightarrow> string \<Rightarrow> alert_rule \<Rightarrow> bool" where
  "named auth n r \<longleftrightarrow> ar_tenant_id r = ac_tenant_id auth \<and> ar_name r = n"

lemma named_default [simp]: "named auth n (default_rule i now auth b) \<longleftrightarrow> br_name b = n"
  by (simp add: named_def default_rule_def new_rule_def)

lemma install_each_Cons:
  "install_each now auth (b # bs) =
     bnd (as_select alert_rules (named auth (br_name b))) (\<lambda>exists.
     if exists \<noteq> None then install_each now auth bs
     else
       bnd as_fresh (\<lambda>i.
       thn (modify (\<lambda>s. s\<lparr>alert_rules := alert_rules s @ [default_rule i now auth b]\<rparr>)) (
       bnd (install_each now auth bs) (\<lambda>installed.
       ret (br_name b # installed)))))"
  by (simp add: named_def [abs_def])

lemma install_each_result:
  assumes "install_each now auth bs s = (Inr xs, s')" and "distinct (map br_name bs)"
  shows "list_all (\<lambda>b. length (filter (named auth (br_name b)) (alert_rules s')) = 1) bs \<and>
     (\<forall>n. n \<notin> br_name ` set bs \<longrightarrow> filter (named auth n) (alert_rules s') = filter (named auth n) (alert_rules s))"
  using assms
proof (induction bs arbitrary: s xs)
  case (Cons b bs)
  have b: "br_name b \<notin> br_name ` set bs" and dist: "distinct (map br_name bs)"
    using Cons.prems(2) by auto
  from Cons.prems(1) consider
      (there) r where "filter (named auth (br_name b)) (alert_rules s) = [r]" "install_each now auth bs s = (Inr xs, s')"
    | (new) ys where "filter (named auth (br_name b)) (alert_rules s) = []"
        "install_each now auth bs (s\<lparr>as_next := Suc (as_next s),
            alert_rules := alert_rules s @ [default_rule (as_next s) now auth b]\<rparr>) = (Inr ys, s')"
    by (auto simp: install_each_Cons as_select_def as_fresh_def simp del: install_each.simps(2)
        dest: scalar_one_or_none_SomeD scalar_one_or_none_NoneD split: handler_splits)
  then show ?case
  proof cases
    case (there r)
    from Cons.IH [OF there(2) dist] b there(1) show ?thesis by auto
  next
    case (new ys)
    from Cons.IH [OF new(2) dist] b new(1) show ?thesis by auto
  qed
qed simp

lemma install_each_again:
  "list_all (\<lambda>b. length (filter (named auth (br_name b)) (alert_rules s)) = 1) bs \<Longrightarrow>
   install_each now auth bs s = (Inr [], s)"
proof (induction bs)
  case (Cons b bs)
  then obtain r where "filter (named auth (br_name b)) (alert_rules s) = [r]"
    by (auto simp: length_Suc_conv)
  with Cons show ?case by (simp add: install_each_Cons as_select_def del: install_each.simps(2))
qed simp

lemma builtin_names_distinct: "distinct (map br_name BUILTIN_RULES)"
  by code_simp

text \<open>Nothing keeps a tenant from giving two rules the name of a built-in one; then installing fails.\<close>

lemma install_fails_on_duplicates:
  assumes "filter (named auth (br_name pii_rule)) (alert_rules s) = r # r' # rs" and "''admin:*'' \<in> ac_permissions auth"
  shows "fst (alert_request (install_default_rules now auth) s) = Inl MultipleResultsFound"
  using assms
  by (simp add: alert_request_def transaction_def install_default_rules_def BUILTIN_RULES_def install_each_Cons
      as_select_def del: install_each.simps(2))

section \<open>Alerts are never stored\<close>

definition silent :: "alert_state \<Rightarrow> bool" where
  "silent s \<longleftrightarrow> alerts s = [] \<and> list_all (\<lambda>r. ar_last_fired_at r = None) (alert_rules s)"

lemma silent_install: "silent s \<Longrightarrow> silent (snd (install_each now auth bs s))"
proof (induction bs arbitrary: s)
  case (Cons b bs)
  have "silent (s\<lparr>as_next := Suc (as_next s), alert_rules := alert_rules s @ [default_rule (as_next s) now auth b]\<rparr>)"
    using Cons.prems by (simp add: silent_def default_rule_def new_rule_def)
  from Cons.IH [OF this] Cons.IH [OF Cons.prems] Cons.prems show ?case
    by (auto simp: as_select_def as_fresh_def split: handler_splits)
qed simp

lemma silent_handle: "silent s \<Longrightarrow> silent (snd (alert_handle now auth c s))"
proof (cases c)
  case InstallDefaults
  assume "silent s"
  from silent_install [OF this, of now auth BUILTIN_RULES] InstallDefaults \<open>silent s\<close> show ?thesis
    by (auto simp: install_default_rules_def as_flush_def split: handler_splits)
qed (auto simp: silent_def list_rules_def create_rule_def new_rule_def list_alerts_def acknowledge_alert_def
    resolve_alert_def find_alert_def as_select_def as_fresh_def as_flush_def Let_def split: handler_splits)

lemma evaluate_all_run: "evaluate_all session_module ts s = (Inr (), s)"
  by (simp add: evaluate_all_def import_from_def no_async_session)

lemma silent_step: "silent s \<Longrightarrow> silent (alert_step e s)"
proof (cases e)
  case (AlertRequest now auth c)
  assume s: "silent s"
  then have "silent (s\<lparr>notices := ns\<rparr>)" for ns by (simp add: silent_def)
  with silent_handle [OF s, of now auth c] AlertRequest show ?thesis
    by (auto simp: alert_request_def transaction_def split: prod.split sum.split)
qed (simp add: evaluate_all_run)

section \<open>Properties\<close>

text \<open>C19: A rule fires exactly when its cooldown since the recorded last firing is over, it is not
  suppressed, and its query returns at least as many rows as its threshold, where a cooldown of 0 counts
  as 60 minutes and a threshold of 0 as 1. The alert counts all the rows, carries at most fifty, and has
  the rule's severity and name. While the query gives the same answer: if the firing is recorded in the
  rule, the rule fires again exactly when it is not suppressed and the cooldown has passed since; if it
  is not, the rule fires at every later time at which it is not suppressed.\<close>

theorem alert_fires_iff:
  "(evaluate_rule env now rule tid = None \<longleftrightarrow>
      \<not> cooled_down now rule \<or> suppressed_at now rule \<or> enough_rows env rule tid = None) \<and>
   (\<forall>a. evaluate_rule env now rule tid = Some a \<longrightarrow>
      (\<exists>rows. enough_rows env rule tid = Some rows \<and> fa_row_count a = int (length rows) \<and>
         fa_severity a = ar_severity rule \<and> fa_title a = ar_name rule \<and>
         fa_context a = [(''rows'', JArr (map JObj (take 50 rows))), (''total'', JInt (int (length rows)))]) \<and>
      (\<forall>later. evaluate_rule env later (rule\<lparr>ar_last_fired_at := Some now\<rparr>) tid \<noteq> None \<longleftrightarrow>
         now + minutes (if ar_cooldown_minutes rule = 0 then 60 else ar_cooldown_minutes rule) \<le> later \<and>
         \<not> suppressed_at later rule) \<and>
      (\<forall>later \<ge> now. evaluate_rule env later rule tid \<noteq> None \<longleftrightarrow> \<not> suppressed_at later rule))"
proof (intro conjI allI impI)
  show "evaluate_rule env now rule tid = None \<longleftrightarrow>
      \<not> cooled_down now rule \<or> suppressed_at now rule \<or> enough_rows env rule tid = None"
    by (rule evaluate_rule_None_iff)
next
  fix a assume fires: "evaluate_rule env now rule tid = Some a"
  from evaluate_rule_SomeD [OF this]
  show "\<exists>rows. enough_rows env rule tid = Some rows \<and> fa_row_count a = int (length rows) \<and>
         fa_severity a = ar_severity rule \<and> fa_title a = ar_name rule \<and>
         fa_context a = [(''rows'', JArr (map JObj (take 50 rows))), (''total'', JInt (int (length rows)))]"
    by auto
  fix later
  from fires have now: "cooled_down now rule" "enough_rows env rule tid \<noteq> None"
    using evaluate_rule_None_iff [of env now rule tid] by auto
  have "enough_rows env (rule\<lparr>ar_last_fired_at := Some now\<rparr>) tid = enough_rows env rule tid"
    by (simp add: enough_rows_def split: sum.split)
  with now show "evaluate_rule env later (rule\<lparr>ar_last_fired_at := Some now\<rparr>) tid \<noteq> None \<longleftrightarrow>
      now + minutes (if ar_cooldown_minutes rule = 0 then 60 else ar_cooldown_minutes rule) \<le> later \<and>
      \<not> suppressed_at later rule"
    by (auto simp: evaluate_rule_None_iff cooled_down_def suppressed_at_def int_or_def)
  assume "now \<le> later"
  with now have "cooled_down later rule" by (auto simp: cooled_down_def split: option.splits)
  with now show "evaluate_rule env later rule tid \<noteq> None \<longleftrightarrow> \<not> suppressed_at later rule"
    by (simp add: evaluate_rule_None_iff)
qed

definition example_admin :: auth_context where
  "example_admin = \<lparr> ac_user_id = 7, ac_tenant_id = 1, ac_email = JNull, ac_roles = [],
     ac_permissions = {''admin:*''} \<rparr>"

definition example_rule :: alert_rule where
  "example_rule = default_rule 3 0
     example_admin pii_rule"

definition example_alert_env :: alert_env where
  "example_alert_env =
     \<lparr> av_query = (\<lambda>c ps tid. Inr [[(''path'', JStr ''/a'')]]), av_render = (\<lambda>t n s rs. None),
       av_repr = (\<lambda>v. ''v''), av_iso = (\<lambda>t. ''''), av_http = (\<lambda>u p h. (True, Inl (OtherError ''ConnectError''))),
       av_smtp = None \<rparr>"

theorem alert_fires_iff_witness:
  "evaluate_rule example_alert_env 5 example_rule 1 \<noteq> None \<and>
   evaluate_rule example_alert_env (hours 23) (example_rule\<lparr>ar_last_fired_at := Some 5\<rparr>) 1 = None"
proof -
  have "cooled_down 5 example_rule" "\<not> suppressed_at 5 example_rule"
    by (simp_all add: cooled_down_def suppressed_at_def example_rule_def default_rule_def new_rule_def)
  moreover have "enough_rows example_alert_env example_rule 1 \<noteq> None"
    by (simp add: enough_rows_def example_alert_env_def example_rule_def default_rule_def new_rule_def int_or_def)
  ultimately have fires: "evaluate_rule example_alert_env 5 example_rule 1 \<noteq> None"
    by (simp add: alert_fires_iff [THEN conjunct1])
  then obtain a where a: "evaluate_rule example_alert_env 5 example_rule 1 = Some a" by blast
  have cool: "ar_cooldown_minutes example_rule = 1440"
    by (simp add: example_rule_def default_rule_def new_rule_def pii_rule_def)
  have "evaluate_rule example_alert_env (hours 23) (example_rule\<lparr>ar_last_fired_at := Some 5\<rparr>) 1 \<noteq> None \<longleftrightarrow>
      5 + minutes (if ar_cooldown_minutes example_rule = 0 then 60 else ar_cooldown_minutes example_rule)
        \<le> hours 23 \<and> \<not> suppressed_at (hours 23) example_rule"
    using alert_fires_iff [of example_alert_env 5 example_rule 1] a by blast
  with fires show ?thesis by (simp add: cool)
qed

text \<open>A delivery returns whatever its channels do, and sends over each channel, in their order,
  exactly what the channel sends by itself: one that fails, is misconfigured or of an unknown type
  keeps nothing from the others.\<close>

theorem deliver_channels_independent:
  "deliver env a rule s =
     (Inr (), s\<lparr>notices := notices s @ concat (map (channel_notices env a) (ar_channels rule))\<rparr>)"
  by (simp add: deliver_def deliver_each_channel)

text \<open>No alert is ever stored and no firing recorded: whatever requests come in and however often
  the scheduled task runs, the table of alerts stays empty and every rule has never fired, so that
  acknowledging or resolving an alert always fails.\<close>

theorem alerts_never_stored:
  assumes "silent s"
  shows "silent (fold alert_step es s) \<and>
    (\<exists>e. fst (alert_request (acknowledge_alert now auth i) (fold alert_step es s)) = Inl e) \<and>
    (\<exists>e. fst (alert_request (resolve_alert now auth i) (fold alert_step es s)) = Inl e)"
proof -
  have "silent (fold alert_step es s)"
    using assms by (induction es arbitrary: s) (auto intro: silent_step)
  then show ?thesis
    by (cases i) (auto simp: silent_def alert_request_def transaction_def acknowledge_alert_def
        resolve_alert_def find_alert_def as_select_def)
qed

theorem alerts_never_stored_witness:
  "alerts (fold alert_step [AlertRequest 0 example_admin InstallDefaults, Scheduled [new_tenant 1 0 ''a'' ''A'' None]] quiet_state) = []"
proof -
  have "silent quiet_state" by (simp add: silent_def quiet_state_def)
  from alerts_never_stored [OF this]
  have "silent (fold alert_step [AlertRequest 0 example_admin InstallDefaults, Scheduled [new_tenant 1 0 ''a'' ''A'' None]]
      quiet_state)"
    by blast
  then show ?thesis unfolding silent_def by blast
qed

text \<open>Installing the built-in rules succeeds for a tenant at most once: after an installation that
  returned, the tenant has exactly one rule with the name of each built-in rule, and every later
  installation by an administrator of the tenant returns the empty list and changes nothing.\<close>

theorem install_defaults_idempotent:
  assumes "alert_request (install_default_rules now auth) s = (Inr xs, s')"
    and "ac_tenant_id auth' = ac_tenant_id auth" and "''admin:*'' \<in> ac_permissions auth'"
  shows "list_all (\<lambda>b. length (filter (named auth (br_name b)) (alert_rules s')) = 1) BUILTIN_RULES \<and>
    alert_request (install_default_rules later auth') s' = (Inr [], s')"
proof -
  from assms(1) have run: "install_each now auth BUILTIN_RULES s = (Inr xs, s')" and ok: "alerts_ok s'"
    by (auto simp: alert_request_def transaction_def install_default_rules_def as_flush_def split: handler_splits)
  have same: "named auth' n = named auth n" for n
    by (simp add: fun_eq_iff named_def assms(2))
  have one: "list_all (\<lambda>b. length (filter (named auth (br_name b)) (alert_rules s')) = 1) BUILTIN_RULES"
    using install_each_result [OF run builtin_names_distinct] by simp
  then have "install_each later auth' BUILTIN_RULES s' = (Inr [], s')"
    by (intro install_each_again) (simp add: same)
  with one ok assms(3) show ?thesis
    by (simp add: alert_request_def transaction_def install_default_rules_def as_flush_def)
qed

theorem install_defaults_idempotent_witness:
  "\<exists>xs s'. alert_request (install_default_rules 0 example_admin) quiet_state = (Inr xs, s') \<and>
     alert_request (install_default_rules 9 example_admin) s' = (Inr [], s')"
proof -
  have "case alert_request (install_default_rules 0 example_admin) quiet_state of
      (Inl e, s') \<Rightarrow> False | (Inr x, s') \<Rightarrow> True"
    by code_simp
  then obtain xs s' where first: "alert_request (install_default_rules 0 example_admin) quiet_state = (Inr xs, s')"
    by (auto split: prod.splits sum.splits)
  have "''admin:*'' \<in> ac_permissions example_admin" by (simp add: example_admin_def)
  from install_defaults_idempotent [OF first refl this, of 9] first show ?thesis by blast
qed

end
