(* ===== verification/Audit_Log.thy ===== *)
theory Audit_Log
  imports Oidc
begin

text \<open>
  \<open>auth/audit.py\<close> and \<open>api/notifications.py\<close>: writing and listing the audit log, and the notification
  feed that is made from it.

  \<open>audit_log\<close> returns the payload it forwards to the SIEM webhook, when one is configured. \<open>path_uuid\<close> is
  \<open>uuid.UUID\<close> on a text. Entries of the same time keep the order of the table.
\<close>

section \<open>Writing and listing\<close>

record http_client =
  hc_host :: "string option"
  hc_user_agent :: "string option"

record audit_entry =
  ae_action :: string
  ae_resource :: "string option"
  ae_details :: py_dict
  ae_ip_address :: "string option"
  ae_user_agent :: "string option"
  ae_status :: string

definition opt_json :: "string option \<Rightarrow> json" where
  "opt_json v = (case v of None \<Rightarrow> JNull | Some t \<Rightarrow> JStr t)"

definition audit_log ::
  "string \<Rightarrow> (time \<Rightarrow> string) \<Rightarrow> time \<Rightarrow> uuid \<Rightarrow> uuid option \<Rightarrow> audit_entry \<Rightarrow> http_client option \<Rightarrow>
   json option endpoint" where
  "audit_log webhook_url isoformat now tenant_id user_id e request =
     bnd fresh (\<lambda>i.
     let ip = (case request of None \<Rightarrow> ae_ip_address e | Some c \<Rightarrow> opt_str_or (ae_ip_address e) (hc_host c));
         ua = (case request of None \<Rightarrow> ae_user_agent e
               | Some c \<Rightarrow> opt_str_or (ae_user_agent e)
                    (Some (take 512 (case hc_user_agent c of None \<Rightarrow> '''' | Some t \<Rightarrow> t))))
     in thn (modify (\<lambda>s. s\<lparr>audit_logs := audit_logs s @
          [\<lparr> al_id = i, al_tenant_id = tenant_id, al_user_id = user_id, al_action = ae_action e,
             al_resource = ae_resource e, al_details = ae_details e, al_ip_address = ip,
             al_user_agent = ua, al_status = ae_status e, al_created_at = now \<rparr>]\<rparr>))
        (ret (if webhook_url = [] then None
              else Some (JObj [(''tenant_id'', JStr (uuid_str tenant_id)),
                     (''user_id'', case user_id of None \<Rightarrow> JNull | Some u \<Rightarrow> JStr (uuid_str u)),
                     (''action'', JStr (ae_action e)), (''resource'', opt_json (ae_resource e)),
                     (''details'', JObj (ae_details e)), (''ip_address'', opt_json ip),
                     (''status'', JStr (ae_status e)), (''timestamp'', JStr (isoformat now))]))))"

text \<open>
  \<open>column.contains(t)\<close> is \<open>LIKE '%' || t || '%'\<close> without escaping: the wildcards of SQL and its escape
  character, the backslash, keep their meaning inside \<open>t\<close>.
\<close>

fun sql_like :: "string \<Rightarrow> string \<Rightarrow> bool" where
  "sql_like [] t = (t = [])"
| "sql_like [c] t = (if c = CHR ''%'' then True else (case t of [x] \<Rightarrow> c = CHR ''_'' \<or> c = x | _ \<Rightarrow> False))"
| "sql_like (c # d # p) [] = (c = CHR ''%'' \<and> sql_like (d # p) [])"
| "sql_like (c # d # p) (x # t) =
     (if c = CHR ''%'' then sql_like (d # p) (x # t) \<or> sql_like (c # d # p) t
      else if c = CHR 0x5C then d = x \<and> sql_like p t
      else (c = CHR ''_'' \<or> c = x) \<and> sql_like (d # p) t)"

definition sql_contains :: "string \<Rightarrow> string \<Rightarrow> bool" where
  "sql_contains t text_value = sql_like (''%'' @ t @ ''%'') text_value"

text \<open>The entries of a page; a negative limit is an error of the database.\<close>

definition newest_first :: "audit_log_row list \<Rightarrow> audit_log_row list" where
  "newest_first rows = sort_key (\<lambda>e. - al_created_at e) rows"

definition sql_limit :: "int \<Rightarrow> nat \<Rightarrow> 'r list \<Rightarrow> py_error + 'r list" where
  "sql_limit limit offset rows =
     (if limit < 0 then Inl (OtherError ''DBAPIError'') else Inr (take (nat limit) (drop offset rows)))"

definition list_audit_log ::
  "(string \<Rightarrow> uuid option) \<Rightarrow> auth_context \<Rightarrow> string option \<Rightarrow> string option \<Rightarrow> int \<Rightarrow> nat \<Rightarrow>
   audit_log_row list endpoint" where
  "list_audit_log path_uuid auth action user_id limit offset =
     bnd (if ''admin:*'' \<notin> ac_permissions auth then ret (Some (ac_user_id auth))
          else (case user_id of
                  None \<Rightarrow> ret None
                | Some t \<Rightarrow> if t = [] then ret None
                    else (case path_uuid t of
                            None \<Rightarrow> raise (ValueError ''badly formed hexadecimal UUID string'')
                          | Some u \<Rightarrow> ret (Some u)))) (\<lambda>who.
     bnd (select_all audit_logs (\<lambda>e. al_tenant_id e = ac_tenant_id auth \<and>
            (case who of None \<Rightarrow> True | Some u \<Rightarrow> al_user_id e = Some u) \<and>
            (case action of None \<Rightarrow> True | Some a \<Rightarrow> a = [] \<or> sql_contains a (al_action e)))) (\<lambda>rows.
     lift_err (sql_limit limit offset (newest_first rows))))"

section \<open>Notifications\<close>

definition NOTIFICATION_ACTIONS :: "string list" where
  "NOTIFICATION_ACTIONS =
     [''alert.fired'', ''connector.scan.failed'', ''connector.scan.complete'', ''finding.created'',
      ''user.provisioned'', ''user.deprovisioned'', ''gdpr.erasure.complete'', ''indexing.complete'',
      ''indexing.failed'', ''auth.login.failed'', ''auth.mfa.enrolled'']"

definition severity_map :: "(string \<times> string \<times> string) list" where
  "severity_map =
     [(''alert.fired'', ''high'', ''Alert fired''),
      (''connector.scan.failed'', ''medium'', ''Scan failed''),
      (''connector.scan.complete'', ''info'', ''Scan complete''),
      (''finding.created'', ''high'', ''New finding''),
      (''auth.login.failed'', ''medium'', ''Failed login attempt''),
      (''gdpr.erasure.complete'', ''info'', ''Data erasure complete''),
      (''indexing.failed'', ''medium'', ''Indexing failed''),
      (''indexing.complete'', ''info'', ''Indexing complete''),
      (''user.provisioned'', ''info'', ''User provisioned''),
      (''user.deprovisioned'', ''info'', ''User deprovisioned''),
      (''auth.mfa.enrolled'', ''info'', ''MFA enrolled'')]"

text \<open>\<open>str.title\<close>: the first letter of every run of letters in upper case, the others in lower case.\<close>

fun title_from :: "bool \<Rightarrow> string \<Rightarrow> string" where
  "title_from in_word [] = []"
| "title_from in_word (c # t) =
     (if is_upper c \<or> is_lower c
      then (if in_word then lower_char c else upper_char c) # title_from True t
      else c # title_from False t)"

definition str_title :: "string \<Rightarrow> string" where
  "str_title t = title_from False t"

record notification =
  nt_id :: uuid
  nt_action :: string
  nt_title :: string
  nt_message :: json
  nt_severity :: string
  nt_link :: "string option"
  nt_read_at :: "time option"
  nt_created_at :: time

definition json_or :: "json \<Rightarrow> json \<Rightarrow> json" where
  "json_or a b = (if truthy a then a else b)"

definition audit_to_notification :: "audit_log_row \<Rightarrow> notification" where
  "audit_to_notification entry =
     (let action = al_action entry;
          details = al_details entry;
          is_read = truthy (dict_get_or details ''read'' (JBool False));
          (severity, title) = (case map_of severity_map action of
             None \<Rightarrow> (''info'', str_title (str_replace action ''.'' '' '')) | Some st \<Rightarrow> st);
          message = json_or (dict_get_or details ''message'' JNull)
                      (json_or (dict_get_or details ''connector_name'' JNull) (JStr ''''));
          message = (if \<not> truthy message \<and> action = ''auth.login.failed''
                     then JStr (''IP: '' @ (case opt_str_or (al_ip_address entry) None of
                                              None \<Rightarrow> ''unknown'' | Some ip \<Rightarrow> ip))
                     else message);
          link = (if sublist ''scan'' action \<or> sublist ''indexing'' action then Some ''/indexer''
                  else if sublist ''alert'' action \<or> sublist ''finding'' action then Some ''/security''
                  else if sublist ''user'' action then Some ''/settings''
                  else if sublist ''erasure'' action then Some ''/audit'' else None)
      in \<lparr> nt_id = al_id entry, nt_action = action, nt_title = title, nt_message = message,
           nt_severity = severity, nt_link = link,
           nt_read_at = (if is_read then Some (al_created_at entry) else None),
           nt_created_at = al_created_at entry \<rparr>)"

text \<open>The notifications and how many of them are unread.\<close>

definition list_notifications ::
  "time \<Rightarrow> auth_context \<Rightarrow> int \<Rightarrow> (notification list \<times> nat) endpoint" where
  "list_notifications now auth limit =
     (let cutoff = now - days 7 in
     bnd (select_all audit_logs (\<lambda>e. al_tenant_id e = ac_tenant_id auth \<and> al_created_at e \<ge> cutoff \<and>
            al_action e \<in> set NOTIFICATION_ACTIONS)) (\<lambda>rows.
     bnd (lift_err (sql_limit limit 0 (newest_first rows))) (\<lambda>entries.
     let ns = map audit_to_notification entries
     in ret (ns, length (filter (\<lambda>n. nt_read_at n = None) ns)))))"

definition mark_read :: "(audit_log_row \<Rightarrow> bool) \<Rightarrow> unit endpoint" where
  "mark_read p =
     modify (\<lambda>s. s\<lparr>audit_logs := update_where p (\<lambda>e. e\<lparr>al_details := [(''read'', JBool True)]\<rparr>) (audit_logs s)\<rparr>)"

text \<open>\<open>[uuid.UUID(i) for i in ids if i]\<close>: only a text has the methods the constructor calls.\<close>

fun read_ids :: "(string \<Rightarrow> uuid option) \<Rightarrow> json list \<Rightarrow> py_error + uuid list" where
  "read_ids path_uuid [] = Inr []"
| "read_ids path_uuid (v # vs) =
     (if \<not> truthy v then read_ids path_uuid vs
      else (case v of
              JStr t \<Rightarrow>
                (case path_uuid t of
                   None \<Rightarrow> Inl (ValueError ''badly formed hexadecimal UUID string'')
                 | Some i \<Rightarrow> (case read_ids path_uuid vs of Inl e \<Rightarrow> Inl e | Inr js \<Rightarrow> Inr (i # js)))
            | _ \<Rightarrow> Inl AttributeError))"

definition mark_notifications_read ::
  "(string \<Rightarrow> uuid option) \<Rightarrow> auth_context \<Rightarrow> py_dict \<Rightarrow> unit endpoint" where
  "mark_notifications_read path_uuid auth body =
     (let ids = dict_get_or body ''ids'' (JArr []) in
      py_when (truthy ids)
        (bnd (lift_err (json_iter ids)) (\<lambda>vs.
         bnd (lift_err (read_ids path_uuid vs)) (\<lambda>js.
         mark_read (\<lambda>e. al_tenant_id e = ac_tenant_id auth \<and> al_id e \<in> set js)))))"

definition mark_all_read :: "time \<Rightarrow> auth_context \<Rightarrow> unit endpoint" where
  "mark_all_read now auth =
     (let cutoff = now - days 7
      in mark_read (\<lambda>e. al_tenant_id e = ac_tenant_id auth \<and> al_created_at e \<ge> cutoff))"

datatype audit_call =
    ListAudit "string option" "string option" int nat
  | ListNotifications int
  | MarkRead py_dict
  | MarkAllRead

fun audit_handle ::
  "(string \<Rightarrow> uuid option) \<Rightarrow> time \<Rightarrow> auth_context \<Rightarrow> audit_call \<Rightarrow> unit endpoint" where
  "audit_handle path_uuid now auth (ListAudit action user_id limit offset) =
     bnd (list_audit_log path_uuid auth action user_id limit offset) (\<lambda>_. ret ())"
| "audit_handle path_uuid now auth (ListNotifications limit) = bnd (list_notifications now auth limit) (\<lambda>_. ret ())"
| "audit_handle path_uuid now auth (MarkRead body) = mark_notifications_read path_uuid auth body"
| "audit_handle path_uuid now auth MarkAllRead = mark_all_read now auth"

section \<open>The filter of the list\<close>

text \<open>A text without wildcards and backslashes is looked for as it is.\<close>

definition plain :: "string \<Rightarrow> bool" where
  "plain t \<longleftrightarrow> CHR ''%'' \<notin> set t \<and> CHR ''_'' \<notin> set t \<and> CHR 0x5C \<notin> set t"

lemma like_prefix: "plain t \<Longrightarrow> sql_like (t @ ''%'') s \<longleftrightarrow> prefix t s"
proof (induction t arbitrary: s)
  case (Cons c t)
  then have c: "c \<noteq> CHR ''%''" "c \<noteq> CHR ''_''" "c \<noteq> CHR 0x5C" and t: "plain t"
    by (auto simp: plain_def)
  obtain d p where p: "t @ ''%'' = d # p" by (cases t) auto
  show ?case
    using c Cons.IH [OF t] by (cases s) (auto simp: p)
qed simp

lemma sql_contains_plain: "plain t \<Longrightarrow> sql_contains t s \<longleftrightarrow> sublist t s"
proof (induction s)
  case Nil
  obtain d p where p: "t @ ''%'' = d # p" by (cases t) auto
  from like_prefix [OF Nil, of "[]"] show ?case by (simp add: sql_contains_def p)
next
  case (Cons x s)
  obtain d p where p: "t @ ''%'' = d # p" by (cases t) auto
  from like_prefix [OF Cons.prems, of "x # s"] Cons.IH [OF Cons.prems] show ?case
    by (auto simp: sql_contains_def p sublist_Cons_right)
qed

text \<open>An underscore is any character.\<close>

lemma underscore_matches_any: "sql_contains ''user_x'' ''user.x''"
  by code_simp

lemma sorted_newest_first: "sorted (map (\<lambda>e. - al_created_at e) (newest_first rows))"
  by (simp add: newest_first_def)

lemma set_newest_first [simp]: "set (newest_first rows) = set rows"
  by (simp add: newest_first_def)

lemma length_newest_first [simp]: "length (newest_first rows) = length rows"
  by (simp add: newest_first_def)

text \<open>The entries a user may list with a filter.\<close>

definition listable :: "auth_context \<Rightarrow> string \<Rightarrow> audit_log_row \<Rightarrow> bool" where
  "listable auth action e \<longleftrightarrow> al_tenant_id e = ac_tenant_id auth \<and>
     (''admin:*'' \<in> ac_permissions auth \<or> al_user_id e = Some (ac_user_id auth)) \<and>
     sublist action (al_action e)"

lemma list_audit_log_run:
  assumes "plain action" and "0 \<le> limit"
  shows "list_audit_log path_uuid auth (Some action) None limit offset s =
    (Inr (take (nat limit) (drop offset (newest_first (filter (listable auth action) (audit_logs s))))), s)"
proof -
  have "(\<lambda>e. al_tenant_id e = ac_tenant_id auth \<and> (action = [] \<or> sql_contains action (al_action e))) =
      listable auth action" if "''admin:*'' \<in> ac_permissions auth"
    using that by (auto simp: fun_eq_iff listable_def sql_contains_plain [OF assms(1)])
  moreover have "(\<lambda>e. al_tenant_id e = ac_tenant_id auth \<and> al_user_id e = Some (ac_user_id auth) \<and>
      (action = [] \<or> sql_contains action (al_action e))) = listable auth action"
    if "''admin:*'' \<notin> ac_permissions auth"
    using that by (auto simp: fun_eq_iff listable_def sql_contains_plain [OF assms(1)])
  ultimately show ?thesis
    using assms(2) by (simp add: list_audit_log_def sql_limit_def)
qed

section \<open>What the requests do to the log\<close>

definition same_entry :: "uuid set \<Rightarrow> audit_log_row \<Rightarrow> audit_log_row \<Rightarrow> bool" where
  "same_entry tids e e' \<longleftrightarrow> e' = e \<or> al_tenant_id e \<in> tids \<and> e' = e\<lparr>al_details := [(''read'', JBool True)]\<rparr>"

lemma same_entry_refl [simp]: "same_entry tids e e"
  by (simp add: same_entry_def)

lemma same_entry_trans: "same_entry A e e' \<Longrightarrow> same_entry B e' e'' \<Longrightarrow> same_entry (A \<union> B) e e''"
  by (auto simp: same_entry_def)

lemma same_entries_refl: "list_all2 (same_entry tids) rows rows"
  by (rule list_all2_refl) simp

lemma same_entries_update:
  "(\<And>e. p e \<Longrightarrow> al_tenant_id e \<in> tids) \<Longrightarrow>
   list_all2 (same_entry tids) rows (update_where p (\<lambda>e. e\<lparr>al_details := [(''read'', JBool True)]\<rparr>) rows)"
  by (induction rows) (auto simp: same_entry_def)

lemma audit_handle_entries:
  "list_all2 (same_entry {ac_tenant_id auth}) (audit_logs s)
     (audit_logs (snd (audit_handle path_uuid now auth c s)))"
proof (cases c)
  case (ListAudit action user_id limit offset)
  have "snd (list_audit_log path_uuid auth action user_id limit offset s) = s"
    by (auto simp: list_audit_log_def split: option.split sum.split)
  then show ?thesis by (auto simp: ListAudit same_entries_refl split: prod.split sum.split)
next
  case (ListNotifications limit)
  have "snd (list_notifications now auth limit s) = s"
    by (auto simp: list_notifications_def Let_def split: sum.split)
  then show ?thesis by (auto simp: ListNotifications same_entries_refl split: prod.split sum.split)
next
  case (MarkRead body)
  then show ?thesis
    by (auto simp: mark_notifications_read_def mark_read_def Let_def same_entries_refl
        intro!: same_entries_update split: sum.split)
next
  case MarkAllRead
  then show ?thesis
    by (auto simp: mark_all_read_def mark_read_def Let_def intro!: same_entries_update)
qed

definition audit_run ::
  "(string \<Rightarrow> uuid option) \<Rightarrow> (time \<times> auth_context \<times> audit_call) list \<Rightarrow> db \<Rightarrow> db" where
  "audit_run path_uuid cs s = fold (\<lambda>(now, auth, c) s. snd (get_db (audit_handle path_uuid now auth c) s)) cs s"

definition sender_tenants :: "(time \<times> auth_context \<times> audit_call) list \<Rightarrow> uuid set" where
  "sender_tenants cs = (\<lambda>(now, auth, c). ac_tenant_id auth) ` set cs"

lemma get_db_entries:
  "list_all2 (same_entry {ac_tenant_id auth}) (audit_logs s)
     (audit_logs (snd (get_db (audit_handle path_uuid now auth c) s)))"
  using audit_handle_entries [of auth s path_uuid now c]
  by (auto simp: get_db_def same_entries_refl split: prod.split sum.split)

lemma audit_run_entries:
  "list_all2 (same_entry (sender_tenants cs)) (audit_logs s) (audit_logs (audit_run path_uuid cs s))"
  unfolding audit_run_def
proof (induction cs arbitrary: s)
  case (Cons x cs)
  obtain now auth c where x: "x = (now, auth, c)" by (cases x)
  let ?t = "snd (get_db (audit_handle path_uuid now auth c) s)"
  have "list_all2 (same_entry ({ac_tenant_id auth} \<union> sender_tenants cs)) (audit_logs s)
      (audit_logs (fold (\<lambda>(now, auth, c) s. snd (get_db (audit_handle path_uuid now auth c) s)) cs ?t))"
    using same_entry_trans by (rule list_all2_trans [OF _ get_db_entries Cons.IH])
  then show ?case by (simp add: x sender_tenants_def)
qed (simp add: same_entries_refl)

lemma read_notification: "nt_read_at (audit_to_notification (e\<lparr>al_details := [(''read'', JBool True)]\<rparr>)) \<noteq> None"
  by (simp add: audit_to_notification_def Let_def dict_get_or_def split_def)

section \<open>Properties\<close>

text \<open>The audit log is not immutable. The requests of these two APIs never add or remove an entry
  and never change who did what and when; but every member of the tenant, without any permission,
  replaces the details of all its entries of the last seven days, also those that are no
  notifications, by one "mark all as read".\<close>

theorem audit_details_lost:
  "list_all2 (same_entry (sender_tenants cs)) (audit_logs s) (audit_logs (audit_run path_uuid cs s)) \<and>
   audit_logs (snd (mark_all_read now auth s)) =
     map (\<lambda>e. if al_tenant_id e = ac_tenant_id auth \<and> now - days 7 \<le> al_created_at e
              then e\<lparr>al_details := [(''read'', JBool True)]\<rparr> else e) (audit_logs s)"
proof (rule conjI)
  show "list_all2 (same_entry (sender_tenants cs)) (audit_logs s) (audit_logs (audit_run path_uuid cs s))"
    by (rule audit_run_entries)
  show "audit_logs (snd (mark_all_read now auth s)) =
     map (\<lambda>e. if al_tenant_id e = ac_tenant_id auth \<and> now - days 7 \<le> al_created_at e
              then e\<lparr>al_details := [(''read'', JBool True)]\<rparr> else e) (audit_logs s)"
    unfolding mark_all_read_def mark_read_def Let_def run_modify snd_conv update_where_def by simp
qed

text \<open>After a user has marked everything as read, nothing of the tenant is unread, for every member
  and at any later time, as long as no entry is written.\<close>

theorem read_all_clears:
  assumes "mark_all_read now auth s = (Inr (), s')" and "now \<le> later"
    and "ac_tenant_id auth' = ac_tenant_id auth"
    and "list_notifications later auth' limit s' = (Inr (ns, unread), s'')"
  shows "unread = 0"
proof -
  let ?read = "\<lambda>e. e\<lparr>al_details := [(''read'', JBool True)]\<rparr>"
  have logs: "audit_logs s' = update_where (\<lambda>e. al_tenant_id e = ac_tenant_id auth \<and> now - days 7 \<le> al_created_at e)
      ?read (audit_logs s)"
    using assms(1) by (auto simp: mark_all_read_def mark_read_def Let_def)
  have "\<exists>e0. e = ?read e0" if "e \<in> set (audit_logs s')" "al_tenant_id e = ac_tenant_id auth"
      "later - days 7 \<le> al_created_at e" for e
    using that assms(2) by (auto simp: logs set_update_where)
  then have seen: "nt_read_at (audit_to_notification e) \<noteq> None"
    if "e \<in> set (audit_logs s')" "al_tenant_id e = ac_tenant_id auth" "later - days 7 \<le> al_created_at e" for e
    using that read_notification by metis
  let ?entries = "take (nat limit) (newest_first (filter (\<lambda>e. al_tenant_id e = ac_tenant_id auth' \<and>
        later - days 7 \<le> al_created_at e \<and> al_action e \<in> set NOTIFICATION_ACTIONS) (audit_logs s')))"
  have ns: "ns = map audit_to_notification ?entries"
    and unread: "unread = length (filter (\<lambda>n. nt_read_at n = None) ns)"
    using assms(4) by (auto simp: list_notifications_def Let_def sql_limit_def split: if_splits)
  have "filter (\<lambda>n. nt_read_at n = None) ns = []"
    unfolding ns filter_empty_conv using seen assms(3) by (auto dest!: in_set_takeD)
  with unread show ?thesis by simp
qed

definition example_entry :: audit_log_row where
  "example_entry =
     \<lparr> al_id = 4, al_tenant_id = 1, al_user_id = Some 7, al_action = ''auth.login.failed'', al_resource = None,
       al_details = [(''reason'', JStr ''bad password'')], al_ip_address = Some ''10.0.0.1'', al_user_agent = None,
       al_status = ''failure'', al_created_at = 100 \<rparr>"

definition example_reader :: auth_context where
  "example_reader = \<lparr> ac_user_id = 8, ac_tenant_id = 1, ac_email = JNull, ac_roles = [], ac_permissions = {} \<rparr>"

theorem read_all_clears_witness:
  "\<exists>s' ns s''. mark_all_read 200 example_reader (empty_db\<lparr>audit_logs := [example_entry]\<rparr>) = (Inr (), s') \<and>
     list_notifications 300 example_reader 30 s' = (Inr (ns, 0), s'') \<and> length ns = 1"
proof -
  obtain s' where first: "mark_all_read 200 example_reader (empty_db\<lparr>audit_logs := [example_entry]\<rparr>) = (Inr (), s')"
    by (simp add: mark_all_read_def mark_read_def Let_def)
  have "case list_notifications 300 example_reader 30
      (snd (mark_all_read 200 example_reader (empty_db\<lparr>audit_logs := [example_entry]\<rparr>))) of
      (Inl e, s'') \<Rightarrow> False | (Inr (ns, unread), s'') \<Rightarrow> length ns = 1"
    by code_simp
  with first obtain ns unread s'' where second: "list_notifications 300 example_reader 30 s' = (Inr (ns, unread), s'')"
    and one: "length ns = 1"
    by (auto split: prod.splits sum.splits)
  have "unread = 0" by (rule read_all_clears [OF first _ refl second]) simp
  with first second one show ?thesis by blast
qed

text \<open>Listing the audit log with an action without wildcards returns the page of the entries of the
  user's tenant whose action contains that text, newest first: all of them for an administrator, the
  user's own for anybody else.\<close>

theorem audit_listing:
  assumes "plain action" and "0 \<le> limit"
  shows "\<exists>rows. list_audit_log path_uuid auth (Some action) None limit offset s = (Inr rows, s) \<and>
     length rows \<le> nat limit \<and> sorted (map (\<lambda>e. - al_created_at e) rows) \<and>
     (\<forall>e \<in> set rows. e \<in> set (audit_logs s) \<and> listable auth action e) \<and>
     (offset = 0 \<and> length (filter (listable auth action) (audit_logs s)) \<le> nat limit \<longrightarrow>
        set rows = {e \<in> set (audit_logs s). listable auth action e})"
  unfolding list_audit_log_run [OF assms]
  by (auto simp: sorted_newest_first drop_map [symmetric] take_map [symmetric]
      intro!: sorted_wrt_take sorted_wrt_drop dest!: in_set_takeD in_set_dropD)

theorem audit_listing_witness:
  "list_audit_log (\<lambda>t. None) example_reader (Some ''login'') None 50 0 (empty_db\<lparr>audit_logs := [example_entry]\<rparr>) =
     (Inr [], empty_db\<lparr>audit_logs := [example_entry]\<rparr>)"
proof -
  have "plain ''login''" by code_simp
  from audit_listing [OF this, of 50 "\<lambda>t. None" example_reader 0 "empty_db\<lparr>audit_logs := [example_entry]\<rparr>"]
  obtain rows where rows: "list_audit_log (\<lambda>t. None) example_reader (Some ''login'') None 50 0
      (empty_db\<lparr>audit_logs := [example_entry]\<rparr>) = (Inr rows, empty_db\<lparr>audit_logs := [example_entry]\<rparr>)"
    and in_rows: "\<forall>e \<in> set rows. e \<in> set [example_entry] \<and> listable example_reader ''login'' e"
    by auto
  have "\<not> listable example_reader ''login'' example_entry"
    by (simp add: listable_def example_reader_def example_entry_def)
  with in_rows have "rows = []" by (cases rows) auto
  with rows show ?thesis by simp
qed

end
