(* ===== verification/Compliance.thy ===== *)
theory Compliance
  imports Oidc Graph_Store Py_Csv License
begin

text \<open>
  \<open>compliance/reports.py\<close> and \<open>api/compliance.py\<close>: the compliance reports, each a list of Cypher queries,
  their generation, and the background task that generates a requested report.

  The answers of a graph backend, the texts of dates, floats and containers are the fields of
  \<open>compliance_env\<close>; a backend that cannot be connected to is an error of \<open>ce_connect\<close>. FastAPI runs the
  background task of a request either after the session of the request has committed or before: the
  order is a parameter of \<open>post_report\<close>. The locked release (0.135.3) closes the dependencies of a
  request after its response, and a response ends with its background tasks, so there the task
  comes first.
\<close>

section \<open>The reports\<close>

record report_definition =
  rd_title :: string
  rd_description :: string
  rd_queries :: "(string \<times> string) list"

definition gdpr_data_inventory :: report_definition where
  "gdpr_data_inventory =
     \<lparr> rd_title = ''GDPR Personal Data Inventory'',
       rd_description = ''Inventory of all files containing personal data, classified by type and location'',
       rd_queries =
        [(''pii_files'', text_block
           [(0, ''''),
            (16, ''MATCH (f:File)''),
            (16, ''WHERE f.pii_detected = true AND f.tenant_id = $__tid''),
            (16, ''RETURN f.path, f.pii_types, f.size_bytes, f.modified,''),
            (23, ''f.sensitivity_level, f.file_category''),
            (16, ''ORDER BY f.sensitivity_level DESC, f.modified DESC''),
            (12, '''')]),
         (''pii_by_type'', text_block
           [(0, ''''),
            (16, ''MATCH (f:File)''),
            (16, ''WHERE f.pii_detected = true AND f.tenant_id = $__tid''),
            (16, ''UNWIND split(coalesce(f.pii_types,'' @ in_quotes '''' @ ''), '' @ in_quotes '','' @ '') AS pii_type''),
            (16, ''WITH trim(pii_type) AS pt WHERE pt <> '' @ in_quotes ''''),
            (16, ''RETURN pt AS pii_type, count('' @ ''*) AS file_count''),
            (16, ''ORDER BY file_count DESC''),
            (12, '''')]),
         (''pii_by_location'', text_block
           [(0, ''''),
            (16, ''MATCH (f:File)''),
            (16, ''WHERE f.pii_detected = true AND f.tenant_id = $__tid''),
            (16, ''RETURN f.share AS location, count('' @ ''*) AS file_count,''),
            (23, ''sum(f.size_bytes) AS total_bytes''),
            (16, ''ORDER BY file_count DESC''),
            (12, '''')])] \<rparr>"

definition hipaa_phi_inventory :: report_definition where
  "hipaa_phi_inventory =
     \<lparr> rd_title = ''HIPAA PHI Data Inventory'',
       rd_description = ''Inventory of files potentially containing Protected Health Information'',
       rd_queries =
        [(''phi_files'', text_block
           [(0, ''''),
            (16, ''MATCH (f:File)''),
            (16, ''WHERE f.pii_detected = true''),
            (18, ''AND (f.pii_types CONTAINS '' @ in_quotes ''ssn'' @ '' OR f.pii_types CONTAINS '' @ in_quotes ''medical''),
            (23, ''OR f.pii_types CONTAINS '' @ in_quotes ''phone'' @ '' OR f.sensitivity_level = '' @ in_quotes ''high'' @ '')''),
            (18, ''AND f.tenant_id = $__tid''),
            (16, ''RETURN f.path, f.pii_types, f.sensitivity_level, f.modified''),
            (16, ''ORDER BY f.modified DESC LIMIT 1000''),
            (12, '''')])] \<rparr>"

definition soc2_evidence :: report_definition where
  "soc2_evidence =
     \<lparr> rd_title = ''SOC2 Security Evidence Pack'',
       rd_description = ''Evidence for SOC2 Type II audit '' @ em_dash @ '' access controls, encryption, monitoring'',
       rd_queries =
        [(''eol_software'', text_block
           [(0, ''''),
            (16, ''MATCH (f:File)''),
            (16, ''WHERE f.eol_status = '' @ in_quotes ''eol'' @ '' AND f.tenant_id = $__tid''),
            (16, ''RETURN f.name, f.file_version, f.company_name, f.path''),
            (16, ''ORDER BY f.name''),
            (12, '''')]),
         (''unsigned_executables'', text_block
           [(0, ''''),
            (16, ''MATCH (f:File)''),
            (16, ''WHERE f.file_category = '' @ in_quotes ''executable''),
            (18, ''AND f.signed = false AND f.tenant_id = $__tid''),
            (16, ''RETURN f.name, f.path, f.company_name''),
            (12, '''')]),
         (''secrets_in_code'', text_block
           [(0, ''''),
            (16, ''MATCH (f:File)''),
            (16, ''WHERE f.contains_secrets = true AND f.tenant_id = $__tid''),
            (16, ''RETURN f.path, f.secret_types, f.code_language''),
            (12, '''')]),
         (''expiring_certs'', text_block
           [(0, ''''),
            (16, ''MATCH (f:File)''),
            (16, ''WHERE f.file_category = '' @ in_quotes ''certificate''),
            (18, ''AND f.days_until_expiry < 90 AND f.tenant_id = $__tid''),
            (16, ''RETURN f.cert_subject, f.cert_issuer, f.days_until_expiry, f.path''),
            (16, ''ORDER BY f.days_until_expiry''),
            (12, '''')]),
         (''critical_cves'', text_block
           [(0, ''''),
            (16, ''MATCH (f:File)-[:HAS_VULNERABILITY]->(v:Vulnerability)''),
            (16, ''WHERE v.cvss_severity IN ['' @ in_quotes ''critical'' @ '','' @ in_quotes ''high'' @ '']''),
            (18, ''AND f.tenant_id = $__tid''),
            (16, ''RETURN f.name AS app, v.cve_id, v.cvss_score, v.cvss_severity,''),
            (23, ''v.exploit_available, v.actively_exploited''),
            (16, ''ORDER BY v.cvss_score DESC''),
            (12, '''')])] \<rparr>"

definition pii_exposure :: report_definition where
  "pii_exposure =
     \<lparr> rd_title = ''PII Exposure Assessment'',
       rd_description = ''Assessment of PII exposure risk across all file shares'',
       rd_queries =
        [(''high_risk'', (''MATCH (f:File) WHERE f.sensitivity_level = '' @ in_quotes ''high'' @
             '' AND f.pii_detected = true AND f.tenant_id = $__tid RETURN f.path,'' @
             '' f.pii_types LIMIT 500'')),
         (''by_category'', (''MATCH (f:File) WHERE f.pii_detected = true AND f.tenant_id = $__tid RETURN'' @
             '' f.file_category AS category, count('' @ ''*) AS count ORDER BY count DESC''))] \<rparr>"

definition certificate_expiry :: report_definition where
  "certificate_expiry =
     \<lparr> rd_title = ''Certificate Expiry Report'',
       rd_description = ''All certificates with expiry status'',
       rd_queries =
        [(''expiring_30d'', (''MATCH (f:File) WHERE f.file_category = '' @ in_quotes ''certificate'' @
             '' AND f.days_until_expiry < 30 AND f.tenant_id = $__tid RETURN'' @
             '' f.cert_subject, f.cert_issuer, f.days_until_expiry, f.cert_fingerprint'' @
             '' ORDER BY f.days_until_expiry'')),
         (''already_expired'', (''MATCH (f:File) WHERE f.file_category = '' @ in_quotes ''certificate'' @
             '' AND f.cert_is_expired = true AND f.tenant_id = $__tid RETURN'' @
             '' f.cert_subject, f.cert_issuer, f.cert_valid_to, f.path''))] \<rparr>"

definition secrets_exposure :: report_definition where
  "secrets_exposure =
     \<lparr> rd_title = ''Secrets Exposure Report'',
       rd_description = ''Files containing API keys, passwords, tokens, or certificates'',
       rd_queries =
        [(''secrets'', (''MATCH (f:File) WHERE f.contains_secrets = true AND f.tenant_id = $__tid'' @
             '' RETURN f.path, f.secret_types, f.file_category, f.modified ORDER BY'' @
             '' f.modified DESC LIMIT 500''))] \<rparr>"

definition REPORT_DEFINITIONS :: "(string \<times> report_definition) list" where
  "REPORT_DEFINITIONS =
     [(''gdpr_data_inventory'', gdpr_data_inventory),
      (''hipaa_phi_inventory'', hipaa_phi_inventory),
      (''soc2_evidence'', soc2_evidence),
      (''pii_exposure'', pii_exposure),
      (''certificate_expiry'', certificate_expiry),
      (''secrets_exposure'', secrets_exposure)]"

section \<open>Generation\<close>

record report =
  rp_report_type :: string
  rp_title :: string
  rp_description :: string
  rp_tenant_id :: string
  rp_generated_at :: time
  rp_total_findings :: int
  rp_summary :: "(string \<times> json) list"
  rp_findings :: "(string \<times> py_dict list) list"
  rp_csv :: "(string \<times> string) list option"

record compliance_env =
  ce_genv :: graph_env
  ce_connect :: "graph_backend \<Rightarrow> py_error + unit"
  ce_query :: "graph_backend \<Rightarrow> string \<Rightarrow> uuid \<Rightarrow> py_error + py_dict list"
  ce_repr :: "json \<Rightarrow> string"
  ce_str :: "py_error \<Rightarrow> string"
  ce_lic :: lic_env
  ce_trusted :: "string list"
  ce_machine :: machine

text \<open>The loop over the sections; its variables are \<open>findings\<close>, \<open>summary\<close> and \<open>total_findings\<close>.\<close>

fun generate_sections ::
  "compliance_env \<Rightarrow> graph_backend \<Rightarrow> uuid \<Rightarrow> (string \<times> string) list \<Rightarrow>
   (string \<times> py_dict list) list \<times> (string \<times> json) list \<times> int \<Rightarrow>
   (string \<times> py_dict list) list \<times> (string \<times> json) list \<times> int" where
  "generate_sections env backend tid [] acc = acc"
| "generate_sections env backend tid ((section, cypher) # qs) (findings, summary, total_findings) =
     generate_sections env backend tid qs
       (case ce_query env backend cypher tid of
          Inr rows \<Rightarrow> (dict_set section rows findings, dict_set section (JInt (int (length rows))) summary,
                        total_findings + int (length rows))
        | Inl e \<Rightarrow> (dict_set section [] findings, dict_set (section @ ''_error'') (JStr (ce_str env e)) summary,
                     total_findings))"

fun to_csv ::
  "compliance_env \<Rightarrow> (string \<times> py_dict list) list \<Rightarrow> (string \<times> string) list \<Rightarrow>
   py_error + (string \<times> string) list" where
  "to_csv env [] result = Inr result"
| "to_csv env ((section, rows) # fs) result =
     (if rows = [] then to_csv env fs result
      else (case csv_text (ce_repr env) rows of
              (text_value, True) \<Rightarrow> to_csv env fs (dict_set section text_value result)
            | (text_value, False) \<Rightarrow> Inl (ValueError ''dict contains fields not in fieldnames'')))"

definition generate ::
  "compliance_env \<Rightarrow> time \<Rightarrow> string \<Rightarrow> uuid \<Rightarrow> graph_backend \<Rightarrow> string \<Rightarrow> py_error + report" where
  "generate env now report_type tid backend output_format =
     (case map_of REPORT_DEFINITIONS report_type of
        None \<Rightarrow> Inl (ValueError ''Unknown report type'')
      | Some d \<Rightarrow>
          (case ce_connect env backend of
             Inl e \<Rightarrow> Inl e
           | Inr u \<Rightarrow>
               (case generate_sections env backend tid (rd_queries d) ([], [], 0) of
                  (findings, summary, total_findings) \<Rightarrow>
                    (let r = \<lparr> rp_report_type = report_type, rp_title = rd_title d,
                               rp_description = rd_description d, rp_tenant_id = uuid_str tid,
                               rp_generated_at = now, rp_total_findings = total_findings, rp_summary = summary,
                               rp_findings = findings, rp_csv = None \<rparr>
                     in if output_format = ''csv''
                        then (case to_csv env findings [] of
                                Inl e \<Rightarrow> Inl e | Inr c \<Rightarrow> Inr (r\<lparr>rp_csv := Some c\<rparr>))
                        else Inr r))))"

section \<open>The API\<close>

record compliance_report =
  co_id :: uuid
  co_tenant_id :: uuid
  co_report_type :: string
  co_title :: string
  co_status :: string
  co_format :: string
  co_generated_by :: uuid
  co_row_count :: "int option"
  co_findings :: "(string \<times> int) list"
  co_error :: "string option"
  co_generated_at :: time
  co_completed_at :: "time option"

record compliance_state =
  cp_db :: db
  compliance_reports :: "compliance_report list"
  cp_license :: "license option"

definition list_report_types :: "(string \<times> string \<times> string) list" where
  "list_report_types = map (\<lambda>(k, d). (k, rd_title d, rd_description d)) REPORT_DEFINITIONS"

definition new_report :: "uuid \<Rightarrow> time \<Rightarrow> auth_context \<Rightarrow> string \<Rightarrow> string \<Rightarrow> string \<Rightarrow> compliance_report" where
  "new_report i now auth report_type title fmt =
     \<lparr> co_id = i, co_tenant_id = ac_tenant_id auth, co_report_type = report_type, co_title = title,
       co_status = ''pending'', co_format = fmt, co_generated_by = ac_user_id auth, co_row_count = None,
       co_findings = [], co_error = None, co_generated_at = now, co_completed_at = None \<rparr>"

text \<open>The dependency on the license comes before the handler's body and outlives a rollback.\<close>

definition report_gate :: "compliance_env \<Rightarrow> time \<Rightarrow> (compliance_state, unit) handler" where
  "report_gate env now = (\<lambda>s.
     case gate_feature (ce_lic env) (ce_trusted env) (ce_machine env) now ''compliance_reports'' (cp_license s) of
       (r, l) \<Rightarrow> (r, s\<lparr>cp_license := l\<rparr>))"

definition generate_report ::
  "time \<Rightarrow> auth_context \<Rightarrow> string \<Rightarrow> string \<Rightarrow> (compliance_state, compliance_report) handler" where
  "generate_report now auth report_type fmt =
     (case map_of REPORT_DEFINITIONS report_type of
        None \<Rightarrow> raise (HTTPException 400 ''Unknown report type'')
      | Some d \<Rightarrow> (\<lambda>s.
          let i = next_uuid (cp_db s); r = new_report i now auth report_type (rd_title d) fmt
          in (Inr r, s\<lparr>cp_db := (cp_db s)\<lparr>next_uuid := Suc i\<rparr>,
                       compliance_reports := compliance_reports s @ [r]\<rparr>)))"

definition put_report :: "compliance_report \<Rightarrow> compliance_state \<Rightarrow> compliance_state" where
  "put_report r s = s\<lparr>compliance_reports := put_row co_id r (compliance_reports s)\<rparr>"

text \<open>
  \<open>_generate_report\<close>: it commits the status \<open>running\<close> before it generates, and the outcome after.
\<close>

definition generate_task ::
  "compliance_env \<Rightarrow> time \<Rightarrow> uuid \<Rightarrow> uuid \<Rightarrow> string \<Rightarrow> (compliance_state, unit) handler" where
  "generate_task env now report_id tenant_id fmt = (\<lambda>s.
     case scalar_one_or_none (filter (\<lambda>t. tn_id t = tenant_id) (tenants (cp_db s))) of
       Inl e \<Rightarrow> (Inl e, s)
     | Inr tenant \<Rightarrow>
         (case scalar_one_or_none (filter (\<lambda>r. co_id r = report_id) (compliance_reports s)) of
            Inl e \<Rightarrow> (Inl e, s)
          | Inr found \<Rightarrow>
              (case (tenant, found) of
                 (Some t, Some r) \<Rightarrow>
                   (let running = r\<lparr>co_status := ''running''\<rparr>;
                        outcome =
                          (case get_backend_for_tenant (ce_genv env) (str_or (tn_graph_backend t) ''neo4j'')
                                  (tn_graph_config t) of
                             Inl e \<Rightarrow> Inl e
                           | Inr backend \<Rightarrow> generate env now (co_report_type r) tenant_id backend fmt);
                        final =
                          (case outcome of
                             Inr result \<Rightarrow>
                               running\<lparr>co_status := ''complete'',
                                       co_findings := map (\<lambda>(k, v). (k, int (length v))) (rp_findings result),
                                       co_row_count := Some (rp_total_findings result),
                                       co_completed_at := Some now\<rparr>
                           | Inl e \<Rightarrow> running\<lparr>co_status := ''error'', co_error := Some (ce_str env e)\<rparr>)
                    in (Inr (), put_report final (put_report running s)))
               | _ \<Rightarrow> (Inr (), s))))"

text \<open>
  A request for a report and its task, at time \<open>now\<close> and \<open>later\<close>. When the tasks come first, the row of
  the request is not in the database the task reads.
\<close>

definition post_report ::
  "bool \<Rightarrow> compliance_env \<Rightarrow> time \<Rightarrow> time \<Rightarrow> auth_context \<Rightarrow> string \<Rightarrow> string \<Rightarrow>
   (compliance_state, compliance_report) handler" where
  "post_report tasks_first env now later auth report_type fmt =
     thn (report_gate env now) (\<lambda>s.
       case generate_report now auth report_type fmt s of
         (Inl e, s') \<Rightarrow> (Inl e, s)
       | (Inr r, s') \<Rightarrow>
           if tasks_first
           then (case generate_task env later (co_id r) (ac_tenant_id auth) fmt s of
                   (_, s1) \<Rightarrow> (Inr r, s1\<lparr>cp_db := (cp_db s1)\<lparr>next_uuid := next_uuid (cp_db s')\<rparr>,
                                          compliance_reports := compliance_reports s1 @ [r]\<rparr>))
           else (case generate_task env later (co_id r) (ac_tenant_id auth) fmt s' of (_, s1) \<Rightarrow> (Inr r, s1)))"

definition get_report :: "auth_context \<Rightarrow> uuid option \<Rightarrow> (compliance_state, compliance_report) handler" where
  "get_report auth report_id =
     (case report_id of
        None \<Rightarrow> raise (ValueError ''badly formed hexadecimal UUID string'')
      | Some i \<Rightarrow>
          (\<lambda>s. case scalar_one_or_none (filter (\<lambda>r. co_id r = i \<and> co_tenant_id r = ac_tenant_id auth)
                       (compliance_reports s)) of
                 Inl e \<Rightarrow> (Inl e, s)
               | Inr None \<Rightarrow> (Inl (HTTPException 404 ''Report not found''), s)
               | Inr (Some r) \<Rightarrow> (Inr r, s)))"

definition list_reports :: "auth_context \<Rightarrow> (compliance_state, compliance_report list) handler" where
  "list_reports auth =
     gets (\<lambda>s. take 50 (sort_key (\<lambda>r. - co_generated_at r)
                 (filter (\<lambda>r. co_tenant_id r = ac_tenant_id auth) (compliance_reports s))))"

section \<open>What a report contains\<close>

text \<open>Every query of every report asks for the files of its tenant.\<close>

lemma report_queries_scoped:
  "\<forall>(k, d) \<in> set REPORT_DEFINITIONS. \<forall>(section, cypher) \<in> set (rd_queries d).
     sublist ''f.tenant_id = $__tid'' cypher"
  by code_simp

lemma report_sections_distinct:
  "map_of REPORT_DEFINITIONS k = Some d \<Longrightarrow> distinct (map fst (rd_queries d))"
proof -
  assume "map_of REPORT_DEFINITIONS k = Some d"
  moreover have "list_all (\<lambda>(k, d). distinct (map fst (rd_queries d))) REPORT_DEFINITIONS"
    by code_simp
  ultimately show ?thesis by (auto simp: list_all_iff dest!: map_of_SomeD)
qed

lemma dict_set_new: "k \<notin> fst ` set d \<Longrightarrow> dict_set k v d = d @ [(k, v)]"
  by (induction d) auto

definition answer :: "compliance_env \<Rightarrow> graph_backend \<Rightarrow> uuid \<Rightarrow> string \<Rightarrow> py_dict list" where
  "answer env backend tid cypher = (case ce_query env backend cypher tid of Inl e \<Rightarrow> [] | Inr rows \<Rightarrow> rows)"

lemma generate_sections_findings:
  assumes "distinct (map fst qs)" and "fst ` set qs \<inter> fst ` set findings = {}"
    and "generate_sections env backend tid qs (findings, summary, n) = (findings', summary', n')"
  shows "findings' = findings @ map (\<lambda>(section, cypher). (section, answer env backend tid cypher)) qs \<and>
    n' = n + (\<Sum>(section, cypher)\<leftarrow>qs. int (length (answer env backend tid cypher)))"
  using assms
proof (induction qs arbitrary: findings summary n)
  case (Cons q qs)
  obtain sec cypher where q: "q = (sec, cypher)" by (cases q)
  have new: "sec \<notin> fst ` set findings" using Cons.prems(2) by (auto simp: q)
  have apart: "fst ` set qs \<inter> fst ` set (findings @ [(sec, rows)]) = {}" for rows
    using Cons.prems(1,2) by (auto simp: q)
  have dist: "distinct (map fst qs)" using Cons.prems(1) by simp
  obtain summary1 where run: "generate_sections env backend tid qs
      (findings @ [(sec, answer env backend tid cypher)], summary1, n + int (length (answer env backend tid cypher))) =
      (findings', summary', n')"
    using Cons.prems(3) by (auto simp: q answer_def dict_set_new [OF new] split: sum.splits)
  from Cons.IH [OF dist apart run] show ?case by (simp add: q)
qed simp

lemma generate_sections_run:
  assumes "map_of REPORT_DEFINITIONS k = Some d"
  shows "\<exists>summary. generate_sections env backend tid (rd_queries d) ([], [], 0) =
    (let findings = map (\<lambda>(section, cypher). (section, answer env backend tid cypher)) (rd_queries d)
     in (findings, summary, \<Sum>(section, rows)\<leftarrow>findings. int (length rows)))"
proof -
  obtain findings summary n where run:
    "generate_sections env backend tid (rd_queries d) ([], [], 0) = (findings, summary, n)"
    by (cases "generate_sections env backend tid (rd_queries d) ([], [], 0)")
  from generate_sections_findings [OF report_sections_distinct [OF assms] _ run] run show ?thesis
    by (simp add: Let_def comp_def split_def)
qed

text \<open>A section cannot be written as CSV when a row has a column that its first row lacks.\<close>

definition ragged :: "py_dict list \<Rightarrow> bool" where
  "ragged rows \<longleftrightarrow> (\<exists>row \<in> set rows. \<not> fst ` set row \<subseteq> fst ` set (hd rows))"

lemma to_csv_result:
  "if \<exists>(section, rows) \<in> set fs. ragged rows
   then to_csv env fs result = Inl (ValueError ''dict contains fields not in fieldnames'')
   else \<exists>c. to_csv env fs result = Inr c"
proof (induction fs arbitrary: result)
  case (Cons f fs)
  obtain sec rows where f: "f = (sec, rows)" by (cases f)
  have flag: "snd (csv_text (ce_repr env) rows) \<longleftrightarrow> \<not> ragged rows"
    by (auto simp: csv_text_def Let_def write_rows_ok ragged_def list_all_iff)
  have "\<not> ragged []" by (simp add: ragged_def)
  with Cons.IH flag show ?case
    by (cases "csv_text (ce_repr env) rows"; cases "snd (csv_text (ce_repr env) rows)") (auto simp: f)
qed simp

lemma generate_result:
  assumes "generate env now report_type tid backend fmt = Inr r"
  shows "rp_total_findings r = (\<Sum>(section, rows)\<leftarrow>rp_findings r. int (length rows))"
proof -
  obtain d where d: "map_of REPORT_DEFINITIONS report_type = Some d"
    using assms by (auto simp: generate_def split: option.splits)
  from generate_sections_run [OF d, of env backend tid] assms d show ?thesis
    by (auto simp: generate_def Let_def split: sum.splits if_splits)
qed

lemma report_findings_total:
  "generate env now report_type tid backend fmt = Inr r \<Longrightarrow>
   rp_total_findings r = (\<Sum>(section, rows)\<leftarrow>rp_findings r. int (length rows))"
  using generate_result by blast

section \<open>Properties\<close>

text \<open>C20: Where the graph database can be reached, a report of a known type is always generated, except
  as CSV when in some section a row has a column that the first row of the section lacks. Which of its
  queries fail does not matter: the report has exactly the sections of its definition, in their order,
  each with the rows its query returned, or without rows where the query failed; its total is the
  number of all these rows; and it has CSV texts exactly if it was asked for as CSV.\<close>

theorem report_findings:
  assumes "map_of REPORT_DEFINITIONS report_type = Some d" and "ce_connect env backend = Inr ()"
  shows "let findings = map (\<lambda>(section, cypher). (section,
           case ce_query env backend cypher tid of Inl e \<Rightarrow> [] | Inr rows \<Rightarrow> rows)) (rd_queries d)
    in if fmt = ''csv'' \<and> (\<exists>(section, rows) \<in> set findings. \<exists>row \<in> set rows. \<not> fst ` set row \<subseteq> fst ` set (hd rows))
       then generate env now report_type tid backend fmt =
         Inl (ValueError ''dict contains fields not in fieldnames'')
       else \<exists>r. generate env now report_type tid backend fmt = Inr r \<and> rp_findings r = findings \<and>
         rp_total_findings r = (\<Sum>(section, rows)\<leftarrow>findings. int (length rows)) \<and>
         (rp_csv r \<noteq> None \<longleftrightarrow> fmt = ''csv'')"
proof -
  let ?findings = "map (\<lambda>(section, cypher). (section, answer env backend tid cypher)) (rd_queries d)"
  obtain summary where run: "generate_sections env backend tid (rd_queries d) ([], [], 0) =
      (?findings, summary, \<Sum>(section, rows)\<leftarrow>?findings. int (length rows))"
    using generate_sections_run [OF assms(1), of env backend tid] by (auto simp: Let_def)
  have "if fmt = ''csv'' \<and> (\<exists>(section, rows) \<in> set ?findings. ragged rows)
       then generate env now report_type tid backend fmt =
         Inl (ValueError ''dict contains fields not in fieldnames'')
       else \<exists>r. generate env now report_type tid backend fmt = Inr r \<and> rp_findings r = ?findings \<and>
         rp_total_findings r = (\<Sum>(section, rows)\<leftarrow>?findings. int (length rows)) \<and>
         (rp_csv r \<noteq> None \<longleftrightarrow> fmt = ''csv'')"
  proof (cases "fmt = ''csv''")
    case True
    with to_csv_result [of ?findings env "[]"] run assms show ?thesis
      by (auto simp: generate_def Let_def split: if_splits)
  next
    case False
    with run assms show ?thesis by (simp add: generate_def Let_def)
  qed
  then show ?thesis unfolding Let_def answer_def ragged_def .
qed

definition example_ce_env :: compliance_env where
  "example_ce_env =
     \<lparr> ce_genv = example_genv, ce_connect = (\<lambda>b. Inr ()),
       ce_query = (\<lambda>b c tid. if sublist ''LIMIT 1000'' c then Inr [[(''f.path'', JStr ''/a'')], [(''f.path'', JStr ''/b'')]]
                            else Inl (OtherError ''Neo4jError'')),
       ce_repr = (\<lambda>v. ''''), ce_str = (\<lambda>e. ''error''), ce_lic = example_lic_env, ce_trusted = [],
       ce_machine = example_machine \<rparr>"

text \<open>A graph that answers all queries but those with UNWIND.\<close>

definition example_partial_env :: compliance_env where
  "example_partial_env = example_ce_env\<lparr>ce_query := (\<lambda>b c tid.
     if sublist ''UNWIND'' c then Inl (OtherError ''Neo4jError'') else Inr [[(''f.path'', JStr ''/a'')]])\<rparr>"

theorem report_findings_witness:
  "\<exists>r. generate example_partial_env 0 ''gdpr_data_inventory'' 1 (client_backend example_genv) ''json'' = Inr r \<and>
     rp_findings r = [(''pii_files'', [[(''f.path'', JStr ''/a'')]]), (''pii_by_type'', []),
       (''pii_by_location'', [[(''f.path'', JStr ''/a'')]])] \<and> rp_total_findings r = 2"
proof -
  let ?q = "\<lambda>(section, cypher). (section, case ce_query example_partial_env (client_backend example_genv) cypher 1 of
      Inl e \<Rightarrow> [] | Inr rows \<Rightarrow> rows)"
  let ?fs = "[(''pii_files'', [[(''f.path'', JStr ''/a'')]]), (''pii_by_type'', []),
       (''pii_by_location'', [[(''f.path'', JStr ''/a'')]])]"
  have d: "map_of REPORT_DEFINITIONS ''gdpr_data_inventory'' = Some gdpr_data_inventory"
    by (simp add: REPORT_DEFINITIONS_def)
  have up: "ce_connect example_partial_env (client_backend example_genv) = Inr ()"
    by (simp add: example_partial_env_def example_ce_env_def)
  have fs: "map ?q (rd_queries gdpr_data_inventory) = ?fs" by code_simp
  have "\<exists>r. generate example_partial_env 0 ''gdpr_data_inventory'' 1 (client_backend example_genv) ''json'' = Inr r \<and>
      rp_findings r = ?fs \<and> rp_total_findings r = (\<Sum>(section, rows)\<leftarrow>?fs. int (length rows)) \<and>
      (rp_csv r \<noteq> None \<longleftrightarrow> ''json'' = ''csv'')"
    using report_findings [OF d up, of 1 "''json''" 0] unfolding Let_def fs by simp
  then show ?thesis by auto
qed

definition reports_numbered :: "compliance_state \<Rightarrow> bool" where
  "reports_numbered s \<longleftrightarrow> list_all (\<lambda>r. co_id r < next_uuid (cp_db s)) (compliance_reports s)"

lemma no_such_report:
  "reports_numbered s \<Longrightarrow> filter (\<lambda>r. co_id r = next_uuid (cp_db s)) (compliance_reports s) = []"
  by (auto simp: reports_numbered_def list_all_iff filter_empty_conv)

lemma task_finds_nothing:
  assumes "reports_numbered s"
  shows "snd (generate_task env later (next_uuid (cp_db s)) tid fmt s) = s"
  using no_such_report [OF assms]
  by (auto simp: generate_task_def split: sum.split option.split)

lemma put_row_last:
  assumes "k r \<notin> k ` set rows" and "k r' = k r"
  shows "put_row k r' (rows @ [r]) = rows @ [r']"
  using assms by (induction rows) auto

lemma task_finds_report:
  assumes "reports_numbered s" and "co_id r = next_uuid (cp_db s)"
    and "scalar_one_or_none (filter (\<lambda>t. tn_id t = tid) (tenants (cp_db s))) = Inr (Some t)"
  shows "\<exists>r'. compliance_reports (snd (generate_task env later (co_id r) tid fmt
      (s\<lparr>cp_db := (cp_db s)\<lparr>next_uuid := n\<rparr>, compliance_reports := compliance_reports s @ [r]\<rparr>))) =
        compliance_reports s @ [r'] \<and> co_id r' = co_id r \<and> co_status r' \<in> {''complete'', ''error''} \<and>
      (co_status r' = ''complete'' \<longrightarrow> co_row_count r' = Some (\<Sum>(section, m)\<leftarrow>co_findings r'. m))"
proof -
  let ?rows = "compliance_reports s"
  have new: "co_id r \<notin> co_id ` set ?rows"
    using assms(1,2) by (auto simp: reports_numbered_def list_all_iff)
  have one: "filter (\<lambda>x. co_id x = co_id r) (?rows @ [r]) = [r]"
    using no_such_report [OF assms(1)] by (simp add: assms(2))
  let ?outcome = "case get_backend_for_tenant (ce_genv env) (str_or (tn_graph_backend t) ''neo4j'') (tn_graph_config t) of
      Inl e \<Rightarrow> Inl e | Inr backend \<Rightarrow> generate env later (co_report_type r) tid backend fmt"
  let ?running = "r\<lparr>co_status := ''running''\<rparr>"
  obtain r' where r': "r' = (case ?outcome of
        Inr result \<Rightarrow> ?running\<lparr>co_status := ''complete'',
            co_findings := map (\<lambda>(k, v). (k, int (length v))) (rp_findings result),
            co_row_count := Some (rp_total_findings result), co_completed_at := Some later\<rparr>
      | Inl e \<Rightarrow> ?running\<lparr>co_status := ''error'', co_error := Some (ce_str env e)\<rparr>)" by simp
  have ids: "co_id r' = co_id r" by (simp add: r' split: sum.split)
  have "put_row co_id r' (put_row co_id ?running (?rows @ [r])) = ?rows @ [r']"
    using put_row_last [of co_id r ?rows ?running] put_row_last [of co_id ?running ?rows r'] new ids by simp
  then have "compliance_reports (snd (generate_task env later (co_id r) tid fmt
      (s\<lparr>cp_db := (cp_db s)\<lparr>next_uuid := n\<rparr>, compliance_reports := ?rows @ [r]\<rparr>))) = ?rows @ [r']"
    using assms(3) one by (simp add: generate_task_def put_report_def Let_def r')
  moreover have "co_status r' \<in> {''complete'', ''error''}"
    by (simp add: r' split: sum.split)
  moreover have "co_row_count r' = Some (\<Sum>(section, m)\<leftarrow>co_findings r'. m)" if complete: "co_status r' = ''complete''"
  proof (cases ?outcome)
    case (Inr result)
    then obtain backend where "generate env later (co_report_type r) tid backend fmt = Inr result"
      by (auto split: sum.splits)
    from report_findings_total [OF this] Inr show ?thesis by (simp add: r' comp_def split_def)
  qed (use complete in \<open>simp add: r'\<close>)
  ultimately show ?thesis using ids by blast
qed

lemma report_gate_state:
  "report_gate env now s = (r, s') \<Longrightarrow> \<exists>l. s' = s\<lparr>cp_license := l\<rparr>"
  by (auto simp: report_gate_def split: prod.splits)

lemma generate_report_Inr:
  "generate_report now auth report_type fmt s = (Inr r, s') \<Longrightarrow>
   co_id r = next_uuid (cp_db s) \<and> co_status r = ''pending'' \<and>
   s' = s\<lparr>cp_db := (cp_db s)\<lparr>next_uuid := Suc (next_uuid (cp_db s))\<rparr>,
          compliance_reports := compliance_reports s @ [r]\<rparr>"
  by (auto simp: generate_report_def new_report_def Let_def split: option.splits)

text \<open>Whether a requested report is ever generated depends on one thing, whether the background
  tasks of a request run after its session has committed. If they do, the report of a tenant is
  complete, with a row count that is the sum over its sections, or failed; if they run first, as they
  do in the locked release of FastAPI, the task finds no row and the report stays pending. Either way
  the row is added behind those of the earlier reports, which stay as they are.\<close>

theorem report_needs_commit:
  assumes "post_report tasks_first env now later auth report_type fmt s = (Inr r, s')" and "reports_numbered s"
    and "scalar_one_or_none (filter (\<lambda>t. tn_id t = ac_tenant_id auth) (tenants (cp_db s))) = Inr (Some t)"
  shows "\<exists>r'. compliance_reports s' = compliance_reports s @ [r'] \<and> co_id r' = co_id r \<and>
    (if tasks_first then co_status r' = ''pending''
     else co_status r' \<in> {''complete'', ''error''} \<and>
       (co_status r' = ''complete'' \<longrightarrow> co_row_count r' = Some (\<Sum>(section, m)\<leftarrow>co_findings r'. m)))"
proof -
  obtain l s1 where gen: "generate_report now auth report_type fmt (s\<lparr>cp_license := l\<rparr>) = (Inr r, s1)"
    and s': "s' = (if tasks_first
        then (let s2 = snd (generate_task env later (co_id r) (ac_tenant_id auth) fmt (s\<lparr>cp_license := l\<rparr>))
              in s2\<lparr>cp_db := (cp_db s2)\<lparr>next_uuid := next_uuid (cp_db s1)\<rparr>,
                    compliance_reports := compliance_reports s2 @ [r]\<rparr>)
        else snd (generate_task env later (co_id r) (ac_tenant_id auth) fmt s1))"
    using assms(1)
    by (auto simp: post_report_def Let_def dest!: report_gate_state split: prod.splits sum.splits if_splits)
  let ?s = "s\<lparr>cp_license := l\<rparr>"
  note r = generate_report_Inr [OF gen]
  have num: "reports_numbered ?s" using assms(2) by (simp add: reports_numbered_def)
  show ?thesis
  proof (cases tasks_first)
    case True
    with r task_finds_nothing [OF num, of env later "ac_tenant_id auth" fmt] show ?thesis
      by (auto simp: s' Let_def)
  next
    case False
    with task_finds_report [OF num, of r "ac_tenant_id auth" t env later fmt "Suc (next_uuid (cp_db s))"] r assms(3)
    show ?thesis by (auto simp: s')
  qed
qed

definition example_compliance_state :: compliance_state where
  "example_compliance_state =
     \<lparr> cp_db = empty_db\<lparr>tenants := [new_tenant 1 0 ''a'' ''A'' None], next_uuid := 5\<rparr>, compliance_reports = [],
       cp_license = Some ((developer_license 0)\<lparr>li_features := [(''compliance_reports'', JBool True)]\<rparr>) \<rparr>"

definition example_auditor :: auth_context where
  "example_auditor = \<lparr> ac_user_id = 7, ac_tenant_id = 1, ac_email = JNull, ac_roles = [], ac_permissions = {} \<rparr>"

theorem report_needs_commit_witness:
  "\<exists>r s' r'. post_report True example_ce_env 0 1 example_auditor ''hipaa_phi_inventory'' ''json'' example_compliance_state =
       (Inr r, s') \<and> compliance_reports s' = [r'] \<and> co_status r' = ''pending''"
proof -
  have "case post_report True example_ce_env 0 1 example_auditor ''hipaa_phi_inventory'' ''json'' example_compliance_state of
      (Inl e, s') \<Rightarrow> False | (Inr r, s') \<Rightarrow> True"
    by code_simp
  then obtain r s' where run: "post_report True example_ce_env 0 1 example_auditor ''hipaa_phi_inventory'' ''json''
      example_compliance_state = (Inr r, s')"
    by (auto split: prod.splits sum.splits)
  have num: "reports_numbered example_compliance_state"
    by (simp add: reports_numbered_def example_compliance_state_def)
  have "scalar_one_or_none (filter (\<lambda>t. tn_id t = ac_tenant_id example_auditor)
      (tenants (cp_db example_compliance_state))) = Inr (Some (new_tenant 1 0 ''a'' ''A'' None))"
    by (simp add: example_compliance_state_def example_auditor_def new_tenant_def)
  from report_needs_commit [OF run num this] obtain r' where
    "compliance_reports s' = compliance_reports example_compliance_state @ [r']" "co_status r' = ''pending''" by auto
  with run show ?thesis by (auto simp: example_compliance_state_def)
qed

end
