(* ===== verification/Saml.thy ===== *)
theory Saml
  imports Local_Auth
begin

text \<open>
  \<open>auth/saml.py\<close>: SAML single sign-on, the service provider's settings, the login redirect, the
  assertion consumer that provisions users, and the configuration of a tenant.

  The library python3-saml is the fields of \<open>saml_env\<close>: whether it is installed, what \<open>login\<close> and
  the metadata return, and what processing a response gives, from the request and the settings it
  is handed. Only its documented behaviour is used: attributes are lists of texts.
\<close>

section \<open>Settings\<close>

record saml_outcome =
  so_errors :: "string list"
  so_authenticated :: bool
  so_attributes :: "(string \<times> string list) list"
  so_nameid :: "string option"

record saml_env =
  sv_auth :: auth_env
  sv_installed :: bool
  sv_login :: "json \<Rightarrow> json \<Rightarrow> string \<Rightarrow> py_error + string"
  sv_process :: "json \<Rightarrow> json \<Rightarrow> py_error + saml_outcome"
  sv_metadata :: "json \<Rightarrow> py_error + string"

definition get_saml_config :: "string \<Rightarrow> (tenant \<times> saml_config) endpoint" where
  "get_saml_config tenant_slug =
     bnd (select_one tenants (\<lambda>t. tn_slug t = tenant_slug)) (\<lambda>found.
     case found of
       None \<Rightarrow> raise (HTTPException 404 ''Tenant not found'')
     | Some tenant \<Rightarrow>
         bnd (select_one saml_configs (\<lambda>c. sm_tenant_id c = tn_id tenant \<and> sm_is_active c)) (\<lambda>config.
         case config of
           None \<Rightarrow> raise (HTTPException 404 ''SAML not configured for this tenant'')
         | Some c \<Rightarrow> ret (tenant, c)))"

definition build_saml_settings :: "saml_env \<Rightarrow> string \<Rightarrow> saml_config \<Rightarrow> json" where
  "build_saml_settings env tenant_slug config =
     (let sp_base = APP_URL (sv_auth env) @ ''/api/auth/saml/'' @ tenant_slug
      in JObj
       [(''strict'', JBool True),
        (''debug'', JBool False),
        (''sp'', JObj
          [(''entityId'', JStr (sp_base @ ''/metadata'')),
           (''assertionConsumerService'', JObj
             [(''url'', JStr (sp_base @ ''/acs'')),
              (''binding'', JStr ''urn:oasis:names:tc:SAML:2.0:bindings:HTTP-POST'')]),
           (''NameIDFormat'', JStr ''urn:oasis:names:tc:SAML:1.1:nameid-format:emailAddress'')]),
        (''idp'', JObj
          [(''entityId'', JStr (sm_idp_entity_id config)),
           (''singleSignOnService'', JObj
             [(''url'', JStr (sm_idp_sso_url config)),
              (''binding'', JStr ''urn:oasis:names:tc:SAML:2.0:bindings:HTTP-Redirect'')]),
           (''x509cert'', JStr (sm_idp_certificate config))]),
        (''security'', JObj
          [(''wantAssertionsSigned'', JBool True),
           (''wantMessagesSigned'', JBool True),
           (''signatureAlgorithm'', JStr ''http://www.w3.org/2001/04/xmldsig-more#rsa-sha256'')])])"

definition saml_request :: "saml_env \<Rightarrow> string \<Rightarrow> string \<Rightarrow> py_dict \<Rightarrow> py_dict \<Rightarrow> json" where
  "saml_request env tenant_slug step get_data post_data =
     (let url = APP_URL (sv_auth env)
      in JObj
       [(''https'', JStr (if prefix ''https'' url then ''on'' else ''off'')),
        (''http_host'', JStr (str_replace (str_replace url ''https://'' '''') ''http://'' '''')),
        (''script_name'', JStr (''/api/auth/saml/'' @ tenant_slug @ step)),
        (''server_port'', JStr ''443''),
        (''get_data'', JObj get_data),
        (''post_data'', JObj post_data)])"

section \<open>Login and metadata\<close>

definition need_saml_library :: "saml_env \<Rightarrow> unit endpoint" where
  "need_saml_library env = guard (sv_installed env) (HTTPException 501 ''python3-saml not installed'')"

definition saml_login :: "saml_env \<Rightarrow> string \<Rightarrow> string \<Rightarrow> string endpoint" where
  "saml_login env tenant_slug relay_state =
     thn (need_saml_library env)
     (bnd (get_saml_config tenant_slug) (\<lambda>(tenant, config).
      lift_err (sv_login env
        (saml_request env tenant_slug ''/login'' [(''RelayState'', JStr relay_state)] [])
        (build_saml_settings env tenant_slug config) relay_state)))"

definition saml_metadata :: "saml_env \<Rightarrow> string \<Rightarrow> string endpoint" where
  "saml_metadata env tenant_slug =
     thn (need_saml_library env)
     (bnd (get_saml_config tenant_slug) (\<lambda>(tenant, config).
      lift_err (sv_metadata env (build_saml_settings env tenant_slug config))))"

section \<open>The assertion consumer\<close>

definition attr_get :: "(string \<times> string list) list \<Rightarrow> string \<Rightarrow> string list \<Rightarrow> string list" where
  "attr_get attrs key def = (case map_of attrs key of None \<Rightarrow> def | Some v \<Rightarrow> v)"

definition first_attr :: "(string \<times> string list) list \<Rightarrow> string \<Rightarrow> string option \<Rightarrow> string option" where
  "first_attr attrs key def =
     (let val = attr_get attrs key (attr_get attrs (str_lower key) [])
      in if val \<noteq> [] then Some (val ! 0) else def)"

text \<open>\<open>group in mappings\<close> and \<open>mappings[group]\<close> for the JSON value that the configuration holds.\<close>

definition json_in :: "string \<Rightarrow> json \<Rightarrow> py_error + bool" where
  "json_in k v =
     (case v of JObj d \<Rightarrow> Inr (k \<in> fst ` set d) | JArr xs \<Rightarrow> Inr (JStr k \<in> set xs)
      | JStr t \<Rightarrow> Inr (sublist k t) | _ \<Rightarrow> Inl TypeError)"

fun group_role :: "json \<Rightarrow> string list \<Rightarrow> py_error + json" where
  "group_role mappings [] = Inr (JStr ''viewer'')"
| "group_role mappings (g # groups) =
     (case json_in g mappings of
        Inl e \<Rightarrow> Inl e
      | Inr True \<Rightarrow> json_item mappings g
      | Inr False \<Rightarrow>
          if sublist ''admin'' (str_lower g) then Inr (JStr ''admin'')
          else if sublist ''analyst'' (str_lower g) then Inr (JStr ''analyst'')
          else group_role mappings groups)"

definition map_groups_to_role :: "string list \<Rightarrow> saml_config \<Rightarrow> py_error + json" where
  "map_groups_to_role groups config =
     (let mappings = (if truthy (sm_role_mappings config) then sm_role_mappings config else JObj [])
      in group_role mappings groups)"

text \<open>
  A JSON value on its way into a text column: what is no text the driver refuses, and the null
  value a column that is required.
\<close>

definition text_column :: "json \<Rightarrow> py_error + string option" where
  "text_column v =
     (case v of JStr t \<Rightarrow> Inr (Some t) | JNull \<Rightarrow> Inr None | _ \<Rightarrow> Inl (OtherError ''DBAPIError''))"

definition required_text :: "json \<Rightarrow> py_error + string" where
  "required_text v =
     (case text_column v of Inl e \<Rightarrow> Inl e | Inr None \<Rightarrow> Inl IntegrityError | Inr (Some t) \<Rightarrow> Inr t)"

definition check_response :: "saml_outcome \<Rightarrow> unit endpoint" where
  "check_response r =
     (if so_errors r \<noteq> [] then raise (HTTPException 400 ''SAML validation failed'')
      else if \<not> so_authenticated r then raise (HTTPException 401 ''SAML authentication failed'')
      else ret ())"

text \<open>A user without a role is stored, but the role that is then looked up must have a name.\<close>

definition provision_user ::
  "time \<Rightarrow> tenant \<Rightarrow> saml_config \<Rightarrow> string \<Rightarrow> string option \<Rightarrow> string list \<Rightarrow> user endpoint" where
  "provision_user now tenant config email name groups =
     bnd (select_one users (\<lambda>u. us_email u = email \<and> us_tenant_id u = tn_id tenant)) (\<lambda>found.
     case found of
       None \<Rightarrow>
         bnd (lift_err (map_groups_to_role groups config)) (\<lambda>mapped.
         bnd (lift_err (required_text mapped)) (\<lambda>role.
         bnd fresh (\<lambda>i.
           let u = (new_user i now (tn_id tenant) email)
                     \<lparr>us_display_name := name, us_name := name, us_idp_provider := Some ''saml'',
                      us_is_active := True, us_email_verified := True, us_role := role\<rparr>
           in thn (modify (\<lambda>s. s\<lparr>users := users s @ [u]\<rparr>))
             (thn flush
             (thn (assign_builtin_role (us_id u) (tn_id tenant) role now) (ret u))))))
     | Some u \<Rightarrow>
         let u' = u\<lparr>us_display_name := name, us_name := name, us_is_active := True\<rparr>
         in thn (modify (put_user u')) (ret u'))"

text \<open>The page of the answer, a constant text around \<open>relay_state\<close>.\<close>

definition acs_page :: "string \<Rightarrow> string" where
  "acs_page relay_state =
     text_block
       [(0, ''''),
        (4, ''<html><body>''),
        (4, ''<script>''),
        (6, ''const url = new URL(window.location.href);''),
        (6, ''const token = url.hash.split('' @ in_quotes ''token='' @ '')[1];''),
        (6, ''if (token) { localStorage.setItem('' @ in_quotes ''dgraphai_token'' @
            '', token); window.location = '' @ in_quotes relay_state @ ''; }''),
        (4, ''</script>''),
        (4, ''<p>Redirecting...</p>''),
        (4, ''</body></html>''),
        (4, '''')]"

definition acs_request :: "saml_env \<Rightarrow> string \<Rightarrow> string option \<Rightarrow> string option \<Rightarrow> json" where
  "acs_request env tenant_slug form_response form_relay =
     (let saml_response = (case form_response of None \<Rightarrow> '''' | Some r \<Rightarrow> r);
          relay_state = (case form_relay of None \<Rightarrow> ''/'' | Some r \<Rightarrow> r)
      in saml_request env tenant_slug ''/acs'' []
           [(''SAMLResponse'', JStr saml_response), (''RelayState'', JStr relay_state)])"

definition saml_acs :: "saml_env \<Rightarrow> time \<Rightarrow> string \<Rightarrow> string option \<Rightarrow> string option \<Rightarrow> string endpoint" where
  "saml_acs env now tenant_slug form_response form_relay =
     thn (need_saml_library env)
     (bnd (get_saml_config tenant_slug) (\<lambda>(tenant, config).
      let relay_state = (case form_relay of None \<Rightarrow> ''/'' | Some r \<Rightarrow> r);
          req = acs_request env tenant_slug form_response form_relay
      in bnd (lift_err (sv_process env req (build_saml_settings env tenant_slug config))) (\<lambda>r.
         thn (check_response r)
         (let attrs = so_attributes r;
              email = first_attr attrs (str_or (sm_email_attribute config) ''emailaddress'') (so_nameid r);
              name = first_attr attrs (str_or (sm_name_attribute config) ''displayname'') email;
              groups = attr_get attrs (str_or (sm_groups_attribute config) ''groups'') []
          in case email of
               None \<Rightarrow> raise (HTTPException 400 ''Email attribute missing from SAML assertion'')
             | Some e \<Rightarrow>
                 if e = [] then raise (HTTPException 400 ''Email attribute missing from SAML assertion'')
                 else bnd (provision_user now tenant config e name groups) (\<lambda>u.
                      let token = issue_jwt (sv_auth env) now u (Some tenant) None;
                          redirect_url = APP_URL (sv_auth env) @ relay_state @ ''#token='' @ token
                      in ret (acs_page relay_state))))))"

section \<open>The configuration\<close>

definition configure_saml :: "saml_env \<Rightarrow> time \<Rightarrow> auth_context \<Rightarrow> py_dict \<Rightarrow> (string \<times> string) list endpoint" where
  "configure_saml env now auth body =
     thn (guard (''admin:*'' \<in> ac_permissions auth) (HTTPException 403 ''Admin required''))
     (thn (modify (\<lambda>s. s\<lparr>saml_configs := update_where (\<lambda>c. sm_tenant_id c = ac_tenant_id auth)
                            (\<lambda>c. c\<lparr>sm_is_active := False\<rparr>) (saml_configs s)\<rparr>))
     (bnd (lift_err (dict_item body ''idp_entity_id'')) (\<lambda>entity_id.
      bnd (lift_err (dict_item body ''idp_sso_url'')) (\<lambda>sso_url.
      bnd (lift_err (dict_item body ''idp_certificate'')) (\<lambda>certificate.
      bnd (lift_err (required_text entity_id)) (\<lambda>idp_entity_id.
      bnd (lift_err (required_text sso_url)) (\<lambda>idp_sso_url.
      bnd (lift_err (required_text certificate)) (\<lambda>idp_certificate.
      bnd (lift_err (text_column (dict_get_or body ''email_attribute'' (JStr ''emailaddress'')))) (\<lambda>email_attribute.
      bnd (lift_err (text_column (dict_get_or body ''name_attribute'' (JStr ''displayname'')))) (\<lambda>name_attribute.
      bnd (lift_err (text_column (dict_get_or body ''groups_attribute'' (JStr ''groups'')))) (\<lambda>groups_attribute.
      bnd fresh (\<lambda>i.
        let config =
              \<lparr> sm_id = i, sm_tenant_id = ac_tenant_id auth, sm_idp_entity_id = idp_entity_id,
                sm_idp_sso_url = idp_sso_url, sm_idp_certificate = idp_certificate,
                sm_email_attribute = email_attribute, sm_name_attribute = name_attribute,
                sm_groups_attribute = groups_attribute,
                sm_role_mappings = dict_get_or body ''role_mappings'' (JObj []),
                sm_is_active = True, sm_created_by = Some (ac_user_id auth), sm_created_at = now \<rparr>
        in thn (modify (\<lambda>s. s\<lparr>saml_configs := saml_configs s @ [config]\<rparr>))
          (thn flush
          (bnd (select_one tenants (\<lambda>t. tn_id t = ac_tenant_id auth)) (\<lambda>found.
           case found of
             None \<Rightarrow> raise AttributeError
           | Some tenant \<Rightarrow>
               let base = APP_URL (sv_auth env) @ ''/api/auth/saml/'' @ tn_slug tenant
               in ret [(''status'', ''configured''), (''login_url'', base @ ''/login''),
                       (''acs_url'', base @ ''/acs''), (''metadata_url'', base @ ''/metadata''),
                       (''entity_id'', base @ ''/metadata'')])))))))))))))))"

section \<open>The token does not reach the browser\<close>

lemma selected: "scalar_one_or_none (filter p rows) = Inr (Some r) \<Longrightarrow> r \<in> set rows \<and> p r"
  using scalar_one_or_none_filter_Some [of p rows r] by blast

lemma get_saml_config_InrD:
  assumes "get_saml_config slug s = (Inr (t, c), s')"
  shows "s' = s" and "t \<in> set (tenants s)" and "tn_slug t = slug"
    and "c \<in> set (saml_configs s)" and "sm_tenant_id c = tn_id t" and "sm_is_active c"
  using assms
  by (auto simp: get_saml_config_def dest!: selected split: handler_splits)

lemma check_response_InrD: "check_response r s = (Inr x, s') \<Longrightarrow> s' = s \<and> so_errors r = [] \<and> so_authenticated r"
  by (auto simp: check_response_def split: if_splits)

text \<open>A login that succeeded went through the provisioning of the assertion's user.\<close>

lemma saml_acs_InrD:
  assumes "saml_acs env now slug form_response form_relay s = (Inr page, s')"
  shows "\<exists>t c r e u.
    get_saml_config slug s = (Inr (t, c), s) \<and>
    sv_process env (acs_request env slug form_response form_relay) (build_saml_settings env slug c) = Inr r \<and>
    so_errors r = [] \<and> so_authenticated r \<and> e \<noteq> [] \<and>
    first_attr (so_attributes r) (str_or (sm_email_attribute c) ''emailaddress'') (so_nameid r) = Some e \<and>
    provision_user now t c e
      (first_attr (so_attributes r) (str_or (sm_name_attribute c) ''displayname'') (Some e))
      (attr_get (so_attributes r) (str_or (sm_groups_attribute c) ''groups'') []) s = (Inr u, s') \<and>
    page = acs_page (case form_relay of None \<Rightarrow> ''/'' | Some v \<Rightarrow> v)"
proof -
  obtain t c s1 where cfg: "get_saml_config slug s = (Inr (t, c), s1)"
    using assms by (auto simp: saml_acs_def need_saml_library_def split: handler_splits)
  then have s1: "s1 = s" by (rule get_saml_config_InrD)
  show ?thesis
    using assms cfg
    by (auto simp: saml_acs_def need_saml_library_def Let_def s1 dest!: check_response_InrD
        split: prod.splits sum.splits option.splits if_splits)
qed

lemma saml_request_encoding:
  "acs_request (env\<lparr>sv_auth := (sv_auth env)\<lparr>jwt_encode := enc, env_JWT_SECRET := k, JWT_EXPIRY_H := h\<rparr>\<rparr>) =
   acs_request env"
  by (simp add: acs_request_def saml_request_def fun_eq_iff APP_URL_def)

lemma saml_settings_encoding:
  "build_saml_settings (env\<lparr>sv_auth := (sv_auth env)\<lparr>jwt_encode := enc, env_JWT_SECRET := k, JWT_EXPIRY_H := h\<rparr>\<rparr>) =
   build_saml_settings env"
  by (simp add: build_saml_settings_def fun_eq_iff APP_URL_def)

text \<open>What the assertion consumer answers and stores is the same whatever the encoding of the token
  is: the page is a constant text around the relay state, so the token that was issued is not sent.\<close>

theorem saml_token_never_sent:
  "saml_acs (env\<lparr>sv_auth := (sv_auth env)\<lparr>jwt_encode := enc, env_JWT_SECRET := k, JWT_EXPIRY_H := h\<rparr>\<rparr>)
      now slug form_response form_relay s = saml_acs env now slug form_response form_relay s \<and>
   (case fst (saml_acs env now slug form_response form_relay s) of
      Inl e \<Rightarrow> True
    | Inr page \<Rightarrow> page = acs_page (case form_relay of None \<Rightarrow> ''/'' | Some v \<Rightarrow> v))"
proof
  show "saml_acs (env\<lparr>sv_auth := (sv_auth env)\<lparr>jwt_encode := enc, env_JWT_SECRET := k, JWT_EXPIRY_H := h\<rparr>\<rparr>)
      now slug form_response form_relay s = saml_acs env now slug form_response form_relay s"
    unfolding saml_acs_def need_saml_library_def Let_def saml_request_encoding saml_settings_encoding by simp
  show "case fst (saml_acs env now slug form_response form_relay s) of
      Inl e \<Rightarrow> True
    | Inr page \<Rightarrow> page = acs_page (case form_relay of None \<Rightarrow> ''/'' | Some v \<Rightarrow> v)"
    using saml_acs_InrD [of env now slug form_response form_relay s]
    by (cases "saml_acs env now slug form_response form_relay s") (fastforce split: sum.splits)
qed

section \<open>Provisioning\<close>

lemma assign_keeps_users: "preserves (\<lambda>s. users s = us) (assign_builtin_role uid tid name now)"
  by (rule preserves_assign_builtin_role) simp_all

lemma assign_keeps_saml: "preserves (\<lambda>s. saml_configs s = cs) (assign_builtin_role uid tid name now)"
  by (rule preserves_assign_builtin_role) simp_all

text \<open>The user that a login leaves, and what it does to the tables.\<close>

definition provisioned :: "uuid \<Rightarrow> string \<Rightarrow> string option \<Rightarrow> py_error + json \<Rightarrow> db \<Rightarrow> db \<Rightarrow> bool" where
  "provisioned tid email name mapped s s' \<longleftrightarrow>
     (case find (\<lambda>u. us_email u = email \<and> us_tenant_id u = tid) (users s) of
        Some u \<Rightarrow> s' = put_user (u\<lparr>us_display_name := name, us_name := name, us_is_active := True\<rparr>) s
      | None \<Rightarrow>
          (\<exists>u role. users s' = users s @ [u] \<and> us_email u = email \<and> us_tenant_id u = tid \<and> us_is_active u \<and>
             us_email_verified u \<and> us_idp_provider u = Some ''saml'' \<and> us_role u = role \<and>
             mapped = Inr (JStr role) \<and>
             (\<exists>r \<in> set (roles s'). ro_tenant_id r = tid \<and> ro_name r = role \<and>
               (\<exists>a \<in> set (role_assignments s'). ra_user_id a = us_id u \<and> ra_role_id a = ro_id r))))"

lemma find_filter: "find p xs = (case filter p xs of [] \<Rightarrow> None | x # _ \<Rightarrow> Some x)"
  by (induction xs) auto

lemma required_text_InrD: "required_text v = Inr t \<Longrightarrow> v = JStr t"
  by (auto simp: required_text_def text_column_def split: json.splits option.splits)

lemma provision_user_InrD:
  assumes "provision_user now t c email name groups s = (Inr u, s')"
  shows "provisioned (tn_id t) email name (map_groups_to_role groups c) s s'"
proof -
  let ?found = "scalar_one_or_none (filter (\<lambda>u. us_email u = email \<and> us_tenant_id u = tn_id t) (users s))"
  have "\<exists>found. ?found = Inr found"
    using assms by (auto simp: provision_user_def split: handler_splits)
  then consider u0 where "?found = Inr (Some u0)" | "?found = Inr None"
    by (metis option.exhaust)
  then show ?thesis
  proof cases
    case (1 u0)
    with assms scalar_one_or_none_SomeD [OF 1] show ?thesis
      by (auto simp: provision_user_def provisioned_def find_filter Let_def)
  next
    case 2
    let ?new = "\<lambda>role. (new_user (next_uuid s) now (tn_id t) email)
        \<lparr>us_display_name := name, us_name := name, us_idp_provider := Some ''saml'',
         us_is_active := True, us_email_verified := True, us_role := role\<rparr>"
    let ?s = "\<lambda>role. s\<lparr>next_uuid := Suc (next_uuid s), users := users s @ [?new role]\<rparr>"
    obtain mapped role where mapped: "map_groups_to_role groups c = Inr mapped" "required_text mapped = Inr role"
      and run: "assign_builtin_role (next_uuid s) (tn_id t) role now (?s role) = (Inr (), s')"
      using assms 2 by (auto simp: provision_user_def Let_def new_user_def split: sum.splits prod.splits if_splits)
    from run have kept: "users s' = users (?s role)"
      using preservesD [OF assign_keeps_users, of "?s role" "users (?s role)"]
      by (metis (no_types, lifting) snd_conv)
    from run obtain r a where
      "filter (\<lambda>r. ro_tenant_id r = tn_id t \<and> ro_name r = role) (roles s') = [r]"
      "filter (\<lambda>a. ra_user_id a = next_uuid s \<and> ra_role_id a = ro_id r) (role_assignments s') = [a]"
      by (rule assign_builtin_role_leaves)
    note rows = this [THEN filter_eq_singleD(1)] this [THEN filter_eq_singleD(2)]
    from 2 have "find (\<lambda>u. us_email u = email \<and> us_tenant_id u = tn_id t) (users s) = None"
      by (auto simp: find_filter dest!: scalar_one_or_none_NoneD)
    moreover from kept have "users s' = users s @ [?new role]" by simp
    moreover from mapped have "map_groups_to_role groups c = Inr (JStr role)" by (simp add: required_text_InrD)
    ultimately show ?thesis
      using rows by (auto simp: provisioned_def new_user_def intro!: bexI [of _ r] bexI [of _ a])
  qed
qed

text \<open>C21: A successful SAML login provisions the user of the assertion's email: a user that exists gets
  its names and is active afterwards, also when it had been deactivated, and neither its role nor any
  other row changes whatever groups the assertion has; a new user gets the role of its groups.\<close>

theorem saml_provisioning:
  assumes "get_db (saml_acs env now slug form_response form_relay) s = (Inr page, s')"
  shows "\<exists>t c r e. get_saml_config slug s = (Inr (t, c), s) \<and>
    sv_process env (acs_request env slug form_response form_relay) (build_saml_settings env slug c) = Inr r \<and>
    so_authenticated r \<and> so_errors r = [] \<and>
    first_attr (so_attributes r) (str_or (sm_email_attribute c) ''emailaddress'') (so_nameid r) = Some e \<and>
    provisioned (tn_id t) e (first_attr (so_attributes r) (str_or (sm_name_attribute c) ''displayname'') (Some e))
      (map_groups_to_role (attr_get (so_attributes r) (str_or (sm_groups_attribute c) ''groups'') []) c) s s'"
proof -
  from get_db_InrD [OF assms] have "saml_acs env now slug form_response form_relay s = (Inr page, s')" by simp
  from saml_acs_InrD [OF this] show ?thesis by (blast dest: provision_user_InrD)
qed

section \<open>The configuration of a tenant\<close>

text \<open>What a successful configuration did.\<close>

lemma configure_saml_InrD:
  assumes "configure_saml env now auth body s = (Inr r, s')"
  shows "\<exists>c t. saml_configs s' = update_where (\<lambda>c. sm_tenant_id c = ac_tenant_id auth)
        (\<lambda>c. c\<lparr>sm_is_active := False\<rparr>) (saml_configs s) @ [c] \<and>
    sm_tenant_id c = ac_tenant_id auth \<and> sm_is_active c \<and>
    dict_get body ''idp_entity_id'' = Some (JStr (sm_idp_entity_id c)) \<and>
    dict_get body ''idp_sso_url'' = Some (JStr (sm_idp_sso_url c)) \<and>
    dict_get body ''idp_certificate'' = Some (JStr (sm_idp_certificate c)) \<and>
    sm_role_mappings c = dict_get_or body ''role_mappings'' (JObj []) \<and>
    ''admin:*'' \<in> ac_permissions auth \<and> tenants s' = tenants s \<and>
    scalar_one_or_none (filter (\<lambda>t. tn_id t = ac_tenant_id auth) (tenants s)) = Inr (Some t) \<and>
    map_of r ''login_url'' = Some (APP_URL (sv_auth env) @ ''/api/auth/saml/'' @ tn_slug t @ ''/login'')"
  using assms
  by (auto simp: configure_saml_def Let_def dict_item_def dest!: required_text_InrD
      split: sum.splits option.splits if_splits)

text \<open>C38: After a tenant's administrator has configured SAML the tenant's slug, the one in the login URL
  of the answer, leads to the new configuration, with the identity provider and the mappings of the
  body, whatever configurations there were before; those of other tenants stay as they are.\<close>

theorem saml_config_roundtrip:
  assumes "get_db (configure_saml env now auth body) s = (Inr r, s')"
  shows "\<exists>t c. tn_id t = ac_tenant_id auth \<and> get_saml_config (tn_slug t) s' = (Inr (t, c), s') \<and>
    map_of r ''login_url'' = Some (APP_URL (sv_auth env) @ ''/api/auth/saml/'' @ tn_slug t @ ''/login'') \<and>
    dict_get body ''idp_entity_id'' = Some (JStr (sm_idp_entity_id c)) \<and>
    dict_get body ''idp_sso_url'' = Some (JStr (sm_idp_sso_url c)) \<and>
    dict_get body ''idp_certificate'' = Some (JStr (sm_idp_certificate c)) \<and>
    sm_role_mappings c = dict_get_or body ''role_mappings'' (JObj []) \<and>
    filter (\<lambda>c. sm_tenant_id c \<noteq> ac_tenant_id auth) (saml_configs s') =
      filter (\<lambda>c. sm_tenant_id c \<noteq> ac_tenant_id auth) (saml_configs s)"
proof -
  from get_db_InrD [OF assms] have run: "configure_saml env now auth body s = (Inr r, s')"
    and con: "constraints s'" by auto
  from configure_saml_InrD [OF run] obtain c t where
    configs: "saml_configs s' = update_where (\<lambda>c. sm_tenant_id c = ac_tenant_id auth)
        (\<lambda>c. c\<lparr>sm_is_active := False\<rparr>) (saml_configs s) @ [c]"
    and c: "sm_tenant_id c = ac_tenant_id auth" "sm_is_active c"
    and body: "dict_get body ''idp_entity_id'' = Some (JStr (sm_idp_entity_id c))"
      "dict_get body ''idp_sso_url'' = Some (JStr (sm_idp_sso_url c))"
      "dict_get body ''idp_certificate'' = Some (JStr (sm_idp_certificate c))"
      "sm_role_mappings c = dict_get_or body ''role_mappings'' (JObj [])"
    and t: "tenants s' = tenants s"
      "scalar_one_or_none (filter (\<lambda>t. tn_id t = ac_tenant_id auth) (tenants s)) = Inr (Some t)"
      "map_of r ''login_url'' = Some (APP_URL (sv_auth env) @ ''/api/auth/saml/'' @ tn_slug t @ ''/login'')"
    by blast
  have "t \<in> set (tenants s')" and id: "tn_id t = ac_tenant_id auth"
    using scalar_one_or_none_filter_Some [OF t(2)] t(1) by simp_all
  then have slug: "filter (\<lambda>x. tn_slug x = tn_slug t) (tenants s') = [t]"
    using con by (auto simp: constraints_def intro: unique_by_filter_key)
  have "filter (\<lambda>c. sm_tenant_id c = tn_id t \<and> sm_is_active c)
      (update_where (\<lambda>c. sm_tenant_id c = ac_tenant_id auth) (\<lambda>c. c\<lparr>sm_is_active := False\<rparr>) cs) = []" for cs
    by (induction cs) (auto simp: id)
  then have "filter (\<lambda>c. sm_tenant_id c = tn_id t \<and> sm_is_active c) (saml_configs s') = [c]"
    by (simp add: configs c id)
  with slug have found: "get_saml_config (tn_slug t) s' = (Inr (t, c), s')"
    by (simp add: get_saml_config_def)
  have others: "filter (\<lambda>c. sm_tenant_id c \<noteq> tid)
      (update_where (\<lambda>c. sm_tenant_id c = tid) (\<lambda>c. c\<lparr>sm_is_active := False\<rparr>) cs) =
      filter (\<lambda>c. sm_tenant_id c \<noteq> tid) cs" for cs tid
    by (induction cs) auto
  have "filter (\<lambda>c. sm_tenant_id c \<noteq> ac_tenant_id auth) (saml_configs s') =
      filter (\<lambda>c. sm_tenant_id c \<noteq> ac_tenant_id auth) (saml_configs s)"
    by (simp add: configs c others)
  with found id body t(3) show ?thesis by blast
qed

section \<open>Witnesses\<close>

definition example_saml_env :: saml_env where
  "example_saml_env =
     \<lparr> sv_auth = example_env, sv_installed = True, sv_login = (\<lambda>req st relay. Inr ''https://idp''),
       sv_process = (\<lambda>req st. Inr \<lparr> so_errors = [], so_authenticated = True,
          so_attributes = [(''emailaddress'', [''a@x.io'']), (''groups'', [''not-an-admin''])],
          so_nameid = None \<rparr>),
       sv_metadata = (\<lambda>st. Inr ''<xml/>'') \<rparr>"

definition example_saml_config :: saml_config where
  "example_saml_config =
     \<lparr> sm_id = 30, sm_tenant_id = 1, sm_idp_entity_id = ''idp'', sm_idp_sso_url = ''https://idp'',
       sm_idp_certificate = ''cert'', sm_email_attribute = None, sm_name_attribute = None,
       sm_groups_attribute = None, sm_role_mappings = JNull, sm_is_active = True, sm_created_by = None,
       sm_created_at = 0 \<rparr>"

text \<open>A group that says the opposite gives the role of an administrator as well.\<close>

lemma group_name_contains_admin:
  "map_groups_to_role [''not-an-admin''] example_saml_config = Inr (JStr ''admin'')"
  by code_simp

definition example_saml_db :: db where
  "example_saml_db = empty_db\<lparr>
     tenants := [new_tenant 1 0 ''acme'' ''a'' None], saml_configs := [example_saml_config],
     users := [(new_user 7 0 1 ''a@x.io'')\<lparr>us_is_active := False\<rparr>], next_uuid := 40\<rparr>"

theorem saml_provisioning_witness:
  "\<exists>page s'. get_db (saml_acs example_saml_env 0 ''acme'' (Some ''r'') None) example_saml_db = (Inr page, s') \<and>
     map us_is_active (users example_saml_db) = [False] \<and> map us_is_active (users s') = [True]"
proof -
  let ?run = "get_db (saml_acs example_saml_env 0 ''acme'' (Some ''r'') None) example_saml_db"
  have "case ?run of (Inl e, s') \<Rightarrow> False | (Inr x, s') \<Rightarrow> True" by code_simp
  then obtain page s' where run: "?run = (Inr page, s')" by (auto split: prod.splits sum.splits)
  have t: "get_saml_config ''acme'' example_saml_db = (Inr (t, c), s) \<longleftrightarrow>
      t = new_tenant 1 0 ''acme'' ''a'' None \<and> c = example_saml_config \<and> s = example_saml_db" for t c s
    by (auto simp: get_saml_config_def example_saml_db_def new_tenant_def example_saml_config_def)
  have "first_attr [(''emailaddress'', [''a@x.io'']), (''groups'', [''not-an-admin''])]
      (str_or (sm_email_attribute example_saml_config) ''emailaddress'') None = Some ''a@x.io''"
    by (simp add: first_attr_def attr_get_def example_saml_config_def str_or_def)
  moreover have "tn_id (new_tenant 1 0 ''acme'' ''a'' None) = 1" by (simp add: new_tenant_def)
  ultimately obtain name mapped where "provisioned 1 ''a@x.io'' name mapped example_saml_db s'"
    using saml_provisioning [OF run] by (auto simp: t example_saml_env_def)
  with run show ?thesis
    by (auto simp: provisioned_def example_saml_db_def new_user_def put_user_def)
qed

theorem saml_config_roundtrip_witness:
  "\<exists>r s' t c. get_db (configure_saml example_saml_env 5 (example_auth\<lparr>ac_permissions := {''admin:*''}\<rparr>)
       [(''idp_entity_id'', JStr ''new''), (''idp_sso_url'', JStr ''u''), (''idp_certificate'', JStr ''c'')])
     example_saml_db = (Inr r, s') \<and>
     get_saml_config (tn_slug t) s' = (Inr (t, c), s') \<and> sm_idp_entity_id c = ''new''"
proof -
  let ?body = "[(''idp_entity_id'', JStr ''new''), (''idp_sso_url'', JStr ''u''), (''idp_certificate'', JStr ''c'')]"
  let ?run = "get_db (configure_saml example_saml_env 5 (example_auth\<lparr>ac_permissions := {''admin:*''}\<rparr>) ?body)
     example_saml_db"
  have "case ?run of (Inl e, s') \<Rightarrow> False | (Inr x, s') \<Rightarrow> True" by code_simp
  then obtain r s' where run: "?run = (Inr r, s')" by (auto split: prod.splits sum.splits)
  from saml_config_roundtrip [OF run] obtain t c where
    "get_saml_config (tn_slug t) s' = (Inr (t, c), s')"
    "dict_get ?body ''idp_entity_id'' = Some (JStr (sm_idp_entity_id c))" by blast
  with run show ?thesis by (auto simp: dict_get_def)
qed

end
