(* ===== verification/Py_Path.thy ===== *)
theory Py_Path
  imports PyText
begin

text \<open>
  What the code uses of \<open>pathlib\<close>, on POSIX: parsing a path (empty and \<open>.\<close> components go, a second
  leading slash stays unless there is a third), its text, its parent, the suffix of its name as of
  Python 3.14, joining, \<open>relative_to\<close>, and \<open>match\<close> with the patterns of \<open>fnmatch\<close>.
\<close>

record pure_path =
  pp_root :: string
  pp_parts :: "string list"

definition path_root :: "string \<Rightarrow> string" where
  "path_root s =
     (if take 1 s \<noteq> ''/'' then '''' else if take 2 s = ''//'' \<and> take 3 s \<noteq> ''///'' then ''//'' else ''/'')"

definition parse_path :: "string \<Rightarrow> pure_path" where
  "parse_path s = \<lparr> pp_root = path_root s,
     pp_parts = filter (\<lambda>p. p \<noteq> '''' \<and> p \<noteq> ''.'') (split_char (CHR ''/'') s) \<rparr>"

definition path_str :: "pure_path \<Rightarrow> string" where
  "path_str p =
     (if pp_root p = '''' \<and> pp_parts p = [] then ''.'' else pp_root p @ str_join ''/'' (pp_parts p))"

definition path_parent :: "pure_path \<Rightarrow> pure_path" where
  "path_parent p = p\<lparr>pp_parts := butlast (pp_parts p)\<rparr>"

definition path_name :: "pure_path \<Rightarrow> string" where
  "path_name p = (if pp_parts p = [] then '''' else last (pp_parts p))"

text \<open>\<open>posixpath.splitext\<close> of a name: from the last dot on, if something other than a dot precedes it.\<close>

definition split_suffix :: "string \<Rightarrow> string" where
  "split_suffix name =
     (let tail = rev (takeWhile (\<lambda>c. c \<noteq> CHR ''.'') (rev name));
          front = take (length name - Suc (length tail)) name
      in if length tail < length name \<and> (\<exists>c \<in> set front. c \<noteq> CHR ''.'') then ''.'' @ tail else '''')"

definition path_suffix :: "pure_path \<Rightarrow> string" where
  "path_suffix p = split_suffix (path_name p)"

definition path_join :: "pure_path \<Rightarrow> string \<Rightarrow> pure_path" where
  "path_join p s =
     (let q = parse_path s in if pp_root q \<noteq> '''' then q else p\<lparr>pp_parts := pp_parts p @ pp_parts q\<rparr>)"

section \<open>Patterns\<close>

text \<open>The characters of \<open>[...]\<close>: ranges and single ones; a range that goes down is empty.\<close>

fun set_items :: "string \<Rightarrow> (char \<times> char) list" where
  "set_items [] = []"
| "set_items [c] = [(c, c)]"
| "set_items [c, c'] = [(c, c), (c', c')]"
| "set_items (c # d # e # cs) =
     (if d = CHR ''-'' then (c, e) # set_items cs else (c, c) # set_items (d # e # cs))"

text \<open>
  What follows an opening bracket: whether the set is negated, its items and the rest of the
  pattern, or nothing when no bracket closes it. A bracket that comes first belongs to the set.
\<close>

definition bracket_set :: "string \<Rightarrow> (bool \<times> (char \<times> char) list \<times> string) option" where
  "bracket_set p =
     (let neg = (take 1 p = ''!'');
          q = (if neg then drop 1 p else p);
          lead = (if take 1 q = '']'' then ['']'' ! 0] else []);
          body = takeWhile (\<lambda>c. c \<noteq> CHR '']'') (drop (length lead) q);
          rest = drop (length lead + length body) q
      in if rest = [] then None else Some (neg, set_items (lead @ body), drop 1 rest))"

definition in_items :: "char \<Rightarrow> (char \<times> char) list \<Rightarrow> bool" where
  "in_items c items \<longleftrightarrow> (\<exists>(a, b) \<in> set items. char_code a \<le> char_code c \<and> char_code c \<le> char_code b)"

lemma bracket_set_shorter: "bracket_set p = Some (neg, items, rest) \<Longrightarrow> length rest < Suc (length p)"
  by (auto simp: bracket_set_def Let_def split: if_splits)

function fn_match :: "string \<Rightarrow> string \<Rightarrow> bool" where
  "fn_match [] s = (s = [])"
| "fn_match (k # p) s =
     (if k = CHR ''*'' then fn_match p s \<or> (case s of [] \<Rightarrow> False | c # t \<Rightarrow> fn_match (k # p) t)
      else (case s of
              [] \<Rightarrow> False
            | c # t \<Rightarrow>
                if k = CHR ''?'' then fn_match p t
                else if k = CHR ''['' then
                  (case bracket_set p of
                     None \<Rightarrow> c = k \<and> fn_match p t
                   | Some (neg, items, rest) \<Rightarrow> in_items c items \<noteq> neg \<and> fn_match rest t)
                else c = k \<and> fn_match p t))"
  by pat_completeness auto

termination
  by (relation "measure (\<lambda>(p, s). length p + length s)") (auto dest: bracket_set_shorter)

text \<open>
  \<open>path.match(pattern)\<close>: the components from the right, those of an anchored pattern all of them.
  The pattern of no components is an error.
\<close>

definition path_match :: "pure_path \<Rightarrow> string \<Rightarrow> py_error + bool" where
  "path_match p pattern =
     (let q = parse_path pattern;
          parts = (if pp_root p = '''' then [] else [pp_root p]) @ pp_parts p;
          pattern_parts = (if pp_root q = '''' then [] else [pp_root q]) @ pp_parts q
      in if pattern_parts = [] then Inl (ValueError ''empty pattern'')
         else if length parts < length pattern_parts then Inr False
         else if length parts > length pattern_parts \<and> pp_root q \<noteq> '''' then Inr False
         else Inr (list_all2 (\<lambda>part pat. fn_match pat part)
                (drop (length parts - length pattern_parts) parts) pattern_parts))"

section \<open>A path and its text\<close>

text \<open>What a parsed path can be.\<close>

definition plain_part :: "string \<Rightarrow> bool" where
  "plain_part p \<longleftrightarrow> p \<noteq> '''' \<and> p \<noteq> ''.'' \<and> CHR ''/'' \<notin> set p"

definition path_wf :: "pure_path \<Rightarrow> bool" where
  "path_wf p \<longleftrightarrow> pp_root p \<in> {'''', ''/'', ''//''} \<and> (\<forall>x \<in> set (pp_parts p). plain_part x)"

lemma split_char_parts: "x \<in> set (split_char c s) \<Longrightarrow> c \<notin> set x"
  by (induction s arbitrary: x) (auto split: if_splits list.splits)

lemma path_wf_parse: "path_wf (parse_path s)"
  by (auto simp: path_wf_def parse_path_def path_root_def plain_part_def dest: split_char_parts)

lemma path_wf_parent: "path_wf p \<Longrightarrow> path_wf (path_parent p)"
  by (auto simp: path_wf_def path_parent_def dest: in_set_butlastD)

lemma split_char_plain: "c \<notin> set p \<Longrightarrow> split_char c p = [p]"
  by (induction p) auto

lemma split_char_sep: "c \<notin> set p \<Longrightarrow> split_char c (p @ c # s) = p # split_char c s"
  by (induction p) auto

lemma split_char_join:
  assumes "ps \<noteq> []" and "\<forall>p \<in> set ps. c \<notin> set p"
  shows "split_char c (str_join [c] ps) = ps"
  using assms
proof (induction ps)
  case (Cons p ps)
  show ?case
  proof (cases ps)
    case Nil
    with Cons.prems show ?thesis by (simp add: str_join_def split_char_plain)
  next
    case (Cons q qs)
    then have "str_join [c] (p # ps) = p @ c # str_join [c] ps" by (simp add: str_join_def)
    with Cons.IH Cons.prems Cons show ?thesis by (simp add: split_char_sep)
  qed
qed simp

lemma str_join_hd:
  assumes "ps \<noteq> []" and "\<forall>x \<in> set ps. plain_part x"
  obtains c s where "str_join ''/'' ps = c # s" and "c \<noteq> CHR ''/''"
proof -
  obtain p qs where ps: "ps = p # qs" using assms(1) by (cases ps) auto
  with assms(2) obtain c s where p: "p = c # s" and c: "c \<noteq> CHR ''/''"
    by (cases p) (auto simp: plain_part_def)
  with that [OF _ c] ps show thesis by (simp add: str_join_def)
qed

lemma path_root_str: "path_wf p \<Longrightarrow> path_root (path_str p) = pp_root p"
proof -
  assume wf: "path_wf p"
  show ?thesis
  proof (cases "pp_parts p = []")
    case True
    with wf show ?thesis by (auto simp: path_wf_def path_str_def path_root_def str_join_def)
  next
    case False
    with wf obtain c s where "str_join ''/'' (pp_parts p) = c # s" "c \<noteq> CHR ''/''"
      by (auto simp: path_wf_def intro: str_join_hd)
    with wf False show ?thesis by (auto simp: path_wf_def path_str_def path_root_def)
  qed
qed

text \<open>Parsing the text of a path gives the path back.\<close>

lemma parse_path_str:
  assumes "path_wf p"
  shows "parse_path (path_str p) = p"
proof -
  let ?keep = "filter (\<lambda>p. p \<noteq> '''' \<and> p \<noteq> ''.'')"
  have keep: "?keep (pp_parts p) = pp_parts p"
    using assms by (auto simp: path_wf_def plain_part_def filter_id_conv)
  have root: "?keep (split_char (CHR ''/'') (pp_root p @ t)) = ?keep (split_char (CHR ''/'') t)" for t
    using assms by (auto simp: path_wf_def)
  have "?keep (split_char (CHR ''/'') (path_str p)) = pp_parts p"
  proof (cases "pp_parts p = []")
    case True
    then show ?thesis using root [of "[]"] by (auto simp: path_str_def str_join_def)
  next
    case False
    with assms have "split_char (CHR ''/'') (str_join ''/'' (pp_parts p)) = pp_parts p"
      by (intro split_char_join) (auto simp: path_wf_def plain_part_def)
    with False root keep show ?thesis by (simp add: path_str_def)
  qed
  with path_root_str [OF assms] show ?thesis by (simp add: parse_path_def)
qed

lemma path_str_inject: "path_wf p \<Longrightarrow> path_wf q \<Longrightarrow> path_str p = path_str q \<longleftrightarrow> p = q"
  by (metis parse_path_str)

lemma parent_fixed: "path_parent p = p \<longleftrightarrow> pp_parts p = []"
proof
  assume "path_parent p = p"
  then have "length (pp_parts (path_parent p)) = length (pp_parts p)" by simp
  then have "length (pp_parts p) - 1 = length (pp_parts p)" by (simp add: path_parent_def)
  then show "pp_parts p = []" by (cases "pp_parts p") auto
qed (simp add: path_parent_def)

end
