(* ===== verification/Sdk.thy ===== *)
theory Sdk
  imports Py_Path Oidc
begin

text \<open>
  The connectors of \<open>connectors/sdk.py\<close>, \<open>connectors/gcs.py\<close> and \<open>connectors/sharepoint.py\<close>: their
  manifests, the records they yield and what becomes of a record in the graph, the walk of each
  connector, the tests of a connection, and the registry.

  A generator is the list of what it yields and the exception it ends with, if any. The client
  libraries of the stores, the file system, HTTP and the parsing of dates are the fields of
  \<open>sdk_env\<close>. A bucket or a container whose configured name is not a text is refused by those
  libraries before anything is yielded, so its name is a text where a record is built. The names in
  a directory are distinct and have no slash; the order is that of the listing.
\<close>

section \<open>Manifests\<close>

record connector_manifest =
  cm_id :: string
  cm_name :: string
  cm_description :: string
  cm_version :: string
  cm_author :: string
  cm_icon_url :: string
  cm_config_schema :: py_dict
  cm_capabilities :: "string list"

definition s3_manifest :: connector_manifest where
  "s3_manifest =
     \<lparr> cm_id = ''aws-s3'', cm_name = ''Amazon S3'',
       cm_description = ''Index objects from an AWS S3 bucket'',
       cm_version = ''1.0.0'', cm_author = ''dgraph.ai'', cm_icon_url = ''https://dgraph.ai/icons/aws-s3.svg'',
       cm_config_schema =
         [(''type'', JStr ''object''),
          (''properties'', JObj
             [(''bucket'', JObj [(''type'', JStr ''string''), (''title'', JStr ''Bucket name'')]),
              (''prefix'', JObj [(''type'', JStr ''string''), (''title'', JStr ''Key prefix (optional)''), (''default'', JStr '''')]),
              (''region'', JObj [(''type'', JStr ''string''), (''title'', JStr ''AWS Region''), (''default'', JStr ''us-east-1'')]),
              (''endpoint_url'', JObj [(''type'', JStr ''string''), (''title'', JStr ''Custom endpoint (for MinIO/LocalStack)'')]),
              (''access_key_id'', JObj [(''type'', JStr ''string''), (''title'', JStr ''AWS Access Key ID (leave blank for IAM role)'')]),
              (''secret_access_key'', JObj [(''type'', JStr ''string''), (''title'', JStr ''AWS Secret Access Key''), (''format'', JStr ''password'')])]),
          (''required'', JArr [JStr ''bucket''])],
       cm_capabilities = [''read'', ''stream''] \<rparr>"

definition azure_manifest :: connector_manifest where
  "azure_manifest =
     \<lparr> cm_id = ''azure-blob'', cm_name = ''Azure Blob Storage'',
       cm_description = ''Index blobs from an Azure Storage container'',
       cm_version = ''1.0.0'', cm_author = ''dgraph.ai'', cm_icon_url = ''https://dgraph.ai/icons/azure-blob.svg'',
       cm_config_schema =
         [(''type'', JStr ''object''),
          (''properties'', JObj
             [(''account_name'', JObj [(''type'', JStr ''string''), (''title'', JStr ''Storage account name'')]),
              (''container'', JObj [(''type'', JStr ''string''), (''title'', JStr ''Container name'')]),
              (''prefix'', JObj [(''type'', JStr ''string''), (''title'', JStr ''Blob prefix (optional)'')]),
              (''connection_string'', JObj [(''type'', JStr ''string''), (''title'', JStr ''Connection string''), (''format'', JStr ''password'')]),
              (''sas_token'', JObj [(''type'', JStr ''string''), (''title'', JStr ''SAS token''), (''format'', JStr ''password'')])]),
          (''required'', JArr [JStr ''account_name'', JStr ''container''])],
       cm_capabilities = [''read'', ''stream''] \<rparr>"

definition local_manifest :: connector_manifest where
  "local_manifest =
     \<lparr> cm_id = ''local'', cm_name = ''Local folder'',
       cm_description = ''Index files from a local folder or mounted drive'',
       cm_version = ''1.0.0'', cm_author = ''dgraph.ai'', cm_icon_url = ''https://dgraph.ai/icons/local.svg'',
       cm_config_schema =
         [(''type'', JStr ''object''),
          (''properties'', JObj
             [(''path'', JObj [(''type'', JStr ''string''), (''title'', JStr ''Folder path''), (''placeholder'', JStr (''/mnt/data or C:'' @ [CHR 0x5C] @ ''Data''))]),
              (''follow_symlinks'', JObj [(''type'', JStr ''boolean''), (''title'', JStr ''Follow symlinks''), (''default'', JBool False)]),
              (''exclude_patterns'', JObj [(''type'', JStr ''string''), (''title'', JStr ''Exclude patterns (comma-separated glob)''), (''default'', JStr ''.git,node_modules,.DS_Store'')])]),
          (''required'', JArr [JStr ''path''])],
       cm_capabilities = [''read'', ''stream'', ''watch''] \<rparr>"

definition smb_manifest :: connector_manifest where
  "smb_manifest =
     \<lparr> cm_id = ''smb'', cm_name = ''NAS / SMB Share'',
       cm_description = ''Index files from a Synology, QNAP, Windows share, or any SMB/CIFS server'',
       cm_version = ''1.0.0'', cm_author = ''dgraph.ai'', cm_icon_url = ''https://dgraph.ai/icons/smb.svg'',
       cm_config_schema =
         [(''type'', JStr ''object''),
          (''properties'', JObj
             [(''host'', JObj [(''type'', JStr ''string''), (''title'', JStr ''Host / IP address''), (''placeholder'', JStr ''192.168.1.10'')]),
              (''share'', JObj [(''type'', JStr ''string''), (''title'', JStr ''Share name''), (''placeholder'', JStr ''Media'')]),
              (''username'', JObj [(''type'', JStr ''string''), (''title'', JStr ''Username'')]),
              (''password'', JObj [(''type'', JStr ''string''), (''title'', JStr ''Password''), (''format'', JStr ''password'')]),
              (''domain'', JObj [(''type'', JStr ''string''), (''title'', JStr ''Domain (optional)''), (''default'', JStr ''WORKGROUP'')]),
              (''port'', JObj [(''type'', JStr ''integer''), (''title'', JStr ''Port''), (''default'', JInt 445)]),
              (''path'', JObj [(''type'', JStr ''string''), (''title'', JStr ''Sub-path (optional)''), (''default'', JStr ''/'')])]),
          (''required'', JArr [JStr ''host'', JStr ''share''])],
       cm_capabilities = [''read'', ''stream''] \<rparr>"

definition nfs_manifest :: connector_manifest where
  "nfs_manifest =
     \<lparr> cm_id = ''nfs'', cm_name = ''NFS Share'',
       cm_description = ''Index files from a locally-mounted NFS share'',
       cm_version = ''1.0.0'', cm_author = ''dgraph.ai'', cm_icon_url = ''https://dgraph.ai/icons/nfs.svg'',
       cm_config_schema =
         [(''type'', JStr ''object''),
          (''properties'', JObj
             [(''host'', JObj [(''type'', JStr ''string''), (''title'', JStr ''NFS server host''), (''placeholder'', JStr ''192.168.1.10'')]),
              (''export_path'', JObj [(''type'', JStr ''string''), (''title'', JStr ''Export path on server''), (''placeholder'', JStr ''/volume1/data'')]),
              (''mount_point'', JObj [(''type'', JStr ''string''), (''title'', JStr ''Local mount point''), (''placeholder'', JStr ''/mnt/nas'')])]),
          (''required'', JArr [JStr ''host'', JStr ''export_path'', JStr ''mount_point''])],
       cm_capabilities = [''read'', ''stream''] \<rparr>"

definition sharepoint_manifest :: connector_manifest where
  "sharepoint_manifest =
     \<lparr> cm_id = ''sharepoint'', cm_name = ''SharePoint / OneDrive'',
       cm_description = ''Index files from SharePoint sites or OneDrive for Business'',
       cm_version = ''1.0.0'', cm_author = ''dgraph.ai'', cm_icon_url = ''https://dgraph.ai/icons/sharepoint.svg'',
       cm_config_schema =
         [(''type'', JStr ''object''),
          (''properties'', JObj
             [(''tenant_id'', JObj [(''type'', JStr ''string''), (''title'', JStr ''Azure Tenant ID'')]),
              (''client_id'', JObj [(''type'', JStr ''string''), (''title'', JStr ''App (client) ID'')]),
              (''client_secret'', JObj [(''type'', JStr ''string''), (''title'', JStr ''Client secret''), (''format'', JStr ''password'')]),
              (''site_url'', JObj [(''type'', JStr ''string''), (''title'', JStr ''SharePoint site URL''), (''placeholder'', JStr ''https://contoso.sharepoint.com/sites/IT'')]),
              (''drive_name'', JObj [(''type'', JStr ''string''), (''title'', JStr ''Drive/library name''), (''default'', JStr ''Documents'')]),
              (''path'', JObj [(''type'', JStr ''string''), (''title'', JStr ''Folder path (optional)''), (''default'', JStr ''/'')])]),
          (''required'', JArr [JStr ''tenant_id'', JStr ''client_id'', JStr ''client_secret'', JStr ''site_url''])],
       cm_capabilities = [''read'', ''stream''] \<rparr>"

definition gcs_manifest :: connector_manifest where
  "gcs_manifest =
     \<lparr> cm_id = ''gcs'', cm_name = ''Google Cloud Storage'',
       cm_description = ''Index objects from a GCS bucket'',
       cm_version = ''1.0.0'', cm_author = ''dgraph.ai'', cm_icon_url = ''https://dgraph.ai/icons/gcs.svg'',
       cm_config_schema =
         [(''type'', JStr ''object''),
          (''properties'', JObj
             [(''bucket'', JObj [(''type'', JStr ''string''), (''title'', JStr ''Bucket name'')]),
              (''prefix'', JObj [(''type'', JStr ''string''), (''title'', JStr ''Object prefix (optional)''), (''default'', JStr '''')]),
              (''use_adc'', JObj [(''type'', JStr ''boolean''), (''title'', JStr ''Use Application Default Credentials''), (''default'', JBool True), (''description'', JStr ''Recommended for GKE/Cloud Run. Uncheck to use service account JSON.'')]),
              (''credentials_json'', JObj [(''type'', JStr ''string''), (''title'', JStr ''Service account JSON key''), (''format'', JStr ''password''), (''description'', JStr ''Paste the full service account JSON. Only needed if ADC is off.'')]),
              (''project_id'', JObj [(''type'', JStr ''string''), (''title'', JStr ''GCP Project ID (optional)'')])]),
          (''required'', JArr [JStr ''bucket''])],
       cm_capabilities = [''read'', ''stream''] \<rparr>"


text \<open>The connector classes: the built-in ones, and a class somebody registers.\<close>

datatype connector_class =
    LocalConnector
  | SMBConnector
  | NFSConnector
  | S3Connector
  | AzureBlobConnector
  | SharePointConnector
  | GCSConnector
  | CustomConnector connector_manifest

fun manifest :: "connector_class \<Rightarrow> connector_manifest" where
  "manifest LocalConnector = local_manifest"
| "manifest SMBConnector = smb_manifest"
| "manifest NFSConnector = nfs_manifest"
| "manifest S3Connector = s3_manifest"
| "manifest AzureBlobConnector = azure_manifest"
| "manifest SharePointConnector = sharepoint_manifest"
| "manifest GCSConnector = gcs_manifest"
| "manifest (CustomConnector m) = m"

type_synonym connector_registry = "(string \<times> connector_class) list"

definition REGISTRY :: connector_registry where
  "REGISTRY =
     [(''local'', LocalConnector), (''smb'', SMBConnector), (''nfs'', NFSConnector), (''aws-s3'', S3Connector),
      (''azure-blob'', AzureBlobConnector), (''sharepoint'', SharePointConnector), (''gcs'', GCSConnector)]"

definition register_connector :: "connector_class \<Rightarrow> connector_registry \<Rightarrow> connector_registry" where
  "register_connector c reg = dict_set (cm_id (manifest c)) c reg"

definition get_connector :: "connector_registry \<Rightarrow> string \<Rightarrow> connector_class option" where
  "get_connector reg connector_type = map_of reg connector_type"

definition list_connectors :: "connector_registry \<Rightarrow> connector_manifest list" where
  "list_connectors reg = map (manifest \<circ> snd) reg"

section \<open>File records\<close>

record file_record =
  cr_path :: string
  cr_name :: string
  cr_size_bytes :: int
  cr_modified :: rat
  cr_is_dir :: bool
  cr_sha256 :: "string option"
  cr_suffix :: string
  cr_host :: string
  cr_share :: string
  cr_bucket :: string
  cr_key :: string
  cr_etag :: string
  cr_extra :: py_dict

definition new_file_record :: "string \<Rightarrow> string \<Rightarrow> int \<Rightarrow> rat \<Rightarrow> file_record" where
  "new_file_record path name size_bytes modified =
     \<lparr> cr_path = path, cr_name = name, cr_size_bytes = size_bytes, cr_modified = modified, cr_is_dir = False,
       cr_sha256 = None, cr_suffix = '''', cr_host = '''', cr_share = '''', cr_bucket = '''', cr_key = '''',
       cr_etag = '''', cr_extra = [] \<rparr>"

definition record_key :: "string \<Rightarrow> file_record \<Rightarrow> string \<Rightarrow> string" where
  "record_key connector_id r path =
     connector_id @ '':'' @ cr_host r @ '':'' @ cr_share r @ '':'' @ cr_bucket r @ '':'' @ path"

definition stable_id :: "(string \<Rightarrow> string) \<Rightarrow> file_record \<Rightarrow> string \<Rightarrow> string" where
  "stable_id sha r connector_id = take 24 (sha (record_key connector_id r (cr_path r)))"

definition to_node :: "(string \<Rightarrow> string) \<Rightarrow> file_record \<Rightarrow> string \<Rightarrow> py_dict" where
  "to_node sha r connector_id =
     [(''op'', JStr ''upsert''),
      (''type'', JStr (if cr_is_dir r then ''Directory'' else ''File'')),
      (''id'', JStr (stable_id sha r connector_id)),
      (''props'', JObj (dict_update
        [(''path'', JStr (cr_path r)),
         (''name'', JStr (cr_name r)),
         (''size_bytes'', JInt (if \<not> cr_is_dir r then cr_size_bytes r else 0)),
         (''modified'', JNum (cr_modified r)),
         (''sha256'', JStr (str_or (cr_sha256 r) (cr_etag r))),
         (''extension'', JStr (cr_suffix r)),
         (''host'', JStr (cr_host r)),
         (''share'', JStr (cr_share r)),
         (''bucket'', JStr (cr_bucket r)),
         (''connector_id'', JStr connector_id)]
        (cr_extra r)))]"

definition to_parent_edge :: "(string \<Rightarrow> string) \<Rightarrow> file_record \<Rightarrow> string \<Rightarrow> py_dict option" where
  "to_parent_edge sha r connector_id =
     (let parent = path_str (path_parent (parse_path (cr_path r)))
      in if parent = cr_path r then None
         else Some [(''op'', JStr ''upsert''), (''type'', JStr ''CHILD_OF''),
                    (''from'', JStr (stable_id sha r connector_id)),
                    (''to'', JStr (take 24 (sha (record_key connector_id r parent)))),
                    (''props'', JObj [])])"

section \<open>Generators\<close>

type_synonym 'a gen = "'a list \<times> py_error option"

definition gen_then :: "'a gen \<Rightarrow> 'a gen \<Rightarrow> 'a gen" where
  "gen_then g h = (case g of (xs, Some e) \<Rightarrow> (xs, Some e) | (xs, None) \<Rightarrow> (xs @ fst h, snd h))"

definition gen_fail :: "py_error \<Rightarrow> 'a gen" where
  "gen_fail e = ([], Some e)"

text \<open>\<open>for x in xs: ... yield f(x)\<close>, where \<open>f\<close> may raise or skip the item.\<close>

fun gen_for :: "('x \<Rightarrow> py_error + 'a option) \<Rightarrow> 'x list \<Rightarrow> 'a gen" where
  "gen_for f [] = ([], None)"
| "gen_for f (x # xs) =
     (case f x of
        Inl e \<Rightarrow> gen_fail e
      | Inr None \<Rightarrow> gen_for f xs
      | Inr (Some r) \<Rightarrow> gen_then ([r], None) (gen_for f xs))"

section \<open>The world outside\<close>

text \<open>A file with its size and time, if \<open>stat\<close> works; a directory: a link to one, readable, its entries.\<close>

datatype fs_node =
    FsFile "(int \<times> rat) option"
  | FsDir bool bool "(string \<times> fs_node) list"

record s3_object =
  so_key :: string
  so_size :: int
  so_last_modified :: rat
  so_etag :: "string option"
  so_storage_class :: "string option"

record azure_blob =
  az_name :: string
  az_size :: "int option"
  az_last_modified :: "rat option"
  az_etag :: "string option"
  az_content_settings :: "json option"

record gcs_blob =
  gb_name :: string
  gb_size :: "int option"
  gb_updated :: "rat option"
  gb_etag :: "string option"
  gb_content_type :: "string option"
  gb_storage_class :: "string option"
  gb_public_url :: string
  gb_generation :: json

record smb_entry =
  se_name :: string
  se_is_file :: bool
  se_st_size :: int
  se_st_mtime :: rat

record drive_item =
  di_id :: "string option"
  di_name :: "string option"
  di_size :: "int option"
  di_parent_path :: "string option"
  di_modified :: "string option"
  di_folder :: bool
  di_web_url :: "string option"
  di_mime_type :: "string option"

record drive_page =
  dp_items :: "drive_item list"
  dp_next :: "string option"

datatype azure_client = FromConnectionString json | AccountUrl string json

datatype gcs_client = AdcClient json | ServiceAccount json json

record sdk_env =
  sx_sha256 :: "string \<Rightarrow> string"
  sx_repr :: "json \<Rightarrow> string"
  sx_err :: "py_error \<Rightarrow> string"
  sx_installed :: "string \<Rightarrow> bool"
  sx_expanduser :: "string \<Rightarrow> string"
  sx_fs :: "string \<Rightarrow> fs_node option"
  sx_s3_pages :: "py_dict \<Rightarrow> string \<Rightarrow> json \<Rightarrow> s3_object list option gen"
  sx_s3_head_bucket :: "json \<Rightarrow> json \<Rightarrow> py_error + unit"
  sx_azure_blobs :: "azure_client \<Rightarrow> string \<Rightarrow> json \<Rightarrow> azure_blob gen"
  sx_azure_account :: "azure_client \<Rightarrow> py_error + unit"
  sx_gcs_blobs :: "gcs_client \<Rightarrow> string \<Rightarrow> json \<Rightarrow> py_error + gcs_blob list"
  sx_gcs_reload :: "gcs_client \<Rightarrow> json \<Rightarrow> py_error + unit"
  sx_json_loads :: "string \<Rightarrow> py_error + json"
  sx_smb_session :: "json \<Rightarrow> json \<Rightarrow> json \<Rightarrow> json \<Rightarrow> py_error + unit"
  sx_smb_scandir :: "string \<Rightarrow> smb_entry gen"
  sx_smb_listdir :: "string \<Rightarrow> py_error + unit"
  sx_post_token :: "string \<Rightarrow> py_dict \<Rightarrow> py_error + bool \<times> string option"
  sx_get_site :: "string \<Rightarrow> string \<Rightarrow> py_error + bool \<times> string option"
  sx_get_drives :: "string \<Rightarrow> string \<Rightarrow> py_error + bool \<times> (string option \<times> string option) list"
  sx_get_page :: "string \<Rightarrow> string \<Rightarrow> py_error + bool \<times> drive_page"
  sx_fromisoformat :: "string \<Rightarrow> rat option"

definition fmt :: "sdk_env \<Rightarrow> json \<Rightarrow> string" where
  "fmt env v = py_str (sx_repr env) v"

definition lower_suffix :: "string \<Rightarrow> string" where
  "lower_suffix key = str_lower (path_suffix (parse_path key))"

definition last_component :: "string \<Rightarrow> string" where
  "last_component key = last (split_char (CHR ''/'') key)"

section \<open>Object stores\<close>

definition s3_kwargs :: "py_dict \<Rightarrow> py_dict" where
  "s3_kwargs config =
     (let region = dict_get_or config ''region'' (JStr ''us-east-1'');
          endpoint = dict_get_or config ''endpoint_url'' JNull;
          ak = dict_get_or config ''access_key_id'' JNull;
          sk = dict_get_or config ''secret_access_key'' JNull
      in [(''region_name'', region)]
         @ (if truthy endpoint then [(''endpoint_url'', endpoint)] else [])
         @ (if truthy ak \<and> truthy sk then [(''aws_access_key_id'', ak), (''aws_secret_access_key'', sk)] else []))"

definition s3_record :: "string \<Rightarrow> s3_object \<Rightarrow> file_record option" where
  "s3_record bucket obj =
     (if suffix ''/'' (so_key obj) then None
      else Some ((new_file_record (''s3://'' @ bucket @ ''/'' @ so_key obj) (last_component (so_key obj))
                    (so_size obj) (so_last_modified obj))
             \<lparr>cr_suffix := lower_suffix (so_key obj), cr_bucket := bucket, cr_key := so_key obj,
              cr_etag := strip_char (CHR 0x22) (case so_etag obj of None \<Rightarrow> '''' | Some t \<Rightarrow> t),
              cr_extra := [(''storage_class'', JStr (case so_storage_class obj of None \<Rightarrow> ''STANDARD'' | Some c \<Rightarrow> c))]\<rparr>))"

definition s3_walk :: "sdk_env \<Rightarrow> py_dict \<Rightarrow> file_record gen" where
  "s3_walk env config =
     (if \<not> sx_installed env ''boto3'' then gen_fail (OtherError ''RuntimeError'')
      else case dict_item config ''bucket'' of
          Inl e \<Rightarrow> gen_fail e
        | Inr bucket \<Rightarrow>
            (let prefix = dict_get_or config ''prefix'' (JStr '''');
                 pages = sx_s3_pages env (s3_kwargs config) (fmt env bucket) prefix;
                 objects = concat (map (\<lambda>p. case p of None \<Rightarrow> [] | Some os \<Rightarrow> os) (fst pages))
             in gen_then (gen_for (\<lambda>obj. Inr (s3_record (fmt env bucket) obj)) objects) ([], snd pages)))"

definition azure_client_of :: "sdk_env \<Rightarrow> py_dict \<Rightarrow> json \<Rightarrow> azure_client" where
  "azure_client_of env config account =
     (let conn_str = dict_get_or config ''connection_string'' JNull
      in if truthy conn_str then FromConnectionString conn_str
         else let sas = dict_get_or config ''sas_token'' (JStr '''')
              in AccountUrl (''https://'' @ fmt env account @ ''.blob.core.windows.net'')
                   (if truthy sas then sas else JNull))"

definition azure_record :: "string \<Rightarrow> string \<Rightarrow> azure_blob \<Rightarrow> file_record" where
  "azure_record account container blob =
     (new_file_record (''azure://'' @ account @ ''/'' @ container @ ''/'' @ az_name blob)
        (last_component (az_name blob)) (case az_size blob of None \<Rightarrow> 0 | Some n \<Rightarrow> n)
        (case az_last_modified blob of None \<Rightarrow> 0 | Some t \<Rightarrow> t))
     \<lparr>cr_suffix := lower_suffix (az_name blob), cr_bucket := container, cr_key := az_name blob,
      cr_etag := str_or (az_etag blob) '''',
      cr_extra := [(''content_type'', case az_content_settings blob of None \<Rightarrow> JStr '''' | Some v \<Rightarrow> v)]\<rparr>"

definition azure_walk :: "sdk_env \<Rightarrow> py_dict \<Rightarrow> file_record gen" where
  "azure_walk env config =
     (if \<not> sx_installed env ''azure'' then gen_fail (OtherError ''RuntimeError'')
      else case dict_item config ''account_name'' of
          Inl e \<Rightarrow> gen_fail e
        | Inr account \<Rightarrow>
            (case dict_item config ''container'' of
               Inl e \<Rightarrow> gen_fail e
             | Inr container \<Rightarrow>
                 (let prefix = dict_get_or config ''prefix'' (JStr '''');
                      blobs = sx_azure_blobs env (azure_client_of env config account) (fmt env container) prefix
                  in gen_then
                       (gen_for (\<lambda>b. Inr (Some (azure_record (fmt env account) (fmt env container) b))) (fst blobs))
                       ([], snd blobs))))"

definition gcs_client_of :: "sdk_env \<Rightarrow> py_dict \<Rightarrow> py_error + gcs_client" where
  "gcs_client_of env config =
     (if \<not> sx_installed env ''google'' then Inl (OtherError ''RuntimeError'')
      else let project = dict_get_or config ''project_id'' JNull
      in if truthy (dict_get_or config ''use_adc'' (JBool True)) then Inr (AdcClient project)
         else let creds_json = dict_get_or config ''credentials_json'' (JStr '''')
              in if \<not> truthy creds_json then Inl (ValueError ''credentials_json required when use_adc is false'')
                 else (case creds_json of
                         JStr t \<Rightarrow> map_sum id (\<lambda>info. ServiceAccount info project) (sx_json_loads env t)
                       | _ \<Rightarrow> Inr (ServiceAccount creds_json project)))"

definition gcs_record :: "sdk_env \<Rightarrow> string \<Rightarrow> gcs_blob \<Rightarrow> file_record option" where
  "gcs_record env bucket blob =
     (if suffix ''/'' (gb_name blob) then None
      else Some ((new_file_record (''gs://'' @ bucket @ ''/'' @ gb_name blob) (last_component (gb_name blob))
                    (case gb_size blob of None \<Rightarrow> 0 | Some n \<Rightarrow> n) (case gb_updated blob of None \<Rightarrow> 0 | Some t \<Rightarrow> t))
             \<lparr>cr_suffix := lower_suffix (gb_name blob), cr_bucket := bucket, cr_key := gb_name blob,
              cr_etag := str_or (gb_etag blob) '''',
              cr_extra :=
                [(''content_type'', JStr (str_or (gb_content_type blob) '''')),
                 (''storage_class'', JStr (str_or (gb_storage_class blob) '''')),
                 (''public_url'', JStr (gb_public_url blob)),
                 (''generation'', JStr (fmt env (gb_generation blob)))]\<rparr>))"

definition gcs_walk :: "sdk_env \<Rightarrow> py_dict \<Rightarrow> file_record gen" where
  "gcs_walk env config =
     (case gcs_client_of env config of
        Inl e \<Rightarrow> gen_fail e
      | Inr client \<Rightarrow>
          (case dict_item config ''bucket'' of
             Inl e \<Rightarrow> gen_fail e
           | Inr bucket \<Rightarrow>
               (case sx_gcs_blobs env client (fmt env bucket) (dict_get_or config ''prefix'' (JStr '''')) of
                  Inl e \<Rightarrow> gen_fail e
                | Inr blobs \<Rightarrow> gen_for (\<lambda>b. Inr (gcs_record env (fmt env bucket) b)) blobs)))"

section \<open>File systems\<close>

text \<open>\<open>os.walk\<close>, top down: \<open>keep\<close> prunes the directories of a listing, \<open>rec\<close> makes a file's record.\<close>

fun is_dir :: "fs_node \<Rightarrow> bool" where
  "is_dir (FsFile st) = False"
| "is_dir (FsDir link readable es) = True"

fun is_link :: "fs_node \<Rightarrow> bool" where
  "is_link (FsFile st) = False"
| "is_link (FsDir link readable es) = link"

fun kept_dirs :: "(string \<Rightarrow> py_error + bool) \<Rightarrow> (string \<times> fs_node) list \<Rightarrow> py_error + string list" where
  "kept_dirs keep [] = Inr []"
| "kept_dirs keep ((name, n) # es) =
     (if is_dir n
      then (case keep name of
              Inl e \<Rightarrow> Inl e
            | Inr b \<Rightarrow> map_sum id (\<lambda>ds. if b then name # ds else ds) (kept_dirs keep es))
      else kept_dirs keep es)"

definition file_of ::
  "(string \<Rightarrow> int \<times> rat \<Rightarrow> py_error + file_record) \<Rightarrow> string \<times> fs_node \<Rightarrow> py_error + file_record option" where
  "file_of rec entry =
     (case entry of
        (name, FsFile (Some st)) \<Rightarrow> map_sum id Some (rec name st)
      | _ \<Rightarrow> Inr None)"

fun os_walk ::
  "(pure_path \<Rightarrow> string \<Rightarrow> py_error + bool) \<Rightarrow> (pure_path \<Rightarrow> string \<Rightarrow> int \<times> rat \<Rightarrow> py_error + file_record) \<Rightarrow>
   bool \<Rightarrow> pure_path \<Rightarrow> fs_node \<Rightarrow> file_record gen"
and os_walk_dirs ::
  "(pure_path \<Rightarrow> string \<Rightarrow> py_error + bool) \<Rightarrow> (pure_path \<Rightarrow> string \<Rightarrow> int \<times> rat \<Rightarrow> py_error + file_record) \<Rightarrow>
   bool \<Rightarrow> pure_path \<Rightarrow> string list \<Rightarrow> (string \<times> fs_node) list \<Rightarrow> file_record gen" where
  "os_walk keep rec follow path (FsFile st) = ([], None)"
| "os_walk keep rec follow path (FsDir link readable es) =
     (if \<not> readable then ([], None)
      else case kept_dirs (keep path) es of
          Inl e \<Rightarrow> gen_fail e
        | Inr dirnames \<Rightarrow>
            gen_then (gen_for (file_of (rec path)) es) (os_walk_dirs keep rec follow path dirnames es))"
| "os_walk_dirs keep rec follow path dirnames [] = ([], None)"
| "os_walk_dirs keep rec follow path dirnames ((name, n) # es) =
     gen_then
       (if is_dir n \<and> name \<in> set dirnames \<and> (follow \<or> \<not> is_link n)
        then os_walk keep rec follow (path\<lparr>pp_parts := pp_parts path @ [name]\<rparr>) n else ([], None))
       (os_walk_dirs keep rec follow path dirnames es)"

text \<open>\<open>any(path.match(ex) for ex in excludes)\<close>.\<close>

fun any_match :: "pure_path \<Rightarrow> string list \<Rightarrow> py_error + bool" where
  "any_match p [] = Inr False"
| "any_match p (ex # excludes) =
     (case path_match p ex of
        Inl e \<Rightarrow> Inl e
      | Inr True \<Rightarrow> Inr True
      | Inr False \<Rightarrow> any_match p excludes)"

definition fs_record :: "string \<Rightarrow> string \<Rightarrow> string \<Rightarrow> int \<times> rat \<Rightarrow> file_record" where
  "fs_record path name fpath st =
     (new_file_record path name (fst st) (snd st))\<lparr>cr_suffix := lower_suffix fpath\<rparr>"

definition local_keep :: "string list \<Rightarrow> pure_path \<Rightarrow> string \<Rightarrow> py_error + bool" where
  "local_keep excludes dirpath d = map_sum id Not (any_match (path_join dirpath d) excludes)"

definition local_file :: "pure_path \<Rightarrow> string \<Rightarrow> int \<times> rat \<Rightarrow> py_error + file_record" where
  "local_file dirpath fname st =
     (let fpath = path_str (path_join dirpath fname) in Inr (fs_record fpath fname fpath st))"

definition local_walk :: "sdk_env \<Rightarrow> py_dict \<Rightarrow> file_record gen" where
  "local_walk env config =
     (case dict_item config ''path'' of
        Inl e \<Rightarrow> gen_fail e
      | Inr (JStr p) \<Rightarrow>
          (let root = parse_path (sx_expanduser env p);
               follow = truthy (dict_get_or config ''follow_symlinks'' (JBool False))
           in case dict_get_or config ''exclude_patterns'' (JStr ''.git,node_modules'') of
                JStr t \<Rightarrow>
                  (let excludes = map str_strip (split_char (CHR '','') t)
                   in case sx_fs env (path_str root) of
                        None \<Rightarrow> ([], None)
                      | Some n \<Rightarrow> os_walk (local_keep excludes) local_file follow root n)
              | _ \<Rightarrow> gen_fail AttributeError)
      | Inr v \<Rightarrow> gen_fail TypeError)"

definition nfs_keep :: "pure_path \<Rightarrow> string \<Rightarrow> py_error + bool" where
  "nfs_keep dirpath d = Inr (\<not> prefix ''.'' d)"

definition nfs_file :: "sdk_env \<Rightarrow> py_dict \<Rightarrow> pure_path \<Rightarrow> pure_path \<Rightarrow> string \<Rightarrow> int \<times> rat \<Rightarrow> py_error + file_record" where
  "nfs_file env config mount dirpath fname st =
     (case dict_item config ''host'' of
        Inl e \<Rightarrow> Inl e
      | Inr host \<Rightarrow>
          (case dict_item config ''export_path'' of
             Inl e \<Rightarrow> Inl e
           | Inr export_path \<Rightarrow>
               (let fpath = path_join dirpath fname;
                    relative = \<lparr> pp_root = '''', pp_parts = drop (length (pp_parts mount)) (pp_parts fpath) \<rparr>
                in Inr (fs_record (''nfs://'' @ fmt env host @ fmt env export_path @ ''/'' @ path_str relative)
                          fname (path_str fpath) st))))"

definition nfs_walk :: "sdk_env \<Rightarrow> py_dict \<Rightarrow> file_record gen" where
  "nfs_walk env config =
     (case dict_item config ''mount_point'' of
        Inl e \<Rightarrow> gen_fail e
      | Inr (JStr p) \<Rightarrow>
          (let mount = parse_path (sx_expanduser env p)
           in case sx_fs env (path_str mount) of
                None \<Rightarrow> ([], None)
              | Some n \<Rightarrow> os_walk nfs_keep (nfs_file env config mount) False mount n)
      | Inr v \<Rightarrow> gen_fail TypeError)"

text \<open>An SMB share: one listing, of the files in it.\<close>

definition unc_path :: "string list \<Rightarrow> string" where
  "unc_path parts = [CHR 0x5C, CHR 0x5C] @ str_join [CHR 0x5C] parts"

definition smb_record :: "string \<Rightarrow> string \<Rightarrow> smb_entry \<Rightarrow> file_record option" where
  "smb_record host share entry =
     (if se_is_file entry
      then Some (fs_record (''smb://'' @ host @ ''/'' @ share @ ''/'' @ se_name entry) (se_name entry)
                   (se_name entry) (se_st_size entry, se_st_mtime entry))
      else None)"

definition smb_walk :: "sdk_env \<Rightarrow> py_dict \<Rightarrow> file_record gen" where
  "smb_walk env config =
     (if \<not> sx_installed env ''smbprotocol'' then gen_fail (OtherError ''RuntimeError'')
      else case dict_item config ''host'' of
          Inl e \<Rightarrow> gen_fail e
        | Inr host \<Rightarrow>
            (case dict_item config ''share'' of
               Inl e \<Rightarrow> gen_fail e
             | Inr share \<Rightarrow>
                 (case dict_get_or config ''path'' (JStr ''/'') of
                    JStr p \<Rightarrow>
                      (let sub_path = dropWhile ((=) (CHR ''/'')) p
                       in case sx_smb_session env host (dict_get_or config ''username'' (JStr ''''))
                                 (dict_get_or config ''password'' (JStr '''')) (dict_get_or config ''port'' (JInt 445)) of
                            Inl e \<Rightarrow> gen_fail e
                          | Inr u \<Rightarrow>
                              (let entries = sx_smb_scandir env (unc_path [fmt env host, fmt env share, sub_path])
                               in gen_then
                                    (gen_for (\<lambda>x. Inr (smb_record (fmt env host) (fmt env share) x)) (fst entries))
                                    ([], snd entries)))
                  | _ \<Rightarrow> gen_fail AttributeError)))"

section \<open>SharePoint\<close>

definition http_status_error :: py_error where
  "http_status_error = OtherError ''HTTPStatusError''"

definition get_token :: "sdk_env \<Rightarrow> py_dict \<Rightarrow> py_error + string" where
  "get_token env config =
     (case dict_item config ''tenant_id'' of
        Inl e \<Rightarrow> Inl e
      | Inr tenant_id \<Rightarrow>
     (case dict_item config ''client_id'' of
        Inl e \<Rightarrow> Inl e
      | Inr client_id \<Rightarrow>
     (case dict_item config ''client_secret'' of
        Inl e \<Rightarrow> Inl e
      | Inr client_secret \<Rightarrow>
          (case sx_post_token env
                  (''https://login.microsoftonline.com/'' @ fmt env tenant_id @ ''/oauth2/v2.0/token'')
                  [(''grant_type'', JStr ''client_credentials''), (''client_id'', client_id),
                   (''client_secret'', client_secret), (''scope'', JStr ''https://graph.microsoft.com/.default'')] of
             Inl e \<Rightarrow> Inl e
           | Inr (ok, token) \<Rightarrow>
               if \<not> ok then Inl http_status_error
               else (case token of None \<Rightarrow> Inl (KeyError ''access_token'') | Some t \<Rightarrow> Inr t)))))"

text \<open>\<open>next((d for d in drives if d["name"] == drive_name), None)\<close>.\<close>

fun find_drive ::
  "json \<Rightarrow> (string option \<times> string option) list \<Rightarrow> py_error + (string option \<times> string option) option" where
  "find_drive drive_name [] = Inr None"
| "find_drive drive_name ((name, i) # drives) =
     (case name of
        None \<Rightarrow> Inl (KeyError ''name'')
      | Some n \<Rightarrow> if JStr n = drive_name then Inr (Some (name, i)) else find_drive drive_name drives)"

text \<open>The loop over the pages ends when a page has no link to a next one.\<close>

partial_function (option) paginate ::
  "(string \<Rightarrow> py_error + bool \<times> drive_page) \<Rightarrow> string \<Rightarrow> drive_item gen option" where
  "paginate get url =
     (if url = [] then Some ([], None)
      else case get url of
          Inl e \<Rightarrow> Some (gen_fail e)
        | Inr (ok, page) \<Rightarrow>
            if \<not> ok then Some (gen_fail http_status_error)
            else Option.bind (paginate get (case dp_next page of None \<Rightarrow> [] | Some u \<Rightarrow> u))
                   (\<lambda>g. Some (gen_then (dp_items page, None) g)))"

definition parse_ms_datetime :: "sdk_env \<Rightarrow> string option \<Rightarrow> rat" where
  "parse_ms_datetime env dt_str =
     (case opt_str_or dt_str None of
        None \<Rightarrow> 0
      | Some t \<Rightarrow> (case sx_fromisoformat env (str_replace t ''Z'' ''+00:00'') of None \<Rightarrow> 0 | Some x \<Rightarrow> x))"

definition sharepoint_record :: "sdk_env \<Rightarrow> drive_item \<Rightarrow> py_error + file_record option" where
  "sharepoint_record env item =
     (case di_name item of
        None \<Rightarrow> Inl (KeyError ''name'')
      | Some name \<Rightarrow>
          (case di_id item of
             None \<Rightarrow> Inl (KeyError ''id'')
           | Some i \<Rightarrow>
               Inr (Some
                 ((new_file_record ((case di_parent_path item of None \<Rightarrow> '''' | Some p \<Rightarrow> p) @ ''/'' @ name) name
                     (case di_size item of None \<Rightarrow> 0 | Some n \<Rightarrow> n) (parse_ms_datetime env (di_modified item)))
                  \<lparr>cr_is_dir := di_folder item, cr_suffix := (if \<not> di_folder item then lower_suffix name else ''''),
                   cr_extra := [(''sharepoint_id'', JStr i),
                     (''web_url'', JStr (case di_web_url item of None \<Rightarrow> '''' | Some u \<Rightarrow> u)),
                     (''mime_type'', JStr (case di_mime_type item of None \<Rightarrow> '''' | Some m \<Rightarrow> m))]\<rparr>))))"

definition children_url :: "string \<Rightarrow> string \<Rightarrow> string" where
  "children_url drive_id start_path =
     (if start_path \<noteq> []
      then ''https://graph.microsoft.com/v1.0/drives/'' @ drive_id @ ''/root:/'' @ start_path @ '':/children''
      else ''https://graph.microsoft.com/v1.0/drives/'' @ drive_id @ ''/root/children'')"

definition site_address :: "string \<Rightarrow> py_error + string" where
  "site_address site_url =
     (let parts = split_char (CHR ''/'') (rstrip_slash site_url)
      in if length parts \<le> 2 then Inl IndexError
         else Inr (parts ! 2 @ '':/'' @ str_join ''/'' (drop 3 parts)))"

definition find_drive_id :: "sdk_env \<Rightarrow> string \<Rightarrow> string \<Rightarrow> json \<Rightarrow> py_error + string option" where
  "find_drive_id env token address drive_name =
     (case sx_get_site env token (''https://graph.microsoft.com/v1.0/sites/'' @ address) of
        Inl e \<Rightarrow> Inl e
      | Inr (ok, site) \<Rightarrow>
          if \<not> ok then Inl http_status_error
          else (case site of
             None \<Rightarrow> Inl (KeyError ''id'')
           | Some site_id \<Rightarrow>
               (case sx_get_drives env token (''https://graph.microsoft.com/v1.0/sites/'' @ site_id @ ''/drives'') of
                  Inl e \<Rightarrow> Inl e
                | Inr (ok, drives) \<Rightarrow>
                    (case find_drive drive_name drives of
                       Inl e \<Rightarrow> Inl e
                     | Inr None \<Rightarrow> Inr None
                     | Inr (Some (name, None)) \<Rightarrow> Inl (KeyError ''id'')
                     | Inr (Some (name, Some i)) \<Rightarrow> Inr (Some i)))))"

definition sharepoint_start :: "sdk_env \<Rightarrow> py_dict \<Rightarrow> py_error + (string \<times> string) option" where
  "sharepoint_start env config =
     (case get_token env config of
        Inl e \<Rightarrow> Inl e
      | Inr token \<Rightarrow>
          (case dict_item config ''site_url'' of
             Inl e \<Rightarrow> Inl e
           | Inr (JStr site_url) \<Rightarrow>
               (case dict_get_or config ''path'' (JStr ''/'') of
                  JStr p \<Rightarrow>
                    (case site_address site_url of
                       Inl e \<Rightarrow> Inl e
                     | Inr address \<Rightarrow>
                         map_sum id (map_option (\<lambda>i. (token, children_url i (strip_char (CHR ''/'') p))))
                           (find_drive_id env token address (dict_get_or config ''drive_name'' (JStr ''Documents''))))
                | _ \<Rightarrow> Inl AttributeError)
           | Inr v \<Rightarrow> Inl AttributeError))"

definition sharepoint_walk :: "sdk_env \<Rightarrow> py_dict \<Rightarrow> file_record gen option" where
  "sharepoint_walk env config =
     (case sharepoint_start env config of
        Inl e \<Rightarrow> Some (gen_fail e)
      | Inr None \<Rightarrow> Some ([], None)
      | Inr (Some (token, endpoint)) \<Rightarrow>
          map_option (\<lambda>items. gen_then (gen_for (sharepoint_record env) (fst items)) ([], snd items))
            (paginate (sx_get_page env token) endpoint))"

section \<open>Any connector\<close>

text \<open>A walk that does not end is \<open>None\<close>; the class of a custom connector is a parameter.\<close>

fun walk ::
  "(connector_manifest \<Rightarrow> py_dict \<Rightarrow> file_record gen option) \<Rightarrow> sdk_env \<Rightarrow> connector_class \<Rightarrow> py_dict \<Rightarrow>
   file_record gen option" where
  "walk custom env LocalConnector config = Some (local_walk env config)"
| "walk custom env SMBConnector config = Some (smb_walk env config)"
| "walk custom env NFSConnector config = Some (nfs_walk env config)"
| "walk custom env S3Connector config = Some (s3_walk env config)"
| "walk custom env AzureBlobConnector config = Some (azure_walk env config)"
| "walk custom env SharePointConnector config = sharepoint_walk env config"
| "walk custom env GCSConnector config = Some (gcs_walk env config)"
| "walk custom env (CustomConnector m) config = custom m config"

text \<open>\<open>test_connection\<close>: the outcome and its message. The tests that end in \<open>except Exception\<close> first.\<close>

definition caught :: "sdk_env \<Rightarrow> py_error + string \<Rightarrow> bool \<times> string" where
  "caught env r = (case r of Inl e \<Rightarrow> (False, sx_err env e) | Inr message \<Rightarrow> (True, message))"

definition need :: "sdk_env \<Rightarrow> string \<Rightarrow> py_error + 'a \<Rightarrow> py_error + 'a" where
  "need env package r = (if sx_installed env package then r else Inl (ImportError package))"

definition s3_test :: "sdk_env \<Rightarrow> py_dict \<Rightarrow> bool \<times> string" where
  "s3_test env config =
     caught env (need env ''boto3''
       (case dict_item config ''bucket'' of
          Inl e \<Rightarrow> Inl e
        | Inr bucket \<Rightarrow>
            map_sum id (\<lambda>u. ''Connected to s3://'' @ fmt env bucket)
              (sx_s3_head_bucket env (dict_get_or config ''region'' (JStr ''us-east-1'')) bucket)))"

definition azure_test :: "sdk_env \<Rightarrow> py_dict \<Rightarrow> bool \<times> string" where
  "azure_test env config =
     caught env (need env ''azure''
       (let conn_str = dict_get_or config ''connection_string'' JNull
        in case (if truthy conn_str then sx_azure_account env (FromConnectionString conn_str) else Inr ()) of
             Inl e \<Rightarrow> Inl e
           | Inr u \<Rightarrow> map_sum id (\<lambda>a. ''Connected to '' @ fmt env a) (dict_item config ''account_name'')))"

definition gcs_test :: "sdk_env \<Rightarrow> py_dict \<Rightarrow> bool \<times> string" where
  "gcs_test env config =
     caught env
       (case gcs_client_of env config of
          Inl e \<Rightarrow> Inl e
        | Inr client \<Rightarrow>
            (case dict_item config ''bucket'' of
               Inl e \<Rightarrow> Inl e
             | Inr bucket \<Rightarrow> map_sum id (\<lambda>u. ''Connected to gs://'' @ fmt env bucket) (sx_gcs_reload env client bucket)))"

definition smb_test :: "sdk_env \<Rightarrow> py_dict \<Rightarrow> bool \<times> string" where
  "smb_test env config =
     caught env (need env ''smbprotocol''
       (case dict_item config ''host'' of
          Inl e \<Rightarrow> Inl e
        | Inr host \<Rightarrow>
            (case sx_smb_session env host (dict_get_or config ''username'' (JStr ''''))
                    (dict_get_or config ''password'' (JStr '''')) (dict_get_or config ''port'' (JInt 445)) of
               Inl e \<Rightarrow> Inl e
             | Inr u \<Rightarrow>
                 (case dict_item config ''share'' of
                    Inl e \<Rightarrow> Inl e
                  | Inr share \<Rightarrow>
                      (let unc = unc_path [fmt env host, fmt env share]
                       in map_sum id (\<lambda>u. ''Connected to '' @ unc) (sx_smb_listdir env unc))))))"

definition sharepoint_test :: "sdk_env \<Rightarrow> py_dict \<Rightarrow> bool \<times> string" where
  "sharepoint_test env config =
     caught env (map_sum id (\<lambda>t. ''Connected to '' @ fmt env (dict_get_or config ''site_url'' JNull)) (get_token env config))"

text \<open>The tests of a directory: it must be there, and listing an unreadable one raises.\<close>

definition dir_at :: "sdk_env \<Rightarrow> py_dict \<Rightarrow> string \<Rightarrow> py_error + pure_path \<times> (bool \<times> nat) option" where
  "dir_at env config k =
     (case dict_get_or config k (JStr '''') of
        JStr p \<Rightarrow>
          Inr (parse_path p, (case sx_fs env (path_str (parse_path p)) of
                 Some (FsDir link readable es) \<Rightarrow> Some (readable, length es)
               | _ \<Rightarrow> None))
      | _ \<Rightarrow> Inl TypeError)"

definition local_test :: "sdk_env \<Rightarrow> py_dict \<Rightarrow> py_error + bool \<times> string" where
  "local_test env config =
     (case dir_at env config ''path'' of
        Inl e \<Rightarrow> Inl e
      | Inr (base_dir, None) \<Rightarrow> Inr (False, ''Path not found or not a directory: '' @ path_str base_dir)
      | Inr (base_dir, Some (readable, n)) \<Rightarrow>
          if readable then Inr (True, ''Connected '' @ em_dash @ '' '' @ nat_str n @ '' items at root'')
          else Inl (OtherError ''PermissionError''))"

definition nfs_test :: "sdk_env \<Rightarrow> py_dict \<Rightarrow> py_error + bool \<times> string" where
  "nfs_test env config =
     (case dir_at env config ''mount_point'' of
        Inl e \<Rightarrow> Inl e
      | Inr (mount, None) \<Rightarrow> Inr (False, ''Mount point not found or not mounted: '' @ path_str mount)
      | Inr (mount, Some d) \<Rightarrow> Inr (True, ''NFS mount accessible at '' @ path_str mount))"

fun test_connection ::
  "(connector_manifest \<Rightarrow> py_dict \<Rightarrow> py_error + bool \<times> string) \<Rightarrow> sdk_env \<Rightarrow> connector_class \<Rightarrow> py_dict \<Rightarrow>
   py_error + bool \<times> string" where
  "test_connection custom env LocalConnector config = local_test env config"
| "test_connection custom env SMBConnector config = Inr (smb_test env config)"
| "test_connection custom env NFSConnector config = nfs_test env config"
| "test_connection custom env S3Connector config = Inr (s3_test env config)"
| "test_connection custom env AzureBlobConnector config = Inr (azure_test env config)"
| "test_connection custom env SharePointConnector config = Inr (sharepoint_test env config)"
| "test_connection custom env GCSConnector config = Inr (gcs_test env config)"
| "test_connection custom env (CustomConnector m) config = custom m config"

text \<open>What the base class offers a connector that overrides neither.\<close>

definition base_test :: "bool \<times> string" where
  "base_test = (True, ''Connection test not implemented'')"

definition get_stats :: py_dict where
  "get_stats = [(''estimated_files'', JInt (- 1)), (''estimated_bytes'', JInt (- 1))]"

section \<open>What a walk yields\<close>

lemma gen_then_None [simp]:
  "gen_then g h = (xs, None) \<longleftrightarrow> (\<exists>ys zs. g = (ys, None) \<and> h = (zs, None) \<and> xs = ys @ zs)"
  by (cases g; cases h) (auto simp: gen_then_def split: option.splits)

lemma set_gen_then: "set (fst (gen_then g h)) \<subseteq> set (fst g) \<union> set (fst h)"
  by (cases g) (auto simp: gen_then_def split: option.splits)

lemma gen_then_either: "r \<in> set (fst (gen_then g h)) \<Longrightarrow> r \<in> set (fst g) \<or> r \<in> set (fst h)"
  using set_gen_then [of g h] by auto

lemma gen_for_None:
  "gen_for f xs = (ys, None) \<Longrightarrow> r \<in> set ys \<longleftrightarrow> (\<exists>x \<in> set xs. f x = Inr (Some r))"
proof (induction xs arbitrary: ys)
  case (Cons x xs)
  then show ?case by (auto simp: gen_fail_def split: sum.splits option.splits)
qed simp

lemma gen_for_set: "r \<in> set (fst (gen_for f xs)) \<Longrightarrow> \<exists>x \<in> set xs. f x = Inr (Some r)"
proof (induction xs)
  case (Cons x xs)
  then show ?case
    using set_gen_then [of "([a], None)" "gen_for f xs" for a]
    by (auto simp: gen_fail_def split: sum.splits option.splits)
qed simp

text \<open>
  A file of a tree that a walk reaches: its directories are readable and kept, and a link to a
  directory is only entered when links are followed.
\<close>

inductive reaches ::
  "(pure_path \<Rightarrow> string \<Rightarrow> py_error + bool) \<Rightarrow> bool \<Rightarrow> pure_path \<Rightarrow> fs_node \<Rightarrow> pure_path \<Rightarrow> string \<Rightarrow> int \<times> rat \<Rightarrow> bool"
  for keep follow where
  here: "(name, FsFile (Some st)) \<in> set es \<Longrightarrow> reaches keep follow path (FsDir link True es) path name st"
| below: "(d, n) \<in> set es \<Longrightarrow> is_dir n \<Longrightarrow> keep path d = Inr True \<Longrightarrow> follow \<or> \<not> is_link n \<Longrightarrow>
    reaches keep follow (path\<lparr>pp_parts := pp_parts path @ [d]\<rparr>) n dir name st \<Longrightarrow>
    reaches keep follow path (FsDir link True es) dir name st"

inductive_cases reaches_fileE: "reaches keep follow path (FsFile s) dir name st"
inductive_cases reaches_dirE: "reaches keep follow path (FsDir link readable es) dir name st"

lemma reaches_dir:
  "reaches keep follow path (FsDir link readable es) dir name st \<longleftrightarrow> readable \<and>
     (dir = path \<and> (name, FsFile (Some st)) \<in> set es \<or>
      (\<exists>d n. (d, n) \<in> set es \<and> is_dir n \<and> keep path d = Inr True \<and> (follow \<or> \<not> is_link n) \<and>
         reaches keep follow (path\<lparr>pp_parts := pp_parts path @ [d]\<rparr>) n dir name st))"
  by (subst reaches.simps) auto

lemma kept_dirs_set:
  "kept_dirs keep es = Inr ds \<Longrightarrow> d \<in> set ds \<longleftrightarrow> (\<exists>n. (d, n) \<in> set es \<and> is_dir n \<and> keep d = Inr True)"
proof (induction es arbitrary: ds)
  case (Cons x es)
  obtain name n where x: "x = (name, n)" by (cases x)
  show ?case
  proof (cases "is_dir n")
    case True
    with Cons.prems obtain b ds' where b: "keep name = Inr b" and ds': "kept_dirs keep es = Inr ds'"
      and ds: "ds = (if b then name # ds' else ds')"
      by (auto simp: x map_sum_def split: sum.splits)
    with Cons.IH [OF ds'] True show ?thesis by (cases b) (auto simp: x)
  next
    case False
    with Cons show ?thesis by (auto simp: x)
  qed
qed simp

lemma file_of_Some:
  "file_of rec x = Inr (Some r) \<longleftrightarrow> (\<exists>name st. x = (name, FsFile (Some st)) \<and> rec name st = Inr r)"
  by (cases x rule: prod.exhaust; cases "snd x")
    (auto simp: file_of_def map_sum_def split: option.splits sum.splits)

lemma os_walk_reaches:
  "os_walk keep rec follow path n = (rs, None) \<Longrightarrow>
     r \<in> set rs \<longleftrightarrow> (\<exists>dir name st. reaches keep follow path n dir name st \<and> rec dir name st = Inr r)"
  "os_walk_dirs keep rec follow path ds es = (rs, None) \<Longrightarrow>
     r \<in> set rs \<longleftrightarrow> (\<exists>d n dir name st. (d, n) \<in> set es \<and> d \<in> set ds \<and> is_dir n \<and> (follow \<or> \<not> is_link n) \<and>
       reaches keep follow (path\<lparr>pp_parts := pp_parts path @ [d]\<rparr>) n dir name st \<and> rec dir name st = Inr r)"
proof (induction keep rec follow path n and keep rec follow path ds es arbitrary: rs and rs
    rule: os_walk_os_walk_dirs.induct)
  case (1 keep rec follow path st)
  then show ?case by (auto elim: reaches_fileE)
next
  case (2 keep rec follow path link readable es)
  show ?case
  proof (cases readable)
    case False
    with 2 show ?thesis by (auto simp: reaches_dir)
  next
    case True
    with "2.prems" obtain ds fs rest where ds: "kept_dirs (keep path) es = Inr ds"
      and fs: "gen_for (file_of (rec path)) es = (fs, None)"
      and rest: "os_walk_dirs keep rec follow path ds es = (rest, None)" and rs: "rs = fs @ rest"
      by (auto simp: gen_fail_def split: sum.splits)
    have in_rest: "r \<in> set rest \<longleftrightarrow> (\<exists>d n dir name st. (d, n) \<in> set es \<and> is_dir n \<and> keep path d = Inr True \<and>
        (follow \<or> \<not> is_link n) \<and>
        reaches keep follow (path\<lparr>pp_parts := pp_parts path @ [d]\<rparr>) n dir name st \<and> rec dir name st = Inr r)"
      using "2.IH" [OF _ ds rest] True kept_dirs_set [OF ds] by blast
    have in_fs: "r \<in> set fs \<longleftrightarrow> (\<exists>name st. (name, FsFile (Some st)) \<in> set es \<and> rec path name st = Inr r)"
      using gen_for_None [OF fs] by (auto simp: file_of_Some)
    have split: "(\<exists>dir name st. reaches keep follow path (FsDir link readable es) dir name st \<and> rec dir name st = Inr r) \<longleftrightarrow>
        (\<exists>name st. (name, FsFile (Some st)) \<in> set es \<and> rec path name st = Inr r) \<or>
        (\<exists>d n dir name st. (d, n) \<in> set es \<and> is_dir n \<and> keep path d = Inr True \<and> (follow \<or> \<not> is_link n) \<and>
          reaches keep follow (path\<lparr>pp_parts := pp_parts path @ [d]\<rparr>) n dir name st \<and> rec dir name st = Inr r)"
      unfolding reaches_dir using True by blast
    show ?thesis unfolding split rs set_append Un_iff in_fs in_rest ..
  qed
next
  case (3 keep rec follow path dirnames)
  then show ?case by simp
next
  case (4 keep rec follow path ds name n es)
  let ?p = "path\<lparr>pp_parts := pp_parts path @ [name]\<rparr>"
  let ?go = "is_dir n \<and> name \<in> set ds \<and> (follow \<or> \<not> is_link n)"
  from "4.prems" obtain ys zs where ys: "(if ?go then os_walk keep rec follow ?p n else ([], None)) = (ys, None)"
    and zs: "os_walk_dirs keep rec follow path ds es = (zs, None)" and rs: "rs = ys @ zs" by auto
  have "r \<in> set ys \<longleftrightarrow> ?go \<and> (\<exists>dir nm st. reaches keep follow ?p n dir nm st \<and> rec dir nm st = Inr r)"
  proof (cases ?go)
    case True
    with ys have "os_walk keep rec follow ?p n = (ys, None)" by simp
    from "4.IH"(1) [OF True this] True show ?thesis by simp
  next
    case False
    with ys show ?thesis by simp
  qed
  note in_ys = this and in_zs = "4.IH"(2) [OF zs]
  have "(\<exists>d n' dir nm st. (d, n') \<in> set ((name, n) # es) \<and> d \<in> set ds \<and> is_dir n' \<and> (follow \<or> \<not> is_link n') \<and>
       reaches keep follow (path\<lparr>pp_parts := pp_parts path @ [d]\<rparr>) n' dir nm st \<and> rec dir nm st = Inr r) \<longleftrightarrow>
      ?go \<and> (\<exists>dir nm st. reaches keep follow ?p n dir nm st \<and> rec dir nm st = Inr r) \<or>
      (\<exists>d n' dir nm st. (d, n') \<in> set es \<and> d \<in> set ds \<and> is_dir n' \<and> (follow \<or> \<not> is_link n') \<and>
       reaches keep follow (path\<lparr>pp_parts := pp_parts path @ [d]\<rparr>) n' dir nm st \<and> rec dir nm st = Inr r)"
    unfolding list.set insert_iff prod.inject by blast
  note split = this
  show ?case unfolding split rs set_append Un_iff in_ys in_zs ..
qed

text \<open>The local connector yields exactly the files below its folder that can be reached: through readable
  directories that match no exclusion pattern, entering links to directories only when told to. Each
  record has the path of its file, its size and time, and the lower-case suffix of its name.\<close>

theorem local_walk_exact:
  assumes "local_walk env config = (rs, None)" and "dict_get config ''path'' = Some (JStr p)"
    and "dict_get_or config ''exclude_patterns'' (JStr ''.git,node_modules'') = JStr t"
    and "sx_fs env (path_str (parse_path (sx_expanduser env p))) = Some n"
  shows "r \<in> set rs \<longleftrightarrow>
    (\<exists>dir name st.
       reaches (local_keep (map str_strip (split_char (CHR '','') t)))
         (truthy (dict_get_or config ''follow_symlinks'' (JBool False)))
         (parse_path (sx_expanduser env p)) n dir name st \<and>
       r = fs_record (path_str (path_join dir name)) name (path_str (path_join dir name)) st)"
proof -
  have "os_walk (local_keep (map str_strip (split_char (CHR '','') t))) local_file
      (truthy (dict_get_or config ''follow_symlinks'' (JBool False))) (parse_path (sx_expanduser env p)) n = (rs, None)"
    using assms by (simp add: local_walk_def dict_item_def Let_def)
  from os_walk_reaches(1) [OF this, of r] show ?thesis
    by (simp add: local_file_def Let_def eq_commute)
qed

lemma path_match_error: "path_match p ex = Inl e \<Longrightarrow> e = ValueError ''empty pattern''"
  by (auto simp: path_match_def Let_def split: if_splits)

lemma path_match_empty: "path_match p '''' = Inl (ValueError ''empty pattern'')"
  by (simp add: path_match_def parse_path_def path_root_def)

lemma any_match_error: "any_match p exs = Inl e \<Longrightarrow> e = ValueError ''empty pattern''"
  by (induction p exs rule: any_match.induct) (auto dest: path_match_error split: sum.splits bool.splits)

lemma any_match_empty:
  assumes "'''' \<in> set exs" and "\<And>ex. ex \<in> set exs \<Longrightarrow> ex = '''' \<or> path_match p ex = Inr False"
  shows "any_match p exs = Inl (ValueError ''empty pattern'')"
  using assms
proof (induction exs)
  case (Cons ex exs)
  show ?case
  proof (cases "ex = ''''")
    case True
    then show ?thesis by (simp add: path_match_empty)
  next
    case False
    with Cons.prems have "path_match p ex = Inr False" by auto
    moreover have "any_match p exs = Inl (ValueError ''empty pattern'')"
      using Cons.prems False by (intro Cons.IH) auto
    ultimately show ?thesis by simp
  qed
qed simp

lemma kept_dirs_error:
  assumes "(d, n) \<in> set es" and "is_dir n" and "keep d = Inl e" and "\<And>d e'. keep d = Inl e' \<Longrightarrow> e' = e"
  shows "kept_dirs keep es = Inl e"
  using assms(1)
proof (induction es)
  case (Cons x es)
  obtain name m where x: "x = (name, m)" by (cases x)
  show ?case
  proof (cases "x = (d, n)")
    case True
    with assms(2,3) show ?thesis by (simp add: x)
  next
    case False
    with Cons have "kept_dirs keep es = Inl e" by auto
    with assms(4) show ?thesis by (auto simp: x map_sum_def split: sum.splits)
  qed
qed simp

text \<open>An empty exclusion pattern, such as the one after a trailing comma or the one of an empty setting,
  ends the walk of every folder that has a directory no other pattern matches: the walk raises and
  yields nothing.\<close>

theorem empty_pattern_ends_walk:
  assumes "dict_get config ''path'' = Some (JStr p)" and "dict_get config ''exclude_patterns'' = Some (JStr t)"
    and "sx_fs env (path_str (parse_path (sx_expanduser env p))) = Some (FsDir link True es)"
    and "'''' \<in> set (map str_strip (split_char (CHR '','') t))" and "(d, n) \<in> set es" and "is_dir n"
    and "\<And>ex. ex \<in> set (map str_strip (split_char (CHR '','') t)) \<Longrightarrow>
      ex = '''' \<or> path_match (path_join (parse_path (sx_expanduser env p)) d) ex = Inr False"
  shows "local_walk env config = ([], Some (ValueError ''empty pattern''))"
proof -
  let ?excludes = "map str_strip (split_char (CHR '','') t)"
  let ?keep = "local_keep ?excludes (parse_path (sx_expanduser env p))"
  have "kept_dirs ?keep es = Inl (ValueError ''empty pattern'')"
  proof (rule kept_dirs_error [OF assms(5,6)])
    show "?keep d = Inl (ValueError ''empty pattern'')"
      using any_match_empty [OF assms(4,7)] by (simp add: local_keep_def)
    show "e' = ValueError ''empty pattern''" if "?keep d' = Inl e'" for d' e'
      using that by (auto simp: local_keep_def map_sum_def dest!: any_match_error split: sum.splits)
  qed
  with assms(1-3) show ?thesis
    by (simp add: local_walk_def dict_item_def dict_get_or_def dict_get_def gen_fail_def)
qed

section \<open>Parents of what is not a directory\<close>

text \<open>The text of a path has no empty component, so it is no URL.\<close>

lemma path_is_no_url:
  assumes "path_wf p" and "CHR ''/'' \<notin> set scheme" and "scheme \<noteq> []"
  shows "path_str p \<noteq> scheme @ ''://'' @ tail"
proof
  assume url: "path_str p = scheme @ ''://'' @ tail"
  then have root: "pp_root p = ''''"
    using assms path_root_str [OF assms(1)] by (cases scheme) (auto simp: path_root_def split: if_splits)
  have "CHR ''/'' \<notin> set (scheme @ '':'')" using assms(2) by simp
  from split_char_sep [OF this, of "''/'' @ tail"]
  have pieces: "split_char (CHR ''/'') (path_str p) = (scheme @ '':'') # '''' # split_char (CHR ''/'') tail"
    by (simp add: url)
  show False
  proof (cases "pp_parts p = []")
    case True
    with root url show False by (cases scheme) (auto simp: path_str_def)
  next
    case False
    then have "split_char (CHR ''/'') (path_str p) = pp_parts p"
      using assms(1) root by (auto simp: path_str_def path_wf_def plain_part_def intro!: split_char_join)
    with pieces have "'''' \<in> set (pp_parts p)" by simp
    with assms(1) show False by (auto simp: path_wf_def plain_part_def)
  qed
qed

definition url_path :: "string \<Rightarrow> bool" where
  "url_path s \<longleftrightarrow> (\<exists>scheme tail. s = scheme @ ''://'' @ tail \<and> scheme \<noteq> [] \<and> CHR ''/'' \<notin> set scheme)"

lemma url_pathI: "scheme \<noteq> [] \<Longrightarrow> CHR ''/'' \<notin> set scheme \<Longrightarrow> url_path (scheme @ ''://'' @ tail)"
  by (auto simp: url_path_def)

lemma path_str_no_url: "path_wf p \<Longrightarrow> \<not> url_path (path_str p)"
  unfolding url_path_def by (metis path_is_no_url)

lemma url_parent_edge:
  assumes "url_path (cr_path r)"
  shows "to_parent_edge sha r cid =
    Some [(''op'', JStr ''upsert''), (''type'', JStr ''CHILD_OF''), (''from'', JStr (stable_id sha r cid)),
          (''to'', JStr (take 24 (sha (record_key cid r (path_str (path_parent (parse_path (cr_path r)))))))),
          (''props'', JObj [])]"
  using path_str_no_url [OF path_wf_parent [OF path_wf_parse [of "cr_path r"]]] assms
  by (auto simp: to_parent_edge_def Let_def)

lemma url_texts:
  "url_path (''s3://'' @ t)" "url_path (''azure://'' @ t)" "url_path (''gs://'' @ t)"
  "url_path (''nfs://'' @ t)" "url_path (''smb://'' @ t)"
  using url_pathI [of "''s3''" t] url_pathI [of "''azure''" t] url_pathI [of "''gs''" t]
    url_pathI [of "''nfs''" t] url_pathI [of "''smb''" t] by simp_all

lemma set_gen_then_end: "r \<in> set (fst (gen_then g ([], e))) \<Longrightarrow> r \<in> set (fst g)"
  using set_gen_then [of g "([], e)"] by auto

lemma os_walk_set:
  "r \<in> set (fst (os_walk keep rec follow path n)) \<Longrightarrow> \<exists>dir name st. rec dir name st = Inr r"
  "r \<in> set (fst (os_walk_dirs keep rec follow path ds es)) \<Longrightarrow> \<exists>dir name st. rec dir name st = Inr r"
proof (induction keep rec follow path n and keep rec follow path ds es rule: os_walk_os_walk_dirs.induct)
  case (2 keep rec follow path link readable es)
  obtain ds where ds: "kept_dirs (keep path) es = Inr ds" and readable: "\<not> \<not> readable"
    and r: "r \<in> set (fst (gen_then (gen_for (file_of (rec path)) es) (os_walk_dirs keep rec follow path ds es)))"
    using "2.prems" by (cases "kept_dirs (keep path) es") (auto simp: gen_fail_def split: if_splits)
  from gen_then_either [OF r] show ?case
  proof
    assume "r \<in> set (fst (gen_for (file_of (rec path)) es))"
    from gen_for_set [OF this] show ?case by (auto simp: file_of_Some)
  next
    assume "r \<in> set (fst (os_walk_dirs keep rec follow path ds es))"
    from "2.IH" [OF readable ds this] show ?case .
  qed
next
  case (4 keep rec follow path ds name n es)
  let ?sub = "if is_dir n \<and> name \<in> set ds \<and> (follow \<or> \<not> is_link n)
    then os_walk keep rec follow (path\<lparr>pp_parts := pp_parts path @ [name]\<rparr>) n else ([], None)"
  from "4.prems" have "r \<in> set (fst (gen_then ?sub (os_walk_dirs keep rec follow path ds es)))" by simp
  from gen_then_either [OF this] show ?case
  proof
    assume sub: "r \<in> set (fst ?sub)"
    have go: "is_dir n \<and> name \<in> set ds \<and> (follow \<or> \<not> is_link n)"
    proof (rule ccontr)
      assume stop: "\<not> (is_dir n \<and> name \<in> set ds \<and> (follow \<or> \<not> is_link n))"
      from sub show False unfolding if_not_P [OF stop] by simp
    qed
    from sub have "r \<in> set (fst (os_walk keep rec follow (path\<lparr>pp_parts := pp_parts path @ [name]\<rparr>) n))"
      unfolding if_P [OF go] .
    from "4.IH"(1) [OF go this] show ?case .
  next
    assume "r \<in> set (fst (os_walk_dirs keep rec follow path ds es))"
    from "4.IH"(2) [OF this] show ?case .
  qed
qed simp_all

lemma s3_walk_url: "r \<in> set (fst (s3_walk env config)) \<Longrightarrow> url_path (cr_path r)"
  by (auto simp: s3_walk_def gen_fail_def Let_def s3_record_def new_file_record_def url_texts [simplified]
      dest!: set_gen_then_end gen_for_set split: if_splits sum.splits)

lemma azure_walk_url: "r \<in> set (fst (azure_walk env config)) \<Longrightarrow> url_path (cr_path r)"
  by (auto simp: azure_walk_def gen_fail_def Let_def azure_record_def new_file_record_def url_texts [simplified]
      dest!: set_gen_then_end gen_for_set split: if_splits sum.splits)

lemma gcs_walk_url: "r \<in> set (fst (gcs_walk env config)) \<Longrightarrow> url_path (cr_path r)"
  by (auto simp: gcs_walk_def gen_fail_def gcs_record_def new_file_record_def url_texts [simplified]
      dest!: gen_for_set split: if_splits sum.splits)

lemma smb_walk_url: "r \<in> set (fst (smb_walk env config)) \<Longrightarrow> url_path (cr_path r)"
  by (auto simp: smb_walk_def gen_fail_def Let_def smb_record_def fs_record_def new_file_record_def
      url_texts [simplified] dest!: set_gen_then_end gen_for_set split: if_splits sum.splits json.splits)

lemma nfs_file_url: "nfs_file env config mount dir name st = Inr r \<Longrightarrow> url_path (cr_path r)"
  by (auto simp: nfs_file_def Let_def fs_record_def new_file_record_def url_texts [simplified] split: sum.splits)

lemma nfs_walk_url: "r \<in> set (fst (nfs_walk env config)) \<Longrightarrow> url_path (cr_path r)"
  by (auto simp: nfs_walk_def gen_fail_def Let_def dest!: os_walk_set nfs_file_url
      split: sum.splits json.splits option.splits)

text \<open>A connector whose records have URLs for paths. The edge to the parent of such a record is always
  sent, and the path whose identifier it points to, the text of the parsed URL's parent, has lost a
  slash after the scheme: it is the path of no record of the walk, so the edge dangles.\<close>

theorem url_parents_dangle:
  assumes "walk custom env c config = Some g"
    and "c \<in> {S3Connector, AzureBlobConnector, GCSConnector, SMBConnector, NFSConnector}"
    and "r \<in> set (fst g)"
  shows "\<exists>edge parent. to_parent_edge sha r cid = Some edge \<and>
    dict_get edge ''to'' = Some (JStr (take 24 (sha (record_key cid r parent)))) \<and>
    parent \<notin> cr_path ` set (fst g)"
proof -
  have urls: "url_path (cr_path x)" if "x \<in> set (fst g)" for x
    using assms(1,2) that
    by (auto dest: s3_walk_url azure_walk_url gcs_walk_url smb_walk_url nfs_walk_url)
  let ?parent = "path_str (path_parent (parse_path (cr_path r)))"
  have "\<not> url_path ?parent" by (intro path_str_no_url path_wf_parent path_wf_parse)
  with urls have "?parent \<notin> cr_path ` set (fst g)" by auto
  then show ?thesis
    using url_parent_edge [OF urls [OF assms(3)], of sha cid]
    by (intro exI [of _ "the (to_parent_edge sha r cid)"] exI [of _ ?parent]) (simp add: dict_get_def)
qed

section \<open>The pages of a drive\<close>

text \<open>\<open>pages_linked get url ps\<close>: the pages \<open>ps\<close> are served from \<open>url\<close> on, each link leading to the next.\<close>

fun pages_linked :: "(string \<Rightarrow> py_error + bool \<times> drive_page) \<Rightarrow> string \<Rightarrow> drive_page list \<Rightarrow> bool" where
  "pages_linked get url [] \<longleftrightarrow> url = []"
| "pages_linked get url (p # ps) \<longleftrightarrow> url \<noteq> [] \<and> get url = Inr (True, p) \<and>
     pages_linked get (case dp_next p of None \<Rightarrow> [] | Some u \<Rightarrow> u) ps"

lemma paginate_linked:
  "pages_linked get url ps \<Longrightarrow> paginate get url = Some (concat (map dp_items ps), None)"
proof (induction ps arbitrary: url)
  case Nil
  then show ?case by (simp add: paginate.simps)
next
  case (Cons p ps)
  then have "paginate get (case dp_next p of None \<Rightarrow> [] | Some u \<Rightarrow> u) = Some (concat (map dp_items ps), None)"
    by simp
  with Cons.prems show ?case by (subst paginate.simps) (simp add: gen_then_def)
qed

lemma gen_for_total:
  "\<forall>x \<in> set xs. f x = Inr (Some (h x)) \<Longrightarrow> gen_for f xs = (map h xs, None)"
  by (induction xs) (auto simp: gen_then_def)

text \<open>C35: The walk of a drive whose pages end returns: it yields a record for every item of every page, in
  order and once, folders among them, and then ends without an error.\<close>

theorem sharepoint_pages:
  assumes "sharepoint_start env config = Inr (Some (token, endpoint))"
    and "pages_linked (sx_get_page env token) endpoint ps"
    and "\<forall>p \<in> set ps. \<forall>item \<in> set (dp_items p). di_name item \<noteq> None \<and> di_id item \<noteq> None"
  shows "\<exists>rs. walk custom env SharePointConnector config = Some (rs, None) \<and>
    map cr_name rs = map (the \<circ> di_name) (concat (map dp_items ps)) \<and>
    map cr_is_dir rs = map di_folder (concat (map dp_items ps))"
proof -
  let ?items = "concat (map dp_items ps)"
  let ?made = "\<lambda>item. the (projr (sharepoint_record env item))"
  have each: "sharepoint_record env item = Inr (Some (?made item)) \<and> cr_name (?made item) = the (di_name item) \<and>
      cr_is_dir (?made item) = di_folder item" if "item \<in> set ?items" for item
  proof -
    from that obtain p where "p \<in> set ps" "item \<in> set (dp_items p)" by auto
    with assms(3) have "di_name item \<noteq> None \<and> di_id item \<noteq> None" by blast
    then obtain name i where "di_name item = Some name" "di_id item = Some i" by auto
    then show ?thesis by (simp add: sharepoint_record_def new_file_record_def)
  qed
  then have "gen_for (sharepoint_record env) ?items = (map ?made ?items, None)"
    by (intro gen_for_total) simp
  then have "walk custom env SharePointConnector config = Some (map ?made ?items, None)"
    using assms(1) paginate_linked [OF assms(2)] by (simp add: sharepoint_walk_def)
  moreover have "map cr_name (map ?made ?items) = map (the \<circ> di_name) ?items"
    "map cr_is_dir (map ?made ?items) = map di_folder ?items"
    using each by (simp_all add: comp_def cong: map_cong)
  ultimately show ?thesis by blast
qed

section \<open>The registry\<close>

lemma registry_ids: "map fst REGISTRY = map cm_id (list_connectors REGISTRY) \<and> distinct (map fst REGISTRY)"
  by (simp add: REGISTRY_def list_connectors_def local_manifest_def smb_manifest_def nfs_manifest_def
      s3_manifest_def azure_manifest_def sharepoint_manifest_def gcs_manifest_def)

lemma get_registered:
  "get_connector (register_connector c reg) k = (if k = cm_id (manifest c) then Some c else get_connector reg k)"
  by (simp add: get_connector_def register_connector_def map_of_dict_set)

text \<open>The test of an S3 connector uses only its bucket and its region, not its endpoint and its keys;
  without a connection string the test of an Azure connector does not connect at all.\<close>

lemma s3_test_ignores_credentials:
  "k \<noteq> ''bucket'' \<Longrightarrow> k \<noteq> ''region'' \<Longrightarrow> s3_test env (dict_set k v config) = s3_test env config"
proof -
  assume ne: "k \<noteq> ''bucket''" "k \<noteq> ''region''"
  then have "dict_item (dict_set k v config) ''bucket'' = dict_item config ''bucket''"
    "dict_get_or (dict_set k v config) ''region'' w = dict_get_or config ''region'' w" for w
    by (simp_all add: dict_item_def dict_get_def dict_get_or_def map_of_dict_set)
  then show ?thesis by (simp only: s3_test_def)
qed

lemma azure_test_vacuous:
  "dict_get config ''connection_string'' = None \<Longrightarrow> dict_get config ''account_name'' = Some a \<Longrightarrow>
   sx_installed env ''azure'' \<Longrightarrow> azure_test env config = (True, ''Connected to '' @ fmt env a)"
  by (simp add: azure_test_def caught_def need_def dict_get_def dict_get_or_def dict_item_def)

section \<open>Witnesses\<close>

definition example_tree :: fs_node where
  "example_tree = FsDir False True
     [(''a.TXT'', FsFile (Some (3, 1))), (''gone'', FsFile None),
      (''src'', FsDir False True [(''b.py'', FsFile (Some (5, 2)))]),
      (''.git'', FsDir False True [(''HEAD'', FsFile (Some (1, 1)))])]"

definition example_sdk :: sdk_env where
  "example_sdk =
     \<lparr> sx_sha256 = id, sx_repr = (\<lambda>v. ''?''), sx_err = (\<lambda>e. ''error''), sx_installed = (\<lambda>p. True),
       sx_expanduser = id, sx_fs = (\<lambda>p. if p = ''/data'' then Some example_tree else None),
       sx_s3_pages = (\<lambda>kw b p. ([Some [\<lparr>so_key = ''x/y.PDF'', so_size = 9, so_last_modified = 4, so_etag = None,
                                        so_storage_class = None\<rparr>]], None)),
       sx_s3_head_bucket = (\<lambda>r b. Inr ()), sx_azure_blobs = (\<lambda>c n p. ([], None)), sx_azure_account = (\<lambda>c. Inr ()),
       sx_gcs_blobs = (\<lambda>c b p. Inr []), sx_gcs_reload = (\<lambda>c b. Inr ()), sx_json_loads = (\<lambda>t. Inr JNull),
       sx_smb_session = (\<lambda>h u p q. Inr ()), sx_smb_scandir = (\<lambda>p. ([], None)), sx_smb_listdir = (\<lambda>p. Inr ()),
       sx_post_token = (\<lambda>u d. Inr (True, Some ''tok'')), sx_get_site = (\<lambda>t u. Inr (True, Some ''site'')),
       sx_get_drives = (\<lambda>t u. Inr (True, [(Some ''Documents'', Some ''d1'')])),
       sx_get_page = (\<lambda>t u. if u = ''next'' then Inr (True, \<lparr>dp_items = [], dp_next = None\<rparr>)
          else Inr (True, \<lparr>dp_items = [\<lparr>di_id = Some ''1'', di_name = Some ''f.txt'', di_size = None, di_parent_path = None,
             di_modified = None, di_folder = False, di_web_url = None, di_mime_type = None\<rparr>], dp_next = Some ''next''\<rparr>)),
       sx_fromisoformat = (\<lambda>t. None) \<rparr>"

theorem local_walk_exact_witness:
  "\<exists>rs st. local_walk example_sdk [(''path'', JStr ''/data'')] = (rs, None) \<and>
     fs_record ''/data/src/b.py'' ''b.py'' ''/data/src/b.py'' st \<in> set rs"
proof -
  have "case local_walk example_sdk [(''path'', JStr ''/data'')] of (rs, Some e) \<Rightarrow> False | (rs, None) \<Rightarrow> True"
    by code_simp
  then obtain rs where run: "local_walk example_sdk [(''path'', JStr ''/data'')] = (rs, None)"
    by (auto split: prod.splits option.splits)
  let ?keep = "local_keep (map str_strip (split_char (CHR '','') ''.git,node_modules''))"
  let ?data = "parse_path ''/data''"
  have keep: "?keep ?data ''src'' = Inr True" by code_simp
  have at_data: "sx_fs example_sdk (path_str (parse_path (sx_expanduser example_sdk ''/data''))) = Some example_tree"
    by code_simp
  have "reaches ?keep False (?data\<lparr>pp_parts := pp_parts ?data @ [''src'']\<rparr>)
      (FsDir False True [(''b.py'', FsFile (Some (5, 2)))])
      (?data\<lparr>pp_parts := pp_parts ?data @ [''src'']\<rparr>) ''b.py'' (5, 2)"
    by (rule reaches.here) simp
  then have "reaches ?keep False ?data example_tree (?data\<lparr>pp_parts := pp_parts ?data @ [''src'']\<rparr>) ''b.py'' (5, 2)"
    unfolding example_tree_def by (intro reaches.below [where d = "''src''"]) (use keep in simp_all)
  moreover have "path_str (path_join (?data\<lparr>pp_parts := pp_parts ?data @ [''src'']\<rparr>) ''b.py'') = ''/data/src/b.py''"
    by code_simp
  moreover have "r \<in> set rs \<longleftrightarrow> (\<exists>dir name st. reaches ?keep False ?data example_tree dir name st \<and>
      r = fs_record (path_str (path_join dir name)) name (path_str (path_join dir name)) st)" for r
    using local_walk_exact [OF run, of "''/data''" "''.git,node_modules''" example_tree] at_data
    by (simp add: dict_get_def dict_get_or_def example_sdk_def)
  ultimately have "fs_record ''/data/src/b.py'' ''b.py'' ''/data/src/b.py'' (5, 2) \<in> set rs" by metis
  with run show ?thesis by blast
qed

theorem empty_pattern_ends_walk_witness:
  "local_walk example_sdk [(''path'', JStr ''/data''), (''exclude_patterns'', JStr ''.git,'')] =
     ([], Some (ValueError ''empty pattern''))"
proof (rule empty_pattern_ends_walk [where d = "''src''" and p = "''/data''" and t = "''.git,''"])
  show "sx_fs example_sdk (path_str (parse_path (sx_expanduser example_sdk ''/data''))) =
      Some (FsDir False True
     [(''a.TXT'', FsFile (Some (3, 1))), (''gone'', FsFile None),
      (''src'', FsDir False True [(''b.py'', FsFile (Some (5, 2)))]),
      (''.git'', FsDir False True [(''HEAD'', FsFile (Some (1, 1)))])])"
    by code_simp
  have patterns: "map str_strip (split_char (CHR '','') ''.git,'') = [''.git'', '''']" by code_simp
  then show "'''' \<in> set (map str_strip (split_char (CHR '','') ''.git,''))" by simp
  have "path_match (path_join (parse_path (sx_expanduser example_sdk ''/data'')) ''src'') ''.git'' = Inr False"
    by code_simp
  with patterns show "ex \<in> set (map str_strip (split_char (CHR '','') ''.git,'')) \<Longrightarrow> ex = '''' \<or>
      path_match (path_join (parse_path (sx_expanduser example_sdk ''/data'')) ''src'') ex = Inr False" for ex
    by auto
  show "(''src'', FsDir False True [(''b.py'', FsFile (Some (5, 2)))]) \<in> set
     [(''a.TXT'', FsFile (Some (3, 1))), (''gone'', FsFile None),
      (''src'', FsDir False True [(''b.py'', FsFile (Some (5, 2)))]),
      (''.git'', FsDir False True [(''HEAD'', FsFile (Some (1, 1)))])]" by simp
qed (simp_all add: dict_get_def)

theorem url_parents_dangle_witness:
  "\<exists>g r edge. walk (\<lambda>m c. None) example_sdk S3Connector [(''bucket'', JStr ''b'')] = Some g \<and> r \<in> set (fst g) \<and>
     to_parent_edge id r ''c'' = Some edge"
proof -
  let ?g = "s3_walk example_sdk [(''bucket'', JStr ''b'')]"
  have walk: "walk (\<lambda>m c. None) example_sdk S3Connector [(''bucket'', JStr ''b'')] = Some ?g" by simp
  have "fst ?g \<noteq> []" by code_simp
  then have r: "hd (fst ?g) \<in> set (fst ?g)" by simp
  from url_parents_dangle [OF walk _ r, of id "''c''"] walk r show ?thesis by auto
qed

theorem sharepoint_pages_witness:
  "\<exists>rs. walk (\<lambda>m c. None) example_sdk SharePointConnector
       [(''tenant_id'', JStr ''t''), (''client_id'', JStr ''i''), (''client_secret'', JStr ''s''),
        (''site_url'', JStr ''https://h/sites/x'')] = Some (rs, None) \<and> map cr_name rs = [''f.txt'']"
proof -
  let ?config = "[(''tenant_id'', JStr ''t''), (''client_id'', JStr ''i''), (''client_secret'', JStr ''s''),
        (''site_url'', JStr ''https://h/sites/x'')]"
  let ?page = "\<lparr>dp_items = [\<lparr>di_id = Some ''1'', di_name = Some ''f.txt'', di_size = None, di_parent_path = None,
       di_modified = None, di_folder = False, di_web_url = None, di_mime_type = None\<rparr>], dp_next = Some ''next''\<rparr>"
  let ?last_page = "\<lparr>dp_items = [], dp_next = None\<rparr>"
  have start: "sharepoint_start example_sdk ?config =
      Inr (Some (''tok'', ''https://graph.microsoft.com/v1.0/drives/d1/root/children''))"
    by code_simp
  have linked: "pages_linked (sx_get_page example_sdk ''tok'')
      ''https://graph.microsoft.com/v1.0/drives/d1/root/children'' [?page, ?last_page]"
    by (simp add: example_sdk_def)
  from sharepoint_pages [OF start linked, of "\<lambda>m c. None"] show ?thesis by auto
qed

end
