(* ===== verification/Connectors.thy ===== *)
theory Connectors
  imports Sdk
begin

text \<open>
  \<open>api/connectors_full.py\<close>, \<open>api/connectors.py\<close>, \<open>api/scan_schedule.py\<close> and \<open>tasks/indexer.py\<close>: the
  connectors of a tenant, their health, their tests, their schedules and the scan task.

  The state is the database, the schedule that the process's Celery application holds, and the tasks
  sent. The error rate of a scan and the age of the last one are compared as exact numbers: within the
  range of the columns the floating-point comparison gives the same answer. The text of the rate is a
  field of \<open>connector_env\<close>, and so are the connector library, the registry and the message broker.
\<close>

section \<open>State\<close>

record beat_entry =
  be_task :: string
  be_schedule :: int
  be_args :: "string list"
  be_queue :: string

record sent_task =
  st_name :: string
  st_args :: "string list"
  st_queue :: string
  st_payload :: py_dict

record connector_state =
  ct_db :: db
  ct_beat :: "(string \<times> beat_entry) list"
  ct_sent :: "sent_task list"

type_synonym 'a connector_op = "(connector_state, 'a) handler"

record connector_env =
  cv_sdk :: sdk_env
  cv_registry :: connector_registry
  cv_custom_test :: "connector_manifest \<Rightarrow> py_dict \<Rightarrow> py_error + bool \<times> string"
  cv_percent :: "int \<Rightarrow> int \<Rightarrow> string"
  cv_send_task :: "py_error + string"
  cv_list_files :: "connector_manifest \<Rightarrow> py_dict \<Rightarrow> py_error + nat"
  cv_retry :: py_error
  cv_str :: "py_error \<Rightarrow> string"

definition in_ct_db :: "'a endpoint \<Rightarrow> 'a connector_op" where
  "in_ct_db m = (\<lambda>s. case m (ct_db s) of (r, d) \<Rightarrow> (r, s\<lparr>ct_db := d\<rparr>))"

text \<open>One request: an error rolls the database back, not the schedule and not what was sent.\<close>

definition connector_request :: "'a connector_op \<Rightarrow> 'a connector_op" where
  "connector_request = transaction (\<lambda>s. constraints (ct_db s)) (\<lambda>s s'. s'\<lparr>ct_db := ct_db s\<rparr>)"

section \<open>Health\<close>

definition agent_online :: "time \<Rightarrow> scanner_agent \<Rightarrow> bool" where
  "agent_online now a \<longleftrightarrow> (case sa_last_seen a of None \<Rightarrow> False | Some t \<Rightarrow> now - t < seconds 300)"

definition scan_warnings :: "connector_env \<Rightarrow> connector \<Rightarrow> string list" where
  "scan_warnings env c =
     (if cn_last_scan_errors c \<noteq> 0 \<and> cn_last_scan_files c \<noteq> 0 \<and>
         of_int (cn_last_scan_errors c) / of_int (max (cn_last_scan_files c) 1) > (1 / 20 :: rat)
      then [int_str (cn_last_scan_errors c) @ '' errors in last scan ('' @
            cv_percent env (cn_last_scan_errors c) (cn_last_scan_files c) @ ''%)'']
      else [])"

definition age_warnings :: "time \<Rightarrow> string list" where
  "age_warnings age =
     (if age > hours 168 then [''Last scan was '' @ int_str (age div days 1) @ '' days ago'']
      else if age > hours 48 then [''Last scan was '' @ int_str (age div hours 1) @ '' hours ago'']
      else [])"

definition compute_health :: "connector_env \<Rightarrow> time \<Rightarrow> connector \<Rightarrow> string \<times> string list \<times> string list" where
  "compute_health env now c =
     (case cn_last_scan_at c of
        None \<Rightarrow> (''unknown'', [], [])
      | Some t \<Rightarrow>
          if cn_last_scan_status c = Some ''never'' then (''unknown'', [], [])
          else if cn_last_scan_status c = Some ''error''
          then (''error'', [], [str_or (cn_last_scan_error_msg c) ''Last scan failed''])
          else
            (let errors = (if cn_last_test_result c = Some False
                           then [str_or (cn_last_test_msg c) ''Connection test failed''] else []);
                 warnings = scan_warnings env c @ age_warnings (now - t)
             in if errors \<noteq> [] then (''error'', warnings, errors)
                else if warnings \<noteq> [] then (''warning'', warnings, errors)
                else (''healthy'', warnings, errors)))"

definition routing_modes_for :: "string \<Rightarrow> string list" where
  "routing_modes_for connector_type =
     (if connector_type \<in> {''smb'', ''nfs'', ''local''} then [''agent'']
      else if connector_type \<in> {''aws-s3'', ''azure-blob'', ''gcs'', ''sharepoint''} then [''direct'', ''agent'', ''auto'']
      else [''direct'', ''agent'', ''auto''])"

section \<open>Connectors\<close>

record agent_view =
  av_id :: uuid
  av_name :: string
  av_platform :: "string option"
  av_is_online :: bool

record connector_view =
  cw_connector :: connector
  cw_agent :: "agent_view option"
  cw_health :: "string \<times> string list \<times> string list"
  cw_config_schema :: "py_dict option"

definition connector_dict :: "connector_env \<Rightarrow> time \<Rightarrow> connector \<Rightarrow> scanner_agent option \<Rightarrow> connector_view" where
  "connector_dict env now c agent =
     \<lparr> cw_connector = c,
       cw_agent = map_option (\<lambda>a. \<lparr> av_id = sa_id a, av_name = sa_name a, av_platform = sa_platform a,
                                    av_is_online = agent_online now a \<rparr>) agent,
       cw_health = compute_health env now c, cw_config_schema = None \<rparr>"

definition list_connector_types :: "connector_env \<Rightarrow> (connector_manifest \<times> string list) list" where
  "list_connector_types env =
     map (\<lambda>m. (m, routing_modes_for (cm_id m))) (list_connectors (cv_registry env))"

text \<open>\<open>agents.get(c.scanner_agent_id)\<close>, where \<open>agents\<close> has the rows of all the identifiers in use.\<close>

definition agent_by_id :: "uuid option \<Rightarrow> db \<Rightarrow> scanner_agent option" where
  "agent_by_id i s = (case i of None \<Rightarrow> None | Some j \<Rightarrow> find (\<lambda>a. sa_id a = j) (scanner_agents s))"

definition list_tenant_connectors :: "connector_env \<Rightarrow> time \<Rightarrow> auth_context \<Rightarrow> connector_view list endpoint" where
  "list_tenant_connectors env now auth =
     gets (\<lambda>s. map (\<lambda>c. connector_dict env now c (agent_by_id (cn_scanner_agent_id c) s))
                (sort_key (\<lambda>c. - cn_created_at c)
                  (filter (\<lambda>c. cn_tenant_id c = ac_tenant_id auth) (connectors s))))"

record create_connector_request =
  cq_name :: string
  cq_description :: string
  cq_connector_type :: string
  cq_config :: py_dict
  cq_tags :: "string list"
  cq_scanner_agent_id :: "string option"
  cq_routing_mode :: string

definition uuid_arg :: "string \<Rightarrow> py_error + uuid" where
  "uuid_arg t = (case parse_uuid t of None \<Rightarrow> Inl (ValueError ''badly formed hexadecimal UUID string'') | Some i \<Rightarrow> Inr i)"

definition own_agent :: "auth_context \<Rightarrow> string option \<Rightarrow> uuid option endpoint" where
  "own_agent auth i =
     (case opt_str_or i None of
        None \<Rightarrow> ret None
      | Some t \<Rightarrow>
          bnd (lift_err (uuid_arg t)) (\<lambda>agent_uuid.
          bnd (select_one scanner_agents (\<lambda>a. sa_id a = agent_uuid \<and> sa_tenant_id a = ac_tenant_id auth)) (\<lambda>found.
          if found = None then raise (HTTPException 404 ''Scanner agent not found'') else ret (Some agent_uuid))))"

definition created_connector ::
  "time \<Rightarrow> auth_context \<Rightarrow> create_connector_request \<Rightarrow> uuid option \<Rightarrow> uuid \<Rightarrow> connector" where
  "created_connector now auth req agent_uuid i =
     (new_connector i now (ac_tenant_id auth) (cq_name req) (cq_connector_type req))
       \<lparr>cn_description := Some (cq_description req), cn_config := cq_config req, cn_tags := cq_tags req,
        cn_scanner_agent_id := agent_uuid, cn_routing_mode := cq_routing_mode req,
        cn_created_by := Some (ac_user_id auth), cn_last_scan_status := Some ''never''\<rparr>"

definition create_connector ::
  "connector_env \<Rightarrow> time \<Rightarrow> auth_context \<Rightarrow> create_connector_request \<Rightarrow> connector_view endpoint" where
  "create_connector env now auth req =
     thn (guard (''mounts:write'' \<in> ac_permissions auth \<or> ''admin:*'' \<in> ac_permissions auth)
            (HTTPException 403 ''Permission required: mounts:write''))
     (thn (guard (get_connector (cv_registry env) (cq_connector_type req) \<noteq> None)
            (HTTPException 400 ''Unknown connector type''))
     (bnd (own_agent auth (cq_scanner_agent_id req)) (\<lambda>agent_uuid.
      bnd fresh (\<lambda>i.
        let c = created_connector now auth req agent_uuid i
        in thn (modify (\<lambda>s. s\<lparr>connectors := connectors s @ [c]\<rparr>))
          (thn flush (ret (connector_dict env now c None)))))))"

definition get_connector_or_404 :: "string \<Rightarrow> auth_context \<Rightarrow> connector endpoint" where
  "get_connector_or_404 connector_id auth =
     bnd (lift_err (uuid_arg connector_id)) (\<lambda>i.
     bnd (select_one connectors (\<lambda>c. cn_id c = i \<and> cn_tenant_id c = ac_tenant_id auth)) (\<lambda>found.
     case found of None \<Rightarrow> raise (HTTPException 404 ''Connector not found'') | Some c \<Rightarrow> ret c))"

definition get_connector_detail :: "connector_env \<Rightarrow> time \<Rightarrow> auth_context \<Rightarrow> string \<Rightarrow> connector_view endpoint" where
  "get_connector_detail env now auth connector_id =
     bnd (get_connector_or_404 connector_id auth) (\<lambda>c.
     bnd (case cn_scanner_agent_id c of
            None \<Rightarrow> ret None | Some i \<Rightarrow> select_one scanner_agents (\<lambda>a. sa_id a = i)) (\<lambda>agent.
     ret ((connector_dict env now c agent)
            \<lparr>cw_config_schema := map_option (\<lambda>cls. cm_config_schema (manifest cls))
               (get_connector (cv_registry env) (cn_connector_type c))\<rparr>)))"

definition put_connector :: "connector \<Rightarrow> db \<Rightarrow> db" where
  "put_connector c s = s\<lparr>connectors := put_row cn_id c (connectors s)\<rparr>"

record update_connector_request =
  uc_name :: "string option"
  uc_description :: "string option"
  uc_config :: "py_dict option"
  uc_tags :: "string list option"
  uc_scanner_agent_id :: "string option"
  uc_routing_mode :: "string option"
  uc_is_active :: "bool option"

definition given :: "'a option \<Rightarrow> 'a \<Rightarrow> 'a" where
  "given new old = (case new of None \<Rightarrow> old | Some x \<Rightarrow> x)"

text \<open>
  An agent identifier that is the empty text is assigned as it is, and the driver refuses it when the
  request commits.
\<close>

definition apply_connector_update :: "update_connector_request \<Rightarrow> connector \<Rightarrow> py_error + connector" where
  "apply_connector_update req c =
     map_sum id (\<lambda>agent. c\<lparr>cn_name := given (uc_name req) (cn_name c),
         cn_description := (case uc_description req of None \<Rightarrow> cn_description c | Some d \<Rightarrow> Some d),
         cn_config := given (uc_config req) (cn_config c), cn_tags := given (uc_tags req) (cn_tags c),
         cn_scanner_agent_id := agent, cn_routing_mode := given (uc_routing_mode req) (cn_routing_mode c),
         cn_is_active := given (uc_is_active req) (cn_is_active c)\<rparr>)
       (case uc_scanner_agent_id req of
          None \<Rightarrow> Inr (cn_scanner_agent_id c)
        | Some t \<Rightarrow> if t = [] then Inl (OtherError ''DBAPIError'') else map_sum id Some (uuid_arg t))"

definition update_connector ::
  "connector_env \<Rightarrow> time \<Rightarrow> auth_context \<Rightarrow> string \<Rightarrow> update_connector_request \<Rightarrow> connector_view endpoint" where
  "update_connector env now auth connector_id req =
     bnd (get_connector_or_404 connector_id auth) (\<lambda>c.
     bnd (lift_err (apply_connector_update req c)) (\<lambda>c'.
     let c2 = c'\<lparr>cn_updated_at := now\<rparr>
     in thn (modify (put_connector c2)) (ret (connector_dict env now c2 None))))"

definition delete_connector :: "auth_context \<Rightarrow> string \<Rightarrow> unit endpoint" where
  "delete_connector auth connector_id =
     bnd (get_connector_or_404 connector_id auth) (\<lambda>c.
     modify (\<lambda>s. s\<lparr>connectors := delete_where (\<lambda>x. cn_id x = cn_id c) (connectors s)\<rparr>))"

definition test_connector :: "connector_env \<Rightarrow> time \<Rightarrow> auth_context \<Rightarrow> string \<Rightarrow> (bool \<times> string) endpoint" where
  "test_connector env now auth connector_id =
     bnd (get_connector_or_404 connector_id auth) (\<lambda>c.
     case get_connector (cv_registry env) (cn_connector_type c) of
       None \<Rightarrow> raise (HTTPException 400 ''Unknown type'')
     | Some cls \<Rightarrow>
         bnd (lift_err (test_connection (cv_custom_test env) (cv_sdk env) cls (cn_config c))) (\<lambda>(success, message).
         let c' = c\<lparr>cn_last_test_at := Some now, cn_last_test_result := Some success, cn_last_test_msg := Some message\<rparr>
         in thn (modify (put_connector c')) (ret (success, message))))"

text \<open>The test of a configuration that is not saved, of \<open>api/connectors.py\<close>.\<close>

definition test_unsaved :: "connector_env \<Rightarrow> string \<Rightarrow> py_dict \<Rightarrow> (bool \<times> string) endpoint" where
  "test_unsaved env connector_type config =
     (case get_connector (cv_registry env) connector_type of
        None \<Rightarrow> raise (HTTPException 400 ''Unknown connector type'')
      | Some cls \<Rightarrow> lift_err (test_connection (cv_custom_test env) (cv_sdk env) cls config))"

definition available_agents :: "time \<Rightarrow> auth_context \<Rightarrow> string \<Rightarrow> (scanner_agent \<times> bool) list endpoint" where
  "available_agents now auth connector_id =
     thn (get_connector_or_404 connector_id auth)
     (bnd (select_all scanner_agents (\<lambda>a. sa_tenant_id a = ac_tenant_id auth \<and> sa_is_active a)) (\<lambda>agents.
      ret (map (\<lambda>a. (a, agent_online now a)) agents)))"

section \<open>Schedules\<close>

definition VALID_SCHEDULES :: "(string \<times> int option) list" where
  "VALID_SCHEDULES =
     [(''manual'', None), (''1h'', Some 3600), (''6h'', Some 21600), (''12h'', Some 43200), (''24h'', Some 86400),
      (''48h'', Some 172800), (''weekly'', Some 604800)]"

definition schedule_name :: "string \<Rightarrow> string" where
  "schedule_name connector_id = ''scan-connector-'' @ connector_id"

definition scan_task :: string where
  "scan_task = ''dgraphai.tasks.indexer.scan_connector''"

definition register_celery_schedule :: "string \<Rightarrow> string \<Rightarrow> int \<Rightarrow> unit connector_op" where
  "register_celery_schedule connector_id tenant_id interval_secs =
     modify (\<lambda>s. s\<lparr>ct_beat := dict_set (schedule_name connector_id)
       \<lparr> be_task = scan_task, be_schedule = interval_secs, be_args = [tenant_id, connector_id],
         be_queue = ''indexing'' \<rparr> (ct_beat s)\<rparr>)"

definition unregister_celery_schedule :: "string \<Rightarrow> unit connector_op" where
  "unregister_celery_schedule connector_id =
     modify (\<lambda>s. s\<lparr>ct_beat := filter (\<lambda>e. fst e \<noteq> schedule_name connector_id) (ct_beat s)\<rparr>)"

definition set_scan_schedule :: "auth_context \<Rightarrow> string \<Rightarrow> string \<Rightarrow> int option connector_op" where
  "set_scan_schedule auth connector_id schedule =
     (case map_of VALID_SCHEDULES schedule of
        None \<Rightarrow> raise (HTTPException 400 ''Invalid schedule'')
      | Some interval_secs \<Rightarrow>
          bnd (in_ct_db (get_connector_or_404 connector_id auth)) (\<lambda>c.
          let config = dict_set ''scan_interval_seconds''
                (case interval_secs of None \<Rightarrow> JNull | Some n \<Rightarrow> JInt n)
                (dict_set ''scan_schedule'' (JStr schedule) (cn_config c))
          in thn (in_ct_db (modify (put_connector (c\<lparr>cn_config := config\<rparr>))))
            (thn (case interval_secs of
                    None \<Rightarrow> unregister_celery_schedule (uuid_str (cn_id c))
                  | Some n \<Rightarrow> register_celery_schedule (uuid_str (cn_id c)) (uuid_str (ac_tenant_id auth)) n)
              (ret interval_secs))))"

definition trigger_manual_scan :: "connector_env \<Rightarrow> auth_context \<Rightarrow> string \<Rightarrow> string connector_op" where
  "trigger_manual_scan env auth connector_id =
     bnd (in_ct_db (get_connector_or_404 connector_id auth)) (\<lambda>c.
     case cv_send_task env of
       Inl e \<Rightarrow> raise e
     | Inr task_id \<Rightarrow>
         thn (modify (\<lambda>s. s\<lparr>ct_sent := ct_sent s @
                [\<lparr> st_name = scan_task, st_args = [uuid_str (ac_tenant_id auth), connector_id],
                   st_queue = ''indexing'', st_payload = [] \<rparr>]\<rparr>))
         (ret task_id))"

section \<open>The scan task\<close>

text \<open>
  \<open>instance.list_files()\<close>: none of the built-in classes, nor their base class, has this method. A class
  somebody registered may have it, which is a parameter.
\<close>

fun list_files :: "connector_env \<Rightarrow> connector_class \<Rightarrow> py_dict \<Rightarrow> py_error + nat" where
  "list_files env (CustomConnector m) config = cv_list_files env m config"
| "list_files env c config = Inl AttributeError"

definition scan_cloud_connector :: "connector_env \<Rightarrow> string \<Rightarrow> py_dict \<Rightarrow> int \<times> int" where
  "scan_cloud_connector env connector_type config =
     (case get_connector (cv_registry env) connector_type of
        None \<Rightarrow> (0, 0)
      | Some cls \<Rightarrow>
          (case list_files env cls config of
             Inr n \<Rightarrow> (int n, 0)
           | Inl e \<Rightarrow> if e = OtherError ''NotImplementedError'' then (0, 0) else (0, 1)))"

definition run_scan :: "connector_env \<Rightarrow> string \<Rightarrow> py_dict \<Rightarrow> int \<times> int" where
  "run_scan env connector_type config =
     (if connector_type \<in> {''aws-s3'', ''azure-blob'', ''gcs'', ''sharepoint''}
      then scan_cloud_connector env connector_type config else (0, 0))"

text \<open>A session that is closed without a commit: what it wrote is lost.\<close>

definition uncommitted :: "'a endpoint \<Rightarrow> 'a connector_op" where
  "uncommitted m = (\<lambda>s. (fst (m (ct_db s)), s))"

definition update_connector_rows :: "uuid \<Rightarrow> (connector \<Rightarrow> connector) \<Rightarrow> unit endpoint" where
  "update_connector_rows i f = modify (\<lambda>s. s\<lparr>connectors := update_where (\<lambda>c. cn_id c = i) f (connectors s)\<rparr>)"

definition start_scan :: "time \<Rightarrow> string \<Rightarrow> string \<Rightarrow> connector option endpoint" where
  "start_scan start tenant_id connector_id =
     bnd (lift_err (uuid_arg connector_id)) (\<lambda>i.
     bnd (lift_err (uuid_arg tenant_id)) (\<lambda>tid.
     bnd (select_one connectors (\<lambda>c. cn_id c = i \<and> cn_tenant_id c = tid \<and> cn_is_active c)) (\<lambda>found.
     thn (py_when (found \<noteq> None) (update_connector_rows i
            (\<lambda>c. c\<lparr>cn_last_scan_status := Some ''running'', cn_last_scan_at := Some start, cn_last_scan_errors := 0\<rparr>)))
     (ret found))))"

definition scan_success :: "time \<Rightarrow> time \<Rightarrow> int \<Rightarrow> int \<Rightarrow> connector \<Rightarrow> connector" where
  "scan_success start now files_indexed errors c =
     c\<lparr>cn_last_scan_status := Some ''success'', cn_last_scan_at := Some now,
       cn_last_scan_duration_secs := Some (of_int (now - start) / of_int (seconds 1)),
       cn_last_scan_files := files_indexed, cn_last_scan_errors := errors,
       cn_total_files_indexed := map_option (\<lambda>n. n + files_indexed) (cn_total_files_indexed c)\<rparr>"

definition scan_failure :: "connector_env \<Rightarrow> time \<Rightarrow> py_error \<Rightarrow> connector \<Rightarrow> connector" where
  "scan_failure env now e c =
     c\<lparr>cn_last_scan_status := Some ''error'', cn_last_scan_at := Some now,
       cn_last_scan_error_msg := Some (take 500 (cv_str env e))\<rparr>"

definition dispatch_scan_event :: "connector_env \<Rightarrow> string \<Rightarrow> string \<Rightarrow> py_dict \<Rightarrow> unit connector_op" where
  "dispatch_scan_event env tenant_id event_type payload =
     (case cv_send_task env of
        Inl e \<Rightarrow> ret ()
      | Inr i \<Rightarrow> modify (\<lambda>s. s\<lparr>ct_sent := ct_sent s @
          [\<lparr> st_name = ''dgraphai.webhooks.deliver_webhook_event'', st_args = [tenant_id, event_type],
             st_queue = ''default'', st_payload = payload \<rparr>]\<rparr>))"

definition finish_scan ::
  "connector_env \<Rightarrow> time \<Rightarrow> time \<Rightarrow> string \<Rightarrow> string \<Rightarrow> connector \<Rightarrow> unit connector_op" where
  "finish_scan env start now tenant_id connector_id c =
     (case run_scan env (cn_connector_type c) (cn_config c) of
        (files_indexed, errors) \<Rightarrow>
          bnd (lift_err (uuid_arg connector_id)) (\<lambda>i.
          thn (uncommitted (update_connector_rows i (scan_success start now files_indexed errors)))
            (dispatch_scan_event env tenant_id ''connector.scan.complete''
               [(''connector_id'', JStr connector_id), (''files_indexed'', JInt files_indexed),
                (''duration_secs'', JNum (of_int (now - start) / of_int (seconds 1)))])))"

definition scan_connector :: "connector_env \<Rightarrow> time \<Rightarrow> time \<Rightarrow> string \<Rightarrow> string \<Rightarrow> unit connector_op" where
  "scan_connector env start now tenant_id connector_id =
     thn (import_from session_module ''async_session'')
     (bnd (uncommitted (start_scan start tenant_id connector_id)) (\<lambda>found.
      case found of
        None \<Rightarrow> ret ()
      | Some c \<Rightarrow>
          py_try (finish_scan env start now tenant_id connector_id c) (\<lambda>e.
            bnd (lift_err (uuid_arg connector_id)) (\<lambda>i.
            thn (uncommitted (update_connector_rows i (scan_failure env now e)))
              (thn (dispatch_scan_event env tenant_id ''connector.scan.failed''
                      [(''connector_id'', JStr connector_id), (''error'', JStr (take 200 (cv_str env e)))])
                (raise (cv_retry env)))))))"

section \<open>Health\<close>

text \<open>A connector is shown as healthy exactly when it has been scanned without failing, its last test did
  not fail, its last scan is at most two days old and at most one file in twenty had an error; a scan
  that only had errors and no file counts as one without.\<close>

theorem healthy_iff:
  "fst (compute_health env now c) = ''healthy'' \<longleftrightarrow>
     (\<exists>t. cn_last_scan_at c = Some t \<and> now - t \<le> hours 48) \<and>
     cn_last_scan_status c \<noteq> Some ''never'' \<and> cn_last_scan_status c \<noteq> Some ''error'' \<and>
     cn_last_test_result c \<noteq> Some False \<and>
     (cn_last_scan_files c = 0 \<or> 20 * cn_last_scan_errors c \<le> max (cn_last_scan_files c) 1)"
proof -
  let ?e = "cn_last_scan_errors c" and ?f = "cn_last_scan_files c"
  have "(1 / 20 :: rat) < of_int ?e / of_int (max ?f 1) \<longleftrightarrow> (of_int (max ?f 1) :: rat) < of_int (20 * ?e)"
    by (simp add: field_simps)
  also have "\<dots> \<longleftrightarrow> max ?f 1 < 20 * ?e" by (simp only: of_int_less_iff)
  finally have rate: "scan_warnings env c = [] \<longleftrightarrow> ?e = 0 \<or> ?f = 0 \<or> 20 * ?e \<le> max ?f 1"
    by (auto simp: scan_warnings_def)
  show ?thesis
    using rate
    by (cases "cn_last_scan_at c") (auto simp: compute_health_def age_warnings_def Let_def)
qed

section \<open>The requests\<close>

datatype connector_call =
    ListConnectors
  | CreateConnector create_connector_request
  | GetConnector string
  | UpdateConnector string update_connector_request
  | DeleteConnector string
  | TestConnector string
  | TestUnsaved string py_dict
  | AvailableAgents string
  | SetSchedule string string
  | TriggerScan string

definition unit_of :: "'a connector_op \<Rightarrow> unit connector_op" where
  "unit_of m = bnd m (\<lambda>x. ret ())"

fun connector_handle :: "connector_env \<Rightarrow> time \<Rightarrow> auth_context \<Rightarrow> connector_call \<Rightarrow> unit connector_op" where
  "connector_handle env now auth ListConnectors = unit_of (in_ct_db (list_tenant_connectors env now auth))"
| "connector_handle env now auth (CreateConnector req) = unit_of (in_ct_db (create_connector env now auth req))"
| "connector_handle env now auth (GetConnector i) = unit_of (in_ct_db (get_connector_detail env now auth i))"
| "connector_handle env now auth (UpdateConnector i req) = unit_of (in_ct_db (update_connector env now auth i req))"
| "connector_handle env now auth (DeleteConnector i) = unit_of (in_ct_db (delete_connector auth i))"
| "connector_handle env now auth (TestConnector i) = unit_of (in_ct_db (test_connector env now auth i))"
| "connector_handle env now auth (TestUnsaved ty config) = unit_of (in_ct_db (test_unsaved env ty config))"
| "connector_handle env now auth (AvailableAgents i) = unit_of (in_ct_db (available_agents now auth i))"
| "connector_handle env now auth (SetSchedule i schedule) = unit_of (set_scan_schedule auth i schedule)"
| "connector_handle env now auth (TriggerScan i) = unit_of (trigger_manual_scan env auth i)"

text \<open>A request by a member of a tenant, or the task at one time and its end at another.\<close>

datatype connector_event =
    Request time auth_context connector_call
  | ScanTask time time string string

fun connector_step :: "connector_env \<Rightarrow> connector_event \<Rightarrow> connector_state \<Rightarrow> connector_state" where
  "connector_step env (Request now auth call) s = snd (connector_request (connector_handle env now auth call) s)"
| "connector_step env (ScanTask start now tenant_id connector_id) s =
     snd (scan_connector env start now tenant_id connector_id s)"

definition connectors_ok :: "db \<Rightarrow> bool" where
  "connectors_ok d \<longleftrightarrow> unique_by cn_id (connectors d) \<and> (\<forall>c \<in> set (connectors d). cn_id c < next_uuid d)"

text \<open>What a request of a tenant may do to the database: change the tenant's own connectors.\<close>

definition own_changes :: "uuid \<Rightarrow> db \<Rightarrow> db \<Rightarrow> bool" where
  "own_changes tid d d' \<longleftrightarrow>
     d' = d\<lparr>connectors := connectors d', next_uuid := next_uuid d'\<rparr> \<and>
     filter (\<lambda>c. cn_tenant_id c \<noteq> tid) (connectors d') = filter (\<lambda>c. cn_tenant_id c \<noteq> tid) (connectors d)"

lemma own_changes_refl [simp]: "own_changes tid d d"
  by (simp add: own_changes_def)

lemma get_connector_or_404_InrD:
  assumes "get_connector_or_404 i auth d = (Inr c, d')"
  shows "d' = d" and "c \<in> set (connectors d)" and "cn_tenant_id c = ac_tenant_id auth" and "uuid_arg i = Inr (cn_id c)"
  using assms scalar_one_or_none_filter_Some [of _ "connectors d" c]
  by (auto simp: get_connector_or_404_def split: sum.splits option.splits)

text \<open>No connector has ever been scanned.\<close>

definition unscanned :: "db \<Rightarrow> bool" where
  "unscanned d \<longleftrightarrow> (\<forall>c \<in> set (connectors d). cn_last_scan_at c = None)"

lemma put_own_connector:
  assumes "connectors_ok d" and "c \<in> set (connectors d)" and "cn_id c' = cn_id c" and "cn_tenant_id c' = cn_tenant_id c"
    and "cn_last_scan_at c' = cn_last_scan_at c"
  shows "connectors_ok (put_connector c' d)" and "own_changes (cn_tenant_id c) d (put_connector c' d)"
    and "unscanned d \<Longrightarrow> unscanned (put_connector c' d)"
proof -
  show "unscanned d \<Longrightarrow> unscanned (put_connector c' d)"
    using assms(2,5) by (auto simp: unscanned_def put_connector_def dest!: in_put_row_cases)
  have only: "x = c" if "x \<in> set (connectors d)" "cn_id x = cn_id c'" for x
    using assms(1-3) that by (auto simp: connectors_ok_def dest: unique_by_same_key)
  show "connectors_ok (put_connector c' d)"
    using assms by (auto simp: connectors_ok_def put_connector_def dest!: in_put_row_cases)
  show "own_changes (cn_tenant_id c) d (put_connector c' d)"
    using assms(4) only by (auto simp: own_changes_def put_connector_def intro!: filter_put_row_other)
qed

lemma delete_own_connector:
  assumes "connectors_ok d" and "c \<in> set (connectors d)"
  defines "d' \<equiv> d\<lparr>connectors := delete_where (\<lambda>x. cn_id x = cn_id c) (connectors d)\<rparr>"
  shows "connectors_ok d'" and "own_changes (cn_tenant_id c) d d'" and "unscanned d \<Longrightarrow> unscanned d'"
proof -
  show "unscanned d \<Longrightarrow> unscanned d'" by (auto simp: unscanned_def d'_def)
  show "connectors_ok d'"
    using assms by (auto simp: connectors_ok_def intro: unique_by_delete_where)
  have "x = c" if "x \<in> set (connectors d)" "cn_id x = cn_id c" for x
    using assms(1,2) that by (auto simp: connectors_ok_def dest: unique_by_same_key)
  then show "own_changes (cn_tenant_id c) d d'"
    by (auto simp: d'_def own_changes_def delete_where_def intro!: filter_cong)
qed

text \<open>The database part of a request: what it did, and that it keeps identifiers unique.\<close>

definition own_result :: "uuid \<Rightarrow> db \<Rightarrow> db \<Rightarrow> bool" where
  "own_result tid d d' \<longleftrightarrow> connectors_ok d' \<and> own_changes tid d d' \<and> (unscanned d \<longrightarrow> unscanned d')"

definition own_run :: "uuid \<Rightarrow> 'a endpoint \<Rightarrow> bool" where
  "own_run tid m \<longleftrightarrow> (\<forall>d x d'. connectors_ok d \<longrightarrow> m d = (Inr x, d') \<longrightarrow> own_result tid d d')"

lemma own_runI:
  "(\<And>d x d'. connectors_ok d \<Longrightarrow> m d = (Inr x, d') \<Longrightarrow> own_result tid d d') \<Longrightarrow> own_run tid m"
  by (simp add: own_run_def)

lemma own_runD: "own_run tid m \<Longrightarrow> connectors_ok d \<Longrightarrow> m d = (Inr x, d') \<Longrightarrow> own_result tid d d'"
  by (simp add: own_run_def)

lemma own_result_refl: "connectors_ok d \<Longrightarrow> own_result tid d d"
  by (simp add: own_result_def)

lemma own_result_put:
  "connectors_ok d \<Longrightarrow> c \<in> set (connectors d) \<Longrightarrow> cn_id c' = cn_id c \<Longrightarrow> cn_tenant_id c' = cn_tenant_id c \<Longrightarrow>
   cn_last_scan_at c' = cn_last_scan_at c \<Longrightarrow> own_result (cn_tenant_id c) d (put_connector c' d)"
  using put_own_connector [of d c c'] by (simp add: own_result_def)

lemma own_run_read: "(\<And>d x d'. m d = (Inr x, d') \<Longrightarrow> d' = d) \<Longrightarrow> own_run tid m"
  by (intro own_runI) (metis own_result_refl)

lemma own_agent_InrD: "own_agent auth i d = (Inr x, d') \<Longrightarrow> d' = d"
  by (auto simp: own_agent_def split: handler_splits)

lemma own_run_list: "own_run tid (list_tenant_connectors env now auth)"
  by (rule own_run_read) (simp add: list_tenant_connectors_def)

lemma own_run_detail: "own_run tid (get_connector_detail env now auth i)"
  by (rule own_run_read)
    (auto simp: get_connector_detail_def dest!: get_connector_or_404_InrD(1) split: handler_splits)

lemma own_run_agents: "own_run tid (available_agents now auth i)"
  by (rule own_run_read)
    (auto simp: available_agents_def dest!: get_connector_or_404_InrD(1) split: handler_splits)

lemma own_run_unsaved: "own_run tid (test_unsaved env ty config)"
  by (rule own_run_read) (auto simp: test_unsaved_def split: handler_splits)

lemma create_connector_InrD:
  assumes "create_connector env now auth req d = (Inr x, d')"
  shows "\<exists>agent. d' = d\<lparr>next_uuid := Suc (next_uuid d),
    connectors := connectors d @ [created_connector now auth req agent (next_uuid d)]\<rparr>"
  using assms
  by (auto simp: create_connector_def Let_def dest!: own_agent_InrD split: prod.splits sum.splits if_splits)

lemma created_connector_fields:
  "cn_id (created_connector now auth req agent i) = i"
  "cn_tenant_id (created_connector now auth req agent i) = ac_tenant_id auth"
  "cn_last_scan_at (created_connector now auth req agent i) = None"
  by (simp_all add: created_connector_def new_connector_def)

lemma own_run_create: "own_run (ac_tenant_id auth) (create_connector env now auth req)"
proof (rule own_runI)
  fix d x d' assume ok: "connectors_ok d" and run: "create_connector env now auth req d = (Inr x, d')"
  from create_connector_InrD [OF run] obtain agent where
    d': "d' = d\<lparr>next_uuid := Suc (next_uuid d),
      connectors := connectors d @ [created_connector now auth req agent (next_uuid d)]\<rparr>" ..
  show "own_result (ac_tenant_id auth) d d'"
    using ok by (auto simp: d' own_result_def connectors_ok_def own_changes_def unscanned_def unique_by_append_one
        less_Suc_eq created_connector_fields)
qed

lemma apply_connector_update_keeps:
  "apply_connector_update req c = Inr c' \<Longrightarrow>
   cn_id c' = cn_id c \<and> cn_tenant_id c' = cn_tenant_id c \<and> cn_last_scan_at c' = cn_last_scan_at c"
  by (auto simp: apply_connector_update_def map_sum_def split: sum.splits)

text \<open>Three requests replace one of the tenant's own connectors by a version of it.\<close>

definition replaces_own :: "auth_context \<Rightarrow> 'a endpoint \<Rightarrow> bool" where
  "replaces_own auth m \<longleftrightarrow> (\<forall>d x d'. m d = (Inr x, d') \<longrightarrow>
     (\<exists>c c'. c \<in> set (connectors d) \<and> cn_tenant_id c = ac_tenant_id auth \<and> cn_id c' = cn_id c \<and>
       cn_tenant_id c' = cn_tenant_id c \<and> cn_last_scan_at c' = cn_last_scan_at c \<and> d' = put_connector c' d))"

lemma replaces_update: "replaces_own auth (update_connector env now auth i req)"
  unfolding replaces_own_def
proof (intro allI impI)
  fix d x d' assume "update_connector env now auth i req d = (Inr x, d')"
  then obtain c d1 c' where c: "get_connector_or_404 i auth d = (Inr c, d1)"
    and c': "apply_connector_update req c = Inr c'" and d': "d' = put_connector (c'\<lparr>cn_updated_at := now\<rparr>) d1"
    by (auto simp: update_connector_def Let_def split: prod.splits sum.splits)
  show "\<exists>c c'. c \<in> set (connectors d) \<and> cn_tenant_id c = ac_tenant_id auth \<and> cn_id c' = cn_id c \<and>
       cn_tenant_id c' = cn_tenant_id c \<and> cn_last_scan_at c' = cn_last_scan_at c \<and> d' = put_connector c' d"
    using get_connector_or_404_InrD [OF c] apply_connector_update_keeps [OF c']
    by (intro exI [of _ c] exI [of _ "c'\<lparr>cn_updated_at := now\<rparr>"]) (simp add: d')
qed

lemma replaces_test: "replaces_own auth (test_connector env now auth i)"
  unfolding replaces_own_def
proof (intro allI impI)
  fix d x d' assume "test_connector env now auth i d = (Inr x, d')"
  then obtain c d1 success message where c: "get_connector_or_404 i auth d = (Inr c, d1)"
    and d': "d' = put_connector (c\<lparr>cn_last_test_at := Some now, cn_last_test_result := Some success,
      cn_last_test_msg := Some message\<rparr>) d1"
    by (auto simp: test_connector_def Let_def split: prod.splits sum.splits option.splits)
  show "\<exists>c c'. c \<in> set (connectors d) \<and> cn_tenant_id c = ac_tenant_id auth \<and> cn_id c' = cn_id c \<and>
       cn_tenant_id c' = cn_tenant_id c \<and> cn_last_scan_at c' = cn_last_scan_at c \<and> d' = put_connector c' d"
    using get_connector_or_404_InrD [OF c] d'
    by (intro exI [of _ c] exI [of _ "c\<lparr>cn_last_test_at := Some now, cn_last_test_result := Some success,
      cn_last_test_msg := Some message\<rparr>"]) simp
qed

lemma own_run_replaces: "replaces_own auth m \<Longrightarrow> own_run (ac_tenant_id auth) m"
  by (rule own_runI) (metis replaces_own_def own_result_put)

lemma own_run_delete: "own_run (ac_tenant_id auth) (delete_connector auth i)"
proof (rule own_runI)
  fix d x d' assume ok: "connectors_ok d" and "delete_connector auth i d = (Inr x, d')"
  then obtain c d1 where c: "get_connector_or_404 i auth d = (Inr c, d1)"
    and d': "d' = d1\<lparr>connectors := delete_where (\<lambda>x. cn_id x = cn_id c) (connectors d1)\<rparr>"
    by (auto simp: delete_connector_def split: prod.splits sum.splits)
  note own = get_connector_or_404_InrD [OF c]
  from delete_own_connector [OF ok own(2)] show "own_result (ac_tenant_id auth) d d'"
    unfolding own_result_def d' own(1) own(3) by blast
qed

lemma unit_of_db: "unit_of (in_ct_db m) s = (Inr u, s') \<Longrightarrow> \<exists>x d'. m (ct_db s) = (Inr x, d') \<and> s' = s\<lparr>ct_db := d'\<rparr>"
  by (auto simp: unit_of_def in_ct_db_def split: prod.splits sum.splits)

lemma own_run_db:
  "own_run tid m \<Longrightarrow> connectors_ok (ct_db s) \<Longrightarrow> unit_of (in_ct_db m) s = (Inr u, s') \<Longrightarrow>
   own_result tid (ct_db s) (ct_db s')"
  by (auto dest!: unit_of_db own_runD)

text \<open>What setting a schedule does.\<close>

lemma set_scan_schedule_InrD:
  assumes "set_scan_schedule auth i schedule s = (Inr interval, s')"
  shows "\<exists>c config. map_of VALID_SCHEDULES schedule = Some interval \<and>
    get_connector_or_404 i auth (ct_db s) = (Inr c, ct_db s) \<and>
    map_of config ''scan_schedule'' = Some (JStr schedule) \<and>
    ct_db s' = put_connector (c\<lparr>cn_config := config\<rparr>) (ct_db s) \<and> ct_sent s' = ct_sent s \<and>
    ct_beat s' = (case interval of
        None \<Rightarrow> filter (\<lambda>e. fst e \<noteq> schedule_name (uuid_str (cn_id c))) (ct_beat s)
      | Some n \<Rightarrow> dict_set (schedule_name (uuid_str (cn_id c)))
          \<lparr> be_task = scan_task, be_schedule = n,
            be_args = [uuid_str (ac_tenant_id auth), uuid_str (cn_id c)], be_queue = ''indexing'' \<rparr> (ct_beat s))"
proof -
  obtain c d where c: "get_connector_or_404 i auth (ct_db s) = (Inr c, d)"
    using assms by (auto simp: set_scan_schedule_def in_ct_db_def split: option.splits prod.splits sum.splits)
  then have d: "d = ct_db s" by (rule get_connector_or_404_InrD)
  let ?config = "dict_set ''scan_interval_seconds'' (case interval of None \<Rightarrow> JNull | Some n \<Rightarrow> JInt n)
      (dict_set ''scan_schedule'' (JStr schedule) (cn_config c))"
  have "map_of ?config ''scan_schedule'' = Some (JStr schedule)"
    by (simp add: map_of_dict_set)
  with assms c show ?thesis
    by (intro exI [of _ c] exI [of _ ?config])
      (auto simp: set_scan_schedule_def in_ct_db_def d Let_def register_celery_schedule_def
        unregister_celery_schedule_def split: option.splits)
qed

lemma own_result_schedule:
  assumes "connectors_ok (ct_db s)" and "unit_of (set_scan_schedule auth i schedule) s = (Inr u, s')"
  shows "own_result (ac_tenant_id auth) (ct_db s) (ct_db s')"
proof -
  obtain interval where "set_scan_schedule auth i schedule s = (Inr interval, s')"
    using assms(2) by (auto simp: unit_of_def split: prod.splits sum.splits)
  from set_scan_schedule_InrD [OF this] obtain c config where
    c: "get_connector_or_404 i auth (ct_db s) = (Inr c, ct_db s)"
    and s': "ct_db s' = put_connector (c\<lparr>cn_config := config\<rparr>) (ct_db s)" by blast
  note own = get_connector_or_404_InrD [OF c]
  from own_result_put [OF assms(1) own(2), of "c\<lparr>cn_config := config\<rparr>"] show ?thesis
    by (simp add: s' own(3))
qed

lemma own_result_trigger:
  assumes "connectors_ok (ct_db s)" and "unit_of (trigger_manual_scan env auth i) s = (Inr u, s')"
  shows "own_result tid (ct_db s) (ct_db s')"
  using assms own_result_refl [OF assms(1)]
  by (auto simp: unit_of_def trigger_manual_scan_def in_ct_db_def dest!: get_connector_or_404_InrD(1)
      split: prod.splits sum.splits)

lemma connector_handle_InrD:
  assumes "connectors_ok (ct_db s)" and "connector_handle env now auth call s = (Inr u, s')"
  shows "own_result (ac_tenant_id auth) (ct_db s) (ct_db s')"
proof (cases call)
  case ListConnectors
  with assms(2) own_run_db [OF own_run_list assms(1)] show ?thesis by auto
next
  case (CreateConnector req)
  with assms(2) own_run_db [OF own_run_create assms(1)] show ?thesis by auto
next
  case (GetConnector i)
  with assms(2) own_run_db [OF own_run_detail assms(1)] show ?thesis by auto
next
  case (UpdateConnector i req)
  with assms(2) own_run_db [OF own_run_replaces [OF replaces_update] assms(1)] show ?thesis by auto
next
  case (DeleteConnector i)
  with assms(2) own_run_db [OF own_run_delete assms(1)] show ?thesis by auto
next
  case (TestConnector i)
  with assms(2) own_run_db [OF own_run_replaces [OF replaces_test] assms(1)] show ?thesis by auto
next
  case (TestUnsaved ty config)
  with assms(2) own_run_db [OF own_run_unsaved assms(1)] show ?thesis by auto
next
  case (AvailableAgents i)
  with assms(2) own_run_db [OF own_run_agents assms(1)] show ?thesis by auto
next
  case (SetSchedule i schedule)
  with assms(2) own_result_schedule [OF assms(1)] show ?thesis by auto
next
  case (TriggerScan i)
  with assms(2) own_result_trigger [OF assms(1)] show ?thesis by auto
qed

text \<open>A rolled-back request leaves the database as it was.\<close>

interpretation scheduling: session_contract "\<lambda>s. constraints (ct_db s)" "\<lambda>s s'. s'\<lparr>ct_db := ct_db s\<rparr>"
    "\<lambda>s. own_result tid d (ct_db s)" for tid d
  by unfold_locales simp

lemma scan_connector_fails: "scan_connector env start now tenant_id connector_id s = (Inl (ImportError ''async_session''), s)"
  using no_async_session by (simp add: scan_connector_def import_from_def)

section \<open>What the events of the system do to the connectors\<close>

lemma connector_step_own:
  assumes "connectors_ok (ct_db s)"
  shows "own_result (case e of Request now auth call \<Rightarrow> ac_tenant_id auth | ScanTask start now tid cid \<Rightarrow> 0)
    (ct_db s) (ct_db (connector_step env e s))"
proof (cases e)
  case (Request now auth call)
  have "own_result (ac_tenant_id auth) (ct_db s) (ct_db (snd (connector_request (connector_handle env now auth call) s)))"
    unfolding connector_request_def
    by (rule scheduling.transaction_keeps) (use connector_handle_InrD [OF assms] own_result_refl [OF assms] in blast)+
  then show ?thesis by (simp add: Request)
next
  case (ScanTask start now tid cid)
  then show ?thesis by (simp add: scan_connector_fails own_result_refl [OF assms])
qed

lemma own_changes_trans: "own_changes tid d d' \<Longrightarrow> own_changes tid d' d'' \<Longrightarrow> own_changes tid d d''"
  by (cases d; cases d'; cases d'') (simp add: own_changes_def)

definition by_tenant :: "uuid \<Rightarrow> connector_event \<Rightarrow> bool" where
  "by_tenant tid e \<longleftrightarrow> (case e of Request now auth call \<Rightarrow> ac_tenant_id auth = tid | ScanTask start now t cid \<Rightarrow> True)"

lemma connector_step_by_tenant:
  assumes "connectors_ok (ct_db s)" and "by_tenant tid e"
  shows "own_result tid (ct_db s) (ct_db (connector_step env e s))"
  using connector_step_own [OF assms(1), of e env] assms own_result_refl [OF assms(1)]
  by (cases e) (auto simp: by_tenant_def scan_connector_fails)

text \<open>C17: Whatever the members of one tenant ask of the connector and schedule APIs, and whatever scan tasks
  run in between, the connectors of the other tenants stay as they are, in their order, and nothing
  else in the database changes.\<close>

theorem connectors_isolated:
  assumes "connectors_ok (ct_db s)" and "\<forall>e \<in> set events. by_tenant tid e"
  shows "own_changes tid (ct_db s) (ct_db (fold (connector_step env) events s))"
proof -
  have "connectors_ok (ct_db (fold (connector_step env) events s)) \<and>
      own_changes tid (ct_db s) (ct_db (fold (connector_step env) events s))"
    using assms
  proof (induction events arbitrary: s)
    case (Cons e events)
    have e: "own_result tid (ct_db s) (ct_db (connector_step env e s))"
      by (rule connector_step_by_tenant) (use Cons.prems in auto)
    then have ok: "connectors_ok (ct_db (connector_step env e s))" by (simp add: own_result_def)
    have "\<forall>e \<in> set events. by_tenant tid e" using Cons.prems by simp
    from Cons.IH [OF ok this] e show ?case
      by (auto simp: own_result_def intro: own_changes_trans)
  qed simp
  then show ?thesis by blast
qed

lemma events_keep_unscanned:
  assumes "connectors_ok (ct_db s)" and "unscanned (ct_db s)"
  shows "unscanned (ct_db (fold (connector_step env) events s))"
  using assms
proof (induction events arbitrary: s)
  case (Cons e events)
  with connector_step_own [OF Cons.prems(1), of e env] show ?case by (simp add: own_result_def)
qed simp

text \<open>Scanning never starts: the task imports a name that the session module does not have. So after any
  sequence of requests of any tenants and of scan tasks, every connector is still listed with the
  health of one that was never scanned.\<close>

theorem health_stays_unknown:
  assumes "connectors_ok (ct_db s)" and "unscanned (ct_db s)"
    and "list_tenant_connectors env now auth (ct_db (fold (connector_step env) events s)) = (Inr views, d)"
  shows "\<forall>v \<in> set views. cw_health v = (''unknown'', [], [])"
  using assms(3) events_keep_unscanned [OF assms(1,2), of env events]
  by (auto simp: list_tenant_connectors_def connector_dict_def unscanned_def compute_health_def)

text \<open>Even without the wrong import a scan would index nothing: the task raises and leaves everything as
  it is, and the scan it stands for finds no file for any connector type, since the classes of the
  library have no \<open>list_files\<close>.\<close>

theorem scan_indexes_nothing:
  "scan_connector env start now tenant_id connector_id s = (Inl (ImportError ''async_session''), s) \<and>
   fst (run_scan (env\<lparr>cv_registry := REGISTRY\<rparr>) connector_type config) = 0"
proof -
  have "cls \<in> snd ` set REGISTRY" if "get_connector REGISTRY connector_type = Some cls" for cls
    using that by (auto simp: get_connector_def dest!: map_of_SomeD intro: rev_image_eqI)
  then have "list_files (env\<lparr>cv_registry := REGISTRY\<rparr>) cls config = Inl AttributeError"
    if "get_connector REGISTRY connector_type = Some cls" for cls
    using that by (auto simp: REGISTRY_def)
  then show ?thesis
    by (auto simp: scan_connector_fails run_scan_def scan_cloud_connector_def split: option.splits)
qed

section \<open>Agents of other tenants\<close>

definition agent_only :: "string \<Rightarrow> update_connector_request" where
  "agent_only i = \<lparr> uc_name = None, uc_description = None, uc_config = None, uc_tags = None,
     uc_scanner_agent_id = Some i, uc_routing_mode = None, uc_is_active = None \<rparr>"

lemma uuid_arg_str [simp]: "uuid_arg (uuid_str i) = Inr i"
  by (simp add: uuid_arg_def)

lemma uuid_str_nonempty [simp]: "uuid_str i \<noteq> []"
  by (simp add: uuid_str_def nat_str.simps [of i])

lemma own_connector_selected:
  assumes "connectors_ok d" and "c \<in> set (connectors d)" and "cn_tenant_id c = ac_tenant_id auth"
  shows "get_connector_or_404 (uuid_str (cn_id c)) auth d = (Inr c, d)"
  using assms
  by (simp add: get_connector_or_404_def connectors_ok_def unique_by_select_the [where k = cn_id and v = "cn_id c"])

text \<open>Creating a connector for the agent of another tenant is refused; updating one to use it is not
  (and needs no permission), and the connector then shows the name and the platform of the agent.\<close>

theorem foreign_agent_shown:
  assumes "connectors_ok d" and "c \<in> set (connectors d)" and "cn_tenant_id c = ac_tenant_id auth"
    and "unique_by sa_id (scanner_agents d)" and "a \<in> set (scanner_agents d)" and "sa_tenant_id a \<noteq> ac_tenant_id auth"
  shows "fst (create_connector env now auth (req\<lparr>cq_scanner_agent_id := Some (uuid_str (sa_id a))\<rparr>) d) \<noteq> Inr new \<and>
    (\<exists>v d' shown. update_connector env now auth (uuid_str (cn_id c)) (agent_only (uuid_str (sa_id a))) d = (Inr v, d') \<and>
      get_connector_detail env now auth (uuid_str (cn_id c)) d' = (Inr shown, d') \<and>
      cw_agent shown = Some \<lparr> av_id = sa_id a, av_name = sa_name a, av_platform = sa_platform a,
                              av_is_online = agent_online now a \<rparr>)"
proof
  have "filter (\<lambda>x. sa_id x = sa_id a \<and> sa_tenant_id x = ac_tenant_id auth) (scanner_agents d) = []"
    using unique_by_same_key [OF assms(4) _ assms(5)] assms(6) by (auto simp: filter_empty_conv)
  then have "own_agent auth (Some (uuid_str (sa_id a))) d = (Inl (HTTPException 404 ''Scanner agent not found''), d)"
    by (simp add: own_agent_def opt_str_or_def)
  then show "fst (create_connector env now auth (req\<lparr>cq_scanner_agent_id := Some (uuid_str (sa_id a))\<rparr>) d) \<noteq> Inr new"
    by (simp add: create_connector_def)
  let ?c = "c\<lparr>cn_scanner_agent_id := Some (sa_id a), cn_updated_at := now\<rparr>"
  let ?d = "put_connector ?c d"
  have update: "update_connector env now auth (uuid_str (cn_id c)) (agent_only (uuid_str (sa_id a))) d =
      (Inr (connector_dict env now ?c None), ?d)"
    using own_connector_selected [OF assms(1-3)]
    by (simp add: update_connector_def agent_only_def apply_connector_update_def given_def Let_def)
  have "connectors_ok ?d" by (rule put_own_connector [OF assms(1,2)]) simp_all
  moreover have "?c \<in> set (connectors ?d)"
    using assms(2) by (auto simp: put_connector_def put_row_def set_update_where)
  ultimately have c: "get_connector_or_404 (uuid_str (cn_id c)) auth ?d = (Inr ?c, ?d)"
    using own_connector_selected [of ?d ?c auth] assms(3) by simp
  have "scalar_one_or_none (filter (\<lambda>x. sa_id x = sa_id a) (scanner_agents ?d)) = Inr (Some a)"
    using assms(4,5) by (simp add: put_connector_def unique_by_filter_key)
  with c have "\<exists>shown. get_connector_detail env now auth (uuid_str (cn_id c)) ?d = (Inr shown, ?d) \<and>
      cw_agent shown = Some \<lparr> av_id = sa_id a, av_name = sa_name a, av_platform = sa_platform a,
                              av_is_online = agent_online now a \<rparr>"
    by (simp add: get_connector_detail_def connector_dict_def)
  with update show "\<exists>v d' shown.
      update_connector env now auth (uuid_str (cn_id c)) (agent_only (uuid_str (sa_id a))) d = (Inr v, d') \<and>
      get_connector_detail env now auth (uuid_str (cn_id c)) d' = (Inr shown, d') \<and>
      cw_agent shown = Some \<lparr> av_id = sa_id a, av_name = sa_name a, av_platform = sa_platform a,
                              av_is_online = agent_online now a \<rparr>"
    by blast
qed

section \<open>Schedules\<close>

text \<open>Setting an interval registers the scan task of the connector in the schedule with it; deleting the
  connector afterwards, which needs no permission, removes its row and leaves the entry, which only
  setting the schedule to manual removes.\<close>

theorem schedule_survives_delete:
  assumes "set_scan_schedule auth i schedule s = (Inr (Some n), s')" and "connectors_ok (ct_db s)"
  shows "\<exists>c s''. map_of VALID_SCHEDULES schedule = Some (Some n) \<and>
    in_ct_db (delete_connector auth i) s' = (Inr (), s'') \<and>
    c \<in> set (connectors (ct_db s)) \<and> cn_id c \<notin> cn_id ` set (connectors (ct_db s'')) \<and>
    map_of (ct_beat s'') (schedule_name (uuid_str (cn_id c))) = Some
      \<lparr> be_task = scan_task, be_schedule = n,
        be_args = [uuid_str (ac_tenant_id auth), uuid_str (cn_id c)], be_queue = ''indexing'' \<rparr>"
proof -
  from set_scan_schedule_InrD [OF assms(1)] obtain c config where
    valid: "map_of VALID_SCHEDULES schedule = Some (Some n)"
    and c: "get_connector_or_404 i auth (ct_db s) = (Inr c, ct_db s)"
    and db: "ct_db s' = put_connector (c\<lparr>cn_config := config\<rparr>) (ct_db s)"
    and beat: "ct_beat s' = dict_set (schedule_name (uuid_str (cn_id c)))
          \<lparr> be_task = scan_task, be_schedule = n,
            be_args = [uuid_str (ac_tenant_id auth), uuid_str (cn_id c)], be_queue = ''indexing'' \<rparr> (ct_beat s)"
    by auto
  note own = get_connector_or_404_InrD [OF c]
  let ?c = "c\<lparr>cn_config := config\<rparr>"
  have ok: "connectors_ok (ct_db s')" unfolding db by (rule put_own_connector [OF assms(2) own(2)]) simp_all
  have "?c \<in> set (connectors (ct_db s'))"
    using own(2) by (auto simp: db put_connector_def put_row_def set_update_where)
  then have "get_connector_or_404 i auth (ct_db s') = (Inr ?c, ct_db s')"
    using own_connector_selected [OF ok, of ?c auth] own(3,4)
    by (simp add: get_connector_or_404_def)
  then have "in_ct_db (delete_connector auth i) s' =
      (Inr (), s'\<lparr>ct_db := (ct_db s')\<lparr>connectors := delete_where (\<lambda>x. cn_id x = cn_id c) (connectors (ct_db s'))\<rparr>\<rparr>)"
    by (simp add: in_ct_db_def delete_connector_def)
  with valid own(2) beat show ?thesis
    by (intro exI [of _ c] exI) (auto simp: map_of_dict_set)
qed

section \<open>Witnesses\<close>

definition example_connector_db :: db where
  "example_connector_db = empty_db\<lparr>connectors := [new_connector 3 0 1 ''disk'' ''local''],
     scanner_agents := [new_scanner_agent 5 0 2 ''other'' ''h''], next_uuid := 9\<rparr>"

definition example_connector_state :: connector_state where
  "example_connector_state = \<lparr> ct_db = example_connector_db, ct_beat = [], ct_sent = [] \<rparr>"

definition example_connector_env :: connector_env where
  "example_connector_env =
     \<lparr> cv_sdk = example_sdk, cv_registry = REGISTRY, cv_custom_test = (\<lambda>m c. Inr base_test),
       cv_percent = (\<lambda>e f. ''?''), cv_send_task = Inr ''task'', cv_list_files = (\<lambda>m c. Inr 0),
       cv_retry = OtherError ''Retry'', cv_str = (\<lambda>e. ''error'') \<rparr>"

definition example_member :: auth_context where
  "example_member = \<lparr> ac_user_id = 7, ac_tenant_id = 1, ac_email = JNull, ac_roles = [], ac_permissions = {} \<rparr>"

lemma example_connectors_ok: "connectors_ok example_connector_db \<and> unscanned example_connector_db"
  by (simp add: example_connector_db_def connectors_ok_def unscanned_def unique_by_def new_connector_def)

theorem connectors_isolated_witness:
  "own_changes 1 example_connector_db (ct_db (fold (connector_step example_connector_env)
     [Request 0 example_member (DeleteConnector ''3''), ScanTask 0 1 ''1'' ''3''] example_connector_state))"
  using connectors_isolated [of example_connector_state
      "[Request 0 example_member (DeleteConnector ''3''), ScanTask 0 1 ''1'' ''3'']" 1 example_connector_env]
    example_connectors_ok
  by (simp add: example_connector_state_def by_tenant_def example_member_def)

theorem health_stays_unknown_witness:
  "\<exists>v. list_tenant_connectors example_connector_env 9 example_member (ct_db (fold (connector_step example_connector_env)
     [ScanTask 0 1 ''1'' ''3''] example_connector_state)) = (Inr [v], example_connector_db) \<and>
     cw_health v = (''unknown'', [], [])"
proof -
  have db: "ct_db (fold (connector_step example_connector_env) [ScanTask 0 1 ''1'' ''3''] example_connector_state) =
      example_connector_db"
    by (simp add: scan_connector_fails example_connector_state_def)
  obtain v where run: "list_tenant_connectors example_connector_env 9 example_member
      (ct_db (fold (connector_step example_connector_env) [ScanTask 0 1 ''1'' ''3''] example_connector_state)) =
      (Inr [v], example_connector_db)"
    unfolding db by (simp add: list_tenant_connectors_def example_connector_db_def example_member_def new_connector_def)
  from health_stays_unknown [OF _ _ run] example_connectors_ok run show ?thesis
    by (simp add: example_connector_state_def)
qed

theorem foreign_agent_shown_witness:
  "\<exists>v d'. update_connector example_connector_env 9 example_member ''3'' (agent_only ''5'') example_connector_db = (Inr v, d')"
proof -
  have id: "uuid_str 3 = ''3''" "uuid_str 5 = ''5''" by code_simp+
  show ?thesis
    using foreign_agent_shown [of example_connector_db "new_connector 3 0 1 ''disk'' ''local''" example_member
        "new_scanner_agent 5 0 2 ''other'' ''h''" example_connector_env 9 undefined undefined] example_connectors_ok
    by (auto simp: example_connector_db_def example_member_def new_connector_def new_scanner_agent_def unique_by_def id)
qed

theorem schedule_survives_delete_witness:
  "\<exists>s' s''. set_scan_schedule example_member ''3'' ''6h'' example_connector_state = (Inr (Some 21600), s') \<and>
     in_ct_db (delete_connector example_member ''3'') s' = (Inr (), s'')"
proof -
  have "case set_scan_schedule example_member ''3'' ''6h'' example_connector_state of
      (Inl e, s') \<Rightarrow> False | (Inr x, s') \<Rightarrow> x = Some 21600"
    by code_simp
  then obtain s' where run: "set_scan_schedule example_member ''3'' ''6h'' example_connector_state = (Inr (Some 21600), s')"
    by (auto split: prod.splits sum.splits)
  from schedule_survives_delete [OF run] example_connectors_ok run show ?thesis
    by (auto simp: example_connector_state_def)
qed

end
