(* ===== verification/Agents.thy ===== *)
theory Agents
  imports Local_Auth Ingest Fleet Connectors
begin

text \<open>
  \<open>api/agent.py\<close>: the configuration, the heartbeats, the keys and the state of the scanner agents,
  with what the scanner, fleet and connector APIs do to the same rows.

  An agent identifier of a URL is compared with a UUID column as a text: one that is no UUID is refused
  by the driver. \<open>rnd\<close> is \<open>secrets.token_urlsafe(32)\<close>.
\<close>

section \<open>Operations\<close>

definition cloud_url :: "auth_env \<Rightarrow> string" where
  "cloud_url env = (case env_APP_URL env of None \<Rightarrow> ''https://api.dgraph.ai'' | Some u \<Rightarrow> u)"

definition get_agent_from_key :: "auth_env \<Rightarrow> string option \<Rightarrow> scanner_agent endpoint" where
  "get_agent_from_key env x_scanner_key =
     (case opt_str_or x_scanner_key None of
        None \<Rightarrow> raise (HTTPException 401 ''Missing X-Scanner-Key header'')
      | Some key \<Rightarrow>
          bnd (select_all scanner_agents (\<lambda>a. sa_api_key_hash a = sha256_hex env key \<and> sa_is_active a)) (\<lambda>rows.
          case first_row rows of
            None \<Rightarrow> raise (HTTPException 401 ''Invalid or revoked agent key'')
          | Some a \<Rightarrow> ret a))"

record connector_config =
  cc_id :: string
  cc_name :: string
  cc_connector_type :: string
  cc_config :: py_dict
  cc_scan_interval_minutes :: int
  cc_enabled :: bool

record agent_config =
  ag_agent_id :: string
  ag_tenant_id :: string
  ag_cloud_url :: string
  ag_connectors :: "connector_config list"
  ag_enrichment_enabled :: bool
  ag_log_level :: string
  ag_max_concurrent_scans :: int
  ag_version_check_url :: string

definition connector_config_of :: "connector \<Rightarrow> connector_config" where
  "connector_config_of c =
     \<lparr> cc_id = uuid_str (cn_id c), cc_name = cn_name c, cc_connector_type = cn_connector_type c,
       cc_config = cn_config c, cc_scan_interval_minutes = 360, cc_enabled = cn_is_active c \<rparr>"

definition get_agent_config :: "auth_env \<Rightarrow> string option \<Rightarrow> agent_config endpoint" where
  "get_agent_config env key =
     bnd (get_agent_from_key env key) (\<lambda>agent.
     bnd (select_all connectors (\<lambda>c. cn_tenant_id c = sa_tenant_id agent \<and>
            cn_scanner_agent_id c = Some (sa_id agent) \<and> cn_is_active c)) (\<lambda>cs.
     ret \<lparr> ag_agent_id = uuid_str (sa_id agent), ag_tenant_id = uuid_str (sa_tenant_id agent),
           ag_cloud_url = cloud_url env, ag_connectors = map connector_config_of cs,
           ag_enrichment_enabled = True, ag_log_level = ''info'', ag_max_concurrent_scans = 2,
           ag_version_check_url = ''https://api.github.com/repos/gaineyllc/dgraphai/releases/latest'' \<rparr>))"

record heartbeat_request =
  hr_agent_id :: string
  hr_version :: string
  hr_os :: string
  hr_hostname :: string
  hr_files_indexed :: int
  hr_files_pending :: int
  hr_last_error :: "string option"
  hr_connector_statuses :: "(string \<times> string) list"

definition beat :: "time \<Rightarrow> heartbeat_request \<Rightarrow> scanner_agent \<Rightarrow> scanner_agent" where
  "beat now body a =
     a\<lparr>sa_last_seen_at := Some now, sa_files_indexed := Some (hr_files_indexed body),
       sa_files_pending := Some (hr_files_pending body), sa_version := Some (hr_version body),
       sa_os := Some (hr_os body),
       sa_hostname := (if hr_hostname body = [] then sa_hostname a else Some (hr_hostname body)),
       sa_last_error := hr_last_error body, sa_connector_statuses := hr_connector_statuses body\<rparr>"

definition agent_heartbeat :: "auth_env \<Rightarrow> time \<Rightarrow> string option \<Rightarrow> heartbeat_request \<Rightarrow> unit endpoint" where
  "agent_heartbeat env now key body =
     bnd (get_agent_from_key env key) (\<lambda>agent.
     thn (modify (put_scanner (beat now body agent))) flush)"

record agent_token_response =
  tr_agent_id :: string
  tr_api_key :: string
  tr_install_linux :: string
  tr_install_docker :: string
  tr_install_helm :: string

text \<open>The continued lines of a shell command: a backslash before each line break.\<close>

definition shell_lines :: "string list \<Rightarrow> string" where
  "shell_lines parts = str_join ('' '' @ [CHR 0x5C] @ [CHR 0x0A] @ ''  '') parts"

definition install_texts :: "string \<Rightarrow> string \<Rightarrow> string \<times> string \<times> string" where
  "install_texts raw_key url =
     (''DGRAPH_AGENT_API_KEY='' @ raw_key @ '' DGRAPH_AGENT_API_ENDPOINT='' @ url @ '' ./dgraph-agent'',
      shell_lines [''docker run -d --name dgraph-agent'', ''-e DGRAPH_AGENT_API_KEY='' @ raw_key,
        ''-e DGRAPH_AGENT_API_ENDPOINT='' @ url, ''-v /:/host:ro'', ''ghcr.io/gaineyllc/dgraph-agent:latest''],
      shell_lines [''helm install dgraph-agent oci://ghcr.io/gaineyllc/charts/dgraph-agent'',
        ''--set credentials.apiKey='' @ raw_key, ''--set config.cloudUrl='' @ url])"

definition new_agent :: "auth_env \<Rightarrow> time \<Rightarrow> auth_context \<Rightarrow> string \<Rightarrow> string \<Rightarrow> uuid \<Rightarrow> scanner_agent" where
  "new_agent env now auth name raw_key i =
     (new_scanner_agent i now (ac_tenant_id auth) name (sha256_hex env raw_key))
       \<lparr>sa_is_active := True, sa_created_by := Some (ac_user_id auth)\<rparr>"

definition generate_agent_token ::
  "auth_env \<Rightarrow> time \<Rightarrow> string \<Rightarrow> auth_context \<Rightarrow> string \<Rightarrow> agent_token_response endpoint" where
  "generate_agent_token env now rnd auth name =
     (let raw_key = ''dga_'' @ rnd
      in bnd fresh (\<lambda>i.
         thn (modify (\<lambda>s. s\<lparr>scanner_agents := scanner_agents s @ [new_agent env now auth name raw_key i]\<rparr>))
         (thn flush
         (case install_texts raw_key (cloud_url env) of
            (install_linux, install_docker, install_helm) \<Rightarrow>
              ret \<lparr> tr_agent_id = uuid_str i, tr_api_key = raw_key, tr_install_linux = install_linux,
                    tr_install_docker = install_docker, tr_install_helm = install_helm \<rparr>))))"

record agent_status =
  ax_id :: string
  ax_name :: string
  ax_version :: string
  ax_os :: string
  ax_hostname :: string
  ax_last_seen_at :: "time option"
  ax_files_indexed :: int
  ax_connector_statuses :: "(string \<times> string) list"
  ax_is_online :: bool

definition agent_status_of :: "time \<Rightarrow> scanner_agent \<Rightarrow> agent_status" where
  "agent_status_of now agent =
     (let is_online = (case sa_last_seen_at agent of None \<Rightarrow> False | Some last_seen \<Rightarrow> now - last_seen < seconds 90)
      in \<lparr> ax_id = uuid_str (sa_id agent), ax_name = sa_name agent,
           ax_version = str_or (sa_version agent) ''unknown'', ax_os = str_or (sa_os agent) ''unknown'',
           ax_hostname = str_or (sa_hostname agent) '''', ax_last_seen_at = sa_last_seen_at agent,
           ax_files_indexed = (case sa_files_indexed agent of None \<Rightarrow> 0 | Some n \<Rightarrow> n),
           ax_connector_statuses = sa_connector_statuses agent, ax_is_online = is_online \<rparr>)"

definition list_agents :: "time \<Rightarrow> auth_context \<Rightarrow> agent_status list endpoint" where
  "list_agents now auth =
     gets (\<lambda>s. map (agent_status_of now) (sort_key (\<lambda>a. - sa_created_at a)
                (filter (\<lambda>a. sa_tenant_id a = ac_tenant_id auth \<and> sa_is_active a) (scanner_agents s))))"

definition own_agent_row :: "auth_context \<Rightarrow> string \<Rightarrow> scanner_agent endpoint" where
  "own_agent_row auth agent_id =
     (case parse_uuid agent_id of
        None \<Rightarrow> raise (OtherError ''DBAPIError'')
      | Some i \<Rightarrow>
          bnd (select_all scanner_agents (\<lambda>a. sa_id a = i \<and> sa_tenant_id a = ac_tenant_id auth)) (\<lambda>rows.
          case first_row rows of
            None \<Rightarrow> raise (HTTPException 404 ''Agent not found'')
          | Some a \<Rightarrow> ret a))"

definition get_agent :: "time \<Rightarrow> auth_context \<Rightarrow> string \<Rightarrow> agent_status endpoint" where
  "get_agent now auth agent_id = bnd (own_agent_row auth agent_id) (\<lambda>a. ret (agent_status_of now a))"

definition revoke_agent :: "auth_context \<Rightarrow> string \<Rightarrow> unit endpoint" where
  "revoke_agent auth agent_id =
     bnd (own_agent_row auth agent_id) (\<lambda>a.
     thn (modify (put_scanner (a\<lparr>sa_is_active := False\<rparr>))) flush)"

definition interval_minutes :: "string option \<Rightarrow> int" where
  "interval_minutes schedule =
     (case map_of [(''1h'', 60), (''6h'', 360), (''12h'', 720), (''24h'', 1440), (''48h'', 2880), (''weekly'', 10080)]
             (str_or schedule ''6h'') of
        None \<Rightarrow> 360 | Some n \<Rightarrow> n)"

text \<open>The intervals of the agent API are those of the schedule API, in minutes; a manual schedule, which
  has none, would be taken for one of six hours.\<close>

lemma interval_minutes_valid:
  "\<forall>(k, interval) \<in> set VALID_SCHEDULES. case interval of None \<Rightarrow> interval_minutes (Some k) = 360
     | Some n \<Rightarrow> 60 * interval_minutes (Some k) = n"
  by code_simp

section \<open>The requests that touch agents\<close>

datatype agent_call =
    FetchConfig "string option"
  | Beat "string option" heartbeat_request
  | NewToken string auth_context string
  | ListAgents auth_context
  | GetAgent auth_context string
  | RevokeAgent auth_context string
  | RegisterScanner string auth_context register_request
  | RotateKey string "string option"
  | PollJobs "string option"

fun agent_handle :: "auth_env \<Rightarrow> time \<Rightarrow> agent_call \<Rightarrow> unit endpoint" where
  "agent_handle env now (FetchConfig key) = done_with (get_agent_config env key)"
| "agent_handle env now (Beat key body) = agent_heartbeat env now key body"
| "agent_handle env now (NewToken rnd auth name) = done_with (generate_agent_token env now rnd auth name)"
| "agent_handle env now (ListAgents auth) = done_with (list_agents now auth)"
| "agent_handle env now (GetAgent auth i) = done_with (get_agent now auth i)"
| "agent_handle env now (RevokeAgent auth i) = revoke_agent auth i"
| "agent_handle env now (RegisterScanner rnd auth req) = done_with (register_scanner env now rnd auth req)"
| "agent_handle env now (RotateKey rnd key) = done_with (rotate_key env now rnd key)"
| "agent_handle env now (PollJobs key) = done_with (poll_jobs env now key)"

text \<open>The hash of a key that a request makes.\<close>

fun made_hash :: "auth_env \<Rightarrow> agent_call \<Rightarrow> string option" where
  "made_hash env (NewToken rnd auth name) = Some (sha256_hex env (''dga_'' @ rnd))"
| "made_hash env (RegisterScanner rnd auth req) = Some (sha256_hex env (''dg_'' @ rnd))"
| "made_hash env (RotateKey rnd key) = Some (sha256_hex env (''dg_'' @ rnd))"
| "made_hash env c = None"

section \<open>A revoked key stays refused\<close>

text \<open>Every active agent after a request had its key before it, or got the key the request made.\<close>

definition keys_come_from :: "string option \<Rightarrow> db \<Rightarrow> db \<Rightarrow> bool" where
  "keys_come_from made d d' \<longleftrightarrow>
     (\<forall>a \<in> set (scanner_agents d'). sa_is_active a \<longrightarrow>
        (\<exists>b \<in> set (scanner_agents d). sa_is_active b \<and> sa_api_key_hash b = sa_api_key_hash a) \<or>
        made = Some (sa_api_key_hash a))"

lemma keys_come_from_refl [simp]: "keys_come_from made d d"
  by (auto simp: keys_come_from_def)

lemma keys_come_from_put:
  "b \<in> set (scanner_agents d) \<Longrightarrow> sa_is_active a \<longrightarrow> sa_is_active b \<and> sa_api_key_hash b = sa_api_key_hash a \<or>
     made = Some (sa_api_key_hash a) \<Longrightarrow> keys_come_from made d (put_scanner a d)"
  unfolding keys_come_from_def put_scanner_def
  by (auto dest!: in_put_row_cases)

lemma keys_come_from_put2:
  "b \<in> set (scanner_agents d) \<Longrightarrow> sa_is_active b \<and> sa_api_key_hash b = sa_api_key_hash a \<Longrightarrow>
     made = Some (sa_api_key_hash a') \<Longrightarrow> keys_come_from made d (put_scanner a' (put_scanner a d))"
  unfolding keys_come_from_def put_scanner_def
  by (auto dest!: in_put_row_cases)

lemma first_row_filter_Some:
  assumes "first_row (filter p xs) = Some a"
  shows "a \<in> set xs \<and> p a"
proof -
  from assms have "a \<in> set (filter p xs)" by (cases "filter p xs") (auto simp: first_row_def)
  then show ?thesis by simp
qed

lemma get_agent_from_key_InrD:
  assumes "get_agent_from_key env k d = (Inr a, d')"
  shows "d' = d \<and> a \<in> set (scanner_agents d) \<and> sa_is_active a \<and>
    (\<exists>key. opt_str_or k None = Some key \<and> sa_api_key_hash a = sha256_hex env key)"
  using assms unfolding get_agent_from_key_def
  by (auto dest!: first_row_filter_Some split: option.splits)

lemma own_agent_row_InrD:
  assumes "own_agent_row auth i d = (Inr a, d')"
  shows "d' = d \<and> a \<in> set (scanner_agents d) \<and> parse_uuid i = Some (sa_id a) \<and> sa_tenant_id a = ac_tenant_id auth"
  using assms unfolding own_agent_row_def
  by (auto dest!: first_row_filter_Some split: option.splits)

lemma get_scanner_InrD:
  assumes "get_scanner env now k d = (Inr a, d')"
  shows "\<exists>b \<in> set (scanner_agents d). sa_is_active b \<and> a = b\<lparr>sa_last_seen := Some now\<rparr> \<and> d' = put_scanner a d"
  using assms unfolding get_scanner_def
  by (auto simp: Let_def dest: scalar_one_or_none_filter_Some split: option.splits sum.splits)

lemma keys_come_from_fields [simp]:
  "keys_come_from made d (d'\<lparr>scanner_agents := rows, next_uuid := n\<rparr>) = keys_come_from made d (d'\<lparr>scanner_agents := rows\<rparr>)"
  by (simp add: keys_come_from_def)

lemma keys_come_from_add:
  "made = Some (sa_api_key_hash a) \<Longrightarrow>
   keys_come_from made d (d'\<lparr>scanner_agents := scanner_agents d @ [a]\<rparr>)"
  by (auto simp: keys_come_from_def)

lemma keys_after_scanner:
  "get_scanner env now k d = (Inr a, d') \<Longrightarrow> keys_come_from made d d'"
  by (auto dest!: get_scanner_InrD intro: keys_come_from_put)

lemma agent_handle_keys:
  assumes "agent_handle env now c d = (Inr x, d')"
  shows "keys_come_from (made_hash env c) d d'"
proof (cases c)
  case (FetchConfig k)
  with assms show ?thesis
    by (auto simp: done_with_def get_agent_config_def dest!: get_agent_from_key_InrD split: prod.splits sum.splits)
next
  case (Beat k body)
  with assms show ?thesis
    by (auto simp: agent_heartbeat_def beat_def dest!: get_agent_from_key_InrD
      intro!: keys_come_from_put split: prod.splits sum.splits if_splits)
next
  case (NewToken rnd auth name)
  with assms show ?thesis
    by (auto simp: done_with_def generate_agent_token_def new_agent_def new_scanner_agent_def Let_def
      intro!: keys_come_from_add split: prod.splits sum.splits if_splits)
next
  case (ListAgents auth)
  with assms show ?thesis by (auto simp: done_with_def list_agents_def)
next
  case (GetAgent auth i)
  with assms show ?thesis
    by (auto simp: done_with_def get_agent_def dest!: own_agent_row_InrD split: prod.splits sum.splits)
next
  case (RevokeAgent auth i)
  with assms show ?thesis
    by (auto simp: revoke_agent_def dest!: own_agent_row_InrD intro!: keys_come_from_put
      split: prod.splits sum.splits if_splits)
next
  case (RegisterScanner rnd auth req)
  with assms show ?thesis
    by (auto simp: done_with_def register_scanner_def new_scanner_agent_def Let_def
      intro!: keys_come_from_add split: prod.splits sum.splits if_splits)
next
  case (RotateKey rnd k)
  with assms show ?thesis
    by (auto simp: done_with_def rotate_key_def Let_def dest!: get_scanner_InrD
      intro!: keys_come_from_put2 split: prod.splits sum.splits)
next
  case (PollJobs k)
  with assms show ?thesis
    by (auto simp: done_with_def poll_jobs_def intro: keys_after_scanner split: prod.splits sum.splits)
qed

text \<open>No active agent has the key.\<close>

definition key_dead :: "auth_env \<Rightarrow> string \<Rightarrow> db \<Rightarrow> bool" where
  "key_dead env key d \<longleftrightarrow> (\<forall>a \<in> set (scanner_agents d). sa_is_active a \<longrightarrow> sa_api_key_hash a \<noteq> sha256_hex env key)"

lemma key_dead_step:
  assumes "key_dead env key d" and "keys_come_from made d d'" and "made \<noteq> Some (sha256_hex env key)"
  shows "key_dead env key d'"
  using assms unfolding key_dead_def keys_come_from_def by metis

lemma key_dead_request:
  assumes "key_dead env key d" and "made_hash env c \<noteq> Some (sha256_hex env key)"
  shows "key_dead env key (snd (get_db (agent_handle env now c) d))"
proof -
  obtain r d' where run: "get_db (agent_handle env now c) d = (r, d')" by (cases "get_db (agent_handle env now c) d")
  show ?thesis
  proof (cases "d' = d")
    case False
    with get_db_changed [OF run] agent_handle_keys key_dead_step [OF assms(1) _ assms(2)] run show ?thesis by fastforce
  qed (use run assms(1) in simp)
qed

lemma key_dead_requests:
  assumes "key_dead env key d" and "Some (sha256_hex env key) \<notin> made_hash env ` snd ` set cs"
  shows "key_dead env key (serve (map (\<lambda>(now, c). agent_handle env now c) cs) d)"
  using assms
proof (induction cs arbitrary: d)
  case (Cons p cs)
  obtain now c where p: "p = (now, c)" by (cases p)
  from Cons.prems(2) p have "made_hash env c \<noteq> Some (sha256_hex env key)" by force
  from Cons.IH [OF key_dead_request [OF Cons.prems(1) this]] Cons.prems(2) p show ?case by simp
qed simp

lemma key_dead_refused:
  assumes "key_dead env key d" and "key \<noteq> []"
  shows "get_agent_from_key env (Some key) d = (Inl (HTTPException 401 ''Invalid or revoked agent key''), d)"
proof -
  from assms(1) have "filter (\<lambda>a. sa_api_key_hash a = sha256_hex env key \<and> sa_is_active a) (scanner_agents d) = []"
    by (auto simp: key_dead_def filter_empty_conv)
  with assms(2) show ?thesis by (simp add: get_agent_from_key_def opt_str_or_def first_row_def)
qed

lemma revoked_key_dead:
  assumes "constraints d" and "revoke_agent auth i d = (Inr (), d')"
    and "parse_uuid i = Some (sa_id a)" and "a \<in> set (scanner_agents d)"
    and "sa_api_key_hash a = sha256_hex env key"
    and "unique_by sa_api_key_hash (filter sa_is_active (scanner_agents d))" and "sa_is_active a"
  shows "key_dead env key d'"
proof -
  from assms(2) obtain b where b: "b \<in> set (scanner_agents d)" "sa_id b = sa_id a"
    and d': "d' = put_scanner (b\<lparr>sa_is_active := False\<rparr>) d"
    unfolding revoke_agent_def using assms(3)
    by (auto dest!: own_agent_row_InrD split: prod.splits sum.splits if_splits)
  have "c = a" if "c \<in> set (scanner_agents d)" "sa_is_active c" "sa_api_key_hash c = sa_api_key_hash a" for c
    using assms(6) that assms(4,7) by (auto simp: unique_by_def distinct_map dest: inj_onD)
  with b d' assms(5) show ?thesis
    unfolding key_dead_def put_scanner_def by (auto dest!: in_put_row_cases)
qed


text \<open>C22: Revoking an agent takes effect at once and for good: whatever the agents, the scanners and the
  users of any tenant ask afterwards, as long as no request draws the same key again, a request for the
  configuration and a heartbeat with the revoked key are refused and change nothing.
\<close>

theorem revoked_key_refused:
  assumes "constraints d" and "a \<in> set (scanner_agents d)" and "sa_is_active a"
    and "sa_api_key_hash a = sha256_hex env key" and "key \<noteq> []"
    and "unique_by sa_api_key_hash (filter sa_is_active (scanner_agents d))"
    and "parse_uuid i = Some (sa_id a)"
    and "get_db (revoke_agent auth i) d = (Inr (), d')"
    and "Some (sha256_hex env key) \<notin> made_hash env ` snd ` set cs"
    and "d'' = serve (map (\<lambda>(now, c). agent_handle env now c) cs) d'"
  shows "get_db (get_agent_config env (Some key)) d'' =
      (Inl (HTTPException 401 ''Invalid or revoked agent key''), d'') \<and>
    get_db (agent_heartbeat env now (Some key) body) d'' =
      (Inl (HTTPException 401 ''Invalid or revoked agent key''), d'')"
proof -
  from get_db_InrD [OF assms(8)] have "revoke_agent auth i d = (Inr (), d')" by simp
  from revoked_key_dead [OF assms(1) this assms(7,2,4,6,3)] have "key_dead env key d'" .
  from key_dead_requests [OF this assms(9)] have "key_dead env key d''" by (simp add: assms(10))
  from key_dead_refused [OF this assms(5)] show ?thesis
    by (simp add: get_db_def get_agent_config_def agent_heartbeat_def)
qed

section \<open>Names\<close>

lemma constraints_add_agent:
  "constraints d \<Longrightarrow> constraints (d\<lparr>next_uuid := n, scanner_agents := rows\<rparr>) \<longleftrightarrow>
     unique_by sa_id rows \<and> unique_by scanner_name_key rows"
  by (auto simp: constraints_def)

text \<open>An agent key is generated exactly when no agent of the tenant has the name asked for, revoked
  agents included; otherwise the commit fails with an integrity error the endpoint does not handle and
  nothing is stored. The name defaults to the same text for every caller.
\<close>

theorem token_names:
  assumes "constraints d" and "\<forall>a \<in> set (scanner_agents d). sa_id a < next_uuid d"
  shows "get_db (generate_agent_token env now rnd auth name) d =
    (if \<exists>a \<in> set (scanner_agents d). sa_tenant_id a = ac_tenant_id auth \<and> sa_name a = name
     then (Inl IntegrityError, d)
     else (case install_texts (''dga_'' @ rnd) (cloud_url env) of (linux, docker, helm) \<Rightarrow>
       (Inr \<lparr> tr_agent_id = uuid_str (next_uuid d), tr_api_key = ''dga_'' @ rnd, tr_install_linux = linux,
              tr_install_docker = docker, tr_install_helm = helm \<rparr>,
        d\<lparr>next_uuid := Suc (next_uuid d),
          scanner_agents := scanner_agents d @ [new_agent env now auth name (''dga_'' @ rnd) (next_uuid d)]\<rparr>)))"
proof -
  let ?a = "new_agent env now auth name (''dga_'' @ rnd) (next_uuid d)"
  have ids: "unique_by sa_id (scanner_agents d)" "unique_by scanner_name_key (scanner_agents d)"
    using assms(1) by (simp_all add: constraints_def)
  have "sa_id ?a \<notin> sa_id ` set (scanner_agents d)"
    using assms(2) by (auto simp: new_agent_def new_scanner_agent_def)
  moreover have "scanner_name_key ?a \<notin> scanner_name_key ` set (scanner_agents d) \<longleftrightarrow>
      \<not> (\<exists>a \<in> set (scanner_agents d). sa_tenant_id a = ac_tenant_id auth \<and> sa_name a = name)"
    by (force simp: scanner_name_key_def new_agent_def new_scanner_agent_def)
  ultimately have "constraints (d\<lparr>next_uuid := Suc (next_uuid d), scanner_agents := scanner_agents d @ [?a]\<rparr>) \<longleftrightarrow>
      \<not> (\<exists>a \<in> set (scanner_agents d). sa_tenant_id a = ac_tenant_id auth \<and> sa_name a = name)"
    by (simp only: constraints_add_agent [OF assms(1)] unique_by_append_one ids simp_thms)
  then show ?thesis
    by (simp add: get_db_def generate_agent_token_def Let_def split: prod.splits)
qed

section \<open>Two clocks\<close>

lemma in_put_row: "v \<in> set rows \<Longrightarrow> k v = k r \<Longrightarrow> r \<in> set (put_row k r rows)"
  by (auto simp: put_row_def set_update_where)

text \<open>The APIs disagree about which agents are alive. After a heartbeat an agent is online for the agent
  and the fleet API, which read \<open>last_seen_at\<close>, for ninety seconds, while the connector API, which reads
  the legacy \<open>last_seen\<close>, judges it by what it was before; an agent that only sends heartbeats is never
  online there. After a request to the scanner API it is the other way round, for five minutes.
\<close>

theorem two_clocks:
  assumes beat: "get_db (agent_heartbeat env now (Some key) body) d = (Inr (), d1)"
    and polled: "get_db (get_scanner env now (Some key')) d = (Inr b, d2)"
  shows "(\<exists>a \<in> set (scanner_agents d). sa_api_key_hash a = sha256_hex env key \<and>
        beat now body a \<in> set (scanner_agents d1) \<and>
        (\<forall>later. ax_is_online (agent_status_of later (beat now body a)) = (later - now < seconds 90) \<and>
                 is_online later (beat now body a) = (later - now < seconds 90) \<and>
                 agent_online later (beat now body a) = agent_online later a)) \<and>
      (\<exists>a \<in> set (scanner_agents d). b = a\<lparr>sa_last_seen := Some now\<rparr> \<and> b \<in> set (scanner_agents d2) \<and>
        (\<forall>later. agent_online later b = (later - now < seconds 300) \<and>
                 is_online later b = is_online later a \<and>
                 ax_is_online (agent_status_of later b) = ax_is_online (agent_status_of later a)))"
proof
  from beat have "agent_heartbeat env now (Some key) body d = (Inr (), d1)" by (rule get_db_InrD [THEN conjunct1])
  then obtain a where a: "a \<in> set (scanner_agents d)" "\<exists>key'. opt_str_or (Some key) None = Some key' \<and>
      sa_api_key_hash a = sha256_hex env key'" and d1: "d1 = put_scanner (beat now body a) d"
    unfolding agent_heartbeat_def
    by (auto dest!: get_agent_from_key_InrD split: prod.splits sum.splits if_splits)
  have "beat now body a \<in> set (scanner_agents d1)"
    using in_put_row [OF a(1), of sa_id "beat now body a"] by (simp add: d1 put_scanner_def beat_def)
  with a show "\<exists>a \<in> set (scanner_agents d). sa_api_key_hash a = sha256_hex env key \<and>
        beat now body a \<in> set (scanner_agents d1) \<and>
        (\<forall>later. ax_is_online (agent_status_of later (beat now body a)) = (later - now < seconds 90) \<and>
                 is_online later (beat now body a) = (later - now < seconds 90) \<and>
                 agent_online later (beat now body a) = agent_online later a)"
    by (intro bexI [of _ a])
      (auto simp: agent_status_of_def is_online_def agent_online_def beat_def opt_str_or_def Let_def split: if_splits)
  from polled have "get_scanner env now (Some key') d = (Inr b, d2)" by (rule get_db_InrD [THEN conjunct1])
  from get_scanner_InrD [OF this] obtain a' where a': "a' \<in> set (scanner_agents d)"
    and b: "b = a'\<lparr>sa_last_seen := Some now\<rparr>" "d2 = put_scanner b d" by auto
  have "b \<in> set (scanner_agents d2)"
    using in_put_row [OF a', of sa_id b] by (simp add: b put_scanner_def)
  with a' b show "\<exists>a \<in> set (scanner_agents d). b = a\<lparr>sa_last_seen := Some now\<rparr> \<and> b \<in> set (scanner_agents d2) \<and>
        (\<forall>later. agent_online later b = (later - now < seconds 300) \<and>
                 is_online later b = is_online later a \<and>
                 ax_is_online (agent_status_of later b) = ax_is_online (agent_status_of later a))"
    by (intro bexI [of _ a']) (auto simp: agent_status_of_def is_online_def agent_online_def Let_def)
qed

section \<open>Examples\<close>

definition example_agent :: scanner_agent where
  "example_agent = (new_scanner_agent 3 0 1 ''default'' (sha256_hex example_env ''dga_k''))\<lparr>sa_is_active := True\<rparr>"

definition example_agents_db :: db where
  "example_agents_db = empty_db\<lparr>scanner_agents := [example_agent], next_uuid := 4\<rparr>"

definition example_beat :: heartbeat_request where
  "example_beat = \<lparr> hr_agent_id = ''3'', hr_version = ''1.0'', hr_os = ''linux'', hr_hostname = ''host'',
     hr_files_indexed = 7, hr_files_pending = 0, hr_last_error = None, hr_connector_statuses = [] \<rparr>"

lemma example_agents_ok:
  "constraints example_agents_db" "unique_by sa_api_key_hash (filter sa_is_active (scanner_agents example_agents_db))"
  "\<forall>a \<in> set (scanner_agents example_agents_db). sa_id a < next_uuid example_agents_db"
  by (simp_all add: example_agents_db_def example_agent_def empty_db_def constraints_def unique_by_def new_scanner_agent_def)

lemma example_hash: "sha256_hex example_env t = ''h'' @ t"
  by (simp add: example_env_def)

theorem revoked_key_refused_witness:
  "\<exists>d' d''. get_db (revoke_agent example_member ''3'') example_agents_db = (Inr (), d') \<and>
     d'' = serve [agent_handle example_env 5 (Beat (Some ''dga_k'') example_beat)] d' \<and>
     get_db (get_agent_config example_env (Some ''dga_k'')) d'' =
       (Inl (HTTPException 401 ''Invalid or revoked agent key''), d'')"
proof -
  have "case get_db (revoke_agent example_member ''3'') example_agents_db of (Inl e, s') \<Rightarrow> False | (Inr x, s') \<Rightarrow> True"
    by code_simp
  then obtain d' where run: "get_db (revoke_agent example_member ''3'') example_agents_db = (Inr (), d')"
    by (auto split: prod.splits sum.splits)
  have id: "parse_uuid ''3'' = Some (sa_id example_agent)" by code_simp
  have row: "example_agent \<in> set (scanner_agents example_agents_db)" "sa_is_active example_agent"
    "sa_api_key_hash example_agent = sha256_hex example_env ''dga_k''"
    by (simp_all add: example_agents_db_def example_agent_def new_scanner_agent_def)
  from revoked_key_refused [OF example_agents_ok(1) row(1,2,3) _ example_agents_ok(2) id run, of "[(5, Beat (Some ''dga_k'') example_beat)]"]
  show ?thesis using run by auto
qed

theorem token_names_witness:
  "get_db (generate_agent_token example_env 5 ''r'' example_member ''default'') example_agents_db =
     (Inl IntegrityError, example_agents_db)"
  unfolding token_names [OF example_agents_ok(1,3)]
  by (simp add: example_agents_db_def example_agent_def example_member_def new_scanner_agent_def)

theorem two_clocks_witness:
  "\<exists>d1 d2 b. get_db (agent_heartbeat example_env 5 (Some ''dga_k'') example_beat) example_agents_db = (Inr (), d1) \<and>
     get_db (get_scanner example_env 5 (Some ''dga_k'')) example_agents_db = (Inr b, d2) \<and>
     agent_online 9 b \<and> \<not> is_online 9 b"
proof -
  have "case get_db (agent_heartbeat example_env 5 (Some ''dga_k'') example_beat) example_agents_db of
      (Inl e, s') \<Rightarrow> False | (Inr x, s') \<Rightarrow> True"
    by code_simp
  then obtain d1 where beat: "get_db (agent_heartbeat example_env 5 (Some ''dga_k'') example_beat) example_agents_db = (Inr (), d1)"
    by (auto split: prod.splits sum.splits)
  have "case get_db (get_scanner example_env 5 (Some ''dga_k'')) example_agents_db of
      (Inl e, s') \<Rightarrow> False | (Inr x, s') \<Rightarrow> True"
    by code_simp
  then obtain b d2 where polled: "get_db (get_scanner example_env 5 (Some ''dga_k'')) example_agents_db = (Inr b, d2)"
    by (auto split: prod.splits sum.splits)
  have never: "\<not> is_online 9 a" if "a \<in> set (scanner_agents example_agents_db)" for a
    using that by (simp add: example_agents_db_def example_agent_def new_scanner_agent_def is_online_def)
  from two_clocks [OF beat polled, THEN conjunct2] obtain a where "a \<in> set (scanner_agents example_agents_db)"
    and "agent_online 9 b = (9 - 5 < seconds 300)" and "is_online 9 b = is_online 9 a" by metis
  with never have "agent_online 9 b \<and> \<not> is_online 9 b" by simp
  with beat polled show ?thesis by blast
qed

end
