(* ===== verification/Tenant_Settings.thy ===== *)
theory Tenant_Settings
  imports Local_Auth
begin

text \<open>
  \<open>api/settings.py\<close> and \<open>api/tenants.py\<close>: the settings of a tenant, its notification settings, its
  subscription, its creation and its deletion.

  The Stripe library is a parameter: the sessions and customers it creates, and
  \<open>Webhook.construct_event\<close>, which checks a signature. A column refuses a value of another type.
\<close>

section \<open>Parameters\<close>

record checkout_request =
  cq_customer :: string
  cq_price :: string
  cq_tenant_id :: string
  cq_plan :: string
  cq_success_url :: string
  cq_cancel_url :: string

record stripe_env =
  STRIPE_SECRET :: string
  STRIPE_PRICE_PRO :: string
  STRIPE_PRICE_BUSINESS :: string
  STRIPE_WEBHOOK_SECRET :: string
  stripe_APP_URL :: string
  portal_session :: "string \<Rightarrow> string \<Rightarrow> py_error + string"
  create_customer :: "string option \<Rightarrow> string \<Rightarrow> string \<Rightarrow> py_error + string"
  checkout_session :: "checkout_request \<Rightarrow> py_error + string \<times> string"
  construct_event :: "string \<Rightarrow> string \<Rightarrow> string \<Rightarrow> py_error + json"
  stripe_str :: "py_error \<Rightarrow> string"
  stripe_repr :: "json \<Rightarrow> string"

section \<open>Settings of the tenant\<close>

definition update_tenants :: "uuid \<Rightarrow> time \<Rightarrow> (tenant \<Rightarrow> tenant) \<Rightarrow> unit endpoint" where
  "update_tenants tid now f =
     modify (\<lambda>s. s\<lparr>tenants := update_where (\<lambda>t. tn_id t = tid) (\<lambda>t. (f t)\<lparr>tn_updated_at := now\<rparr>) (tenants s)\<rparr>)"

record tenant_settings =
  ts_id :: string
  ts_name :: string
  ts_slug :: string
  ts_plan :: "string option"
  ts_timezone :: string
  ts_logo_url :: "string option"
  ts_created_at :: time

definition get_tenant_settings :: "auth_context \<Rightarrow> tenant_settings endpoint" where
  "get_tenant_settings auth =
     bnd (select_one tenants (\<lambda>t. tn_id t = ac_tenant_id auth)) (\<lambda>tenant.
     case tenant of
       None \<Rightarrow> raise (HTTPException 404 ''Tenant not found'')
     | Some t \<Rightarrow> ret \<lparr> ts_id = uuid_str (tn_id t), ts_name = tn_name t, ts_slug = tn_slug t, ts_plan = tn_plan t,
                       ts_timezone = tn_timezone t, ts_logo_url = tn_logo_url t, ts_created_at = tn_created_at t \<rparr>)"

definition admin_required :: "auth_context \<Rightarrow> unit endpoint" where
  "admin_required auth = guard (''admin:*'' \<in> ac_permissions auth) (HTTPException 403 ''Admin required'')"

record tenant_settings_request =
  tq_name :: "string option"
  tq_timezone :: "string option"
  tq_logo_url :: "string option"

definition settings_updates :: "tenant_settings_request \<Rightarrow> tenant \<Rightarrow> tenant" where
  "settings_updates req t =
     t\<lparr>tn_name := str_or (tq_name req) (tn_name t), tn_timezone := str_or (tq_timezone req) (tn_timezone t),
       tn_logo_url := (case tq_logo_url req of None \<Rightarrow> tn_logo_url t | Some u \<Rightarrow> Some u)\<rparr>"

definition no_updates :: "tenant_settings_request \<Rightarrow> bool" where
  "no_updates req \<longleftrightarrow> str_or (tq_name req) '''' = '''' \<and> str_or (tq_timezone req) '''' = '''' \<and> tq_logo_url req = None"

definition update_tenant_settings :: "time \<Rightarrow> auth_context \<Rightarrow> tenant_settings_request \<Rightarrow> unit endpoint" where
  "update_tenant_settings now auth req =
     thn (admin_required auth)
     (if no_updates req then ret () else update_tenants (ac_tenant_id auth) now (settings_updates req))"

section \<open>Notification settings\<close>

record notification_request =
  nq_email_alerts :: bool
  nq_slack_webhook :: "string option"
  nq_teams_webhook :: "string option"
  nq_pagerduty_key :: "string option"
  nq_threshold :: string

text \<open>The defaults of the request: what a body that names none of the fields means.\<close>

definition default_notification_request :: notification_request where
  "default_notification_request =
     \<lparr> nq_email_alerts = True, nq_slack_webhook = None, nq_teams_webhook = None, nq_pagerduty_key = None,
       nq_threshold = ''high'' \<rparr>"

record notification_settings =
  ns_email_alerts :: json
  ns_slack_webhook :: json
  ns_teams_webhook :: json
  ns_pagerduty_key_set :: bool
  ns_threshold :: json

definition notification_view :: "py_dict \<Rightarrow> notification_settings" where
  "notification_view cfg =
          \<lparr> ns_email_alerts = dict_get_or cfg ''email_alerts'' (JBool True),
              ns_slack_webhook = dict_get_or cfg ''slack_webhook'' JNull,
              ns_teams_webhook = dict_get_or cfg ''teams_webhook'' JNull,
              ns_pagerduty_key_set = truthy (dict_get_or cfg ''pagerduty_key'' JNull),
              ns_threshold = dict_get_or cfg ''alert_severity_threshold'' (JStr ''high'') \<rparr>"

definition get_notification_settings :: "auth_context \<Rightarrow> notification_settings endpoint" where
  "get_notification_settings auth =
     bnd (select_one tenants (\<lambda>t. tn_id t = ac_tenant_id auth)) (\<lambda>tenant.
     ret (notification_view (case tenant of None \<Rightarrow> [] | Some t \<Rightarrow> tn_notification_config t)))"

definition set_given :: "string \<Rightarrow> string option \<Rightarrow> py_dict \<Rightarrow> py_dict" where
  "set_given k v d = (case v of None \<Rightarrow> d | Some x \<Rightarrow> dict_set k (JStr x) d)"

definition merged_config :: "notification_request \<Rightarrow> py_dict \<Rightarrow> py_dict" where
  "merged_config req existing =
     (let existing = dict_update existing [(''email_alerts'', JBool (nq_email_alerts req)),
            (''alert_severity_threshold'', JStr (nq_threshold req))]
      in set_given ''pagerduty_key'' (nq_pagerduty_key req)
           (set_given ''teams_webhook'' (nq_teams_webhook req)
             (set_given ''slack_webhook'' (nq_slack_webhook req) existing)))"

definition update_notification_settings :: "time \<Rightarrow> auth_context \<Rightarrow> notification_request \<Rightarrow> unit endpoint" where
  "update_notification_settings now auth req =
     thn (admin_required auth)
     (bnd (select_one tenants (\<lambda>t. tn_id t = ac_tenant_id auth)) (\<lambda>tenant.
      let existing = (case tenant of None \<Rightarrow> [] | Some t \<Rightarrow> tn_notification_config t)
      in update_tenants (ac_tenant_id auth) now (\<lambda>t. t\<lparr>tn_notification_config := merged_config req existing\<rparr>)))"

section \<open>Billing\<close>

record billing_info =
  bi_plan :: "string option"
  bi_customer_id :: "string option"
  bi_status :: "string option"
  bi_period_end :: "int option"
  bi_cancel :: "bool option"
  bi_portal_url :: "string option"

definition get_billing_info :: "stripe_env \<Rightarrow> auth_context \<Rightarrow> billing_info endpoint" where
  "get_billing_info senv auth =
     bnd (select_one tenants (\<lambda>t. tn_id t = ac_tenant_id auth)) (\<lambda>tenant.
     case tenant of
       None \<Rightarrow> raise AttributeError
     | Some t \<Rightarrow>
         (let customer = opt_str_or (tn_stripe_customer_id t) None;
              portal_url = (case customer of
                  None \<Rightarrow> None
                | Some c \<Rightarrow> if STRIPE_SECRET senv = [] then None
                            else (case portal_session senv c (stripe_APP_URL senv @ ''/settings/billing'') of
                                    Inl e \<Rightarrow> None | Inr url \<Rightarrow> Some url))
          in ret \<lparr> bi_plan = tn_plan t, bi_customer_id = tn_stripe_customer_id t,
                   bi_status = tn_subscription_status t, bi_period_end = tn_current_period_end t,
                   bi_cancel = tn_cancel_at_period_end t, bi_portal_url = portal_url \<rparr>))"

datatype checkout_result = Redirect string | Checkout string string

text \<open>\<open>PRICE_IDS.get(plan)\<close>, and \<open>None\<close> for a price that is not set.\<close>

definition price_of :: "stripe_env \<Rightarrow> json \<Rightarrow> py_error + string option" where
  "price_of senv plan =
     (case plan of
        JStr p \<Rightarrow> Inr (case map_of [(''pro'', STRIPE_PRICE_PRO senv), (''business'', STRIPE_PRICE_BUSINESS senv)] p of
                          None \<Rightarrow> None | Some price \<Rightarrow> opt_str_or (Some price) None)
      | JArr xs \<Rightarrow> Inl TypeError
      | JObj d \<Rightarrow> Inl TypeError
      | _ \<Rightarrow> Inr None)"

definition customer_of :: "stripe_env \<Rightarrow> time \<Rightarrow> auth_context \<Rightarrow> tenant option \<Rightarrow> user option \<Rightarrow> string endpoint" where
  "customer_of senv now auth tenant user =
     (case (case tenant of None \<Rightarrow> None | Some t \<Rightarrow> opt_str_or (tn_stripe_customer_id t) None) of
        Some c \<Rightarrow> ret c
      | None \<Rightarrow>
          (case tenant of
             None \<Rightarrow> raise AttributeError
           | Some t \<Rightarrow>
               bnd (lift_err (create_customer senv (map_option us_email user) (tn_name t)
                      (uuid_str (ac_tenant_id auth)))) (\<lambda>c.
               thn (update_tenants (ac_tenant_id auth) now (\<lambda>t. t\<lparr>tn_stripe_customer_id := Some c\<rparr>)) (ret c))))"

definition create_checkout_session ::
  "stripe_env \<Rightarrow> time \<Rightarrow> auth_context \<Rightarrow> py_dict \<Rightarrow> checkout_result endpoint" where
  "create_checkout_session senv now auth body =
     thn (guard (STRIPE_SECRET senv \<noteq> []) (HTTPException 501 ''Stripe not configured'')) (
     let plan = dict_get_or body ''plan'' (JStr ''pro'')
     in bnd (lift_err (price_of senv plan)) (\<lambda>price.
        case price of
          None \<Rightarrow>
            if plan = JStr ''enterprise'' then ret (Redirect (stripe_APP_URL senv @ ''/contact-sales''))
            else raise (HTTPException 400 (''Unknown plan: '' @ py_str (stripe_repr senv) plan))
        | Some p \<Rightarrow>
            bnd (select_one tenants (\<lambda>t. tn_id t = ac_tenant_id auth)) (\<lambda>tenant.
            bnd (select_one users (\<lambda>u. us_id u = ac_user_id auth)) (\<lambda>user.
            py_try
              (bnd (customer_of senv now auth tenant user) (\<lambda>c.
               bnd (lift_err (checkout_session senv
                 \<lparr> cq_customer = c, cq_price = p, cq_tenant_id = uuid_str (ac_tenant_id auth),
                   cq_plan = py_str (stripe_repr senv) plan,
                   cq_success_url = stripe_APP_URL senv @ ''/settings/billing?upgraded=true'',
                   cq_cancel_url = stripe_APP_URL senv @ ''/settings/billing'' \<rparr>)) (\<lambda>(url, i).
               ret (Checkout url i))))
              (\<lambda>e. raise (HTTPException 502 (''Stripe error: '' @ stripe_str senv e)))))))"

section \<open>The webhook of the payment service\<close>

text \<open>A value for a column: null, or one of the column's type.\<close>

definition string_column :: "json \<Rightarrow> py_error + string option" where
  "string_column v = (case v of JNull \<Rightarrow> Inr None | JStr t \<Rightarrow> Inr (Some t) | _ \<Rightarrow> Inl (OtherError ''DBAPIError''))"

definition int_column :: "json \<Rightarrow> py_error + int option" where
  "int_column v = (case v of JNull \<Rightarrow> Inr None | JInt i \<Rightarrow> Inr (Some i) | _ \<Rightarrow> Inl (OtherError ''DBAPIError''))"

definition bool_column :: "json \<Rightarrow> py_error + bool option" where
  "bool_column v = (case v of JNull \<Rightarrow> Inr None | JBool b \<Rightarrow> Inr (Some b) | _ \<Rightarrow> Inl (OtherError ''DBAPIError''))"

definition uuid_of :: "json \<Rightarrow> py_error + uuid" where
  "uuid_of v =
     (case v of
        JStr t \<Rightarrow> (case parse_uuid t of None \<Rightarrow> Inl (ValueError ''badly formed hexadecimal UUID string'') | Some i \<Rightarrow> Inr i)
      | _ \<Rightarrow> Inl AttributeError)"

record sub_change =
  sb_tenant :: uuid
  sb_status :: "string option"
  sb_plan :: "string option"
  sb_period_end :: "int option"
  sb_cancel :: "bool option"

text \<open>What a subscription object says; without a tenant in its metadata nothing.\<close>

definition change_of_subscription :: "json \<Rightarrow> py_error + sub_change option" where
  "change_of_subscription sub =
     try_bind (json_get sub ''metadata'' (JObj [])) (\<lambda>meta.
     try_bind (json_get meta ''tenant_id'' JNull) (\<lambda>tid.
     try_bind (json_get meta ''plan'' (JStr ''starter'')) (\<lambda>plan.
     if \<not> truthy tid then Inr None
     else
       try_bind (json_item sub ''status'') (\<lambda>status.
       try_bind (json_get sub ''current_period_end'' JNull) (\<lambda>period_end.
       try_bind (json_get sub ''cancel_at_period_end'' (JBool False)) (\<lambda>cancel.
       try_bind (uuid_of tid) (\<lambda>i.
       try_bind (string_column status) (\<lambda>st.
       try_bind (string_column (if status = JStr ''active'' then plan else JStr ''starter'')) (\<lambda>p.
       try_bind (int_column period_end) (\<lambda>pe.
       try_bind (bool_column cancel) (\<lambda>c.
       Inr (Some \<lparr> sb_tenant = i, sb_status = st, sb_plan = p, sb_period_end = pe, sb_cancel = c \<rparr>))))))))))))"

text \<open>A failed invoice is looked at and nothing is done about it.\<close>

definition look_at_invoice :: "json \<Rightarrow> py_error + unit" where
  "look_at_invoice invoice =
     try_bind (json_get invoice ''subscription_details'' (JObj [])) (\<lambda>details.
     try_bind (json_get details ''metadata'' (JObj [])) (\<lambda>meta.
     try_bind (json_get meta ''tenant_id'' JNull) (\<lambda>tid. Inr ())))"

definition SUBSCRIPTION_EVENTS :: "string list" where
  "SUBSCRIPTION_EVENTS =
     [''customer.subscription.created'', ''customer.subscription.updated'', ''customer.subscription.deleted'']"

definition change_of_event :: "json \<Rightarrow> py_error + sub_change option" where
  "change_of_event event =
     try_bind (json_item event ''type'') (\<lambda>ty.
     if ty \<in> JStr ` set SUBSCRIPTION_EVENTS then
       try_bind (json_item event ''data'') (\<lambda>data. try_bind (json_item data ''object'') change_of_subscription)
     else if ty = JStr ''invoice.payment_failed'' then
       try_bind (json_item event ''data'') (\<lambda>data. try_bind (json_item data ''object'') (\<lambda>invoice.
         map_sum id (\<lambda>_. None) (look_at_invoice invoice)))
     else Inr None)"

definition apply_change :: "time \<Rightarrow> sub_change \<Rightarrow> tenant \<Rightarrow> tenant" where
  "apply_change now c t =
     t\<lparr>tn_subscription_status := sb_status c, tn_plan := sb_plan c, tn_current_period_end := sb_period_end c,
       tn_cancel_at_period_end := sb_cancel c, tn_updated_at := now\<rparr>"

definition stripe_webhook :: "stripe_env \<Rightarrow> time \<Rightarrow> string \<Rightarrow> string \<Rightarrow> unit endpoint" where
  "stripe_webhook senv now payload sig_header =
     thn (guard (STRIPE_SECRET senv \<noteq> []) (HTTPException 501 ''Stripe not configured''))
     (case construct_event senv payload sig_header (STRIPE_WEBHOOK_SECRET senv) of
        Inl e \<Rightarrow> raise (HTTPException 400 (''Webhook signature failed: '' @ stripe_str senv e))
      | Inr event \<Rightarrow>
          bnd (lift_err (change_of_event event)) (\<lambda>change.
          case change of
            None \<Rightarrow> ret ()
          | Some c \<Rightarrow> update_tenants (sb_tenant c) now (apply_change now c)))"

section \<open>Deleting a tenant\<close>

definition delete_tenant :: "auth_env \<Rightarrow> time \<Rightarrow> auth_context \<Rightarrow> py_dict \<Rightarrow> string endpoint" where
  "delete_tenant env now auth body =
     thn (admin_required auth)
     (thn (guard (dict_get_or body ''confirm'' (JStr []) = JStr ''DELETE'')
             (HTTPException 400 (''Type '' @ [CHR 0x27] @ ''DELETE'' @ [CHR 0x27] @ '' to confirm'')))
     (bnd (select_one local_credentials (\<lambda>c. lc_user_id c = ac_user_id auth)) (\<lambda>cred.
     thn (case cred of
            None \<Rightarrow> ret ()
          | Some c \<Rightarrow> guard (case dict_get_or body ''password'' (JStr []) of
                                JStr password \<Rightarrow> pwd_verify env password (lc_password_hash c) | _ \<Rightarrow> False)
                            (HTTPException 401 ''Incorrect password''))
     (bnd (select_all users (\<lambda>u. us_tenant_id u = ac_tenant_id auth \<and> us_is_active u)) (\<lambda>us.
     thn (for_each us (\<lambda>u. thn (queue_erasure_job (us_id u) (ac_tenant_id auth)) (ret ())))
     (thn (update_tenants (ac_tenant_id auth) now (\<lambda>t. t\<lparr>tn_is_active := False\<rparr>))
     (ret ''queued'')))))))"

section \<open>Tenants\<close>

definition BUILTIN_ROLES :: "string list" where
  "BUILTIN_ROLES = [''admin'', ''analyst'', ''viewer'', ''agent'']"

definition builtin_role :: "uuid \<Rightarrow> time \<Rightarrow> uuid \<Rightarrow> string \<Rightarrow> role" where
  "builtin_role i now tenant_id role_type =
     \<lparr> ro_id = i, ro_tenant_id = tenant_id, ro_name = role_type, ro_role_type = role_type,
       ro_description = Some (''Built-in '' @ role_type @ '' role''), ro_permissions = Some (builtin_get role_type),
       ro_is_system = True, ro_created_at = now \<rparr>"

definition create_builtin_roles :: "time \<Rightarrow> uuid \<Rightarrow> unit endpoint" where
  "create_builtin_roles now tenant_id =
     for_each BUILTIN_ROLES (\<lambda>role_type.
       bnd fresh (\<lambda>i. modify (\<lambda>s. s\<lparr>roles := roles s @ [builtin_role i now tenant_id role_type]\<rparr>)))"

record create_tenant_request =
  ctr_slug :: string
  ctr_name :: string
  ctr_plan :: string
  ctr_admin_email :: string

record created_tenant =
  cdt_id :: string
  cdt_slug :: string
  cdt_name :: string
  cdt_plan :: "string option"
  cdt_status :: string
  cdt_next_steps :: "string list"

definition create_tenant :: "(string \<Rightarrow> string) \<Rightarrow> time \<Rightarrow> create_tenant_request \<Rightarrow> created_tenant endpoint" where
  "create_tenant repr now req =
     bnd (select_one tenants (\<lambda>t. tn_slug t = ctr_slug req)) (\<lambda>existing.
     thn (guard (existing = None) (HTTPException 409 (''Slug '' @ repr (ctr_slug req) @ '' already taken'')))
     (bnd fresh (\<lambda>i.
     thn (modify (\<lambda>s. s\<lparr>tenants := tenants s @ [new_tenant i now (ctr_slug req) (ctr_name req) (Some (ctr_plan req))]\<rparr>))
     (thn flush
     (thn (create_builtin_roles now i)
     (thn flush
     (ret \<lparr> cdt_id = uuid_str i, cdt_slug = ctr_slug req, cdt_name = ctr_name req, cdt_plan = Some (ctr_plan req),
            cdt_status = ''created'',
            cdt_next_steps = [''Configure OIDC: POST /api/auth/oidc'',
              ''Invite admin user: POST /api/tenants/'' @ uuid_str i @ ''/users''] \<rparr>)))))))"

record tenant_info =
  ti_id :: string
  ti_slug :: string
  ti_name :: string
  ti_plan :: "string option"
  ti_limits :: "string \<times> string \<times> string"

definition get_my_tenant :: "auth_context \<Rightarrow> tenant_info endpoint" where
  "get_my_tenant auth =
     bnd (select_one tenants (\<lambda>t. tn_id t = ac_tenant_id auth)) (\<lambda>tenant.
     case tenant of
       None \<Rightarrow> raise (HTTPException 404 ''Tenant not found'')
     | Some t \<Rightarrow> ret \<lparr> ti_id = uuid_str (tn_id t), ti_slug = tn_slug t, ti_name = tn_name t, ti_plan = tn_plan t,
                       ti_limits = (tn_max_users t, tn_max_connectors t, tn_max_nodes t) \<rparr>)"

record tenant_user =
  tu_id :: string
  tu_email :: string
  tu_display_name :: "string option"
  tu_last_login :: "time option"

definition list_tenant_users :: "auth_context \<Rightarrow> tenant_user list endpoint" where
  "list_tenant_users auth =
     thn (require_permissions (ac_permissions auth) [''users:read''])
     (bnd (select_all users (\<lambda>u. us_tenant_id u = ac_tenant_id auth \<and> us_is_active u)) (\<lambda>us.
      ret (map (\<lambda>u. \<lparr> tu_id = uuid_str (us_id u), tu_email = us_email u, tu_display_name = us_display_name u,
                       tu_last_login = us_last_login u \<rparr>) us)))"

record tenant_role =
  tr_id :: string
  tr_name :: string
  tr_role_type :: string
  tr_permissions :: "string list option"
  tr_is_system :: bool

definition list_roles :: "auth_context \<Rightarrow> tenant_role list endpoint" where
  "list_roles auth =
     thn (require_permissions (ac_permissions auth) [''roles:write''])
     (bnd (select_all roles (\<lambda>r. ro_tenant_id r = ac_tenant_id auth)) (\<lambda>rs.
      ret (map (\<lambda>r. \<lparr> tr_id = uuid_str (ro_id r), tr_name = ro_name r, tr_role_type = ro_role_type r,
                       tr_permissions = ro_permissions r, tr_is_system = ro_is_system r \<rparr>) rs)))"

section \<open>Deliveries of the payment service\<close>

lemma update_tenants_run [simp]:
  "update_tenants tid now f s =
     (Inr (), s\<lparr>tenants := update_where (\<lambda>t. tn_id t = tid) (\<lambda>t. (f t)\<lparr>tn_updated_at := now\<rparr>) (tenants s)\<rparr>)"
  by (simp add: update_tenants_def)

text \<open>What one delivery says, when its signature is good and its object is well formed.\<close>

definition accepted :: "stripe_env \<Rightarrow> time \<times> string \<times> string \<Rightarrow> (time \<times> sub_change) list" where
  "accepted senv = (\<lambda>(now, payload, sig).
     (if STRIPE_SECRET senv = [] then []
      else case construct_event senv payload sig (STRIPE_WEBHOOK_SECRET senv) of
             Inl e \<Rightarrow> []
           | Inr event \<Rightarrow> (case change_of_event event of Inr (Some c) \<Rightarrow> [(now, c)] | _ \<Rightarrow> [])))"

definition apply_all :: "(time \<times> sub_change) list \<Rightarrow> tenant \<Rightarrow> tenant" where
  "apply_all cs t = fold (\<lambda>(now, c) t. if sb_tenant c = tn_id t then apply_change now c t else t) cs t"

lemma apply_change_fields [simp]:
  "tn_id (apply_change now c t) = tn_id t" "tn_slug (apply_change now c t) = tn_slug t"
  "(apply_change now c t)\<lparr>tn_updated_at := now\<rparr> = apply_change now c t"
  "apply_change now c (apply_change now' c' t) = apply_change now c t"
  by (simp_all add: apply_change_def)

lemma apply_all_Nil [simp]: "apply_all [] t = t"
  by (simp add: apply_all_def)

lemma apply_all_append: "apply_all (cs @ ds) t = apply_all ds (apply_all cs t)"
  by (simp add: apply_all_def)

lemma map_apply_none [simp]: "map (apply_all []) ts = ts"
  by (rule map_idI) simp

lemma apply_all_one: "apply_all [(now, c)] t = (if sb_tenant c = tn_id t then apply_change now c t else t)"
  by (simp add: apply_all_def)

lemma apply_all_id [simp]: "tn_id (apply_all cs t) = tn_id t"
  by (induction cs arbitrary: t) (auto simp: apply_all_def)

lemma constraints_tenants:
  assumes "constraints s" and "map tn_id ts = map tn_id (tenants s)" and "map tn_slug ts = map tn_slug (tenants s)"
  shows "constraints (s\<lparr>tenants := ts\<rparr>)"
  using assms by (simp add: constraints_def unique_by_def)

lemma webhook_tenants:
  assumes "constraints s"
  shows "snd (get_db (stripe_webhook senv now payload sig) s) =
    s\<lparr>tenants := map (apply_all (accepted senv (now, payload, sig))) (tenants s)\<rparr>"
proof (cases "accepted senv (now, payload, sig)")
  case Nil
  then show ?thesis
    by (auto simp: accepted_def stripe_webhook_def get_db_def assms split: sum.splits option.splits prod.splits if_splits)
next
  case (Cons p ps)
  then obtain event c where ev: "STRIPE_SECRET senv \<noteq> []" "change_of_event event = Inr (Some c)"
      "construct_event senv payload sig (STRIPE_WEBHOOK_SECRET senv) = Inr event"
      "accepted senv (now, payload, sig) = [(now, c)]"
    by (auto simp: accepted_def split: sum.splits option.splits if_splits)
  have rows: "update_where (\<lambda>t. tn_id t = sb_tenant c) (\<lambda>t. apply_change now c t) (tenants s) =
      map (apply_all [(now, c)]) (tenants s)"
    unfolding update_where_def by (intro map_cong) (auto simp: apply_all_def)
  have "constraints (s\<lparr>tenants := map (apply_all [(now, c)]) (tenants s)\<rparr>)"
    by (rule constraints_tenants [OF assms]) (auto simp: apply_all_def)
  then show ?thesis
    using ev rows by (simp add: stripe_webhook_def get_db_def)
qed

lemma webhooks_tenants:
  assumes "constraints s"
  shows "serve (map (\<lambda>(now, payload, sig). stripe_webhook senv now payload sig) ds) s =
    s\<lparr>tenants := map (apply_all (concat (map (accepted senv) ds))) (tenants s)\<rparr>"
  using assms
proof (induction ds arbitrary: s)
  case (Cons d ds)
  obtain now payload sig where d: "d = (now, payload, sig)" by (cases d)
  have "constraints (snd (get_db (stripe_webhook senv now payload sig) s))"
    by (rule get_db_constraints [OF Cons.prems])
  from Cons.IH [OF this] show ?case
    by (simp add: d webhook_tenants [OF Cons.prems] apply_all_append [symmetric] comp_def)
qed (simp add: map_idI)

text \<open>Only the change that came last counts.\<close>

lemma apply_all_last:
  "apply_all cs t =
     (case rev (filter (\<lambda>(now, c). sb_tenant c = tn_id t) cs) of
        [] \<Rightarrow> t | (now, c) # _ \<Rightarrow> apply_change now c t)"
proof (induction cs rule: rev_induct)
  case (snoc p cs)
  obtain now c where p: "p = (now, c)" by (cases p)
  show ?case
  proof (cases "sb_tenant c = tn_id t")
    case True
    have "apply_change now c (apply_all cs t) = apply_change now c t"
      unfolding snoc.IH by (auto split: list.splits prod.splits)
    with True show ?thesis by (simp add: p apply_all_append apply_all_one)
  next
    case False
    then have "apply_all (cs @ [p]) t = apply_all cs t" by (simp add: p apply_all_append apply_all_one)
    with False show ?thesis by (simp add: p snoc.IH)
  qed
qed simp

text \<open>The subscription of every tenant is what the accepted delivery that came last says about it, and
  what it was before where no delivery names the tenant: the service keeps no record of the order in which
  the events were made or of the deliveries it has seen, so an earlier event that is delivered again, or
  late, takes the place of a later one. Nothing but tenants changes.\<close>

theorem last_delivery_wins:
  assumes "constraints s"
  shows "serve (map (\<lambda>(now, payload, sig). stripe_webhook senv now payload sig) ds) s =
    s\<lparr>tenants := map (\<lambda>t.
        case rev (filter (\<lambda>(now, c). sb_tenant c = tn_id t) (concat (map (accepted senv) ds))) of
          [] \<Rightarrow> t
        | (now, c) # _ \<Rightarrow> apply_change now c t) (tenants s)\<rparr>"
  unfolding webhooks_tenants [OF assms] apply_all_last [abs_def] ..

text \<open>A subscription object that is accepted gives its plan only while its status is active: with any
  other status, a trial or a late payment included, the tenant is put on the starter plan.\<close>

theorem inactive_subscription_is_starter:
  "(case change_of_subscription sub of
      Inr (Some c) \<Rightarrow> sb_status c = Some ''active'' \<or> sb_plan c = Some ''starter''
    | _ \<Rightarrow> True)"
  by (auto simp: change_of_subscription_def try_bind_def string_column_def Let_def
      split: sum.splits if_splits json.splits)


section \<open>What the settings requests change\<close>

text \<open>A change of the notification settings is read back by the next request of the tenant, and what the
  request leaves out is not kept for all fields: the channels stay as they were, but the e-mail alerts and
  the threshold take the defaults of the request. The key of the paging service is never shown.\<close>

lemma dict_get_or_eq: "dict_get_or d k v = (case dict_get d k of None \<Rightarrow> v | Some w \<Rightarrow> w)"
  by (simp add: dict_get_or_def dict_get_def)

lemma dict_get_dict_set: "dict_get (dict_set k v d) k' = (if k' = k then Some v else dict_get d k')"
  by (simp add: dict_get_def map_of_dict_set)

lemma dict_get_set_given:
  "dict_get (set_given k v d) k' = (if k' = k \<and> v \<noteq> None then map_option JStr v else dict_get d k')"
  by (auto simp: set_given_def dict_get_dict_set split: option.splits)

lemma dict_get_merged:
  "dict_get (merged_config req d) k =
     (if k = ''email_alerts'' then Some (JBool (nq_email_alerts req))
      else if k = ''alert_severity_threshold'' then Some (JStr (nq_threshold req))
      else if k = ''slack_webhook'' \<and> nq_slack_webhook req \<noteq> None then map_option JStr (nq_slack_webhook req)
      else if k = ''teams_webhook'' \<and> nq_teams_webhook req \<noteq> None then map_option JStr (nq_teams_webhook req)
      else if k = ''pagerduty_key'' \<and> nq_pagerduty_key req \<noteq> None then map_option JStr (nq_pagerduty_key req)
      else dict_get d k)"
  by (cases "nq_slack_webhook req"; cases "nq_teams_webhook req"; cases "nq_pagerduty_key req")
    (simp_all add: merged_config_def Let_def dict_update_def dict_get_set_given dict_get_dict_set)

lemma notification_view_merged:
  "notification_view (merged_config req cfg) =
      \<lparr> ns_email_alerts = JBool (nq_email_alerts req),
        ns_slack_webhook = (case nq_slack_webhook req of None \<Rightarrow> ns_slack_webhook (notification_view cfg) | Some u \<Rightarrow> JStr u),
        ns_teams_webhook = (case nq_teams_webhook req of None \<Rightarrow> ns_teams_webhook (notification_view cfg) | Some u \<Rightarrow> JStr u),
        ns_pagerduty_key_set =
          (case nq_pagerduty_key req of None \<Rightarrow> ns_pagerduty_key_set (notification_view cfg) | Some k \<Rightarrow> k \<noteq> []),
        ns_threshold = JStr (nq_threshold req) \<rparr>"
  by (simp add: notification_view_def dict_get_or_eq dict_get_merged split: option.split)

lemma unique_tenant:
  assumes "constraints s" and "t \<in> set (tenants s)"
  shows "filter (\<lambda>x. tn_id x = tn_id t) (tenants s) = [t]"
  using unique_by_filter_key [of tn_id "tenants s" t] assms by (simp add: constraints_def)

lemma update_tenants_filter:
  assumes "filter (\<lambda>x. tn_id x = i) ts = [t]" and "\<And>x. tn_id (f x) = tn_id x"
  shows "filter (\<lambda>x. tn_id x = i) (update_where (\<lambda>x. tn_id x = i) f ts) = [f t]"
proof -
  have "filter (\<lambda>x. tn_id x = i) (update_where (\<lambda>x. tn_id x = i) f ts) = map f (filter (\<lambda>x. tn_id x = i) ts)"
    by (induction ts) (auto simp: update_where_def assms(2))
  with assms(1) show ?thesis by simp
qed

theorem notifications_read_back:
  assumes "constraints s" and "t \<in> set (tenants s)" and "tn_id t = ac_tenant_id auth"
    and "''admin:*'' \<in> ac_permissions auth"
    and "get_notification_settings auth s = (Inr old, s)"
  shows "\<exists>s'. get_db (update_notification_settings now auth req) s = (Inr (), s') \<and>
    get_notification_settings auth s' = (Inr
      \<lparr> ns_email_alerts = JBool (nq_email_alerts req),
        ns_slack_webhook = (case nq_slack_webhook req of None \<Rightarrow> ns_slack_webhook old | Some u \<Rightarrow> JStr u),
        ns_teams_webhook = (case nq_teams_webhook req of None \<Rightarrow> ns_teams_webhook old | Some u \<Rightarrow> JStr u),
        ns_pagerduty_key_set = (case nq_pagerduty_key req of None \<Rightarrow> ns_pagerduty_key_set old | Some k \<Rightarrow> k \<noteq> []),
        ns_threshold = JStr (nq_threshold req) \<rparr>, s')"
proof -
  from unique_tenant [OF assms(1,2)] have row: "filter (\<lambda>x. tn_id x = ac_tenant_id auth) (tenants s) = [t]"
    by (simp add: assms(3))
  let ?f = "\<lambda>x. x\<lparr>tn_notification_config := merged_config req (tn_notification_config t), tn_updated_at := now\<rparr>"
  let ?s = "s\<lparr>tenants := update_where (\<lambda>x. tn_id x = ac_tenant_id auth) ?f (tenants s)\<rparr>"
  have "constraints ?s"
    by (rule constraints_tenants [OF assms(1)]) (simp_all add: map_update_where_same)
  then have "get_db (update_notification_settings now auth req) s = (Inr (), ?s)"
    using row assms(4)
    by (simp add: get_db_def update_notification_settings_def admin_required_def scalar_one_or_none_def Let_def)
  moreover have "old = notification_view (tn_notification_config t)"
    using row assms(5) by (simp add: get_notification_settings_def scalar_one_or_none_def)
  moreover have "get_notification_settings auth ?s =
      (Inr (notification_view (merged_config req (tn_notification_config t))), ?s)"
    using update_tenants_filter [OF row, of ?f] by (simp add: get_notification_settings_def scalar_one_or_none_def)
  ultimately show ?thesis unfolding notification_view_merged by blast
qed

text \<open>C32: What a request to delete a tenant does, in a database that meets its constraints: without
  \<open>admin:*\<close> a 403; without the word DELETE a 400; where the caller has a local credential, and the
  password given is not text that matches it, a 401 (a caller without one, who logs in with the
  provider of the company, needs no password). After these checks the request fails with an
  \<open>ImportError\<close> on the missing name \<open>async_session\<close> as soon as the tenant has an active user, and
  every failure leaves the database as it was. Only a tenant without any active user is marked
  inactive.\<close>

theorem delete_tenant_outcome:
  assumes "constraints s"
  shows "get_db (delete_tenant env now auth body) s =
    (if ''admin:*'' \<notin> ac_permissions auth then (Inl (HTTPException 403 ''Admin required''), s)
     else if dict_get_or body ''confirm'' (JStr []) \<noteq> JStr ''DELETE''
       then (Inl (HTTPException 400 (''Type '' @ [CHR 0x27] @ ''DELETE'' @ [CHR 0x27] @ '' to confirm'')), s)
     else if \<exists>c \<in> set (local_credentials s). lc_user_id c = ac_user_id auth \<and>
         \<not> (\<exists>password. dict_get_or body ''password'' (JStr []) = JStr password \<and>
               pwd_verify env password (lc_password_hash c))
       then (Inl (HTTPException 401 ''Incorrect password''), s)
     else if \<exists>u \<in> set (users s). us_tenant_id u = ac_tenant_id auth \<and> us_is_active u
       then (Inl (ImportError ''async_session''), s)
     else (Inr ''queued'', s\<lparr>tenants := map (\<lambda>t. if tn_id t = ac_tenant_id auth
         then t\<lparr>tn_is_active := False, tn_updated_at := now\<rparr> else t) (tenants s)\<rparr>))"
proof -
  have creds: "length (filter (\<lambda>c. lc_user_id c = ac_user_id auth) (local_credentials s)) \<le> 1"
    by (rule unique_by_filter_le1 [where k = lc_user_id and v = "ac_user_id auth"]) (use assms in \<open>simp_all add: constraints_def\<close>)
  have queue: "for_each us (\<lambda>u. thn (queue_erasure_job (us_id u) (ac_tenant_id auth)) (ret ())) d =
      (if us = [] then (Inr (), d) else (Inl (ImportError ''async_session''), d))" for us d
    by (cases us) simp_all
  have ok: "constraints (s\<lparr>tenants := update_where p (\<lambda>t. t\<lparr>tn_is_active := False, tn_updated_at := now\<rparr>) (tenants s)\<rparr>)" for p
    by (rule constraints_tenants [OF assms]) (simp_all add: map_update_where_same)
  have active: "(\<exists>u \<in> set (users s). us_tenant_id u = ac_tenant_id auth \<and> us_is_active u) \<longleftrightarrow>
      filter (\<lambda>u. us_tenant_id u = ac_tenant_id auth \<and> us_is_active u) (users s) \<noteq> []"
    by (auto simp: filter_empty_conv)
  have upd: "update_where (\<lambda>t. tn_id t = ac_tenant_id auth) (\<lambda>t. t\<lparr>tn_is_active := False, tn_updated_at := now\<rparr>) (tenants s) =
      map (\<lambda>t. if tn_id t = ac_tenant_id auth then t\<lparr>tn_is_active := False, tn_updated_at := now\<rparr> else t) (tenants s)"
    by (simp add: update_where_def)
  note run = delete_tenant_def admin_required_def get_db_def scalar_one_or_none_def queue ok
  show ?thesis
  proof (cases "filter (\<lambda>c. lc_user_id c = ac_user_id auth) (local_credentials s)")
    case Nil
    then have any: "(\<exists>c \<in> set (local_credentials s). lc_user_id c = ac_user_id auth \<and> P c) \<longleftrightarrow> False" for P
      by (auto simp: filter_empty_conv)
    show ?thesis unfolding any active by (simp add: run Nil upd [symmetric])
  next
    case (Cons c cs)
    with creds have one: "filter (\<lambda>c. lc_user_id c = ac_user_id auth) (local_credentials s) = [c]" by simp
    have any: "(\<exists>c \<in> set (local_credentials s). lc_user_id c = ac_user_id auth \<and> P c) \<longleftrightarrow> P c" for P
      using arg_cong [OF one, of set] by auto
    show ?thesis
      unfolding any active by (cases "dict_get_or body ''password'' (JStr [])") (simp_all add: run one upd [symmetric])
  qed
qed


section \<open>A new tenant\<close>

text \<open>Creating a tenant, which anybody may do, gives it the four built-in roles once each, with the
  permissions of the engine, and assigning one of them later uses the role that is there. No user is
  created.\<close>

theorem created_tenant_roles:
  assumes "constraints s" and "fresh_ids s" and "get_db (create_tenant repr now req) s = (Inr r, s')"
  shows "map (\<lambda>x. (ro_name x, ro_permissions x)) (filter (\<lambda>x. ro_tenant_id x = next_uuid s) (roles s')) =
      map (\<lambda>n. (n, Some (builtin_get n))) BUILTIN_ROLES \<and>
    users s' = users s \<and> cdt_id r = uuid_str (next_uuid s)"
proof -
  have old: "filter (\<lambda>x. ro_tenant_id x = next_uuid s) (roles s) = []"
    using assms(2) by (auto simp: fresh_ids_def filter_empty_conv)
  from get_db_InrD [OF assms(3)] old show ?thesis
    by (auto simp: create_tenant_def create_builtin_roles_def BUILTIN_ROLES_def builtin_role_def
        split: sum.splits if_splits)
qed
section \<open>The requests as one family\<close>

datatype settings_call =
    GetSettings auth_context
  | PatchSettings auth_context tenant_settings_request
  | GetNotifications auth_context
  | PatchNotifications auth_context notification_request
  | GetBilling auth_context
  | StartCheckout auth_context py_dict
  | StripeEvent string string
  | DeleteTenant auth_context py_dict
  | CreateTenant create_tenant_request
  | MyTenant auth_context
  | TenantUsers auth_context
  | TenantRoles auth_context

fun settings_handle ::
  "auth_env \<Rightarrow> stripe_env \<Rightarrow> (string \<Rightarrow> string) \<Rightarrow> time \<Rightarrow> settings_call \<Rightarrow> unit endpoint" where
  "settings_handle env senv repr now (GetSettings auth) = done_with (get_tenant_settings auth)"
| "settings_handle env senv repr now (PatchSettings auth req) = update_tenant_settings now auth req"
| "settings_handle env senv repr now (GetNotifications auth) = done_with (get_notification_settings auth)"
| "settings_handle env senv repr now (PatchNotifications auth req) = update_notification_settings now auth req"
| "settings_handle env senv repr now (GetBilling auth) = done_with (get_billing_info senv auth)"
| "settings_handle env senv repr now (StartCheckout auth body) = done_with (create_checkout_session senv now auth body)"
| "settings_handle env senv repr now (StripeEvent payload sig) = stripe_webhook senv now payload sig"
| "settings_handle env senv repr now (DeleteTenant auth body) = done_with (delete_tenant env now auth body)"
| "settings_handle env senv repr now (CreateTenant req) = done_with (create_tenant repr now req)"
| "settings_handle env senv repr now (MyTenant auth) = done_with (get_my_tenant auth)"
| "settings_handle env senv repr now (TenantUsers auth) = done_with (list_tenant_users auth)"
| "settings_handle env senv repr now (TenantRoles auth) = done_with (list_roles auth)"

text \<open>The stored notification settings hold a flag and texts.\<close>

definition is_flag :: "json option \<Rightarrow> bool" where
  "is_flag v \<longleftrightarrow> (case v of None \<Rightarrow> True | Some (JBool b) \<Rightarrow> True | _ \<Rightarrow> False)"

definition text_or_none :: "json option \<Rightarrow> bool" where
  "text_or_none v \<longleftrightarrow> (case v of None \<Rightarrow> True | Some (JStr t) \<Rightarrow> True | _ \<Rightarrow> False)"

definition typed_config :: "py_dict \<Rightarrow> bool" where
  "typed_config cfg \<longleftrightarrow> is_flag (dict_get cfg ''email_alerts'') \<and>
     list_all (\<lambda>k. text_or_none (dict_get cfg k))
       [''alert_severity_threshold'', ''slack_webhook'', ''teams_webhook'', ''pagerduty_key'']"

definition typed_tenants :: "db \<Rightarrow> bool" where
  "typed_tenants s \<longleftrightarrow> (\<forall>t \<in> set (tenants s). typed_config (tn_notification_config t))"

lemma is_flag_simps [simp]: "is_flag None" "is_flag (Some (JBool b))"
  by (simp_all add: is_flag_def)

lemma text_or_none_simps [simp]: "text_or_none None" "text_or_none (Some (JStr t))"
  by (simp_all add: text_or_none_def)

lemma typed_Nil [simp]: "typed_config []"
  by (simp add: typed_config_def dict_get_def)

lemma typed_merged: "typed_config cfg \<Longrightarrow> typed_config (merged_config req cfg)"
  by (cases "nq_slack_webhook req"; cases "nq_teams_webhook req"; cases "nq_pagerduty_key req")
    (simp_all add: typed_config_def dict_get_merged)

text \<open>A family of invariants that read the tenants only.\<close>

lemma preserves_update_tenants:
  assumes "\<And>s. I s \<Longrightarrow>
     I (s\<lparr>tenants := update_where (\<lambda>t. tn_id t = tid) (\<lambda>t. (f t)\<lparr>tn_updated_at := now\<rparr>) (tenants s)\<rparr>)"
  shows "preserves I (update_tenants tid now f)"
  using assms by (simp add: preserves_def)

lemma typed_update:
  "(\<And>t. tn_notification_config (f t) = tn_notification_config t) \<Longrightarrow> preserves typed_tenants (update_tenants tid now f)"
  by (rule preserves_update_tenants) (auto simp: typed_tenants_def set_update_where)

lemma typed_modify: "(\<And>s. tenants (f s) = tenants s) \<Longrightarrow> preserves typed_tenants (modify f)"
  by (simp add: preserves_def typed_tenants_def)

lemma typed_fresh: "preserves typed_tenants fresh"
  by (simp add: preserves_def typed_tenants_def)

lemma preserves_bnd_select_row:
  assumes "\<And>s. I s \<Longrightarrow> I (snd (f None s))" and "\<And>s r. I s \<Longrightarrow> r \<in> set (t s) \<Longrightarrow> I (snd (f (Some r) s))"
  shows "preserves I (bnd (select_one t p) f)"
proof (rule preservesI)
  fix s assume s: "I s"
  show "I (snd (bnd (select_one t p) f s))"
  proof (cases "scalar_one_or_none (filter p (t s))")
    case (Inr row)
    with s assms scalar_one_or_none_filter_Some(1) show ?thesis by (cases row) fastforce+
  qed (use s in simp)
qed

lemma typed_patch_notifications: "preserves typed_tenants (update_notification_settings now auth req)"
  unfolding update_notification_settings_def admin_required_def Let_def
proof (intro preserves_thn preserves_guard preserves_bnd_select_row)
  fix s r assume "typed_tenants s" and "r \<in> set (tenants s)"
  then show "typed_tenants (snd (update_tenants (ac_tenant_id auth) now (\<lambda>t. t\<lparr>tn_notification_config :=
      merged_config req (case Some r of None \<Rightarrow> [] | Some t \<Rightarrow> tn_notification_config t)\<rparr>) s))"
    by (simp add: typed_tenants_def set_update_where ball_Un typed_merged)
qed (simp add: typed_tenants_def set_update_where ball_Un typed_merged)

lemma typed_create: "preserves typed_tenants (create_tenant repr now req)"
  unfolding create_tenant_def create_builtin_roles_def
  by (intro preserves_intros typed_fresh) (auto simp: preserves_def typed_tenants_def new_tenant_def)

lemma typed_checkout: "preserves typed_tenants (create_checkout_session senv now auth body)"
  unfolding create_checkout_session_def customer_of_def Let_def
  by (intro preserves_intros typed_update) (auto intro!: preserves_intros typed_update split: option.split)

lemma typed_delete: "preserves typed_tenants (delete_tenant env now auth body)"
  unfolding delete_tenant_def admin_required_def
  by (intro preserves_intros typed_update) (auto intro!: preserves_intros typed_update)

lemma typed_webhook: "preserves typed_tenants (stripe_webhook senv now payload sig)"
  unfolding stripe_webhook_def
  by (auto intro!: preserves_intros typed_update simp: apply_change_def split: sum.split)

lemma typed_patch: "preserves typed_tenants (update_tenant_settings now auth req)"
  unfolding update_tenant_settings_def admin_required_def
  by (auto intro!: preserves_intros typed_update simp: settings_updates_def)

lemma preserves_reads:
  "preserves I (get_tenant_settings auth)" "preserves I (get_notification_settings auth)"
  "preserves I (get_billing_info senv auth)" "preserves I (get_my_tenant auth)"
  "preserves I (list_tenant_users auth)" "preserves I (list_roles auth)"
  unfolding get_tenant_settings_def get_notification_settings_def get_billing_info_def get_my_tenant_def
    list_tenant_users_def list_roles_def require_permissions_def Let_def
  by (intro preserves_intros)+

lemmas typed_calls = typed_patch_notifications typed_create typed_checkout typed_delete typed_webhook typed_patch
  preserves_reads

interpretation settings: keeps_invariant typed_tenants "{settings_handle env senv repr now c | env senv repr now c. True}"
proof unfold_locales
  fix h assume "h \<in> {settings_handle env senv repr now c | env senv repr now c. True}"
  then obtain env senv repr now c where h: "h = settings_handle env senv repr now c" by blast
  show "preserves typed_tenants h"
    unfolding h by (cases c) (auto intro!: preserves_done_with typed_calls)
qed

lemma get_notification_settings_InrD:
  assumes "get_notification_settings auth s = (Inr v, s')"
  shows "v = notification_view [] \<or> (\<exists>t \<in> set (tenants s). v = notification_view (tn_notification_config t))"
proof (cases "scalar_one_or_none (filter (\<lambda>t. tn_id t = ac_tenant_id auth) (tenants s))")
  case (Inr row)
  with assms scalar_one_or_none_filter_Some(1) [of "\<lambda>t. tn_id t = ac_tenant_id auth" "tenants s"] show ?thesis
    by (cases row) (auto simp: get_notification_settings_def)
qed (use assms in \<open>simp add: get_notification_settings_def\<close>)

lemma typed_view:
  assumes "typed_config cfg"
  shows "\<exists>b. ns_email_alerts (notification_view cfg) = JBool b"
    and "\<exists>t. ns_threshold (notification_view cfg) = JStr t"
    and "ns_slack_webhook (notification_view cfg) \<in> insert JNull (range JStr)"
    and "ns_teams_webhook (notification_view cfg) \<in> insert JNull (range JStr)"
proof -
  have flag: "\<exists>b. dict_get_or cfg k (JBool True) = JBool b" if "is_flag (dict_get cfg k)" for k
    using that by (auto simp: is_flag_def dict_get_or_eq split: option.splits json.splits)
  have stored: "dict_get_or cfg k v \<in> insert v (range JStr)" if "text_or_none (dict_get cfg k)" for k v
    using that by (auto simp: text_or_none_def dict_get_or_eq split: option.splits json.splits)
  from assms have typed: "is_flag (dict_get cfg ''email_alerts'')" "text_or_none (dict_get cfg ''alert_severity_threshold'')"
    "text_or_none (dict_get cfg ''slack_webhook'')" "text_or_none (dict_get cfg ''teams_webhook'')"
    by (simp_all add: typed_config_def)
  from flag [OF typed(1)] show "\<exists>b. ns_email_alerts (notification_view cfg) = JBool b"
    by (simp add: notification_view_def)
  from stored [OF typed(2), of "JStr ''high''"] show "\<exists>t. ns_threshold (notification_view cfg) = JStr t"
    by (auto simp: notification_view_def)
  from stored [OF typed(3), of JNull] show "ns_slack_webhook (notification_view cfg) \<in> insert JNull (range JStr)"
    by (simp add: notification_view_def)
  from stored [OF typed(4), of JNull] show "ns_teams_webhook (notification_view cfg) \<in> insert JNull (range JStr)"
    by (simp add: notification_view_def)
qed

text \<open>C31: Whatever is asked of the settings, the billing and the tenant API, the notification settings of every
  tenant hold a flag and texts, so what the API shows of them is typed as the request is.\<close>

theorem notifications_typed:
  assumes "typed_tenants s"
    and "s' = serve (map (\<lambda>(now, c). settings_handle env senv repr now c) cs) s"
    and "get_notification_settings auth s' = (Inr v, s'')"
  shows "typed_tenants s' \<and> (\<exists>b. ns_email_alerts v = JBool b) \<and> (\<exists>t. ns_threshold v = JStr t) \<and>
    ns_slack_webhook v \<in> insert JNull (range JStr) \<and> ns_teams_webhook v \<in> insert JNull (range JStr)"
proof -
  have typed: "typed_tenants s'"
    unfolding assms(2) by (rule settings.requests_keep [OF _ assms(1)]) (auto, blast)
  from get_notification_settings_InrD [OF assms(3)] typed
  obtain cfg where v: "v = notification_view cfg" and "typed_config cfg"
    by (auto simp: typed_tenants_def)
  from typed typed_view [OF this(2)] v show ?thesis by blast
qed
section \<open>Examples\<close>

definition example_stripe :: stripe_env where
  "example_stripe =
     \<lparr> STRIPE_SECRET = ''sk'', STRIPE_PRICE_PRO = ''p1'', STRIPE_PRICE_BUSINESS = ''p2'', STRIPE_WEBHOOK_SECRET = ''wh'',
       stripe_APP_URL = ''https://app'', portal_session = (\<lambda>c u. Inr ''portal''),
       create_customer = (\<lambda>e n t. Inr ''cus''), checkout_session = (\<lambda>r. Inr (''url'', ''cs'')),
       construct_event = (\<lambda>payload sig secret.
         if sig = ''good'' then Inr (JObj [(''type'', JStr ''customer.subscription.updated''),
           (''data'', JObj [(''object'', JObj [(''status'', JStr payload),
              (''metadata'', JObj [(''tenant_id'', JStr ''1''), (''plan'', JStr ''pro'')])])])])
         else Inl (OtherError ''SignatureVerificationError'')),
       stripe_str = (\<lambda>e. ''error''), stripe_repr = (\<lambda>j. ''?'') \<rparr>"

definition example_tenant :: tenant where
  "example_tenant = new_tenant 1 0 ''acme'' ''Acme'' (Some ''starter'')"

definition example_settings_db :: db where
  "example_settings_db = empty_db\<lparr>tenants := [example_tenant], users := [new_user 2 0 1 ''a@x.io''], next_uuid := 3\<rparr>"

definition example_owner :: auth_context where
  "example_owner = \<lparr> ac_user_id = 2, ac_tenant_id = 1, ac_email = JNull, ac_roles = [], ac_permissions = {''admin:*''} \<rparr>"

lemma example_settings_ok:
  "constraints example_settings_db" "fresh_ids example_settings_db" "typed_tenants example_settings_db"
  by (simp_all add: example_settings_db_def example_tenant_def new_tenant_def new_user_def empty_db_def
      constraints_def unique_by_def fresh_ids_def typed_tenants_def)

text \<open>A late event puts a tenant that has paid since back on the starter plan.\<close>

theorem last_delivery_wins_witness:
  "map tn_plan (tenants (serve (map (\<lambda>(now, payload, sig). stripe_webhook example_stripe now payload sig)
      [(5, ''active'', ''good''), (6, ''incomplete'', ''good''), (7, ''active'', ''forged'')]) example_settings_db)) =
    [Some ''starter'']"
  unfolding last_delivery_wins [OF example_settings_ok(1)]
  by code_simp

theorem notifications_read_back_witness:
  "\<exists>s' v. get_db (update_notification_settings 5 example_owner default_notification_request) example_settings_db = (Inr (), s') \<and>
     get_notification_settings example_owner s' = (Inr v, s') \<and> ns_email_alerts v = JBool True"
proof -
  have "fst (get_notification_settings example_owner example_settings_db) =
      Inr (notification_view []) \<and> snd (get_notification_settings example_owner example_settings_db) = example_settings_db"
    by code_simp
  then have old: "get_notification_settings example_owner example_settings_db = (Inr (notification_view []), example_settings_db)"
    by (metis prod.collapse)
  have row: "example_tenant \<in> set (tenants example_settings_db)" "tn_id example_tenant = ac_tenant_id example_owner"
    "''admin:*'' \<in> ac_permissions example_owner"
    by (simp_all add: example_settings_db_def example_tenant_def example_owner_def new_tenant_def)
  from notifications_read_back [OF example_settings_ok(1) row old, of 5 default_notification_request]
  show ?thesis by (auto simp: default_notification_request_def)
qed

theorem delete_tenant_outcome_witness:
  "get_db (delete_tenant example_env 5 example_owner [(''confirm'', JStr ''DELETE'')]) example_settings_db =
     (Inl (ImportError ''async_session''), example_settings_db)"
  unfolding delete_tenant_outcome [OF example_settings_ok(1)]
  by (simp add: example_settings_db_def example_owner_def new_user_def empty_db_def dict_get_or_def dict_get_def)

theorem created_tenant_roles_witness:
  "\<exists>r s'. get_db (create_tenant (\<lambda>t. t) 5 \<lparr>ctr_slug = ''new'', ctr_name = ''New'', ctr_plan = ''pro'', ctr_admin_email = ''b@x.io''\<rparr>)
      example_settings_db = (Inr r, s') \<and> cdt_id r = uuid_str 3"
proof -
  let ?h = "create_tenant (\<lambda>t. t) 5 \<lparr>ctr_slug = ''new'', ctr_name = ''New'', ctr_plan = ''pro'', ctr_admin_email = ''b@x.io''\<rparr>"
  have "case get_db ?h example_settings_db of (Inl e, s') \<Rightarrow> False | (Inr x, s') \<Rightarrow> True"
    by code_simp
  then obtain r s' where run: "get_db ?h example_settings_db = (Inr r, s')"
    by (auto split: prod.splits sum.splits)
  have "next_uuid example_settings_db = 3" by (simp add: example_settings_db_def)
  with created_tenant_roles [OF example_settings_ok(1,2) run] run show ?thesis by auto
qed

theorem notifications_typed_witness:
  "typed_tenants (serve (map (\<lambda>(now, c). settings_handle example_env example_stripe (\<lambda>t. t) now c)
     [(5, PatchNotifications example_owner default_notification_request)]) example_settings_db)"
proof -
  let ?s = "serve (map (\<lambda>(now, c). settings_handle example_env example_stripe (\<lambda>t. t) now c)
     [(5, PatchNotifications example_owner default_notification_request)]) example_settings_db"
  have "case get_notification_settings example_owner ?s of (Inl e, s') \<Rightarrow> False | (Inr x, s') \<Rightarrow> True"
    by code_simp
  then obtain v s'' where "get_notification_settings example_owner ?s = (Inr v, s'')"
    by (auto split: prod.splits sum.splits)
  from notifications_typed [OF example_settings_ok(3) refl this] show ?thesis by blast
qed

end
