(* ===== verification/Erasure.thy ===== *)
theory Erasure
  imports Local_Auth Graph_Store
begin

text \<open>
  \<open>tasks/gdpr.py\<close> and \<open>tasks/maintenance.py\<close>: erasing the data of a user, the graph of a tenant with it,
  and deleting expired tokens.

  Each task opens a session of its own with \<open>async_session\<close>, which \<open>db/session.py\<close> does not define, and
  never commits it. The tasks are modelled as written, and the work inside the session by itself. Which
  nodes a batch takes is left to the database; the model takes the first ones.
\<close>

section \<open>The state a task works on\<close>

record erasure_state =
  er_db :: db
  er_jobs :: "gdpr_erasure_job list"
  er_stores :: "nat \<Rightarrow> gstore"

type_synonym 'a task = "(erasure_state, 'a) handler"

definition in_er_db :: "'a endpoint \<Rightarrow> 'a task" where
  "in_er_db m = (\<lambda>s. case m (er_db s) of (r, d) \<Rightarrow> (r, s\<lparr>er_db := d\<rparr>))"

text \<open>\<open>async with async_session() as db\<close>: what the body wrote to the database is lost, what it did to a
  graph is not.\<close>

definition closed_session :: "'a task \<Rightarrow> 'a task" where
  "closed_session m = (\<lambda>s. case m s of (r, s') \<Rightarrow> (r, s'\<lparr>er_db := er_db s, er_jobs := er_jobs s\<rparr>))"

definition task_uuid :: "string \<Rightarrow> uuid task" where
  "task_uuid t =
     (case parse_uuid t of
        None \<Rightarrow> raise (ValueError ''badly formed hexadecimal UUID string'')
      | Some i \<Rightarrow> ret i)"

section \<open>The graph of a tenant\<close>

text \<open>One statement: at most \<open>n\<close> nodes of the tenant, with the relationships at them.\<close>

definition delete_batch :: "nat \<Rightarrow> string \<Rightarrow> gstore \<Rightarrow> nat \<times> gstore" where
  "delete_batch n tid g =
     (let ns = take n (filter (owned tid) (gs_nodes g))
      in (length ns, g\<lparr>gs_nodes := filter (\<lambda>x. x \<notin> set ns) (gs_nodes g),
                       gs_rels := filter (\<lambda>r. \<not> touches ns r) (gs_rels g)\<rparr>))"

lemma delete_batch_less:
  assumes "delete_batch n tid g = (k, g')" and "k \<noteq> 0"
  shows "length (filter (owned tid) (gs_nodes g')) < length (filter (owned tid) (gs_nodes g))"
proof -
  let ?own = "filter (owned tid) (gs_nodes g)"
  from assms have "take n ?own \<noteq> []" and g': "gs_nodes g' = filter (\<lambda>x. x \<notin> set (take n ?own)) (gs_nodes g)"
    by (auto simp: delete_batch_def Let_def)
  then obtain x where x: "x \<in> set (take n ?own)" by (metis hd_in_set)
  then have "x \<in> set ?own" by (rule in_set_takeD)
  have "filter (owned tid) (gs_nodes g') = filter (\<lambda>x. x \<notin> set (take n ?own)) ?own"
    unfolding g' filter_filter by (rule filter_cong) auto
  also have "length \<dots> < length ?own"
    by (rule length_filter_less [OF \<open>x \<in> set ?own\<close>]) (use x in simp)
  finally show ?thesis .
qed

text \<open>The loop: until a statement has deleted nothing. It counts the batches. A backend is reached or
  not, see \<open>erase_graph_data\<close>; one that is lost between two batches is not modelled (the batches
  before stay deleted and the task is tried again).\<close>

function erase_batches :: "nat \<Rightarrow> string \<Rightarrow> nat \<Rightarrow> gstore \<Rightarrow> nat \<times> gstore" where
  "erase_batches n tid batch g =
     (case delete_batch n tid g of
        (deleted, g') \<Rightarrow> if deleted = 0 then (batch, g') else erase_batches n tid (batch + 1) g')"
  by pat_completeness auto

termination
  by (relation "measure (\<lambda>(n, tid, batch, g). length (filter (owned tid) (gs_nodes g)))")
    (auto dest: delete_batch_less [OF sym])

declare erase_batches.simps [simp del]

definition BATCH :: nat where
  "BATCH = 10000"

definition erase_graph_data :: "graph_env \<Rightarrow> string \<Rightarrow> unit task" where
  "erase_graph_data genv tenant_id =
     bnd (task_uuid tenant_id) (\<lambda>tid.
     bnd (in_er_db (select_one tenants (\<lambda>t. tn_id t = tid))) (\<lambda>tenant.
     case tenant of
       None \<Rightarrow> ret ()
     | Some t \<Rightarrow>
         bnd (lift_err (get_backend_for_tenant genv (str_or (tn_graph_backend t) ''neo4j'') (tn_graph_config t)))
           (\<lambda>backend.
         thn (guard (connects genv backend) (OtherError ''ServiceUnavailable''))
         (modify (\<lambda>s. s\<lparr>er_stores := (er_stores s)(store_of genv backend :=
             snd (erase_batches BATCH tenant_id 0 (er_stores s (store_of genv backend))))\<rparr>)))))"

section \<open>Erasing a user\<close>

definition set_job :: "uuid \<Rightarrow> (gdpr_erasure_job \<Rightarrow> gdpr_erasure_job) \<Rightarrow> unit task" where
  "set_job i f = modify (\<lambda>s. s\<lparr>er_jobs := update_where (\<lambda>j. gj_id j = i) f (er_jobs s)\<rparr>)"

definition delete_auth_data :: "uuid \<Rightarrow> db \<Rightarrow> db" where
  "delete_auth_data uid d =
     d\<lparr>local_credentials := delete_where (\<lambda>c. lc_user_id c = uid) (local_credentials d),
       mfa_configs := delete_where (\<lambda>m. mf_user_id m = uid) (mfa_configs d),
       user_sessions := delete_where (\<lambda>x. se_user_id x = uid) (user_sessions d),
       api_keys := delete_where (\<lambda>k. ak_user_id k = uid) (api_keys d),
       email_verification_tokens := delete_where (\<lambda>t. at_user_id t = uid) (email_verification_tokens d),
       password_reset_tokens := delete_where (\<lambda>t. at_user_id t = uid) (password_reset_tokens d)\<rparr>"

definition anonymize_logs :: "uuid \<Rightarrow> db \<Rightarrow> db" where
  "anonymize_logs uid d =
     d\<lparr>audit_logs := update_where (\<lambda>l. al_user_id l = Some uid)
         (\<lambda>l. l\<lparr>al_user_id := None, al_ip_address := Some ''[erased]'', al_user_agent := Some ''[erased]''\<rparr>)
         (audit_logs d)\<rparr>"

definition erased_user :: "string \<Rightarrow> user \<Rightarrow> user" where
  "erased_user user_id u =
     u\<lparr>us_email := ''erased-'' @ take 8 user_id @ ''@erased.invalid'', us_display_name := Some ''[Erased]'',
       us_external_id := None, us_is_active := False\<rparr>"

definition anonymize_user :: "string \<Rightarrow> uuid \<Rightarrow> db \<Rightarrow> db" where
  "anonymize_user user_id uid d =
     d\<lparr>users := update_where (\<lambda>u. us_id u = uid) (erased_user user_id) (users d)\<rparr>"

definition erase_in_session :: "graph_env \<Rightarrow> time \<Rightarrow> string \<Rightarrow> string \<Rightarrow> string \<Rightarrow> unit task" where
  "erase_in_session genv now user_id tenant_id job_id =
     bnd (task_uuid job_id) (\<lambda>job.
     thn (set_job job (\<lambda>j. j\<lparr>gj_status := ''running''\<rparr>))
     (bnd (task_uuid user_id) (\<lambda>uid.
     thn (in_er_db (modify (delete_auth_data uid)))
     (thn (in_er_db (modify (anonymize_logs uid)))
     (thn (in_er_db (thn (modify (anonymize_user user_id uid)) flush))
     (bnd (task_uuid tenant_id) (\<lambda>tid.
     bnd (in_er_db (select_all users (\<lambda>u. us_tenant_id u = tid \<and> us_id u \<noteq> uid \<and> us_is_active u))) (\<lambda>other_users.
     thn (py_when (first_row other_users = None) (erase_graph_data genv tenant_id))
     (set_job job (\<lambda>j. j\<lparr>gj_status := ''complete'', gj_completed_at := Some now\<rparr>))))))))))"

text \<open>\<open>str_of\<close> is \<open>str(e)\<close>. The error of a failure is recorded if it can be, and the task is tried again.\<close>

definition erase_attempt ::
  "graph_env \<Rightarrow> (py_error \<Rightarrow> string) \<Rightarrow> time \<Rightarrow> string \<Rightarrow> string \<Rightarrow> string \<Rightarrow> unit task" where
  "erase_attempt genv str_of now user_id tenant_id job_id =
     py_try (closed_session (erase_in_session genv now user_id tenant_id job_id)) (\<lambda>e.
       thn (py_try (closed_session (bnd (task_uuid job_id) (\<lambda>job.
              set_job job (\<lambda>j. j\<lparr>gj_status := ''failed'', gj_error := Some (str_of e)\<rparr>)))) (\<lambda>e'. ret ()))
         (raise (OtherError ''Retry'')))"

definition erase_user_data ::
  "graph_env \<Rightarrow> (py_error \<Rightarrow> string) \<Rightarrow> time \<Rightarrow> string \<Rightarrow> string \<Rightarrow> string \<Rightarrow> unit task" where
  "erase_user_data genv str_of now user_id tenant_id job_id =
     thn (import_from session_module ''async_session'')
       (erase_attempt genv str_of now user_id tenant_id job_id)"

section \<open>Expired tokens\<close>

definition delete_expired :: "time \<Rightarrow> db \<Rightarrow> db" where
  "delete_expired now d =
     d\<lparr>password_reset_tokens := delete_where (\<lambda>t. at_expires_at t < now) (password_reset_tokens d),
       email_verification_tokens := delete_where (\<lambda>t. at_expires_at t < now) (email_verification_tokens d),
       user_sessions := delete_where (\<lambda>x. se_expires_at x < now) (user_sessions d)\<rparr>"

definition cleanup_expired_tokens :: "time \<Rightarrow> unit task" where
  "cleanup_expired_tokens now =
     thn (import_from session_module ''async_session'')
       (closed_session (in_er_db (modify (delete_expired now))))"

section \<open>What the graph loop leaves\<close>

lemma filter_notin_take:
  assumes "distinct xs"
  shows "filter (\<lambda>x. x \<notin> set (take n xs)) xs = drop n xs"
proof -
  have "filter (\<lambda>x. x \<notin> set (take n xs)) (take n xs @ drop n xs) = drop n xs"
    unfolding filter_append using set_take_disj_set_drop_if_distinct [OF assms, of n n]
    by (auto simp: filter_empty_conv filter_id_conv)
  then show ?thesis by simp
qed

lemma delete_batch_parts:
  assumes "distinct (gs_nodes g)" and "delete_batch n tid g = (k, g')"
  shows "k = min n (length (filter (owned tid) (gs_nodes g)))"
    and "filter (owned tid) (gs_nodes g') = drop n (filter (owned tid) (gs_nodes g))"
    and "filter (\<lambda>x. \<not> owned tid x) (gs_nodes g') = filter (\<lambda>x. \<not> owned tid x) (gs_nodes g)"
    and "gs_rels g' = filter (\<lambda>r. \<not> touches (take n (filter (owned tid) (gs_nodes g))) r) (gs_rels g)"
    and "distinct (gs_nodes g')" and "gs_next g' = gs_next g"
proof -
  let ?own = "filter (owned tid) (gs_nodes g)"
  from assms(2) have g': "k = length (take n ?own)" "g' = g\<lparr>gs_nodes := filter (\<lambda>x. x \<notin> set (take n ?own)) (gs_nodes g),
      gs_rels := filter (\<lambda>r. \<not> touches (take n ?own) r) (gs_rels g)\<rparr>"
    by (auto simp: delete_batch_def Let_def)
  have "filter (owned tid) (gs_nodes g') = filter (\<lambda>x. x \<notin> set (take n ?own)) ?own"
    unfolding g' filter_filter by (auto intro: filter_cong)
  then show "filter (owned tid) (gs_nodes g') = drop n ?own"
    using filter_notin_take [of ?own n] assms(1) by simp
  show "filter (\<lambda>x. \<not> owned tid x) (gs_nodes g') = filter (\<lambda>x. \<not> owned tid x) (gs_nodes g)"
    unfolding g' by (auto intro!: filter_cong dest: in_set_takeD)
qed (use assms in \<open>auto simp: delete_batch_def Let_def min_def\<close>)

lemma touches_append: "touches (xs @ ys) r \<longleftrightarrow> touches xs r \<or> touches ys r"
  by (auto simp: touches_def)

lemma ceil_step:
  assumes "0 < n" and "0 < (m :: nat)"
  shows "Suc ((m - n + n - 1) div n) = (m + n - 1) div n"
proof -
  have up: "(m - 1 + n) div n = Suc ((m - 1) div n)" using assms(1) by simp
  have m: "m + n - 1 = m - 1 + n" using assms(2) by linarith
  show ?thesis
  proof (cases "m \<le> n")
    case True
    then have "(m - 1) div n = 0" and "(m - n + n - 1) div n = 0" using assms by (intro div_less; linarith)+
    with up m show ?thesis by simp
  next
    case False
    then have "m - n + n - 1 = m - 1" by linarith
    with up m show ?thesis by simp
  qed
qed

lemma erase_batches_exact:
  assumes "0 < n" and "distinct (gs_nodes g)"
  shows "erase_batches n tid batch g =
    (batch + (length (filter (owned tid) (gs_nodes g)) + n - 1) div n,
     g\<lparr>gs_nodes := filter (\<lambda>x. \<not> owned tid x) (gs_nodes g),
       gs_rels := filter (\<lambda>r. \<not> touches (filter (owned tid) (gs_nodes g)) r) (gs_rels g)\<rparr>)"
  using assms
proof (induction n tid batch g rule: erase_batches.induct)
  case (1 n tid batch g)
  let ?own = "filter (owned tid) (gs_nodes g)"
  obtain k g' where step: "delete_batch n tid g = (k, g')" by (cases "delete_batch n tid g")
  note parts = delete_batch_parts [OF 1(3) step]
  show ?case
  proof (cases "k = 0")
    case True
    with parts(1) 1(2) have none: "?own = []" by (simp add: min_def split: if_splits)
    then have "filter (\<lambda>x. \<not> owned tid x) (gs_nodes g) = gs_nodes g"
      by (auto simp: filter_empty_conv filter_id_conv)
    moreover have "g' = g"
      using step none by (auto simp: delete_batch_def Let_def touches_def)
    ultimately show ?thesis
      using True none 1(2) step by (simp add: erase_batches.simps [of n tid batch g] touches_def)
  next
    case False
    with parts(1) have own: "0 < length ?own" by (cases ?own) auto
    have "filter (\<lambda>r. \<not> touches (drop n ?own) r) (gs_rels g') = filter (\<lambda>r. \<not> touches ?own r) (gs_rels g)"
      unfolding parts(4) filter_filter
      by (rule filter_cong [OF refl]) (use touches_append [of "take n ?own" "drop n ?own"] in simp)
    moreover have "Suc ((length ?own - n + n - 1) div n) = (length ?own + n - 1) div n"
      by (rule ceil_step [OF 1(2) own])
    moreover have "g'\<lparr>gs_nodes := ns, gs_rels := rs\<rparr> = g\<lparr>gs_nodes := ns, gs_rels := rs\<rparr>" for ns rs
      using parts(6) by (cases g; cases g') simp
    ultimately show ?thesis
      using False step 1(1) [OF step [symmetric] False 1(2) parts(5)]
      by (simp add: erase_batches.simps [of n tid batch g] parts(2,3))
  qed
qed


lemma graph_ok_distinct: "graph_ok g \<Longrightarrow> distinct (gs_nodes g)"
  by (auto simp: graph_ok_def distinct_map)

text \<open>C28: The loop ends after as many batches as the tenant's nodes fill, and then the graph has lost exactly
  the tenant's nodes and the relationships at them.\<close>

theorem erase_graph_exact:
  assumes "graph_ok g"
  shows "erase_batches BATCH tid 0 g =
    ((length (filter (owned tid) (gs_nodes g)) + 9999) div 10000,
     g\<lparr>gs_nodes := filter (\<lambda>x. \<not> owned tid x) (gs_nodes g),
       gs_rels := filter (\<lambda>r. \<not> touches (filter (owned tid) (gs_nodes g)) r) (gs_rels g)\<rparr>)"
  using erase_batches_exact [OF _ graph_ok_distinct [OF assms], of BATCH tid 0] by (simp add: BATCH_def)

section \<open>What a task leaves\<close>

lemma closed_session_db [simp]:
  "er_db (snd (closed_session m s)) = er_db s" "er_jobs (snd (closed_session m s)) = er_jobs s"
  by (simp_all add: closed_session_def split: prod.split)

lemma run_in_er_db [simp]: "in_er_db m s = (case m (er_db s) of (r, d) \<Rightarrow> (r, s\<lparr>er_db := d\<rparr>))"
  by (simp add: in_er_db_def)

lemma run_set_job [simp]: "set_job i f s = (Inr (), s\<lparr>er_jobs := update_where (\<lambda>j. gj_id j = i) f (er_jobs s)\<rparr>)"
  by (simp add: set_job_def)

lemma run_task_uuid: "parse_uuid t = Some i \<Longrightarrow> task_uuid t s = (Inr i, s)"
  by (simp add: task_uuid_def)

definition erased_db :: "string \<Rightarrow> uuid \<Rightarrow> db \<Rightarrow> db" where
  "erased_db user_id uid d = anonymize_user user_id uid (anonymize_logs uid (delete_auth_data uid d))"

lemma erased_db_tenants [simp]: "tenants (erased_db user_id uid d) = tenants d"
  by (simp add: erased_db_def anonymize_user_def anonymize_logs_def delete_auth_data_def)

lemma erased_db_users: "users (erased_db user_id uid d) = update_where (\<lambda>u. us_id u = uid) (erased_user user_id) (users d)"
  by (simp add: erased_db_def anonymize_user_def anonymize_logs_def delete_auth_data_def)

lemma others_after_erasure:
  "filter (\<lambda>u. us_tenant_id u = tid \<and> us_id u \<noteq> uid \<and> us_is_active u) (users (erased_db user_id uid d)) =
   filter (\<lambda>u. us_tenant_id u = tid \<and> us_id u \<noteq> uid \<and> us_is_active u) (users d)"
  unfolding erased_db_users by (rule filter_update_where_other) (simp add: erased_user_def)

text \<open>The work of a task in its session, when nothing fails before the graph: the rows it leaves.\<close>

lemma erase_in_session_run:
  assumes "parse_uuid job_id = Some job" and "parse_uuid user_id = Some uid" and "parse_uuid tenant_id = Some tid"
    and "constraints (erased_db user_id uid (er_db s))"
    and "filter (\<lambda>u. us_tenant_id u = tid \<and> us_id u \<noteq> uid \<and> us_is_active u) (users (er_db s)) = []"
    and "filter (\<lambda>t. tn_id t = tid) (tenants (er_db s)) = [t]"
    and "get_backend_for_tenant genv (str_or (tn_graph_backend t) ''neo4j'') (tn_graph_config t) = Inr b"
    and "connects genv b"
  shows "erase_in_session genv now user_id tenant_id job_id s =
    (Inr (), s\<lparr>er_db := erased_db user_id uid (er_db s),
       er_jobs := update_where (\<lambda>j. gj_id j = job) (\<lambda>j. j\<lparr>gj_status := ''complete'', gj_completed_at := Some now\<rparr>)
         (update_where (\<lambda>j. gj_id j = job) (\<lambda>j. j\<lparr>gj_status := ''running''\<rparr>) (er_jobs s)),
       er_stores := (er_stores s)(store_of genv b := snd (erase_batches BATCH tenant_id 0 (er_stores s (store_of genv b))))\<rparr>)"
  using assms others_after_erasure [of tid uid user_id "er_db s"]
  by (simp add: erase_in_session_def erase_graph_data_def run_task_uuid first_row_def scalar_one_or_none_def
      erased_db_def [symmetric])

text \<open>Whatever happens inside it, a session that is closed without a commit leaves the rows.\<close>

lemma preserves_closed_session:
  "preserves (\<lambda>x. er_db x = d \<and> er_jobs x = js) (closed_session m)"
  by (simp add: preserves_def)

lemma erase_attempt_rows:
  "er_db (snd (erase_attempt genv str_of now user_id tenant_id job_id s)) = er_db s \<and>
   er_jobs (snd (erase_attempt genv str_of now user_id tenant_id job_id s)) = er_jobs s"
proof -
  have "preserves (\<lambda>x. er_db x = er_db s \<and> er_jobs x = er_jobs s)
      (erase_attempt genv str_of now user_id tenant_id job_id)"
    unfolding erase_attempt_def by (intro preserves_intros preserves_closed_session)
  from preservesD [OF this, of s] show ?thesis by simp
qed

lemma erase_in_session_others:
  assumes "parse_uuid user_id = Some uid" and "parse_uuid tenant_id = Some tid"
    and "filter (\<lambda>u. us_tenant_id u = tid \<and> us_id u \<noteq> uid \<and> us_is_active u) (users (er_db s)) \<noteq> []"
  shows "er_stores (snd (erase_in_session genv now user_id tenant_id job_id s)) = er_stores s"
proof (cases "parse_uuid job_id")
  case None
  then show ?thesis by (simp add: erase_in_session_def task_uuid_def)
next
  case (Some job)
  from assms(3) obtain v vs where
    "filter (\<lambda>u. us_tenant_id u = tid \<and> us_id u \<noteq> uid \<and> us_is_active u) (users (er_db s)) = v # vs"
    by (cases "filter (\<lambda>u. us_tenant_id u = tid \<and> us_id u \<noteq> uid \<and> us_is_active u) (users (er_db s))") auto
  with assms(1,2) Some others_after_erasure [of tid uid user_id "er_db s"] show ?thesis
    by (cases "constraints (erased_db user_id uid (er_db s))")
      (simp_all add: erase_in_session_def run_task_uuid first_row_def erased_db_def [symmetric])
qed

lemma erase_attempt_others:
  assumes "parse_uuid user_id = Some uid" and "parse_uuid tenant_id = Some tid"
    and "\<exists>u \<in> set (users (er_db s)). us_tenant_id u = tid \<and> us_id u \<noteq> uid \<and> us_is_active u"
  shows "snd (erase_attempt genv str_of now user_id tenant_id job_id s) = s"
proof -
  have "filter (\<lambda>u. us_tenant_id u = tid \<and> us_id u \<noteq> uid \<and> us_is_active u) (users (er_db s)) \<noteq> []"
    using assms(3) by (auto simp: filter_empty_conv)
  from erase_in_session_others [OF assms(1,2) this, of genv now job_id]
  have work: "preserves (\<lambda>x. x = s) (closed_session (erase_in_session genv now user_id tenant_id job_id))"
    by (cases "erase_in_session genv now user_id tenant_id job_id s") (simp add: preserves_def closed_session_def)
  have failed: "preserves (\<lambda>x. x = s) (closed_session (bnd (task_uuid i) (\<lambda>j. set_job j f)))" for i f
    by (cases "parse_uuid i") (simp_all add: preserves_def closed_session_def task_uuid_def)
  have "preserves (\<lambda>x. x = s) (erase_attempt genv str_of now user_id tenant_id job_id)"
    unfolding erase_attempt_def by (intro preserves_intros work failed)
  from preservesD [OF this] show ?thesis by simp
qed

text \<open>C27: An erasure never happens: the task always ends on the missing name and changes nothing. With
  that name given, whatever becomes of the attempt, the rows of the database and of the jobs would be
  as before, since its session is never committed; and where the tenant has another active user, the
  graphs too. But for the last active user of a tenant, if the identifiers are well formed, the
  anonymised rows meet the constraints and the tenant's graph, which is in order, can be reached, the
  attempt would end well and delete from it all nodes of the tenant for good.\<close>

theorem erasure_needs_commit:
  "erase_user_data genv str_of now user_id tenant_id job_id s = (Inl (ImportError ''async_session''), s) \<and>
   er_db (snd (erase_attempt genv str_of now user_id tenant_id job_id s)) = er_db s \<and>
   er_jobs (snd (erase_attempt genv str_of now user_id tenant_id job_id s)) = er_jobs s \<and>
   (\<forall>uid tid. parse_uuid user_id = Some uid \<and> parse_uuid tenant_id = Some tid \<longrightarrow>
     (if \<exists>u \<in> set (users (er_db s)). us_tenant_id u = tid \<and> us_id u \<noteq> uid \<and> us_is_active u
      then snd (erase_attempt genv str_of now user_id tenant_id job_id s) = s
      else \<forall>job t b g. parse_uuid job_id = Some job \<and> constraints (erased_db user_id uid (er_db s)) \<and>
        filter (\<lambda>t. tn_id t = tid) (tenants (er_db s)) = [t] \<and>
        get_backend_for_tenant genv (str_or (tn_graph_backend t) ''neo4j'') (tn_graph_config t) = Inr b \<and>
        connects genv b \<and> er_stores s (store_of genv b) = g \<and> graph_ok g \<longrightarrow>
        erase_attempt genv str_of now user_id tenant_id job_id s =
          (Inr (), s\<lparr>er_stores := (er_stores s)(store_of genv b :=
             g\<lparr>gs_nodes := filter (\<lambda>x. \<not> owned tenant_id x) (gs_nodes g),
               gs_rels := filter (\<lambda>r. \<not> touches (filter (owned tenant_id) (gs_nodes g)) r) (gs_rels g)\<rparr>)\<rparr>)))"
proof -
  have never: "erase_user_data genv str_of now user_id tenant_id job_id s = (Inl (ImportError ''async_session''), s)"
    using no_async_session by (simp add: erase_user_data_def import_from_def)
  have lost: "erase_attempt genv str_of now user_id tenant_id job_id s =
      (Inr (), s\<lparr>er_stores := (er_stores s)(store_of genv b :=
         g\<lparr>gs_nodes := filter (\<lambda>x. \<not> owned tenant_id x) (gs_nodes g),
           gs_rels := filter (\<lambda>r. \<not> touches (filter (owned tenant_id) (gs_nodes g)) r) (gs_rels g)\<rparr>)\<rparr>)"
    if "parse_uuid user_id = Some uid" "parse_uuid tenant_id = Some tid"
      "\<not> (\<exists>u \<in> set (users (er_db s)). us_tenant_id u = tid \<and> us_id u \<noteq> uid \<and> us_is_active u)"
      "parse_uuid job_id = Some job" "constraints (erased_db user_id uid (er_db s))"
      "filter (\<lambda>t. tn_id t = tid) (tenants (er_db s)) = [t]"
      "get_backend_for_tenant genv (str_or (tn_graph_backend t) ''neo4j'') (tn_graph_config t) = Inr b"
      "connects genv b" "er_stores s (store_of genv b) = g" "graph_ok g" for uid tid job t b g
  proof -
    from that(3) have "filter (\<lambda>u. us_tenant_id u = tid \<and> us_id u \<noteq> uid \<and> us_is_active u) (users (er_db s)) = []"
      by (auto simp: filter_empty_conv)
    from erase_in_session_run [OF that(4,1,2,5) this that(6-8), of now]
      erase_batches_exact [OF _ graph_ok_distinct [OF that(10)], of BATCH tenant_id 0]
    show ?thesis by (simp add: erase_attempt_def closed_session_def that(9) BATCH_def)
  qed
  show ?thesis
  proof (intro conjI allI impI never erase_attempt_rows [THEN conjunct1] erase_attempt_rows [THEN conjunct2])
    fix uid tid
    let ?other = "\<exists>u \<in> set (users (er_db s)). us_tenant_id u = tid \<and> us_id u \<noteq> uid \<and> us_is_active u"
    assume ids: "parse_uuid user_id = Some uid \<and> parse_uuid tenant_id = Some tid"
    show "if ?other then snd (erase_attempt genv str_of now user_id tenant_id job_id s) = s
      else \<forall>job t b g. parse_uuid job_id = Some job \<and> constraints (erased_db user_id uid (er_db s)) \<and>
        filter (\<lambda>t. tn_id t = tid) (tenants (er_db s)) = [t] \<and>
        get_backend_for_tenant genv (str_or (tn_graph_backend t) ''neo4j'') (tn_graph_config t) = Inr b \<and>
        connects genv b \<and> er_stores s (store_of genv b) = g \<and> graph_ok g \<longrightarrow>
        erase_attempt genv str_of now user_id tenant_id job_id s =
          (Inr (), s\<lparr>er_stores := (er_stores s)(store_of genv b :=
             g\<lparr>gs_nodes := filter (\<lambda>x. \<not> owned tenant_id x) (gs_nodes g),
               gs_rels := filter (\<lambda>r. \<not> touches (filter (owned tenant_id) (gs_nodes g)) r) (gs_rels g)\<rparr>)\<rparr>)"
    proof (cases ?other)
      case True
      from erase_attempt_others [OF _ _ this] ids show ?thesis unfolding if_P [OF True] by blast
    next
      case False
      show ?thesis unfolding if_not_P [OF False] using lost [OF _ _ False] ids by blast
    qed
  qed
qed

text \<open>Inside its session the erasure leaves no credential, second factor, session, key or token of the
  user, no log entry with its identifier, and a row without its name and address that is not active; the rows
  of other users stay as they were.\<close>

theorem erased_rows:
  "list_all (\<lambda>c. lc_user_id c \<noteq> uid) (local_credentials (erased_db user_id uid d)) \<and>
   list_all (\<lambda>m. mf_user_id m \<noteq> uid) (mfa_configs (erased_db user_id uid d)) \<and>
   list_all (\<lambda>x. se_user_id x \<noteq> uid) (user_sessions (erased_db user_id uid d)) \<and>
   list_all (\<lambda>k. ak_user_id k \<noteq> uid) (api_keys (erased_db user_id uid d)) \<and>
   list_all (\<lambda>t. at_user_id t \<noteq> uid) (email_verification_tokens (erased_db user_id uid d)) \<and>
   list_all (\<lambda>t. at_user_id t \<noteq> uid) (password_reset_tokens (erased_db user_id uid d)) \<and>
   list_all (\<lambda>l. al_user_id l \<noteq> Some uid) (audit_logs (erased_db user_id uid d)) \<and>
   filter (\<lambda>u. us_id u = uid) (users (erased_db user_id uid d)) =
     map (erased_user user_id) (filter (\<lambda>u. us_id u = uid) (users d)) \<and>
   filter (\<lambda>u. us_id u \<noteq> uid) (users (erased_db user_id uid d)) = filter (\<lambda>u. us_id u \<noteq> uid) (users d)"
proof -
  have own: "filter (\<lambda>u. us_id u = uid) (update_where (\<lambda>u. us_id u = uid) (erased_user user_id) us) =
      map (erased_user user_id) (filter (\<lambda>u. us_id u = uid) us)" for us
    by (induction us) (auto simp: update_where_def erased_user_def)
  have other: "filter (\<lambda>u. us_id u \<noteq> uid) (update_where (\<lambda>u. us_id u = uid) (erased_user user_id) us) =
      filter (\<lambda>u. us_id u \<noteq> uid) us" for us
    by (rule filter_update_where_other) (simp add: erased_user_def)
  have logs: "list_all (\<lambda>l. al_user_id l \<noteq> Some uid) (audit_logs (erased_db user_id uid d))"
    by (auto simp: list_all_iff erased_db_def anonymize_user_def anonymize_logs_def delete_auth_data_def set_update_where)
  show ?thesis
    using logs by (simp add: own other erased_db_users)
      (simp add: list_all_iff erased_db_def anonymize_user_def anonymize_logs_def delete_auth_data_def)
qed

text \<open>Expired tokens and sessions are not removed either.\<close>

lemma cleanup_never_runs: "cleanup_expired_tokens now s = (Inl (ImportError ''async_session''), s)"
  using no_async_session by (simp add: cleanup_expired_tokens_def import_from_def)

section \<open>Examples\<close>

definition example_node :: "nat \<Rightarrow> string \<Rightarrow> vertex" where
  "example_node i tid = \<lparr>vx_id = i, vx_labels = [''Person''], vx_props = [(''tenant_id'', JStr tid)]\<rparr>"

definition example_graph :: gstore where
  "example_graph = \<lparr>gs_nodes = [example_node 0 ''1'', example_node 1 ''2'', example_node 2 ''1''],
     gs_rels = [\<lparr>gr_type = ''KNOWS'', gr_from = 0, gr_to = 2, gr_props = []\<rparr>], gs_next = 3\<rparr>"

definition example_erasure :: erasure_state where
  "example_erasure = \<lparr>er_db = empty_db\<lparr>tenants := [new_tenant 1 0 ''acme'' ''Acme'' None], users := [new_user 2 0 1 ''a@x.io'']\<rparr>,
     er_jobs = [], er_stores = (\<lambda>i. example_graph)\<rparr>"

lemma example_graph_ok: "graph_ok example_graph"
  by (auto simp: graph_ok_def example_graph_def example_node_def touches_def)

theorem erase_graph_exact_witness:
  "fst (erase_batches BATCH ''1'' 0 example_graph) = 1 \<and>
   map vx_id (gs_nodes (snd (erase_batches BATCH ''1'' 0 example_graph))) = [1]"
  unfolding erase_graph_exact [OF example_graph_ok]
  by (simp add: example_graph_def example_node_def owned_def dict_get_def)

theorem erasure_needs_commit_witness:
  "\<exists>s'. erase_attempt example_genv (\<lambda>e. ''e'') 9 ''2'' ''1'' ''5'' example_erasure = (Inr (), s') \<and>
     er_db s' = er_db example_erasure \<and> map vx_id (gs_nodes (er_stores s' 0)) = [1]"
proof -
  have ids: "parse_uuid ''2'' = Some 2 \<and> parse_uuid ''1'' = Some 1" "parse_uuid ''5'' = Some 5"
    by code_simp+
  let ?g = "example_graph" and ?b = "client_backend example_genv" and ?t = "new_tenant 1 0 ''acme'' ''Acme'' None"
  have ok: "constraints (erased_db ''2'' 2 (er_db example_erasure))"
    by (simp add: example_erasure_def erased_db_def anonymize_user_def anonymize_logs_def delete_auth_data_def
        constraints_def unique_by_def empty_db_def delete_where_def)
  have last: "\<not> (\<exists>u \<in> set (users (er_db example_erasure)). us_tenant_id u = 1 \<and> us_id u \<noteq> 2 \<and> us_is_active u)"
    by (simp add: example_erasure_def new_user_def)
  have "erase_attempt example_genv (\<lambda>e. ''e'') 9 ''2'' ''1'' ''5'' example_erasure =
      (Inr (), example_erasure\<lparr>er_stores := (er_stores example_erasure)(store_of example_genv ?b :=
         ?g\<lparr>gs_nodes := filter (\<lambda>x. \<not> owned ''1'' x) (gs_nodes ?g),
           gs_rels := filter (\<lambda>r. \<not> touches (filter (owned ''1'') (gs_nodes ?g)) r) (gs_rels ?g)\<rparr>)\<rparr>)"
    using erasure_needs_commit [THEN conjunct2, THEN conjunct2, THEN conjunct2, rule_format, OF ids(1),
        of example_erasure, unfolded if_not_P [OF last], rule_format, of "''5''" 5 ?t example_genv ?b ?g] ids(2) ok
    by (simp add: example_erasure_def new_tenant_def example_genv_def example_graph_ok str_or_def
        get_backend_for_tenant_def client_backend_def dict_get_or_def)
  then show ?thesis
    by (simp add: example_genv_def example_graph_def example_node_def owned_def dict_get_def)
qed

end
