(* ===== verification/Schema.thy ===== *)
theory Schema
  imports Oidc Graph_Store "HOL-Library.List_Lexorder" "HOL-Library.Char_ord"
begin

text \<open>
  \<open>api/schema.py\<close>: the description of the node types and relationship types of the graph that the query
  builder is filled from, the properties of a node type with those sampled from the graph, and the live counts.

  An icon is the list of its code points. A row of a query is a dict whose values are JSON values or nodes of
  the driver, which are no dicts. The tables are those of the source, one definition for each node type.
\<close>

section \<open>The shape of the description\<close>

record schema_prop =
  sp_key :: string
  sp_label :: string
  sp_type :: string
  sp_group :: string
  sp_enum :: "string list option"
  sp_live_only :: bool

definition sprop :: "string \<Rightarrow> string \<Rightarrow> string \<Rightarrow> string \<Rightarrow> schema_prop" where
  "sprop key label ty grp =
     \<lparr> sp_key = key, sp_label = label, sp_type = ty, sp_group = grp, sp_enum = None, sp_live_only = False \<rparr>"

definition sprop_enum :: "string \<Rightarrow> string \<Rightarrow> string \<Rightarrow> string \<Rightarrow> string list \<Rightarrow> schema_prop" where
  "sprop_enum key label ty grp values = (sprop key label ty grp)\<lparr>sp_enum := Some values\<rparr>"

record node_type =
  nt_id :: string
  nt_label :: string
  nt_icon :: "nat list"
  nt_color :: string
  nt_description :: string
  nt_primary_key :: "string option"
  nt_properties :: "schema_prop list"

record relationship_type =
  rt_id :: string
  rt_label :: string
  rt_group :: string
  rt_from :: "string list"
  rt_to :: "string list"
  rt_directed :: bool
  rt_properties :: "(string \<times> string \<times> string) list"
  rt_description :: string

definition rel_of ::
  "string \<Rightarrow> string \<Rightarrow> string \<Rightarrow> string list \<Rightarrow> string list \<Rightarrow> bool \<Rightarrow> (string \<times> string \<times> string) list \<Rightarrow>
   string \<Rightarrow> relationship_type" where
  "rel_of i label grp froms tos directed props description =
     \<lparr> rt_id = i, rt_label = label, rt_group = grp, rt_from = froms, rt_to = tos, rt_directed = directed,
       rt_properties = props, rt_description = description \<rparr>"

section \<open>The tables\<close>

definition node_file :: node_type where
  "node_file =
     \<lparr> nt_id = ''File'', nt_label = ''File'', nt_icon = [0x1F4C4], nt_color = ''#4f8ef7'',
       nt_description = ''An indexed file from any connected source'',
       nt_primary_key = Some ''id'',
       nt_properties = [
         sprop ''id'' ''ID'' ''string'' ''Identity'', sprop ''name'' ''Name'' ''string'' ''Identity'',
         sprop ''path'' ''Path'' ''string'' ''Identity'',
         sprop ''extension'' ''Extension'' ''string'' ''Identity'',
         sprop ''mime_type'' ''MIME Type'' ''string'' ''Identity'',
         sprop_enum ''file_category'' ''Category'' ''string'' ''Identity'' [''video'', ''audio'', ''image'',
           ''document'', ''executable'', ''archive'', ''certificate'', ''private_key'', ''code'', ''web_data'',
           ''email'', ''calendar'', ''3d_model'', ''other''],
         sprop ''size'' ''Size (bytes)'' ''integer'' ''Storage'',
         sprop ''sha256'' ''SHA-256'' ''string'' ''Storage'',
         sprop ''protocol'' ''Protocol'' ''string'' ''Storage'',
         sprop ''host'' ''Host'' ''string'' ''Storage'', sprop ''share'' ''Share'' ''string'' ''Storage'',
         sprop ''source_connector'' ''Source Connector'' ''string'' ''Storage'',
         sprop ''created'' ''Created'' ''datetime'' ''Timestamps'',
         sprop ''modified_at'' ''Modified'' ''datetime'' ''Timestamps'',
         sprop ''indexed_at'' ''Indexed At'' ''datetime'' ''Timestamps'',
         sprop_enum ''enrichment_status'' ''Enrichment Status'' ''string'' ''Processing'' [''pending'',
           ''processing'', ''done'', ''skipped'', ''error''],
         sprop ''summary'' ''AI Summary'' ''string'' ''AI'',
         sprop_enum ''sentiment'' ''Sentiment'' ''string'' ''AI'' [''positive'', ''negative'', ''neutral''],
         sprop ''language'' ''Language'' ''string'' ''AI'',
         sprop_enum ''document_type'' ''Document Type'' ''string'' ''AI'' [''invoice'', ''contract'',
           ''report'', ''email'', ''memo'', ''article'', ''manual'', ''financial_statement'', ''legal_filing'',
           ''other''],
         sprop ''action_items'' ''Action Items'' ''string'' ''AI'',
         sprop ''entities_people'' ''People (entities)'' ''string'' ''AI'',
         sprop ''entities_organizations'' ''Orgs (entities)'' ''string'' ''AI'',
         sprop ''entities_locations'' ''Locations (entities)'' ''string'' ''AI'',
         sprop ''entities_topics'' ''Topics (entities)'' ''string'' ''AI'',
         sprop ''container_format'' ''Container'' ''string'' ''Video'',
         sprop ''video_codec'' ''Video Codec'' ''string'' ''Video'',
         sprop ''width'' ''Width (px)'' ''integer'' ''Video'',
         sprop ''height'' ''Height (px)'' ''integer'' ''Video'',
         sprop ''duration_secs'' ''Duration (s)'' ''float'' ''Video'',
         sprop ''fps'' ''Frame Rate'' ''float'' ''Video'',
         sprop ''overall_bitrate'' ''Bitrate'' ''integer'' ''Video'',
         sprop ''bit_depth'' ''Bit Depth'' ''integer'' ''Video'',
         sprop ''color_space'' ''Color Space'' ''string'' ''Video'',
         sprop_enum ''hdr_format'' ''HDR Format'' ''string'' ''Video'' [''HDR10'', ''HDR10+'',
           ''Dolby Vision'', ''HLG'', ''SDR''],
         sprop ''audio_codec'' ''Audio Codec'' ''string'' ''Video'',
         sprop ''audio_channels'' ''Audio Channels'' ''integer'' ''Video'',
         sprop ''sample_rate'' ''Sample Rate (Hz)'' ''integer'' ''Video'',
         sprop ''subtitle_languages'' ''Subtitle Langs'' ''string'' ''Video'',
         sprop ''camera_make'' ''Camera Make'' ''string'' ''Image'',
         sprop ''camera_model'' ''Camera Model'' ''string'' ''Image'',
         sprop ''lens'' ''Lens'' ''string'' ''Image'',
         sprop ''focal_length'' ''Focal Length (mm)'' ''float'' ''Image'',
         sprop ''aperture'' ''Aperture (f/)'' ''float'' ''Image'',
         sprop ''shutter_speed'' ''Shutter Speed'' ''string'' ''Image'',
         sprop ''iso'' ''ISO'' ''integer'' ''Image'',
         sprop ''datetime_original'' ''Date Taken'' ''datetime'' ''Image'',
         sprop ''gps_latitude'' ''GPS Latitude'' ''float'' ''Image'',
         sprop ''gps_longitude'' ''GPS Longitude'' ''float'' ''Image'',
         sprop ''gps_altitude'' ''GPS Altitude'' ''float'' ''Image'',
         sprop ''color_profile'' ''Color Profile'' ''string'' ''Image'',
         sprop ''face_count'' ''Face Count'' ''integer'' ''Image'',
         sprop_enum ''scene_type'' ''Scene Type'' ''string'' ''Vision AI'' [''indoor'', ''outdoor'',
           ''landscape'', ''portrait'', ''document'', ''screenshot'', ''other''],
         sprop ''objects'' ''Objects Detected'' ''string'' ''Vision AI'',
         sprop ''people_count'' ''People Count'' ''integer'' ''Vision AI'',
         sprop ''text_visible'' ''Visible Text'' ''string'' ''Vision AI'',
         sprop ''dominant_colors'' ''Dominant Colors'' ''string'' ''Vision AI'',
         sprop ''is_document'' ''Is Document Photo'' ''boolean'' ''Vision AI'',
         sprop ''artist'' ''Artist'' ''string'' ''Audio'', sprop ''album'' ''Album'' ''string'' ''Audio'',
         sprop ''album_artist'' ''Album Artist'' ''string'' ''Audio'',
         sprop ''title'' ''Title'' ''string'' ''Audio'', sprop ''year'' ''Year'' ''integer'' ''Audio'',
         sprop ''genre'' ''Genre'' ''string'' ''Audio'',
         sprop ''track_number'' ''Track #'' ''integer'' ''Audio'',
         sprop ''bpm'' ''BPM'' ''float'' ''Audio'',
         sprop ''musicbrainz_id'' ''MusicBrainz ID'' ''string'' ''Audio'',
         sprop ''acoustid'' ''AcoustID'' ''string'' ''Audio'',
         sprop ''author'' ''Author'' ''string'' ''Document'',
         sprop ''page_count'' ''Page Count'' ''integer'' ''Document'',
         sprop ''word_count'' ''Word Count'' ''integer'' ''Document'',
         sprop ''has_macros'' ''Has Macros'' ''boolean'' ''Document'',
         sprop ''is_encrypted'' ''Encrypted'' ''boolean'' ''Document'',
         sprop ''is_signed'' ''Digitally Signed'' ''boolean'' ''Document'',
         sprop ''pii_detected'' ''PII Detected'' ''boolean'' ''Security'',
         sprop ''pii_types'' ''PII Types'' ''string'' ''Security'',
         sprop_enum ''sensitivity_level'' ''Sensitivity'' ''string'' ''Security'' [''low'', ''medium'',
           ''high'', ''critical''],
         sprop ''contains_secrets'' ''Contains Secrets'' ''boolean'' ''Security'',
         sprop ''secret_types'' ''Secret Types'' ''string'' ''Security'',
         sprop_enum ''binary_format'' ''Binary Format'' ''string'' ''Executable'' [''PE'', ''ELF'', ''MACHO'',
           ''DEX''],
         sprop ''architecture'' ''Architecture'' ''string'' ''Executable'',
         sprop ''product_name'' ''Product Name'' ''string'' ''Executable'',
         sprop ''company_name'' ''Company'' ''string'' ''Executable'',
         sprop ''file_version'' ''File Version'' ''string'' ''Executable'',
         sprop ''signed'' ''Signed'' ''boolean'' ''Executable'',
         sprop ''signature_valid'' ''Signature Valid'' ''boolean'' ''Executable'',
         sprop ''is_packed'' ''Packed'' ''boolean'' ''Executable'',
         sprop ''entropy'' ''Entropy'' ''float'' ''Executable'',
         sprop ''is_universal'' ''Universal Binary'' ''boolean'' ''Executable'',
         sprop ''architectures'' ''Architectures'' ''string'' ''Executable'',
         sprop_enum ''eol_status'' ''EOL Status'' ''string'' ''Executable'' [''supported'', ''eol'', ''lts'',
           ''unknown''],
         sprop ''latest_version'' ''Latest Version'' ''string'' ''Executable'',
         sprop ''version_behind'' ''Versions Behind'' ''integer'' ''Executable'',
         sprop ''cve_count'' ''CVE Count'' ''integer'' ''Executable'',
         sprop_enum ''risk_assessment'' ''Risk (AI)'' ''string'' ''AI'' [''low'', ''medium'', ''high''],
         sprop ''ai_category'' ''AI Category'' ''string'' ''AI'',
         sprop ''compression_method'' ''Compression'' ''string'' ''Archive'',
         sprop ''compression_ratio'' ''Compression Ratio'' ''float'' ''Archive'',
         sprop ''file_count_in_archive'' ''Files in Archive'' ''integer'' ''Archive'',
         sprop ''contains_executables'' ''Contains Executables'' ''boolean'' ''Archive'',
         sprop ''cert_subject'' ''Cert Subject'' ''string'' ''Certificate'',
         sprop ''cert_issuer'' ''Cert Issuer'' ''string'' ''Certificate'',
         sprop ''cert_valid_from'' ''Valid From'' ''datetime'' ''Certificate'',
         sprop ''cert_valid_to'' ''Valid To'' ''datetime'' ''Certificate'',
         sprop ''cert_is_expired'' ''Expired'' ''boolean'' ''Certificate'',
         sprop ''days_until_expiry'' ''Days Until Expiry'' ''integer'' ''Certificate'',
         sprop ''cert_key_algorithm'' ''Key Algorithm'' ''string'' ''Certificate'',
         sprop ''cert_fingerprint'' ''Fingerprint'' ''string'' ''Certificate'',
         sprop ''is_self_signed'' ''Self-Signed'' ''boolean'' ''Certificate'',
         sprop ''code_language'' ''Language'' ''string'' ''Code'',
         sprop ''line_count'' ''Line Count'' ''integer'' ''Code'',
         sprop ''function_count'' ''Function Count'' ''integer'' ''Code'',
         sprop ''framework'' ''Framework'' ''string'' ''Code'',
         sprop_enum ''code_quality'' ''Code Quality'' ''string'' ''Code'' [''good'', ''fair'', ''poor''],
         sprop ''has_tests'' ''Has Tests'' ''boolean'' ''Code'',
         sprop ''security_concerns'' ''Security Concerns'' ''string'' ''Code''] \<rparr>"

definition node_directory :: node_type where
  "node_directory =
     \<lparr> nt_id = ''Directory'', nt_label = ''Directory'', nt_icon = [0x1F4C1], nt_color = ''#fbbf24'',
       nt_description = ''A directory in the filesystem graph'',
       nt_primary_key = None,
       nt_properties = [
         sprop ''id'' ''ID'' ''string'' ''Identity'', sprop ''path'' ''Path'' ''string'' ''Identity'',
         sprop ''name'' ''Name'' ''string'' ''Identity'', sprop ''host'' ''Host'' ''string'' ''Identity'',
         sprop ''share'' ''Share'' ''string'' ''Identity'',
         sprop ''file_count'' ''File Count'' ''integer'' ''Stats'',
         sprop ''total_bytes'' ''Total Size'' ''integer'' ''Stats''] \<rparr>"

definition node_person :: node_type where
  "node_person =
     \<lparr> nt_id = ''Person'', nt_label = ''Person'', nt_icon = [0x1F464], nt_color = ''#f472b6'',
       nt_description = ''A person identified by face recognition or entity extraction'',
       nt_primary_key = None,
       nt_properties = [
         sprop ''id'' ''ID'' ''string'' ''Identity'', sprop ''name'' ''Name'' ''string'' ''Identity'',
         sprop ''known'' ''Identified'' ''boolean'' ''Identity'',
         sprop ''face_cluster_id'' ''Face Cluster'' ''string'' ''Identity'',
         sprop_enum ''source'' ''Source'' ''string'' ''Identity'' [''face_recognition'', ''entity_extraction'',
           ''manual''],
         sprop ''face_count'' ''Appearances'' ''integer'' ''Stats'',
         sprop ''first_seen'' ''First Seen'' ''datetime'' ''Stats'',
         sprop ''last_seen'' ''Last Seen'' ''datetime'' ''Stats''] \<rparr>"

definition node_facecluster :: node_type where
  "node_facecluster =
     \<lparr> nt_id = ''FaceCluster'', nt_label = ''Face Cluster'', nt_icon = [0x1F465], nt_color = ''#ec4899'',
       nt_description = ''A cluster of face embeddings from InsightFace DBSCAN'',
       nt_primary_key = None,
       nt_properties = [
         sprop ''id'' ''ID'' ''string'' ''Identity'', sprop ''label'' ''Label'' ''string'' ''Identity'',
         sprop ''known'' ''Identified'' ''boolean'' ''Identity'',
         sprop ''face_count'' ''Appearances'' ''integer'' ''Stats'',
         sprop ''first_seen'' ''First Seen'' ''datetime'' ''Stats'',
         sprop ''last_seen'' ''Last Seen'' ''datetime'' ''Stats''] \<rparr>"

definition node_location :: node_type where
  "node_location =
     \<lparr> nt_id = ''Location'', nt_label = ''Location'', nt_icon = [0x1F4CD], nt_color = ''#34d399'',
       nt_description = ''A geographic location from GPS data or entity extraction'',
       nt_primary_key = None,
       nt_properties = [
         sprop ''id'' ''ID'' ''string'' ''Identity'', sprop ''name'' ''Name'' ''string'' ''Identity'',
         sprop ''city'' ''City'' ''string'' ''Geography'',
         sprop ''region'' ''Region'' ''string'' ''Geography'',
         sprop ''country'' ''Country'' ''string'' ''Geography'',
         sprop ''latitude'' ''Latitude'' ''float'' ''Geography'',
         sprop ''longitude'' ''Longitude'' ''float'' ''Geography'',
         sprop ''place_type'' ''Place Type'' ''string'' ''Geography''] \<rparr>"

definition node_organization :: node_type where
  "node_organization =
     \<lparr> nt_id = ''Organization'', nt_label = ''Organization'', nt_icon = [0x1F3E2],
           nt_color = ''#fb923c'',
       nt_description = ''An organization extracted from document text'',
       nt_primary_key = None,
       nt_properties = [
         sprop ''id'' ''ID'' ''string'' ''Identity'', sprop ''name'' ''Name'' ''string'' ''Identity'',
         sprop ''type'' ''Type'' ''string'' ''Identity''] \<rparr>"

definition node_topic :: node_type where
  "node_topic =
     \<lparr> nt_id = ''Topic'', nt_label = ''Topic'', nt_icon = [0x1F3F7, 0xFE0F], nt_color = ''#a3e635'',
       nt_description = ''A semantic topic extracted by AI'',
       nt_primary_key = None,
       nt_properties = [
         sprop ''id'' ''ID'' ''string'' ''Identity'', sprop ''name'' ''Name'' ''string'' ''Identity''] \<rparr>"

definition node_tag :: node_type where
  "node_tag =
     \<lparr> nt_id = ''Tag'', nt_label = ''Tag'', nt_icon = [0x1F516], nt_color = ''#6b7280'',
       nt_description = ''A user-applied or system tag on a file'',
       nt_primary_key = None,
       nt_properties = [
         sprop ''id'' ''ID'' ''string'' ''Identity'', sprop ''name'' ''Name'' ''string'' ''Identity''] \<rparr>"

definition node_collection :: node_type where
  "node_collection =
     \<lparr> nt_id = ''Collection'', nt_label = ''Collection'', nt_icon = [0x1F4DA], nt_color = ''#f59e0b'',
       nt_description = ''A named grouping of files'',
       nt_primary_key = None,
       nt_properties = [
         sprop ''id'' ''ID'' ''string'' ''Identity'', sprop ''name'' ''Name'' ''string'' ''Identity'',
         sprop ''type'' ''Type'' ''string'' ''Identity'',
         sprop ''description'' ''Description'' ''string'' ''Identity''] \<rparr>"

definition node_event :: node_type where
  "node_event =
     \<lparr> nt_id = ''Event'', nt_label = ''Event'', nt_icon = [0x1F389], nt_color = ''#fb923c'',
       nt_description = ''An event that files are temporally linked to'',
       nt_primary_key = None,
       nt_properties = [
         sprop ''id'' ''ID'' ''string'' ''Identity'', sprop ''name'' ''Name'' ''string'' ''Identity'',
         sprop ''start_time'' ''Start Time'' ''datetime'' ''Time'',
         sprop ''end_time'' ''End Time'' ''datetime'' ''Time''] \<rparr>"

definition node_mediaitem :: node_type where
  "node_mediaitem =
     \<lparr> nt_id = ''MediaItem'', nt_label = ''Media Item'', nt_icon = [0x1F39E, 0xFE0F],
           nt_color = ''#818cf8'',
       nt_description = ''A movie, TV show, or album from TMDB/IMDB'',
       nt_primary_key = None,
       nt_properties = [
         sprop ''id'' ''ID'' ''string'' ''Identity'', sprop ''title'' ''Title'' ''string'' ''Identity'',
         sprop_enum ''type'' ''Type'' ''string'' ''Identity'' [''movie'', ''tv'', ''album'', ''other''],
         sprop ''year'' ''Year'' ''integer'' ''Metadata'',
         sprop ''tmdb_id'' ''TMDB ID'' ''string'' ''Metadata'',
         sprop ''imdb_id'' ''IMDB ID'' ''string'' ''Metadata'',
         sprop ''genre'' ''Genre'' ''string'' ''Metadata'',
         sprop ''director'' ''Director'' ''string'' ''Metadata'',
         sprop ''rating'' ''Rating'' ''float'' ''Metadata'',
         sprop ''overview'' ''Overview'' ''string'' ''Metadata''] \<rparr>"

definition node_application :: node_type where
  "node_application =
     \<lparr> nt_id = ''Application'', nt_label = ''Application'', nt_icon = [0x1F5A5, 0xFE0F],
           nt_color = ''#8b5cf6'',
       nt_description = ''An installed application tracked by archon'',
       nt_primary_key = None,
       nt_properties = [
         sprop ''id'' ''ID'' ''string'' ''Identity'', sprop ''name'' ''Name'' ''string'' ''Identity'',
         sprop ''version_string'' ''Version'' ''string'' ''Version'',
         sprop ''architecture'' ''Architecture'' ''string'' ''Version'',
         sprop_enum ''eol_status'' ''EOL Status'' ''string'' ''Lifecycle'' [''supported'', ''eol'', ''lts'',
           ''unknown''],
         sprop ''eol_date'' ''EOL Date'' ''datetime'' ''Lifecycle'',
         sprop ''latest_version'' ''Latest Version'' ''string'' ''Lifecycle'',
         sprop ''version_behind'' ''Versions Behind'' ''integer'' ''Lifecycle'',
         sprop ''update_available'' ''Update Available'' ''boolean'' ''Lifecycle'',
         sprop ''cve_count'' ''CVE Count'' ''integer'' ''Security'',
         sprop ''critical_cve_count'' ''Critical CVEs'' ''integer'' ''Security'',
         sprop ''signed'' ''Signed'' ''boolean'' ''Security'',
         sprop ''install_date'' ''Install Date'' ''datetime'' ''Usage'',
         sprop ''last_run'' ''Last Run'' ''datetime'' ''Usage''] \<rparr>"

definition node_vulnerability :: node_type where
  "node_vulnerability =
     \<lparr> nt_id = ''Vulnerability'', nt_label = ''Vulnerability'', nt_icon = [0x1F6E1, 0xFE0F],
           nt_color = ''#f87171'',
       nt_description = ''A CVE from NVD, OSV, or OSS-Index'',
       nt_primary_key = None,
       nt_properties = [
         sprop ''id'' ''ID'' ''string'' ''Identity'', sprop ''cve_id'' ''CVE ID'' ''string'' ''Identity'',
         sprop ''cvss_score'' ''CVSS Score'' ''float'' ''Severity'',
         sprop_enum ''cvss_severity'' ''Severity'' ''string'' ''Severity'' [''critical'', ''high'', ''medium'',
           ''low'', ''none''],
         sprop ''exploit_available'' ''Exploit Available'' ''boolean'' ''Risk'',
         sprop ''actively_exploited'' ''Actively Exploited'' ''boolean'' ''Risk'',
         sprop ''description'' ''Description'' ''string'' ''Detail'',
         sprop ''published_date'' ''Published'' ''datetime'' ''Detail'',
         sprop ''patched_in_version'' ''Patched In'' ''string'' ''Detail''] \<rparr>"

definition node_certificate :: node_type where
  "node_certificate =
     \<lparr> nt_id = ''Certificate'', nt_label = ''Certificate'', nt_icon = [0x1F3C5], nt_color = ''#4ade80'',
       nt_description = ''A TLS, code-signing, or CA certificate node'',
       nt_primary_key = None,
       nt_properties = [
         sprop ''id'' ''ID'' ''string'' ''Identity'',
         sprop ''subject'' ''Subject'' ''string'' ''Identity'',
         sprop ''issuer'' ''Issuer'' ''string'' ''Identity'',
         sprop ''serial'' ''Serial'' ''string'' ''Identity'',
         sprop ''valid_from'' ''Valid From'' ''datetime'' ''Validity'',
         sprop ''valid_to'' ''Valid To'' ''datetime'' ''Validity'',
         sprop ''is_expired'' ''Expired'' ''boolean'' ''Validity'',
         sprop ''days_until_expiry'' ''Days Left'' ''integer'' ''Validity'',
         sprop ''key_algorithm'' ''Key Algorithm'' ''string'' ''Crypto'',
         sprop ''key_size'' ''Key Size (bits)'' ''integer'' ''Crypto'',
         sprop ''fingerprint'' ''Fingerprint'' ''string'' ''Crypto'',
         sprop ''is_ca'' ''Is CA'' ''boolean'' ''Type'',
         sprop ''is_self_signed'' ''Self-Signed'' ''boolean'' ''Type''] \<rparr>"

definition node_dependency :: node_type where
  "node_dependency =
     \<lparr> nt_id = ''Dependency'', nt_label = ''Dependency'', nt_icon = [0x1F9E9], nt_color = ''#67e8f9'',
       nt_description = ''A software package dependency'',
       nt_primary_key = None,
       nt_properties = [
         sprop ''id'' ''ID'' ''string'' ''Identity'', sprop ''name'' ''Name'' ''string'' ''Identity'',
         sprop ''version'' ''Version'' ''string'' ''Identity''] \<rparr>"

definition node_license :: node_type where
  "node_license =
     \<lparr> nt_id = ''License'', nt_label = ''License'', nt_icon = [0x1F4DC], nt_color = ''#6ee7b7'',
       nt_description = ''A software license (SPDX)'',
       nt_primary_key = None,
       nt_properties = [
         sprop ''id'' ''ID'' ''string'' ''Identity'', sprop ''name'' ''Name'' ''string'' ''Identity'',
         sprop ''spdx'' ''SPDX ID'' ''string'' ''Identity'',
         sprop_enum ''type'' ''Type'' ''string'' ''Identity'' [''permissive'', ''copyleft'', ''weak-copyleft'',
           ''proprietary'', ''unknown'']] \<rparr>"

definition node_vendor :: node_type where
  "node_vendor =
     \<lparr> nt_id = ''Vendor'', nt_label = ''Vendor'', nt_icon = [0x1F3ED], nt_color = ''#a78bfa'',
       nt_description = ''A software vendor'',
       nt_primary_key = None,
       nt_properties = [
         sprop ''id'' ''ID'' ''string'' ''Identity'', sprop ''name'' ''Name'' ''string'' ''Identity'',
         sprop ''website'' ''Website'' ''string'' ''Identity''] \<rparr>"

definition NODE_TYPES :: "node_type list" where
  "NODE_TYPES =
     [node_file, node_directory, node_person, node_facecluster, node_location, node_organization,
      node_topic, node_tag, node_collection, node_event, node_mediaitem, node_application,
      node_vulnerability, node_certificate, node_dependency, node_license, node_vendor]"

definition RELATIONSHIP_TYPES :: "relationship_type list" where
  "RELATIONSHIP_TYPES = [
       rel_of ''CHILD_OF'' ''Child Of'' ''Filesystem'' [''File'', ''Directory''] [''Directory''] True []
         ''File or directory is contained within a directory'',
       rel_of ''DUPLICATE_OF'' ''Duplicate Of'' ''Filesystem'' [''File''] [''File''] True []
         ''Files share identical SHA-256 hash'',
       rel_of ''SIMILAR_TO'' ''Similar To'' ''Filesystem'' [''File''] [''File''] False [(''score'',
           ''Similarity Score'', ''float'')]
         ''AI-inferred semantic similarity between files'',
       rel_of ''PART_OF'' ''Part Of'' ''Filesystem'' [''File'', ''Application''] [''Collection'',
           ''Product''] True []
         ''File belongs to a collection; application is part of a product'',
       rel_of ''REFERENCES'' ''References'' ''Filesystem'' [''File''] [''File''] True []
         ''AI-inferred reference from one file to another'',
       rel_of ''MENTIONS'' ''Mentions'' ''Semantic'' [''File''] [''Person'', ''Organization'', ''Topic'',
           ''Location''] True []
         ''Entity extracted from document text by AI'',
       rel_of ''TAGGED_WITH'' ''Tagged With'' ''Semantic'' [''File''] [''Tag''] True []
         ''User-applied or system-generated tag'',
       rel_of ''LOCATED_AT'' ''Located At'' ''Semantic'' [''File''] [''Location''] True []
         (''File'' @ [CHR 0x27] @ ''s GPS coordinates resolved to a Location node''),
       rel_of ''OCCURRED_DURING'' ''Occurred During'' ''Semantic'' [''File''] [''Event''] True []
         (''File'' @ [CHR 0x27] @ ''s timestamp falls within an Event window''),
       rel_of ''DEPICTS'' ''Depicts'' ''Visual'' [''File''] [''Person'', ''Location''] True []
         ''Image or video visually depicts a person or place'',
       rel_of ''CONTAINS_FACE'' ''Contains Face'' ''Visual'' [''File''] [''FaceCluster''] True
           [(''frame_offset'', ''Frame Offset (s)'', ''float''), (''confidence'', ''Confidence'', ''float'')]
         ''Image or video contains a detected face belonging to a cluster'',
       rel_of ''MATCHED_TO'' ''Matched To'' ''Media'' [''File''] [''MediaItem''] True [(''confidence'',
           ''Confidence'', ''float'')]
         ''Video/audio matched to a TMDB/IMDB/MusicBrainz entry'',
       rel_of ''IS_APPLICATION'' ''Is Application'' ''Software'' [''File''] [''Application''] True []
         ''Executable file is an instance of an Application'',
       rel_of ''IS_BINARY'' ''Is Binary'' ''Software'' [''File''] [''Binary''] True []
         ''File is a parsed binary (PE/ELF/Mach-O)'',
       rel_of ''MADE_BY'' ''Made By'' ''Software'' [''Application''] [''Vendor''] True []
         ''Application was made by this vendor'',
       rel_of ''IS_VERSION_OF'' ''Is Version Of'' ''Software'' [''Application''] [''Product''] True []
         ''Application is a specific version of a product'',
       rel_of ''DEPENDS_ON'' ''Depends On'' ''Software'' [''Application'', ''Binary''] [''Dependency''] True []
         ''Application or binary has a software dependency'',
       rel_of ''LICENSED_UNDER'' ''Licensed Under'' ''Software'' [''Application'',
           ''File''] [''License''] True []
         ''Software is distributed under this license'',
       rel_of ''HAS_VULNERABILITY'' ''Has Vulnerability'' ''Software'' [''Application'',
           ''Dependency''] [''Vulnerability''] True []
         ''Application or dependency has a known CVE'',
       rel_of ''SIGNED_BY'' ''Signed By'' ''Software'' [''Application'', ''Binary''] [''Certificate''] True []
         ''Binary is code-signed with this certificate'',
       rel_of ''OWNS'' ''Owns'' ''Software'' [''Vendor''] [''Product''] True []
         ''Vendor owns this product'',
       rel_of ''HAS_VERSION'' ''Has Version'' ''Software'' [''Product''] [''Version''] True []
         ''Product has this release version'',
       rel_of ''SUPERSEDES'' ''Supersedes'' ''Software'' [''Version''] [''Version''] True []
         ''This version supersedes an older version'',
       rel_of ''WITHIN'' ''Within'' ''Geography'' [''Location''] [''Location''] True []
         ''Location is geographically contained within a larger area'',
       rel_of ''SAME_PERSON_AS'' ''Same Person As'' ''Identity'' [''FaceCluster''] [''Person''] True
           [(''confidence'', ''Confidence'', ''float'')]
         ''Face cluster has been identified as this person'']"

section \<open>Requests\<close>

definition get_schema :: "node_type list \<times> relationship_type list \<times> nat \<times> nat" where
  "get_schema = (NODE_TYPES, RELATIONSHIP_TYPES, length NODE_TYPES, length RELATIONSHIP_TYPES)"

definition list_node_types :: "(string \<times> string \<times> nat list \<times> string \<times> string) list" where
  "list_node_types = map (\<lambda>n. (nt_id n, nt_label n, nt_icon n, nt_color n, nt_description n)) NODE_TYPES"

text \<open>\<open>out.setdefault(group, []).append(p)\<close>.\<close>

definition group_props :: "schema_prop list \<Rightarrow> (string \<times> schema_prop list) list" where
  "group_props props =
     foldl (\<lambda>out p. dict_set (sp_group p) ((case map_of out (sp_group p) of None \<Rightarrow> [] | Some ps \<Rightarrow> ps) @ [p]) out) [] props"

datatype row_value = JsonValue json | DriverNode py_dict

definition row_truthy :: "row_value \<Rightarrow> bool" where
  "row_truthy v = (case v of JsonValue j \<Rightarrow> truthy j | DriverNode d \<Rightarrow> d \<noteq> [])"

text \<open>\<open>row.get("n") or next(iter(row.values()), {})\<close>, and its keys when that is a dict.\<close>

definition row_node :: "(string \<times> row_value) list \<Rightarrow> row_value" where
  "row_node row =
     (let first = (case row of [] \<Rightarrow> JsonValue (JObj []) | (k, v) # _ \<Rightarrow> v)
      in case map_of row ''n'' of None \<Rightarrow> first | Some v \<Rightarrow> if row_truthy v then v else first)"

definition row_keys :: "(string \<times> row_value) list \<Rightarrow> string list" where
  "row_keys row = (case row_node row of JsonValue (JObj d) \<Rightarrow> map fst d | _ \<Rightarrow> [])"

text \<open>\<open>str.title\<close>.\<close>

fun title_words :: "bool \<Rightarrow> string \<Rightarrow> string" where
  "title_words inside [] = []"
| "title_words inside (c # s) =
     (if is_upper c \<or> is_lower c then (if inside then lower_char c else upper_char c) # title_words True s
      else c # title_words False s)"

definition title_text :: "string \<Rightarrow> string" where
  "title_text s = title_words False s"

definition live_prop :: "string \<Rightarrow> schema_prop" where
  "live_prop k =
     \<lparr> sp_key = k, sp_label = title_text (str_replace k ''_'' '' ''), sp_type = ''string'', sp_group = ''Other'',
       sp_enum = None, sp_live_only = True \<rparr>"

definition live_props :: "schema_prop list \<Rightarrow> (string \<times> row_value) list list \<Rightarrow> schema_prop list" where
  "live_props props rows =
     (let live_keys = concat (map row_keys rows); static_keys = map sp_key props
      in map live_prop (sort (remdups (filter (\<lambda>k. k \<notin> set static_keys \<and> k \<noteq> ''tenant_id'') live_keys))))"

record schema_env =
  sc_genv :: graph_env
  sc_query :: "graph_backend \<Rightarrow> string \<Rightarrow> string \<Rightarrow> py_error + (string \<times> row_value) list list"

definition sample_query :: "string \<Rightarrow> string" where
  "sample_query nt = ''MATCH (n:'' @ nt @ '') WHERE n.tenant_id = $tid RETURN n LIMIT 20''"

definition sampled :: "schema_env \<Rightarrow> tenant \<Rightarrow> string \<Rightarrow> py_error + (string \<times> row_value) list list" where
  "sampled env t nt =
     (case get_backend_for_tenant (sc_genv env) (str_or (tn_graph_backend t) ''neo4j'') (tn_graph_config t) of
        Inl e \<Rightarrow> Inl e
      | Inr b \<Rightarrow> if connects (sc_genv env) b then sc_query env b (sample_query nt) (uuid_str (tn_id t))
                 else Inl (OtherError ''ServiceUnavailable''))"

definition find_node_type :: "string \<Rightarrow> node_type option" where
  "find_node_type nt = first_row (filter (\<lambda>n. nt_id n = nt) NODE_TYPES)"

definition get_node_properties ::
  "schema_env \<Rightarrow> auth_context \<Rightarrow> string \<Rightarrow> bool \<Rightarrow> (schema_prop list \<times> (string \<times> schema_prop list) list) endpoint" where
  "get_node_properties env auth nt live =
     (case find_node_type nt of
        None \<Rightarrow> raise (HTTPException 404 (''Unknown node type: '' @ nt))
      | Some static \<Rightarrow>
          bnd (if live then select_one tenants (\<lambda>t. tn_id t = ac_tenant_id auth) else ret None) (\<lambda>tenant.
          bnd (case tenant of
                 None \<Rightarrow> ret []
               | Some t \<Rightarrow>
                   (case get_backend_for_tenant (sc_genv env) (str_or (tn_graph_backend t) ''neo4j'') (tn_graph_config t) of
                      Inl e \<Rightarrow> raise e
                    | Inr b \<Rightarrow> (case sampled env t nt of
                                  Inl e \<Rightarrow> ret [] | Inr rows \<Rightarrow> ret (live_props (nt_properties static) rows)))) (\<lambda>extra.
          let props = nt_properties static @ extra
          in ret (props, group_props props))))"

definition list_relationship_types :: "string option \<Rightarrow> string option \<Rightarrow> relationship_type list" where
  "list_relationship_types from_type to_type =
     (let rels = RELATIONSHIP_TYPES;
          rels = (case opt_str_or from_type None of None \<Rightarrow> rels | Some f \<Rightarrow> filter (\<lambda>r. f \<in> set (rt_from r)) rels)
      in case opt_str_or to_type None of None \<Rightarrow> rels | Some t \<Rightarrow> filter (\<lambda>r. t \<in> set (rt_to r)) rels)"

section \<open>Live counts\<close>

text \<open>
  \<open>asyncio.gather\<close> runs the counts of all types at once over one backend, whose connection they share:
  entering the backend makes a driver and stores it, leaving it closes the driver that is stored then and
  clears the place. A schedule is an order of those steps, the steps of one count in their order. Whether a
  closed driver still answers is a parameter.
\<close>

datatype count_step = Enter string | Run string | Close string | Reset string

record stats_env =
  st_connects :: bool
  st_count :: "string \<Rightarrow> py_error + int"
  st_closed_answers :: bool

record stats_state =
  ss_driver :: "nat option"
  ss_opened :: nat
  ss_closed :: "nat list"
  ss_leaving :: "string list"
  ss_counts :: "(string \<times> int option) list"

definition no_counts :: stats_state where
  "no_counts = \<lparr> ss_driver = None, ss_opened = 0, ss_closed = [], ss_leaving = [], ss_counts = [] \<rparr>"

definition run_count :: "stats_env \<Rightarrow> string \<Rightarrow> stats_state \<Rightarrow> int option" where
  "run_count env nt s =
     (case ss_driver s of
        None \<Rightarrow> None
      | Some d \<Rightarrow>
          if d \<in> set (ss_closed s) \<and> \<not> st_closed_answers env then None
          else (case st_count env nt of Inl e \<Rightarrow> None | Inr c \<Rightarrow> Some c))"

fun count_event :: "stats_env \<Rightarrow> count_step \<Rightarrow> stats_state \<Rightarrow> stats_state" where
  "count_event env (Enter nt) s =
     s\<lparr>ss_driver := Some (ss_opened s), ss_opened := Suc (ss_opened s),
       ss_counts := (if st_connects env then ss_counts s else dict_set nt None (ss_counts s))\<rparr>"
| "count_event env (Run nt) s = s\<lparr>ss_counts := dict_set nt (run_count env nt s) (ss_counts s)\<rparr>"
| "count_event env (Close nt) s =
     (case ss_driver s of
        None \<Rightarrow> s
      | Some d \<Rightarrow> s\<lparr>ss_closed := d # ss_closed s, ss_leaving := nt # ss_leaving s\<rparr>)"
| "count_event env (Reset nt) s = (if nt \<in> set (ss_leaving s) then s\<lparr>ss_driver := None\<rparr> else s)"

definition count_type :: "stats_env \<Rightarrow> string \<Rightarrow> count_step list" where
  "count_type env nt = (if st_connects env then [Enter nt, Run nt, Close nt, Reset nt] else [Enter nt])"

definition count_step_type :: "count_step \<Rightarrow> string" where
  "count_step_type e = (case e of Enter nt \<Rightarrow> nt | Run nt \<Rightarrow> nt | Close nt \<Rightarrow> nt | Reset nt \<Rightarrow> nt)"

text \<open>A schedule of the counts of some types.\<close>

definition is_schedule :: "stats_env \<Rightarrow> string list \<Rightarrow> count_step list \<Rightarrow> bool" where
  "is_schedule env nts es \<longleftrightarrow>
     list_all (\<lambda>e. count_step_type e \<in> set nts) es \<and>
     list_all (\<lambda>nt. filter (\<lambda>e. count_step_type e = nt) es = count_type env nt) nts"

definition schema_stats :: "stats_env \<Rightarrow> count_step list \<Rightarrow> stats_state" where
  "schema_stats env es = fold (count_event env) es no_counts"

section \<open>The tables are consistent\<close>

definition endpoints_defined :: "relationship_type \<Rightarrow> bool" where
  "endpoints_defined r \<longleftrightarrow> list_all (\<lambda>t. t \<in> set (map nt_id NODE_TYPES)) (rt_from r @ rt_to r)"

lemmas node_defs = NODE_TYPES_def
  node_file_def node_directory_def node_person_def node_facecluster_def node_location_def
  node_organization_def node_topic_def node_tag_def node_collection_def node_event_def
  node_mediaitem_def node_application_def node_vulnerability_def node_certificate_def
  node_dependency_def node_license_def node_vendor_def

lemma node_ids:
  "map nt_id NODE_TYPES =
     [''File'', ''Directory'', ''Person'', ''FaceCluster'', ''Location'', ''Organization'', ''Topic'',
     ''Tag'', ''Collection'', ''Event'', ''MediaItem'', ''Application'', ''Vulnerability'',
     ''Certificate'', ''Dependency'', ''License'', ''Vendor'']"
  by (simp add: node_defs)

lemma rel_ends:
  "map (\<lambda>r. (rt_id r, rt_from r @ rt_to r)) RELATIONSHIP_TYPES =
     [(''CHILD_OF'', [''File'', ''Directory'', ''Directory'']), (''DUPLICATE_OF'', [''File'', ''File'']),
     (''SIMILAR_TO'', [''File'', ''File'']), (''PART_OF'', [''File'', ''Application'', ''Collection'',
     ''Product'']), (''REFERENCES'', [''File'', ''File'']), (''MENTIONS'', [''File'', ''Person'',
     ''Organization'', ''Topic'', ''Location'']), (''TAGGED_WITH'', [''File'', ''Tag'']),
     (''LOCATED_AT'', [''File'', ''Location'']), (''OCCURRED_DURING'', [''File'', ''Event'']),
     (''DEPICTS'', [''File'', ''Person'', ''Location'']), (''CONTAINS_FACE'', [''File'',
     ''FaceCluster'']), (''MATCHED_TO'', [''File'', ''MediaItem'']), (''IS_APPLICATION'', [''File'',
     ''Application'']), (''IS_BINARY'', [''File'', ''Binary'']), (''MADE_BY'', [''Application'',
     ''Vendor'']), (''IS_VERSION_OF'', [''Application'', ''Product'']), (''DEPENDS_ON'',
     [''Application'', ''Binary'', ''Dependency'']), (''LICENSED_UNDER'', [''Application'', ''File'',
     ''License'']), (''HAS_VULNERABILITY'', [''Application'', ''Dependency'', ''Vulnerability'']),
     (''SIGNED_BY'', [''Application'', ''Binary'', ''Certificate'']), (''OWNS'', [''Vendor'',
     ''Product'']), (''HAS_VERSION'', [''Product'', ''Version'']), (''SUPERSEDES'', [''Version'',
     ''Version'']), (''WITHIN'', [''Location'', ''Location'']), (''SAME_PERSON_AS'', [''FaceCluster'',
     ''Person''])]"
  by (simp add: RELATIONSHIP_TYPES_def rel_of_def)

lemma undefined_ends:
  "map rt_id (filter (\<lambda>r. \<not> endpoints_defined r) rs) =
   map fst (filter (\<lambda>(i, ends). \<not> list_all (\<lambda>t. t \<in> set (map nt_id NODE_TYPES)) ends)
     (map (\<lambda>r. (rt_id r, rt_from r @ rt_to r)) rs))"
  by (induction rs) (simp_all add: endpoints_defined_def)

lemma find_node_type_None: "nt \<notin> set (map nt_id NODE_TYPES) \<Longrightarrow> find_node_type nt = None"
proof -
  assume "nt \<notin> set (map nt_id NODE_TYPES)"
  then have "filter (\<lambda>n. nt_id n = nt) NODE_TYPES = []" by (auto simp: filter_empty_conv)
  then show ?thesis by (simp add: find_node_type_def first_row_def)
qed

text \<open>Node types and relationship types have unique names. Ten of the ends of relationships are none of the node types: the query builder is offered
  relationships whose other end has no description, and asking for its properties is an error.\<close>

theorem schema_consistency:
  "distinct (map nt_id NODE_TYPES) \<and> distinct (map rt_id RELATIONSHIP_TYPES) \<and>
   map rt_id (filter (\<lambda>r. \<not> endpoints_defined r) RELATIONSHIP_TYPES) =
     [''PART_OF'', ''IS_BINARY'', ''IS_VERSION_OF'', ''DEPENDS_ON'', ''SIGNED_BY'', ''OWNS'', ''HAS_VERSION'', ''SUPERSEDES''] \<and>
   get_node_properties env auth ''Product'' live s = (Inl (HTTPException 404 ''Unknown node type: Product''), s)"
proof -
  have ids: "map rt_id RELATIONSHIP_TYPES = map fst (map (\<lambda>r. (rt_id r, rt_from r @ rt_to r)) RELATIONSHIP_TYPES)"
    by simp
  have "distinct (map rt_id RELATIONSHIP_TYPES)" unfolding ids rel_ends by simp
  moreover have "map rt_id (filter (\<lambda>r. \<not> endpoints_defined r) RELATIONSHIP_TYPES) =
     [''PART_OF'', ''IS_BINARY'', ''IS_VERSION_OF'', ''DEPENDS_ON'', ''SIGNED_BY'', ''OWNS'', ''HAS_VERSION'', ''SUPERSEDES'']"
    unfolding undefined_ends rel_ends node_ids by simp
  moreover have "distinct (map nt_id NODE_TYPES)" unfolding node_ids by simp
  moreover have "find_node_type ''Product'' = None" by (rule find_node_type_None) (unfold node_ids, simp)
  then have "get_node_properties env auth ''Product'' live s = (Inl (HTTPException 404 ''Unknown node type: Product''), s)"
    by (simp add: get_node_properties_def)
  ultimately show ?thesis by blast
qed


section \<open>The properties of a type\<close>

lemma group_props_snoc:
  "group_props (ps @ [p]) = dict_set (sp_group p)
     ((case map_of (group_props ps) (sp_group p) of None \<Rightarrow> [] | Some qs \<Rightarrow> qs) @ [p]) (group_props ps)"
  by (simp add: group_props_def)

lemma map_of_group_props:
  "map_of (group_props ps) g =
     (if filter (\<lambda>p. sp_group p = g) ps = [] then None else Some (filter (\<lambda>p. sp_group p = g) ps))"
proof (induction ps rule: rev_induct)
  case (snoc p ps)
  then show ?case unfolding group_props_snoc map_of_dict_set by (auto split: if_splits)
qed (simp add: group_props_def)

lemma distinct_group_props: "distinct (map fst (group_props ps))"
  by (induction ps rule: rev_induct) (simp_all add: group_props_snoc distinct_dict_set, simp add: group_props_def)

definition extra_props :: "schema_env \<Rightarrow> node_type \<Rightarrow> tenant \<Rightarrow> schema_prop list" where
  "extra_props env n t = (case sampled env t (nt_id n) of Inl e \<Rightarrow> [] | Inr rows \<Rightarrow> live_props (nt_properties n) rows)"

lemma get_node_properties_InrD:
  assumes "find_node_type nt = Some n" and "get_node_properties env auth nt live s = (Inr (props, groups), s')"
  shows "\<exists>extra. props = nt_properties n @ extra \<and> groups = group_props props \<and> s' = s \<and>
     (extra = [] \<or> (live \<and> (\<exists>rows. extra = live_props (nt_properties n) rows)))"
  using assms by (auto simp: get_node_properties_def Let_def split: sum.splits option.splits if_splits)

lemma live_props_keys:
  "\<exists>ks. live_props ps rows = map live_prop ks \<and> sorted ks \<and> distinct ks \<and> ''tenant_id'' \<notin> set ks \<and>
     set ks \<inter> set (map sp_key ps) = {}"
  unfolding live_props_def Let_def
  by (intro exI conjI, rule refl) (auto simp del: image_eqI)

text \<open>Asked for a type, the API returns its properties first, unchanged, and after them one for each key the
  sampled rows have beyond those and the tenant, without repetition and in order; and it groups all of them
  without losing, repeating or reordering any. When the graph cannot be read the properties are those of the
  description.\<close>

theorem properties_exact:
  assumes "find_node_type nt = Some n" and "get_node_properties env auth nt live s = (Inr (props, groups), s')"
  shows "\<exists>extra. props = nt_properties n @ extra \<and> s' = s \<and>
     (\<exists>ks. extra = map live_prop ks \<and> sorted ks \<and> distinct ks \<and> ''tenant_id'' \<notin> set ks \<and>
        set ks \<inter> set (map sp_key (nt_properties n)) = {}) \<and>
     distinct (map fst groups) \<and>
     (\<forall>g. map_of groups g =
        (if filter (\<lambda>p. sp_group p = g) props = [] then None else Some (filter (\<lambda>p. sp_group p = g) props)))"
proof -
  from get_node_properties_InrD [OF assms] obtain extra where extra: "props = nt_properties n @ extra"
      "groups = group_props props" "s' = s" "extra = [] \<or> (\<exists>rows. extra = live_props (nt_properties n) rows)"
    by blast
  from extra(4) have "\<exists>ks. extra = map live_prop ks \<and> sorted ks \<and> distinct ks \<and> ''tenant_id'' \<notin> set ks \<and>
      set ks \<inter> set (map sp_key (nt_properties n)) = {}"
  proof
    assume "extra = []"
    then show ?thesis by (intro exI [of _ "[]"]) simp
  next
    assume "\<exists>rows. extra = live_props (nt_properties n) rows"
    then show ?thesis using live_props_keys by blast
  qed
  with extra(1-3) show ?thesis
    by (intro exI [of _ extra]) (simp add: distinct_group_props map_of_group_props)
qed

lemma no_driver_keys: "concat (map row_keys (map (\<lambda>d. [(''n'', DriverNode d)]) ds)) = []"
  by (induction ds) (simp_all add: row_keys_def row_node_def)

text \<open>A live request adds nothing for a node that the driver returns: a node of the driver is no dict.\<close>

theorem live_adds_nothing:
  assumes "find_node_type nt = Some n"
    and "sc_query env = (\<lambda>b q tid. Inr (map (\<lambda>d. [(''n'', DriverNode d)]) (nodes b q tid)))"
    and "get_node_properties env auth nt True s = (Inr r, s')"
  shows "get_node_properties env auth nt False s = (Inr r, s')"
proof -
  have none: "live_props ps (map (\<lambda>d. [(''n'', DriverNode d)]) ds) = []" for ps ds
    unfolding live_props_def no_driver_keys by simp
  from assms(1,3) none show ?thesis
    unfolding get_node_properties_def sampled_def assms(2)
    by (auto simp: Let_def split: sum.splits option.splits if_splits)
qed

section \<open>Counting at once\<close>

definition counted :: "stats_env \<Rightarrow> string \<Rightarrow> int option" where
  "counted env nt = (case st_count env nt of Inl e \<Rightarrow> None | Inr c \<Rightarrow> Some c)"

lemma count_alone:
  assumes "st_connects env" and "ss_opened s \<notin> set (ss_closed s)"
  shows "fold (count_event env) (count_type env nt) s =
    s\<lparr>ss_driver := None, ss_opened := Suc (ss_opened s), ss_closed := ss_opened s # ss_closed s,
      ss_leaving := nt # ss_leaving s, ss_counts := dict_set nt (counted env nt) (ss_counts s)\<rparr>"
  using assms by (simp add: count_type_def run_count_def counted_def)

lemma dict_set_fresh: "k \<notin> fst ` set d \<Longrightarrow> dict_set k v d = d @ [(k, v)]"
  by (induction d) auto

lemma counts_in_turn:
  assumes "st_connects env" and "\<forall>d \<in> set (ss_closed s). d < ss_opened s"
    and "distinct nts" and "set nts \<inter> fst ` set (ss_counts s) = {}"
  shows "ss_counts (fold (count_event env) (concat (map (count_type env) nts)) s) =
    ss_counts s @ map (\<lambda>nt. (nt, counted env nt)) nts"
  using assms(2-)
proof (induction nts arbitrary: s)
  case (Cons nt nts)
  have "ss_opened s \<notin> set (ss_closed s)" using Cons.prems(1) by auto
  note alone = count_alone [OF assms(1) this, of nt]
  have fresh: "dict_set nt (counted env nt) (ss_counts s) = ss_counts s @ [(nt, counted env nt)]"
    by (rule dict_set_fresh) (use Cons.prems in auto)
  show ?case
    unfolding list.map concat.simps fold_append comp_def alone fresh
    by (subst Cons.IH) (use Cons.prems in \<open>auto simp: less_Suc_eq\<close>)
qed simp

lemma turns_are_a_schedule:
  assumes "distinct nts"
  shows "is_schedule env nts (concat (map (count_type env) nts))"
proof -
  have own: "filter (\<lambda>e. count_step_type e = nt) (count_type env nt') = (if nt = nt' then count_type env nt else [])" for nt nt'
    by (simp add: count_type_def count_step_type_def)
  have "filter (\<lambda>e. count_step_type e = nt) (concat (map (count_type env) xs)) =
      (if nt \<in> set xs then count_type env nt else [])" if "distinct xs" for nt xs
    using that by (induction xs) (auto simp: own)
  then show ?thesis
    using assms by (auto simp: is_schedule_def list_all_iff count_type_def count_step_type_def)
qed

definition overlapping :: "string \<Rightarrow> string \<Rightarrow> count_step list" where
  "overlapping a b = [Enter a, Enter b, Run a, Close a, Reset a, Run b, Close b, Reset b]"

text \<open>The counts depend on how their steps interleave. One after the other they are right; but the steps
  that asyncio may run as well, the second count connecting before the first has ended, leave the second
  without a count though the graph has answered, and the first connection is never closed.\<close>

theorem counts_depend_on_schedule:
  assumes "st_connects env" and "distinct nts" and "a \<noteq> b"
  shows "is_schedule env nts (concat (map (count_type env) nts)) \<and>
    ss_counts (schema_stats env (concat (map (count_type env) nts))) = map (\<lambda>nt. (nt, counted env nt)) nts \<and>
    is_schedule env [a, b] (overlapping a b) \<and>
    ss_counts (schema_stats env (overlapping a b)) = [(a, counted env a), (b, None)] \<and>
    ss_opened (schema_stats env (overlapping a b)) = 2 \<and> ss_closed (schema_stats env (overlapping a b)) = [1]"
proof (intro conjI)
  show "is_schedule env nts (concat (map (count_type env) nts))" by (rule turns_are_a_schedule [OF assms(2)])
  show "ss_counts (schema_stats env (concat (map (count_type env) nts))) = map (\<lambda>nt. (nt, counted env nt)) nts"
    unfolding schema_stats_def by (subst counts_in_turn [OF assms(1)]) (use assms(2) in \<open>simp_all add: no_counts_def\<close>)
  show "is_schedule env [a, b] (overlapping a b)"
    using assms(1,3) by (simp add: is_schedule_def overlapping_def count_type_def count_step_type_def)
  show "ss_counts (schema_stats env (overlapping a b)) = [(a, counted env a), (b, None)]"
    and "ss_opened (schema_stats env (overlapping a b)) = 2" and "ss_closed (schema_stats env (overlapping a b)) = [1]"
    using assms(1,3) by (simp_all add: schema_stats_def overlapping_def no_counts_def run_count_def counted_def)
qed

text \<open>The relationship types offered between two types are those that name both, in the order of the
  description.\<close>

lemma list_relationship_types_exact:
  "f \<noteq> [] \<Longrightarrow> t \<noteq> [] \<Longrightarrow> list_relationship_types (Some f) (Some t) =
     filter (\<lambda>r. f \<in> set (rt_from r) \<and> t \<in> set (rt_to r)) RELATIONSHIP_TYPES"
  by (simp add: list_relationship_types_def opt_str_or_def Let_def conj_commute)


section \<open>Examples\<close>

definition example_schema_env :: schema_env where
  "example_schema_env =
     \<lparr> sc_genv = example_genv,
       sc_query = (\<lambda>b q tid. Inr [[(''n'', JsonValue (JObj [(''id'', JInt 1), (''custom_tag'', JStr ''x''), (''tenant_id'', JStr tid)]))]]) \<rparr>"

definition example_caller :: auth_context where
  "example_caller = \<lparr> ac_user_id = 7, ac_tenant_id = 1, ac_email = JNull, ac_roles = [], ac_permissions = {} \<rparr>"

theorem properties_exact_witness:
  "\<exists>props groups s' extra. get_node_properties example_schema_env example_caller ''Location'' True
      (empty_db\<lparr>tenants := [new_tenant 1 0 ''a'' ''A'' None]\<rparr>) = (Inr (props, groups), s') \<and>
     props = nt_properties node_location @ extra"
proof -
  let ?s = "empty_db\<lparr>tenants := [new_tenant 1 0 ''a'' ''A'' None]\<rparr>"
  have found: "find_node_type ''Location'' = Some node_location"
    by (simp add: find_node_type_def node_defs first_row_def)
  have "case get_node_properties example_schema_env example_caller ''Location'' True ?s of (Inl e, s') \<Rightarrow> False | (Inr x, s') \<Rightarrow> True"
    unfolding get_node_properties_def found
    by (simp add: example_schema_env_def example_caller_def new_tenant_def empty_db_def scalar_one_or_none_def
        sampled_def example_genv_def get_backend_for_tenant_def str_or_def Let_def)
  then obtain props groups s' where run: "get_node_properties example_schema_env example_caller ''Location'' True ?s =
      (Inr (props, groups), s')"
    by (auto split: prod.splits sum.splits)
  from properties_exact [OF found run] run show ?thesis by blast
qed

theorem live_adds_nothing_witness:
  "\<exists>r s'. get_node_properties (example_schema_env\<lparr>sc_query := (\<lambda>b q tid. Inr (map (\<lambda>d. [(''n'', DriverNode d)]) [[(''custom'', JInt 1)]]))\<rparr>)
      example_caller ''Location'' False (empty_db\<lparr>tenants := [new_tenant 1 0 ''a'' ''A'' None]\<rparr>) = (Inr r, s')"
proof -
  let ?s = "empty_db\<lparr>tenants := [new_tenant 1 0 ''a'' ''A'' None]\<rparr>"
  let ?env = "example_schema_env\<lparr>sc_query := (\<lambda>b q tid. Inr (map (\<lambda>d. [(''n'', DriverNode d)]) [[(''custom'', JInt 1)]]))\<rparr>"
  have found: "find_node_type ''Location'' = Some node_location"
    by (simp add: find_node_type_def node_defs first_row_def)
  have "case get_node_properties ?env example_caller ''Location'' True ?s of (Inl e, s') \<Rightarrow> False | (Inr x, s') \<Rightarrow> True"
    unfolding get_node_properties_def found
    by (simp add: example_schema_env_def example_caller_def new_tenant_def empty_db_def scalar_one_or_none_def
        sampled_def example_genv_def get_backend_for_tenant_def str_or_def Let_def)
  then obtain r s' where run: "get_node_properties ?env example_caller ''Location'' True ?s = (Inr r, s')"
    by (auto split: prod.splits sum.splits)
  from live_adds_nothing [OF found _ run, of "\<lambda>b q tid. [[(''custom'', JInt 1)]]"] show ?thesis by auto
qed

theorem counts_depend_on_schedule_witness:
  "map_of (ss_counts (schema_stats \<lparr>st_connects = True, st_count = (\<lambda>nt. Inr 5), st_closed_answers = True\<rparr>
      (overlapping ''File'' ''Person''))) ''Person'' = Some None"
proof -
  let ?env = "\<lparr>st_connects = True, st_count = (\<lambda>nt. Inr 5), st_closed_answers = True\<rparr>"
  have "st_connects ?env" and "distinct [''File'', ''Person'']" and "''File'' \<noteq> ''Person''" by simp_all
  from counts_depend_on_schedule [OF this] show ?thesis by simp
qed

end
