(* ===== verification/Py_Float.thy ===== *)
theory Py_Float
  imports PyText
begin

text \<open>
  Python's floats where rounding matters: the double nearest to a rational, ties to even, for numbers from
  zero to two. A literal such as \<open>0.1\<close> is \<open>double (1 / 10)\<close>, and an operation rounds the exact result.
\<close>

text \<open>The number of binary digits after the point of the doubles around \<open>x\<close>: 52 from one on, and one more
  for each halving, down to \<open>n\<close> halvings.\<close>

fun frac_bits :: "nat \<Rightarrow> rat \<Rightarrow> nat" where
  "frac_bits 0 x = 52"
| "frac_bits (Suc n) x = (if 1 \<le> x then 52 else Suc (frac_bits n (2 * x)))"

definition double :: "rat \<Rightarrow> rat" where
  "double x = (let s = 2 ^ frac_bits 60 x in of_int (round_even (x * s)) / s)"

lemma round_even_of_int [simp]: "round_even (of_int i) = i"
  by (simp add: round_even_def)

lemma round_even_mono:
  assumes "x \<le> y"
  shows "round_even x \<le> round_even y"
proof (cases "\<lfloor>x\<rfloor> = \<lfloor>y\<rfloor>")
  case True
  with assms show ?thesis by (auto simp: round_even_def Let_def)
next
  case False
  with floor_mono [OF assms] have "\<lfloor>x\<rfloor> + 1 \<le> \<lfloor>y\<rfloor>" by simp
  moreover have "round_even x \<le> \<lfloor>x\<rfloor> + 1" and "\<lfloor>y\<rfloor> \<le> round_even y" by (simp_all add: round_even_def Let_def)
  ultimately show ?thesis by linarith
qed

lemma frac_bits_ge: "52 \<le> frac_bits n x"
  by (induction n x rule: frac_bits.induct) auto

lemma frac_bits_upper:
  "x < 2 \<Longrightarrow> x * 2 ^ (frac_bits n x - 52) < 2"
proof (induction n x rule: frac_bits.induct)
  case (2 n x)
  show ?case
  proof (cases "1 \<le> x")
    case False
    then have "2 * x * 2 ^ (frac_bits n (2 * x) - 52) < 2" by (intro "2.IH") auto
    moreover have "Suc (frac_bits n (2 * x)) - 52 = Suc (frac_bits n (2 * x) - 52)"
      using frac_bits_ge [of n "2 * x"] by (rule Suc_diff_le)
    ultimately show ?thesis using False by (simp del: diff_Suc_numeral)
  qed (use 2 in simp)
qed simp

lemma frac_bits_antimono:
  "x \<le> y \<Longrightarrow> frac_bits n y \<le> frac_bits n x"
  by (induction n x arbitrary: y rule: frac_bits.induct) (auto intro: order_trans [of 51 52] frac_bits_ge)

lemma frac_bits_lower:
  "i < n \<Longrightarrow> frac_bits n y = 52 + i \<Longrightarrow> 1 \<le> y * 2 ^ i"
proof (induction n y arbitrary: i rule: frac_bits.induct)
  case (2 n y)
  show ?case
  proof (cases "1 \<le> y")
    case False
    then obtain k where i: "i = Suc k" and "frac_bits n (2 * y) = 52 + k"
      using 2 frac_bits_ge [of n "2 * y"] by (cases i) auto
    with 2 False have "1 \<le> 2 * y * 2 ^ k" by auto
    then show ?thesis by (simp add: i mult.assoc mult.left_commute)
  qed (use 2 in \<open>simp add: frac_bits_ge\<close>)
qed simp

lemma frac_bits_le: "frac_bits n x \<le> 52 + n"
  by (induction n x rule: frac_bits.induct) auto

text \<open>Rounding respects every multiple of the spacing.\<close>

lemma double_le_grid:
  assumes "x \<le> of_int m / 2 ^ frac_bits 60 x"
  shows "double x \<le> of_int m / 2 ^ frac_bits 60 x"
proof -
  from assms have "x * 2 ^ frac_bits 60 x \<le> of_int m" by (simp add: field_simps)
  from round_even_mono [OF this] have "round_even (x * 2 ^ frac_bits 60 x) \<le> m" by simp
  then have "of_int (round_even (x * 2 ^ frac_bits 60 x)) \<le> (of_int m :: rat)" by (simp only: of_int_le_iff)
  then show ?thesis by (simp add: double_def Let_def divide_right_mono)
qed

lemma grid_le_double:
  assumes "of_int m / 2 ^ frac_bits 60 x \<le> x"
  shows "of_int m / 2 ^ frac_bits 60 x \<le> double x"
proof -
  from assms have "of_int m \<le> x * 2 ^ frac_bits 60 x" by (simp add: field_simps)
  from round_even_mono [OF this] have "m \<le> round_even (x * 2 ^ frac_bits 60 x)" by simp
  then have "of_int m \<le> (of_int (round_even (x * 2 ^ frac_bits 60 x)) :: rat)" by (simp only: of_int_le_iff)
  then show ?thesis by (simp add: double_def Let_def divide_right_mono)
qed

theorem double_mono:
  assumes "x \<le> y" and "y < 2"
  shows "double x \<le> double y"
proof (cases "frac_bits 60 x = frac_bits 60 y")
  case True
  from assms(1) have "x * 2 ^ frac_bits 60 x \<le> y * 2 ^ frac_bits 60 x" by simp
  from round_even_mono [OF this] have
    "of_int (round_even (x * 2 ^ frac_bits 60 x)) \<le> (of_int (round_even (y * 2 ^ frac_bits 60 x)) :: rat)"
    by (simp only: of_int_le_iff)
  with True show ?thesis by (simp add: double_def Let_def divide_right_mono)
next
  case False
  define i where "i = frac_bits 60 y - 52"
  have y: "frac_bits 60 y = 52 + i" using frac_bits_ge [of 60 y] by (simp add: i_def)
  define j where "j = frac_bits 60 x - 52"
  have x: "frac_bits 60 x = 52 + j" using frac_bits_ge [of 60 x] by (simp add: j_def)
  have ij: "i < j" using False frac_bits_antimono [OF assms(1), of 60] x y by simp
  have "j \<le> 60" using frac_bits_le [of 60 x] x by simp
  with ij y have "1 \<le> y * 2 ^ i" by (intro frac_bits_lower) auto
  then have low: "1 / 2 ^ i \<le> y" by (simp add: field_simps)
  have "x * 2 ^ j < 2" using frac_bits_upper [of x 60] assms x by simp
  then have "x * 2 ^ (j - 1) < 1" using ij by (cases j) (simp_all add: field_simps)
  then have "x < 1 / 2 ^ (j - 1)" by (simp add: field_simps)
  also have "\<dots> \<le> 1 / 2 ^ i" using ij by (intro divide_left_mono power_increasing) auto
  finally have up: "x \<le> 1 / 2 ^ i" by simp
  have "(2 ^ (52 + j) :: rat) = 2 ^ (52 + j - i) * 2 ^ i" using ij by (simp flip: power_add)
  then have mx: "(1 / 2 ^ i :: rat) = of_int (2 ^ (52 + j - i)) / 2 ^ frac_bits 60 x" by (simp add: x)
  have my: "(1 / 2 ^ i :: rat) = of_int (2 ^ 52) / 2 ^ frac_bits 60 y" by (simp add: y power_add)
  have "double x \<le> 1 / 2 ^ i" unfolding mx by (rule double_le_grid) (use up mx in simp)
  also have "\<dots> \<le> double y" unfolding my by (rule grid_le_double) (use low my in simp)
  finally show ?thesis .
qed


section \<open>Values\<close>

lemma frac_bits_numeral [simp]:
  "frac_bits (numeral k) x = (if 1 \<le> x then 52 else Suc (frac_bits (pred_numeral k) (2 * x)))"
  by (simp add: numeral_eq_Suc)

lemma floor_numerals [simp]: "\<lfloor>numeral a / numeral b :: rat\<rfloor> = numeral a div numeral b"
  using floor_divide_of_int_eq [of "numeral a" "numeral b", where 'a = rat] by simp

lemmas double_eval = double_def round_even_def Let_def

text \<open>The literals from 0.1 to 0.9.\<close>

lemma double_tenths:
  "double (1 / 10) = 3602879701896397 / 36028797018963968"
  "double (2 / 10) = 3602879701896397 / 18014398509481984"
  "double (3 / 10) = 5404319552844595 / 18014398509481984"
  "double (4 / 10) = 3602879701896397 / 9007199254740992"
  "double (5 / 10) = 1 / 2"
  "double (6 / 10) = 5404319552844595 / 9007199254740992"
  "double (7 / 10) = 3152519739159347 / 4503599627370496"
  "double (8 / 10) = 3602879701896397 / 4503599627370496"
  "double (9 / 10) = 8106479329266893 / 9007199254740992"
  by (simp_all add: double_eval)


lemma double_fifths:
  "double (1 / 5) = 3602879701896397 / 18014398509481984" "double (2 / 5) = 3602879701896397 / 9007199254740992"
  "double (3 / 5) = 5404319552844595 / 9007199254740992" "double (4 / 5) = 3602879701896397 / 4503599627370496"
  by (simp_all add: double_eval)


text \<open>A double is rounded to itself.\<close>

lemma double_twice:
  "double (3602879701896397 / 36028797018963968) = 3602879701896397 / 36028797018963968"
  "double (3602879701896397 / 18014398509481984) = 3602879701896397 / 18014398509481984"
  "double (5404319552844595 / 18014398509481984) = 5404319552844595 / 18014398509481984"
  "double (3602879701896397 / 9007199254740992) = 3602879701896397 / 9007199254740992"
  "double (1 / 2) = 1 / 2"
  "double (5404319552844595 / 9007199254740992) = 5404319552844595 / 9007199254740992"
  "double (3152519739159347 / 4503599627370496) = 3152519739159347 / 4503599627370496"
  "double (8106479329266893 / 9007199254740992) = 8106479329266893 / 9007199254740992"
  by (simp_all add: double_eval)

end
