(* ===== verification/Graph_Intel.thy ===== *)
theory Graph_Intel
  imports Oidc Graph_Store Py_Float "HOL-Library.List_Lexorder" "HOL-Library.Char_ord" "HOL-Library.Multiset"
begin

text \<open>
  \<open>api/graph_intelligence.py\<close>: paths between two nodes and their risk, the neighbourhood of a node, what is
  related to it, what changed, and its exposure.

  The queries are given Cypher's meaning over a store: \<open>id(n)\<close> is an integer, and comparing it with a value
  of another type is not true. The shortest paths and the rows of the difference are parameters. Where the
  source adds floats they are rounded as Python does.
\<close>

section \<open>Risk\<close>

definition EDGE_WEIGHTS :: "(string \<times> rat) list" where
  "EDGE_WEIGHTS =
     [(''HAS_VULNERABILITY'', 9 / 10), (''DEPENDS_ON'', 6 / 10), (''CONTAINS_FACE'', 5 / 10), (''SAME_PERSON_AS'', 7 / 10),
      (''SIGNED_BY'', 4 / 10), (''SIMILAR_TO'', 3 / 10), (''REFERENCES'', 2 / 10), (''LOCATED_AT'', 1 / 10)]"

definition edge_weight :: "string \<Rightarrow> rat" where
  "edge_weight t = double (case map_of EDGE_WEIGHTS t of None \<Rightarrow> 1 / 10 | Some w \<Rightarrow> w)"

text \<open>An edge is given by its type.\<close>

definition hop_penalty :: "nat \<Rightarrow> rat" where
  "hop_penalty n = min (double (double (1 / 10) * of_nat n)) (double (3 / 10))"

definition path_score :: "string list \<Rightarrow> rat" where
  "path_score edges = foldl (\<lambda>score e. max score (edge_weight e)) 0 edges"

definition compute_path_risk :: "string list \<Rightarrow> rat" where
  "compute_path_risk edges = min 1 (double (path_score edges + hop_penalty (length edges)))"

definition risk_label :: "rat \<Rightarrow> string" where
  "risk_label score =
     (if double (8 / 10) \<le> score then ''critical'' else if double (6 / 10) \<le> score then ''high''
      else if double (4 / 10) \<le> score then ''medium'' else ''low'')"


lemma weight_values:
  "list_all (\<lambda>w. 0 < double w \<and> double w \<le> 1 \<and> double (double w) = double w)
     [1 / 10, 2 / 10, 3 / 10, 4 / 10, 5 / 10, 6 / 10, 7 / 10, 9 / 10]"
  unfolding list.pred_inject double_tenths double_twice by simp

lemma edge_weight_bounds: "0 < edge_weight t" "edge_weight t \<le> 1" "double (edge_weight t) = edge_weight t"
proof -
  have "(case map_of EDGE_WEIGHTS t of None \<Rightarrow> 1 / 10 | Some w \<Rightarrow> w) \<in>
      set [1 / 10, 2 / 10, 3 / 10, 4 / 10, 5 / 10, 6 / 10, 7 / 10, 9 / 10 :: rat]"
    by (auto simp: EDGE_WEIGHTS_def split: option.splits)
  with weight_values show "0 < edge_weight t" "edge_weight t \<le> 1" "double (edge_weight t) = edge_weight t"
    unfolding edge_weight_def list_all_iff by blast+
qed











lemma one_hop_penalty: "hop_penalty 1 = double (1 / 10)"
  by (simp add: hop_penalty_def double_eval)

lemma one_hop_risk: "compute_path_risk [t] = min 1 (double (edge_weight t + double (1 / 10)))"
  using edge_weight_bounds(1) [of t] one_hop_penalty by (simp add: compute_path_risk_def path_score_def max_def)

lemma one_hop_values:
  "map (\<lambda>w. min 1 (double (double w + double (1 / 10)))) [9 / 10, 6 / 10, 5 / 10, 7 / 10, 4 / 10, 3 / 10, 2 / 10, 1 / 10] =
     [1, 3152519739159347 / 4503599627370496, 5404319552844595 / 9007199254740992, 7205759403792793 / 9007199254740992,
      1 / 2, 3602879701896397 / 9007199254740992, 1351079888211149 / 4503599627370496, 3602879701896397 / 18014398509481984]"
  unfolding list.map double_tenths by (simp add: double_eval)

text \<open>The labels of paths of one edge. A link between two identities has the weight 0.7 and the penalty 0.1,
  whose sum as floats is below 0.8: it is labelled high, not critical.\<close>

theorem one_hop_labels:
  "map (\<lambda>t. risk_label (compute_path_risk [t])) (map fst EDGE_WEIGHTS) =
     [''critical'', ''high'', ''high'', ''high'', ''medium'', ''medium'', ''low'', ''low''] \<and>
   compute_path_risk [''SAME_PERSON_AS''] < double (8 / 10) \<and> (7 / 10 + 1 / 10 :: rat) = 8 / 10"
proof -
  have risks: "map (\<lambda>t. compute_path_risk [t]) (map fst EDGE_WEIGHTS) =
      map (\<lambda>w. min 1 (double (double w + double (1 / 10)))) [9 / 10, 6 / 10, 5 / 10, 7 / 10, 4 / 10, 3 / 10, 2 / 10, 1 / 10]"
    unfolding one_hop_risk by (simp add: EDGE_WEIGHTS_def edge_weight_def)
  have "map (\<lambda>t. risk_label (compute_path_risk [t])) (map fst EDGE_WEIGHTS) =
      map risk_label (map (\<lambda>t. compute_path_risk [t]) (map fst EDGE_WEIGHTS))" by simp
  also have "\<dots> = [''critical'', ''high'', ''high'', ''high'', ''medium'', ''medium'', ''low'', ''low'']"
    unfolding risks one_hop_values by (simp add: risk_label_def double_fifths)
  finally show ?thesis
    using risks unfolding one_hop_values by (simp add: EDGE_WEIGHTS_def double_fifths)
qed

section \<open>The queries\<close>

text \<open>\<open>id(n) = $p\<close>: an integer against the value of the parameter.\<close>

definition id_is :: "vertex \<Rightarrow> json \<Rightarrow> bool" where
  "id_is n p = (case p of JInt i \<Rightarrow> int (vx_id n) = i | JNum q \<Rightarrow> of_int (int (vx_id n)) = q | _ \<Rightarrow> False)"

definition by_id :: "string \<Rightarrow> json \<Rightarrow> gstore \<Rightarrow> vertex list" where
  "by_id tid p g = filter (\<lambda>n. id_is n p \<and> owned tid n) (gs_nodes g)"

definition coalesce :: "json list \<Rightarrow> json" where
  "coalesce vs = (case filter (\<lambda>v. v \<noteq> JNull) vs of [] \<Rightarrow> JNull | v # _ \<Rightarrow> v)"

definition prop_of :: "vertex \<Rightarrow> string \<Rightarrow> json" where
  "prop_of n k = dict_get_or (vx_props n) k JNull"

definition node_name :: "vertex \<Rightarrow> json" where
  "node_name n = coalesce [prop_of n ''name'', prop_of n ''path'', JStr (nat_str (vx_id n))]"

record node_view =
  nv_id :: nat
  nv_labels :: "string list"
  nv_name :: json
  nv_props :: py_dict

definition view_of :: "vertex \<Rightarrow> node_view" where
  "view_of n = \<lparr> nv_id = vx_id n, nv_labels = vx_labels n, nv_name = node_name n, nv_props = vx_props n \<rparr>"

text \<open>\<open>(a) -[r]- (b)\<close>: the relationships at a node with the node at their other end, of the tenant.\<close>

definition at_node :: "string \<Rightarrow> vertex \<Rightarrow> gstore \<Rightarrow> (grel \<times> vertex) list" where
  "at_node tid c g =
     concat (map (\<lambda>r.
       let other = (if gr_from r = vx_id c then Some (gr_to r) else if gr_to r = vx_id c then Some (gr_from r) else None)
       in case other of
            None \<Rightarrow> []
          | Some i \<Rightarrow> map (\<lambda>n. (r, n)) (filter (\<lambda>n. vx_id n = i \<and> owned tid n) (gs_nodes g))) (gs_rels g))"

section \<open>Parameters\<close>

record path_row =
  pr_nodes :: "node_view list"
  pr_edges :: "string list"
  pr_hops :: nat

record change_row =
  ch_type :: string
  ch_count :: int
  ch_nodes :: "(string \<times> string option) list"

text \<open>\<open>shortest\<close> gives all shortest paths between two nodes within some hops; \<open>changed\<close> the rows of the
  difference: a type, its count, and the names of its nodes with the time they were indexed.\<close>

record intel_env =
  ie_genv :: graph_env
  ie_stores :: "nat \<Rightarrow> gstore"
  ie_fails :: "py_error option"
  ie_str :: "py_error \<Rightarrow> string"
  shortest :: "nat \<Rightarrow> gstore \<Rightarrow> vertex \<Rightarrow> vertex \<Rightarrow> path_row list"
  changed :: "nat \<Rightarrow> nat \<Rightarrow> string \<Rightarrow> gstore \<Rightarrow> change_row list"

definition intel_backend :: "intel_env \<Rightarrow> auth_context \<Rightarrow> graph_backend endpoint" where
  "intel_backend env auth =
     bnd (select_one tenants (\<lambda>t. tn_id t = ac_tenant_id auth)) (\<lambda>tenant.
     case tenant of
       None \<Rightarrow> raise (HTTPException 404 ''Tenant not found'')
     | Some t \<Rightarrow> lift_err (get_backend_for_tenant (ie_genv env) (str_or (tn_graph_backend t) ''neo4j'') (tn_graph_config t)))"

text \<open>One query: what the graph answers, or the failure as a gateway error.\<close>

definition intel_query :: "intel_env \<Rightarrow> graph_backend \<Rightarrow> (gstore \<Rightarrow> 'r) \<Rightarrow> 'r endpoint" where
  "intel_query env b q =
     (case (if connects (ie_genv env) b then ie_fails env else Some (OtherError ''ServiceUnavailable'')) of
        Some e \<Rightarrow> raise (HTTPException 502 (''Graph query failed: '' @ ie_str env e))
      | None \<Rightarrow> ret (q (ie_stores env (store_of (ie_genv env) b))))"

text \<open>\<open>Query(ge=lo, le=hi)\<close>.\<close>

definition in_range :: "int \<Rightarrow> int \<Rightarrow> int \<Rightarrow> unit endpoint" where
  "in_range lo hi x = guard (lo \<le> x \<and> x \<le> hi) (HTTPException 422 ''Unprocessable Entity'')"

section \<open>Paths\<close>

record attack_path =
  ap_nodes :: "node_view list"
  ap_edges :: "string list"
  ap_hops :: nat
  ap_risk_score :: rat
  ap_risk_label :: string

record attack_answer =
  aa_found :: bool
  aa_paths :: "attack_path list"
  aa_summary :: string

definition attack_path_of :: "path_row \<Rightarrow> attack_path" where
  "attack_path_of row =
     (let risk_score = compute_path_risk (pr_edges row)
      in \<lparr> ap_nodes = pr_nodes row, ap_edges = pr_edges row, ap_hops = pr_hops row, ap_risk_score = risk_score,
           ap_risk_label = risk_label risk_score \<rparr>)"

definition path_rows :: "intel_env \<Rightarrow> string \<Rightarrow> json \<Rightarrow> json \<Rightarrow> nat \<Rightarrow> gstore \<Rightarrow> path_row list" where
  "path_rows env tid from_id to_id max_hops g =
     take 5 (sort_key pr_hops (concat (map (\<lambda>(a, b). shortest env max_hops g a b)
       (List.product (by_id tid from_id g) (by_id tid to_id g)))))"

definition find_attack_path :: "intel_env \<Rightarrow> auth_context \<Rightarrow> string \<Rightarrow> string \<Rightarrow> int \<Rightarrow> attack_answer endpoint" where
  "find_attack_path env auth from_id to_id max_hops =
     thn (in_range 1 15 max_hops)
     (bnd (intel_backend env auth) (\<lambda>backend.
      bnd (intel_query env backend (path_rows env (uuid_str (ac_tenant_id auth)) (JStr from_id) (JStr to_id) (nat max_hops)))
        (\<lambda>rows.
      ret (case rows of
             [] \<Rightarrow> \<lparr> aa_found = False, aa_paths = [], aa_summary = ''No path found between these nodes'' \<rparr>
           | row # _ \<Rightarrow> \<lparr> aa_found = True, aa_paths = map attack_path_of rows,
                          aa_summary = ''Found '' @ nat_str (length rows) @ '' path(s). Shortest: '' @
                            nat_str (pr_hops row) @ '' hop(s).'' \<rparr>))))"

section \<open>The neighbourhood and what is related\<close>

record neighborhood =
  nh_center :: "string option"
  nh_neighbors :: "node_view list"
  nh_edges :: "(string \<times> nat \<times> nat) list"
  nh_total :: "nat option"

text \<open>The centre is a node of the driver, which is no dict: only its identifier is shown. A node without
  neighbours gives no row.\<close>

definition neighborhood_rows ::
  "string \<Rightarrow> json \<Rightarrow> nat \<Rightarrow> gstore \<Rightarrow> (node_view list \<times> (string \<times> nat \<times> nat) list) list" where
  "neighborhood_rows tid p limit g =
     concat (map (\<lambda>c. let es = at_node tid c g
         in if es = [] then []
            else [(take limit (remdups (map (\<lambda>(r, n). view_of n) es)),
                   remdups (map (\<lambda>(r, n). (gr_type r, gr_from r, gr_to r)) es))]) (by_id tid p g))"

definition get_neighborhood :: "intel_env \<Rightarrow> auth_context \<Rightarrow> string \<Rightarrow> int \<Rightarrow> int \<Rightarrow> neighborhood endpoint" where
  "get_neighborhood env auth node_id hops limit =
     thn (in_range 1 3 hops) (thn (in_range 1 200 limit)
     (bnd (intel_backend env auth) (\<lambda>backend.
      bnd (intel_query env backend (neighborhood_rows (uuid_str (ac_tenant_id auth)) (JStr node_id) (nat limit))) (\<lambda>rows.
      ret (case rows of
             [] \<Rightarrow> \<lparr> nh_center = None, nh_neighbors = [], nh_edges = [], nh_total = None \<rparr>
           | (ns, es) # _ \<Rightarrow> \<lparr> nh_center = Some node_id, nh_neighbors = ns, nh_edges = es,
                                nh_total = Some (length ns) \<rparr>)))))"

definition rel_type_filter :: "string \<Rightarrow> string list" where
  "rel_type_filter rel_types = filter (\<lambda>t. t \<noteq> []) (map str_strip (split_char (CHR '','') rel_types))"

text \<open>The names are put into the text of the query; a name that Cypher cannot read back fails the query.\<close>

definition readable :: "string \<Rightarrow> bool" where
  "readable t \<longleftrightarrow> list_all (\<lambda>c. 32 \<le> (of_char c :: nat) \<and> (of_char c :: nat) < 127 \<or> (of_char c :: nat) \<in> {9, 10, 13}) t"

definition related_rows ::
  "string \<Rightarrow> json \<Rightarrow> string \<Rightarrow> nat \<Rightarrow> gstore \<Rightarrow> (string \<times> int \<times> (nat \<times> string list \<times> json) list) list" where
  "related_rows tid p rel_types limit g =
     (let keep = (\<lambda>r. rel_types = [] \<or> gr_type r \<in> set (rel_type_filter rel_types));
          es = filter (\<lambda>(r, n). keep r) (concat (map (\<lambda>c. at_node tid c g) (by_id tid p g)));
          row = (\<lambda>t. let own = filter (\<lambda>(r, n). gr_type r = t) es
                     in (t, int (length own),
                         take limit (remdups (map (\<lambda>(r, n). (vx_id n, vx_labels n, node_name n)) own))))
      in sort_key (\<lambda>(t, c, ns). - c) (map row (remdups (map (\<lambda>(r, n). gr_type r) es))))"

record related_nodes =
  rn_related :: "(string \<times> int \<times> (nat \<times> string list \<times> json) list) list"
  rn_rel_count :: int

definition get_related_nodes :: "intel_env \<Rightarrow> auth_context \<Rightarrow> string \<Rightarrow> string \<Rightarrow> int \<Rightarrow> related_nodes endpoint" where
  "get_related_nodes env auth node_id rel_types limit =
     thn (in_range 1 100 limit)
     (bnd (intel_backend env auth) (\<lambda>backend.
      thn (guard (list_all readable (rel_type_filter rel_types))
             (HTTPException 502 (''Graph query failed: '' @ ie_str env (OtherError ''CypherSyntaxError''))))
      (bnd (intel_query env backend (related_rows (uuid_str (ac_tenant_id auth)) (JStr node_id) rel_types (nat limit))) (\<lambda>rows.
      let grouped = foldl (\<lambda>d (t, c, ns). dict_set t (c, ns) d) [] rows
      in ret \<lparr> rn_related = grouped, rn_rel_count = sum_list (map (\<lambda>(t, c, ns). c) grouped) \<rparr>))))"

section \<open>What changed\<close>

record graph_difference =
  gd_total_new :: int
  gd_by_type :: "(string \<times> int) list"
  gd_recent_nodes :: "(string \<times> string option) list"

text \<open>\<open>sort(key = n.get("indexed_at", "") or "", reverse = True)\<close> is stable: the order of equal keys stays.\<close>

definition indexed_key :: "string \<times> string option \<Rightarrow> string" where
  "indexed_key n = (case snd n of None \<Rightarrow> '''' | Some t \<Rightarrow> t)"

definition latest_nodes_first :: "(string \<times> string option) list \<Rightarrow> (string \<times> string option) list" where
  "latest_nodes_first ns = rev (sort_key indexed_key (rev ns))"

definition graph_difference_of :: "nat \<Rightarrow> change_row list \<Rightarrow> graph_difference" where
  "graph_difference_of limit rows =
     (let by_type = foldl (\<lambda>d r. dict_set (ch_type r) (ch_count r) d) [] rows;
          new_findings = concat (map ch_nodes rows)
      in \<lparr> gd_total_new = sum_list (map snd by_type), gd_by_type = by_type,
           gd_recent_nodes = take limit (latest_nodes_first new_findings) \<rparr>)"

definition graph_diff :: "intel_env \<Rightarrow> auth_context \<Rightarrow> int \<Rightarrow> int \<Rightarrow> graph_difference endpoint" where
  "graph_diff env auth since_hours limit =
     thn (in_range 1 720 since_hours) (thn (in_range 1 500 limit)
     (bnd (intel_backend env auth) (\<lambda>backend.
      bnd (intel_query env backend (changed env (nat since_hours) (nat limit) (uuid_str (ac_tenant_id auth)))) (\<lambda>rows.
      ret (graph_difference_of (nat limit) rows)))))"

section \<open>Exposure\<close>

record exposure_row =
  ex_has_secrets :: json
  ex_has_pii :: json
  ex_sensitivity :: json
  ex_eol_status :: json
  ex_signed :: json
  ex_ai_risk :: json
  ex_cve_count :: int
  ex_in_degree :: int
  ex_name :: json

record risk_factor =
  fa_factor :: string
  fa_weight :: int
  fa_severity :: string

record exposure =
  xp_name :: json
  xp_score :: int
  xp_label :: string
  xp_factors :: "risk_factor list"
  xp_in_degree :: int
  xp_cve_count :: int

definition exposure_rows :: "string \<Rightarrow> json \<Rightarrow> gstore \<Rightarrow> exposure_row list" where
  "exposure_rows tid p g =
     map (\<lambda>n.
       \<lparr> ex_has_secrets = prop_of n ''contains_secrets'', ex_has_pii = prop_of n ''pii_detected'',
         ex_sensitivity = prop_of n ''sensitivity_level'', ex_eol_status = prop_of n ''eol_status'',
         ex_signed = prop_of n ''signed'', ex_ai_risk = prop_of n ''risk_assessment'',
         ex_cve_count = int (length (filter (\<lambda>v. ''Vulnerability'' \<in> set (vx_labels v) \<and>
            list_ex (\<lambda>r. gr_type r = ''HAS_VULNERABILITY'' \<and> gr_from r = vx_id n \<and> gr_to r = vx_id v) (gs_rels g)) (gs_nodes g))),
         ex_in_degree = int (length (filter (\<lambda>r. gr_to r = vx_id n) (gs_rels g))),
         ex_name = node_name n \<rparr>) (by_id tid p g)"

definition factor :: "bool \<Rightarrow> string \<Rightarrow> int \<Rightarrow> string \<Rightarrow> risk_factor list" where
  "factor b name weight sev = (if b then [\<lparr>fa_factor = name, fa_weight = weight, fa_severity = sev\<rparr>] else [])"

definition exposure_factors :: "exposure_row \<Rightarrow> risk_factor list" where
  "exposure_factors row =
     (let pii_w = (if ex_sensitivity row = JStr ''high'' then 20 else 10)
      in factor (truthy (ex_has_secrets row)) ''Contains secrets'' 30 ''critical''
         @ factor (0 < ex_cve_count row) (int_str (ex_cve_count row) @ '' CVE(s)'') (min 25 (ex_cve_count row * 5)) ''high''
         @ factor (truthy (ex_has_pii row)) ''Contains PII'' pii_w (if pii_w = 20 then ''high'' else ''medium'')
         @ factor (ex_eol_status row = JStr ''eol'') ''End-of-life software'' 15 ''high''
         @ factor (ex_signed row = JBool False) ''Unsigned binary'' 10 ''medium''
         @ factor (ex_ai_risk row = JStr ''high'') ''AI-flagged high risk'' 15 ''high''
         @ factor (100 < ex_in_degree row) (''High connectivity ('' @ int_str (ex_in_degree row) @ '' references)'') 10 ''medium'')"

text \<open>The score, a sum of whole numbers; a connectivity of twenty to a hundred counts without being named. The
  score divided by a hundred reaches a threshold of the label exactly when the score does.\<close>

definition exposure_score :: "exposure_row \<Rightarrow> int" where
  "exposure_score row =
     min 100 (sum_list (map fa_weight (exposure_factors row)) +
       (if 20 < ex_in_degree row \<and> \<not> 100 < ex_in_degree row then 5 else 0))"

definition exposure_label :: "int \<Rightarrow> string" where
  "exposure_label score =
     (if 80 \<le> score then ''critical'' else if 60 \<le> score then ''high'' else if 40 \<le> score then ''medium'' else ''low'')"

definition heaviest_first :: "risk_factor list \<Rightarrow> risk_factor list" where
  "heaviest_first fs = sort_key (\<lambda>f. - fa_weight f) fs"

definition node_exposure_score :: "intel_env \<Rightarrow> auth_context \<Rightarrow> string \<Rightarrow> exposure endpoint" where
  "node_exposure_score env auth node_id =
     bnd (intel_backend env auth) (\<lambda>backend.
     bnd (intel_query env backend (exposure_rows (uuid_str (ac_tenant_id auth)) (JStr node_id))) (\<lambda>rows.
     case rows of
       [] \<Rightarrow> raise (HTTPException 404 ''Node not found'')
     | row # _ \<Rightarrow>
         ret \<lparr> xp_name = ex_name row, xp_score = exposure_score row, xp_label = exposure_label (exposure_score row),
               xp_factors = heaviest_first (exposure_factors row), xp_in_degree = ex_in_degree row,
               xp_cve_count = ex_cve_count row \<rparr>))"

lemma label_of_score:
  assumes "0 \<le> n" and "n \<le> 100"
  shows "risk_label (double (of_int n / 100)) = exposure_label n"
proof -
  have bound: "of_int n / 100 < (2 :: rat)" "0 \<le> (of_int n / 100 :: rat)"
    using assms by (simp_all add: field_simps)
  have step: "double (of_int k / 10) \<le> double (of_int n / 100) \<longleftrightarrow> 10 * k \<le> n"
    if "0 \<le> k" "k \<le> 9" "double (of_int (10 * k - 1) / 100) < double (of_int k / 10)" for k
  proof
    assume le: "double (of_int k / 10) \<le> double (of_int n / 100)"
    show "10 * k \<le> n"
    proof (rule ccontr)
      assume "\<not> 10 * k \<le> n"
      then have "n \<le> 10 * k - 1" by simp
      then have "(of_int n / 100 :: rat) \<le> of_int (10 * k - 1) / 100" by (simp only: of_int_le_iff divide_right_mono) 
      moreover have "of_int (10 * k - 1) / 100 < (2 :: rat)" using that(2) by (simp add: field_simps)
      ultimately have "double (of_int n / 100) \<le> double (of_int (10 * k - 1) / 100)" by (rule double_mono)
      with le that(3) show False by simp
    qed
  next
    assume "10 * k \<le> n"
    then have "(of_int (10 * k) :: rat) \<le> of_int n" by (simp only: of_int_le_iff)
    then have "(of_int k / 10 :: rat) \<le> of_int n / 100" by simp
    from double_mono [OF this bound(1)] show "double (of_int k / 10) \<le> double (of_int n / 100)" .
  qed
  have below: "double (79 / 100) < double (8 / 10)" "double (59 / 100) < double (6 / 10)" "double (39 / 100) < double (4 / 10)"
    by (simp_all add: double_fifths) (simp_all add: double_eval)
  show ?thesis
    using step [of 8] step [of 6] step [of 4] below by (simp add: risk_label_def exposure_label_def)
qed

section \<open>What the requests answer\<close>

lemma by_id_text [simp]: "by_id tid (JStr t) g = []"
  by (simp add: by_id_def id_is_def)

lemma intel_query_ok: "connects (ie_genv env) b \<Longrightarrow> ie_fails env = None \<Longrightarrow>
    intel_query env b q s = (Inr (q (ie_stores env (store_of (ie_genv env) b))), s)"
  by (simp add: intel_query_def)

text \<open>The identifier in a request is a text and the identifier of a node an integer, so the queries for one
  node or two match nothing: on a graph that answers, no path is ever found, every neighbourhood and every set
  of related nodes is empty, and every exposure score is a missing node.\<close>

theorem lookups_find_nothing:
  assumes "intel_backend env auth s = (Inr b, s)" and "connects (ie_genv env) b" and "ie_fails env = None"
    and "1 \<le> max_hops" and "max_hops \<le> 15" and "1 \<le> hops" and "hops \<le> 3" and "1 \<le> limit" and "limit \<le> 100"
    and "list_all readable (rel_type_filter rel_types)"
  shows "find_attack_path env auth from_id to_id max_hops s =
      (Inr \<lparr> aa_found = False, aa_paths = [], aa_summary = ''No path found between these nodes'' \<rparr>, s) \<and>
    get_neighborhood env auth node_id hops limit s =
      (Inr \<lparr> nh_center = None, nh_neighbors = [], nh_edges = [], nh_total = None \<rparr>, s) \<and>
    get_related_nodes env auth node_id rel_types limit s = (Inr \<lparr> rn_related = [], rn_rel_count = 0 \<rparr>, s) \<and>
    node_exposure_score env auth node_id s = (Inl (HTTPException 404 ''Node not found''), s)"
  using assms
  by (simp add: intel_query_ok [OF assms(2,3)] find_attack_path_def get_neighborhood_def get_related_nodes_def node_exposure_score_def in_range_def
      path_rows_def neighborhood_rows_def related_rows_def exposure_rows_def Let_def)

lemma factor_weights: "0 \<le> w \<Longrightarrow> 0 \<le> sum_list (map fa_weight (factor b f w sev))"
  by (simp add: factor_def)

lemma exposure_factors_nonneg: "0 \<le> sum_list (map fa_weight (exposure_factors row))"
  by (simp add: exposure_factors_def Let_def factor_def)

text \<open>The exposure of a node is between zero and a hundred, its label is the one the risk of a path with that
  share gets, and the factors shown are those that were counted, the heaviest first. They do not always add up
  to the score: a connectivity of twenty-one to a hundred adds five points that no factor names.\<close>

theorem exposure_bounds:
  "0 \<le> exposure_score row \<and> exposure_score row \<le> 100 \<and>
    exposure_label (exposure_score row) = risk_label (double (of_int (exposure_score row) / 100)) \<and>
    mset (heaviest_first (exposure_factors row)) = mset (exposure_factors row) \<and>
    sorted (rev (map fa_weight (heaviest_first (exposure_factors row)))) \<and>
    exposure_score row - min 100 (sum_list (map fa_weight (exposure_factors row))) \<in> (if ex_in_degree row \<in> {21..100} then {0..5} else {0})"
proof (intro conjI)
  show "0 \<le> exposure_score row" "exposure_score row \<le> 100"
    using exposure_factors_nonneg [of row] by (simp_all add: exposure_score_def)
  then show "exposure_label (exposure_score row) = risk_label (double (of_int (exposure_score row) / 100))"
    by (rule label_of_score [symmetric])
  show "mset (heaviest_first (exposure_factors row)) = mset (exposure_factors row)" by (simp add: heaviest_first_def)
  have "sorted (map (\<lambda>f. - fa_weight f) (heaviest_first (exposure_factors row)))" by (simp add: heaviest_first_def)
  then show "sorted (rev (map fa_weight (heaviest_first (exposure_factors row))))"
    by (simp add: sorted_wrt_rev sorted_wrt_map)
  show "exposure_score row - min 100 (sum_list (map fa_weight (exposure_factors row))) \<in> (if ex_in_degree row \<in> {21..100} then {0..5} else {0})"
    by (auto simp: exposure_score_def)
qed

lemma latest_nodes_first_sorted: "sorted (rev (map indexed_key (latest_nodes_first ns)))"
  by (simp add: latest_nodes_first_def rev_map)

lemma mset_latest_nodes_first: "mset (latest_nodes_first ns) = mset ns"
  by (simp add: latest_nodes_first_def)

lemma sum_dict_set_new: "k \<notin> fst ` set d \<Longrightarrow> sum_list (map snd (dict_set k v d)) = sum_list (map snd d) + (v :: int)"
  by (induction d) auto

text \<open>The difference shows at most the number of nodes asked for, the most recently indexed ones: each node left
  out was indexed no later than each one shown, and none is made up. The total counts every type once.\<close>

theorem difference_exact:
  assumes "distinct (map ch_type rows)"
  shows "gd_total_new (graph_difference_of limit rows) = sum_list (map ch_count rows) \<and>
    (\<exists>rest. mset (gd_recent_nodes (graph_difference_of limit rows) @ rest) = mset (concat (map ch_nodes rows)) \<and>
       sorted (rev (map indexed_key (gd_recent_nodes (graph_difference_of limit rows) @ rest))) \<and>
       length (gd_recent_nodes (graph_difference_of limit rows)) = min limit (length (concat (map ch_nodes rows))))"
proof
  have "sum_list (map snd (foldl (\<lambda>d r. dict_set (ch_type r) (ch_count r) d) d rows)) =
      sum_list (map snd d) + sum_list (map ch_count rows)"
    if "set (map ch_type rows) \<inter> fst ` set d = {}" "distinct (map ch_type rows)" for d
    using that
  proof (induction rows arbitrary: d)
    case (Cons r rows)
    then have new: "ch_type r \<notin> fst ` set d" by auto
    have keys: "fst ` set (dict_set k v e) = insert k (fst ` set e)" for k v and e :: "(string \<times> int) list"
      by (induction k v e rule: dict_set.induct) (auto simp: insert_commute)
    from Cons.prems have "set (map ch_type rows) \<inter> fst ` set (dict_set (ch_type r) (ch_count r) d) = {}"
      unfolding keys by auto
    from Cons.IH [OF this] Cons.prems(2) show ?case by (simp add: sum_dict_set_new [OF new])
  qed simp
  from this [of "[]"] assms show "gd_total_new (graph_difference_of limit rows) = sum_list (map ch_count rows)"
    by (simp add: graph_difference_of_def Let_def)
  let ?ns = "latest_nodes_first (concat (map ch_nodes rows))"
  show "\<exists>rest. mset (gd_recent_nodes (graph_difference_of limit rows) @ rest) = mset (concat (map ch_nodes rows)) \<and>
       sorted (rev (map indexed_key (gd_recent_nodes (graph_difference_of limit rows) @ rest))) \<and>
       length (gd_recent_nodes (graph_difference_of limit rows)) = min limit (length (concat (map ch_nodes rows)))"
  proof (intro exI [of _ "drop limit ?ns"] conjI)
    have recent: "gd_recent_nodes (graph_difference_of limit rows) = take limit ?ns"
      by (simp add: graph_difference_of_def Let_def)
    show "mset (gd_recent_nodes (graph_difference_of limit rows) @ drop limit ?ns) = mset (concat (map ch_nodes rows))"
      unfolding recent append_take_drop_id by (rule mset_latest_nodes_first)
    show "sorted (rev (map indexed_key (gd_recent_nodes (graph_difference_of limit rows) @ drop limit ?ns)))"
      unfolding recent append_take_drop_id by (rule latest_nodes_first_sorted)
    have "length ?ns = length (concat (map ch_nodes rows))" by (simp add: latest_nodes_first_def)
    then show "length (gd_recent_nodes (graph_difference_of limit rows)) = min limit (length (concat (map ch_nodes rows)))"
      unfolding recent by simp
  qed
qed


section \<open>Examples\<close>

definition example_intel :: intel_env where
  "example_intel =
     \<lparr> ie_genv = example_genv, ie_stores = (\<lambda>i. empty_store\<lparr>gs_nodes := [\<lparr>vx_id = 5, vx_labels = [''Application''],
         vx_props = [(''tenant_id'', JStr ''1'')]\<rparr>], gs_next := 6\<rparr>), ie_fails = None, ie_str = (\<lambda>e. ''e''),
       shortest = (\<lambda>n g a b. []), changed = (\<lambda>h l tid g. []) \<rparr>"


theorem lookups_find_nothing_witness:
  "node_exposure_score example_intel
     \<lparr> ac_user_id = 7, ac_tenant_id = 1, ac_email = JNull, ac_roles = [], ac_permissions = {} \<rparr> ''5''
     (empty_db\<lparr>tenants := [new_tenant 1 0 ''a'' ''A'' None]\<rparr>) =
   (Inl (HTTPException 404 ''Node not found''), empty_db\<lparr>tenants := [new_tenant 1 0 ''a'' ''A'' None]\<rparr>)"
proof -
  let ?auth = "\<lparr> ac_user_id = 7, ac_tenant_id = 1, ac_email = JNull, ac_roles = [], ac_permissions = {} \<rparr> :: auth_context"
  let ?s = "empty_db\<lparr>tenants := [new_tenant 1 0 ''a'' ''A'' None]\<rparr>"
  obtain b where b: "get_backend_for_tenant example_genv ''neo4j'' [] = Inr b"
    by (simp add: get_backend_for_tenant_def)
  have "intel_backend example_intel ?auth ?s = (Inr b, ?s)"
    using b by (simp add: intel_backend_def example_intel_def new_tenant_def scalar_one_or_none_def str_or_def)
  moreover have "connects (ie_genv example_intel) b" "ie_fails example_intel = None"
    by (simp_all add: example_intel_def example_genv_def)
  moreover have "list_all readable (rel_type_filter [])" by code_simp
  ultimately show ?thesis
    using lookups_find_nothing [of example_intel ?auth ?s b 6 1 20 "[]"] by simp
qed

theorem difference_exact_witness:
  "gd_total_new (graph_difference_of 1
     [\<lparr>ch_type = ''File'', ch_count = 2, ch_nodes = [(''a'', Some ''2024''), (''b'', Some ''2025'')]\<rparr>]) = 2"
  using difference_exact [of "[\<lparr>ch_type = ''File'', ch_count = 2, ch_nodes = [(''a'', Some ''2024''), (''b'', Some ''2025'')]\<rparr>]" 1]
  by simp

end
