(* ===== verification/Scanner_Client.thy ===== *)
theory Scanner_Client
  imports PyText "HOL-Library.List_Lexorder" "HOL-Library.Char_ord"
begin

text \<open>
  \<open>scanner-agent/src/sync/client.py\<close>: how the scanner sends what it found. A delta is cut into chunks;
  each chunk is posted with retries, and one that could not be delivered is written to a file of the
  queue, to be sent again.

  The backend is a parameter: what it answers to the n-th request, and how long that takes. The queue
  is the directory of the files: a name and what the file holds, \<open>None\<close> for a text that is not JSON.
  A payload written and read again is the payload, and a job's identifier can stand in a file name.
  The state also keeps every request with its answer, in the order of the requests.
\<close>

section \<open>The client and its surroundings\<close>

datatype sync_reply =
    Response nat "json option"
  | RequestError

record sync_env =
  sy_server :: "nat \<Rightarrow> json \<Rightarrow> sync_reply"
  sy_takes :: "nat \<Rightarrow> nat"
  sy_isoformat :: "time \<Rightarrow> string"
  sy_scanner_id :: string
  sy_tenant_id :: string
  sy_chunk_size :: int

type_synonym sync_queue = "(string \<times> json option) list"

record sync_state =
  sy_now :: time
  sy_requests :: nat
  sy_posted :: "(json \<times> sync_reply) list"
  sy_queue :: sync_queue

type_synonym 'a sync = "(sync_state, 'a) handler"

definition post_chunk :: "sync_env \<Rightarrow> json \<Rightarrow> sync_reply sync" where
  "post_chunk env payload = (\<lambda>s.
     let r = sy_server env (sy_requests s) payload
      in (Inr r, s\<lparr>sy_now := sy_now s + int (sy_takes env (sy_requests s)),
                   sy_requests := Suc (sy_requests s), sy_posted := sy_posted s @ [(payload, r)]\<rparr>))"

definition async_sleep :: "rat \<Rightarrow> unit sync" where
  "async_sleep d = modify (\<lambda>s. s\<lparr>sy_now := sy_now s + \<lfloor>d * 1000000\<rfloor>\<rparr>)"

text \<open>\<open>None\<close> is \<open>JNull\<close>: a caller only asks whether the result is true.\<close>

fun send_attempts :: "sync_env \<Rightarrow> json \<Rightarrow> nat \<Rightarrow> rat \<Rightarrow> json sync" where
  "send_attempts env payload 0 delay =
     bnd (lift_err (json_item payload ''chunk_index'')) (\<lambda>_. ret JNull)"
| "send_attempts env payload (Suc n) delay =
     bnd (post_chunk env payload) (\<lambda>r.
       let retry = thn (async_sleep delay) (send_attempts env payload n (min (delay * 2) 60))
        in case r of
             RequestError \<Rightarrow> retry
           | Response code body \<Rightarrow>
               if code = 200 then
                 (case body of None \<Rightarrow> raise (ValueError ''JSONDecodeError'') | Some v \<Rightarrow> ret v)
               else if code \<in> {400, 403, 422} then ret JNull
               else retry)"

definition send_chunk_with_retry :: "sync_env \<Rightarrow> json \<Rightarrow> nat \<Rightarrow> json sync" where
  "send_chunk_with_retry env payload max_retries = send_attempts env payload max_retries 2"

section \<open>Chunks\<close>

text \<open>\<open>range(0, n, step)\<close> for a positive step.\<close>

definition range_step :: "nat \<Rightarrow> nat \<Rightarrow> nat list" where
  "range_step n step = map (\<lambda>k. k * step) [0..<(n + step - 1) div step]"

definition chunks :: "'a list \<Rightarrow> int \<Rightarrow> py_error + 'a list list" where
  "chunks lst step =
     (if lst = [] then Inr [[]]
      else if step = 0 then Inl (ValueError ''range() arg 3 must not be zero'')
      else if step < 0 then Inr []
      else Inr (map (\<lambda>i. take (nat step) (drop i lst)) (range_step (max (length lst) 1) (nat step))))"

definition pad_to :: "nat \<Rightarrow> 'a list list \<Rightarrow> 'a list list" where
  "pad_to n xs = xs @ replicate (n - length xs) []"

definition aligned_chunks :: "json list \<Rightarrow> json list \<Rightarrow> int \<Rightarrow> py_error + (json list \<times> json list) list" where
  "aligned_chunks nodes edges step =
     (case chunks nodes step of
        Inl e \<Rightarrow> Inl e
      | Inr ns \<Rightarrow> (case chunks edges step of
          Inl e \<Rightarrow> Inl e
        | Inr es \<Rightarrow> (let n = max (max (length ns) (length es)) 1 in Inr (zip (pad_to n ns) (pad_to n es)))))"

section \<open>Sending a delta\<close>

record delta_stats =
  ds_total_files :: nat
  ds_total_nodes :: nat
  ds_errors :: nat

record delta_result =
  dr_chunks_sent :: nat
  dr_nodes_merged :: rat
  dr_edges_merged :: rat
  dr_errors :: rat

definition chunk_payload ::
  "sync_env \<Rightarrow> string \<Rightarrow> delta_stats \<Rightarrow> time \<Rightarrow> nat \<Rightarrow> bool \<Rightarrow> json list \<Rightarrow> json list \<Rightarrow> json" where
  "chunk_payload env job_id stats now i is_final nc ec =
     JObj [(''scanner_id'', JStr (sy_scanner_id env)), (''tenant_id'', JStr (sy_tenant_id env)),
       (''scan_job_id'', JStr job_id), (''chunk_index'', JInt (int i)), (''is_final'', JBool is_final),
       (''scanned_at'', JStr (sy_isoformat env now)),
       (''stats'', JObj [(''total_files'', JInt (int (ds_total_files stats))),
          (''total_nodes'', JInt (int (ds_total_nodes stats))), (''errors'', JInt (int (ds_errors stats)))]),
       (''nodes'', JArr nc), (''edges'', JArr ec)]"

definition queue_name :: "string \<Rightarrow> nat \<Rightarrow> time \<Rightarrow> string" where
  "queue_name job_id i now = job_id @ ''_'' @ nat_str i @ ''_'' @ int_str (now div 1000000) @ ''.json''"

definition enqueue_chunk :: "string \<Rightarrow> nat \<Rightarrow> json \<Rightarrow> unit sync" where
  "enqueue_chunk job_id i payload =
     modify (\<lambda>s. s\<lparr>sy_queue := dict_set (queue_name job_id i (sy_now s)) (Some payload) (sy_queue s)\<rparr>)"

text \<open>\<open>result.get(k, 0)\<close>, as a number that can be added.\<close>

definition result_count :: "json \<Rightarrow> string \<Rightarrow> py_error + rat" where
  "result_count v k =
     (case v of
        JObj d \<Rightarrow> (case dict_get_or d k (JInt 0) of
                     JInt i \<Rightarrow> Inr (of_int i) | JNum q \<Rightarrow> Inr q | JBool b \<Rightarrow> Inr (of_bool b) | _ \<Rightarrow> Inl TypeError)
      | _ \<Rightarrow> Inl AttributeError)"

definition count_result :: "json \<Rightarrow> delta_result \<Rightarrow> delta_result sync" where
  "count_result v res =
     bnd (lift_err (result_count v ''nodes_merged'')) (\<lambda>n.
     bnd (lift_err (result_count v ''edges_merged'')) (\<lambda>e.
     bnd (lift_err (result_count v ''errors'')) (\<lambda>x.
     ret (res\<lparr>dr_chunks_sent := Suc (dr_chunks_sent res), dr_nodes_merged := dr_nodes_merged res + n,
              dr_edges_merged := dr_edges_merged res + e, dr_errors := dr_errors res + x\<rparr>))))"

definition send_chunk ::
  "sync_env \<Rightarrow> string \<Rightarrow> delta_stats \<Rightarrow> nat \<Rightarrow> bool \<Rightarrow> json list \<Rightarrow> json list \<Rightarrow> delta_result \<Rightarrow> delta_result sync" where
  "send_chunk env job_id stats i is_final nc ec res =
     bnd (gets (\<lambda>s. chunk_payload env job_id stats (sy_now s) i is_final nc ec)) (\<lambda>payload.
     bnd (send_chunk_with_retry env payload 5) (\<lambda>v.
     if truthy v then count_result v res
     else thn (enqueue_chunk job_id i payload)
            (ret (res\<lparr>dr_errors := dr_errors res + of_nat (length nc) + of_nat (length ec)\<rparr>))))"

fun send_chunks ::
  "sync_env \<Rightarrow> string \<Rightarrow> delta_stats \<Rightarrow> nat \<Rightarrow> (json list \<times> json list) list \<Rightarrow> delta_result \<Rightarrow> delta_result sync" where
  "send_chunks env job_id stats i [] res = ret res"
| "send_chunks env job_id stats i ((nc, ec) # cs) res =
     bnd (send_chunk env job_id stats i (cs = []) nc ec res) (send_chunks env job_id stats (Suc i) cs)"

definition send_delta :: "sync_env \<Rightarrow> string \<Rightarrow> json list \<Rightarrow> json list \<Rightarrow> delta_stats \<Rightarrow> delta_result sync" where
  "send_delta env job_id nodes edges stats =
     bnd (lift_err (aligned_chunks nodes edges (sy_chunk_size env))) (\<lambda>cs.
     send_chunks env job_id stats 0 cs
       \<lparr> dr_chunks_sent = 0, dr_nodes_merged = 0, dr_edges_merged = 0, dr_errors = 0 \<rparr>)"

section \<open>The queue, the heartbeat and the jobs\<close>

definition is_json_name :: "string \<Rightarrow> bool" where
  "is_json_name f \<longleftrightarrow> take 5 (rev f) = rev ''.json''"

definition unlink :: "string \<Rightarrow> unit sync" where
  "unlink f = modify (\<lambda>s. s\<lparr>sy_queue := filter (\<lambda>(g, v). g \<noteq> f) (sy_queue s)\<rparr>)"

definition read_chunk :: "string \<Rightarrow> json sync" where
  "read_chunk f =
     bnd (gets (\<lambda>s. map_of (sy_queue s) f)) (\<lambda>content.
     case content of
       None \<Rightarrow> raise (OtherError ''FileNotFoundError'')
     | Some None \<Rightarrow> raise (ValueError ''JSONDecodeError'')
     | Some (Some v) \<Rightarrow> ret v)"

definition flush_file :: "sync_env \<Rightarrow> string \<Rightarrow> nat \<Rightarrow> nat sync" where
  "flush_file env f sent =
     py_try
       (bnd (read_chunk f) (\<lambda>payload.
        bnd (send_chunk_with_retry env payload 3) (\<lambda>v.
        if truthy v then thn (unlink f) (ret (Suc sent)) else ret sent)))
       (\<lambda>_. ret sent)"

fun flush_files :: "sync_env \<Rightarrow> string list \<Rightarrow> nat \<Rightarrow> nat sync" where
  "flush_files env [] sent = ret sent"
| "flush_files env (f # fs) sent = bnd (flush_file env f sent) (flush_files env fs)"

definition queued_names :: "sync_queue \<Rightarrow> string list" where
  "queued_names q = sort (filter is_json_name (map fst q))"

definition flush_queue :: "sync_env \<Rightarrow> nat sync" where
  "flush_queue env = bnd (gets (\<lambda>s. queued_names (sy_queue s))) (\<lambda>fs. flush_files env fs 0)"

text \<open>The heartbeat and the poll, from the answer to their request; any exception is caught.\<close>

definition sync_heartbeat :: "sync_reply \<Rightarrow> bool" where
  "sync_heartbeat r = (case r of Response code body \<Rightarrow> code = 200 | RequestError \<Rightarrow> False)"

definition sync_poll_jobs :: "sync_reply \<Rightarrow> json" where
  "sync_poll_jobs r = (case r of Response code (Some v) \<Rightarrow> if code = 200 then v else JArr [] | _ \<Rightarrow> JArr [])"


section \<open>Chunks put together\<close>

lemma concat_slices: "concat (map (\<lambda>k. take n (drop (k * n) xs)) [0..<m]) = take (m * n) xs"
proof (induction m)
  case (Suc m)
  have "take (m * n + n) xs = take (m * n) xs @ take n (drop (m * n) xs)" by (rule take_add)
  with Suc show ?case by (simp add: add.commute [of n])
qed simp

lemma slices_enough: "0 < n \<Longrightarrow> l \<le> (l + n - 1) div n * (n :: nat)"
proof -
  assume n: "0 < n"
  then have "l + n - 1 < n + (l + n - 1) div n * n" by (rule dividend_less_div_times)
  then show ?thesis using n by linarith
qed

lemma concat_range_step:
  "0 < n \<Longrightarrow> length xs \<le> l \<Longrightarrow> concat (map (\<lambda>i. take n (drop i xs)) (range_step l n)) = xs"
  using slices_enough [of n l] by (simp add: range_step_def o_def concat_slices)

lemma chunks_exact:
  assumes "0 < n" and "chunks xs n = Inr cs"
  shows "concat cs = xs \<and> list_all (\<lambda>c. length c \<le> nat n) cs"
proof (cases "xs = []")
  case False
  with assms have cs: "cs = map (\<lambda>i. take (nat n) (drop i xs)) (range_step (max (length xs) 1) (nat n))"
    by (simp add: chunks_def)
  have "concat cs = xs" unfolding cs using assms(1) by (intro concat_range_step) auto
  moreover have "list_all (\<lambda>c. length c \<le> nat n) cs" by (simp add: cs list_all_iff)
  ultimately show ?thesis by blast
qed (use assms in \<open>auto simp: chunks_def\<close>)

lemma chunks_returns: "0 < n \<Longrightarrow> \<exists>cs. chunks xs n = Inr cs"
  by (simp add: chunks_def)

lemma concat_pad_to [simp]: "concat (pad_to n xs) = concat xs"
  by (simp add: pad_to_def)

lemma length_pad_to: "length xs \<le> n \<Longrightarrow> length (pad_to n xs) = n"
  by (simp add: pad_to_def)

lemma aligned_chunks_exact:
  assumes "0 < n" and "aligned_chunks nodes edges n = Inr cs"
  shows "concat (map fst cs) = nodes \<and> concat (map snd cs) = edges \<and> cs \<noteq> [] \<and>
    list_all (\<lambda>(nc, ec). length nc \<le> nat n \<and> length ec \<le> nat n) cs"
proof -
  obtain ns es where ns: "chunks nodes n = Inr ns" and es: "chunks edges n = Inr es"
    using chunks_returns [OF assms(1)] by meson
  define m where "m = max (max (length ns) (length es)) 1"
  from assms(2) have cs: "cs = zip (pad_to m ns) (pad_to m es)" by (simp add: aligned_chunks_def ns es m_def Let_def)
  have len: "length (pad_to m ns) = m" "length (pad_to m es) = m" by (simp_all add: length_pad_to m_def)
  have small: "list_all (\<lambda>c. length c \<le> nat n) (pad_to m ns)" "list_all (\<lambda>c. length c \<le> nat n) (pad_to m es)"
    using chunks_exact [OF assms(1) ns] chunks_exact [OF assms(1) es] by (auto simp: pad_to_def list_all_iff)
  have "cs \<noteq> []" using len by (auto simp: cs m_def)
  moreover have "concat (map fst cs) = nodes \<and> concat (map snd cs) = edges"
    using chunks_exact [OF assms(1) ns] chunks_exact [OF assms(1) es] by (simp add: cs len)
  moreover have "list_all (\<lambda>(nc, ec). length nc \<le> nat n \<and> length ec \<le> nat n) cs"
    using small by (auto simp: cs list_all_iff dest: set_zip_leftD set_zip_rightD)
  ultimately show ?thesis by blast
qed

section \<open>One chunk\<close>

definition acknowledged :: "sync_reply \<Rightarrow> bool" where
  "acknowledged r = (case r of Response code (Some v) \<Rightarrow> code = 200 \<and> truthy v | _ \<Rightarrow> False)"

text \<open>The pauses of \<open>n\<close> attempts.\<close>

fun total_delay :: "nat \<Rightarrow> rat \<Rightarrow> rat" where
  "total_delay 0 d = 0"
| "total_delay (Suc n) d = d + total_delay n (min (d * 2) 60)"

lemma total_delay_nonneg: "0 \<le> d \<Longrightarrow> 0 \<le> total_delay n d"
  by (induction n d rule: total_delay.induct) auto

definition requests_took :: "sync_env \<Rightarrow> sync_state \<Rightarrow> sync_state \<Rightarrow> nat" where
  "requests_took env s s' = sum (sy_takes env) {sy_requests s..<sy_requests s'}"

text \<open>What the attempts for one payload change: only requests with it are added, and the clock.\<close>

definition attempts_step :: "json \<Rightarrow> nat \<Rightarrow> sync_state \<Rightarrow> sync_state \<Rightarrow> bool" where
  "attempts_step payload n s s' \<longleftrightarrow>
     sy_queue s' = sy_queue s \<and> sy_requests s \<le> sy_requests s' \<and> sy_requests s' \<le> sy_requests s + n \<and>
     sy_posted s' = sy_posted s @ drop (length (sy_posted s)) (sy_posted s') \<and>
     list_all (\<lambda>(p, r). p = payload) (drop (length (sy_posted s)) (sy_posted s'))"

lemma attempts_step_refl: "attempts_step payload n s s"
  by (simp add: attempts_step_def)

lemma attempts_step_trans:
  assumes "attempts_step payload m s t" and "attempts_step payload n t u"
  shows "attempts_step payload (m + n) s u"
proof -
  from assms obtain xs ys where "sy_posted t = sy_posted s @ xs" "sy_posted u = sy_posted t @ ys"
    and "list_all (\<lambda>(p, r). p = payload) xs" "list_all (\<lambda>(p, r). p = payload) ys"
    unfolding attempts_step_def by blast
  with assms show ?thesis by (auto simp: attempts_step_def)
qed

definition posted :: "sync_env \<Rightarrow> json \<Rightarrow> sync_state \<Rightarrow> sync_state" where
  "posted env payload s = snd (post_chunk env payload s)"

lemma posted_simps:
  "post_chunk env payload s = (Inr (sy_server env (sy_requests s) payload), posted env payload s)"
  "sy_now (posted env payload s) = sy_now s + int (sy_takes env (sy_requests s))"
  "sy_requests (posted env payload s) = Suc (sy_requests s)"
  "sy_posted (posted env payload s) = sy_posted s @ [(payload, sy_server env (sy_requests s) payload)]"
  "sy_queue (posted env payload s) = sy_queue s"
  by (simp_all add: posted_def post_chunk_def Let_def)

text \<open>The state in which the next attempt starts, and how an attempt ends.\<close>

definition rested :: "sync_env \<Rightarrow> json \<Rightarrow> rat \<Rightarrow> sync_state \<Rightarrow> sync_state" where
  "rested env payload d s = (posted env payload s)\<lparr>sy_now := sy_now (posted env payload s) + \<lfloor>d * 1000000\<rfloor>\<rparr>"

lemma rested_simps:
  "sy_now (rested env payload d s) = sy_now s + int (sy_takes env (sy_requests s)) + \<lfloor>d * 1000000\<rfloor>"
  "sy_requests (rested env payload d s) = Suc (sy_requests s)"
  "sy_posted (rested env payload d s) = sy_posted s @ [(payload, sy_server env (sy_requests s) payload)]"
  "sy_queue (rested env payload d s) = sy_queue s"
  by (simp_all add: rested_def posted_simps)

lemma send_attempts_cases:
  assumes "send_attempts env payload (Suc n) d s = (r, s')"
  obtains (retry) "send_attempts env payload n (min (d * 2) 60) (rested env payload d s) = (r, s')"
  | (stop) "s' = posted env payload s"
      and "r = Inr JNull \<or> r = Inl (ValueError ''JSONDecodeError'') \<and> sy_server env (sy_requests s) payload = Response 200 None \<or>
           (\<exists>v. r = Inr v \<and> sy_server env (sy_requests s) payload = Response 200 (Some v))"
proof (cases "sy_server env (sy_requests s) payload")
  case (Response code body)
  show ?thesis
  proof (cases "code = 200")
    case True
    with assms Response that(2) show ?thesis by (cases body) (auto simp: posted_simps)
  next
    case ok: False
    show ?thesis
    proof (cases "code \<in> {400, 403, 422}")
      case True
      with assms Response ok that(2) show ?thesis by (auto simp: posted_simps)
    next
      case False
      with assms Response ok that(1) show ?thesis by (simp add: posted_simps rested_def async_sleep_def Let_def)
    qed
  qed
next
  case RequestError
  with assms that(1) show ?thesis by (simp add: posted_simps rested_def async_sleep_def Let_def)
qed

lemma attempts_step_posted:
  "attempts_step payload 1 s (posted env payload s)" "attempts_step payload 1 s (rested env payload d s)"
  by (simp_all add: attempts_step_def posted_simps rested_simps)

lemma send_attempts_step:
  "send_attempts env payload n d s = (r, s') \<Longrightarrow> attempts_step payload n s s'"
proof (induction n arbitrary: d s)
  case 0
  then show ?case by (auto simp: attempts_step_refl split: sum.splits)
next
  case (Suc n)
  from Suc.prems show ?case
  proof (cases rule: send_attempts_cases)
    case retry
    from attempts_step_trans [OF attempts_step_posted(2) Suc.IH [OF this]] show ?thesis by simp
  next
    case stop
    then show ?thesis using attempts_step_posted(1) [of payload s env] by (simp add: attempts_step_def)
  qed
qed

lemma send_attempts_clock:
  "send_attempts env payload n d s = (r, s') \<Longrightarrow> 0 \<le> d \<Longrightarrow>
   sy_now s \<le> sy_now s' \<and>
   of_int (sy_now s' - sy_now s) \<le> of_nat (requests_took env s s') + 1000000 * total_delay n d"
proof (induction n arbitrary: d s)
  case 0
  then show ?case by (auto simp: requests_took_def split: sum.splits)
next
  case (Suc n)
  from Suc.prems(1) show ?case
  proof (cases rule: send_attempts_cases)
    case retry
    let ?u = "rested env payload d s"
    have ih: "sy_now ?u \<le> sy_now s'"
      "of_int (sy_now s' - sy_now ?u) \<le> of_nat (requests_took env ?u s') + 1000000 * total_delay n (min (d * 2) 60)"
      using Suc.IH [OF retry] Suc.prems(2) by simp_all
    have "sy_requests ?u \<le> sy_requests s'" using send_attempts_step [OF retry] by (simp add: attempts_step_def)
    then have took: "requests_took env s s' = sy_takes env (sy_requests s) + requests_took env ?u s'"
      unfolding requests_took_def by (simp add: rested_simps sum.atLeast_Suc_lessThan)
    define k where "k = \<lfloor>d * 1000000\<rfloor>"
    have fl: "of_int k \<le> d * 1000000" by (simp add: k_def)
    have "0 \<le> \<lfloor>d * 1000000\<rfloor>" using Suc.prems(2) by simp
    then have "sy_now s \<le> sy_now s'" using ih(1) unfolding rested_simps by linarith
    moreover from ih(2) have "of_int (sy_now s' - sy_now s) \<le> of_nat (requests_took env s s') +
      of_int k + 1000000 * total_delay n (min (d * 2) 60)"
      by (simp add: rested_simps took k_def)
    ultimately show ?thesis using fl by (simp add: algebra_simps)
  next
    case stop
    then show ?thesis using Suc.prems(2) total_delay_nonneg [of "min (d * 2) 60" n]
      by (simp add: posted_simps requests_took_def)
  qed
qed

lemma send_attempts_acknowledged:
  "send_attempts env payload n d s = (Inr v, s') \<Longrightarrow> truthy v \<Longrightarrow>
   \<exists>new. sy_posted s' = sy_posted s @ new @ [(payload, Response 200 (Some v))]"
proof (induction n arbitrary: d s)
  case 0
  then show ?case by (auto split: sum.splits)
next
  case (Suc n)
  from Suc.prems(1) show ?case
  proof (cases rule: send_attempts_cases)
    case retry
    from Suc.IH [OF this Suc.prems(2)] show ?thesis by (auto simp: rested_simps)
  next
    case stop
    with Suc.prems(2) show ?thesis by (auto simp: posted_simps)
  qed
qed


section \<open>A whole delta\<close>

text \<open>A reply that makes no exception: with status 200, JSON with counts that can be added.\<close>

definition clean_reply :: "sync_reply \<Rightarrow> bool" where
  "clean_reply r =
     (case r of
        RequestError \<Rightarrow> True
      | Response code body \<Rightarrow> code \<noteq> 200 \<or>
          (case body of
             None \<Rightarrow> False
           | Some v \<Rightarrow> \<not> truthy v \<or>
               list_all (\<lambda>k. case result_count v k of Inl _ \<Rightarrow> False | Inr _ \<Rightarrow> True)
                 [''nodes_merged'', ''edges_merged'', ''errors'']))"

definition delivered :: "sync_state \<Rightarrow> sync_state \<Rightarrow> json \<Rightarrow> bool" where
  "delivered s s' p \<longleftrightarrow> list_ex (\<lambda>(q, r). q = p \<and> acknowledged r) (drop (length (sy_posted s)) (sy_posted s'))"

definition queued :: "sync_state \<Rightarrow> json \<Rightarrow> bool" where
  "queued s p \<longleftrightarrow> list_ex (\<lambda>(f, v). v = Some p) (sy_queue s)"

definition payload_list :: "json \<Rightarrow> string \<Rightarrow> json list" where
  "payload_list p k = (case p of JObj d \<Rightarrow> (case dict_get d k of Some (JArr xs) \<Rightarrow> xs | _ \<Rightarrow> []) | _ \<Rightarrow> [])"

definition payload_final :: "json \<Rightarrow> bool" where
  "payload_final p = (case p of JObj d \<Rightarrow> dict_get d ''is_final'' = Some (JBool True) | _ \<Rightarrow> False)"

lemma chunk_payload_simps [simp]:
  "payload_list (chunk_payload env job_id stats now i fin nc ec) ''nodes'' = nc"
  "payload_list (chunk_payload env job_id stats now i fin nc ec) ''edges'' = ec"
  "payload_final (chunk_payload env job_id stats now i fin nc ec) = fin"
  "json_item (chunk_payload env job_id stats now i fin nc ec) ''chunk_index'' = Inr (JInt (int i))"
  by (simp_all add: chunk_payload_def payload_list_def payload_final_def json_item_def dict_item_def dict_get_def)

lemma queue_name_inject: "queue_name job_id i t = queue_name job_id j u \<Longrightarrow> i = j"
proof -
  assume "queue_name job_id i t = queue_name job_id j u"
  then have eq: "nat_str i @ CHR ''_'' # int_str (t div 1000000) @ ''.json'' =
      nat_str j @ CHR ''_'' # int_str (u div 1000000) @ ''.json''"
    by (simp add: queue_name_def)
  have upto: "takeWhile (\<lambda>c. c \<noteq> CHR ''_'') (nat_str k @ CHR ''_'' # rest) = nat_str k" for k rest
    by (subst takeWhile_append2) (auto dest: nat_str_digits simp: is_digit_def char_code_def)
  from arg_cong [OF eq, of "takeWhile (\<lambda>c. c \<noteq> CHR ''_'')"] show ?thesis by (simp only: upto nat_str_inject)
qed

lemma send_attempts_clean:
  assumes "\<And>n p. clean_reply (sy_server env n p)" and "json_item payload ''chunk_index'' = Inr i"
  shows "\<exists>v s'. send_attempts env payload n d s = (Inr v, s') \<and>
    (truthy v \<longrightarrow> list_all (\<lambda>k. case result_count v k of Inl _ \<Rightarrow> False | Inr _ \<Rightarrow> True)
                    [''nodes_merged'', ''edges_merged'', ''errors''])"
proof (induction n arbitrary: d s)
  case 0
  with assms(2) show ?case by simp
next
  case (Suc n)
  obtain r s' where run: "send_attempts env payload (Suc n) d s = (r, s')" by fastforce
  then show ?case
  proof (cases rule: send_attempts_cases)
    case retry
    with run Suc.IH [of "min (d * 2) 60" "rested env payload d s"] show ?thesis by (simp only: )
  next
    case stop
    with assms(1) [of "sy_requests s" payload]
    have "r = Inr JNull \<or> (\<exists>v. r = Inr v \<and> (truthy v \<longrightarrow> list_all (\<lambda>k. case result_count v k of Inl _ \<Rightarrow> False | Inr _ \<Rightarrow> True)
                    [''nodes_merged'', ''edges_merged'', ''errors'']))"
      unfolding clean_reply_def by (elim disjE exE conjE) (simp_all only: sync_reply.case option.case, blast+)
    with run show ?thesis by auto
  qed
qed

lemma count_result_clean:
  "list_all (\<lambda>k. case result_count v k of Inl _ \<Rightarrow> False | Inr _ \<Rightarrow> True)
     [''nodes_merged'', ''edges_merged'', ''errors''] \<Longrightarrow>
   \<exists>res'. count_result v res s = (Inr res', s) \<and> dr_chunks_sent res' = Suc (dr_chunks_sent res)"
  by (auto simp: count_result_def split: sum.splits)

text \<open>A chunk is acknowledged, or its file is written.\<close>

lemma send_chunk_run:
  assumes "\<And>n p. clean_reply (sy_server env n p)"
  obtains res' s' new where "send_chunk env job_id stats i fin nc ec res s = (Inr res', s')"
    and "sy_posted s' = sy_posted s @ new"
    and "delivered s s' (chunk_payload env job_id stats (sy_now s) i fin nc ec) \<and> sy_queue s' = sy_queue s \<or>
      (\<exists>t. sy_queue s' = dict_set (queue_name job_id i t)
         (Some (chunk_payload env job_id stats (sy_now s) i fin nc ec)) (sy_queue s))"
proof -
  let ?p = "chunk_payload env job_id stats (sy_now s) i fin nc ec"
  obtain v t where run: "send_attempts env ?p 5 2 s = (Inr v, t)"
    and ok: "truthy v \<longrightarrow> list_all (\<lambda>k. case result_count v k of Inl _ \<Rightarrow> False | Inr _ \<Rightarrow> True)
                    [''nodes_merged'', ''edges_merged'', ''errors'']"
    using send_attempts_clean [OF assms, of ?p "JInt (int i)" 5 2 s] by auto
  have same: "sy_queue t = sy_queue s" and "\<exists>new. sy_posted t = sy_posted s @ new"
    using send_attempts_step [OF run] unfolding attempts_step_def by blast+
  then obtain new where new: "sy_posted t = sy_posted s @ new" by blast
  show ?thesis
  proof (cases "truthy v")
    case True
    with ok count_result_clean obtain res' where "count_result v res t = (Inr res', t)" by meson
    with run True have "send_chunk env job_id stats i fin nc ec res s = (Inr res', t)"
      by (simp add: send_chunk_def send_chunk_with_retry_def)
    moreover have "delivered s t ?p"
      using send_attempts_acknowledged [OF run True] True new by (auto simp: delivered_def acknowledged_def)
    ultimately show ?thesis using that new same by blast
  next
    case False
    let ?s = "t\<lparr>sy_queue := dict_set (queue_name job_id i (sy_now t)) (Some ?p) (sy_queue t)\<rparr>"
    have "send_chunk env job_id stats i fin nc ec res s =
      (Inr (res\<lparr>dr_errors := dr_errors res + of_nat (length nc) + of_nat (length ec)\<rparr>), ?s)"
      using run False by (simp add: send_chunk_def send_chunk_with_retry_def enqueue_chunk_def)
    then show ?thesis by (rule that [OF _ _ disjI2]) (use new same in auto)
  qed
qed

lemma delivered_trans:
  "sy_posted t = sy_posted s @ xs \<Longrightarrow> sy_posted u = sy_posted t @ ys \<Longrightarrow>
   delivered s t p \<or> delivered t u p \<Longrightarrow> delivered s u p"
  by (auto simp: delivered_def)

lemma send_chunks_run:
  assumes "\<And>n p. clean_reply (sy_server env n p)"
  shows "\<exists>res' s' ps new. send_chunks env job_id stats i cs res s = (Inr res', s') \<and>
    sy_posted s' = sy_posted s @ new \<and>
    map (\<lambda>p. (payload_list p ''nodes'', payload_list p ''edges'')) ps = cs \<and>
    map payload_final ps = (if cs = [] then [] else replicate (length cs - 1) False @ [True]) \<and>
    list_all (\<lambda>p. delivered s s' p \<or> (\<exists>j t. i \<le> j \<and> map_of (sy_queue s') (queue_name job_id j t) = Some (Some p))) ps \<and>
    (\<forall>j t. j < i \<longrightarrow> map_of (sy_queue s') (queue_name job_id j t) = map_of (sy_queue s) (queue_name job_id j t))"
proof (induction cs arbitrary: i res s)
  case Nil
  show ?case by (auto intro!: exI [of _ "[]"])
next
  case (Cons c cs)
  obtain nc ec where c: "c = (nc, ec)" by fastforce
  let ?p = "chunk_payload env job_id stats (sy_now s) i (cs = []) nc ec"
  obtain res1 t new where one: "send_chunk env job_id stats i (cs = []) nc ec res s = (Inr res1, t)"
    and new: "sy_posted t = sy_posted s @ new"
    and kept: "delivered s t ?p \<and> sy_queue t = sy_queue s \<or>
      (\<exists>u. sy_queue t = dict_set (queue_name job_id i u) (Some ?p) (sy_queue s))"
    using assms by (rule send_chunk_run)
  obtain res' s' ps new' where rest: "send_chunks env job_id stats (Suc i) cs res1 t = (Inr res', s')"
    and new': "sy_posted s' = sy_posted t @ new'"
    and parts: "map (\<lambda>p. (payload_list p ''nodes'', payload_list p ''edges'')) ps = cs"
    and finals: "map payload_final ps = (if cs = [] then [] else replicate (length cs - 1) False @ [True])"
    and all: "list_all (\<lambda>p. delivered t s' p \<or>
        (\<exists>j u. Suc i \<le> j \<and> map_of (sy_queue s') (queue_name job_id j u) = Some (Some p))) ps"
    and before: "\<And>j u. j < Suc i \<Longrightarrow> map_of (sy_queue s') (queue_name job_id j u) = map_of (sy_queue t) (queue_name job_id j u)"
    using Cons.IH [of "Suc i" res1 t] by blast
  have first: "delivered s s' ?p \<or> (\<exists>j u. i \<le> j \<and> map_of (sy_queue s') (queue_name job_id j u) = Some (Some ?p))"
    using kept
  proof
    assume "delivered s t ?p \<and> sy_queue t = sy_queue s"
    then show ?thesis using delivered_trans [OF new new'] by blast
  next
    assume "\<exists>u. sy_queue t = dict_set (queue_name job_id i u) (Some ?p) (sy_queue s)"
    then obtain u where "sy_queue t = dict_set (queue_name job_id i u) (Some ?p) (sy_queue s)" by blast
    then have "map_of (sy_queue s') (queue_name job_id i u) = Some (Some ?p)"
      using before [of i u] by (simp add: map_of_dict_set)
    then show ?thesis by blast
  qed
  have others: "list_all (\<lambda>p. delivered s s' p \<or>
      (\<exists>j u. i \<le> j \<and> map_of (sy_queue s') (queue_name job_id j u) = Some (Some p))) ps"
    using all
  proof (rule list.pred_mono_strong)
    fix p assume "delivered t s' p \<or> (\<exists>j u. Suc i \<le> j \<and> map_of (sy_queue s') (queue_name job_id j u) = Some (Some p))"
    then show "delivered s s' p \<or> (\<exists>j u. i \<le> j \<and> map_of (sy_queue s') (queue_name job_id j u) = Some (Some p))"
      using delivered_trans [OF new new'] Suc_leD by blast
  qed
  have frame: "map_of (sy_queue s') (queue_name job_id j u) = map_of (sy_queue s) (queue_name job_id j u)" if "j < i" for j u
    using before [of j u] kept that by (auto simp: map_of_dict_set dest: queue_name_inject)
  have fin: "map payload_final (?p # ps) = replicate (length (c # cs) - 1) False @ [True]"
    using finals by (cases cs) auto
  show ?case
  proof (intro exI conjI allI impI)
    show "send_chunks env job_id stats i (c # cs) res s = (Inr res', s')" using one rest by (simp add: c)
    show "sy_posted s' = sy_posted s @ (new @ new')" using new new' by simp
    show "map (\<lambda>p. (payload_list p ''nodes'', payload_list p ''edges'')) (?p # ps) = c # cs" using parts by (simp add: c)
    show "map payload_final (?p # ps) = (if c # cs = [] then [] else replicate (length (c # cs) - 1) False @ [True])"
      using fin by simp
    show "list_all (\<lambda>p. delivered s s' p \<or> (\<exists>j t. i \<le> j \<and> map_of (sy_queue s') (queue_name job_id j t) = Some (Some p))) (?p # ps)"
      unfolding list.pred_inject using first others by (rule conjI)
  qed (rule frame)
qed

text \<open>C23: 
  With a positive chunk size and replies that are clean, sending a delta returns; it cuts the nodes and
  edges into payloads, in order and nothing left out, of which the last one only is final, and each
  payload has been acknowledged by the backend or stands in the queue.
\<close>

theorem delta_kept:
  assumes "0 < sy_chunk_size env" and "\<And>n p. clean_reply (sy_server env n p)"
  shows "\<exists>res s' ps. send_delta env job_id nodes edges stats s = (Inr res, s') \<and>
    concat (map (\<lambda>p. payload_list p ''nodes'') ps) = nodes \<and>
    concat (map (\<lambda>p. payload_list p ''edges'') ps) = edges \<and>
    map payload_final ps = replicate (length ps - 1) False @ [True] \<and>
    list_all (\<lambda>p. delivered s s' p \<or> queued s' p) ps"
proof -
  obtain cs where cs: "aligned_chunks nodes edges (sy_chunk_size env) = Inr cs"
    using chunks_returns [OF assms(1), of nodes] chunks_returns [OF assms(1), of edges]
    by (auto simp: aligned_chunks_def Let_def)
  let ?res = "\<lparr> dr_chunks_sent = 0, dr_nodes_merged = 0, dr_edges_merged = 0, dr_errors = 0 \<rparr>"
  obtain res s' ps where run: "send_chunks env job_id stats 0 cs ?res s = (Inr res, s')"
    and parts: "map (\<lambda>p. (payload_list p ''nodes'', payload_list p ''edges'')) ps = cs"
    and finals: "map payload_final ps = (if cs = [] then [] else replicate (length cs - 1) False @ [True])"
    and kept: "list_all (\<lambda>p. delivered s s' p \<or>
        (\<exists>j t. 0 \<le> j \<and> map_of (sy_queue s') (queue_name job_id j t) = Some (Some p))) ps"
    using send_chunks_run [OF assms(2), of job_id stats 0 cs ?res s] by blast
  have ex: "concat (map fst cs) = nodes \<and> concat (map snd cs) = edges \<and> cs \<noteq> []"
    using aligned_chunks_exact [OF assms(1) cs] by blast
  have len: "length ps = length cs" using parts by auto
  have "send_delta env job_id nodes edges stats s = (Inr res, s')" using run by (simp add: send_delta_def cs)
  moreover have "concat (map (\<lambda>p. payload_list p ''nodes'') ps) = nodes \<and>
      concat (map (\<lambda>p. payload_list p ''edges'') ps) = edges"
    using ex parts [symmetric] by (simp add: o_def)
  moreover have "map payload_final ps = replicate (length ps - 1) False @ [True]" using finals ex by (simp add: len)
  moreover have "list_all (\<lambda>p. delivered s s' p \<or> queued s' p) ps"
    using kept by (auto simp: list_all_iff queued_def list_ex_iff dest!: map_of_SomeD)
  ultimately show ?thesis by blast
qed


text \<open>
  A chunk costs at most five requests, and besides the time of the requests at most 62 seconds of pauses;
  sending it leaves the queue as it is.
\<close>

theorem chunk_delivery_bounds:
  "case send_chunk_with_retry env payload 5 s of (r, s') \<Rightarrow>
     sy_requests s' \<le> sy_requests s + 5 \<and> sy_now s \<le> sy_now s' \<and>
     of_int (sy_now s' - sy_now s) \<le> of_nat (requests_took env s s') + (62000000 :: rat) \<and>
     sy_queue s' = sy_queue s"
proof -
  obtain r s' where run: "send_attempts env payload 5 2 s = (r, s')" by fastforce
  have delay: "total_delay 5 2 = 62" by (simp add: eval_nat_numeral)
  show ?thesis
    using send_attempts_step [OF run] send_attempts_clock [OF run]
    by (simp add: send_chunk_with_retry_def run attempts_step_def delay)
qed

text \<open>Against a backend that acknowledges everything, each payload is posted once and nothing is queued.\<close>

lemma send_chunk_accepted:
  assumes "\<And>n p. acknowledged (sy_server env n p) \<and> clean_reply (sy_server env n p)"
  shows "\<exists>res' s'. send_chunk env job_id stats i fin nc ec res s = (Inr res', s') \<and> sy_queue s' = sy_queue s \<and>
    map fst (sy_posted s') = map fst (sy_posted s) @ [chunk_payload env job_id stats (sy_now s) i fin nc ec]"
proof -
  let ?p = "chunk_payload env job_id stats (sy_now s) i fin nc ec"
  from assms [of "sy_requests s" ?p] obtain v where v: "sy_server env (sy_requests s) ?p = Response 200 (Some v)" "truthy v"
    and counts: "list_all (\<lambda>k. case result_count v k of Inl _ \<Rightarrow> False | Inr _ \<Rightarrow> True)
       [''nodes_merged'', ''edges_merged'', ''errors'']"
    by (auto simp: acknowledged_def clean_reply_def split: sync_reply.splits option.splits)
  from count_result_clean [OF counts] obtain res' where
    "count_result v res (posted env ?p s) = (Inr res', posted env ?p s)" by blast
  with v have "send_chunk env job_id stats i fin nc ec res s = (Inr res', posted env ?p s)"
    by (simp add: send_chunk_def send_chunk_with_retry_def eval_nat_numeral posted_simps Let_def)
  then show ?thesis by (simp add: posted_simps)
qed

lemma send_chunks_accepted:
  assumes "\<And>n p. acknowledged (sy_server env n p) \<and> clean_reply (sy_server env n p)"
  shows "\<exists>res' s' ps. send_chunks env job_id stats i cs res s = (Inr res', s') \<and> sy_queue s' = sy_queue s \<and>
    map fst (sy_posted s') = map fst (sy_posted s) @ ps \<and>
    map (\<lambda>p. (payload_list p ''nodes'', payload_list p ''edges'')) ps = cs \<and>
    length (filter payload_final ps) = (if cs = [] then 0 else 1)"
proof (induction cs arbitrary: i res s)
  case (Cons c cs)
  obtain nc ec where c: "c = (nc, ec)" by fastforce
  let ?p = "chunk_payload env job_id stats (sy_now s) i (cs = []) nc ec"
  obtain res1 t where one: "send_chunk env job_id stats i (cs = []) nc ec res s = (Inr res1, t)"
    "sy_queue t = sy_queue s" "map fst (sy_posted t) = map fst (sy_posted s) @ [?p]"
    using send_chunk_accepted [OF assms, of job_id stats i "cs = []" nc ec res s]
    by (elim exE conjE) (rule that)
  obtain res' s' ps where rest: "send_chunks env job_id stats (Suc i) cs res1 t = (Inr res', s')"
    "sy_queue s' = sy_queue t" "map fst (sy_posted s') = map fst (sy_posted t) @ ps"
    "map (\<lambda>p. (payload_list p ''nodes'', payload_list p ''edges'')) ps = cs"
    "length (filter payload_final ps) = (if cs = [] then 0 else 1)"
    using Cons.IH [of "Suc i" res1 t] by (elim exE conjE) (rule that)
  show ?case
  proof (intro exI conjI)
    show "send_chunks env job_id stats i (c # cs) res s = (Inr res', s')" using one rest by (simp add: c)
    show "map fst (sy_posted s') = map fst (sy_posted s) @ (?p # ps)" using one rest by simp
    show "length (filter payload_final (?p # ps)) = (if c # cs = [] then 0 else 1)" using rest(5) by simp
  qed (use one rest c in simp_all)
qed (auto intro!: exI [of _ "[]"])

lemma send_delta_accepted:
  assumes "0 < sy_chunk_size env"
    and "\<And>n p. acknowledged (sy_server env n p) \<and> clean_reply (sy_server env n p)"
  shows "\<exists>res s' ps. send_delta env job_id nodes edges stats s = (Inr res, s') \<and> sy_queue s' = sy_queue s \<and>
    map fst (sy_posted s') = map fst (sy_posted s) @ ps \<and>
    concat (map (\<lambda>p. payload_list p ''nodes'') ps) = nodes \<and>
    concat (map (\<lambda>p. payload_list p ''edges'') ps) = edges \<and> length (filter payload_final ps) = 1"
proof -
  obtain cs where cs: "aligned_chunks nodes edges (sy_chunk_size env) = Inr cs"
    using chunks_returns [OF assms(1), of nodes] chunks_returns [OF assms(1), of edges]
    by (auto simp: aligned_chunks_def Let_def)
  let ?res = "\<lparr> dr_chunks_sent = 0, dr_nodes_merged = 0, dr_edges_merged = 0, dr_errors = 0 \<rparr>"
  obtain res s' ps where run: "send_chunks env job_id stats 0 cs ?res s = (Inr res, s')"
    "sy_queue s' = sy_queue s" "map fst (sy_posted s') = map fst (sy_posted s) @ ps"
    "map (\<lambda>p. (payload_list p ''nodes'', payload_list p ''edges'')) ps = cs"
    "length (filter payload_final ps) = (if cs = [] then 0 else 1)"
    using send_chunks_accepted [OF assms(2), of job_id stats 0 cs ?res s] by (elim exE conjE) (rule that)
  have "concat (map fst cs) = nodes \<and> concat (map snd cs) = edges \<and> cs \<noteq> []"
    using aligned_chunks_exact [OF assms(1) cs] by blast
  moreover have "map fst cs = map (\<lambda>p. payload_list p ''nodes'') ps" "map snd cs = map (\<lambda>p. payload_list p ''edges'') ps"
    unfolding run(4) [symmetric] by simp_all
  moreover have "send_delta env job_id nodes edges stats s = (Inr res, s')" using run(1) by (simp add: send_delta_def cs)
  ultimately show ?thesis using run(2,3,5) by (intro exI conjI) simp_all
qed

section \<open>What the queue loses and keeps\<close>

lemma dict_set_dict_set [simp]: "dict_set k v (dict_set k w d) = dict_set k v d"
  by (induction k v d rule: dict_set.induct) auto

lemma chunks_single: "0 < n \<Longrightarrow> length xs \<le> nat n \<Longrightarrow> chunks xs n = Inr [xs]"
proof (cases "xs = []")
  case False
  assume n: "0 < n" "length xs \<le> nat n"
  then have len: "1 \<le> length xs" using False by (cases xs) auto
  have "length xs + nat n - 1 = nat n + (length xs - 1)" using len by simp
  moreover have "length xs - 1 < nat n" using n len by linarith
  ultimately have "(length xs + nat n - 1) div nat n = 1" using n by (simp only: div_add_self1 div_less)
  moreover have "max (length xs) 1 = length xs" using len by simp
  ultimately have "range_step (max (length xs) 1) (nat n) = [0]" unfolding range_step_def by simp
  then show ?thesis using n False by (simp add: chunks_def)
qed (simp add: chunks_def)

lemma aligned_chunks_single:
  "0 < n \<Longrightarrow> length nodes \<le> nat n \<Longrightarrow> length edges \<le> nat n \<Longrightarrow>
   aligned_chunks nodes edges n = Inr [(nodes, edges)]"
  by (simp add: aligned_chunks_def chunks_single pad_to_def)

definition refuses :: "sync_env \<Rightarrow> bool" where
  "refuses env \<longleftrightarrow> sy_server env = (\<lambda>n p. Response 403 None) \<and> sy_takes env = (\<lambda>n. 0)"

definition after_refusal ::
  "sync_env \<Rightarrow> string \<Rightarrow> json list \<Rightarrow> json list \<Rightarrow> delta_stats \<Rightarrow> sync_state \<Rightarrow> sync_state" where
  "after_refusal env job_id nodes edges stats s =
     (let p = chunk_payload env job_id stats (sy_now s) 0 True nodes edges
       in s\<lparr>sy_requests := Suc (sy_requests s), sy_posted := sy_posted s @ [(p, Response 403 None)],
            sy_queue := dict_set (queue_name job_id 0 (sy_now s)) (Some p) (sy_queue s)\<rparr>)"

lemma send_delta_refused:
  assumes "refuses env" and "0 < sy_chunk_size env"
    and "length nodes \<le> nat (sy_chunk_size env)" and "length edges \<le> nat (sy_chunk_size env)"
  shows "snd (send_delta env job_id nodes edges stats s) = after_refusal env job_id nodes edges stats s"
  using assms(1) aligned_chunks_single [OF assms(2-4)]
  by (simp add: refuses_def send_delta_def send_chunk_def send_chunk_with_retry_def post_chunk_def Let_def
      enqueue_chunk_def eval_nat_numeral after_refusal_def)

text \<open>
  The file of a chunk is named after the job, the index and the second, and every delta counts its chunks
  from zero: when a backend refuses two deltas of a job within one second, the queue is the one the second
  of them alone would have left. The first is neither delivered nor queued.
\<close>

theorem same_second_lost:
  assumes "refuses env" and "0 < sy_chunk_size env"
    and "length nodes \<le> nat (sy_chunk_size env)" and "length edges \<le> nat (sy_chunk_size env)"
    and "length nodes' \<le> nat (sy_chunk_size env)" and "length edges' \<le> nat (sy_chunk_size env)"
  shows "let s1 = snd (send_delta env job_id nodes edges stats s);
             s2 = snd (send_delta env job_id nodes' edges' stats' s1)
    in sy_queue s2 = sy_queue (snd (send_delta env job_id nodes' edges' stats' s)) \<and>
       \<not> delivered s s2 (chunk_payload env job_id stats (sy_now s) 0 True nodes edges)"
  by (simp add: send_delta_refused [OF assms(1-4)] send_delta_refused [OF assms(1-2) assms(5-6)]
      after_refusal_def delivered_def acknowledged_def Let_def)

definition file_chunk :: "sync_state \<Rightarrow> string \<Rightarrow> json option" where
  "file_chunk s f = (case map_of (sy_queue s) f of Some v \<Rightarrow> v | None \<Rightarrow> None)"

lemma map_of_without: "g \<noteq> f \<Longrightarrow> map_of (filter (\<lambda>e. fst e \<noteq> f) q) g = map_of q g"
  by (induction q) auto

lemma unlink_run: "unlink f s = (Inr (), s\<lparr>sy_queue := filter (\<lambda>e. fst e \<noteq> f) (sy_queue s)\<rparr>)"
  by (simp add: unlink_def case_prod_unfold)

text \<open>One file: it goes when its payload is acknowledged; otherwise the queue stays.\<close>

lemma flush_file_cases:
  obtains (kept) s' new where "flush_file env f sent s = (Inr sent, s')" and "sy_queue s' = sy_queue s"
    and "sy_posted s' = sy_posted s @ new"
  | (sent) p s' new where "flush_file env f sent s = (Inr (Suc sent), s')"
    and "sy_queue s' = filter (\<lambda>e. fst e \<noteq> f) (sy_queue s)" and "file_chunk s f = Some p"
    and "sy_posted s' = sy_posted s @ new" and "delivered s s' p"
proof (cases "file_chunk s f")
  case None
  then show ?thesis using kept [of s]
    by (auto simp: flush_file_def read_chunk_def file_chunk_def split: option.splits)
next
  case (Some p)
  then have content: "map_of (sy_queue s) f = Some (Some p)" by (auto simp: file_chunk_def split: option.splits)
  obtain r t where run: "send_attempts env p 3 2 s = (r, t)" by fastforce
  have same: "sy_queue t = sy_queue s" and "\<exists>new. sy_posted t = sy_posted s @ new"
    using send_attempts_step [OF run] unfolding attempts_step_def by blast+
  then obtain new where new: "sy_posted t = sy_posted s @ new" by blast
  show ?thesis
  proof (cases "\<exists>v. r = Inr v \<and> truthy v")
    case True
    then obtain v where v: "r = Inr v" "truthy v" by blast
    obtain new' where last_post: "sy_posted t = sy_posted s @ new' @ [(p, Response 200 (Some v))]"
      using send_attempts_acknowledged run v by blast
    let ?t = "t\<lparr>sy_queue := filter (\<lambda>e. fst e \<noteq> f) (sy_queue t)\<rparr>"
    have "flush_file env f sent s = (Inr (Suc sent), ?t)"
      using content run v by (simp add: flush_file_def read_chunk_def send_chunk_with_retry_def unlink_run)
    moreover have "delivered s ?t p" using last_post v by (simp add: delivered_def acknowledged_def)
    ultimately show ?thesis using \<open>file_chunk s f = Some p\<close> new same by (intro sent) auto
  next
    case False
    then have "flush_file env f sent s = (Inr sent, t)"
      using content run by (cases r) (auto simp: flush_file_def read_chunk_def send_chunk_with_retry_def)
    then show ?thesis using same new by (rule kept)
  qed
qed

lemma flush_files_run:
  "distinct fs \<Longrightarrow> \<exists>k s' new removed. flush_files env fs sent s = (Inr (sent + k), s') \<and> k = length removed \<and>
     sy_posted s' = sy_posted s @ new \<and> distinct removed \<and> set removed \<subseteq> set fs \<and>
     sy_queue s' = filter (\<lambda>e. fst e \<notin> set removed) (sy_queue s) \<and>
     list_all (\<lambda>f. case file_chunk s f of Some p \<Rightarrow> delivered s s' p | None \<Rightarrow> False) removed"
proof (induction fs arbitrary: sent s)
  case Nil
  show ?case by (auto intro!: exI [of _ "[]"])
next
  case (Cons f fs)
  show ?case
  proof (cases rule: flush_file_cases [of env f sent s])
    case (kept t new)
    obtain k s' new' removed where rest: "flush_files env fs sent t = (Inr (sent + k), s')" "k = length removed"
      "sy_posted s' = sy_posted t @ new'" "distinct removed" "set removed \<subseteq> set fs"
      "sy_queue s' = filter (\<lambda>e. fst e \<notin> set removed) (sy_queue t)"
      "list_all (\<lambda>f. case file_chunk t f of Some p \<Rightarrow> delivered t s' p | None \<Rightarrow> False) removed"
      using Cons.IH [of sent t] Cons.prems by auto
    have "list_all (\<lambda>f. case file_chunk s f of Some p \<Rightarrow> delivered s s' p | None \<Rightarrow> False) removed"
      using rest(7) delivered_trans [OF kept(3) rest(3)] kept(2)
      by (auto simp: list_all_iff file_chunk_def split: option.splits)
    then show ?thesis using kept rest
      by (intro exI [of _ k] exI [of _ s'] exI [of _ "new @ new'"] exI [of _ removed]) auto
  next
    case (sent p t new)
    obtain k s' new' removed where rest: "flush_files env fs (Suc sent) t = (Inr (Suc sent + k), s')" "k = length removed"
      "sy_posted s' = sy_posted t @ new'" "distinct removed" "set removed \<subseteq> set fs"
      "sy_queue s' = filter (\<lambda>e. fst e \<notin> set removed) (sy_queue t)"
      "list_all (\<lambda>f. case file_chunk t f of Some p \<Rightarrow> delivered t s' p | None \<Rightarrow> False) removed"
      using Cons.IH [of "Suc sent" t] Cons.prems by auto
    have "f \<notin> set removed" using rest(5) Cons.prems by auto
    have keep: "file_chunk t g = file_chunk s g" if "g \<in> set removed" for g
    proof -
      have "g \<noteq> f" using that \<open>f \<notin> set removed\<close> by blast
      then show ?thesis by (simp add: file_chunk_def sent(2) map_of_without)
    qed
    have "list_all (\<lambda>g. case file_chunk s g of Some p \<Rightarrow> delivered s s' p | None \<Rightarrow> False) (f # removed)"
      using rest(7) delivered_trans [OF sent(4) rest(3)] sent(3) sent(5)
      by (auto simp: list_all_iff keep [symmetric] split: option.splits)
    moreover have "sy_queue s' = filter (\<lambda>e. fst e \<notin> set (f # removed)) (sy_queue s)"
      by (simp add: rest(6) sent(2) conj_commute)
    ultimately show ?thesis using sent rest \<open>f \<notin> set removed\<close>
      by (intro exI [of _ "Suc k"] exI [of _ s'] exI [of _ "new @ new'"] exI [of _ "f # removed"]) auto
  qed
qed

text \<open>C24: 
  Flushing the queue always returns; the files it removes are exactly as many as it counts, each one a
  file of the queue whose payload the backend has just acknowledged. Every other file stays, also one the
  backend refuses for good.
\<close>

theorem flush_exact:
  assumes "distinct (map fst (sy_queue s))"
  shows "\<exists>k s' removed. flush_queue env s = (Inr k, s') \<and> k = length removed \<and> distinct removed \<and>
    set removed \<subseteq> set (queued_names (sy_queue s)) \<and>
    sy_queue s' = filter (\<lambda>e. fst e \<notin> set removed) (sy_queue s) \<and>
    list_all (\<lambda>f. case file_chunk s f of Some p \<Rightarrow> delivered s s' p | None \<Rightarrow> False) removed"
proof -
  have "distinct (queued_names (sy_queue s))" using assms by (simp add: queued_names_def)
  from flush_files_run [OF this, of env 0 s] show ?thesis by (force simp: flush_queue_def)
qed


section \<open>Examples\<close>

definition example_sync_env :: "sync_reply \<Rightarrow> sync_env" where
  "example_sync_env r =
     \<lparr> sy_server = (\<lambda>n p. r), sy_takes = (\<lambda>n. 0), sy_isoformat = (\<lambda>t. ''2026-01-01T00:00:00+00:00''),
       sy_scanner_id = ''s1'', sy_tenant_id = ''t1'', sy_chunk_size = 2 \<rparr>"

definition example_sync_state :: sync_state where
  "example_sync_state = \<lparr> sy_now = 0, sy_requests = 0, sy_posted = [],
     sy_queue = [(''j_0_0.json'', Some (JObj [(''chunk_index'', JInt 0)])), (''bad.json'', None)] \<rparr>"

definition example_ack :: sync_reply where
  "example_ack = Response 200 (Some (JObj [(''nodes_merged'', JInt 2)]))"

lemma example_clean: "clean_reply (sy_server (example_sync_env example_ack) n p)"
  by (simp add: example_sync_env_def example_ack_def clean_reply_def result_count_def dict_get_or_def)

lemma delta_kept_witness:
  "case send_delta (example_sync_env example_ack) ''j'' [JInt 1, JInt 2, JInt 3] [JInt 4] \<lparr> ds_total_files = 3, ds_total_nodes = 0, ds_errors = 0 \<rparr>
      example_sync_state of
     (Inl e, s') \<Rightarrow> False | (Inr res, s') \<Rightarrow> dr_chunks_sent res = 2 \<and> dr_nodes_merged res = 4"
proof -
  let ?st = "\<lparr> ds_total_files = 3, ds_total_nodes = 0, ds_errors = 0 \<rparr>"
  have "0 < sy_chunk_size (example_sync_env example_ack)" by (simp add: example_sync_env_def)
  from delta_kept [OF this example_clean, of "''j''" "[JInt 1, JInt 2, JInt 3]" "[JInt 4]" ?st example_sync_state]
  obtain res s' where "send_delta (example_sync_env example_ack) ''j'' [JInt 1, JInt 2, JInt 3] [JInt 4] ?st example_sync_state = (Inr res, s')"
    by blast
  moreover have "case send_delta (example_sync_env example_ack) ''j'' [JInt 1, JInt 2, JInt 3] [JInt 4] ?st example_sync_state of
     (Inl e, s') \<Rightarrow> True | (Inr res, s') \<Rightarrow> dr_chunks_sent res = 2 \<and> dr_nodes_merged res = 4"
    by code_simp
  ultimately show ?thesis by simp
qed

lemma same_second_lost_witness:
  "let env = example_sync_env (Response 403 None);
       st = \<lparr> ds_total_files = 1, ds_total_nodes = 0, ds_errors = 0 \<rparr>;
       s1 = snd (send_delta env ''job'' [JInt 1] [] st example_sync_state);
       s2 = snd (send_delta env ''job'' [JInt 2] [] st s1)
    in map fst (sy_queue s2) = [''j_0_0.json'', ''bad.json'', ''job_0_0.json''] \<and>
       \<not> delivered example_sync_state s2 (chunk_payload env ''job'' st 0 0 True [JInt 1] [])"
proof -
  let ?env = "example_sync_env (Response 403 None)"
  let ?st = "\<lparr> ds_total_files = 1, ds_total_nodes = 0, ds_errors = 0 \<rparr>"
  have env: "refuses ?env" "0 < sy_chunk_size ?env" "nat (sy_chunk_size ?env) = 2"
    by (simp_all add: refuses_def example_sync_env_def)
  have names: "map fst (sy_queue (snd (send_delta ?env ''job'' [JInt 2] [] ?st example_sync_state))) =
      [''j_0_0.json'', ''bad.json'', ''job_0_0.json'']" by code_simp
  have now: "sy_now example_sync_state = 0" by (simp add: example_sync_state_def)
  from same_second_lost [OF env(1-2), of "[JInt 1]" "[]" "[JInt 2]" "[]" "''job''" ?st example_sync_state ?st]
  show ?thesis using names by (simp add: env(3) Let_def now)
qed

lemma flush_exact_witness:
  "flush_queue (example_sync_env example_ack) example_sync_state =
     (Inr 1, \<lparr> sy_now = 0, sy_requests = 1, sy_posted = [(JObj [(''chunk_index'', JInt 0)], example_ack)],
               sy_queue = [(''bad.json'', None)] \<rparr>)"
proof -
  have "distinct (map fst (sy_queue example_sync_state))" by (simp add: example_sync_state_def)
  from flush_exact [OF this, of "example_sync_env example_ack"]
  obtain k s' where "flush_queue (example_sync_env example_ack) example_sync_state = (Inr k, s')" by blast
  then show ?thesis by code_simp
qed

end
