(* ===== verification/Scanner_Agent.thy ===== *)
theory Scanner_Agent
  imports Sdk Scanner_Client
begin

text \<open>
  The rest of the scanner agent: \<open>scanner-agent/src/connectors/base.py\<close> and \<open>local.py\<close>, the walk over a
  directory and the batches sent from it, and \<open>scanner-agent/src/main.py\<close>, the loop that keeps in touch
  with the backend, and its jobs.

  A directory is the tree of the connector SDK's theory; the times of the directories and SHA-256 are
  parameters. The module \<open>connectors/smb.py\<close> has a \<open>yield from\<close> inside an \<open>async def\<close>, which Python
  refuses to compile, so importing it raises \<open>SyntaxError\<close>; \<open>main.py\<close> does not import \<open>uuid\<close>.
\<close>

section \<open>Records of files\<close>

record scan_env =
  sa_sync :: sync_env
  sa_sha256_hex :: "string \<Rightarrow> string"
  sa_tree :: "string \<Rightarrow> fs_node option"
  sa_dir_mtime :: "string \<Rightarrow> rat option"

record scan_record =
  sn_path :: string
  sn_name :: string
  sn_size_bytes :: int
  sn_modified :: rat
  sn_sha256 :: "string option"
  sn_suffix :: string
  sn_is_dir :: bool
  sn_host :: string
  sn_share :: string

definition stable_key :: "scan_env \<Rightarrow> scan_record \<Rightarrow> string \<Rightarrow> string" where
  "stable_key env r path = take 24 (sa_sha256_hex env (sn_host r @ '':'' @ sn_share r @ '':'' @ path))"

definition agent_stable_id :: "scan_env \<Rightarrow> scan_record \<Rightarrow> string" where
  "agent_stable_id env r = stable_key env r (sn_path r)"

definition to_node_dict :: "scan_env \<Rightarrow> string \<Rightarrow> scan_record \<Rightarrow> json" where
  "to_node_dict env connector_id r =
     JObj [(''op'', JStr ''upsert''), (''type'', JStr (if sn_is_dir r then ''Directory'' else ''File'')),
       (''id'', JStr (agent_stable_id env r)),
       (''props'', JObj [(''path'', JStr (sn_path r)), (''name'', JStr (sn_name r)),
          (''size_bytes'', JInt (if sn_is_dir r then 0 else sn_size_bytes r)), (''modified'', JNum (sn_modified r)),
          (''sha256'', JStr (str_or (sn_sha256 r) '''')), (''extension'', JStr (sn_suffix r)),
          (''host'', JStr (sn_host r)), (''share'', JStr (sn_share r)), (''connector_id'', JStr connector_id)])]"

definition parent_edge :: "scan_env \<Rightarrow> scan_record \<Rightarrow> json option" where
  "parent_edge env r =
     (let parent_path = path_str (path_parent (parse_path (sn_path r)))
      in if parent_path = sn_path r then None
         else Some (JObj [(''op'', JStr ''upsert''), (''type'', JStr ''CHILD_OF''), (''from'', JStr (agent_stable_id env r)),
                (''to'', JStr (stable_key env r parent_path)), (''props'', JObj [])]))"

section \<open>The local connector\<close>

definition SKIP_DIRS :: "string list" where
  "SKIP_DIRS = [''/proc'', ''/sys'', ''/dev'', ''/run'']"

text \<open>\<open>os.path.join(dirpath, d)\<close> of a name in a listing.\<close>

definition os_path_join :: "string \<Rightarrow> string \<Rightarrow> string" where
  "os_path_join dirpath d = (if dirpath = '''' \<or> last dirpath = CHR ''/'' then dirpath @ d else dirpath @ ''/'' @ d)"

definition dir_record :: "string \<Rightarrow> rat \<Rightarrow> scan_record" where
  "dir_record dirpath mtime =
     \<lparr> sn_path = dirpath, sn_name = path_name (parse_path dirpath), sn_size_bytes = 0, sn_modified = mtime,
       sn_sha256 = None, sn_suffix = '''', sn_is_dir = True, sn_host = '''', sn_share = '''' \<rparr>"

definition entry_record :: "string \<Rightarrow> string \<times> fs_node \<Rightarrow> scan_record option" where
  "entry_record dirpath entry =
     (case entry of
        (fname, FsFile (Some (size_bytes, mtime))) \<Rightarrow>
          Some \<lparr> sn_path = os_path_join dirpath fname, sn_name = fname, sn_size_bytes = size_bytes, sn_modified = mtime,
                 sn_sha256 = None, sn_suffix = str_lower (path_suffix (parse_path fname)), sn_is_dir = False,
                 sn_host = '''', sn_share = '''' \<rparr>
      | _ \<Rightarrow> None)"

fun walk_dir :: "scan_env \<Rightarrow> string \<Rightarrow> fs_node \<Rightarrow> scan_record gen"
and walk_subdirs :: "scan_env \<Rightarrow> string \<Rightarrow> (string \<times> fs_node) list \<Rightarrow> scan_record gen" where
  "walk_dir env dirpath (FsFile st) = ([], None)"
| "walk_dir env dirpath (FsDir link readable es) =
     (if \<not> readable then ([], None)
      else (case sa_dir_mtime env dirpath of
              None \<Rightarrow> gen_fail (OtherError ''OSError'')
            | Some mtime \<Rightarrow>
                gen_then (dir_record dirpath mtime # List.map_filter (entry_record dirpath) es, None)
                  (walk_subdirs env dirpath es)))"
| "walk_subdirs env dirpath [] = ([], None)"
| "walk_subdirs env dirpath ((name, n) # es) =
     gen_then
       (if is_dir n \<and> os_path_join dirpath name \<notin> set SKIP_DIRS \<and> \<not> is_link n
        then walk_dir env (os_path_join dirpath name) n else ([], None))
       (walk_subdirs env dirpath es)"

definition agent_walk :: "scan_env \<Rightarrow> string \<Rightarrow> scan_record gen" where
  "agent_walk env uri =
     (let root = path_str (parse_path uri)
      in case sa_tree env root of None \<Rightarrow> ([], None) | Some n \<Rightarrow> walk_dir env root n)"

section \<open>Batches\<close>

record scan_progress =
  sp_nodes :: "json list"
  sp_edges :: "json list"
  sp_total_files :: nat
  sp_total_errors :: nat
  sp_chunk_index :: nat

text \<open>One record: an exception of the sending is counted, and the batch stays.\<close>

definition take_record :: "scan_env \<Rightarrow> string \<Rightarrow> string \<Rightarrow> nat \<Rightarrow> scan_record \<Rightarrow> scan_progress \<Rightarrow> scan_progress sync" where
  "take_record env connector_id job_id batch_size r a =
     (let a = a\<lparr>sp_nodes := sp_nodes a @ [to_node_dict env connector_id r],
                sp_edges := sp_edges a @ (case parent_edge env r of None \<Rightarrow> [] | Some e \<Rightarrow> [e]),
                sp_total_files := Suc (sp_total_files a)\<rparr>
      in if length (sp_nodes a) \<ge> batch_size then
           py_try
             (thn (send_delta (sa_sync env) job_id (sp_nodes a) (sp_edges a)
                     \<lparr> ds_total_files = sp_total_files a, ds_total_nodes = 0, ds_errors = 0 \<rparr>)
                (ret (a\<lparr>sp_nodes := [], sp_edges := [], sp_chunk_index := Suc (sp_chunk_index a)\<rparr>)))
             (\<lambda>_. ret (a\<lparr>sp_total_errors := Suc (sp_total_errors a)\<rparr>))
         else ret a)"

fun take_records :: "scan_env \<Rightarrow> string \<Rightarrow> string \<Rightarrow> nat \<Rightarrow> scan_record list \<Rightarrow> scan_progress \<Rightarrow> scan_progress sync" where
  "take_records env connector_id job_id batch_size [] a = ret a"
| "take_records env connector_id job_id batch_size (r # rs) a =
     bnd (take_record env connector_id job_id batch_size r a) (take_records env connector_id job_id batch_size rs)"

record scan_stats =
  st_total_files :: nat
  st_total_errors :: nat
  st_chunks_sent :: nat

definition scan_and_sync :: "scan_env \<Rightarrow> string \<Rightarrow> scan_record gen \<Rightarrow> string \<Rightarrow> nat \<Rightarrow> scan_stats sync" where
  "scan_and_sync env connector_id records job_id batch_size =
     bnd (take_records env connector_id job_id batch_size (fst records)
            \<lparr> sp_nodes = [], sp_edges = [], sp_total_files = 0, sp_total_errors = 0, sp_chunk_index = 0 \<rparr>) (\<lambda>a.
     thn (case snd records of None \<Rightarrow> ret () | Some e \<Rightarrow> raise e)
    (thn (py_when (sp_nodes a \<noteq> [] \<or> sp_edges a \<noteq> [])
            (thn (send_delta (sa_sync env) job_id (sp_nodes a) (sp_edges a)
                    \<lparr> ds_total_files = sp_total_files a, ds_total_nodes = 0, ds_errors = sp_total_errors a \<rparr>) (ret ())))
         (ret \<lparr> st_total_files = sp_total_files a, st_total_errors = sp_total_errors a,
                st_chunks_sent = Suc (sp_chunk_index a) \<rparr>)))"

section \<open>The agent\<close>

record agent_state =
  ag_last_sync :: "time option"
  ag_last_sync_status :: string
  ag_files_indexed :: nat
  ag_errors :: nat
  ag_backend_reachable :: bool
  ag_backend_version :: json
  ag_current_scan :: "string option"
  ag_connectors :: nat

definition initial_agent :: agent_state where
  "initial_agent = \<lparr> ag_last_sync = None, ag_last_sync_status = ''never'', ag_files_indexed = 0, ag_errors = 0,
     ag_backend_reachable = False, ag_backend_version = JStr ''unknown'', ag_current_scan = None, ag_connectors = 0 \<rparr>"

definition readiness :: "string \<Rightarrow> string \<Rightarrow> agent_state \<Rightarrow> nat \<times> bool option" where
  "readiness backend_url api_key a =
     (if backend_url = '''' \<or> api_key = '''' then (503, None) else (200, Some (ag_backend_reachable a)))"

record scanning_status =
  ss_status :: string
  ss_files_indexed :: nat
  ss_errors :: nat
  ss_last_sync :: "time option"
  ss_last_status :: string
  ss_connectors :: nat

definition scanning_of :: "agent_state \<Rightarrow> scanning_status" where
  "scanning_of a =
     \<lparr> ss_status = str_or (ag_current_scan a) ''idle'', ss_files_indexed = ag_files_indexed a, ss_errors = ag_errors a,
       ss_last_sync = ag_last_sync a, ss_last_status = ag_last_sync_status a, ss_connectors = ag_connectors a \<rparr>"

section \<open>The loop\<close>

text \<open>What the backend answers in one round of the loop: to the heartbeat, the health request and the poll.\<close>

record round =
  rd_heartbeat :: sync_reply
  rd_health :: sync_reply
  rd_jobs :: sync_reply

definition version_of :: "sync_reply \<Rightarrow> json option" where
  "version_of r =
     (case r of Response code (Some (JObj d)) \<Rightarrow> Some (dict_get_or d ''version'' (JStr ''unknown'')) | _ \<Rightarrow> None)"

definition beat_backend :: "string \<Rightarrow> string \<Rightarrow> round \<Rightarrow> agent_state \<Rightarrow> agent_state" where
  "beat_backend backend_url api_key rd a =
     (if backend_url \<noteq> '''' \<and> api_key \<noteq> '''' then
        let ok = sync_heartbeat (rd_heartbeat rd);
            a = a\<lparr>ag_backend_reachable := ok\<rparr>
         in if ok then (case version_of (rd_health rd) of None \<Rightarrow> a | Some v \<Rightarrow> a\<lparr>ag_backend_version := v\<rparr>) else a
      else a)"

text \<open>The jobs of a round become tasks; a poll that answers no list of any kind ends the loop.\<close>

definition polled_jobs :: "round \<Rightarrow> agent_state \<Rightarrow> py_error + json list" where
  "polled_jobs rd a =
     (if ag_backend_reachable a \<and> ag_current_scan a \<noteq> Some ''running'' then json_iter (sync_poll_jobs (rd_jobs rd)) else Inr [])"

definition loop_round ::
  "sync_env \<Rightarrow> string \<Rightarrow> string \<Rightarrow> round \<Rightarrow> agent_state \<Rightarrow> (py_error + json list) \<times> agent_state \<times> nat sync" where
  "loop_round env backend_url api_key rd a =
     (let a = beat_backend backend_url api_key rd a
      in (polled_jobs rd a, a, if ag_backend_reachable a then flush_queue env else ret 0))"

text \<open>A job's task, with what its scan gives.\<close>

record modules =
  md_smb_compiles :: bool
  md_main_names :: "string list"

definition agent_modules :: modules where
  "agent_modules = \<lparr> md_smb_compiles = False,
     md_main_names = [''asyncio'', ''os'', ''platform'', ''sys'', ''time'', ''datetime'', ''timezone'', ''Path'', ''httpx'',
       ''FastAPI'', ''Request'', ''CORSMiddleware'', ''HTMLResponse'', ''JSONResponse'', ''StaticFiles''] \<rparr>"

definition finish_job :: "time \<Rightarrow> py_error + scan_stats \<Rightarrow> agent_state \<Rightarrow> agent_state" where
  "finish_job now r a =
     (case r of
        Inr st \<Rightarrow> a\<lparr>ag_files_indexed := ag_files_indexed a + st_total_files st, ag_errors := ag_errors a + st_total_errors st,
                     ag_last_sync := Some now, ag_last_sync_status := ''success'', ag_current_scan := None\<rparr>
      | Inl e \<Rightarrow> a\<lparr>ag_errors := Suc (ag_errors a), ag_last_sync_status := ''error'', ag_current_scan := None\<rparr>)"

definition start_job :: "modules \<Rightarrow> json \<Rightarrow> agent_state \<Rightarrow> (py_error + unit) \<times> agent_state" where
  "start_job ms job =
     thn (guard (md_smb_compiles ms) (OtherError ''SyntaxError''))
    (thn (modify (\<lambda>a. a\<lparr>ag_current_scan := Some ''running''\<rparr>))
    (thn (case job of JObj d \<Rightarrow> ret () | _ \<Rightarrow> raise AttributeError)
         (guard (''uuid'' \<in> set (md_main_names ms)) (OtherError ''NameError''))))"

inductive agent_step :: "modules \<Rightarrow> sync_env \<Rightarrow> string \<Rightarrow> string \<Rightarrow> agent_state \<times> json list \<times> nat \<Rightarrow> agent_state \<times> json list \<times> nat \<Rightarrow> bool"
  for ms env url key where
  Round: "loop_round env url key rd a = (Inr jobs, a', queue_run) \<Longrightarrow>
    agent_step ms env url key (a, waiting, running) (a', waiting @ jobs, running)"
| Start: "start_job ms job a = (Inr (), a') \<Longrightarrow>
    agent_step ms env url key (a, job # waiting, running) (a', waiting, Suc running)"
| Fail: "start_job ms job a = (Inl e, a') \<Longrightarrow>
    agent_step ms env url key (a, job # waiting, running) (a', waiting, running)"
| Finish: "agent_step ms env url key (a, waiting, Suc running) (finish_job now r a, waiting, running)"


inductive_cases agent_stepE: "agent_step ms env url key st st'"

abbreviation agent_steps ::
  "modules \<Rightarrow> sync_env \<Rightarrow> string \<Rightarrow> string \<Rightarrow> agent_state \<times> json list \<times> nat \<Rightarrow> agent_state \<times> json list \<times> nat \<Rightarrow> bool" where
  "agent_steps ms env url key \<equiv> (agent_step ms env url key)\<^sup>*\<^sup>*"

section \<open>What becomes of the jobs\<close>

text \<open>The parts of the state a round of the loop leaves alone.\<close>

definition scan_fields :: "agent_state \<Rightarrow> time option \<times> string \<times> nat \<times> nat \<times> string option" where
  "scan_fields a = (ag_last_sync a, ag_last_sync_status a, ag_files_indexed a, ag_errors a, ag_current_scan a)"

lemma loop_round_fields:
  "loop_round env url key rd a = (r, a', k) \<Longrightarrow>
   scan_fields a' = scan_fields a \<and> (ag_current_scan a = Some ''running'' \<longrightarrow> r = Inr [])"
  by (auto simp: loop_round_def beat_backend_def polled_jobs_def scan_fields_def Let_def split: option.splits)

lemma start_job_agent: "start_job agent_modules job a = (Inl (OtherError ''SyntaxError''), a)"
  by (simp add: start_job_def agent_modules_def)

lemma agent_step_idle:
  assumes "agent_step agent_modules env url key st st'"
    and "scan_fields (fst st) = scan_fields initial_agent \<and> snd (snd st) = 0"
  shows "scan_fields (fst st') = scan_fields initial_agent \<and> snd (snd st') = 0"
  using assms(1)
proof (cases rule: agent_step.cases)
  case (Round rd a jobs a' k waiting running)
  with assms(2) loop_round_fields [OF Round(3)] show ?thesis by simp
qed (use assms(2) in \<open>simp_all add: start_job_agent\<close>)

text \<open>
  Importing the SMB connector fails before a job does anything: whatever the backend answers and however
  many jobs it hands out, no job ever runs, and the agent's report stays that of an agent that has never
  scanned, without an error.
\<close>

theorem agent_never_scans:
  assumes "agent_steps agent_modules env url key (initial_agent, [], 0) (a, waiting, running)"
  shows "running = 0 \<and>
    scanning_of a = \<lparr> ss_status = ''idle'', ss_files_indexed = 0, ss_errors = 0, ss_last_sync = None,
                      ss_last_status = ''never'', ss_connectors = ag_connectors a \<rparr>"
proof -
  from assms have "scan_fields (fst (a, waiting, running)) = scan_fields initial_agent \<and> snd (snd (a, waiting, running)) = 0"
    by (induction rule: rtranclp_induct) (auto dest: agent_step_idle)
  then show ?thesis by (simp add: scan_fields_def initial_agent_def scanning_of_def str_or_def)
qed

text \<open>Were the connector to compile, the first job would end in a \<open>NameError\<close> that leaves the scan running.\<close>

definition repaired_modules :: modules where
  "repaired_modules = agent_modules\<lparr>md_smb_compiles := True\<rparr>"

lemma start_job_repaired:
  "start_job repaired_modules job a = (r, a') \<Longrightarrow>
   (\<exists>e. r = Inl e) \<and> a' = a\<lparr>ag_current_scan := Some ''running''\<rparr>"
  by (auto simp: start_job_def repaired_modules_def agent_modules_def split: json.splits)

lemma agent_step_stuck:
  assumes "agent_step repaired_modules env url key st st'"
    and "ag_current_scan (fst st) = Some ''running'' \<and> snd (snd st) = 0 \<and> suffix (fst (snd st)) ws"
  shows "ag_current_scan (fst st') = Some ''running'' \<and> snd (snd st') = 0 \<and> suffix (fst (snd st')) ws"
  using assms(1)
proof (cases rule: agent_step.cases)
  case (Round rd a jobs a' k waiting running)
  with assms(2) loop_round_fields [OF Round(3)] show ?thesis by (auto simp: scan_fields_def)
next
  case (Start job a a' waiting running)
  then show ?thesis using start_job_repaired by fastforce
next
  case (Fail job a e a' waiting running)
  then show ?thesis using assms(2) start_job_repaired [OF Fail(3)] by (auto dest: suffix_ConsD)
next
  case (Finish a waiting running now r)
  with assms(2) show ?thesis by simp
qed

theorem first_job_blocks:
  assumes "start_job repaired_modules job a = (r, a1)"
    and "agent_steps repaired_modules env url key (a1, waiting, 0) (a', waiting', running)"
  shows "ss_status (scanning_of a') = ''running'' \<and> running = 0 \<and> suffix waiting' waiting"
proof -
  from assms(1) have "ag_current_scan a1 = Some ''running''" using start_job_repaired by fastforce
  with assms(2) have "ag_current_scan (fst (a', waiting', running)) = Some ''running'' \<and> snd (snd (a', waiting', running)) = 0 \<and>
      suffix (fst (snd (a', waiting', running))) waiting"
    by (induction rule: rtranclp_induct) (simp, blast dest: agent_step_stuck)
  then show ?thesis by (simp add: scanning_of_def str_or_def)
qed


section \<open>A scan against a working backend\<close>

lemma ceil_div_exact: "0 < n \<Longrightarrow> l mod n = 0 \<Longrightarrow> (l + n - 1) div n = l div (n :: nat)"
proof -
  assume n: "0 < n" and "l mod n = 0"
  then have "l + n - 1 = (n - 1) + l div n * n" using div_mult_mod_eq [of l n] by simp
  moreover have "(n - 1) div n = 0" using n by simp
  ultimately show ?thesis using n by (simp only: div_mult_self1)
qed

lemma ceil_div_more: "0 < n \<Longrightarrow> 0 < l mod n \<Longrightarrow> (l + n - 1) div n = Suc (l div (n :: nat))"
proof -
  assume n: "0 < n" and pos: "0 < l mod n"
  then have "l + n - 1 = (l mod n - 1) + Suc (l div n) * n" using div_mult_mod_eq [of l n] by simp
  moreover have "(l mod n - 1) div n = 0" using n by (simp add: less_imp_diff_less)
  ultimately show ?thesis using n by (simp only: div_mult_self1)
qed

lemma take_record_accepted:
  assumes "0 < sy_chunk_size (sa_sync env)"
    and "\<And>n p. acknowledged (sy_server (sa_sync env) n p) \<and> clean_reply (sy_server (sa_sync env) n p)"
    and "length (sp_nodes a) < batch_size" and "sp_nodes a = [] \<longrightarrow> sp_edges a = []"
  shows "\<exists>a' s' ps. take_record env connector_id job_id batch_size r a s = (Inr a', s') \<and> sy_queue s' = sy_queue s \<and>
    map fst (sy_posted s') = map fst (sy_posted s) @ ps \<and>
    concat (map (\<lambda>p. payload_list p ''nodes'') ps) @ sp_nodes a' = sp_nodes a @ [to_node_dict env connector_id r] \<and>
    concat (map (\<lambda>p. payload_list p ''edges'') ps) @ sp_edges a' =
      sp_edges a @ (case parent_edge env r of None \<Rightarrow> [] | Some e \<Rightarrow> [e]) \<and>
    length (filter payload_final ps) = Suc (length (sp_nodes a)) div batch_size \<and>
    length (sp_nodes a') = Suc (length (sp_nodes a)) mod batch_size \<and>
    sp_total_files a' = Suc (sp_total_files a) \<and> sp_total_errors a' = sp_total_errors a \<and>
    (sp_nodes a' = [] \<longrightarrow> sp_edges a' = [])"
proof (cases "Suc (length (sp_nodes a)) = batch_size")
  case False
  with assms(3) have "Suc (length (sp_nodes a)) < batch_size" by simp
  then show ?thesis
    by (intro exI [of _ "a\<lparr>sp_nodes := sp_nodes a @ [to_node_dict env connector_id r],
          sp_edges := sp_edges a @ (case parent_edge env r of None \<Rightarrow> [] | Some e \<Rightarrow> [e]),
          sp_total_files := Suc (sp_total_files a)\<rparr>"] exI [of _ s] exI [of _ "[] :: json list"])
      (simp add: take_record_def Let_def)
next
  case True
  let ?nodes = "sp_nodes a @ [to_node_dict env connector_id r]"
  let ?edges = "sp_edges a @ (case parent_edge env r of None \<Rightarrow> [] | Some e \<Rightarrow> [e])"
  let ?stats = "\<lparr> ds_total_files = Suc (sp_total_files a), ds_total_nodes = 0, ds_errors = 0 \<rparr>"
  obtain res s' ps where "send_delta (sa_sync env) job_id ?nodes ?edges ?stats s = (Inr res, s')"
    "sy_queue s' = sy_queue s" "map fst (sy_posted s') = map fst (sy_posted s) @ ps"
    "concat (map (\<lambda>p. payload_list p ''nodes'') ps) = ?nodes"
    "concat (map (\<lambda>p. payload_list p ''edges'') ps) = ?edges" "length (filter payload_final ps) = 1"
    using send_delta_accepted [OF assms(1,2), of job_id ?nodes ?edges ?stats s] by (elim exE conjE) (rule that)
  with True show ?thesis
    by (intro exI [of _ "a\<lparr>sp_nodes := [], sp_edges := [], sp_total_files := Suc (sp_total_files a),
          sp_chunk_index := Suc (sp_chunk_index a)\<rparr>"] exI [of _ s'] exI [of _ ps])
      (simp add: take_record_def Let_def)
qed

lemma take_records_accepted:
  assumes "0 < sy_chunk_size (sa_sync env)"
    and "\<And>n p. acknowledged (sy_server (sa_sync env) n p) \<and> clean_reply (sy_server (sa_sync env) n p)"
  shows "length (sp_nodes a) < batch_size \<Longrightarrow> sp_nodes a = [] \<longrightarrow> sp_edges a = [] \<Longrightarrow>
    \<exists>a' s' ps. take_records env connector_id job_id batch_size rs a s = (Inr a', s') \<and> sy_queue s' = sy_queue s \<and>
    map fst (sy_posted s') = map fst (sy_posted s) @ ps \<and>
    concat (map (\<lambda>p. payload_list p ''nodes'') ps) @ sp_nodes a' = sp_nodes a @ map (to_node_dict env connector_id) rs \<and>
    concat (map (\<lambda>p. payload_list p ''edges'') ps) @ sp_edges a' = sp_edges a @ List.map_filter (parent_edge env) rs \<and>
    length (filter payload_final ps) = (length (sp_nodes a) + length rs) div batch_size \<and>
    length (sp_nodes a') = (length (sp_nodes a) + length rs) mod batch_size \<and>
    sp_total_files a' = sp_total_files a + length rs \<and> sp_total_errors a' = sp_total_errors a \<and>
    (sp_nodes a' = [] \<longrightarrow> sp_edges a' = [])"
proof (induction rs arbitrary: a s)
  case Nil
  then show ?case by (intro exI [of _ "[]"] exI conjI) (simp_all add: map_filter_simps)
next
  case (Cons r rs)
  obtain b t ps where one: "take_record env connector_id job_id batch_size r a s = (Inr b, t)"
    "sy_queue t = sy_queue s" "map fst (sy_posted t) = map fst (sy_posted s) @ ps"
    "concat (map (\<lambda>p. payload_list p ''nodes'') ps) @ sp_nodes b = sp_nodes a @ [to_node_dict env connector_id r]"
    "concat (map (\<lambda>p. payload_list p ''edges'') ps) @ sp_edges b =
      sp_edges a @ (case parent_edge env r of None \<Rightarrow> [] | Some e \<Rightarrow> [e])"
    "length (filter payload_final ps) = Suc (length (sp_nodes a)) div batch_size"
    "length (sp_nodes b) = Suc (length (sp_nodes a)) mod batch_size"
    "sp_total_files b = Suc (sp_total_files a)" "sp_total_errors b = sp_total_errors a"
    "sp_nodes b = [] \<longrightarrow> sp_edges b = []"
    using take_record_accepted [OF assms Cons.prems, of connector_id job_id r s] by (elim exE conjE) (rule that)
  have small: "length (sp_nodes b) < batch_size" using Cons.prems(1) one(7) by simp
  obtain a' s' qs where rest: "take_records env connector_id job_id batch_size rs b t = (Inr a', s')"
    "sy_queue s' = sy_queue t" "map fst (sy_posted s') = map fst (sy_posted t) @ qs"
    "concat (map (\<lambda>p. payload_list p ''nodes'') qs) @ sp_nodes a' = sp_nodes b @ map (to_node_dict env connector_id) rs"
    "concat (map (\<lambda>p. payload_list p ''edges'') qs) @ sp_edges a' = sp_edges b @ List.map_filter (parent_edge env) rs"
    "length (filter payload_final qs) = (length (sp_nodes b) + length rs) div batch_size"
    "length (sp_nodes a') = (length (sp_nodes b) + length rs) mod batch_size"
    "sp_total_files a' = sp_total_files b + length rs" "sp_total_errors a' = sp_total_errors b"
    "sp_nodes a' = [] \<longrightarrow> sp_edges a' = []"
    using Cons.IH [OF small one(10), of t] by (elim exE conjE) (rule that)
  have pieces: "Suc k div n + (Suc k mod n + m) div n = (k + Suc m) div n"
    "(Suc k mod n + m) mod n = (k + Suc m) mod n" if "0 < n" for k m n :: nat
  proof -
    have eq: "k + Suc m = Suc k mod n + m + Suc k div n * n" using mod_div_mult_eq [of "Suc k" n] by simp
    show "Suc k div n + (Suc k mod n + m) div n = (k + Suc m) div n"
      "(Suc k mod n + m) mod n = (k + Suc m) mod n"
      unfolding eq using that by (simp_all only: div_mult_self1 mod_mult_self1)
  qed
  show ?case
  proof (intro exI conjI)
    show "take_records env connector_id job_id batch_size (r # rs) a s = (Inr a', s')" using one(1) rest(1) by simp
    show "map fst (sy_posted s') = map fst (sy_posted s) @ (ps @ qs)" using one(3) rest(3) by simp
    show "concat (map (\<lambda>p. payload_list p ''nodes'') (ps @ qs)) @ sp_nodes a' =
        sp_nodes a @ map (to_node_dict env connector_id) (r # rs)"
    proof -
      have "concat (map (\<lambda>p. payload_list p ''nodes'') (ps @ qs)) @ sp_nodes a' =
          (concat (map (\<lambda>p. payload_list p ''nodes'') ps) @ sp_nodes b) @ map (to_node_dict env connector_id) rs"
        by (simp add: rest(4))
      also have "\<dots> = sp_nodes a @ map (to_node_dict env connector_id) (r # rs)" unfolding one(4) by simp
      finally show ?thesis .
    qed
    show "concat (map (\<lambda>p. payload_list p ''edges'') (ps @ qs)) @ sp_edges a' =
        sp_edges a @ List.map_filter (parent_edge env) (r # rs)"
    proof -
      have "concat (map (\<lambda>p. payload_list p ''edges'') (ps @ qs)) @ sp_edges a' =
          (concat (map (\<lambda>p. payload_list p ''edges'') ps) @ sp_edges b) @ List.map_filter (parent_edge env) rs"
        by (simp add: rest(5))
      also have "\<dots> = sp_edges a @ List.map_filter (parent_edge env) (r # rs)"
        unfolding one(5) by (simp add: map_filter_simps split: option.splits)
      finally show ?thesis .
    qed
    show "length (filter payload_final (ps @ qs)) = (length (sp_nodes a) + length (r # rs)) div batch_size"
      using one(6) rest(6) pieces(1) [of batch_size] Cons.prems(1) by (simp add: one(7))
    show "length (sp_nodes a') = (length (sp_nodes a) + length (r # rs)) mod batch_size"
      using rest(7) pieces(2) [of batch_size] Cons.prems(1) by (simp add: one(7))
  qed (use one rest in simp_all)
qed

text \<open>C26: 
  Against a backend that acknowledges everything, a scan of a walk that does not fail posts every record
  and every edge to a parent, in order and exactly once, queues nothing and counts every file. One payload
  of each batch is marked final: a scan of more than one batch tells the backend several times that the
  job is complete.
\<close>

theorem scan_sends_everything:
  assumes "0 < sy_chunk_size (sa_sync env)" and "0 < batch_size"
    and "\<And>n p. acknowledged (sy_server (sa_sync env) n p) \<and> clean_reply (sy_server (sa_sync env) n p)"
  shows "\<exists>st s' ps. scan_and_sync env connector_id (rs, None) job_id batch_size s = (Inr st, s') \<and>
    st_total_files st = length rs \<and> st_total_errors st = 0 \<and> sy_queue s' = sy_queue s \<and>
    map fst (sy_posted s') = map fst (sy_posted s) @ ps \<and>
    concat (map (\<lambda>p. payload_list p ''nodes'') ps) = map (to_node_dict env connector_id) rs \<and>
    concat (map (\<lambda>p. payload_list p ''edges'') ps) = List.map_filter (parent_edge env) rs \<and>
    length (filter payload_final ps) = (length rs + batch_size - 1) div batch_size"
proof -
  let ?a = "\<lparr> sp_nodes = [], sp_edges = [], sp_total_files = 0, sp_total_errors = 0, sp_chunk_index = 0 \<rparr>"
  obtain a s1 ps where run: "take_records env connector_id job_id batch_size rs ?a s = (Inr a, s1)"
    "sy_queue s1 = sy_queue s" "map fst (sy_posted s1) = map fst (sy_posted s) @ ps"
    "concat (map (\<lambda>p. payload_list p ''nodes'') ps) @ sp_nodes a = map (to_node_dict env connector_id) rs"
    "concat (map (\<lambda>p. payload_list p ''edges'') ps) @ sp_edges a = List.map_filter (parent_edge env) rs"
    "length (filter payload_final ps) = length rs div batch_size"
    "length (sp_nodes a) = length rs mod batch_size"
    "sp_total_files a = length rs" "sp_total_errors a = 0" "sp_nodes a = [] \<longrightarrow> sp_edges a = []"
    using take_records_accepted [OF assms(1,3), of ?a batch_size connector_id job_id rs s] assms(2) by auto
  show ?thesis
  proof (cases "sp_nodes a = []")
    case True
    with run(7) have "(length rs + batch_size - 1) div batch_size = length rs div batch_size"
      using assms(2) by (intro ceil_div_exact) simp_all
    with True run show ?thesis
      by (intro exI conjI) (auto simp: scan_and_sync_def)
  next
    case False
    let ?stats = "\<lparr> ds_total_files = sp_total_files a, ds_total_nodes = 0, ds_errors = sp_total_errors a \<rparr>"
    obtain res s' qs where sent: "send_delta (sa_sync env) job_id (sp_nodes a) (sp_edges a) ?stats s1 = (Inr res, s')"
      "sy_queue s' = sy_queue s1" "map fst (sy_posted s') = map fst (sy_posted s1) @ qs"
      "concat (map (\<lambda>p. payload_list p ''nodes'') qs) = sp_nodes a"
      "concat (map (\<lambda>p. payload_list p ''edges'') qs) = sp_edges a" "length (filter payload_final qs) = 1"
      using send_delta_accepted [OF assms(1,3), of job_id "sp_nodes a" "sp_edges a" ?stats s1] by (elim exE conjE) (rule that)
    have "0 < length rs mod batch_size" using False run(7) by (metis length_greater_0_conv)
    then have count: "(length rs + batch_size - 1) div batch_size = Suc (length rs div batch_size)"
      using assms(2) by (intro ceil_div_more)
    show ?thesis
    proof (intro exI conjI)
      show "map fst (sy_posted s') = map fst (sy_posted s) @ (ps @ qs)" using sent run by simp
      show "length (filter payload_final (ps @ qs)) = (length rs + batch_size - 1) div batch_size"
        unfolding count by (simp add: run(6) sent(6))
    qed (use run sent False in \<open>auto simp: scan_and_sync_def\<close>)
  qed
qed

section \<open>The edges of a walk\<close>

definition below :: "pure_path \<Rightarrow> string \<Rightarrow> pure_path" where
  "below p name = p\<lparr>pp_parts := pp_parts p @ [name]\<rparr>"

definition absolute :: "pure_path \<Rightarrow> bool" where
  "absolute p \<longleftrightarrow> path_wf p \<and> pp_root p \<noteq> ''''"

fun well_named :: "fs_node \<Rightarrow> bool" where
  "well_named (FsFile st) = True"
| "well_named (FsDir link readable es) = list_all (\<lambda>(name, n). plain_part name \<and> well_named n) es"

lemma absolute_below: "absolute p \<Longrightarrow> plain_part name \<Longrightarrow> absolute (below p name)"
  by (auto simp: absolute_def path_wf_def below_def)

lemma parent_below: "path_parent (below p name) = p"
  by (simp add: path_parent_def below_def)

lemma below_differs: "absolute p \<Longrightarrow> plain_part name \<Longrightarrow> path_str p \<noteq> path_str (below p name)"
proof -
  assume "absolute p" "plain_part name"
  moreover have "p \<noteq> below p name"
  proof
    assume "p = below p name"
    from arg_cong [OF this, of pp_parts] show False by (simp add: below_def)
  qed
  ultimately show ?thesis
    using path_str_inject [of p "below p name"] absolute_below [of p name] by (simp add: absolute_def)
qed

lemma str_join_snoc: "xs \<noteq> [] \<Longrightarrow> str_join sep (xs @ [x]) = str_join sep xs @ sep @ x"
  by (cases xs) (simp_all add: str_join_def)

lemma last_str_join:
  "xs \<noteq> [] \<Longrightarrow> \<forall>x \<in> set xs. plain_part x \<Longrightarrow> str_join ''/'' xs \<noteq> '''' \<and> last (str_join ''/'' xs) \<noteq> CHR ''/''"
proof (induction xs rule: rev_induct)
  case (snoc x xs)
  then have "x \<noteq> ''''" and "CHR ''/'' \<notin> set x" by (auto simp: plain_part_def)
  then have "last x \<noteq> CHR ''/''" by (metis last_in_set)
  with \<open>x \<noteq> ''''\<close> show ?case by (cases "xs = []") (simp_all add: str_join_snoc, simp add: str_join_def)
qed simp

lemma os_path_join_str:
  assumes "absolute p"
  shows "os_path_join (path_str p) name = path_str (below p name)"
proof (cases "pp_parts p = []")
  case True
  with assms show ?thesis
    by (auto simp: absolute_def path_wf_def path_str_def os_path_join_def below_def str_join_def)
next
  case False
  with assms have "str_join ''/'' (pp_parts p) \<noteq> ''''" "last (str_join ''/'' (pp_parts p)) \<noteq> CHR ''/''"
    using last_str_join [of "pp_parts p"] by (simp_all add: absolute_def path_wf_def)
  with False show ?thesis
    by (simp add: path_str_def os_path_join_def below_def str_join_snoc)
qed

text \<open>A record is a local one below a directory whose record is in the list.\<close>

definition hangs :: "scan_record list \<Rightarrow> scan_record \<Rightarrow> bool" where
  "hangs rs r \<longleftrightarrow> (\<exists>p name d. absolute p \<and> plain_part name \<and> sn_path r = path_str (below p name) \<and>
     d \<in> set rs \<and> sn_is_dir d \<and> sn_path d = path_str p \<and> sn_host d = sn_host r \<and> sn_share d = sn_share r)"

lemma hangs_mono: "hangs rs r \<Longrightarrow> set rs \<subseteq> set rs' \<Longrightarrow> hangs rs' r"
  by (auto simp: hangs_def)

definition own_or_hangs :: "pure_path \<Rightarrow> scan_record list \<Rightarrow> scan_record \<Rightarrow> bool" where
  "own_or_hangs p rs r \<longleftrightarrow> sn_host r = '''' \<and> sn_share r = '''' \<and> (sn_path r = path_str p \<or> hangs rs r)"

definition child_or_hangs :: "pure_path \<Rightarrow> scan_record list \<Rightarrow> scan_record \<Rightarrow> bool" where
  "child_or_hangs p rs r \<longleftrightarrow> sn_host r = '''' \<and> sn_share r = '''' \<and>
     ((\<exists>name. plain_part name \<and> sn_path r = path_str (below p name)) \<or> hangs rs r)"

lemma gen_then_cases:
  "gen_then g h = (rs, e) \<Longrightarrow> \<exists>xs ys. fst g = xs \<and> rs = xs @ ys \<and> (ys = [] \<or> ys = fst h)"
  by (auto simp: gen_then_def split: prod.splits option.splits)

lemma walk_hangs:
  "walk_dir env dirpath n = (rs, e) \<Longrightarrow> dirpath = path_str p \<Longrightarrow> absolute p \<Longrightarrow> well_named n \<Longrightarrow>
     list_all (own_or_hangs p rs) rs"
  "walk_subdirs env dirpath es = (rs, e) \<Longrightarrow> dirpath = path_str p \<Longrightarrow> absolute p \<Longrightarrow>
     list_all (\<lambda>(name, n). plain_part name \<and> well_named n) es \<Longrightarrow> list_all (child_or_hangs p rs) rs"
proof (induction env dirpath n and env dirpath es arbitrary: rs e p and rs e p rule: walk_dir_walk_subdirs.induct)
  case (1 env dirpath st)
  then show ?case by simp
next
  case (2 env dirpath link readable es)
  show ?case
  proof (cases "readable \<and> sa_dir_mtime env dirpath \<noteq> None")
    case False
    with 2 show ?thesis by (auto simp: gen_fail_def split: if_splits)
  next
    case True
    then obtain mtime where mtime: "sa_dir_mtime env dirpath = Some mtime" by blast
    let ?d = "dir_record dirpath mtime"
    let ?own = "?d # List.map_filter (entry_record dirpath) es"
    obtain ss e' where sub: "walk_subdirs env dirpath es = (ss, e')" by fastforce
    from "2.prems"(1) True mtime have rs: "rs = ?own @ ss"
      by (simp add: sub gen_then_def split: prod.splits option.splits)
    have ss: "list_all (child_or_hangs p ss) ss"
      using "2.IH" [OF _ mtime sub] True "2.prems" by simp
    have hang: "hangs rs r" if "plain_part name" "sn_path r = path_str (below p name)" "sn_host r = ''''" "sn_share r = ''''" for r name
      unfolding hangs_def using that "2.prems"(2,3)
      by (intro exI [of _ p] exI [of _ name] exI [of _ ?d]) (simp add: rs dir_record_def)
    have "own_or_hangs p rs r" if r: "r \<in> set rs" for r
    proof -
      from r consider "r = ?d" | x where "x \<in> set es" "entry_record dirpath x = Some r" | "r \<in> set ss"
        by (auto simp: rs map_filter_def)
      then show ?thesis
      proof cases
        case 1
        then show ?thesis using "2.prems"(2) by (simp add: own_or_hangs_def dir_record_def)
      next
        case (2 x)
        then obtain name st where x: "x = (name, FsFile (Some st))"
          by (auto simp: entry_record_def split: prod.splits fs_node.splits option.splits)
        with 2 "2.prems"(4) have "plain_part name" by (auto simp: list_all_iff)
        moreover have "sn_path r = path_str (below p name) \<and> sn_host r = '''' \<and> sn_share r = ''''"
          using 2 x os_path_join_str [OF "2.prems"(3)] "2.prems"(2) by (auto simp: entry_record_def split: prod.splits)
        ultimately show ?thesis using hang by (simp add: own_or_hangs_def)
      next
        case 3
        with ss have "child_or_hangs p ss r" by (simp add: list_all_iff)
        then show ?thesis using hang hangs_mono [of ss r rs] by (auto simp: child_or_hangs_def own_or_hangs_def rs)
      qed
    qed
    then show ?thesis by (simp add: list_all_iff)
  qed
next
  case (3 env dirpath)
  then show ?case by simp
next
  case (4 env dirpath name n es)
  let ?go = "is_dir n \<and> os_path_join dirpath name \<notin> set SKIP_DIRS \<and> \<not> is_link n"
  let ?g = "if ?go then walk_dir env (os_path_join dirpath name) n else ([], None)"
  from gen_then_cases [of ?g "walk_subdirs env dirpath es" rs e] "4.prems"(1) obtain xs ys
    where xs: "fst ?g = xs" and rs: "rs = xs @ ys" and ys: "ys = [] \<or> ys = fst (walk_subdirs env dirpath es)" by auto
  have name: "plain_part name" "well_named n" and abs: "absolute (below p name)"
    using "4.prems" absolute_below by auto
  have first: "child_or_hangs p rs r" if r: "r \<in> set xs" for r
  proof -
    from r xs have go: ?go by (auto split: if_splits)
    obtain e' where "walk_dir env (os_path_join dirpath name) n = (xs, e')"
      using xs go by (cases "walk_dir env (os_path_join dirpath name) n") auto
    from "4.IH"(1) [OF go this _ abs name(2)] os_path_join_str "4.prems"(2,3)
    have "own_or_hangs (below p name) xs r" using r by (auto simp: list_all_iff)
    then show ?thesis using name(1) hangs_mono [of xs r rs] by (auto simp: own_or_hangs_def child_or_hangs_def rs)
  qed
  have "child_or_hangs p rs r" if r: "r \<in> set ys" for r
  proof -
    obtain e' where "walk_subdirs env dirpath es = (ys, e')" using ys r by (cases "walk_subdirs env dirpath es") auto
    from "4.IH"(2) [OF this "4.prems"(2,3)] "4.prems"(4) r have "child_or_hangs p ys r" by (auto simp: list_all_iff)
    then show ?thesis using hangs_mono [of ys r rs] by (auto simp: child_or_hangs_def rs)
  qed
  with first show ?case by (auto simp: list_all_iff rs)
qed

text \<open>
  The edges of a walk over an absolute path do not dangle: every record but that of the folder itself has
  an edge to its directory, and the walk has a record of that directory with the same identifier.
\<close>

theorem walk_edges_resolve:
  assumes "agent_walk env uri = (rs, e)" and "pp_root (parse_path uri) \<noteq> ''''"
    and "sa_tree env (path_str (parse_path uri)) = Some n" and "well_named n"
    and "r \<in> set rs" and "sn_path r \<noteq> path_str (parse_path uri)"
  shows "\<exists>d \<in> set rs. sn_is_dir d \<and>
    parent_edge env r = Some (JObj [(''op'', JStr ''upsert''), (''type'', JStr ''CHILD_OF''),
      (''from'', JStr (agent_stable_id env r)), (''to'', JStr (agent_stable_id env d)), (''props'', JObj [])])"
proof -
  have abs: "absolute (parse_path uri)" using assms(2) by (simp add: absolute_def path_wf_parse)
  have "list_all (own_or_hangs (parse_path uri) rs) rs"
    using assms(1,3) by (intro walk_hangs(1) [OF _ refl abs assms(4)]) (simp add: agent_walk_def Let_def)
  with assms(5,6) obtain p name d where p: "absolute p" and name: "plain_part name"
    and r: "sn_path r = path_str (below p name)" and d: "d \<in> set rs" "sn_is_dir d" "sn_path d = path_str p"
    and same: "sn_host d = sn_host r" "sn_share d = sn_share r"
    by (auto simp: list_all_iff own_or_hangs_def hangs_def)
  have "parse_path (sn_path r) = below p name"
    using absolute_below [OF p name] by (simp add: r absolute_def parse_path_str)
  then show ?thesis
    using d same below_differs [OF p name]
    by (intro bexI [of _ d]) (simp_all add: parent_edge_def parent_below r agent_stable_id_def stable_key_def Let_def)
qed

section \<open>Examples\<close>

definition example_round :: round where
  "example_round = \<lparr> rd_heartbeat = Response 200 None, rd_health = Response 200 (Some (JObj [(''version'', JStr ''2'')])),
     rd_jobs = Response 200 (Some (JArr [JObj [(''job_id'', JStr ''j1'')]])) \<rparr>"

definition example_polled :: agent_state where
  "example_polled = initial_agent\<lparr>ag_backend_reachable := True, ag_backend_version := JStr ''2''\<rparr>"

lemma example_polls:
  "agent_step ms env ''u'' ''k'' (initial_agent, [], 0) (example_polled, [JObj [(''job_id'', JStr ''j1'')]], 0)"
proof -
  have "loop_round env ''u'' ''k'' example_round initial_agent =
      (Inr [JObj [(''job_id'', JStr ''j1'')]], example_polled, flush_queue env)"
    by (simp add: loop_round_def beat_backend_def example_round_def sync_heartbeat_def version_of_def dict_get_or_def
        polled_jobs_def sync_poll_jobs_def json_iter_def initial_agent_def example_polled_def Let_def)
  from agent_step.Round [OF this, of ms "[]" 0] show ?thesis by simp
qed

lemma agent_never_scans_witness:
  "ss_last_status (scanning_of example_polled) = ''never'' \<and> ag_backend_reachable example_polled"
proof -
  let ?env = "example_sync_env example_ack"
  have "agent_step agent_modules ?env ''u'' ''k'' (example_polled, [JObj [(''job_id'', JStr ''j1'')]], 0) (example_polled, [], 0)"
    by (rule agent_step.Fail) (rule start_job_agent)
  with example_polls have "agent_steps agent_modules ?env ''u'' ''k'' (initial_agent, [], 0) (example_polled, [], 0)"
    by (rule converse_rtranclp_into_rtranclp [OF _ r_into_rtranclp])
  from agent_never_scans [OF this] show ?thesis by (simp add: example_polled_def)
qed

lemma first_job_blocks_witness:
  "ss_status (scanning_of (example_polled\<lparr>ag_current_scan := Some ''running''\<rparr>)) = ''running''"
proof -
  have "start_job repaired_modules (JObj []) example_polled =
      (Inl (OtherError ''NameError''), example_polled\<lparr>ag_current_scan := Some ''running''\<rparr>)"
    by (simp add: start_job_def repaired_modules_def agent_modules_def)
  from first_job_blocks [OF this rtranclp.rtrancl_refl] show ?thesis by blast
qed

definition example_agent_tree :: fs_node where
  "example_agent_tree = FsDir False True [(''a.TXT'', FsFile (Some (3, 2))), (''sub'', FsDir False True [(''b'', FsFile None)])]"

definition example_scan_env :: scan_env where
  "example_scan_env = \<lparr> sa_sync = example_sync_env example_ack, sa_sha256_hex = (\<lambda>t. t),
     sa_tree = (\<lambda>d. if d = ''/data'' then Some example_agent_tree else None), sa_dir_mtime = (\<lambda>d. Some 1) \<rparr>"

lemma example_walk:
  "map sn_path (fst (agent_walk example_scan_env ''/data'')) = [''/data'', ''/data/a.TXT'', ''/data/sub'']"
  "snd (agent_walk example_scan_env ''/data'') = None"
  by code_simp+

lemma scan_sends_everything_witness:
  "case scan_and_sync example_scan_env ''c1'' (agent_walk example_scan_env ''/data'') ''j1'' 2 example_sync_state of
     (Inl e, s') \<Rightarrow> False
   | (Inr st, s') \<Rightarrow> st_total_files st = 3 \<and> length (filter payload_final (map fst (sy_posted s'))) = 2"
proof -
  let ?w = "agent_walk example_scan_env ''/data''"
  have w: "?w = (fst ?w, None)" using example_walk(2) by (cases ?w) simp
  have "length (fst ?w) = length (map sn_path (fst ?w))" by simp
  then have len: "length (fst ?w) = 3" unfolding example_walk(1) by simp
  have server: "acknowledged (sy_server (sa_sync example_scan_env) n p) \<and> clean_reply (sy_server (sa_sync example_scan_env) n p)" for n p
    using example_clean by (simp add: example_scan_env_def acknowledged_def example_sync_env_def example_ack_def)
  have size: "0 < sy_chunk_size (sa_sync example_scan_env)" by (simp add: example_scan_env_def example_sync_env_def)
  have start: "sy_posted example_sync_state = []" by (simp add: example_sync_state_def)
  obtain st s' ps where run: "scan_and_sync example_scan_env ''c1'' (fst ?w, None) ''j1'' 2 example_sync_state = (Inr st, s')"
    and files: "st_total_files st = length (fst ?w)" and posted: "map fst (sy_posted s') = map fst (sy_posted example_sync_state) @ ps"
    and finals: "length (filter payload_final ps) = (length (fst ?w) + 2 - 1) div 2"
    using scan_sends_everything [OF size zero_less_numeral [of "num.Bit0 num.One"] server,
        of "''c1''" "fst ?w" "''j1''" example_sync_state]
    by (elim exE conjE) (rule that)
  have ps: "ps = map fst (sy_posted s')" using posted start by simp
  show ?thesis using files finals unfolding w [symmetric] len ps run [folded w] by simp
qed

lemma walk_edges_resolve_witness:
  "list_ex (\<lambda>d. sn_is_dir d \<and> agent_stable_id example_scan_env d = ''::/data'') (fst (agent_walk example_scan_env ''/data''))"
proof -
  let ?w = "agent_walk example_scan_env ''/data''"
  have w: "?w = (fst ?w, None)" using example_walk(2) by (cases ?w) simp
  have root: "pp_root (parse_path ''/data'') \<noteq> ''''" "path_str (parse_path ''/data'') = ''/data''"
    "path_str (path_parent (parse_path ''/data/sub'')) = ''/data''" by code_simp+
  have tree: "sa_tree example_scan_env (path_str (parse_path ''/data'')) = Some example_agent_tree"
    by (simp add: root example_scan_env_def)
  have named: "well_named example_agent_tree" by code_simp
  have "''/data/sub'' \<in> set (map sn_path (fst ?w))" unfolding example_walk(1) by simp
  then obtain r where r: "r \<in> set (fst ?w)" "sn_path r = ''/data/sub''" by auto
  from walk_edges_resolve [OF w root(1) tree named r(1)] r(2) root(2)
  obtain d where d: "d \<in> set (fst ?w)" "sn_is_dir d"
    and edge: "parent_edge example_scan_env r = Some (JObj [(''op'', JStr ''upsert''), (''type'', JStr ''CHILD_OF''),
      (''from'', JStr (agent_stable_id example_scan_env r)), (''to'', JStr (agent_stable_id example_scan_env d)), (''props'', JObj [])])"
    by auto
  have "list_all (\<lambda>r. sn_host r = '''' \<and> sn_share r = '''') (fst ?w)" by code_simp
  then have "sn_host r = ''''" "sn_share r = ''''" using r(1) by (auto simp: list_all_iff)
  then have "stable_key example_scan_env r ''/data'' = ''::/data''"
    by (simp add: stable_key_def example_scan_env_def)
  with edge r(2) root(3) have "agent_stable_id example_scan_env d = ''::/data''" by (simp add: parent_edge_def Let_def)
  with d show ?thesis by (auto simp: list_ex_iff)
qed

end
