(* ===== verification/Mounts.thy ===== *)
theory Mounts
  imports Py_Path
begin

text \<open>
  \<open>mounts/manager.py\<close> and \<open>api/mounts.py\<close>: the sources an installation can index, kept in one JSON file.

  The file is missing, a text that is not JSON, or a JSON value. Whether a path exists, a port answers
  and what \<open>urlparse\<close> makes of a bracketed host are parameters; new identifiers and the time come from the
  environment. URIs are ASCII.
\<close>

section \<open>The file\<close>

datatype json_file = NoFile | NotJson | JsonFile json

record mount_env =
  mv_uuid4 :: string
  mv_utcnow :: string
  mv_exists :: "string \<Rightarrow> bool"
  mv_connects :: "string \<Rightarrow> nat \<Rightarrow> bool"
  mv_bracketed_host :: "string \<Rightarrow> bool"

type_synonym 'a mounts = "(json_file, 'a) handler"

definition load_mounts :: "json_file \<Rightarrow> json" where
  "load_mounts f = (case f of JsonFile v \<Rightarrow> v | _ \<Rightarrow> JArr [])"

definition save_mounts :: "json \<Rightarrow> unit mounts" where
  "save_mounts v = modify (\<lambda>_. JsonFile v)"

definition each_of :: "json \<Rightarrow> (json \<Rightarrow> py_error + 'b) \<Rightarrow> py_error + 'b list" where
  "each_of v f = (case json_iter v of Inl e \<Rightarrow> Inl e | Inr xs \<Rightarrow> try_map f xs)"

section \<open>URIs\<close>

definition is_alpha :: "char \<Rightarrow> bool" where
  "is_alpha c \<longleftrightarrow> is_upper c \<or> is_lower c"

definition drive_path :: "string \<Rightarrow> bool" where
  "drive_path uri \<longleftrightarrow>
     (case uri of c # d # e # rest \<Rightarrow> is_alpha c \<and> d = CHR '':'' \<and> (e = CHR ''/'' \<or> e = CHR 0x5C) | _ \<Rightarrow> False)"

text \<open>\<open>urlparse\<close>: leading control characters and spaces go, tabs and line breaks everywhere.\<close>

definition url_clean :: "string \<Rightarrow> string" where
  "url_clean uri = filter (\<lambda>c. char_code c \<notin> {9, 10, 13}) (dropWhile (\<lambda>c. char_code c \<le> 32) uri)"

definition scheme_char :: "char \<Rightarrow> bool" where
  "scheme_char c \<longleftrightarrow> is_alpha c \<or> is_digit c \<or> c \<in> set ''+-.''"

definition url_split :: "string \<Rightarrow> string \<times> string" where
  "url_split uri =
     (let url = url_clean uri; front = takeWhile (\<lambda>c. c \<noteq> CHR '':'') url
      in if front \<noteq> url \<and> front \<noteq> '''' \<and> is_alpha (hd front) \<and> list_all scheme_char front
         then (str_lower front, drop (Suc (length front)) url) else ('''', url))"

definition url_netloc :: "string \<Rightarrow> string" where
  "url_netloc rest = (if take 2 rest = ''//'' then takeWhile (\<lambda>c. c \<notin> set ''/?#'') (drop 2 rest) else '''')"

definition after_last :: "char \<Rightarrow> string \<Rightarrow> string" where
  "after_last c s = rev (takeWhile (\<lambda>x. x \<noteq> c) (rev s))"

definition upto_char :: "char \<Rightarrow> string \<Rightarrow> string" where
  "upto_char c s = takeWhile (\<lambda>x. x \<noteq> c) s"

text \<open>\<open>parsed.hostname or ""\<close>, from the network location.\<close>

definition url_hostname :: "string \<Rightarrow> string" where
  "url_hostname netloc =
     (let hostinfo = after_last (CHR ''@'') netloc
      in str_lower (if CHR ''['' \<in> set hostinfo
                    then upto_char (CHR '']'') (drop (Suc (length (upto_char (CHR ''['') hostinfo))) hostinfo)
                    else upto_char (CHR '':'') hostinfo))"

definition netloc_ok :: "mount_env \<Rightarrow> string \<Rightarrow> bool" where
  "netloc_ok env netloc \<longleftrightarrow>
     (CHR ''['' \<in> set netloc) = (CHR '']'' \<in> set netloc) \<and> (CHR ''['' \<notin> set netloc \<or> mv_bracketed_host env netloc)"

record parsed_uri =
  pu_valid :: bool
  pu_protocol :: string
  pu_host :: "string option"

definition parse_uri :: "mount_env \<Rightarrow> string \<Rightarrow> py_error + parsed_uri" where
  "parse_uri env uri =
     (if drive_path uri \<or> take 1 uri = ''/'' then Inr \<lparr> pu_valid = True, pu_protocol = ''local'', pu_host = None \<rparr>
      else case url_split uri of
        (scheme, rest) \<Rightarrow>
          (let netloc = url_netloc rest
           in if \<not> netloc_ok env netloc then Inl (ValueError ''Invalid IPv6 URL'')
              else if scheme = ''smb'' \<or> scheme = ''nfs'' then
                Inr \<lparr> pu_valid = True, pu_protocol = scheme, pu_host = Some (url_hostname netloc) \<rparr>
              else Inr \<lparr> pu_valid = False, pu_protocol = ''unknown'', pu_host = None \<rparr>))"

definition check_reachable :: "mount_env \<Rightarrow> json \<Rightarrow> bool" where
  "check_reachable env uri =
     (case uri of
        JStr u \<Rightarrow>
          (case parse_uri env u of
             Inl e \<Rightarrow> False
           | Inr p \<Rightarrow>
               if pu_protocol p = ''local'' then mv_exists env (path_str (parse_path u))
               else if pu_protocol p = ''smb'' then mv_connects env (case pu_host p of None \<Rightarrow> '''' | Some h \<Rightarrow> h) 445
               else if pu_protocol p = ''nfs'' then mv_connects env (case pu_host p of None \<Rightarrow> '''' | Some h \<Rightarrow> h) 2049
               else False)
      | _ \<Rightarrow> False)"

section \<open>The manager\<close>

definition with_reachable :: "mount_env \<Rightarrow> json \<Rightarrow> py_error + json" where
  "with_reachable env m =
     (case json_item m ''uri'' of
        Inl e \<Rightarrow> Inl e
      | Inr uri \<Rightarrow> (case m of
          JObj d \<Rightarrow> Inr (JObj (dict_set ''reachable'' (JBool (check_reachable env uri)) d))
        | _ \<Rightarrow> Inl TypeError))"

definition mgr_list_mounts :: "mount_env \<Rightarrow> json list mounts" where
  "mgr_list_mounts env = bnd (gets load_mounts) (\<lambda>v. lift_err (each_of v (with_reachable env)))"

definition new_mount :: "mount_env \<Rightarrow> string \<Rightarrow> string \<Rightarrow> parsed_uri \<Rightarrow> bool \<Rightarrow> json" where
  "new_mount env name uri p auto_index =
     JObj [(''id'', JStr (mv_uuid4 env)), (''name'', JStr name), (''uri'', JStr uri),
       (''protocol'', JStr (pu_protocol p)), (''host'', JStr (case pu_host p of None \<Rightarrow> '''' | Some h \<Rightarrow> h)),
       (''auto_index'', JBool auto_index), (''created_at'', JStr (mv_utcnow env)), (''last_indexed'', JNull),
       (''index_status'', JStr ''never''), (''file_count'', JInt 0)]"

definition append_json :: "json \<Rightarrow> json \<Rightarrow> py_error + json" where
  "append_json v m = (case v of JArr xs \<Rightarrow> Inr (JArr (xs @ [m])) | _ \<Rightarrow> Inl AttributeError)"

definition mgr_add_mount :: "mount_env \<Rightarrow> string \<Rightarrow> string \<Rightarrow> bool \<Rightarrow> json mounts" where
  "mgr_add_mount env name uri auto_index =
     bnd (gets load_mounts) (\<lambda>v.
     bnd (lift_err (parse_uri env uri)) (\<lambda>p.
     thn (guard (pu_valid p) (ValueError (''Invalid URI: '' @ uri @ ''. Expected local path, smb://, or nfs://'')))
    (let mount = new_mount env name uri p auto_index
     in bnd (lift_err (append_json v mount)) (\<lambda>v'. thn (save_mounts v') (ret mount)))))"

definition py_len_of :: "json \<Rightarrow> py_error + nat" where
  "py_len_of v = (case v of JStr t \<Rightarrow> Inr (length t) | JArr xs \<Rightarrow> Inr (length xs) | JObj d \<Rightarrow> Inr (length d) | _ \<Rightarrow> Inl TypeError)"

definition mgr_remove_mount :: "string \<Rightarrow> bool mounts" where
  "mgr_remove_mount mount_id =
     bnd (gets load_mounts) (\<lambda>v.
     bnd (lift_err (py_len_of v)) (\<lambda>before.
     bnd (lift_err (each_of v (\<lambda>m. map_sum id (\<lambda>i. (m, i)) (json_item m ''id'')))) (\<lambda>ms.
     let kept = map fst (filter (\<lambda>(m, i). i \<noteq> JStr mount_id) ms)
     in if length kept = before then ret False else thn (save_mounts (JArr kept)) (ret True))))"

fun find_mount :: "string \<Rightarrow> json list \<Rightarrow> py_error + json option" where
  "find_mount mount_id [] = Inr None"
| "find_mount mount_id (m # ms) =
     (case json_item m ''id'' of
        Inl e \<Rightarrow> Inl e
      | Inr i \<Rightarrow> if i = JStr mount_id then Inr (Some m) else find_mount mount_id ms)"

definition mgr_get_mount :: "string \<Rightarrow> json option mounts" where
  "mgr_get_mount mount_id = bnd (gets load_mounts) (\<lambda>v.
     lift_err (case json_iter v of Inl e \<Rightarrow> Inl e | Inr xs \<Rightarrow> find_mount mount_id xs))"

definition indexed_mount :: "mount_env \<Rightarrow> string \<Rightarrow> json option \<Rightarrow> py_dict \<Rightarrow> py_dict" where
  "indexed_mount env status file_count d =
     (let d = dict_set ''last_indexed'' (JStr (mv_utcnow env)) (dict_set ''index_status'' (JStr status) d)
      in case file_count of None \<Rightarrow> d | Some n \<Rightarrow> dict_set ''file_count'' n d)"

fun update_first :: "string \<Rightarrow> (py_dict \<Rightarrow> py_dict) \<Rightarrow> json list \<Rightarrow> py_error + json list" where
  "update_first mount_id f [] = Inr []"
| "update_first mount_id f (m # ms) =
     (case json_item m ''id'' of
        Inl e \<Rightarrow> Inl e
      | Inr i \<Rightarrow>
          if i = JStr mount_id then (case m of JObj d \<Rightarrow> Inr (JObj (f d) # ms) | _ \<Rightarrow> Inl TypeError)
          else map_sum id (\<lambda>ys. m # ys) (update_first mount_id f ms))"

text \<open>A \<open>file_count\<close> of \<open>None\<close> is \<open>JNull\<close>. A dict is walked by its keys, which are no mounts.\<close>

definition mgr_update_index_status :: "mount_env \<Rightarrow> string \<Rightarrow> string \<Rightarrow> json \<Rightarrow> unit mounts" where
  "mgr_update_index_status env mount_id status file_count =
     bnd (gets load_mounts) (\<lambda>v.
     bnd (lift_err (json_iter v)) (\<lambda>xs.
     bnd (lift_err (update_first mount_id (indexed_mount env status (if file_count = JNull then None else Some file_count)) xs)) (\<lambda>xs'.
     save_mounts (case v of JArr ys \<Rightarrow> JArr xs' | _ \<Rightarrow> v))))"

section \<open>The routes\<close>

definition api_list_mounts :: "mount_env \<Rightarrow> json list mounts" where
  "api_list_mounts env = mgr_list_mounts env"

definition api_add_mount :: "mount_env \<Rightarrow> string \<Rightarrow> string \<Rightarrow> bool \<Rightarrow> json mounts" where
  "api_add_mount env name uri auto_index =
     py_try (mgr_add_mount env name uri auto_index)
       (\<lambda>e. case e of ValueError t \<Rightarrow> raise (HTTPException 400 t) | _ \<Rightarrow> raise e)"

definition mount_not_found :: "string \<Rightarrow> py_error" where
  "mount_not_found mount_id = HTTPException 404 (''Mount '' @ in_quotes mount_id @ '' not found'')"

definition api_remove_mount :: "string \<Rightarrow> unit mounts" where
  "api_remove_mount mount_id =
     bnd (mgr_remove_mount mount_id) (\<lambda>found. guard found (mount_not_found mount_id))"

definition api_get_mount :: "string \<Rightarrow> json mounts" where
  "api_get_mount mount_id =
     bnd (mgr_get_mount mount_id) (\<lambda>m.
     case m of None \<Rightarrow> raise (mount_not_found mount_id)
             | Some v \<Rightarrow> if truthy v then ret v else raise (mount_not_found mount_id))"

datatype mount_call =
    ListMounts mount_env
  | AddMount mount_env string string bool
  | RemoveMount string
  | GetMount string
  | IndexStatus mount_env string string json

fun mount_handle :: "mount_call \<Rightarrow> unit mounts" where
  "mount_handle (ListMounts env) = thn (api_list_mounts env) (ret ())"
| "mount_handle (AddMount env name uri auto_index) = thn (api_add_mount env name uri auto_index) (ret ())"
| "mount_handle (RemoveMount mount_id) = api_remove_mount mount_id"
| "mount_handle (GetMount mount_id) = thn (api_get_mount mount_id) (ret ())"
| "mount_handle (IndexStatus env mount_id status file_count) = mgr_update_index_status env mount_id status file_count"

section \<open>What the file holds\<close>

text \<open>A mount as the manager writes it: it has been indexed exactly when its status says so.\<close>

definition mount_id_of :: "json \<Rightarrow> json option" where
  "mount_id_of m = (case m of JObj d \<Rightarrow> dict_get d ''id'' | _ \<Rightarrow> None)"

definition wf_mount :: "json \<Rightarrow> bool" where
  "wf_mount m \<longleftrightarrow>
     (case m of
        JObj d \<Rightarrow> dict_get d ''id'' \<noteq> None \<and> dict_get d ''uri'' \<noteq> None \<and>
          dict_get d ''protocol'' \<in> {Some (JStr ''local''), Some (JStr ''smb''), Some (JStr ''nfs'')} \<and>
          (dict_get d ''last_indexed'' = Some JNull) = (dict_get d ''index_status'' = Some (JStr ''never''))
      | _ \<Rightarrow> False)"

definition wf_mounts :: "json_file \<Rightarrow> bool" where
  "wf_mounts f \<longleftrightarrow>
     (case load_mounts f of
        JArr ms \<Rightarrow> list_all wf_mount ms \<and> distinct (map mount_id_of ms)
      | _ \<Rightarrow> False)"

definition mount_ids :: "json_file \<Rightarrow> json option set" where
  "mount_ids f = (case load_mounts f of JArr ms \<Rightarrow> set (map mount_id_of ms) | _ \<Rightarrow> {})"

lemma wf_mountsE:
  assumes "wf_mounts f"
  obtains ms where "load_mounts f = JArr ms" and "list_all wf_mount ms" and "distinct (map mount_id_of ms)"
  using assms by (auto simp: wf_mounts_def split: json.splits)

lemma load_saved [simp]: "load_mounts (JsonFile v) = v"
  by (simp add: load_mounts_def)

lemma wf_mount_key: "wf_mount m \<Longrightarrow> \<exists>i. json_item m ''id'' = Inr i \<and> mount_id_of m = Some i"
  by (auto simp: wf_mount_def json_item_def mount_id_of_def dict_item_def split: json.splits)

lemma parse_uri_protocol:
  "parse_uri env uri = Inr p \<Longrightarrow> pu_valid p \<Longrightarrow> pu_protocol p \<in> {''local'', ''smb'', ''nfs''}"
  by (auto simp: parse_uri_def Let_def split: if_splits prod.splits)

lemma wf_new_mount:
  "parse_uri env uri = Inr p \<Longrightarrow> pu_valid p \<Longrightarrow> wf_mount (new_mount env name uri p auto_index)"
  by (drule (1) parse_uri_protocol) (auto simp: wf_mount_def new_mount_def dict_get_def)

lemma new_mount_id: "mount_id_of (new_mount env name uri p auto_index) = Some (JStr (mv_uuid4 env))"
  by (simp add: mount_id_of_def new_mount_def dict_get_def)

lemma add_mount_run:
  assumes "load_mounts f = JArr ms" and "mgr_add_mount env name uri auto_index f = (r, f')"
  shows "(\<exists>e. r = Inl e) \<and> f' = f \<or>
    (\<exists>p. parse_uri env uri = Inr p \<and> pu_valid p \<and> r = Inr (new_mount env name uri p auto_index) \<and>
       f' = JsonFile (JArr (ms @ [new_mount env name uri p auto_index])))"
  using assms by (auto simp: mgr_add_mount_def append_json_def save_mounts_def Let_def split: sum.splits if_splits)

lemma try_map_ids:
  "list_all wf_mount ms \<Longrightarrow>
   try_map (\<lambda>m. map_sum id (\<lambda>i. (m, i)) (json_item m ''id'')) ms = Inr (map (\<lambda>m. (m, the (mount_id_of m))) ms)"
  by (induction ms) (auto dest: wf_mount_key)

lemma kept_mounts:
  "list_all wf_mount ms \<Longrightarrow>
   map fst (filter (\<lambda>(m, i). i \<noteq> j) (map (\<lambda>m. (m, the (mount_id_of m))) ms)) = filter (\<lambda>m. mount_id_of m \<noteq> Some j) ms"
  by (induction ms) (auto dest: wf_mount_key)

lemma remove_mount_run:
  assumes "load_mounts f = JArr ms" and "list_all wf_mount ms"
  shows "mgr_remove_mount mount_id f =
    (let kept = filter (\<lambda>m. mount_id_of m \<noteq> Some (JStr mount_id)) ms
     in if length kept = length ms then (Inr False, f) else (Inr True, JsonFile (JArr kept)))"
  using assms
  by (simp add: mgr_remove_mount_def py_len_of_def each_of_def json_iter_def try_map_ids kept_mounts save_mounts_def Let_def
      del: length_map filter_map)

lemma find_mount_run:
  "list_all wf_mount ms \<Longrightarrow>
   find_mount i ms = Inr (first_row (filter (\<lambda>m. mount_id_of m = Some (JStr i)) ms))"
  by (induction ms) (auto simp: first_row_def dest: wf_mount_key)

lemma get_mount_run:
  assumes "load_mounts f = JArr ms" and "list_all wf_mount ms"
  shows "mgr_get_mount i f = (Inr (first_row (filter (\<lambda>m. mount_id_of m = Some (JStr i)) ms)), f)"
  using assms by (simp add: mgr_get_mount_def json_iter_def find_mount_run)

lemma update_first_ids:
  assumes "\<And>d. dict_get (f d) ''id'' = dict_get d ''id''"
  shows "update_first i f ms = Inr ms' \<Longrightarrow> map mount_id_of ms' = map mount_id_of ms"
proof (induction ms arbitrary: ms')
  case (Cons m ms)
  then show ?case using assms
    by (cases "update_first i f ms") (auto simp: mount_id_of_def split: sum.splits if_splits json.splits)
qed simp

lemma update_first_wf:
  assumes "\<And>d. wf_mount (JObj d) \<Longrightarrow> wf_mount (JObj (f d))"
  shows "update_first i f ms = Inr ms' \<Longrightarrow> list_all wf_mount ms \<Longrightarrow> list_all wf_mount ms'"
proof (induction ms arbitrary: ms')
  case (Cons m ms)
  then show ?case using assms
    by (cases "update_first i f ms") (auto split: sum.splits if_splits json.splits)
qed simp

lemma indexed_mount_get:
  "dict_get (indexed_mount env status file_count d) k =
     (if k = ''file_count'' \<and> file_count \<noteq> None then file_count
      else if k = ''last_indexed'' then Some (JStr (mv_utcnow env))
      else if k = ''index_status'' then Some (JStr status) else dict_get d k)"
  by (auto simp: indexed_mount_def dict_get_def map_of_dict_set Let_def split: option.splits)

lemma wf_indexed_mount:
  "status \<noteq> ''never'' \<Longrightarrow> wf_mount (JObj d) \<Longrightarrow> wf_mount (JObj (indexed_mount env status file_count d))"
  by (simp add: wf_mount_def indexed_mount_get)

text \<open>A call whose new identifier is new, and that does not report an index as never made.\<close>

fun fair_call :: "mount_call \<Rightarrow> json_file \<Rightarrow> bool" where
  "fair_call (AddMount env name uri auto_index) f = (Some (JStr (mv_uuid4 env)) \<notin> mount_ids f)"
| "fair_call (IndexStatus env mount_id status file_count) f = (status \<noteq> ''never'')"
| "fair_call _ f = True"

lemma api_add_mount_file: "snd (api_add_mount env name uri auto_index f) = snd (mgr_add_mount env name uri auto_index f)"
  by (auto simp: api_add_mount_def split: prod.splits sum.splits py_error.splits)

lemma wf_after_add:
  assumes "wf_mounts f" and "Some (JStr (mv_uuid4 env)) \<notin> mount_ids f"
  shows "wf_mounts (snd (mgr_add_mount env name uri auto_index f))"
proof -
  obtain ms where ms: "load_mounts f = JArr ms" "list_all wf_mount ms" "distinct (map mount_id_of ms)"
    using assms(1) by (rule wf_mountsE)
  obtain r f' where run: "mgr_add_mount env name uri auto_index f = (r, f')" by fastforce
  from add_mount_run [OF ms(1) run] show ?thesis
    using ms assms by (auto simp: run wf_mounts_def wf_new_mount new_mount_id mount_ids_def)
qed

text \<open>C29: 
  From no file or a well-formed one, every call leaves a well-formed file: a list of mounts with distinct
  identifiers, each with a protocol of the three, and indexed at some time exactly when its status is no
  longer never.
\<close>

theorem mounts_invariant:
  assumes "wf_mounts f" and "fair_call call f" and "mount_handle call f = (r, f')"
  shows "wf_mounts f'"
proof -
  obtain ms where ms: "load_mounts f = JArr ms" "list_all wf_mount ms" "distinct (map mount_id_of ms)"
    using assms(1) by (rule wf_mountsE)
  show ?thesis
  proof (cases call)
    case (ListMounts env)
    with assms show ?thesis
      by (auto simp: api_list_mounts_def mgr_list_mounts_def split: sum.splits)
  next
    case (AddMount env name uri auto_index)
    have "f' = snd (mgr_add_mount env name uri auto_index f)"
      using assms(3) api_add_mount_file [of env name uri auto_index f] by (auto simp: AddMount split: prod.splits sum.splits)
    then show ?thesis using wf_after_add [OF assms(1)] assms(2) by (simp add: AddMount)
  next
    case (RemoveMount i)
    have "f' = f \<or> f' = JsonFile (JArr (filter (\<lambda>m. mount_id_of m \<noteq> Some (JStr i)) ms))"
      using assms(3) by (auto simp: RemoveMount api_remove_mount_def remove_mount_run [OF ms(1,2)] Let_def split: if_splits)
    then show ?thesis
      using assms(1) ms(2,3) by (auto simp: wf_mounts_def list_all_iff distinct_map_filter)
  next
    case (GetMount i)
    with assms show ?thesis
      by (auto simp: api_get_mount_def get_mount_run [OF ms(1,2)] split: option.splits if_splits)
  next
    case (IndexStatus env i status file_count)
    with assms(3) consider "f' = f" | ms' where "update_first i (indexed_mount env status (if file_count = JNull then None else Some file_count)) ms = Inr ms'"
        and "f' = JsonFile (JArr ms')"
      by (auto simp: mgr_update_index_status_def ms(1) json_iter_def save_mounts_def split: sum.splits)
    then show ?thesis
    proof cases
      case (2 ms')
      have "map mount_id_of ms' = map mount_id_of ms"
        by (rule update_first_ids [OF _ 2(1)]) (simp add: indexed_mount_get)
      moreover have "list_all wf_mount ms'"
        by (rule update_first_wf [OF _ 2(1) ms(2)]) (use assms(2) in \<open>simp add: IndexStatus wf_indexed_mount\<close>)
      ultimately show ?thesis using ms(3) 2(2) by (simp add: wf_mounts_def)
    qed (use assms(1) in simp)
  qed
qed

text \<open>
  A mount that was added under a new identifier is found under it as it was returned, every other
  identifier is looked up as before, and removing it leaves the mounts there were.
\<close>

theorem mount_roundtrip:
  assumes "wf_mounts f" and "Some (JStr (mv_uuid4 env)) \<notin> mount_ids f"
    and "api_add_mount env name uri auto_index f = (Inr m, f')"
  shows "api_get_mount (mv_uuid4 env) f' = (Inr m, f') \<and>
    (\<forall>i. i = mv_uuid4 env \<or> fst (mgr_get_mount i f') = fst (mgr_get_mount i f)) \<and>
    (case api_remove_mount (mv_uuid4 env) f' of (r, f'') \<Rightarrow> r = Inr () \<and> load_mounts f'' = load_mounts f)"
proof -
  obtain ms where ms: "load_mounts f = JArr ms" "list_all wf_mount ms" "distinct (map mount_id_of ms)"
    using assms(1) by (rule wf_mountsE)
  have "mgr_add_mount env name uri auto_index f = (Inr m, f')"
    using assms(3) by (auto simp: api_add_mount_def split: prod.splits sum.splits py_error.splits)
  with add_mount_run [OF ms(1)] obtain p where p: "parse_uri env uri = Inr p" "pu_valid p"
    and m: "m = new_mount env name uri p auto_index" and f': "f' = JsonFile (JArr (ms @ [m]))" by fastforce
  have wf: "list_all wf_mount (ms @ [m])" using ms(2) wf_new_mount [OF p] by (simp add: m)
  have id: "mount_id_of m = Some (JStr (mv_uuid4 env))" by (simp add: m new_mount_id)
  have new: "mount_id_of x \<noteq> Some (JStr (mv_uuid4 env))" if "x \<in> set ms" for x
    using that assms(2) by (simp add: mount_ids_def ms(1)) (metis image_eqI)
  have none: "filter (\<lambda>x. mount_id_of x = Some (JStr (mv_uuid4 env))) ms = []"
    and all: "filter (\<lambda>x. mount_id_of x \<noteq> Some (JStr (mv_uuid4 env))) ms = ms"
    using new by (auto simp: filter_empty_conv filter_id_conv)
  have load: "load_mounts f' = JArr (ms @ [m])" by (simp add: f')
  have "truthy m" by (simp add: m new_mount_def)
  then have "api_get_mount (mv_uuid4 env) f' = (Inr m, f')"
    by (simp add: api_get_mount_def get_mount_run [OF load wf] none id first_row_def)
  moreover have "i = mv_uuid4 env \<or> fst (mgr_get_mount i f') = fst (mgr_get_mount i f)" for i
    by (simp add: get_mount_run [OF load wf] get_mount_run [OF ms(1,2)] id)
  moreover have "api_remove_mount (mv_uuid4 env) f' = (Inr (), JsonFile (JArr ms))"
    using all by (simp add: api_remove_mount_def remove_mount_run [OF load wf] id Let_def)
  ultimately show ?thesis using ms(1) by simp
qed

text \<open>A file that is not JSON counts as empty: the next mount replaces all there were.\<close>

theorem broken_file_replaced:
  assumes "parse_uri env uri = Inr p" and "pu_valid p"
  shows "api_list_mounts env NotJson = (Inr [], NotJson) \<and>
    snd (api_add_mount env name uri auto_index NotJson) = JsonFile (JArr [new_mount env name uri p auto_index])"
  using assms
  by (simp add: api_list_mounts_def mgr_list_mounts_def api_add_mount_def mgr_add_mount_def load_mounts_def
      each_of_def json_iter_def append_json_def save_mounts_def Let_def)

section \<open>Examples\<close>

definition example_mount_env :: mount_env where
  "example_mount_env = \<lparr> mv_uuid4 = ''m1'', mv_utcnow = ''2026-01-01T00:00:00'', mv_exists = (\<lambda>p. True),
     mv_connects = (\<lambda>h p. False), mv_bracketed_host = (\<lambda>h. True) \<rparr>"

lemma example_uri:
  "parse_uri example_mount_env ''SMB://user:pw@NAS1:445/share'' =
     Inr \<lparr> pu_valid = True, pu_protocol = ''smb'', pu_host = Some ''nas1'' \<rparr>"
  "parse_uri example_mount_env ''ftp://host/x'' = Inr \<lparr> pu_valid = False, pu_protocol = ''unknown'', pu_host = None \<rparr>"
  by code_simp+

lemma mounts_invariant_witness:
  "wf_mounts (snd (mount_handle (AddMount example_mount_env ''n'' ''SMB://user:pw@NAS1:445/share'' True) NoFile))"
proof -
  obtain r f' where run: "mount_handle (AddMount example_mount_env ''n'' ''SMB://user:pw@NAS1:445/share'' True) NoFile = (r, f')"
    by fastforce
  have "wf_mounts NoFile" "fair_call (AddMount example_mount_env ''n'' ''SMB://user:pw@NAS1:445/share'' True) NoFile"
    by (simp_all add: wf_mounts_def load_mounts_def mount_ids_def)
  from mounts_invariant [OF this run] show ?thesis unfolding run by simp
qed

lemma mount_roundtrip_witness:
  "case api_add_mount example_mount_env ''n'' ''/data'' True NoFile of (r, f') \<Rightarrow>
     (case api_remove_mount ''m1'' f' of (r', f'') \<Rightarrow> load_mounts f'' = JArr [])"
proof -
  have wf: "wf_mounts NoFile" "Some (JStr (mv_uuid4 example_mount_env)) \<notin> mount_ids NoFile"
    by (simp_all add: wf_mounts_def load_mounts_def mount_ids_def)
  have "case api_add_mount example_mount_env ''n'' ''/data'' True NoFile of (Inl e, f') \<Rightarrow> False | (Inr m, f') \<Rightarrow> True"
    by code_simp
  then obtain m f' where run: "api_add_mount example_mount_env ''n'' ''/data'' True NoFile = (Inr m, f')"
    by (auto split: prod.splits sum.splits)
  have "mv_uuid4 example_mount_env = ''m1''" by (simp add: example_mount_env_def)
  with mount_roundtrip [OF wf run] show ?thesis by (auto simp: run load_mounts_def)
qed

lemma broken_file_replaced_witness:
  "case snd (api_add_mount example_mount_env ''n'' ''/data'' True NotJson) of JsonFile (JArr [m]) \<Rightarrow> True | _ \<Rightarrow> False"
proof -
  have "parse_uri example_mount_env ''/data'' = Inr \<lparr> pu_valid = True, pu_protocol = ''local'', pu_host = None \<rparr>"
    by code_simp
  from broken_file_replaced [OF this] show ?thesis by simp
qed

end
