(* ===== verification/Actions.thy ===== *)
theory Actions
  imports Mounts
begin

text \<open>
  \<open>api/actions.py\<close> and \<open>api/indexer.py\<close>: moving, deleting and renaming files with a log of every action, and
  the jobs that index a mount.

  Both reach the sources through the \<open>archon\<close> library, which is not part of the repository: whether it can
  be imported, what its protocols do to the files and what its indexer reports are parameters. The log is
  the list of its lines, \<open>None\<close> for one that is not JSON; a web socket only receives what the model leaves
  out.
\<close>

section \<open>The library and the host\<close>

record 'w archon =
  ar_installed :: bool
  ar_factory :: "string \<Rightarrow> py_error + nat \<times> string"
  ar_move :: "nat \<Rightarrow> string \<Rightarrow> string \<Rightarrow> 'w \<Rightarrow> (py_error + unit) \<times> 'w"
  ar_delete :: "nat \<Rightarrow> string \<Rightarrow> 'w \<Rightarrow> (py_error + unit) \<times> 'w"
  ar_message :: "py_error \<Rightarrow> string"

record 'w host =
  ho_audit :: "json option list"
  ho_files :: 'w
  ho_uuid :: string
  ho_now :: string

type_synonym ('w, 'a) action = "('w host, 'a) handler"

definition log_action :: "py_dict \<Rightarrow> ('w, unit) action" where
  "log_action a = modify (\<lambda>s. s\<lparr>ho_audit := ho_audit s @ [Some (JObj a)]\<rparr>)"

text \<open>\<open>with proto: ...\<close> on the files, and the import before it.\<close>

definition on_files :: "('w \<Rightarrow> (py_error + 'a) \<times> 'w) \<Rightarrow> ('w, 'a) action" where
  "on_files m = (\<lambda>s. case m (ho_files s) of (r, w) \<Rightarrow> (r, s\<lparr>ho_files := w\<rparr>))"

definition import_archon :: "'w archon \<Rightarrow> ('w, unit) action" where
  "import_archon ar = guard (ar_installed ar) (ImportError ''archon'')"

section \<open>The actions\<close>

text \<open>\<open>lines[-1000:]\<close> reversed, the entries that parse, and a slice of them.\<close>

definition recent_lines :: "json option list \<Rightarrow> json list" where
  "recent_lines ls = List.map_filter (\<lambda>l. l) (rev (py_slice ls (- 1000) (int (length ls))))"

definition get_audit_log :: "int \<Rightarrow> ('w, json list) action" where
  "get_audit_log limit = gets (\<lambda>s. py_slice (recent_lines (ho_audit s)) 0 limit)"

definition new_action :: "string \<Rightarrow> string \<Rightarrow> string \<Rightarrow> (string \<times> string) list \<Rightarrow> bool \<Rightarrow> py_dict" where
  "new_action i now type paths dry_run =
     [(''id'', JStr i), (''type'', JStr type)] @ map (\<lambda>(k, p). (k, JStr p)) paths @
     [(''dry_run'', JBool dry_run), (''timestamp'', JStr now), (''status'', JStr (if dry_run then ''dry_run'' else ''pending''))]"

text \<open>What \<open>move_file\<close> and \<open>delete_file\<close> share: the log before, the work, the log after.\<close>

definition logged_action :: "'w archon \<Rightarrow> py_dict \<Rightarrow> bool \<Rightarrow> ('w, unit) action \<Rightarrow> ('w, py_dict) action" where
  "logged_action ar act dry_run work =
     thn (log_action act)
      (if dry_run then
         ret (dict_set ''message'' (JStr ''Set dry_run=false to execute'') (dict_set ''status'' (JStr ''dry_run'') act))
       else
         py_try
           (thn (import_archon ar) (thn work
             (let complete = dict_set ''status'' (JStr ''complete'') act in thn (log_action complete) (ret complete))))
           (\<lambda>e. thn (log_action (dict_set ''error'' (JStr (ar_message ar e)) (dict_set ''status'' (JStr ''error'') act)))
                  (raise (HTTPException 500 (ar_message ar e)))))"

definition move_work :: "'w archon \<Rightarrow> string \<Rightarrow> string \<Rightarrow> ('w, unit) action" where
  "move_work ar source destination =
     bnd (lift_err (ar_factory ar source)) (\<lambda>(src_proto, src_path).
     bnd (lift_err (ar_factory ar destination)) (\<lambda>(dst_proto, dst_path).
     on_files (ar_move ar src_proto src_path dst_path)))"

definition delete_work :: "'w archon \<Rightarrow> string \<Rightarrow> ('w, unit) action" where
  "delete_work ar path = bnd (lift_err (ar_factory ar path)) (\<lambda>(proto, p). on_files (ar_delete ar proto p))"

definition move_file :: "'w archon \<Rightarrow> string \<Rightarrow> string \<Rightarrow> bool \<Rightarrow> ('w, py_dict) action" where
  "move_file ar source destination dry_run =
     bnd (gets (\<lambda>s. new_action (ho_uuid s) (ho_now s) ''move'' [(''source'', source), (''destination'', destination)] dry_run)) (\<lambda>act.
     logged_action ar act dry_run (move_work ar source destination))"

definition delete_file :: "'w archon \<Rightarrow> string \<Rightarrow> bool \<Rightarrow> ('w, py_dict) action" where
  "delete_file ar path dry_run =
     bnd (gets (\<lambda>s. new_action (ho_uuid s) (ho_now s) ''delete'' [(''path'', path)] dry_run)) (\<lambda>act.
     logged_action ar act dry_run (delete_work ar path))"

definition renamed_path :: "string \<Rightarrow> string \<Rightarrow> string" where
  "renamed_path path new_name =
     path_str (path_join (parse_path (path_str (path_parent (parse_path path)))) new_name)"

definition rename_file :: "'w archon \<Rightarrow> string \<Rightarrow> string \<Rightarrow> bool \<Rightarrow> ('w, py_dict) action" where
  "rename_file ar path new_name dry_run = move_file ar path (renamed_path path new_name) dry_run"

datatype file_request = Move string string bool | Delete string bool | Rename string string bool

fun file_handle :: "'w archon \<Rightarrow> file_request \<Rightarrow> ('w, py_dict) action" where
  "file_handle ar (Move source destination dry_run) = move_file ar source destination dry_run"
| "file_handle ar (Delete path dry_run) = delete_file ar path dry_run"
| "file_handle ar (Rename path new_name dry_run) = rename_file ar path new_name dry_run"

fun is_dry :: "file_request \<Rightarrow> bool" where
  "is_dry (Move source destination dry_run) = dry_run"
| "is_dry (Delete path dry_run) = dry_run"
| "is_dry (Rename path new_name dry_run) = dry_run"

section \<open>Every action is in the log\<close>

definition status_of :: "json option \<Rightarrow> json option" where
  "status_of e = (case e of Some (JObj d) \<Rightarrow> dict_get d ''status'' | _ \<Rightarrow> None)"

lemma dict_get_set: "dict_get (dict_set k v d) j = (if j = k then Some v else dict_get d j)"
  by (simp add: dict_get_def map_of_dict_set)

lemma new_action_status:
  "dict_get (new_action i now type [(''path'', p)] dry_run) ''status'' = Some (JStr (if dry_run then ''dry_run'' else ''pending''))"
  "dict_get (new_action i now type [(''source'', p), (''destination'', q)] dry_run) ''status'' =
     Some (JStr (if dry_run then ''dry_run'' else ''pending''))"
  by (simp_all add: new_action_def dict_get_def)

lemma logged_dry:
  "logged_action ar act True work s = (Inr (dict_set ''message'' (JStr ''Set dry_run=false to execute'')
     (dict_set ''status'' (JStr ''dry_run'') act)), s\<lparr>ho_audit := ho_audit s @ [Some (JObj act)]\<rparr>)"
  by (simp add: logged_action_def log_action_def)

text \<open>The work keeps the log and the environment.\<close>

definition only_files :: "('w, unit) action \<Rightarrow> bool" where
  "only_files work \<longleftrightarrow> (\<forall>s. \<exists>r w. work s = (r, s\<lparr>ho_files := w\<rparr>))"

lemma only_files_on_files: "only_files (on_files m)"
  by (auto simp: only_files_def on_files_def split: prod.splits)

lemma only_files_bnd: "(\<And>x. only_files (f x)) \<Longrightarrow> only_files (bnd (lift_err r) f)"
proof -
  assume f: "\<And>x. only_files (f x)"
  have "\<exists>r' w. bnd (lift_err r) f s = (r', s\<lparr>ho_files := w\<rparr>)" for s
  proof (cases r)
    case (Inl e)
    then show ?thesis by (intro exI [of _ "Inl e"] exI [of _ "ho_files s"]) simp
  next
    case (Inr x)
    with f [of x] show ?thesis by (simp add: only_files_def)
  qed
  then show ?thesis by (simp add: only_files_def)
qed

lemma logged_real:
  assumes "only_files work" and "dict_get act ''status'' = Some (JStr ''pending'')"
    and "logged_action ar act False work s = (r, s')"
  shows "\<exists>e. ho_audit s' = ho_audit s @ [Some (JObj act), e] \<and>
    (case r of Inr a \<Rightarrow> e = Some (JObj a) \<and> status_of e = Some (JStr ''complete'')
             | Inl x \<Rightarrow> status_of e = Some (JStr ''error'') \<and> (\<exists>m. x = HTTPException 500 m)) \<and>
    (ho_files s' = ho_files s \<or> ar_installed ar)"
proof -
  let ?s = "s\<lparr>ho_audit := ho_audit s @ [Some (JObj act)]\<rparr>"
  obtain q w where work: "work ?s = (q, ?s\<lparr>ho_files := w\<rparr>)" using assms(1) unfolding only_files_def by blast
  show ?thesis
  proof (cases "ar_installed ar")
    case False
    with assms(3) show ?thesis
      by (auto simp: logged_action_def log_action_def import_archon_def status_of_def dict_get_set)
  next
    case True
    with assms(3) work show ?thesis
      by (cases q) (auto simp: logged_action_def log_action_def import_archon_def status_of_def dict_get_set Let_def)
  qed
qed

lemma only_files_move: "only_files (move_work ar source destination)"
  unfolding move_work_def
  by (rule only_files_bnd, simp only: case_prod_unfold, rule only_files_bnd, rule only_files_on_files)

lemma only_files_delete: "only_files (delete_work ar path)"
  unfolding delete_work_def by (rule only_files_bnd, simp only: case_prod_unfold, rule only_files_on_files)

lemma file_work:
  "\<exists>act work. file_handle ar req s = logged_action ar act (is_dry req) work s \<and> only_files work \<and>
     dict_get act ''status'' = Some (JStr (if is_dry req then ''dry_run'' else ''pending''))"
proof -
  have move: "\<exists>act work. move_file ar p q b s = logged_action ar act b work s \<and> only_files work \<and>
      dict_get act ''status'' = Some (JStr (if b then ''dry_run'' else ''pending''))" for p q b
    by (rule exI [of _ "new_action (ho_uuid s) (ho_now s) ''move'' [(''source'', p), (''destination'', q)] b"],
        rule exI [of _ "move_work ar p q"]) (simp add: move_file_def only_files_move new_action_status)
  show ?thesis
  proof (cases req)
    case (Move p q b)
    with move show ?thesis by simp
  next
    case (Rename p n b)
    with move show ?thesis by (simp add: rename_file_def)
  next
    case (Delete p b)
    then show ?thesis
      by (intro exI [of _ "new_action (ho_uuid s) (ho_now s) ''delete'' [(''path'', p)] b"]
          exI [of _ "delete_work ar p"]) (simp add: delete_file_def only_files_delete new_action_status)
  qed
qed

text \<open>C30: 
  A dry run adds one entry to the log and leaves the files alone. A real action writes its pending entry
  first and a second one afterwards, which says complete exactly when the request returns; otherwise it
  says error and the request fails with 500. Without the library no action changes a file.
\<close>

theorem actions_logged:
  assumes "file_handle ar req s = (r, s')"
  shows "if is_dry req then (\<exists>e a. r = Inr a \<and> s' = s\<lparr>ho_audit := ho_audit s @ [e]\<rparr> \<and> status_of e = Some (JStr ''dry_run''))
    else (\<exists>e e'. ho_audit s' = ho_audit s @ [e, e'] \<and> status_of e = Some (JStr ''pending'') \<and>
      (case r of Inr a \<Rightarrow> e' = Some (JObj a) \<and> status_of e' = Some (JStr ''complete'')
               | Inl x \<Rightarrow> status_of e' = Some (JStr ''error'') \<and> (\<exists>m. x = HTTPException 500 m)) \<and>
      (ho_files s' = ho_files s \<or> ar_installed ar))"
proof -
  obtain act work where run: "logged_action ar act (is_dry req) work s = (r, s')" and work: "only_files work"
    and st: "dict_get act ''status'' = Some (JStr (if is_dry req then ''dry_run'' else ''pending''))"
    using file_work [of ar req s] assms by auto
  show ?thesis
  proof (cases "is_dry req")
    case True
    with run st show ?thesis by (auto simp: logged_dry status_of_def)
  next
    case False
    with run have real: "logged_action ar act False work s = (r, s')" by simp
    from False st have "dict_get act ''status'' = Some (JStr ''pending'')" by simp
    from logged_real [OF work this real] obtain e' where
      "ho_audit s' = ho_audit s @ [Some (JObj act), e']"
      "case r of Inr a \<Rightarrow> e' = Some (JObj a) \<and> status_of e' = Some (JStr ''complete'')
             | Inl x \<Rightarrow> status_of e' = Some (JStr ''error'') \<and> (\<exists>m. x = HTTPException 500 m)"
      "ho_files s' = ho_files s \<or> ar_installed ar" by blast
    with False st show ?thesis by (auto simp: status_of_def)
  qed
qed

text \<open>
  Renaming is not bound to the directory: a new name that starts with a slash is the destination itself,
  and for a path below a URI the double slash of the scheme is lost, so the destination is no URI any more.
\<close>

theorem rename_escapes:
  "renamed_path path (''/'' @ name) = path_str (parse_path (''/'' @ name)) \<and>
   renamed_path ''smb://nas/share/a.txt'' ''b.txt'' = ''smb:/nas/share/b.txt''"
proof
  have "path_root (''/'' @ name) \<noteq> ''''" by (simp add: path_root_def)
  then show "renamed_path path (''/'' @ name) = path_str (parse_path (''/'' @ name))"
    by (simp add: renamed_path_def path_join_def parse_path_def Let_def)
  show "renamed_path ''smb://nas/share/a.txt'' ''b.txt'' = ''smb:/nas/share/b.txt''" by code_simp
qed

text \<open>The protocol of a move's destination is never used: only its path is.\<close>

theorem destination_protocol_ignored:
  assumes "ar_factory ar destination = Inr (p, path)"
    and "source \<noteq> destination"
  shows "move_file (ar\<lparr>ar_factory := (ar_factory ar)(destination := Inr (q, path))\<rparr>) source destination False s =
    move_file ar source destination False s"
proof -
  have "move_work (ar\<lparr>ar_factory := (ar_factory ar)(destination := Inr (q, path))\<rparr>) source destination =
      move_work ar source destination"
    using assms by (auto simp: move_work_def fun_eq_iff split: sum.splits)
  then show ?thesis by (simp add: move_file_def logged_action_def import_archon_def)
qed

section \<open>Indexing jobs\<close>

record index_request =
  ir_mount_id :: string
  ir_enrich_llm :: bool
  ir_enrich_vision :: bool
  ir_enrich_faces :: bool
  ir_dry_run :: bool

text \<open>What \<open>ArchonIndexer(...).index(source)\<close> reports: a result for each file it tried, then its statistics.\<close>

record indexer_env =
  ix_mount_env :: mount_env
  ix_installed :: bool
  ix_index :: "index_request \<Rightarrow> json \<Rightarrow> (bool \<times> string) list \<times> (py_error + py_dict)"
  ix_message :: "py_error \<Rightarrow> string"
  ix_uuid4 :: string
  ix_loop_time :: rat

record index_state =
  ix_jobs :: "(string \<times> py_dict) list"
  ix_tasks :: "(string \<times> json \<times> index_request) list"
  ix_mounts :: json_file

type_synonym 'a indexing = "(index_state, 'a) handler"

definition on_mounts :: "'a mounts \<Rightarrow> 'a indexing" where
  "on_mounts m = (\<lambda>s. case m (ix_mounts s) of (r, f) \<Rightarrow> (r, s\<lparr>ix_mounts := f\<rparr>))"

definition list_jobs :: "py_dict list indexing" where
  "list_jobs = gets (\<lambda>s. map snd (ix_jobs s))"

definition get_job :: "string \<Rightarrow> py_dict indexing" where
  "get_job job_id = bnd (gets (\<lambda>s. map_of (ix_jobs s) job_id)) (\<lambda>j.
     case j of Some (kv # d) \<Rightarrow> ret (kv # d)
             | _ \<Rightarrow> raise (HTTPException 404 (''Job '' @ in_quotes job_id @ '' not found'')))"

definition new_job :: "indexer_env \<Rightarrow> index_request \<Rightarrow> json \<Rightarrow> json \<Rightarrow> py_dict" where
  "new_job env req name source =
     [(''id'', JStr (ix_uuid4 env)), (''mount_id'', JStr (ir_mount_id req)), (''mount_name'', name), (''source'', source),
      (''status'', JStr ''running''), (''files_scanned'', JInt 0), (''files_indexed'', JInt 0), (''files_skipped'', JInt 0),
      (''errors'', JInt 0), (''current_file'', JStr ''''), (''dry_run'', JBool (ir_dry_run req)),
      (''started_at'', JNum (ix_loop_time env))]"

definition start_index :: "indexer_env \<Rightarrow> index_request \<Rightarrow> string indexing" where
  "start_index env req =
     bnd (on_mounts (mgr_get_mount (ir_mount_id req))) (\<lambda>m.
     case m of
       Some mount \<Rightarrow>
         (if truthy mount then
            bnd (lift_err (json_item mount ''name'')) (\<lambda>name.
            bnd (lift_err (json_item mount ''uri'')) (\<lambda>source.
            thn (modify (\<lambda>s. s\<lparr>ix_jobs := dict_set (ix_uuid4 env) (new_job env req name source) (ix_jobs s),
                             ix_tasks := ix_tasks s @ [(ix_uuid4 env, source, req)]\<rparr>))
                (ret (ix_uuid4 env))))
          else raise (mount_not_found (ir_mount_id req)))
     | None \<Rightarrow> raise (mount_not_found (ir_mount_id req)))"

text \<open>\<open>job[k] += 1\<close> and the current file, for one result.\<close>

definition progress :: "bool \<times> string \<Rightarrow> py_dict \<Rightarrow> py_dict" where
  "progress r job =
     (case r of (success, path) \<Rightarrow>
        let k = (if success then ''files_indexed'' else ''errors'');
            n = (case dict_get job k of Some (JInt i) \<Rightarrow> i | _ \<Rightarrow> 0)
        in dict_set ''current_file'' (JStr path) (dict_set k (JInt (n + 1)) job))"

definition finished_job :: "py_dict \<Rightarrow> py_error + py_dict" where
  "finished_job stats =
     (case try_map (dict_item stats) [''files_scanned'', ''files_indexed'', ''errors'', ''duration_secs''] of
        Inl e \<Rightarrow> Inl e
      | Inr vs \<Rightarrow> Inr [(''status'', JStr ''complete''), (''files_scanned'', vs ! 0), (''files_indexed'', vs ! 1),
          (''files_skipped'', dict_get_or stats ''files_skipped'' (JInt 0)), (''errors'', vs ! 2), (''duration_secs'', vs ! 3)])"

definition update_job :: "string \<Rightarrow> (py_dict \<Rightarrow> py_dict) \<Rightarrow> unit indexing" where
  "update_job job_id f =
     modify (\<lambda>s. s\<lparr>ix_jobs := map (\<lambda>(i, j). if i = job_id then (i, f j) else (i, j)) (ix_jobs s)\<rparr>)"

definition index_mount :: "indexer_env \<Rightarrow> string \<Rightarrow> json \<Rightarrow> index_request \<Rightarrow> unit indexing" where
  "index_mount env job_id source req =
     thn (guard (ix_installed env) (ImportError ''archon''))
    (thn (update_job job_id (\<lambda>j. foldl (\<lambda>j r. progress r j) j (fst (ix_index env req source))))
    (bnd (lift_err (snd (ix_index env req source))) (\<lambda>stats.
     bnd (lift_err (finished_job stats)) (\<lambda>fields.
     thn (update_job job_id (\<lambda>j. dict_update j fields))
         (on_mounts (mgr_update_index_status (ix_mount_env env) (ir_mount_id req) ''complete''
            (dict_get_or stats ''files_indexed'' JNull)))))))"

definition run_index :: "indexer_env \<Rightarrow> string \<Rightarrow> json \<Rightarrow> index_request \<Rightarrow> unit indexing" where
  "run_index env job_id source req =
     py_try (index_mount env job_id source req)
       (\<lambda>e. update_job job_id (\<lambda>j. dict_set ''error'' (JStr (ix_message env e)) (dict_set ''status'' (JStr ''error'') j)))"

definition job_status :: "index_state \<Rightarrow> string \<Rightarrow> json option" where
  "job_status s job_id = (case map_of (ix_jobs s) job_id of None \<Rightarrow> None | Some j \<Rightarrow> dict_get j ''status'')"

lemma map_of_updated_jobs:
  "map_of (map (\<lambda>(i, j). if i = k then (i, f j) else (i, j)) jobs) i =
     (if i = k then map_option f (map_of jobs i) else map_of jobs i)"
  by (induction jobs) auto

lemma update_job_run:
  "update_job job_id f s = (Inr (), s\<lparr>ix_jobs := map (\<lambda>(i, j). if i = job_id then (i, f j) else (i, j)) (ix_jobs s)\<rparr>)"
  by (simp add: update_job_def)

lemma mgr_update_keeps_error: "mgr_update_index_status env i st n f = (Inl e, f') \<Longrightarrow> f' = f"
  by (auto simp: mgr_update_index_status_def save_mounts_def split: sum.splits)

lemma dict_get_update_status:
  "dict_get (dict_update j [(''status'', v), (''files_scanned'', a), (''files_indexed'', b), (''files_skipped'', c),
     (''errors'', d), (''duration_secs'', e)]) ''status'' = Some v"
  by (simp add: dict_get_def map_of_dict_update)

text \<open>
  Once its task has run, a job that exists is complete or in error. Complete means that the library was
  there, returned its statistics and the mount was marked; in error, the file of the mounts is as before.
  Other jobs are not touched.
\<close>

theorem job_outcome:
  assumes "run_index env job_id source req s = (r, s')" and "map_of (ix_jobs s) job_id \<noteq> None"
  shows "r = Inr () \<and>
    (job_status s' job_id = Some (JStr ''complete'') \<and> ix_installed env \<and>
       (\<exists>stats. snd (ix_index env req source) = Inr stats \<and>
          mgr_update_index_status (ix_mount_env env) (ir_mount_id req) ''complete'' (dict_get_or stats ''files_indexed'' JNull)
            (ix_mounts s) = (Inr (), ix_mounts s')) \<or>
     job_status s' job_id = Some (JStr ''error'') \<and> ix_mounts s' = ix_mounts s) \<and>
    (\<forall>i. i = job_id \<or> map_of (ix_jobs s') i = map_of (ix_jobs s) i)"
proof -
  have failed: ?thesis if run: "r = Inr ()"
      "s' = snd (update_job job_id (\<lambda>j. dict_set ''error'' x (dict_set ''status'' (JStr ''error'') j)) t)"
    and t: "ix_mounts t = ix_mounts s" "\<And>i. i \<noteq> job_id \<Longrightarrow> map_of (ix_jobs t) i = map_of (ix_jobs s) i"
      "map_of (ix_jobs t) job_id \<noteq> None" for x t
    using run t by (auto simp: update_job_run job_status_def map_of_updated_jobs dict_get_set)
  let ?run = "\<lambda>j. foldl (\<lambda>j r. progress r j) j (fst (ix_index env req source))"
  define s1 where "s1 = snd (update_job job_id ?run s)"
  have s1: "update_job job_id ?run s = (Inr (), s1)" "ix_mounts s1 = ix_mounts s"
    "\<And>i. i \<noteq> job_id \<Longrightarrow> map_of (ix_jobs s1) i = map_of (ix_jobs s) i" "map_of (ix_jobs s1) job_id \<noteq> None"
    using assms(2) by (auto simp: s1_def update_job_run map_of_updated_jobs)
  show ?thesis
  proof (cases "ix_installed env")
    case False
    with assms show ?thesis
      by (intro failed [of "JStr (ix_message env (ImportError ''archon''))" s])
        (auto simp: run_index_def index_mount_def update_job_run)
  next
    case True
    show ?thesis
    proof (cases "snd (ix_index env req source)")
      case (Inl e)
      with assms(1) True s1 show ?thesis
        by (intro failed [of "JStr (ix_message env e)" s1]) (auto simp: run_index_def index_mount_def update_job_run)
    next
      case stats: (Inr stats)
      show ?thesis
      proof (cases "finished_job stats")
        case (Inl e)
        with assms(1) True stats s1 show ?thesis
          by (intro failed [of "JStr (ix_message env e)" s1]) (auto simp: run_index_def index_mount_def update_job_run)
      next
        case fields: (Inr fields)
        define s2 where "s2 = snd (update_job job_id (\<lambda>j. dict_update j fields) s1)"
        have s2: "update_job job_id (\<lambda>j. dict_update j fields) s1 = (Inr (), s2)" "ix_mounts s2 = ix_mounts s"
          "\<And>i. i \<noteq> job_id \<Longrightarrow> map_of (ix_jobs s2) i = map_of (ix_jobs s) i" "map_of (ix_jobs s2) job_id \<noteq> None"
          using s1 by (auto simp: s2_def update_job_run map_of_updated_jobs)
        have done_status: "job_status s2 job_id = Some (JStr ''complete'')"
          using fields s1(4) by (auto simp: s2_def finished_job_def update_job_run job_status_def map_of_updated_jobs
              dict_get_update_status split: sum.splits)
        obtain q f where mark: "mgr_update_index_status (ix_mount_env env) (ir_mount_id req) ''complete''
            (dict_get_or stats ''files_indexed'' JNull) (ix_mounts s) = (q, f)" by fastforce
        have run: "index_mount env job_id source req s = (q, s2\<lparr>ix_mounts := f\<rparr>)"
          using True stats fields by (simp add: index_mount_def s1(1) s2(1) on_mounts_def s2(2) mark)
        show ?thesis
        proof (cases q)
          case (Inl e)
          then have "f = ix_mounts s" using mgr_update_keeps_error mark by blast
          with assms(1) run Inl s2 show ?thesis
            by (intro failed [of "JStr (ix_message env e)" s2]) (auto simp: run_index_def update_job_run)
        next
          case (Inr u)
          then have q: "q = Inr ()" by simp
          with assms(1) run have s': "r = Inr ()" "s' = s2\<lparr>ix_mounts := f\<rparr>" by (auto simp: run_index_def)
          moreover have "job_status s' job_id = Some (JStr ''complete'')"
            using done_status by (simp add: s'(2) job_status_def)
          ultimately show ?thesis using True stats mark q s2(3) by auto
        qed
      qed
    qed
  qed
qed

section \<open>Examples\<close>

definition example_archon :: "bool \<Rightarrow> string list archon" where
  "example_archon installed = \<lparr> ar_installed = installed, ar_factory = (\<lambda>u. Inr (0, u)),
     ar_move = (\<lambda>p a b w. (Inr (), map (\<lambda>x. if x = a then b else x) w)),
     ar_delete = (\<lambda>p a w. (Inr (), filter (\<lambda>x. x \<noteq> a) w)), ar_message = (\<lambda>e. ''failed'') \<rparr>"

definition example_host :: "string list host" where
  "example_host = \<lparr> ho_audit = [], ho_files = [''/a'', ''/b''], ho_uuid = ''i1'', ho_now = ''t'' \<rparr>"

lemma actions_logged_witness:
  "case file_handle (example_archon True) (Move ''/a'' ''/c'' False) example_host of
     (r, s') \<Rightarrow> length (ho_audit s') = 2 \<and> ho_files s' = [''/c'', ''/b'']"
proof -
  let ?run = "file_handle (example_archon True) (Move ''/a'' ''/c'' False) example_host"
  obtain r s' where run: "?run = (r, s')" by fastforce
  have files: "ho_files (snd ?run) = [''/c'', ''/b'']" by code_simp
  from actions_logged [OF run] have "length (ho_audit s') = 2" by (auto simp: example_host_def)
  with files show ?thesis unfolding run by simp
qed

lemma destination_protocol_ignored_witness:
  "move_file (example_archon True\<lparr>ar_factory := (\<lambda>u. Inr (0, u))(''/c'' := Inr (7, ''/c''))\<rparr>) ''/a'' ''/c'' False example_host =
   move_file (example_archon True) ''/a'' ''/c'' False example_host"
proof -
  have "ar_factory (example_archon True) ''/c'' = Inr (0, ''/c'')" and "''/a'' \<noteq> ''/c''"
    by (simp_all add: example_archon_def)
  from destination_protocol_ignored [OF this, of 7 example_host] show ?thesis by (simp add: example_archon_def)
qed

definition example_indexer :: indexer_env where
  "example_indexer = \<lparr> ix_mount_env = example_mount_env, ix_installed = False, ix_index = (\<lambda>req u. ([], Inl TypeError)),
     ix_message = (\<lambda>e. ''failed''), ix_uuid4 = ''j1'', ix_loop_time = 0 \<rparr>"

definition example_index_state :: index_state where
  "example_index_state = \<lparr> ix_jobs = [(''j1'', [(''status'', JStr ''running'')])], ix_tasks = [], ix_mounts = NoFile \<rparr>"

lemma job_outcome_witness:
  "job_status (snd (run_index example_indexer ''j1'' (JStr ''/data'') \<lparr> ir_mount_id = ''m1'', ir_enrich_llm = True,
     ir_enrich_vision = True, ir_enrich_faces = True, ir_dry_run = False \<rparr> example_index_state)) ''j1'' = Some (JStr ''error'')"
proof -
  let ?req = "\<lparr> ir_mount_id = ''m1'', ir_enrich_llm = True, ir_enrich_vision = True, ir_enrich_faces = True, ir_dry_run = False \<rparr>"
  obtain r s' where run: "run_index example_indexer ''j1'' (JStr ''/data'') ?req example_index_state = (r, s')" by fastforce
  have "map_of (ix_jobs example_index_state) ''j1'' \<noteq> None" by (simp add: example_index_state_def)
  moreover have "\<not> ix_installed example_indexer" by (simp add: example_indexer_def)
  ultimately show ?thesis using job_outcome [OF run] unfolding run snd_conv by blast
qed

end
