(* ===== verification/Search.thy ===== *)
theory Search
  imports Schema Py_Path "HOL-Library.Multiset"
begin

text \<open>
  \<open>api/search.py\<close>: the global search, by Meilisearch, OpenSearch or the tenant's graph.

  What the search servers and the databases answer are parameters. The searches over the types run side
  by side on one backend object; each is modelled with the answer its own query gets. A request's \<open>q\<close> has
  from 1 to 200 characters and its \<open>limit\<close> is at most 100. Text is ASCII.
\<close>

section \<open>Highlighting\<close>

definition same_text :: "string \<Rightarrow> string \<Rightarrow> bool" where
  "same_text s t \<longleftrightarrow> str_lower s = str_lower t"

text \<open>The pieces of a text: the matches of the pattern, and the characters between them.\<close>

function match_pieces :: "string \<Rightarrow> string \<Rightarrow> (bool \<times> string) list" where
  "match_pieces q t =
     (if t = '''' \<or> q = '''' then []
      else if same_text (take (length q) t) q then (True, take (length q) t) # match_pieces q (drop (length q) t)
      else (False, take 1 t) # match_pieces q (drop 1 t))"
  by pat_completeness auto

termination
  by (relation "measure (\<lambda>(q, t). length t)") auto

declare match_pieces.simps [simp del]

definition highlight :: "string \<Rightarrow> string \<Rightarrow> string" where
  "highlight text query =
     (if text = '''' \<or> query = '''' then text
      else concat (map (\<lambda>(hit, s). if hit then ''<em>'' @ s @ ''</em>'' else s) (match_pieces query text)))"

section \<open>The search of the graph\<close>

record global_hit =
  sh_id :: json
  sh_node_type :: json
  sh_name :: json
  sh_path :: json
  sh_summary :: json
  sh_highlight :: json
  sh_score :: json

record search_env =
  se_genv :: graph_env
  se_query :: "graph_backend \<Rightarrow> string \<Rightarrow> py_dict \<Rightarrow> py_error + (string \<times> row_value) list list"
  se_MEILISEARCH_URL :: string
  se_OPENSEARCH_URL :: string
  se_post :: "string \<Rightarrow> json \<Rightarrow> py_error + json"

definition safe_query :: "string \<Rightarrow> string" where
  "safe_query q = take 100 (filter (\<lambda>c. char_code c \<notin> {39, 34, 92, 10, 13, 59}) q)"

definition DEFAULT_TYPES :: "string list" where
  "DEFAULT_TYPES = [''File'', ''Person'', ''Application'', ''Vulnerability'']"

definition type_limit :: "int \<Rightarrow> string list \<Rightarrow> int" where
  "type_limit limit search_types = max 5 (limit div int (length search_types))"

definition search_cypher :: "string \<Rightarrow> int \<Rightarrow> string" where
  "search_cypher node_type n = text_block
     [(0, ''''),
      (8, ''MATCH (n:'' @ node_type @ '')''),
      (8, ''WHERE n.tenant_id = $tid AND (''),
      (10, ''toLower(n.name) CONTAINS toLower($q)''),
      (10, ''OR toLower(coalesce(n.path, '' @ in_quotes '''' @ '')) CONTAINS toLower($q)''),
      (10, ''OR toLower(coalesce(n.summary, '' @ in_quotes '''' @ '')) CONTAINS toLower($q)''),
      (10, ''OR toLower(coalesce(n.email, '' @ in_quotes '''' @ '')) CONTAINS toLower($q)''),
      (8, '')''),
      (8, ''RETURN n LIMIT '' @ int_str n),
      (8, '''')]"

text \<open>\<open>a or b\<close>, and \<open>_highlight\<close> of a value.\<close>

definition json_either :: "json \<Rightarrow> json \<Rightarrow> json" where
  "json_either a b = (if truthy a then a else b)"

definition highlight_json :: "json \<Rightarrow> string \<Rightarrow> py_error + json" where
  "highlight_json v q =
     (if \<not> truthy v \<or> q = '''' then Inr v
      else (case v of JStr t \<Rightarrow> Inr (JStr (highlight t q)) | _ \<Rightarrow> Inl TypeError))"

definition hit_of :: "string \<Rightarrow> string \<Rightarrow> py_dict \<Rightarrow> py_error + global_hit" where
  "hit_of q node_type node =
     (let name = json_either (dict_get_or node ''name'' JNull)
                   (json_either (dict_get_or node ''email'' JNull) (dict_get_or node ''id'' (JStr '''')))
      in map_sum id (\<lambda>h. \<lparr> sh_id = dict_get_or node ''id'' (JStr ''''), sh_node_type = JStr node_type, sh_name = name,
           sh_path = dict_get_or node ''path'' JNull, sh_summary = dict_get_or node ''summary'' JNull,
           sh_highlight = h, sh_score = JNum 1 \<rparr>) (highlight_json name q))"

fun hits_of_rows :: "string \<Rightarrow> string \<Rightarrow> (string \<times> row_value) list list \<Rightarrow> py_error + global_hit list" where
  "hits_of_rows q node_type [] = Inr []"
| "hits_of_rows q node_type (row # rows) =
     (case row_node row of
        JsonValue (JObj node) \<Rightarrow>
          (case hit_of q node_type node of
             Inl e \<Rightarrow> Inl e
           | Inr h \<Rightarrow> map_sum id (\<lambda>hs. h # hs) (hits_of_rows q node_type rows))
      | _ \<Rightarrow> hits_of_rows q node_type rows)"

definition search_type :: "search_env \<Rightarrow> graph_backend \<Rightarrow> string \<Rightarrow> string \<Rightarrow> int \<Rightarrow> string \<Rightarrow> global_hit list" where
  "search_type env b tid q n node_type =
     (if connects (se_genv env) b then
        (case se_query env b (search_cypher node_type n) [(''tid'', JStr tid), (''q'', JStr (safe_query q))] of
           Inl e \<Rightarrow> []
         | Inr rows \<Rightarrow> (case hits_of_rows q node_type rows of Inl e \<Rightarrow> [] | Inr hs \<Rightarrow> hs))
      else [])"

text \<open>The key of the sort; \<open>lower\<close> is a method of texts only.\<close>

definition name_rank :: "string \<Rightarrow> global_hit \<Rightarrow> py_error + nat" where
  "name_rank q item =
     (case sh_name item of
        JStr name \<Rightarrow>
          Inr (let n = str_lower name; q_lower = str_lower q
               in if n = q_lower then 0 else if take (length q_lower) n = q_lower then 1 else 2)
      | _ \<Rightarrow> Inl AttributeError)"

definition is_text_name :: "global_hit \<Rightarrow> bool" where
  "is_text_name h = (case sh_name h of JStr t \<Rightarrow> True | _ \<Rightarrow> False)"

definition rank_of :: "string \<Rightarrow> global_hit \<Rightarrow> nat" where
  "rank_of q h = (case name_rank q h of Inl e \<Rightarrow> 0 | Inr n \<Rightarrow> n)"

definition ranked :: "string \<Rightarrow> global_hit list \<Rightarrow> py_error + global_hit list" where
  "ranked q hits = (if list_all is_text_name hits then Inr (sort_key (rank_of q) hits) else Inl AttributeError)"

definition search_graph ::
  "search_env \<Rightarrow> auth_context \<Rightarrow> string \<Rightarrow> int \<Rightarrow> string list option \<Rightarrow> global_hit list endpoint" where
  "search_graph env auth q limit node_types =
     bnd (select_one tenants (\<lambda>t. tn_id t = ac_tenant_id auth)) (\<lambda>tenant.
     case tenant of
       None \<Rightarrow> ret []
     | Some t \<Rightarrow>
         bnd (lift_err (get_backend_for_tenant (se_genv env) (str_or (tn_graph_backend t) ''neo4j'') (tn_graph_config t))) (\<lambda>b.
         let search_types = (case node_types of None \<Rightarrow> DEFAULT_TYPES | Some ts \<Rightarrow> ts);
             n = type_limit limit search_types
         in bnd (lift_err (ranked q (concat (map (search_type env b (uuid_str (ac_tenant_id auth)) q n) search_types)))) (\<lambda>hits.
            ret (py_slice hits 0 limit))))"

section \<open>The search servers\<close>

definition meilisearch_body :: "string \<Rightarrow> string \<Rightarrow> int \<Rightarrow> string list option \<Rightarrow> json" where
  "meilisearch_body q tenant_id limit types =
     JObj [(''queries'', JArr [JObj [(''indexUid'', JStr (''dgraphai_'' @ tenant_id)), (''q'', JStr q), (''limit'', JInt limit),
       (''attributesToHighlight'', JArr (map JStr [''name'', ''path'', ''summary''])),
       (''highlightPreTag'', JStr ''<em>''), (''highlightPostTag'', JStr ''</em>''),
       (''filter'', (case types of None \<Rightarrow> JNull | Some ts \<Rightarrow> JStr (''node_type IN ['' @ str_join '','' ts @ '']'')))]])]"

definition meilisearch_hit :: "json \<Rightarrow> py_error + global_hit" where
  "meilisearch_hit h =
     try_bind (json_get h ''id'' (JStr '''')) (\<lambda>i.
     try_bind (json_get h ''node_type'' (JStr ''File'')) (\<lambda>ty.
     try_bind (json_get h ''name'' (JStr '''')) (\<lambda>name.
     try_bind (json_get h ''path'' JNull) (\<lambda>path.
     try_bind (json_get h ''summary'' JNull) (\<lambda>summary.
     try_bind (json_get h ''_formatted'' (JObj [])) (\<lambda>formatted.
     try_bind (json_get formatted ''name'' name) (\<lambda>hl.
     try_bind (json_get h ''_rankingScore'' (JNum 1)) (\<lambda>score.
     Inr \<lparr> sh_id = i, sh_node_type = ty, sh_name = name, sh_path = path, sh_summary = summary, sh_highlight = hl,
           sh_score = score \<rparr>))))))))"

definition search_meilisearch :: "search_env \<Rightarrow> string \<Rightarrow> string \<Rightarrow> int \<Rightarrow> string list option \<Rightarrow> global_hit list" where
  "search_meilisearch env q tenant_id limit types =
     (case try_bind (se_post env (se_MEILISEARCH_URL env @ ''/multi-search'') (meilisearch_body q tenant_id limit types)) (\<lambda>data.
           try_bind (json_get data ''results'' (JArr [JObj []])) (\<lambda>results.
           try_bind (json_index0 results) (\<lambda>r.
           try_bind (json_get r ''hits'' (JArr [])) (\<lambda>hits.
           try_bind (json_iter hits) (try_map meilisearch_hit))))) of
        Inl e \<Rightarrow> [] | Inr hs \<Rightarrow> hs)"

definition opensearch_body :: "string \<Rightarrow> string \<Rightarrow> int \<Rightarrow> string list option \<Rightarrow> json" where
  "opensearch_body q tenant_id limit types =
     JObj [(''size'', JInt limit),
       (''query'', JObj [(''bool'', JObj
          [(''must'', JObj [(''multi_match'', JObj [(''query'', JStr q),
              (''fields'', JArr (map JStr [''name^3'', ''path^2'', ''summary'', ''email^2''])), (''fuzziness'', JStr ''AUTO'')])]),
           (''filter'', JArr ([JObj [(''term'', JObj [(''tenant_id'', JStr tenant_id)])]] @
              (case types of None \<Rightarrow> [] | Some ts \<Rightarrow> [JObj [(''terms'', JObj [(''node_type'', JArr (map JStr ts))])]])))])]),
       (''highlight'', JObj [(''fields'', JObj [(''name'', JObj []), (''summary'', JObj [])])])]"

definition opensearch_hit :: "json \<Rightarrow> py_error + global_hit" where
  "opensearch_hit h =
        (try_bind (json_item h ''_source'') (\<lambda>source.
         try_bind (json_item h ''_id'') (\<lambda>own.
         try_bind (json_get source ''id'' own) (\<lambda>i.
         try_bind (json_get source ''node_type'' (JStr ''File'')) (\<lambda>ty.
         try_bind (json_get source ''name'' (JStr '''')) (\<lambda>name.
         try_bind (json_get source ''path'' JNull) (\<lambda>path.
         try_bind (json_get source ''summary'' JNull) (\<lambda>summary.
         try_bind (json_get h ''highlight'' (JObj [])) (\<lambda>marks.
         try_bind (json_get marks ''name'' (JArr [name])) (\<lambda>ms.
         try_bind (json_index0 ms) (\<lambda>hl.
         try_bind (json_get h ''_score'' (JNum 1)) (\<lambda>score.
         Inr \<lparr> sh_id = i, sh_node_type = ty, sh_name = name, sh_path = path, sh_summary = summary, sh_highlight = hl,
               sh_score = score \<rparr>))))))))))))"

definition search_opensearch :: "search_env \<Rightarrow> string \<Rightarrow> string \<Rightarrow> int \<Rightarrow> string list option \<Rightarrow> global_hit list" where
  "search_opensearch env q tenant_id limit types =
     (case try_bind (se_post env (se_OPENSEARCH_URL env @ ''/dgraphai/_search'') (opensearch_body q tenant_id limit types)) (\<lambda>data.
           try_bind (json_get data ''hits'' (JObj [])) (\<lambda>outer.
           try_bind (json_get outer ''hits'' (JArr [])) (\<lambda>hits.
           try_bind (json_iter hits) (try_map opensearch_hit)))) of
        Inl e \<Rightarrow> [] | Inr hs \<Rightarrow> hs)"

section \<open>The request\<close>

definition node_types_of :: "string \<Rightarrow> string list option" where
  "node_types_of types =
     (let ts = filter (\<lambda>t. t \<noteq> '''') (map str_strip (split_char (CHR '','') types)) in if ts = [] then None else Some ts)"

record search_answer =
  sa_query :: string
  sa_results :: "global_hit list"
  sa_total :: nat
  sa_backend :: string

definition global_search :: "search_env \<Rightarrow> auth_context \<Rightarrow> string \<Rightarrow> int \<Rightarrow> string \<Rightarrow> search_answer endpoint" where
  "global_search env auth q limit types =
     (let node_types = node_types_of types; tid = uuid_str (ac_tenant_id auth)
      in bnd (if se_MEILISEARCH_URL env \<noteq> '''' then ret (search_meilisearch env q tid limit node_types)
              else if se_OPENSEARCH_URL env \<noteq> '''' then ret (search_opensearch env q tid limit node_types)
              else search_graph env auth q limit node_types) (\<lambda>results.
         ret \<lparr> sa_query = q, sa_results = results, sa_total = length results,
               sa_backend = (if se_MEILISEARCH_URL env \<noteq> '''' then ''meilisearch''
                             else if se_OPENSEARCH_URL env \<noteq> '''' then ''opensearch'' else ''graph'') \<rparr>))"

section \<open>What a highlight marks\<close>

lemma match_pieces_step:
  "match_pieces q '''' = []"
  "q \<noteq> '''' \<Longrightarrow> match_pieces q (c # s) =
     (if same_text (take (length q) (c # s)) q then (True, take (length q) (c # s)) # match_pieces q (drop (length q) (c # s))
      else (False, [c]) # match_pieces q s)"
  by (simp_all add: match_pieces.simps [of q "''''"] match_pieces.simps [of q "c # s"])

lemma match_pieces_text: "q \<noteq> '''' \<Longrightarrow> concat (map snd (match_pieces q t)) = t"
proof (induction q t rule: match_pieces.induct)
  case (1 q t)
  then show ?case by (cases t) (simp_all add: match_pieces_step)
qed

lemma match_pieces_hits: "q \<noteq> '''' \<Longrightarrow> list_all (\<lambda>(hit, s). if hit then same_text s q else length s = 1) (match_pieces q t)"
proof (induction q t rule: match_pieces.induct)
  case (1 q t)
  then show ?case by (cases t) (simp_all add: match_pieces_step)
qed

definition occurs_in :: "string \<Rightarrow> string \<Rightarrow> bool" where
  "occurs_in q t \<longleftrightarrow> (\<exists>i \<le> length t. same_text (take (length q) (drop i t)) q)"

lemma match_pieces_found:
  "q \<noteq> '''' \<Longrightarrow> occurs_in q t \<longleftrightarrow> True \<in> fst ` set (match_pieces q t)"
proof (induction q t rule: match_pieces.induct)
  case (1 q t)
  show ?case
  proof (cases "t = '''' \<or> same_text (take (length q) t) q")
    case True
    with "1.prems" show ?thesis
      by (cases t) (auto simp: match_pieces_step occurs_in_def same_text_def str_lower_def intro!: exI [of _ 0])
  next
    case False
    then obtain c s where t: "t = c # s" by (cases t) auto
    have "occurs_in q t \<longleftrightarrow> occurs_in q s"
    proof
      assume "occurs_in q t"
      then obtain i where i: "i \<le> length t" "same_text (take (length q) (drop i t)) q" by (auto simp: occurs_in_def)
      with False obtain j where "i = Suc j" by (cases i) auto
      with i show "occurs_in q s" by (auto simp: occurs_in_def t)
    next
      assume "occurs_in q s"
      then obtain i where "i \<le> length s" "same_text (take (length q) (drop i s)) q" by (auto simp: occurs_in_def)
      then show "occurs_in q t" by (auto simp: occurs_in_def t intro!: exI [of _ "Suc i"])
    qed
    with "1.IH"(2) "1.prems" False t show ?thesis by (simp add: match_pieces_step)
  qed
qed

text \<open>
  A highlight is the text with tags around some of its pieces: the marked pieces are the query up to the
  case of the letters, and there is one as soon as the query occurs in the text at all.
\<close>

theorem highlight_exact:
  assumes "q \<noteq> ''''" and "t \<noteq> ''''"
  shows "\<exists>ps. highlight t q = concat (map (\<lambda>(hit, s). if hit then ''<em>'' @ s @ ''</em>'' else s) ps) \<and>
    concat (map snd ps) = t \<and> list_all (\<lambda>(hit, s). if hit then same_text s q else length s = 1) ps \<and>
    (True \<in> fst ` set ps) = occurs_in q t"
  using assms match_pieces_text [OF assms(1)] match_pieces_hits [OF assms(1), of t] match_pieces_found [OF assms(1)]
  by (intro exI [of _ "match_pieces q t"]) (simp add: highlight_def)

section \<open>What the search of the graph returns\<close>

lemma ranked_sorted:
  assumes "ranked q hits = Inr hs"
  shows "mset hs = mset hits \<and> sorted (map (rank_of q) hs)"
  using assms by (auto simp: ranked_def split: if_splits)

lemma py_slice_upto: "0 \<le> n \<Longrightarrow> py_slice xs 0 n = take (nat n) xs"
  by (auto simp: py_slice_def slice_bound_def Let_def min_def)

lemma hits_type: "hits_of_rows q nt rows = Inr hs \<Longrightarrow> list_all (\<lambda>h. sh_node_type h = JStr nt) hs"
proof (induction rows arbitrary: hs)
  case (Cons row rows)
  then show ?case
    by (cases "hits_of_rows q nt rows")
      (auto simp: hit_of_def Let_def map_sum_def split: row_value.splits json.splits sum.splits)
qed simp

lemma search_type_types: "h \<in> set (search_type env b tid q n nt) \<Longrightarrow> sh_node_type h = JStr nt"
proof -
  assume h: "h \<in> set (search_type env b tid q n nt)"
  let ?run = "se_query env b (search_cypher nt n) [(''tid'', JStr tid), (''q'', JStr (safe_query q))]"
  from h obtain rows where rows: "?run = Inr rows" and conn: "connects (se_genv env) b"
    by (cases ?run; cases "connects (se_genv env) b") (simp_all add: search_type_def)
  with h obtain hs where "hits_of_rows q nt rows = Inr hs" and "h \<in> set hs"
    by (cases "hits_of_rows q nt rows") (simp_all add: search_type_def)
  then show ?thesis using hits_type by (auto simp: list_all_iff)
qed

text \<open>
  With a limit that is not negative, a search of the graph that returns gives at most that many hits, the
  best ranked first, each of one of the types searched and found by its query; it changes nothing.
\<close>

theorem graph_search_sorted:
  assumes "search_graph env auth q limit node_types s = (Inr hits, s')" and "0 \<le> limit"
  shows "s' = s \<and> length hits \<le> nat limit \<and> sorted (map (rank_of q) hits) \<and>
    list_all (\<lambda>h. sh_node_type h \<in> JStr ` set (case node_types of None \<Rightarrow> DEFAULT_TYPES | Some ts \<Rightarrow> ts)) hits"
proof -
  let ?types = "case node_types of None \<Rightarrow> DEFAULT_TYPES | Some ts \<Rightarrow> ts"
  consider "hits = []" "s' = s" | b hs where
      "ranked q (concat (map (search_type env b (uuid_str (ac_tenant_id auth)) q (type_limit limit ?types)) ?types)) = Inr hs"
      "hits = py_slice hs 0 limit" "s' = s"
    using assms(1) by (auto simp: search_graph_def Let_def split: sum.splits option.splits)
  then show ?thesis
  proof cases
    case (2 b hs)
    have hits: "hits = take (nat limit) hs" using 2(2) assms(2) by (simp add: py_slice_upto)
    from ranked_sorted [OF 2(1)] have sorted: "sorted (map (rank_of q) hits)"
      by (simp add: hits take_map [symmetric] sorted_wrt_take)
    have "set hs = set (concat (map (search_type env b (uuid_str (ac_tenant_id auth)) q (type_limit limit ?types)) ?types))"
      using ranked_sorted [OF 2(1)] by (intro mset_eq_setD) blast
    then have "sh_node_type h \<in> JStr ` set ?types" if "h \<in> set hits" for h
      using that search_type_types by (auto simp: hits dest!: in_set_takeD)
    then show ?thesis using 2(3) sorted by (simp add: hits list_all_iff)
  qed simp
qed

lemma driver_rows_skipped:
  "list_all (\<lambda>row. row \<noteq> [] \<and> list_all (\<lambda>(k, v). case v of DriverNode d \<Rightarrow> True | JsonValue j \<Rightarrow> False) row) rows \<Longrightarrow>
   hits_of_rows q nt rows = Inr []"
proof (induction rows)
  case (Cons row rows)
  then obtain k v rest where row: "row = (k, v) # rest" by (cases row) auto
  obtain d where v: "v = DriverNode d" using Cons.prems by (auto simp: row split: row_value.splits)
  have "\<exists>d. row_node row = DriverNode d"
  proof (cases "map_of row ''n''")
    case (Some w)
    then have "(''n'', w) \<in> set row" by (rule map_of_SomeD)
    then obtain e where "w = DriverNode e" using Cons.prems by (cases w) (auto simp: list_all_iff)
    with Some show ?thesis by (auto simp: row_node_def row v)
  qed (simp add: row_node_def row v)
  then show ?case using Cons by auto
qed simp

text \<open>
  The rows of the graph's drivers hold nodes of the driver, which are no dicts: the search skips them all,
  so it finds nothing in any graph.
\<close>

theorem graph_search_finds_nothing:
  assumes "\<And>b c ps. case se_query env b c ps of Inl e \<Rightarrow> True
      | Inr rows \<Rightarrow> list_all (\<lambda>row. row \<noteq> [] \<and> list_all (\<lambda>(k, v). case v of DriverNode d \<Rightarrow> True | JsonValue j \<Rightarrow> False) row) rows"
    and "search_graph env auth q limit node_types s = (Inr hits, s')"
  shows "hits = []"
proof -
  have none: "search_type env b tid q n nt = []" for b tid n nt
    using assms(1) [of b "search_cypher nt n" "[(''tid'', JStr tid), (''q'', JStr (safe_query q))]"]
    by (auto simp: search_type_def driver_rows_skipped split: sum.splits)
  have all: "concat (map (search_type env b tid q n) ts) = []" for b tid n ts by (induction ts) (simp_all add: none)
  have "ranked q [] = Inr []" "py_slice [] 0 limit = ([] :: global_hit list)" by (simp_all add: ranked_def py_slice_def)
  then show ?thesis using assms(2)
    by (auto simp: search_graph_def Let_def all split: sum.splits option.splits)
qed

lemma search_cypher_parts: "\<exists>front tail. \<forall>t. search_cypher t n = front @ ''MATCH (n:'' @ t @ tail"
proof -
  have "search_cypher t n = ([CHR 0x0A] @ replicate 8 CHR 0x20) @ ''MATCH (n:'' @ t @ drop (18 + length t) (search_cypher t n)" for t
    by (simp add: search_cypher_def text_block_def str_join_def eval_nat_numeral)
  moreover have "drop (18 + length t) (search_cypher t n) = drop 18 (search_cypher '''' n)" for t
    by (simp add: search_cypher_def text_block_def str_join_def eval_nat_numeral)
  ultimately show ?thesis by metis
qed

text \<open>
  The node types of a request are written into the query as they are: a type can close the pattern and
  bring a statement of its own, with any condition on the tenant or none, before the query of a real type.
\<close>

theorem types_reach_query:
  assumes "CHR '','' \<notin> set inner" and "inner \<noteq> ''''" and "\<not> is_space (hd inner)"
    and "types = inner @ '' RETURN n UNION MATCH (n:File''"
  shows "node_types_of types = Some [types] \<and>
    (\<exists>front tail. search_cypher ''File'' n = front @ ''MATCH (n:File'' @ tail \<and>
       search_cypher types n = front @ ''MATCH (n:'' @ inner @ '' RETURN n UNION MATCH (n:File'' @ tail)"
proof
  have "dropWhile is_space types = types" using assms(2-4) by (cases inner) auto
  moreover have "dropWhile is_space (rev types) = rev types" by (simp add: assms(4) is_space_def char_code_def)
  ultimately have "str_strip types = types" by (simp add: str_strip_def)
  moreover have "split_char (CHR '','') types = [types]" by (rule split_char_plain) (simp add: assms(1,4))
  ultimately show "node_types_of types = Some [types]" using assms(2,4) by (simp add: node_types_of_def)
  obtain front tail where cypher: "\<And>t. search_cypher t n = front @ ''MATCH (n:'' @ t @ tail"
    using search_cypher_parts by blast
  show "\<exists>front tail. search_cypher ''File'' n = front @ ''MATCH (n:File'' @ tail \<and>
       search_cypher types n = front @ ''MATCH (n:'' @ inner @ '' RETURN n UNION MATCH (n:File'' @ tail"
    by (rule exI [of _ front], rule exI [of _ tail]) (simp add: cypher assms(4))
qed

section \<open>Examples\<close>

lemma highlight_exact_witness:
  "highlight ''My CV and cv.txt'' ''cv'' = ''My <em>CV</em> and <em>cv</em>.txt'' \<and> occurs_in ''cv'' ''My CV and cv.txt''"
proof
  have chars: "char_of (99 :: nat) = CHR ''c''" "char_of (118 :: nat) = CHR ''v''" by code_simp+
  show marked: "highlight ''My CV and cv.txt'' ''cv'' = ''My <em>CV</em> and <em>cv</em>.txt''"
    by (simp add: highlight_def match_pieces_step same_text_def str_lower_def lower_char_def is_upper_def char_code_def chars)
  have "''cv'' \<noteq> ''''" "''My CV and cv.txt'' \<noteq> ''''" by simp_all
  from highlight_exact [OF this] obtain ps where
    ps: "highlight ''My CV and cv.txt'' ''cv'' = concat (map (\<lambda>(hit, s). if hit then ''<em>'' @ s @ ''</em>'' else s) ps)"
    "concat (map snd ps) = ''My CV and cv.txt''" "(True \<in> fst ` set ps) = occurs_in ''cv'' ''My CV and cv.txt''" by blast
  show "occurs_in ''cv'' ''My CV and cv.txt''"
  proof (rule ccontr)
    assume "\<not> occurs_in ''cv'' ''My CV and cv.txt''"
    with ps(3) have "True \<notin> fst ` set ps" by simp
    then have "map (\<lambda>(hit, s). if hit then ''<em>'' @ s @ ''</em>'' else s) ps = map snd ps" by (auto simp: image_iff)
    with ps(1,2) marked show False by simp
  qed
qed

definition example_search_env :: "(string \<times> row_value) list list \<Rightarrow> search_env" where
  "example_search_env rows = \<lparr> se_genv = example_genv, se_query = (\<lambda>b c ps. Inr rows), se_MEILISEARCH_URL = '''',
     se_OPENSEARCH_URL = '''', se_post = (\<lambda>u b. Inl TypeError) \<rparr>"

definition example_search_db :: db where
  "example_search_db = empty_db\<lparr>tenants := [new_tenant 1 0 ''a'' ''A'' None]\<rparr>"

lemma example_search_run:
  "search_graph (example_search_env rows) example_caller ''cv'' 20 (Some ts) example_search_db =
     (case ranked ''cv'' (concat (map (search_type (example_search_env rows) (client_backend example_genv)
         (uuid_str (ac_tenant_id example_caller)) ''cv''
         (type_limit 20 ts)) ts)) of
        Inl e \<Rightarrow> (Inl e, example_search_db) | Inr hs \<Rightarrow> (Inr (py_slice hs 0 20), example_search_db))"
  by (simp add: search_graph_def example_search_env_def example_search_db_def example_caller_def scalar_one_or_none_def
      new_tenant_def empty_db_def get_backend_for_tenant_def client_backend_def str_or_def dict_get_or_def Let_def
      split: sum.splits)

lemma graph_search_sorted_witness:
  "\<exists>hits s'. search_graph (example_search_env [[(''n'', JsonValue (JObj [(''name'', JStr ''cv.txt'')]))]]) example_caller
      ''cv'' 20 (Some [''File'']) example_search_db = (Inr hits, s') \<and> length hits \<le> 20 \<and> sorted (map (rank_of ''cv'') hits)"
proof -
  let ?env = "example_search_env [[(''n'', JsonValue (JObj [(''name'', JStr ''cv.txt'')]))]]"
  have "search_type ?env b tid ''cv'' n ''File'' =
      (if connects example_genv b then [\<lparr> sh_id = JStr '''', sh_node_type = JStr ''File'', sh_name = JStr ''cv.txt'', sh_path = JNull,
         sh_summary = JNull, sh_highlight = JStr (highlight ''cv.txt'' ''cv''), sh_score = JNum 1 \<rparr>] else [])" for b tid n
    by (simp add: search_type_def example_search_env_def row_node_def row_truthy_def hit_of_def json_either_def dict_get_or_def
        highlight_json_def Let_def)
  then have "\<exists>hits. search_graph ?env example_caller ''cv'' 20 (Some [''File'']) example_search_db = (Inr hits, example_search_db)"
    by (simp add: example_search_run ranked_def is_text_name_def)
  then obtain hits where run: "search_graph ?env example_caller ''cv'' 20 (Some [''File'']) example_search_db = (Inr hits, example_search_db)" ..
  have "(0 :: int) \<le> 20" by simp
  from graph_search_sorted [OF run this] run show ?thesis by auto
qed

lemma graph_search_finds_nothing_witness:
  "\<exists>s'. search_graph (example_search_env [[(''n'', DriverNode [(''name'', JStr ''cv.txt'')])]]) example_caller
      ''cv'' 20 (Some [''File'']) example_search_db = (Inr [], s')"
proof -
  let ?env = "example_search_env [[(''n'', DriverNode [(''name'', JStr ''cv.txt'')])]]"
  have rows: "case se_query ?env b c ps of Inl e \<Rightarrow> True
      | Inr rows \<Rightarrow> list_all (\<lambda>row. row \<noteq> [] \<and> list_all (\<lambda>(k, v). case v of DriverNode d \<Rightarrow> True | JsonValue j \<Rightarrow> False) row) rows" for b c ps
    by (simp add: example_search_env_def)
  have "search_type ?env b tid ''cv'' n ''File'' = []" for b tid n
    by (simp add: search_type_def example_search_env_def row_node_def row_truthy_def Let_def)
  then have "\<exists>hits. search_graph ?env example_caller ''cv'' 20 (Some [''File'']) example_search_db = (Inr hits, example_search_db)"
    by (simp add: example_search_run ranked_def)
  then obtain hits where run: "search_graph ?env example_caller ''cv'' 20 (Some [''File'']) example_search_db = (Inr hits, example_search_db)" ..
  from graph_search_finds_nothing [OF rows run] run show ?thesis by blast
qed

lemma types_reach_query_witness:
  "node_types_of ''File) WHERE n.tenant_id <> $tid RETURN n UNION MATCH (n:File'' =
     Some [''File) WHERE n.tenant_id <> $tid RETURN n UNION MATCH (n:File'']"
proof -
  have "CHR '','' \<notin> set ''File) WHERE n.tenant_id <> $tid''" "''File) WHERE n.tenant_id <> $tid'' \<noteq> ''''"
    "\<not> is_space (hd ''File) WHERE n.tenant_id <> $tid'')"
    "''File) WHERE n.tenant_id <> $tid RETURN n UNION MATCH (n:File'' =
     ''File) WHERE n.tenant_id <> $tid'' @ '' RETURN n UNION MATCH (n:File''"
    by (simp_all add: is_space_def char_code_def)
  from types_reach_query [OF this] show ?thesis by blast
qed

end
