(* ===== verification/Proxy_Sync.thy ===== *)
theory Proxy_Sync
  imports Oidc
begin

text \<open>
  \<open>api/proxy_sync.py\<close>: the endpoints an on-premises proxy calls with its deltas.

  They are written for a synchronous session: the tenant is looked up with \<open>db.query\<close>. The session of the
  application is an \<open>AsyncSession\<close>, which has no such method; \<open>has_query\<close> says which of the two is used.
\<close>

section \<open>Requests and answers\<close>

record delta_item =
  di_seq :: int
  di_op :: string
  di_node_id :: "string option"
  di_edge_id :: "string option"
  di_payload :: "py_dict option"

record delta_batch =
  dl_proxy_id :: string
  dl_tenant_id :: string
  dl_agent_id :: string
  dl_deltas :: "delta_item list"

record sync_response =
  sr_acked_seqs :: "int list"
  sr_server_time_ms :: int
  sr_commands :: "py_dict list"

text \<open>\<open>db.query(Tenant).filter(Tenant.id == tenant_id).first()\<close>.\<close>

definition query_tenant :: "bool \<Rightarrow> string \<Rightarrow> tenant option endpoint" where
  "query_tenant has_query tenant_id =
     (if has_query then gets (\<lambda>s. first_row (filter (\<lambda>t. Some (tn_id t) = parse_uuid tenant_id) (tenants s)))
      else raise AttributeError)"

definition validate_proxy_token :: "bool \<Rightarrow> string option \<Rightarrow> string \<Rightarrow> tenant endpoint" where
  "validate_proxy_token has_query authorization tenant_id =
     (let auth = (case authorization of None \<Rightarrow> '''' | Some a \<Rightarrow> a); token = drop 7 auth
      in thn (guard (take 7 auth = ''Bearer '') (HTTPException 401 ''Missing bearer token''))
        (bnd (query_tenant has_query tenant_id) (\<lambda>tenant.
         case tenant of
           None \<Rightarrow> raise (HTTPException 401 ''Unknown tenant'')
         | Some t \<Rightarrow> thn (guard (token \<noteq> '''') (HTTPException 401 ''Invalid token'')) (ret t))))"

definition get_pending_commands :: "string \<Rightarrow> uuid \<Rightarrow> py_dict list" where
  "get_pending_commands proxy_id tenant_id = []"

record delta_work =
  dw_nodes_to_upsert :: "py_dict list"
  dw_nodes_to_delete :: "string list"
  dw_edges_to_upsert :: "py_dict list"
  dw_acked_seqs :: "int list"

text \<open>A dict is true when it is not empty, and so is a text.\<close>

definition has_content :: "'a list option \<Rightarrow> bool" where
  "has_content x \<longleftrightarrow> (case x of None \<Rightarrow> False | Some v \<Rightarrow> v \<noteq> [])"

definition take_delta :: "delta_batch \<Rightarrow> tenant \<Rightarrow> delta_work \<Rightarrow> delta_item \<Rightarrow> delta_work" where
  "take_delta batch t w d =
     (let ack = (\<lambda>w. w\<lparr>dw_acked_seqs := dw_acked_seqs w @ [di_seq d]\<rparr>)
      in if di_op d = ''upsert_node'' \<and> has_content (di_payload d) then
           ack (w\<lparr>dw_nodes_to_upsert := dw_nodes_to_upsert w @
             [dict_update (the (di_payload d)) [(''tenant_id'', JStr (uuid_str (tn_id t))), (''_proxy_id'', JStr (dl_proxy_id batch)),
                (''_agent_id'', JStr (dl_agent_id batch))]]\<rparr>)
         else if di_op d = ''delete_node'' \<and> has_content (di_node_id d) then
           ack (w\<lparr>dw_nodes_to_delete := dw_nodes_to_delete w @ [the (di_node_id d)]\<rparr>)
         else if di_op d = ''upsert_edge'' \<and> has_content (di_payload d) then
           ack (w\<lparr>dw_edges_to_upsert := dw_edges_to_upsert w @
             [dict_update (the (di_payload d)) [(''tenant_id'', JStr (uuid_str (tn_id t)))]]\<rparr>)
         else if di_op d = ''delete_edge'' \<and> has_content (di_edge_id d) then ack w
         else w)"

definition take_deltas :: "delta_batch \<Rightarrow> tenant \<Rightarrow> delta_work" where
  "take_deltas batch t = foldl (take_delta batch t)
     \<lparr> dw_nodes_to_upsert = [], dw_nodes_to_delete = [], dw_edges_to_upsert = [], dw_acked_seqs = [] \<rparr> (dl_deltas batch)"

definition proxy_sync :: "bool \<Rightarrow> time \<Rightarrow> string option \<Rightarrow> delta_batch \<Rightarrow> sync_response endpoint" where
  "proxy_sync has_query now authorization batch =
     bnd (validate_proxy_token has_query authorization (dl_tenant_id batch)) (\<lambda>t.
     let w = take_deltas batch t
     in ret \<lparr> sr_acked_seqs = dw_acked_seqs w, sr_server_time_ms = now div 1000,
              sr_commands = get_pending_commands (dl_proxy_id batch) (tn_id t) \<rparr>)"

definition proxy_heartbeat :: "bool \<Rightarrow> string option \<Rightarrow> string \<Rightarrow> string \<Rightarrow> py_dict list endpoint" where
  "proxy_heartbeat has_query authorization proxy_id tenant_id =
     bnd (validate_proxy_token has_query authorization tenant_id) (\<lambda>t. ret (get_pending_commands proxy_id (tn_id t)))"

definition proxy_status :: "py_dict list \<times> string" where
  "proxy_status = ([], ''proxy registration table not yet migrated'')"

section \<open>What a proxy is told\<close>

text \<open>
  With the session of the application every request of a proxy fails: without a bearer token with 401,
  with one with an \<open>AttributeError\<close>, whatever the tenant and the token.
\<close>

theorem proxy_never_answered:
  "let answer = (if take 7 (case authorization of None \<Rightarrow> '''' | Some a \<Rightarrow> a) = ''Bearer '' then AttributeError
                 else HTTPException 401 ''Missing bearer token'')
    in proxy_sync False now authorization batch s = (Inl answer, s) \<and>
       proxy_heartbeat False authorization proxy_id tenant_id s = (Inl answer, s)"
  by (simp add: proxy_sync_def proxy_heartbeat_def validate_proxy_token_def query_tenant_def Let_def)

definition acked :: "delta_item \<Rightarrow> bool" where
  "acked d \<longleftrightarrow>
     (di_op d \<in> {''upsert_node'', ''upsert_edge''} \<and> has_content (di_payload d)) \<or>
     (di_op d = ''delete_node'' \<and> has_content (di_node_id d)) \<or> (di_op d = ''delete_edge'' \<and> has_content (di_edge_id d))"

lemma take_delta_acked:
  "dw_acked_seqs (take_delta batch t w d) = dw_acked_seqs w @ (if acked d then [di_seq d] else [])"
  by (auto simp: take_delta_def acked_def Let_def)

lemma take_deltas_acked: "dw_acked_seqs (foldl (take_delta batch t) w ds) = dw_acked_seqs w @ map di_seq (filter acked ds)"
  by (induction ds arbitrary: w) (simp_all add: take_delta_acked)

text \<open>
  With a synchronous session, any bearer token that is not empty is good for any tenant, the answer
  acknowledges every delta of a known kind that has its content, in order, and nothing of them is stored.
\<close>

theorem proxy_acks_and_drops:
  assumes "token \<noteq> ''''" and "first_row (filter (\<lambda>t. Some (tn_id t) = parse_uuid (dl_tenant_id batch)) (tenants s)) = Some t"
  shows "proxy_sync True now (Some (''Bearer '' @ token)) batch s =
    (Inr \<lparr> sr_acked_seqs = map di_seq (filter acked (dl_deltas batch)), sr_server_time_ms = now div 1000, sr_commands = [] \<rparr>, s)"
  using assms
  by (simp add: proxy_sync_def validate_proxy_token_def query_tenant_def take_deltas_def take_deltas_acked
      get_pending_commands_def Let_def)

definition example_batch :: delta_batch where
  "example_batch = \<lparr> dl_proxy_id = ''p'', dl_tenant_id = ''1'', dl_agent_id = ''a'', dl_deltas =
     [\<lparr> di_seq = 1, di_op = ''delete_node'', di_node_id = Some ''n1'', di_edge_id = None, di_payload = None \<rparr>,
      \<lparr> di_seq = 2, di_op = ''upsert_node'', di_node_id = None, di_edge_id = None, di_payload = Some [] \<rparr>] \<rparr>"

lemma proxy_acks_and_drops_witness:
  "fst (proxy_sync True 5000 (Some ''Bearer x'') (example_batch\<lparr>dl_tenant_id := uuid_str 1\<rparr>)
      (empty_db\<lparr>tenants := [new_tenant 1 0 ''a'' ''A'' None]\<rparr>)) =
     Inr \<lparr> sr_acked_seqs = [1], sr_server_time_ms = 5, sr_commands = [] \<rparr>"
proof -
  let ?s = "empty_db\<lparr>tenants := [new_tenant 1 0 ''a'' ''A'' None]\<rparr>"
  let ?batch = "example_batch\<lparr>dl_tenant_id := uuid_str 1\<rparr>"
  have "''x'' \<noteq> ''''" by simp
  moreover have "first_row (filter (\<lambda>t. Some (tn_id t) = parse_uuid (dl_tenant_id ?batch)) (tenants ?s)) =
      Some (new_tenant 1 0 ''a'' ''A'' None)"
    by (simp add: first_row_def new_tenant_def)
  ultimately have "proxy_sync True 5000 (Some (''Bearer '' @ ''x'')) ?batch ?s =
    (Inr \<lparr> sr_acked_seqs = map di_seq (filter acked (dl_deltas ?batch)), sr_server_time_ms = 5000 div 1000, sr_commands = [] \<rparr>, ?s)"
    by (rule proxy_acks_and_drops)
  then show ?thesis by (simp add: example_batch_def acked_def has_content_def)
qed

end
