(* ===== verification/Cve_Sync.thy ===== *)
theory Cve_Sync
  imports Oidc Graph_Store "HOL-Library.Sublist"
begin

text \<open>
  \<open>tasks/cve_sync.py\<close>: vulnerabilities from the NVD, linked to the applications of every tenant, and the
  list of those known to be exploited.

  What the two servers answer is a parameter, and so is the spelling of a time. The loop over the pages of
  the NVD ends when the server says so: it is a partial function, and \<open>None\<close> is that it does not end.
  The pauses between pages are left out.
\<close>

section \<open>The world of a task\<close>

record queued_task =
  qt_task :: string
  qt_args :: "json list"
  qt_queue :: string
  qt_countdown :: int

record task_world =
  tw_db :: db
  tw_stores :: "nat \<Rightarrow> gstore"
  tw_queue :: "queued_task list"

type_synonym 'a job = "(task_world, 'a) handler"

definition in_tw_db :: "'a endpoint \<Rightarrow> 'a job" where
  "in_tw_db m = (\<lambda>s. case m (tw_db s) of (r, d) \<Rightarrow> (r, s\<lparr>tw_db := d\<rparr>))"

definition active_tenants :: "tenant list job" where
  "active_tenants = in_tw_db (select_all tenants tn_is_active)"

text \<open>\<open>async with backend\<close>: a body that works on the store behind the backend.\<close>

definition with_backend :: "graph_env \<Rightarrow> graph_backend \<Rightarrow> (gstore, 'a) handler \<Rightarrow> 'a job" where
  "with_backend genv b m =
     (\<lambda>s. if connects genv b then
            (case m (tw_stores s (store_of genv b)) of
               (r, g) \<Rightarrow> (r, s\<lparr>tw_stores := (tw_stores s)(store_of genv b := g)\<rparr>))
          else (Inl (OtherError ''ServiceUnavailable''), s))"

definition backend_of_tenant :: "graph_env \<Rightarrow> tenant \<Rightarrow> py_error + graph_backend" where
  "backend_of_tenant genv t = get_backend_for_tenant genv (str_or (tn_graph_backend t) ''neo4j'') (tn_graph_config t)"

text \<open>A name of the module that is looked up when the code runs.\<close>

definition global_name :: "string list \<Rightarrow> string \<Rightarrow> unit job" where
  "global_name names n = guard (n \<in> set names) (OtherError ''NameError'')"

section \<open>The pages of the NVD\<close>

record cve_record =
  cv_cve_id :: json
  cv_cvss_score :: json
  cv_cvss_severity :: string
  cv_description :: json
  cv_published_date :: json
  cv_cpe_matches :: "json list"
  cv_exploit_available :: bool
  cv_actively_exploited :: bool

record cve_env =
  cx_genv :: graph_env
  cx_nvd :: "string \<Rightarrow> string \<Rightarrow> int \<Rightarrow> int \<Rightarrow> py_error + json"
  cx_kev :: "py_error + json"
  cx_strftime :: "time \<Rightarrow> string"
  cx_uuid4 :: "uuid \<Rightarrow> nat \<Rightarrow> string"

definition json_lower :: "json \<Rightarrow> py_error + string" where
  "json_lower v = (case v of JStr t \<Rightarrow> Inr (str_lower t) | _ \<Rightarrow> Inl AttributeError)"

text \<open>\<open>v[:500]\<close>: texts and lists have slices.\<close>

definition json_head :: "nat \<Rightarrow> json \<Rightarrow> py_error + json" where
  "json_head n v =
     (case v of
        JStr t \<Rightarrow> Inr (JStr (take n t)) | JArr xs \<Rightarrow> Inr (JArr (take n xs))
      | JObj d \<Rightarrow> Inl (KeyError (''slice(None, '' @ nat_str n @ '', None)'')) | _ \<Rightarrow> Inl TypeError)"

definition cvss_of :: "json \<Rightarrow> py_error + json \<times> string" where
  "cvss_of cvss_v3 =
     (if \<not> truthy cvss_v3 then Inr (JNull, ''unknown'')
      else try_bind (json_index0 cvss_v3) (\<lambda>first.
           try_bind (json_get first ''cvssData'' (JObj [])) (\<lambda>score_data.
           try_bind (json_get score_data ''baseScore'' JNull) (\<lambda>score.
           try_bind (json_get score_data ''baseSeverity'' (JStr '''')) (\<lambda>sev.
           map_sum id (\<lambda>t. (score, t)) (json_lower sev))))))"

text \<open>The text of the first description in English; the ones after it are not looked at.\<close>

fun english :: "json list \<Rightarrow> py_error + json" where
  "english [] = Inr (JStr '''')"
| "english (d # ds) =
     try_bind (json_get d ''lang'' JNull) (\<lambda>l. if l = JStr ''en'' then json_item d ''value'' else english ds)"

text \<open>Three nested loops: what the innermost one collects, up to the first error.\<close>

definition try_concat :: "json \<Rightarrow> (json \<Rightarrow> py_error + 'a list) \<Rightarrow> py_error + 'a list" where
  "try_concat v f = try_bind (json_iter v) (\<lambda>xs. map_sum id concat (try_map f xs))"

definition cpe_of_match :: "json \<Rightarrow> py_error + json list" where
  "cpe_of_match m =
     try_bind (json_get m ''vulnerable'' JNull) (\<lambda>v.
     if truthy v then map_sum id (\<lambda>c. [c]) (json_get m ''criteria'' (JStr '''')) else Inr [])"

definition cpe_strings :: "json \<Rightarrow> py_error + json list" where
  "cpe_strings cve =
     try_bind (json_get cve ''configurations'' (JArr [])) (\<lambda>cs. try_concat cs (\<lambda>config.
     try_bind (json_get config ''nodes'' (JArr [])) (\<lambda>ns. try_concat ns (\<lambda>node.
     try_bind (json_get node ''cpeMatch'' (JArr [])) (\<lambda>ms. try_concat ms cpe_of_match)))))"

definition cve_of_item :: "json \<Rightarrow> py_error + cve_record" where
  "cve_of_item item =
     try_bind (json_get item ''cve'' (JObj [])) (\<lambda>cve.
     try_bind (json_get cve ''id'' (JStr '''')) (\<lambda>cve_id.
     try_bind (json_get cve ''metrics'' (JObj [])) (\<lambda>metrics.
     try_bind (json_get metrics ''cvssMetricV30'' (JArr [])) (\<lambda>v30.
     try_bind (json_get metrics ''cvssMetricV31'' v30) (\<lambda>cvss_v3.
     try_bind (cvss_of cvss_v3) (\<lambda>(score, severity).
     try_bind (json_get cve ''descriptions'' (JArr [])) (\<lambda>descriptions.
     try_bind (try_bind (json_iter descriptions) english) (\<lambda>description.
     try_bind (cpe_strings cve) (\<lambda>cpe_matches.
     try_bind (json_get cve ''published'' (JStr '''')) (\<lambda>published.
     try_bind (json_head 500 description) (\<lambda>short.
     Inr \<lparr> cv_cve_id = cve_id, cv_cvss_score = score, cv_cvss_severity = severity, cv_description = short,
           cv_published_date = published, cv_cpe_matches = cpe_matches, cv_exploit_available = False,
           cv_actively_exploited = False \<rparr>)))))))))))"

definition RESULTS_PER_PAGE :: int where
  "RESULTS_PER_PAGE = 2000"

text \<open>\<open>start_idx >= total\<close>.\<close>

definition reached :: "int \<Rightarrow> json \<Rightarrow> py_error + bool" where
  "reached i v =
     (case v of
        JInt n \<Rightarrow> Inr (n \<le> i) | JNum q \<Rightarrow> Inr (q \<le> of_int i) | JBool b \<Rightarrow> Inr (of_bool b \<le> i) | _ \<Rightarrow> Inl TypeError)"

text \<open>What a page adds, and whether it is the final one.\<close>

definition read_page :: "int \<Rightarrow> json \<Rightarrow> py_error + cve_record list \<times> bool" where
  "read_page start_idx data =
     try_bind (json_get data ''vulnerabilities'' (JArr [])) (\<lambda>vulnerabilities.
     try_bind (json_iter vulnerabilities) (\<lambda>items.
     try_bind (try_map cve_of_item items) (\<lambda>cves.
     try_bind (json_get data ''totalResults'' (JInt 0)) (\<lambda>n.
     map_sum id (\<lambda>b. (cves, b)) (reached (start_idx + RESULTS_PER_PAGE) n)))))"

partial_function (option) nvd_pages ::
  "(int \<Rightarrow> py_error + json) \<Rightarrow> int \<Rightarrow> cve_record list \<Rightarrow> (py_error + cve_record list) option" where
  "nvd_pages get start_idx cves =
     (case get start_idx of
        Inl e \<Rightarrow> Some (Inr cves)
      | Inr data \<Rightarrow>
          (case read_page start_idx data of
             Inl e \<Rightarrow> Some (Inl e)
           | Inr (new, final) \<Rightarrow>
               if final then Some (Inr (cves @ new))
               else nvd_pages get (start_idx + RESULTS_PER_PAGE) (cves @ new)))"

definition fetch_nvd_cves :: "cve_env \<Rightarrow> time \<Rightarrow> int \<Rightarrow> (py_error + cve_record list) option" where
  "fetch_nvd_cves env now days_back =
     nvd_pages (cx_nvd env (cx_strftime env (now - days days_back)) (cx_strftime env now) RESULTS_PER_PAGE) 0 []"

section \<open>Linking to the applications\<close>

definition merge_vuln :: "string \<Rightarrow> string \<Rightarrow> cve_record \<Rightarrow> (gstore, unit) handler" where
  "merge_vuln tid vid cve = (\<lambda>g.
     let latest = [(''cvss_score'', cv_cvss_score cve), (''cvss_severity'', JStr (cv_cvss_severity cve)),
           (''description'', cv_description cve)];
         created = [(''id'', JStr vid)] @ latest @
           [(''published_date'', cv_published_date cve), (''exploit_available'', JBool (cv_exploit_available cve)),
            (''actively_exploited'', JBool (cv_actively_exploited cve)), (''tenant_id'', JStr tid)]
     in case merge_node ''Vulnerability'' [(''cve_id'', cv_cve_id cve), (''tenant_id'', JStr tid)]
               (add_props created) (add_props latest) g of
          Inl e \<Rightarrow> (Inl e, g)
        | Inr (k, g') \<Rightarrow> (Inr (), g'))"

text \<open>\<open>toLower(a.name) CONTAINS $product\<close>: it fails on a name that is not a text.\<close>

definition name_contains :: "string \<Rightarrow> vertex \<Rightarrow> bool" where
  "name_contains product n =
     (case dict_get (vx_props n) ''name'' of Some (JStr t) \<Rightarrow> sublist product (str_lower t) | _ \<Rightarrow> False)"

definition text_name :: "vertex \<Rightarrow> bool" where
  "text_name n = (case dict_get (vx_props n) ''name'' of None \<Rightarrow> True | Some (JStr t) \<Rightarrow> True | _ \<Rightarrow> False)"

definition applications :: "string \<Rightarrow> gstore \<Rightarrow> vertex list" where
  "applications tid g = filter (matches (Some ''Application'') [(''tenant_id'', JStr tid)]) (gs_nodes g)"

definition link_product :: "string \<Rightarrow> json \<Rightarrow> string \<Rightarrow> (gstore, unit) handler" where
  "link_product tid cve_id product = (\<lambda>g.
     let apps = applications tid g;
         vulns = filter (matches (Some ''Vulnerability'') [(''cve_id'', cve_id), (''tenant_id'', JStr tid)]) (gs_nodes g)
     in if \<not> list_all text_name apps then (Inl type_error, g)
        else case merge_rels ''HAS_VULNERABILITY'' []
               (List.product (map vx_id (filter (name_contains product) apps)) (map vx_id vulns)) (gs_rels g) of
               Inl e \<Rightarrow> (Inl e, g)
             | Inr rs \<Rightarrow> (Inr (), g\<lparr>gs_rels := rs\<rparr>))"

definition product_of_cpe :: "string \<Rightarrow> string option" where
  "product_of_cpe cpe =
     (let parts = split_char CHR '':'' cpe
      in if length parts < 5 then None
         else let product = str_lower (str_replace (parts ! 4) ''_'' '' '')
              in if product = '''' \<or> product = ''*'' then None else Some product)"

definition link_cpe :: "string \<Rightarrow> cve_record \<Rightarrow> json \<Rightarrow> (gstore, unit) handler" where
  "link_cpe tid cve cpe =
     (case cpe of
        JStr t \<Rightarrow> (case product_of_cpe t of
                     None \<Rightarrow> ret ()
                   | Some product \<Rightarrow> py_try (link_product tid (cv_cve_id cve) product) (\<lambda>e. ret ()))
      | _ \<Rightarrow> raise AttributeError)"

text \<open>A failure of the first statement skips the CVE.\<close>

definition link_cve :: "string \<Rightarrow> string \<times> cve_record \<Rightarrow> (gstore, unit) handler" where
  "link_cve tid = (\<lambda>(vid, cve) g.
     case merge_vuln tid vid cve g of
       (Inl e, g') \<Rightarrow> (Inr (), g')
     | (Inr x, g') \<Rightarrow> for_each (take 10 (cv_cpe_matches cve)) (link_cpe tid cve) g')"

definition link_cves_to_tenant :: "cve_env \<Rightarrow> cve_record list \<Rightarrow> tenant \<Rightarrow> unit job" where
  "link_cves_to_tenant env cves t =
     bnd (lift_err (backend_of_tenant (cx_genv env) t)) (\<lambda>b.
     with_backend (cx_genv env) b
       (for_each (zip (map (cx_uuid4 env (tn_id t)) [0..<length cves]) cves) (link_cve (uuid_str (tn_id t)))))"

text \<open>The task, over the names that \<open>db/session.py\<close> defines.\<close>

definition sync_nvd_async ::
  "cve_env \<Rightarrow> string list \<Rightarrow> time \<Rightarrow> int \<Rightarrow> task_world \<Rightarrow> ((py_error + unit) \<times> task_world) option" where
  "sync_nvd_async env session now days_back s =
     (case thn (import_from session ''async_session'') active_tenants s of
        (Inl e, s') \<Rightarrow> Some (Inl e, s')
      | (Inr ts, s') \<Rightarrow>
          (case fetch_nvd_cves env now days_back of
             None \<Rightarrow> None
           | Some (Inl e) \<Rightarrow> Some (Inl e, s')
           | Some (Inr cves) \<Rightarrow>
               Some (if cves = [] then (Inr (), s') else for_each ts (link_cves_to_tenant env cves) s')))"

definition sync_nvd_cves ::
  "cve_env \<Rightarrow> time \<Rightarrow> int \<Rightarrow> task_world \<Rightarrow> ((py_error + unit) \<times> task_world) option" where
  "sync_nvd_cves env now days_back = sync_nvd_async env session_module now days_back"

section \<open>The list of exploited vulnerabilities\<close>

text \<open>The names of the module itself; the function that makes a backend is imported in another function.\<close>

definition cve_sync_module :: "string list" where
  "cve_sync_module =
     [''annotations'', ''asyncio'', ''logging'', ''os'', ''datetime'', ''timezone'', ''timedelta'', ''Any'', ''httpx'',
      ''app'', ''log'', ''NVD_API_URL'', ''NVD_API_KEY'', ''OSV_API_URL'', ''sync_nvd_cves'', ''_sync_nvd_async'',
      ''_fetch_nvd_cves'', ''_link_cves_to_tenant'', ''check_cisa_kev'', ''_check_kev_async'']"

text \<open>The keys of the set; only a value that can be hashed is one.\<close>

definition hashable :: "json \<Rightarrow> py_error + json" where
  "hashable v = (case v of JArr xs \<Rightarrow> Inl TypeError | JObj d \<Rightarrow> Inl TypeError | _ \<Rightarrow> Inr v)"

definition kev_ids :: "json \<Rightarrow> py_error + json list" where
  "kev_ids data =
     try_bind (json_get data ''vulnerabilities'' (JArr [])) (\<lambda>vs.
     try_bind (json_iter vs) (\<lambda>items.
     map_sum id remdups (try_map (\<lambda>v. try_bind (json_item v ''cveID'') hashable) items)))"

definition mark_exploited :: "string \<Rightarrow> json \<Rightarrow> (gstore, unit) handler" where
  "mark_exploited tid cve_id = (\<lambda>g.
     case update_matching (matches (Some ''Vulnerability'') [(''cve_id'', cve_id), (''tenant_id'', JStr tid)])
            (add_props [(''actively_exploited'', JBool True), (''exploit_available'', JBool True)]) (gs_nodes g) of
       Inl e \<Rightarrow> (Inl e, g)
     | Inr ns \<Rightarrow> (Inr (), g\<lparr>gs_nodes := ns\<rparr>))"

definition mark_tenant :: "cve_env \<Rightarrow> json list \<Rightarrow> tenant \<Rightarrow> unit job" where
  "mark_tenant env ids t =
     bnd (lift_err (backend_of_tenant (cx_genv env) t)) (\<lambda>b.
     with_backend (cx_genv env) b
       (for_each ids (\<lambda>i. py_try (mark_exploited (uuid_str (tn_id t)) i) (\<lambda>e. ret ()))))"

definition check_kev_async :: "cve_env \<Rightarrow> string list \<Rightarrow> string list \<Rightarrow> unit job" where
  "check_kev_async env session globals =
     (case cx_kev env of
        Inl e \<Rightarrow> ret ()
      | Inr data \<Rightarrow>
          bnd (lift_err (kev_ids data)) (\<lambda>ids.
          bnd (thn (import_from session ''async_session'') active_tenants) (\<lambda>ts.
          for_each ts (\<lambda>t. thn (global_name globals ''get_backend_for_tenant'') (mark_tenant env ids t)))))"

definition check_cisa_kev :: "cve_env \<Rightarrow> unit job" where
  "check_cisa_kev env = check_kev_async env session_module cve_sync_module"

section \<open>All pages, in their order\<close>

lemma try_map_list_all2: "try_map f xs = Inr ys \<longleftrightarrow> list_all2 (\<lambda>x y. f x = Inr y) xs ys"
  by (induction xs arbitrary: ys) (auto simp: list_all2_Cons1 map_sum_def split: sum.splits, metis sum.inject(2))

text \<open>A page of a table of \<open>xs\<close>, as the server describes it.\<close>

definition nvd_page :: "json list \<Rightarrow> nat \<Rightarrow> json" where
  "nvd_page xs i =
     JObj [(''vulnerabilities'', JArr (take 2000 (drop (2000 * i) xs))), (''totalResults'', JInt (int (length xs)))]"

lemma read_nvd_page:
  assumes "try_map cve_of_item xs = Inr cs"
  shows "read_page (2000 * int i) (nvd_page xs i) =
    Inr (take 2000 (drop (2000 * i) cs), length xs \<le> 2000 * Suc i)"
proof -
  have "try_map cve_of_item (take 2000 (drop (2000 * i) xs)) = Inr (take 2000 (drop (2000 * i) cs))"
    using assms by (simp add: try_map_list_all2 list_all2_takeI list_all2_dropI)
  moreover have "(int (length xs) \<le> 2000 * int i + 2000) = (length xs \<le> 2000 * Suc i)" by presburger
  ultimately show ?thesis
    by (simp add: read_page_def nvd_page_def json_get_def dict_get_or_def dict_get_def try_bind_def json_iter_def
        reached_def RESULTS_PER_PAGE_def)
qed

lemma nvd_pages_from:
  assumes parsed: "try_map cve_of_item xs = Inr cs"
    and api: "\<And>i. i < n \<Longrightarrow> get (2000 * int i) = Inr (nvd_page xs i)"
    and ends: "0 < n \<and> length xs \<le> 2000 * n \<or> get (2000 * int n) = Inl e"
    and "k \<le> n" and "get (2000 * int n) = Inl e \<or> k < n"
  shows "nvd_pages get (2000 * int k) acc = Some (Inr (acc @ drop (2000 * k) (take (2000 * n) cs)))"
  using assms(4,5)
proof (induction "n - k" arbitrary: k acc)
  case 0
  then show ?case by (auto simp: nvd_pages.simps [of get])
next
  case (Suc d)
  then have k: "k < n" by linarith
  have len: "length cs = length xs" using parsed by (auto simp: try_map_list_all2 dest: list_all2_lengthD)
  have page: "drop (2000 * k) (take (2000 * n) cs) =
      take 2000 (drop (2000 * k) cs) @ drop (2000 * Suc k) (take (2000 * n) cs)"
  proof -
    have "drop (2000 * k) (take (2000 * n) cs) = take 2000 (drop (2000 * k) (take (2000 * n) cs)) @
        drop 2000 (drop (2000 * k) (take (2000 * n) cs))" by (rule append_take_drop_id [symmetric])
    also have "take 2000 (drop (2000 * k) (take (2000 * n) cs)) = take 2000 (drop (2000 * k) cs)"
      using k by (simp add: drop_take min_def)
    finally show ?thesis by (simp add: add.commute)
  qed
  have step: "nvd_pages get (2000 * int k) acc =
      (if length xs \<le> 2000 * Suc k then Some (Inr (acc @ take 2000 (drop (2000 * k) cs)))
       else nvd_pages get (2000 * int (Suc k)) (acc @ take 2000 (drop (2000 * k) cs)))"
    by (subst nvd_pages.simps) (simp add: api [OF k] read_nvd_page [OF parsed] RESULTS_PER_PAGE_def add.commute)
  show ?case
  proof (cases "length xs \<le> 2000 * Suc k")
    case True
    with step page len show ?thesis by simp
  next
    case False
    have "get (2000 * int n) = Inl e \<or> Suc k < n"
      using False ends k by (metis Suc_lessI)
    with Suc(1) [of "Suc k"] Suc(2) k step page False show ?thesis by simp
  qed
qed

text \<open>C18: When the server gives the pages of one table, the loop ends and returns the entries of the table, each
  once and in the order of the server. When a page fails, the pages before it are the result, as if they
  were all.\<close>

theorem nvd_fetch_exact:
  assumes "try_map cve_of_item xs = Inr cs"
    and "\<And>i. i < n \<Longrightarrow> cx_nvd env (cx_strftime env (now - days d)) (cx_strftime env now) 2000 (2000 * int i) =
      Inr (nvd_page xs i)"
    and "0 < n \<and> length xs \<le> 2000 * n \<or>
      cx_nvd env (cx_strftime env (now - days d)) (cx_strftime env now) 2000 (2000 * int n) = Inl e"
  shows "fetch_nvd_cves env now d = Some (Inr (take (2000 * n) cs))"
proof -
  let ?get = "cx_nvd env (cx_strftime env (now - days d)) (cx_strftime env now) 2000"
  have "?get (2000 * int n) = Inl e \<or> 0 < n" using assms(3) by blast
  from nvd_pages_from [of xs cs n ?get e 0 "[]", OF assms(1,2,3) _ this] show ?thesis
    by (simp add: fetch_nvd_cves_def RESULTS_PER_PAGE_def)
qed

definition example_items :: "json list" where
  "example_items =
     [JObj [(''cve'', JObj [(''id'', JStr ''CVE-2026-1''),
        (''metrics'', JObj [(''cvssMetricV31'', JArr [JObj [(''cvssData'',
            JObj [(''baseScore'', JNum 9), (''baseSeverity'', JStr ''CRITICAL'')])]])]),
        (''descriptions'', JArr [JObj [(''lang'', JStr ''en''), (''value'', JStr ''Overflow'')]]),
        (''configurations'', JArr [JObj [(''nodes'', JArr [JObj [(''cpeMatch'',
            JArr [JObj [(''vulnerable'', JBool True), (''criteria'', JStr ''cpe:2.3:a:acme:big_tool:1.0'')]])]])]])])],
      JObj [(''cve'', JObj [(''id'', JStr ''CVE-2026-2'')])]]"

definition example_cve_env :: cve_env where
  "example_cve_env =
     \<lparr> cx_genv = example_genv,
       cx_nvd = (\<lambda>a b n i. if i = 0 then Inr (nvd_page example_items 0) else Inl (OtherError ''HTTPStatusError'')),
       cx_kev = Inr (JObj [(''vulnerabilities'', JArr [JObj [(''cveID'', JStr ''CVE-2026-1'')]])]),
       cx_strftime = (\<lambda>t. ''2026-01-01T00:00:00.000''), cx_uuid4 = (\<lambda>t i. ''v'' @ nat_str i) \<rparr>"

theorem nvd_fetch_exact_witness:
  "\<exists>cs. try_map cve_of_item example_items = Inr cs \<and> fetch_nvd_cves example_cve_env 0 7 = Some (Inr cs) \<and>
     map cv_cvss_severity cs = [''critical'', ''unknown''] \<and>
     map cv_cpe_matches cs = [[JStr ''cpe:2.3:a:acme:big_tool:1.0''], []]"
proof -
  have "case try_map cve_of_item example_items of Inl e \<Rightarrow> False
    | Inr cs \<Rightarrow> length cs = 2 \<and> map cv_cvss_severity cs = [''critical'', ''unknown''] \<and>
        map cv_cpe_matches cs = [[JStr ''cpe:2.3:a:acme:big_tool:1.0''], []]" by code_simp
  then obtain cs where cs: "try_map cve_of_item example_items = Inr cs" and "length cs = 2"
    and rest: "map cv_cvss_severity cs = [''critical'', ''unknown'']"
      "map cv_cpe_matches cs = [[JStr ''cpe:2.3:a:acme:big_tool:1.0''], []]"
    by (auto split: sum.splits)
  have "fetch_nvd_cves example_cve_env 0 7 = Some (Inr (take (2000 * 1) cs))"
    by (rule nvd_fetch_exact [OF cs]) (simp_all add: example_cve_env_def example_items_def)
  with \<open>length cs = 2\<close> cs rest show ?thesis by simp
qed

section \<open>What linking leaves of the graph\<close>

text \<open>The store is in order, and the parts of the other tenants are what they were.\<close>

definition others_kept :: "string \<Rightarrow> gstore \<Rightarrow> gstore \<Rightarrow> bool" where
  "others_kept tid g0 g \<longleftrightarrow> graph_ok g \<and> (\<forall>t. t \<noteq> tid \<longrightarrow> part t g = part t g0)"

lemma merge_vuln_kept: "preserves (others_kept tid g0) (merge_vuln tid vid cve)"
proof (rule preservesI)
  fix g assume kept: "others_kept tid g0 g"
  let ?latest = "[(''cvss_score'', cv_cvss_score cve), (''cvss_severity'', JStr (cv_cvss_severity cve)),
    (''description'', cv_description cve)]"
  let ?new = "[(''id'', JStr vid)] @ ?latest @
    [(''published_date'', cv_published_date cve), (''exploit_available'', JBool (cv_exploit_available cve)),
     (''actively_exploited'', JBool (cv_actively_exploited cve)), (''tenant_id'', JStr tid)]"
  let ?m = "merge_node ''Vulnerability'' [(''cve_id'', cv_cve_id cve), (''tenant_id'', JStr tid)]
    (add_props ?new) (add_props ?latest) g"
  have "graph_ok g' \<and> (\<forall>t. t \<noteq> tid \<longrightarrow> part t g' = part t g)" if "?m = Inr (k, g')" for k g'
  proof (rule merge_node_tenant_write [OF _ _ _ _ that])
    fix ps ps' assume "add_props ?latest ps = Inr ps'" "dict_get ps ''tenant_id'' = Some (JStr tid)"
    then show "dict_get ps' ''tenant_id'' = Some (JStr tid) \<and>
        (''Vulnerability'' = ''File'' \<longrightarrow> dict_get ps ''id'' = None \<longrightarrow> dict_get ps' ''id'' = None)"
      using add_props_get [of ?latest ps ps' "''tenant_id''"] by simp
  qed (use kept in \<open>auto simp: others_kept_def add_props_def split: if_splits\<close>)
  then show "others_kept tid g0 (snd (merge_vuln tid vid cve g))"
    using kept by (cases ?m) (auto simp: merge_vuln_def others_kept_def Let_def)
qed

lemma link_product_kept: "preserves (others_kept tid g0) (link_product tid cve_id product)"
proof (rule preservesI)
  fix g assume kept: "others_kept tid g0 g"
  let ?vulns = "filter (matches (Some ''Vulnerability'') [(''cve_id'', cve_id), (''tenant_id'', JStr tid)]) (gs_nodes g)"
  let ?pairs = "List.product (map vx_id (filter (name_contains product) (applications tid g))) (map vx_id ?vulns)"
  let ?p = "\<lambda>n. matches (Some ''Application'') [(''tenant_id'', JStr tid)] n \<or>
    matches (Some ''Vulnerability'') [(''cve_id'', cve_id), (''tenant_id'', JStr tid)] n"
  have ok: "graph_ok g" using kept by (simp add: others_kept_def)
  have "graph_ok (g\<lparr>gs_rels := rs\<rparr>) \<and> (\<forall>t. t \<noteq> tid \<longrightarrow> part t (g\<lparr>gs_rels := rs\<rparr>) = part t g)"
    if "merge_rels ''HAS_VULNERABILITY'' [] ?pairs (gs_rels g) = Inr rs" for rs
    by (rule merge_rels_tenant_write [OF ok that, of ?p])
      (use ok in \<open>auto simp: applications_def matches_def owned_def graph_ok_def\<close>)
  then show "others_kept tid g0 (snd (link_product tid cve_id product g))"
    using kept by (auto simp: link_product_def others_kept_def Let_def split: sum.splits)
qed

lemma link_cve_kept: "preserves (others_kept tid g0) (link_cve tid vc)"
proof -
  obtain vid cve where vc: "vc = (vid, cve)" by force
  have cpe: "preserves (others_kept tid g0) (link_cpe tid cve c)" for c
    unfolding link_cpe_def
    by (auto intro!: preserves_intros link_product_kept split: json.splits option.splits)
  show ?thesis
    unfolding vc
  proof (rule preservesI)
    fix g assume "others_kept tid g0 g"
    with preservesD [OF merge_vuln_kept] have "others_kept tid g0 (snd (merge_vuln tid vid cve g))" by blast
    with preservesD [OF preserves_for_each [OF cpe]] show "others_kept tid g0 (snd (link_cve tid (vid, cve) g))"
      by (auto simp: link_cve_def split: prod.splits sum.splits)
  qed
qed

text \<open>Linking the CVEs for a tenant keeps every store in order, changes nothing that belongs to another tenant,
  and leaves the database and the queue alone, also when it ends in an error.\<close>

theorem cve_links_isolated:
  assumes run: "link_cves_to_tenant env cves t s = (r, s')" and ok: "graph_ok (tw_stores s k)"
  shows "graph_ok (tw_stores s' k) \<and> tw_db s' = tw_db s \<and> tw_queue s' = tw_queue s \<and>
    (tid \<noteq> uuid_str (tn_id t) \<longrightarrow> part tid (tw_stores s' k) = part tid (tw_stores s k))"
proof (cases "backend_of_tenant (cx_genv env) t")
  case (Inr b)
  let ?m = "for_each (zip (map (cx_uuid4 env (tn_id t)) [0..<length cves]) cves) (link_cve (uuid_str (tn_id t)))"
  have "preserves (others_kept (uuid_str (tn_id t)) g0) ?m" for g0
    by (rule preserves_for_each) (rule link_cve_kept)
  from preservesD [OF this, of g0 g0 for g0] have "graph_ok g \<Longrightarrow> others_kept (uuid_str (tn_id t)) g (snd (?m g))" for g
    by (simp add: others_kept_def)
  with run ok Inr show ?thesis
    by (fastforce simp: link_cves_to_tenant_def lift_err_def with_backend_def others_kept_def split: if_splits prod.splits)
qed (use run ok in \<open>simp add: link_cves_to_tenant_def lift_err_def\<close>)

definition example_cve :: cve_record where
  "example_cve = \<lparr> cv_cve_id = JStr ''CVE-2026-1'', cv_cvss_score = JNum 9, cv_cvss_severity = ''critical'',
     cv_description = JStr ''Overflow'', cv_published_date = JStr '''',
     cv_cpe_matches = [JStr ''cpe:2.3:a:acme:big_tool:1.0''], cv_exploit_available = False,
     cv_actively_exploited = False \<rparr>"

definition example_apps :: gstore where
  "example_apps = \<lparr> gs_nodes =
     [\<lparr>vx_id = 0, vx_labels = [''Application''], vx_props = [(''tenant_id'', JStr (uuid_str 1)), (''name'', JStr ''The Big Tool Reader'')]\<rparr>,
      \<lparr>vx_id = 1, vx_labels = [''Application''], vx_props = [(''tenant_id'', JStr (uuid_str 2)), (''name'', JStr ''big tool'')]\<rparr>],
     gs_rels = [], gs_next = 2 \<rparr>"

section \<open>Which applications are linked\<close>

definition rel_ends :: "string \<Rightarrow> grel list \<Rightarrow> (nat \<times> nat) set" where
  "rel_ends ty rs = set (map (\<lambda>r. (gr_from r, gr_to r)) (filter (\<lambda>r. gr_type r = ty) rs))"

text \<open>One relationship without properties is added for each of the pairs that has none of this type.\<close>

definition adds_links :: "string \<Rightarrow> (nat \<times> nat) set \<Rightarrow> grel list \<Rightarrow> grel list \<Rightarrow> bool" where
  "adds_links ty ps rs rs' \<longleftrightarrow> (\<exists>new. rs' = rs @ new \<and> distinct (map (\<lambda>r. (gr_from r, gr_to r)) new) \<and>
     (\<lambda>r. (gr_from r, gr_to r)) ` set new = ps - rel_ends ty rs \<and>
     (\<forall>r \<in> set new. gr_type r = ty \<and> gr_props r = []))"

lemma adds_links_none: "adds_links ty {} rs rs"
  by (simp add: adds_links_def)

lemma rel_ends_append:
  "(\<forall>r \<in> set new. gr_type r = ty) \<Longrightarrow>
   rel_ends ty (rs @ new) = rel_ends ty rs \<union> (\<lambda>r. (gr_from r, gr_to r)) ` set new"
  by (auto simp: rel_ends_def)

lemma adds_links_trans:
  assumes "adds_links ty ps rs rs1" and "adds_links ty qs rs1 rs2"
  shows "adds_links ty (ps \<union> qs) rs rs2"
proof -
  let ?e = "\<lambda>r. (gr_from r, gr_to r)"
  from assms(1) obtain n1 where n1: "rs1 = rs @ n1" "distinct (map ?e n1)" "?e ` set n1 = ps - rel_ends ty rs"
    "\<forall>r \<in> set n1. gr_type r = ty \<and> gr_props r = []" by (auto simp: adds_links_def)
  from assms(2) obtain n2 where n2: "rs2 = rs1 @ n2" "distinct (map ?e n2)" "?e ` set n2 = qs - rel_ends ty rs1"
    "\<forall>r \<in> set n2. gr_type r = ty \<and> gr_props r = []" by (auto simp: adds_links_def)
  have ends: "rel_ends ty rs1 = rel_ends ty rs \<union> ps"
    using n1(4) n1(3) by (simp add: n1(1) rel_ends_append)
  have "distinct (map ?e (n1 @ n2))"
    using n1(2) n2(2) by (simp add: n1(3) n2(3) ends) blast
  moreover have "?e ` set (n1 @ n2) = ps \<union> qs - rel_ends ty rs"
    by (simp add: image_Un n1(3) n2(3) ends) blast
  ultimately show ?thesis
    unfolding adds_links_def using n1(1,4) n2(1,4) by (intro exI [of _ "n1 @ n2"]) auto
qed

lemma merge_rel_plain: "\<exists>rs'. merge_rel ty [] p rs = Inr rs' \<and> adds_links ty {p} rs rs'"
proof -
  obtain a b where p: "p = (a, b)" by force
  let ?is = "\<lambda>r. gr_type r = ty \<and> gr_from r = a \<and> gr_to r = b"
  have same: "update_where ?is (\<lambda>r. r\<lparr>gr_props := gr_props r\<rparr>) rs = rs"
    by (simp add: update_where_def map_idI)
  have known: "list_ex ?is rs \<longleftrightarrow> p \<in> rel_ends ty rs"
    by (auto simp: rel_ends_def p list_ex_iff image_iff)
  show ?thesis
  proof (cases "list_ex ?is rs")
    case True
    with same known show ?thesis by (simp add: p merge_rel_def adds_links_def Let_def)
  next
    case False
    with known show ?thesis by (auto simp: p merge_rel_def adds_links_def Let_def)
  qed
qed

lemma merge_rels_plain: "\<exists>rs'. merge_rels ty [] ps rs = Inr rs' \<and> adds_links ty (set ps) rs rs'"
proof (induction ps arbitrary: rs)
  case (Cons p ps)
  from merge_rel_plain obtain rs1 where one: "merge_rel ty [] p rs = Inr rs1" "adds_links ty {p} rs rs1"
    by blast
  with Cons.IH [of rs1] adds_links_trans [OF one(2)] show ?case by fastforce
qed (simp add: adds_links_none)

definition vulns_of :: "string \<Rightarrow> cve_record \<Rightarrow> gstore \<Rightarrow> vertex list" where
  "vulns_of tid cve g =
     filter (matches (Some ''Vulnerability'') [(''cve_id'', cv_cve_id cve), (''tenant_id'', JStr tid)]) (gs_nodes g)"

definition products_of :: "json list \<Rightarrow> string list" where
  "products_of cpes = List.map_filter (\<lambda>c. case c of JStr t \<Rightarrow> product_of_cpe t | _ \<Rightarrow> None) cpes"

definition is_cpe_text :: "json \<Rightarrow> bool" where
  "is_cpe_text v = (case v of JStr t \<Rightarrow> True | _ \<Rightarrow> False)"

text \<open>The pairs of an application of the tenant and a node of the CVE that the CPE strings ask for.\<close>

definition wanted :: "string \<Rightarrow> cve_record \<Rightarrow> json list \<Rightarrow> gstore \<Rightarrow> (nat \<times> nat) set" where
  "wanted tid cve cpes g =
     {(vx_id a, vx_id v) | a v. a \<in> set (applications tid g) \<and> v \<in> set (vulns_of tid cve g) \<and>
        (\<exists>p \<in> set (products_of cpes). name_contains p a)}"

lemma wanted_Nil [simp]: "wanted tid cve [] g = {}"
  by (simp add: wanted_def products_of_def map_filter_def)

lemma wanted_Cons: "wanted tid cve (c # cs) g = wanted tid cve [c] g \<union> wanted tid cve cs g"
proof -
  have "set (products_of (c # cs)) = set (products_of [c]) \<union> set (products_of cs)"
    by (auto simp: products_of_def map_filter_def)
  then show ?thesis by (auto simp: wanted_def)
qed

lemma nodes_only [simp]:
  "applications tid (g\<lparr>gs_rels := rs\<rparr>) = applications tid g"
  "wanted tid cve cpes (g\<lparr>gs_rels := rs\<rparr>) = wanted tid cve cpes g"
  by (simp_all add: applications_def vulns_of_def wanted_def)

lemma link_cpe_step:
  assumes names: "list_all text_name (applications tid g)" and "is_cpe_text c"
  shows "\<exists>rs. link_cpe tid cve c g = (Inr (), g\<lparr>gs_rels := rs\<rparr>) \<and>
    adds_links ''HAS_VULNERABILITY'' (wanted tid cve [c] g) (gs_rels g) rs"
proof -
  obtain t where c: "c = JStr t" using assms(2) by (cases c) (auto simp: is_cpe_text_def)
  show ?thesis
  proof (cases "product_of_cpe t")
    case None
    then have "wanted tid cve [c] g = {}" by (simp add: wanted_def c products_of_def map_filter_def)
    with None adds_links_none show ?thesis
      by (intro exI [of _ "gs_rels g"]) (simp add: c link_cpe_def)
  next
    case (Some p)
    let ?pairs = "List.product (map vx_id (filter (name_contains p) (applications tid g))) (map vx_id (vulns_of tid cve g))"
    have "set ?pairs = wanted tid cve [c] g"
      using Some by (auto simp: wanted_def c products_of_def map_filter_def)
    with merge_rels_plain [of "''HAS_VULNERABILITY''" ?pairs "gs_rels g"] obtain rs
      where "merge_rels ''HAS_VULNERABILITY'' [] ?pairs (gs_rels g) = Inr rs"
        "adds_links ''HAS_VULNERABILITY'' (wanted tid cve [c] g) (gs_rels g) rs" by auto
    with names Some show ?thesis
      by (intro exI [of _ rs]) (simp add: c link_cpe_def link_product_def py_try_def Let_def vulns_of_def)
  qed
qed

lemma link_cpes_run:
  assumes "list_all text_name (applications tid g)" and "list_all is_cpe_text cs"
  shows "\<exists>rs. for_each cs (link_cpe tid cve) g = (Inr (), g\<lparr>gs_rels := rs\<rparr>) \<and>
    adds_links ''HAS_VULNERABILITY'' (wanted tid cve cs g) (gs_rels g) rs"
  using assms
proof (induction cs arbitrary: g)
  case Nil
  then show ?case by (intro exI [of _ "gs_rels g"]) (simp add: adds_links_none)
next
  case (Cons c cs)
  from Cons.prems have "is_cpe_text c" by simp
  from link_cpe_step [OF Cons.prems(1) this, of cve] obtain rs1
    where one: "link_cpe tid cve c g = (Inr (), g\<lparr>gs_rels := rs1\<rparr>)"
      and adds1: "adds_links ''HAS_VULNERABILITY'' (wanted tid cve [c] g) (gs_rels g) rs1" by blast
  from Cons.prems have "list_all text_name (applications tid (g\<lparr>gs_rels := rs1\<rparr>))" "list_all is_cpe_text cs"
    by simp_all
  from Cons.IH [OF this] obtain rs
    where rest: "for_each cs (link_cpe tid cve) (g\<lparr>gs_rels := rs1\<rparr>) = (Inr (), g\<lparr>gs_rels := rs\<rparr>)"
      and adds: "adds_links ''HAS_VULNERABILITY'' (wanted tid cve cs g) rs1 rs" by auto
  from one rest adds_links_trans [OF adds1 adds] show ?case
    by (intro exI [of _ rs]) (simp add: wanted_Cons [of _ _ c cs])
qed

lemma merge_vuln_rels: "gs_rels (snd (merge_vuln tid vid cve g)) = gs_rels g"
proof -
  have "gs_rels g' = gs_rels g" if "merge_node l pat c u g = Inr (k, g')" for l pat c u k g'
    using that
    by (cases "c pat"; cases "update_matching (matches (Some l) pat) u (gs_nodes g)")
      (auto simp: merge_node_def Let_def split: if_splits)
  then show ?thesis by (auto simp: merge_vuln_def Let_def split: sum.splits)
qed

text \<open>C16: When the node of the CVE could be written, every application of the tenant that has a name
  has a text as its name, and the first ten CPE strings are texts, then linking the CVE changes nothing
  of the graph but its relationships. The old ones stay, in order and with their properties; added is
  one \<open>HAS_VULNERABILITY\<close> without properties for each pair of a node of the CVE and an application of the
  tenant whose name contains, somewhere and whatever its version, the product of one of those CPE
  strings, if the pair has no such relationship yet; and none twice.\<close>

theorem cve_links_exact:
  assumes "merge_vuln tid vid cve g = (Inr (), g1)"
    and "list_all text_name (applications tid g1)" and "list_all is_cpe_text (take 10 (cv_cpe_matches cve))"
  shows "\<exists>new. link_cve tid (vid, cve) g = (Inr (), g1\<lparr>gs_rels := gs_rels g @ new\<rparr>) \<and>
    (\<forall>r \<in> set new. gr_type r = ''HAS_VULNERABILITY'' \<and> gr_props r = []) \<and>
    distinct (map (\<lambda>r. (gr_from r, gr_to r)) new) \<and>
    (\<lambda>r. (gr_from r, gr_to r)) ` set new =
      {(vx_id a, vx_id v) | a v. a \<in> set (applications tid g1) \<and> v \<in> set (vulns_of tid cve g1) \<and>
        (\<exists>p \<in> set (products_of (take 10 (cv_cpe_matches cve))). name_contains p a)} -
      rel_ends ''HAS_VULNERABILITY'' (gs_rels g)"
proof -
  have old: "gs_rels g1 = gs_rels g" using merge_vuln_rels [of tid vid cve g] assms(1) by simp
  from link_cpes_run [OF assms(2,3), of cve] assms(1) obtain rs where
    "link_cve tid (vid, cve) g = (Inr (), g1\<lparr>gs_rels := rs\<rparr>)"
    "adds_links ''HAS_VULNERABILITY'' (wanted tid cve (take 10 (cv_cpe_matches cve)) g1) (gs_rels g) rs"
    by (auto simp: link_cve_def old)
  then show ?thesis by (auto simp: adds_links_def wanted_def)
qed

theorem cve_links_exact_witness:
  "case link_cve (uuid_str 1) (''v0'', example_cve) example_apps of
     (Inl e, g) \<Rightarrow> False | (Inr x, g) \<Rightarrow>
       gs_rels g = [\<lparr>gr_type = ''HAS_VULNERABILITY'', gr_from = 0, gr_to = 2, gr_props = []\<rparr>]"
proof -
  let ?g1 = "snd (merge_vuln (uuid_str 1) ''v0'' example_cve example_apps)" and ?e = "\<lambda>r. (gr_from r, gr_to r)"
  have run: "merge_vuln (uuid_str 1) ''v0'' example_cve example_apps = (Inr (), ?g1)" by code_simp
  have names: "list_all text_name (applications (uuid_str 1) ?g1)" by code_simp
  have texts: "list_all is_cpe_text (take 10 (cv_cpe_matches example_cve))" by code_simp
  from cve_links_exact [OF run names texts] obtain new where
    link: "link_cve (uuid_str 1) (''v0'', example_cve) example_apps = (Inr (), ?g1\<lparr>gs_rels := gs_rels example_apps @ new\<rparr>)"
    and new: "\<forall>r \<in> set new. gr_type r = ''HAS_VULNERABILITY'' \<and> gr_props r = []" "distinct (map ?e new)"
    and ends: "?e ` set new =
        {(vx_id a, vx_id v) | a v. a \<in> set (applications (uuid_str 1) ?g1) \<and> v \<in> set (vulns_of (uuid_str 1) example_cve ?g1) \<and>
        (\<exists>p \<in> set (products_of (take 10 (cv_cpe_matches example_cve))). name_contains p a)} -
      rel_ends ''HAS_VULNERABILITY'' (gs_rels example_apps)"
    by (elim exE conjE) (rule that; assumption)
  have parts: "gs_rels example_apps = [] \<and> map vx_id (applications (uuid_str 1) ?g1) = [0] \<and>
      map vx_id (vulns_of (uuid_str 1) example_cve ?g1) = [2] \<and>
      list_all (name_contains ''big tool'') (applications (uuid_str 1) ?g1) \<and>
      products_of (take 10 (cv_cpe_matches example_cve)) = [''big tool'']" by code_simp
  from parts have e1: "gs_rels example_apps = []"
    and e2: "products_of (take 10 (cv_cpe_matches example_cve)) = [''big tool'']" by simp_all
  from parts obtain a v where av: "applications (uuid_str 1) ?g1 = [a]" "vulns_of (uuid_str 1) example_cve ?g1 = [v]"
    "vx_id a = 0" "vx_id v = 2" "name_contains ''big tool'' a" by auto
  have one: "set (map ?e new) = {(0, 2)}"
    using ends unfolding e1 e2 av(1,2) by (simp add: rel_ends_def av(3-5))
  have "length (map ?e new) = 1"
    using distinct_card [OF new(2)] one by simp
  then obtain r where "new = [r]" by (cases new) auto
  with one new(1) have "new = [\<lparr>gr_type = ''HAS_VULNERABILITY'', gr_from = 0, gr_to = 2, gr_props = []\<rparr>]"
    by (cases r) simp
  then show ?thesis unfolding link e1 by simp
qed

section \<open>What the tasks do\<close>

lemma run_active_tenants [simp]: "active_tenants s = (Inr (filter tn_is_active (tenants (tw_db s))), s)"
  by (simp add: active_tenants_def in_tw_db_def select_all_def)

lemma for_each_stops: "xs \<noteq> [] \<Longrightarrow> f (hd xs) s = (Inl e, s') \<Longrightarrow> for_each xs f s = (Inl e, s')"
  by (cases xs) simp_all

text \<open>The list of exploited vulnerabilities never marks one, whatever \<open>db/session.py\<close> defines: nothing
  changes, and the task succeeds only when the list cannot be fetched or nobody is to be told.\<close>

theorem kev_never_marks:
  "snd (check_kev_async env session cve_sync_module s) = s \<and>
   (fst (check_kev_async env session cve_sync_module s) = Inr () \<longleftrightarrow>
     (\<exists>e. cx_kev env = Inl e) \<or>
     (\<exists>data ids. cx_kev env = Inr data \<and> kev_ids data = Inr ids) \<and> ''async_session'' \<in> set session \<and>
       (\<forall>t \<in> set (tenants (tw_db s)). \<not> tn_is_active t))"
proof -
  have missing: "''get_backend_for_tenant'' \<notin> set cve_sync_module" by code_simp
  have loop: "for_each ts (\<lambda>t. thn (global_name cve_sync_module ''get_backend_for_tenant'') (mark_tenant env ids t)) s =
      (if ts = [] then Inr () else Inl (OtherError ''NameError''), s)" for ts ids
    using missing by (cases ts) (simp_all add: global_name_def guard_def)
  show ?thesis
    by (cases "cx_kev env"; cases "kev_ids (projr (cx_kev env))")
      (auto simp: check_kev_async_def lift_err_def import_from_def guard_def loop filter_empty_conv)
qed

text \<open>With the modules as they are, neither task does anything: the first ends on the missing name, and so does
  the second when the list can be fetched and read.\<close>

theorem cve_tasks_never_run:
  "sync_nvd_cves env now days_back s = Some (Inl (ImportError ''async_session''), s) \<and>
   check_cisa_kev env s =
     ((case cx_kev env of
         Inl e \<Rightarrow> Inr ()
       | Inr data \<Rightarrow> (case kev_ids data of Inl e \<Rightarrow> Inl e | Inr ids \<Rightarrow> Inl (ImportError ''async_session''))), s)"
  using no_async_session
  by (cases "cx_kev env"; cases "kev_ids (projr (cx_kev env))")
    (simp_all add: sync_nvd_cves_def sync_nvd_async_def check_cisa_kev_def check_kev_async_def import_from_def guard_def
      lift_err_def)

definition example_tasks :: task_world where
  "example_tasks = \<lparr> tw_db = empty_db, tw_stores = (\<lambda>k. example_apps), tw_queue = [] \<rparr>"

theorem cve_links_isolated_witness:
  "case link_cves_to_tenant example_cve_env [example_cve] (new_tenant 1 0 ''acme'' ''Acme'' None) example_tasks of
     (Inl e, s') \<Rightarrow> False
   | (Inr x, s') \<Rightarrow> part (uuid_str 2) (tw_stores s' 0) = part (uuid_str 2) example_apps \<and> graph_ok (tw_stores s' 0) \<and>
       length (gs_rels (tw_stores s' 0)) = 1"
proof -
  let ?run = "link_cves_to_tenant example_cve_env [example_cve] (new_tenant 1 0 ''acme'' ''Acme'' None) example_tasks"
  have "case ?run of (Inl e, s') \<Rightarrow> False | (Inr x, s') \<Rightarrow> length (gs_rels (tw_stores s' 0)) = 1" by code_simp
  then obtain s' where run: "?run = (Inr (), s')" and one: "length (gs_rels (tw_stores s' 0)) = 1"
    by (auto split: prod.splits sum.splits)
  have store: "tw_stores example_tasks 0 = example_apps" by (simp add: example_tasks_def)
  have "graph_ok example_apps"
    by (simp add: graph_ok_def example_apps_def touches_def)
  then have ok: "graph_ok (tw_stores example_tasks 0)" unfolding store .
  have "uuid_str 2 \<noteq> uuid_str (tn_id (new_tenant 1 0 ''acme'' ''Acme'' None))" by code_simp
  with cve_links_isolated [OF run ok, of "uuid_str 2"] show ?thesis
    unfolding run store by (simp add: one)
qed

end
