(* ===== verification/Reenrichment.thy ===== *)
theory Reenrichment
  imports Cve_Sync
begin

text \<open>
  \<open>tasks/reenrichment.py\<close>: looking for file nodes whose enrichment failed, got stuck or never ran, and
  running it again; and \<open>tasks/celery_app.py\<close>: the periodic tasks.

  The broker takes every task. How the graph database compares a property with a time of some days ago is a
  parameter; so is the text of an exception. A query returns the nodes in their order in the store.
\<close>

section \<open>Which nodes are stale\<close>

record reenrich_env =
  rx_genv :: graph_env
  rx_older :: "nat \<Rightarrow> json \<Rightarrow> bool"
  rx_str :: "py_error \<Rightarrow> string"

definition ENRICHED_CATEGORIES :: "string list" where
  "ENRICHED_CATEGORIES = [''document'', ''code'', ''image'', ''video'', ''audio'', ''executable'']"

definition indexed_before :: "reenrich_env \<Rightarrow> nat \<Rightarrow> vertex \<Rightarrow> bool" where
  "indexed_before env d n = (case dict_get (vx_props n) ''indexed_at'' of None \<Rightarrow> False | Some v \<Rightarrow> rx_older env d v)"

definition is_stale :: "reenrich_env \<Rightarrow> string \<Rightarrow> vertex \<Rightarrow> bool" where
  "is_stale env tid n \<longleftrightarrow>
     (let has = (\<lambda>k v. dict_get (vx_props n) k = Some (JStr v))
      in matches (Some ''File'') [(''tenant_id'', JStr tid)] n \<and>
         list_ex (has ''file_category'') ENRICHED_CATEGORIES \<and>
         (has ''enrichment_status'' ''error'' \<or>
          (has ''enrichment_status'' ''pending'' \<and> indexed_before env 7 n) \<or>
          (dict_get (vx_props n) ''summary'' = None \<and> indexed_before env 1 n)))"

text \<open>The row of a node: a property that is not there is null.\<close>

definition file_prop :: "vertex \<Rightarrow> string \<Rightarrow> json" where
  "file_prop n k = dict_get_or (vx_props n) k JNull"

definition find_stale :: "reenrich_env \<Rightarrow> string \<Rightarrow> json \<Rightarrow> gstore \<Rightarrow> py_error + (json \<times> json \<times> json) list" where
  "find_stale env tid limit g =
     (case limit of
        JInt n \<Rightarrow>
          if n < 0 then Inl (OtherError ''ClientError'')
          else Inr (take (nat n) (map (\<lambda>v. (file_prop v ''id'', file_prop v ''path'', file_prop v ''file_category''))
                 (filter (is_stale env tid) (gs_nodes g))))
      | _ \<Rightarrow> Inl (OtherError ''ClientError''))"

section \<open>Queueing them\<close>

definition apply_async :: "queued_task \<Rightarrow> unit job" where
  "apply_async q = modify (\<lambda>s. s\<lparr>tw_queue := tw_queue s @ [q]\<rparr>)"

definition reenrich_task :: "string \<Rightarrow> json \<times> json \<times> json \<Rightarrow> queued_task" where
  "reenrich_task tid = (\<lambda>(i, path, category).
     \<lparr> qt_task = ''dgraphai.tasks.reenrichment.reenrich_node'', qt_args = [JStr tid, i, path, category],
       qt_queue = ''enrichment'', qt_countdown = 0 \<rparr>)"

definition queue_tenant_stale :: "reenrich_env \<Rightarrow> json \<Rightarrow> tenant \<Rightarrow> unit job" where
  "queue_tenant_stale env limit t =
     bnd (lift_err (backend_of_tenant (rx_genv env) t)) (\<lambda>b.
     let tid = uuid_str (tn_id t)
     in bnd (py_try (bnd (with_backend (rx_genv env) b (\<lambda>g. (find_stale env tid limit g, g))) (\<lambda>rows. ret (Some rows)))
               (\<lambda>e. ret None)) (\<lambda>found.
        case found of
          None \<Rightarrow> ret ()
        | Some rows \<Rightarrow> for_each rows (\<lambda>row. apply_async (reenrich_task tid row))))"

definition queue_stale_async :: "reenrich_env \<Rightarrow> string list \<Rightarrow> string option \<Rightarrow> json \<Rightarrow> unit job" where
  "queue_stale_async env session tenant_id limit =
     thn (import_from session ''async_session'')
     (bnd (case tenant_id of
             None \<Rightarrow> active_tenants
           | Some t \<Rightarrow>
               if t = '''' then active_tenants
               else (case parse_uuid t of
                       None \<Rightarrow> raise (ValueError ''badly formed hexadecimal UUID string'')
                     | Some i \<Rightarrow> in_tw_db (select_all tenants (\<lambda>x. tn_is_active x \<and> tn_id x = i))))
       (\<lambda>ts. for_each ts (queue_tenant_stale env limit)))"

definition queue_stale_nodes :: "reenrich_env \<Rightarrow> string option \<Rightarrow> json \<Rightarrow> unit job" where
  "queue_stale_nodes env = queue_stale_async env session_module"

section \<open>Enriching one node\<close>

text \<open>\<open>MATCH (f:File) WHERE f.id = $id AND f.tenant_id = $tid SET ...\<close>; an id that is null matches nothing.\<close>

definition set_file :: "json \<Rightarrow> json \<Rightarrow> py_dict \<Rightarrow> (gstore, unit) handler" where
  "set_file i tid new = (\<lambda>g.
     case update_matching (matches (Some ''File'') [(''id'', i), (''tenant_id'', tid)]) (add_props new) (gs_nodes g) of
       Inl e \<Rightarrow> (Inl e, g)
     | Inr ns \<Rightarrow> (Inr (), g\<lparr>gs_nodes := ns\<rparr>))"

text \<open>The statement that stores a result: its keys are property names in the text, and its values parameters
  beside \<open>id\<close> and \<open>tid\<close>, which they can replace.\<close>

definition store_result :: "graph_env \<Rightarrow> json \<Rightarrow> json \<Rightarrow> py_dict \<Rightarrow> (gstore, unit) handler" where
  "store_result genv i tid props = (\<lambda>g.
     let params = dict_update [(''id'', i), (''tid'', tid)] props
     in if list_all (\<lambda>e. is_label (fst e)) props then
          set_file (dict_get_or params ''id'' JNull) (dict_get_or params ''tid'' JNull)
            (props @ [(''enrichment_status'', JStr ''done'')]) g
        else case run_text genv
            (''MATCH (f:File) WHERE f.id = $id AND f.tenant_id = $tid SET '' @
             str_join '', '' (map (\<lambda>e. ''f.'' @ fst e @ '' = $'' @ fst e) props) @ '', f.enrichment_status = '' @ in_quotes ''done'')
            params g of
          Inl e \<Rightarrow> (Inl e, g)
        | Inr g' \<Rightarrow> (Inr (), g'))"

text \<open>The pipeline is a stub.\<close>

definition run_enrichment :: "json \<Rightarrow> json \<Rightarrow> string \<Rightarrow> py_error + py_dict option" where
  "run_enrichment path category tenant_id = Inr None"

definition enrich_with ::
  "reenrich_env \<Rightarrow> py_error + py_dict option \<Rightarrow> graph_backend \<Rightarrow> string \<Rightarrow> json \<Rightarrow> unit job" where
  "enrich_with env outcome b tid i =
     py_try
       (bnd (lift_err outcome) (\<lambda>enriched_props.
        case enriched_props of
          None \<Rightarrow> ret ()
        | Some props \<Rightarrow>
            py_when (props \<noteq> []) (with_backend (rx_genv env) b (store_result (rx_genv env) i (JStr tid) props))))
       (\<lambda>e. thn (py_try (with_backend (rx_genv env) b (set_file i (JStr tid)
                   [(''enrichment_status'', JStr ''error''), (''enrichment_error'', JStr (take 200 (rx_str env e)))]))
                 (\<lambda>e2. ret ()))
              (raise e))"

definition reenrich_node_async ::
  "reenrich_env \<Rightarrow> string list \<Rightarrow> string \<Rightarrow> json \<Rightarrow> json \<Rightarrow> json \<Rightarrow> unit job" where
  "reenrich_node_async env session tenant_id node_id path category =
     thn (import_from session ''async_session'')
     (case parse_uuid tenant_id of
        None \<Rightarrow> raise (OtherError ''DBAPIError'')
      | Some i \<Rightarrow>
          bnd (in_tw_db (select_one tenants (\<lambda>t. tn_id t = i))) (\<lambda>tenant.
          case tenant of
            None \<Rightarrow> ret ()
          | Some t \<Rightarrow>
              bnd (lift_err (backend_of_tenant (rx_genv env) t)) (\<lambda>b.
              thn (py_try (with_backend (rx_genv env) b
                     (set_file node_id (JStr tenant_id) [(''enrichment_status'', JStr ''processing'')])) (\<lambda>e. ret ()))
                (enrich_with env (run_enrichment path category tenant_id) b tenant_id node_id))))"

definition reenrich_node :: "reenrich_env \<Rightarrow> string \<Rightarrow> json \<Rightarrow> json \<Rightarrow> json \<Rightarrow> unit job" where
  "reenrich_node env = reenrich_node_async env session_module"

section \<open>The administrator's requests\<close>

definition trigger_reenrichment :: "auth_context \<Rightarrow> py_dict \<Rightarrow> (string \<times> json) job" where
  "trigger_reenrichment auth body =
     thn (guard (''admin:*'' \<in> ac_permissions auth) (HTTPException 403 ''Admin required''))
     (let limit = dict_get_or body ''limit'' (JInt 500)
      in thn (apply_async \<lparr> qt_task = ''dgraphai.tasks.reenrichment.queue_stale_nodes'',
               qt_args = [JStr (uuid_str (ac_tenant_id auth)), limit], qt_queue = ''default'', qt_countdown = 0 \<rparr>)
           (ret (''queued'', limit)))"

definition trigger_cve_sync :: "auth_context \<Rightarrow> string job" where
  "trigger_cve_sync auth =
     thn (guard (''admin:*'' \<in> ac_permissions auth) (HTTPException 403 ''Admin required''))
     (thn (apply_async \<lparr> qt_task = ''dgraphai.tasks.cve_sync.sync_nvd_cves'', qt_args = [JInt 14],
             qt_queue = ''default'', qt_countdown = 0 \<rparr>)
        (ret ''queued''))"

section \<open>The periodic tasks\<close>

record periodic_entry =
  be_name :: string
  be_task :: string
  be_schedule :: int
  be_kwargs :: "(string \<times> json) list"

definition periodic :: "string \<Rightarrow> string \<Rightarrow> int \<Rightarrow> (string \<times> json) list \<Rightarrow> periodic_entry" where
  "periodic n t i ks = \<lparr> be_name = n, be_task = ''dgraphai.tasks.'' @ t, be_schedule = i, be_kwargs = ks \<rparr>"

definition beat_schedule :: "periodic_entry list" where
  "beat_schedule =
     [periodic ''evaluate-alerts-every-5-min'' ''alerts.evaluate_all_tenant_alerts'' 300 [],
      periodic ''check-cert-expiry-daily'' ''alerts.check_certificate_expiry'' 86400 [],
      periodic ''snapshot-usage-daily'' ''billing.snapshot_tenant_usage'' 86400 [],
      periodic ''cleanup-expired-tokens-daily'' ''maintenance.cleanup_expired_tokens'' 86400 [],
      periodic ''sync-nvd-cves-daily'' ''cve_sync.sync_nvd_cves'' 86400 [(''days_back'', JInt 2)],
      periodic ''check-cisa-kev-daily'' ''cve_sync.check_cisa_kev'' 86400 [],
      periodic ''run-onboarding-check-daily'' ''maintenance.cleanup_expired_tokens'' 86400 [],
      periodic ''reenrich-stale-nodes-hourly'' ''reenrichment.queue_stale_nodes'' 3600 []]"

text \<open>The tasks that \<open>tasks/__init__.py\<close> imports for a worker, by module.\<close>

definition worker_tasks :: "string list" where
  "worker_tasks = map (\<lambda>t. ''dgraphai.tasks.'' @ t)
     [''indexer.scan_connector'', ''enrichment.enrich_node'', ''alerts.evaluate_all_tenant_alerts'',
      ''alerts.check_certificate_expiry'', ''gdpr.erase_user_data'', ''cve_sync.sync_nvd_cves'', ''cve_sync.check_cisa_kev'',
      ''reenrichment.queue_stale_nodes'', ''reenrichment.reenrich_node'', ''maintenance.cleanup_expired_tokens'',
      ''onboarding.send_welcome'', ''onboarding.check_and_send_connect_reminder'',
      ''onboarding.check_and_send_indexing_update'', ''onboarding.check_and_send_findings_summary'',
      ''onboarding.check_and_send_tips'']"

section \<open>Queueing\<close>

lemma run_apply_async: "for_each rows (\<lambda>r. apply_async (f r)) s = (Inr (), s\<lparr>tw_queue := tw_queue s @ map f rows\<rparr>)"
  by (induction rows arbitrary: s) (simp_all add: apply_async_def)

text \<open>For a tenant whose graph answers, a run queues one task for each of the first stale files of that tenant,
  up to the limit, and changes nothing else. A limit that is no number of rows queues none.\<close>

theorem stale_files_queued:
  assumes "backend_of_tenant (rx_genv env) t = Inr b" and "connects (rx_genv env) b"
  shows "queue_tenant_stale env limit t s =
    (Inr (), s\<lparr>tw_queue := tw_queue s @
       (case find_stale env (uuid_str (tn_id t)) limit (tw_stores s (store_of (rx_genv env) b)) of
          Inl e \<Rightarrow> [] | Inr rows \<Rightarrow> map (reenrich_task (uuid_str (tn_id t))) rows)\<rparr>)"
  using assms
  by (cases "find_stale env (uuid_str (tn_id t)) limit (tw_stores s (store_of (rx_genv env) b))")
    (simp_all add: queue_tenant_stale_def lift_err_def with_backend_def py_try_def Let_def run_apply_async)

section \<open>Enriching\<close>

lemma update_matching_all:
  "(\<And>ps. upd ps = Inr (f ps)) \<Longrightarrow>
     update_matching p upd ns = Inr (map (\<lambda>n. if p n then n\<lparr>vx_props := f (vx_props n)\<rparr> else n) ns)"
  by (induction ns) (auto simp: map_sum_def)

lemma update_matching_none: "(\<And>n. \<not> p n) \<Longrightarrow> update_matching p upd ns = Inr ns"
  by (induction ns) (auto simp: map_sum_def)

lemma set_file_null: "set_file JNull tid new g = (Inr (), g)"
  by (simp add: set_file_def update_matching_none matches_def)

definition set_status :: "string \<Rightarrow> py_dict \<Rightarrow> py_dict" where
  "set_status v = set_prop ''enrichment_status'' (JStr v)"

lemma set_file_status:
  "set_file i tid [(''enrichment_status'', JStr v)] g =
     (Inr (), g\<lparr>gs_nodes := map (\<lambda>n. if matches (Some ''File'') [(''id'', i), (''tenant_id'', tid)] n
        then n\<lparr>vx_props := set_status v (vx_props n)\<rparr> else n) (gs_nodes g)\<rparr>)"
proof -
  have "add_props [(''enrichment_status'', JStr v)] ps = Inr (set_status v ps)" for ps
    by (simp add: add_props_def storable_def set_status_def)
  from update_matching_all [OF this] show ?thesis by (simp add: set_file_def)
qed

lemma reenrich_run:
  assumes "''async_session'' \<in> set session" and "filter (\<lambda>x. tn_id x = tn_id t) (tenants (tw_db s)) = [t]"
    and "backend_of_tenant (rx_genv env) t = Inr b" and "connects (rx_genv env) b"
    and "set_file i (JStr (uuid_str (tn_id t))) [(''enrichment_status'', JStr ''processing'')]
      (tw_stores s (store_of (rx_genv env) b)) = (Inr (), g)"
  shows "reenrich_node_async env session (uuid_str (tn_id t)) i path category s =
    (Inr (), s\<lparr>tw_stores := (tw_stores s)(store_of (rx_genv env) b := g)\<rparr>)"
  using assms
  by (simp add: reenrich_node_async_def import_from_def guard_def in_tw_db_def scalar_one_or_none_def lift_err_def
      with_backend_def py_try_def enrich_with_def run_enrichment_def)

text \<open>The files that the indexing stores have no \<open>id\<close>: every task that is queued for them carries a null in
  its place, and enriching such a node ends well and changes nothing. The file stays stale.\<close>

theorem reenrich_finds_nothing:
  assumes tenant: "filter (\<lambda>x. tn_id x = tn_id t) (tenants (tw_db s)) = [t]"
    and backend: "backend_of_tenant (rx_genv env) t = Inr b" "connects (rx_genv env) b"
    and ok: "graph_ok (tw_stores s (store_of (rx_genv env) b))" and session: "''async_session'' \<in> set session"
    and found: "find_stale env (uuid_str (tn_id t)) limit (tw_stores s (store_of (rx_genv env) b)) = Inr rows"
    and row: "(i, path, category) \<in> set rows"
  shows "i = JNull \<and> reenrich_node_async env session (uuid_str (tn_id t)) i path category s = (Inr (), s)"
proof -
  from found row obtain n where n: "n \<in> set (gs_nodes (tw_stores s (store_of (rx_genv env) b)))"
    and "is_stale env (uuid_str (tn_id t)) n" and i: "i = file_prop n ''id''"
    by (auto simp: find_stale_def split: json.splits if_splits dest!: in_set_takeD)
  then have "''File'' \<in> set (vx_labels n)" by (simp add: is_stale_def matches_def Let_def)
  with n ok have "dict_get (vx_props n) ''id'' = None" by (auto simp: graph_ok_def)
  then have "i = JNull" by (simp add: i file_prop_def dict_get_or_def dict_get_def)
  with reenrich_run [OF session tenant backend, of JNull, OF set_file_null] show ?thesis by simp
qed

text \<open>A file that can be found is marked as being processed, and as the pipeline returns nothing it stays so:
  the task ends well and the file is neither done nor an error.\<close>

theorem reenrich_leaves_processing:
  assumes tenant: "filter (\<lambda>x. tn_id x = tn_id t) (tenants (tw_db s)) = [t]"
    and backend: "backend_of_tenant (rx_genv env) t = Inr b" "connects (rx_genv env) b"
    and session: "''async_session'' \<in> set session"
    and run: "reenrich_node_async env session (uuid_str (tn_id t)) i path category s = (r, s')"
  shows "r = Inr () \<and> gs_nodes (tw_stores s' (store_of (rx_genv env) b)) =
    map (\<lambda>n. if matches (Some ''File'') [(''id'', i), (''tenant_id'', JStr (uuid_str (tn_id t)))] n
             then n\<lparr>vx_props := set_status ''processing'' (vx_props n)\<rparr> else n)
      (gs_nodes (tw_stores s (store_of (rx_genv env) b)))"
  using reenrich_run [OF session tenant backend set_file_status] run by auto

text \<open>With the modules as they are, neither task gets so far.\<close>

theorem reenrichment_never_runs:
  "queue_stale_nodes env tenant_id limit s = (Inl (ImportError ''async_session''), s) \<and>
   reenrich_node env tid i path category s = (Inl (ImportError ''async_session''), s)"
  using no_async_session
  by (simp add: queue_stale_nodes_def queue_stale_async_def reenrich_node_def reenrich_node_async_def import_from_def guard_def)

section \<open>The periodic tasks\<close>

text \<open>One of the periodic tasks does not exist in any module a worker loads, and the one named after the
  onboarding is the clean-up of tokens a second time. The delivery of webhooks is no task of a worker.\<close>

theorem periodic_tasks:
  "map be_name (filter (\<lambda>e. be_task e \<notin> set worker_tasks) beat_schedule) = [''snapshot-usage-daily''] \<and>
   map be_name (filter (\<lambda>e. be_task e = ''dgraphai.tasks.maintenance.cleanup_expired_tokens'') beat_schedule) =
     [''cleanup-expired-tokens-daily'', ''run-onboarding-check-daily''] \<and>
   ''dgraphai.webhooks.deliver_webhook_event'' \<notin> set worker_tasks"
  by code_simp

section \<open>Examples\<close>

definition example_reenrich_env :: reenrich_env where
  "example_reenrich_env = \<lparr> rx_genv = example_genv, rx_older = (\<lambda>d v. True), rx_str = (\<lambda>e. ''failed'') \<rparr>"

definition stale_tenant :: tenant where
  "stale_tenant = new_tenant 1 0 ''acme'' ''Acme'' None"

definition stale_file :: "py_dict \<Rightarrow> vertex" where
  "stale_file more_props = \<lparr> vx_id = 0, vx_labels = [''File''],
     vx_props = more_props @ [(''tenant_id'', JStr (uuid_str 1)), (''path'', JStr ''/a.pdf''), (''file_category'', JStr ''document''),
       (''enrichment_status'', JStr ''error'')] \<rparr>"

definition stale_world :: "py_dict \<Rightarrow> task_world" where
  "stale_world more_props = \<lparr> tw_db = empty_db\<lparr>tenants := [stale_tenant]\<rparr>,
     tw_stores = (\<lambda>k. \<lparr> gs_nodes = [stale_file more_props], gs_rels = [], gs_next = 1 \<rparr>), tw_queue = [] \<rparr>"

lemma stale_backend:
  "\<exists>b. backend_of_tenant (rx_genv example_reenrich_env) stale_tenant = Inr b \<and>
     connects (rx_genv example_reenrich_env) b \<and> store_of (rx_genv example_reenrich_env) b = 0"
proof -
  have "case backend_of_tenant (rx_genv example_reenrich_env) stale_tenant of Inl e \<Rightarrow> False | Inr b \<Rightarrow> True"
    by code_simp
  then show ?thesis by (auto simp: example_reenrich_env_def example_genv_def split: sum.splits)
qed

theorem stale_files_queued_witness:
  "map qt_args (tw_queue (snd (queue_tenant_stale example_reenrich_env (JInt 10) stale_tenant (stale_world [])))) =
     [[JStr (uuid_str 1), JNull, JStr ''/a.pdf'', JStr ''document'']]"
proof -
  obtain b where b: "backend_of_tenant (rx_genv example_reenrich_env) stale_tenant = Inr b"
    "connects (rx_genv example_reenrich_env) b" "store_of (rx_genv example_reenrich_env) b = 0"
    using stale_backend by blast
  have store: "tw_stores (stale_world []) 0 = \<lparr> gs_nodes = [stale_file []], gs_rels = [], gs_next = 1 \<rparr>"
    by (simp add: stale_world_def)
  have id1: "tn_id stale_tenant = 1" by code_simp
  have rows: "find_stale example_reenrich_env (uuid_str 1) (JInt 10) \<lparr> gs_nodes = [stale_file []], gs_rels = [], gs_next = 1 \<rparr> =
      Inr [(JNull, JStr ''/a.pdf'', JStr ''document'')]" by code_simp
  show ?thesis
    unfolding stale_files_queued [OF b(1,2)] b(3) store id1 rows
    by (simp add: stale_world_def reenrich_task_def)
qed

theorem reenrich_finds_nothing_witness:
  "reenrich_node_async example_reenrich_env [''async_session''] (uuid_str 1) JNull (JStr ''/a.pdf'') (JStr ''document'')
     (stale_world []) = (Inr (), stale_world [])"
proof -
  obtain b where b: "backend_of_tenant (rx_genv example_reenrich_env) stale_tenant = Inr b"
    "connects (rx_genv example_reenrich_env) b" "store_of (rx_genv example_reenrich_env) b = 0"
    using stale_backend by blast
  have store: "tw_stores (stale_world []) 0 = \<lparr> gs_nodes = [stale_file []], gs_rels = [], gs_next = 1 \<rparr>"
    by (simp add: stale_world_def)
  have id1: "tn_id stale_tenant = 1" by code_simp
  have rows: "find_stale example_reenrich_env (uuid_str (tn_id stale_tenant)) (JInt 10)
      (tw_stores (stale_world []) (store_of (rx_genv example_reenrich_env) b)) =
      Inr [(JNull, JStr ''/a.pdf'', JStr ''document'')]"
    unfolding b(3) store id1 by code_simp
  have "graph_ok (tw_stores (stale_world []) (store_of (rx_genv example_reenrich_env) b))"
    unfolding b(3) store by (simp add: graph_ok_def stale_file_def dict_get_def)
  moreover have "filter (\<lambda>x. tn_id x = tn_id stale_tenant) (tenants (tw_db (stale_world []))) = [stale_tenant]"
    by (simp add: stale_world_def)
  ultimately show ?thesis
    using reenrich_finds_nothing [OF _ b(1,2) _ _ rows, of "[''async_session'']" JNull "JStr ''/a.pdf''" "JStr ''document''"]
    by (simp add: id1)
qed

theorem reenrich_leaves_processing_witness:
  "\<exists>s'. reenrich_node_async example_reenrich_env [''async_session''] (uuid_str 1) (JInt 3) (JStr ''/a.pdf'') (JStr ''document'')
       (stale_world [(''id'', JInt 3)]) = (Inr (), s') \<and>
     map (\<lambda>n. file_prop n ''enrichment_status'') (gs_nodes (tw_stores s' 0)) = [JStr ''processing'']"
proof -
  let ?w = "stale_world [(''id'', JInt 3)]"
  obtain b where b: "backend_of_tenant (rx_genv example_reenrich_env) stale_tenant = Inr b"
    "connects (rx_genv example_reenrich_env) b" "store_of (rx_genv example_reenrich_env) b = 0"
    using stale_backend by blast
  have id1: "tn_id stale_tenant = 1" by code_simp
  have one: "filter (\<lambda>x. tn_id x = tn_id stale_tenant) (tenants (tw_db ?w)) = [stale_tenant]"
    by (simp add: stale_world_def)
  obtain r s' where run: "reenrich_node_async example_reenrich_env [''async_session''] (uuid_str (tn_id stale_tenant)) (JInt 3)
      (JStr ''/a.pdf'') (JStr ''document'') ?w = (r, s')" by force
  note end_state = reenrich_leaves_processing [OF one b(1,2) _ run]
  have store: "gs_nodes (tw_stores ?w 0) = [stale_file [(''id'', JInt 3)]]" by (simp add: stale_world_def)
  have hit: "matches (Some ''File'') [(''id'', JInt 3), (''tenant_id'', JStr (uuid_str 1))] (stale_file [(''id'', JInt 3)])"
    by code_simp
  from end_state have "r = Inr ()" and "gs_nodes (tw_stores s' 0) =
      [(stale_file [(''id'', JInt 3)])\<lparr>vx_props := set_status ''processing'' (vx_props (stale_file [(''id'', JInt 3)]))\<rparr>]"
    by (simp_all add: b(3) store id1 hit [unfolded One_nat_def])
  then show ?thesis
    using run by (simp add: id1 file_prop_def dict_get_or_def dict_get_def [symmetric] set_status_def)
qed

end
