(* ===== verification/Emails.thy ===== *)
theory Emails
  imports Cve_Sync
begin

text \<open>
  \<open>auth/email.py\<close>: sending an email by one of three providers, and the texts of the emails.

  The answers of the providers are parameters. An email that goes to the log is recorded with its address
  and subject. A text is the list of its bytes, and a character beyond ASCII its UTF-8 bytes.
\<close>

section \<open>Providers\<close>

record smtp_mail =
  sm_subject :: string
  sm_from :: string
  sm_to :: string
  sm_parts :: "(string \<times> string) list"
  sm_hostname :: string
  sm_port :: int
  sm_username :: "string option"
  sm_password :: "string option"
  sm_use_tls :: bool
  sm_start_tls :: bool

datatype mail_request =
    ToResend json
  | ToSendgrid json
  | ToSmtp smtp_mail
  | ToLog string string

record email_env =
  em_RESEND_API_KEY :: string
  em_SENDGRID_API_KEY :: string
  em_SMTP_HOST :: string
  em_SMTP_PORT :: int
  em_SMTP_USER :: string
  em_SMTP_PASS :: string
  em_EMAIL_FROM :: string
  em_APP_URL :: string
  em_resend :: "json \<Rightarrow> py_error + nat"
  em_sendgrid :: "json \<Rightarrow> py_error + nat"
  em_smtp :: "smtp_mail \<Rightarrow> py_error + unit"

type_synonym 'a mailer = "(mail_request list, 'a) handler"

datatype provider = Resend | Sendgrid | Smtp | Console

definition mail_provider :: "email_env \<Rightarrow> provider" where
  "mail_provider env =
     (if em_RESEND_API_KEY env \<noteq> '''' then Resend
      else if em_SENDGRID_API_KEY env \<noteq> '''' then Sendgrid
      else if em_SMTP_HOST env \<noteq> '''' then Smtp else Console)"

definition request :: "mail_request \<Rightarrow> unit mailer" where
  "request r = modify (\<lambda>out. out @ [r])"

definition send_resend :: "email_env \<Rightarrow> string \<Rightarrow> string \<Rightarrow> string \<Rightarrow> string \<Rightarrow> bool mailer" where
  "send_resend env to subject html plain =
     (let payload = JObj ([(''from'', JStr (em_EMAIL_FROM env)), (''to'', JArr [JStr to]), (''subject'', JStr subject),
            (''html'', JStr html)] @ (if plain = '''' then [] else [(''text'', JStr plain)]))
      in thn (request (ToResend payload)) (bnd (lift_err (em_resend env payload)) (\<lambda>code. ret (\<not> 400 \<le> code))))"

text \<open>The plain text is not sent.\<close>

definition send_sendgrid :: "email_env \<Rightarrow> string \<Rightarrow> string \<Rightarrow> string \<Rightarrow> string \<Rightarrow> bool mailer" where
  "send_sendgrid env to subject html plain =
     (let payload = JObj [(''personalizations'', JArr [JObj [(''to'', JArr [JObj [(''email'', JStr to)]])]]),
            (''from'', JObj [(''email'', JStr (em_EMAIL_FROM env))]), (''subject'', JStr subject),
            (''content'', JArr [JObj [(''type'', JStr ''text/html''), (''value'', JStr html)]])]
      in thn (request (ToSendgrid payload)) (bnd (lift_err (em_sendgrid env payload)) (\<lambda>code. ret (code < 400))))"

definition send_smtp :: "email_env \<Rightarrow> string \<Rightarrow> string \<Rightarrow> string \<Rightarrow> string \<Rightarrow> bool mailer" where
  "send_smtp env to subject html plain =
     (let or_none = (\<lambda>s. if s = '''' then None else Some s);
          msg = \<lparr> sm_subject = subject, sm_from = em_EMAIL_FROM env, sm_to = to,
            sm_parts = (if plain = '''' then [] else [(''plain'', plain)]) @ [(''html'', html)],
            sm_hostname = em_SMTP_HOST env, sm_port = em_SMTP_PORT env, sm_username = or_none (em_SMTP_USER env),
            sm_password = or_none (em_SMTP_PASS env), sm_use_tls = (em_SMTP_PORT env = 465),
            sm_start_tls = (em_SMTP_PORT env = 587) \<rparr>
      in thn (request (ToSmtp msg)) (thn (lift_err (em_smtp env msg)) (ret True)))"

definition send_email :: "email_env \<Rightarrow> string \<Rightarrow> string \<Rightarrow> string \<Rightarrow> string \<Rightarrow> bool mailer" where
  "send_email env to subject html plain =
     py_try
       (case mail_provider env of
          Resend \<Rightarrow> send_resend env to subject html plain
        | Sendgrid \<Rightarrow> send_sendgrid env to subject html plain
        | Smtp \<Rightarrow> send_smtp env to subject html plain
        | Console \<Rightarrow> thn (request (ToLog to subject)) (ret True))
       (\<lambda>e. ret False)"

section \<open>Pieces of HTML\<close>

text \<open>The UTF-8 bytes of a code point beyond ASCII.\<close>

definition utf8 :: "nat \<Rightarrow> string" where
  "utf8 n = map char_of
     (if n < 0x800 then [192 + n div 64, 128 + n mod 64]
      else if n < 0x10000 then [224 + n div 4096, 128 + n div 64 mod 64, 128 + n mod 64]
      else [240 + n div 262144, 128 + n div 4096 mod 64, 128 + n div 64 mod 64, 128 + n mod 64])"

definition hidden_span :: "string \<Rightarrow> string" where
  "hidden_span preheader = ''<span style=\"display:none;max-height:0;overflow:hidden;\">'' @ preheader @ ''</span>''"

definition html_base :: "email_env \<Rightarrow> string \<Rightarrow> string \<Rightarrow> string" where
  "html_base env content preheader = text_block
     [(0, ''<!DOCTYPE html>''),
      (0, ''<html>''),
      (0, ''<head>''),
      (0, ''<meta charset=\"utf-8\">''),
      (0, ''<meta name=\"viewport\" content=\"width=device-width,initial-scale=1\">''),
      (0, ''<title>dgraph.ai</title>''),
      (0, ''</head>''),
      (0, ''<body style=\"margin:0;padding:0;background:#09080c;font-family:'' @ [CHR 0x27] @ ''Segoe UI'' @
           [CHR 0x27] @ '',Inter,sans-serif;\">''),
      (0, (if preheader = '''' then '''' else hidden_span preheader)),
      (0, ''<table width=\"100%\" cellpadding=\"0\" cellspacing=\"0\" style=\"background:#09080c;padding:32px 0;\">''),
      (2, ''<tr><td align=\"center\">''),
      (4, ''<table width=\"560\" cellpadding=\"0\" cellspacing=\"0\" style=\"max-width:560px;width:100%;\">''),
      (0, ''''),
      (6, ''<!-- Header -->''),
      (6, ''<tr><td style=\"padding:0 0 24px 0;\">''),
      (8, ''<table width=\"100%\" cellpadding=\"0\" cellspacing=\"0\">''),
      (10, ''<tr>''),
      (12, ''<td>''),
      (14, ''<div style=\"display:inline-flex;align-items:center;gap:10px;\">''),
      (16, ''<div style=\"width:32px;height:32px;border-radius:8px;''),
      (18, ''background:linear-gradient(135deg,#7c5cfc 0%,#2dd4bf 100%);''),
      (18, ''display:inline-block;vertical-align:middle;\"></div>''),
      (16, ''<span style=\"color:#eaeaf8;font-size:16px;font-weight:700;''),
      (18, ''vertical-align:middle;margin-left:10px;\">dgraph.ai</span>''),
      (14, ''</div>''),
      (12, ''</td>''),
      (10, ''</tr>''),
      (8, ''</table>''),
      (6, ''</td></tr>''),
      (0, ''''),
      (6, ''<!-- Body card -->''),
      (6, ''<tr><td style=\"background:#0f0f1a;border:1px solid rgba(255,255,255,0.10);''),
      (8, ''border-radius:12px;padding:32px;\">''),
      (8, content),
      (6, ''</td></tr>''),
      (0, ''''),
      (6, ''<!-- Footer -->''),
      (6, ''<tr><td style=\"padding:24px 0 0 0;text-align:center;\">''),
      (8, ''<p style=\"color:#55557a;font-size:12px;margin:0;\">''),
      (10, ''dgraph.ai '' @ utf8 0xB7 @ '' <a href=\"'' @ em_APP_URL env @
           ''/settings\" style=\"color:#55557a;\">Unsubscribe</a>''),
      (8, ''</p>''),
      (6, ''</td></tr>''),
      (0, ''''),
      (4, ''</table>''),
      (2, ''</td></tr>''),
      (0, ''</table>''),
      (0, ''</body>''),
      (0, ''</html>'')]"

definition html_btn :: "string \<Rightarrow> string \<Rightarrow> string" where
  "html_btn url label = text_block
     [(0, ''<a href=\"'' @ url @ ''\" style=\"display:inline-block;padding:12px 24px;''),
      (6, ''background:#7c5cfc;color:#ffffff;text-decoration:none;border-radius:20px;''),
      (6, ''font-weight:600;font-size:14px;margin:16px 0;\">'' @ label @ ''</a>'')]"

definition html_h1 :: "string \<Rightarrow> string" where
  "html_h1 t = ''<h1 style=\"color:#eaeaf8;font-size:22px;font-weight:700;margin:0 0 16px 0;\">'' @ t @ ''</h1>''"

definition html_p :: "string \<Rightarrow> string" where
  "html_p t = ''<p style=\"color:#cac4cf;font-size:14px;line-height:1.6;margin:0 0 12px 0;\">'' @ t @ ''</p>''"

definition html_code :: "string \<Rightarrow> string" where
  "html_code t = text_block
     [(0, ''<div style=\"background:#141424;border:1px solid rgba(255,255,255,0.08);''),
      (6, ''border-radius:8px;padding:12px 16px;margin:12px 0;\">''),
      (6, ''<code style=\"color:#947dff;font-family:monospace;font-size:13px;word-break:break-all;\">'' @ t @
           ''</code>''),
      (4, ''</div>'')]"

section \<open>The emails\<close>

definition apostrophe :: string where
  "apostrophe = [CHR 0x27]"

definition verification_html :: "email_env \<Rightarrow> string \<Rightarrow> string \<Rightarrow> string" where
  "verification_html env name token =
     (let url = em_APP_URL env @ ''/verify-email?token='' @ token
      in html_base env
           (html_h1 ''Verify your email'' @
            html_p (''Hi '' @ str_or (Some name) ''there'' @ '', thanks for signing up for dgraph.ai.'') @
            html_p ''Click the button below to verify your email address and activate your account.'' @
            html_btn url ''Verify email'' @
            html_p (''Or copy this link: <a href=\"'' @ url @ ''\" style=\"color:#947dff;\">'' @ url @ ''</a>'') @
            html_p (''This link expires in 24 hours. If you didn'' @ apostrophe @
              ''t create an account, you can ignore this email.''))
           ''Verify your dgraph.ai account'')"

definition send_verification_email :: "email_env \<Rightarrow> string \<Rightarrow> string \<Rightarrow> string \<Rightarrow> bool mailer" where
  "send_verification_email env to name token =
     send_email env to ''Verify your dgraph.ai email'' (verification_html env name token) ''''"

definition password_reset_html :: "email_env \<Rightarrow> string \<Rightarrow> string \<Rightarrow> string" where
  "password_reset_html env name token =
     (let url = em_APP_URL env @ ''/reset-password?token='' @ token
      in html_base env
           (html_h1 ''Reset your password'' @
            html_p (''Hi '' @ str_or (Some name) ''there'' @ '','') @
            html_p ''We received a request to reset your password. Click below to set a new one.'' @
            html_btn url ''Reset password'' @
            html_p ''This link expires in 1 hour.'' @
            html_p (''If you didn'' @ apostrophe @ ''t request a password reset, you can safely ignore this email. Your password won'' @
              apostrophe @ ''t change.''))
           ''Reset your dgraph.ai password'')"

definition send_password_reset_email :: "email_env \<Rightarrow> string \<Rightarrow> string \<Rightarrow> string \<Rightarrow> bool mailer" where
  "send_password_reset_email env to name token =
     send_email env to ''Reset your dgraph.ai password'' (password_reset_html env name token) ''''"

definition send_invite_email :: "email_env \<Rightarrow> string \<Rightarrow> string \<Rightarrow> string \<Rightarrow> string \<Rightarrow> bool mailer" where
  "send_invite_email env to inviter_name team_name token =
     (let url = em_APP_URL env @ ''/accept-invite?token='' @ token;
          html = html_base env
            (html_h1 (''You'' @ apostrophe @ ''re invited to '' @ team_name) @
             html_p (inviter_name @ '' has invited you to join their dgraph.ai workspace.'') @
             html_p (''dgraph.ai maps your entire filesystem into a security knowledge graph '' @ utf8 0x2014 @
               '' finding exposed secrets, PII, CVEs, and access patterns in minutes.'') @
             html_btn url ''Accept invitation'' @
             html_p ''This invitation expires in 7 days.'')
            (inviter_name @ '' invited you to dgraph.ai'')
      in send_email env to (''You'' @ apostrophe @ ''re invited to '' @ team_name @ '' on dgraph.ai'') html '''')"

definition bright :: "string \<Rightarrow> string" where
  "bright t = ''<strong style='' @ apostrophe @ ''color:#eaeaf8;'' @ apostrophe @ ''>'' @ t @ ''</strong>''"

definition send_agent_connected_email :: "email_env \<Rightarrow> string \<Rightarrow> string \<Rightarrow> string \<Rightarrow> string \<Rightarrow> bool mailer" where
  "send_agent_connected_email env to name agent_name connector_name =
     (let html = html_base env
            (html_h1 (''Agent connected '' @ utf8 0x1F389) @
             html_p (''Hi '' @ str_or (Some name) ''there'' @ '','') @
             html_p (''Your scanner agent '' @ bright agent_name @ '' just connected and is indexing '' @
               bright connector_name @ ''.'') @
             html_p (''You'' @ apostrophe @ ''ll see your first findings in the graph within a few minutes.'') @
             html_btn (em_APP_URL env @ ''/'') ''View graph'' @
             html_p (''We'' @ apostrophe @ ''ll send you a summary once the initial scan completes.''))
            ''Your dgraph.ai agent is live''
      in send_email env to ''Your agent is connected and scanning'' html '''')"

text \<open>\<open>f"{n:,}"\<close>.\<close>

fun group_digits :: "nat \<Rightarrow> string \<Rightarrow> string" where
  "group_digits 0 s = s"
| "group_digits (Suc k) s =
     (if length s \<le> 3 then s
      else group_digits k (take (length s - 3) s) @ '','' @ drop (length s - 3) s)"

definition thousands :: "int \<Rightarrow> string" where
  "thousands i = (let s = nat_str (nat (abs i)) in (if i < 0 then ''-'' else '''') @ group_digits (length s) s)"

definition finding_row :: "string \<Rightarrow> int \<Rightarrow> string \<Rightarrow> string" where
  "finding_row color n what =
     (if n = 0 then ''''
      else ''<tr><td style=\"color:'' @ color @ '';padding:8px 0;font-weight:700;\">'' @ utf8 0x26A0 @ '' '' @ int_str n @
        ''</td><td style=\"color:#cac4cf;padding:8px 12px;\">'' @ what @ ''</td></tr>'')"

definition send_findings_summary_email ::
  "email_env \<Rightarrow> string \<Rightarrow> string \<Rightarrow> int \<Rightarrow> int \<Rightarrow> int \<Rightarrow> int \<Rightarrow> bool mailer" where
  "send_findings_summary_email env to name secrets pii cves total_files =
     (let items = finding_row ''#f04545'' secrets ''Exposed secrets found'' @
            finding_row ''#f97316'' pii ''Files containing PII'' @ finding_row ''#f0c030'' cves ''Critical CVEs detected'';
          shown = (if items \<noteq> '''' then items
            else ''<tr><td colspan=\"2\" style=\"color:#34d399;padding:8px 0;\">'' @ utf8 0x2713 @
              '' No critical findings '' @ utf8 0x2014 @ '' looking good!</td></tr>'');
          subject = ''Scan complete: '' @ thousands total_files @ '' files indexed'';
          html = html_base env
            (html_h1 ''Your scan is complete'' @
             html_p (''Hi '' @ str_or (Some name) ''there'' @ '', here'' @ apostrophe @ ''s what dgraph.ai found across '' @
               thousands total_files @ '' files:'') @
             ''<table cellpadding=\"0\" cellspacing=\"0\" style=\"margin:16px 0;\">'' @ shown @ ''</table>'' @
             html_btn (em_APP_URL env @ ''/security'') ''View security findings'' @
             html_p ''Your graph is live. You can explore all findings, query relationships, and set up alerts.'')
            subject
      in send_email env to subject html '''')"

definition alert_color :: "string \<Rightarrow> string" where
  "alert_color severity =
     (case map_of [(''critical'', ''#f04545''), (''high'', ''#f97316''), (''medium'', ''#f0c030'')] (str_lower severity) of
        None \<Rightarrow> ''#6b7280'' | Some c \<Rightarrow> c)"

definition send_alert_email :: "email_env \<Rightarrow> string \<Rightarrow> string \<Rightarrow> string \<Rightarrow> string \<Rightarrow> string \<Rightarrow> bool mailer" where
  "send_alert_email env to name alert_title sev detail =
     (let color = alert_color sev;
          html = html_base env
            (''<div style=\"border-left:3px solid '' @ color @ '';padding-left:16px;margin-bottom:20px;\">'' @
             ''<span style=\"color:'' @ color @
             '';font-size:11px;font-weight:700;text-transform:uppercase;letter-spacing:0.07em;\">'' @ str_upper sev @ ''</span>'' @
             ''<h2 style=\"color:#eaeaf8;font-size:18px;font-weight:700;margin:4px 0 0 0;\">'' @ alert_title @ ''</h2>'' @
             ''</div>'' @
             html_p detail @
             html_btn (em_APP_URL env @ ''/security'') ''View in dgraph.ai'')
            (str_upper sev @ '': '' @ alert_title)
      in send_email env to (''['' @ str_upper sev @ ''] '' @ alert_title) html '''')"

section \<open>Sending\<close>

text \<open>Whether the provider takes a request, and where it goes.\<close>

definition accepts :: "email_env \<Rightarrow> mail_request \<Rightarrow> bool" where
  "accepts env r =
     (case r of
        ToResend v \<Rightarrow> (case em_resend env v of Inl e \<Rightarrow> False | Inr code \<Rightarrow> code < 400)
      | ToSendgrid v \<Rightarrow> (case em_sendgrid env v of Inl e \<Rightarrow> False | Inr code \<Rightarrow> code < 400)
      | ToSmtp msg \<Rightarrow> (case em_smtp env msg of Inl e \<Rightarrow> False | Inr u \<Rightarrow> True)
      | ToLog a b \<Rightarrow> True)"

definition goes_to :: "mail_request \<Rightarrow> provider \<times> string list" where
  "goes_to r =
     (case r of
        ToResend v \<Rightarrow> (Resend, case v of JObj d \<Rightarrow> (case dict_get d ''to'' of Some (JArr [JStr t]) \<Rightarrow> [t] | _ \<Rightarrow> []) | _ \<Rightarrow> [])
      | ToSendgrid v \<Rightarrow> (Sendgrid, case v of JObj d \<Rightarrow>
            (case dict_get d ''personalizations'' of Some (JArr [JObj [(k, JArr [JObj [(l, JStr t)]])]]) \<Rightarrow> [t] | _ \<Rightarrow> []) | _ \<Rightarrow> [])
      | ToSmtp msg \<Rightarrow> (Smtp, [sm_to msg])
      | ToLog a b \<Rightarrow> (Console, [a]))"

text \<open>Sending an email never raises. It makes exactly one request, to the first configured provider and for the
  address alone, and returns whether the provider took it; without a provider every email counts as sent.\<close>

theorem send_email_once:
  "\<exists>r. send_email env to subject html plain out = (Inr (accepts env r), out @ [r]) \<and>
     goes_to r = (mail_provider env, [to])"
  by (cases "mail_provider env")
    (auto simp: send_email_def py_try_def send_resend_def send_sendgrid_def send_smtp_def request_def lift_err_def
      accepts_def goes_to_def dict_get_def Let_def not_le split: sum.splits)

section \<open>What an email says\<close>

lemma base_content: "sublist t content \<Longrightarrow> sublist t (html_base env content preheader)"
  unfolding html_base_def by (rule sublist_text_block [of 8 content]) simp_all

lemma btn_url: "sublist t url \<Longrightarrow> sublist t (html_btn url label)"
  unfolding html_btn_def by (rule sublist_text_block [OF list.set_intros(1)]) (intro sublist_app)

lemma p_text: "sublist t s \<Longrightarrow> sublist t (html_p s)"
  unfolding html_p_def by (intro sublist_app)

text \<open>The links of the two emails carry the token that was issued, at the address of the application; and the
  name of the user stands in the page as it was given, with whatever markup it holds.\<close>

theorem mail_links:
  "sublist (em_APP_URL env @ ''/verify-email?token='' @ token) (verification_html env name token) \<and>
   sublist (em_APP_URL env @ ''/reset-password?token='' @ token) (password_reset_html env name token) \<and>
   sublist (str_or (Some name) ''there'') (verification_html env name token) \<and>
   sublist (str_or (Some name) ''there'') (password_reset_html env name token)"
proof (intro conjI)
  show "sublist (em_APP_URL env @ ''/verify-email?token='' @ token) (verification_html env name token)"
    unfolding verification_html_def Let_def
    by (rule base_content, rule sublist_app(2), rule sublist_app(2), rule sublist_app(2), rule sublist_app(1), rule btn_url)
      simp
  show "sublist (em_APP_URL env @ ''/reset-password?token='' @ token) (password_reset_html env name token)"
    unfolding password_reset_html_def Let_def
    by (rule base_content, rule sublist_app(2), rule sublist_app(2), rule sublist_app(2), rule sublist_app(1), rule btn_url)
      simp
  show "sublist (str_or (Some name) ''there'') (verification_html env name token)"
    unfolding verification_html_def Let_def
    by (rule base_content, rule sublist_app(2), rule sublist_app(1), rule p_text, rule sublist_app(2), rule sublist_app(1)) simp
  show "sublist (str_or (Some name) ''there'') (password_reset_html env name token)"
    unfolding password_reset_html_def Let_def
    by (rule base_content, rule sublist_app(2), rule sublist_app(1), rule p_text, rule sublist_app(2), rule sublist_app(1)) simp
qed

section \<open>Thousands\<close>

lemma group_digits_plain: "filter (\<lambda>c. c \<noteq> CHR '','') (group_digits k s) = filter (\<lambda>c. c \<noteq> CHR '','') s"
proof (induction k arbitrary: s)
  case (Suc k)
  let ?front = "take (length s - 3) s" and ?rear = "drop (length s - 3) s"
  show ?case
  proof (cases "length s \<le> 3")
    case False
    then have "group_digits (Suc k) s = group_digits k ?front @ '','' @ ?rear" by simp
    then have "filter (\<lambda>c. c \<noteq> CHR '','') (group_digits (Suc k) s) = filter (\<lambda>c. c \<noteq> CHR '','') (?front @ ?rear)"
      by (simp only: filter_append Suc) simp
    then show ?thesis by simp
  qed simp
qed simp

text \<open>Without its commas, the text is the number.\<close>

theorem thousands_digits: "filter (\<lambda>c. c \<noteq> CHR '','') (thousands i) = int_str i"
proof -
  have "filter (\<lambda>c. c \<noteq> CHR '','') (nat_str n) = nat_str n" for n
    by (rule filter_True) (use nat_str_digits [of "CHR '',''" n] in \<open>auto simp: is_digit_def char_code_def\<close>)
  then show ?thesis
    by (simp add: thousands_def Let_def group_digits_plain int_str_def)
qed

end
