(* ===== verification/Onboarding.thy ===== *)
theory Onboarding
  imports Emails
begin

text \<open>
  \<open>tasks/onboarding.py\<close>: the emails that follow a signup.

  The broker's answer to a task is a parameter. The tasks that read the database import \<open>async_session\<close>,
  which \<open>db/session.py\<close> does not define; they are modelled over the names it does define.
\<close>

section \<open>Queueing the sequence\<close>

definition onboarding_task :: "string \<Rightarrow> int \<Rightarrow> string list \<Rightarrow> queued_task" where
  "onboarding_task n delay args = \<lparr> qt_task = ''dgraphai.tasks.onboarding.'' @ n, qt_args = map JStr args,
     qt_queue = ''default'', qt_countdown = delay \<rparr>"

definition queue_one :: "(queued_task \<Rightarrow> py_error + unit) \<Rightarrow> queued_task \<Rightarrow> (queued_task list, unit) handler" where
  "queue_one broker q = thn (lift_err (broker q)) (modify (\<lambda>qs. qs @ [q]))"

definition queue_onboarding_sequence ::
  "(queued_task \<Rightarrow> py_error + unit) \<Rightarrow> string \<Rightarrow> string \<Rightarrow> string \<Rightarrow> string \<Rightarrow> (queued_task list, unit) handler" where
  "queue_onboarding_sequence broker user_id tenant_id user_email user_name =
     (let args = [user_id, tenant_id, user_email, user_name]
      in for_each
           [onboarding_task ''send_welcome'' 0 args,
            onboarding_task ''check_and_send_connect_reminder'' 3600 args,
            onboarding_task ''check_and_send_indexing_update'' 86400 args,
            onboarding_task ''check_and_send_findings_summary'' 172800 args,
            onboarding_task ''check_and_send_tips'' 604800 args]
           (queue_one broker))"

section \<open>The state of a task\<close>

record mail_world =
  mw_db :: db
  mw_outbox :: "mail_request list"

type_synonym mail_task = "(mail_world, unit) handler"

definition in_mail_db :: "'a endpoint \<Rightarrow> (mail_world, 'a) handler" where
  "in_mail_db m = (\<lambda>s. case m (mw_db s) of (r, d) \<Rightarrow> (r, s\<lparr>mw_db := d\<rparr>))"

definition mails :: "email_env \<Rightarrow> string \<Rightarrow> string \<Rightarrow> string \<Rightarrow> mail_task" where
  "mails env to subject html =
     (\<lambda>s. case send_email env to subject html '''' (mw_outbox s) of
        (Inl e, out) \<Rightarrow> (Inl e, s\<lparr>mw_outbox := out\<rparr>) | (Inr b, out) \<Rightarrow> (Inr (), s\<lparr>mw_outbox := out\<rparr>))"

text \<open>\<open>(name or "").split()[0] or "there"\<close>.\<close>

definition first_name_of :: "string option \<Rightarrow> py_error + string" where
  "first_name_of name =
     (case split_words (str_or name '''') of
        [] \<Rightarrow> Inl IndexError
      | w # ws \<Rightarrow> Inr (if w = '''' then ''there'' else w))"

text \<open>\<open>name.split()[0] if name else 'there'\<close>.\<close>

definition welcome_name :: "string option \<Rightarrow> py_error + string" where
  "welcome_name name =
     (if str_or name '''' = '''' then Inr ''there''
      else (case split_words (str_or name '''') of [] \<Rightarrow> Inl IndexError | w # ws \<Rightarrow> Inr w))"

definition tenant_uuid :: "string \<Rightarrow> (mail_world, uuid) handler" where
  "tenant_uuid t = (case parse_uuid t of
     None \<Rightarrow> raise (ValueError ''badly formed hexadecimal UUID string'') | Some i \<Rightarrow> ret i)"

section \<open>Welcome\<close>

definition welcome_html :: "string \<Rightarrow> string \<Rightarrow> string" where
  "welcome_html app_url first_name = text_block
     [(0, ''''),
      (4, ''<div style=\"font-family:sans-serif;max-width:560px;margin:0 auto;color:#e2e2f0;background:#0e0e16;padding:32px;border-radius:12px\">''),
      (6, ''<div style=\"display:flex;align-items:center;gap:10px;margin-bottom:24px\">''),
      (8, ''<div style=\"width:36px;height:36px;border-radius:9px;background:#4f8ef7;color:#fff;display:flex;align-items:center;justify-content:center;font-weight:800;font-size:14px\">dg</div>''),
      (8, ''<span style=\"font-size:18px;font-weight:700;color:#e2e2f0\">dgraph.ai</span>''),
      (6, ''</div>''),
      (6, ''<h1 style=\"font-size:22px;font-weight:700;color:#e2e2f0;margin:0 0 8px\">Welcome, '' @ first_name @
           ''!</h1>''),
      (6, ''<p style=\"color:#8888aa;line-height:1.6;margin:0 0 20px\">''),
      (8, ''You'' @ [CHR 0x27] @
           ''ve just joined the most powerful way to understand what lives in your data.''),
      (8, ''dgraph.ai indexes your files, enriches them with AI, and builds a knowledge graph''),
      (8, ''so you can explore everything '' @ utf8 0x2014 @
           '' security findings, relationships, and patterns '' @ utf8 0x2014),
      (8, ''in one place.''),
      (6, ''</p>''),
      (6, ''<div style=\"background:#12121a;border:1px solid #252535;border-radius:10px;padding:20px;margin-bottom:24px\">''),
      (8, ''<div style=\"font-size:13px;font-weight:700;color:#e2e2f0;margin-bottom:12px\">Get started in 3 steps</div>''),
      (8, ''<div style=\"display:flex;flex-direction:column;gap:8px\">''),
      (10, ''<div style=\"display:flex;align-items:center;gap:10px;font-size:13px;color:#8888aa\">''),
      (12, ''<span style=\"width:22px;height:22px;border-radius:50%;background:#4f8ef7;color:#fff;display:flex;align-items:center;justify-content:center;font-size:11px;font-weight:700;flex-shrink:0\">1</span>''),
      (12, ''Connect a data source (SMB, S3, SharePoint, local folder)''),
      (10, ''</div>''),
      (10, ''<div style=\"display:flex;align-items:center;gap:10px;font-size:13px;color:#8888aa\">''),
      (12, ''<span style=\"width:22px;height:22px;border-radius:50%;background:#8b5cf6;color:#fff;display:flex;align-items:center;justify-content:center;font-size:11px;font-weight:700;flex-shrink:0\">2</span>''),
      (12, ''Install the scanner agent (5-minute Helm or Docker install)''),
      (10, ''</div>''),
      (10, ''<div style=\"display:flex;align-items:center;gap:10px;font-size:13px;color:#8888aa\">''),
      (12, ''<span style=\"width:22px;height:22px;border-radius:50%;background:#10b981;color:#fff;display:flex;align-items:center;justify-content:center;font-size:11px;font-weight:700;flex-shrink:0\">3</span>''),
      (12, ''Watch your knowledge graph come to life''),
      (10, ''</div>''),
      (8, ''</div>''),
      (6, ''</div>''),
      (6, ''<a href=\"'' @ app_url @
           ''\" style=\"display:inline-block;padding:12px 24px;background:#4f8ef7;color:#fff;text-decoration:none;border-radius:9px;font-weight:700;font-size:14px\">''),
      (8, ''Open dgraph.ai '' @ utf8 0x2192),
      (6, ''</a>''),
      (6, ''<p style=\"color:#35354a;font-size:11px;margin-top:24px\">''),
      (8, ''Questions? Reply to this email or visit our docs at docs.dgraph.ai''),
      (6, ''</p>''),
      (4, ''</div>''),
      (4, '''')]"

definition send_welcome_async :: "email_env \<Rightarrow> string \<Rightarrow> string option \<Rightarrow> mail_task" where
  "send_welcome_async env email name =
     bnd (lift_err (welcome_name name)) (\<lambda>first_name.
     mails env email ''Welcome to dgraph.ai'' (welcome_html (em_APP_URL env) first_name))"

section \<open>Reminder\<close>

definition reminder_html :: "string \<Rightarrow> string \<Rightarrow> string" where
  "reminder_html app_url first_name = text_block
     [(0, ''''),
      (4, ''<div style=\"font-family:sans-serif;max-width:560px;margin:0 auto;color:#e2e2f0;background:#0e0e16;padding:32px;border-radius:12px\">''),
      (6, ''<h2 style=\"font-size:20px;font-weight:700;color:#e2e2f0;margin:0 0 8px\">Hey '' @ first_name @
           '', your graph is empty '' @ utf8 0x1F440 @ ''</h2>''),
      (6, ''<p style=\"color:#8888aa;line-height:1.6;margin:0 0 20px\">''),
      (8, ''You signed up an hour ago but haven'' @ [CHR 0x27] @ ''t connected a data source yet.''),
      (8, ''It takes under 5 minutes to connect an SMB share, S3 bucket, or local folder.''),
      (6, ''</p>''),
      (6, ''<a href=\"'' @ app_url @
           ''/connectors\" style=\"display:inline-block;padding:12px 24px;background:#4f8ef7;color:#fff;text-decoration:none;border-radius:9px;font-weight:700;font-size:14px\">''),
      (8, ''Connect your first source '' @ utf8 0x2192),
      (6, ''</a>''),
      (4, ''</div>''),
      (4, '''')]"

definition connect_reminder_async ::
  "email_env \<Rightarrow> string list \<Rightarrow> string \<Rightarrow> string \<Rightarrow> string option \<Rightarrow> mail_task" where
  "connect_reminder_async env session tenant_id email name =
     thn (import_from session ''async_session'')
     (bnd (tenant_uuid tenant_id) (\<lambda>tid.
      bnd (in_mail_db (select_all connectors (\<lambda>c. cn_tenant_id c = tid))) (\<lambda>cs.
      if take 1 cs \<noteq> [] then ret ()
      else bnd (lift_err (first_name_of name)) (\<lambda>first_name.
           mails env email ''Your knowledge graph is waiting'' (reminder_html (em_APP_URL env) first_name)))))"

section \<open>Indexing\<close>

definition indexing_html :: "string \<Rightarrow> string \<Rightarrow> int \<Rightarrow> string" where
  "indexing_html app_url first_name count = text_block
     [(0, ''''),
      (4, ''<div style=\"font-family:sans-serif;max-width:560px;margin:0 auto;background:#0e0e16;padding:32px;border-radius:12px\">''),
      (6, ''<h2 style=\"color:#e2e2f0;margin:0 0 8px\">Your graph has '' @ thousands count @ '' nodes, '' @
           first_name @ '' '' @ utf8 0x1F389 @ ''</h2>''),
      (6, ''<p style=\"color:#8888aa;line-height:1.6;margin:0 0 20px\">''),
      (8, ''Your first scan completed. dgraph.ai has indexed '' @ thousands count @
           '' files and is now enriching''),
      (8, ''them with AI '' @ utf8 0x2014 @
           '' detecting secrets, PII, CVEs, and building the relationship graph.''),
      (6, ''</p>''),
      (6, ''<a href=\"'' @ app_url @
           ''\" style=\"display:inline-block;padding:12px 24px;background:#4f8ef7;color:#fff;text-decoration:none;border-radius:9px;font-weight:700\">''),
      (8, ''Explore your graph '' @ utf8 0x2192),
      (6, ''</a>''),
      (4, ''</div>''),
      (4, '''')]"

definition indexing_update_async ::
  "email_env \<Rightarrow> string list \<Rightarrow> string \<Rightarrow> string \<Rightarrow> string option \<Rightarrow> mail_task" where
  "indexing_update_async env session tenant_id email name =
     thn (import_from session ''async_session'')
     (bnd (tenant_uuid tenant_id) (\<lambda>tid.
      bnd (in_mail_db (select_all connectors (\<lambda>c. cn_tenant_id c = tid \<and> cn_last_scan_status c = Some ''success''))) (\<lambda>cs.
      case cs of
        [] \<Rightarrow> ret ()
      | c # rest \<Rightarrow>
          bnd (lift_err (first_name_of name)) (\<lambda>first_name.
          let count = (case cn_total_files_indexed c of None \<Rightarrow> 0 | Some n \<Rightarrow> n)
          in mails env email (''Your graph has '' @ thousands count @ '' nodes and counting'')
               (indexing_html (em_APP_URL env) first_name count)))))"

section \<open>Findings and tips\<close>

definition findings_html :: "string \<Rightarrow> string \<Rightarrow> string" where
  "findings_html app_url first_name = text_block
     [(0, ''''),
      (4, ''<div style=\"font-family:sans-serif;max-width:560px;margin:0 auto;background:#0e0e16;padding:32px;border-radius:12px\">''),
      (6, ''<h2 style=\"color:#e2e2f0;margin:0 0 8px\">Here'' @ [CHR 0x27] @ ''s what dgraph.ai found, '' @
           first_name @ ''</h2>''),
      (6, ''<p style=\"color:#8888aa;line-height:1.6;margin:0 0 20px\">''),
      (8, ''After 48 hours of indexing and AI enrichment, your knowledge graph is ready.''),
      (8, ''Check the Security page for exposed secrets, PII, and vulnerabilities discovered''),
      (8, ''across your connected sources.''),
      (6, ''</p>''),
      (6, ''<a href=\"'' @ app_url @
           ''/security\" style=\"display:inline-block;padding:12px 24px;background:#f87171;color:#fff;text-decoration:none;border-radius:9px;font-weight:700\">''),
      (8, ''View security findings '' @ utf8 0x2192),
      (6, ''</a>''),
      (4, ''</div>''),
      (4, '''')]"

definition findings_summary_async :: "email_env \<Rightarrow> string \<Rightarrow> string option \<Rightarrow> mail_task" where
  "findings_summary_async env email name =
     bnd (lift_err (first_name_of name)) (\<lambda>first_name.
     mails env email
       (''Your AI enrichment is complete '' @ utf8 0x2014 @ '' here'' @ apostrophe @ ''s what we found'')
       (findings_html (em_APP_URL env) first_name))"

definition tips_html :: "string \<Rightarrow> string" where
  "tips_html app_url = text_block
     [(0, ''''),
      (4, ''<div style=\"font-family:sans-serif;max-width:560px;margin:0 auto;background:#0e0e16;padding:32px;border-radius:12px\">''),
      (6, ''<h2 style=\"color:#e2e2f0;margin:0 0 8px\">3 things you might not know about dgraph.ai</h2>''),
      (6, ''<div style=\"display:flex;flex-direction:column;gap:14px;margin-bottom:20px\">''),
      (8, ''<div style=\"background:#12121a;border:1px solid #252535;border-radius:8px;padding:14px\">''),
      (10, ''<div style=\"font-weight:700;color:#4f8ef7;margin-bottom:4px\">'' @ utf8 0x2318 @ ''K '' @
           utf8 0x2014 @ '' Global Search</div>''),
      (10, ''<div style=\"color:#8888aa;font-size:13px\">Press Cmd+K anywhere to search your entire graph by name, content, or relationship.</div>''),
      (8, ''</div>''),
      (8, ''<div style=\"background:#12121a;border:1px solid #252535;border-radius:8px;padding:14px\">''),
      (10, ''<div style=\"font-weight:700;color:#8b5cf6;margin-bottom:4px\">Query Builder</div>''),
      (10, ''<div style=\"color:#8888aa;font-size:13px\">Drag-and-drop Cypher query builder at /builder '' @
           utf8 0x2014 @ '' no graph database knowledge needed.</div>''),
      (8, ''</div>''),
      (8, ''<div style=\"background:#12121a;border:1px solid #252535;border-radius:8px;padding:14px\">''),
      (10, ''<div style=\"font-weight:700;color:#10b981;margin-bottom:4px\">What Changed</div>''),
      (10, ''<div style=\"color:#8888aa;font-size:13px\">The /diff page shows everything new since your last scan '' @
           utf8 0x2014 @ '' great for daily security reviews.</div>''),
      (8, ''</div>''),
      (6, ''</div>''),
      (6, ''<a href=\"'' @ app_url @
           ''\" style=\"display:inline-block;padding:12px 24px;background:#4f8ef7;color:#fff;text-decoration:none;border-radius:9px;font-weight:700\">''),
      (8, ''Back to dgraph.ai '' @ utf8 0x2192),
      (6, ''</a>''),
      (4, ''</div>''),
      (4, '''')]"

definition tips_async :: "email_env \<Rightarrow> string \<Rightarrow> string option \<Rightarrow> mail_task" where
  "tips_async env email name =
     bnd (lift_err (first_name_of name)) (\<lambda>first_name.
     mails env email (''3 things you might not know, '' @ first_name) (tips_html (em_APP_URL env)))"

section \<open>The tasks of the queue\<close>

text \<open>Which function a queued task runs, on its four arguments.\<close>

definition onboarding_run :: "email_env \<Rightarrow> queued_task \<Rightarrow> mail_task" where
  "onboarding_run env q =
     (case qt_args q of
        [JStr user_id, JStr tenant_id, JStr email, JStr name] \<Rightarrow>
          (case map_of
             [(''dgraphai.tasks.onboarding.send_welcome'', send_welcome_async env email (Some name)),
              (''dgraphai.tasks.onboarding.check_and_send_connect_reminder'',
               connect_reminder_async env session_module tenant_id email (Some name)),
              (''dgraphai.tasks.onboarding.check_and_send_indexing_update'',
               indexing_update_async env session_module tenant_id email (Some name)),
              (''dgraphai.tasks.onboarding.check_and_send_findings_summary'', findings_summary_async env email (Some name)),
              (''dgraphai.tasks.onboarding.check_and_send_tips'', tips_async env email (Some name))] (qt_task q) of
             None \<Rightarrow> raise (KeyError (qt_task q))
           | Some m \<Rightarrow> m)
      | _ \<Rightarrow> raise TypeError)"

section \<open>What becomes of the sequence\<close>

text \<open>\<open>mails\<close> raises nothing and adds one request, for the address.\<close>

lemma run_mails:
  "\<exists>r. mails env to subject html s = (Inr (), s\<lparr>mw_outbox := mw_outbox s @ [r]\<rparr>) \<and> snd (goes_to r) = [to]"
proof -
  obtain r where "send_email env to subject html '''' (mw_outbox s) = (Inr (accepts env r), mw_outbox s @ [r])"
    and "goes_to r = (mail_provider env, [to])"
    using send_email_once by blast
  then show ?thesis by (intro exI [of _ r]) (simp add: mails_def)
qed

definition sent_to :: "mail_world \<Rightarrow> mail_world \<Rightarrow> string list list" where
  "sent_to s s' = map (\<lambda>r. snd (goes_to r)) (drop (length (mw_outbox s)) (mw_outbox s'))"

lemma sent_by_mails: "fst (mails env to subject html s) = Inr () \<and> sent_to s (snd (mails env to subject html s)) = [[to]]"
  using run_mails [of env to subject html s] by (auto simp: sent_to_def)

lemma sent_nothing [simp]: "sent_to s s = []"
  by (simp add: sent_to_def)

lemma queued_sequence:
  assumes "\<And>q. broker q = Inr ()"
  shows "queue_onboarding_sequence broker uid tid email name qs = (Inr (), qs @
    [onboarding_task ''send_welcome'' 0 [uid, tid, email, name],
     onboarding_task ''check_and_send_connect_reminder'' 3600 [uid, tid, email, name],
     onboarding_task ''check_and_send_indexing_update'' 86400 [uid, tid, email, name],
     onboarding_task ''check_and_send_findings_summary'' 172800 [uid, tid, email, name],
     onboarding_task ''check_and_send_tips'' 604800 [uid, tid, email, name]])"
  by (simp add: queue_onboarding_sequence_def queue_one_def assms lift_err_def Let_def)

lemma no_session: "import_from session_module ''async_session'' s = (Inl (ImportError ''async_session''), s)"
  using no_async_session by (simp add: import_from_def guard_def)

lemma onboarding_delay [simp]: "qt_countdown (onboarding_task n d args) = d"
  by (simp add: onboarding_task_def)

lemma onboarding_runs:
  "onboarding_run env (onboarding_task ''send_welcome'' d [uid, tid, email, name]) = send_welcome_async env email (Some name)"
  "onboarding_run env (onboarding_task ''check_and_send_connect_reminder'' d [uid, tid, email, name]) =
     connect_reminder_async env session_module tid email (Some name)"
  "onboarding_run env (onboarding_task ''check_and_send_indexing_update'' d [uid, tid, email, name]) =
     indexing_update_async env session_module tid email (Some name)"
  "onboarding_run env (onboarding_task ''check_and_send_findings_summary'' d [uid, tid, email, name]) =
     findings_summary_async env email (Some name)"
  "onboarding_run env (onboarding_task ''check_and_send_tips'' d [uid, tid, email, name]) = tips_async env email (Some name)"
  by (simp_all add: onboarding_run_def onboarding_task_def)

lemma sessions_missing:
  "connect_reminder_async env session_module tid email name s = (Inl (ImportError ''async_session''), s)"
  "indexing_update_async env session_module tid email name s = (Inl (ImportError ''async_session''), s)"
  by (simp_all add: connect_reminder_async_def indexing_update_async_def no_session)

text \<open>A signup under a name with a word in it queues five tasks. The welcome, the summary of findings and the
  tips go out to the new user whatever has happened by then; the two emails that depend on the connectors
  of the tenant never do.\<close>

theorem onboarding_outcome:
  assumes "\<And>q. broker q = Inr ()" and "split_words name = w # ws"
    and "queue_onboarding_sequence broker uid tid email name [] = (r, qs)"
  shows "r = Inr () \<and> map qt_countdown qs = [0, 3600, 86400, 172800, 604800] \<and>
    map (\<lambda>q. sent_to s (snd (onboarding_run env q s))) qs = [[[email]], [], [], [[email]], [[email]]] \<and>
    map (\<lambda>q. fst (onboarding_run env q s)) qs =
      [Inr (), Inl (ImportError ''async_session''), Inl (ImportError ''async_session''), Inr (), Inr ()]"
proof -
  have "name \<noteq> ''''" using assms(2) by auto
  then have names: "welcome_name (Some name) = Inr w" "\<exists>v. first_name_of (Some name) = Inr v"
    using assms(2) by (simp_all add: welcome_name_def first_name_of_def str_or_def)
  from queued_sequence [OF assms(1)] assms(3) have qs: "r = Inr ()" "qs =
    [onboarding_task ''send_welcome'' 0 [uid, tid, email, name],
     onboarding_task ''check_and_send_connect_reminder'' 3600 [uid, tid, email, name],
     onboarding_task ''check_and_send_indexing_update'' 86400 [uid, tid, email, name],
     onboarding_task ''check_and_send_findings_summary'' 172800 [uid, tid, email, name],
     onboarding_task ''check_and_send_tips'' 604800 [uid, tid, email, name]]" by simp_all
  from names(2) obtain v where "first_name_of (Some name) = Inr v" by blast
  with names(1) sent_by_mails show ?thesis
    unfolding qs
    by (simp add: onboarding_runs sessions_missing send_welcome_async_def findings_summary_async_def tips_async_def
        lift_err_def)
qed

text \<open>Under a name without a word the three emails fail on its first word: the word \<open>there\<close> that stands in for
  it is only reached by the welcome, and only when the name is empty.\<close>

theorem onboarding_blank_name:
  assumes "split_words name = []"
  shows "findings_summary_async env email (Some name) s = (Inl IndexError, s) \<and>
    tips_async env email (Some name) s = (Inl IndexError, s) \<and>
    fst (send_welcome_async env email (Some name) s) = (if name = '''' then Inr () else Inl IndexError) \<and>
    sent_to s (snd (send_welcome_async env email (Some name) s)) = (if name = '''' then [[email]] else [])"
  using assms sent_by_mails
  by (simp add: findings_summary_async_def tips_async_def send_welcome_async_def first_name_of_def welcome_name_def
      str_or_def lift_err_def)

text \<open>Given the missing name, the reminder goes out exactly to a tenant without a connector.\<close>

theorem reminder_iff_no_connector:
  assumes "''async_session'' \<in> set session" and "parse_uuid tenant_id = Some tid" and "split_words name = w # ws"
  shows "fst (connect_reminder_async env session tenant_id email (Some name) s) = Inr () \<and>
    sent_to s (snd (connect_reminder_async env session tenant_id email (Some name) s)) =
      (if list_ex (\<lambda>c. cn_tenant_id c = tid) (connectors (mw_db s)) then [] else [[email]])"
proof -
  have "name \<noteq> ''''" using assms(3) by auto
  then obtain v where "first_name_of (Some name) = Inr v"
    using assms(3) by (simp add: first_name_of_def str_or_def)
  with assms sent_by_mails show ?thesis
    by (cases "list_ex (\<lambda>c. cn_tenant_id c = tid) (connectors (mw_db s))")
      (auto simp: connect_reminder_async_def import_from_def guard_def tenant_uuid_def in_mail_db_def select_all_def
        lift_err_def list_ex_iff filter_empty_conv)
qed

section \<open>Examples\<close>

definition example_email_env :: email_env where
  "example_email_env = \<lparr> em_RESEND_API_KEY = '''', em_SENDGRID_API_KEY = '''', em_SMTP_HOST = ''mail.acme.com'',
     em_SMTP_PORT = 587, em_SMTP_USER = ''app'', em_SMTP_PASS = ''secret'', em_EMAIL_FROM = ''noreply@dgraph.ai'',
     em_APP_URL = ''https://app.dgraph.ai'', em_resend = (\<lambda>v. Inr 200), em_sendgrid = (\<lambda>v. Inr 202),
     em_smtp = (\<lambda>m. Inr ()) \<rparr>"

definition example_mail_world :: mail_world where
  "example_mail_world = \<lparr> mw_db = empty_db, mw_outbox = [] \<rparr>"

theorem onboarding_outcome_witness:
  "\<exists>qs. queue_onboarding_sequence (\<lambda>q. Inr ()) ''7'' ''1'' ''ann@acme.com'' ''Ann Lee'' [] = (Inr (), qs) \<and>
     map qt_countdown qs = [0, 3600, 86400, 172800, 604800] \<and>
     map (\<lambda>q. sent_to example_mail_world (snd (onboarding_run example_email_env q example_mail_world))) qs =
       [[[''ann@acme.com'']], [], [], [[''ann@acme.com'']], [[''ann@acme.com'']]]"
proof -
  obtain r qs where run: "queue_onboarding_sequence (\<lambda>q. Inr ()) ''7'' ''1'' ''ann@acme.com'' ''Ann Lee'' [] = (r, qs)"
    by force
  have "split_words ''Ann Lee'' = ''Ann'' # [''Lee'']" by code_simp
  from onboarding_outcome [OF _ this run, of example_mail_world example_email_env] run show ?thesis by simp
qed

theorem onboarding_blank_name_witness:
  "tips_async example_email_env ''ann@acme.com'' (Some '' '') example_mail_world = (Inl IndexError, example_mail_world) \<and>
   fst (send_welcome_async example_email_env ''ann@acme.com'' (Some '' '') example_mail_world) = Inl IndexError"
proof -
  have "split_words '' '' = []" by code_simp
  from onboarding_blank_name [OF this, of example_email_env "''ann@acme.com''" example_mail_world] show ?thesis by simp
qed

theorem reminder_iff_no_connector_witness:
  "sent_to example_mail_world (snd (connect_reminder_async example_email_env [''async_session''] (uuid_str 1) ''ann@acme.com''
     (Some ''Ann Lee'') example_mail_world)) = [[''ann@acme.com'']]"
proof -
  have "split_words ''Ann Lee'' = ''Ann'' # [''Lee'']" by code_simp
  from reminder_iff_no_connector [of "[''async_session'']", OF _ parse_uuid_str this] show ?thesis
    by (simp add: example_mail_world_def empty_db_def)
qed

end
