(* ===== verification/Auth_Api.thy ===== *)
theory Auth_Api
  imports Oidc "HOL-Library.List_Lexorder" "HOL-Library.Char_ord"
begin

text \<open>
  \<open>api/auth.py\<close>: the context of a request as its user sees it, and the OIDC providers of a tenant.

  Base64 and AES-GCM are parameters; the nonce is an argument.
\<close>

section \<open>The routes\<close>

record me_view =
  me_user_id :: string
  me_tenant_id :: string
  me_email :: json
  me_roles :: "string list"
  me_permissions :: "string list"

definition get_me :: "auth_context \<Rightarrow> me_view" where
  "get_me auth = \<lparr> me_user_id = uuid_str (ac_user_id auth), me_tenant_id = uuid_str (ac_tenant_id auth),
     me_email = ac_email auth, me_roles = ac_roles auth, me_permissions = sorted_list_of_set (ac_permissions auth) \<rparr>"

record oidc_config_request =
  or_provider_name :: string
  or_issuer_url :: string
  or_client_id :: string
  or_client_secret :: string
  or_scopes :: "string list"
  or_claim_mapping :: "(string \<times> string) list"

record oidc_view =
  ov_id :: string
  ov_provider_name :: string
  ov_issuer_url :: string
  ov_client_id :: string
  ov_scopes :: "string list"
  ov_claim_mapping :: "(string \<times> string) list"
  ov_is_default :: bool
  ov_is_active :: bool

definition oidc_view_of :: "oidc_config \<Rightarrow> oidc_view" where
  "oidc_view_of c = \<lparr> ov_id = uuid_str (oc_id c), ov_provider_name = oc_provider_name c,
     ov_issuer_url = oc_issuer_url c, ov_client_id = oc_client_id c, ov_scopes = oc_scopes c,
     ov_claim_mapping = oc_claim_mapping c, ov_is_default = oc_is_default c, ov_is_active = oc_is_active c \<rparr>"

definition list_oidc_configs :: "auth_context \<Rightarrow> oidc_view list endpoint" where
  "list_oidc_configs auth =
     thn (require_permissions (ac_permissions auth) [''admin:*''])
     (bnd (select_all oidc_configs (\<lambda>c. oc_tenant_id c = ac_tenant_id auth)) (\<lambda>configs.
      ret (map oidc_view_of configs)))"

record secret_env =
  sk_ENCRYPTION_KEY :: "string option"
  sk_b64decode :: "string \<Rightarrow> py_error + string"
  sk_b64encode :: "string \<Rightarrow> string"
  sk_aesgcm :: "string \<Rightarrow> string \<Rightarrow> string \<Rightarrow> py_error + string"

definition encrypt_secret :: "secret_env \<Rightarrow> string \<Rightarrow> string \<Rightarrow> py_error + string" where
  "encrypt_secret env nonce secret =
     (let key_b64 = (case sk_ENCRYPTION_KEY env of None \<Rightarrow> '''' | Some k \<Rightarrow> k)
      in if key_b64 = '''' then Inr (''PLAINTEXT:'' @ secret)
         else try_bind (sk_b64decode env key_b64) (\<lambda>key.
              map_sum id (\<lambda>ct. sk_b64encode env (nonce @ ct)) (sk_aesgcm env key nonce secret)))"

definition new_oidc_config :: "uuid \<Rightarrow> time \<Rightarrow> uuid \<Rightarrow> string \<Rightarrow> oidc_config_request \<Rightarrow> oidc_config" where
  "new_oidc_config i now tid secret req = \<lparr> oc_id = i, oc_tenant_id = tid, oc_provider_name = or_provider_name req,
     oc_issuer_url = rstrip_slash (or_issuer_url req), oc_client_id = or_client_id req, oc_client_secret = secret,
     oc_scopes = or_scopes req, oc_claim_mapping = or_claim_mapping req, oc_is_default = True, oc_is_active = True,
     oc_created_at = now \<rparr>"

definition add_oidc_config ::
  "secret_env \<Rightarrow> string \<Rightarrow> time \<Rightarrow> auth_context \<Rightarrow> oidc_config_request \<Rightarrow> (string \<times> string) endpoint" where
  "add_oidc_config env nonce now auth req =
     thn (require_permissions (ac_permissions auth) [''admin:*''])
     (bnd (lift_err (encrypt_secret env nonce (or_client_secret req))) (\<lambda>secret.
      bnd fresh (\<lambda>i.
      thn (modify (\<lambda>s. s\<lparr>oidc_configs := oidc_configs s @ [new_oidc_config i now (ac_tenant_id auth) secret req]\<rparr>))
      (thn flush
      (ret (uuid_str i, or_provider_name req))))))"

section \<open>Who a login goes to\<close>

definition issuers_stripped :: "db \<Rightarrow> bool" where
  "issuers_stripped s \<longleftrightarrow> list_all (\<lambda>c. rstrip_slash (oc_issuer_url c) = oc_issuer_url c) (oidc_configs s)"

lemma rstrip_twice: "rstrip_slash (rstrip_slash t) = rstrip_slash t"
  by (simp add: rstrip_slash_def)

lemma rstrip_slash_end: "rstrip_slash (t @ ''/'') \<noteq> t @ ''/''"
proof
  assume same: "rstrip_slash (t @ ''/'') = t @ ''/''"
  have "length (rstrip_slash (t @ ''/'')) \<le> length t"
    using length_dropWhile_le [of "(=) CHR ''/''" "rev t"] by (simp add: rstrip_slash_def)
  with same show False by simp
qed

lemma fresh_configs: "fresh s = (r, s') \<Longrightarrow> oidc_configs s' = oidc_configs s \<and> tenants s' = tenants s"
  by (auto simp: fresh_def)

lemma add_config_run:
  assumes "get_db (add_oidc_config env nonce now auth req) s = (Inr v, s')"
  shows "tenants s' = tenants s \<and> (\<exists>i secret. oidc_configs s' = oidc_configs s @
    [new_oidc_config i now (ac_tenant_id auth) secret req])"
proof -
  from get_db_InrD [OF assms] have "add_oidc_config env nonce now auth req s = (Inr v, s')" by blast
  then show ?thesis
    by (auto simp: add_oidc_config_def require_permissions_def guard_def lift_err_def fresh_def
        split: if_splits sum.splits) blast+
qed

lemma first_row_append: "first_row (xs @ ys) = (case first_row xs of Some x \<Rightarrow> Some x | None \<Rightarrow> first_row ys)"
  by (cases xs) (simp_all add: first_row_def)

text \<open>A provider that is added gets the logins of its issuer exactly when no active provider of an active
  tenant had them before: those that exist keep theirs, and no other issuer is affected.\<close>

theorem added_provider_logins:
  assumes "get_db (add_oidc_config env nonce now auth req) s = (Inr v, s')"
  shows "\<exists>c. oc_tenant_id c = ac_tenant_id auth \<and> oc_issuer_url c = rstrip_slash (or_issuer_url req) \<and>
    find_oidc_config issuer s' =
      (case find_oidc_config issuer s of
         Some x \<Rightarrow> Some x
       | None \<Rightarrow> if issuer = rstrip_slash (or_issuer_url req) \<and>
                   list_ex (\<lambda>t. tn_id t = ac_tenant_id auth \<and> tn_is_active t) (tenants s) then Some c else None)"
proof -
  from add_config_run [OF assms] obtain i secret where ten: "tenants s' = tenants s"
    and confs: "oidc_configs s' = oidc_configs s @ [new_oidc_config i now (ac_tenant_id auth) secret req]" by blast
  let ?c = "new_oidc_config i now (ac_tenant_id auth) secret req"
  let ?p = "\<lambda>c. oc_issuer_url c = issuer \<and> oc_is_active c \<and> (\<exists>t \<in> set (tenants s). tn_id t = oc_tenant_id c \<and> tn_is_active t)"
  have after: "find_oidc_config issuer s' = first_row (filter ?p (oidc_configs s) @ (if ?p ?c then [?c] else []))"
    by (cases "?p ?c") (auto simp: find_oidc_config_def ten confs)
  have before: "find_oidc_config issuer s = first_row (filter ?p (oidc_configs s))"
    by (simp add: find_oidc_config_def)
  show ?thesis
    unfolding after before
    unfolding first_row_append
    by (rule exI [of _ ?c]) (auto simp: first_row_def new_oidc_config_def list_ex_iff split: option.splits)
qed

text \<open>The stored issuers never end with a slash, and adding a provider keeps it so; a token whose issuer does
  end with one, as its provider spells it, finds no tenant.\<close>

theorem slash_issuer_refused:
  assumes "issuers_stripped s" and "get_db (add_oidc_config env nonce now auth req) s = (Inr v, s')"
    and "jose_unverified aenv token = Some claims" and "dict_get claims ''iss'' = Some (JStr (issuer @ ''/''))"
    and "dict_get claims ''auth_type'' = None" and "issuer @ ''/'' \<noteq> APP_URL aenv"
  shows "issuers_stripped s' \<and> get_auth_context aenv later_now (Some token) (s', cache) =
    (Inl (HTTPException 401 ''No active tenant configured for this identity provider''), (s', cache))"
proof -
  from add_config_run [OF assms(2)] assms(1) have stripped: "issuers_stripped s'"
    by (auto simp: issuers_stripped_def new_oidc_config_def rstrip_twice)
  have "filter (\<lambda>c. oc_issuer_url c = issuer @ ''/'' \<and> oc_is_active c \<and>
      (\<exists>t \<in> set (tenants s'). tn_id t = oc_tenant_id c \<and> tn_is_active t)) (oidc_configs s') = []"
    using stripped rstrip_slash_end [of issuer] by (auto simp: issuers_stripped_def list_all_iff filter_empty_conv)
  then have "find_oidc_config (issuer @ ''/'') s' = None"
    by (simp only: find_oidc_config_def first_row_def list.case)
  with assms(3-6) stripped show ?thesis
    by (simp add: get_auth_context_def oidc_context_def dict_get_or_def dict_get_def claim_text_def lift_err_def Let_def)
qed

section \<open>Examples\<close>

definition example_secret_env :: secret_env where
  "example_secret_env = \<lparr> sk_ENCRYPTION_KEY = None, sk_b64decode = (\<lambda>t. Inr t), sk_b64encode = (\<lambda>t. t),
     sk_aesgcm = (\<lambda>k n t. Inr t) \<rparr>"

definition example_oidc_request :: oidc_config_request where
  "example_oidc_request = \<lparr> or_provider_name = ''Auth0'', or_issuer_url = ''https://acme.auth0.com/'',
     or_client_id = ''c1'', or_client_secret = ''s'', or_scopes = [''openid''], or_claim_mapping = [] \<rparr>"

definition tenant_admin :: auth_context where
  "tenant_admin = \<lparr> ac_user_id = 2, ac_tenant_id = 1, ac_email = JStr ''a@acme.com'', ac_roles = [''admin''],
     ac_permissions = {''admin:*''} \<rparr>"

definition one_tenant_db :: db where
  "one_tenant_db = empty_db\<lparr>tenants := [new_tenant 1 0 ''acme'' ''Acme'' None], next_uuid := 3\<rparr>"

lemma example_added:
  "\<exists>v s'. get_db (add_oidc_config example_secret_env ''n'' 0 tenant_admin example_oidc_request) one_tenant_db = (Inr v, s')"
proof -
  have "case get_db (add_oidc_config example_secret_env ''n'' 0 tenant_admin example_oidc_request) one_tenant_db of
      (Inl e, s') \<Rightarrow> False | (Inr v, s') \<Rightarrow> True" by code_simp
  then show ?thesis by (auto split: prod.splits sum.splits)
qed

theorem added_provider_logins_witness:
  "\<exists>s' c. snd (get_db (add_oidc_config example_secret_env ''n'' 0 tenant_admin example_oidc_request) one_tenant_db) = s' \<and>
     find_oidc_config ''https://acme.auth0.com'' s' = Some c \<and> oc_tenant_id c = 1"
proof -
  obtain v s' where run: "get_db (add_oidc_config example_secret_env ''n'' 0 tenant_admin example_oidc_request) one_tenant_db =
      (Inr v, s')" using example_added by blast
  have parts: "find_oidc_config ''https://acme.auth0.com'' one_tenant_db = None"
    "rstrip_slash (or_issuer_url example_oidc_request) = ''https://acme.auth0.com''"
    "ac_tenant_id tenant_admin = 1" by code_simp+
  have active: "list_ex (\<lambda>t. tn_id t = Suc 0 \<and> tn_is_active t) (tenants one_tenant_db)" by code_simp
  from added_provider_logins [OF run, of "''https://acme.auth0.com''"] show ?thesis
    unfolding parts(1,2) by (auto simp: run parts(3) active)
qed

definition slash_auth_env :: auth_env where
  "slash_auth_env = example_env\<lparr>jose_unverified := (\<lambda>t. Some [(''iss'', JStr ''https://acme.auth0.com/'')])\<rparr>"

theorem slash_issuer_refused_witness:
  "\<exists>s'. snd (get_db (add_oidc_config example_secret_env ''n'' 0 tenant_admin example_oidc_request) one_tenant_db) = s' \<and>
     fst (get_auth_context slash_auth_env 0 (Some ''t'') (s', [])) =
       Inl (HTTPException 401 ''No active tenant configured for this identity provider'')"
proof -
  obtain v s' where run: "get_db (add_oidc_config example_secret_env ''n'' 0 tenant_admin example_oidc_request) one_tenant_db =
      (Inr v, s')" using example_added by blast
  have "issuers_stripped one_tenant_db" by code_simp
  moreover have "''https://acme.auth0.com'' @ ''/'' \<noteq> APP_URL slash_auth_env" by code_simp
  ultimately show ?thesis
    using slash_issuer_refused [OF _ run, where aenv = slash_auth_env and token = "''t''" and cache = "[]" and later_now = 0
      and claims = "[(''iss'', JStr ''https://acme.auth0.com/'')]" and issuer = "''https://acme.auth0.com''"]
    by (auto simp: run slash_auth_env_def dict_get_def)
qed

end
