(* ===== verification/Graph_Api.thy ===== *)
theory Graph_Api
  imports Oidc
begin

text \<open>
  \<open>graph/client.py\<close> and \<open>api/graph.py\<close>: the client of the application's graph and the routes on it.

  The driver's answer to a text with parameters is a parameter of the model, as rows of driver values. Of
  the routes, only the statistics ask who is calling.
\<close>

section \<open>Driver values\<close>

datatype graph_value =
    Scalar json
  | NodeValue string "string list" "(string \<times> graph_value) list"
  | RelValue string string "(string \<times> graph_value) list"
  | PathValue "graph_value list" "graph_value list"
  | DictValue "(string \<times> graph_value) list"
  | ListValue "graph_value list"

fun serialize :: "graph_value \<Rightarrow> json" where
  "serialize (Scalar v) = v"
| "serialize (NodeValue i labels props) =
     JObj (dict_update [(''id'', JStr i), (''labels'', JArr (map JStr labels))] (map (\<lambda>(k, v). (k, serialize v)) props))"
| "serialize (RelValue i ty props) =
     JObj (dict_update [(''id'', JStr i), (''type'', JStr ty)] (map (\<lambda>(k, v). (k, serialize v)) props))"
| "serialize (PathValue ns rs) = JObj [(''nodes'', JArr (map serialize ns)), (''edges'', JArr (map serialize rs))]"
| "serialize (DictValue d) = JObj (map (\<lambda>(k, v). (k, serialize v)) d)"
| "serialize (ListValue vs) = JArr (map serialize vs)"

section \<open>The client\<close>

record graph_client =
  gc_connected :: bool
  gc_run :: "string \<Rightarrow> py_dict \<Rightarrow> py_error + (string \<times> graph_value) list list"
  gc_str :: "py_error \<Rightarrow> string"
  gc_repr :: "string \<Rightarrow> string"

definition client_query :: "graph_client \<Rightarrow> string \<Rightarrow> py_dict \<Rightarrow> py_error + py_dict list" where
  "client_query cl cypher params =
     (if \<not> gc_connected cl then Inl AttributeError
      else map_sum id (map (map (\<lambda>(k, v). (k, serialize v)))) (gc_run cl cypher params))"

definition query_one :: "graph_client \<Rightarrow> string \<Rightarrow> py_dict \<Rightarrow> py_error + py_dict option" where
  "query_one cl cypher params =
     map_sum id (\<lambda>rows. case rows of [] \<Rightarrow> None | r # _ \<Rightarrow> Some r) (client_query cl cypher params)"

text \<open>The loop over the labels, within its \<open>try\<close>: what was counted before a failure stays.\<close>

fun count_labels :: "py_dict list \<Rightarrow> (string \<times> json) list \<Rightarrow> (string \<times> json) list" where
  "count_labels [] counts = counts"
| "count_labels (row # rows) counts =
     (case dict_get row ''label'' of
        Some (JStr l) \<Rightarrow>
          if l = '''' then count_labels rows counts
          else (case dict_get row ''c'' of None \<Rightarrow> counts | Some c \<Rightarrow> count_labels rows (dict_set l c counts))
      | Some v \<Rightarrow> if truthy v then counts else count_labels rows counts
      | None \<Rightarrow> count_labels rows counts)"

definition client_stats :: "graph_client \<Rightarrow> string option \<Rightarrow> (string \<times> json) list" where
  "client_stats cl tenant_id =
     (let tid = str_or tenant_id '''';
          params = (if tid = '''' then [] else [(''tid'', JStr tid)]);
          counts = (case client_query cl
              (if tid = '''' then ''MATCH (n) RETURN labels(n)[0] AS label, count(n) AS c''
               else ''MATCH (n) WHERE n.tenant_id = $tid RETURN labels(n)[0] AS label, count(n) AS c'') params of
            Inl e \<Rightarrow> [] | Inr rows \<Rightarrow> count_labels rows []);
          rels = (case query_one cl
              (if tid = '''' then ''MATCH ()-[r]->() RETURN count(r) AS c''
               else ''MATCH (a)-[r]->(b) WHERE a.tenant_id = $tid RETURN count(r) AS c'') params of
            Inl e \<Rightarrow> JInt 0
          | Inr None \<Rightarrow> JInt 0
          | Inr (Some row) \<Rightarrow> if row = [] then JInt 0 else dict_get_or row ''c'' (JInt 0))
      in dict_set ''relationships'' rels counts)"

definition client_get_node :: "graph_client \<Rightarrow> string \<Rightarrow> py_error + py_dict option" where
  "client_get_node cl node_id = query_one cl ''MATCH (n {id: $id}) RETURN n, labels(n) AS labels'' [(''id'', JStr node_id)]"

definition neighbors_cypher :: "int \<Rightarrow> int \<Rightarrow> string" where
  "neighbors_cypher depth limit = text_block
     [(0, ''''),
      (12, ''MATCH path = (n {id: $id})-[*1..'' @ int_str depth @ '']-(neighbor)''),
      (12, ''WITH nodes(path) AS ns, relationships(path) AS rels''),
      (12, ''UNWIND ns AS node''),
      (12, ''WITH collect(DISTINCT {''),
      (16, ''id:     node.id,''),
      (16, ''label:  labels(node)[0],''),
      (16, ''name:   coalesce(node.name, node.title, node.path, node.id),''),
      (16, ''props:  properties(node)''),
      (12, ''}) AS nodes, rels''),
      (12, ''UNWIND rels AS rel''),
      (12, ''WITH nodes, collect(DISTINCT {''),
      (16, ''id:     id(rel),''),
      (16, ''source: startNode(rel).id,''),
      (16, ''target: endNode(rel).id,''),
      (16, ''type:   type(rel)''),
      (12, ''}) AS edges''),
      (12, ''RETURN nodes, edges''),
      (12, ''LIMIT '' @ int_str limit),
      (8, '''')]"

definition client_get_neighbors :: "graph_client \<Rightarrow> string \<Rightarrow> int \<Rightarrow> int \<Rightarrow> py_error + json" where
  "client_get_neighbors cl node_id depth limit =
     try_bind (query_one cl (neighbors_cypher depth limit) [(''id'', JStr node_id)]) (\<lambda>row.
     case row of
       None \<Rightarrow> Inr (JObj [(''nodes'', JArr []), (''edges'', JArr [])])
     | Some r \<Rightarrow>
         if r = [] then Inr (JObj [(''nodes'', JArr []), (''edges'', JArr [])])
         else try_bind (dict_item r ''nodes'') (\<lambda>ns.
              try_bind (dict_item r ''edges'') (\<lambda>es. Inr (JObj [(''nodes'', ns), (''edges'', es)]))))"

definition term_condition :: string where
  "term_condition = ''(toLower(n.name) CONTAINS toLower($term) OR toLower(n.path) CONTAINS toLower($term) OR '' @
     ''toLower(n.summary) CONTAINS toLower($term))''"

definition search_conditions :: "string option \<Rightarrow> py_dict \<Rightarrow> string list" where
  "search_conditions t filters =
     (if str_or t '''' = '''' then [] else [term_condition]) @ map (\<lambda>(k, v). ''n.'' @ k @ '' = $'' @ k) filters"

definition search_params :: "string option \<Rightarrow> py_dict \<Rightarrow> py_dict" where
  "search_params t filters =
     dict_update (if str_or t '''' = '''' then [] else [(''term'', JStr (str_or t ''''))]) filters"

definition search_text :: "string option \<Rightarrow> string option \<Rightarrow> py_dict \<Rightarrow> int \<Rightarrow> string" where
  "search_text t node_type filters limit =
     (let label_clause = (if str_or node_type '''' = '''' then '''' else '':'' @ str_or node_type '''');
          conditions = search_conditions t filters;
          where = (if conditions = [] then '''' else ''WHERE '' @ str_join '' AND '' conditions)
      in text_block
     [(0, ''''),
      (12, ''MATCH (n'' @ label_clause @ '')''),
      (12, where),
      (12, ''RETURN n.id AS id, labels(n)[0] AS label,''),
      (19, ''coalesce(n.name, n.path, n.id) AS name,''),
      (19, ''n.summary AS summary,''),
      (19, ''n.file_category AS category,''),
      (19, ''n.size_bytes AS size_bytes''),
      (12, ''ORDER BY name''),
      (12, ''LIMIT '' @ int_str limit),
      (8, '''')])"

definition client_search ::
  "graph_client \<Rightarrow> string option \<Rightarrow> string option \<Rightarrow> py_dict \<Rightarrow> int \<Rightarrow> py_error + py_dict list" where
  "client_search cl t node_type filters limit =
     client_query cl (search_text t node_type filters limit) (search_params t filters)"

section \<open>The routes\<close>

definition route_stats :: "graph_client \<Rightarrow> auth_context \<Rightarrow> (string \<times> json) list" where
  "route_stats cl auth = client_stats cl (Some (uuid_str (ac_tenant_id auth)))"

definition route_query :: "graph_client \<Rightarrow> string \<Rightarrow> py_dict \<Rightarrow> py_error + py_dict list" where
  "route_query cl cypher params =
     (case client_query cl cypher params of
        Inl e \<Rightarrow> Inl (HTTPException 400 (gc_str cl e))
      | Inr rows \<Rightarrow> Inr (take 500 rows))"

definition route_get_node :: "graph_client \<Rightarrow> string \<Rightarrow> py_error + py_dict" where
  "route_get_node cl node_id =
     try_bind (client_get_node cl node_id) (\<lambda>node.
     case node of
       None \<Rightarrow> Inl (HTTPException 404 (''Node '' @ gc_repr cl node_id @ '' not found''))
     | Some r \<Rightarrow> if r = [] then Inl (HTTPException 404 (''Node '' @ gc_repr cl node_id @ '' not found'')) else Inr r)"

definition route_get_neighbors :: "graph_client \<Rightarrow> string \<Rightarrow> int \<Rightarrow> int \<Rightarrow> py_error + json" where
  "route_get_neighbors cl node_id depth limit = client_get_neighbors cl node_id depth limit"

definition search_nodes ::
  "graph_client \<Rightarrow> string option \<Rightarrow> string option \<Rightarrow> py_dict \<Rightarrow> int \<Rightarrow> py_error + py_dict list" where
  "search_nodes = client_search"

section \<open>What they return\<close>

text \<open>The identifier of a serialized node is its property \<open>id\<close> when it has one, and only otherwise the
  element's; a property \<open>labels\<close> hides the labels in the same way.\<close>

theorem serialized_node:
  "\<exists>d. serialize (NodeValue i labels props) = JObj d \<and>
     dict_get d ''id'' = Some (case map_of (rev props) ''id'' of None \<Rightarrow> JStr i | Some v \<Rightarrow> serialize v) \<and>
     dict_get d ''labels'' = Some (case map_of (rev props) ''labels'' of None \<Rightarrow> JArr (map JStr labels) | Some v \<Rightarrow> serialize v)"
proof -
  have parts: "map_of (rev (map (\<lambda>(k, v). (k, serialize v)) props)) k = map_option serialize (map_of (rev props) k)" for k
    by (simp add: rev_map map_of_map)
  show ?thesis
    by (simp add: dict_get_def map_of_dict_update parts map_add_def split: option.split)
qed

text \<open>The statistics never fail: they always give a number of relationships, and without a connection that is
  all they give, and it is zero.\<close>

theorem stats_never_fail:
  "map_of (client_stats cl tenant_id) ''relationships'' \<noteq> None \<and>
   (gc_connected cl \<or> client_stats cl tenant_id = [(''relationships'', JInt 0)])"
proof -
  have "client_stats cl tenant_id = [(''relationships'', JInt 0)]" if "\<not> gc_connected cl"
    using that by (simp add: client_stats_def client_query_def query_one_def Let_def)
  moreover have "map_of (client_stats cl tenant_id) ''relationships'' \<noteq> None"
    by (simp add: client_stats_def map_of_dict_set Let_def)
  ultimately show ?thesis by blast
qed

text \<open>The key of a filter reaches the text of the query as it is, and a filter with the key \<open>term\<close> replaces
  the term that is searched.\<close>

theorem filters_reach_query:
  assumes "(k, v) \<in> set filters"
  shows "sublist (''n.'' @ k @ '' = $'' @ k) (search_text t node_type filters limit) \<and>
    map_of (search_params t filters) ''term'' =
      (case map_of (rev filters) ''term'' of
         Some w \<Rightarrow> Some w
       | None \<Rightarrow> if str_or t '''' = '''' then None else Some (JStr (str_or t '''')))"
proof
  let ?where = "''WHERE '' @ str_join '' AND '' (search_conditions t filters)"
  have cond: "''n.'' @ k @ '' = $'' @ k \<in> set (search_conditions t filters)"
    using assms by (force simp: search_conditions_def)
  have w: "sublist (''n.'' @ k @ '' = $'' @ k) ?where"
    by (rule sublist_app(2) [OF sublist_str_join [OF cond]])
  have "search_conditions t filters \<noteq> []" using cond by (metis empty_iff list.set(1))
  then show "sublist (''n.'' @ k @ '' = $'' @ k) (search_text t node_type filters limit)"
    unfolding search_text_def Let_def by (intro sublist_text_block [OF _ w, of 12]) simp
  show "map_of (search_params t filters) ''term'' =
      (case map_of (rev filters) ''term'' of
         Some w \<Rightarrow> Some w
       | None \<Rightarrow> if str_or t '''' = '''' then None else Some (JStr (str_or t '''')))"
    by (auto simp: search_params_def map_of_dict_update map_add_def split: option.split)
qed

theorem filters_reach_query_witness:
  "sublist ''n.a OR true //'' (search_text None None [(''a OR true //'', JInt 1)] 50)"
proof -
  have "(''a OR true //'', JInt 1) \<in> set [(''a OR true //'', JInt 1)]" by simp
  from filters_reach_query [OF this, of None None 50] show ?thesis
    by (auto intro: sublist_order.order.trans [OF _ conjunct1])
qed

end
