(* ===== verification/Spec2Isabelle.thy ===== *)
theory Spec2Isabelle
  imports Local_Auth License Metering Workflow Inventory Circuit_Breaker Rate_Limit Scim Ingest Fleet Users Webhooks Queries Alerts Audit_Log Compliance Saml Connectors Agents Tenant_Settings Erasure Schema Graph_Intel Scanner_Client Scanner_Agent Mounts Actions Search Proxy_Sync Cve_Sync Reenrichment Onboarding Auth_Api Graph_Api
begin

text \<open>
  dgraphai is a multi-tenant service that keeps a knowledge graph of a company's files. Scanner agents
  on the customer's side send what they find; the service merges it into the graph database of the
  tenant, searches it by categories and phrases, runs approval workflows over files, and meters and
  licenses the use. FastAPI handlers run each request in a database session that commits when the
  handler returns and rolls back when it raises. The sources are under \<open>src/src/dgraphai\<close>.

  Foundations.

  \<^item> \<open>Prelude\<close>: errors as values, handlers that pass a session along (\<open>ret\<close>, \<open>raise\<close>, \<open>bnd\<close>, \<open>thn\<close>,
    \<open>guard\<close>, \<open>py_try\<close>, \<open>for_each\<close>), what SQLAlchemy's queries mean on a table that is a list of rows,
    the collection \<open>preserves_intros\<close> for invariants, and the locale \<open>session_contract\<close>: what every
    request keeps when a rollback keeps it.
  \<^item> \<open>PyText\<close>: the string functions, JSON values, dicts, slices and \<open>json.dumps\<close> of Python.
  \<^item> \<open>Models\<close> (\<open>db/models.py\<close>, \<open>db/connector_models.py\<close>): a record per mapped class. \<open>Database\<close>
    (\<open>db/session.py\<close>): the tables, their uniqueness constraints, \<open>flush\<close>, and \<open>get_db\<close>, the session of
    a request. The locale \<open>keeps_invariant\<close> gives what sequences of requests keep.

  Who may do what.

  \<^item> \<open>Rbac\<close> (\<open>rbac/engine.py\<close>): built-in permissions, the permissions of a user, scopes as Cypher.
  \<^item> \<open>Oidc\<close> (\<open>auth/oidc.py\<close>): the key cache, token validation, the context of a request. \<open>Auth_Api\<close>
    (\<open>api/auth.py\<close>): the identity providers of a tenant. \<open>Saml\<close> (\<open>auth/saml.py\<close>): login by assertion.
  \<^item> \<open>Local_Auth\<close> (\<open>auth/local.py\<close>, the erasure request of \<open>tasks/gdpr.py\<close>): signup, login, lockout,
    MFA, reset, sessions and API keys, with an invariant of every sequence of requests.
  \<^item> \<open>Users\<close> (\<open>api/users.py\<close>): invitations, profiles, members. \<open>Scim\<close> (\<open>auth/scim.py\<close>): provisioning.
  \<^item> \<open>Rate_Limit\<close> (\<open>middleware/rate_limit.py\<close>): the window over Redis refines an abstract limiter.
  \<^item> \<open>Audit_Log\<close> (\<open>auth/audit.py\<close>, \<open>api/notifications.py\<close>): the entries, their filter, the notifications.

  What a tenant pays and is licensed for.

  \<^item> \<open>License\<close> (\<open>licensing/license.py\<close>, \<open>api/license.py\<close>): signing, offline verification, the cached
    license and the feature gates. \<open>Metering\<close> (\<open>licensing/metering.py\<close>, \<open>api/usage.py\<close>): tiers, plans,
    discounts, snapshots.
  \<^item> \<open>Tenant_Settings\<close> (\<open>api/settings.py\<close>, \<open>api/tenants.py\<close>, \<open>tenants/__init__.py\<close>): settings, billing
    events, creation and deletion of tenants. \<open>Erasure\<close> (\<open>tasks/gdpr.py\<close>, \<open>tasks/maintenance.py\<close>): the
    erasure of a user and of a tenant's graph, and the clean-up of tokens.

  The graph.

  \<^item> \<open>Graph_Store\<close> (\<open>graph/backends\<close>): a property graph and the effect of the statements that write it;
    the locale \<open>tenant_backend\<close> is what the rest relies on. \<open>Ingest\<close> (\<open>graph/dedup.py\<close>,
    \<open>api/scanner.py\<close>, \<open>scanner/protocol.py\<close>): registration, deltas, deduplication.
  \<^item> \<open>Circuit_Breaker\<close> (\<open>graph/circuit_breaker.py\<close>): a step relation over interleaved calls.
  \<^item> \<open>Taxonomy\<close> (\<open>inventory/taxonomy.py\<close>): the tree of categories and what their queries return.
    \<open>Inventory\<close> (\<open>api/inventory_search.py\<close>, \<open>api/inventory.py\<close>): from a phrase to a category, pages
    and attribute filters.
  \<^item> \<open>Queries\<close> (\<open>api/queries.py\<close>, with \<open>Py_Csv\<close>): saved queries, their runs and exports. \<open>Search\<close>
    (\<open>api/search.py\<close>): the global search. \<open>Schema\<close> (\<open>api/schema.py\<close>): node types and their properties.
    \<open>Graph_Intel\<close> (\<open>api/graph_intelligence.py\<close>, with \<open>Py_Float\<close>): risk of paths, neighbourhoods,
    exposure. \<open>Graph_Api\<close> (\<open>graph/client.py\<close>, \<open>api/graph.py\<close>): the client of the graph and its routes.
  \<^item> \<open>Stream_Router\<close> (\<open>streaming/router.py\<close>, the routing of \<open>api/stream.py\<close>) and \<open>Fleet\<close>
    (\<open>api/fleet.py\<close>): which agent serves a job; fleets, telemetry and assignment.

  Where the files come from.

  \<^item> \<open>Sdk\<close> (\<open>connectors\<close>, with \<open>Py_Path\<close>): the seven connectors and their walks. \<open>Connectors\<close>
    (\<open>api/connectors_full.py\<close>, \<open>api/connectors.py\<close>, \<open>api/scan_schedule.py\<close>, \<open>tasks/indexer.py\<close>): their
    records, schedules and the scan task. \<open>Agents\<close> (\<open>api/agent.py\<close>): keys, heartbeats, configuration.
  \<^item> \<open>Scanner_Client\<close> and \<open>Scanner_Agent\<close> (\<open>scanner-agent/src\<close>): the agent on the customer's side, its
    retries and queue, the batches of a scan, its loop as a step relation. \<open>Proxy_Sync\<close>
    (\<open>api/proxy_sync.py\<close>): what a proxy is answered.
  \<^item> \<open>Mounts\<close> (\<open>mounts/manager.py\<close>, \<open>api/mounts.py\<close>) and \<open>Actions\<close> (\<open>api/actions.py\<close>,
    \<open>api/indexer.py\<close>): the file of the mounts, operations on files with their log, indexing jobs.

  What happens to files and events.

  \<^item> \<open>Workflow\<close> (\<open>workflows/engine.py\<close>, \<open>api/workflows.py\<close>, \<open>db/query_models.py\<close>): templates, runs and
    approvals, with the effects on the outside world as part of the state.
  \<^item> \<open>Webhooks\<close> (\<open>webhooks/outbound.py\<close>): endpoints, dispatch, retries, signatures. \<open>Alerts\<close>
    (\<open>alerts/engine.py\<close>, \<open>api/alerts.py\<close>, \<open>tasks/alerts.py\<close>): rules, their evaluation and delivery.
    \<open>Compliance\<close> (\<open>compliance/reports.py\<close>, \<open>api/compliance.py\<close>): the reports and their sections.
  \<^item> \<open>Cve_Sync\<close> (\<open>tasks/cve_sync.py\<close>): the pages of the NVD, links to applications, the list of exploited
    vulnerabilities. \<open>Reenrichment\<close> (\<open>tasks/reenrichment.py\<close>, \<open>tasks/celery_app.py\<close>): stale files and the
    periodic tasks. \<open>Emails\<close> (\<open>auth/email.py\<close>) and \<open>Onboarding\<close> (\<open>tasks/onboarding.py\<close>): the emails and
    the sequence after a signup.

  Conventions. A definition has the name of the code's function, with the module's name or a suffix
  where the name is taken. A parameter \<open>env\<close> collects what is not under \<open>src\<close> or is random: hashes,
  tokens, HTTP answers, the file servers, the spelling of floats. A malformed UUID in a path is
  \<open>None\<close>. Times are microseconds, floats that are only added and compared are rationals or reals.
  Where a theorem needs more of a parameter than that it is a function, the hypothesis is named or
  stands in the theorem (\<open>redis_laws\<close>, \<open>codec_laws\<close>, the law of bcrypt in \<open>signup_then_login\<close>), and a
  witness instantiates it.

  Bounds and fuel. The recursion of \<open>_advance\<close> in the workflow engine has fuel: it is the depth of
  Python's stack, running out is the \<open>RecursionError\<close> of the source, and \<open>forward_workflow_returns\<close> says
  how much is enough. The loop over the pages of the NVD is a partial function, and \<open>nvd_pages_from\<close>
  says when it returns and with what; the other loops that are not structural come with their measure.
  Python's integers are \<open>int\<close>; no integer of the source has a width.

  What the lemmas show. For each component: its invariant is kept by every operation and request;
  each operation's result on every branch, also the errors; isolation of tenants as what a request
  leaves alone; for the parts with an abstract contract (the rate limiter, the deduplication, the
  license codec, the filter of a query text) the equivalence or refinement. The theorems marked with
  a claim number state the main ones; those that show a deviation of the code from what it means to
  do say so.

  Not modelled: the HTTP layer below the handlers (parsing of bodies and its 422 answers, response
  spelling), foreign keys and column lengths, concurrency of two sessions of the database; the streams of
  \<open>api/stream.py\<close> and the encoders of \<open>streaming/formats.py\<close>, which other libraries write; the GraphQL
  resolvers, which copy fields; the setup of Keycloak, the Prometheus counters, the command-line tools
  (\<open>licensing/keygen.py\<close>, \<open>cli.py\<close>), the assembly of the routers in \<open>main.py\<close>, the Python SDK (one HTTP
  call per method) and the migrations. The Go and Rust agents and the web application are other programs.
\<close>

end
